(* ===== verification/Go_Base.thy ===== *)
theory Go_Base
  imports Main "HOL-Library.AList" "HOL-Library.Char_ord" "HOL-Library.List_Lexorder"
    "HOL-Library.Multiset"
begin

text \<open>
  The part of Go that the modelled components share.

  \<^item> Errors are values: a format string with its arguments, as \<^verbatim>\<open>fmt.Errorf\<close> builds them,
    and \<open>error_text\<close> is the \<^verbatim>\<open>Error()\<close> method.
  \<^item> A call returns an \<open>'a result\<close>: a value, an error or a panic (a negative shift, a slice
    bound out of range, a nil dereference).
  \<^item> A Go map is an association list with distinct keys. Iteration order is unspecified in Go;
    a loop whose outcome may depend on it takes the order as an argument.
  \<^item> Signed 64-bit arithmetic is \<open>int\<close> with the wrap-around written out (\<open>wrap64\<close>).
  \<^item> Strings are byte sequences, as in Go, ordered bytewise.
\<close>

section \<open>Collections of the development\<close>

named_theorems gomap_simps \<open>lookup and domain facts of Go maps\<close>
named_theorems step_defs \<open>definitions of the operations a step relation is made of\<close>

section \<open>Results and errors\<close>

datatype error = Errorf string "fmt_arg list"
  and fmt_arg = FmtS string | FmtD int | FmtE error

datatype 'a result = Ok 'a | Err error | Panic string

fun is_ok :: "'a result \<Rightarrow> bool" where
  "is_ok (Ok _) = True"
| "is_ok _ = False"

fun is_panic :: "'a result \<Rightarrow> bool" where
  "is_panic (Panic _) = True"
| "is_panic _ = False"

text \<open>Decimal rendering of integers, the \<^verbatim>\<open>%d\<close> verb and \<^verbatim>\<open>strconv.Itoa\<close>.\<close>

fun nat_digits :: "nat \<Rightarrow> string" where
  "nat_digits n = (if n < 10 then [char_of (48 + n)] else nat_digits (n div 10) @ [char_of (48 + n mod 10)])"

declare nat_digits.simps [simp del]

definition itoa :: "int \<Rightarrow> string" where
  "itoa i = (if i < 0 then CHR ''-'' # nat_digits (nat (- i)) else nat_digits (nat i))"

definition hex_digit :: "nat \<Rightarrow> char" where
  "hex_digit n = (if n < 10 then char_of (48 + n) else char_of (87 + n))"

text \<open>
  The \<^verbatim>\<open>%q\<close> verb: a double-quoted Go literal. Bytes from 128 on are parts of printable
  UTF-8 runes, which \<^verbatim>\<open>%q\<close> leaves as they are.
\<close>

definition quote_char :: "char \<Rightarrow> string" where
  "quote_char c = (let n = (of_char c :: nat) in
     if n = 34 then [char_of (92::nat), CHR ''\"''] else if n = 92 then [char_of (92::nat), char_of (92::nat)]
     else if n = 7 then [char_of (92::nat), CHR ''a''] else if n = 8 then [char_of (92::nat), CHR ''b'']
     else if n = 9 then [char_of (92::nat), CHR ''t''] else if n = 10 then [char_of (92::nat), CHR ''n'']
     else if n = 11 then [char_of (92::nat), CHR ''v''] else if n = 12 then [char_of (92::nat), CHR ''f'']
     else if n = 13 then [char_of (92::nat), CHR ''r'']
     else if n < 32 \<or> n = 127 then [char_of (92::nat), CHR ''x'', hex_digit (n div 16), hex_digit (n mod 16)]
     else [c])"

definition go_quote :: "string \<Rightarrow> string" where
  "go_quote s = [CHR ''\"''] @ concat (map quote_char s) @ [CHR ''\"'']"

fun render :: "string \<Rightarrow> (string \<times> string) list \<Rightarrow> string" where
  "render [] args = []"
| "render [c] args = [c]"
| "render (c # d # fs) args =
     (if c = CHR ''%'' \<and> d \<in> {CHR ''q'', CHR ''s'', CHR ''w'', CHR ''v'', CHR ''d''} then
        (case args of
           [] \<Rightarrow> ''%!'' @ [d] @ ''(MISSING)'' @ render fs []
         | (plain, quoted) # rest \<Rightarrow> (if d = CHR ''q'' then quoted else plain) @ render fs rest)
      else c # render (d # fs) args)"

fun error_text :: "error \<Rightarrow> string" and arg_text :: "fmt_arg \<Rightarrow> string \<times> string" where
  "error_text (Errorf f args) = render f (map arg_text args)"
| "arg_text (FmtS s) = (s, go_quote s)"
| "arg_text (FmtD i) = (itoa i, itoa i)"
| "arg_text (FmtE e) = (error_text e, go_quote (error_text e))"

section \<open>64-bit integers\<close>

definition wrap64 :: "int \<Rightarrow> int" where
  "wrap64 i = (i + 2 ^ 63) mod 2 ^ 64 - 2 ^ 63"

lemma wrap64_id: "- (2 ^ 63) \<le> i \<Longrightarrow> i < 2 ^ 63 \<Longrightarrow> wrap64 i = i"
  by (simp add: wrap64_def)

lemma wrap64_range: "- (2 ^ 63) \<le> wrap64 i" "wrap64 i < 2 ^ 63"
proof -
  have "0 \<le> (i + 2 ^ 63) mod (2 ^ 64 :: int)" by simp
  then show "- (2 ^ 63) \<le> wrap64 i" unfolding wrap64_def by linarith
  have "(i + 2 ^ 63) mod (2 ^ 64 :: int) < 2 ^ 64" by (rule pos_mod_bound) simp
  then show "wrap64 i < 2 ^ 63" unfolding wrap64_def by simp
qed

section \<open>Go maps\<close>

type_synonym ('k, 'v) gomap = "('k \<times> 'v) list"

abbreviation put :: "'k \<Rightarrow> 'v \<Rightarrow> ('k, 'v) gomap \<Rightarrow> ('k, 'v) gomap" where
  "put \<equiv> AList.update"

abbreviation del :: "'k \<Rightarrow> ('k, 'v) gomap \<Rightarrow> ('k, 'v) gomap" where
  "del \<equiv> AList.delete"

abbreviation keys :: "('k, 'v) gomap \<Rightarrow> 'k list" where
  "keys m \<equiv> map fst m"

definition gomap_ok :: "('k, 'v) gomap \<Rightarrow> bool" where
  "gomap_ok m \<longleftrightarrow> distinct (keys m)"

text \<open>Reading a missing key of a map of slices gives the nil slice.\<close>

definition get_list :: "('k, 'v list) gomap \<Rightarrow> 'k \<Rightarrow> 'v list" where
  "get_list m k = (case map_of m k of None \<Rightarrow> [] | Some vs \<Rightarrow> vs)"

lemma map_of_put [simp, gomap_simps]: "map_of (put k v m) k' = (if k' = k then Some v else map_of m k')"
  by (simp add: update_conv')

lemma map_of_del [simp, gomap_simps]: "map_of (del k m) k' = (if k' = k then None else map_of m k')"
  by (simp add: delete_conv')

lemma set_keys_dom: "set (keys m) = dom (map_of m)"
  by (simp add: dom_map_of_conv_image_fst)

lemma set_keys_put [gomap_simps]: "set (keys (put k v m)) = insert k (set (keys m))"
  by (simp add: dom_update)

lemma set_keys_del [gomap_simps]: "set (keys (del k m)) = set (keys m) - {k}"
  by (simp add: delete_keys)

lemma gomap_ok_Nil [simp]: "gomap_ok []"
  by (simp add: gomap_ok_def)

lemma gomap_ok_put [simp]: "gomap_ok m \<Longrightarrow> gomap_ok (put k v m)"
  by (simp add: gomap_ok_def distinct_update)

lemma gomap_ok_del [simp]: "gomap_ok m \<Longrightarrow> gomap_ok (del k m)"
  by (simp add: gomap_ok_def distinct_delete)

lemma put_new: "k \<notin> set (keys m) \<Longrightarrow> put k v m = m @ [(k, v)]"
  by (induction m) auto

lemma length_put_old [simp]: "k \<in> set (keys m) \<Longrightarrow> length (put k v m) = length m"
  by (induction m) auto

lemma length_put_new [simp]: "k \<notin> set (keys m) \<Longrightarrow> length (put k v m) = Suc (length m)"
  by (induction m) auto

lemma length_del_le: "length (del k m) \<le> length m"
  by (rule length_delete_le)

lemma length_del [simp]: "gomap_ok m \<Longrightarrow> k \<in> set (keys m) \<Longrightarrow> length (del k m) = length m - 1"
proof -
  assume ok: "gomap_ok m" and k: "k \<in> set (keys m)"
  have "card (set (keys (del k m))) = card (set (keys m)) - 1"
    using k by (simp only: set_keys_del) simp
  moreover have "length (del k m) = card (set (keys (del k m)))"
    using gomap_ok_del [OF ok, of k] by (simp only: gomap_ok_def distinct_card length_map)
  moreover have "length m = card (set (keys m))"
    using ok by (simp only: gomap_ok_def distinct_card length_map)
  ultimately show ?thesis by simp
qed

lemma gomap_length_card: "gomap_ok m \<Longrightarrow> length m = card (set (keys m))"
  by (simp only: gomap_ok_def distinct_card length_map)

lemma map_of_Some_keys: "map_of m k = Some v \<Longrightarrow> k \<in> set (keys m)"
  by (metis domI set_keys_dom)

lemma map_of_None_keys: "map_of m k = None \<longleftrightarrow> k \<notin> set (keys m)"
  by (simp add: map_of_eq_None_iff)

section \<open>Indexing loops\<close>

text \<open>The loop \<^verbatim>\<open>for _, v := range values { m[key(v)] = v }\<close>: the last value of a key wins.\<close>

definition index_by :: "('a \<Rightarrow> 'k) \<Rightarrow> 'a list \<Rightarrow> ('k, 'a) gomap" where
  "index_by key vs = foldl (\<lambda>m v. put (key v) v m) [] vs"

lemma index_by_snoc [simp]: "index_by key (vs @ [v]) = put (key v) v (index_by key vs)"
  by (simp add: index_by_def)

lemma index_by_Nil [simp]: "index_by key [] = []"
  by (simp add: index_by_def)

lemma gomap_ok_index_by [simp]: "gomap_ok (index_by key vs)"
  by (induction vs rule: rev_induct) simp_all

lemma set_keys_index_by [simp]: "set (keys (index_by key vs)) = key ` set vs"
  by (induction vs rule: rev_induct) (simp_all add: set_keys_put del: set_map)

lemma map_of_index_by_Some: "map_of (index_by key vs) k = Some v \<Longrightarrow> v \<in> set vs \<and> key v = k"
  by (induction vs arbitrary: v rule: rev_induct) (auto split: if_splits)

lemma map_of_index_by_ex: "x \<in> set vs \<Longrightarrow> \<exists>v. map_of (index_by key vs) (key x) = Some v"
  by (metis imageI map_of_None_keys not_None_eq set_keys_index_by)

lemma map_of_index_by_distinct:
  "distinct (map key vs) \<Longrightarrow> x \<in> set vs \<Longrightarrow> map_of (index_by key vs) (key x) = Some x"
proof (induction vs rule: rev_induct)
  case Nil
  then show ?case by simp
next
  case (snoc v vs)
  then show ?case by (cases "x = v") (auto simp: image_iff)
qed

text \<open>The loop \<^verbatim>\<open>for _, v := range values { m[key(v)] = append(m[key(v)], val(v)) }\<close>.\<close>

definition group_by :: "('a \<Rightarrow> 'k) \<Rightarrow> ('a \<Rightarrow> 'b) \<Rightarrow> 'a list \<Rightarrow> ('k, 'b list) gomap" where
  "group_by key val vs = foldl (\<lambda>m v. put (key v) (get_list m (key v) @ [val v]) m) [] vs"

lemma group_by_snoc [simp]:
  "group_by key val (vs @ [v]) =
     put (key v) (get_list (group_by key val vs) (key v) @ [val v]) (group_by key val vs)"
  by (simp add: group_by_def)

lemma group_by_Nil [simp]: "group_by key val [] = []"
  by (simp add: group_by_def)

lemma get_list_Nil [simp]: "get_list [] k = []"
  by (simp add: get_list_def)

lemma get_list_put [simp]: "get_list (put k v m) k' = (if k' = k then v else get_list m k')"
  by (simp add: get_list_def)

lemma get_list_group_by: "get_list (group_by key val vs) k = map val (filter (\<lambda>v. key v = k) vs)"
  by (induction vs rule: rev_induct) auto

lemma gomap_ok_group_by [simp]: "gomap_ok (group_by key val vs)"
  by (induction vs rule: rev_induct) simp_all

lemma set_keys_group_by [simp]: "set (keys (group_by key val vs)) = key ` set vs"
  by (induction vs rule: rev_induct) (simp_all add: set_keys_put del: set_map)

section \<open>Iteration orders\<close>

text \<open>
  Go visits the keys of a map, and SQL the rows of a table, in an order it does not specify.
  \<open>in_order ord xs\<close> is \<open>xs\<close> in the order \<open>ord\<close> chooses; a choice that is no permutation of
  \<open>xs\<close> leaves it as it is, so that \<open>ord\<close> ranges over exactly the possible orders.
\<close>

definition in_order :: "('a list \<Rightarrow> 'a list) \<Rightarrow> 'a list \<Rightarrow> 'a list" where
  "in_order ord xs = (if mset (ord xs) = mset xs then ord xs else xs)"

lemma mset_in_order [simp]: "mset (in_order ord xs) = mset xs"
  by (simp add: in_order_def)

lemma set_in_order [simp]: "set (in_order ord xs) = set xs"
  by (rule mset_eq_setD) simp

lemma length_in_order [simp]: "length (in_order ord xs) = length xs"
  by (rule mset_eq_length) simp

lemma distinct_in_order [simp]: "distinct (in_order ord xs) = distinct xs"
  by (rule mset_eq_imp_distinct_iff) simp

lemma in_order_any: "mset ys = mset xs \<Longrightarrow> in_order (\<lambda>_. ys) xs = ys"
  by (simp add: in_order_def)

section \<open>Strings\<close>

definition has_prefix :: "string \<Rightarrow> string \<Rightarrow> bool" where
  "has_prefix s p \<longleftrightarrow> take (length p) s = p"

definition has_suffix :: "string \<Rightarrow> string \<Rightarrow> bool" where
  "has_suffix s p \<longleftrightarrow> has_prefix (rev s) (rev p)"

definition trim_prefix :: "string \<Rightarrow> string \<Rightarrow> string" where
  "trim_prefix s p = (if has_prefix s p then drop (length p) s else s)"

fun contains :: "string \<Rightarrow> string \<Rightarrow> bool" where
  "contains [] p \<longleftrightarrow> p = []"
| "contains (c # s) p \<longleftrightarrow> has_prefix (c # s) p \<or> contains s p"

definition is_space :: "char \<Rightarrow> bool" where
  "is_space c \<longleftrightarrow> (of_char c :: nat) \<in> {9, 10, 11, 12, 13, 32}"

text \<open>\<^verbatim>\<open>strings.TrimSpace\<close> on the ASCII white space.\<close>

definition trim_space :: "string \<Rightarrow> string" where
  "trim_space s = rev (dropWhile is_space (rev (dropWhile is_space s)))"

definition newline :: char where
  "newline = char_of (10::nat)"

definition nul :: char where
  "nul = char_of (0::nat)"

text \<open>\<^verbatim>\<open>strings.TrimRight(s, "\n")\<close>.\<close>

definition trim_right_nl :: "string \<Rightarrow> string" where
  "trim_right_nl s = rev (dropWhile (\<lambda>c. c = newline) (rev s))"

end
