(* ===== verification/Float64.thy ===== *)
theory Float64
  imports Complex_Main "HOL-Library.Log_Nat"
begin

text \<open>
  Go's \<^verbatim>\<open>float64\<close>: IEEE 754 binary64 with round to nearest, ties to even. A finite value is a
  rational; every arithmetic result is rounded to 53 bits of significand with exponents from
  \<open>-1074\<close> on, and a result of magnitude \<open>2 ^ 1024\<close> or more is an infinity. The two zeros of IEEE
  compare equal and are one value here: no modelled code divides by a zero or prints one.
  Rounding is monotone and idempotent, which is all the time arithmetic of the components needs.
\<close>

datatype float64 = Fin rat | PosInf | NegInf | NaN

section \<open>Rounding\<close>

text \<open>The greatest \<open>k\<close> with \<open>2 powi k \<le> q\<close>, for positive \<open>q\<close>.\<close>

definition ilog2 :: "rat \<Rightarrow> int" where
  "ilog2 q = (let (a, b) = quotient_of q; k = bitlen a - bitlen b
              in if 2 powi k \<le> q then k else k - 1)"

definition round_half_even :: "rat \<Rightarrow> int" where
  "round_half_even q = (let f = \<lfloor>q\<rfloor>; r = q - of_int f in
     if r < 1 / 2 then f else if 1 / 2 < r then f + 1 else if even f then f else f + 1)"

definition round_exponent :: "rat \<Rightarrow> int" where
  "round_exponent q = max (ilog2 q - 52) (- 1074)"

definition round_pos :: "rat \<Rightarrow> rat" where
  "round_pos q = (if q = 0 then 0 else
     of_int (round_half_even (q / 2 powi round_exponent q)) * 2 powi round_exponent q)"

definition round_rat :: "rat \<Rightarrow> rat" where
  "round_rat q = (if q < 0 then - round_pos (- q) else round_pos q)"

definition fround :: "rat \<Rightarrow> float64" where
  "fround q = (let v = round_rat q in
     if 2 ^ 1024 \<le> v then PosInf else if v \<le> - (2 ^ 1024) then NegInf else Fin v)"

section \<open>Operations\<close>

fun fneg :: "float64 \<Rightarrow> float64" where
  "fneg (Fin a) = Fin (- a)"
| "fneg PosInf = NegInf"
| "fneg NegInf = PosInf"
| "fneg NaN = NaN"

fun fadd :: "float64 \<Rightarrow> float64 \<Rightarrow> float64" where
  "fadd (Fin a) (Fin b) = fround (a + b)"
| "fadd NaN _ = NaN"
| "fadd _ NaN = NaN"
| "fadd PosInf NegInf = NaN"
| "fadd NegInf PosInf = NaN"
| "fadd PosInf _ = PosInf"
| "fadd _ PosInf = PosInf"
| "fadd NegInf _ = NegInf"
| "fadd _ NegInf = NegInf"

definition fsub :: "float64 \<Rightarrow> float64 \<Rightarrow> float64" where
  "fsub x y = fadd x (fneg y)"

fun fsgn :: "float64 \<Rightarrow> rat" where
  "fsgn (Fin a) = sgn a"
| "fsgn PosInf = 1"
| "fsgn NegInf = - 1"
| "fsgn NaN = 0"

definition inf_of_sign :: "rat \<Rightarrow> float64" where
  "inf_of_sign s = (if 0 < s then PosInf else if s < 0 then NegInf else NaN)"

fun fmul :: "float64 \<Rightarrow> float64 \<Rightarrow> float64" where
  "fmul (Fin a) (Fin b) = fround (a * b)"
| "fmul NaN _ = NaN"
| "fmul _ NaN = NaN"
| "fmul x y = inf_of_sign (fsgn x * fsgn y)"

fun fdiv :: "float64 \<Rightarrow> float64 \<Rightarrow> float64" where
  "fdiv (Fin a) (Fin b) = (if b = 0 then inf_of_sign (sgn a) else fround (a / b))"
| "fdiv NaN _ = NaN"
| "fdiv _ NaN = NaN"
| "fdiv (Fin a) _ = Fin 0"
| "fdiv x (Fin b) = inf_of_sign (fsgn x * (if b < 0 then - 1 else 1))"
| "fdiv _ _ = NaN"

fun flt :: "float64 \<Rightarrow> float64 \<Rightarrow> bool" where
  "flt (Fin a) (Fin b) \<longleftrightarrow> a < b"
| "flt NaN _ \<longleftrightarrow> False"
| "flt _ NaN \<longleftrightarrow> False"
| "flt NegInf y \<longleftrightarrow> y \<noteq> NegInf"
| "flt x PosInf \<longleftrightarrow> x \<noteq> PosInf"
| "flt _ _ \<longleftrightarrow> False"

fun feq :: "float64 \<Rightarrow> float64 \<Rightarrow> bool" where
  "feq NaN _ \<longleftrightarrow> False"
| "feq _ NaN \<longleftrightarrow> False"
| "feq x y \<longleftrightarrow> x = y"

definition fle :: "float64 \<Rightarrow> float64 \<Rightarrow> bool" where
  "fle x y \<longleftrightarrow> flt x y \<or> feq x y"

text \<open>The conversion \<^verbatim>\<open>float64(i)\<close> of an integer.\<close>

definition f_of_int :: "int \<Rightarrow> float64" where
  "f_of_int i = fround (of_int i)"

abbreviation fzero :: float64 where
  "fzero \<equiv> Fin 0"

section \<open>Rounding is monotone and idempotent\<close>

lemma two_powi_pos [simp]: "0 < (2::rat) powi k"
  by (simp add: zero_less_power_int)

lemma two_powi_not_neg [simp]: "\<not> (2::rat) powi k < 0"
  by (simp add: not_less less_imp_le)

lemma two_powi_mono: "k \<le> l \<Longrightarrow> (2::rat) powi k \<le> 2 powi l"
  by (rule power_int_increasing) auto

lemma two_powi_Suc: "(2::rat) powi (k + 1) = 2 * 2 powi k"
  by (simp add: power_int_add)

lemma bitlen_int_bounds:
  assumes "0 < a"
  shows "(2::rat) powi (bitlen a - 1) \<le> of_int a" and "of_int a < (2::rat) powi (bitlen a)"
proof -
  have b: "2 ^ nat (bitlen a - 1) \<le> a \<and> a < 2 ^ nat (bitlen a)"
    using assms by (rule bitlen_bounds)
  have pos: "0 < bitlen a"
  proof (rule ccontr)
    assume "\<not> 0 < bitlen a"
    with b have "a < 1" by simp
    with assms show False by simp
  qed
  have "(of_int (2 ^ nat (bitlen a - 1)) :: rat) \<le> of_int a"
    using b by (simp only: of_int_le_iff)
  then show "(2::rat) powi (bitlen a - 1) \<le> of_int a"
    using pos by (simp add: power_int_def)
  have "(of_int a :: rat) < of_int (2 ^ nat (bitlen a))"
    using b by (simp only: of_int_less_iff)
  then show "of_int a < (2::rat) powi (bitlen a)"
    using pos by (simp add: power_int_def)
qed

lemma ilog2_bounds:
  assumes "0 < q"
  shows "2 powi (ilog2 q) \<le> q" and "q < 2 powi (ilog2 q + 1)"
proof -
  obtain a b where ab: "quotient_of q = (a, b)" by (cases "quotient_of q")
  have b: "0 < b" using ab by (rule quotient_of_denom_pos)
  have q: "q = of_int a / of_int b" using ab by (rule quotient_of_div)
  have a: "0 < a" using assms b by (simp add: q zero_less_divide_iff)
  define k where "k = bitlen a - bitlen b"
  have lower: "2 powi (k - 1) \<le> q"
  proof -
    have "2 powi (k - 1) * of_int b \<le> 2 powi (k - 1) * (2::rat) powi (bitlen b)"
      using bitlen_int_bounds(2) [OF b] by (simp add: mult_left_mono less_imp_le)
    also have "\<dots> = 2 powi (bitlen a - 1)"
      by (simp add: k_def flip: power_int_add)
    also have "\<dots> \<le> of_int a" by (rule bitlen_int_bounds(1) [OF a])
    finally show ?thesis using b by (simp add: q le_divide_eq)
  qed
  have upper: "q < 2 powi (k + 1)"
  proof -
    have "(of_int a :: rat) < 2 powi (bitlen a)" by (rule bitlen_int_bounds(2) [OF a])
    also have "\<dots> = 2 powi (k + 1) * 2 powi (bitlen b - 1)"
      by (simp add: k_def flip: power_int_add)
    also have "\<dots> \<le> 2 powi (k + 1) * of_int b"
      using bitlen_int_bounds(1) [OF b] by (simp add: mult_left_mono less_imp_le)
    finally show ?thesis using b by (simp add: q divide_less_eq)
  qed
  have il: "ilog2 q = (if 2 powi k \<le> q then k else k - 1)"
    by (simp add: ilog2_def ab k_def)
  show "2 powi (ilog2 q) \<le> q" using lower by (simp add: il)
  show "q < 2 powi (ilog2 q + 1)" using upper by (simp add: il not_le)
qed

lemma ilog2_mono:
  assumes "0 < p" and "p \<le> q"
  shows "ilog2 p \<le> ilog2 q"
proof (rule ccontr)
  assume "\<not> ilog2 p \<le> ilog2 q"
  then have "(2::rat) powi (ilog2 q + 1) \<le> 2 powi (ilog2 p)" by (intro two_powi_mono) simp
  with ilog2_bounds(2) [of q] ilog2_bounds(1) [of p] assms show False by linarith
qed

lemma round_half_even_of_int [simp]: "round_half_even (of_int n) = n"
  by (simp add: round_half_even_def)

lemma round_half_even_floor: "\<lfloor>q\<rfloor> \<le> round_half_even q" "round_half_even q \<le> \<lfloor>q\<rfloor> + 1"
  by (simp_all add: round_half_even_def Let_def)

lemma round_half_even_mono:
  assumes "p \<le> q"
  shows "round_half_even p \<le> round_half_even q"
proof (cases "\<lfloor>p\<rfloor> = \<lfloor>q\<rfloor>")
  case True
  then show ?thesis using assms by (auto simp: round_half_even_def Let_def)
next
  case False
  then have "\<lfloor>p\<rfloor> < \<lfloor>q\<rfloor>" using assms floor_mono [of p q] by linarith
  then show ?thesis
    using round_half_even_floor(2) [of p] round_half_even_floor(1) [of q] by linarith
qed

lemma round_pos_nonneg: "0 \<le> q \<Longrightarrow> 0 \<le> round_pos q"
proof (cases "q = 0")
  case False
  assume "0 \<le> q"
  then have "0 \<le> q / 2 powi round_exponent q" by simp
  then have "0 \<le> \<lfloor>q / 2 powi round_exponent q\<rfloor>" by simp
  with round_half_even_floor(1) have "0 \<le> round_half_even (q / 2 powi round_exponent q)"
    by (rule order_trans [rotated])
  then show ?thesis by (simp add: round_pos_def less_imp_le)
qed (simp add: round_pos_def)

lemma round_pos_upper:
  assumes "0 < q"
  shows "round_pos q \<le> 2 powi (round_exponent q + 53)"
proof -
  let ?e = "round_exponent q"
  have "q < 2 powi (ilog2 q + 1)" by (rule ilog2_bounds(2) [OF assms])
  also have "\<dots> \<le> 2 powi (?e + 53)"
    by (rule two_powi_mono) (simp add: round_exponent_def)
  finally have "q / 2 powi ?e < 2 powi 53"
    by (simp add: divide_less_eq power_int_add mult.commute)
  then have "round_half_even (q / 2 powi ?e) \<le> round_half_even (of_int (2 ^ 53))"
    by (intro round_half_even_mono) (simp add: power_int_def)
  then have "round_half_even (q / 2 powi ?e) \<le> 2 ^ 53"
    by (simp only: round_half_even_of_int)
  then have "(of_int (round_half_even (q / 2 powi ?e)) :: rat) \<le> of_int (2 ^ 53)"
    by (simp only: of_int_le_iff)
  then have "of_int (round_half_even (q / 2 powi ?e)) * 2 powi ?e \<le> (2 ^ 53) * (2::rat) powi ?e"
    by (simp add: less_imp_le)
  then show ?thesis using assms by (simp add: round_pos_def power_int_add mult.commute)
qed

lemma round_pos_lower:
  assumes "0 < q" and "- 1074 < round_exponent q"
  shows "2 powi (round_exponent q + 52) \<le> round_pos q"
proof -
  let ?e = "round_exponent q"
  have e: "?e + 52 = ilog2 q" using assms(2) by (simp add: round_exponent_def)
  have "2 powi (?e + 52) \<le> q" using ilog2_bounds(1) [OF assms(1)] by (simp add: e)
  then have "2 powi 52 \<le> q / 2 powi ?e"
    by (simp add: le_divide_eq power_int_add mult.commute)
  then have "round_half_even (of_int (2 ^ 52)) \<le> round_half_even (q / 2 powi ?e)"
    by (intro round_half_even_mono) (simp add: power_int_def)
  then have "2 ^ 52 \<le> round_half_even (q / 2 powi ?e)"
    by (simp only: round_half_even_of_int)
  then have "(of_int (2 ^ 52) :: rat) \<le> of_int (round_half_even (q / 2 powi ?e))"
    by (simp only: of_int_le_iff)
  then have "(2 ^ 52) * (2::rat) powi ?e \<le> of_int (round_half_even (q / 2 powi ?e)) * 2 powi ?e"
    by (simp add: less_imp_le)
  then show ?thesis using assms by (simp add: round_pos_def power_int_add mult.commute)
qed

lemma round_pos_mono:
  assumes "0 \<le> p" and "p \<le> q"
  shows "round_pos p \<le> round_pos q"
proof (cases "p = 0")
  case True
  then show ?thesis using assms round_pos_nonneg [of q] by (simp add: round_pos_def [of 0])
next
  case False
  then have p: "0 < p" and q: "0 < q" using assms by auto
  have le: "round_exponent p \<le> round_exponent q"
    using ilog2_mono [OF p assms(2)] by (simp add: round_exponent_def)
  show ?thesis
  proof (cases "round_exponent p = round_exponent q")
    case True
    have "round_half_even (p / 2 powi round_exponent q) \<le> round_half_even (q / 2 powi round_exponent q)"
      using assms(2) by (intro round_half_even_mono divide_right_mono) (auto simp: less_imp_le)
    then show ?thesis using p q True by (simp add: round_pos_def less_imp_le)
  next
    case False
    with le have lt: "round_exponent p < round_exponent q" by simp
    have "round_pos p \<le> 2 powi (round_exponent p + 53)" by (rule round_pos_upper [OF p])
    also have "\<dots> \<le> 2 powi (round_exponent q + 52)" using lt by (intro two_powi_mono) simp
    also have "\<dots> \<le> round_pos q"
      using lt by (intro round_pos_lower q) (simp add: round_exponent_def)
    finally show ?thesis .
  qed
qed

lemma round_rat_mono: "p \<le> q \<Longrightarrow> round_rat p \<le> round_rat q"
  using round_pos_mono [of p q] round_pos_mono [of "- q" "- p"] round_pos_nonneg [of "- p"]
    round_pos_nonneg [of q]
  by (auto simp: round_rat_def)

lemma round_pos_exact:
  assumes "v / 2 powi round_exponent v = of_int n"
  shows "round_pos v = v"
proof -
  have "of_int n * 2 powi round_exponent v = v"
    using assms two_powi_pos [of "round_exponent v"] by (simp add: field_simps)
  then show ?thesis by (simp add: round_pos_def assms)
qed

lemma ilog2_eqI: "0 < q \<Longrightarrow> 2 powi k \<le> q \<Longrightarrow> q < 2 powi (k + 1) \<Longrightarrow> ilog2 q = k"
proof (rule antisym)
  assume q: "0 < q" "2 powi k \<le> q" "q < 2 powi (k + 1)"
  show "ilog2 q \<le> k"
  proof (rule ccontr)
    assume "\<not> ilog2 q \<le> k"
    then have "(2::rat) powi (k + 1) \<le> 2 powi (ilog2 q)" by (intro two_powi_mono) simp
    with ilog2_bounds(1) [OF q(1)] q(3) show False by simp
  qed
  show "k \<le> ilog2 q"
  proof (rule ccontr)
    assume "\<not> k \<le> ilog2 q"
    then have "(2::rat) powi (ilog2 q + 1) \<le> 2 powi k" by (intro two_powi_mono) simp
    with ilog2_bounds(2) [OF q(1)] q(2) show False by simp
  qed
qed

lemma round_pos_on_grid:
  fixes m :: int
  assumes "0 < m" and "m \<le> 2 ^ 53" and "- 1074 \<le> e"
  shows "round_pos (of_int m * 2 powi e) = of_int m * 2 powi e" (is "round_pos ?v = ?v")
proof (cases "m = 2 ^ 53")
  case True
  have v: "?v = 2 powi (e + 53)" by (simp add: True power_int_add mult.commute)
  have "ilog2 ?v = e + 53" unfolding v by (rule ilog2_eqI) (simp_all only: two_powi_Suc, simp_all)
  then have "round_exponent ?v = e + 1" using assms(3) by (simp add: round_exponent_def)
  then have "?v / 2 powi round_exponent ?v = of_int (2 ^ 52)"
    by (simp add: v power_int_add)
  then show ?thesis by (rule round_pos_exact)
next
  case False
  have pos: "0 < ?v" using assms(1) by simp
  have "m < 2 ^ 53" using False assms(2) by simp
  then have "(of_int m :: rat) < of_int (2 ^ 53)" by (simp only: of_int_less_iff)
  then have "?v < 2 powi (e + 53)" by (simp add: power_int_add mult.commute)
  with ilog2_bounds(1) [OF pos] have "(2::rat) powi (ilog2 ?v) < 2 powi (e + 53)" by simp
  then have "ilog2 ?v < e + 53" using two_powi_mono [of "e + 53" "ilog2 ?v"] by linarith
  then have le: "round_exponent ?v \<le> e" using assms(3) by (simp add: round_exponent_def)
  have "?v / 2 powi round_exponent ?v = of_int m * 2 powi (e - round_exponent ?v)"
    by (simp add: power_int_diff)
  also have "\<dots> = of_int (m * 2 ^ nat (e - round_exponent ?v))"
    using le by (simp add: power_int_def)
  finally show ?thesis by (rule round_pos_exact)
qed

lemma round_pos_idem: "0 \<le> q \<Longrightarrow> round_pos (round_pos q) = round_pos q"
proof (cases "round_pos q = 0")
  case True
  then show ?thesis by (simp add: round_pos_def)
next
  case False
  assume "0 \<le> q"
  with False have q: "0 < q" by (cases "q = 0") (auto simp: round_pos_def)
  define e where "e = round_exponent q"
  define m where "m = round_half_even (q / 2 powi e)"
  have v: "round_pos q = of_int m * 2 powi e" using q by (simp add: round_pos_def e_def m_def)
  have "0 < round_pos q" using False round_pos_nonneg [of q] q by simp
  then have "0 < m" by (simp add: v zero_less_mult_iff)
  moreover have "m \<le> 2 ^ 53"
  proof -
    have "of_int m * 2 powi e \<le> 2 powi e * (2::rat) powi 53"
      using round_pos_upper [OF q] by (simp add: v e_def power_int_add)
    then have "(of_int m :: rat) \<le> of_int (2 ^ 53)" by (simp add: mult.commute)
    then show ?thesis by (simp only: of_int_le_iff)
  qed
  moreover have "- 1074 \<le> e" by (simp add: e_def round_exponent_def)
  ultimately show ?thesis unfolding v by (rule round_pos_on_grid)
qed

lemma round_rat_idem: "round_rat (round_rat q) = round_rat q"
  using round_pos_idem [of q] round_pos_idem [of "- q"] round_pos_nonneg [of q] round_pos_nonneg [of "- q"]
  by (auto simp: round_rat_def round_pos_def [of 0])

lemma round_rat_0 [simp]: "round_rat 0 = 0"
  by (simp add: round_rat_def round_pos_def)

text \<open>To evaluate: zero is exact, and a small result is compared with a literal and not with \<open>2 ^ 1024\<close>.\<close>

lemma fround_code [code]:
  "fround q =
     (if q = 0 then Fin 0
      else let v = round_rat q in
        if - 18446744073709551616 < v \<and> v < 18446744073709551616 then Fin v
        else if 2 ^ 1024 \<le> v then PosInf else if v \<le> - (2 ^ 1024) then NegInf else Fin v)"
proof -
  have "(2::rat) ^ 64 \<le> 2 ^ 1024" by (rule power_increasing) simp_all
  then have "(18446744073709551616::rat) \<le> 2 ^ 1024" by simp
  then show ?thesis unfolding fround_def Let_def by auto
qed

section \<open>Order\<close>

named_theorems float_order \<open>comparison facts of float64\<close>

text \<open>The values the machine can hold: a finite one is its own rounding.\<close>

fun is_f64 :: "float64 \<Rightarrow> bool" where
  "is_f64 (Fin q) \<longleftrightarrow> fround q = Fin q"
| "is_f64 _ \<longleftrightarrow> True"

lemma fround_f64 [simp]: "is_f64 (fround q)"
proof (cases "fround q")
  case (Fin v)
  then have "v = round_rat q" and "v < 2 ^ 1024" and "- (2 ^ 1024) < v"
    by (auto simp: fround_def Let_def split: if_splits)
  then have "fround v = Fin v"
    using round_rat_idem [of q] by (simp add: fround_def Let_def)
  with Fin show ?thesis by simp
qed simp_all

lemma fzero_f64 [simp]: "is_f64 fzero"
  by (simp add: fround_def)

lemma fneg_fneg [simp]: "fneg (fneg x) = x"
  by (cases x) simp_all

lemma fadd_f64 [simp]: "is_f64 (fadd x y)"
  by (cases x; cases y) simp_all

lemma fround_mono: "p \<le> q \<Longrightarrow> fle (fround p) (fround q)"
proof -
  assume "p \<le> q"
  then have "round_rat p \<le> round_rat q" by (rule round_rat_mono)
  then show ?thesis by (auto simp: fle_def fround_def Let_def)
qed

lemma fround_not_NaN [simp]: "fround q \<noteq> NaN"
  by (simp add: fround_def Let_def)

lemma flt_irrefl [simp]: "\<not> flt x x"
  by (cases x) simp_all

lemma flt_NaN [simp]: "\<not> flt x NaN"
  by (cases x) simp_all

lemma flt_asym: "flt x y \<Longrightarrow> \<not> flt y x"
  by (cases x; cases y) simp_all

lemma flt_trans: "flt x y \<Longrightarrow> flt y z \<Longrightarrow> flt x z"
  by (cases x; cases y; cases z) simp_all

lemma fle_refl: "x \<noteq> NaN \<Longrightarrow> fle x x"
  by (cases x) (simp_all add: fle_def)

lemma fle_trans [trans]: "fle x y \<Longrightarrow> fle y z \<Longrightarrow> fle x z"
  by (cases x; cases y; cases z) (auto simp: fle_def)

lemma fle_not_flt: "fle x y \<Longrightarrow> \<not> flt y x"
  by (cases x; cases y) (auto simp: fle_def)

lemma fle_not_NaN: "fle x y \<Longrightarrow> x \<noteq> NaN \<and> y \<noteq> NaN"
  by (cases x; cases y) (auto simp: fle_def)

lemma not_flt_fle: "\<not> flt y x \<Longrightarrow> x \<noteq> NaN \<Longrightarrow> y \<noteq> NaN \<Longrightarrow> fle x y"
  by (cases x; cases y) (auto simp: fle_def)

lemma flt_fle: "flt x y \<Longrightarrow> fle x y"
  by (simp add: fle_def)

lemmas float_order_rules [float_order] = fle_refl fle_not_flt not_flt_fle flt_fle

text \<open>Adding a non-negative duration never moves a machine time backwards.\<close>

lemma fadd_ge:
  assumes "is_f64 x" and "fle fzero x" and "fle fzero y"
  shows "fle x (fadd x y)"
proof (cases x)
  case (Fin a)
  show ?thesis
  proof (cases y)
    case (Fin b)
    have "fle (fround a) (fround (a + b))"
      using assms(3) Fin by (intro fround_mono) (auto simp: fle_def)
    then show ?thesis using assms(1) Fin \<open>x = Fin a\<close> by simp
  qed (use assms \<open>x = Fin a\<close> in \<open>auto simp: fle_def\<close>)
qed (use assms in \<open>cases y; auto simp: fle_def\<close>)+

lemma fadd_nonneg: "fle fzero x \<Longrightarrow> fle fzero y \<Longrightarrow> fle fzero (fadd x y)"
proof (cases "\<exists>a b. x = Fin a \<and> y = Fin b")
  case True
  assume "fle fzero x" and "fle fzero y"
  with True obtain a b where ab: "x = Fin a" "y = Fin b" "0 \<le> a + b"
    by (auto simp: fle_def add_nonneg_nonneg)
  have "fle (fround 0) (fround (a + b))" using ab by (intro fround_mono) simp
  then show ?thesis using ab by (simp add: fround_def)
next
  case False
  assume "fle fzero x" and "fle fzero y"
  with False show ?thesis by (cases x; cases y) (auto simp: fle_def)
qed

end
