(* ===== verification/Workflow_Domain.thy ===== *)
theory Workflow_Domain
  imports Go_Base Float64
begin

text \<open>
  The workflow context, \<^verbatim>\<open>internal/domain/workflow\<close>: activities with their command, resources and
  capabilities, workflow versions with their dependencies, executable references, and the
  validation methods of activities and executable references.

  A Go string type with named constants is a datatype with one constructor per constant and one
  for any other text; a pointer is an option; \<^verbatim>\<open>map[string]any\<close> is a map into \<open>any\<close>.
\<close>

section \<open>Dynamic values\<close>

text \<open>
  The interface values the modelled code reads with a type switch or a type assertion: slices of values, of strings and of
  maps are different types. A struct is given by the JSON names of its fields; \<open>AnyOther t s\<close> is the text \<open>s\<close> of a string type \<open>t\<close>.
\<close>

datatype any = AnyNil | AnyString string | AnyBool bool | AnyFloat64 float64 | AnyFloat32 float64
  | AnyInt int | AnyInt64 int | AnyList "any list" | AnyStrings "string list" | AnyMap "(string \<times> any) list"
  | AnyMaps "(string \<times> any) list list" | AnyStruct "(string \<times> any) list" | AnyOther string string

type_synonym metadata = "(string, any) gomap"

text \<open>The assertions \<^verbatim>\<open>v, _ := m[k].(string)\<close> and \<^verbatim>\<open>v, _ := m[k].(bool)\<close>: the zero value when absent.\<close>

definition meta_string :: "metadata \<Rightarrow> string \<Rightarrow> string" where
  "meta_string m k = (case map_of m k of Some (AnyString s) \<Rightarrow> s | _ \<Rightarrow> '''')"

definition meta_bool :: "metadata \<Rightarrow> string \<Rightarrow> bool" where
  "meta_bool m k = (case map_of m k of Some (AnyBool b) \<Rightarrow> b | _ \<Rightarrow> False)"

text \<open>The numeric type switch shared by the supervisor and the simulator.\<close>

definition metadataFloat :: "metadata \<Rightarrow> string \<Rightarrow> float64 option" where
  "metadataFloat m k = (case map_of m k of
     None \<Rightarrow> None
   | Some v \<Rightarrow> (case v of
        AnyFloat64 f \<Rightarrow> Some f
      | AnyFloat32 f \<Rightarrow> Some f
      | AnyInt64 i \<Rightarrow> Some (f_of_int i)
      | AnyInt i \<Rightarrow> Some (f_of_int i)
      | _ \<Rightarrow> None))"

definition numberMetadata :: "metadata \<Rightarrow> string \<Rightarrow> float64 option" where
  "numberMetadata m k = (case map_of m k of
     None \<Rightarrow> None
   | Some v \<Rightarrow> (case v of
        AnyFloat64 f \<Rightarrow> Some f
      | AnyFloat32 f \<Rightarrow> Some f
      | AnyInt i \<Rightarrow> Some (f_of_int i)
      | AnyInt64 i \<Rightarrow> Some (f_of_int i)
      | _ \<Rightarrow> None))"

section \<open>Enumerations\<close>

datatype ActivityKind = ActivityKindTask | ActivityKindService | ActivityKindInteractive
  | ActivityKindOther string

datatype ActivityCapability = ActivityCapabilityReal | ActivityCapabilitySimulation
  | ActivityCapabilityInteractive | ActivityCapabilityOther string

datatype ExecutableSourceType = ExecutableSourceCatalog | ExecutableSourceOCI
  | ExecutableSourceLocalContainerImage | ExecutableSourceBuild | ExecutableSourceLocalFile
  | ExecutableSourceRemoteFile | ExecutableSourceObjectStorage | ExecutableSourceHTTP
  | ExecutableSourceOther string

datatype DeliveryStrategy = DeliveryAuto | DeliveryManaged | DeliveryUseInPlace
  | DeliveryDestinationPull | DeliveryGatewayTransfer | DeliveryBuildAndTransfer
  | DeliveryPreferInPlace | DeliveryOther string

datatype ExecutableFormat = ExecutableFormatOCI | ExecutableFormatSIF | ExecutableFormatOther string

fun sourceType_text :: "ExecutableSourceType \<Rightarrow> string" where
  "sourceType_text ExecutableSourceCatalog = ''catalog''"
| "sourceType_text ExecutableSourceOCI = ''oci''"
| "sourceType_text ExecutableSourceLocalContainerImage = ''local-container-image''"
| "sourceType_text ExecutableSourceBuild = ''build''"
| "sourceType_text ExecutableSourceLocalFile = ''local-file''"
| "sourceType_text ExecutableSourceRemoteFile = ''remote-file''"
| "sourceType_text ExecutableSourceObjectStorage = ''object-storage''"
| "sourceType_text ExecutableSourceHTTP = ''http''"
| "sourceType_text (ExecutableSourceOther s) = s"

section \<open>Executable references\<close>

record ArtifactReference =
  aref_ID :: string
  aref_Version :: string

record ExecutableSource =
  src_Type :: ExecutableSourceType
  src_Reference :: string
  src_Path :: string
  src_URI :: string
  src_ArtifactRef :: "ArtifactReference option"
  src_EnvironmentRef :: string
  src_ResourceRef :: string
  src_ExpectedDigest :: string
  src_Format :: ExecutableFormat
  src_ArtifactBuildRef :: string
  src_CredentialRef :: string

record ExecutableDelivery =
  dlv_Strategy :: DeliveryStrategy
  dlv_TargetFormat :: ExecutableFormat

record ExecutableReference =
  ref_Source :: ExecutableSource
  ref_Delivery :: ExecutableDelivery

record ResolvedExecutable =
  rex_VariantID :: string
  rex_Digest :: string
  rex_Format :: ExecutableFormat
  rex_LocalPath :: string
  rex_RemotePath :: string
  rex_EnvironmentID :: string
  rex_ResourceID :: string
  rex_Delivery :: DeliveryStrategy
  rex_MaterializationID :: string
  rex_MaterializationDone :: bool

section \<open>Activities and workflow versions\<close>

record ActivityCommand =
  cmd_Image :: string
  cmd_Executable :: "ExecutableReference option"
  cmd_ResolvedExecutable :: "ResolvedExecutable option"
  cmd_Entrypoint :: string
  cmd_Arguments :: "string list"
  cmd_Environment :: "(string, string) gomap"
  cmd_WorkingDirectory :: string

record ActivityResources =
  ares_CPU :: float64
  ares_MemoryBytes :: int
  ares_StorageBytes :: int
  ares_GPU :: int

record ServiceSpec =
  svc_Ports :: "int list"
  svc_HealthCheck :: string
  svc_StartupTimeoutSeconds :: float64
  svc_IdleTimeoutSeconds :: float64
  svc_KeepAlive :: bool

record ActivitySimulation =
  sim_Model :: string
  sim_DurationSeconds :: float64
  sim_FLOPs :: float64
  sim_Parameters :: metadata

record ActivityPolicy =
  pol_TimeoutSeconds :: float64
  pol_MaxAttempts :: int
  pol_RetryDelaySeconds :: float64

record Activity =
  act_ID :: string
  act_WorkflowVersionID :: string
  act_ActivityTypeID :: string
  act_ExternalID :: string
  act_Name :: string
  act_Kind :: ActivityKind
  act_Capabilities :: "ActivityCapability list"
  act_Command :: ActivityCommand
  act_Resources :: ActivityResources
  act_Service :: "ServiceSpec option"
  act_Simulation :: "ActivitySimulation option"
  act_Policy :: ActivityPolicy
  act_Priority :: int
  act_Metadata :: metadata

record ActivityDependency =
  dep_ActivityID :: string
  dep_DependsOnActivityID :: string
  dep_Type :: string

record ActivityDataDependency =
  ddep_ProducerActivityID :: string
  ddep_ConsumerActivityID :: string
  ddep_LogicalName :: string
  ddep_SizeBytes :: int

record ActivityResourceProfile =
  prof_ID :: string
  prof_ActivityTypeID :: string
  prof_ResourceID :: string
  prof_RuntimeSeconds :: float64
  prof_RuntimeStdDevSeconds :: float64
  prof_CPUUtilization :: float64
  prof_PeakMemoryBytes :: int
  prof_DiskReadBytes :: int
  prof_DiskWriteBytes :: int
  prof_EnergyJoules :: float64
  prof_Source :: string
  prof_SampleSize :: int
  prof_ModelVersion :: string
  prof_Metadata :: metadata

record WorkflowVersion =
  wfv_ID :: string
  wfv_WorkflowID :: string
  wfv_Version :: int
  wfv_DefinitionHash :: string
  wfv_Activities :: "Activity list"
  wfv_Dependencies :: "ActivityDependency list"
  wfv_DataDependencies :: "ActivityDataDependency list"

section \<open>Operations\<close>

fun supports_loop :: "ActivityCapability list \<Rightarrow> ActivityCapability \<Rightarrow> bool" where
  "supports_loop [] capability = False"
| "supports_loop (supported # rest) capability =
     (if supported = capability then True else supports_loop rest capability)"

definition activity_Supports :: "Activity \<Rightarrow> ActivityCapability \<Rightarrow> bool" where
  "activity_Supports a capability = supports_loop (act_Capabilities a) capability"

definition activity_Validate :: "Activity \<Rightarrow> error option" where
  "activity_Validate a =
     (if act_ID a = '''' \<or> act_Name a = '''' then
        Some (Errorf ''activity id and name are required'' [])
      else if act_Kind a = ActivityKindOther '''' then
        Some (Errorf ''activity %q kind is required'' [FmtS (act_ID a)])
      else if length (act_Capabilities a) = 0 then
        Some (Errorf ''activity %q must declare at least one execution capability'' [FmtS (act_ID a)])
      else if activity_Supports a ActivityCapabilityReal \<and> cmd_Entrypoint (act_Command a) = '''' then
        Some (Errorf ''activity %q requires an entrypoint for real execution'' [FmtS (act_ID a)])
      else if activity_Supports a ActivityCapabilitySimulation \<and> act_Simulation a = None then
        Some (Errorf ''activity %q requires a simulation definition'' [FmtS (act_ID a)])
      else if (act_Kind a = ActivityKindService \<or> act_Kind a = ActivityKindInteractive) \<and> act_Service a = None then
        Some (Errorf ''activity %q requires a service definition'' [FmtS (act_ID a)])
      else if activity_Supports a ActivityCapabilityInteractive \<and> act_Kind a \<noteq> ActivityKindInteractive
           \<and> act_Kind a \<noteq> ActivityKindService then
        Some (Errorf ''activity %q must be a service or interactive to support interactive execution''
                [FmtS (act_ID a)])
      else None)"

text \<open>The zero values of the structs the constructors leave partly unset.\<close>

definition zero_source :: ExecutableSource where
  "zero_source = \<lparr>src_Type = ExecutableSourceOther '''', src_Reference = '''', src_Path = '''',
     src_URI = '''', src_ArtifactRef = None, src_EnvironmentRef = '''', src_ResourceRef = '''',
     src_ExpectedDigest = '''', src_Format = ExecutableFormatOther '''', src_ArtifactBuildRef = '''',
     src_CredentialRef = ''''\<rparr>"

definition zero_delivery :: ExecutableDelivery where
  "zero_delivery = \<lparr>dlv_Strategy = DeliveryOther '''', dlv_TargetFormat = ExecutableFormatOther ''''\<rparr>"

definition command_EffectiveExecutable :: "ActivityCommand \<Rightarrow> ExecutableReference option" where
  "command_EffectiveExecutable c =
     (if cmd_Executable c \<noteq> None then cmd_Executable c
      else if trim_space (cmd_Image c) = '''' then None
      else Some \<lparr>ref_Source = zero_source\<lparr>src_Type := ExecutableSourceOCI, src_Reference := cmd_Image c\<rparr>,
                 ref_Delivery = zero_delivery\<lparr>dlv_Strategy := DeliveryAuto\<rparr>\<rparr>)"

definition executable_Validate :: "ExecutableReference \<Rightarrow> error option" where
  "executable_Validate e = (let s = ref_Source e in
     if src_Type s = ExecutableSourceOther '''' then
       Some (Errorf ''executable source.type is required'' [])
     else (case src_Type s of
       ExecutableSourceCatalog \<Rightarrow>
         (if (case src_ArtifactRef s of None \<Rightarrow> True | Some r \<Rightarrow> aref_ID r = '''') then
            Some (Errorf ''catalog executable requires source.artifactRef'' []) else None)
     | ExecutableSourceOCI \<Rightarrow>
         (if src_Reference s = '''' then
            Some (Errorf ''%s executable requires source.reference'' [FmtS (sourceType_text (src_Type s))]) else None)
     | ExecutableSourceLocalContainerImage \<Rightarrow>
         (if src_Reference s = '''' then
            Some (Errorf ''%s executable requires source.reference'' [FmtS (sourceType_text (src_Type s))]) else None)
     | ExecutableSourceBuild \<Rightarrow>
         (if src_ArtifactBuildRef s = '''' then
            Some (Errorf ''build executable requires source.artifactBuildRef'' []) else None)
     | ExecutableSourceLocalFile \<Rightarrow>
         (if src_Path s = '''' then Some (Errorf ''local-file executable requires path'' []) else None)
     | ExecutableSourceRemoteFile \<Rightarrow>
         (if src_Path s = '''' \<or> (src_EnvironmentRef s = '''' \<and> src_ResourceRef s = '''') then
            Some (Errorf ''remote-file executable requires path and environmentRef or resourceRef'' []) else None)
     | ExecutableSourceObjectStorage \<Rightarrow>
         (if src_URI s = '''' then
            Some (Errorf ''%s executable requires source.uri'' [FmtS (sourceType_text (src_Type s))]) else None)
     | ExecutableSourceHTTP \<Rightarrow>
         (if src_URI s = '''' then
            Some (Errorf ''%s executable requires source.uri'' [FmtS (sourceType_text (src_Type s))]) else None)
     | ExecutableSourceOther t \<Rightarrow>
         Some (Errorf ''unsupported executable source.type %q'' [FmtS t])))"

section \<open>Facts\<close>

lemma supports_loop_set: "supports_loop cs c \<longleftrightarrow> c \<in> set cs"
  by (induction cs) auto

lemma activity_Supports_set [simp]: "activity_Supports a c \<longleftrightarrow> c \<in> set (act_Capabilities a)"
  by (simp add: activity_Supports_def supports_loop_set)

lemma numberMetadata_eq [simp]: "numberMetadata m k = metadataFloat m k"
  by (auto simp: numberMetadata_def metadataFloat_def split: option.splits any.splits)

text \<open>What a valid activity can rely on in each execution mode.\<close>

lemma activity_Validate_None:
  "activity_Validate a = None \<longleftrightarrow>
     act_ID a \<noteq> '''' \<and> act_Name a \<noteq> '''' \<and> act_Kind a \<noteq> ActivityKindOther '''' \<and> act_Capabilities a \<noteq> [] \<and>
     (ActivityCapabilityReal \<in> set (act_Capabilities a) \<longrightarrow> cmd_Entrypoint (act_Command a) \<noteq> '''') \<and>
     (ActivityCapabilitySimulation \<in> set (act_Capabilities a) \<longrightarrow> act_Simulation a \<noteq> None) \<and>
     (act_Kind a \<in> {ActivityKindService, ActivityKindInteractive} \<longrightarrow> act_Service a \<noteq> None) \<and>
     (ActivityCapabilityInteractive \<in> set (act_Capabilities a) \<longrightarrow>
        act_Kind a \<in> {ActivityKindService, ActivityKindInteractive})"
  by (auto simp: activity_Validate_def split: if_splits)

lemma command_EffectiveExecutable_valid:
  assumes "cmd_Executable c = None" and "command_EffectiveExecutable c = Some e"
  shows "executable_Validate e = None"
proof -
  have "cmd_Image c \<noteq> ''''"
    using assms by (auto simp: command_EffectiveExecutable_def trim_space_def split: if_splits)
  then show ?thesis
    using assms by (auto simp: command_EffectiveExecutable_def executable_Validate_def split: if_splits)
qed

end
