(* ===== verification/Resource_Domain.thy ===== *)
theory Resource_Domain
  imports Workflow_Domain
begin

text \<open>
  The resource and environment contexts, \<^verbatim>\<open>internal/domain/resource\<close> and
  \<^verbatim>\<open>internal/domain/environment\<close>: schedulable resources, runtime bindings, network links with
  their transfer time, environment runtimes and execution scopes.
\<close>

section \<open>Resources\<close>

datatype ResourceType = ResourceCluster | ResourceNodePool | ResourceKubernetesMachine
  | ResourceHPCPartition | ResourceHPCMachine | ResourceCloudVM | ResourceFogDevice
  | ResourceLocalMachine | ResourceServerlessPlatform | ResourceServerlessFunction
  | ResourceBatchQueue | ResourceKubernetesNamespace | ResourceSlurmReservation
  | ResourceTypeOther string

datatype ResourceExecutionTarget = ExecutionTargetBatch | ExecutionTargetDirect | ExecutionTargetOther string

record Resource =
  res_ID :: string
  res_EnvironmentVersionID :: string
  res_ExecutionTarget :: ResourceExecutionTarget
  res_ParentResourceID :: "string option"
  res_Type :: ResourceType
  res_Name :: string
  res_ProviderID :: string
  res_Tier :: string
  res_Region :: string
  res_Zone :: string
  res_Architecture :: string
  res_CPUCores :: int
  res_CPUCapacity :: float64
  res_MemoryBytes :: int
  res_StorageBytes :: int
  res_ComputeSpeedup :: float64
  res_PricePerSecond :: float64
  res_BootOverheadSeconds :: float64
  res_ContainerOverhead :: float64
  res_Schedulable :: bool
  res_Metadata :: metadata

definition zero_resource :: Resource where
  "zero_resource = \<lparr>res_ID = '''', res_EnvironmentVersionID = '''', res_ExecutionTarget = ExecutionTargetOther '''',
     res_ParentResourceID = None, res_Type = ResourceTypeOther '''', res_Name = '''', res_ProviderID = '''',
     res_Tier = '''', res_Region = '''', res_Zone = '''', res_Architecture = '''', res_CPUCores = 0,
     res_CPUCapacity = fzero, res_MemoryBytes = 0, res_StorageBytes = 0, res_ComputeSpeedup = fzero,
     res_PricePerSecond = fzero, res_BootOverheadSeconds = fzero, res_ContainerOverhead = fzero,
     res_Schedulable = False, res_Metadata = []\<rparr>"

record ResourceRuntimeBinding =
  bind_ResourceID :: string
  bind_RuntimeID :: string
  bind_Enabled :: bool
  bind_Configuration :: metadata

section \<open>Network\<close>

record NetworkLink =
  link_ID :: string
  link_TopologyID :: string
  link_SourceResourceID :: string
  link_TargetResourceID :: string
  link_BandwidthBitsPerSecond :: float64
  link_LatencySeconds :: float64
  link_PricePerByte :: float64
  link_Bidirectional :: bool
  link_SharingPolicy :: string
  link_MaxConcurrentTransfers :: int
  link_Metadata :: metadata

record NetworkTopology =
  top_ID :: string
  top_Name :: string
  top_Version :: int
  top_ExecutionScopeID :: string
  top_Links :: "NetworkLink list"
  top_Metadata :: metadata

definition link_TransferSeconds :: "NetworkLink \<Rightarrow> int \<Rightarrow> float64" where
  "link_TransferSeconds l bytes =
     (if bytes \<le> 0 then link_LatencySeconds l
      else if fle (link_BandwidthBitsPerSecond l) fzero then fzero
      else fadd (link_LatencySeconds l)
             (fdiv (f_of_int bytes) (fdiv (link_BandwidthBitsPerSecond l) (Fin 8))))"

section \<open>Environments\<close>

datatype RuntimeDriver = RuntimeDriverSlurm | RuntimeDriverKubernetes | RuntimeDriverSSH
  | RuntimeDriverLocal | RuntimeDriverServerless | RuntimeDriverSimGrid | RuntimeDriverOther string

datatype RuntimeMode = RuntimeModeExecution | RuntimeModeSimulation | RuntimeModeOther string

record Capabilities =
  cap_Batch :: bool
  cap_Interactive :: bool
  cap_Container :: bool
  cap_Serverless :: bool
  cap_GPU :: bool
  cap_MPI :: bool
  cap_SharedStorage :: bool
  cap_DataStaging :: bool
  cap_Cancellation :: bool
  cap_LogStreaming :: bool
  cap_Simulation :: bool

record EnvironmentRuntime =
  ert_EnvironmentVersionID :: string
  ert_ID :: string
  ert_Name :: string
  ert_Driver :: RuntimeDriver
  ert_Mode :: RuntimeMode
  ert_Role :: string
  ert_Configuration :: metadata
  ert_Capabilities :: Capabilities

record ExecutionScope =
  scope_ID :: string
  scope_Name :: string
  scope_NetworkTopologyID :: string
  scope_EnvironmentVersionIDs :: "string list"
  scope_Metadata :: metadata

end
