(* ===== verification/Execution_Domain.thy ===== *)
theory Execution_Domain
  imports Resource_Domain
begin

text \<open>
  The planning and execution contexts, \<^verbatim>\<open>internal/domain/planning\<close> and
  \<^verbatim>\<open>internal/domain/execution\<close>, and the request the executors receive
  (\<^verbatim>\<open>ports.ExecutionRequest\<close>): schedule plans and their assignments, runs, task executions,
  activity handles, traces, transfer plans and runs, and the materialization records with the
  content-addressed reconciliation, the commit check and the preparation gate.
\<close>

section \<open>Planning\<close>

datatype PlanningSource = PlanningSourcePlugin | PlanningSourceImported | PlanningSourceOther string

datatype ExecutionMode = ExecutionModeReal | ExecutionModeSimulation | ExecutionModeInteractive
  | ExecutionModeOther string

fun mode_text :: "ExecutionMode \<Rightarrow> string" where
  "mode_text ExecutionModeReal = ''real''"
| "mode_text ExecutionModeSimulation = ''simulation''"
| "mode_text ExecutionModeInteractive = ''interactive''"
| "mode_text (ExecutionModeOther s) = s"

record PredictedMetrics =
  pred_MakespanSeconds :: float64
  pred_Cost :: float64
  pred_Feasible :: bool

record PlanAssignment =
  asg_ID :: string
  asg_PlanID :: string
  asg_ActivityID :: string
  asg_ResourceID :: string
  asg_CoreID :: string
  asg_SlotID :: string
  asg_OrderOnResource :: int
  asg_Priority :: int
  asg_PredictedReadyAt :: float64
  asg_PredictedStartAt :: float64
  asg_PredictedFinishAt :: float64
  asg_PredictedRuntimeSeconds :: float64
  asg_PredictedTransferSeconds :: float64
  asg_PredictedCost :: float64
  asg_Metadata :: metadata

definition zero_assignment :: PlanAssignment where
  "zero_assignment = \<lparr>asg_ID = '''', asg_PlanID = '''', asg_ActivityID = '''', asg_ResourceID = '''',
     asg_CoreID = '''', asg_SlotID = '''', asg_OrderOnResource = 0, asg_Priority = 0,
     asg_PredictedReadyAt = fzero, asg_PredictedStartAt = fzero, asg_PredictedFinishAt = fzero,
     asg_PredictedRuntimeSeconds = fzero, asg_PredictedTransferSeconds = fzero, asg_PredictedCost = fzero,
     asg_Metadata = []\<rparr>"

record SchedulePlan =
  plan_ID :: string
  plan_WorkflowVersionID :: string
  plan_ExecutionScopeID :: string
  plan_NetworkTopologyID :: string
  plan_Source :: PlanningSource
  plan_Algorithm :: string
  plan_AlgorithmVersion :: string
  plan_Objective :: string
  plan_DeadlineSeconds :: float64
  plan_Budget :: float64
  plan_Predicted :: PredictedMetrics
  plan_Assignments :: "PlanAssignment list"
  plan_AssignmentCount :: int
  plan_Metadata :: metadata

section \<open>Materialization\<close>

datatype MaterializationStatus = MaterializationPlanned | MaterializationReconciling
  | MaterializationTransferring | MaterializationVerifying | MaterializationCommitted
  | MaterializationFailed | MaterializationOther string

datatype TransferStatus = TransferPlanned | TransferRunning | TransferCompleted | TransferFailed
  | TransferStatusOther string

datatype TransferStrategy = TransferUseExisting | TransferDestinationPull | TransferSourcePush
  | TransferGateway | TransferStrategyOther string

record ArtifactMaterialization =
  mat_ID :: string
  mat_RunID :: string
  mat_ActivityID :: string
  mat_VariantID :: string
  mat_Digest :: string
  mat_ResourceID :: string
  mat_EnvironmentID :: string
  mat_DestinationPath :: string
  mat_Status :: MaterializationStatus
  mat_VerifiedDigest :: string

definition materialization_Committed :: "ArtifactMaterialization \<Rightarrow> bool" where
  "materialization_Committed m \<longleftrightarrow>
     mat_Status m = MaterializationCommitted \<and> mat_VerifiedDigest m \<noteq> '''' \<and> mat_VerifiedDigest m = mat_Digest m"

record TransferLocation =
  loc_ResourceID :: string
  loc_EnvironmentID :: string
  loc_URI :: string
  loc_Path :: string

record TransferEndpoint =
  ep_ID :: string
  ep_Kind :: string
  ep_URI :: string
  ep_ResourceID :: string
  ep_EnvironmentID :: string
  ep_Configuration :: "(string, string) gomap"

record BlobDescriptor =
  blob_Digest :: string
  blob_SizeBytes :: int

record TransferChunk =
  chunk_Index :: int
  chunk_Offset :: int
  chunk_SizeBytes :: int
  chunk_Digest :: string
  chunk_Received :: bool

record DataTransferPlan =
  tp_ID :: string
  tp_Strategy :: TransferStrategy
  tp_Source :: TransferLocation
  tp_Destination :: TransferLocation
  tp_Blobs :: "BlobDescriptor list"
  tp_Chunks :: "TransferChunk list"
  tp_ResumeFrom :: "int list"

record DataTransferRun =
  tr_ID :: string
  tr_PlanID :: string
  tr_Strategy :: TransferStrategy
  tr_Status :: TransferStatus
  tr_VerifiedBlobs :: "string list"
  tr_CompletedChunks :: "int list"
  tr_StartedAt :: float64
  tr_FinishedAt :: float64
  tr_TransferredBytes :: int
  tr_Error :: string

record WorkspaceBlob =
  wb_Path :: string
  wb_Digest :: string
  wb_SizeBytes :: int
  wb_Deleted :: bool

record WorkspaceRevision =
  rev_ID :: string
  rev_ParentID :: string
  rev_Blobs :: "WorkspaceBlob list"

record WorkspaceInventory =
  inv_Digests :: "(string, bool) gomap"

record WorkspaceMaterialization =
  wm_ID :: string
  wm_RevisionID :: string
  wm_Destination :: TransferLocation
  wm_Status :: MaterializationStatus
  wm_Missing :: "BlobDescriptor list"
  wm_Verified :: "string list"

record PreparationRequirement =
  req_Artifact :: "ArtifactMaterialization option"
  req_ArtifactTransfer :: "DataTransferPlan option"
  req_Workspace :: "WorkspaceMaterialization option"
  req_WorkspaceTransfer :: "DataTransferPlan option"

record PreparationGate =
  gate_Executable :: "ArtifactMaterialization option"
  gate_Workspace :: "WorkspaceMaterialization option"
  gate_TransferRuns :: "DataTransferRun list"

text \<open>The loop of \<^verbatim>\<open>ReconcileWorkspace\<close>, with the digests seen so far and the result so far.\<close>

fun reconcile_loop ::
  "WorkspaceInventory \<Rightarrow> WorkspaceBlob list \<Rightarrow> (string, bool) gomap \<Rightarrow> BlobDescriptor list \<Rightarrow> BlobDescriptor list"
where
  "reconcile_loop inventory [] seen missing = missing"
| "reconcile_loop inventory (blob # blobs) seen missing =
     (if wb_Deleted blob \<or> wb_Digest blob = '''' \<or> map_of (inv_Digests inventory) (wb_Digest blob) = Some True
         \<or> map_of seen (wb_Digest blob) = Some True
      then reconcile_loop inventory blobs seen missing
      else reconcile_loop inventory blobs (put (wb_Digest blob) True seen)
             (missing @ [\<lparr>blob_Digest = wb_Digest blob, blob_SizeBytes = wb_SizeBytes blob\<rparr>]))"

definition ReconcileWorkspace :: "WorkspaceRevision \<Rightarrow> WorkspaceInventory \<Rightarrow> BlobDescriptor list" where
  "ReconcileWorkspace desired inventory = reconcile_loop inventory (rev_Blobs desired) [] []"

definition workspace_Reconcile ::
  "WorkspaceMaterialization \<Rightarrow> WorkspaceRevision \<Rightarrow> WorkspaceInventory \<Rightarrow> WorkspaceMaterialization"
where
  "workspace_Reconcile m revision inventory =
     m\<lparr>wm_Status := MaterializationReconciling, wm_Missing := ReconcileWorkspace revision inventory\<rparr>"

text \<open>
  \<^verbatim>\<open>Commit\<close> ranges over the wanted digests in an order Go does not fix; the order decides
  which missing digest the error names, so it is an argument.
\<close>

fun commit_check :: "string \<Rightarrow> string list \<Rightarrow> (string, bool) gomap \<Rightarrow> error option" where
  "commit_check ident [] got = None"
| "commit_check ident (digest # digests) got =
     (if map_of got digest \<noteq> Some True then
        Some (Errorf ''workspace materialization %s missing verified blob %s'' [FmtS ident, FmtS digest])
      else commit_check ident digests got)"

definition workspace_Commit ::
  "(string list \<Rightarrow> string list) \<Rightarrow> WorkspaceMaterialization \<Rightarrow> string list \<Rightarrow>
     error option \<times> WorkspaceMaterialization"
where
  "workspace_Commit ord m verified =
     (let want = foldl (\<lambda>w b. put (blob_Digest b) True w) [] (wm_Missing m);
          got = foldl (\<lambda>g d. put d True g) [] verified
      in case commit_check (wm_ID m) (in_order ord (keys want)) got of
           Some e \<Rightarrow> (Some e, m)
         | None \<Rightarrow> (None, m\<lparr>wm_Verified := verified, wm_Status := MaterializationCommitted\<rparr>))"

definition gate_Ready :: "PreparationGate \<Rightarrow> error option" where
  "gate_Ready g =
     (if (case gate_Executable g of None \<Rightarrow> False | Some m \<Rightarrow> \<not> materialization_Committed m) then
        Some (Errorf ''executable materialization is not committed'' [])
      else if (case gate_Workspace g of None \<Rightarrow> False | Some w \<Rightarrow> wm_Status w \<noteq> MaterializationCommitted) then
        Some (Errorf ''workspace materialization is not committed'' [])
      else None)"

section \<open>Runs, tasks, handles and traces\<close>

datatype ExecutionRunStatus = ExecutionRunCreated | ExecutionRunRunning | ExecutionRunCompleted
  | ExecutionRunFailed | ExecutionRunStatusOther string

datatype TaskExecutionStatus = TaskBlocked | TaskReady | TaskPreparing | TaskRunning | TaskCompleted
  | TaskFailed | TaskCancelled | TaskStatusOther string

datatype ActivityHandleStatus = HandleStarting | HandleRunning | HandleCompleted | HandleFailed
  | HandleStopped | HandleStatusOther string

datatype ExecutionRunKind = ExecutionRunWorkflow | ExecutionRunInteractive | ExecutionRunStandalone
  | ExecutionRunKindOther string

record ExecutionBreakdown =
  brk_ComputeSeconds :: float64
  brk_TransferSeconds :: float64
  brk_QueueSeconds :: float64
  brk_InterferenceSeconds :: float64
  brk_OverheadSeconds :: float64

text \<open>Times of type \<^verbatim>\<open>time.Time\<close> are integers, in nanoseconds since Go's zero time.\<close>

record ExecutionRun =
  run_ID :: string
  run_SchedulePlanID :: string
  run_Mode :: ExecutionMode
  run_Seed :: int
  run_Status :: ExecutionRunStatus
  run_EnvironmentSnapshotID :: string
  run_MakespanSeconds :: float64
  run_Cost :: float64
  run_FailureReason :: string
  run_ActivityCount :: int
  run_CompletedActivityCount :: int
  run_Breakdown :: ExecutionBreakdown
  run_TransferredBytes :: int
  run_Kind :: ExecutionRunKind
  run_Title :: string
  run_ResourceID :: string
  run_RuntimeID :: string
  run_ConnectionID :: string
  run_ActorID :: string
  run_Command :: string
  run_StartedAt :: "int option"
  run_FinishedAt :: "int option"

record TaskExecution =
  task_ID :: string
  task_ExecutionRunID :: string
  task_PlanAssignmentID :: string
  task_ActivityID :: string
  task_PlannedResourceID :: string
  task_AllocatedResourceID :: string
  task_Attempt :: int
  task_Status :: TaskExecutionStatus
  task_ReadyAt :: float64
  task_DataReadyAt :: float64
  task_QueuedAt :: float64
  task_StartedAt :: float64
  task_FinishedAt :: float64
  task_RuntimeSeconds :: float64
  task_QueueSeconds :: float64
  task_TransferSeconds :: float64
  task_TransferBytes :: int
  task_InterferenceSeconds :: float64
  task_OverheadSeconds :: float64
  task_Cost :: float64
  task_FailureReason :: string

definition zero_task :: TaskExecution where
  "zero_task = \<lparr>task_ID = '''', task_ExecutionRunID = '''', task_PlanAssignmentID = '''', task_ActivityID = '''',
     task_PlannedResourceID = '''', task_AllocatedResourceID = '''', task_Attempt = 0,
     task_Status = TaskStatusOther '''', task_ReadyAt = fzero, task_DataReadyAt = fzero, task_QueuedAt = fzero,
     task_StartedAt = fzero, task_FinishedAt = fzero, task_RuntimeSeconds = fzero, task_QueueSeconds = fzero,
     task_TransferSeconds = fzero, task_TransferBytes = 0, task_InterferenceSeconds = fzero,
     task_OverheadSeconds = fzero, task_Cost = fzero, task_FailureReason = ''''\<rparr>"

record ExecutionMetrics =
  met_MakespanSeconds :: float64
  met_Cost :: float64
  met_ComputeSeconds :: float64
  met_TransferSeconds :: float64
  met_QueueSeconds :: float64
  met_InterferenceSeconds :: float64
  met_OverheadSeconds :: float64
  met_Feasible :: bool

definition zero_metrics :: ExecutionMetrics where
  "zero_metrics = \<lparr>met_MakespanSeconds = fzero, met_Cost = fzero, met_ComputeSeconds = fzero,
     met_TransferSeconds = fzero, met_QueueSeconds = fzero, met_InterferenceSeconds = fzero,
     met_OverheadSeconds = fzero, met_Feasible = False\<rparr>"

record DataTransfer =
  dt_ID :: string
  dt_ExecutionRunID :: string
  dt_ProducerActivityID :: string
  dt_ConsumerActivityID :: string
  dt_SourceResourceID :: string
  dt_TargetResourceID :: string
  dt_Bytes :: int
  dt_StartedAt :: float64
  dt_FinishedAt :: float64
  dt_DurationSeconds :: float64
  dt_Cost :: float64

record ExecutionTrace =
  tra_RunID :: string
  tra_PlanID :: string
  tra_Mode :: ExecutionMode
  tra_Predicted :: PredictedMetrics
  tra_Executed :: ExecutionMetrics
  tra_Tasks :: "TaskExecution list"
  tra_Transfers :: "DataTransfer list"

record ActivityExecutionContext =
  ctx_Run :: ExecutionRun
  ctx_Workflow :: WorkflowVersion
  ctx_Activity :: Activity
  ctx_Assignment :: PlanAssignment
  ctx_Resource :: Resource
  ctx_RuntimeID :: string
  ctx_Preparation :: "PreparationGate option"

datatype ArtifactChange = ArtifactCreated | ArtifactModified | ArtifactDeleted | ArtifactChangeOther string

record ArtifactObservation =
  obs_Path :: string
  obs_Change :: ArtifactChange
  obs_SizeBytes :: int
  obs_Checksum :: string
  obs_ModifiedUnixNano :: int

record LifecycleObservation =
  lco_Phase :: string
  lco_Status :: string
  lco_StartedAt :: float64
  lco_FinishedAt :: float64
  lco_DurationSeconds :: float64
  lco_Error :: string

record ArtifactSummary =
  sum_InitialFiles :: int
  sum_FinalFiles :: int
  sum_CreatedFiles :: int
  sum_ModifiedFiles :: int
  sum_DeletedFiles :: int
  sum_OutputBytes :: int

record ArtifactManifest =
  man_SchemaVersion :: int
  man_RunID :: string
  man_ActivityID :: string
  man_Attempt :: int
  man_Runtime :: string
  man_Hostname :: string
  man_Root :: string
  man_StartedAt :: float64
  man_FinishedAt :: float64
  man_ExitCode :: int
  man_Files :: "ArtifactObservation list"
  man_Phases :: "LifecycleObservation list"
  man_Summary :: ArtifactSummary

record ActivityHandle =
  hnd_ID :: string
  hnd_RunID :: string
  hnd_ActivityID :: string
  hnd_ResourceID :: string
  hnd_RuntimeID :: string
  hnd_ExternalID :: string
  hnd_Status :: ActivityHandleStatus
  hnd_Endpoints :: "string list"
  hnd_StartedAt :: float64
  hnd_FinishedAt :: float64
  hnd_ExitCode :: "int option"
  hnd_Failure :: string
  hnd_Log :: string
  hnd_Artifacts :: "ArtifactManifest option"
  hnd_Metadata :: metadata

section \<open>The request of the executors\<close>

record ExecutionRequest =
  er_Run :: ExecutionRun
  er_Plan :: SchedulePlan
  er_Workflow :: WorkflowVersion
  er_Resources :: "Resource list"
  er_ExecutionScope :: ExecutionScope
  er_Runtimes :: "EnvironmentRuntime list"
  er_RuntimeBindings :: "ResourceRuntimeBinding list"
  er_NetworkTopology :: NetworkTopology
  er_ActivityProfiles :: "ActivityResourceProfile list"
  er_PreparationRequirementsByActivity :: "(string, PreparationRequirement) gomap"

section \<open>Reconciliation, commit and gate\<close>

text \<open>A blob whose bytes the destination still needs.\<close>

definition needed :: "WorkspaceInventory \<Rightarrow> WorkspaceBlob \<Rightarrow> bool" where
  "needed inventory b \<longleftrightarrow>
     \<not> wb_Deleted b \<and> wb_Digest b \<noteq> '''' \<and> map_of (inv_Digests inventory) (wb_Digest b) \<noteq> Some True"

lemma reconcile_loop_digests:
  assumes "\<And>d. map_of seen d = Some True \<longleftrightarrow> d \<in> blob_Digest ` set missing"
    and "distinct (map blob_Digest missing)"
  shows "blob_Digest ` set (reconcile_loop inventory blobs seen missing) =
           blob_Digest ` set missing \<union> wb_Digest ` {b \<in> set blobs. needed inventory b} \<and>
         distinct (map blob_Digest (reconcile_loop inventory blobs seen missing))"
  using assms
proof (induction blobs arbitrary: seen missing)
  case Nil
  then show ?case by simp
next
  case (Cons b blobs)
  show ?case
  proof (cases "needed inventory b \<and> map_of seen (wb_Digest b) \<noteq> Some True")
    case True
    then have new: "wb_Digest b \<notin> blob_Digest ` set missing" using Cons.prems(1) by auto
    have "blob_Digest ` set (reconcile_loop inventory (b # blobs) seen missing) =
        blob_Digest ` set (missing @ [\<lparr>blob_Digest = wb_Digest b, blob_SizeBytes = wb_SizeBytes b\<rparr>]) \<union>
        wb_Digest ` {b \<in> set blobs. needed inventory b} \<and>
        distinct (map blob_Digest (reconcile_loop inventory (b # blobs) seen missing))"
      using True Cons.IH [of "put (wb_Digest b) True seen"
          "missing @ [\<lparr>blob_Digest = wb_Digest b, blob_SizeBytes = wb_SizeBytes b\<rparr>]"]
        Cons.prems new by (auto simp: needed_def)
    then show ?thesis using True by auto
  next
    case False
    then have "reconcile_loop inventory (b # blobs) seen missing = reconcile_loop inventory blobs seen missing"
      by (auto simp: needed_def)
    moreover have "needed inventory b \<Longrightarrow> wb_Digest b \<in> blob_Digest ` set missing"
      using False Cons.prems(1) by blast
    ultimately show ?thesis using Cons.IH [OF Cons.prems] by auto
  qed
qed

lemma ReconcileWorkspace_digests:
  "blob_Digest ` set (ReconcileWorkspace desired inventory) =
     wb_Digest ` {b \<in> set (rev_Blobs desired). needed inventory b}"
  and ReconcileWorkspace_distinct: "distinct (map blob_Digest (ReconcileWorkspace desired inventory))"
  using reconcile_loop_digests [of "[]" "[]" inventory "rev_Blobs desired"]
  by (simp_all add: ReconcileWorkspace_def)

lemma commit_check_None:
  "commit_check ident ds got = None \<longleftrightarrow> (\<forall>d \<in> set ds. map_of got d = Some True)"
  by (induction ds) auto

lemma map_of_mark: "map_of (foldl (\<lambda>w b. put (f b) True w) m bs) d = Some True \<longleftrightarrow>
    map_of m d = Some True \<or> d \<in> f ` set bs"
  by (induction bs arbitrary: m) auto

lemma set_keys_mark: "set (keys (foldl (\<lambda>w b. put (f b) True w) m bs)) = set (keys m) \<union> f ` set bs"
  by (induction bs arbitrary: m) (auto simp: set_keys_put simp del: set_map)

lemma workspace_Commit_ok:
  "fst (workspace_Commit ord m verified) = None \<longleftrightarrow> blob_Digest ` set (wm_Missing m) \<subseteq> set verified"
proof -
  let ?want = "foldl (\<lambda>w b. put (blob_Digest b) True w) [] (wm_Missing m)"
  let ?got = "foldl (\<lambda>g d. put d True g) [] verified"
  have w: "set (in_order ord (keys ?want)) = blob_Digest ` set (wm_Missing m)"
    using set_keys_mark [of blob_Digest "[]" "wm_Missing m"]
    by (simp del: set_map)
  have g: "map_of ?got d = Some True \<longleftrightarrow> d \<in> set verified" for d
    using map_of_mark [of "\<lambda>d. d" "[]" verified d] by simp
  have "fst (workspace_Commit ord m verified) = None \<longleftrightarrow>
      commit_check (wm_ID m) (in_order ord (keys ?want)) ?got = None"
    by (simp add: workspace_Commit_def Let_def split: option.splits)
  also have "\<dots> \<longleftrightarrow> blob_Digest ` set (wm_Missing m) \<subseteq> set verified"
    unfolding commit_check_None w g by blast
  finally show ?thesis .
qed

lemma workspace_Commit_state:
  "snd (workspace_Commit ord m verified) =
     (if fst (workspace_Commit ord m verified) = None
      then m\<lparr>wm_Verified := verified, wm_Status := MaterializationCommitted\<rparr> else m)"
  by (simp add: workspace_Commit_def Let_def split: option.splits)

lemma gate_Ready_None:
  "gate_Ready g = None \<longleftrightarrow>
     (\<forall>m. gate_Executable g = Some m \<longrightarrow> materialization_Committed m) \<and>
     (\<forall>w. gate_Workspace g = Some w \<longrightarrow> wm_Status w = MaterializationCommitted)"
  by (auto simp: gate_Ready_def split: option.splits)

end
