(* ===== verification/Workflow_Dag.thy ===== *)
theory Workflow_Dag
  imports Execution_Domain
begin

text \<open>
  The dependency graph of a workflow and \<^verbatim>\<open>validateDAG\<close> of
  \<^verbatim>\<open>internal/infrastructure/plugins/planning/validator.go\<close>: Kahn's algorithm over Go maps, with
  the proof that it terminates and accepts exactly the workflows whose dependencies name known
  activities and have no cycle.
\<close>

section \<open>The algorithm\<close>

fun dag_build ::
  "ActivityDependency list \<Rightarrow> (string, int) gomap \<Rightarrow> (string, string list) gomap \<Rightarrow>
   error + (string, int) gomap \<times> (string, string list) gomap"
where
  "dag_build [] indegree successors = Inr (indegree, successors)"
| "dag_build (d # ds) indegree successors =
     (case map_of indegree (dep_ActivityID d) of
        None \<Rightarrow> Inl (Errorf ''dependency references unknown activity %q'' [FmtS (dep_ActivityID d)])
      | Some n \<Rightarrow>
         if map_of indegree (dep_DependsOnActivityID d) = None then
           Inl (Errorf ''dependency references unknown predecessor %q'' [FmtS (dep_DependsOnActivityID d)])
         else if dep_ActivityID d = dep_DependsOnActivityID d then
           Inl (Errorf ''activity %q depends on itself'' [FmtS (dep_ActivityID d)])
         else dag_build ds (put (dep_ActivityID d) (n + 1) indegree)
                (put (dep_DependsOnActivityID d)
                   (get_list successors (dep_DependsOnActivityID d) @ [dep_ActivityID d]) successors))"

text \<open>The degree of a missing key is the zero value.\<close>

definition degree :: "(string, int) gomap \<Rightarrow> string \<Rightarrow> int" where
  "degree indegree x = (case map_of indegree x of None \<Rightarrow> 0 | Some n \<Rightarrow> n)"

text \<open>The inner loop: a successor that loses its last open predecessor is appended to the queue.\<close>

fun relax :: "string list \<Rightarrow> (string, int) gomap \<Rightarrow> string list \<Rightarrow> (string, int) gomap \<times> string list" where
  "relax [] indegree queue = (indegree, queue)"
| "relax (s # ss) indegree queue =
     (let n = degree indegree s - 1 in
      relax ss (put s n indegree) (if n = 0 then queue @ [s] else queue))"

definition dag_weight :: "(string, int) gomap \<Rightarrow> string list \<Rightarrow> nat" where
  "dag_weight indegree queue = length queue + sum_list (map (nat \<circ> snd) indegree)"

lemma sum_put:
  "sum_list (map (nat \<circ> snd) (put s (degree m s - 1) m)) + (if 0 < degree m s then 1 else 0) =
   sum_list (map (nat \<circ> snd) m)"
  by (induction m) (auto simp: degree_def)

lemma relax_weight: "relax ss indegree queue = (indegree', queue') \<Longrightarrow> dag_weight indegree' queue' \<le> dag_weight indegree queue"
proof (induction ss indegree queue rule: relax.induct)
  case (2 s ss indegree queue)
  let ?n = "degree indegree s - 1"
  have "dag_weight indegree' queue' \<le> dag_weight (put s ?n indegree) (if ?n = 0 then queue @ [s] else queue)"
    using 2 by (simp add: Let_def)
  also have "\<dots> \<le> dag_weight indegree queue"
    using sum_put [of s indegree] by (auto simp: dag_weight_def split: if_splits)
  finally show ?case .
qed simp

function kahn :: "(string, string list) gomap \<Rightarrow> string list \<Rightarrow> (string, int) gomap \<Rightarrow> int \<Rightarrow> int" where
  "kahn successors [] indegree visited = visited"
| "kahn successors (x # queue) indegree visited =
     (let (indegree', queue') = relax (get_list successors x) indegree queue
      in kahn successors queue' indegree' (visited + 1))"
  by pat_completeness auto

termination
proof (relation "measure (\<lambda>(successors, queue, indegree, visited). dag_weight indegree queue)")
  fix successors :: "(string, string list) gomap" and x :: string
    and queue queue' :: "string list" and indegree indegree' :: "(string, int) gomap" and visited :: int and p
  assume "p = relax (get_list successors x) indegree queue" and "(indegree', queue') = p"
  then have "dag_weight indegree' queue' \<le> dag_weight indegree queue" by (metis relax_weight)
  then show "((successors, queue', indegree', visited + 1), (successors, x # queue, indegree, visited))
      \<in> measure (\<lambda>(successors, queue, indegree, visited). dag_weight indegree queue)"
    by (simp add: dag_weight_def)
qed simp

definition validateDAG :: "(string list \<Rightarrow> string list) \<Rightarrow> WorkflowVersion \<Rightarrow> error option" where
  "validateDAG ord workflow =
     (let indegree0 = foldl (\<lambda>m a. put (act_ID a) (0 :: int) m) [] (wfv_Activities workflow) in
      case dag_build (wfv_Dependencies workflow) indegree0 [] of
        Inl e \<Rightarrow> Some e
      | Inr (indegree, successors) \<Rightarrow>
          (let queue = filter (\<lambda>x. degree indegree x = 0) (in_order ord (keys indegree));
               visited = kahn successors queue indegree 0
           in if visited \<noteq> int (length indegree) then
                Some (Errorf ''workflow dependencies contain a cycle'' [])
              else None))"

section \<open>The graph\<close>

text \<open>An edge goes from a predecessor to the activity that depends on it.\<close>

definition edges :: "ActivityDependency list \<Rightarrow> (string \<times> string) list" where
  "edges ds = map (\<lambda>d. (dep_DependsOnActivityID d, dep_ActivityID d)) ds"

definition known_endpoints :: "WorkflowVersion \<Rightarrow> bool" where
  "known_endpoints workflow \<longleftrightarrow> (\<forall>d \<in> set (wfv_Dependencies workflow).
     dep_ActivityID d \<in> act_ID ` set (wfv_Activities workflow) \<and>
     dep_DependsOnActivityID d \<in> act_ID ` set (wfv_Activities workflow))"

definition dag :: "WorkflowVersion \<Rightarrow> bool" where
  "dag workflow \<longleftrightarrow> known_endpoints workflow \<and> acyclic (set (edges (wfv_Dependencies workflow)))"

text \<open>The open predecessors of \<open>x\<close> when \<open>vs\<close> are visited, with multiplicity.\<close>

definition open_preds :: "(string \<times> string) list \<Rightarrow> string set \<Rightarrow> string \<Rightarrow> int" where
  "open_preds es vs x = int (length (filter (\<lambda>(p, y). y = x \<and> p \<notin> vs) es))"

definition succs :: "(string \<times> string) list \<Rightarrow> string \<Rightarrow> string list" where
  "succs es x = map snd (filter (\<lambda>(p, y). p = x) es)"

lemma open_preds_insert:
  assumes "v \<notin> vs"
  shows "open_preds es (insert v vs) x = open_preds es vs x - int (count_list (succs es v) x)"
  using assms by (induction es) (auto simp: open_preds_def succs_def)

lemma open_preds_0: "open_preds es vs x = 0 \<longleftrightarrow> (\<forall>p. (p, x) \<in> set es \<longrightarrow> p \<in> vs)"
  by (auto simp: open_preds_def filter_empty_conv)

lemma open_preds_nonneg [simp]: "0 \<le> open_preds es vs x"
  by (simp add: open_preds_def)

section \<open>Building the graph\<close>

lemma degree_put [simp]: "degree (put k v m) x = (if x = k then v else degree m x)"
  by (simp add: degree_def)

lemma dag_build_iff:
  assumes "K = set (keys indegree)"
  shows "\<not> isl (dag_build ds indegree successors) \<longleftrightarrow>
    (\<forall>d \<in> set ds. dep_ActivityID d \<in> K \<and> dep_DependsOnActivityID d \<in> K \<and> dep_ActivityID d \<noteq> dep_DependsOnActivityID d)"
  using assms
proof (induction ds arbitrary: indegree successors)
  case (Cons d ds)
  show ?case
  proof (cases "dep_ActivityID d \<in> K \<and> dep_DependsOnActivityID d \<in> K \<and> dep_ActivityID d \<noteq> dep_DependsOnActivityID d")
    case True
    then obtain n where "map_of indegree (dep_ActivityID d) = Some n"
      using Cons.prems by (metis map_of_None_keys not_None_eq)
    moreover have "map_of indegree (dep_DependsOnActivityID d) \<noteq> None"
      using True Cons.prems by (metis map_of_None_keys)
    moreover have "K = set (keys (put (dep_ActivityID d) (n + 1) indegree))"
      using True Cons.prems by (auto simp: set_keys_put simp del: set_map)
    note Cons.IH [OF this]
    ultimately show ?thesis using True by (auto simp del: set_map)
  next
    case False
    then show ?thesis
      using Cons.prems by (auto split: option.splits simp del: set_map simp: map_of_None_keys dest: map_of_Some_keys)
  qed
qed simp

lemma dag_build_result:
  assumes "dag_build ds indegree successors = Inr (indegree', successors')"
  shows "set (keys indegree') = set (keys indegree) \<and> length indegree' = length indegree \<and>
    (gomap_ok indegree \<longrightarrow> gomap_ok indegree') \<and>
    (\<forall>x. degree indegree' x = degree indegree x + open_preds (edges ds) {} x) \<and>
    (\<forall>x. get_list successors' x = get_list successors x @ succs (edges ds) x)"
  using assms
proof (induction ds arbitrary: indegree successors)
  case Nil
  then show ?case by (auto simp: edges_def open_preds_def succs_def)
next
  case (Cons d ds)
  then obtain n where n: "map_of indegree (dep_ActivityID d) = Some n"
    "dag_build ds (put (dep_ActivityID d) (n + 1) indegree) (put (dep_DependsOnActivityID d)
       (get_list successors (dep_DependsOnActivityID d) @ [dep_ActivityID d]) successors) = Inr (indegree', successors')"
    by (auto split: option.splits if_splits)
  have k: "dep_ActivityID d \<in> set (keys indegree)" using n(1) by (rule map_of_Some_keys)
  then have "set (keys (put (dep_ActivityID d) (n + 1) indegree)) = set (keys indegree)"
    "length (put (dep_ActivityID d) (n + 1) indegree) = length indegree"
    by (auto simp: set_keys_put length_put_old simp del: set_map)
  moreover have "degree indegree (dep_ActivityID d) = n" using n(1) by (simp add: degree_def)
  ultimately show ?case
    using Cons.IH [OF n(2)] by (auto simp: edges_def open_preds_def succs_def)
qed

section \<open>Kahn's algorithm visits exactly what it can\<close>

lemma relax_spec:
  assumes "\<And>x. int (count_list ss x) \<le> degree indegree x" and "relax ss indegree queue = (indegree', queue')"
  shows "\<exists>new. queue' = queue @ new \<and> distinct new \<and>
      set new = {x \<in> set ss. degree indegree x = int (count_list ss x)} \<and>
      (\<forall>x. degree indegree' x = degree indegree x - int (count_list ss x))"
  using assms
proof (induction ss arbitrary: indegree queue)
  case Nil
  then show ?case by simp
next
  case (Cons s ss)
  let ?n = "degree indegree s - 1"
  let ?deg = "put s ?n indegree"
  have c: "int (count_list ss x) \<le> degree ?deg x" for x
    using Cons.prems(1) [of x] by (auto split: if_splits)
  let ?first = "if ?n = 0 then [s] else []"
  have "relax ss ?deg (queue @ ?first) = (indegree', queue')" using Cons.prems(2) by (simp add: Let_def split: if_splits)
  from Cons.IH [OF c this] obtain new where new: "queue' = (queue @ ?first) @ new" "distinct new"
    "set new = {x \<in> set ss. degree ?deg x = int (count_list ss x)}"
    "\<forall>x. degree indegree' x = degree ?deg x - int (count_list ss x)"
    by blast
  have z: "?n = 0 \<Longrightarrow> s \<notin> set ss" using c [of s] count_list_0_iff [of ss s] by auto
  have "set (?first @ new) = {x \<in> set (s # ss). degree indegree x = int (count_list (s # ss) x)}"
  proof (rule set_eqI)
    fix x
    show "x \<in> set (?first @ new) \<longleftrightarrow> x \<in> {x \<in> set (s # ss). degree indegree x = int (count_list (s # ss) x)}"
    proof (cases "x = s")
      case True
      have "count_list ss s = 0" if "s \<notin> set ss" using that by simp
      then show ?thesis using True z by (cases "s \<in> set ss") (auto simp: new(3))
    qed (simp add: new(3))
  qed
  moreover have "distinct (?first @ new)" using new(2,3) z by auto
  moreover have "\<forall>x. degree indegree' x = degree indegree x - int (count_list (s # ss) x)" using new(4) by simp
  ultimately show ?case using new(1) by (metis append.assoc)
qed

text \<open>
  The state of the outer loop: \<open>vs\<close> are the visited activities in order. An activity is visited or
  queued exactly when its predecessors are visited, and a visited one comes after them.
\<close>

definition kahn_inv ::
  "(string \<times> string) list \<Rightarrow> string set \<Rightarrow> string list \<Rightarrow> string list \<Rightarrow> (string, int) gomap \<Rightarrow> bool"
where
  "kahn_inv es K vs queue indegree \<longleftrightarrow>
     distinct (vs @ queue) \<and> set (vs @ queue) \<subseteq> K \<and>
     (\<forall>x. degree indegree x = open_preds es (set vs) x) \<and>
     (\<forall>x \<in> K. x \<in> set (vs @ queue) \<longleftrightarrow> open_preds es (set vs) x = 0) \<and>
     (\<forall>i < length vs. \<forall>p. (p, vs ! i) \<in> set es \<longrightarrow> p \<in> set (take i vs))"

lemma succs_open: "p \<notin> vs \<Longrightarrow> int (count_list (succs es p) x) \<le> open_preds es vs x"
  using open_preds_insert [of p vs es x] open_preds_nonneg [of es "insert p vs" x] by linarith

lemma succs_set: "x \<in> set (succs es p) \<longleftrightarrow> (p, x) \<in> set es"
  by (force simp: succs_def)

lemma kahn_inv_step:
  assumes inv: "kahn_inv es K vs (x # queue) indegree" and "snd ` set es \<subseteq> K"
    and r: "relax (succs es x) indegree queue = (indegree', queue')"
  shows "kahn_inv es K (vs @ [x]) queue' indegree'"
proof -
  have x: "x \<notin> set vs" "x \<in> K" using inv by (auto simp: kahn_inv_def)
  have deg: "degree indegree y = open_preds es (set vs) y" for y using inv by (simp add: kahn_inv_def)
  have px: "\<forall>p. (p, x) \<in> set es \<longrightarrow> p \<in> set vs"
    using inv x by (auto simp: kahn_inv_def open_preds_0 [symmetric])
  obtain new where new: "queue' = queue @ new" "distinct new"
    "set new = {y \<in> set (succs es x). open_preds es (set vs) y = int (count_list (succs es x) y)}"
    "\<forall>y. degree indegree' y = open_preds es (set vs) y - int (count_list (succs es x) y)"
    using relax_spec [OF _ r] succs_open [OF x(1)] by (auto simp: deg)
  have o: "open_preds es (set (vs @ [x])) y = open_preds es (set vs) y - int (count_list (succs es x) y)" for y
    using open_preds_insert [OF x(1)] by simp
  have snew: "y \<in> set new \<longleftrightarrow> y \<in> set (succs es x) \<and> open_preds es (set (vs @ [x])) y = 0" for y
    using new(3) o by auto
  have K: "set new \<subseteq> K" using assms(2) by (force simp: snew succs_set)
  have fresh: "open_preds es (set vs) y \<noteq> 0" if "y \<in> set new" for y
    using that x(1) by (auto simp: snew succs_set open_preds_0)
  have iff: "y \<in> set ((vs @ [x]) @ queue') \<longleftrightarrow> open_preds es (set (vs @ [x])) y = 0" if "y \<in> K" for y
  proof -
    have old: "y \<in> set (vs @ x # queue) \<longleftrightarrow> open_preds es (set vs) y = 0" using inv that by (simp add: kahn_inv_def)
    have "open_preds es (set (vs @ [x])) y = open_preds es (set vs) y" if "y \<notin> set (succs es x)"
      using that o [of y] count_list_0_iff [of "succs es x" y] by simp
    moreover have "open_preds es (set (vs @ [x])) y = 0" if "open_preds es (set vs) y = 0"
      using that by (auto simp: open_preds_0)
    ultimately show ?thesis using old snew [of y] new(1) by auto
  qed
  have "distinct ((vs @ [x]) @ queue')"
  proof -
    have "set new \<inter> set (vs @ x # queue) = {}"
      using fresh K inv unfolding kahn_inv_def by blast
    then show ?thesis using inv new(1,2) by (auto simp: kahn_inv_def)
  qed
  moreover have "set ((vs @ [x]) @ queue') \<subseteq> K" using inv K new(1) by (auto simp: kahn_inv_def)
  moreover have "p \<in> set (take i (vs @ [x]))" if "i < length (vs @ [x])" "(p, (vs @ [x]) ! i) \<in> set es" for i p
    using that inv px by (cases "i < length vs") (auto simp: kahn_inv_def nth_append)
  ultimately show ?thesis using iff new(4) o by (simp add: kahn_inv_def)
qed

lemma kahn_final:
  assumes "kahn_inv es K vs queue indegree" and "snd ` set es \<subseteq> K" and "\<And>x. get_list successors x = succs es x"
  shows "\<exists>vs' indegree'. kahn successors queue indegree visited = visited + int (length vs') - int (length vs) \<and>
    kahn_inv es K vs' [] indegree'"
  using assms(1)
proof (induction "dag_weight indegree queue" arbitrary: vs queue indegree visited rule: less_induct)
  case less
  show ?case
  proof (cases queue)
    case Nil
    then show ?thesis using less.prems by (intro exI [of _ vs] exI [of _ indegree]) simp
  next
    case (Cons x rest)
    obtain indegree' queue' where r: "relax (succs es x) indegree rest = (indegree', queue')" by fastforce
    have "kahn_inv es K (vs @ [x]) queue' indegree'"
      using kahn_inv_step [OF _ assms(2) r] less.prems Cons by simp
    moreover have "dag_weight indegree' queue' < dag_weight indegree queue"
      using relax_weight [OF r] by (simp add: Cons dag_weight_def)
    ultimately show ?thesis
      using less.hyps [of indegree' queue' "vs @ [x]" "visited + 1"] Cons r assms(3) by auto
  qed
qed

text \<open>An order in which predecessors come first excludes a cycle.\<close>

lemma first_position:
  assumes "x \<in> set vs"
  shows "length (takeWhile (\<lambda>y. y \<noteq> x) vs) < length vs" and "vs ! length (takeWhile (\<lambda>y. y \<noteq> x) vs) = x"
  using assms by (induction vs) auto

lemma first_position_le: "k < length vs \<Longrightarrow> length (takeWhile (\<lambda>y. y \<noteq> vs ! k) vs) \<le> k"
proof (induction vs arbitrary: k)
  case (Cons v vs)
  then show ?case by (cases k) auto
qed simp

lemma kahn_order_acyclic:
  assumes "kahn_inv es K vs [] indegree" and "set vs = K" and "set es \<subseteq> K \<times> K"
  shows "acyclic (set es)"
proof -
  define ix where "ix x = length (takeWhile (\<lambda>y. y \<noteq> x) vs)" for x
  have "ix p < ix x" if e: "(p, x) \<in> set es" for p x
  proof -
    have "x \<in> set vs" using e assms(2,3) by auto
    then have l: "ix x < length vs" "vs ! ix x = x" using first_position by (auto simp: ix_def)
    then have "p \<in> set (take (ix x) vs)" using assms(1) e unfolding kahn_inv_def by metis
    then obtain k where k: "k < ix x" "vs ! k = p" by (auto simp: in_set_conv_nth)
    then show ?thesis using first_position_le [of k vs] l(1) by (simp add: ix_def)
  qed
  then have "set es \<subseteq> measure ix" by auto
  then show ?thesis using wf_acyclic [of "measure ix"] acyclic_subset by blast
qed

lemma kahn_complete:
  assumes "kahn_inv es K vs [] indegree" and "set es \<subseteq> K \<times> K" and "acyclic (set es)"
  shows "set vs = K"
proof (rule ccontr)
  assume "set vs \<noteq> K"
  then obtain y where y: "y \<in> K - set vs" using assms(1) by (auto simp: kahn_inv_def)
  have "wf (set es)" using assms(3) by (simp add: finite_acyclic_wf)
  then obtain x where x: "x \<in> K - set vs" "\<And>p. (p, x) \<in> set es \<Longrightarrow> p \<notin> K - set vs"
    using y by (metis wfE_min)
  then have "open_preds es (set vs) x = 0" using assms(2) by (auto simp: open_preds_0)
  then show False using x(1) assms(1) by (auto simp: kahn_inv_def)
qed

lemma zero_degrees:
  "set (keys (foldl (\<lambda>m a. put (act_ID a) (0 :: int) m) m as)) = set (keys m) \<union> act_ID ` set as"
  "gomap_ok m \<Longrightarrow> gomap_ok (foldl (\<lambda>m a. put (act_ID a) (0 :: int) m) m as)"
  "(\<And>x. degree m x = 0) \<Longrightarrow> degree (foldl (\<lambda>m a. put (act_ID a) (0 :: int) m) m as) x = 0"
  by (induction as arbitrary: m) (auto simp: set_keys_put simp del: set_map)

lemma kahn_start:
  assumes "gomap_ok indegree" and "\<And>x. degree indegree x = open_preds es {} x"
  shows "kahn_inv es (set (keys indegree)) [] (filter (\<lambda>x. degree indegree x = 0) (in_order ord (keys indegree))) indegree"
  using assms by (auto simp: kahn_inv_def gomap_ok_def simp del: set_map)

lemma kahn_accepts_iff:
  assumes "gomap_ok indegree" and "\<And>x. degree indegree x = open_preds es {} x" and "\<And>x. get_list successors x = succs es x"
    and "set es \<subseteq> set (keys indegree) \<times> set (keys indegree)"
  shows "kahn successors (filter (\<lambda>x. degree indegree x = 0) (in_order ord (keys indegree))) indegree 0 =
      int (length indegree) \<longleftrightarrow> acyclic (set es)"
proof -
  let ?K = "set (keys indegree)"
  have "snd ` set es \<subseteq> ?K" using assms(4) by auto
  then obtain vs indegree' where vs: "kahn successors (filter (\<lambda>x. degree indegree x = 0) (in_order ord (keys indegree)))
      indegree 0 = int (length vs)" "kahn_inv es ?K vs [] indegree'"
    using kahn_final [OF kahn_start [OF assms(1,2)] _ assms(3), of ord 0] by auto
  have d: "distinct vs" "set vs \<subseteq> ?K" using vs(2) by (auto simp: kahn_inv_def)
  have "length indegree = card ?K" using assms(1) distinct_card [of "keys indegree"] by (simp add: gomap_ok_def)
  then have "int (length vs) = int (length indegree) \<longleftrightarrow> set vs = ?K"
    using d distinct_card [OF d(1)] card_subset_eq [OF _ d(2)] by auto
  also have "\<dots> \<longleftrightarrow> acyclic (set es)"
    using kahn_order_acyclic [OF vs(2) _ assms(4)] kahn_complete [OF vs(2) assms(4)] by blast
  finally show ?thesis using vs(1) by simp
qed

lemma acyclic_no_self: "acyclic (set (edges ds)) \<Longrightarrow> d \<in> set ds \<Longrightarrow> dep_ActivityID d \<noteq> dep_DependsOnActivityID d"
  by (force simp: acyclic_def edges_def)

lemma validateDAG_iff: "validateDAG ord workflow = None \<longleftrightarrow> dag workflow"
proof -
  let ?m = "foldl (\<lambda>m a. put (act_ID a) (0 :: int) m) [] (wfv_Activities workflow)"
  let ?ds = "wfv_Dependencies workflow"
  have K: "set (keys ?m) = act_ID ` set (wfv_Activities workflow)" using zero_degrees(1) [of "[]"] by simp
  have z: "gomap_ok ?m" "degree ?m x = 0" for x
    by (rule zero_degrees(2,3); simp add: gomap_ok_def degree_def)+
  show ?thesis
  proof (cases "dag_build ?ds ?m []")
    case (Inl e)
    then have "\<not> (known_endpoints workflow \<and> (\<forall>d \<in> set ?ds. dep_ActivityID d \<noteq> dep_DependsOnActivityID d))"
      using dag_build_iff [OF K [symmetric], of ?ds "[]"] by (auto simp: known_endpoints_def)
    then show ?thesis using Inl acyclic_no_self by (auto simp: validateDAG_def dag_def)
  next
    case (Inr p)
    obtain indegree successors where p: "p = (indegree, successors)" by fastforce
    note b = dag_build_result [OF Inr [unfolded p]]
    have k: "known_endpoints workflow"
      using dag_build_iff [OF K [symmetric], of ?ds "[]"] Inr by (auto simp: known_endpoints_def)
    have K': "set (keys indegree) = act_ID ` set (wfv_Activities workflow)" using b K by (simp only:)
    have "set (edges ?ds) \<subseteq> set (keys indegree) \<times> set (keys indegree)"
      unfolding K' using k by (auto simp: edges_def known_endpoints_def)
    then show ?thesis
      using kahn_accepts_iff [of indegree "edges ?ds" successors ord] b z Inr k
      by (simp add: validateDAG_def p dag_def)
  qed
qed

end
