(* ===== verification/Plan_Validator.thy ===== *)
theory Plan_Validator
  imports Workflow_Dag
begin

text \<open>
  The validation of schedule plans, \<^verbatim>\<open>internal/infrastructure/plugins/planning\<close>: the checks of
  \<^verbatim>\<open>Validate\<close> in their order, the lanes of \<^verbatim>\<open>validateResourceOrders\<close>, and the sources of plans. The
  orders in which the Go maps are visited are arguments.
\<close>

section \<open>Sources of plans\<close>

text \<open>A planner plugin is an argument: it gives a plan, and an error or none.\<close>

definition pluginSource_Build :: "('r \<Rightarrow> SchedulePlan \<times> error option) \<Rightarrow> 'r \<Rightarrow> SchedulePlan \<times> error option" where
  "pluginSource_Build plan_of request =
     (let (plan, err) = plan_of request
      in (if err = None then plan\<lparr>plan_Source := PlanningSourcePlugin\<rparr> else plan, err))"

definition importedSource_Build :: "SchedulePlan \<Rightarrow> SchedulePlan \<times> error option" where
  "importedSource_Build plan = (plan\<lparr>plan_Source := PlanningSourceImported\<rparr>, None)"

section \<open>Assignments\<close>

definition isSchedulerTarget :: "Resource \<Rightarrow> bool" where
  "isSchedulerTarget r \<longleftrightarrow> res_ExecutionTarget r = ExecutionTargetBatch \<and>
     (res_Type r = ResourceHPCPartition \<or> res_Type r = ResourceBatchQueue \<or> res_Type r = ResourceSlurmReservation)"

text \<open>The checks on one assignment once its activity and its resource are found.\<close>

definition check_placement :: "ExecutionScope \<Rightarrow> PlanAssignment \<Rightarrow> Activity \<Rightarrow> Resource \<Rightarrow> error option" where
  "check_placement scope asg activity resource =
     (let overrideSelector = meta_bool (asg_Metadata asg) ''resourceSelectorOverride'';
          selector = meta_string (act_Metadata activity) ''resourceSelector'' in
      if res_EnvironmentVersionID resource \<notin> set (scope_EnvironmentVersionIDs scope) then
        Some (Errorf ''resource %q is outside execution scope %q'' [FmtS (res_ID resource), FmtS (scope_ID scope)])
      else if \<not> res_Schedulable resource then
        Some (Errorf ''resource %q is not schedulable'' [FmtS (res_ID resource)])
      else if selector \<noteq> '''' \<and> selector \<noteq> res_ID resource \<and> \<not> overrideSelector then
        Some (Errorf ''activity %q requires resource %q, not %q''
                [FmtS (act_ID activity), FmtS selector, FmtS (res_ID resource)])
      else if \<not> isSchedulerTarget resource \<and> flt (res_CPUCapacity resource) (ares_CPU (act_Resources activity)) then
        Some (Errorf ''resource %q lacks CPU for activity %q'' [FmtS (res_ID resource), FmtS (act_ID activity)])
      else if \<not> isSchedulerTarget resource \<and> res_MemoryBytes resource < ares_MemoryBytes (act_Resources activity) then
        Some (Errorf ''resource %q lacks memory for activity %q'' [FmtS (res_ID resource), FmtS (act_ID activity)])
      else if flt (asg_PredictedFinishAt asg) (asg_PredictedStartAt asg) then
        Some (Errorf ''assignment %q finishes before it starts'' [FmtS (asg_ID asg)])
      else None)"

fun check_assignments ::
  "ExecutionScope \<Rightarrow> (string, Activity) gomap \<Rightarrow> (string, Resource) gomap \<Rightarrow> PlanAssignment list \<Rightarrow>
   (string, PlanAssignment) gomap \<Rightarrow> error + (string, PlanAssignment) gomap"
where
  "check_assignments scope activityByID resourceByID [] done = Inr done"
| "check_assignments scope activityByID resourceByID (asg # asgs) done =
     (case map_of activityByID (asg_ActivityID asg) of
        None \<Rightarrow> Inl (Errorf ''assignment %q references unknown activity %q'' [FmtS (asg_ID asg), FmtS (asg_ActivityID asg)])
      | Some activity \<Rightarrow>
         if map_of done (asg_ActivityID asg) \<noteq> None then
           Inl (Errorf ''activity %q has more than one assignment'' [FmtS (asg_ActivityID asg)])
         else
         (case map_of resourceByID (asg_ResourceID asg) of
            None \<Rightarrow> Inl (Errorf ''assignment %q references unknown resource %q'' [FmtS (asg_ID asg), FmtS (asg_ResourceID asg)])
          | Some resource \<Rightarrow>
             (case check_placement scope asg activity resource of
                Some e \<Rightarrow> Inl e
              | None \<Rightarrow> check_assignments scope activityByID resourceByID asgs (put (asg_ActivityID asg) asg done))))"

section \<open>Lanes\<close>

definition lane :: "PlanAssignment \<Rightarrow> string" where
  "lane a = asg_ResourceID a @ [nul] @ asg_CoreID a @ [nul] @ asg_SlotID a"

text \<open>
  The first two neighbours with the same order after sorting. The sort of the source is not
  stable, which only exchanges assignments of one order.
\<close>

fun dup_order :: "PlanAssignment list \<Rightarrow> int option" where
  "dup_order (a # b # items) =
     (if asg_OrderOnResource a = asg_OrderOnResource b then Some (asg_OrderOnResource b) else dup_order (b # items))"
| "dup_order items = None"

fun check_lanes :: "(string, PlanAssignment list) gomap \<Rightarrow> string list \<Rightarrow> error option" where
  "check_lanes byLane [] = None"
| "check_lanes byLane (l # ls) =
     (case dup_order (sort_key asg_OrderOnResource (get_list byLane l)) of
        Some n \<Rightarrow> Some (Errorf ''resource lane %q contains duplicate order %d'' [FmtS l, FmtD n])
      | None \<Rightarrow> check_lanes byLane ls)"

definition asg_for :: "(string, PlanAssignment) gomap \<Rightarrow> string \<Rightarrow> PlanAssignment" where
  "asg_for m k = (case map_of m k of None \<Rightarrow> zero_assignment | Some a \<Rightarrow> a)"

fun check_dep_orders :: "(string, PlanAssignment) gomap \<Rightarrow> ActivityDependency list \<Rightarrow> error option" where
  "check_dep_orders m [] = None"
| "check_dep_orders m (d # ds) =
     (let a = asg_for m (dep_ActivityID d); p = asg_for m (dep_DependsOnActivityID d) in
      if asg_ResourceID a = asg_ResourceID p \<and> asg_CoreID a = asg_CoreID p \<and> asg_SlotID a = asg_SlotID p \<and>
         asg_OrderOnResource a \<le> asg_OrderOnResource p then
        Some (Errorf ''resource order places activity %q before predecessor %q''
                [FmtS (dep_ActivityID d), FmtS (dep_DependsOnActivityID d)])
      else check_dep_orders m ds)"

definition validateResourceOrders ::
  "(string list \<Rightarrow> string list) \<Rightarrow> PlanAssignment list \<Rightarrow> ActivityDependency list \<Rightarrow> error option"
where
  "validateResourceOrders ord assignments dependencies =
     (let assignmentByActivity = index_by asg_ActivityID assignments;
          byLane = group_by lane (\<lambda>a. a) assignments in
      case check_lanes byLane (in_order ord (keys byLane)) of
        Some e \<Rightarrow> Some e
      | None \<Rightarrow> check_dep_orders assignmentByActivity dependencies)"

section \<open>Validate\<close>

definition plan_Validate ::
  "(string list \<Rightarrow> string list) \<Rightarrow> SchedulePlan \<Rightarrow> WorkflowVersion \<Rightarrow> Resource list \<Rightarrow> ExecutionScope \<Rightarrow>
   NetworkTopology \<Rightarrow> error option"
where
  "plan_Validate ord plan workflow resources scope topology =
     (if plan_WorkflowVersionID plan \<noteq> wfv_ID workflow then
        Some (Errorf ''plan workflow version %q does not match %q'' [FmtS (plan_WorkflowVersionID plan), FmtS (wfv_ID workflow)])
      else if plan_NetworkTopologyID plan \<noteq> '''' \<and> plan_NetworkTopologyID plan \<noteq> top_ID topology then
        Some (Errorf ''plan network topology %q does not match %q'' [FmtS (plan_NetworkTopologyID plan), FmtS (top_ID topology)])
      else if plan_ExecutionScopeID plan = '''' then
        Some (Errorf ''plan execution scope is required'' [])
      else if plan_ExecutionScopeID plan \<noteq> scope_ID scope then
        Some (Errorf ''plan execution scope %q does not match %q'' [FmtS (plan_ExecutionScopeID plan), FmtS (scope_ID scope)])
      else if top_ID topology \<noteq> '''' \<and> plan_ExecutionScopeID plan \<noteq> top_ExecutionScopeID topology then
        Some (Errorf ''plan execution scope %q does not match topology scope %q''
                [FmtS (plan_ExecutionScopeID plan), FmtS (top_ExecutionScopeID topology)])
      else let resourceByID = index_by res_ID resources; activityByID = index_by act_ID (wfv_Activities workflow) in
        case check_assignments scope activityByID resourceByID (plan_Assignments plan) [] of
          Inl e \<Rightarrow> Some e
        | Inr assignmentByActivity \<Rightarrow>
           if length assignmentByActivity \<noteq> length activityByID then
             Some (Errorf ''plan covers %d of %d activities''
                     [FmtD (int (length assignmentByActivity)), FmtD (int (length activityByID))])
           else (case validateDAG ord workflow of
                   Some e \<Rightarrow> Some e
                 | None \<Rightarrow> validateResourceOrders ord (plan_Assignments plan) (wfv_Dependencies workflow)))"

section \<open>What the loops check\<close>

lemma dup_order_None: "sorted (map asg_OrderOnResource items) \<Longrightarrow>
    dup_order items = None \<longleftrightarrow> distinct (map asg_OrderOnResource items)"
  by (induction items rule: dup_order.induct) auto

lemma check_lanes_None:
  "check_lanes byLane ls = None \<longleftrightarrow> (\<forall>l \<in> set ls. distinct (map asg_OrderOnResource (get_list byLane l)))"
proof (induction ls)
  case (Cons l ls)
  let ?items = "get_list byLane l"
  have "distinct (map asg_OrderOnResource (sort_key asg_OrderOnResource ?items)) \<longleftrightarrow>
      distinct (map asg_OrderOnResource ?items)"
    by (rule mset_eq_imp_distinct_iff) simp
  then show ?case
    using Cons dup_order_None [of "sort_key asg_OrderOnResource ?items"] by (auto split: option.splits)
qed simp

lemma check_dep_orders_None:
  "check_dep_orders m ds = None \<longleftrightarrow> (\<forall>d \<in> set ds.
     let a = asg_for m (dep_ActivityID d); p = asg_for m (dep_DependsOnActivityID d) in
     asg_ResourceID a = asg_ResourceID p \<and> asg_CoreID a = asg_CoreID p \<and> asg_SlotID a = asg_SlotID p \<longrightarrow>
     asg_OrderOnResource p < asg_OrderOnResource a)"
  by (induction ds) (auto simp: Let_def)

lemma validateResourceOrders_None:
  "validateResourceOrders ord asgs ds = None \<longleftrightarrow>
     (\<forall>l. distinct (map asg_OrderOnResource (filter (\<lambda>a. lane a = l) asgs))) \<and>
     check_dep_orders (index_by asg_ActivityID asgs) ds = None"
proof -
  have "check_lanes (group_by lane (\<lambda>a. a) asgs) (in_order ord (keys (group_by lane (\<lambda>a. a) asgs))) = None \<longleftrightarrow>
      (\<forall>l \<in> lane ` set asgs. distinct (map asg_OrderOnResource (filter (\<lambda>a. lane a = l) asgs)))"
    by (simp add: check_lanes_None get_list_group_by del: set_map)
  also have "\<dots> \<longleftrightarrow> (\<forall>l. distinct (map asg_OrderOnResource (filter (\<lambda>a. lane a = l) asgs)))"
    by (metis (mono_tags, lifting) distinct.simps(1) filter_False imageI list.simps(8))
  finally show ?thesis by (auto simp: validateResourceOrders_def Let_def split: option.split)
qed

text \<open>The placements the loop over the assignments accepts.\<close>

definition placed :: "ExecutionScope \<Rightarrow> (string, Activity) gomap \<Rightarrow> (string, Resource) gomap \<Rightarrow> PlanAssignment \<Rightarrow> bool" where
  "placed scope activityByID resourceByID asg \<longleftrightarrow>
     (\<exists>activity resource. map_of activityByID (asg_ActivityID asg) = Some activity \<and>
        map_of resourceByID (asg_ResourceID asg) = Some resource \<and> check_placement scope asg activity resource = None)"

lemma check_assignments_Inr:
  "(\<exists>m. check_assignments scope acts ress asgs d = Inr m) \<longleftrightarrow>
     (\<forall>a \<in> set asgs. placed scope acts ress a) \<and> distinct (map asg_ActivityID asgs) \<and>
     (\<forall>a \<in> set asgs. map_of d (asg_ActivityID a) = None)"
proof (induction asgs arbitrary: d)
  case (Cons a asgs)
  show ?case
  proof (cases "placed scope acts ress a \<and> map_of d (asg_ActivityID a) = None")
    case True
    then have "check_assignments scope acts ress (a # asgs) d =
        check_assignments scope acts ress asgs (put (asg_ActivityID a) a d)"
      by (auto simp: placed_def)
    then show ?thesis using Cons.IH [of "put (asg_ActivityID a) a d"] True by (auto simp: image_iff)
  next
    case False
    then show ?thesis by (auto simp: placed_def split: option.splits)
  qed
qed simp

lemma check_assignments_keys:
  "check_assignments scope acts ress asgs d = Inr m \<Longrightarrow>
     set (keys m) = set (keys d) \<union> asg_ActivityID ` set asgs \<and> (gomap_ok d \<longrightarrow> gomap_ok m)"
proof (induction asgs arbitrary: d)
  case (Cons a asgs)
  then have "check_assignments scope acts ress asgs (put (asg_ActivityID a) a d) = Inr m"
    by (auto split: option.splits if_splits)
  from Cons.IH [OF this] show ?case by (auto simp: set_keys_put simp del: set_map)
qed simp

lemma placed_activity: "placed scope (index_by act_ID as) ress a \<Longrightarrow> asg_ActivityID a \<in> act_ID ` set as"
  using map_of_index_by_Some [of act_ID as "asg_ActivityID a"] by (force simp: placed_def)

lemma coverage_iff:
  assumes "check_assignments scope (index_by act_ID as) ress asgs [] = Inr m"
  shows "length m = length (index_by act_ID as) \<longleftrightarrow> asg_ActivityID ` set asgs = act_ID ` set as"
proof -
  have k: "set (keys m) = asg_ActivityID ` set asgs" "gomap_ok m"
    using check_assignments_keys [OF assms] by (auto simp: gomap_ok_def)
  have "\<forall>a \<in> set asgs. placed scope (index_by act_ID as) ress a"
    using check_assignments_Inr [of scope "index_by act_ID as" ress asgs "[]"] assms by blast
  then have sub: "asg_ActivityID ` set asgs \<subseteq> act_ID ` set as" using placed_activity by blast
  have "length m = card (asg_ActivityID ` set asgs)" using gomap_length_card [OF k(2)] k(1) by simp
  moreover have "length (index_by act_ID as) = card (act_ID ` set as)"
    using gomap_length_card [of "index_by act_ID as"] by (metis gomap_ok_index_by set_keys_index_by)
  ultimately show ?thesis using sub card_subset_eq [OF _ sub] by auto
qed

section \<open>The specification of a valid plan\<close>

text \<open>The last value of a key, the one a Go map built in a loop holds.\<close>

definition last_with :: "('a \<Rightarrow> 'k) \<Rightarrow> 'a list \<Rightarrow> 'k \<Rightarrow> 'a option" where
  "last_with key vs k = List.find (\<lambda>v. key v = k) (rev vs)"

lemma map_of_index_by: "map_of (index_by key vs) k = last_with key vs k"
  by (induction vs rule: rev_induct) (auto simp: last_with_def)

definition fits :: "Activity \<Rightarrow> Resource \<Rightarrow> bool" where
  "fits activity resource \<longleftrightarrow> isSchedulerTarget resource \<or>
     \<not> flt (res_CPUCapacity resource) (ares_CPU (act_Resources activity)) \<and>
     ares_MemoryBytes (act_Resources activity) \<le> res_MemoryBytes resource"

definition selected :: "PlanAssignment \<Rightarrow> Activity \<Rightarrow> Resource \<Rightarrow> bool" where
  "selected asg activity resource \<longleftrightarrow>
     meta_string (act_Metadata activity) ''resourceSelector'' \<in> {'''', res_ID resource} \<or>
     meta_bool (asg_Metadata asg) ''resourceSelectorOverride''"

definition assignment_ok :: "WorkflowVersion \<Rightarrow> Resource list \<Rightarrow> ExecutionScope \<Rightarrow> PlanAssignment \<Rightarrow> bool" where
  "assignment_ok workflow resources scope asg \<longleftrightarrow>
     (\<exists>activity resource.
        last_with act_ID (wfv_Activities workflow) (asg_ActivityID asg) = Some activity \<and>
        last_with res_ID resources (asg_ResourceID asg) = Some resource \<and>
        res_EnvironmentVersionID resource \<in> set (scope_EnvironmentVersionIDs scope) \<and> res_Schedulable resource \<and>
        selected asg activity resource \<and> fits activity resource \<and>
        \<not> flt (asg_PredictedFinishAt asg) (asg_PredictedStartAt asg))"

definition same_lane :: "PlanAssignment \<Rightarrow> PlanAssignment \<Rightarrow> bool" where
  "same_lane a b \<longleftrightarrow> asg_ResourceID a = asg_ResourceID b \<and> asg_CoreID a = asg_CoreID b \<and> asg_SlotID a = asg_SlotID b"

definition plan_identified :: "SchedulePlan \<Rightarrow> WorkflowVersion \<Rightarrow> ExecutionScope \<Rightarrow> NetworkTopology \<Rightarrow> bool" where
  "plan_identified plan workflow scope topology \<longleftrightarrow>
     plan_WorkflowVersionID plan = wfv_ID workflow \<and> plan_NetworkTopologyID plan \<in> {'''', top_ID topology} \<and>
     plan_ExecutionScopeID plan \<noteq> '''' \<and> plan_ExecutionScopeID plan = scope_ID scope \<and>
     (top_ID topology = '''' \<or> plan_ExecutionScopeID plan = top_ExecutionScopeID topology)"

definition lanes_ordered :: "PlanAssignment list \<Rightarrow> ActivityDependency list \<Rightarrow> bool" where
  "lanes_ordered asgs deps \<longleftrightarrow>
     (\<forall>l. distinct (map asg_OrderOnResource (filter (\<lambda>a. lane a = l) asgs))) \<and>
     (\<forall>d \<in> set deps. \<forall>a p. last_with asg_ActivityID asgs (dep_ActivityID d) = Some a \<longrightarrow>
        last_with asg_ActivityID asgs (dep_DependsOnActivityID d) = Some p \<longrightarrow> same_lane a p \<longrightarrow>
        asg_OrderOnResource p < asg_OrderOnResource a)"

definition plan_ok :: "SchedulePlan \<Rightarrow> WorkflowVersion \<Rightarrow> Resource list \<Rightarrow> ExecutionScope \<Rightarrow> NetworkTopology \<Rightarrow> bool" where
  "plan_ok plan workflow resources scope topology \<longleftrightarrow>
     plan_identified plan workflow scope topology \<and>
     (\<forall>asg \<in> set (plan_Assignments plan). assignment_ok workflow resources scope asg) \<and>
     distinct (map asg_ActivityID (plan_Assignments plan)) \<and>
     asg_ActivityID ` set (plan_Assignments plan) = act_ID ` set (wfv_Activities workflow) \<and>
     dag workflow \<and> lanes_ordered (plan_Assignments plan) (wfv_Dependencies workflow)"

lemma check_placement_None:
  "check_placement scope asg activity resource = None \<longleftrightarrow>
     res_EnvironmentVersionID resource \<in> set (scope_EnvironmentVersionIDs scope) \<and> res_Schedulable resource \<and>
     selected asg activity resource \<and> fits activity resource \<and> \<not> flt (asg_PredictedFinishAt asg) (asg_PredictedStartAt asg)"
  by (auto simp: check_placement_def Let_def fits_def selected_def)

lemma placed_iff:
  "placed scope (index_by act_ID (wfv_Activities workflow)) (index_by res_ID resources) asg \<longleftrightarrow>
     assignment_ok workflow resources scope asg"
  by (simp add: placed_def assignment_ok_def map_of_index_by check_placement_None)

lemma last_with_ex: "x \<in> set vs \<Longrightarrow> \<exists>v. last_with key vs (key x) = Some v"
  using map_of_index_by_ex [of x vs key] by (simp add: map_of_index_by)

lemma resource_orders_iff:
  assumes "known_endpoints workflow" and "asg_ActivityID ` set asgs = act_ID ` set (wfv_Activities workflow)"
  shows "validateResourceOrders ord asgs (wfv_Dependencies workflow) = None \<longleftrightarrow>
    lanes_ordered asgs (wfv_Dependencies workflow)"
proof -
  have "\<exists>a p. last_with asg_ActivityID asgs (dep_ActivityID d) = Some a \<and>
      last_with asg_ActivityID asgs (dep_DependsOnActivityID d) = Some p" if "d \<in> set (wfv_Dependencies workflow)" for d
    using that assms last_with_ex [of _ asgs asg_ActivityID] unfolding known_endpoints_def by (metis imageE)
  then show ?thesis
    by (fastforce simp: validateResourceOrders_None lanes_ordered_def check_dep_orders_None asg_for_def
        map_of_index_by same_lane_def Let_def)
qed

lemma plan_Validate_iff:
  "plan_Validate ord plan workflow resources scope topology = None \<longleftrightarrow> plan_ok plan workflow resources scope topology"
proof (cases "plan_identified plan workflow scope topology")
  case True
  let ?acts = "index_by act_ID (wfv_Activities workflow)"
  let ?r = "check_assignments scope ?acts (index_by res_ID resources) (plan_Assignments plan) []"
  have v: "plan_Validate ord plan workflow resources scope topology = (case ?r of
      Inl e \<Rightarrow> Some e
    | Inr m \<Rightarrow> if length m \<noteq> length ?acts
        then Some (Errorf ''plan covers %d of %d activities'' [FmtD (int (length m)), FmtD (int (length ?acts))])
        else case validateDAG ord workflow of Some e \<Rightarrow> Some e
           | None \<Rightarrow> validateResourceOrders ord (plan_Assignments plan) (wfv_Dependencies workflow))"
    using True unfolding plan_Validate_def plan_identified_def by (auto simp: Let_def)
  have ex: "(\<exists>m. ?r = Inr m) \<longleftrightarrow> (\<forall>asg \<in> set (plan_Assignments plan). assignment_ok workflow resources scope asg) \<and>
      distinct (map asg_ActivityID (plan_Assignments plan))"
    by (simp add: check_assignments_Inr placed_iff)
  show ?thesis
  proof (cases ?r)
    case (Inl e)
    then show ?thesis using v ex by (auto simp: plan_ok_def)
  next
    case (Inr m)
    then show ?thesis
      using v ex True coverage_iff [OF Inr] validateDAG_iff [of ord workflow] resource_orders_iff [of workflow]
      by (auto simp: plan_ok_def dag_def split: option.split)
  qed
next
  case False
  then show ?thesis by (auto simp: plan_Validate_def plan_ok_def plan_identified_def)
qed

end
