(* ===== verification/Supervisor.thy ===== *)
theory Supervisor
  imports Plan_Validator
begin

text \<open>
  The execution supervisor, \<^verbatim>\<open>internal/controlplane/execution/supervisor.go\<close>.

  The interfaces the supervisor calls (the execution store, the activity controller, the simulator,
  the preparation coordinator) are records of operations over a world \<open>'w\<close>, as are the clock, the
  cancellation of the context and the order in which a Go map is visited. The maps of
  \<^verbatim>\<open>executeActivities\<close> are the fields of \<open>ExecState\<close>; one round of its loop is \<open>exec_round\<close>, and
  the loop runs with fuel. A nil result that the code dereferences and a slice bound out of range
  are panics.
\<close>

section \<open>Interfaces\<close>

record 'w ExecutionStore =
  xs_Save :: "ActivityHandle \<Rightarrow> 'w \<Rightarrow> error option \<times> 'w"
  xs_CreateRun :: "ExecutionRun \<Rightarrow> 'w \<Rightarrow> error option \<times> 'w"
  xs_SaveTask :: "TaskExecution \<Rightarrow> 'w \<Rightarrow> error option \<times> 'w"
  xs_CompleteRun :: "ExecutionTrace \<Rightarrow> 'w \<Rightarrow> error option \<times> 'w"
  xs_FailRun :: "string \<Rightarrow> string \<Rightarrow> 'w \<Rightarrow> error option \<times> 'w"

record 'w ActivityController =
  ac_Start :: "ActivityExecutionContext \<Rightarrow> 'w \<Rightarrow> ActivityHandle result \<times> 'w"
  ac_Inspect :: "string \<Rightarrow> ExecutionMode \<Rightarrow> 'w \<Rightarrow> ActivityHandle option result \<times> 'w"

record 'w SupervisorConfig =
  sc_PollInterval :: int
  sc_MaxParallel :: int
  sc_Preparer :: "(string \<Rightarrow> PreparationRequirement \<Rightarrow> 'w \<Rightarrow> PreparationGate option result \<times> 'w) option"

text \<open>
  The last four fields are the process: the clock (\<^verbatim>\<open>unixNow\<close>), \<^verbatim>\<open>ctx.Err()\<close>, the wait of the
  polling loop, which a cancellation ends with an error, and the order of a \<^verbatim>\<open>range\<close>.
\<close>

record 'w Supervisor =
  sup_executions :: "'w ExecutionStore"
  sup_activities :: "'w ActivityController"
  sup_simulation :: "ExecutionRequest \<Rightarrow> 'w \<Rightarrow> ExecutionTrace result \<times> 'w"
  sup_config :: "'w SupervisorConfig"
  sup_unixNow :: "'w \<Rightarrow> float64 \<times> 'w"
  sup_ctxErr :: "'w \<Rightarrow> error option"
  sup_wait :: "'w \<Rightarrow> error option \<times> 'w"
  sup_range :: "'w \<Rightarrow> string list \<Rightarrow> string list"

definition supervisor_config :: "'w SupervisorConfig \<Rightarrow> 'w SupervisorConfig" where
  "supervisor_config config =
     (let c = (if sc_PollInterval config \<le> 0 then config\<lparr>sc_PollInterval := 1000000000\<rparr> else config)
      in if sc_MaxParallel c \<le> 0 then c\<lparr>sc_MaxParallel := 8\<rparr> else c)"

definition supervisor_New ::
  "'w ExecutionStore option \<Rightarrow> 'w ActivityController option \<Rightarrow>
   (ExecutionRequest \<Rightarrow> 'w \<Rightarrow> ExecutionTrace result \<times> 'w) option \<Rightarrow> 'w SupervisorConfig \<Rightarrow>
   ('w \<Rightarrow> float64 \<times> 'w) \<Rightarrow> ('w \<Rightarrow> error option) \<Rightarrow> ('w \<Rightarrow> error option \<times> 'w) \<Rightarrow> ('w \<Rightarrow> string list \<Rightarrow> string list) \<Rightarrow>
   'w Supervisor result"
where
  "supervisor_New executions activities simulation config clock ctxErr pause visit =
     (case (executions, activities, simulation) of
        (Some x, Some a, Some s) \<Rightarrow>
          Ok \<lparr>sup_executions = x, sup_activities = a, sup_simulation = s, sup_config = supervisor_config config,
              sup_unixNow = clock, sup_ctxErr = ctxErr, sup_wait = pause, sup_range = visit\<rparr>
      | _ \<Rightarrow> Err (Errorf ''execution repository, activity controller and simulator are required'' []))"

section \<open>Timing of tasks\<close>

definition maxFloat :: "float64 \<Rightarrow> float64 \<Rightarrow> float64" where
  "maxFloat a b = (if flt b a then a else b)"

definition executionStartedAt :: "ActivityHandle \<Rightarrow> float64" where
  "executionStartedAt h =
     (case metadataFloat (hnd_Metadata h) ''containerStartedAt'' of
        Some c \<Rightarrow> if flt (hnd_StartedAt h) c then c else hnd_StartedAt h
      | None \<Rightarrow> hnd_StartedAt h)"

definition applyHandleTiming :: "TaskExecution \<Rightarrow> ActivityHandle \<Rightarrow> TaskExecution" where
  "applyHandleTiming task h =
     (let t1 = (case metadataFloat (hnd_Metadata h) ''submittedAt'' of
                  Some s \<Rightarrow> task\<lparr>task_QueuedAt := s, task_QueueSeconds := maxFloat fzero (fsub (hnd_StartedAt h) s)\<rparr>
                | None \<Rightarrow> task);
          t2 = (if flt fzero (hnd_StartedAt h) then t1\<lparr>task_StartedAt := hnd_StartedAt h\<rparr> else t1)
      in case metadataFloat (hnd_Metadata h) ''containerStartedAt'' of
           Some c \<Rightarrow> t2\<lparr>task_OverheadSeconds := maxFloat fzero (fsub c (hnd_StartedAt h))\<rparr>
         | None \<Rightarrow> t2)"

definition completeTask :: "TaskExecution \<Rightarrow> ActivityHandle \<Rightarrow> TaskExecution" where
  "completeTask task h =
     (applyHandleTiming (task\<lparr>task_Status := TaskCompleted, task_FinishedAt := hnd_FinishedAt h\<rparr>) h)
       \<lparr>task_RuntimeSeconds := maxFloat fzero (fsub (hnd_FinishedAt h) (executionStartedAt h))\<rparr>"

definition newRunningTask ::
  "float64 \<Rightarrow> string \<Rightarrow> string \<Rightarrow> PlanAssignment \<Rightarrow> Resource \<Rightarrow> ActivityHandle \<Rightarrow> float64 \<Rightarrow> PreparationGate option \<Rightarrow> TaskExecution"
where
  "newRunningTask now runID activityID asg resource handle readyAt preparation =
     (let task = zero_task\<lparr>task_ID := runID @ '':'' @ activityID, task_ExecutionRunID := runID,
            task_PlanAssignmentID := asg_ID asg, task_ActivityID := activityID,
            task_PlannedResourceID := asg_ResourceID asg, task_AllocatedResourceID := res_ID resource,
            task_Attempt := 1, task_Status := TaskRunning, task_ReadyAt := readyAt, task_DataReadyAt := now,
            task_QueuedAt := hnd_StartedAt handle, task_StartedAt := hnd_StartedAt handle\<rparr>
      in case preparation of
           None \<Rightarrow> task
         | Some gate \<Rightarrow>
             foldl (\<lambda>t x. t\<lparr>task_TransferSeconds := fadd (task_TransferSeconds t)
                               (maxFloat fzero (fsub (tr_FinishedAt x) (tr_StartedAt x))),
                             task_TransferBytes := wrap64 (task_TransferBytes t + tr_TransferredBytes x)\<rparr>)
               task (gate_TransferRuns gate))"

definition transferObservations :: "string \<Rightarrow> string \<Rightarrow> string \<Rightarrow> DataTransferRun list \<Rightarrow> DataTransfer list" where
  "transferObservations runID activityID resourceID observations =
     map (\<lambda>x. \<lparr>dt_ID = runID @ '':'' @ activityID @ '':'' @ tr_ID x, dt_ExecutionRunID = runID,
               dt_ProducerActivityID = '''', dt_ConsumerActivityID = activityID, dt_SourceResourceID = resourceID,
               dt_TargetResourceID = resourceID, dt_Bytes = tr_TransferredBytes x, dt_StartedAt = tr_StartedAt x,
               dt_FinishedAt = tr_FinishedAt x,
               dt_DurationSeconds = maxFloat fzero (fsub (tr_FinishedAt x) (tr_StartedAt x)), dt_Cost = fzero\<rparr>)
       observations"

section \<open>Selecting a runtime\<close>

fun select_loop ::
  "RuntimeMode \<Rightarrow> (string, EnvironmentRuntime) gomap \<Rightarrow> string \<Rightarrow> string \<Rightarrow> ResourceRuntimeBinding list \<Rightarrow> string"
where
  "select_loop mode runtimes resourceID chosen [] = ''''"
| "select_loop mode runtimes resourceID chosen (b # bs) =
     (if bind_ResourceID b \<noteq> resourceID \<or> \<not> bind_Enabled b then select_loop mode runtimes resourceID chosen bs
      else case map_of runtimes (bind_RuntimeID b) of
             None \<Rightarrow> select_loop mode runtimes resourceID chosen bs
           | Some rt \<Rightarrow>
               if ert_Mode rt = mode then
                 (if chosen \<noteq> '''' \<and> ert_ID rt \<noteq> chosen then select_loop mode runtimes resourceID chosen bs
                  else ert_ID rt)
               else select_loop mode runtimes resourceID chosen bs)"

definition selectRuntime :: "ExecutionRequest \<Rightarrow> PlanAssignment \<Rightarrow> string" where
  "selectRuntime request asg =
     (let runtimeMode = (if run_Mode (er_Run request) = ExecutionModeSimulation then RuntimeModeSimulation
                         else RuntimeModeExecution)
      in select_loop runtimeMode (index_by ert_ID (er_Runtimes request)) (asg_ResourceID asg)
           (meta_string (asg_Metadata asg) ''runtimeId'') (er_RuntimeBindings request))"

fun check_runtimes :: "ExecutionRequest \<Rightarrow> PlanAssignment list \<Rightarrow> error option" where
  "check_runtimes request [] = None"
| "check_runtimes request (a # as) =
     (if selectRuntime request a = '''' then
        Some (Errorf ''resource %q has no enabled runtime for %q mode''
                [FmtS (asg_ResourceID a), FmtS (mode_text (run_Mode (er_Run request)))])
      else check_runtimes request as)"

definition validateRequest :: "ExecutionRequest \<Rightarrow> error option" where
  "validateRequest request =
     (if run_ID (er_Run request) = '''' \<or> plan_ID (er_Plan request) = '''' \<or> wfv_ID (er_Workflow request) = '''' then
        Some (Errorf ''run, plan and workflow identifiers are required'' [])
      else if run_Mode (er_Run request) \<notin> {ExecutionModeReal, ExecutionModeSimulation, ExecutionModeInteractive} then
        Some (Errorf ''unsupported execution mode %q'' [FmtS (mode_text (run_Mode (er_Run request)))])
      else if length (plan_Assignments (er_Plan request)) \<noteq> length (wfv_Activities (er_Workflow request)) then
        Some (Errorf ''plan must assign every activity exactly once'' [])
      else check_runtimes request (plan_Assignments (er_Plan request)))"

section \<open>The state of a run\<close>

record ExecState =
  es_completed :: "(string, TaskExecution) gomap"
  es_running :: "(string, ActivityHandle) gomap"
  es_tasks :: "(string, TaskExecution) gomap"
  es_transfers :: "DataTransfer list"

definition init_state :: ExecState where
  "init_state = \<lparr>es_completed = [], es_running = [], es_tasks = [], es_transfers = []\<rparr>"

definition task_of :: "ExecState \<Rightarrow> string \<Rightarrow> TaskExecution" where
  "task_of st k = (case map_of (es_tasks st) k of None \<Rightarrow> zero_task | Some t \<Rightarrow> t)"

definition predecessors_of :: "ExecutionRequest \<Rightarrow> (string, string list) gomap" where
  "predecessors_of request =
     group_by dep_ActivityID dep_DependsOnActivityID (wfv_Dependencies (er_Workflow request))"

definition readyActivities ::
  "(string, Activity) gomap \<Rightarrow> (string, string list) gomap \<Rightarrow> ExecState \<Rightarrow> string list"
where
  "readyActivities activities predecessors st =
     sort (filter (\<lambda>k. map_of (es_completed st) k = None \<and> map_of (es_running st) k = None \<and>
                       map_of (es_tasks st) k = None \<and>
                       (\<forall>p \<in> set (get_list predecessors k). map_of (es_completed st) p \<noteq> None))
             (keys activities))"

definition runningTrace :: "ExecutionRequest \<Rightarrow> ExecState \<Rightarrow> ExecutionTrace" where
  "runningTrace request st =
     \<lparr>tra_RunID = run_ID (er_Run request), tra_PlanID = plan_ID (er_Plan request), tra_Mode = run_Mode (er_Run request),
      tra_Predicted = plan_Predicted (er_Plan request), tra_Executed = zero_metrics,
      tra_Tasks = sort_key task_ActivityID (map snd (es_tasks st)), tra_Transfers = es_transfers st\<rparr>"

fun trace_totals :: "TaskExecution list \<Rightarrow> float64 \<Rightarrow> float64 \<Rightarrow> ExecutionMetrics \<Rightarrow> float64 \<times> float64 \<times> ExecutionMetrics" where
  "trace_totals [] firstStart lastFinish m = (firstStart, lastFinish, m)"
| "trace_totals (t # ts) firstStart lastFinish m =
     trace_totals ts
       (if feq firstStart fzero \<or> flt (task_StartedAt t) firstStart then task_StartedAt t else firstStart)
       (maxFloat lastFinish (task_FinishedAt t))
       (m\<lparr>met_ComputeSeconds := fadd (met_ComputeSeconds m) (task_RuntimeSeconds t),
          met_TransferSeconds := fadd (met_TransferSeconds m) (task_TransferSeconds t),
          met_QueueSeconds := fadd (met_QueueSeconds m) (task_QueueSeconds t),
          met_Cost := fadd (met_Cost m) (task_Cost t)\<rparr>)"

definition completedTrace :: "ExecutionRequest \<Rightarrow> ExecState \<Rightarrow> ExecutionTrace" where
  "completedTrace request st =
     (let trace = runningTrace request st;
          (firstStart, lastFinish, m) =
            trace_totals (tra_Tasks trace) fzero fzero ((tra_Executed trace)\<lparr>met_Feasible := True\<rparr>)
      in trace\<lparr>tra_Executed := m\<lparr>met_MakespanSeconds := maxFloat fzero (fsub lastFinish firstStart)\<rparr>\<rparr>)"

section \<open>Inspecting the running activities\<close>

text \<open>
  The loop over the keys of \<^verbatim>\<open>running\<close>: deleting the key it visits does not disturb the iteration.
  On an error the maps are not read again, so only the error is returned.
\<close>

fun inspect_loop ::
  "'w Supervisor \<Rightarrow> ExecutionMode \<Rightarrow> string list \<Rightarrow> ExecState \<Rightarrow> 'w \<Rightarrow> ExecState result \<times> 'w"
where
  "inspect_loop sv mode [] st w = (Ok st, w)"
| "inspect_loop sv mode (k # ks) st w =
     (case map_of (es_running st) k of
        None \<Rightarrow> inspect_loop sv mode ks st w
      | Some handle \<Rightarrow>
         (case ac_Inspect (sup_activities sv) (hnd_ID handle) mode w of
            (Err e, w1) \<Rightarrow> (Err (Errorf ''inspect activity %q: %w'' [FmtS k, FmtE e]), w1)
          | (Panic p, w1) \<Rightarrow> (Panic p, w1)
          | (Ok None, w1) \<Rightarrow> (Panic ''runtime error: nil pointer dereference'', w1)
          | (Ok (Some observed), w1) \<Rightarrow>
             (if hnd_Status observed = HandleCompleted then
                (let task = completeTask (task_of st k) observed in
                 case xs_SaveTask (sup_executions sv) task w1 of
                   (Some e, w2) \<Rightarrow> (Err e, w2)
                 | (None, w2) \<Rightarrow>
                     inspect_loop sv mode ks
                       (st\<lparr>es_tasks := put k task (es_tasks st), es_completed := put k task (es_completed st),
                           es_running := del k (es_running st)\<rparr>) w2)
              else if hnd_Status observed = HandleFailed \<or> hnd_Status observed = HandleStopped then
                (let task = (task_of st k)\<lparr>task_Status := TaskFailed, task_FailureReason := hnd_Failure observed\<rparr>;
                     (ignored, w2) = xs_SaveTask (sup_executions sv) task w1
                 in (Err (Errorf ''activity %q failed: %s'' [FmtS k, FmtS (hnd_Failure observed)]), w2))
              else inspect_loop sv mode ks st w1)))"

definition inspectRunning :: "'w Supervisor \<Rightarrow> ExecutionMode \<Rightarrow> ExecState \<Rightarrow> 'w \<Rightarrow> ExecState result \<times> 'w" where
  "inspectRunning sv mode st w =
     inspect_loop sv mode (in_order (sup_range sv w) (keys (es_running st))) st w"

section \<open>Starting activities\<close>

definition zero_handle :: ActivityHandle where
  "zero_handle = \<lparr>hnd_ID = '''', hnd_RunID = '''', hnd_ActivityID = '''', hnd_ResourceID = '''', hnd_RuntimeID = '''',
     hnd_ExternalID = '''', hnd_Status = HandleStatusOther '''', hnd_Endpoints = [], hnd_StartedAt = fzero,
     hnd_FinishedAt = fzero, hnd_ExitCode = None, hnd_Failure = '''', hnd_Log = '''', hnd_Artifacts = None,
     hnd_Metadata = []\<rparr>"

definition recordStartFailure ::
  "'w Supervisor \<Rightarrow> string \<Rightarrow> string \<Rightarrow> PlanAssignment \<Rightarrow> Resource \<Rightarrow> string \<Rightarrow> error \<Rightarrow> 'w \<Rightarrow> error option \<times> 'w"
where
  "recordStartFailure sv runID activityID asg resource runtimeID err w =
     (let (now, w1) = sup_unixNow sv w;
          message = ''start activity: '' @ error_text err;
          handle = zero_handle\<lparr>hnd_ID := runID @ '':'' @ activityID, hnd_RunID := runID, hnd_ActivityID := activityID,
            hnd_ResourceID := res_ID resource, hnd_RuntimeID := runtimeID, hnd_Status := HandleFailed,
            hnd_StartedAt := now, hnd_FinishedAt := now, hnd_Failure := message,
            hnd_Log := ''[AKOFLOW ERROR] '' @ message @ [newline]\<rparr>
      in case xs_Save (sup_executions sv) handle w1 of
           (Some e, w2) \<Rightarrow> (Some e, w2)
         | (None, w2) \<Rightarrow>
            (let (dataReady, w3) = sup_unixNow sv w2;
                 task = (newRunningTask dataReady runID activityID asg resource handle now None)
                   \<lparr>task_Status := TaskFailed, task_FinishedAt := now, task_FailureReason := message\<rparr>
             in xs_SaveTask (sup_executions sv) task w3))"

text \<open>
  \<^verbatim>\<open>prepareActivity\<close>: the artifact of the requirement is told its run and activity. The
  requirement of an activity is read once, when the activity is started.
\<close>

definition prepareActivity ::
  "'w Supervisor \<Rightarrow> string \<Rightarrow> string \<Rightarrow> PreparationRequirement \<Rightarrow> 'w \<Rightarrow> PreparationGate option result \<times> 'w"
where
  "prepareActivity sv runID activityID requirement w =
     (case sc_Preparer (sup_config sv) of
        None \<Rightarrow> (Err (Errorf ''activity %q requires materialization but no preparation coordinator is configured''
                       [FmtS activityID]), w)
      | Some prepare \<Rightarrow>
          prepare activityID
            (requirement\<lparr>req_Artifact :=
               map_option (\<lambda>m. m\<lparr>mat_RunID := runID, mat_ActivityID := activityID\<rparr>) (req_Artifact requirement)\<rparr>) w)"

text \<open>
  The first half of the loop body of \<^verbatim>\<open>startReadyActivities\<close>: what the activity needs before it
  starts, with the transfers to record. A required gate that is nil is dereferenced.
\<close>

definition prepare_start ::
  "'w Supervisor \<Rightarrow> ExecutionRequest \<Rightarrow> string \<Rightarrow> Activity \<Rightarrow> PlanAssignment \<Rightarrow> Resource \<Rightarrow> 'w \<Rightarrow>
   (PreparationGate option \<times> DataTransfer list) result \<times> 'w"
where
  "prepare_start sv request k activity asg resource w =
     (let runID = run_ID (er_Run request);
          fail = (\<lambda>failure w. (Err failure,
            snd (recordStartFailure sv runID k asg resource (selectRuntime request asg) failure w)))
      in case map_of (er_PreparationRequirementsByActivity request) k of
           Some requirement \<Rightarrow>
             (case prepareActivity sv runID k requirement w of
                (Err e, w1) \<Rightarrow> fail (Errorf ''prepare activity %q: %w'' [FmtS k, FmtE e]) w1
              | (Panic p, w1) \<Rightarrow> (Panic p, w1)
              | (Ok None, w1) \<Rightarrow> (Panic ''runtime error: nil pointer dereference'', w1)
              | (Ok (Some gate), w1) \<Rightarrow>
                  (Ok (Some gate, transferObservations runID k (res_ID resource) (gate_TransferRuns gate)), w1))
         | None \<Rightarrow>
             (if (case cmd_Executable (act_Command activity) of
                    None \<Rightarrow> False | Some ref \<Rightarrow> src_Type (ref_Source ref) = ExecutableSourceBuild) then
                fail (Errorf ''activity %q has an executable reference but no preparation requirement'' [FmtS k]) w
              else (Ok (None, []), w)))"

definition start_one ::
  "'w Supervisor \<Rightarrow> ExecutionRequest \<Rightarrow> string \<Rightarrow> Activity \<Rightarrow> PlanAssignment \<Rightarrow> Resource \<Rightarrow> float64 \<Rightarrow> ExecState \<Rightarrow> 'w \<Rightarrow>
   ExecState result \<times> 'w"
where
  "start_one sv request k activity asg resource readyAt st w =
     (let runID = run_ID (er_Run request); runtimeID = selectRuntime request asg in
      case prepare_start sv request k activity asg resource w of
        (Err e, w1) \<Rightarrow> (Err e, w1)
      | (Panic p, w1) \<Rightarrow> (Panic p, w1)
      | (Ok (preparation, observed), w1) \<Rightarrow>
         (let st1 = st\<lparr>es_transfers := es_transfers st @ observed\<rparr> in
          case ac_Start (sup_activities sv)
                 \<lparr>ctx_Run = er_Run request, ctx_Workflow = er_Workflow request, ctx_Activity = activity,
                  ctx_Assignment = asg, ctx_Resource = resource, ctx_RuntimeID = runtimeID,
                  ctx_Preparation = preparation\<rparr> w1 of
            (Err e, w2) \<Rightarrow>
              (Err (Errorf ''start activity %q: %w'' [FmtS k, FmtE e]),
               snd (recordStartFailure sv runID k asg resource runtimeID e w2))
          | (Panic p, w2) \<Rightarrow> (Panic p, w2)
          | (Ok handle, w2) \<Rightarrow>
             (let (dataReady, w3) = sup_unixNow sv w2;
                  task0 = newRunningTask dataReady runID k asg resource handle readyAt preparation;
                  finished = (hnd_Status handle = HandleCompleted);
                  task = (if finished then completeTask task0 handle else task0);
                  st2 = (if finished then
                           st1\<lparr>es_tasks := put k task (es_tasks st1), es_completed := put k task (es_completed st1),
                               es_running := del k (put k handle (es_running st1))\<rparr>
                         else st1\<lparr>es_tasks := put k task (es_tasks st1), es_running := put k handle (es_running st1)\<rparr>)
              in case xs_SaveTask (sup_executions sv) task w3 of
                   (Some e, w4) \<Rightarrow> (Err e, w4)
                 | (None, w4) \<Rightarrow> (Ok st2, w4))))"

text \<open>Reading a missing key gives the zero activity.\<close>

definition zero_activity :: Activity where
  "zero_activity = \<lparr>act_ID = '''', act_WorkflowVersionID = '''', act_ActivityTypeID = '''', act_ExternalID = '''',
     act_Name = '''', act_Kind = ActivityKindOther '''', act_Capabilities = [],
     act_Command = \<lparr>cmd_Image = '''', cmd_Executable = None, cmd_ResolvedExecutable = None, cmd_Entrypoint = '''',
       cmd_Arguments = [], cmd_Environment = [], cmd_WorkingDirectory = ''''\<rparr>,
     act_Resources = \<lparr>ares_CPU = fzero, ares_MemoryBytes = 0, ares_StorageBytes = 0, ares_GPU = 0\<rparr>,
     act_Service = None, act_Simulation = None,
     act_Policy = \<lparr>pol_TimeoutSeconds = fzero, pol_MaxAttempts = 0, pol_RetryDelaySeconds = fzero\<rparr>,
     act_Priority = 0, act_Metadata = []\<rparr>"

definition activity_for :: "(string, Activity) gomap \<Rightarrow> string \<Rightarrow> Activity" where
  "activity_for m k = (case map_of m k of None \<Rightarrow> zero_activity | Some a \<Rightarrow> a)"

fun startReadyActivities ::
  "'w Supervisor \<Rightarrow> ExecutionRequest \<Rightarrow> (string, Activity) gomap \<Rightarrow> (string, PlanAssignment) gomap \<Rightarrow>
   (string, Resource) gomap \<Rightarrow> string list \<Rightarrow> ExecState \<Rightarrow> 'w \<Rightarrow> ExecState result \<times> 'w"
where
  "startReadyActivities sv request activities assignments resources [] st w = (Ok st, w)"
| "startReadyActivities sv request activities assignments resources (k # ks) st w =
     (let (readyAt, w0) = sup_unixNow sv w;
          asg = asg_for assignments k
      in case map_of resources (asg_ResourceID asg) of
           None \<Rightarrow>
             (let failure = Errorf ''resource %q not found'' [FmtS (asg_ResourceID asg)]
              in (Err failure,
                  snd (recordStartFailure sv (run_ID (er_Run request)) k asg
                         (zero_resource\<lparr>res_ID := asg_ResourceID asg\<rparr>) (selectRuntime request asg) failure w0)))
         | Some resource \<Rightarrow>
             (case start_one sv request k (activity_for activities k) asg resource readyAt st w0 of
                (Ok st1, w1) \<Rightarrow> startReadyActivities sv request activities assignments resources ks st1 w1
              | (Err e, w1) \<Rightarrow> (Err e, w1)
              | (Panic p, w1) \<Rightarrow> (Panic p, w1)))"

section \<open>The loop\<close>

datatype round_result = Again ExecState | Return "ExecutionTrace result"

text \<open>
  One round of \<^verbatim>\<open>executeActivities\<close>, from the test of the loop to the wait. The slice
  \<^verbatim>\<open>ready[:available]\<close> panics when \<open>available\<close> is negative.
\<close>

definition exec_round :: "'w Supervisor \<Rightarrow> ExecutionRequest \<Rightarrow> ExecState \<Rightarrow> 'w \<Rightarrow> round_result \<times> 'w" where
  "exec_round sv request st w =
     (let activities = index_by act_ID (wfv_Activities (er_Workflow request));
          resources = index_by res_ID (er_Resources request);
          assignments = index_by asg_ActivityID (plan_Assignments (er_Plan request))
      in if \<not> length (es_completed st) < length activities then (Return (Ok (completedTrace request st)), w)
         else case sup_ctxErr sv w of
           Some e \<Rightarrow> (Return (Err e), w)
         | None \<Rightarrow>
          (case inspectRunning sv (run_Mode (er_Run request)) st w of
             (Err e, w1) \<Rightarrow> (Return (Err e), w1)
           | (Panic p, w1) \<Rightarrow> (Return (Panic p), w1)
           | (Ok st1, w1) \<Rightarrow>
              (if run_Mode (er_Run request) = ExecutionModeInteractive \<and> es_running st1 \<noteq> [] then
                 (Return (Ok (runningTrace request st1)), w1)
               else
               (let ready = readyActivities activities (predecessors_of request) st1;
                    free = sc_MaxParallel (sup_config sv) - int (length (es_running st1));
                    available = (if free > int (length ready) then int (length ready) else free)
                in if available < 0 then (Return (Panic ''runtime error: slice bounds out of range''), w1)
                   else case startReadyActivities sv request activities assignments resources
                               (take (nat available) ready) st1 w1 of
                     (Err e, w2) \<Rightarrow> (Return (Err e), w2)
                   | (Panic p, w2) \<Rightarrow> (Return (Panic p), w2)
                   | (Ok st2, w2) \<Rightarrow>
                      (if es_running st2 = [] \<and> ready = [] \<and> length (es_completed st2) < length activities then
                         (Return (Err (Errorf ''execution cannot progress: dependency cycle or incomplete plan'' [])), w2)
                       else if es_running st2 \<noteq> [] then
                         (case sup_wait sv w2 of
                            (Some e, w3) \<Rightarrow> (Return (Err e), w3)
                          | (None, w3) \<Rightarrow> (Again st2, w3))
                       else (Again st2, w2))))))"

fun exec_loop :: "nat \<Rightarrow> 'w Supervisor \<Rightarrow> ExecutionRequest \<Rightarrow> ExecState \<Rightarrow> 'w \<Rightarrow> (ExecutionTrace result \<times> 'w) option" where
  "exec_loop 0 sv request st w = None"
| "exec_loop (Suc fuel) sv request st w =
     (case exec_round sv request st w of
        (Return r, w1) \<Rightarrow> Some (r, w1)
      | (Again st1, w1) \<Rightarrow> exec_loop fuel sv request st1 w1)"

definition executeActivities :: "nat \<Rightarrow> 'w Supervisor \<Rightarrow> ExecutionRequest \<Rightarrow> 'w \<Rightarrow> (ExecutionTrace result \<times> 'w) option" where
  "executeActivities fuel sv request w = exec_loop fuel sv request init_state w"

section \<open>Execute\<close>

text \<open>The deferred \<^verbatim>\<open>FailRun\<close> runs whenever the error of the function is set.\<close>

definition fail_run :: "'w Supervisor \<Rightarrow> string \<Rightarrow> error \<Rightarrow> 'w \<Rightarrow> 'a result \<times> 'w" where
  "fail_run sv runID err w = (Err err, snd (xs_FailRun (sup_executions sv) runID (error_text err) w))"

definition supervisor_Execute :: "nat \<Rightarrow> 'w Supervisor \<Rightarrow> ExecutionRequest \<Rightarrow> 'w \<Rightarrow> (ExecutionTrace result \<times> 'w) option" where
  "supervisor_Execute fuel sv request0 w =
     (let request = request0\<lparr>er_Run := (er_Run request0)\<lparr>run_SchedulePlanID := plan_ID (er_Plan request0),
                                                        run_Status := ExecutionRunRunning\<rparr>\<rparr>;
          runID = run_ID (er_Run request)
      in case validateRequest request of
           Some e \<Rightarrow> Some (Err e, w)
         | None \<Rightarrow>
          (case xs_CreateRun (sup_executions sv) (er_Run request) w of
             (Some e, w1) \<Rightarrow> Some (Err (Errorf ''create execution run: %w'' [FmtE e]), w1)
           | (None, w1) \<Rightarrow>
              (case (if run_Mode (er_Run request) = ExecutionModeSimulation then Some (sup_simulation sv request w1)
                     else executeActivities fuel sv request w1) of
                 None \<Rightarrow> None
               | Some (Err e, w2) \<Rightarrow> Some (fail_run sv runID e w2)
               | Some (Panic p, w2) \<Rightarrow> Some (Panic p, w2)
               | Some (Ok trace, w2) \<Rightarrow>
                   (if run_Mode (er_Run request) = ExecutionModeInteractive then Some (Ok trace, w2)
                    else case xs_CompleteRun (sup_executions sv) trace w2 of
                      (Some e, w3) \<Rightarrow> Some (fail_run sv runID (Errorf ''complete execution run: %w'' [FmtE e]) w3)
                    | (None, w3) \<Rightarrow> Some (Ok trace, w3)))))"

end
