(* ===== verification/Supervisor_Invariant.thy ===== *)
theory Supervisor_Invariant
  imports Supervisor
begin

text \<open>
  The invariant of the maps of \<^verbatim>\<open>executeActivities\<close>, kept by each operation and so by each round:
  every attempted activity is either running or completed and never both, its predecessors are
  completed, and at most \<^verbatim>\<open>MaxParallel\<close> activities run. It follows that the slice of the ready
  activities is in range and, for an acyclic workflow, that the loop never stalls.
\<close>

section \<open>Names\<close>

definition done_of :: "ExecState \<Rightarrow> string set" where
  "done_of st = set (keys (es_completed st))"

definition live_of :: "ExecState \<Rightarrow> string set" where
  "live_of st = set (keys (es_running st))"

definition tried_of :: "ExecState \<Rightarrow> string set" where
  "tried_of st = set (keys (es_tasks st))"

lemmas names_defs = done_of_def live_of_def tried_of_def

lemma names_map_of:
  "map_of (es_completed st) k = None \<longleftrightarrow> k \<notin> done_of st"
  "map_of (es_running st) k = None \<longleftrightarrow> k \<notin> live_of st"
  "map_of (es_tasks st) k = None \<longleftrightarrow> k \<notin> tried_of st"
  by (simp_all add: names_defs map_of_None_keys del: set_map)

lemma names_transfers [simp]:
  "done_of (st\<lparr>es_transfers := ts\<rparr>) = done_of st"
  "live_of (st\<lparr>es_transfers := ts\<rparr>) = live_of st"
  "tried_of (st\<lparr>es_transfers := ts\<rparr>) = tried_of st"
  by (simp_all add: names_defs)

abbreviation activities_of :: "ExecutionRequest \<Rightarrow> (string, Activity) gomap" where
  "activities_of request \<equiv> index_by act_ID (wfv_Activities (er_Workflow request))"

definition preds_of :: "ExecutionRequest \<Rightarrow> string \<Rightarrow> string set" where
  "preds_of request k = {p. (p, k) \<in> set (edges (wfv_Dependencies (er_Workflow request)))}"

lemma predecessors_of_set [simp]: "set (get_list (predecessors_of request) k) = preds_of request k"
  by (force simp: predecessors_of_def get_list_group_by preds_of_def edges_def)

lemma put_put [simp]: "put k v (put k u m) = put k v m"
  by (induction m) auto

lemma del_put [simp]: "del k (put k v m) = del k m"
  by (induction m) (auto simp: AList.delete_eq)

section \<open>The invariant\<close>

definition maps_ok :: "ExecState \<Rightarrow> bool" where
  "maps_ok st \<longleftrightarrow> gomap_ok (es_completed st) \<and> gomap_ok (es_running st) \<and> gomap_ok (es_tasks st) \<and>
     done_of st \<inter> live_of st = {} \<and> done_of st \<union> live_of st = tried_of st"

definition tasks_ok :: "ExecState \<Rightarrow> bool" where
  "tasks_ok st \<longleftrightarrow> (\<forall>k t. map_of (es_tasks st) k = Some t \<longrightarrow> task_ActivityID t = k) \<and>
     (\<forall>k t. map_of (es_completed st) k = Some t \<longrightarrow> map_of (es_tasks st) k = Some t \<and> task_Status t = TaskCompleted)"

definition order_ok :: "ExecutionRequest \<Rightarrow> ExecState \<Rightarrow> bool" where
  "order_ok request st \<longleftrightarrow> tried_of st \<subseteq> act_ID ` set (wfv_Activities (er_Workflow request)) \<and>
     (\<forall>k \<in> tried_of st. preds_of request k \<subseteq> done_of st)"

definition exec_inv :: "ExecutionRequest \<Rightarrow> int \<Rightarrow> ExecState \<Rightarrow> bool" where
  "exec_inv request bound st \<longleftrightarrow> maps_ok st \<and> tasks_ok st \<and> order_ok request st \<and> int (length (es_running st)) \<le> bound"

lemma exec_inv_init: "0 \<le> bound \<Longrightarrow> exec_inv request bound init_state"
  by (simp add: exec_inv_def maps_ok_def tasks_ok_def order_ok_def init_state_def gomap_ok_def names_defs)

text \<open>The two ways the maps change.\<close>

definition finish_state :: "string \<Rightarrow> TaskExecution \<Rightarrow> ExecState \<Rightarrow> ExecState" where
  "finish_state k task st = st\<lparr>es_tasks := put k task (es_tasks st), es_completed := put k task (es_completed st),
     es_running := del k (es_running st)\<rparr>"

definition begin_state :: "string \<Rightarrow> ActivityHandle \<Rightarrow> TaskExecution \<Rightarrow> ExecState \<Rightarrow> ExecState" where
  "begin_state k handle task st = st\<lparr>es_tasks := put k task (es_tasks st), es_running := put k handle (es_running st)\<rparr>"

lemma finish_state_keys [simp]:
  "done_of (finish_state k task st) = insert k (done_of st)"
  "live_of (finish_state k task st) = live_of st - {k}"
  "tried_of (finish_state k task st) = insert k (tried_of st)"
  by (auto simp: finish_state_def names_defs set_keys_put set_keys_del simp del: set_map)

lemma begin_state_keys [simp]:
  "done_of (begin_state k handle task st) = done_of st"
  "live_of (begin_state k handle task st) = insert k (live_of st)"
  "tried_of (begin_state k handle task st) = insert k (tried_of st)"
  by (auto simp: begin_state_def names_defs set_keys_put simp del: set_map)

lemma exec_inv_finish:
  assumes "exec_inv request bound st" and "k \<in> live_of st" and "task_ActivityID task = k" and "task_Status task = TaskCompleted"
  shows "exec_inv request bound (finish_state k task st)"
proof -
  have "maps_ok (finish_state k task st)"
    using assms(1,2) unfolding exec_inv_def maps_ok_def finish_state_keys
    by (auto simp: finish_state_def)
  moreover have "tasks_ok (finish_state k task st)"
    using assms(1,3,4) by (auto simp: exec_inv_def tasks_ok_def finish_state_def)
  moreover have "order_ok request (finish_state k task st)"
    using assms(1,2) unfolding exec_inv_def maps_ok_def order_ok_def finish_state_keys by blast
  moreover have "length (del k (es_running st)) \<le> length (es_running st)" by (rule AList.length_delete_le)
  ultimately show ?thesis using assms(1) by (simp add: exec_inv_def finish_state_def)
qed

lemma exec_inv_begin:
  assumes "exec_inv request bound st" and "k \<notin> tried_of st" and "task_ActivityID task = k"
    and "k \<in> act_ID ` set (wfv_Activities (er_Workflow request))" and "preds_of request k \<subseteq> done_of st"
    and "int (length (es_running st)) < bound"
  shows "exec_inv request bound (begin_state k handle task st)"
proof -
  have n: "k \<notin> live_of st" "k \<notin> done_of st" using assms(1,2) unfolding exec_inv_def maps_ok_def by blast+
  have "maps_ok (begin_state k handle task st)"
    using assms(1) n unfolding exec_inv_def maps_ok_def begin_state_keys
    by (auto simp: begin_state_def)
  moreover have "map_of (es_completed st) k = None" using n(2) by (simp add: names_map_of)
  then have "tasks_ok (begin_state k handle task st)"
    using assms(1,3) by (auto simp: exec_inv_def tasks_ok_def begin_state_def)
  moreover have "order_ok request (begin_state k handle task st)"
    using assms(1,4,5) unfolding exec_inv_def order_ok_def begin_state_keys by blast
  moreover have "k \<notin> set (keys (es_running st))" using n(1) by (simp add: live_of_def)
  then have "length (put k handle (es_running st)) = Suc (length (es_running st))" by (rule length_put_new)
  ultimately show ?thesis using assms(1,6) by (simp add: exec_inv_def begin_state_def)
qed

section \<open>Inspecting\<close>

lemma applyHandleTiming_simps [simp]:
  "task_ActivityID (applyHandleTiming task h) = task_ActivityID task"
  "task_Status (applyHandleTiming task h) = task_Status task"
  by (simp_all add: applyHandleTiming_def Let_def split: option.split)

lemma completeTask_simps [simp]:
  "task_ActivityID (completeTask task h) = task_ActivityID task"
  "task_Status (completeTask task h) = TaskCompleted"
  by (simp_all add: completeTask_def)

lemma task_of_ID: "exec_inv request bound st \<Longrightarrow> k \<in> live_of st \<Longrightarrow> task_ActivityID (task_of st k) = k"
proof -
  assume i: "exec_inv request bound st" and "k \<in> live_of st"
  then have "k \<in> tried_of st" unfolding exec_inv_def maps_ok_def by blast
  then obtain t where "map_of (es_tasks st) k = Some t" by (metis names_map_of(3) not_None_eq)
  then show ?thesis using i by (simp add: exec_inv_def tasks_ok_def task_of_def)
qed

text \<open>How a successful pass over the running activities goes on.\<close>

lemma inspect_loop_Cons:
  assumes "inspect_loop sv mode (k # ks) st w = (Ok st', w')"
  obtains (gone) "map_of (es_running st) k = None" "inspect_loop sv mode ks st w = (Ok st', w')"
  | (wait) handle h w1 where "map_of (es_running st) k = Some handle"
      "ac_Inspect (sup_activities sv) (hnd_ID handle) mode w = (Ok (Some h), w1)"
      "hnd_Status h \<noteq> HandleCompleted" "inspect_loop sv mode ks st w1 = (Ok st', w')"
  | (finish) handle h w1 w2 where "map_of (es_running st) k = Some handle"
      "ac_Inspect (sup_activities sv) (hnd_ID handle) mode w = (Ok (Some h), w1)" "hnd_Status h = HandleCompleted"
      "xs_SaveTask (sup_executions sv) (completeTask (task_of st k) h) w1 = (None, w2)"
      "inspect_loop sv mode ks (finish_state k (completeTask (task_of st k) h) st) w2 = (Ok st', w')"
proof (cases "map_of (es_running st) k")
  case None
  then show thesis using assms gone by simp
next
  case (Some handle)
  obtain r w1 where i: "ac_Inspect (sup_activities sv) (hnd_ID handle) mode w = (r, w1)" by fastforce
  obtain h where h: "r = Ok (Some h)" using assms Some i by (cases r) (auto split: option.splits)
  show thesis
  proof (cases "hnd_Status h = HandleCompleted")
    case True
    obtain e w2 where s: "xs_SaveTask (sup_executions sv) (completeTask (task_of st k) h) w1 = (e, w2)" by fastforce
    then show thesis using assms Some i h True finish by (cases e) (auto simp: Let_def finish_state_def)
  next
    case False
    then show thesis using assms Some i h wait by (auto simp: Let_def split: if_splits prod.splits)
  qed
qed

lemma inspect_loop_inv:
  "inspect_loop sv mode ks st w = (Ok st', w') \<Longrightarrow> exec_inv request bound st \<Longrightarrow>
     exec_inv request bound st' \<and> done_of st \<subseteq> done_of st' \<and> tried_of st' = tried_of st"
proof (induction ks arbitrary: st w)
  case Nil
  then show ?case by simp
next
  case (Cons k ks)
  from Cons.prems(1) show ?case
  proof (cases rule: inspect_loop_Cons)
    case gone
    then show ?thesis using Cons.IH Cons.prems(2) by blast
  next
    case (wait handle h w1)
    then show ?thesis using Cons.IH Cons.prems(2) by blast
  next
    case (finish handle h w1 w2)
    have k: "k \<in> live_of st" using finish(1) names_map_of(2) [of st k] by simp
    let ?st = "finish_state k (completeTask (task_of st k) h) st"
    have "k \<in> tried_of st" using Cons.prems(2) k unfolding exec_inv_def maps_ok_def by blast
    then have "tried_of ?st = tried_of st" "done_of st \<subseteq> done_of ?st" unfolding finish_state_keys by blast+
    moreover have "exec_inv request bound ?st"
      using Cons.prems(2) k by (rule exec_inv_finish) (simp_all add: task_of_ID [OF Cons.prems(2) k])
    ultimately show ?thesis using Cons.IH [OF finish(5)] by (metis subset_trans)
  qed
qed

lemma inspectRunning_inv:
  assumes "inspectRunning sv mode st w = (Ok st', w')" and "exec_inv request bound st"
  shows "exec_inv request bound st' \<and> done_of st \<subseteq> done_of st' \<and> tried_of st' = tried_of st"
  using assms unfolding inspectRunning_def by (rule inspect_loop_inv)

section \<open>Starting\<close>

lemma newRunningTask_ID [simp]: "task_ActivityID (newRunningTask now runID k asg resource handle readyAt preparation) = k"
proof -
  have "task_ActivityID (foldl (\<lambda>t x. t\<lparr>task_TransferSeconds := f t x, task_TransferBytes := g t x\<rparr>) t xs) = task_ActivityID t"
    for f g and t :: TaskExecution and xs :: "DataTransferRun list" by (induction xs arbitrary: t) auto
  then show ?thesis by (simp add: newRunningTask_def Let_def split: option.split)
qed

lemma newRunningTask_Status [simp]:
  "task_Status (newRunningTask now runID k asg resource handle readyAt preparation) = TaskRunning"
proof -
  have "task_Status (foldl (\<lambda>t x. t\<lparr>task_TransferSeconds := f t x, task_TransferBytes := g t x\<rparr>) t xs) = task_Status t"
    for f g and t :: TaskExecution and xs :: "DataTransferRun list" by (induction xs arbitrary: t) auto
  then show ?thesis by (simp add: newRunningTask_def Let_def split: option.split)
qed

lemma start_one_Ok:
  assumes "start_one sv request k activity asg resource readyAt st w = (Ok st', w')"
  obtains preparation observed w1 handle w2 dataReady w3 task0 st1 where
    "prepare_start sv request k activity asg resource w = (Ok (preparation, observed), w1)"
    "ac_Start (sup_activities sv) \<lparr>ctx_Run = er_Run request, ctx_Workflow = er_Workflow request, ctx_Activity = activity,
       ctx_Assignment = asg, ctx_Resource = resource, ctx_RuntimeID = selectRuntime request asg,
       ctx_Preparation = preparation\<rparr> w1 = (Ok handle, w2)"
    "sup_unixNow sv w2 = (dataReady, w3)" "task_ActivityID task0 = k" "task_Status task0 \<noteq> TaskCompleted \<or> hnd_Status handle = HandleCompleted"
    "st1 = begin_state k handle task0 (st\<lparr>es_transfers := es_transfers st @ observed\<rparr>)"
    "hnd_Status handle \<noteq> HandleCompleted \<and> xs_SaveTask (sup_executions sv) task0 w3 = (None, w') \<and> st' = st1 \<or>
     hnd_Status handle = HandleCompleted \<and> xs_SaveTask (sup_executions sv) (completeTask task0 handle) w3 = (None, w') \<and>
     st' = finish_state k (completeTask task0 handle) st1"
proof -
  obtain r w1 where p: "prepare_start sv request k activity asg resource w = (r, w1)" by fastforce
  obtain preparation observed where r: "r = Ok (preparation, observed)"
    using assms p by (cases r) (auto simp: start_one_def Let_def)
  let ?c = "\<lparr>ctx_Run = er_Run request, ctx_Workflow = er_Workflow request, ctx_Activity = activity,
       ctx_Assignment = asg, ctx_Resource = resource, ctx_RuntimeID = selectRuntime request asg,
       ctx_Preparation = preparation\<rparr>"
  obtain r2 w2 where a: "ac_Start (sup_activities sv) ?c w1 = (r2, w2)" by fastforce
  obtain handle where h: "r2 = Ok handle" using assms p r a by (cases r2) (auto simp: start_one_def Let_def)
  obtain dataReady w3 where n: "sup_unixNow sv w2 = (dataReady, w3)" by fastforce
  let ?t = "newRunningTask dataReady (run_ID (er_Run request)) k asg resource handle readyAt preparation"
  let ?t' = "if hnd_Status handle = HandleCompleted then completeTask ?t handle else ?t"
  obtain e w4 where s: "xs_SaveTask (sup_executions sv) ?t' w3 = (e, w4)" by fastforce
  have "task_Status ?t = TaskRunning" by simp
  moreover have "hnd_Status handle \<noteq> HandleCompleted \<and> xs_SaveTask (sup_executions sv) ?t w3 = (None, w') \<and>
      st' = begin_state k handle ?t (st\<lparr>es_transfers := es_transfers st @ observed\<rparr>) \<or>
    hnd_Status handle = HandleCompleted \<and> xs_SaveTask (sup_executions sv) (completeTask ?t handle) w3 = (None, w') \<and>
      st' = finish_state k (completeTask ?t handle) (begin_state k handle ?t (st\<lparr>es_transfers := es_transfers st @ observed\<rparr>))"
    using assms p r a h n s
    by (cases e; cases "hnd_Status handle = HandleCompleted")
      (simp_all add: start_one_def Let_def begin_state_def finish_state_def)
  ultimately show thesis
    by (intro that [OF p [unfolded r] a [unfolded h] n, of ?t
          "begin_state k handle ?t (st\<lparr>es_transfers := es_transfers st @ observed\<rparr>)"]) simp_all
qed

lemma exec_inv_transfers [simp]: "exec_inv request bound (st\<lparr>es_transfers := ts\<rparr>) = exec_inv request bound st"
  by (simp add: exec_inv_def maps_ok_def tasks_ok_def order_ok_def)

lemma start_one_inv:
  assumes s: "start_one sv request k activity asg resource readyAt st w = (Ok st', w')"
    and "exec_inv request bound st" and "k \<notin> tried_of st"
    and "k \<in> act_ID ` set (wfv_Activities (er_Workflow request))" and "preds_of request k \<subseteq> done_of st"
    and "int (length (es_running st)) < bound"
  shows "exec_inv request bound st' \<and> done_of st \<subseteq> done_of st' \<and> tried_of st' = insert k (tried_of st) \<and>
    length (es_running st') \<le> Suc (length (es_running st))"
proof -
  from s obtain preparation observed w1 handle w2 dataReady w3 task0 st1 where
    t: "task_ActivityID task0 = k" and st1: "st1 = begin_state k handle task0 (st\<lparr>es_transfers := es_transfers st @ observed\<rparr>)"
    and c: "st' = st1 \<or> st' = finish_state k (completeTask task0 handle) st1"
    by (rule start_one_Ok) blast
  have i: "exec_inv request bound st1" unfolding st1 by (rule exec_inv_begin) (use assms(2-6) t in simp_all)
  have n: "k \<notin> live_of st" using assms(2,3) unfolding exec_inv_def maps_ok_def by blast
  then have l: "length (es_running st1) = Suc (length (es_running st))"
    using length_put_new [of k "es_running st"] by (simp add: st1 begin_state_def live_of_def)
  have live: "k \<in> live_of st1" unfolding st1 begin_state_keys by (rule insertI1)
  show ?thesis using c
  proof
    assume "st' = st1"
    then show ?thesis using i l unfolding st1 begin_state_keys by simp
  next
    assume f: "st' = finish_state k (completeTask task0 handle) st1"
    have "exec_inv request bound st'" unfolding f using i live by (rule exec_inv_finish) (simp_all add: t)
    moreover have "length (es_running st') \<le> length (es_running st1)"
      by (simp add: f finish_state_def length_del_le)
    ultimately show ?thesis using l unfolding f st1 finish_state_keys begin_state_keys by auto
  qed
qed

text \<open>An activity may start when it was not attempted and its predecessors are completed.\<close>

definition startable :: "ExecutionRequest \<Rightarrow> ExecState \<Rightarrow> string \<Rightarrow> bool" where
  "startable request st k \<longleftrightarrow> k \<notin> tried_of st \<and> k \<in> act_ID ` set (wfv_Activities (er_Workflow request)) \<and>
     preds_of request k \<subseteq> done_of st"

lemma startReady_inv:
  "startReadyActivities sv request activities assignments resources ks st w = (Ok st', w') \<Longrightarrow>
   exec_inv request bound st \<Longrightarrow> distinct ks \<Longrightarrow> (\<forall>k \<in> set ks. startable request st k) \<Longrightarrow>
   int (length (es_running st)) + int (length ks) \<le> bound \<Longrightarrow>
     exec_inv request bound st' \<and> done_of st \<subseteq> done_of st' \<and> tried_of st' = tried_of st \<union> set ks"
proof (induction ks arbitrary: st w)
  case Nil
  then show ?case by simp
next
  case (Cons k ks)
  obtain readyAt w0 where n: "sup_unixNow sv w = (readyAt, w0)" by fastforce
  obtain resource where r: "map_of resources (asg_ResourceID (asg_for assignments k)) = Some resource"
    using Cons.prems(1) n by (cases "map_of resources (asg_ResourceID (asg_for assignments k))") (auto simp: Let_def)
  obtain st1 w1 where s: "start_one sv request k (activity_for activities k) (asg_for assignments k) resource readyAt st w0 = (Ok st1, w1)"
    and rest: "startReadyActivities sv request activities assignments resources ks st1 w1 = (Ok st', w')"
    using Cons.prems(1) n r
    by (cases "start_one sv request k (activity_for activities k) (asg_for assignments k) resource readyAt st w0")
      (auto simp: Let_def split: result.splits)
  have k: "k \<notin> tried_of st" "k \<in> act_ID ` set (wfv_Activities (er_Workflow request))" "preds_of request k \<subseteq> done_of st"
    using Cons.prems(4) by (simp_all add: startable_def)
  have i: "exec_inv request bound st1 \<and> done_of st \<subseteq> done_of st1 \<and> tried_of st1 = insert k (tried_of st) \<and>
      length (es_running st1) \<le> Suc (length (es_running st))"
    by (rule start_one_inv [OF s Cons.prems(2) k]) (use Cons.prems(5) in simp)
  have "\<forall>k' \<in> set ks. startable request st1 k'"
    using Cons.prems(3,4) i unfolding startable_def by auto
  then show ?case using Cons.IH [OF rest] i Cons.prems(3,5) by auto
qed

section \<open>One round\<close>

lemma ready_startable:
  assumes "exec_inv request bound st"
  shows "set (readyActivities (activities_of request) (predecessors_of request) st) = {k. startable request st k}"
proof -
  have "startable request st k \<Longrightarrow> k \<notin> done_of st \<and> k \<notin> live_of st" for k
    using assms unfolding exec_inv_def maps_ok_def startable_def by blast
  moreover have "set (keys (activities_of request)) = act_ID ` set (wfv_Activities (er_Workflow request))"
    by (rule set_keys_index_by)
  ultimately show ?thesis
    unfolding readyActivities_def predecessors_of_set set_sort set_filter startable_def names_map_of by blast
qed

lemma ready_distinct: "distinct (readyActivities (activities_of request) preds st)"
  using gomap_ok_index_by [of act_ID "wfv_Activities (er_Workflow request)"]
  by (simp add: readyActivities_def gomap_ok_def)

text \<open>The activities a round starts, and what it does when nothing fails.\<close>

definition batch :: "'w Supervisor \<Rightarrow> ExecutionRequest \<Rightarrow> ExecState \<Rightarrow> string list" where
  "batch sv request st = take (nat (sc_MaxParallel (sup_config sv) - int (length (es_running st))))
     (readyActivities (activities_of request) (predecessors_of request) st)"

lemma batch_ok:
  assumes "exec_inv request bound st" and "bound = sc_MaxParallel (sup_config sv)"
  shows "distinct (batch sv request st)" and "\<forall>k \<in> set (batch sv request st). startable request st k"
    and "int (length (es_running st)) + int (length (batch sv request st)) \<le> bound"
proof -
  show "distinct (batch sv request st)" by (simp add: batch_def ready_distinct distinct_take)
  show "\<forall>k \<in> set (batch sv request st). startable request st k"
  proof
    fix k assume "k \<in> set (batch sv request st)"
    then have "k \<in> set (readyActivities (activities_of request) (predecessors_of request) st)"
      unfolding batch_def by (rule in_set_takeD)
    then show "startable request st k" unfolding ready_startable [OF assms(1)] by (rule CollectD)
  qed
  show "int (length (es_running st)) + int (length (batch sv request st)) \<le> bound"
    using assms unfolding batch_def exec_inv_def by auto
qed

lemma available_take:
  assumes "(available :: int) = (if free > int (length ready) then int (length ready) else free)"
  shows "take (nat available) ready = take (nat free) ready"
  using assms by auto

lemma exec_round_step:
  assumes i: "exec_inv request bound st" and b: "bound = sc_MaxParallel (sup_config sv)"
    and less: "length (es_completed st) < length (activities_of request)" and c: "sup_ctxErr sv w = None"
  shows "exec_round sv request st w =
    (case inspectRunning sv (run_Mode (er_Run request)) st w of
       (Err e, w1) \<Rightarrow> (Return (Err e), w1)
     | (Panic p, w1) \<Rightarrow> (Return (Panic p), w1)
     | (Ok st1, w1) \<Rightarrow>
        (if run_Mode (er_Run request) = ExecutionModeInteractive \<and> es_running st1 \<noteq> [] then
           (Return (Ok (runningTrace request st1)), w1)
         else case startReadyActivities sv request (activities_of request)
                (index_by asg_ActivityID (plan_Assignments (er_Plan request))) (index_by res_ID (er_Resources request))
                (batch sv request st1) st1 w1 of
             (Err e, w2) \<Rightarrow> (Return (Err e), w2)
           | (Panic p, w2) \<Rightarrow> (Return (Panic p), w2)
           | (Ok st2, w2) \<Rightarrow>
              (if es_running st2 = [] \<and> readyActivities (activities_of request) (predecessors_of request) st1 = [] \<and>
                  length (es_completed st2) < length (activities_of request) then
                 (Return (Err (Errorf ''execution cannot progress: dependency cycle or incomplete plan'' [])), w2)
               else if es_running st2 \<noteq> [] then
                 (case sup_wait sv w2 of (Some e, w3) \<Rightarrow> (Return (Err e), w3) | (None, w3) \<Rightarrow> (Again st2, w3))
               else (Again st2, w2))))"
proof -
  obtain r w1 where r: "inspectRunning sv (run_Mode (er_Run request)) st w = (r, w1)" by fastforce
  show ?thesis
  proof (cases r)
    case (Ok st1)
    have "exec_inv request bound st1" using inspectRunning_inv [OF r [unfolded Ok] i] by blast
    then have free: "0 \<le> sc_MaxParallel (sup_config sv) - int (length (es_running st1))" using b by (simp add: exec_inv_def)
    then show ?thesis
      unfolding exec_round_def Let_def r Ok batch_def using less c available_take [OF refl] by (auto split: prod.split result.split)
  qed (use r less c in \<open>simp_all add: exec_round_def Let_def\<close>)
qed

lemma exec_round_inv:
  assumes i: "exec_inv request (sc_MaxParallel (sup_config sv)) st" and r: "exec_round sv request st w = (Again st', w')"
  obtains st1 w1 w2 where "inspectRunning sv (run_Mode (er_Run request)) st w = (Ok st1, w1)"
    "startReadyActivities sv request (activities_of request)
       (index_by asg_ActivityID (plan_Assignments (er_Plan request))) (index_by res_ID (er_Resources request))
       (batch sv request st1) st1 w1 = (Ok st', w2)"
    "exec_inv request (sc_MaxParallel (sup_config sv)) st1" "exec_inv request (sc_MaxParallel (sup_config sv)) st'"
    "done_of st \<subseteq> done_of st'" "tried_of st' = tried_of st \<union> set (batch sv request st1)"
    "es_running st' = [] \<and> w' = w2 \<or> es_running st' \<noteq> [] \<and> sup_wait sv w2 = (None, w')"
    "length (es_completed st) < length (activities_of request)"
proof -
  have less: "length (es_completed st) < length (activities_of request)" and c: "sup_ctxErr sv w = None"
    using r by (auto simp: exec_round_def Let_def split: if_splits option.splits)
  note step = exec_round_step [OF i refl less c]
  obtain q w1 where q: "inspectRunning sv (run_Mode (er_Run request)) st w = (q, w1)" by fastforce
  obtain st1 where st1: "q = Ok st1" using r q by (cases q) (auto simp: step)
  have i1: "exec_inv request (sc_MaxParallel (sup_config sv)) st1" "done_of st \<subseteq> done_of st1" "tried_of st1 = tried_of st"
    using inspectRunning_inv [OF q [unfolded st1] i] by blast+
  obtain x w2 where x: "startReadyActivities sv request (activities_of request)
       (index_by asg_ActivityID (plan_Assignments (er_Plan request))) (index_by res_ID (er_Resources request))
       (batch sv request st1) st1 w1 = (x, w2)" by fastforce
  obtain st2 where st2: "x = Ok st2" using r q st1 x by (cases x) (auto simp: step split: if_splits)
  have i2: "exec_inv request (sc_MaxParallel (sup_config sv)) st2" "done_of st1 \<subseteq> done_of st2"
    "tried_of st2 = tried_of st1 \<union> set (batch sv request st1)"
    using startReady_inv [OF x [unfolded st2] i1(1) batch_ok [OF i1(1) refl]] by blast+
  have "st' = st2 \<and> (es_running st' = [] \<and> w' = w2 \<or> es_running st' \<noteq> [] \<and> sup_wait sv w2 = (None, w'))"
    using r q st1 x st2 by (auto simp: step split: if_splits prod.splits option.splits)
  then show thesis
    using that [OF q [unfolded st1]] x st2 i1 i2 less by (metis subset_trans)
qed

section \<open>No stall\<close>

text \<open>With nothing running and nothing to start, an acyclic workflow is finished.\<close>

lemma nothing_left:
  assumes "dag (er_Workflow request)" and "exec_inv request bound st" and "es_running st = []"
    and "\<forall>k. \<not> startable request st k"
  shows "done_of st = act_ID ` set (wfv_Activities (er_Workflow request))"
proof (rule ccontr)
  let ?ids = "act_ID ` set (wfv_Activities (er_Workflow request))"
  assume "done_of st \<noteq> ?ids"
  moreover have t: "tried_of st = done_of st" "tried_of st \<subseteq> ?ids"
    using assms(2,3) by (auto simp: exec_inv_def maps_ok_def order_ok_def live_of_def)
  ultimately obtain y where y: "y \<in> ?ids - done_of st" by blast
  have "wf (set (edges (wfv_Dependencies (er_Workflow request))))"
    using assms(1) by (simp add: dag_def finite_acyclic_wf)
  then obtain x where x: "x \<in> ?ids - done_of st" "\<And>p. p \<in> preds_of request x \<Longrightarrow> p \<notin> ?ids - done_of st"
    using y unfolding preds_of_def by (metis (no_types, lifting) mem_Collect_eq wfE_min)
  moreover have "preds_of request x \<subseteq> ?ids"
    using assms(1) by (auto simp: preds_of_def dag_def known_endpoints_def edges_def)
  ultimately have "startable request st x" using t(1) unfolding startable_def by blast
  then show False using assms(4) by blast
qed

lemma completed_length:
  assumes "exec_inv request bound st"
  shows "length (es_completed st) < length (activities_of request) \<longleftrightarrow>
    done_of st \<noteq> act_ID ` set (wfv_Activities (er_Workflow request))"
proof -
  let ?ids = "act_ID ` set (wfv_Activities (er_Workflow request))"
  have sub: "done_of st \<subseteq> ?ids" using assms unfolding exec_inv_def maps_ok_def order_ok_def by blast
  have "length (es_completed st) = card (done_of st)"
    using assms gomap_length_card [of "es_completed st"] by (simp add: exec_inv_def maps_ok_def done_of_def)
  moreover have "length (activities_of request) = card ?ids"
    using gomap_length_card [of "activities_of request"] by (metis gomap_ok_index_by set_keys_index_by)
  ultimately show ?thesis
    using sub card_mono [OF _ sub] card_subset_eq [OF _ sub] by (metis List.finite_set finite_imageI linorder_neqE_nat not_le)
qed

end
