(* ===== verification/Supervisor_Schedule.thy ===== *)
theory Supervisor_Schedule
  imports Supervisor_Invariant
begin

text \<open>
  What the outside sees of a run. The locale \<open>recording\<close> is the interface of a supervisor whose
  world remembers which activities were started and which were recorded as completed, in order; its
  lemmas show that every such history respects the dependencies, starts no activity twice and keeps
  the bound on parallel activities, also when the run ends with an error. \<open>recorded\<close> adds this memory
  to any supervisor, and the interpretation gives the lemmas for all of them.
\<close>

section \<open>Histories\<close>

datatype event = Started string | Finished string

definition open_starts :: "event list \<Rightarrow> string set" where
  "open_starts lg = {k. Started k \<in> set lg \<and> Finished k \<notin> set lg}"

text \<open>What must have happened before an activity starts, and a history in which it has.\<close>

definition start_ok :: "ExecutionRequest \<Rightarrow> int \<Rightarrow> event list \<Rightarrow> string \<Rightarrow> bool" where
  "start_ok request bound xs k \<longleftrightarrow> Started k \<notin> set xs \<and> (\<forall>p \<in> preds_of request k. Finished p \<in> set xs) \<and>
     int (card (open_starts xs)) < bound"

definition schedule_ok :: "ExecutionRequest \<Rightarrow> int \<Rightarrow> event list \<Rightarrow> bool" where
  "schedule_ok request bound lg \<longleftrightarrow> (\<forall>xs k ys. lg = xs @ Started k # ys \<longrightarrow> start_ok request bound xs k)"

lemma schedule_ok_Nil [simp]: "schedule_ok request bound []"
  by (simp add: schedule_ok_def)

lemma schedule_ok_Finished: "schedule_ok request bound lg \<Longrightarrow> schedule_ok request bound (lg @ [Finished k])"
  unfolding schedule_ok_def
proof (intro allI impI)
  fix xs j ys assume a: "\<forall>xs k ys. lg = xs @ Started k # ys \<longrightarrow> start_ok request bound xs k"
    and e: "lg @ [Finished k] = xs @ Started j # ys"
  from e obtain zs where "lg = xs @ Started j # zs" by (cases ys rule: rev_cases) auto
  then show "start_ok request bound xs j" using a by blast
qed

lemma schedule_ok_Started:
  "schedule_ok request bound lg \<Longrightarrow> start_ok request bound lg k \<Longrightarrow> schedule_ok request bound (lg @ [Started k])"
  unfolding schedule_ok_def
proof (intro allI impI)
  fix xs j ys assume a: "\<forall>xs k ys. lg = xs @ Started k # ys \<longrightarrow> start_ok request bound xs k"
    and k: "start_ok request bound lg k" and e: "lg @ [Started k] = xs @ Started j # ys"
  show "start_ok request bound xs j"
  proof (cases ys rule: rev_cases)
    case Nil
    then show ?thesis using e k by simp
  next
    case (snoc zs z)
    then have "lg = xs @ Started j # zs" using e by simp
    then show ?thesis using a by blast
  qed
qed

text \<open>The history agrees with the maps of the run.\<close>

definition history_of :: "ExecState \<Rightarrow> event list \<Rightarrow> bool" where
  "history_of st lg \<longleftrightarrow> (\<forall>k. Started k \<in> set lg \<longleftrightarrow> k \<in> tried_of st) \<and> (\<forall>k. Finished k \<in> set lg \<longleftrightarrow> k \<in> done_of st)"

lemma history_open:
  assumes "history_of st lg" and "exec_inv request bound st"
  shows "card (open_starts lg) = length (es_running st)"
proof -
  have "open_starts lg = live_of st"
    using assms unfolding history_of_def open_starts_def exec_inv_def maps_ok_def by blast
  then show ?thesis using assms(2) gomap_length_card [of "es_running st"]
    by (simp add: exec_inv_def maps_ok_def live_of_def)
qed

section \<open>The interface of a recording world\<close>

locale recording =
  fixes sv :: "'w Supervisor" and log :: "'w \<Rightarrow> event list"
  assumes start_log: "log (snd (ac_Start (sup_activities sv) c w)) = log w @ [Started (act_ID (ctx_Activity c))]"
    and task_log: "log (snd (xs_SaveTask (sup_executions sv) t w)) =
      log w @ (if task_Status t = TaskCompleted then [Finished (task_ActivityID t)] else [])"
    and inspect_log: "log (snd (ac_Inspect (sup_activities sv) ident mode w)) = log w"
    and save_log: "log (snd (xs_Save (sup_executions sv) h w)) = log w"
    and now_log: "log (snd (sup_unixNow sv w)) = log w"
    and wait_log: "log (snd (sup_wait sv w)) = log w"
    and prepare_log: "sc_Preparer (sup_config sv) = Some prepare \<Longrightarrow> log (snd (prepare k requirement w)) = log w"
begin

lemma record_failure_log: "log (snd (recordStartFailure sv runID k asg resource runtimeID err w)) = log w"
proof -
  have running: "task_Status ((newRunningTask n runID k asg resource h m None)\<lparr>task_Status := TaskFailed,
      task_FinishedAt := a, task_FailureReason := b\<rparr>) = TaskFailed" for n h m a b by simp
  obtain now w1 where n: "sup_unixNow sv w = (now, w1)" by fastforce
  let ?h = "zero_handle\<lparr>hnd_ID := runID @ '':'' @ k, hnd_RunID := runID, hnd_ActivityID := k,
      hnd_ResourceID := res_ID resource, hnd_RuntimeID := runtimeID, hnd_Status := HandleFailed,
      hnd_StartedAt := now, hnd_FinishedAt := now, hnd_Failure := ''start activity: '' @ error_text err,
      hnd_Log := ''[AKOFLOW ERROR] '' @ (''start activity: '' @ error_text err) @ [newline]\<rparr>"
  obtain e w2 where s: "xs_Save (sup_executions sv) ?h w1 = (e, w2)" by fastforce
  obtain m w3 where m: "sup_unixNow sv w2 = (m, w3)" by fastforce
  have l: "log w1 = log w" "log w2 = log w1" "log w3 = log w2"
    using now_log [of w] save_log [of ?h w1] now_log [of w2] n s m by simp_all
  show ?thesis
  proof (cases e)
    case None
    then show ?thesis using n s m l by (simp add: recordStartFailure_def Let_def task_log)
  next
    case (Some x)
    then show ?thesis using n s l by (simp add: recordStartFailure_def Let_def)
  qed
qed

lemma inspect_loop_log:
  assumes "inspect_loop sv mode ks st w = (r, w')" and "exec_inv request bound st"
    and "history_of st (log w)" and "schedule_ok request bound (log w)"
  shows "schedule_ok request bound (log w') \<and> (\<forall>st'. r = Ok st' \<longrightarrow> history_of st' (log w'))"
  using assms
proof (induction ks arbitrary: st w)
  case Nil
  then show ?case by auto
next
  case (Cons k ks)
  show ?case
  proof (cases "map_of (es_running st) k")
    case None
    then show ?thesis using Cons.IH [OF _ Cons.prems(2-4)] Cons.prems(1) by simp
  next
    case (Some handle)
    then have live: "k \<in> live_of st" using names_map_of(2) [of st k] by simp
    note ID = task_of_ID [OF Cons.prems(2) live]
    obtain q w1 where q: "ac_Inspect (sup_activities sv) (hnd_ID handle) mode w = (q, w1)" by fastforce
    have l1: "log w1 = log w" using inspect_log [of "hnd_ID handle" mode w] q by simp
    show ?thesis
    proof (cases "\<exists>h. q = Ok (Some h)")
      case False
      then show ?thesis using Cons.prems Some q l1 by (cases q) (auto split: option.splits)
    next
      case True
      then obtain h where h: "q = Ok (Some h)" by blast
      let ?t = "completeTask (task_of st k) h"
      let ?f = "(task_of st k)\<lparr>task_Status := TaskFailed, task_FailureReason := hnd_Failure h\<rparr>"
      obtain e w2 where s: "xs_SaveTask (sup_executions sv) ?t w1 = (e, w2)" by fastforce
      obtain e' w3 where s': "xs_SaveTask (sup_executions sv) ?f w1 = (e', w3)" by fastforce
      have l2: "log w2 = log w @ [Finished k]" using task_log [of ?t w1] s l1 ID by simp
      have l3: "log w3 = log w" using task_log [of ?f w1] s' l1 by simp
      consider (completed) "hnd_Status h = HandleCompleted" | (failed) "hnd_Status h \<in> {HandleFailed, HandleStopped}"
        | (other) "hnd_Status h \<notin> {HandleCompleted, HandleFailed, HandleStopped}" by blast
      then show ?thesis
      proof cases
        case completed
        let ?st = "finish_state k ?t st"
        have i: "exec_inv request bound ?st" using Cons.prems(2) live by (rule exec_inv_finish) (simp_all add: ID)
        have "k \<in> tried_of st" using Cons.prems(2) live unfolding exec_inv_def maps_ok_def by blast
        then have "history_of ?st (log w2)" using Cons.prems(3) l2 by (auto simp: history_of_def)
        moreover have "schedule_ok request bound (log w2)" using Cons.prems(4) l2 by (simp add: schedule_ok_Finished)
        ultimately show ?thesis
          using Cons.prems(1) Cons.IH [OF _ i, of w2] Some q h s completed
          by (cases e) (auto simp: Let_def finish_state_def)
      next
        case failed
        then show ?thesis using Cons.prems Some q h s' l3 by (auto simp: Let_def)
      next
        case other
        then have "inspect_loop sv mode ks st w1 = (r, w')" using Cons.prems(1) Some q h by simp
        then show ?thesis using Cons.IH [OF _ Cons.prems(2), of w1] Cons.prems(3,4) l1 by simp
      qed
    qed
  qed
qed

lemma prepare_start_log: "log (snd (prepare_start sv request k activity asg resource w)) = log w"
proof -
  have p: "log (snd (prepareActivity sv runID k requirement w)) = log w" for runID requirement
    using prepare_log by (simp add: prepareActivity_def split: option.split)
  show ?thesis
  proof (cases "map_of (er_PreparationRequirementsByActivity request) k")
    case None
    then show ?thesis by (simp add: prepare_start_def Let_def record_failure_log)
  next
    case (Some requirement)
    obtain q w1 where q: "prepareActivity sv (run_ID (er_Run request)) k requirement w = (q, w1)" by fastforce
    then have "log w1 = log w" using p [of "run_ID (er_Run request)" requirement] by simp
    then show ?thesis
      using Some q by (cases q) (auto simp: prepare_start_def Let_def record_failure_log split: option.split)
  qed
qed

lemma start_one_log:
  assumes "start_one sv request k activity asg resource readyAt st w = (r, w')"
    and "exec_inv request bound st" and "startable request st k" and "act_ID activity = k"
    and "int (length (es_running st)) < bound"
    and hist: "history_of st (log w)" and "schedule_ok request bound (log w)"
  shows "schedule_ok request bound (log w') \<and> (\<forall>st'. r = Ok st' \<longrightarrow> history_of st' (log w'))"
proof -
  obtain q w1 where q: "prepare_start sv request k activity asg resource w = (q, w1)" by fastforce
  have l1: "log w1 = log w" using prepare_start_log [of request k activity asg resource w] q by simp
  show ?thesis
  proof (cases "\<exists>x. q = Ok x")
    case False
    then show ?thesis using assms(1,7) q l1 by (cases q) (auto simp: start_one_def Let_def)
  next
    case True
    then obtain preparation observed where x: "q = Ok (preparation, observed)" by auto
    let ?c = "\<lparr>ctx_Run = er_Run request, ctx_Workflow = er_Workflow request, ctx_Activity = activity,
       ctx_Assignment = asg, ctx_Resource = resource, ctx_RuntimeID = selectRuntime request asg,
       ctx_Preparation = preparation\<rparr>"
    obtain p w2 where p: "ac_Start (sup_activities sv) ?c w1 = (p, w2)" by fastforce
    have l2: "log w2 = log w @ [Started k]" using start_log [of ?c w1] p l1 assms(4) by simp
    have "start_ok request bound (log w) k"
      using assms(3,5) hist history_open [OF hist assms(2)]
      by (auto simp: start_ok_def history_of_def startable_def)
    then have ok2: "schedule_ok request bound (log w2)" using assms(7) by (simp add: l2 schedule_ok_Started)
    show ?thesis
    proof (cases "\<exists>h. p = Ok h")
      case False
      then show ?thesis
        using assms(1) q x p ok2 by (cases p) (auto simp: start_one_def Let_def record_failure_log)
    next
      case True
      then obtain h where h: "p = Ok h" by blast
      obtain n w3 where n: "sup_unixNow sv w2 = (n, w3)" by fastforce
      have l3: "log w3 = log w @ [Started k]" using now_log [of w2] n l2 by simp
      let ?t = "newRunningTask n (run_ID (er_Run request)) k asg resource h readyAt preparation"
      let ?t' = "if hnd_Status h = HandleCompleted then completeTask ?t h else ?t"
      obtain e w4 where s: "xs_SaveTask (sup_executions sv) ?t' w3 = (e, w4)" by fastforce
      have l4: "log w4 = log w @ [Started k] @ (if hnd_Status h = HandleCompleted then [Finished k] else [])"
        using task_log [of ?t' w3] s l3 by simp
      have ok4: "schedule_ok request bound (log w4)"
        using schedule_ok_Finished [OF ok2, of k] ok2 l2 l4 by simp
      have w': "w' = w4" using assms(1) q x p h n s by (cases e) (auto simp: start_one_def Let_def)
      have "history_of st' (log w4)" if "r = Ok st'" for st'
      proof -
        have "start_one sv request k activity asg resource readyAt st w = (Ok st', w4)" using assms(1) that w' by simp
        then have "st' = (if hnd_Status h = HandleCompleted then finish_state k (completeTask ?t h)
            (begin_state k h ?t (st\<lparr>es_transfers := es_transfers st @ observed\<rparr>))
            else begin_state k h ?t (st\<lparr>es_transfers := es_transfers st @ observed\<rparr>))"
          using q x p h n s by (cases e) (auto simp: start_one_def Let_def begin_state_def finish_state_def)
        then show ?thesis using hist l4 by (auto simp: history_of_def)
      qed
      then show ?thesis using ok4 w' by simp
    qed
  qed
qed

lemma startReady_log:
  assumes "startReadyActivities sv request (activities_of request) assignments resources ks st w = (r, w')"
    and "exec_inv request bound st" and "distinct ks" and "\<forall>k \<in> set ks. startable request st k"
    and "int (length (es_running st)) + int (length ks) \<le> bound"
    and "history_of st (log w)" and "schedule_ok request bound (log w)"
  shows "schedule_ok request bound (log w') \<and> (\<forall>st'. r = Ok st' \<longrightarrow> history_of st' (log w'))"
  using assms
proof (induction ks arbitrary: st w)
  case Nil
  then show ?case by auto
next
  case (Cons k ks)
  obtain readyAt w0 where n: "sup_unixNow sv w = (readyAt, w0)" by fastforce
  have l0: "log w0 = log w" using now_log [of w] n by simp
  let ?asg = "asg_for assignments k" and ?act = "activity_for (activities_of request) k"
  have k: "startable request st k" using Cons.prems(4) by simp
  then obtain a where "map_of (activities_of request) k = Some a" "act_ID a = k"
    using map_of_index_by_ex [of _ "wfv_Activities (er_Workflow request)" act_ID]
      map_of_index_by_Some [of act_ID "wfv_Activities (er_Workflow request)" k] unfolding startable_def by blast
  then have act: "act_ID ?act = k" by (simp add: activity_for_def)
  show ?case
  proof (cases "map_of resources (asg_ResourceID ?asg)")
    case None
    then show ?thesis using Cons.prems(1,7) n l0 by (auto simp: Let_def record_failure_log)
  next
    case (Some resource)
    obtain q w1 where q: "start_one sv request k ?act ?asg resource readyAt st w0 = (q, w1)" by fastforce
    have log1: "schedule_ok request bound (log w1) \<and> (\<forall>st'. q = Ok st' \<longrightarrow> history_of st' (log w1))"
      by (rule start_one_log [OF q Cons.prems(2) k act]) (use Cons.prems l0 in simp_all)
    show ?thesis
    proof (cases "\<exists>st1. q = Ok st1")
      case False
      then show ?thesis using Cons.prems(1) n Some q log1 by (cases q) (auto simp: Let_def)
    next
      case True
      then obtain st1 where st1: "q = Ok st1" by blast
      have i: "exec_inv request bound st1 \<and> done_of st \<subseteq> done_of st1 \<and> tried_of st1 = insert k (tried_of st) \<and>
          length (es_running st1) \<le> Suc (length (es_running st))"
        by (rule start_one_inv [OF q [unfolded st1] Cons.prems(2)])
          (use k Cons.prems(5) in \<open>auto simp: startable_def\<close>)
      have s: "\<forall>k' \<in> set ks. startable request st1 k'"
        using Cons.prems(3,4) i unfolding startable_def by auto
      have rest: "startReadyActivities sv request (activities_of request) assignments resources ks st1 w1 = (r, w')"
        using Cons.prems(1) n Some q st1 by (simp add: Let_def)
      show ?thesis
        by (rule Cons.IH [OF rest]) (use i s log1 st1 Cons.prems(3,5) in auto)
    qed
  qed
qed

lemma exec_round_log:
  assumes i: "exec_inv request (sc_MaxParallel (sup_config sv)) st" and r: "exec_round sv request st w = (r, w')"
    and "history_of st (log w)" and "schedule_ok request (sc_MaxParallel (sup_config sv)) (log w)"
  shows "schedule_ok request (sc_MaxParallel (sup_config sv)) (log w') \<and> (\<forall>st'. r = Again st' \<longrightarrow> history_of st' (log w'))"
proof (cases "length (es_completed st) < length (activities_of request) \<and> sup_ctxErr sv w = None")
  case False
  then show ?thesis using r assms(4) by (auto simp: exec_round_def Let_def split: if_splits option.splits)
next
  case True
  let ?b = "sc_MaxParallel (sup_config sv)"
  note step = exec_round_step [OF i refl, of w]
  obtain q w1 where q: "inspectRunning sv (run_Mode (er_Run request)) st w = (q, w1)" by fastforce
  have log1: "schedule_ok request ?b (log w1) \<and> (\<forall>st'. q = Ok st' \<longrightarrow> history_of st' (log w1))"
    using inspect_loop_log [OF q [unfolded inspectRunning_def] i assms(3,4)] .
  show ?thesis
  proof (cases "\<exists>st1. q = Ok st1")
    case False
    then show ?thesis using r True q log1 by (cases q) (auto simp: step)
  next
    case True
    then obtain st1 where st1: "q = Ok st1" by blast
    have i1: "exec_inv request ?b st1" using inspectRunning_inv [OF q [unfolded st1] i] by blast
    let ?s = "startReadyActivities sv request (activities_of request)
       (index_by asg_ActivityID (plan_Assignments (er_Plan request))) (index_by res_ID (er_Resources request))
       (batch sv request st1) st1 w1"
    obtain x w2 where x: "?s = (x, w2)" by fastforce
    have log2: "schedule_ok request ?b (log w2) \<and> (\<forall>st'. x = Ok st' \<longrightarrow> history_of st' (log w2))"
      by (rule startReady_log [OF x i1 batch_ok [OF i1 refl]]) (use log1 st1 in auto)
    have "log w3 = log w2" if "sup_wait sv w2 = (y, w3)" for y w3 using wait_log [of w2] that by simp
    then show ?thesis
      using r \<open>length _ < _ \<and> _\<close> q st1 x log1 log2
      by (cases x) (auto simp: step split: if_splits prod.splits option.splits)
  qed
qed

lemma exec_loop_log:
  "exec_loop fuel sv request st w = Some (r, w') \<Longrightarrow> exec_inv request (sc_MaxParallel (sup_config sv)) st \<Longrightarrow>
   history_of st (log w) \<Longrightarrow> schedule_ok request (sc_MaxParallel (sup_config sv)) (log w) \<Longrightarrow>
     schedule_ok request (sc_MaxParallel (sup_config sv)) (log w')"
proof (induction fuel arbitrary: st w)
  case 0
  then show ?case by simp
next
  case (Suc fuel)
  obtain q w1 where q: "exec_round sv request st w = (q, w1)" by fastforce
  note log1 = exec_round_log [OF Suc.prems(2) q Suc.prems(3,4)]
  show ?case
  proof (cases q)
    case (Again st1)
    then have "exec_inv request (sc_MaxParallel (sup_config sv)) st1"
      using exec_round_inv [OF Suc.prems(2) q [unfolded Again]] by metis
    then show ?thesis using Suc.IH [of st1 w1] Suc.prems(1) q Again log1 by simp
  next
    case (Return x)
    then show ?thesis using Suc.prems(1) q log1 by simp
  qed
qed

end

section \<open>Recording any supervisor\<close>

definition lift_op :: "('w \<Rightarrow> 'r \<times> 'w) \<Rightarrow> 'w \<times> event list \<Rightarrow> 'r \<times> 'w \<times> event list" where
  "lift_op f x = (let (r, w) = f (fst x) in (r, w, snd x))"

definition note_op :: "event list \<Rightarrow> ('w \<Rightarrow> 'r \<times> 'w) \<Rightarrow> 'w \<times> event list \<Rightarrow> 'r \<times> 'w \<times> event list" where
  "note_op es f x = (let (r, w) = f (fst x) in (r, w, snd x @ es))"

definition recorded :: "'w Supervisor \<Rightarrow> ('w \<times> event list) Supervisor" where
  "recorded sv =
     \<lparr>sup_executions = (let xs = sup_executions sv in
        \<lparr>xs_Save = (\<lambda>h. lift_op (xs_Save xs h)), xs_CreateRun = (\<lambda>r. lift_op (xs_CreateRun xs r)),
         xs_SaveTask = (\<lambda>t. note_op (if task_Status t = TaskCompleted then [Finished (task_ActivityID t)] else [])
                           (xs_SaveTask xs t)),
         xs_CompleteRun = (\<lambda>t. lift_op (xs_CompleteRun xs t)), xs_FailRun = (\<lambda>i m. lift_op (xs_FailRun xs i m))\<rparr>),
      sup_activities = (let ac = sup_activities sv in
        \<lparr>ac_Start = (\<lambda>c. note_op [Started (act_ID (ctx_Activity c))] (ac_Start ac c)),
         ac_Inspect = (\<lambda>i m. lift_op (ac_Inspect ac i m))\<rparr>),
      sup_simulation = (\<lambda>r. lift_op (sup_simulation sv r)),
      sup_config = \<lparr>sc_PollInterval = sc_PollInterval (sup_config sv), sc_MaxParallel = sc_MaxParallel (sup_config sv),
        sc_Preparer = map_option (\<lambda>f k r. lift_op (f k r)) (sc_Preparer (sup_config sv))\<rparr>,
      sup_unixNow = lift_op (sup_unixNow sv), sup_ctxErr = sup_ctxErr sv \<circ> fst, sup_wait = lift_op (sup_wait sv),
      sup_range = sup_range sv \<circ> fst\<rparr>"

lemma snd_lift_op [simp]: "snd (snd (lift_op f x)) = snd x"
  by (simp add: lift_op_def split_beta Let_def)

lemma snd_note_op [simp]: "snd (snd (note_op es f x)) = snd x @ es"
  by (simp add: note_op_def split_beta Let_def)

interpretation recorded: recording "recorded sv" snd
  by unfold_locales (auto simp: recorded_def Let_def)

end
