(* ===== verification/Supervisor_Runs.thy ===== *)
theory Supervisor_Runs
  imports Supervisor_Schedule
begin

text \<open>
  The outcome of a run: what a successful trace contains, that a run whose environment cooperates
  ends successfully (with the fuel that suffices), and how runtimes are selected.
\<close>

section \<open>The trace of a successful run\<close>

lemma exec_round_Return_Ok:
  assumes i: "exec_inv request (sc_MaxParallel (sup_config sv)) st"
    and r: "exec_round sv request st w = (Return (Ok trace), w')"
    and m: "run_Mode (er_Run request) \<noteq> ExecutionModeInteractive"
  shows "trace = completedTrace request st \<and> \<not> length (es_completed st) < length (activities_of request)"
proof (cases "length (es_completed st) < length (activities_of request)")
  case True
  then have c: "sup_ctxErr sv w = None" using r by (auto simp: exec_round_def Let_def split: option.splits)
  have False using r m unfolding exec_round_step [OF i refl True c]
    by (auto split: prod.splits result.splits if_splits option.splits)
  then show ?thesis ..
next
  case False
  then show ?thesis using r by (simp add: exec_round_def Let_def)
qed

lemma exec_loop_Ok:
  "exec_loop fuel sv request st w = Some (Ok trace, w') \<Longrightarrow> exec_inv request (sc_MaxParallel (sup_config sv)) st \<Longrightarrow>
   run_Mode (er_Run request) \<noteq> ExecutionModeInteractive \<Longrightarrow>
     \<exists>st'. exec_inv request (sc_MaxParallel (sup_config sv)) st' \<and> trace = completedTrace request st' \<and>
       done_of st' = act_ID ` set (wfv_Activities (er_Workflow request))"
proof (induction fuel arbitrary: st w)
  case 0
  then show ?case by simp
next
  case (Suc fuel)
  obtain q w1 where q: "exec_round sv request st w = (q, w1)" by fastforce
  show ?case
  proof (cases q)
    case (Again st1)
    then have "exec_inv request (sc_MaxParallel (sup_config sv)) st1"
      using exec_round_inv [OF Suc.prems(2) q [unfolded Again]] by metis
    then show ?thesis using Suc.IH [of st1 w1] Suc.prems(1,3) q Again by simp
  next
    case (Return x)
    then have x: "x = Ok trace" using Suc.prems(1) q by simp
    then show ?thesis
      using exec_round_Return_Ok [OF Suc.prems(2) q [unfolded Return x] Suc.prems(3)]
        completed_length [OF Suc.prems(2)] Suc.prems(2) by blast
  qed
qed

lemma completedTrace_tasks [simp]:
  "tra_Tasks (completedTrace request st) = sort_key task_ActivityID (map snd (es_tasks st))"
  by (simp add: completedTrace_def runningTrace_def Let_def split_beta)

lemma tasks_by_key:
  assumes "exec_inv request bound st"
  shows "map task_ActivityID (map snd (es_tasks st)) = keys (es_tasks st)"
proof -
  have g: "gomap_ok (es_tasks st)" using assms by (simp add: exec_inv_def maps_ok_def)
  have "task_ActivityID t = k" if "(k, t) \<in> set (es_tasks st)" for k t
    using that g assms by (simp add: gomap_ok_def exec_inv_def tasks_ok_def)
  then show ?thesis by auto
qed

lemma finished_tasks:
  assumes i: "exec_inv request bound st" and d: "done_of st = act_ID ` set (wfv_Activities (er_Workflow request))"
    and t: "t \<in> snd ` set (es_tasks st)"
  shows "task_Status t = TaskCompleted"
proof -
  obtain k where k: "(k, t) \<in> set (es_tasks st)" using t by auto
  then have m: "map_of (es_tasks st) k = Some t" using i by (simp add: exec_inv_def maps_ok_def gomap_ok_def)
  then have "k \<in> tried_of st" using names_map_of(3) [of st k] by simp
  then have "k \<in> done_of st" using i d unfolding exec_inv_def order_ok_def by blast
  then obtain t' where "map_of (es_completed st) k = Some t'" using names_map_of(1) [of st k] by auto
  then show ?thesis using i m by (auto simp: exec_inv_def tasks_ok_def)
qed

lemma successful_trace:
  assumes "executeActivities fuel sv request w = Some (Ok trace, w')" and "0 \<le> sc_MaxParallel (sup_config sv)"
    and "run_Mode (er_Run request) \<noteq> ExecutionModeInteractive"
  shows "distinct (map task_ActivityID (tra_Tasks trace)) \<and> sorted (map task_ActivityID (tra_Tasks trace)) \<and>
    set (map task_ActivityID (tra_Tasks trace)) = act_ID ` set (wfv_Activities (er_Workflow request)) \<and>
    (\<forall>t \<in> set (tra_Tasks trace). task_Status t = TaskCompleted)"
proof -
  obtain st where st: "exec_inv request (sc_MaxParallel (sup_config sv)) st" "trace = completedTrace request st"
    "done_of st = act_ID ` set (wfv_Activities (er_Workflow request))"
    using exec_loop_Ok [OF assms(1) [unfolded executeActivities_def] exec_inv_init [OF assms(2)] assms(3)] by blast
  have k: "map task_ActivityID (map snd (es_tasks st)) = keys (es_tasks st)" using st(1) by (rule tasks_by_key)
  have m: "mset (map task_ActivityID (tra_Tasks trace)) = mset (keys (es_tasks st))"
    unfolding k [symmetric] by (simp add: st(2) multiset.map_comp)
  have "distinct (keys (es_tasks st))" using st(1) by (simp add: exec_inv_def maps_ok_def gomap_ok_def)
  then have "distinct (map task_ActivityID (tra_Tasks trace))" using mset_eq_imp_distinct_iff [OF m] by simp
  moreover have "tried_of st = act_ID ` set (wfv_Activities (er_Workflow request))"
    using st(1,3) unfolding exec_inv_def maps_ok_def order_ok_def by blast
  then have "set (map task_ActivityID (tra_Tasks trace)) = act_ID ` set (wfv_Activities (er_Workflow request))"
    using mset_eq_setD [OF m] by (simp add: tried_of_def del: set_map)
  moreover have "\<forall>t \<in> set (tra_Tasks trace). task_Status t = TaskCompleted"
    using finished_tasks [OF st(1,3)] by (simp add: st(2))
  ultimately show ?thesis by (simp add: st(2))
qed

section \<open>Runs that end\<close>

text \<open>
  An environment that cooperates: no call fails, and an inspection that does not report completion
  uses up some of the potential \<open>pot\<close>, which nothing increases.
\<close>

definition cooperative :: "'w Supervisor \<Rightarrow> ('w \<Rightarrow> nat) \<Rightarrow> bool" where
  "cooperative sv pot \<longleftrightarrow>
     (\<forall>w. sup_ctxErr sv w = None) \<and> (\<forall>w. pot (snd (sup_unixNow sv w)) \<le> pot w) \<and>
     (\<forall>w. fst (sup_wait sv w) = None \<and> pot (snd (sup_wait sv w)) \<le> pot w) \<and>
     (\<forall>t w. fst (xs_SaveTask (sup_executions sv) t w) = None \<and> pot (snd (xs_SaveTask (sup_executions sv) t w)) \<le> pot w) \<and>
     (\<forall>c w. is_ok (fst (ac_Start (sup_activities sv) c w)) \<and> pot (snd (ac_Start (sup_activities sv) c w)) \<le> pot w) \<and>
     (\<forall>i m w. \<exists>h. fst (ac_Inspect (sup_activities sv) i m w) = Ok (Some h) \<and>
        hnd_Status h \<notin> {HandleFailed, HandleStopped} \<and>
        (if hnd_Status h = HandleCompleted then pot (snd (ac_Inspect (sup_activities sv) i m w)) \<le> pot w
         else pot (snd (ac_Inspect (sup_activities sv) i m w)) < pot w))"

text \<open>A request every activity of which can be started: it is assigned to a known resource and needs no preparation.\<close>

definition startable_request :: "ExecutionRequest \<Rightarrow> bool" where
  "startable_request request \<longleftrightarrow>
     er_PreparationRequirementsByActivity request = [] \<and>
     (\<forall>a \<in> set (wfv_Activities (er_Workflow request)).
        (\<forall>ref. cmd_Executable (act_Command a) = Some ref \<longrightarrow> src_Type (ref_Source ref) \<noteq> ExecutableSourceBuild) \<and>
        (\<exists>asg. last_with asg_ActivityID (plan_Assignments (er_Plan request)) (act_ID a) = Some asg \<and>
           (\<exists>resource. last_with res_ID (er_Resources request) (asg_ResourceID asg) = Some resource)))"

definition remaining :: "ExecutionRequest \<Rightarrow> ExecState \<Rightarrow> nat" where
  "remaining request st =
     card (act_ID ` set (wfv_Activities (er_Workflow request)) - done_of st) +
     card (act_ID ` set (wfv_Activities (er_Workflow request)) - tried_of st)"

lemma remaining_mono: "done_of st \<subseteq> done_of st' \<Longrightarrow> tried_of st \<subseteq> tried_of st' \<Longrightarrow> remaining request st' \<le> remaining request st"
  unfolding remaining_def by (intro add_mono card_mono) auto

lemma remaining_less:
  assumes "done_of st \<subseteq> done_of st'" and "tried_of st \<subseteq> tried_of st'"
    and "k \<in> act_ID ` set (wfv_Activities (er_Workflow request))" and "k \<in> done_of st' - done_of st \<or> k \<in> tried_of st' - tried_of st"
  shows "remaining request st' < remaining request st"
proof -
  let ?ids = "act_ID ` set (wfv_Activities (er_Workflow request))"
  have le: "card (?ids - done_of st') \<le> card (?ids - done_of st)" "card (?ids - tried_of st') \<le> card (?ids - tried_of st)"
    using assms(1,2) by (intro card_mono; auto)+
  from assms(4) show ?thesis
  proof
    assume "k \<in> done_of st' - done_of st"
    then have "card (?ids - done_of st') < card (?ids - done_of st)"
      using assms(1,3) by (intro psubset_card_mono) auto
    then show ?thesis using le unfolding remaining_def by linarith
  next
    assume "k \<in> tried_of st' - tried_of st"
    then have "card (?ids - tried_of st') < card (?ids - tried_of st)"
      using assms(2,3) by (intro psubset_card_mono) auto
    then show ?thesis using le unfolding remaining_def by linarith
  qed
qed

lemma inspect_loop_progress:
  assumes coop: "cooperative sv pot"
  shows "exec_inv request bound st \<Longrightarrow>
    \<exists>st' w'. inspect_loop sv mode ks st w = (Ok st', w') \<and> pot w' + remaining request st' \<le> pot w + remaining request st \<and>
      (set ks \<inter> live_of st \<noteq> {} \<longrightarrow> pot w' + remaining request st' < pot w + remaining request st)"
proof (induction ks arbitrary: st w)
  case Nil
  then show ?case by simp
next
  case (Cons k ks)
  show ?case
  proof (cases "map_of (es_running st) k")
    case None
    then have "k \<notin> live_of st" by (simp add: names_map_of)
    then show ?thesis using Cons None by auto
  next
    case (Some handle)
    then have live: "k \<in> live_of st" using names_map_of(2) [of st k] by simp
    obtain h w1 where q: "ac_Inspect (sup_activities sv) (hnd_ID handle) mode w = (Ok (Some h), w1)"
      and h: "hnd_Status h \<notin> {HandleFailed, HandleStopped}"
      and p: "if hnd_Status h = HandleCompleted then pot w1 \<le> pot w else pot w1 < pot w"
      using coop unfolding cooperative_def by (metis prod.collapse)
    show ?thesis
    proof (cases "hnd_Status h = HandleCompleted")
      case True
      let ?t = "completeTask (task_of st k) h"
      let ?st = "finish_state k ?t st"
      obtain w2 where s: "xs_SaveTask (sup_executions sv) ?t w1 = (None, w2)" "pot w2 \<le> pot w1"
        using coop unfolding cooperative_def by (metis prod.collapse)
      have i: "exec_inv request bound ?st"
        using Cons.prems live by (rule exec_inv_finish) (simp_all add: task_of_ID [OF Cons.prems live])
      have "k \<notin> done_of st" using Cons.prems live unfolding exec_inv_def maps_ok_def by blast
      moreover have "k \<in> act_ID ` set (wfv_Activities (er_Workflow request))"
        using Cons.prems live unfolding exec_inv_def maps_ok_def order_ok_def by blast
      ultimately have "remaining request ?st < remaining request st" by (intro remaining_less) auto
      moreover have "inspect_loop sv mode (k # ks) st w = inspect_loop sv mode ks ?st w2"
        using Some q True s by (simp add: Let_def finish_state_def)
      ultimately show ?thesis using Cons.IH [OF i, of w2] True p s(2) by fastforce
    next
      case False
      then have "inspect_loop sv mode (k # ks) st w = inspect_loop sv mode ks st w1" using Some q h by simp
      then show ?thesis using Cons.IH [OF Cons.prems, of w1] False p by fastforce
    qed
  qed
qed

lemma prepare_start_plain:
  assumes "startable_request request" and "k \<in> act_ID ` set (wfv_Activities (er_Workflow request))"
  shows "prepare_start sv request k (activity_for (activities_of request) k) asg resource w = (Ok (None, []), w)"
proof -
  obtain a where a: "map_of (activities_of request) k = Some a" "a \<in> set (wfv_Activities (er_Workflow request))"
    using assms(2) map_of_index_by_ex [of _ "wfv_Activities (er_Workflow request)" act_ID]
      map_of_index_by_Some [of act_ID "wfv_Activities (er_Workflow request)" k] by blast
  then show ?thesis
    using assms(1) unfolding startable_request_def prepare_start_def Let_def
    by (auto simp: activity_for_def split: option.split)
qed

lemma start_one_total:
  assumes coop: "cooperative sv pot" and "startable_request request" and "k \<in> act_ID ` set (wfv_Activities (er_Workflow request))"
  shows "\<exists>st' w'. start_one sv request k (activity_for (activities_of request) k) asg resource readyAt st w = (Ok st', w') \<and>
    pot w' \<le> pot w"
proof -
  let ?c = "\<lparr>ctx_Run = er_Run request, ctx_Workflow = er_Workflow request,
     ctx_Activity = activity_for (activities_of request) k, ctx_Assignment = asg, ctx_Resource = resource,
     ctx_RuntimeID = selectRuntime request asg, ctx_Preparation = None\<rparr>"
  have c: "is_ok (fst (ac_Start (sup_activities sv) ?c w))" "pot (snd (ac_Start (sup_activities sv) ?c w)) \<le> pot w"
    using coop unfolding cooperative_def by blast+
  then obtain h w1 where s: "ac_Start (sup_activities sv) ?c w = (Ok h, w1)" "pot w1 \<le> pot w"
    by (cases "ac_Start (sup_activities sv) ?c w"; cases "fst (ac_Start (sup_activities sv) ?c w)") auto
  obtain n w2 where n: "sup_unixNow sv w1 = (n, w2)" "pot w2 \<le> pot w1"
    using coop unfolding cooperative_def by (metis prod.collapse)
  let ?t = "newRunningTask n (run_ID (er_Run request)) k asg resource h readyAt None"
  let ?t' = "if hnd_Status h = HandleCompleted then completeTask ?t h else ?t"
  obtain w3 where t: "xs_SaveTask (sup_executions sv) ?t' w2 = (None, w3)" "pot w3 \<le> pot w2"
    using coop unfolding cooperative_def by (metis prod.collapse)
  have "\<exists>st'. start_one sv request k (activity_for (activities_of request) k) asg resource readyAt st w = (Ok st', w3)"
    using s(1) n(1) t(1) by (simp add: start_one_def Let_def prepare_start_plain [OF assms(2,3)])
  then show ?thesis using s(2) n(2) t(2) by fastforce
qed

lemma startReady_total:
  assumes coop: "cooperative sv pot" and req: "startable_request request"
  shows "set ks \<subseteq> act_ID ` set (wfv_Activities (er_Workflow request)) \<Longrightarrow>
    \<exists>st' w'. startReadyActivities sv request (activities_of request)
       (index_by asg_ActivityID (plan_Assignments (er_Plan request))) (index_by res_ID (er_Resources request))
       ks st w = (Ok st', w') \<and> pot w' \<le> pot w"
proof (induction ks arbitrary: st w)
  case Nil
  then show ?case by simp
next
  case (Cons k ks)
  obtain n w0 where n: "sup_unixNow sv w = (n, w0)" "pot w0 \<le> pot w"
    using coop unfolding cooperative_def by (metis prod.collapse)
  have k: "k \<in> act_ID ` set (wfv_Activities (er_Workflow request))" using Cons.prems by simp
  then obtain asg resource where a: "map_of (index_by asg_ActivityID (plan_Assignments (er_Plan request))) k = Some asg"
    "map_of (index_by res_ID (er_Resources request)) (asg_ResourceID asg) = Some resource"
    using req unfolding startable_request_def map_of_index_by by blast
  obtain st1 w1 where s: "start_one sv request k (activity_for (activities_of request) k) asg resource n st w0 = (Ok st1, w1)"
    "pot w1 \<le> pot w0" using start_one_total [OF coop req k] by blast
  obtain st' w' where "startReadyActivities sv request (activities_of request)
       (index_by asg_ActivityID (plan_Assignments (er_Plan request))) (index_by res_ID (er_Resources request))
       ks st1 w1 = (Ok st', w')" "pot w' \<le> pot w1" using Cons by fastforce
  then show ?case using n s a by (auto simp: asg_for_def)
qed

text \<open>Every round of an unfinished run goes on and uses up some of what remains.\<close>

lemma exec_round_progress:
  assumes coop: "cooperative sv pot" and req: "startable_request request" and d: "dag (er_Workflow request)"
    and m: "run_Mode (er_Run request) \<noteq> ExecutionModeInteractive" and b: "1 \<le> sc_MaxParallel (sup_config sv)"
    and i: "exec_inv request (sc_MaxParallel (sup_config sv)) st"
    and less: "length (es_completed st) < length (activities_of request)"
  shows "\<exists>st' w'. exec_round sv request st w = (Again st', w') \<and>
    exec_inv request (sc_MaxParallel (sup_config sv)) st' \<and>
    pot w' + remaining request st' < pot w + remaining request st"
proof -
  let ?b = "sc_MaxParallel (sup_config sv)"
  have c: "sup_ctxErr sv w = None" using coop unfolding cooperative_def by blast
  let ?ks = "in_order (sup_range sv w) (keys (es_running st))"
  obtain st1 w1 where q: "inspect_loop sv (run_Mode (er_Run request)) ?ks st w = (Ok st1, w1)"
    and le: "pot w1 + remaining request st1 \<le> pot w + remaining request st"
    and lt: "set ?ks \<inter> live_of st \<noteq> {} \<longrightarrow> pot w1 + remaining request st1 < pot w + remaining request st"
    using inspect_loop_progress [OF coop i] by blast
  have i1: "exec_inv request ?b st1" "done_of st \<subseteq> done_of st1" using inspect_loop_inv [OF q i] by blast+
  have ks: "set ?ks = live_of st" by (simp add: live_of_def del: set_map)
  have sub: "set (batch sv request st1) \<subseteq> act_ID ` set (wfv_Activities (er_Workflow request))"
    using batch_ok(2) [OF i1(1) refl] unfolding startable_def by blast
  obtain st2 w2 where s: "startReadyActivities sv request (activities_of request)
       (index_by asg_ActivityID (plan_Assignments (er_Plan request))) (index_by res_ID (er_Resources request))
       (batch sv request st1) st1 w1 = (Ok st2, w2)" "pot w2 \<le> pot w1"
    using startReady_total [OF coop req sub] by blast
  have i2: "exec_inv request ?b st2" "done_of st1 \<subseteq> done_of st2" "tried_of st2 = tried_of st1 \<union> set (batch sv request st1)"
    using startReady_inv [OF s(1) i1(1) batch_ok [OF i1(1) refl]] by blast+
  have r2: "remaining request st2 \<le> remaining request st1" using i2(2,3) by (intro remaining_mono) auto
  let ?ready = "readyActivities (activities_of request) (predecessors_of request) st1"
  have stall: "\<not> (es_running st2 = [] \<and> ?ready = [] \<and> length (es_completed st2) < length (activities_of request))"
  proof
    assume x: "es_running st2 = [] \<and> ?ready = [] \<and> length (es_completed st2) < length (activities_of request)"
    then have "batch sv request st1 = []" by (simp add: batch_def)
    then have "st2 = st1" using s(1) by simp
    moreover have "\<forall>k. \<not> startable request st1 k" using ready_startable [OF i1(1)] x by auto
    ultimately show False using nothing_left [OF d i1(1)] completed_length [OF i1(1)] x by simp
  qed
  have "pot w2 + remaining request st2 < pot w + remaining request st"
  proof (cases "live_of st = {}")
    case False
    then show ?thesis using lt ks le s(2) r2 by auto
  next
    case True
    then have e: "es_running st = []" by (simp add: live_of_def)
    then have st1: "st1 = st" using q by (simp add: in_order_def split: if_splits)
    have "\<exists>k. startable request st k"
      using nothing_left [OF d i e] completed_length [OF i] less by blast
    then have "?ready \<noteq> []" using ready_startable [OF i1(1)] st1 by auto
    then have "batch sv request st1 \<noteq> []" using b e st1 by (simp add: batch_def)
    then obtain k where k: "k \<in> set (batch sv request st1)" by (cases "batch sv request st1") auto
    then have "k \<notin> tried_of st1" using batch_ok(2) [OF i1(1) refl] unfolding startable_def by blast
    then have "remaining request st2 < remaining request st1"
      using k sub i2(2,3) by (intro remaining_less [of st1 st2 k]) auto
    then show ?thesis using le s(2) by linarith
  qed
  moreover have "\<exists>w'. sup_wait sv w2 = (None, w') \<and> pot w' \<le> pot w2"
    using coop unfolding cooperative_def by (metis prod.collapse)
  ultimately show ?thesis
    using exec_round_step [OF i refl less c] q s(1) m stall i2(1) unfolding inspectRunning_def by fastforce
qed

lemma exec_loop_returns:
  assumes coop: "cooperative sv pot" and req: "startable_request request" and d: "dag (er_Workflow request)"
    and m: "run_Mode (er_Run request) \<noteq> ExecutionModeInteractive" and b: "1 \<le> sc_MaxParallel (sup_config sv)"
  shows "exec_inv request (sc_MaxParallel (sup_config sv)) st \<Longrightarrow> pot w + remaining request st < fuel \<Longrightarrow>
    \<exists>trace w'. exec_loop fuel sv request st w = Some (Ok trace, w')"
proof (induction fuel arbitrary: st w)
  case 0
  then show ?case by simp
next
  case (Suc fuel)
  show ?case
  proof (cases "length (es_completed st) < length (activities_of request)")
    case True
    obtain st' w' where r: "exec_round sv request st w = (Again st', w')"
      "exec_inv request (sc_MaxParallel (sup_config sv)) st'" "pot w' + remaining request st' < pot w + remaining request st"
      using exec_round_progress [OF coop req d m b Suc.prems(1) True] by blast
    then show ?thesis using Suc.IH [OF r(2), of w'] Suc.prems(2) by simp
  next
    case False
    then show ?thesis by (simp add: exec_round_def Let_def)
  qed
qed

end
