(* ===== verification/Activity_Controller.thy ===== *)
theory Activity_Controller
  imports Supervisor_Runs
begin

text \<open>
  The activity controller, \<^verbatim>\<open>internal/application/execution/controller.go\<close>: the final boundary before a
  runtime starts an activity, the persistence of handles, and the activity log. The runtime
  resolver, the handle store and the data catalogue are a record of operations over a world.
\<close>

section \<open>Logs\<close>

text \<open>\<^verbatim>\<open>strings.ToUpper\<close> on ASCII letters: the levels are \<open>info\<close>, \<open>success\<close> and \<open>error\<close>.\<close>

definition upper_char :: "char \<Rightarrow> char" where
  "upper_char c = (let n = (of_char c :: nat) in if 97 \<le> n \<and> n \<le> 122 then char_of (n - 32) else c)"

definition log_entry :: "string \<Rightarrow> string \<Rightarrow> string" where
  "log_entry level message = ''[AKOFLOW '' @ map upper_char level @ ''] '' @ message"

definition appendLog :: "string \<Rightarrow> string \<Rightarrow> string \<Rightarrow> string" where
  "appendLog lg level message =
     (if message = '''' then lg
      else let entry = log_entry level message in
        if contains lg entry then lg
        else if lg = '''' then entry @ [newline]
        else trim_right_nl lg @ [newline] @ entry @ [newline])"

text \<open>\<^verbatim>\<open>strings.Split\<close> and \<^verbatim>\<open>strings.Join\<close> with a newline.\<close>

fun split_lines :: "string \<Rightarrow> string list" where
  "split_lines [] = [[]]"
| "split_lines (c # cs) =
     (if c = newline then [] # split_lines cs
      else case split_lines cs of [] \<Rightarrow> [[c]] | l # ls \<Rightarrow> (c # l) # ls)"

fun join_lines :: "string list \<Rightarrow> string" where
  "join_lines [] = []"
| "join_lines [l] = l"
| "join_lines (l # m # ls) = l @ [newline] @ join_lines (m # ls)"

definition lifecycle_line :: "string \<Rightarrow> bool" where
  "lifecycle_line line \<longleftrightarrow> has_prefix line ''[AKOFLOW ''"

definition splitLifecycleLog :: "string \<Rightarrow> string \<times> string" where
  "splitLifecycleLog lg =
     (let lines = split_lines (trim_right_nl lg);
          before = takeWhile (\<lambda>l. \<not> lifecycle_line l) lines;
          rest = dropWhile (\<lambda>l. \<not> lifecycle_line l) lines
      in if rest = [] then (trim_right_nl lg, '''')
         else let runtimeLog = join_lines before;
                  runtimeLog' = (if runtimeLog \<noteq> '''' then runtimeLog @ [newline] else runtimeLog)
              in (runtimeLog', [newline] @ join_lines rest @ [newline]))"

definition mergeLogs :: "string \<Rightarrow> string \<Rightarrow> string" where
  "mergeLogs previous observed =
     (if observed = '''' \<or> observed = previous then previous
      else let (runtimeLog, lifecycleLog) = splitLifecycleLog previous in
        if runtimeLog = '''' \<or> has_prefix observed runtimeLog then trim_right_nl observed @ lifecycleLog
        else if has_prefix runtimeLog observed then previous
        else trim_right_nl observed @ lifecycleLog)"

definition failureMessage :: "string \<Rightarrow> string" where
  "failureMessage failure =
     (if failure \<noteq> '''' then failure else ''Activity stopped without a reported failure reason.'')"

definition capabilityFor :: "ExecutionMode \<Rightarrow> ActivityCapability result" where
  "capabilityFor mode = (case mode of
     ExecutionModeReal \<Rightarrow> Ok ActivityCapabilityReal
   | ExecutionModeSimulation \<Rightarrow> Ok ActivityCapabilitySimulation
   | ExecutionModeInteractive \<Rightarrow> Ok ActivityCapabilityInteractive
   | ExecutionModeOther m \<Rightarrow> Err (Errorf ''unsupported execution mode %q'' [FmtS m]))"

section \<open>The interfaces of the controller\<close>

record 'w RuntimeAdapter =
  ra_Start :: "ActivityExecutionContext \<Rightarrow> 'w \<Rightarrow> ActivityHandle result \<times> 'w"
  ra_Inspect :: "ActivityHandle \<Rightarrow> 'w \<Rightarrow> ActivityHandle result \<times> 'w"
  ra_Stop :: "ActivityHandle \<Rightarrow> 'w \<Rightarrow> error option \<times> 'w"

record 'w Controller =
  ctl_Resolve :: "ExecutionMode \<Rightarrow> string \<Rightarrow> 'w RuntimeAdapter result"
  ctl_Save :: "ActivityHandle \<Rightarrow> 'w \<Rightarrow> error option \<times> 'w"
  ctl_Find :: "string \<Rightarrow> 'w \<Rightarrow> ActivityHandle option result \<times> 'w"
  ctl_data :: "(ActivityHandle \<Rightarrow> 'w \<Rightarrow> error option \<times> 'w) option"
  ctl_now :: "'w \<Rightarrow> float64"

section \<open>Start\<close>

text \<open>The executable a committed preparation resolves, which the controller gives to the runtime.\<close>

definition resolve_executable :: "ArtifactMaterialization \<Rightarrow> ResolvedExecutable" where
  "resolve_executable m =
     \<lparr>rex_VariantID = mat_VariantID m, rex_Digest = mat_Digest m, rex_Format = ExecutableFormatOther '''',
      rex_LocalPath = mat_DestinationPath m, rex_RemotePath = '''', rex_EnvironmentID = mat_EnvironmentID m,
      rex_ResourceID = mat_ResourceID m, rex_Delivery = DeliveryOther '''', rex_MaterializationID = mat_ID m,
      rex_MaterializationDone = materialization_Committed m\<rparr>"

definition with_executable :: "ActivityExecutionContext \<Rightarrow> ArtifactMaterialization \<Rightarrow> ActivityExecutionContext" where
  "with_executable execution m =
     execution\<lparr>ctx_Activity := (ctx_Activity execution)\<lparr>act_Command := (act_Command (ctx_Activity execution))
       \<lparr>cmd_ResolvedExecutable := Some (resolve_executable m)\<rparr>\<rparr>\<rparr>"

definition check_gate :: "ActivityExecutionContext \<Rightarrow> ActivityExecutionContext result" where
  "check_gate execution =
     (case ctx_Preparation execution of
        None \<Rightarrow> Ok execution
      | Some gate \<Rightarrow>
         (case gate_Ready gate of
            Some e \<Rightarrow> Err (Errorf ''activity preparation is not ready: %w'' [FmtE e])
          | None \<Rightarrow> (case gate_Executable gate of None \<Rightarrow> Ok execution | Some m \<Rightarrow> Ok (with_executable execution m))))"

definition started_log :: "ActivityHandle \<Rightarrow> ActivityHandle" where
  "started_log h =
     (let h1 = h\<lparr>hnd_Log := appendLog (hnd_Log h) ''info'' (''Activity started on runtime '' @ hnd_RuntimeID h @ ''.'')\<rparr>;
          h2 = (if hnd_Status h1 = HandleCompleted then
                  h1\<lparr>hnd_Log := appendLog (hnd_Log h1) ''success'' ''Activity completed successfully.''\<rparr> else h1)
      in if hnd_Status h2 = HandleFailed then
           h2\<lparr>hnd_Log := appendLog (hnd_Log h2) ''error'' (failureMessage (hnd_Failure h2))\<rparr> else h2)"

text \<open>The part of \<^verbatim>\<open>Start\<close> that reaches the runtime.\<close>

definition launch :: "'w Controller \<Rightarrow> ActivityExecutionContext \<Rightarrow> 'w \<Rightarrow> ActivityHandle result \<times> 'w" where
  "launch ctl execution w =
     (let handleID = run_ID (ctx_Run execution) @ '':'' @ act_ID (ctx_Activity execution) in
      if ctx_RuntimeID execution = '''' then
        (Err (Errorf ''activity %q has no selected runtime'' [FmtS (act_ID (ctx_Activity execution))]), w)
      else case ctl_Resolve ctl (run_Mode (ctx_Run execution)) (ctx_RuntimeID execution) of
        Err e \<Rightarrow> (Err e, w)
      | Panic p \<Rightarrow> (Panic p, w)
      | Ok runtime \<Rightarrow>
         (case ra_Start runtime execution w of
            (Err e, w1) \<Rightarrow> (Err e, w1)
          | (Panic p, w1) \<Rightarrow> (Panic p, w1)
          | (Ok handle, w1) \<Rightarrow>
             (if hnd_ActivityID handle \<noteq> act_ID (ctx_Activity execution) \<or> hnd_RunID handle \<noteq> run_ID (ctx_Run execution) then
                (Err (Errorf ''runtime returned an invalid activity handle'' []), w1)
              else let h = started_log (handle\<lparr>hnd_ID := handleID\<rparr>) in
                case ctl_Save ctl h w1 of
                  (Some e, w2) \<Rightarrow>
                    (Err (Errorf ''persist activity handle: %w'' [FmtE e]), snd (ra_Stop runtime h w2))
                | (None, w2) \<Rightarrow> (Ok h, w2))))"

definition controller_Start :: "'w Controller \<Rightarrow> ActivityExecutionContext \<Rightarrow> 'w \<Rightarrow> ActivityHandle result \<times> 'w" where
  "controller_Start ctl execution0 w =
     (case activity_Validate (ctx_Activity execution0) of
        Some e \<Rightarrow> (Err e, w)
      | None \<Rightarrow>
       (case check_gate execution0 of
          Err e \<Rightarrow> (Err e, w)
        | Panic p \<Rightarrow> (Panic p, w)
        | Ok execution \<Rightarrow>
         (case capabilityFor (run_Mode (ctx_Run execution)) of
            Err e \<Rightarrow> (Err e, w)
          | Panic p \<Rightarrow> (Panic p, w)
          | Ok capability \<Rightarrow>
           (if \<not> activity_Supports (ctx_Activity execution) capability then
              (Err (Errorf ''activity %q does not support %q execution''
                      [FmtS (act_ID (ctx_Activity execution)), FmtS (mode_text (run_Mode (ctx_Run execution)))]), w)
            else case ctl_Find ctl (run_ID (ctx_Run execution) @ '':'' @ act_ID (ctx_Activity execution)) w of
              (Err e, w1) \<Rightarrow> (Err (Errorf ''find activity handle: %w'' [FmtE e]), w1)
            | (Panic p, w1) \<Rightarrow> (Panic p, w1)
            | (Ok (Some existing), w1) \<Rightarrow> (Ok existing, w1)
            | (Ok None, w1) \<Rightarrow> launch ctl execution w1))))"

section \<open>Inspect and Stop\<close>

definition persistInspectionFailure ::
  "'w Controller \<Rightarrow> ActivityHandle \<Rightarrow> error \<Rightarrow> 'w \<Rightarrow> ActivityHandle option result \<times> 'w"
where
  "persistInspectionFailure ctl handle err w =
     (let failure = ''inspect activity: '' @ error_text err;
          h = handle\<lparr>hnd_Status := HandleFailed, hnd_FinishedAt := ctl_now ctl w, hnd_Failure := failure,
                     hnd_Log := appendLog (hnd_Log handle) ''error'' failure\<rparr>
      in case ctl_Save ctl h w of
           (Some e, w1) \<Rightarrow> (Err (Errorf ''inspect activity: %w; save failed handle: %v'' [FmtE err, FmtE e]), w1)
         | (None, w1) \<Rightarrow> (Ok (Some h), w1))"

definition observed_log :: "ActivityHandle \<Rightarrow> ActivityHandle \<Rightarrow> ActivityHandle" where
  "observed_log handle updated =
     (let u = updated\<lparr>hnd_Log := mergeLogs (hnd_Log handle) (hnd_Log updated)\<rparr> in
      if hnd_Status u = hnd_Status handle then u
      else if hnd_Status u = HandleCompleted then
        u\<lparr>hnd_Log := appendLog (hnd_Log u) ''success'' ''Activity completed successfully.''\<rparr>
      else if hnd_Status u = HandleFailed \<or> hnd_Status u = HandleStopped then
        u\<lparr>hnd_Log := appendLog (hnd_Log u) ''error'' (failureMessage (hnd_Failure u))\<rparr>
      else u)"

definition catalog_artifacts :: "'w Controller \<Rightarrow> ActivityHandle \<Rightarrow> 'w \<Rightarrow> ActivityHandle \<times> 'w" where
  "catalog_artifacts ctl u w =
     (case ctl_data ctl of
        None \<Rightarrow> (u, w)
      | Some catalog \<Rightarrow>
         if hnd_Artifacts u \<noteq> None \<and> (hnd_Status u = HandleCompleted \<or> hnd_Status u = HandleFailed) then
           (case catalog u w of
              (None, w1) \<Rightarrow> (u, w1)
            | (Some e, w1) \<Rightarrow>
                (u\<lparr>hnd_Metadata := put ''artifactCatalogError'' (AnyString (error_text e)) (hnd_Metadata u)\<rparr>, w1))
         else (u, w))"

definition controller_Inspect ::
  "'w Controller \<Rightarrow> string \<Rightarrow> ExecutionMode \<Rightarrow> 'w \<Rightarrow> ActivityHandle option result \<times> 'w"
where
  "controller_Inspect ctl handleID mode w =
     (case ctl_Find ctl handleID w of
        (Err e, w1) \<Rightarrow> (Err e, w1)
      | (Panic p, w1) \<Rightarrow> (Panic p, w1)
      | (Ok None, w1) \<Rightarrow> (Ok None, w1)
      | (Ok (Some handle), w1) \<Rightarrow>
         (case ctl_Resolve ctl mode (hnd_RuntimeID handle) of
            Err e \<Rightarrow> persistInspectionFailure ctl handle e w1
          | Panic p \<Rightarrow> (Panic p, w1)
          | Ok runtime \<Rightarrow>
             (case ra_Inspect runtime handle w1 of
                (Err e, w2) \<Rightarrow> persistInspectionFailure ctl handle e w2
              | (Panic p, w2) \<Rightarrow> (Panic p, w2)
              | (Ok updated, w2) \<Rightarrow>
                 (let (u, w3) = catalog_artifacts ctl (observed_log handle updated) w2 in
                  case ctl_Save ctl u w3 of
                    (Some e, w4) \<Rightarrow> (Err e, w4)
                  | (None, w4) \<Rightarrow> (Ok (Some u), w4)))))"

definition controller_Stop :: "'w Controller \<Rightarrow> string \<Rightarrow> ExecutionMode \<Rightarrow> 'w \<Rightarrow> error option result \<times> 'w" where
  "controller_Stop ctl handleID mode w =
     (case ctl_Find ctl handleID w of
        (Err e, w1) \<Rightarrow> (Ok (Some e), w1)
      | (Panic p, w1) \<Rightarrow> (Panic p, w1)
      | (Ok None, w1) \<Rightarrow> (Ok (Some (Errorf ''activity handle %q not found'' [FmtS handleID])), w1)
      | (Ok (Some handle), w1) \<Rightarrow>
         (case ctl_Resolve ctl mode (hnd_RuntimeID handle) of
            Err e \<Rightarrow> (Ok (Some e), w1)
          | Panic p \<Rightarrow> (Panic p, w1)
          | Ok runtime \<Rightarrow>
             (case ra_Stop runtime handle w1 of
                (Some e, w2) \<Rightarrow> (Ok (Some e), w2)
              | (None, w2) \<Rightarrow>
                  (let (e, w3) = ctl_Save ctl (handle\<lparr>hnd_Status := HandleStopped\<rparr>) w2 in (Ok e, w3)))))"

end
