(* ===== verification/Job_Queue.thy ===== *)
theory Job_Queue
  imports Execution_Domain "HOL-Library.Product_Lexorder"
begin

text \<open>
  The durable job queue: \<^verbatim>\<open>internal/domain/queue/job.go\<close> and the SQLite repository
  \<^verbatim>\<open>internal/infrastructure/database/queue/repository.go\<close> over the table \<open>queue_jobs\<close> of the schema.

  The table is the list of its rows in insertion order; a nullable time is an option, and the
  idempotency key \<open>''''\<close> stands for NULL, as \<^verbatim>\<open>NULLIF\<close> and \<^verbatim>\<open>COALESCE\<close> make it. Times are compared
  chronologically. A database call may fail: an operation takes the failures the database
  reports, and a transaction that fails leaves the table as it was. Rows that tie in
  \<^verbatim>\<open>ORDER BY\<close> come in an order SQL does not fix: \<open>repo_Lease\<close> takes the order in which the scan visits them.
\<close>

section \<open>Jobs\<close>

datatype Status = StatusPending | StatusLeased | StatusCompleted | StatusFailed | StatusCancelled
  | StatusOther string

record Job =
  job_ID :: string
  job_Category :: string
  job_Type :: string
  job_AggregateType :: string
  job_AggregateID :: string
  job_Payload :: string
  job_Status :: Status
  job_Priority :: int
  job_AvailableAt :: int
  job_LeaseOwner :: string
  job_LeaseExpiresAt :: "int option"
  job_Attempts :: int
  job_MaxAttempts :: int
  job_IdempotencyKey :: string
  job_LastError :: string
  job_CreatedAt :: int
  job_StartedAt :: "int option"
  job_CompletedAt :: "int option"

text \<open>The random identifier and the clock are arguments; the zero time is \<open>0\<close>.\<close>

definition job_New :: "string \<Rightarrow> int \<Rightarrow> string \<Rightarrow> string \<Rightarrow> string \<Rightarrow> int \<Rightarrow> Job result" where
  "job_New newID clock category eventType payload now =
     (if category = '''' \<or> eventType = '''' then
        Err (Errorf ''queue job category and type are required'' [])
      else let moment = (if now = 0 then clock else now) in
        Ok \<lparr>job_ID = newID, job_Category = category, job_Type = eventType, job_AggregateType = '''',
            job_AggregateID = '''', job_Payload = payload, job_Status = StatusPending, job_Priority = 0,
            job_AvailableAt = moment, job_LeaseOwner = '''', job_LeaseExpiresAt = None, job_Attempts = 0,
            job_MaxAttempts = 5, job_IdempotencyKey = '''', job_LastError = '''', job_CreatedAt = moment,
            job_StartedAt = None, job_CompletedAt = None\<rparr>)"

definition job_Validate :: "Job \<Rightarrow> error option" where
  "job_Validate j =
     (if job_ID j = '''' \<or> job_Category j = '''' \<or> job_Type j = '''' then
        Some (Errorf ''queue job id, category and type are required'' [])
      else if job_MaxAttempts j < 1 then
        Some (Errorf ''queue job max attempts must be positive'' [])
      else None)"

section \<open>The table\<close>

type_synonym queue = "Job list"

text \<open>\<^verbatim>\<open>UPDATE queue_jobs SET f WHERE p\<close>: the rows affected and the new table.\<close>

definition sql_update :: "(Job \<Rightarrow> bool) \<Rightarrow> (Job \<Rightarrow> Job) \<Rightarrow> queue \<Rightarrow> int \<times> queue" where
  "sql_update p f q = (int (length (filter p q)), map (\<lambda>j. if p j then f j else j) q)"

definition row_of :: "queue \<Rightarrow> string \<Rightarrow> Job option" where
  "row_of q ident = List.find (\<lambda>j. job_ID j = ident) q"

text \<open>
  The \<^verbatim>\<open>INSERT\<close> of \<^verbatim>\<open>Publish\<close>: the \<^verbatim>\<open>CHECK\<close> on the status, then the idempotency index with
  \<^verbatim>\<open>DO NOTHING\<close>, then the primary key. The columns the statement does not name get their
  defaults.
\<close>

definition sql_insert :: "Job \<Rightarrow> queue \<Rightarrow> error option \<times> queue" where
  "sql_insert j q =
     (if (case job_Status j of StatusOther _ \<Rightarrow> True | _ \<Rightarrow> False) then
        (Some (Errorf ''CHECK constraint failed: queue_jobs'' []), q)
      else if job_IdempotencyKey j \<noteq> '''' \<and> (\<exists>r \<in> set q. job_IdempotencyKey r = job_IdempotencyKey j) then (None, q)
      else if \<exists>r \<in> set q. job_ID r = job_ID j then
        (Some (Errorf ''UNIQUE constraint failed: queue_jobs.id'' []), q)
      else (None, q @ [j\<lparr>job_LeaseOwner := '''', job_LeaseExpiresAt := None, job_LastError := '''',
                        job_StartedAt := None, job_CompletedAt := None\<rparr>]))"

definition requireOne :: "int \<Rightarrow> string \<Rightarrow> error option" where
  "requireOne affected operation =
     (if affected \<noteq> 1 then Some (Errorf ''%s affected %d rows'' [FmtS operation, FmtD affected]) else None)"

section \<open>The repository\<close>

definition repo_FindByID :: "error option \<Rightarrow> string \<Rightarrow> queue \<Rightarrow> Job option result" where
  "repo_FindByID fault ident q = (case fault of Some e \<Rightarrow> Err e | None \<Rightarrow> Ok (row_of q ident))"

text \<open>The times \<^verbatim>\<open>Publish\<close> fills in.\<close>

definition publish_times :: "int \<Rightarrow> Job \<Rightarrow> Job" where
  "publish_times clock j0 =
     (let j1 = (if job_AvailableAt j0 = 0 then j0\<lparr>job_AvailableAt := clock\<rparr> else j0)
      in if job_CreatedAt j1 = 0 then j1\<lparr>job_CreatedAt := job_AvailableAt j1\<rparr> else j1)"

text \<open>
  \<open>faults n\<close> is the failure of the \<open>n\<close>-th database call of \<^verbatim>\<open>Publish\<close>: the insert, the look-up of
  the key, the read of the row.
\<close>

definition repo_Publish :: "(nat \<Rightarrow> error option) \<Rightarrow> int \<Rightarrow> Job \<Rightarrow> queue \<Rightarrow> Job result \<times> queue" where
  "repo_Publish faults clock job0 q =
     (case job_Validate job0 of
        Some e \<Rightarrow> (Err e, q)
      | None \<Rightarrow>
        (let job = publish_times clock job0
         in case (case faults 0 of Some e \<Rightarrow> (Some e, q) | None \<Rightarrow> sql_insert job q) of
              (Some e, q') \<Rightarrow> (Err (Errorf ''publish queue job: %w'' [FmtE e]), q')
            | (None, q') \<Rightarrow>
                (if job_IdempotencyKey job \<noteq> '''' then
                   (case faults 1 of
                      Some e \<Rightarrow> (Err e, q')
                    | None \<Rightarrow>
                      (case List.find (\<lambda>r. job_IdempotencyKey r = job_IdempotencyKey job) q' of
                         None \<Rightarrow> (Err (Errorf ''sql: no rows in result set'' []), q')
                       | Some existing \<Rightarrow>
                          (case repo_FindByID (faults 2) (job_ID existing) q' of
                             Err e \<Rightarrow> (Err e, q')
                           | Panic p \<Rightarrow> (Panic p, q')
                           | Ok None \<Rightarrow> (Err (Errorf ''idempotent queue job disappeared'' []), q')
                           | Ok (Some row) \<Rightarrow> (Ok row, q'))))
                 else (Ok job, q'))))"

text \<open>
  \<^verbatim>\<open>SELECT id ... WHERE status = 'pending' AND available_at <= now [AND category IN ...]
  ORDER BY priority DESC, available_at, created_at LIMIT limit\<close>.
\<close>

definition lease_eligible :: "int \<Rightarrow> string list \<Rightarrow> Job \<Rightarrow> bool" where
  "lease_eligible now categories j \<longleftrightarrow>
     job_Status j = StatusPending \<and> job_AvailableAt j \<le> now \<and>
     (categories = [] \<or> job_Category j \<in> set categories)"

definition lease_rank :: "Job \<Rightarrow> int \<times> int \<times> int" where
  "lease_rank j = (- job_Priority j, job_AvailableAt j, job_CreatedAt j)"

definition lease_select :: "(queue \<Rightarrow> queue) \<Rightarrow> int \<Rightarrow> string list \<Rightarrow> int \<Rightarrow> queue \<Rightarrow> Job list" where
  "lease_select scan now categories limit q =
     take (nat limit) (sort_key lease_rank (filter (lease_eligible now categories) (in_order scan q)))"

definition lease_row :: "string \<Rightarrow> int \<Rightarrow> int \<Rightarrow> Job \<Rightarrow> Job" where
  "lease_row owner expires now j =
     j\<lparr>job_Status := StatusLeased, job_LeaseOwner := owner, job_LeaseExpiresAt := Some expires,
       job_Attempts := job_Attempts j + 1,
       job_StartedAt := (case job_StartedAt j of None \<Rightarrow> Some now | Some t \<Rightarrow> Some t)\<rparr>"

fun lease_loop :: "string \<Rightarrow> int \<Rightarrow> int \<Rightarrow> string list \<Rightarrow> queue \<Rightarrow> Job list result \<times> queue" where
  "lease_loop owner expires now [] q = (Ok [], q)"
| "lease_loop owner expires now (ident # ids) q =
     (let (affected, q1) = sql_update (\<lambda>j. job_ID j = ident \<and> job_Status j = StatusPending)
                          (lease_row owner expires now) q
      in if affected \<noteq> 1 then lease_loop owner expires now ids q1
         else (case row_of q1 ident of
                 None \<Rightarrow> (Err (Errorf ''sql: no rows in result set'' []), q1)
               | Some job \<Rightarrow>
                   (case lease_loop owner expires now ids q1 of
                      (Ok leased, q2) \<Rightarrow> (Ok (job # leased), q2)
                    | (Err e, q2) \<Rightarrow> (Err e, q2)
                    | (Panic p, q2) \<Rightarrow> (Panic p, q2))))"

definition repo_Lease ::
  "(queue \<Rightarrow> queue) \<Rightarrow> error option \<Rightarrow> int \<Rightarrow> string \<Rightarrow> string list \<Rightarrow> int \<Rightarrow> int \<Rightarrow> queue \<Rightarrow> Job list result \<times> queue"
where
  "repo_Lease scan fault now owner categories limit duration q =
     (if owner = '''' \<or> limit < 1 \<or> duration \<le> 0 then
        (Err (Errorf ''lease owner, positive limit and duration are required'' []), q)
      else case fault of
        Some e \<Rightarrow> (Err e, q)
      | None \<Rightarrow>
        (case lease_loop owner (now + duration) now
                (map job_ID (lease_select scan now categories limit q)) q of
           (Ok leased, q') \<Rightarrow> (Ok leased, q')
         | (Err e, q') \<Rightarrow> (Err e, q)
         | (Panic p, q') \<Rightarrow> (Panic p, q)))"

definition held_by :: "string \<Rightarrow> string \<Rightarrow> Job \<Rightarrow> bool" where
  "held_by ident owner j \<longleftrightarrow> job_ID j = ident \<and> job_Status j = StatusLeased \<and> job_LeaseOwner j = owner"

text \<open>One guarded \<^verbatim>\<open>UPDATE\<close> that must affect one row (\<^verbatim>\<open>transition\<close> and \<^verbatim>\<open>requireOne\<close>).\<close>

definition transition ::
  "error option \<Rightarrow> string \<Rightarrow> (Job \<Rightarrow> bool) \<Rightarrow> (Job \<Rightarrow> Job) \<Rightarrow> queue \<Rightarrow> error option \<times> queue"
where
  "transition fault operation p f q =
     (case fault of
        Some e \<Rightarrow> (Some e, q)
      | None \<Rightarrow> (let (affected, q') = sql_update p f q in (requireOne affected operation, q')))"

definition repo_Complete :: "error option \<Rightarrow> string \<Rightarrow> string \<Rightarrow> int \<Rightarrow> queue \<Rightarrow> error option \<times> queue" where
  "repo_Complete fault ident owner moment q =
     transition fault ''transition queue job'' (held_by ident owner)
       (\<lambda>j. j\<lparr>job_Status := StatusCompleted, job_CompletedAt := Some moment, job_LeaseOwner := '''',
              job_LeaseExpiresAt := None\<rparr>) q"

definition repo_RenewLease :: "error option \<Rightarrow> string \<Rightarrow> string \<Rightarrow> int \<Rightarrow> queue \<Rightarrow> error option \<times> queue" where
  "repo_RenewLease fault ident owner expiresAt q =
     transition fault ''renew queue job lease'' (held_by ident owner)
       (\<lambda>j. j\<lparr>job_LeaseExpiresAt := Some expiresAt\<rparr>) q"

definition retry_row :: "string \<Rightarrow> int \<Rightarrow> Job \<Rightarrow> Job" where
  "retry_row message availableAt j =
     j\<lparr>job_Status := (if job_Attempts j \<ge> job_MaxAttempts j then StatusFailed else StatusPending),
       job_AvailableAt := availableAt, job_LastError := message, job_LeaseOwner := '''',
       job_LeaseExpiresAt := None,
       job_CompletedAt := (if job_Attempts j \<ge> job_MaxAttempts j then Some availableAt else None)\<rparr>"

definition repo_Retry ::
  "error option \<Rightarrow> string \<Rightarrow> string \<Rightarrow> error option \<Rightarrow> int \<Rightarrow> queue \<Rightarrow> error option \<times> queue"
where
  "repo_Retry fault ident owner cause availableAt q =
     transition fault ''retry queue job'' (held_by ident owner)
       (retry_row (case cause of None \<Rightarrow> '''' | Some e \<Rightarrow> error_text e) availableAt) q"

definition repo_Cancel :: "error option \<Rightarrow> string \<Rightarrow> int \<Rightarrow> queue \<Rightarrow> error option \<times> queue" where
  "repo_Cancel fault ident moment q =
     transition fault ''transition queue job''
       (\<lambda>j. job_ID j = ident \<and> (job_Status j = StatusPending \<or> job_Status j = StatusLeased))
       (\<lambda>j. j\<lparr>job_Status := StatusCancelled, job_CompletedAt := Some moment, job_LeaseOwner := '''',
              job_LeaseExpiresAt := None\<rparr>) q"

definition expired :: "int \<Rightarrow> Job \<Rightarrow> bool" where
  "expired now j \<longleftrightarrow> job_Status j = StatusLeased \<and>
     (case job_LeaseExpiresAt j of None \<Rightarrow> False | Some t \<Rightarrow> t \<le> now)"

definition repo_ReleaseExpired :: "error option \<Rightarrow> int \<Rightarrow> queue \<Rightarrow> int result \<times> queue" where
  "repo_ReleaseExpired fault now q =
     (case fault of
        Some e \<Rightarrow> (Err e, q)
      | None \<Rightarrow>
        (let (affected, q') = sql_update (expired now)
               (\<lambda>j. j\<lparr>job_Status := StatusPending, job_LeaseOwner := '''', job_LeaseExpiresAt := None,
                      job_AvailableAt := now\<rparr>) q
         in (Ok affected, q')))"

section \<open>What one operation does to one row\<close>

definition complete_row :: "int \<Rightarrow> Job \<Rightarrow> Job" where
  "complete_row moment j = j\<lparr>job_Status := StatusCompleted, job_CompletedAt := Some moment, job_LeaseOwner := '''',
     job_LeaseExpiresAt := None\<rparr>"

definition cancel_row :: "int \<Rightarrow> Job \<Rightarrow> Job" where
  "cancel_row moment j = j\<lparr>job_Status := StatusCancelled, job_CompletedAt := Some moment, job_LeaseOwner := '''',
     job_LeaseExpiresAt := None\<rparr>"

definition release_row :: "int \<Rightarrow> Job \<Rightarrow> Job" where
  "release_row now j = j\<lparr>job_Status := StatusPending, job_LeaseOwner := '''', job_LeaseExpiresAt := None,
     job_AvailableAt := now\<rparr>"

inductive row_step :: "Job \<Rightarrow> Job \<Rightarrow> bool" where
  row_stay: "row_step j j"
| row_lease: "job_Status j = StatusPending \<Longrightarrow> owner \<noteq> '''' \<Longrightarrow> row_step j (lease_row owner expires now j)"
| row_renew: "job_Status j = StatusLeased \<Longrightarrow> row_step j (j\<lparr>job_LeaseExpiresAt := Some expires\<rparr>)"
| row_complete: "job_Status j = StatusLeased \<Longrightarrow> row_step j (complete_row moment j)"
| row_retry: "job_Status j = StatusLeased \<Longrightarrow> row_step j (retry_row message moment j)"
| row_cancel: "job_Status j = StatusPending \<or> job_Status j = StatusLeased \<Longrightarrow> row_step j (cancel_row moment j)"
| row_release: "job_Status j = StatusLeased \<Longrightarrow> row_step j (release_row now j)"

lemmas row_defs = lease_row_def complete_row_def retry_row_def cancel_row_def release_row_def

definition terminal :: "Status \<Rightarrow> bool" where
  "terminal s \<longleftrightarrow> s = StatusCompleted \<or> s = StatusFailed \<or> s = StatusCancelled"

text \<open>The rows an invariant table holds: the lease, the completion time and the status agree.\<close>

definition row_ok :: "Job \<Rightarrow> bool" where
  "row_ok j \<longleftrightarrow>
     (job_Status j = StatusPending \<or> job_Status j = StatusLeased \<or> terminal (job_Status j)) \<and>
     (job_Status j = StatusLeased \<longleftrightarrow> job_LeaseExpiresAt j \<noteq> None) \<and>
     (job_Status j = StatusLeased \<longleftrightarrow> job_LeaseOwner j \<noteq> '''') \<and>
     (terminal (job_Status j) \<longleftrightarrow> job_CompletedAt j \<noteq> None) \<and>
     (job_Status j = StatusLeased \<longrightarrow> 1 \<le> job_Attempts j \<and> job_StartedAt j \<noteq> None) \<and>
     0 \<le> job_Attempts j \<and> 1 \<le> job_MaxAttempts j"

definition keys_of :: "queue \<Rightarrow> string list" where
  "keys_of q = filter (\<lambda>k. k \<noteq> '''') (map job_IdempotencyKey q)"

definition queue_inv :: "queue \<Rightarrow> bool" where
  "queue_inv q \<longleftrightarrow> distinct (map job_ID q) \<and> distinct (keys_of q) \<and> (\<forall>j \<in> set q. row_ok j)"

lemma row_step_frame:
  "row_step j j' \<Longrightarrow> job_ID j' = job_ID j \<and> job_IdempotencyKey j' = job_IdempotencyKey j \<and>
     job_MaxAttempts j' = job_MaxAttempts j \<and> job_Payload j' = job_Payload j \<and> job_Type j' = job_Type j"
  by (induction rule: row_step.induct) (auto simp: row_defs)

lemma row_step_ok: "row_step j j' \<Longrightarrow> row_ok j \<Longrightarrow> row_ok j'"
  by (induction rule: row_step.induct)
    (auto simp: row_defs row_ok_def terminal_def split: option.splits)

lemma row_step_terminal: "row_step j j' \<Longrightarrow> terminal (job_Status j) \<Longrightarrow> j' = j"
  by (induction rule: row_step.induct) (auto simp: terminal_def)

section \<open>Operations as row steps\<close>

text \<open>\<open>rowwise q q'\<close>: each row of \<open>q\<close> made one row step, and no row came or went.\<close>

definition rowwise :: "queue \<Rightarrow> queue \<Rightarrow> bool" where
  "rowwise q q' \<longleftrightarrow> list_all2 row_step q q'"

lemma rowwise_refl [simp]: "rowwise q q"
  by (simp add: rowwise_def list_all2_refl row_stay)

lemma rowwise_map: "(\<And>j. j \<in> set q \<Longrightarrow> row_step j (g j)) \<Longrightarrow> rowwise q (map g q)"
  by (simp add: rowwise_def list_all2_map2 list_all2_same)

lemma rowwise_update: "(\<And>j. p j \<Longrightarrow> row_step j (f j)) \<Longrightarrow> rowwise q (snd (sql_update p f q))"
  unfolding sql_update_def snd_conv by (rule rowwise_map) (simp add: row_stay)

lemma rowwise_transition: "(\<And>j. p j \<Longrightarrow> row_step j (f j)) \<Longrightarrow> rowwise q (snd (transition fault operation p f q))"
  using rowwise_update [of p f q] by (cases fault) (simp_all add: transition_def split_beta Let_def)

lemma row_of_map: "(\<And>j. job_ID (g j) = job_ID j) \<Longrightarrow> row_of (map g q) ident = map_option g (row_of q ident)"
  by (induction q) (simp_all add: row_of_def)

lemma row_of_Some: "row_of q ident = Some j \<Longrightarrow> j \<in> set q \<and> job_ID j = ident"
  by (auto simp: row_of_def find_Some_iff)

lemma row_of_None: "row_of q ident = None \<longleftrightarrow> ident \<notin> job_ID ` set q"
  by (auto simp: row_of_def find_None_iff)

lemma row_of_distinct: "distinct (map job_ID q) \<Longrightarrow> j \<in> set q \<Longrightarrow> row_of q (job_ID j) = Some j"
  by (induction q) (auto simp: row_of_def)

lemma filter_ID: "distinct (map job_ID q) \<Longrightarrow> row_of q ident = Some j \<Longrightarrow> filter (\<lambda>k. job_ID k = ident) q = [j]"
proof (induction q)
  case Nil
  then show ?case by (simp add: row_of_def)
next
  case (Cons k q)
  show ?case
  proof (cases "job_ID k = ident")
    case True
    have "ident \<notin> job_ID ` set q" using Cons.prems(1) True by simp
    then have "filter (\<lambda>k. job_ID k = ident) q = []" by (metis (mono_tags) filter_False imageI)
    then show ?thesis using Cons.prems(2) True by (simp add: row_of_def)
  next
    case False
    then show ?thesis using Cons by (simp add: row_of_def)
  qed
qed

text \<open>The leasing loop turns exactly the pending rows it is given into leased ones.\<close>

definition lease_rows :: "string \<Rightarrow> int \<Rightarrow> int \<Rightarrow> string list \<Rightarrow> queue \<Rightarrow> queue" where
  "lease_rows owner expires now ids q =
     map (\<lambda>j. if job_ID j \<in> set ids \<and> job_Status j = StatusPending then lease_row owner expires now j else j) q"

lemma lease_row_simps [simp]:
  "job_ID (lease_row owner expires now j) = job_ID j"
  "job_Status (lease_row owner expires now j) = StatusLeased"
  "job_LeaseOwner (lease_row owner expires now j) = owner"
  "job_LeaseExpiresAt (lease_row owner expires now j) = Some expires"
  "job_Attempts (lease_row owner expires now j) = job_Attempts j + 1"
  by (simp_all add: lease_row_def)

lemma lease_rows_Cons:
  "lease_rows owner expires now ids
     (snd (sql_update (\<lambda>j. job_ID j = ident \<and> job_Status j = StatusPending) (lease_row owner expires now) q)) =
   lease_rows owner expires now (ident # ids) q"
  by (auto simp: lease_rows_def sql_update_def)

lemma lease_loop_rows:
  "\<exists>leased. lease_loop owner expires now ids q = (Ok leased, lease_rows owner expires now ids q)"
proof (induction ids arbitrary: q)
  case Nil
  show ?case by (auto simp: lease_rows_def intro!: map_idI [symmetric])
next
  case (Cons ident ids)
  let ?p = "\<lambda>j. job_ID j = ident \<and> job_Status j = StatusPending"
  obtain affected q1 where u: "sql_update ?p (lease_row owner expires now) q = (affected, q1)" by fastforce
  obtain leased where IH: "lease_loop owner expires now ids q1 = (Ok leased, lease_rows owner expires now ids q1)"
    using Cons.IH by blast
  have q1: "lease_rows owner expires now ids q1 = lease_rows owner expires now (ident # ids) q"
    using lease_rows_Cons [of owner expires now ids ident q] u by simp
  have "row_of q1 ident \<noteq> None" if "affected = 1"
  proof -
    have "filter ?p q \<noteq> []" using u that by (auto simp: sql_update_def)
    then have "row_of q ident \<noteq> None" by (auto simp: row_of_None filter_empty_conv)
    moreover have "q1 = map (\<lambda>j. if ?p j then lease_row owner expires now j else j) q"
      using u by (simp add: sql_update_def)
    ultimately show ?thesis by (simp add: row_of_map)
  qed
  then show ?case using u IH q1 by (auto split: option.splits)
qed

lemma lease_loop_leased:
  assumes "distinct (map job_ID q)" and "distinct ids"
    and "\<And>i. i \<in> set ids \<Longrightarrow> \<exists>j. row_of q i = Some j \<and> job_Status j = StatusPending"
  shows "fst (lease_loop owner expires now ids q) =
           Ok (map (\<lambda>i. lease_row owner expires now (the (row_of q i))) ids)"
  using assms
proof (induction ids arbitrary: q)
  case Nil
  then show ?case by simp
next
  case (Cons ident ids)
  let ?p = "\<lambda>j. job_ID j = ident \<and> job_Status j = StatusPending"
  let ?g = "\<lambda>j. if ?p j then lease_row owner expires now j else j"
  obtain j where j: "row_of q ident = Some j" "job_Status j = StatusPending" using Cons.prems(3) by force
  have "filter ?p q = [j]"
  proof -
    have "filter (\<lambda>k. job_ID k = ident) q = [j]" using Cons.prems(1) j(1) by (rule filter_ID)
    then have "filter (\<lambda>k. job_Status k = StatusPending) (filter (\<lambda>k. job_ID k = ident) q) = [j]"
      using j(2) by simp
    then show ?thesis by (simp add: conj_commute)
  qed
  then have u: "sql_update ?p (lease_row owner expires now) q = (1, map ?g q)" by (simp add: sql_update_def)
  have r: "row_of (map ?g q) i = map_option ?g (row_of q i)" for i by (rule row_of_map) simp
  have "fst (lease_loop owner expires now ids (map ?g q)) =
      Ok (map (\<lambda>i. lease_row owner expires now (the (row_of (map ?g q) i))) ids)"
  proof (rule Cons.IH)
    have "map job_ID (map ?g q) = map job_ID q" by simp
    then show "distinct (map job_ID (map ?g q))" using Cons.prems(1) by (simp only:)
    show "distinct ids" using Cons.prems(2) by simp
    fix i assume "i \<in> set ids"
    then obtain k where "row_of q i = Some k" "job_Status k = StatusPending" "i \<noteq> ident"
      using Cons.prems(2,3) by force
    then show "\<exists>k. row_of (map ?g q) i = Some k \<and> job_Status k = StatusPending"
      using row_of_Some [of q i k] by (auto simp: r)
  qed
  moreover have "map (\<lambda>i. lease_row owner expires now (the (row_of (map ?g q) i))) ids =
      map (\<lambda>i. lease_row owner expires now (the (row_of q i))) ids"
  proof (rule map_cong [OF refl])
    fix i assume i: "i \<in> set ids"
    then obtain k where "row_of q i = Some k" "i \<noteq> ident" using Cons.prems(2,3) by force
    then show "lease_row owner expires now (the (row_of (map ?g q) i)) =
        lease_row owner expires now (the (row_of q i))"
      using row_of_Some [of q i k] by (simp add: r)
  qed
  moreover obtain rest q2 where "lease_loop owner expires now ids (map ?g q) = (Ok rest, q2)"
    using lease_loop_rows [of owner expires now ids "map ?g q"] by blast
  ultimately show ?case using u j row_of_Some [OF j(1)] by (simp add: r)
qed

end
