(* ===== verification/Job_Queue_Steps.thy ===== *)
theory Job_Queue_Steps
  imports Job_Queue
begin

text \<open>
  The queue as a transition system: any number of clients publish, lease, renew, complete, retry
  and cancel jobs, and the loop releases expired leases, in any order and with any database
  failures. Every operation is a row step of each row or appends one fresh pending row, which
  gives the invariant of the table, the job life cycle as a refinement, and the contract the
  event loop relies on (the locale \<open>job_store\<close> and its interpretation).
\<close>

section \<open>Shape of the operations\<close>

definition fresh_row :: "queue \<Rightarrow> Job \<Rightarrow> bool" where
  "fresh_row q j \<longleftrightarrow> row_ok j \<and> job_Status j = StatusPending \<and> job_ID j \<notin> job_ID ` set q \<and>
     (job_IdempotencyKey j \<noteq> '''' \<longrightarrow> job_IdempotencyKey j \<notin> job_IdempotencyKey ` set q)"

text \<open>The row \<^verbatim>\<open>Publish\<close> would insert for a job, with the times it fills in.\<close>

definition published_row :: "int \<Rightarrow> Job \<Rightarrow> Job" where
  "published_row clock j0 =
     (let j1 = (if job_AvailableAt j0 = 0 then j0\<lparr>job_AvailableAt := clock\<rparr> else j0);
          j = (if job_CreatedAt j1 = 0 then j1\<lparr>job_CreatedAt := job_AvailableAt j1\<rparr> else j1)
      in j\<lparr>job_LeaseOwner := '''', job_LeaseExpiresAt := None, job_LastError := '''',
           job_StartedAt := None, job_CompletedAt := None\<rparr>)"

lemma published_row_simps [simp]:
  "job_ID (published_row clock j) = job_ID j"
  "job_IdempotencyKey (published_row clock j) = job_IdempotencyKey j"
  "job_Status (published_row clock j) = job_Status j"
  "job_Attempts (published_row clock j) = job_Attempts j"
  "job_MaxAttempts (published_row clock j) = job_MaxAttempts j"
  by (simp_all add: published_row_def Let_def)

lemma published_row_times:
  "published_row clock j = (publish_times clock j)\<lparr>job_LeaseOwner := '''', job_LeaseExpiresAt := None, job_LastError := '''',
     job_StartedAt := None, job_CompletedAt := None\<rparr>"
  by (simp add: published_row_def publish_times_def Let_def)

lemma publish_times_simps [simp]:
  "job_ID (publish_times clock j) = job_ID j"
  "job_IdempotencyKey (publish_times clock j) = job_IdempotencyKey j"
  "job_Status (publish_times clock j) = job_Status j"
  by (simp_all add: publish_times_def Let_def)

lemma sql_insert_pending:
  assumes "job_Status j = StatusPending"
  shows "snd (sql_insert (publish_times clock j) q) =
    (if (job_IdempotencyKey j \<noteq> '''' \<and> job_IdempotencyKey j \<in> job_IdempotencyKey ` set q) \<or>
        job_ID j \<in> job_ID ` set q then q else q @ [published_row clock j])"
proof -
  have "(\<exists>r \<in> set q. job_IdempotencyKey r = job_IdempotencyKey j) \<longleftrightarrow> job_IdempotencyKey j \<in> job_IdempotencyKey ` set q"
    and "(\<exists>r \<in> set q. job_ID r = job_ID j) \<longleftrightarrow> job_ID j \<in> job_ID ` set q"
    by (metis imageE imageI)+
  then show ?thesis using assms unfolding sql_insert_def published_row_times by simp
qed

text \<open>After the insert \<^verbatim>\<open>Publish\<close> only reads.\<close>

lemma repo_Publish_table:
  assumes "job_Validate j = None"
  shows "snd (repo_Publish faults clock j q) =
    (if faults 0 = None then snd (sql_insert (publish_times clock j) q) else q)"
proof -
  obtain r q' where i: "sql_insert (publish_times clock j) q = (r, q')" by fastforce
  show ?thesis
  proof (cases "faults 0")
    case None
    then show ?thesis
      using assms i unfolding repo_Publish_def Let_def
      by (cases r) (simp_all split: option.split result.split)
  next
    case (Some e)
    then show ?thesis using assms by (simp add: repo_Publish_def Let_def)
  qed
qed

lemma repo_Publish_shape:
  assumes "job_Status j = StatusPending" and "0 \<le> job_Attempts j"
  shows "snd (repo_Publish faults clock j q) = q \<or>
         snd (repo_Publish faults clock j q) = q @ [published_row clock j] \<and> fresh_row q (published_row clock j)"
proof (cases "job_Validate j")
  case None
  have ok: "row_ok (published_row clock j)"
    using None assms
    by (auto simp: row_ok_def terminal_def job_Validate_def published_row_def Let_def split: if_splits)
  show ?thesis
    using assms ok by (auto simp: repo_Publish_table [OF None] sql_insert_pending fresh_row_def)
next
  case (Some e)
  then show ?thesis by (simp add: repo_Publish_def)
qed

lemma repo_Lease_rowwise: "rowwise q (snd (repo_Lease scan fault now owner categories limit duration q))"
proof (cases "owner = '''' \<or> limit < 1 \<or> duration \<le> 0 \<or> fault \<noteq> None")
  case True
  then show ?thesis by (auto simp: repo_Lease_def)
next
  case False
  let ?ids = "map job_ID (lease_select scan now categories limit q)"
  obtain leased where l: "lease_loop owner (now + duration) now ?ids q =
      (Ok leased, lease_rows owner (now + duration) now ?ids q)"
    using lease_loop_rows by blast
  have "rowwise q (lease_rows owner (now + duration) now ?ids q)"
    unfolding lease_rows_def using False by (intro rowwise_map) (auto intro: row_step.intros)
  then show ?thesis using False l by (simp add: repo_Lease_def)
qed

lemma repo_ReleaseExpired_rowwise: "rowwise q (snd (repo_ReleaseExpired fault now q))"
proof (cases fault)
  case None
  have "rowwise q (snd (sql_update (expired now) (release_row now) q))"
    by (rule rowwise_update) (auto simp: expired_def intro: row_step.intros)
  then show ?thesis by (simp add: None repo_ReleaseExpired_def release_row_def [abs_def] split_beta Let_def)
qed (simp add: repo_ReleaseExpired_def)

lemma repo_Complete_alt: "repo_Complete fault ident owner moment q =
    transition fault ''transition queue job'' (held_by ident owner) (complete_row moment) q"
  by (simp add: repo_Complete_def complete_row_def [abs_def])

lemma repo_Cancel_alt: "repo_Cancel fault ident moment q =
    transition fault ''transition queue job''
      (\<lambda>j. job_ID j = ident \<and> (job_Status j = StatusPending \<or> job_Status j = StatusLeased)) (cancel_row moment) q"
  by (simp add: repo_Cancel_def cancel_row_def [abs_def])

lemma repo_transition_rowwise:
  "rowwise q (snd (repo_Complete fault ident owner moment q))"
  "rowwise q (snd (repo_RenewLease fault ident owner expiresAt q))"
  "rowwise q (snd (repo_Retry fault ident owner cause availableAt q))"
  "rowwise q (snd (repo_Cancel fault ident moment q))"
  unfolding repo_Complete_alt repo_RenewLease_def repo_Retry_def repo_Cancel_alt
  by (rule rowwise_transition; auto simp: held_by_def intro: row_step.intros)+

section \<open>The transition system\<close>

datatype queue_op = PublishOp | LeaseOp | RenewOp string string | CompleteOp string string
  | RetryOp string string | CancelOp string | ReleaseOp int

inductive queue_step :: "queue \<Rightarrow> queue_op \<Rightarrow> queue \<Rightarrow> bool" where
  step_publish: "job_Status j = StatusPending \<Longrightarrow> 0 \<le> job_Attempts j \<Longrightarrow>
     queue_step q PublishOp (snd (repo_Publish faults clock j q))"
| step_lease: "queue_step q LeaseOp (snd (repo_Lease scan fault now owner categories limit duration q))"
| step_renew: "queue_step q (RenewOp ident owner) (snd (repo_RenewLease fault ident owner expiresAt q))"
| step_complete: "queue_step q (CompleteOp ident owner) (snd (repo_Complete fault ident owner moment q))"
| step_retry: "queue_step q (RetryOp ident owner) (snd (repo_Retry fault ident owner cause availableAt q))"
| step_cancel: "queue_step q (CancelOp ident) (snd (repo_Cancel fault ident moment q))"
| step_release: "queue_step q (ReleaseOp now) (snd (repo_ReleaseExpired fault now q))"

inductive queue_reachable :: "queue \<Rightarrow> bool" where
  queue_start: "queue_reachable []"
| queue_next: "queue_reachable q \<Longrightarrow> queue_step q op q' \<Longrightarrow> queue_reachable q'"

lemma queue_step_shape:
  "queue_step q op q' \<Longrightarrow> rowwise q q' \<or> (\<exists>j. q' = q @ [j] \<and> fresh_row q j)"
proof (induction rule: queue_step.induct)
  case (step_publish j q faults clock)
  then show ?case using repo_Publish_shape [of j faults clock q] by auto
qed (simp_all add: repo_Lease_rowwise repo_transition_rowwise repo_ReleaseExpired_rowwise)

section \<open>The invariant\<close>

lemma rowwise_frame:
  assumes "rowwise q q'"
  shows "map job_ID q' = map job_ID q" and "map job_IdempotencyKey q' = map job_IdempotencyKey q"
  using assms row_step_frame unfolding rowwise_def by (induction rule: list_all2_induct) auto

lemma rowwise_inv: "rowwise q q' \<Longrightarrow> queue_inv q \<Longrightarrow> queue_inv q'"
proof -
  assume r: "rowwise q q'" and i: "queue_inv q"
  have "\<forall>j \<in> set q'. row_ok j"
    using r i row_step_ok unfolding rowwise_def queue_inv_def
    by (metis in_set_conv_nth list_all2_conv_all_nth)
  then show ?thesis using i rowwise_frame [OF r] by (simp add: queue_inv_def keys_of_def)
qed

lemma fresh_row_inv: "fresh_row q j \<Longrightarrow> queue_inv q \<Longrightarrow> queue_inv (q @ [j])"
  by (auto simp: fresh_row_def queue_inv_def keys_of_def)

lemma queue_step_inv: "queue_step q op q' \<Longrightarrow> queue_inv q \<Longrightarrow> queue_inv q'"
  using queue_step_shape rowwise_inv fresh_row_inv by blast

lemma queue_inv_Nil: "queue_inv []"
  by (simp add: queue_inv_def keys_of_def)

lemma queue_reachable_queue_inv: "queue_reachable q \<Longrightarrow> queue_inv q"
proof (induction rule: queue_reachable.induct)
  case queue_start
  show ?case by (rule queue_inv_Nil)
next
  case (queue_next q op q')
  then show ?case by (blast intro: queue_step_inv)
qed

lemma queue_inv_row: "queue_inv q \<Longrightarrow> row_of q ident = Some j \<Longrightarrow> row_ok j \<and> j \<in> set q \<and> job_ID j = ident"
  using row_of_Some [of q ident j] by (simp add: queue_inv_def)

text \<open>A row found by its identifier before a row-wise operation is found after it.\<close>

lemma rowwise_row_of: "rowwise q q' \<Longrightarrow> row_of q ident = Some j \<Longrightarrow> \<exists>j'. row_of q' ident = Some j' \<and> row_step j j'"
  unfolding rowwise_def
proof (induction rule: list_all2_induct)
  case Nil
  then show ?case by (simp add: row_of_def)
next
  case (Cons x xs y ys)
  then show ?case using row_step_frame [OF Cons.hyps(1)] by (auto simp: row_of_def split: if_splits)
qed

lemma queue_step_row_of:
  assumes "queue_step q op q'" and "row_of q ident = Some j"
  shows "\<exists>j'. row_of q' ident = Some j' \<and> row_step j j'"
  using queue_step_shape [OF assms(1)]
proof
  assume "rowwise q q'"
  then show ?thesis using assms(2) by (rule rowwise_row_of)
next
  assume "\<exists>k. q' = q @ [k] \<and> fresh_row q k"
  then show ?thesis using assms(2) by (force simp: row_of_def find_Some_iff nth_append intro: row_stay)
qed

section \<open>The life cycle of a job\<close>

text \<open>The abstract specification of a job: its status and how it may change.\<close>

inductive lifecycle :: "Status \<Rightarrow> Status \<Rightarrow> bool" where
  "lifecycle StatusPending StatusLeased"
| "lifecycle StatusLeased StatusCompleted"
| "lifecycle StatusLeased StatusPending"
| "lifecycle StatusLeased StatusFailed"
| "lifecycle StatusPending StatusCancelled"
| "lifecycle StatusLeased StatusCancelled"

inductive_simps lifecycle_iff: "lifecycle s t"

lemma row_step_lifecycle: "row_step j j' \<Longrightarrow> lifecycle\<^sup>=\<^sup>= (job_Status j) (job_Status j')"
  by (induction rule: row_step.induct) (auto simp: row_defs lifecycle_iff)

section \<open>The guarded updates\<close>

lemma transition_None:
  "transition None operation p f q =
     (requireOne (int (length (filter p q))) operation, map (\<lambda>j. if p j then f j else j) q)"
  by (simp add: transition_def sql_update_def)

lemma held_by_filter:
  assumes "distinct (map job_ID q)"
  shows "filter (held_by ident owner) q =
     (case row_of q ident of None \<Rightarrow> [] | Some j \<Rightarrow> if held_by ident owner j then [j] else [])"
proof (cases "row_of q ident")
  case None
  then have "ident \<notin> job_ID ` set q" by (simp add: row_of_None)
  then show ?thesis using None by (auto simp: filter_empty_conv held_by_def)
next
  case (Some j)
  have "filter (held_by ident owner) q =
      filter (\<lambda>j. job_Status j = StatusLeased \<and> job_LeaseOwner j = owner) (filter (\<lambda>j. job_ID j = ident) q)"
    by (auto simp: held_by_def intro: filter_cong)
  then show ?thesis using Some filter_ID [OF assms Some] row_of_Some [OF Some] by (simp add: held_by_def)
qed

lemma transition_held:
  assumes "queue_inv q" and "row_of q ident = Some j" and "held_by ident owner j"
    and "\<And>j. job_ID (f j) = job_ID j"
  shows "\<exists>q'. transition None operation (held_by ident owner) f q = (None, q') \<and>
           row_of q' ident = Some (f j) \<and> (\<forall>i. i \<noteq> ident \<longrightarrow> row_of q' i = row_of q i)"
proof -
  let ?g = "\<lambda>j. if held_by ident owner j then f j else j"
  have d: "distinct (map job_ID q)" using assms(1) by (simp add: queue_inv_def)
  have t: "transition None operation (held_by ident owner) f q = (None, map ?g q)"
    using assms(2,3) by (simp add: transition_None held_by_filter [OF d] requireOne_def)
  have r: "row_of (map ?g q) i = map_option ?g (row_of q i)" for i
    by (rule row_of_map) (simp add: assms(4))
  have "row_of (map ?g q) i = row_of q i" if "i \<noteq> ident" for i
    using that row_of_Some [of q i] unfolding r by (cases "row_of q i") (auto simp: held_by_def)
  then show ?thesis using t assms(2,3) by (auto simp: r)
qed

lemma transition_not_held:
  assumes "queue_inv q" and "\<forall>j. row_of q ident = Some j \<longrightarrow> \<not> held_by ident owner j"
  shows "\<exists>e. transition None operation (held_by ident owner) f q = (Some e, q)"
proof -
  have d: "distinct (map job_ID q)" using assms(1) by (simp add: queue_inv_def)
  have "filter (held_by ident owner) q = []"
    using assms(2) by (simp add: held_by_filter [OF d] split: option.splits)
  then have "map (\<lambda>j. if held_by ident owner j then f j else j) q = q"
    by (auto simp: filter_empty_conv intro: map_idI)
  then show ?thesis
    using \<open>filter (held_by ident owner) q = []\<close> by (simp add: transition_None requireOne_def)
qed

lemma row_ID_simps [simp]:
  "job_ID (complete_row moment j) = job_ID j"
  "job_ID (retry_row message moment j) = job_ID j"
  "job_ID (cancel_row moment j) = job_ID j"
  "job_ID (release_row moment j) = job_ID j"
  by (simp_all add: row_defs)

lemma repo_held:
  assumes "queue_inv q" and "row_of q ident = Some j" and "held_by ident owner j"
  shows repo_Complete_held: "\<exists>q'. repo_Complete None ident owner moment q = (None, q') \<and>
      row_of q' ident = Some (complete_row moment j) \<and> (\<forall>i. i \<noteq> ident \<longrightarrow> row_of q' i = row_of q i)"
    and repo_Retry_held: "\<exists>q'. repo_Retry None ident owner cause moment q = (None, q') \<and>
      row_of q' ident = Some (retry_row (case cause of None \<Rightarrow> '''' | Some e \<Rightarrow> error_text e) moment j) \<and>
      (\<forall>i. i \<noteq> ident \<longrightarrow> row_of q' i = row_of q i)"
    and repo_RenewLease_held: "\<exists>q'. repo_RenewLease None ident owner expires q = (None, q') \<and>
      row_of q' ident = Some (j\<lparr>job_LeaseExpiresAt := Some expires\<rparr>) \<and> (\<forall>i. i \<noteq> ident \<longrightarrow> row_of q' i = row_of q i)"
  unfolding repo_Complete_alt repo_Retry_def repo_RenewLease_def
  by (rule transition_held [OF assms]; simp)+

lemma repo_not_held:
  assumes "queue_inv q" and "\<forall>j. row_of q ident = Some j \<longrightarrow> \<not> held_by ident owner j"
  shows repo_Complete_not_held: "\<exists>e. repo_Complete None ident owner moment q = (Some e, q)"
    and repo_Retry_not_held: "\<exists>e. repo_Retry None ident owner cause moment q = (Some e, q)"
    and repo_RenewLease_not_held: "\<exists>e. repo_RenewLease None ident owner expires q = (Some e, q)"
  unfolding repo_Complete_def repo_Retry_def repo_RenewLease_def
  by (rule transition_not_held [OF assms])+

end
