(* ===== verification/Job_Store.thy ===== *)
theory Job_Store
  imports Job_Queue_Steps
begin

text \<open>
  The contract of the queue: what \<^verbatim>\<open>Lease\<close> hands out, what the guarded updates do, and the
  interface \<^verbatim>\<open>ports.QueueStore\<close> of \<^verbatim>\<open>internal/application/ports\<close> as a record of operations with
  its laws (the locale \<open>job_store\<close>), interpreted on the SQLite repository.
\<close>

section \<open>What Lease hands out\<close>

lemma lease_rank_lease_row [simp]: "lease_rank (lease_row owner expires now j) = lease_rank j"
  by (simp add: lease_rank_def lease_row_def)

lemma lease_select_set:
  "set (lease_select scan now categories limit q) \<subseteq> {j \<in> set q. lease_eligible now categories j}"
proof -
  have "set (sort_key lease_rank (filter (lease_eligible now categories) (in_order scan q))) =
      {j \<in> set q. lease_eligible now categories j}" by simp
  then show ?thesis unfolding lease_select_def using set_take_subset by metis
qed

lemma lease_select_in:
  assumes "j \<in> set (lease_select scan now categories limit q)"
  shows "j \<in> set q \<and> lease_eligible now categories j"
  using lease_select_set [of scan now categories limit q] assms by auto

lemma lease_select_distinct:
  assumes "distinct (map job_ID q)"
  shows "distinct (map job_ID (lease_select scan now categories limit q))"
proof -
  let ?s = "sort_key lease_rank (filter (lease_eligible now categories) (in_order scan q))"
  have "mset (map job_ID (in_order scan q)) = mset (map job_ID q)" by simp
  then have "distinct (map job_ID (in_order scan q))" using assms mset_eq_imp_distinct_iff by blast
  then have "distinct (map job_ID (filter (lease_eligible now categories) (in_order scan q)))" by (rule distinct_map_filter)
  moreover have "mset (map job_ID ?s) = mset (map job_ID (filter (lease_eligible now categories) (in_order scan q)))"
    by (simp add: mset_sort)
  ultimately have "distinct (map job_ID ?s)" using mset_eq_imp_distinct_iff by blast
  then show ?thesis unfolding lease_select_def by (simp add: take_map [symmetric] distinct_take)
qed

lemma lease_select_length: "int (length (lease_select scan now categories limit q)) \<le> max 0 limit"
  by (simp add: lease_select_def)

lemma lease_select_sorted: "sorted (map lease_rank (lease_select scan now categories limit q))"
  unfolding lease_select_def take_map [symmetric] by (rule sorted_wrt_take) simp

text \<open>An eligible row that is left behind is left behind because the batch is full of better ones.\<close>

lemma lease_select_best:
  assumes "r \<in> set q" and "lease_eligible now categories r"
    and "r \<notin> set (lease_select scan now categories limit q)"
  shows "length (lease_select scan now categories limit q) = nat limit \<and>
    (\<forall>j \<in> set (lease_select scan now categories limit q). lease_rank j \<le> lease_rank r)"
proof -
  let ?s = "sort_key lease_rank (filter (lease_eligible now categories) (in_order scan q))"
  have "r \<in> set ?s" using assms(1,2) by simp
  then have "r \<in> set (drop (nat limit) ?s)"
    using assms(3) unfolding lease_select_def by (metis Un_iff append_take_drop_id set_append)
  then have "nat limit < length ?s" by (metis drop_all empty_iff empty_set not_le)
  moreover have "\<forall>j \<in> set (take (nat limit) ?s). \<forall>k \<in> set (drop (nat limit) ?s). lease_rank j \<le> lease_rank k"
  proof -
    have "sorted (map lease_rank (take (nat limit) ?s @ drop (nat limit) ?s))" by simp
    then show ?thesis unfolding map_append sorted_append by (auto simp del: append_take_drop_id)
  qed
  ultimately show ?thesis using \<open>r \<in> set (drop (nat limit) ?s)\<close> unfolding lease_select_def by auto
qed

lemma repo_Lease_ok:
  assumes "queue_inv q"
    and "owner \<noteq> ''''" and "1 \<le> limit" and "0 < duration"
  shows "repo_Lease scan None now owner categories limit duration q =
    (Ok (map (lease_row owner (now + duration) now) (lease_select scan now categories limit q)),
     lease_rows owner (now + duration) now (map job_ID (lease_select scan now categories limit q)) q)"
proof -
  let ?sel = "lease_select scan now categories limit q"
  have d: "distinct (map job_ID q)" using assms(1) by (simp add: queue_inv_def)
  have row: "row_of q (job_ID j) = Some j \<and> job_Status j = StatusPending" if "j \<in> set ?sel" for j
    using lease_select_in [OF that] row_of_distinct [OF d] by (auto simp: lease_eligible_def)
  have "fst (lease_loop owner (now + duration) now (map job_ID ?sel) q) =
      Ok (map (\<lambda>i. lease_row owner (now + duration) now (the (row_of q i))) (map job_ID ?sel))"
    using d lease_select_distinct [OF d] by (rule lease_loop_leased) (use row in auto)
  also have "map (\<lambda>i. lease_row owner (now + duration) now (the (row_of q i))) (map job_ID ?sel) =
      map (lease_row owner (now + duration) now) ?sel"
    using row by auto
  finally show ?thesis
    using assms lease_loop_rows [of owner "now + duration" now "map job_ID ?sel" q]
    by (auto simp: repo_Lease_def)
qed

lemma repo_Lease_guard:
  "repo_Lease scan fault now owner categories limit duration q = (Ok leased, q') \<Longrightarrow>
     fault = None \<and> owner \<noteq> '''' \<and> 1 \<le> limit \<and> 0 < duration"
  by (auto simp: repo_Lease_def split: if_splits option.splits)

lemma row_of_lease_rows:
  "row_of (lease_rows owner expires now ids q) i =
     map_option (\<lambda>j. if job_ID j \<in> set ids \<and> job_Status j = StatusPending then lease_row owner expires now j else j)
       (row_of q i)"
  unfolding lease_rows_def by (rule row_of_map) simp

lemma row_of_lease_rows_other:
  "i \<notin> set ids \<Longrightarrow> row_of (lease_rows owner expires now ids q) i = row_of q i"
  using row_of_Some [of q i] unfolding row_of_lease_rows by (cases "row_of q i") auto

text \<open>The whole contract of one batch.\<close>

lemma repo_Lease_batch:
  assumes "queue_inv q"
    and l: "repo_Lease scan fault now owner categories limit duration q = (Ok leased, q')"
  obtains sel where
    "leased = map (lease_row owner (now + duration) now) sel"
    "q' = lease_rows owner (now + duration) now (map job_ID sel) q"
    "sel = lease_select scan now categories limit q"
    "\<And>j. j \<in> set sel \<Longrightarrow> row_of q (job_ID j) = Some j \<and> lease_eligible now categories j"
    "distinct (map job_ID sel)" "int (length sel) \<le> limit"
proof -
  let ?sel = "lease_select scan now categories limit q"
  have g: "fault = None" "owner \<noteq> ''''" "1 \<le> limit" "0 < duration" using repo_Lease_guard [OF l] by auto
  have d: "distinct (map job_ID q)" using assms(1) by (simp add: queue_inv_def)
  have "row_of q (job_ID j) = Some j \<and> lease_eligible now categories j" if "j \<in> set ?sel" for j
    using lease_select_in [OF that] row_of_distinct [OF d] by auto
  moreover have "int (length ?sel) \<le> limit" using lease_select_length [of scan now categories limit q] g by simp
  ultimately show thesis
    using that [of ?sel] l repo_Lease_ok [OF assms(1) g(2-4)] g(1) lease_select_distinct [OF d] by simp
qed

lemma repo_Lease_held:
  assumes "queue_inv q"
    and "repo_Lease scan fault now owner categories limit duration q = (Ok leased, q')" and "j \<in> set leased"
  shows "row_of q' (job_ID j) = Some j \<and> held_by (job_ID j) owner j \<and> job_LeaseExpiresAt j = Some (now + duration)"
proof -
  from assms(1,2) obtain sel where sel: "leased = map (lease_row owner (now + duration) now) sel"
    "q' = lease_rows owner (now + duration) now (map job_ID sel) q"
    "\<And>j. j \<in> set sel \<Longrightarrow> row_of q (job_ID j) = Some j \<and> lease_eligible now categories j"
    by (rule repo_Lease_batch) blast
  then obtain k where "k \<in> set sel" "j = lease_row owner (now + duration) now k" using assms(3) by auto
  then show ?thesis using sel(2) sel(3) [of k] by (simp add: row_of_lease_rows held_by_def lease_eligible_def)
qed

text \<open>Rows that are not pending are not touched.\<close>

lemma repo_Lease_frame:
  assumes "row_of q ident = Some j" and "job_Status j \<noteq> StatusPending"
  shows "row_of (snd (repo_Lease scan fault now owner categories limit duration q)) ident = Some j"
proof -
  let ?ids = "map job_ID (lease_select scan now categories limit q)"
  obtain leased where "lease_loop owner (now + duration) now ?ids q =
      (Ok leased, lease_rows owner (now + duration) now ?ids q)"
    using lease_loop_rows by blast
  then have "snd (repo_Lease scan fault now owner categories limit duration q) \<in>
      {q, lease_rows owner (now + duration) now ?ids q}"
    by (simp add: repo_Lease_def split: option.split)
  then show ?thesis using assms by (auto simp: row_of_lease_rows)
qed

section \<open>The interface of the event loop\<close>

text \<open>
  \<^verbatim>\<open>ports.QueueStore\<close>, over any representation \<open>'q\<close> of the store: an operation that reads the
  clock takes the time as its argument.
\<close>

record 'q QueueStore =
  qs_Publish :: "int \<Rightarrow> Job \<Rightarrow> 'q \<Rightarrow> Job result \<times> 'q"
  qs_Lease :: "int \<Rightarrow> string \<Rightarrow> string list \<Rightarrow> int \<Rightarrow> int \<Rightarrow> 'q \<Rightarrow> Job list result \<times> 'q"
  qs_RenewLease :: "string \<Rightarrow> string \<Rightarrow> int \<Rightarrow> 'q \<Rightarrow> error option \<times> 'q"
  qs_Complete :: "string \<Rightarrow> string \<Rightarrow> int \<Rightarrow> 'q \<Rightarrow> error option \<times> 'q"
  qs_Retry :: "string \<Rightarrow> string \<Rightarrow> error option \<Rightarrow> int \<Rightarrow> 'q \<Rightarrow> error option \<times> 'q"
  qs_Cancel :: "string \<Rightarrow> int \<Rightarrow> 'q \<Rightarrow> error option \<times> 'q"
  qs_ReleaseExpired :: "int \<Rightarrow> 'q \<Rightarrow> int result \<times> 'q"
  qs_FindByID :: "string \<Rightarrow> 'q \<Rightarrow> Job option result"

text \<open>The repository as a \<^verbatim>\<open>QueueStore\<close> while the database answers.\<close>

definition sqlite_store :: "(queue \<Rightarrow> queue) \<Rightarrow> queue QueueStore" where
  "sqlite_store scan =
     \<lparr>qs_Publish = repo_Publish (\<lambda>_. None), qs_Lease = repo_Lease scan None, qs_RenewLease = repo_RenewLease None,
      qs_Complete = repo_Complete None, qs_Retry = repo_Retry None, qs_Cancel = repo_Cancel None,
      qs_ReleaseExpired = repo_ReleaseExpired None, qs_FindByID = repo_FindByID None\<rparr>"

locale job_store =
  fixes store :: "'q QueueStore" and lookup :: "'q \<Rightarrow> string \<Rightarrow> Job option" and invar :: "'q \<Rightarrow> bool"
  assumes find: "qs_FindByID store ident q = Ok (lookup q ident)"
    and lookup_ID: "lookup q ident = Some j \<Longrightarrow> job_ID j = ident"
    and lookup_leased: "invar q \<Longrightarrow> lookup q ident = Some j \<Longrightarrow> job_Status j = StatusLeased \<Longrightarrow> 1 \<le> job_Attempts j"
    and lease_total: "invar q \<Longrightarrow> owner \<noteq> '''' \<Longrightarrow> 1 \<le> limit \<Longrightarrow> 0 < duration \<Longrightarrow>
      \<exists>jobs q'. qs_Lease store now owner categories limit duration q = (Ok jobs, q')"
    and lease_invar: "invar q \<Longrightarrow> invar (snd (qs_Lease store now owner categories limit duration q))"
    and lease_held: "invar q \<Longrightarrow> qs_Lease store now owner categories limit duration q = (Ok jobs, q') \<Longrightarrow>
      j \<in> set jobs \<Longrightarrow> lookup q' (job_ID j) = Some j \<and> held_by (job_ID j) owner j"
    and lease_batch: "invar q \<Longrightarrow> qs_Lease store now owner categories limit duration q = (Ok jobs, q') \<Longrightarrow>
      int (length jobs) \<le> limit \<and> distinct (map job_ID jobs)"
    and lease_frame: "invar q \<Longrightarrow> lookup q ident = Some j \<Longrightarrow> job_Status j \<noteq> StatusPending \<Longrightarrow>
      lookup (snd (qs_Lease store now owner categories limit duration q)) ident = Some j"
    and complete_invar: "invar q \<Longrightarrow> invar (snd (qs_Complete store ident owner moment q))"
    and complete_held: "invar q \<Longrightarrow> lookup q ident = Some j \<Longrightarrow> held_by ident owner j \<Longrightarrow>
      \<exists>q'. qs_Complete store ident owner moment q = (None, q') \<and> lookup q' ident = Some (complete_row moment j) \<and>
        (\<forall>i. i \<noteq> ident \<longrightarrow> lookup q' i = lookup q i)"
    and complete_not_held: "invar q \<Longrightarrow> \<forall>j. lookup q ident = Some j \<longrightarrow> \<not> held_by ident owner j \<Longrightarrow>
      \<exists>e. qs_Complete store ident owner moment q = (Some e, q)"
    and retry_invar: "invar q \<Longrightarrow> invar (snd (qs_Retry store ident owner cause moment q))"
    and retry_held: "invar q \<Longrightarrow> lookup q ident = Some j \<Longrightarrow> held_by ident owner j \<Longrightarrow>
      \<exists>q'. qs_Retry store ident owner cause moment q = (None, q') \<and>
        lookup q' ident = Some (retry_row (case cause of None \<Rightarrow> '''' | Some e \<Rightarrow> error_text e) moment j) \<and>
        (\<forall>i. i \<noteq> ident \<longrightarrow> lookup q' i = lookup q i)"
    and retry_not_held: "invar q \<Longrightarrow> \<forall>j. lookup q ident = Some j \<longrightarrow> \<not> held_by ident owner j \<Longrightarrow>
      \<exists>e. qs_Retry store ident owner cause moment q = (Some e, q)"
    and renew_invar: "invar q \<Longrightarrow> invar (snd (qs_RenewLease store ident owner expires q))"
    and renew_held: "invar q \<Longrightarrow> lookup q ident = Some j \<Longrightarrow> held_by ident owner j \<Longrightarrow>
      \<exists>q'. qs_RenewLease store ident owner expires q = (None, q') \<and>
        lookup q' ident = Some (j\<lparr>job_LeaseExpiresAt := Some expires\<rparr>) \<and> (\<forall>i. i \<noteq> ident \<longrightarrow> lookup q' i = lookup q i)"
    and release_invar: "invar q \<Longrightarrow> invar (snd (qs_ReleaseExpired store now q))"

text \<open>The repository keeps the contract.\<close>

interpretation sqlite: job_store "sqlite_store scan" row_of queue_inv
proof
  fix q ident owner j and duration :: int and limit now moment categories cause expires jobs q'
  show "qs_FindByID (sqlite_store scan) ident q = Ok (row_of q ident)"
    by (simp add: sqlite_store_def repo_FindByID_def)
  show "row_of q ident = Some j \<Longrightarrow> job_ID j = ident" by (simp add: row_of_Some)
  show "queue_inv q \<Longrightarrow> row_of q ident = Some j \<Longrightarrow> job_Status j = StatusLeased \<Longrightarrow> 1 \<le> job_Attempts j"
    using queue_inv_row [of q ident j] by (simp add: row_ok_def)
  show "queue_inv q \<Longrightarrow> owner \<noteq> '''' \<Longrightarrow> 1 \<le> limit \<Longrightarrow> 0 < duration \<Longrightarrow>
      \<exists>jobs q'. qs_Lease (sqlite_store scan) now owner categories limit duration q = (Ok jobs, q')"
    by (simp add: sqlite_store_def repo_Lease_ok)
  show "queue_inv q \<Longrightarrow> queue_inv (snd (qs_Lease (sqlite_store scan) now owner categories limit duration q))"
    by (simp add: sqlite_store_def rowwise_inv [OF repo_Lease_rowwise])
  assume inv: "queue_inv q"
  show "queue_inv (snd (qs_Complete (sqlite_store scan) ident owner moment q))"
    "queue_inv (snd (qs_Retry (sqlite_store scan) ident owner cause moment q))"
    "queue_inv (snd (qs_RenewLease (sqlite_store scan) ident owner expires q))"
    "queue_inv (snd (qs_ReleaseExpired (sqlite_store scan) now q))"
    using inv by (simp_all add: sqlite_store_def rowwise_inv [OF repo_transition_rowwise(1)]
        rowwise_inv [OF repo_transition_rowwise(2)] rowwise_inv [OF repo_transition_rowwise(3)]
        rowwise_inv [OF repo_ReleaseExpired_rowwise])
  show "row_of q ident = Some j \<Longrightarrow> job_Status j \<noteq> StatusPending \<Longrightarrow>
      row_of (snd (qs_Lease (sqlite_store scan) now owner categories limit duration q)) ident = Some j"
    using repo_Lease_frame by (simp add: sqlite_store_def)
  show "row_of q ident = Some j \<Longrightarrow> held_by ident owner j \<Longrightarrow>
      \<exists>q'. qs_Complete (sqlite_store scan) ident owner moment q = (None, q') \<and>
        row_of q' ident = Some (complete_row moment j) \<and> (\<forall>i. i \<noteq> ident \<longrightarrow> row_of q' i = row_of q i)"
    "row_of q ident = Some j \<Longrightarrow> held_by ident owner j \<Longrightarrow>
      \<exists>q'. qs_Retry (sqlite_store scan) ident owner cause moment q = (None, q') \<and>
        row_of q' ident = Some (retry_row (case cause of None \<Rightarrow> '''' | Some e \<Rightarrow> error_text e) moment j) \<and>
        (\<forall>i. i \<noteq> ident \<longrightarrow> row_of q' i = row_of q i)"
    "row_of q ident = Some j \<Longrightarrow> held_by ident owner j \<Longrightarrow>
      \<exists>q'. qs_RenewLease (sqlite_store scan) ident owner expires q = (None, q') \<and>
        row_of q' ident = Some (j\<lparr>job_LeaseExpiresAt := Some expires\<rparr>) \<and>
        (\<forall>i. i \<noteq> ident \<longrightarrow> row_of q' i = row_of q i)"
    unfolding sqlite_store_def QueueStore.select_convs by (rule repo_held [OF inv]; assumption)+
  show "\<forall>j. row_of q ident = Some j \<longrightarrow> \<not> held_by ident owner j \<Longrightarrow>
      \<exists>e. qs_Complete (sqlite_store scan) ident owner moment q = (Some e, q)"
    "\<forall>j. row_of q ident = Some j \<longrightarrow> \<not> held_by ident owner j \<Longrightarrow>
      \<exists>e. qs_Retry (sqlite_store scan) ident owner cause moment q = (Some e, q)"
    unfolding sqlite_store_def QueueStore.select_convs by (rule repo_not_held [OF inv]; assumption)+
  show "qs_Lease (sqlite_store scan) now owner categories limit duration q = (Ok jobs, q') \<Longrightarrow> j \<in> set jobs \<Longrightarrow>
      row_of q' (job_ID j) = Some j \<and> held_by (job_ID j) owner j"
    using repo_Lease_held [OF inv] by (fastforce simp: sqlite_store_def)
  show "qs_Lease (sqlite_store scan) now owner categories limit duration q = (Ok jobs, q') \<Longrightarrow>
      int (length jobs) \<le> limit \<and> distinct (map job_ID jobs)"
    by (auto simp: sqlite_store_def elim!: repo_Lease_batch [OF inv] simp: comp_def)
qed

end
