(* ===== verification/Event_Loop.thy ===== *)
theory Event_Loop
  imports Job_Store
begin

text \<open>
  The event loop of \<^verbatim>\<open>internal/controlplane/eventloop\<close>: its configuration, the dispatcher, the
  handlers of the three kinds of jobs, and the loop itself as a transition system over any
  \<^verbatim>\<open>QueueStore\<close>. Goroutines are explicit: the jobs being handled are the list \<open>ls_Running\<close> (the
  tokens in the semaphore), and every way they interleave is a sequence of steps. Durations and
  times are nanoseconds.
\<close>

section \<open>Configuration\<close>

record LoopConfig =
  cfg_Owner :: string
  cfg_Categories :: "string list"
  cfg_Concurrency :: int
  cfg_LeaseDuration :: int
  cfg_PollInterval :: int
  cfg_RetryBaseInterval :: int

definition second :: int where
  "second = 1000000000"

definition DefaultConfig :: "string \<Rightarrow> LoopConfig" where
  "DefaultConfig owner = \<lparr>cfg_Owner = owner, cfg_Categories = [], cfg_Concurrency = 8,
     cfg_LeaseDuration = 30 * second, cfg_PollInterval = second, cfg_RetryBaseInterval = 2 * second\<rparr>"

text \<open>The store and the dispatcher may be nil; the wake-up channel is created empty.\<close>

definition loop_New :: "'s option \<Rightarrow> 'd option \<Rightarrow> LoopConfig \<Rightarrow> LoopConfig result" where
  "loop_New repository dispatcher config =
     (if repository = None \<or> dispatcher = None then
        Err (Errorf ''event loop requires queue repository and dispatcher'' [])
      else if cfg_Owner config = '''' \<or> cfg_Concurrency config < 1 \<or> cfg_LeaseDuration config \<le> 0 \<or>
              cfg_PollInterval config \<le> 0 then
        Err (Errorf ''invalid event loop configuration'' [])
      else if cfg_RetryBaseInterval config \<le> 0 then Ok (config\<lparr>cfg_RetryBaseInterval := second\<rparr>)
      else Ok config)"

section \<open>The dispatcher\<close>

text \<open>A handler gets whether its context is cancelled, the job, and the world it acts on.\<close>

type_synonym 'w handler = "bool \<Rightarrow> Job \<Rightarrow> 'w \<Rightarrow> error option \<times> 'w"

definition dispatcher_Register :: "string \<Rightarrow> 'h option \<Rightarrow> (string, 'h) gomap \<Rightarrow> error option \<times> (string, 'h) gomap" where
  "dispatcher_Register eventType h handlers =
     (case h of
        None \<Rightarrow> (Some (Errorf ''event type and handler are required'' []), handlers)
      | Some f \<Rightarrow>
         if eventType = '''' then (Some (Errorf ''event type and handler are required'' []), handlers)
         else if map_of handlers eventType \<noteq> None then
           (Some (Errorf ''handler already registered for %s'' [FmtS eventType]), handlers)
         else (None, put eventType f handlers))"

definition dispatcher_Dispatch :: "(string, 'w handler) gomap \<Rightarrow> bool \<Rightarrow> Job \<Rightarrow> 'w \<Rightarrow> error option \<times> 'w" where
  "dispatcher_Dispatch handlers cancelled job w =
     (case map_of handlers (job_Type job) of
        None \<Rightarrow> (Some (Errorf ''no handler registered for event %s'' [FmtS (job_Type job)]), w)
      | Some h \<Rightarrow> h cancelled job w)"

section \<open>Handlers\<close>

record Event =
  ev_ID :: string
  ev_Type :: string
  ev_AggregateType :: string
  ev_AggregateID :: string
  ev_Payload :: metadata
  ev_OccurredAt :: int
  ev_Metadata :: metadata

text \<open>The decoding of a payload, \<^verbatim>\<open>json.Unmarshal\<close> at its type, is an argument of each handler.\<close>

definition domainEvent_Handle :: "(string \<Rightarrow> error + Event) \<Rightarrow> 'w handler" where
  "domainEvent_Handle decode cancelled job w =
     (case decode (job_Payload job) of
        Inr event \<Rightarrow>
          if ev_ID event = '''' \<or> ev_Type event \<noteq> job_Type job \<or> ev_AggregateID event = '''' then
            (Some (Errorf ''invalid domain event envelope'' []), w)
          else (None, w)
      | Inl e \<Rightarrow> (Some (Errorf ''decode domain event: %w'' [FmtE e]), w))"

definition executionRun_Handle ::
  "(bool \<Rightarrow> ExecutionRequest \<Rightarrow> 'w \<Rightarrow> error option \<times> 'w) option \<Rightarrow> (string \<Rightarrow> error + ExecutionRequest) \<Rightarrow> 'w handler"
where
  "executionRun_Handle runner decode cancelled job w =
     (case runner of
        None \<Rightarrow> (Some (Errorf ''execution supervisor is not configured'' []), w)
      | Some execute \<Rightarrow>
         (case decode (job_Payload job) of
            Inr request \<Rightarrow>
              if run_ID (er_Run request) = '''' then (Some (Errorf ''execution run id is required'' []), w)
              else execute cancelled request w
          | Inl e \<Rightarrow> (Some (Errorf ''decode execution request: %w'' [FmtE e]), w)))"

definition activityExecution_Handle ::
  "(bool \<Rightarrow> ActivityExecutionContext \<Rightarrow> 'w \<Rightarrow> error option \<times> 'w) option \<Rightarrow>
   (string \<Rightarrow> error + ActivityExecutionContext) \<Rightarrow> 'w handler"
where
  "activityExecution_Handle starter decode cancelled job w =
     (case starter of
        None \<Rightarrow> (Some (Errorf ''activity execution service is not configured'' []), w)
      | Some start \<Rightarrow>
         (case decode (job_Payload job) of
            Inr execution \<Rightarrow>
              if act_ID (ctx_Activity execution) = '''' \<or> run_ID (ctx_Run execution) = '''' then
                (Some (Errorf ''activity and execution run are required'' []), w)
              else start cancelled execution w
          | Inl e \<Rightarrow> (Some (Errorf ''decode activity execution: %w'' [FmtE e]), w)))"

section \<open>Handling one job\<close>

text \<open>
  The interval between retries, \<^verbatim>\<open>RetryBaseInterval * time.Duration(1<<min(job.Attempts-1, 8))\<close>: a
  negative shift count panics, and the product is a 64-bit one.
\<close>

definition retry_backoff :: "int \<Rightarrow> int \<Rightarrow> int result" where
  "retry_backoff base attempts =
     (let shift = min (wrap64 (attempts - 1)) 8 in
      if shift < 0 then Panic ''runtime error: negative shift amount''
      else Ok (wrap64 (base * 2 ^ nat shift)))"

text \<open>The renewals at the given ticks; the first failure cancels the context of the job.\<close>

definition renew_interval :: "int \<Rightarrow> int" where
  "renew_interval duration =
     (let interval = duration div 3 in if interval < 10000000 then 10000000 else interval)"

fun keepLeaseAlive :: "'q QueueStore \<Rightarrow> LoopConfig \<Rightarrow> string \<Rightarrow> int list \<Rightarrow> 'q \<Rightarrow> bool \<times> 'q" where
  "keepLeaseAlive store cfg ident [] q = (False, q)"
| "keepLeaseAlive store cfg ident (now # ticks) q =
     (case qs_RenewLease store ident (cfg_Owner cfg) (now + cfg_LeaseDuration cfg) q of
        (Some e, q') \<Rightarrow> (True, q')
      | (None, q') \<Rightarrow> keepLeaseAlive store cfg ident ticks q')"

text \<open>The settlement of a job when the dispatcher has returned.\<close>

definition loop_settle :: "'q QueueStore \<Rightarrow> LoopConfig \<Rightarrow> int \<Rightarrow> Job \<Rightarrow> error option \<Rightarrow> 'q \<Rightarrow> 'q result" where
  "loop_settle store cfg now job err q =
     (case err of
        None \<Rightarrow> Ok (snd (qs_Complete store (job_ID job) (cfg_Owner cfg) now q))
      | Some e \<Rightarrow>
         (case retry_backoff (cfg_RetryBaseInterval cfg) (job_Attempts job) of
            Ok backoff \<Rightarrow> Ok (snd (qs_Retry store (job_ID job) (cfg_Owner cfg) (Some e) (now + backoff) q))
          | Err x \<Rightarrow> Err x
          | Panic p \<Rightarrow> Panic p))"

text \<open>\<^verbatim>\<open>handle\<close> as a whole, when nothing else touches the store while it runs.\<close>

definition loop_handle ::
  "'q QueueStore \<Rightarrow> LoopConfig \<Rightarrow> (string, 'w handler) gomap \<Rightarrow> int list \<Rightarrow> int \<Rightarrow> Job \<Rightarrow> 'q \<Rightarrow> 'w \<Rightarrow> 'q result \<times> 'w"
where
  "loop_handle store cfg handlers ticks now job q w =
     (let (cancelled, q1) = keepLeaseAlive store cfg (job_ID job) ticks q;
          (err, w1) = dispatcher_Dispatch handlers cancelled job w
      in (loop_settle store cfg now job err q1, w1))"

section \<open>The loop\<close>

record 'q LoopState =
  ls_Queue :: 'q
  ls_Running :: "Job list"
  ls_WakeUp :: bool

definition loop_Notify :: "'q LoopState \<Rightarrow> 'q LoopState" where
  "loop_Notify s = s\<lparr>ls_WakeUp := True\<rparr>"

definition loop_drain :: "'q QueueStore \<Rightarrow> LoopConfig \<Rightarrow> int \<Rightarrow> 'q LoopState \<Rightarrow> 'q LoopState" where
  "loop_drain store cfg now s =
     (let available = cfg_Concurrency cfg - int (length (ls_Running s)) in
      if available \<le> 0 then s
      else case qs_Lease store now (cfg_Owner cfg) (cfg_Categories cfg) available (cfg_LeaseDuration cfg) (ls_Queue s) of
             (Ok jobs, q) \<Rightarrow> s\<lparr>ls_Queue := q, ls_Running := ls_Running s @ jobs\<rparr>
           | (_, q) \<Rightarrow> s\<lparr>ls_Queue := q\<rparr>)"

definition loop_tick :: "'q QueueStore \<Rightarrow> LoopConfig \<Rightarrow> int \<Rightarrow> 'q LoopState \<Rightarrow> 'q LoopState" where
  "loop_tick store cfg now s =
     loop_drain store cfg now (s\<lparr>ls_Queue := snd (qs_ReleaseExpired store now (ls_Queue s))\<rparr>)"

definition loop_wake :: "'q QueueStore \<Rightarrow> LoopConfig \<Rightarrow> int \<Rightarrow> 'q LoopState \<Rightarrow> 'q LoopState" where
  "loop_wake store cfg now s = loop_drain store cfg now (s\<lparr>ls_WakeUp := False\<rparr>)"

definition loop_renew :: "'q QueueStore \<Rightarrow> LoopConfig \<Rightarrow> int \<Rightarrow> Job \<Rightarrow> 'q LoopState \<Rightarrow> 'q LoopState" where
  "loop_renew store cfg now job s =
     s\<lparr>ls_Queue := snd (qs_RenewLease store (job_ID job) (cfg_Owner cfg) (now + cfg_LeaseDuration cfg) (ls_Queue s))\<rparr>"

text \<open>The end of a goroutine: settle, free the slot, notify.\<close>

definition loop_finish :: "'q QueueStore \<Rightarrow> LoopConfig \<Rightarrow> int \<Rightarrow> Job \<Rightarrow> error option \<Rightarrow> 'q LoopState \<Rightarrow> 'q LoopState result" where
  "loop_finish store cfg now job err s =
     (case loop_settle store cfg now job err (ls_Queue s) of
        Ok q \<Rightarrow> Ok (loop_Notify (s\<lparr>ls_Queue := q, ls_Running := remove1 job (ls_Running s)\<rparr>))
      | Err e \<Rightarrow> Err e
      | Panic p \<Rightarrow> Panic p)"

text \<open>
  The loop and the goroutines it started, interleaved with other clients of the store
  (\<open>other q q'\<close>).
\<close>

inductive loop_step :: "'q QueueStore \<Rightarrow> LoopConfig \<Rightarrow> ('q \<Rightarrow> 'q \<Rightarrow> bool) \<Rightarrow> 'q LoopState \<Rightarrow> 'q LoopState \<Rightarrow> bool"
  for store cfg other where
  step_tick: "loop_step store cfg other s (loop_tick store cfg now s)"
| step_wake: "ls_WakeUp s \<Longrightarrow> loop_step store cfg other s (loop_wake store cfg now s)"
| step_renewal: "job \<in> set (ls_Running s) \<Longrightarrow> loop_step store cfg other s (loop_renew store cfg now job s)"
| step_finish: "job \<in> set (ls_Running s) \<Longrightarrow> loop_finish store cfg now job err s = Ok s' \<Longrightarrow>
    loop_step store cfg other s s'"
| step_other: "other (ls_Queue s) q \<Longrightarrow> loop_step store cfg other s (s\<lparr>ls_Queue := q\<rparr>)"

inductive loop_reachable :: "'q QueueStore \<Rightarrow> LoopConfig \<Rightarrow> ('q \<Rightarrow> 'q \<Rightarrow> bool) \<Rightarrow> 'q \<Rightarrow> 'q LoopState \<Rightarrow> bool"
  for store cfg other q0 where
  loop_start: "loop_reachable store cfg other q0
     (loop_drain store cfg now \<lparr>ls_Queue = q0, ls_Running = [], ls_WakeUp = False\<rparr>)"
| loop_next: "loop_reachable store cfg other q0 s \<Longrightarrow> loop_step store cfg other s s' \<Longrightarrow>
    loop_reachable store cfg other q0 s'"

section \<open>Arithmetic of the backoff\<close>

lemma retry_backoff_Ok: "1 \<le> attempts \<Longrightarrow> attempts < 2 ^ 63 \<Longrightarrow>
    retry_backoff base attempts = Ok (wrap64 (base * 2 ^ nat (min (attempts - 1) 8)))"
  by (simp add: retry_backoff_def wrap64_id Let_def)

lemma backoff_factor: "1 \<le> attempts \<Longrightarrow> 1 \<le> (2 :: int) ^ nat (min (attempts - 1) 8) \<and> (2 :: int) ^ nat (min (attempts - 1) 8) \<le> 256"
  using power_increasing [of "nat (min (attempts - 1) 8)" 8 "2 :: int"] by simp

section \<open>The loop over any store that keeps the contract\<close>

text \<open>The invariant of the loop, given the invariant of its store.\<close>

definition loop_inv :: "('q \<Rightarrow> bool) \<Rightarrow> LoopConfig \<Rightarrow> 'q LoopState \<Rightarrow> bool" where
  "loop_inv invar cfg s \<longleftrightarrow> invar (ls_Queue s) \<and> int (length (ls_Running s)) \<le> cfg_Concurrency cfg \<and>
     (\<forall>j \<in> set (ls_Running s). 1 \<le> job_Attempts j)"

context job_store
begin

lemma leased_attempts:
  assumes "invar q" and l: "qs_Lease store now owner categories limit duration q = (Ok jobs, q')" and "j \<in> set jobs"
  shows "1 \<le> job_Attempts j"
proof -
  have "invar q'" using lease_invar [OF assms(1), of now owner categories limit duration] l by simp
  then show ?thesis
    using lease_held [OF assms] lookup_leased [of q' "job_ID j" j] by (simp add: held_by_def)
qed

lemma drain_cases:
  assumes "invar (ls_Queue s)"
  obtains (stay) "loop_drain store cfg now s = s"
  | (error) q where "loop_drain store cfg now s = s\<lparr>ls_Queue := q\<rparr>" "invar q"
  | (leased) jobs q where "loop_drain store cfg now s = s\<lparr>ls_Queue := q, ls_Running := ls_Running s @ jobs\<rparr>"
      "qs_Lease store now (cfg_Owner cfg) (cfg_Categories cfg)
         (cfg_Concurrency cfg - int (length (ls_Running s))) (cfg_LeaseDuration cfg) (ls_Queue s) = (Ok jobs, q)"
      "int (length (ls_Running s)) < cfg_Concurrency cfg" "invar q"
proof (cases "int (length (ls_Running s)) < cfg_Concurrency cfg")
  case False
  then show thesis using stay by (simp add: loop_drain_def Let_def)
next
  case True
  obtain r q where l: "qs_Lease store now (cfg_Owner cfg) (cfg_Categories cfg)
      (cfg_Concurrency cfg - int (length (ls_Running s))) (cfg_LeaseDuration cfg) (ls_Queue s) = (r, q)" by fastforce
  have "invar q" using lease_invar [OF assms] l by (metis snd_conv)
  then show thesis using True l error leased by (cases r) (simp_all add: loop_drain_def Let_def)
qed

lemma drain_inv: "loop_inv invar cfg s \<Longrightarrow> loop_inv invar cfg (loop_drain store cfg now s)"
proof -
  assume i: "loop_inv invar cfg s"
  then have v: "invar (ls_Queue s)" by (simp add: loop_inv_def)
  from v show ?thesis
  proof (cases rule: drain_cases [where cfg = cfg and now = now])
    case (leased jobs q)
    have "int (length jobs) \<le> cfg_Concurrency cfg - int (length (ls_Running s))"
      using lease_batch [OF v leased(2)] by simp
    then show ?thesis using i leased leased_attempts [OF v leased(2)] by (auto simp: loop_inv_def)
  qed (use i in \<open>simp_all add: loop_inv_def\<close>)
qed

lemma settle_inv:
  assumes "invar q" and "loop_settle store cfg now job err q = Ok q'"
  shows "invar q'"
  using assms complete_invar retry_invar by (auto simp: loop_settle_def split: option.splits result.splits)

lemma loop_step_inv:
  assumes "\<And>q q'. other q q' \<Longrightarrow> invar q \<Longrightarrow> invar q'"
  shows "loop_step store cfg other s s' \<Longrightarrow> loop_inv invar cfg s \<Longrightarrow> loop_inv invar cfg s'"
proof (induction rule: loop_step.induct)
  case (step_tick s now)
  then show ?case unfolding loop_tick_def by (intro drain_inv) (simp add: loop_inv_def release_invar)
next
  case (step_wake s now)
  then show ?case unfolding loop_wake_def by (intro drain_inv) (simp add: loop_inv_def)
next
  case (step_renewal job s now)
  then show ?case by (simp add: loop_inv_def loop_renew_def renew_invar)
next
  case (step_finish job s now err s')
  then obtain q where "loop_settle store cfg now job err (ls_Queue s) = Ok q"
    "s' = loop_Notify (s\<lparr>ls_Queue := q, ls_Running := remove1 job (ls_Running s)\<rparr>)"
    by (auto simp: loop_finish_def split: result.splits)
  moreover have "set (remove1 job (ls_Running s)) \<subseteq> set (ls_Running s)" by (rule set_remove1_subset)
  ultimately show ?case
    using step_finish.prems settle_inv by (auto simp: loop_inv_def loop_Notify_def length_remove1)
next
  case (step_other s q)
  then show ?case using assms by (auto simp: loop_inv_def)
qed

lemma loop_reachable_inv:
  assumes "\<And>q q'. other q q' \<Longrightarrow> invar q \<Longrightarrow> invar q'" and "invar q0" and "0 \<le> cfg_Concurrency cfg"
  shows "loop_reachable store cfg other q0 s \<Longrightarrow> loop_inv invar cfg s"
proof (induction rule: loop_reachable.induct)
  case (loop_start now)
  show ?case using assms(2,3) by (intro drain_inv) (simp add: loop_inv_def)
next
  case (loop_next s s')
  then show ?case using loop_step_inv assms(1) by blast
qed

text \<open>Settling a held job: it is completed, or retried after the backoff.\<close>

lemma settle_held:
  assumes "invar q" and "lookup q (job_ID job) = Some j" and "held_by (job_ID job) (cfg_Owner cfg) j"
    and "1 \<le> job_Attempts job" and "job_Attempts job < 2 ^ 63"
  shows "\<exists>q'. loop_settle store cfg now job err q = Ok q' \<and>
    lookup q' (job_ID job) = Some (case err of
        None \<Rightarrow> complete_row now j
      | Some e \<Rightarrow> retry_row (error_text e)
          (now + wrap64 (cfg_RetryBaseInterval cfg * 2 ^ nat (min (job_Attempts job - 1) 8))) j) \<and>
    (\<forall>i. i \<noteq> job_ID job \<longrightarrow> lookup q' i = lookup q i)"
proof (cases err)
  case None
  then show ?thesis using complete_held [OF assms(1-3), of now] by (auto simp: loop_settle_def)
next
  case (Some e)
  then show ?thesis
    using retry_held [OF assms(1-3), of "Some e"
        "now + wrap64 (cfg_RetryBaseInterval cfg * 2 ^ nat (min (job_Attempts job - 1) 8))"]
    by (auto simp: loop_settle_def retry_backoff_Ok [OF assms(4,5)])
qed

text \<open>A goroutine whose lease is gone settles nothing.\<close>

lemma settle_lost:
  assumes "invar q" and "\<forall>j. lookup q (job_ID job) = Some j \<longrightarrow> \<not> held_by (job_ID job) (cfg_Owner cfg) j"
    and "1 \<le> job_Attempts job" and "job_Attempts job < 2 ^ 63"
  shows "loop_settle store cfg now job err q = Ok q"
  using complete_not_held [OF assms(1,2), of now] retry_not_held [OF assms(1,2)]
  by (cases err) (auto simp: loop_settle_def retry_backoff_Ok [OF assms(3,4)] dest: spec,
      metis (no_types, lifting) snd_conv)

lemma keepLeaseAlive_held:
  assumes "invar q" and "lookup q ident = Some j" and "held_by ident (cfg_Owner cfg) j"
  shows "\<exists>q' e. keepLeaseAlive store cfg ident ticks q = (False, q') \<and> invar q' \<and>
    lookup q' ident = Some (j\<lparr>job_LeaseExpiresAt := e\<rparr>) \<and> (\<forall>i. i \<noteq> ident \<longrightarrow> lookup q' i = lookup q i)"
  using assms
proof (induction ticks arbitrary: q j)
  case Nil
  have "j = j\<lparr>job_LeaseExpiresAt := job_LeaseExpiresAt j\<rparr>" by simp
  then show ?case using Nil by (metis keepLeaseAlive.simps(1))
next
  case (Cons now ticks)
  let ?t = "now + cfg_LeaseDuration cfg"
  obtain q1 where q1: "qs_RenewLease store ident (cfg_Owner cfg) ?t q = (None, q1)"
    "lookup q1 ident = Some (j\<lparr>job_LeaseExpiresAt := Some ?t\<rparr>)" "\<forall>i. i \<noteq> ident \<longrightarrow> lookup q1 i = lookup q i"
    using renew_held [OF Cons.prems] by blast
  have "invar q1" using renew_invar [OF Cons.prems(1), of ident "cfg_Owner cfg" ?t] q1(1) by simp
  then show ?case using Cons.IH [OF _ q1(2)] q1 Cons.prems(3) by (auto simp: held_by_def)
qed

end

end
