(* ===== verification/Queue_Properties.thy ===== *)
theory Queue_Properties
  imports Job_Store
begin

text \<open>
  What the job queue promises: leases are exclusive and given in priority order, the table stays
  well formed whatever the clients do, a job follows its life cycle, publication is idempotent.
\<close>

section \<open>Helpers\<close>

inductive queue_steps :: "queue \<Rightarrow> queue \<Rightarrow> bool" where
  steps_refl: "queue_steps q q"
| steps_step: "queue_steps q q' \<Longrightarrow> queue_step q' op q'' \<Longrightarrow> queue_steps q q''"

lemma queue_steps_terminal:
  assumes "queue_steps q q'" and "row_of q ident = Some j" and "terminal (job_Status j)"
  shows "row_of q' ident = Some j"
  using assms
proof (induction rule: queue_steps.induct)
  case (steps_step q q' op q'')
  then show ?case using queue_step_row_of [OF steps_step.hyps(2)] row_step_terminal by metis
qed

text \<open>The abstract state: the status of every job.\<close>

definition statuses :: "queue \<Rightarrow> string \<Rightarrow> Status option" where
  "statuses q ident = map_option job_Status (row_of q ident)"

definition spec_step :: "(string \<Rightarrow> Status option) \<Rightarrow> (string \<Rightarrow> Status option) \<Rightarrow> bool" where
  "spec_step a a' \<longleftrightarrow> (\<forall>ident. case a ident of
     None \<Rightarrow> a' ident = None \<or> a' ident = Some StatusPending
   | Some s \<Rightarrow> (\<exists>s'. a' ident = Some s' \<and> (s' = s \<or> lifecycle s s')))"

lemma rowwise_row_of_None: "rowwise q q' \<Longrightarrow> row_of q ident = None \<Longrightarrow> row_of q' ident = None"
  using rowwise_frame(1) [of q q'] unfolding row_of_None by (metis list.set_map)

lemma queue_step_new_row:
  assumes "queue_step q op q'" and "row_of q ident = None"
  shows "row_of q' ident = None \<or> (\<exists>j. row_of q' ident = Some j \<and> job_Status j = StatusPending)"
  using queue_step_shape [OF assms(1)]
proof
  assume "rowwise q q'"
  then show ?thesis using assms(2) rowwise_row_of_None by blast
next
  assume "\<exists>k. q' = q @ [k] \<and> fresh_row q k"
  then obtain k where k: "q' = q @ [k]" "fresh_row q k" by blast
  have "List.find P (xs @ [k]) = (case List.find P xs of None \<Rightarrow> if P k then Some k else None | Some x \<Rightarrow> Some x)"
    for P and xs :: queue by (induction xs) auto
  then show ?thesis using k assms(2) by (simp add: row_of_def fresh_row_def)
qed

text \<open>A guarded update changes a row where the guard holds, and no other.\<close>

lemma transition_row_of:
  assumes "\<And>j. job_ID (f j) = job_ID j"
  shows "row_of (snd (transition fault operation p f q)) i =
    map_option (\<lambda>j. if fault = None \<and> p j then f j else j) (row_of q i)"
proof (cases fault)
  case None
  have "row_of (map (\<lambda>j. if p j then f j else j) q) i = map_option (\<lambda>j. if p j then f j else j) (row_of q i)"
    by (rule row_of_map) (simp add: assms)
  then show ?thesis using None by (simp add: transition_None)
qed (simp add: transition_def option.map_ident)

lemma repo_Publish_row_of:
  assumes "job_Status k = StatusPending" and "0 \<le> job_Attempts k" and "row_of q i = Some j"
  shows "row_of (snd (repo_Publish faults clock k q)) i = Some j"
  using repo_Publish_shape [OF assms(1,2), of faults clock q] assms(3)
  by (auto simp: row_of_def find_Some_iff nth_append)

lemma repo_ReleaseExpired_row_of:
  assumes "row_of q i = Some j" and "\<not> expired now j"
  shows "row_of (snd (repo_ReleaseExpired fault now q)) i = Some j"
proof (cases fault)
  case None
  have "row_of (map (\<lambda>j. if expired now j then release_row now j else j) q) i =
      map_option (\<lambda>j. if expired now j then release_row now j else j) (row_of q i)"
    by (rule row_of_map) simp
  then have "row_of (map (\<lambda>j. if expired now j then release_row now j else j) q) i = Some j" using assms by simp
  then show ?thesis
    unfolding None repo_ReleaseExpired_def sql_update_def release_row_def [abs_def] by simp
qed (simp add: repo_ReleaseExpired_def assms)

definition only_expiry :: "Job \<Rightarrow> Job \<Rightarrow> bool" where
  "only_expiry j j' \<longleftrightarrow> (\<exists>e. j' = j\<lparr>job_LeaseExpiresAt := e\<rparr>)"

lemma only_expiry_refl [simp]: "only_expiry j j"
  unfolding only_expiry_def by (rule exI [of _ "job_LeaseExpiresAt j"]) simp

lemma only_expiry_held: "only_expiry j j' \<Longrightarrow> held_by ident owner j \<Longrightarrow> held_by ident owner j'"
  by (auto simp: only_expiry_def held_by_def)

text \<open>What each operation does to a leased row it is not entitled to.\<close>

lemma queue_step_leased:
  assumes "queue_step q op q'" and "row_of q ident = Some j" and "held_by ident owner j"
    and "op \<noteq> CompleteOp ident owner" and "op \<noteq> RetryOp ident owner" and "op \<noteq> CancelOp ident"
    and "\<And>now. op = ReleaseOp now \<Longrightarrow> \<not> expired now j"
  shows "\<exists>j'. row_of q' ident = Some j' \<and> only_expiry j j'"
  using assms
proof (induction rule: queue_step.induct)
  case (step_publish k q faults clock)
  then show ?case using repo_Publish_row_of only_expiry_refl by metis
next
  case (step_lease q scan fault now owner' categories limit duration)
  then show ?case using repo_Lease_frame [of q ident j] by (auto simp: held_by_def)
next
  case (step_renew q ident' owner' fault expiresAt)
  have "row_of (snd (repo_RenewLease fault ident' owner' expiresAt q)) ident =
      Some (if fault = None \<and> held_by ident' owner' j then j\<lparr>job_LeaseExpiresAt := Some expiresAt\<rparr> else j)"
    using step_renew.prems by (simp add: repo_RenewLease_def transition_row_of)
  moreover have "only_expiry j (if b then j\<lparr>job_LeaseExpiresAt := Some expiresAt\<rparr> else j)" for b
    by (auto simp: only_expiry_def simp del: only_expiry_refl intro: exI [of _ "job_LeaseExpiresAt j"])
  ultimately show ?case by blast
next
  case (step_complete q ident' owner' fault moment)
  then have "\<not> held_by ident' owner' j" by (auto simp: held_by_def)
  then show ?case using step_complete.prems by (simp add: repo_Complete_alt transition_row_of)
next
  case (step_retry q ident' owner' fault cause availableAt)
  then have "\<not> held_by ident' owner' j" by (auto simp: held_by_def)
  then show ?case using step_retry.prems by (simp add: repo_Retry_def transition_row_of)
next
  case (step_cancel q ident' fault moment)
  then have "job_ID j \<noteq> ident'" by (auto simp: held_by_def)
  then show ?case using step_cancel.prems by (simp add: repo_Cancel_alt transition_row_of)
next
  case (step_release q now fault)
  then show ?case by (simp add: repo_ReleaseExpired_row_of)
qed

lemma lease_facts:
  assumes "queue_inv q"
    and "repo_Lease scan fault now owner categories limit duration q = (Ok leased, q')"
  shows "int (length leased) \<le> limit \<and> distinct (map job_ID leased)"
    and "sorted (map lease_rank leased)"
    and "\<forall>j \<in> set leased. \<exists>r. row_of q (job_ID j) = Some r \<and> lease_eligible now categories r \<and>
           j = lease_row owner (now + duration) now r \<and> row_of q' (job_ID j) = Some j"
    and "\<forall>i. i \<notin> job_ID ` set leased \<longrightarrow> row_of q' i = row_of q i"
    and "\<forall>r \<in> set q. lease_eligible now categories r \<and> job_ID r \<notin> job_ID ` set leased \<longrightarrow>
           int (length leased) = limit \<and> (\<forall>j \<in> set leased. lease_rank j \<le> lease_rank r)"
proof -
  from assms obtain sel where sel: "leased = map (lease_row owner (now + duration) now) sel"
    "q' = lease_rows owner (now + duration) now (map job_ID sel) q"
    "sel = lease_select scan now categories limit q"
    "\<And>j. j \<in> set sel \<Longrightarrow> row_of q (job_ID j) = Some j \<and> lease_eligible now categories j"
    "distinct (map job_ID sel)" "int (length sel) \<le> limit"
    by (rule repo_Lease_batch) blast
  have g: "1 \<le> limit" using repo_Lease_guard [OF assms(2)] by simp
  show "int (length leased) \<le> limit \<and> distinct (map job_ID leased)" using sel(1,5,6) by (simp add: comp_def)
  show "sorted (map lease_rank leased)"
    using lease_select_sorted [of scan now categories limit q] by (simp add: sel(1,3) comp_def)
  show "\<forall>j \<in> set leased. \<exists>r. row_of q (job_ID j) = Some r \<and> lease_eligible now categories r \<and>
      j = lease_row owner (now + duration) now r \<and> row_of q' (job_ID j) = Some j"
    using sel(1,4) repo_Lease_held [OF assms] by (auto simp: lease_eligible_def)
  show "\<forall>i. i \<notin> job_ID ` set leased \<longrightarrow> row_of q' i = row_of q i"
    unfolding sel(1,2) by (auto intro: row_of_lease_rows_other simp: image_image)
  show "\<forall>r \<in> set q. lease_eligible now categories r \<and> job_ID r \<notin> job_ID ` set leased \<longrightarrow>
      int (length leased) = limit \<and> (\<forall>j \<in> set leased. lease_rank j \<le> lease_rank r)"
  proof (intro ballI impI)
    fix r assume r: "r \<in> set q" "lease_eligible now categories r \<and> job_ID r \<notin> job_ID ` set leased"
    then have "r \<notin> set sel" by (auto simp: sel(1) image_image)
    then show "int (length leased) = limit \<and> (\<forall>j \<in> set leased. lease_rank j \<le> lease_rank r)"
      using lease_select_best [of r q now categories scan limit] r g by (simp add: sel(1,3))
  qed
qed

section \<open>Properties\<close>

text \<open>A pending job, as \<^verbatim>\<open>Publish\<close> stores it.\<close>

definition sample_job :: "string \<Rightarrow> string \<Rightarrow> int \<Rightarrow> int \<Rightarrow> Job" where
  "sample_job ident key priority attempts =
     \<lparr>job_ID = ident, job_Category = ''execution'', job_Type = ''execution.run.requested'', job_AggregateType = '''',
      job_AggregateID = '''', job_Payload = '''', job_Status = StatusPending, job_Priority = priority,
      job_AvailableAt = 10, job_LeaseOwner = '''', job_LeaseExpiresAt = None, job_Attempts = 0,
      job_MaxAttempts = attempts, job_IdempotencyKey = key, job_LastError = '''', job_CreatedAt = 10,
      job_StartedAt = None, job_CompletedAt = None\<rparr>"

text \<open>
  C1. \<^verbatim>\<open>Lease\<close> hands out a batch of at most \<open>limit\<close> distinct jobs. Each was a pending, due job of a
  requested category and is now stored as leased to the owner until \<open>now + duration\<close>, with one
  more attempt; every other row is unchanged. The batch is in the order of priority, due time and
  creation time, and an eligible job stays behind only when the batch is full of jobs that rank at
  least as high.
\<close>

theorem lease_correct:
  assumes "queue_inv q"
    and "repo_Lease scan fault now owner categories limit duration q = (Ok leased, q')"
  shows "int (length leased) \<le> limit \<and> distinct (map job_ID leased) \<and> sorted (map lease_rank leased) \<and>
    (\<forall>j \<in> set leased. \<exists>r. row_of q (job_ID j) = Some r \<and> lease_eligible now categories r \<and>
       j = lease_row owner (now + duration) now r \<and> row_of q' (job_ID j) = Some j) \<and>
    (\<forall>i. i \<notin> job_ID ` set leased \<longrightarrow> row_of q' i = row_of q i) \<and>
    (\<forall>r \<in> set q. lease_eligible now categories r \<and> job_ID r \<notin> job_ID ` set leased \<longrightarrow>
       int (length leased) = limit \<and> (\<forall>j \<in> set leased. lease_rank j \<le> lease_rank r))"
  using lease_facts [OF assms] by simp

definition sample_queue :: queue where
  "sample_queue = [sample_job ''a'' '''' 0 5, sample_job ''b'' '''' 7 5]"

theorem lease_correct_witness:
  "\<exists>leased q'. repo_Lease (\<lambda>q. q) None 20 ''loop'' [] 1 30 sample_queue = (Ok leased, q') \<and>
     int (length leased) \<le> 1 \<and> map job_ID leased = [''b'']"
proof -
  have q: "queue_inv sample_queue" by code_simp
  obtain leased q' where r: "repo_Lease (\<lambda>q. q) None 20 ''loop'' [] 1 30 sample_queue = (Ok leased, q')"
    and i: "map job_ID leased = [''b'']"
  proof -
    have "case repo_Lease (\<lambda>q. q) None 20 ''loop'' [] 1 30 sample_queue of
        (Ok l, q') \<Rightarrow> map job_ID l = [''b''] | _ \<Rightarrow> False" by code_simp
    then show thesis using that by (auto split: prod.splits result.splits)
  qed
  show ?thesis using lease_correct [OF q r] r i by auto
qed

text \<open>
  C2. A lease is exclusive: whatever operation any client performs, the job a client holds stays
  held by that client, with the row unchanged but for the expiry time, unless the operation is the
  holder's own \<^verbatim>\<open>Complete\<close> or \<^verbatim>\<open>Retry\<close>, a \<^verbatim>\<open>Cancel\<close> of the job, or a \<^verbatim>\<open>ReleaseExpired\<close> at a time the
  lease has expired.
\<close>

theorem lease_exclusive:
  assumes "queue_step q op q'" and "row_of q ident = Some j" and "held_by ident owner j"
  shows "(\<exists>j'. row_of q' ident = Some j' \<and> held_by ident owner j' \<and> only_expiry j j') \<or>
    op = CompleteOp ident owner \<or> op = RetryOp ident owner \<or> op = CancelOp ident \<or>
    (\<exists>now. op = ReleaseOp now \<and> expired now j)"
  using queue_step_leased [OF assms] assms(3) only_expiry_held by blast

definition leased_queue :: queue where
  "leased_queue = snd (repo_Lease (\<lambda>q. q) None 20 ''loop'' [] 1 30 sample_queue)"

theorem lease_exclusive_witness:
  "\<exists>q' j j'. queue_step leased_queue LeaseOp q' \<and> row_of leased_queue ''b'' = Some j \<and>
     row_of q' ''b'' = Some j' \<and> held_by ''b'' ''loop'' j'"
proof -
  let ?q = "snd (repo_Lease (\<lambda>q. q) None 25 ''other'' [] 5 30 leased_queue)"
  have s: "queue_step leased_queue LeaseOp ?q" by (rule step_lease)
  have "case row_of leased_queue ''b'' of None \<Rightarrow> False | Some j \<Rightarrow> held_by ''b'' ''loop'' j" by code_simp
  then obtain j where "row_of leased_queue ''b'' = Some j" "held_by ''b'' ''loop'' j" by (auto split: option.splits)
  then show ?thesis using lease_exclusive [OF s] s by blast
qed


lemma sample_reachable: "queue_reachable (snd (repo_Publish (\<lambda>_. None) 10 (sample_job ''a'' ''k'' 0 1) []))"
  by (rule queue_next [OF queue_start step_publish]) (simp_all add: sample_job_def)




text \<open>
  A job that is completed, failed or cancelled is final: no sequence of operations changes its
  row.
\<close>

theorem terminal_rows_final:
  assumes "queue_steps q q'" and "row_of q ident = Some j" and "terminal (job_Status j)"
  shows "row_of q' ident = Some j"
  using assms by (rule queue_steps_terminal)

theorem terminal_rows_final_witness:
  "\<exists>j. row_of (snd (repo_ReleaseExpired None 99 (snd (repo_Cancel None ''a'' 40 sample_queue)))) ''a'' = Some j \<and>
     job_Status j = StatusCancelled"
proof -
  let ?q = "snd (repo_Cancel None ''a'' 40 sample_queue)"
  have s: "queue_steps ?q (snd (repo_ReleaseExpired None 99 ?q))" by (rule steps_step [OF steps_refl step_release])
  have "case row_of ?q ''a'' of None \<Rightarrow> False | Some j \<Rightarrow> job_Status j = StatusCancelled" by code_simp
  then obtain j where j: "row_of ?q ''a'' = Some j" "job_Status j = StatusCancelled" by (auto split: option.splits)
  show ?thesis using terminal_rows_final [OF s j(1)] j(2) by (simp add: terminal_def)
qed

text \<open>
  \<^verbatim>\<open>Complete\<close> and \<^verbatim>\<open>Retry\<close> take effect exactly when the caller holds the job, and then change that
  row only; otherwise they report an error and change nothing. A completed job is terminal; a
  retried job becomes pending again at the time given, or failed when its attempts are used up.
\<close>

theorem settle_correct:
  assumes "queue_inv q"
  shows "case row_of q ident of
      Some j \<Rightarrow>
        if held_by ident owner j then
          (\<exists>q'. repo_Complete None ident owner moment q = (None, q') \<and>
             row_of q' ident = Some (complete_row moment j) \<and> (\<forall>i. i \<noteq> ident \<longrightarrow> row_of q' i = row_of q i)) \<and>
          (\<exists>q' j'. repo_Retry None ident owner (Some cause) moment q = (None, q') \<and> row_of q' ident = Some j' \<and>
             job_Status j' = (if job_MaxAttempts j \<le> job_Attempts j then StatusFailed else StatusPending) \<and>
             job_AvailableAt j' = moment \<and> job_LastError j' = error_text cause \<and> job_Attempts j' = job_Attempts j \<and>
             (\<forall>i. i \<noteq> ident \<longrightarrow> row_of q' i = row_of q i))
        else
          (\<exists>e. repo_Complete None ident owner moment q = (Some e, q)) \<and>
          (\<exists>e. repo_Retry None ident owner (Some cause) moment q = (Some e, q))
    | None \<Rightarrow>
        (\<exists>e. repo_Complete None ident owner moment q = (Some e, q)) \<and>
        (\<exists>e. repo_Retry None ident owner (Some cause) moment q = (Some e, q))"
proof (cases "\<exists>j. row_of q ident = Some j \<and> held_by ident owner j")
  case True
  then obtain j where j: "row_of q ident = Some j" "held_by ident owner j" by blast
  obtain q' where "repo_Retry None ident owner (Some cause) moment q = (None, q')"
    "row_of q' ident = Some (retry_row (error_text cause) moment j)" "\<forall>i. i \<noteq> ident \<longrightarrow> row_of q' i = row_of q i"
    using repo_Retry_held [OF assms j, of "Some cause" moment] by auto
  then have "\<exists>q' j'. repo_Retry None ident owner (Some cause) moment q = (None, q') \<and> row_of q' ident = Some j' \<and>
      job_Status j' = (if job_MaxAttempts j \<le> job_Attempts j then StatusFailed else StatusPending) \<and>
      job_AvailableAt j' = moment \<and> job_LastError j' = error_text cause \<and> job_Attempts j' = job_Attempts j \<and>
      (\<forall>i. i \<noteq> ident \<longrightarrow> row_of q' i = row_of q i)"
    by (auto simp: retry_row_def)
  then show ?thesis using j repo_Complete_held [OF assms j, of moment] by simp
next
  case False
  then have "\<forall>j. row_of q ident = Some j \<longrightarrow> \<not> held_by ident owner j" by simp
  then have "\<exists>e. repo_Complete None ident owner moment q = (Some e, q)"
    "\<exists>e. repo_Retry None ident owner (Some cause) moment q = (Some e, q)"
    using repo_not_held [OF assms] by blast+
  then show ?thesis using False by (simp split: option.split)
qed

theorem settle_correct_witness:
  "\<exists>q'. repo_Complete None ''b'' ''loop'' 40 leased_queue = (None, q') \<and>
     map_option job_Status (row_of q' ''b'') = Some StatusCompleted"
proof -
  have q: "queue_inv leased_queue" by code_simp
  have "case row_of leased_queue ''b'' of None \<Rightarrow> False | Some j \<Rightarrow> held_by ''b'' ''loop'' j" by code_simp
  then show ?thesis
    using settle_correct [OF q, of "''b''" "''loop''" 40 "Errorf ''x'' []"]
    by (auto simp: complete_row_def split: option.splits)
qed

text \<open>
  Publication is idempotent: when a row with the key of a job exists, publishing the job again
  returns that row and leaves the table as it is, whatever else the job says.
\<close>

theorem publish_idempotent:
  assumes "queue_inv q" and "r \<in> set q" and "job_IdempotencyKey r = job_IdempotencyKey job"
    and "job_IdempotencyKey job \<noteq> ''''" and "job_Validate job = None" and "job_Status job = StatusPending"
  shows "repo_Publish (\<lambda>_. None) clock job q = (Ok r, q)"
proof -
  have d: "distinct (map job_ID q)" using assms(1) by (simp add: queue_inv_def)
  have "distinct (map job_IdempotencyKey (filter (\<lambda>r. job_IdempotencyKey r \<noteq> '''') q))"
    using assms(1) by (simp add: queue_inv_def keys_of_def filter_map comp_def)
  then have "List.find (\<lambda>r. job_IdempotencyKey r = job_IdempotencyKey job) q = Some r"
    using assms(2-4) by (induction q) (auto split: if_splits simp: image_iff)
  moreover have "sql_insert (publish_times clock job) q = (None, q)"
    using assms(2-4,6) by (auto simp: sql_insert_def)
  ultimately show ?thesis
    using assms(4,5) row_of_distinct [OF d assms(2)]
    by (simp add: repo_Publish_def repo_FindByID_def Let_def)
qed

theorem publish_idempotent_witness:
  "repo_Publish (\<lambda>_. None) 50 (sample_job ''z'' ''k'' 9 3) [sample_job ''a'' ''k'' 0 1] =
     (Ok (sample_job ''a'' ''k'' 0 1), [sample_job ''a'' ''k'' 0 1])"
  by (rule publish_idempotent; code_simp)

text \<open>
  \<^verbatim>\<open>MaxAttempts\<close> bounds the attempts only on the path through \<^verbatim>\<open>Retry\<close>: a job of at most one attempt
  whose worker dies is released on expiry and leased again, and is then in its second attempt.
\<close>

theorem attempts_exceed_maximum:
  "\<exists>q j. queue_reachable q \<and> row_of q ''a'' = Some j \<and> job_Status j = StatusLeased \<and>
     job_MaxAttempts j = 1 \<and> job_Attempts j = 2"
proof -
  let ?q0 = "snd (repo_Publish (\<lambda>_. None) 10 (sample_job ''a'' ''k'' 0 1) [])"
  let ?q1 = "snd (repo_Lease (\<lambda>q. q) None 20 ''loop'' [] 1 30 ?q0)"
  let ?q2 = "snd (repo_ReleaseExpired None 60 ?q1)"
  let ?q3 = "snd (repo_Lease (\<lambda>q. q) None 70 ''loop'' [] 1 30 ?q2)"
  have r: "queue_reachable ?q3"
    by (rule queue_next [OF queue_next [OF queue_next [OF sample_reachable step_lease] step_release] step_lease])
  have "case row_of ?q3 ''a'' of None \<Rightarrow> False
    | Some j \<Rightarrow> job_Status j = StatusLeased \<and> job_MaxAttempts j = 1 \<and> job_Attempts j = 2" by code_simp
  then show ?thesis using r by (auto split: option.splits)
qed

end
