(* ===== verification/Execution_Store.thy ===== *)
theory Execution_Store
  imports Event_Loop_Properties
begin

text \<open>
  The execution repository, \<^verbatim>\<open>internal/infrastructure/database/execution/repository.go\<close>, and the
  transactional outbox, \<^verbatim>\<open>internal/infrastructure/database/events/outbox.go\<close>.

  The tables are the fields of \<open>ExecDB\<close>. A write takes the failure the database reports anywhere in
  its transaction, which is then rolled back; random identifiers, the clock and the JSON encoding
  of an event are arguments. Foreign keys are not modelled: a violation is such a failure.
\<close>

section \<open>JSON columns\<close>

text \<open>
  A value of a metadata map after \<^verbatim>\<open>json.Marshal\<close> and \<^verbatim>\<open>json.Unmarshal\<close>: every number becomes a
  \<^verbatim>\<open>float64\<close>. A number that is not finite cannot be encoded.
\<close>

fun json_any :: "any \<Rightarrow> any option" where
  "json_any AnyNil = Some AnyNil"
| "json_any (AnyString s) = Some (AnyString s)"
| "json_any (AnyBool b) = Some (AnyBool b)"
| "json_any (AnyFloat64 (Fin r)) = Some (AnyFloat64 (Fin r))"
| "json_any (AnyFloat64 _) = None"
| "json_any (AnyFloat32 (Fin r)) = Some (AnyFloat64 (Fin r))"
| "json_any (AnyFloat32 _) = None"
| "json_any (AnyInt i) = Some (AnyFloat64 (f_of_int i))"
| "json_any (AnyInt64 i) = Some (AnyFloat64 (f_of_int i))"
| "json_any (AnyList xs) = map_option AnyList (those (map json_any xs))"
| "json_any (AnyStrings xs) = Some (AnyList (map AnyString xs))"
| "json_any (AnyMap m) = map_option AnyMap (those (map (\<lambda>(k, v). map_option (Pair k) (json_any v)) m))"
| "json_any (AnyMaps ms) = map_option AnyList (those (map (\<lambda>m. map_option AnyMap (those (map (\<lambda>(k, v). map_option (Pair k) (json_any v)) m))) ms))"
| "json_any (AnyStruct m) = map_option AnyMap (those (map (\<lambda>(k, v). map_option (Pair k) (json_any v)) m))"
| "json_any (AnyOther t s) = Some (AnyString s)"

definition json_metadata :: "metadata \<Rightarrow> metadata option" where
  "json_metadata m = those (map (\<lambda>(k, v). map_option (Pair k) (json_any v)) m)"

section \<open>Tables\<close>

record RunRow =
  rr_ID :: string
  rr_SchedulePlanID :: string
  rr_Mode :: ExecutionMode
  rr_Seed :: int
  rr_Status :: ExecutionRunStatus
  rr_EnvironmentSnapshotID :: string
  rr_StartedAt :: "int option"
  rr_FinishedAt :: "int option"
  rr_MakespanSeconds :: float64
  rr_Cost :: float64
  rr_FailureReason :: string

record ExecDB =
  db_runs :: "(string, RunRow) gomap"
  db_tasks :: "(string \<times> string \<times> int, TaskExecution) gomap"
  db_handles :: "(string, ActivityHandle) gomap"
  db_transfers :: "(string, DataTransfer) gomap"
  db_events :: "Event list"
  db_queue :: queue
  db_lifecycle :: "(string \<times> string \<times> TaskExecutionStatus) list"

section \<open>The outbox\<close>

definition event_job :: "string \<Rightarrow> string \<Rightarrow> Event \<Rightarrow> Job" where
  "event_job jobID payload e =
     \<lparr>job_ID = jobID, job_Category = ''monitoring'', job_Type = ev_Type e, job_AggregateType = ev_AggregateType e,
      job_AggregateID = ev_AggregateID e, job_Payload = payload, job_Status = StatusPending, job_Priority = 0,
      job_AvailableAt = ev_OccurredAt e, job_LeaseOwner = '''', job_LeaseExpiresAt = None, job_Attempts = 0,
      job_MaxAttempts = 5, job_IdempotencyKey = ''domain-event:'' @ ev_ID e, job_LastError = '''',
      job_CreatedAt = ev_OccurredAt e, job_StartedAt = None, job_CompletedAt = None\<rparr>"

text \<open>The primary key of \<open>domain_events\<close> and the keys of \<open>queue_jobs\<close> are checked by the inserts.\<close>

definition outbox_Append ::
  "(Event \<Rightarrow> error + string) \<Rightarrow> string \<Rightarrow> string \<Rightarrow> int \<Rightarrow> Event \<Rightarrow> ExecDB \<Rightarrow> error + ExecDB"
where
  "outbox_Append encode newEventID newJobID clock event0 db =
     (if ev_Type event0 = '''' \<or> ev_AggregateType event0 = '''' \<or> ev_AggregateID event0 = '''' then
        Inl (Errorf ''domain event type and aggregate are required'' [])
      else
        (let e1 = (if ev_ID event0 = '''' then event0\<lparr>ev_ID := newEventID\<rparr> else event0);
             event = (if ev_OccurredAt e1 = 0 then e1\<lparr>ev_OccurredAt := clock\<rparr> else e1)
         in case encode event of
              Inl e \<Rightarrow> Inl (Errorf ''marshal domain event: %w'' [FmtE e])
            | Inr payload \<Rightarrow>
               (if ev_ID event \<in> ev_ID ` set (db_events db) then
                  Inl (Errorf ''append domain event: %w'' [FmtE (Errorf ''UNIQUE constraint failed: domain_events.id'' [])])
                else let job = event_job newJobID payload event in
                  if job_ID job \<in> job_ID ` set (db_queue db) \<or>
                     job_IdempotencyKey job \<in> job_IdempotencyKey ` set (db_queue db) then
                    Inl (Errorf ''enqueue domain event: %w'' [FmtE (Errorf ''UNIQUE constraint failed: queue_jobs'' [])])
                  else Inr (db\<lparr>db_events := db_events db @ [event], db_queue := db_queue db @ [job]\<rparr>))))"

text \<open>What a transaction needs besides the tables.\<close>

record TxEnv =
  tx_fault :: "error option"
  tx_encode :: "Event \<Rightarrow> error + string"
  tx_newID :: "nat \<Rightarrow> string"
  tx_clock :: int

definition append_event :: "TxEnv \<Rightarrow> nat \<Rightarrow> Event \<Rightarrow> ExecDB \<Rightarrow> error + ExecDB" where
  "append_event env n event db =
     outbox_Append (tx_encode env) (tx_newID env (2 * n)) (tx_newID env (2 * n + 1)) (tx_clock env) event db"

definition run_event :: "string \<Rightarrow> string \<Rightarrow> metadata \<Rightarrow> Event" where
  "run_event eventType runID payload =
     \<lparr>ev_ID = '''', ev_Type = eventType, ev_AggregateType = ''execution_run'', ev_AggregateID = runID,
      ev_Payload = payload, ev_OccurredAt = 0, ev_Metadata = []\<rparr>"

text \<open>\<^verbatim>\<open>BeginTx ... Commit\<close> with a deferred \<^verbatim>\<open>Rollback\<close>.\<close>

definition transaction :: "TxEnv \<Rightarrow> (ExecDB \<Rightarrow> error + ExecDB) \<Rightarrow> ExecDB \<Rightarrow> error option \<times> ExecDB" where
  "transaction env body db =
     (case tx_fault env of
        Some e \<Rightarrow> (Some e, db)
      | None \<Rightarrow> (case body db of Inl e \<Rightarrow> (Some e, db) | Inr db' \<Rightarrow> (None, db')))"

section \<open>Runs\<close>

definition runs_CreateRun :: "TxEnv \<Rightarrow> ExecutionRun \<Rightarrow> ExecDB \<Rightarrow> error option \<times> ExecDB" where
  "runs_CreateRun env run =
     transaction env (\<lambda>db.
       if (case run_Mode run of ExecutionModeOther _ \<Rightarrow> True | _ \<Rightarrow> False) then
         Inl (Errorf ''CHECK constraint failed: execution_runs'' [])
       else if map_of (db_runs db) (run_ID run) \<noteq> None then Inr db
       else append_event env 0
              (run_event ''execution.run.started'' (run_ID run)
                 [(''mode'', AnyString (mode_text (run_Mode run))), (''schedulePlanId'', AnyString (run_SchedulePlanID run))])
              (db\<lparr>db_runs := put (run_ID run)
                 \<lparr>rr_ID = run_ID run, rr_SchedulePlanID = run_SchedulePlanID run, rr_Mode = run_Mode run,
                  rr_Seed = run_Seed run, rr_Status = run_Status run,
                  rr_EnvironmentSnapshotID = run_EnvironmentSnapshotID run, rr_StartedAt = Some (tx_clock env),
                  rr_FinishedAt = None, rr_MakespanSeconds = fzero, rr_Cost = fzero, rr_FailureReason = ''''\<rparr>
                 (db_runs db)\<rparr>))"

definition runs_FailRun :: "TxEnv \<Rightarrow> string \<Rightarrow> string \<Rightarrow> ExecDB \<Rightarrow> error option \<times> ExecDB" where
  "runs_FailRun env runID reason =
     transaction env (\<lambda>db.
       case map_of (db_runs db) runID of
         None \<Rightarrow> Inl (Errorf ''execution run %q not found'' [FmtS runID])
       | Some row \<Rightarrow>
           append_event env 0 (run_event ''execution.run.failed'' runID [(''reason'', AnyString reason)])
             (db\<lparr>db_runs := put runID (row\<lparr>rr_Status := ExecutionRunFailed, rr_FinishedAt := Some (tx_clock env),
                                          rr_FailureReason := reason\<rparr>) (db_runs db)\<rparr>))"

section \<open>Tasks\<close>

definition task_key :: "TaskExecution \<Rightarrow> string \<times> string \<times> int" where
  "task_key t = (task_ExecutionRunID t, task_ActivityID t, task_Attempt t)"

definition taskStatus :: "ExecDB \<Rightarrow> TaskExecution \<Rightarrow> TaskExecutionStatus option" where
  "taskStatus db t = map_option task_Status (map_of (db_tasks db) (task_key t))"

text \<open>
  The upsert of a task: the conflict keeps the columns that the statement does not set. The
  identifier is the primary key, so a second key with the identifier of a stored row is refused.
\<close>

definition saveTask :: "TaskExecution \<Rightarrow> ExecDB \<Rightarrow> error + ExecDB" where
  "saveTask t db =
     (case map_of (db_tasks db) (task_key t) of
        Some old \<Rightarrow>
          Inr (db\<lparr>db_tasks := put (task_key t)
            (t\<lparr>task_ID := task_ID old, task_PlanAssignmentID := task_PlanAssignmentID old,
               task_PlannedResourceID := task_PlannedResourceID old, task_ReadyAt := task_ReadyAt old,
               task_DataReadyAt := task_DataReadyAt old, task_QueuedAt := task_QueuedAt old\<rparr>) (db_tasks db)\<rparr>)
      | None \<Rightarrow>
          if task_ID t \<in> task_ID ` snd ` set (db_tasks db) then
            Inl (Errorf ''UNIQUE constraint failed: task_executions.id'' [])
          else Inr (db\<lparr>db_tasks := put (task_key t) t (db_tasks db)\<rparr>))"

definition task_event_type :: "TaskExecutionStatus \<Rightarrow> string" where
  "task_event_type s = (case s of
     TaskRunning \<Rightarrow> ''activity.started'' | TaskCompleted \<Rightarrow> ''activity.completed''
   | TaskFailed \<Rightarrow> ''activity.failed'' | TaskCancelled \<Rightarrow> ''activity.failed'' | _ \<Rightarrow> '''')"

fun status_text :: "TaskExecutionStatus \<Rightarrow> string" where
  "status_text TaskBlocked = ''blocked''" | "status_text TaskReady = ''ready''"
| "status_text TaskPreparing = ''preparing''" | "status_text TaskRunning = ''running''"
| "status_text TaskCompleted = ''completed''" | "status_text TaskFailed = ''failed''"
| "status_text TaskCancelled = ''cancelled''" | "status_text (TaskStatusOther s) = s"

definition appendTaskEvent :: "TxEnv \<Rightarrow> nat \<Rightarrow> TaskExecution \<Rightarrow> ExecDB \<Rightarrow> error + ExecDB" where
  "appendTaskEvent env n t db =
     (if task_event_type (task_Status t) = '''' then Inr db
      else
        (let lifecycleID = task_ExecutionRunID t @ '':'' @ task_ActivityID t @ '':'' @ itoa (task_Attempt t) @ '':'' @
                           status_text (task_Status t);
             db1 = (if lifecycleID \<in> fst ` set (db_lifecycle db) then db
                    else db\<lparr>db_lifecycle := db_lifecycle db @ [(lifecycleID, task_ID t, task_Status t)]\<rparr>)
         in append_event env n
              \<lparr>ev_ID = '''', ev_Type = task_event_type (task_Status t), ev_AggregateType = ''activity_execution'',
               ev_AggregateID = task_ID t,
               ev_Payload = [(''executionRunId'', AnyString (task_ExecutionRunID t)), (''activityId'', AnyString (task_ActivityID t)),
                 (''status'', AnyString (status_text (task_Status t))), (''runtimeSeconds'', AnyFloat64 (task_RuntimeSeconds t)),
                 (''failureReason'', AnyString (task_FailureReason t))],
               ev_OccurredAt = tx_clock env, ev_Metadata = []\<rparr> db1))"

definition store_task :: "TxEnv \<Rightarrow> nat \<Rightarrow> bool \<Rightarrow> TaskExecution \<Rightarrow> ExecDB \<Rightarrow> error + ExecDB" where
  "store_task env n events t db =
     (case saveTask t db of
        Inl e \<Rightarrow> Inl e
      | Inr db1 \<Rightarrow> if events \<and> taskStatus db t \<noteq> Some (task_Status t) then appendTaskEvent env n t db1 else Inr db1)"

definition tasks_SaveTask :: "TxEnv \<Rightarrow> TaskExecution \<Rightarrow> ExecDB \<Rightarrow> error option \<times> ExecDB" where
  "tasks_SaveTask env t = transaction env (store_task env 0 True t)"

fun store_tasks :: "TxEnv \<Rightarrow> nat \<Rightarrow> bool \<Rightarrow> TaskExecution list \<Rightarrow> ExecDB \<Rightarrow> error + ExecDB" where
  "store_tasks env n events [] db = Inr db"
| "store_tasks env n events (t # ts) db =
     (case store_task env n events t db of Inl e \<Rightarrow> Inl e | Inr db1 \<Rightarrow> store_tasks env (n + 1) events ts db1)"

definition saveTransfer :: "string \<Rightarrow> DataTransfer \<Rightarrow> ExecDB \<Rightarrow> ExecDB" where
  "saveTransfer runID x db =
     (case map_of (db_transfers db) (dt_ID x) of
        Some old \<Rightarrow> db\<lparr>db_transfers := put (dt_ID x) (old\<lparr>dt_StartedAt := dt_StartedAt x, dt_FinishedAt := dt_FinishedAt x,
                      dt_DurationSeconds := dt_DurationSeconds x, dt_Cost := dt_Cost x\<rparr>) (db_transfers db)\<rparr>
      | None \<Rightarrow> db\<lparr>db_transfers := put (dt_ID x) (x\<lparr>dt_ExecutionRunID := runID\<rparr>) (db_transfers db)\<rparr>)"

definition runs_CompleteRun :: "TxEnv \<Rightarrow> ExecutionTrace \<Rightarrow> ExecDB \<Rightarrow> error option \<times> ExecDB" where
  "runs_CompleteRun env trace =
     transaction env (\<lambda>db.
       case store_tasks env 1 (tra_Mode trace \<noteq> ExecutionModeSimulation) (tra_Tasks trace) db of
         Inl e \<Rightarrow> Inl e
       | Inr db1 \<Rightarrow>
          (let db2 = fold (saveTransfer (tra_RunID trace)) (tra_Transfers trace) db1 in
           case map_of (db_runs db2) (tra_RunID trace) of
             None \<Rightarrow> Inl (Errorf ''execution run %q not found'' [FmtS (tra_RunID trace)])
           | Some row \<Rightarrow>
               append_event env 0
                 (run_event ''execution.run.completed'' (tra_RunID trace)
                    [(''makespanSeconds'', AnyFloat64 (met_MakespanSeconds (tra_Executed trace))),
                     (''cost'', AnyFloat64 (met_Cost (tra_Executed trace)))])
                 (db2\<lparr>db_runs := put (tra_RunID trace)
                    (row\<lparr>rr_Status := ExecutionRunCompleted, rr_FinishedAt := Some (tx_clock env),
                         rr_MakespanSeconds := met_MakespanSeconds (tra_Executed trace),
                         rr_Cost := met_Cost (tra_Executed trace), rr_FailureReason := ''''\<rparr>) (db_runs db2)\<rparr>)))"

section \<open>Handles\<close>

text \<open>The row of a handle after \<^verbatim>\<open>Save\<close>: a conflict keeps the run, the activity, the resource and the runtime.\<close>

definition stored_handle :: "ActivityHandle option \<Rightarrow> ActivityHandle \<Rightarrow> ActivityHandle" where
  "stored_handle old h = (case old of
     None \<Rightarrow> h
   | Some o' \<Rightarrow> h\<lparr>hnd_RunID := hnd_RunID o', hnd_ActivityID := hnd_ActivityID o', hnd_ResourceID := hnd_ResourceID o',
                 hnd_RuntimeID := hnd_RuntimeID o'\<rparr>)"

definition handles_Save :: "error option \<Rightarrow> ActivityHandle \<Rightarrow> ExecDB \<Rightarrow> error option \<times> ExecDB" where
  "handles_Save fault h db =
     (case json_metadata (hnd_Metadata h) of
        None \<Rightarrow> (Some (Errorf ''marshal handle metadata: %w'' [FmtE (Errorf ''json: unsupported value'' [])]), db)
      | Some metadata \<Rightarrow>
         (case fault of
            Some e \<Rightarrow> (Some e, db)
          | None \<Rightarrow>
             if (case hnd_Status h of HandleStatusOther _ \<Rightarrow> True | _ \<Rightarrow> False) then
               (Some (Errorf ''CHECK constraint failed: activity_handles'' []), db)
             else (None, db\<lparr>db_handles := put (hnd_ID h)
                    (stored_handle (map_of (db_handles db) (hnd_ID h)) (h\<lparr>hnd_Metadata := metadata\<rparr>)) (db_handles db)\<rparr>)))"

definition handles_Find :: "error option \<Rightarrow> string \<Rightarrow> ExecDB \<Rightarrow> ActivityHandle option result \<times> ExecDB" where
  "handles_Find fault ident db =
     (case fault of Some e \<Rightarrow> (Err e, db) | None \<Rightarrow> (Ok (map_of (db_handles db) ident), db))"

end
