(* ===== verification/Execution_Store_Properties.thy ===== *)
theory Execution_Store_Properties
  imports Execution_Store
begin

text \<open>
  The outbox: a change of status, its event and the job that delivers it are committed together; the
  job table stays well formed; and the handler of domain events acknowledges what the outbox
  enqueued. Handles are found as they were saved.
\<close>

section \<open>Helpers\<close>

lemma outbox_Append_Inr:
  assumes "outbox_Append encode eventID jobID clock event0 db = Inr db'"
  obtains event payload where "encode event = Inr payload" "ev_Type event = ev_Type event0"
    "ev_AggregateType event = ev_AggregateType event0" "ev_AggregateID event = ev_AggregateID event0"
    "ev_ID event = (if ev_ID event0 = '''' then eventID else ev_ID event0)" "ev_Type event0 \<noteq> ''''" "ev_AggregateID event0 \<noteq> ''''"
    "db' = db\<lparr>db_events := db_events db @ [event], db_queue := db_queue db @ [event_job jobID payload event]\<rparr>"
    "jobID \<notin> job_ID ` set (db_queue db)"
    "job_IdempotencyKey (event_job jobID payload event) \<notin> job_IdempotencyKey ` set (db_queue db)"
proof -
  let ?e1 = "if ev_ID event0 = '''' then event0\<lparr>ev_ID := eventID\<rparr> else event0"
  let ?e = "if ev_OccurredAt ?e1 = 0 then ?e1\<lparr>ev_OccurredAt := clock\<rparr> else ?e1"
  have t: "\<not> (ev_Type event0 = '''' \<or> ev_AggregateType event0 = '''' \<or> ev_AggregateID event0 = '''')"
    using assms unfolding outbox_Append_def by (auto split: if_splits)
  obtain payload where p: "encode ?e = Inr payload"
    using assms t unfolding outbox_Append_def Let_def by (cases "encode ?e") simp_all
  have "\<not> ev_ID ?e \<in> ev_ID ` set (db_events db)"
    using assms t p unfolding outbox_Append_def Let_def by (cases "ev_ID ?e \<in> ev_ID ` set (db_events db)") simp_all
  moreover have "\<not> (job_ID (event_job jobID payload ?e) \<in> job_ID ` set (db_queue db) \<or>
      job_IdempotencyKey (event_job jobID payload ?e) \<in> job_IdempotencyKey ` set (db_queue db))"
    using assms t p calculation unfolding outbox_Append_def Let_def
    by (cases "job_ID (event_job jobID payload ?e) \<in> job_ID ` set (db_queue db) \<or>
      job_IdempotencyKey (event_job jobID payload ?e) \<in> job_IdempotencyKey ` set (db_queue db)") simp_all
  ultimately show thesis
    using assms t p by (intro that [OF p]) (simp_all add: outbox_Append_def Let_def, simp_all add: event_job_def)
qed

lemma event_job_simps [simp]:
  "job_ID (event_job jobID payload e) = jobID"
  "job_Status (event_job jobID payload e) = StatusPending"
  "job_Type (event_job jobID payload e) = ev_Type e"
  "job_Payload (event_job jobID payload e) = payload"
  "job_IdempotencyKey (event_job jobID payload e) = ''domain-event:'' @ ev_ID e"
  by (simp_all add: event_job_def)

lemma event_job_ok: "row_ok (event_job jobID payload e)"
  by (simp add: row_ok_def terminal_def event_job_def)

lemma outbox_queue_inv:
  assumes "outbox_Append encode eventID jobID clock event0 db = Inr db'" and "queue_inv (db_queue db)"
  shows "queue_inv (db_queue db')"
proof -
  from assms(1) obtain event payload where
    "db' = db\<lparr>db_events := db_events db @ [event], db_queue := db_queue db @ [event_job jobID payload event]\<rparr>"
    "jobID \<notin> job_ID ` set (db_queue db)"
    "job_IdempotencyKey (event_job jobID payload event) \<notin> job_IdempotencyKey ` set (db_queue db)"
    by (rule outbox_Append_Inr) blast
  moreover have "fresh_row (db_queue db) (event_job jobID payload event)"
    using calculation(2,3) event_job_ok by (simp add: fresh_row_def)
  ultimately show ?thesis using fresh_row_inv assms(2) by simp
qed

lemma transaction_cases:
  assumes "transaction env body db = (r, db')"
  obtains (committed) "r = None" "tx_fault env = None" "body db = Inr db'" | (rolled_back) e where "r = Some e" "db' = db"
proof (cases r)
  case None
  then show thesis using assms committed by (auto simp: transaction_def split: option.splits sum.splits)
next
  case (Some e)
  then show thesis using assms rolled_back by (auto simp: transaction_def split: option.splits sum.splits)
qed

lemma transaction_queue_inv:
  assumes "\<And>db'. body db = Inr db' \<Longrightarrow> queue_inv (db_queue db')" and "queue_inv (db_queue db)"
  shows "queue_inv (db_queue (snd (transaction env body db)))"
  using assms by (auto simp: transaction_def split: option.split sum.split)

lemma append_event_queue_inv:
  "append_event env n event db = Inr db' \<Longrightarrow> queue_inv (db_queue db) \<Longrightarrow> queue_inv (db_queue db')"
  unfolding append_event_def by (rule outbox_queue_inv)

lemma saveTask_frame: "saveTask t db = Inr db' \<Longrightarrow> db_queue db' = db_queue db \<and> db_events db' = db_events db"
  by (auto simp: saveTask_def split: option.splits if_splits)

lemma appendTaskEvent_queue_inv:
  "appendTaskEvent env n t db = Inr db' \<Longrightarrow> queue_inv (db_queue db) \<Longrightarrow> queue_inv (db_queue db')"
  unfolding appendTaskEvent_def Let_def
  by (auto split: if_splits dest: append_event_queue_inv)

lemma store_task_queue_inv:
  assumes "store_task env n events t db = Inr db'" and "queue_inv (db_queue db)"
  shows "queue_inv (db_queue db')"
proof (cases "saveTask t db")
  case (Inl e)
  then show ?thesis using assms(1) by (simp add: store_task_def)
next
  case (Inr db1)
  then show ?thesis
    using assms saveTask_frame [OF Inr] appendTaskEvent_queue_inv [of env n t db1 db']
    by (auto simp: store_task_def split: if_splits)
qed

lemma store_tasks_queue_inv:
  "store_tasks env n events ts db = Inr db' \<Longrightarrow> queue_inv (db_queue db) \<Longrightarrow> queue_inv (db_queue db')"
proof (induction ts arbitrary: n db)
  case (Cons t ts)
  then show ?case using store_task_queue_inv by (auto split: sum.splits)
qed simp

lemma saveTransfer_frame: "db_queue (fold (saveTransfer runID) xs db) = db_queue db"
  by (induction xs arbitrary: db) (auto simp: saveTransfer_def split: option.split)

lemma json_metadata_keys: "json_metadata m = Some m' \<Longrightarrow> map fst m' = map fst m"
  unfolding json_metadata_def
proof (induction m arbitrary: m')
  case (Cons p m)
  then show ?case by (cases p) (auto split: option.splits)
qed simp

section \<open>Properties\<close>

text \<open>
  C14. The outbox is atomic: \<^verbatim>\<open>SaveTask\<close> either fails and leaves the database as it was, or stores the
  task and, exactly when its status changed to running, completed, failed or cancelled, appends one
  event about the task and one pending job that carries the event, and otherwise neither.
\<close>

theorem save_task_outbox:
  assumes "tasks_SaveTask env t db = (r, db')"
  shows "(\<exists>e. r = Some e \<and> db' = db) \<or>
    (r = None \<and> taskStatus db' t = Some (task_Status t) \<and>
     (if taskStatus db t \<noteq> Some (task_Status t) \<and> task_event_type (task_Status t) \<noteq> ''''
      then \<exists>event job. db_events db' = db_events db @ [event] \<and> db_queue db' = db_queue db @ [job] \<and>
             ev_Type event = task_event_type (task_Status t) \<and> ev_AggregateID event = task_ID t \<and>
             job_Status job = StatusPending \<and> job_Type job = ev_Type event \<and> tx_encode env event = Inr (job_Payload job)
      else db_events db' = db_events db \<and> db_queue db' = db_queue db))"
  using assms unfolding tasks_SaveTask_def
proof (cases rule: transaction_cases)
  case committed
  obtain db1 where s: "saveTask t db = Inr db1" using committed(3) by (cases "saveTask t db") (auto simp: store_task_def)
  have t1: "map_of (db_tasks db1) (task_key t) = Some t' \<Longrightarrow> task_Status t' = task_Status t" for t'
    using s by (auto simp: saveTask_def split: option.splits if_splits)
  have in1: "map_of (db_tasks db1) (task_key t) \<noteq> None" using s by (auto simp: saveTask_def split: option.splits if_splits)
  have f1: "db_queue db1 = db_queue db" "db_events db1 = db_events db" using saveTask_frame [OF s] by auto
  show ?thesis
  proof (cases "taskStatus db t \<noteq> Some (task_Status t) \<and> task_event_type (task_Status t) \<noteq> ''''")
    case False
    then have "db' = db1" using committed(3) s by (auto simp: store_task_def appendTaskEvent_def split: if_splits)
    then show ?thesis using False committed(1) t1 in1 f1 by (auto simp: taskStatus_def)
  next
    case True
    then have a: "appendTaskEvent env 0 t db1 = Inr db'" using committed(3) s by (simp add: store_task_def)
    obtain event0 db2 where o: "outbox_Append (tx_encode env) (tx_newID env 0) (tx_newID env 1) (tx_clock env) event0 db2 = Inr db'"
      "ev_Type event0 = task_event_type (task_Status t)" "ev_AggregateID event0 = task_ID t"
      "db_queue db2 = db_queue db1" "db_events db2 = db_events db1" "db_tasks db2 = db_tasks db1"
      using a True unfolding appendTaskEvent_def append_event_def Let_def by (auto split: if_splits)
    from o(1) obtain event payload where ev: "tx_encode env event = Inr payload" "ev_Type event = ev_Type event0"
      "ev_AggregateID event = ev_AggregateID event0"
      "db' = db2\<lparr>db_events := db_events db2 @ [event], db_queue := db_queue db2 @ [event_job (tx_newID env 1) payload event]\<rparr>"
      by (rule outbox_Append_Inr) blast
    then have "\<exists>event job. db_events db' = db_events db @ [event] \<and> db_queue db' = db_queue db @ [job] \<and>
        ev_Type event = task_event_type (task_Status t) \<and> ev_AggregateID event = task_ID t \<and>
        job_Status job = StatusPending \<and> job_Type job = ev_Type event \<and> tx_encode env event = Inr (job_Payload job)"
      using o f1 by (intro exI [of _ event] exI [of _ "event_job (tx_newID env 1) payload event"]) simp
    moreover have "taskStatus db' t = Some (task_Status t)" using ev(4) o(6) t1 in1 by (auto simp: taskStatus_def)
    ultimately show ?thesis using True committed(1) by simp
  qed
qed auto

definition sample_env :: TxEnv where
  "sample_env = \<lparr>tx_fault = None, tx_encode = (\<lambda>e. Inr (ev_ID e)), tx_newID = (\<lambda>n. ''id'' @ itoa (int n)), tx_clock = 100\<rparr>"

definition empty_db :: ExecDB where
  "empty_db = \<lparr>db_runs = [], db_tasks = [], db_handles = [], db_transfers = [], db_events = [], db_queue = [], db_lifecycle = []\<rparr>"

definition sample_task :: TaskExecution where
  "sample_task = zero_task\<lparr>task_ID := ''r:a'', task_ExecutionRunID := ''r'', task_ActivityID := ''a'', task_Attempt := 1,
     task_Status := TaskRunning\<rparr>"

theorem save_task_outbox_witness:
  "\<exists>db'. tasks_SaveTask sample_env sample_task empty_db = (None, db') \<and> length (db_queue db') = 1"
proof -
  obtain r db' where s: "tasks_SaveTask sample_env sample_task empty_db = (r, db')" by fastforce
  have "fst (tasks_SaveTask sample_env sample_task empty_db) = None" "taskStatus empty_db sample_task \<noteq> Some (task_Status sample_task)"
    "task_event_type (task_Status sample_task) \<noteq> ''''" "db_queue empty_db = []" by code_simp+
  then show ?thesis using save_task_outbox [OF s] s by auto
qed

text \<open>
  Every write of the execution repository keeps the job table well formed, whether it commits
  or is rolled back.
\<close>

theorem execution_store_queue_inv:
  assumes "queue_inv (db_queue db)"
  shows "queue_inv (db_queue (snd (runs_CreateRun env run db))) \<and>
    queue_inv (db_queue (snd (tasks_SaveTask env t db))) \<and>
    queue_inv (db_queue (snd (runs_CompleteRun env trace db))) \<and>
    queue_inv (db_queue (snd (runs_FailRun env runID reason db))) \<and>
    queue_inv (db_queue (snd (handles_Save fault h db)))"
proof (intro conjI)
  show "queue_inv (db_queue (snd (runs_CreateRun env run db)))"
    unfolding runs_CreateRun_def using assms
    by (intro transaction_queue_inv) (auto split: if_splits dest: append_event_queue_inv)
  show "queue_inv (db_queue (snd (tasks_SaveTask env t db)))"
    unfolding tasks_SaveTask_def using assms by (intro transaction_queue_inv) (auto dest: store_task_queue_inv)
  show "queue_inv (db_queue (snd (runs_CompleteRun env trace db)))"
    unfolding runs_CompleteRun_def Let_def using assms
    by (intro transaction_queue_inv)
      (auto split: sum.splits option.splits simp: saveTransfer_frame dest!: append_event_queue_inv dest: store_tasks_queue_inv)
  show "queue_inv (db_queue (snd (runs_FailRun env runID reason db)))"
    unfolding runs_FailRun_def using assms
    by (intro transaction_queue_inv) (auto split: option.splits dest: append_event_queue_inv)
  show "queue_inv (db_queue (snd (handles_Save fault h db)))"
    using assms by (simp add: handles_Save_def split: option.split)
qed

theorem execution_store_queue_inv_witness:
  "queue_inv (db_queue (snd (tasks_SaveTask sample_env sample_task empty_db)))"
proof -
  have "queue_inv (db_queue empty_db)" by code_simp
  then show ?thesis using execution_store_queue_inv by blast
qed

text \<open>
  What the outbox enqueues, the event loop delivers: when decoding inverts encoding, the handler
  of domain events acknowledges the job of every event the outbox appended.
\<close>

theorem outbox_acknowledged:
  assumes "outbox_Append encode eventID jobID clock event0 db = Inr db'" and "eventID \<noteq> ''''"
    and "\<And>event payload. encode event = Inr payload \<Longrightarrow> decode payload = Inr event"
  shows "\<exists>job. db_queue db' = db_queue db @ [job] \<and> domainEvent_Handle decode cancelled job w = (None, w)"
proof -
  from assms(1) obtain event payload where "encode event = Inr payload" "ev_Type event = ev_Type event0"
    "ev_AggregateID event = ev_AggregateID event0" "ev_ID event = (if ev_ID event0 = '''' then eventID else ev_ID event0)"
    "ev_AggregateID event0 \<noteq> ''''"
    "db' = db\<lparr>db_events := db_events db @ [event], db_queue := db_queue db @ [event_job jobID payload event]\<rparr>"
    by (rule outbox_Append_Inr) blast
  then show ?thesis
    using assms(2,3) by (intro exI [of _ "event_job jobID payload event"]) (simp add: domainEvent_Handle_def)
qed

text \<open>A JSON codec for the witness: events of one run, encoded by their identifier.\<close>

definition demo_event :: "string \<Rightarrow> Event" where
  "demo_event ident = \<lparr>ev_ID = ident, ev_Type = ''execution.run.started'', ev_AggregateType = ''execution_run'',
     ev_AggregateID = ''r'', ev_Payload = [], ev_OccurredAt = 5, ev_Metadata = []\<rparr>"

definition demo_encode :: "Event \<Rightarrow> error + string" where
  "demo_encode e = (if e = demo_event (ev_ID e) then Inr (ev_ID e) else Inl (Errorf ''unsupported'' []))"

theorem outbox_acknowledged_witness:
  "\<exists>db' job. outbox_Append demo_encode ''e1'' ''j1'' 9 (demo_event '''') empty_db = Inr db' \<and>
     db_queue db' = db_queue empty_db @ [job] \<and> domainEvent_Handle (\<lambda>p. Inr (demo_event p)) False job () = (None, ())"
proof -
  have "\<not> isl (outbox_Append demo_encode ''e1'' ''j1'' 9 (demo_event '''') empty_db)" by code_simp
  then obtain db' where d: "outbox_Append demo_encode ''e1'' ''j1'' 9 (demo_event '''') empty_db = Inr db'"
    by (cases "outbox_Append demo_encode ''e1'' ''j1'' 9 (demo_event '''') empty_db") auto
  have "demo_encode event = Inr payload \<Longrightarrow> Inr (demo_event payload) = (Inr event :: error + Event)" for event payload
    by (auto simp: demo_encode_def split: if_splits)
  then show ?thesis using outbox_acknowledged [OF d, of "\<lambda>p. Inr (demo_event p)" False "()"] d by auto
qed

text \<open>
  A saved handle is found again: \<^verbatim>\<open>Find\<close> returns the last saved values, with the metadata as JSON
  keeps it and the run, activity, resource and runtime of the first save; the other handles are
  untouched. A failed save changes nothing.
\<close>

theorem handle_roundtrip:
  "case handles_Save fault h db of
     (None, db') \<Rightarrow>
       \<exists>metadata. json_metadata (hnd_Metadata h) = Some metadata \<and>
         (\<lambda>i. fst (handles_Find None i db')) =
           (\<lambda>i. fst (handles_Find None i db))(hnd_ID h :=
              Ok (Some (stored_handle (map_of (db_handles db) (hnd_ID h)) (h\<lparr>hnd_Metadata := metadata\<rparr>))))
   | (Some e, db') \<Rightarrow> db' = db"
  by (auto simp: handles_Save_def handles_Find_def fun_eq_iff split: option.split)

end
