(* ===== verification/Activity_Service.thy ===== *)
theory Activity_Service
  imports Activity_Controller Execution_Store_Properties
begin

text \<open>
  The controller over its handle store, and the supervisor over the controller.

  \<open>handle_store\<close> is what the controller relies on: handles are found under their identifier once
  saved, and runtimes do not touch them. Its lemmas show that a started activity has a stored handle,
  that starting again returns it, and that an inspection of a stored handle never yields nil.
  \<open>activity_service\<close> is what the supervisor relies on in turn; its lemmas show that a run never
  panics. Both are interpreted on the SQLite repository with arbitrary runtimes, preparation and
  database failures.
\<close>

section \<open>The store of handles\<close>

definition handle_id :: "ActivityExecutionContext \<Rightarrow> string" where
  "handle_id c = run_ID (ctx_Run c) @ '':'' @ act_ID (ctx_Activity c)"

definition ids_agree :: "('w \<Rightarrow> string \<Rightarrow> ActivityHandle option) \<Rightarrow> 'w \<Rightarrow> bool" where
  "ids_agree handles w \<longleftrightarrow> (\<forall>i h. handles w i = Some h \<longrightarrow> hnd_ID h = i)"

lemma handle_id_with_executable [simp]: "handle_id (with_executable c m) = handle_id c"
  by (simp add: handle_id_def with_executable_def)

lemma check_gate_Ok: "check_gate c = Ok c' \<Longrightarrow> handle_id c' = handle_id c \<and> ctx_Run c' = ctx_Run c \<and>
    act_ID (ctx_Activity c') = act_ID (ctx_Activity c) \<and> (\<forall>g. ctx_Preparation c = Some g \<longrightarrow> gate_Ready g = None)"
  by (auto simp: check_gate_def with_executable_def handle_id_def split: option.splits)

lemma started_log_simps [simp]:
  "hnd_ID (started_log h) = hnd_ID h" "hnd_Status (started_log h) = hnd_Status h"
  by (simp_all add: started_log_def Let_def)

lemma check_gate_no_panic: "\<not> is_panic (check_gate c)"
  by (auto simp: check_gate_def split: option.split)

lemma capabilityFor_no_panic: "\<not> is_panic (capabilityFor m)"
  by (auto simp: capabilityFor_def split: ExecutionMode.split)

locale handle_store =
  fixes ctl :: "'w Controller" and handles :: "'w \<Rightarrow> string \<Rightarrow> ActivityHandle option"
  assumes find_handle: "ctl_Find ctl i w = (Ok (handles w i), w) \<or> (\<exists>e. ctl_Find ctl i w = (Err e, w))"
    and save_done: "ctl_Save ctl h w = (None, w') \<Longrightarrow>
      \<exists>s. handles w' = (handles w)(hnd_ID h \<mapsto> s) \<and> hnd_ID s = hnd_ID h"
    and save_failed: "ctl_Save ctl h w = (Some e, w') \<Longrightarrow> handles w' = handles w"
    and resolve_no_panic: "\<not> is_panic (ctl_Resolve ctl m r)"
    and start_frame: "ctl_Resolve ctl m r = Ok rt \<Longrightarrow>
      handles (snd (ra_Start rt c w)) = handles w \<and> \<not> is_panic (fst (ra_Start rt c w))"
    and inspect_frame: "ctl_Resolve ctl m r = Ok rt \<Longrightarrow>
      handles (snd (ra_Inspect rt h w)) = handles w \<and> \<not> is_panic (fst (ra_Inspect rt h w))"
    and stop_frame: "ctl_Resolve ctl m r = Ok rt \<Longrightarrow> handles (snd (ra_Stop rt h w)) = handles w"
    and catalog_frame: "ctl_data ctl = Some catalog \<Longrightarrow> handles (snd (catalog h w)) = handles w"
begin

text \<open>One step of the store: the handles stay, or one is set under its identifier.\<close>

lemma save_grows:
  assumes "ctl_Save ctl h w = (r, w')" and "ids_agree handles w"
  shows "ids_agree handles w' \<and> dom (handles w) \<subseteq> dom (handles w') \<and> (r = None \<longrightarrow> hnd_ID h \<in> dom (handles w'))"
proof (cases r)
  case None
  then show ?thesis using save_done [of h w w'] assms by (auto simp: ids_agree_def split: if_splits)
next
  case (Some e)
  then show ?thesis using save_failed [of h w e w'] assms by (auto simp: ids_agree_def)
qed

lemma launch_grows:
  assumes "launch ctl c w = (r, w')" and "ids_agree handles w"
  shows "ids_agree handles w' \<and> dom (handles w) \<subseteq> dom (handles w') \<and> \<not> is_panic r \<and>
    (\<forall>h. r = Ok h \<longrightarrow> hnd_ID h = handle_id c \<and> hnd_ID h \<in> dom (handles w'))"
proof (cases "ctx_RuntimeID c = ''''")
  case True
  then show ?thesis using assms by (auto simp: launch_def Let_def)
next
  case False
  show ?thesis
  proof (cases "ctl_Resolve ctl (run_Mode (ctx_Run c)) (ctx_RuntimeID c)")
    case (Ok rt)
    obtain q w1 where q: "ra_Start rt c w = (q, w1)" by fastforce
    have f: "handles w1 = handles w" "\<not> is_panic q" using start_frame [OF Ok, of c w] q by auto
    show ?thesis
    proof (cases "\<exists>h. q = Ok h \<and> hnd_ActivityID h = act_ID (ctx_Activity c) \<and> hnd_RunID h = run_ID (ctx_Run c)")
      case True
      then obtain h where h: "q = Ok h" "hnd_ActivityID h = act_ID (ctx_Activity c)" "hnd_RunID h = run_ID (ctx_Run c)" by blast
      let ?h = "started_log (h\<lparr>hnd_ID := handle_id c\<rparr>)"
      obtain e w2 where s: "ctl_Save ctl ?h w1 = (e, w2)" by fastforce
      have i1: "ids_agree handles w1" using assms(2) f(1) by (simp add: ids_agree_def)
      note g = save_grows [OF s i1]
      have stop: "handles (snd (ra_Stop rt ?h w2)) = handles w2" using stop_frame [OF Ok] by blast
      show ?thesis
        using assms(1) False Ok q h s g f stop
        by (cases e) (auto simp: launch_def Let_def handle_id_def ids_agree_def)
    next
      case False
      then have "w' = w1 \<and> \<not> is_panic r \<and> (\<forall>h. r \<noteq> Ok h)"
        using assms(1) \<open>ctx_RuntimeID c \<noteq> ''''\<close> Ok q f(2) by (cases q) (auto simp: launch_def Let_def split: if_splits)
      then show ?thesis using assms(2) f(1) by (auto simp: ids_agree_def)
    qed
  next
    case (Err e)
    then show ?thesis using assms False by (auto simp: launch_def Let_def)
  next
    case (Panic p)
    then show ?thesis using resolve_no_panic [of "run_Mode (ctx_Run c)" "ctx_RuntimeID c"] by simp
  qed
qed

lemma start_grows:
  assumes "controller_Start ctl c w = (r, w')" and "ids_agree handles w"
  shows "ids_agree handles w' \<and> dom (handles w) \<subseteq> dom (handles w') \<and> \<not> is_panic r \<and>
    (\<forall>h. r = Ok h \<longrightarrow> hnd_ID h = handle_id c \<and> hnd_ID h \<in> dom (handles w'))"
proof -
  have fail: ?thesis if "w' = w" "\<exists>e. r = Err e" using that assms(2) by auto
  show ?thesis
  proof (cases "activity_Validate (ctx_Activity c)")
    case (Some e)
    then show ?thesis using fail assms(1) by (auto simp: controller_Start_def)
  next
    case None
    show ?thesis
    proof (cases "check_gate c")
      case (Ok c')
      note id = check_gate_Ok [OF Ok]
      show ?thesis
      proof (cases "\<exists>cap. capabilityFor (run_Mode (ctx_Run c')) = Ok cap \<and> activity_Supports (ctx_Activity c') cap")
        case True
        then obtain cap where cap: "capabilityFor (run_Mode (ctx_Run c')) = Ok cap" "activity_Supports (ctx_Activity c') cap" by blast
        let ?i = "run_ID (ctx_Run c') @ '':'' @ act_ID (ctx_Activity c')"
        have i: "?i = handle_id c" using id by (simp add: handle_id_def)
        from find_handle [of ?i w] show ?thesis
        proof
          assume f: "ctl_Find ctl ?i w = (Ok (handles w ?i), w)"
          show ?thesis
          proof (cases "handles w ?i")
            case (Some h)
            then have "r = Ok h \<and> w' = w" using assms(1) None Ok cap f by (simp add: controller_Start_def)
            then show ?thesis using Some assms(2) i by (auto simp: ids_agree_def)
          next
            assume n: "handles w ?i = None"
            then have l: "launch ctl c' w = (r, w')" using assms(1) None Ok cap f by (simp add: controller_Start_def)
            have "handle_id c' = handle_id c" using id by blast
            then show ?thesis using launch_grows [OF l assms(2)] by metis
          qed
        next
          assume "\<exists>e. ctl_Find ctl ?i w = (Err e, w)"
          then show ?thesis using fail assms(1) None Ok cap by (auto simp: controller_Start_def)
        qed
      next
        case False
        then show ?thesis
          using fail assms(1) None Ok capabilityFor_no_panic [of "run_Mode (ctx_Run c')"]
          by (cases "capabilityFor (run_Mode (ctx_Run c'))") (auto simp: controller_Start_def split: if_splits)
      qed
    next
      case (Err e)
      then show ?thesis using fail assms(1) None by (auto simp: controller_Start_def)
    next
      case (Panic p)
      then show ?thesis using check_gate_no_panic [of c] by simp
    qed
  qed
qed

lemma failure_grows:
  assumes "persistInspectionFailure ctl h e w = (r, w')" and "ids_agree handles w"
  shows "ids_agree handles w' \<and> dom (handles w) \<subseteq> dom (handles w') \<and> \<not> is_panic r \<and> r \<noteq> Ok None"
proof -
  let ?h = "h\<lparr>hnd_Status := HandleFailed, hnd_FinishedAt := ctl_now ctl w, hnd_Failure := ''inspect activity: '' @ error_text e,
      hnd_Log := appendLog (hnd_Log h) ''error'' (''inspect activity: '' @ error_text e)\<rparr>"
  obtain x w1 where s: "ctl_Save ctl ?h w = (x, w1)" by fastforce
  then show ?thesis
    using assms save_grows [OF s assms(2)] by (cases x) (auto simp: persistInspectionFailure_def Let_def)
qed

lemma inspect_grows:
  assumes "controller_Inspect ctl i m w = (r, w')" and "ids_agree handles w"
  shows "ids_agree handles w' \<and> dom (handles w) \<subseteq> dom (handles w') \<and> \<not> is_panic r \<and>
    (i \<in> dom (handles w) \<longrightarrow> r \<noteq> Ok None)"
  using find_handle [of i w]
proof
  assume f: "ctl_Find ctl i w = (Ok (handles w i), w)"
  show ?thesis
  proof (cases "handles w i")
    case None
    then show ?thesis using assms f by (auto simp: controller_Inspect_def)
  next
    case (Some h)
    show ?thesis
    proof (cases "ctl_Resolve ctl m (hnd_RuntimeID h)")
      case (Ok rt)
      obtain q w1 where q: "ra_Inspect rt h w = (q, w1)" by fastforce
      have fr: "handles w1 = handles w" "\<not> is_panic q" using inspect_frame [OF Ok, of h w] q by auto
      have i1: "ids_agree handles w1" using assms(2) fr(1) by (simp add: ids_agree_def)
      show ?thesis
      proof (cases q)
        case (Ok u)
        let ?u = "observed_log h u"
        obtain v w2 where c: "catalog_artifacts ctl ?u w1 = (v, w2)" by fastforce
        have "handles (snd (catalog_artifacts ctl ?u w1)) = handles w1"
          using catalog_frame by (auto simp: catalog_artifacts_def split: option.split prod.split dest: arg_cong [where f = snd])
            (metis snd_conv)+
        then have h2: "handles w2 = handles w1" using c by simp
        then have i2: "ids_agree handles w2" using i1 by (simp add: ids_agree_def)
        obtain x w3 where s: "ctl_Save ctl v w2 = (x, w3)" by fastforce
        show ?thesis
          using assms(1) f Some \<open>ctl_Resolve ctl m (hnd_RuntimeID h) = Ok rt\<close> q Ok c s save_grows [OF s i2] fr h2
          by (cases x) (auto simp: controller_Inspect_def Let_def)
      next
        case (Err e)
        then show ?thesis
          using assms(1) f Some \<open>ctl_Resolve ctl m (hnd_RuntimeID h) = Ok rt\<close> q failure_grows [OF _ i1] fr(1)
          by (auto simp: controller_Inspect_def)
      next
        case (Panic p)
        then show ?thesis using fr(2) by simp
      qed
    next
      case (Err e)
      then show ?thesis using assms f Some failure_grows [OF _ assms(2)] by (auto simp: controller_Inspect_def)
    next
      case (Panic p)
      then show ?thesis using resolve_no_panic [of m "hnd_RuntimeID h"] by simp
    qed
  qed
next
  assume "\<exists>e. ctl_Find ctl i w = (Err e, w)"
  then show ?thesis using assms by (auto simp: controller_Inspect_def)
qed

text \<open>Starting an activity whose handle is stored returns the handle and touches nothing.\<close>

lemma start_existing:
  assumes "activity_Validate (ctx_Activity c) = None" and "check_gate c = Ok c'"
    and "capabilityFor (run_Mode (ctx_Run c)) = Ok cap" and "activity_Supports (ctx_Activity c') cap"
    and "handles w (handle_id c) = Some h"
  shows "controller_Start ctl c w = (Ok h, w) \<or> (\<exists>e. controller_Start ctl c w = (Err e, w))"
  using check_gate_Ok [OF assms(2)] assms(1-5) find_handle [of "handle_id c" w]
  by (auto simp: controller_Start_def handle_id_def)

end

section \<open>What the supervisor relies on\<close>

text \<open>Every running activity has a stored handle.\<close>

definition handles_known :: "('w \<Rightarrow> string set) \<Rightarrow> ('w \<Rightarrow> bool) \<Rightarrow> ExecState \<Rightarrow> 'w \<Rightarrow> bool" where
  "handles_known stored sane st w \<longleftrightarrow>
     sane w \<and> (\<forall>k h. map_of (es_running st) k = Some h \<longrightarrow> hnd_ID h \<in> stored w)"

locale activity_service =
  fixes sv :: "'w Supervisor" and stored :: "'w \<Rightarrow> string set" and sane :: "'w \<Rightarrow> bool"
  assumes service_start: "sane w \<Longrightarrow> ac_Start (sup_activities sv) c w = (r, w') \<Longrightarrow>
      sane w' \<and> stored w \<subseteq> stored w' \<and> \<not> is_panic r \<and> (\<forall>h. r = Ok h \<longrightarrow> hnd_ID h \<in> stored w')"
    and service_inspect: "sane w \<Longrightarrow> ac_Inspect (sup_activities sv) i m w = (p, w') \<Longrightarrow>
      sane w' \<and> stored w \<subseteq> stored w' \<and> \<not> is_panic p \<and> (i \<in> stored w \<longrightarrow> p \<noteq> Ok None)"
    and service_task: "sane w \<Longrightarrow> xs_SaveTask (sup_executions sv) t w = (e, w') \<Longrightarrow> sane w' \<and> stored w \<subseteq> stored w'"
    and service_save: "sane w \<Longrightarrow> xs_Save (sup_executions sv) h w = (e, w') \<Longrightarrow> sane w' \<and> stored w \<subseteq> stored w'"
    and service_now: "sane w \<Longrightarrow> sup_unixNow sv w = (n, w') \<Longrightarrow> sane w' \<and> stored w \<subseteq> stored w'"
    and service_wait: "sane w \<Longrightarrow> sup_wait sv w = (e, w') \<Longrightarrow> sane w' \<and> stored w \<subseteq> stored w'"
    and service_prepare: "sane w \<Longrightarrow> sc_Preparer (sup_config sv) = Some prepare \<Longrightarrow> prepare k q w = (g, w') \<Longrightarrow>
      sane w' \<and> stored w \<subseteq> stored w' \<and> \<not> is_panic g \<and> g \<noteq> Ok None"
begin

lemma failure_sane:
  assumes "recordStartFailure sv runID k asg resource runtimeID err w = (r, w')" and "sane w"
  shows "sane w' \<and> stored w \<subseteq> stored w'"
proof -
  obtain n w1 where n: "sup_unixNow sv w = (n, w1)" by fastforce
  let ?m = "''start activity: '' @ error_text err"
  let ?h = "zero_handle\<lparr>hnd_ID := runID @ '':'' @ k, hnd_RunID := runID, hnd_ActivityID := k,
      hnd_ResourceID := res_ID resource, hnd_RuntimeID := runtimeID, hnd_Status := HandleFailed,
      hnd_StartedAt := n, hnd_FinishedAt := n, hnd_Failure := ?m, hnd_Log := ''[AKOFLOW ERROR] '' @ ?m @ [newline]\<rparr>"
  obtain e w2 where s: "xs_Save (sup_executions sv) ?h w1 = (e, w2)" by fastforce
  obtain d w3 where d: "sup_unixNow sv w2 = (d, w3)" by fastforce
  let ?t = "(newRunningTask d runID k asg resource ?h n None)\<lparr>task_Status := TaskFailed, task_FinishedAt := n, task_FailureReason := ?m\<rparr>"
  obtain x w4 where t: "xs_SaveTask (sup_executions sv) ?t w3 = (x, w4)" by fastforce
  have 1: "sane w1 \<and> stored w \<subseteq> stored w1" using service_now [OF assms(2) n] .
  then have 2: "sane w2 \<and> stored w1 \<subseteq> stored w2" using service_save [OF _ s] by blast
  then have 3: "sane w3 \<and> stored w2 \<subseteq> stored w3" using service_now [OF _ d] by blast
  then have 4: "sane w4 \<and> stored w3 \<subseteq> stored w4" using service_task [OF _ t] by blast
  have "w' = w2 \<or> w' = w4" using assms(1) n s d t by (cases e) (simp_all add: recordStartFailure_def Let_def)
  then show ?thesis using 1 2 3 4 by blast
qed

lemma handles_known_mono:
  "handles_known stored sane st w \<Longrightarrow> sane w' \<Longrightarrow> stored w \<subseteq> stored w' \<Longrightarrow> handles_known stored sane st w'"
  by (auto simp: handles_known_def)

lemma inspect_safe:
  "inspect_loop sv m ks st w = (r, w') \<Longrightarrow> handles_known stored sane st w \<Longrightarrow>
     \<not> is_panic r \<and> (\<forall>st'. r = Ok st' \<longrightarrow> handles_known stored sane st' w')"
proof (induction ks arbitrary: st w)
  case Nil
  then show ?case by auto
next
  case (Cons k ks)
  show ?case
  proof (cases "map_of (es_running st) k")
    case None
    then have "inspect_loop sv m ks st w = (r, w')" using Cons.prems(1) by simp
    then show ?thesis using Cons.prems(2) by (rule Cons.IH)
  next
    case (Some handle)
    obtain q w1 where q: "ac_Inspect (sup_activities sv) (hnd_ID handle) m w = (q, w1)" by fastforce
    have s1: "sane w1" "stored w \<subseteq> stored w1" "\<not> is_panic q" "q \<noteq> Ok None"
      using service_inspect [OF _ q] Cons.prems(2) Some by (auto simp: handles_known_def)
    show ?thesis
    proof (cases "\<exists>h. q = Ok (Some h)")
      case False
      then show ?thesis using Cons.prems(1) Some q s1(3,4) by (cases q) (auto split: option.splits)
    next
      case True
      then obtain h where h: "q = Ok (Some h)" by blast
      let ?t = "completeTask (task_of st k) h"
      obtain e w2 where s: "xs_SaveTask (sup_executions sv) ?t w1 = (e, w2)" by fastforce
      have s2: "sane w2" "stored w1 \<subseteq> stored w2" using service_task [OF s1(1) s] by auto
      have "handles_known stored sane (finish_state k ?t st) w2"
        using Cons.prems(2) s1 s2 by (auto simp: handles_known_def finish_state_def)
      moreover have "handles_known stored sane st w1" using Cons.prems(2) s1(1,2) by (rule handles_known_mono)
      ultimately show ?thesis
        using Cons.prems(1) Cons.IH Some q h s
        by (cases e) (auto simp: Let_def finish_state_def split: if_splits prod.splits)
    qed
  qed
qed

lemma prepare_safe:
  assumes "prepare_start sv request k activity asg resource w = (r, w')" and "sane w"
  shows "sane w' \<and> stored w \<subseteq> stored w' \<and> \<not> is_panic r"
proof (cases "map_of (er_PreparationRequirementsByActivity request) k")
  case None
  let ?e = "Errorf ''activity %q has an executable reference but no preparation requirement'' [FmtS k]"
  obtain x w1 where f: "recordStartFailure sv (run_ID (er_Run request)) k asg resource (selectRuntime request asg) ?e w = (x, w1)"
    by fastforce
  have "sane w1 \<and> stored w \<subseteq> stored w1" using failure_sane [OF f assms(2)] .
  moreover have "r = Err ?e \<and> w' = w1 \<or> r = Ok (None, []) \<and> w' = w"
    using assms(1) None f unfolding prepare_start_def Let_def by (simp split: if_splits)
  ultimately show ?thesis using assms(2) by auto
next
  case (Some requirement)
  obtain q w1 where q: "prepareActivity sv (run_ID (er_Run request)) k requirement w = (q, w1)" by fastforce
  have 1: "sane w1 \<and> stored w \<subseteq> stored w1 \<and> \<not> is_panic q \<and> q \<noteq> Ok None"
    using q assms(2) service_prepare by (auto simp: prepareActivity_def split: option.splits)
  show ?thesis
  proof (cases q)
    case (Err e)
    let ?e = "Errorf ''prepare activity %q: %w'' [FmtS k, FmtE e]"
    obtain x w2 where f: "recordStartFailure sv (run_ID (er_Run request)) k asg resource (selectRuntime request asg) ?e w1 = (x, w2)"
      by fastforce
    then have "sane w2 \<and> stored w1 \<subseteq> stored w2" using failure_sane 1 by blast
    then show ?thesis using assms(1) Some q Err f 1 by (auto simp: prepare_start_def Let_def)
  qed (use assms(1) Some q 1 in \<open>auto simp: prepare_start_def Let_def split: option.splits\<close>)
qed

lemma start_one_safe:
  assumes "start_one sv request k activity asg resource readyAt st w = (r, w')" and "handles_known stored sane st w"
  shows "\<not> is_panic r \<and> (\<forall>st'. r = Ok st' \<longrightarrow> handles_known stored sane st' w')"
proof -
  obtain q w1 where q: "prepare_start sv request k activity asg resource w = (q, w1)" by fastforce
  have 1: "sane w1 \<and> stored w \<subseteq> stored w1 \<and> \<not> is_panic q"
    using prepare_safe [OF q] assms(2) by (auto simp: handles_known_def)
  show ?thesis
  proof (cases q)
    case (Ok po)
    obtain preparation observed where po: "po = (preparation, observed)" by fastforce
    let ?c = "\<lparr>ctx_Run = er_Run request, ctx_Workflow = er_Workflow request, ctx_Activity = activity,
       ctx_Assignment = asg, ctx_Resource = resource, ctx_RuntimeID = selectRuntime request asg,
       ctx_Preparation = preparation\<rparr>"
    obtain p w2 where p: "ac_Start (sup_activities sv) ?c w1 = (p, w2)" by fastforce
    have 2: "sane w2 \<and> stored w1 \<subseteq> stored w2 \<and> \<not> is_panic p \<and> (\<forall>h. p = Ok h \<longrightarrow> hnd_ID h \<in> stored w2)"
      using service_start [OF _ p] 1 by blast
    show ?thesis
    proof (cases p)
      case (Ok h)
      obtain n w3 where n: "sup_unixNow sv w2 = (n, w3)" by fastforce
      have 3: "sane w3 \<and> stored w2 \<subseteq> stored w3" using service_now [OF _ n] 2 by blast
      let ?t = "newRunningTask n (run_ID (er_Run request)) k asg resource h readyAt preparation"
      let ?t' = "if hnd_Status h = HandleCompleted then completeTask ?t h else ?t"
      obtain e w4 where s: "xs_SaveTask (sup_executions sv) ?t' w3 = (e, w4)" by fastforce
      have 4: "sane w4 \<and> stored w3 \<subseteq> stored w4" using service_task [OF _ s] 3 by blast
      have "hnd_ID h \<in> stored w4" using 2 3 4 Ok by blast
      moreover have "hnd_ID x \<in> stored w4" if "map_of (es_running st) j = Some x" for j x
        using that assms(2) 1 2 3 4 unfolding handles_known_def by blast
      ultimately show ?thesis
        using assms(1) q \<open>q = Ok po\<close> po p Ok n s 4
        by (cases e; cases "hnd_Status h = HandleCompleted")
          (auto simp: start_one_def Let_def handles_known_def split: if_splits)
    next
      case (Err e)
      then show ?thesis using assms(1) q \<open>q = Ok po\<close> po p by (auto simp: start_one_def Let_def)
    next
      case (Panic x)
      then show ?thesis using 2 by simp
    qed
  next
    case (Err e)
    then show ?thesis using assms(1) q by (auto simp: start_one_def Let_def)
  next
    case (Panic x)
    then show ?thesis using 1 by simp
  qed
qed

lemma startReady_safe:
  "startReadyActivities sv request activities assignments resources ks st w = (r, w') \<Longrightarrow> handles_known stored sane st w \<Longrightarrow>
     \<not> is_panic r \<and> (\<forall>st'. r = Ok st' \<longrightarrow> handles_known stored sane st' w')"
proof (induction ks arbitrary: st w)
  case Nil
  then show ?case by auto
next
  case (Cons k ks)
  obtain n w0 where n: "sup_unixNow sv w = (n, w0)" by fastforce
  have "handles_known stored sane st w0"
    using service_now [OF _ n] Cons.prems(2) handles_known_mono [OF Cons.prems(2), of w0] by (auto simp: handles_known_def)
  note known = this
  show ?case
  proof (cases "map_of resources (asg_ResourceID (asg_for assignments k))")
    case None
    then show ?thesis using Cons.prems(1) n by (auto simp: Let_def)
  next
    case (Some resource)
    obtain q w1 where q: "start_one sv request k (activity_for activities k) (asg_for assignments k) resource n st w0 = (q, w1)"
      by fastforce
    have 1: "\<not> is_panic q \<and> (\<forall>st'. q = Ok st' \<longrightarrow> handles_known stored sane st' w1)"
      using start_one_safe [OF q known] .
    show ?thesis
    proof (cases q)
      case (Ok st1)
      then have "startReadyActivities sv request activities assignments resources ks st1 w1 = (r, w')"
        using Cons.prems(1) n Some q by (simp add: Let_def)
      then show ?thesis using 1 Ok Cons.IH by blast
    qed (use Cons.prems(1) n Some q 1 in \<open>auto simp: Let_def\<close>)
  qed
qed

lemma exec_loop_no_panic:
  "exec_loop fuel sv request st w = Some (r, w') \<Longrightarrow> exec_inv request (sc_MaxParallel (sup_config sv)) st \<Longrightarrow>
   handles_known stored sane st w \<Longrightarrow> \<not> is_panic r"
proof (induction fuel arbitrary: st w)
  case 0
  then show ?case by simp
next
  case (Suc fuel)
  obtain x w1 where x: "exec_round sv request st w = (x, w1)" by fastforce
  show ?case
  proof (cases x)
    case (Again st1)
    from Suc.prems(2) x [unfolded Again] obtain st0 w0 w2 where
      i: "inspectRunning sv (run_Mode (er_Run request)) st w = (Ok st0, w0)" and
      s: "startReadyActivities sv request (activities_of request)
       (index_by asg_ActivityID (plan_Assignments (er_Plan request))) (index_by res_ID (er_Resources request))
       (batch sv request st0) st0 w0 = (Ok st1, w2)" and
      inv: "exec_inv request (sc_MaxParallel (sup_config sv)) st1" and
      e: "es_running st1 = [] \<and> w1 = w2 \<or> es_running st1 \<noteq> [] \<and> sup_wait sv w2 = (None, w1)"
      by (rule exec_round_inv) blast
    have "handles_known stored sane st0 w0" using inspect_safe [OF i [unfolded inspectRunning_def] Suc.prems(3)] by blast
    then have k: "handles_known stored sane st1 w2" using startReady_safe [OF s] by blast
    then have "handles_known stored sane st1 w1"
      using e service_wait [of w2 None w1] handles_known_mono [OF k] by (auto simp: handles_known_def)
    then show ?thesis using Suc.IH [OF _ inv] Suc.prems(1) x Again by simp
  next
    case (Return y)
    have "\<not> is_panic y"
    proof (cases "length (es_completed st) < length (activities_of request) \<and> sup_ctxErr sv w = None")
      case False
      then show ?thesis using x Return by (auto simp: exec_round_def Let_def split: if_splits option.splits)
    next
      case True
      obtain q w0 where q: "inspectRunning sv (run_Mode (er_Run request)) st w = (q, w0)" by fastforce
      have 1: "\<not> is_panic q \<and> (\<forall>st'. q = Ok st' \<longrightarrow> handles_known stored sane st' w0)"
        using inspect_safe [OF q [unfolded inspectRunning_def] Suc.prems(3)] .
      have 2: "\<not> is_panic (fst (startReadyActivities sv request (activities_of request)
         (index_by asg_ActivityID (plan_Assignments (er_Plan request))) (index_by res_ID (er_Resources request))
         (batch sv request st0) st0 w0))" if "q = Ok st0" for st0
        using 1 that startReady_safe by (metis prod.collapse)
      show ?thesis
        using x Return True q 1 2 exec_round_step [OF Suc.prems(2) refl, of w]
        by (cases q) (auto split: prod.splits result.splits if_splits option.splits)
    qed
    then show ?thesis using Suc.prems(1) x Return by simp
  qed
qed

end

section \<open>The system over SQLite\<close>

text \<open>
  The parts that are not in the repository or act outside the database: the runtimes, the
  preparation coordinator, the catalogue, the simulator, and the process. They act on a world \<open>'v\<close> of
  their own and answer with an error or a value. \<open>out_env\<close> gives each write of the database its
  failure, clock and fresh identifiers, \<open>out_readErr\<close> the failure of a read.
\<close>

record 'v Outside =
  out_Resolve :: "ExecutionMode \<Rightarrow> string \<Rightarrow> error option"
  out_Start :: "ExecutionMode \<Rightarrow> string \<Rightarrow> ActivityExecutionContext \<Rightarrow> 'v \<Rightarrow> (error + ActivityHandle) \<times> 'v"
  out_Inspect :: "ExecutionMode \<Rightarrow> string \<Rightarrow> ActivityHandle \<Rightarrow> 'v \<Rightarrow> (error + ActivityHandle) \<times> 'v"
  out_Stop :: "ExecutionMode \<Rightarrow> string \<Rightarrow> ActivityHandle \<Rightarrow> 'v \<Rightarrow> error option \<times> 'v"
  out_catalog :: "(ActivityHandle \<Rightarrow> 'v \<Rightarrow> error option \<times> 'v) option"
  out_prepare :: "(string \<Rightarrow> PreparationRequirement \<Rightarrow> 'v \<Rightarrow> (error + PreparationGate) \<times> 'v) option"
  out_simulate :: "ExecutionRequest \<Rightarrow> 'v \<Rightarrow> (error + ExecutionTrace) \<times> 'v"
  out_now :: "'v \<Rightarrow> float64 \<times> 'v"
  out_ctxErr :: "'v \<Rightarrow> error option"
  out_wait :: "'v \<Rightarrow> error option \<times> 'v"
  out_range :: "'v \<Rightarrow> string list \<Rightarrow> string list"
  out_readErr :: "'v \<Rightarrow> error option"
  out_env :: "'v \<Rightarrow> TxEnv \<times> 'v"

definition out_result :: "error + 'a \<Rightarrow> 'a result" where
  "out_result x = (case x of Inl e \<Rightarrow> Err e | Inr a \<Rightarrow> Ok a)"

definition on_outside :: "('v \<Rightarrow> 'a \<times> 'v) \<Rightarrow> ('a \<Rightarrow> 'b) \<Rightarrow> ExecDB \<times> 'v \<Rightarrow> 'b \<times> ExecDB \<times> 'v" where
  "on_outside f g x = (let (a, v) = f (snd x) in (g a, fst x, v))"

definition on_db :: "'v Outside \<Rightarrow> (TxEnv \<Rightarrow> ExecDB \<Rightarrow> 'a \<times> ExecDB) \<Rightarrow> ExecDB \<times> 'v \<Rightarrow> 'a \<times> ExecDB \<times> 'v" where
  "on_db out f x = (let (env, v) = out_env out (snd x); (a, db) = f env (fst x) in (a, db, v))"

definition sqlite_controller :: "'v Outside \<Rightarrow> (ExecDB \<times> 'v) Controller" where
  "sqlite_controller out =
     \<lparr>ctl_Resolve = (\<lambda>m r. case out_Resolve out m r of
         Some e \<Rightarrow> Err e
       | None \<Rightarrow> Ok \<lparr>ra_Start = (\<lambda>c. on_outside (out_Start out m r c) out_result),
                   ra_Inspect = (\<lambda>h. on_outside (out_Inspect out m r h) out_result),
                   ra_Stop = (\<lambda>h. on_outside (out_Stop out m r h) (\<lambda>e. e))\<rparr>),
      ctl_Save = (\<lambda>h. on_db out (\<lambda>env. handles_Save (tx_fault env) h)),
      ctl_Find = (\<lambda>i x. (fst (handles_Find (out_readErr out (snd x)) i (fst x)), x)),
      ctl_data = map_option (\<lambda>f h. on_outside (f h) (\<lambda>e. e)) (out_catalog out),
      ctl_now = (\<lambda>x. fst (out_now out (snd x)))\<rparr>"

definition sqlite_supervisor :: "'v Outside \<Rightarrow> int \<Rightarrow> int \<Rightarrow> (ExecDB \<times> 'v) Supervisor" where
  "sqlite_supervisor out poll parallel =
     \<lparr>sup_executions =
        \<lparr>xs_Save = (\<lambda>h. on_db out (\<lambda>env. handles_Save (tx_fault env) h)),
         xs_CreateRun = (\<lambda>r. on_db out (\<lambda>env. runs_CreateRun env r)),
         xs_SaveTask = (\<lambda>t. on_db out (\<lambda>env. tasks_SaveTask env t)),
         xs_CompleteRun = (\<lambda>t. on_db out (\<lambda>env. runs_CompleteRun env t)),
         xs_FailRun = (\<lambda>i m. on_db out (\<lambda>env. runs_FailRun env i m))\<rparr>,
      sup_activities = \<lparr>ac_Start = controller_Start (sqlite_controller out), ac_Inspect = controller_Inspect (sqlite_controller out)\<rparr>,
      sup_simulation = (\<lambda>r. on_outside (out_simulate out r) out_result),
      sup_config = supervisor_config \<lparr>sc_PollInterval = poll, sc_MaxParallel = parallel,
        sc_Preparer = map_option (\<lambda>f k q. on_outside (f k q) (\<lambda>x. case x of Inl e \<Rightarrow> Err e | Inr g \<Rightarrow> Ok (Some g))) (out_prepare out)\<rparr>,
      sup_unixNow = on_outside (out_now out) (\<lambda>n. n), sup_ctxErr = out_ctxErr out \<circ> snd,
      sup_wait = on_outside (out_wait out) (\<lambda>e. e), sup_range = out_range out \<circ> snd\<rparr>"

abbreviation db_handle :: "ExecDB \<times> 'v \<Rightarrow> string \<Rightarrow> ActivityHandle option" where
  "db_handle x \<equiv> map_of (db_handles (fst x))"

lemma out_result_no_panic [simp]: "\<not> is_panic (out_result x)"
  by (simp add: out_result_def split: sum.split)

lemma on_outside_frame [simp]: "fst (snd (on_outside f g x)) = fst x"
  by (simp add: on_outside_def split_beta Let_def)

lemma fst_on_outside: "fst (on_outside f g x) = g (fst (f (snd x)))"
  by (simp add: on_outside_def split_beta Let_def)

lemma handles_Save_done:
  assumes "handles_Save fault h db = (None, db')"
  shows "\<exists>s. map_of (db_handles db') = (map_of (db_handles db))(hnd_ID h \<mapsto> s) \<and> hnd_ID s = hnd_ID h"
proof -
  obtain metadata where "db' = db\<lparr>db_handles := put (hnd_ID h)
      (stored_handle (map_of (db_handles db) (hnd_ID h)) (h\<lparr>hnd_Metadata := metadata\<rparr>)) (db_handles db)\<rparr>"
    using assms by (auto simp: handles_Save_def split: option.splits if_splits)
  then show ?thesis
    by (intro exI [of _ "stored_handle (map_of (db_handles db) (hnd_ID h)) (h\<lparr>hnd_Metadata := metadata\<rparr>)"])
      (auto simp: stored_handle_def fun_eq_iff split: option.split)
qed

lemma handles_Save_failed: "handles_Save fault h db = (Some e, db') \<Longrightarrow> db' = db"
  by (auto simp: handles_Save_def split: option.splits if_splits)

interpretation sqlite_handles: handle_store "sqlite_controller out" db_handle
proof
  fix i h c m r and rt :: "(ExecDB \<times> 'a) RuntimeAdapter" and w w' :: "ExecDB \<times> 'a" and e and catalog
  show "ctl_Find (sqlite_controller out) i w = (Ok (db_handle w i), w) \<or> (\<exists>e. ctl_Find (sqlite_controller out) i w = (Err e, w))"
    by (simp add: sqlite_controller_def handles_Find_def split: option.split)
  show "ctl_Save (sqlite_controller out) h w = (None, w') \<Longrightarrow>
      \<exists>s. db_handle w' = (db_handle w)(hnd_ID h \<mapsto> s) \<and> hnd_ID s = hnd_ID h"
    using handles_Save_done by (auto simp: sqlite_controller_def on_db_def split: prod.splits)
  show "ctl_Save (sqlite_controller out) h w = (Some e, w') \<Longrightarrow> db_handle w' = db_handle w"
    using handles_Save_failed by (fastforce simp: sqlite_controller_def on_db_def split: prod.splits)
  show "\<not> is_panic (ctl_Resolve (sqlite_controller out) m r)"
    by (simp add: sqlite_controller_def split: option.split)
  show "ctl_Resolve (sqlite_controller out) m r = Ok rt \<Longrightarrow>
      db_handle (snd (ra_Start rt c w)) = db_handle w \<and> \<not> is_panic (fst (ra_Start rt c w))"
    "ctl_Resolve (sqlite_controller out) m r = Ok rt \<Longrightarrow>
      db_handle (snd (ra_Inspect rt h w)) = db_handle w \<and> \<not> is_panic (fst (ra_Inspect rt h w))"
    "ctl_Resolve (sqlite_controller out) m r = Ok rt \<Longrightarrow> db_handle (snd (ra_Stop rt h w)) = db_handle w"
    by (auto simp: sqlite_controller_def fst_on_outside split: option.splits)
  show "ctl_data (sqlite_controller out) = Some catalog \<Longrightarrow> db_handle (snd (catalog h w)) = db_handle w"
    by (auto simp: sqlite_controller_def)
qed

lemma transaction_handles:
  assumes "\<And>db'. body db = Inr db' \<Longrightarrow> db_handles db' = db_handles db"
  shows "db_handles (snd (transaction env body db)) = db_handles db"
  using assms by (auto simp: transaction_def split: option.split sum.split)

lemma append_event_handles: "append_event env n event db = Inr db' \<Longrightarrow> db_handles db' = db_handles db"
  unfolding append_event_def by (erule outbox_Append_Inr) simp

lemma tasks_SaveTask_handles: "db_handles (snd (tasks_SaveTask env t db)) = db_handles db"
  unfolding tasks_SaveTask_def
proof (rule transaction_handles)
  fix db' assume s: "store_task env 0 True t db = Inr db'"
  then obtain db1 where d: "saveTask t db = Inr db1" by (cases "saveTask t db") (auto simp: store_task_def)
  then have "db_handles db1 = db_handles db" by (auto simp: saveTask_def split: option.splits if_splits)
  then show "db_handles db' = db_handles db"
    using s d append_event_handles
    by (fastforce simp: store_task_def appendTaskEvent_def Let_def split: if_splits)
qed

interpretation sqlite_service: activity_service "sqlite_supervisor out poll parallel"
  "\<lambda>w. dom (db_handle w)" "ids_agree db_handle"
proof
  fix w w' :: "ExecDB \<times> 'a" and c r i m p t e h n k q g prepare
  assume s: "ids_agree db_handle w"
  show "ac_Start (sup_activities (sqlite_supervisor out poll parallel)) c w = (r, w') \<Longrightarrow>
      ids_agree db_handle w' \<and> dom (db_handle w) \<subseteq> dom (db_handle w') \<and> \<not> is_panic r \<and>
      (\<forall>h. r = Ok h \<longrightarrow> hnd_ID h \<in> dom (db_handle w'))"
    using sqlite_handles.start_grows [of out c w r w'] s by (simp add: sqlite_supervisor_def) metis
  show "ac_Inspect (sup_activities (sqlite_supervisor out poll parallel)) i m w = (p, w') \<Longrightarrow>
      ids_agree db_handle w' \<and> dom (db_handle w) \<subseteq> dom (db_handle w') \<and> \<not> is_panic p \<and> (i \<in> dom (db_handle w) \<longrightarrow> p \<noteq> Ok None)"
    using sqlite_handles.inspect_grows [of out i m w p w'] s by (simp add: sqlite_supervisor_def)
  show "xs_SaveTask (sup_executions (sqlite_supervisor out poll parallel)) t w = (e, w') \<Longrightarrow>
      ids_agree db_handle w' \<and> dom (db_handle w) \<subseteq> dom (db_handle w')"
    using tasks_SaveTask_handles [of "fst (out_env out (snd w))" t "fst w"] s
    by (auto simp: sqlite_supervisor_def on_db_def ids_agree_def split: prod.splits)
  show "xs_Save (sup_executions (sqlite_supervisor out poll parallel)) h w = (e, w') \<Longrightarrow>
      ids_agree db_handle w' \<and> dom (db_handle w) \<subseteq> dom (db_handle w')"
    using sqlite_handles.save_grows [of out h w e w'] s by (simp add: sqlite_supervisor_def sqlite_controller_def)
  show "sup_unixNow (sqlite_supervisor out poll parallel) w = (n, w') \<Longrightarrow>
      ids_agree db_handle w' \<and> dom (db_handle w) \<subseteq> dom (db_handle w')"
    "sup_wait (sqlite_supervisor out poll parallel) w = (e, w') \<Longrightarrow>
      ids_agree db_handle w' \<and> dom (db_handle w) \<subseteq> dom (db_handle w')"
    using s by (auto simp: sqlite_supervisor_def on_outside_def ids_agree_def split: prod.splits)
  show "sc_Preparer (sup_config (sqlite_supervisor out poll parallel)) = Some prepare \<Longrightarrow> prepare k q w = (g, w') \<Longrightarrow>
      ids_agree db_handle w' \<and> dom (db_handle w) \<subseteq> dom (db_handle w') \<and> \<not> is_panic g \<and> g \<noteq> Ok None"
    using s by (auto simp: sqlite_supervisor_def supervisor_config_def Let_def on_outside_def ids_agree_def
        split: prod.splits sum.splits if_splits)
qed

end
