(* ===== verification/Execution_Properties.thy ===== *)
theory Execution_Properties
  imports Activity_Service
begin

text \<open>
  The properties of plans and runs: what the validator accepts, the order in which the supervisor
  starts activities, how a run ends, and what the controller guarantees at the runtime boundary.
\<close>

section \<open>A small run\<close>

text \<open>Two activities, the second after the first, on one resource with one runtime.\<close>

definition demo_activity :: "string \<Rightarrow> Activity" where
  "demo_activity ident = zero_activity\<lparr>act_ID := ident, act_Name := ident, act_Kind := ActivityKindTask,
     act_Capabilities := [ActivityCapabilityReal],
     act_Command := (act_Command zero_activity)\<lparr>cmd_Entrypoint := ''run''\<rparr>\<rparr>"

definition demo_workflow :: WorkflowVersion where
  "demo_workflow = \<lparr>wfv_ID = ''wf'', wfv_WorkflowID = ''w'', wfv_Version = 1, wfv_DefinitionHash = '''',
     wfv_Activities = [demo_activity ''b'', demo_activity ''a''],
     wfv_Dependencies = [\<lparr>dep_ActivityID = ''b'', dep_DependsOnActivityID = ''a'', dep_Type = ''''\<rparr>],
     wfv_DataDependencies = []\<rparr>"

definition demo_resource :: Resource where
  "demo_resource = zero_resource\<lparr>res_ID := ''r1'', res_EnvironmentVersionID := ''e1'', res_Schedulable := True\<rparr>"

definition demo_assignment :: "string \<Rightarrow> int \<Rightarrow> PlanAssignment" where
  "demo_assignment ident ord = zero_assignment\<lparr>asg_ID := ''x'' @ ident, asg_ActivityID := ident, asg_ResourceID := ''r1'',
     asg_OrderOnResource := ord\<rparr>"

definition demo_plan :: SchedulePlan where
  "demo_plan = \<lparr>plan_ID = ''p'', plan_WorkflowVersionID = ''wf'', plan_ExecutionScopeID = ''s'', plan_NetworkTopologyID = '''',
     plan_Source = PlanningSourceImported, plan_Algorithm = '''', plan_AlgorithmVersion = '''', plan_Objective = '''',
     plan_DeadlineSeconds = fzero, plan_Budget = fzero,
     plan_Predicted = \<lparr>pred_MakespanSeconds = fzero, pred_Cost = fzero, pred_Feasible = True\<rparr>,
     plan_Assignments = [demo_assignment ''a'' 0, demo_assignment ''b'' 1], plan_AssignmentCount = 2, plan_Metadata = []\<rparr>"

definition demo_scope :: ExecutionScope where
  "demo_scope = \<lparr>scope_ID = ''s'', scope_Name = '''', scope_NetworkTopologyID = '''', scope_EnvironmentVersionIDs = [''e1''],
     scope_Metadata = []\<rparr>"

definition demo_topology :: NetworkTopology where
  "demo_topology = \<lparr>top_ID = '''', top_Name = '''', top_Version = 0, top_ExecutionScopeID = '''', top_Links = [], top_Metadata = []\<rparr>"

definition demo_run :: ExecutionRun where
  "demo_run = \<lparr>run_ID = ''run'', run_SchedulePlanID = '''', run_Mode = ExecutionModeReal, run_Seed = 0,
     run_Status = ExecutionRunCreated, run_EnvironmentSnapshotID = '''', run_MakespanSeconds = fzero, run_Cost = fzero,
     run_FailureReason = '''', run_ActivityCount = 0, run_CompletedActivityCount = 0,
     run_Breakdown = \<lparr>brk_ComputeSeconds = fzero, brk_TransferSeconds = fzero, brk_QueueSeconds = fzero,
       brk_InterferenceSeconds = fzero, brk_OverheadSeconds = fzero\<rparr>,
     run_TransferredBytes = 0, run_Kind = ExecutionRunWorkflow, run_Title = '''', run_ResourceID = '''', run_RuntimeID = '''',
     run_ConnectionID = '''', run_ActorID = '''', run_Command = '''', run_StartedAt = None, run_FinishedAt = None\<rparr>"

definition demo_runtime :: EnvironmentRuntime where
  "demo_runtime = \<lparr>ert_EnvironmentVersionID = ''e1'', ert_ID = ''rt'', ert_Name = '''', ert_Driver = RuntimeDriverLocal,
     ert_Mode = RuntimeModeExecution, ert_Role = '''', ert_Configuration = [],
     ert_Capabilities = \<lparr>cap_Batch = False, cap_Interactive = False, cap_Container = False, cap_Serverless = False,
       cap_GPU = False, cap_MPI = False, cap_SharedStorage = False, cap_DataStaging = False, cap_Cancellation = False,
       cap_LogStreaming = False, cap_Simulation = False\<rparr>\<rparr>"

definition demo_request :: ExecutionRequest where
  "demo_request = \<lparr>er_Run = demo_run, er_Plan = demo_plan, er_Workflow = demo_workflow, er_Resources = [demo_resource],
     er_ExecutionScope = demo_scope, er_Runtimes = [demo_runtime],
     er_RuntimeBindings = [\<lparr>bind_ResourceID = ''r1'', bind_RuntimeID = ''rt'', bind_Enabled = True, bind_Configuration = []\<rparr>],
     er_NetworkTopology = demo_topology, er_ActivityProfiles = [], er_PreparationRequirementsByActivity = []\<rparr>"

text \<open>A supervisor whose activities are running when started and completed when inspected.\<close>

definition demo_supervisor :: "unit Supervisor" where
  "demo_supervisor =
     \<lparr>sup_executions = \<lparr>xs_Save = (\<lambda>h w. (None, w)), xs_CreateRun = (\<lambda>r w. (None, w)), xs_SaveTask = (\<lambda>t w. (None, w)),
        xs_CompleteRun = (\<lambda>t w. (None, w)), xs_FailRun = (\<lambda>i m w. (None, w))\<rparr>,
      sup_activities = \<lparr>ac_Start = (\<lambda>c w. (Ok (zero_handle\<lparr>hnd_ID := handle_id c, hnd_Status := HandleRunning\<rparr>), w)),
        ac_Inspect = (\<lambda>i m w. (Ok (Some (zero_handle\<lparr>hnd_ID := i, hnd_Status := HandleCompleted\<rparr>)), w))\<rparr>,
      sup_simulation = (\<lambda>r w. (Err (Errorf ''no simulator'' []), w)),
      sup_config = \<lparr>sc_PollInterval = 1, sc_MaxParallel = 1, sc_Preparer = None\<rparr>,
      sup_unixNow = (\<lambda>w. (fzero, w)), sup_ctxErr = (\<lambda>w. None), sup_wait = (\<lambda>w. (None, w)), sup_range = (\<lambda>w ks. ks)\<rparr>"

lemma demo_dag: "dag demo_workflow"
proof -
  have "validateDAG (\<lambda>ks. ks) demo_workflow = None" by code_simp
  then show ?thesis by (simp only: validateDAG_iff)
qed

lemma demo_cooperative: "cooperative demo_supervisor (\<lambda>_. 0)"
  by (simp add: cooperative_def demo_supervisor_def)

lemma demo_startable: "startable_request demo_request"
  by (simp add: startable_request_def demo_request_def demo_workflow_def demo_activity_def zero_activity_def demo_plan_def
      demo_assignment_def zero_assignment_def demo_resource_def last_with_def)

section \<open>Plans\<close>

text \<open>
  C7. \<^verbatim>\<open>validateDAG\<close> accepts a workflow exactly when every dependency names two of its activities and
  the dependencies have no cycle, whatever the order in which Go visits the map of degrees.
\<close>

theorem dag_accepted_iff:
  "validateDAG ord workflow = None \<longleftrightarrow>
     (\<forall>d \<in> set (wfv_Dependencies workflow). dep_ActivityID d \<in> act_ID ` set (wfv_Activities workflow) \<and>
        dep_DependsOnActivityID d \<in> act_ID ` set (wfv_Activities workflow)) \<and>
     acyclic {(dep_DependsOnActivityID d, dep_ActivityID d) | d. d \<in> set (wfv_Dependencies workflow)}"
proof -
  have "{(dep_DependsOnActivityID d, dep_ActivityID d) | d. d \<in> set (wfv_Dependencies workflow)} =
      set (edges (wfv_Dependencies workflow))" by (auto simp: edges_def)
  then show ?thesis unfolding validateDAG_iff dag_def known_endpoints_def by simp
qed

theorem dag_accepted_iff_witness:
  "validateDAG (\<lambda>ks. ks) demo_workflow = None \<and> dep_ActivityID (hd (wfv_Dependencies demo_workflow)) \<in> {''b'', ''a''}"
proof -
  have "validateDAG (\<lambda>ks. ks) demo_workflow = None" by code_simp
  then show ?thesis using dag_accepted_iff [of "\<lambda>ks. ks" demo_workflow] by (simp add: demo_workflow_def)
qed

text \<open>
  C8. \<^verbatim>\<open>Validate\<close> accepts a plan exactly when it satisfies the specification \<open>plan_ok\<close>: it names the
  workflow, the scope and the topology; every assignment places a known activity on a known,
  schedulable resource of the scope that has the capacity (unless a scheduler manages it) and that the
  activity selects; every activity has exactly one assignment; the dependencies form a DAG; the orders
  in each lane are distinct; and a dependency within a lane is ordered.
\<close>

theorem plan_accepted_iff:
  "plan_Validate ord plan workflow resources scope topology = None \<longleftrightarrow> plan_ok plan workflow resources scope topology"
  by (rule plan_Validate_iff)

text \<open>
  The lane order of an accepted plan may contradict the dependencies: \<^verbatim>\<open>validateResourceOrders\<close>
  compares only an activity and its direct predecessors, so a plan whose lane puts an activity before
  one it depends on through an activity of another lane is accepted.
\<close>

definition crossed_workflow :: WorkflowVersion where
  "crossed_workflow = demo_workflow\<lparr>wfv_Activities := [demo_activity ''a'', demo_activity ''b'', demo_activity ''c''],
     wfv_Dependencies := [\<lparr>dep_ActivityID = ''b'', dep_DependsOnActivityID = ''a'', dep_Type = ''''\<rparr>,
       \<lparr>dep_ActivityID = ''c'', dep_DependsOnActivityID = ''b'', dep_Type = ''''\<rparr>]\<rparr>"

definition crossed_plan :: SchedulePlan where
  "crossed_plan = demo_plan\<lparr>plan_Assignments :=
     [demo_assignment ''c'' 0, demo_assignment ''a'' 1, (demo_assignment ''b'' 0)\<lparr>asg_CoreID := ''core2''\<rparr>]\<rparr>"

theorem crossed_lane_accepted:
  "plan_Validate (\<lambda>ks. ks) crossed_plan crossed_workflow [demo_resource] demo_scope demo_topology = None \<and>
   (\<exists>a c. a \<in> set (plan_Assignments crossed_plan) \<and> c \<in> set (plan_Assignments crossed_plan) \<and> same_lane a c \<and>
      (asg_ActivityID a, asg_ActivityID c) \<in> (set (edges (wfv_Dependencies crossed_workflow)))\<^sup>+ \<and>
      asg_OrderOnResource c < asg_OrderOnResource a)"
proof
  show "plan_Validate (\<lambda>ks. ks) crossed_plan crossed_workflow [demo_resource] demo_scope demo_topology = None" by code_simp
  have "(''a'', ''b'') \<in> set (edges (wfv_Dependencies crossed_workflow))"
    "(''b'', ''c'') \<in> set (edges (wfv_Dependencies crossed_workflow))"
    by (simp_all add: crossed_workflow_def edges_def)
  then have "(''a'', ''c'') \<in> (set (edges (wfv_Dependencies crossed_workflow)))\<^sup>+" by (meson r_into_trancl trancl_into_trancl)
  then show "\<exists>a c. a \<in> set (plan_Assignments crossed_plan) \<and> c \<in> set (plan_Assignments crossed_plan) \<and> same_lane a c \<and>
      (asg_ActivityID a, asg_ActivityID c) \<in> (set (edges (wfv_Dependencies crossed_workflow)))\<^sup>+ \<and>
      asg_OrderOnResource c < asg_OrderOnResource a"
    by (intro exI [of _ "demo_assignment ''a'' 1"] exI [of _ "demo_assignment ''c'' 0"])
      (simp add: crossed_plan_def same_lane_def demo_assignment_def)
qed

section \<open>Runs\<close>

text \<open>
  C9. In every run of \<^verbatim>\<open>executeActivities\<close>, also one that ends with an error, when the supervisor asks the
  controller to start an activity, it has not asked before, every activity it depends on has been
  recorded as completed, and fewer than \<^verbatim>\<open>MaxParallel\<close> activities are started and not completed.
\<close>

theorem schedule_respected:
  assumes "executeActivities fuel (recorded sv) request (w, []) = Some (r, w', history)"
    and "0 \<le> sc_MaxParallel (sup_config sv)" and "history = before @ Started k # after"
  shows "Started k \<notin> set before \<and>
    (\<forall>d \<in> set (wfv_Dependencies (er_Workflow request)). dep_ActivityID d = k \<longrightarrow> Finished (dep_DependsOnActivityID d) \<in> set before) \<and>
    int (card {j. Started j \<in> set before \<and> Finished j \<notin> set before}) < sc_MaxParallel (sup_config sv)"
proof -
  have m: "sc_MaxParallel (sup_config (recorded sv)) = sc_MaxParallel (sup_config sv)" by (simp add: recorded_def)
  have "schedule_ok request (sc_MaxParallel (sup_config (recorded sv))) (snd (w', history))"
    by (rule recorded.exec_loop_log [OF assms(1) [unfolded executeActivities_def]])
      (simp_all add: m exec_inv_init [OF assms(2)], simp add: history_of_def init_state_def names_defs)
  then have "start_ok request (sc_MaxParallel (sup_config sv)) before k"
    using assms(3) m unfolding schedule_ok_def by simp
  moreover have "dep_DependsOnActivityID d \<in> preds_of request (dep_ActivityID d)"
    if "d \<in> set (wfv_Dependencies (er_Workflow request))" for d
    using that by (auto simp: preds_of_def edges_def)
  ultimately show ?thesis by (auto simp: start_ok_def open_starts_def)
qed

theorem schedule_respected_witness:
  "\<exists>r. executeActivities 6 (recorded demo_supervisor) demo_request ((), []) =
      Some (r, (), [Started ''a'', Finished ''a'', Started ''b'', Finished ''b'']) \<and>
     Started ''b'' \<notin> set [Started ''a'', Finished ''a'']"
proof -
  have "map_option (snd \<circ> snd) (executeActivities 6 (recorded demo_supervisor) demo_request ((), [])) =
      Some [Started ''a'', Finished ''a'', Started ''b'', Finished ''b'']" by code_simp
  then obtain r where r: "executeActivities 6 (recorded demo_supervisor) demo_request ((), []) =
      Some (r, (), [Started ''a'', Finished ''a'', Started ''b'', Finished ''b''])" by auto
  have "0 \<le> sc_MaxParallel (sup_config demo_supervisor)" by code_simp
  then show ?thesis
    using schedule_respected [OF r, of "[Started ''a'', Finished ''a'']" "''b''" "[Finished ''b'']"] r by simp
qed

text \<open>
  A successful run that is not interactive has done everything: its trace lists every activity of the
  workflow exactly once, in the order of the identifiers, and every task is completed.
\<close>

theorem successful_run_complete:
  assumes "executeActivities fuel sv request w = Some (Ok trace, w')" and "0 \<le> sc_MaxParallel (sup_config sv)"
    and "run_Mode (er_Run request) \<noteq> ExecutionModeInteractive"
  shows "distinct (map task_ActivityID (tra_Tasks trace)) \<and> sorted (map task_ActivityID (tra_Tasks trace)) \<and>
    set (map task_ActivityID (tra_Tasks trace)) = act_ID ` set (wfv_Activities (er_Workflow request)) \<and>
    (\<forall>t \<in> set (tra_Tasks trace). task_Status t = TaskCompleted)"
  using assms by (rule successful_trace)

theorem successful_run_complete_witness:
  "\<exists>trace. executeActivities 6 demo_supervisor demo_request () = Some (Ok trace, ()) \<and>
     set (map task_ActivityID (tra_Tasks trace)) = {''a'', ''b''}"
proof -
  have "case executeActivities 6 demo_supervisor demo_request () of Some (Ok t, _) \<Rightarrow> True | _ \<Rightarrow> False" by code_simp
  then obtain trace where t: "executeActivities 6 demo_supervisor demo_request () = Some (Ok trace, ())"
    by (auto split: option.splits prod.splits result.splits)
  have "0 \<le> sc_MaxParallel (sup_config demo_supervisor)" "run_Mode (er_Run demo_request) \<noteq> ExecutionModeInteractive" by code_simp+
  moreover have "act_ID ` set (wfv_Activities (er_Workflow demo_request)) = {''a'', ''b''}" by code_simp
  ultimately show ?thesis using successful_run_complete [OF t] t by simp
qed

text \<open>
  C10. A run ends: for an acyclic workflow all of whose activities can be started, in an environment in
  which no call fails and every activity is eventually reported as completed, \<^verbatim>\<open>executeActivities\<close>
  returns successfully, within as many rounds as there are unfinished inspections, activities to start
  and activities to complete. In particular it never stops with ``execution cannot progress''.
\<close>

theorem run_ends:
  assumes "dag (er_Workflow request)" and "startable_request request" and "cooperative sv pot"
    and "run_Mode (er_Run request) \<noteq> ExecutionModeInteractive" and "1 \<le> sc_MaxParallel (sup_config sv)"
    and "pot w + 2 * card (act_ID ` set (wfv_Activities (er_Workflow request))) < fuel"
  shows "\<exists>trace w'. executeActivities fuel sv request w = Some (Ok trace, w')"
proof -
  have "remaining request init_state = 2 * card (act_ID ` set (wfv_Activities (er_Workflow request)))"
    by (simp add: remaining_def init_state_def names_defs)
  then show ?thesis
    unfolding executeActivities_def
    using exec_loop_returns [OF assms(3,2,1,4,5) exec_inv_init, of w fuel] assms(5,6) by simp
qed

theorem run_ends_witness:
  "dag (er_Workflow demo_request) \<and> (\<exists>trace w'. executeActivities 6 demo_supervisor demo_request () = Some (Ok trace, w'))"
proof -
  have d: "dag (er_Workflow demo_request)" using demo_dag by (simp add: demo_request_def)
  have c: "card (act_ID ` set (wfv_Activities (er_Workflow demo_request))) = 2" by code_simp
  have "run_Mode (er_Run demo_request) \<noteq> ExecutionModeInteractive" "1 \<le> sc_MaxParallel (sup_config demo_supervisor)" by code_simp+
  then show ?thesis using run_ends [OF d demo_startable demo_cooperative, where w = "()" and fuel = 6] c d by simp
qed

end
