(* ===== verification/Controller_Properties.thy ===== *)
theory Controller_Properties
  imports Execution_Properties
begin

text \<open>
  The properties of the supervisor and the controller over the SQLite repository: a run does not
  panic, its outcome is recorded, and the controller starts an activity only behind its checks and
  only once.
\<close>

section \<open>Facts about the parts of a run\<close>

lemma runs_CreateRun_handles: "db_handles (snd (runs_CreateRun env run db)) = db_handles db"
  unfolding runs_CreateRun_def
  by (rule transaction_handles) (auto split: if_splits dest: append_event_handles)

lemma sqlite_supervisor_parallel: "0 \<le> sc_MaxParallel (sup_config (sqlite_supervisor out poll parallel))"
  by (simp add: sqlite_supervisor_def supervisor_config_def Let_def)

lemma executeActivities_no_panic:
  assumes "executeActivities fuel (sqlite_supervisor out poll parallel) request w = Some (r, w')" and "ids_agree db_handle w"
  shows "\<not> is_panic r"
proof -
  have "handles_known (\<lambda>w. dom (db_handle w)) (ids_agree db_handle) init_state w"
    using assms(2) by (simp add: handles_known_def init_state_def)
  then show ?thesis
    using sqlite_service.exec_loop_no_panic [OF _ exec_inv_init [OF sqlite_supervisor_parallel]] assms(1)
    unfolding executeActivities_def by blast
qed

text \<open>Every trace of \<^verbatim>\<open>executeActivities\<close> is about its run.\<close>

lemma completedTrace_RunID [simp]: "tra_RunID (completedTrace request st) = run_ID (er_Run request)"
  by (simp add: completedTrace_def runningTrace_def Let_def split_beta)

lemma runningTrace_RunID [simp]: "tra_RunID (runningTrace request st) = run_ID (er_Run request)"
  by (simp add: runningTrace_def)

lemma exec_loop_RunID: "exec_loop fuel sv request st w = Some (Ok trace, w') \<Longrightarrow> tra_RunID trace = run_ID (er_Run request)"
proof (induction fuel arbitrary: st w)
  case (Suc fuel)
  obtain x w1 where x: "exec_round sv request st w = (x, w1)" by fastforce
  show ?case
  proof (cases x)
    case (Again st1)
    then show ?thesis using Suc x by simp
  next
    case (Return y)
    then have "y = Ok trace" using Suc.prems x by simp
    then show ?thesis using x Return
      by (auto simp: exec_round_def Let_def split: if_splits option.splits prod.splits result.splits)
  qed
qed simp

lemma runs_FailRun_done:
  assumes "runs_FailRun env runID reason db = (None, db')"
  shows "\<exists>row. map_of (db_runs db') runID = Some row \<and> rr_Status row = ExecutionRunFailed \<and> rr_FailureReason row = reason"
proof -
  obtain row where r: "map_of (db_runs db) runID = Some row"
    "append_event env 0 (run_event ''execution.run.failed'' runID [(''reason'', AnyString reason)])
      (db\<lparr>db_runs := put runID (row\<lparr>rr_Status := ExecutionRunFailed, rr_FinishedAt := Some (tx_clock env),
                                   rr_FailureReason := reason\<rparr>) (db_runs db)\<rparr>) = Inr db'"
    using assms unfolding runs_FailRun_def transaction_def by (auto split: option.splits sum.splits)
  from r(2) have "db_runs db' = put runID (row\<lparr>rr_Status := ExecutionRunFailed, rr_FinishedAt := Some (tx_clock env),
                                   rr_FailureReason := reason\<rparr>) (db_runs db)"
    unfolding append_event_def by (rule outbox_Append_Inr) simp
  then show ?thesis by simp
qed

lemma runs_CompleteRun_done:
  assumes "runs_CompleteRun env trace db = (None, db')"
  shows "\<exists>row. map_of (db_runs db') (tra_RunID trace) = Some row \<and> rr_Status row = ExecutionRunCompleted \<and>
    rr_MakespanSeconds row = met_MakespanSeconds (tra_Executed trace) \<and> rr_Cost row = met_Cost (tra_Executed trace)"
proof -
  have "\<exists>db1. store_tasks env 1 (tra_Mode trace \<noteq> ExecutionModeSimulation) (tra_Tasks trace) db = Inr db1"
    using assms unfolding runs_CompleteRun_def transaction_def by (auto split: option.splits sum.splits)
  then obtain db1 where s: "store_tasks env 1 (tra_Mode trace \<noteq> ExecutionModeSimulation) (tra_Tasks trace) db = Inr db1" by blast
  define db2 where "db2 = fold (saveTransfer (tra_RunID trace)) (tra_Transfers trace) db1"
  obtain row event where "map_of (db_runs db2) (tra_RunID trace) = Some row"
    and a: "append_event env 0 event (db2\<lparr>db_runs := put (tra_RunID trace)
        (row\<lparr>rr_Status := ExecutionRunCompleted, rr_FinishedAt := Some (tx_clock env),
             rr_MakespanSeconds := met_MakespanSeconds (tra_Executed trace),
             rr_Cost := met_Cost (tra_Executed trace), rr_FailureReason := ''''\<rparr>) (db_runs db2)\<rparr>) = Inr db'"
    using assms s unfolding runs_CompleteRun_def transaction_def db2_def Let_def
    by (auto split: option.splits sum.splits)
  from a obtain row' where "db_runs db' = put (tra_RunID trace) row' (db_runs db2)" "rr_Status row' = ExecutionRunCompleted"
    "rr_MakespanSeconds row' = met_MakespanSeconds (tra_Executed trace)" "rr_Cost row' = met_Cost (tra_Executed trace)"
    unfolding append_event_def by (rule outbox_Append_Inr) simp
  then show ?thesis by simp
qed

section \<open>Runs over the repository\<close>

text \<open>
  The repository, the runtimes, the clock and the process of an example: nothing fails, the runtime
  reports an activity as completed when it starts it.
\<close>

definition demo_outside :: "nat Outside" where
  "demo_outside = \<lparr>out_Resolve = (\<lambda>m r. None),
     out_Start = (\<lambda>m r c v. (Inr (zero_handle\<lparr>hnd_RunID := run_ID (ctx_Run c), hnd_ActivityID := act_ID (ctx_Activity c),
       hnd_Status := HandleCompleted\<rparr>), v)),
     out_Inspect = (\<lambda>m r h v. (Inr h, v)), out_Stop = (\<lambda>m r h v. (None, v)), out_catalog = None, out_prepare = None,
     out_simulate = (\<lambda>r v. (Inl (Errorf ''no simulator'' []), v)), out_now = (\<lambda>v. (fzero, v)), out_ctxErr = (\<lambda>v. None),
     out_wait = (\<lambda>v. (None, v)), out_range = (\<lambda>v ks. ks), out_readErr = (\<lambda>v. None),
     out_env = (\<lambda>v. (sample_env\<lparr>tx_newID := (\<lambda>n. ''id'' @ itoa (int v) @ ''-'' @ itoa (int n))\<rparr>, v + 1))\<rparr>"

lemma empty_ids_agree: "ids_agree db_handle (empty_db, v)"
  by (simp add: ids_agree_def empty_db_def)

text \<open>
  C11. A run never panics: with any runtimes, preparation, simulator, clock and database failures,
  \<^verbatim>\<open>Execute\<close> over the SQLite repository and the activity controller returns a trace or an error. Neither
  the slice of the ready activities nor a nil handle or gate is ever out of bounds or dereferenced,
  provided the stored handles stand under their identifiers.
\<close>

theorem run_never_panics:
  assumes "supervisor_Execute fuel (sqlite_supervisor out poll parallel) request (db, v) = Some (r, w')"
    and "ids_agree db_handle (db, v)"
  shows "\<not> is_panic r"
proof -
  let ?sv = "sqlite_supervisor out poll parallel"
  define req where "req = request\<lparr>er_Run := (er_Run request)\<lparr>run_SchedulePlanID := plan_ID (er_Plan request),
    run_Status := ExecutionRunRunning\<rparr>\<rparr>"
  obtain e w1 where c: "xs_CreateRun (sup_executions ?sv) (er_Run req) (db, v) = (e, w1)" by (metis surj_pair)
  have "db_handle w1 = db_handle (db, v)"
    using c runs_CreateRun_handles [of "fst (out_env out v)" "er_Run req" db]
    by (auto simp: sqlite_supervisor_def on_db_def split: prod.splits)
  then have "ids_agree db_handle w1" using assms(2) by (simp add: ids_agree_def)
  then have a: "executeActivities fuel ?sv req w1 = Some (x, w2) \<Longrightarrow> \<not> is_panic x" for x w2
    by (rule executeActivities_no_panic [rotated])
  have s: "\<not> is_panic (fst (sup_simulation ?sv req w1))" by (simp add: sqlite_supervisor_def fst_on_outside)
  show ?thesis
    using assms(1) c a s unfolding supervisor_Execute_def Let_def req_def [symmetric]
    by (auto simp: fail_run_def split: option.splits prod.splits result.splits if_splits)
qed

lemma demo_run_ok:
  "\<exists>trace w'. supervisor_Execute 4 (sqlite_supervisor demo_outside 1 1) demo_request (empty_db, 0) = Some (Ok trace, w')"
proof -
  have "(case supervisor_Execute 4 (sqlite_supervisor demo_outside 1 1) demo_request (empty_db, 0) of
      Some (Ok trace, w') \<Rightarrow> True | _ \<Rightarrow> False)" by code_simp
  then show ?thesis by (auto split: option.splits prod.splits result.splits)
qed

theorem run_never_panics_witness:
  "\<exists>r w'. supervisor_Execute 4 (sqlite_supervisor demo_outside 1 1) demo_request (empty_db, 0) = Some (r, w') \<and> \<not> is_panic r"
proof -
  obtain trace w' where t: "supervisor_Execute 4 (sqlite_supervisor demo_outside 1 1) demo_request (empty_db, 0) = Some (Ok trace, w')"
    using demo_run_ok by metis
  show ?thesis using run_never_panics [OF t empty_ids_agree] t by (intro exI conjI)
qed

text \<open>What the database says of a run that has ended.\<close>

definition outcome_recorded :: "string \<Rightarrow> ExecDB \<Rightarrow> ExecDB \<Rightarrow> ExecutionTrace result \<Rightarrow> bool" where
  "outcome_recorded ident db db' r \<longleftrightarrow>
     (\<forall>trace. r = Ok trace \<longrightarrow> (\<exists>row. map_of (db_runs db') ident = Some row \<and> rr_Status row = ExecutionRunCompleted \<and>
        rr_MakespanSeconds row = met_MakespanSeconds (tra_Executed trace) \<and> rr_Cost row = met_Cost (tra_Executed trace))) \<and>
     (\<forall>e. r = Err e \<longrightarrow> db' = db \<or>
        (\<exists>row. map_of (db_runs db') ident = Some row \<and> rr_Status row = ExecutionRunFailed \<and> rr_FailureReason row = error_text e) \<or>
        (\<exists>env dropped. runs_FailRun env ident (error_text e) db' = (Some dropped, db')))"

lemma fail_run_recorded:
  assumes "fail_run (sqlite_supervisor out poll parallel) ident e w = (r, db', v')"
  shows "outcome_recorded ident db db' r"
proof -
  obtain x db3 where x: "runs_FailRun (fst (out_env out (snd w))) ident (error_text e) (fst w) = (x, db3)" by fastforce
  have r: "r = Err e" "db' = db3"
    using assms x by (auto simp: fail_run_def sqlite_supervisor_def on_db_def split: prod.splits)
  show ?thesis
  proof (cases x)
    case None
    then show ?thesis using r runs_FailRun_done x by (auto simp: outcome_recorded_def)
  next
    case (Some d)
    then have "db3 = fst w" using x unfolding runs_FailRun_def by (auto elim: transaction_cases)
    then show ?thesis using r x Some by (auto simp: outcome_recorded_def)
  qed
qed

lemma complete_run_recorded:
  assumes "xs_CompleteRun (sup_executions (sqlite_supervisor out poll parallel)) trace w = (None, db', v')" and "tra_RunID trace = ident"
  shows "outcome_recorded ident db db' (Ok trace)"
proof -
  have "runs_CompleteRun (fst (out_env out (snd w))) trace (fst w) = (None, db')"
    using assms(1) by (auto simp: sqlite_supervisor_def on_db_def split: prod.splits)
  then show ?thesis using assms(2) runs_CompleteRun_done by (fastforce simp: outcome_recorded_def)
qed

lemma create_run_failed:
  assumes "xs_CreateRun (sup_executions (sqlite_supervisor out poll parallel)) run (db, v) = (Some e, w)"
  shows "fst w = db"
proof -
  have "runs_CreateRun (fst (out_env out v)) run db = (Some e, fst w)"
    using assms by (auto simp: sqlite_supervisor_def on_db_def split: prod.splits)
  then show ?thesis unfolding runs_CreateRun_def by (auto elim: transaction_cases)
qed

lemma execute_recorded:
  assumes "supervisor_Execute fuel (sqlite_supervisor out poll parallel) request (db, v) = Some (r, db', v')"
    and "run_Mode (er_Run request) = ExecutionModeReal"
  shows "outcome_recorded (run_ID (er_Run request)) db db' r"
proof -
  let ?sv = "sqlite_supervisor out poll parallel"
  define req where "req = request\<lparr>er_Run := (er_Run request)\<lparr>run_SchedulePlanID := plan_ID (er_Plan request),
    run_Status := ExecutionRunRunning\<rparr>\<rparr>"
  have id: "run_ID (er_Run req) = run_ID (er_Run request)" "run_Mode (er_Run req) = ExecutionModeReal"
    using assms(2) by (simp_all add: req_def)
  obtain c w1 where c: "xs_CreateRun (sup_executions ?sv) (er_Run req) (db, v) = (c, w1)" by (metis surj_pair)
  consider (refused) "validateRequest req \<noteq> None \<or> c \<noteq> None" | (begun) "validateRequest req = None" "c = None" by blast
  then show ?thesis
  proof cases
    case refused
    then have "(\<exists>e. r = Err e) \<and> db' = db"
      using assms(1) c create_run_failed [of out poll parallel "er_Run req" db v _ w1]
      by (auto simp: supervisor_Execute_def Let_def req_def [symmetric] split: option.splits)
    then show ?thesis by (auto simp: outcome_recorded_def)
  next
    case begun
    note run = assms(1) [unfolded supervisor_Execute_def Let_def, folded req_def, unfolded begun c id, simplified]
    obtain x w2 where a: "executeActivities fuel ?sv req w1 = Some (x, w2)" using run by (auto split: option.splits)
    show ?thesis
    proof (cases x)
      case (Ok trace)
      have t: "tra_RunID trace = run_ID (er_Run request)" using a Ok id exec_loop_RunID unfolding executeActivities_def by metis
      obtain y w3 where y: "xs_CompleteRun (sup_executions ?sv) trace w2 = (y, w3)" by (metis surj_pair)
      show ?thesis
      proof (cases y)
        case None
        then show ?thesis using run a Ok y t complete_run_recorded [of out poll parallel trace w2] by (simp add: id)
      next
        case (Some e)
        then show ?thesis using run a Ok y fail_run_recorded [of out poll parallel _ _ w3] by (simp add: id)
      qed
    next
      case (Err e)
      then show ?thesis using run a fail_run_recorded [of out poll parallel _ e w2] by (simp add: id)
    next
      case (Panic p)
      then show ?thesis using run a by (auto simp: outcome_recorded_def)
    qed
  qed
qed



section \<open>The controller\<close>


definition demo_context :: ActivityExecutionContext where
  "demo_context = \<lparr>ctx_Run = demo_run, ctx_Workflow = demo_workflow, ctx_Activity = demo_activity ''a'',
     ctx_Assignment = demo_assignment ''a'' 0, ctx_Resource = demo_resource, ctx_RuntimeID = ''rt'', ctx_Preparation = None\<rparr>"




section \<open>The request\<close>

text \<open>A binding that can serve an assignment: of its resource, enabled, with a runtime of the mode of the run, and the planned one if one is planned.\<close>

definition serves :: "ExecutionRequest \<Rightarrow> PlanAssignment \<Rightarrow> ResourceRuntimeBinding \<Rightarrow> bool" where
  "serves request asg b \<longleftrightarrow> bind_ResourceID b = asg_ResourceID asg \<and> bind_Enabled b \<and>
     (\<exists>rt. last_with ert_ID (er_Runtimes request) (bind_RuntimeID b) = Some rt \<and>
        ert_Mode rt = (if run_Mode (er_Run request) = ExecutionModeSimulation then RuntimeModeSimulation else RuntimeModeExecution) \<and>
        (meta_string (asg_Metadata asg) ''runtimeId'' = '''' \<or> meta_string (asg_Metadata asg) ''runtimeId'' = bind_RuntimeID b))"

lemma last_with_key: "last_with f xs k = Some x \<Longrightarrow> f x = k"
  by (auto simp: last_with_def find_Some_iff split: option.splits)

lemma select_loop_first:
  assumes "\<And>k rt. map_of runtimes k = Some rt \<Longrightarrow> ert_ID rt = k"
  shows "select_loop mode runtimes resourceID chosen bs =
    (case find (\<lambda>b. bind_ResourceID b = resourceID \<and> bind_Enabled b \<and>
        (\<exists>rt. map_of runtimes (bind_RuntimeID b) = Some rt \<and> ert_Mode rt = mode \<and>
           (chosen = '''' \<or> chosen = bind_RuntimeID b))) bs of
       None \<Rightarrow> '''' | Some b \<Rightarrow> bind_RuntimeID b)"
proof (induction bs)
  case (Cons b bs)
  then show ?case using assms by (cases "map_of runtimes (bind_RuntimeID b)") auto
qed simp

text \<open>
  The runtime of an assignment is the one of the first binding that can serve it, in the order of the
  request; there is none exactly when no binding can, and a planned runtime is never replaced.
\<close>

theorem runtime_selected:
  "selectRuntime request asg =
     (case find (serves request asg) (er_RuntimeBindings request) of None \<Rightarrow> '''' | Some b \<Rightarrow> bind_RuntimeID b)"
proof -
  have "ert_ID rt = k" if "map_of (index_by ert_ID (er_Runtimes request)) k = Some rt" for k rt
    using that last_with_key by (simp add: map_of_index_by)
  then show ?thesis
    unfolding selectRuntime_def Let_def
    by (subst select_loop_first) (auto simp: serves_def [abs_def] map_of_index_by)
qed

text \<open>
  \<^verbatim>\<open>validateRequest\<close> compares numbers: a plan that assigns one activity twice and another not at all
  is accepted, although the error it would report says that a plan must assign every activity exactly once.
\<close>

definition doubled_request :: ExecutionRequest where
  "doubled_request = demo_request\<lparr>er_Plan := demo_plan\<lparr>plan_Assignments := [demo_assignment ''a'' 0, demo_assignment ''a'' 1]\<rparr>\<rparr>"

theorem doubled_plan_accepted:
  "validateRequest doubled_request = None \<and>
   \<not> act_ID ` set (wfv_Activities (er_Workflow doubled_request)) \<subseteq> asg_ActivityID ` set (plan_Assignments (er_Plan doubled_request))"
proof
  show "validateRequest doubled_request = None" by code_simp
  show "\<not> act_ID ` set (wfv_Activities (er_Workflow doubled_request)) \<subseteq> asg_ActivityID ` set (plan_Assignments (er_Plan doubled_request))"
    by code_simp
qed

section \<open>Logs\<close>

lemma contains_append: "contains (xs @ p @ ys) p"
proof (induction xs)
  case Nil
  have "take (length p) (p @ ys) = p" by simp
  then show ?case by (cases "p @ ys") (auto simp: has_prefix_def)
qed simp

lemma contains_entry: "message \<noteq> '''' \<Longrightarrow> contains (appendLog lg level message) (log_entry level message)"
  using contains_append [of "[]" "log_entry level message" "[newline]"]
    contains_append [of "trim_right_nl lg @ [newline]" "log_entry level message" "[newline]"]
  by (auto simp: appendLog_def Let_def)

text \<open>
  The activity log is append-only and has no duplicate entries: the log keeps its text up to
  trailing newlines, a message that is not empty is in it afterwards, and adding it again changes nothing.
\<close>

theorem appendLog_once:
  "appendLog (appendLog lg level message) level message = appendLog lg level message \<and>
   has_prefix (appendLog lg level message) (trim_right_nl lg) \<and>
   (message = '''' \<or> contains (appendLog lg level message) (log_entry level message))"
proof (intro conjI)
  show "appendLog (appendLog lg level message) level message = appendLog lg level message"
    using contains_entry [of message lg level] by (cases "message = ''''") (simp_all add: appendLog_def Let_def)
  have "has_prefix lg (trim_right_nl lg)"
  proof -
    have "rev (takeWhile (\<lambda>c. c = newline) (rev lg) @ dropWhile (\<lambda>c. c = newline) (rev lg)) = lg" by simp
    then have "lg = trim_right_nl lg @ rev (takeWhile (\<lambda>c. c = newline) (rev lg))" unfolding trim_right_nl_def rev_append by simp
    then show ?thesis unfolding has_prefix_def by (metis append_eq_conv_conj)
  qed
  then show "has_prefix (appendLog lg level message) (trim_right_nl lg)"
    by (auto simp: appendLog_def Let_def has_prefix_def trim_right_nl_def)
qed (use contains_entry in blast)

end
