(* ===== verification/Network_Path.thy ===== *)
theory Network_Path
  imports Execution_Domain
begin

text \<open>
  The shortest path search of the simulator: \<^verbatim>\<open>resolveNetworkPath\<close> of
  \<^verbatim>\<open>internal/provider/simgrid/simulation_executor.go\<close> and \<^verbatim>\<open>shortestLinkPath\<close> of
  \<^verbatim>\<open>internal/provider/simgrid/platform.go\<close>. They are one algorithm that keeps for each node the
  distance and, in the first, the price of the path and, in the second, its links; \<open>dijkstra\<close> is
  that algorithm over a description of the edges. The nodes are visited in the order of a Go map,
  which may differ in every round. Distances are sums of \<^verbatim>\<open>float64\<close>, so that a shortest path is one
  whose rounded sum, from the source on, is least.
\<close>

section \<open>The search\<close>

record ('e, 'p) Search =
  se_to :: "'e \<Rightarrow> string"
  se_weight :: "'e \<Rightarrow> float64"
  se_extend :: "'p \<Rightarrow> 'e \<Rightarrow> 'p"
  se_better :: "float64 \<Rightarrow> float64 \<Rightarrow> bool"

definition dist_of :: "(string, float64) gomap \<Rightarrow> string \<Rightarrow> float64" where
  "dist_of distance v = (case map_of distance v of None \<Rightarrow> fzero | Some d \<Rightarrow> d)"

text \<open>The loop that chooses the nearest node that is not visited; the empty string is no choice.\<close>

fun pick_loop :: "(string, float64) gomap \<Rightarrow> string list \<Rightarrow> string list \<Rightarrow> string \<Rightarrow> string" where
  "pick_loop distance visited [] current = current"
| "pick_loop distance visited (node # nodes) current =
     (if node \<notin> set visited \<and> (current = '''' \<or> flt (dist_of distance node) (dist_of distance current))
      then pick_loop distance visited nodes node
      else pick_loop distance visited nodes current)"

fun relax_edges ::
  "('e, 'p) Search \<Rightarrow> 'p \<Rightarrow> string \<Rightarrow> 'e list \<Rightarrow> (string, float64) gomap \<Rightarrow> (string, 'p) gomap \<Rightarrow>
   (string, float64) gomap \<times> (string, 'p) gomap"
where
  "relax_edges s zero current [] distance found = (distance, found)"
| "relax_edges s zero current (e # es) distance found =
     (let candidate = fadd (dist_of distance current) (se_weight s e);
          take_it = (case map_of distance (se_to s e) of None \<Rightarrow> True | Some old \<Rightarrow> se_better s candidate old);
          p = (case map_of found current of None \<Rightarrow> zero | Some p \<Rightarrow> p)
      in if take_it then
           relax_edges s zero current es (put (se_to s e) candidate distance) (put (se_to s e) (se_extend s p e) found)
         else relax_edges s zero current es distance found)"

lemma relax_edges_keys:
  "relax_edges s zero current es distance found = (distance', found') \<Longrightarrow>
     set (keys distance') \<subseteq> set (keys distance) \<union> se_to s ` set es"
proof (induction es arbitrary: distance found)
  case (Cons e es)
  then show ?case by (fastforce simp: Let_def set_keys_put split: if_splits simp del: set_map)
qed simp

lemma pick_loop_in: "pick_loop distance visited nodes current \<in> insert current (set nodes - set visited)"
proof (induction nodes arbitrary: current)
  case (Cons a nodes)
  show ?case using Cons.IH [of a] Cons.IH [of current] by auto
qed simp

definition all_targets :: "('e, 'p) Search \<Rightarrow> (string, 'e list) gomap \<Rightarrow> string set" where
  "all_targets s graph = (\<Union>es \<in> snd ` set graph. se_to s ` set es)"

lemma finite_all_targets [simp]: "finite (all_targets s graph)"
  by (simp add: all_targets_def)

lemma get_list_targets: "se_to s ` set (get_list graph v) \<subseteq> all_targets s graph"
proof (cases "map_of graph v")
  case (Some es)
  then show ?thesis by (force simp: get_list_def all_targets_def dest: map_of_SomeD)
qed (simp add: get_list_def)

function dijkstra ::
  "('e, 'p) Search \<Rightarrow> 'p \<Rightarrow> (string list \<Rightarrow> string list \<Rightarrow> string list) \<Rightarrow> (string, 'e list) gomap \<Rightarrow> string \<Rightarrow>
   (string, float64) gomap \<Rightarrow> (string, 'p) gomap \<Rightarrow> string list \<Rightarrow> (float64 \<times> 'p) option"
where
  "dijkstra s zero ord graph target distance found visited =
     (let current = pick_loop distance visited (in_order (ord visited) (keys distance)) '''' in
      if current = '''' then None
      else if current = target then
        Some (dist_of distance current, case map_of found current of None \<Rightarrow> zero | Some p \<Rightarrow> p)
      else let (distance', found') = relax_edges s zero current (get_list graph current) distance found
           in dijkstra s zero ord graph target distance' found' (current # visited))"
  by pat_completeness auto

termination
proof (relation "measure (\<lambda>(s, zero, ord, graph, target, distance, found, visited).
    card ((set (keys distance) \<union> all_targets s graph) - set visited))", goal_cases)
  case 1
  then show ?case by simp
next
  case (2 s zero ord graph target distance found visited current x distance' found')
  have cur: "current \<in> set (keys distance) - set visited"
    using pick_loop_in [of distance visited "in_order (ord visited) (keys distance)" "''''"] 2(1,2) by (simp del: set_map)
  have sub: "set (keys distance') \<union> all_targets s graph \<subseteq> set (keys distance) \<union> all_targets s graph"
    using relax_edges_keys [OF sym [OF trans [OF 2(5,4)]]] get_list_targets [of s graph current] by blast
  have "(set (keys distance') \<union> all_targets s graph) - set (current # visited) \<subset>
      (set (keys distance) \<union> all_targets s graph) - set visited"
    using sub cur by (auto simp del: set_map)
  then have "card ((set (keys distance') \<union> all_targets s graph) - set (current # visited)) <
      card ((set (keys distance) \<union> all_targets s graph) - set visited)" by (intro psubset_card_mono) simp_all
  then show ?case by (simp del: set_map)
qed

declare dijkstra.simps [simp del]

section \<open>Walks\<close>

text \<open>A node that can be reached from the source, with the rounded length and the payload of a walk to it.\<close>

inductive walk :: "('e, 'p) Search \<Rightarrow> 'p \<Rightarrow> (string, 'e list) gomap \<Rightarrow> string \<Rightarrow> string \<Rightarrow> float64 \<Rightarrow> 'p \<Rightarrow> bool"
  for s zero graph source where
  walk_start: "walk s zero graph source source fzero zero"
| walk_step: "walk s zero graph source u d p \<Longrightarrow> e \<in> set (get_list graph u) \<Longrightarrow>
    walk s zero graph source (se_to s e) (fadd d (se_weight s e)) (se_extend s p e)"

text \<open>The edges a search is meant for: weights that are not negative, and a comparison that is the order.\<close>

definition sound_search :: "('e, 'p) Search \<Rightarrow> (string, 'e list) gomap \<Rightarrow> bool" where
  "sound_search s graph \<longleftrightarrow>
     (\<forall>v. \<forall>e \<in> set (get_list graph v). fle fzero (se_weight s e) \<and> se_to s e \<noteq> '''') \<and>
     (\<forall>a b. fle fzero a \<longrightarrow> fle fzero b \<longrightarrow> se_better s a b = flt a b)"

lemma fle_PosInf: "x \<noteq> NaN \<Longrightarrow> fle x PosInf"
  by (cases x) (simp_all add: fle_def)

lemma fadd_mono:
  assumes "fle fzero x" and "fle x y" and "fle fzero w"
  shows "fle (fadd x w) (fadd y w)"
proof (cases "\<exists>a b c. x = Fin a \<and> y = Fin b \<and> w = Fin c")
  case True
  then show ?thesis using assms(2) by (auto simp: fle_def [of "Fin _" "Fin _"] intro!: fround_mono)
next
  case False
  have "fle fzero y" using assms(1,2) by (rule fle_trans)
  with False assms show ?thesis by (cases x; cases y; cases w; simp add: fle_def [of fzero] fle_PosInf) (simp_all add: fle_def)
qed

lemma walk_value: "walk s zero graph source v d p \<Longrightarrow> sound_search s graph \<Longrightarrow> fle fzero d \<and> is_f64 d"
proof (induction rule: walk.induct)
  case walk_start
  then show ?case using fzero_f64 by (simp add: fle_def del: is_f64.simps)
next
  case (walk_step u d p e)
  then show ?case by (auto simp: sound_search_def intro: fadd_nonneg)
qed

section \<open>The invariant of the search\<close>

definition search_inv ::
  "('e, 'p) Search \<Rightarrow> 'p \<Rightarrow> (string, 'e list) gomap \<Rightarrow> string \<Rightarrow> string \<Rightarrow> (string, float64) gomap \<Rightarrow> (string, 'p) gomap \<Rightarrow>
   string list \<Rightarrow> bool"
where
  "search_inv s zero graph source target distance found visited \<longleftrightarrow>
     target \<notin> set visited \<and> (\<exists>d. map_of distance source = Some d \<and> fle d fzero) \<and>
     (\<forall>v d. map_of distance v = Some d \<longrightarrow> v \<noteq> '''' \<and> (\<exists>p. map_of found v = Some p \<and> walk s zero graph source v d p)) \<and>
     (\<forall>u \<in> set visited. \<exists>d. map_of distance u = Some d \<and>
        (\<forall>e \<in> set (get_list graph u). \<exists>d'. map_of distance (se_to s e) = Some d' \<and> fle d' (fadd d (se_weight s e))) \<and>
        (\<forall>v d'. v \<notin> set visited \<longrightarrow> map_of distance v = Some d' \<longrightarrow> fle d d'))"

text \<open>What one round of relaxations does to the maps.\<close>

lemma relax_edges_spec:
  assumes "relax_edges s zero current es distance found = (distance', found')" and "sound_search s graph"
    and "set es \<subseteq> set (get_list graph current)" and "map_of distance current = Some c" and "fle fzero c" and "is_f64 c"
    and "map_of found current = Some p" and "\<forall>v d. map_of distance v = Some d \<longrightarrow> fle fzero d"
  shows "map_of distance' current = Some c \<and> map_of found' current = Some p \<and>
    (\<forall>v d. map_of distance v = Some d \<longrightarrow> (\<exists>d'. map_of distance' v = Some d' \<and> fle d' d)) \<and>
    (\<forall>e \<in> set es. \<exists>d'. map_of distance' (se_to s e) = Some d' \<and> fle d' (fadd c (se_weight s e))) \<and>
    (\<forall>v d'. map_of distance' v = Some d' \<longrightarrow>
       map_of distance v = Some d' \<and> map_of found' v = map_of found v \<or>
       (\<exists>e \<in> set es. v = se_to s e \<and> d' = fadd c (se_weight s e) \<and> map_of found' v = Some (se_extend s p e) \<and>
          (\<forall>d. map_of distance v = Some d \<longrightarrow> flt d' d)))"
  using assms
proof (induction es arbitrary: distance found)
  case Nil
  then show ?case using fle_refl fle_not_NaN by fastforce
next
  case (Cons e es)
  let ?w = "fadd c (se_weight s e)" and ?to = "se_to s e"
  have nonneg: "fle fzero (se_weight s e)" using Cons.prems(2,3) by (auto simp: sound_search_def)
  then have ge: "fle c ?w" and w0: "fle fzero ?w" using fadd_ge fadd_nonneg Cons.prems(5,6) by blast+
  have cur: "dist_of distance current = c" using Cons.prems(4) by (simp add: dist_of_def)
  show ?case
  proof (cases "\<exists>old. map_of distance ?to = Some old \<and> \<not> flt ?w old")
    case True
    then obtain old where old: "map_of distance ?to = Some old" "\<not> flt ?w old" by blast
    have "fle fzero old" using Cons.prems(8) old(1) by blast
    then have "fle old ?w" using old(2) w0 not_flt_fle fle_not_NaN by blast
    have "\<not> se_better s ?w old" using old(2) w0 \<open>fle fzero old\<close> Cons.prems(2) by (simp add: sound_search_def)
    then have "relax_edges s zero current es distance found = (distance', found')"
      using Cons.prems(1) old(1) by (simp add: Let_def cur)
    from Cons.IH [OF this Cons.prems(2) _ Cons.prems(4-8)] Cons.prems(3) have ih:
      "map_of distance' current = Some c \<and> map_of found' current = Some p \<and>
      (\<forall>v d. map_of distance v = Some d \<longrightarrow> (\<exists>d'. map_of distance' v = Some d' \<and> fle d' d)) \<and>
      (\<forall>e \<in> set es. \<exists>d'. map_of distance' (se_to s e) = Some d' \<and> fle d' (fadd c (se_weight s e))) \<and>
      (\<forall>v d'. map_of distance' v = Some d' \<longrightarrow>
       map_of distance v = Some d' \<and> map_of found' v = map_of found v \<or>
       (\<exists>e \<in> set es. v = se_to s e \<and> d' = fadd c (se_weight s e) \<and> map_of found' v = Some (se_extend s p e) \<and>
          (\<forall>d. map_of distance v = Some d \<longrightarrow> flt d' d)))" by simp
    moreover obtain d' where "map_of distance' ?to = Some d'" "fle d' old" using ih old(1) by blast
    moreover have "fle d' ?w" using \<open>fle d' old\<close> \<open>fle old ?w\<close> by (rule fle_trans)
    ultimately show ?thesis by auto
  next
    case False
    then have taken: "map_of distance ?to = None \<or> (\<exists>old. map_of distance ?to = Some old \<and> flt ?w old)" by (cases "map_of distance ?to") auto
    then have ne: "?to \<noteq> current" using Cons.prems(4) ge fle_not_flt by auto
    let ?d = "put ?to ?w distance" and ?f = "put ?to (se_extend s p e) found"
    have r: "relax_edges s zero current es ?d ?f = (distance', found')"
      using Cons.prems(1,2,7,8) taken w0 by (auto simp: Let_def cur sound_search_def split: option.splits if_splits)
    have 0: "\<forall>v d. map_of ?d v = Some d \<longrightarrow> fle fzero d" using Cons.prems(8) w0 by auto
    from Cons.IH [OF r Cons.prems(2) _ _ Cons.prems(5,6) _ 0] Cons.prems(3,4,7) ne have ih:
      "map_of distance' current = Some c \<and> map_of found' current = Some p \<and>
      (\<forall>v d. map_of ?d v = Some d \<longrightarrow> (\<exists>d'. map_of distance' v = Some d' \<and> fle d' d)) \<and>
      (\<forall>e \<in> set es. \<exists>d'. map_of distance' (se_to s e) = Some d' \<and> fle d' (fadd c (se_weight s e))) \<and>
      (\<forall>v d'. map_of distance' v = Some d' \<longrightarrow>
       map_of ?d v = Some d' \<and> map_of found' v = map_of ?f v \<or>
       (\<exists>e \<in> set es. v = se_to s e \<and> d' = fadd c (se_weight s e) \<and> map_of found' v = Some (se_extend s p e) \<and>
          (\<forall>d. map_of ?d v = Some d \<longrightarrow> flt d' d)))" by simp
    have grow: "\<exists>d'. map_of distance' v = Some d' \<and> fle d' d" if "map_of distance v = Some d" for v d
    proof (cases "v = ?to")
      case True
      then have "flt ?w d" using that taken by auto
      then show ?thesis using ih True flt_fle fle_trans by (metis map_of_put)
    qed (use ih that in simp)
    have new: "map_of distance v = Some d' \<and> map_of found' v = map_of found v \<or>
       (\<exists>e' \<in> set (e # es). v = se_to s e' \<and> d' = fadd c (se_weight s e') \<and> map_of found' v = Some (se_extend s p e') \<and>
          (\<forall>d. map_of distance v = Some d \<longrightarrow> flt d' d))" if "map_of distance' v = Some d'" for v d'
    proof (cases "v = ?to")
      case True
      from ih that have "map_of ?d v = Some d' \<and> map_of found' v = map_of ?f v \<or>
         (\<exists>e' \<in> set es. v = se_to s e' \<and> d' = fadd c (se_weight s e') \<and> map_of found' v = Some (se_extend s p e') \<and>
            (\<forall>d. map_of ?d v = Some d \<longrightarrow> flt d' d))" by blast
      then show ?thesis
      proof
        assume "map_of ?d v = Some d' \<and> map_of found' v = map_of ?f v"
        then show ?thesis using True taken by auto
      next
        assume "\<exists>e' \<in> set es. v = se_to s e' \<and> d' = fadd c (se_weight s e') \<and> map_of found' v = Some (se_extend s p e') \<and>
            (\<forall>d. map_of ?d v = Some d \<longrightarrow> flt d' d)"
        then obtain e' where e': "e' \<in> set es" "v = se_to s e'" "d' = fadd c (se_weight s e')"
          "map_of found' v = Some (se_extend s p e')" "flt d' ?w" using True by auto
        have "flt d' d" if "map_of distance v = Some d" for d using that True taken flt_trans [OF e'(5)] by auto
        then show ?thesis using e' by auto
      qed
    qed (use ih that in fastforce)
    show ?thesis using ih grow new by auto
  qed
qed

text \<open>The chosen node is nearest among those that are not visited.\<close>

lemma pick_loop_least:
  assumes "\<forall>v \<in> set nodes. v \<noteq> '''' \<and> dist_of distance v \<noteq> NaN" and "current \<noteq> '''' \<Longrightarrow> dist_of distance current \<noteq> NaN"
  shows "(pick_loop distance visited nodes current = '''' \<longrightarrow> current = '''' \<and> set nodes \<subseteq> set visited) \<and>
    (\<forall>v \<in> set nodes - set visited. fle (dist_of distance (pick_loop distance visited nodes current)) (dist_of distance v)) \<and>
    (current \<noteq> '''' \<longrightarrow> fle (dist_of distance (pick_loop distance visited nodes current)) (dist_of distance current))"
  using assms
proof (induction nodes arbitrary: current)
  case Nil
  then show ?case by (auto intro: fle_refl)
next
  case (Cons a nodes)
  have a: "a \<noteq> ''''" "dist_of distance a \<noteq> NaN" using Cons.prems(1) by auto
  show ?case
  proof (cases "a \<notin> set visited \<and> (current = '''' \<or> flt (dist_of distance a) (dist_of distance current))")
    case True
    note ih = Cons.IH [of a]
    have "fle (dist_of distance (pick_loop distance visited nodes a)) (dist_of distance a)" using ih Cons.prems(1) a by simp
    then have "fle (dist_of distance (pick_loop distance visited nodes a)) (dist_of distance current)" if "current \<noteq> ''''"
      using True that flt_fle fle_trans by blast
    then show ?thesis using ih Cons.prems(1) True a by auto
  next
    case False
    note ih = Cons.IH [of current, OF _ Cons.prems(2)]
    have "fle (dist_of distance (pick_loop distance visited nodes current)) (dist_of distance a)" if "a \<notin> set visited"
    proof -
      have "current \<noteq> ''''" "fle (dist_of distance current) (dist_of distance a)"
        using False that a Cons.prems(2) not_flt_fle by auto
      moreover have "fle (dist_of distance (pick_loop distance visited nodes current)) (dist_of distance current)"
        using ih Cons.prems(1) calculation(1) by simp
      ultimately show ?thesis using fle_trans by blast
    qed
    then show ?thesis using ih Cons.prems(1) False by auto
  qed
qed

text \<open>The nodes a walk can reach are settled, or at least as far as the node the search has chosen.\<close>

lemma walk_least:
  assumes "walk s zero graph source v d p" and "sound_search s graph"
    and "search_inv s zero graph source target distance found visited"
    and "\<forall>v d. v \<notin> set visited \<longrightarrow> map_of distance v = Some d \<longrightarrow> fle c d"
  shows "(\<exists>d'. v \<in> set visited \<and> map_of distance v = Some d' \<and> fle d' d) \<or>
    fle c d \<and> (\<exists>v. v \<notin> set visited \<and> map_of distance v \<noteq> None)"
  using assms(1)
proof (induction rule: walk.induct)
  case walk_start
  obtain d0 where d0: "map_of distance source = Some d0" "fle d0 fzero" using assms(3) unfolding search_inv_def by blast
  then show ?case using assms(4) fle_trans by (cases "source \<in> set visited") blast+
next
  case (walk_step u d p e)
  have w: "fle fzero (se_weight s e)" using walk_step.hyps(2) assms(2) by (auto simp: sound_search_def)
  have d: "fle fzero d" "is_f64 d" using walk_value [OF walk_step.hyps(1) assms(2)] by auto
  show ?case
  proof (cases "fle c d \<and> (\<exists>v. v \<notin> set visited \<and> map_of distance v \<noteq> None)")
    case True
    then show ?thesis using fadd_ge [OF d(2,1) w] fle_trans by blast
  next
    case False
    then obtain du where du: "u \<in> set visited" "map_of distance u = Some du" "fle du d" using walk_step.IH by auto
    obtain d' where d': "map_of distance (se_to s e) = Some d'" "fle d' (fadd du (se_weight s e))"
      using assms(3) du(1,2) walk_step.hyps(2) unfolding search_inv_def by fastforce
    obtain p' where "walk s zero graph source u du p'" using assms(3) du(2) unfolding search_inv_def by blast
    from walk_value [OF this assms(2)] have "fle fzero du" by blast
    then have "fle d' (fadd d (se_weight s e))" using d'(2) fadd_mono [OF _ du(3) w] fle_trans by blast
    then show ?thesis using d'(1) assms(4) fle_trans by (cases "se_to s e \<in> set visited") blast+
  qed
qed

lemma search_inv_step:
  assumes inv: "search_inv s zero graph source target distance found visited" and sound: "sound_search s graph"
    and cur: "current \<notin> set visited" "current \<noteq> target" "map_of distance current = Some c"
    and least: "\<And>v d. v \<notin> set visited \<Longrightarrow> map_of distance v = Some d \<Longrightarrow> fle c d"
    and relax: "relax_edges s zero current (get_list graph current) distance found = (distance', found')"
  shows "search_inv s zero graph source target distance' found' (current # visited)"
proof -
  have known: "v \<noteq> '''' \<and> (\<exists>p. map_of found v = Some p \<and> walk s zero graph source v d p)" if "map_of distance v = Some d" for v d
    using inv that unfolding search_inv_def by blast
  have nonneg: "fle fzero d \<and> is_f64 d" if "map_of distance v = Some d" for v d
    using known [OF that] walk_value sound by metis
  obtain p where p: "map_of found current = Some p" "walk s zero graph source current c p" using known [OF cur(3)] by blast
  have c: "fle fzero c" "is_f64 c" using nonneg [OF cur(3)] by auto
  note spec = relax_edges_spec [OF relax sound subset_refl cur(3) c p(1)]
  have keep: "map_of distance' current = Some c"
    and shrink: "\<And>v d. map_of distance v = Some d \<Longrightarrow> \<exists>d'. map_of distance' v = Some d' \<and> fle d' d"
    and relaxed: "\<And>e. e \<in> set (get_list graph current) \<Longrightarrow>
      \<exists>d'. map_of distance' (se_to s e) = Some d' \<and> fle d' (fadd c (se_weight s e))"
    and origin: "\<And>v d'. map_of distance' v = Some d' \<Longrightarrow>
       map_of distance v = Some d' \<and> map_of found' v = map_of found v \<or>
       (\<exists>e \<in> set (get_list graph current). v = se_to s e \<and> d' = fadd c (se_weight s e) \<and>
          map_of found' v = Some (se_extend s p e) \<and> (\<forall>d. map_of distance v = Some d \<longrightarrow> flt d' d))"
    using spec nonneg by blast+
  have far: "fle c (fadd c (se_weight s e)) \<and> se_to s e \<noteq> ''''" if "e \<in> set (get_list graph current)" for e
    using fadd_ge [OF c(2,1)] sound that unfolding sound_search_def by blast
  have beyond: "fle x d'" if "map_of distance' v = Some d'" "\<And>d. map_of distance v = Some d \<Longrightarrow> fle x d" "fle x c" for x v d'
    using origin [OF that(1)] that(2,3) far fle_trans by blast
  obtain d0 where d0: "map_of distance source = Some d0" "fle d0 fzero" using inv unfolding search_inv_def by blast
  have "\<exists>d. map_of distance' source = Some d \<and> fle d fzero" using shrink [OF d0(1)] d0(2) fle_trans by blast
  moreover have "v \<noteq> '''' \<and> (\<exists>p. map_of found' v = Some p \<and> walk s zero graph source v d p)" if vd: "map_of distance' v = Some d" for v d
  proof -
    consider "map_of distance v = Some d" "map_of found' v = map_of found v"
      | e where "e \<in> set (get_list graph current)" "v = se_to s e" "d = fadd c (se_weight s e)" "map_of found' v = Some (se_extend s p e)"
      using origin [OF vd] by blast
    then show ?thesis
    proof cases
      case 1
      then show ?thesis using known [OF 1(1)] by simp
    next
      case 2
      then show ?thesis using far [OF 2(1)] walk_step [OF p(2) 2(1)] by simp
    qed
  qed
  moreover have "\<exists>d. map_of distance' u = Some d \<and>
        (\<forall>e \<in> set (get_list graph u). \<exists>d'. map_of distance' (se_to s e) = Some d' \<and> fle d' (fadd d (se_weight s e))) \<and>
        (\<forall>v d'. v \<notin> set (current # visited) \<longrightarrow> map_of distance' v = Some d' \<longrightarrow> fle d d')" if "u \<in> set (current # visited)" for u
  proof (cases "u = current")
    case True
    have "fle c d'" if "v \<notin> set (current # visited)" "map_of distance' v = Some d'" for v d'
      using beyond [OF that(2), of c] least that(1) fle_refl fle_not_NaN [OF c(1)] by auto
    then show ?thesis using True keep relaxed by auto
  next
    case False
    then have "u \<in> set visited" using that by simp
    then obtain du where du: "map_of distance u = Some du" and
      edges: "\<forall>e \<in> set (get_list graph u). \<exists>d'. map_of distance (se_to s e) = Some d' \<and> fle d' (fadd du (se_weight s e))" and
      near: "\<forall>v d'. v \<notin> set visited \<longrightarrow> map_of distance v = Some d' \<longrightarrow> fle du d'"
      using inv unfolding search_inv_def by (elim conjE) (drule (1) bspec, blast)
    have duc: "fle du c" using near cur(1,3) by blast
    obtain d' where d': "map_of distance' u = Some d'" using shrink [OF du] by blast
    have "\<not> flt (fadd c (se_weight s e)) du" if "e \<in> set (get_list graph current)" for e
      using far [OF that] duc fle_trans fle_not_flt by blast
    then have "d' = du" using origin [OF d'] du by auto
    moreover have "\<exists>d'. map_of distance' (se_to s e) = Some d' \<and> fle d' (fadd du (se_weight s e))" if "e \<in> set (get_list graph u)" for e
      using bspec [OF edges that] shrink fle_trans by blast
    moreover have "fle du d'" if "v \<notin> set (current # visited)" "map_of distance' v = Some d'" for v d'
      using beyond [OF that(2), of du] near that(1) duc by auto
    ultimately show ?thesis using d' by blast
  qed
  ultimately show ?thesis using inv cur(2) unfolding search_inv_def by auto
qed

section \<open>Correctness of the search\<close>

lemma dijkstra_correct:
  assumes "sound_search s graph" and "search_inv s zero graph source target distance found visited"
  shows "case dijkstra s zero ord graph target distance found visited of
      Some (d, p) \<Rightarrow> walk s zero graph source target d p \<and> (\<forall>d' p'. walk s zero graph source target d' p' \<longrightarrow> fle d d')
    | None \<Rightarrow> \<not> (\<exists>d p. walk s zero graph source target d p)"
  using assms
proof (induction s zero ord graph target distance found visited rule: dijkstra.induct)
  case (1 s zero ord graph target distance found visited)
  define current where "current = pick_loop distance visited (in_order (ord visited) (keys distance)) ''''"
  have known: "v \<noteq> '''' \<and> dist_of distance v \<noteq> NaN" if "v \<in> set (keys distance)" for v
  proof -
    obtain d where d: "map_of distance v = Some d" using \<open>v \<in> set (keys distance)\<close> by (metis map_of_None_keys not_None_eq)
    then obtain p where "v \<noteq> ''''" "walk s zero graph source v d p" using 1(3) unfolding search_inv_def by blast
    then show ?thesis using d walk_value [OF _ 1(2)] fle_not_NaN by (fastforce simp: dist_of_def)
  qed
  have least: "(current = '''' \<longrightarrow> set (keys distance) \<subseteq> set visited) \<and>
      (\<forall>v \<in> set (keys distance) - set visited. fle (dist_of distance current) (dist_of distance v))"
    using pick_loop_least [of "in_order (ord visited) (keys distance)" distance "''''" visited] known
    unfolding current_def set_in_order by blast
  have not_visited: "target \<notin> set visited" using 1(3) unfolding search_inv_def by blast
  show ?case
  proof (cases "current = ''''")
    case True
    have "\<not> walk s zero graph source target d p" for d p
    proof
      assume w: "walk s zero graph source target d p"
      have "map_of distance v = None" if "v \<notin> set visited" for v
        using least True that by (metis map_of_None_keys subsetD)
      then show False using walk_least [OF w 1(2,3), of NaN] not_visited by auto
    qed
    then show ?thesis using True by (subst dijkstra.simps) (simp add: Let_def flip: current_def)
  next
    case False
    have "current \<in> set (keys distance) - set visited"
      using pick_loop_in [of distance visited "in_order (ord visited) (keys distance)" "''''"] False
      unfolding current_def [symmetric] set_in_order by blast
    then obtain c where c: "map_of distance current = Some c" "current \<notin> set visited" by (metis DiffD1 DiffD2 map_of_None_keys not_None_eq)
    have cd: "dist_of distance current = c" using c by (simp add: dist_of_def)
    have near: "fle c d" if "v \<notin> set visited" "map_of distance v = Some d" for v d
      using least that map_of_Some_keys [OF that(2)] cd by (force simp: dist_of_def)
    show ?thesis
    proof (cases "current = target")
      case True
      obtain p where p: "map_of found target = Some p" "walk s zero graph source target c p"
        using 1(3) c(1) True unfolding search_inv_def by blast
      have "fle c d'" if "walk s zero graph source target d' p'" for d' p'
        using walk_least [OF that 1(2,3), of c] near not_visited by blast
      then have "\<forall>d' p'. walk s zero graph source target d' p' \<longrightarrow> fle c d'" by blast
      then show ?thesis using False True p cd by (subst dijkstra.simps) (simp add: Let_def flip: current_def)
    next
      case ne: False
      obtain distance' found' where r: "relax_edges s zero current (get_list graph current) distance found = (distance', found')"
        by fastforce
      have "search_inv s zero graph source target distance' found' (current # visited)"
        by (rule search_inv_step [OF 1(3,2) c(2) ne c(1) near r])
      from 1(1) [OF current_def False ne r [symmetric] refl 1(2) this] show ?thesis
        using False ne r by (subst dijkstra.simps) (simp add: Let_def flip: current_def)
    qed
  qed
qed

lemma search_inv_init: "source \<noteq> '''' \<Longrightarrow> search_inv s zero graph source target [(source, fzero)] [(source, zero)] []"
  by (auto simp: search_inv_def fle_def intro: walk_start)

end
