(* ===== verification/Network_Routes.thy ===== *)
theory Network_Routes
  imports Network_Path
begin

text \<open>
  The two searches of the SimGrid provider: the route of a transfer with its time and price,
  \<^verbatim>\<open>resolveNetworkPath\<close>, and the links of a route of the platform, \<^verbatim>\<open>shortestLinkPath\<close>. Both are
  instances of the search of the previous theory; here the walks it speaks of are routes over links.
\<close>

section \<open>The path of a transfer\<close>

record edge =
  edge_to :: string
  edge_seconds :: float64
  edge_cost :: float64

definition link_edge :: "int \<Rightarrow> NetworkLink \<Rightarrow> edge" where
  "link_edge bytes l = \<lparr>edge_to = link_TargetResourceID l, edge_seconds = link_TransferSeconds l bytes,
     edge_cost = fmul (f_of_int bytes) (link_PricePerByte l)\<rparr>"

text \<open>The loop that enters a link, and a bidirectional one also in the other direction.\<close>

definition add_link :: "('l \<Rightarrow> string) \<Rightarrow> ('l \<Rightarrow> string) \<Rightarrow> ('l \<Rightarrow> bool) \<Rightarrow> ('l \<Rightarrow> 'e) \<Rightarrow> ('l \<Rightarrow> 'e) \<Rightarrow> 'l \<Rightarrow>
  (string, 'e list) gomap \<Rightarrow> (string, 'e list) gomap"
where
  "add_link src tgt both out back l graph =
     (let g = put (src l) (get_list graph (src l) @ [out l]) graph
      in if both l then put (tgt l) (get_list g (tgt l) @ [back l]) g else g)"

lemma add_links_edges:
  "e \<in> set (get_list (fold (add_link src tgt both out back) ls graph) v) \<longleftrightarrow>
     e \<in> set (get_list graph v) \<or> (\<exists>l \<in> set ls. src l = v \<and> e = out l \<or> both l \<and> tgt l = v \<and> e = back l)"
  by (induction ls arbitrary: graph) (auto simp: add_link_def Let_def)

definition network_graph :: "NetworkLink list \<Rightarrow> int \<Rightarrow> (string, edge list) gomap" where
  "network_graph links bytes =
     fold (add_link link_SourceResourceID link_TargetResourceID link_Bidirectional (link_edge bytes)
       (\<lambda>l. (link_edge bytes l)\<lparr>edge_to := link_SourceResourceID l\<rparr>)) links []"

definition cost_search :: "(edge, float64) Search" where
  "cost_search = \<lparr>se_to = edge_to, se_weight = edge_seconds, se_extend = (\<lambda>c e. fadd c (edge_cost e)), se_better = flt\<rparr>"

definition resolveNetworkPath ::
  "(string list \<Rightarrow> string list \<Rightarrow> string list) \<Rightarrow> NetworkLink list \<Rightarrow> string \<Rightarrow> string \<Rightarrow> int \<Rightarrow> (float64 \<times> float64) option"
where
  "resolveNetworkPath ord links source target bytes =
     dijkstra cost_search fzero ord (network_graph links bytes) target [(source, fzero)] [(source, fzero)] []"

section \<open>The routes of the platform\<close>

record platformEdge =
  pe_target :: string
  pe_linkIndex :: nat
  pe_weight :: float64

text \<open>\<^verbatim>\<open>max\<close> and \<^verbatim>\<open>min\<close> of the package.\<close>

definition max_f :: "float64 \<Rightarrow> float64 \<Rightarrow> float64" where
  "max_f a b = (if flt b a then a else b)"

definition min_f :: "float64 \<Rightarrow> float64 \<Rightarrow> float64" where
  "min_f a b = (if flt a b then a else b)"

definition platform_edge :: "nat \<times> NetworkLink \<Rightarrow> platformEdge" where
  "platform_edge il = (case il of (i, l) \<Rightarrow>
     \<lparr>pe_target = link_TargetResourceID l, pe_linkIndex = i,
      pe_weight = fadd (link_LatencySeconds l) (fdiv (Fin 8) (max_f (link_BandwidthBitsPerSecond l) (Fin 1)))\<rparr>)"

definition platformGraph :: "NetworkLink list \<Rightarrow> (string, platformEdge list) gomap" where
  "platformGraph links =
     fold (add_link (link_SourceResourceID \<circ> snd) (link_TargetResourceID \<circ> snd) (link_Bidirectional \<circ> snd) platform_edge
       (\<lambda>il. (platform_edge il)\<lparr>pe_target := link_SourceResourceID (snd il)\<rparr>)) (enumerate 0 links) []"

definition link_search :: "(platformEdge, nat list) Search" where
  "link_search = \<lparr>se_to = pe_target, se_weight = pe_weight, se_extend = (\<lambda>path e. path @ [pe_linkIndex e]),
     se_better = (\<lambda>candidate previous. \<not> fle previous candidate)\<rparr>"

definition shortestLinkPath ::
  "(string list \<Rightarrow> string list \<Rightarrow> string list) \<Rightarrow> (string, platformEdge list) gomap \<Rightarrow> string \<Rightarrow> string \<Rightarrow> nat list option"
where
  "shortestLinkPath ord graph source target =
     map_option snd (dijkstra link_search [] ord graph target [(source, fzero)] [(source, [])] [])"

section \<open>Routes over links\<close>

text \<open>A link between two resources, in one of its directions.\<close>

definition joins :: "NetworkLink \<Rightarrow> string \<Rightarrow> string \<Rightarrow> bool" where
  "joins l u v \<longleftrightarrow> link_SourceResourceID l = u \<and> link_TargetResourceID l = v \<or>
     link_Bidirectional l \<and> link_TargetResourceID l = u \<and> link_SourceResourceID l = v"

text \<open>A route of \<open>n\<close> bytes from the source: the time and the price are added up hop by hop.\<close>

inductive route :: "NetworkLink list \<Rightarrow> int \<Rightarrow> string \<Rightarrow> string \<Rightarrow> float64 \<Rightarrow> float64 \<Rightarrow> bool" for links bytes source where
  route_start: "route links bytes source source fzero fzero"
| route_hop: "route links bytes source u d c \<Longrightarrow> l \<in> set links \<Longrightarrow> joins l u v \<Longrightarrow>
    route links bytes source v (fadd d (link_TransferSeconds l bytes)) (fadd c (fmul (f_of_int bytes) (link_PricePerByte l)))"

lemma network_graph_edges:
  "e \<in> set (get_list (network_graph links bytes) u) \<longleftrightarrow>
     (\<exists>l \<in> set links. joins l u (edge_to e) \<and> edge_seconds e = link_TransferSeconds l bytes \<and>
        edge_cost e = fmul (f_of_int bytes) (link_PricePerByte l))"
  unfolding network_graph_def add_links_edges by (cases e) (auto simp: joins_def link_edge_def)

lemma walk_route: "walk cost_search fzero (network_graph links bytes) source v d c = route links bytes source v d c"
proof
  show "walk cost_search fzero (network_graph links bytes) source v d c \<Longrightarrow> route links bytes source v d c"
  proof (induction rule: walk.induct)
    case (walk_step u d p e)
    then show ?case using route_hop [of links bytes source u d p _ "edge_to e"] by (auto simp: cost_search_def network_graph_edges)
  qed (rule route_start)
  show "route links bytes source v d c \<Longrightarrow> walk cost_search fzero (network_graph links bytes) source v d c"
  proof (induction rule: route.induct)
    case (route_hop u d c l v)
    let ?e = "\<lparr>edge_to = v, edge_seconds = link_TransferSeconds l bytes, edge_cost = fmul (f_of_int bytes) (link_PricePerByte l)\<rparr>"
    have "?e \<in> set (get_list (network_graph links bytes) u)" using route_hop.hyps by (auto simp: network_graph_edges)
    from walk_step [OF route_hop.IH this] show ?case by (simp add: cost_search_def)
  qed (rule walk_start)
qed

text \<open>Links that a search can be trusted with.\<close>

definition links_ok :: "NetworkLink list \<Rightarrow> int \<Rightarrow> bool" where
  "links_ok links bytes \<longleftrightarrow> (\<forall>l \<in> set links. link_SourceResourceID l \<noteq> '''' \<and> link_TargetResourceID l \<noteq> '''' \<and>
     fle fzero (link_TransferSeconds l bytes))"

lemma cost_search_sound: "links_ok links bytes \<Longrightarrow> sound_search cost_search (network_graph links bytes)"
  by (auto simp: sound_search_def cost_search_def network_graph_edges links_ok_def joins_def)

lemma resolveNetworkPath_correct:
  assumes "links_ok links bytes" and "source \<noteq> ''''"
  shows "case resolveNetworkPath ord links source target bytes of
      Some (d, c) \<Rightarrow> route links bytes source target d c \<and> (\<forall>d' c'. route links bytes source target d' c' \<longrightarrow> fle d d')
    | None \<Rightarrow> \<not> (\<exists>d c. route links bytes source target d c)"
  unfolding resolveNetworkPath_def walk_route [symmetric]
  by (rule dijkstra_correct [OF cost_search_sound [OF assms(1)] search_inv_init [OF assms(2)]])

text \<open>For the platform: the links of a returned path lead from the source to the target.\<close>

inductive link_path :: "NetworkLink list \<Rightarrow> string \<Rightarrow> string \<Rightarrow> nat list \<Rightarrow> bool" for links source where
  link_path_Nil: "link_path links source source []"
| link_path_snoc: "link_path links source u path \<Longrightarrow> i < length links \<Longrightarrow> joins (links ! i) u v \<Longrightarrow>
    link_path links source v (path @ [i])"

lemma ex_enumerate: "(\<exists>x \<in> set (enumerate 0 xs). P x) \<longleftrightarrow> (\<exists>i < length xs. P (i, xs ! i))"
  by (force simp: in_set_enumerate_eq)

lemma platformGraph_edges:
  "e \<in> set (get_list (platformGraph links) u) \<longleftrightarrow>
     pe_linkIndex e < length links \<and> joins (links ! pe_linkIndex e) u (pe_target e) \<and>
     pe_weight e = fadd (link_LatencySeconds (links ! pe_linkIndex e))
       (fdiv (Fin 8) (max_f (link_BandwidthBitsPerSecond (links ! pe_linkIndex e)) (Fin 1)))"
  unfolding platformGraph_def add_links_edges ex_enumerate by (cases e) (auto simp: joins_def platform_edge_def)

lemma walk_link_path:
  "walk link_search [] (platformGraph links) source v d path \<Longrightarrow> link_path links source v path"
proof (induction rule: walk.induct)
  case (walk_step u d p e)
  then show ?case using link_path_snoc [of links source u p "pe_linkIndex e" "pe_target e"]
    by (simp add: link_search_def platformGraph_edges)
qed (rule link_path_Nil)

lemma link_path_walk:
  "link_path links source v path \<Longrightarrow> \<exists>d. walk link_search [] (platformGraph links) source v d path"
proof (induction rule: link_path.induct)
  case (link_path_snoc u path i v)
  then obtain d where d: "walk link_search [] (platformGraph links) source u d path" by blast
  let ?e = "\<lparr>pe_target = v, pe_linkIndex = i, pe_weight = fadd (link_LatencySeconds (links ! i))
       (fdiv (Fin 8) (max_f (link_BandwidthBitsPerSecond (links ! i)) (Fin 1)))\<rparr>"
  have "?e \<in> set (get_list (platformGraph links) u)" using link_path_snoc.hyps by (simp add: platformGraph_edges)
  from walk_step [OF d this] show ?case by (auto simp: link_search_def)
qed (rule exI, rule walk_start)

end
