(* ===== verification/Simulation.thy ===== *)
theory Simulation
  imports Network_Routes Plan_Validator
begin

text \<open>
  The simulator of plans, \<^verbatim>\<open>internal/provider/simgrid/simulation_executor.go\<close>, the input of the
  external runner, \<^verbatim>\<open>runner_contract.go\<close>, and the runtime of a single simulated activity,
  \<^verbatim>\<open>activity_runtime.go\<close>.

  The map of finished tasks is an association list. The loop of \<^verbatim>\<open>simulate\<close> ends, because every
  pass that makes progress finishes an activity that was not finished before. A record of
  iteration orders stands for the order in which Go visits its maps: of the validator, of the lanes,
  of each network search, and of the resources that are billed.
\<close>

record SimOrders =
  so_validator :: "string list \<Rightarrow> string list"
  so_lanes :: "string list \<Rightarrow> string list"
  so_search :: "string \<Rightarrow> string \<Rightarrow> string list \<Rightarrow> string list \<Rightarrow> string list"
  so_billing :: "string list \<Rightarrow> string list"

section \<open>Index of a request\<close>

record indexedRequest =
  ix_resources :: "(string, Resource) gomap"
  ix_assignments :: "(string, PlanAssignment) gomap"
  ix_profiles :: "(string, ActivityResourceProfile) gomap"
  ix_predecessors :: "(string, string list) gomap"
  ix_dataBytes :: "(string, int) gomap"
  ix_lanePrevious :: "(string, string) gomap"

definition pair_key :: "string \<Rightarrow> string \<Rightarrow> string" where
  "pair_key a b = a @ [nul] @ b"

definition int_of_key :: "(string, int) gomap \<Rightarrow> string \<Rightarrow> int" where
  "int_of_key m k = (case map_of m k of None \<Rightarrow> 0 | Some i \<Rightarrow> i)"

definition data_bytes :: "ActivityDataDependency list \<Rightarrow> (string, int) gomap" where
  "data_bytes deps = foldl (\<lambda>m d. let key = pair_key (ddep_ProducerActivityID d) (ddep_ConsumerActivityID d)
     in put key (wrap64 (int_of_key m key + ddep_SizeBytes d)) m) [] deps"

text \<open>The neighbours of a sorted lane. Validated lanes have no two equal orders, so that their sort is unique.\<close>

fun lane_pairs :: "PlanAssignment list \<Rightarrow> (string, string) gomap \<Rightarrow> (string, string) gomap" where
  "lane_pairs (a # b # items) m = lane_pairs (b # items) (put (asg_ActivityID b) (asg_ActivityID a) m)"
| "lane_pairs items m = m"

definition lane_previous :: "(string list \<Rightarrow> string list) \<Rightarrow> PlanAssignment list \<Rightarrow> (string, string) gomap" where
  "lane_previous ord assignments =
     (let byLane = group_by lane (\<lambda>a. a) assignments
      in fold (\<lambda>l m. lane_pairs (sort_key asg_OrderOnResource (get_list byLane l)) m) (in_order ord (keys byLane)) [])"

definition indexRequest :: "(string list \<Rightarrow> string list) \<Rightarrow> ExecutionRequest \<Rightarrow> indexedRequest" where
  "indexRequest ord request =
     \<lparr>ix_resources = index_by res_ID (er_Resources request),
      ix_assignments = index_by asg_ActivityID (plan_Assignments (er_Plan request)),
      ix_profiles = index_by (\<lambda>p. pair_key (prof_ActivityTypeID p) (prof_ResourceID p)) (er_ActivityProfiles request),
      ix_predecessors = group_by dep_ActivityID dep_DependsOnActivityID (wfv_Dependencies (er_Workflow request)),
      ix_dataBytes = data_bytes (wfv_DataDependencies (er_Workflow request)),
      ix_lanePrevious = lane_previous ord (plan_Assignments (er_Plan request))\<rparr>"

section \<open>Durations\<close>

definition resolveAssignmentOverhead :: "PlanAssignment \<Rightarrow> Resource \<Rightarrow> float64" where
  "resolveAssignmentOverhead asg resource =
     (let boot = (case numberMetadata (asg_Metadata asg) ''bootOverheadSeconds'' of
                    Some b \<Rightarrow> b | None \<Rightarrow> res_BootOverheadSeconds resource);
          container = (case numberMetadata (asg_Metadata asg) ''containerOverheadSeconds'' of
                    Some c \<Rightarrow> c | None \<Rightarrow> res_ContainerOverhead resource)
      in fadd boot container)"

definition resolveRuntime :: "Activity \<Rightarrow> Resource \<Rightarrow> (string, ActivityResourceProfile) gomap \<Rightarrow> float64" where
  "resolveRuntime activity resource profiles =
     (case numberMetadata (act_Metadata activity) ''baseRuntimeSeconds'' of
        Some base \<Rightarrow> if flt fzero (res_ComputeSpeedup resource) then fdiv base (res_ComputeSpeedup resource)
                     else (case map_of profiles (pair_key (act_ActivityTypeID activity) (res_ID resource)) of
                             Some p \<Rightarrow> prof_RuntimeSeconds p
                           | None \<Rightarrow> (case act_Simulation activity of Some m \<Rightarrow> sim_DurationSeconds m | None \<Rightarrow> fzero))
      | None \<Rightarrow> (case map_of profiles (pair_key (act_ActivityTypeID activity) (res_ID resource)) of
                    Some p \<Rightarrow> prof_RuntimeSeconds p
                  | None \<Rightarrow> (case act_Simulation activity of Some m \<Rightarrow> sim_DurationSeconds m | None \<Rightarrow> fzero)))"

section \<open>One activity\<close>

definition sim_task :: "(string, TaskExecution) gomap \<Rightarrow> string \<Rightarrow> TaskExecution" where
  "sim_task completed k = (case map_of completed k of None \<Rightarrow> zero_task | Some t \<Rightarrow> t)"

definition allCompleted :: "string list \<Rightarrow> (string, TaskExecution) gomap \<Rightarrow> bool" where
  "allCompleted ids completed \<longleftrightarrow> (\<forall>k \<in> set ids. map_of completed k \<noteq> None)"

definition resource_for :: "indexedRequest \<Rightarrow> PlanAssignment \<Rightarrow> Resource" where
  "resource_for model asg = (case map_of (ix_resources model) (asg_ResourceID asg) of None \<Rightarrow> zero_resource | Some r \<Rightarrow> r)"

definition previous_of :: "indexedRequest \<Rightarrow> string \<Rightarrow> string" where
  "previous_of model k = (case map_of (ix_lanePrevious model) k of None \<Rightarrow> '''' | Some p \<Rightarrow> p)"

text \<open>The loop of \<^verbatim>\<open>resolveTransfers\<close> over the predecessors.\<close>

fun transfer_loop ::
  "SimOrders \<Rightarrow> ExecutionRequest \<Rightarrow> Activity \<Rightarrow> Resource \<Rightarrow> indexedRequest \<Rightarrow> (string, TaskExecution) gomap \<Rightarrow> string list \<Rightarrow>
   float64 \<Rightarrow> float64 \<Rightarrow> DataTransfer list \<Rightarrow> error + float64 \<times> float64 \<times> DataTransfer list"
where
  "transfer_loop so request activity resource model completed [] dataReadyAt transferTotal transfers =
     Inr (dataReadyAt, transferTotal, transfers)"
| "transfer_loop so request activity resource model completed (k # ks) dataReadyAt transferTotal transfers =
     (let predecessor = sim_task completed k;
          bytes = int_of_key (ix_dataBytes model) (pair_key k (act_ID activity))
      in if task_AllocatedResourceID predecessor \<noteq> res_ID resource \<and> bytes > 0 then
           (case resolveNetworkPath (so_search so k (act_ID activity)) (top_Links (er_NetworkTopology request))
                   (task_AllocatedResourceID predecessor) (res_ID resource) bytes of
              None \<Rightarrow> Inl (Errorf ''no network link from %q to %q''
                             [FmtS (task_AllocatedResourceID predecessor), FmtS (res_ID resource)])
            | Some (duration, transferCost) \<Rightarrow>
               (let transfer = \<lparr>dt_ID = run_ID (er_Run request) @ '':'' @ k @ '':'' @ act_ID activity,
                      dt_ExecutionRunID = run_ID (er_Run request), dt_ProducerActivityID = k,
                      dt_ConsumerActivityID = act_ID activity, dt_SourceResourceID = task_AllocatedResourceID predecessor,
                      dt_TargetResourceID = res_ID resource, dt_Bytes = bytes,
                      dt_StartedAt = task_FinishedAt predecessor,
                      dt_FinishedAt = fadd (task_FinishedAt predecessor) duration, dt_DurationSeconds = duration,
                      dt_Cost = transferCost\<rparr>
                in transfer_loop so request activity resource model completed ks
                     (max_f dataReadyAt (dt_FinishedAt transfer)) (fadd transferTotal duration) (transfers @ [transfer])))
         else transfer_loop so request activity resource model completed ks
                (max_f dataReadyAt (task_FinishedAt predecessor)) transferTotal transfers)"

definition resolveTransfers ::
  "SimOrders \<Rightarrow> ExecutionRequest \<Rightarrow> Activity \<Rightarrow> Resource \<Rightarrow> indexedRequest \<Rightarrow> (string, TaskExecution) gomap \<Rightarrow>
   error + float64 \<times> float64 \<times> DataTransfer list"
where
  "resolveTransfers so request activity resource model completed =
     transfer_loop so request activity resource model completed (get_list (ix_predecessors model) (act_ID activity)) fzero fzero []"

definition simulated_task ::
  "ExecutionRequest \<Rightarrow> indexedRequest \<Rightarrow> Activity \<Rightarrow> float64 \<Rightarrow> float64 \<Rightarrow> float64 \<Rightarrow> TaskExecution"
where
  "simulated_task request model activity dataReadyAt transferTotal resourceReadyAt =
     (let asg = asg_for (ix_assignments model) (act_ID activity);
          resource = resource_for model asg;
          start = max_f dataReadyAt resourceReadyAt;
          runtimeSeconds = resolveRuntime activity resource (ix_profiles model);
          overhead = resolveAssignmentOverhead asg resource
      in zero_task\<lparr>task_ID := run_ID (er_Run request) @ '':'' @ act_ID activity, task_ExecutionRunID := run_ID (er_Run request),
           task_PlanAssignmentID := asg_ID asg, task_ActivityID := act_ID activity, task_PlannedResourceID := res_ID resource,
           task_AllocatedResourceID := res_ID resource, task_Attempt := 1, task_Status := TaskCompleted,
           task_ReadyAt := dataReadyAt, task_DataReadyAt := dataReadyAt, task_QueuedAt := dataReadyAt,
           task_StartedAt := start, task_FinishedAt := fadd (fadd start runtimeSeconds) overhead,
           task_RuntimeSeconds := runtimeSeconds, task_QueueSeconds := fsub start dataReadyAt,
           task_TransferSeconds := transferTotal, task_OverheadSeconds := overhead,
           task_Cost := fmul (fadd runtimeSeconds overhead) (res_PricePerSecond resource)\<rparr>)"

section \<open>The loop\<close>

record SimState =
  sim_completed :: "(string, TaskExecution) gomap"
  sim_transfers :: "DataTransfer list"

text \<open>One pass over the activities; the flag says whether one of them was finished.\<close>

definition sim_ready :: "indexedRequest \<Rightarrow> (string, TaskExecution) gomap \<Rightarrow> string \<Rightarrow> bool" where
  "sim_ready model completed k \<longleftrightarrow> map_of completed k = None \<and> allCompleted (get_list (ix_predecessors model) k) completed \<and>
     (previous_of model k = '''' \<or> map_of completed (previous_of model k) \<noteq> None)"

fun sim_pass ::
  "SimOrders \<Rightarrow> ExecutionRequest \<Rightarrow> indexedRequest \<Rightarrow> Activity list \<Rightarrow> SimState \<Rightarrow> bool \<Rightarrow> error + SimState \<times> bool"
where
  "sim_pass so request model [] st progress = Inr (st, progress)"
| "sim_pass so request model (a # as) st progress =
     (if \<not> sim_ready model (sim_completed st) (act_ID a) then sim_pass so request model as st progress
      else
        (let asg = asg_for (ix_assignments model) (act_ID a); resource = resource_for model asg;
             previous = previous_of model (act_ID a)
         in case resolveTransfers so request a resource model (sim_completed st) of
              Inl e \<Rightarrow> Inl e
            | Inr (dataReadyAt, transferTotal, activityTransfers) \<Rightarrow>
               (let resourceReadyAt = (if previous \<noteq> '''' then task_FinishedAt (sim_task (sim_completed st) previous) else fzero);
                    execution = simulated_task request model a dataReadyAt transferTotal resourceReadyAt
                in sim_pass so request model as
                     \<lparr>sim_completed = put (act_ID a) execution (sim_completed st),
                      sim_transfers = sim_transfers st @ activityTransfers\<rparr> True)))"

lemma sim_pass_keys:
  "sim_pass so request model as st progress = Inr (st', progress') \<Longrightarrow>
     set (keys (sim_completed st)) \<subseteq> set (keys (sim_completed st')) \<and>
     set (keys (sim_completed st')) \<subseteq> set (keys (sim_completed st)) \<union> act_ID ` set as \<and>
     (progress' \<longrightarrow> progress \<or> (\<exists>k \<in> act_ID ` set as. k \<notin> set (keys (sim_completed st)) \<and> k \<in> set (keys (sim_completed st'))))"
proof (induction as arbitrary: st progress)
  case (Cons a as)
  show ?case
  proof (cases "sim_ready model (sim_completed st) (act_ID a)")
    case False
    then show ?thesis using Cons.IH [of st progress] Cons.prems by auto
  next
    case True
    then obtain t xs where r: "sim_pass so request model as
        \<lparr>sim_completed = put (act_ID a) t (sim_completed st), sim_transfers = xs\<rparr> True = Inr (st', progress')"
      using Cons.prems by (auto simp: Let_def split: sum.splits)
    have "act_ID a \<notin> set (keys (sim_completed st))" using True unfolding sim_ready_def map_of_None_keys by blast
    then show ?thesis using Cons.IH [OF r] by (auto simp: set_keys_put simp del: set_map)
  qed
qed simp

function sim_loop :: "SimOrders \<Rightarrow> ExecutionRequest \<Rightarrow> indexedRequest \<Rightarrow> SimState \<Rightarrow> error + SimState" where
  "sim_loop so request model st =
     (if \<not> length (sim_completed st) < length (wfv_Activities (er_Workflow request)) then Inr st
      else case sim_pass so request model (wfv_Activities (er_Workflow request)) st False of
             Inl e \<Rightarrow> Inl e
           | Inr (st', progress) \<Rightarrow>
              if \<not> progress then Inl (Errorf ''plan cannot progress: dependency and resource orders form a cycle'' [])
              else sim_loop so request model st')"
  by pat_completeness auto

termination
proof (relation "measure (\<lambda>(so, request, model, st).
    card (act_ID ` set (wfv_Activities (er_Workflow request)) - set (keys (sim_completed st))))", goal_cases)
  case 1
  then show ?case by simp
next
  case (2 so request model st b st' progress)
  let ?ids = "act_ID ` set (wfv_Activities (er_Workflow request))"
  have "sim_pass so request model (wfv_Activities (er_Workflow request)) st False = Inr (st', True)" using 2 by auto
  from sim_pass_keys [OF this] have "?ids - set (keys (sim_completed st')) \<subset> ?ids - set (keys (sim_completed st))" by blast
  then have "card (?ids - set (keys (sim_completed st'))) < card (?ids - set (keys (sim_completed st)))"
    by (intro psubset_card_mono) simp_all
  then show ?case by (simp del: set_map)
qed

declare sim_loop.simps [simp del]

definition simulate :: "SimOrders \<Rightarrow> ExecutionRequest \<Rightarrow> indexedRequest \<Rightarrow> error + SimState" where
  "simulate so request model = sim_loop so request model \<lparr>sim_completed = [], sim_transfers = []\<rparr>"

section \<open>Costs and the trace\<close>

text \<open>
  The window in which a resource is active, and the sum of the runtimes of its tasks: the loop over
  the indexes of the tasks, whose start values are those of the first.
\<close>

definition active_window :: "TaskExecution list \<Rightarrow> nat list \<Rightarrow> float64 \<times> float64 \<times> float64" where
  "active_window tasks indexes =
     foldl (\<lambda>(start, finish, total) i. (min_f start (task_StartedAt (tasks ! i)), max_f finish (task_FinishedAt (tasks ! i)),
              fadd total (task_RuntimeSeconds (tasks ! i))))
       (task_StartedAt (tasks ! hd indexes), task_FinishedAt (tasks ! hd indexes), fzero) indexes"

definition cost_share :: "float64 \<Rightarrow> float64 \<Rightarrow> nat \<Rightarrow> TaskExecution \<Rightarrow> float64" where
  "cost_share amount runtimeTotal n t =
     fmul amount (if flt fzero runtimeTotal then fdiv (task_RuntimeSeconds t) runtimeTotal else fdiv (Fin 1) (f_of_int (int n)))"

definition charge_resource :: "(string, float64) gomap \<Rightarrow> string \<times> nat list \<Rightarrow> TaskExecution list \<Rightarrow> TaskExecution list" where
  "charge_resource prices entry tasks =
     (case entry of (resourceID, indexes) \<Rightarrow>
        (let price = (case map_of prices resourceID of None \<Rightarrow> fzero | Some p \<Rightarrow> p) in
         if fle price fzero \<or> indexes = [] then tasks
         else
           (let (start, finish, runtimeTotal) = active_window tasks indexes;
                total = fmul (max_f fzero (fsub finish start)) price
            in fold (\<lambda>i ts. ts[i := (ts ! i)\<lparr>task_Cost := cost_share total runtimeTotal (length indexes) (ts ! i)\<rparr>])
                 indexes tasks)))"

definition applyResourceActiveCosts ::
  "(string list \<Rightarrow> string list) \<Rightarrow> TaskExecution list \<Rightarrow> Resource list \<Rightarrow> TaskExecution list"
where
  "applyResourceActiveCosts ord tasks resources =
     (let prices = foldl (\<lambda>m r. put (res_ID r) (res_PricePerSecond r) m) [] resources;
          byResource = group_by (\<lambda>i. task_AllocatedResourceID (tasks ! i)) (\<lambda>i. i) [0..<length tasks];
          tasks0 = map (\<lambda>t. t\<lparr>task_Cost := fzero\<rparr>) tasks
      in fold (\<lambda>k. charge_resource prices (k, get_list byResource k)) (in_order ord (keys byResource)) tasks0)"

definition add_task_metrics :: "TaskExecution \<Rightarrow> ExecutionMetrics \<Rightarrow> ExecutionMetrics" where
  "add_task_metrics t m =
     m\<lparr>met_MakespanSeconds := max_f (met_MakespanSeconds m) (task_FinishedAt t),
       met_ComputeSeconds := fadd (met_ComputeSeconds m) (task_RuntimeSeconds t),
       met_QueueSeconds := fadd (met_QueueSeconds m) (task_QueueSeconds t),
       met_TransferSeconds := fadd (met_TransferSeconds m) (task_TransferSeconds t),
       met_OverheadSeconds := fadd (met_OverheadSeconds m) (task_OverheadSeconds t),
       met_Cost := fadd (met_Cost m) (task_Cost t)\<rparr>"

definition trace_metrics :: "SchedulePlan \<Rightarrow> TaskExecution list \<Rightarrow> DataTransfer list \<Rightarrow> ExecutionMetrics" where
  "trace_metrics plan tasks transfers =
     (let m1 = fold add_task_metrics tasks (zero_metrics\<lparr>met_Feasible := True\<rparr>);
          m2 = fold (\<lambda>x m. m\<lparr>met_Cost := fadd (met_Cost m) (dt_Cost x)\<rparr>) transfers m1;
          m3 = (if flt fzero (plan_DeadlineSeconds plan) \<and> flt (plan_DeadlineSeconds plan) (met_MakespanSeconds m2)
                then m2\<lparr>met_Feasible := False\<rparr> else m2)
      in if flt fzero (plan_Budget plan) \<and> flt (plan_Budget plan) (met_Cost m3) then m3\<lparr>met_Feasible := False\<rparr> else m3)"

definition buildTrace :: "SimOrders \<Rightarrow> ExecutionRequest \<Rightarrow> SimState \<Rightarrow> ExecutionTrace" where
  "buildTrace so request st =
     (let tasks = applyResourceActiveCosts (so_billing so)
            (map (\<lambda>a. sim_task (sim_completed st) (act_ID a)) (wfv_Activities (er_Workflow request))) (er_Resources request)
      in \<lparr>tra_RunID = run_ID (er_Run request), tra_PlanID = plan_ID (er_Plan request), tra_Mode = run_Mode (er_Run request),
          tra_Predicted = plan_Predicted (er_Plan request),
          tra_Executed = trace_metrics (er_Plan request) tasks (sim_transfers st),
          tra_Tasks = tasks, tra_Transfers = sim_transfers st\<rparr>)"

definition simulator_Execute :: "SimOrders \<Rightarrow> error option \<Rightarrow> ExecutionRequest \<Rightarrow> error + ExecutionTrace" where
  "simulator_Execute so ctxErr request =
     (if run_Mode (er_Run request) \<noteq> ExecutionModeSimulation then
        Inl (Errorf ''simulation executor cannot execute mode %q'' [FmtS (mode_text (run_Mode (er_Run request)))])
      else case plan_Validate (so_validator so) (er_Plan request) (er_Workflow request) (er_Resources request)
                  (er_ExecutionScope request) (er_NetworkTopology request) of
        Some e \<Rightarrow> Inl e
      | None \<Rightarrow>
       (case ctxErr of
          Some e \<Rightarrow> Inl e
        | None \<Rightarrow>
         (case simulate so request (indexRequest (so_lanes so) request) of
            Inl e \<Rightarrow> Inl e
          | Inr st \<Rightarrow> Inr (buildTrace so request st))))"

section \<open>A single simulated activity\<close>

definition simRuntime_Start :: "error option \<Rightarrow> ActivityExecutionContext \<Rightarrow> error + ActivityHandle" where
  "simRuntime_Start ctxErr execution =
     (case ctxErr of
        Some e \<Rightarrow> Inl e
      | None \<Rightarrow>
       (case act_Simulation (ctx_Activity execution) of
          None \<Rightarrow> Inl (Errorf ''activity %q has no simulation definition'' [FmtS (act_ID (ctx_Activity execution))])
        | Some sim \<Rightarrow>
           if flt (sim_DurationSeconds sim) fzero then
             Inl (Errorf ''activity %q simulation duration cannot be negative'' [FmtS (act_ID (ctx_Activity execution))])
           else
             Inr \<lparr>hnd_ID = run_ID (ctx_Run execution) @ '':'' @ act_ID (ctx_Activity execution) @ '':'' @ itoa (run_Seed (ctx_Run execution)),
                  hnd_RunID = run_ID (ctx_Run execution), hnd_ActivityID = act_ID (ctx_Activity execution),
                  hnd_ResourceID = res_ID (ctx_Resource execution), hnd_RuntimeID = ctx_RuntimeID execution,
                  hnd_ExternalID = ''simulation'', hnd_Status = HandleCompleted, hnd_Endpoints = [], hnd_StartedAt = fzero,
                  hnd_FinishedAt = sim_DurationSeconds sim, hnd_ExitCode = None, hnd_Failure = '''', hnd_Log = '''',
                  hnd_Artifacts = None, hnd_Metadata = [(''model'', AnyString (sim_Model sim))]\<rparr>))"

definition simRuntime_Inspect :: "ActivityHandle \<Rightarrow> ActivityHandle" where
  "simRuntime_Inspect handle = handle"

end
