(* ===== verification/Simulation_Invariant.thy ===== *)
theory Simulation_Invariant
  imports Simulation
begin

text \<open>
  What the simulator keeps: the finished tasks in the order in which they were finished, each after
  everything it needs, and times that respect the dependencies and the lanes.
\<close>

section \<open>Induction over the passes\<close>

definition after_activity ::
  "ExecutionRequest \<Rightarrow> indexedRequest \<Rightarrow> Activity \<Rightarrow> float64 \<Rightarrow> float64 \<Rightarrow> DataTransfer list \<Rightarrow> SimState \<Rightarrow> SimState"
where
  "after_activity request model a dataReadyAt transferTotal xs st =
     \<lparr>sim_completed = put (act_ID a) (simulated_task request model a dataReadyAt transferTotal
          (if previous_of model (act_ID a) \<noteq> '''' then task_FinishedAt (sim_task (sim_completed st) (previous_of model (act_ID a)))
           else fzero)) (sim_completed st),
      sim_transfers = sim_transfers st @ xs\<rparr>"

lemma sim_pass_Cons:
  "sim_pass so request model (a # as) st progress =
     (if \<not> sim_ready model (sim_completed st) (act_ID a) then sim_pass so request model as st progress
      else case resolveTransfers so request a (resource_for model (asg_for (ix_assignments model) (act_ID a))) model (sim_completed st) of
             Inl e \<Rightarrow> Inl e
           | Inr (d, tt, xs) \<Rightarrow> sim_pass so request model as (after_activity request model a d tt xs st) True)"
  by (simp add: Let_def after_activity_def split: sum.split)

declare sim_pass.simps(2) [simp del]

lemma sim_pass_inv:
  assumes "sim_pass so request model as st progress = Inr (st', progress')" and "P st"
    and "\<And>a st d tt xs. a \<in> set as \<Longrightarrow> P st \<Longrightarrow> sim_ready model (sim_completed st) (act_ID a) \<Longrightarrow>
      resolveTransfers so request a (resource_for model (asg_for (ix_assignments model) (act_ID a))) model (sim_completed st) =
        Inr (d, tt, xs) \<Longrightarrow> P (after_activity request model a d tt xs st)"
  shows "P st'"
  using assms
proof (induction as arbitrary: st progress)
  case (Cons a as)
  show ?case
  proof (cases "sim_ready model (sim_completed st) (act_ID a)")
    case False
    then show ?thesis using Cons.IH [of st progress] Cons.prems by (simp add: sim_pass_Cons)
  next
    case True
    then obtain d tt xs where r: "resolveTransfers so request a (resource_for model (asg_for (ix_assignments model) (act_ID a))) model
        (sim_completed st) = Inr (d, tt, xs)"
      and p: "sim_pass so request model as (after_activity request model a d tt xs st) True = Inr (st', progress')"
      using Cons.prems(1) by (auto simp: sim_pass_Cons split: sum.splits)
    have "P (after_activity request model a d tt xs st)" using Cons.prems(2) True r by (intro Cons.prems(3)) simp_all
    from Cons.IH [OF p this] Cons.prems(3) show ?thesis by simp
  qed
qed simp

lemma sim_pass_still:
  "sim_pass so request model as st progress = Inr (st', False) \<Longrightarrow>
     st' = st \<and> (\<forall>a \<in> set as. \<not> sim_ready model (sim_completed st) (act_ID a))"
proof -
  have true: "sim_pass so request model as st True \<noteq> Inr (st', False)" for as st
    by (induction as arbitrary: st) (auto simp: sim_pass_Cons split: sum.splits)
  show "sim_pass so request model as st progress = Inr (st', False) \<Longrightarrow>
     st' = st \<and> (\<forall>a \<in> set as. \<not> sim_ready model (sim_completed st) (act_ID a))"
    by (induction as) (auto simp: sim_pass_Cons true split: if_splits sum.splits)
qed

lemma sim_loop_inv:
  assumes "sim_loop so request model st = Inr st'" and "P st"
    and "\<And>a st d tt xs. a \<in> set (wfv_Activities (er_Workflow request)) \<Longrightarrow> P st \<Longrightarrow> sim_ready model (sim_completed st) (act_ID a) \<Longrightarrow>
      resolveTransfers so request a (resource_for model (asg_for (ix_assignments model) (act_ID a))) model (sim_completed st) =
        Inr (d, tt, xs) \<Longrightarrow> P (after_activity request model a d tt xs st)"
  shows "P st' \<and> \<not> length (sim_completed st') < length (wfv_Activities (er_Workflow request))"
  using assms
proof (induction so request model st rule: sim_loop.induct)
  case (1 so request model st)
  show ?case
  proof (cases "length (sim_completed st) < length (wfv_Activities (er_Workflow request))")
    case False
    then show ?thesis using 1(2,3) by (simp add: sim_loop.simps)
  next
    case True
    then obtain st1 progress where p: "sim_pass so request model (wfv_Activities (er_Workflow request)) st False = Inr (st1, progress)"
      using 1(2) by (subst (asm) sim_loop.simps) (auto split: sum.splits)
    then have l: "progress" "sim_loop so request model st1 = Inr st'"
      using 1(2) True by (auto simp: sim_loop.simps [of so request model st] split: if_splits)
    have "P st1" by (rule sim_pass_inv [where P = P, OF p 1(3)]) (rule 1(4))
    then show ?thesis using 1(1) [OF _ p refl _ l(2)] 1(4) l(1) True by blast
  qed
qed

text \<open>A loop that stops without progress has reached a state in which nothing is ready.\<close>

definition cannot_progress :: error where
  "cannot_progress = Errorf ''plan cannot progress: dependency and resource orders form a cycle'' []"

lemma transfer_loop_error: "transfer_loop so request a resource model completed ks d tt xs = Inl e \<Longrightarrow> e \<noteq> cannot_progress"
  by (induction ks arbitrary: d tt xs) (auto simp: Let_def cannot_progress_def split: if_splits option.splits)

lemma sim_pass_error: "sim_pass so request model as st progress = Inl e \<Longrightarrow> e \<noteq> cannot_progress"
proof (induction as arbitrary: st progress)
  case (Cons a as)
  then show ?case
    using transfer_loop_error by (auto simp: sim_pass_Cons resolveTransfers_def split: if_splits sum.splits)
qed simp

lemma sim_loop_stuck:
  assumes "sim_loop so request model st = Inl cannot_progress" and "P st"
    and "\<And>a st d tt xs. a \<in> set (wfv_Activities (er_Workflow request)) \<Longrightarrow> P st \<Longrightarrow> sim_ready model (sim_completed st) (act_ID a) \<Longrightarrow>
      resolveTransfers so request a (resource_for model (asg_for (ix_assignments model) (act_ID a))) model (sim_completed st) =
        Inr (d, tt, xs) \<Longrightarrow> P (after_activity request model a d tt xs st)"
  shows "\<exists>st'. P st' \<and> length (sim_completed st') < length (wfv_Activities (er_Workflow request)) \<and>
    (\<forall>a \<in> set (wfv_Activities (er_Workflow request)). \<not> sim_ready model (sim_completed st') (act_ID a))"
  using assms
proof (induction so request model st rule: sim_loop.induct)
  case (1 so request model st)
  have short: "length (sim_completed st) < length (wfv_Activities (er_Workflow request))"
    using 1(2) by (subst (asm) sim_loop.simps) (auto split: if_splits)
  obtain st1 progress where p: "sim_pass so request model (wfv_Activities (er_Workflow request)) st False = Inr (st1, progress)"
    using 1(2) short sim_pass_error by (subst (asm) sim_loop.simps) (auto split: sum.splits)
  have P1: "P st1" by (rule sim_pass_inv [where P = P, OF p 1(3)]) (rule 1(4))
  show ?case
  proof (cases progress)
    case True
    then have "sim_loop so request model st1 = Inl cannot_progress"
      using 1(2) short p by (simp add: sim_loop.simps [of so request model st])
    then show ?thesis using 1(1) [OF _ p refl _ _ P1] 1(4) True short by blast
  next
    case False
    then show ?thesis using sim_pass_still [of so request model _ st False st1] p short 1(3) by auto
  qed
qed

section \<open>Lanes\<close>

lemma lane_pairs_other: "k \<notin> asg_ActivityID ` set (tl xs) \<Longrightarrow> map_of (lane_pairs xs m) k = map_of m k"
  by (induction xs m rule: lane_pairs.induct) auto

lemma lane_pairs_prev:
  "map_of (lane_pairs xs m) k = Some p \<Longrightarrow> map_of m k = Some p \<or>
     (\<exists>i. Suc i < length xs \<and> k = asg_ActivityID (xs ! Suc i) \<and> p = asg_ActivityID (xs ! i))"
proof (induction xs m rule: lane_pairs.induct)
  case (1 a b items m)
  then show ?case
  proof (cases "map_of (put (asg_ActivityID b) (asg_ActivityID a) m) k = Some p")
    case True
    then show ?thesis by (auto split: if_splits intro!: exI [of _ 0])
  next
    case False
    then obtain i where "Suc i < length (b # items)" "k = asg_ActivityID ((b # items) ! Suc i)" "p = asg_ActivityID ((b # items) ! i)"
      using 1 by auto
    then show ?thesis by (intro disjI2 exI [of _ "Suc i"]) simp
  qed
qed auto

lemma lane_pairs_next:
  "distinct (map asg_ActivityID xs) \<Longrightarrow> Suc i < length xs \<Longrightarrow>
     map_of (lane_pairs xs m) (asg_ActivityID (xs ! Suc i)) = Some (asg_ActivityID (xs ! i))"
proof (induction xs m arbitrary: i rule: lane_pairs.induct)
  case (1 a b items m)
  show ?case
  proof (cases i)
    case 0
    have "map_of (lane_pairs (b # items) m') (asg_ActivityID b) = map_of m' (asg_ActivityID b)" for m'
      using 1(2) by (intro lane_pairs_other) (auto simp: image_iff)
    then show ?thesis using 0 by simp
  next
    case (Suc j)
    then show ?thesis using 1 by simp
  qed
qed auto

text \<open>The assignments of a lane in their order, and the neighbours the model records.\<close>

definition lane_list :: "PlanAssignment list \<Rightarrow> string \<Rightarrow> PlanAssignment list" where
  "lane_list asgs l = sort_key asg_OrderOnResource (filter (\<lambda>a. lane a = l) asgs)"

lemma set_lane_list [simp]: "set (lane_list asgs l) = {a \<in> set asgs. lane a = l}"
  by (simp add: lane_list_def)

lemma distinct_lane_list: "distinct (map asg_ActivityID asgs) \<Longrightarrow> distinct (map asg_ActivityID (lane_list asgs l))"
proof -
  assume "distinct (map asg_ActivityID asgs)"
  then have d: "distinct (map asg_ActivityID (filter (\<lambda>a. lane a = l) asgs))" by (simp add: distinct_map inj_on_def)
  have "mset (map asg_ActivityID (lane_list asgs l)) = mset (map asg_ActivityID (filter (\<lambda>a. lane a = l) asgs))"
    unfolding lane_list_def mset_map by simp
  then show ?thesis using d mset_eq_imp_distinct_iff by blast
qed

lemma fold_lanes:
  assumes "distinct (map asg_ActivityID asgs)" and "distinct ls" and "l \<in> set ls" and "Suc i < length (lane_list asgs l)"
  shows "map_of (fold (\<lambda>l. lane_pairs (lane_list asgs l)) ls m) (asg_ActivityID (lane_list asgs l ! Suc i)) =
    Some (asg_ActivityID (lane_list asgs l ! i))"
  using assms(2,3)
proof (induction ls rule: rev_induct)
  case (snoc l' ls)
  let ?k = "asg_ActivityID (lane_list asgs l ! Suc i)"
  show ?case
  proof (cases "l = l'")
    case True
    then show ?thesis using lane_pairs_next [OF distinct_lane_list [OF assms(1)] assms(4)] by simp
  next
    case False
    have b: "lane_list asgs l ! Suc i \<in> set (lane_list asgs l)" using assms(4) by (rule nth_mem)
    have "?k \<notin> asg_ActivityID ` set (tl (lane_list asgs l'))"
    proof
      assume "?k \<in> asg_ActivityID ` set (tl (lane_list asgs l'))"
      then obtain y where y: "y \<in> set (lane_list asgs l')" "asg_ActivityID y = ?k" by (metis image_iff list.set_sel(2) list.sel(2))
      then have "y = lane_list asgs l ! Suc i" using b assms(1) by (auto simp: distinct_map inj_on_def)
      then show False using b y(1) False by simp
    qed
    then have "map_of (lane_pairs (lane_list asgs l') m') ?k = map_of m' ?k" for m' by (rule lane_pairs_other)
    then show ?thesis using snoc False by simp
  qed
qed simp

lemma fold_lanes_prev:
  "map_of (fold (\<lambda>l. lane_pairs (lane_list asgs l)) ls []) k = Some p \<Longrightarrow>
     \<exists>l \<in> set ls. \<exists>i. Suc i < length (lane_list asgs l) \<and> k = asg_ActivityID (lane_list asgs l ! Suc i) \<and>
       p = asg_ActivityID (lane_list asgs l ! i)"
proof (induction ls rule: rev_induct)
  case (snoc l ls)
  then show ?case using lane_pairs_prev [of "lane_list asgs l" _ k p] by fastforce
qed simp

lemma lane_previous_eq:
  "lane_previous ord asgs = fold (\<lambda>l. lane_pairs (lane_list asgs l)) (in_order ord (keys (group_by lane (\<lambda>a. a) asgs))) []"
  by (simp add: lane_previous_def lane_list_def get_list_group_by Let_def)

lemma lane_previous_next:
  assumes "distinct (map asg_ActivityID asgs)" and "Suc i < length (lane_list asgs l)"
  shows "map_of (lane_previous ord asgs) (asg_ActivityID (lane_list asgs l ! Suc i)) = Some (asg_ActivityID (lane_list asgs l ! i))"
proof -
  have "l \<in> lane ` set asgs" using nth_mem [OF assms(2)] by (auto intro: rev_image_eqI)
  then have "l \<in> set (in_order ord (keys (group_by lane (\<lambda>a. a) asgs)))"
    unfolding set_in_order set_keys_group_by by simp
  moreover have "distinct (in_order ord (keys (group_by lane (\<lambda>a. a) asgs)))"
    using gomap_ok_group_by [of lane "\<lambda>a. a" asgs] by (simp add: gomap_ok_def)
  ultimately show ?thesis unfolding lane_previous_eq using fold_lanes [OF assms(1) _ _ assms(2)] by blast
qed

lemma lane_previous_prev:
  assumes "map_of (lane_previous ord asgs) k = Some p"
  shows "\<exists>l i. Suc i < length (lane_list asgs l) \<and> k = asg_ActivityID (lane_list asgs l ! Suc i) \<and> p = asg_ActivityID (lane_list asgs l ! i)"
  using fold_lanes_prev assms unfolding lane_previous_eq by blast

section \<open>Simulations without failing transfers\<close>

lemma sim_pass_total:
  assumes "P st"
    and "\<And>a st d tt xs. a \<in> set as \<Longrightarrow> P st \<Longrightarrow> sim_ready model (sim_completed st) (act_ID a) \<Longrightarrow>
      resolveTransfers so request a (resource_for model (asg_for (ix_assignments model) (act_ID a))) model (sim_completed st) =
        Inr (d, tt, xs) \<Longrightarrow> P (after_activity request model a d tt xs st)"
    and "\<And>a st. a \<in> set as \<Longrightarrow> P st \<Longrightarrow> sim_ready model (sim_completed st) (act_ID a) \<Longrightarrow>
      \<exists>r. resolveTransfers so request a (resource_for model (asg_for (ix_assignments model) (act_ID a))) model (sim_completed st) = Inr r"
  shows "\<exists>st' progress'. sim_pass so request model as st progress = Inr (st', progress')"
  using assms
proof (induction as arbitrary: st progress)
  case (Cons a as)
  show ?case
  proof (cases "sim_ready model (sim_completed st) (act_ID a)")
    case False
    then show ?thesis using Cons.IH [of st progress] Cons.prems by (simp add: sim_pass_Cons)
  next
    case True
    then obtain d tt xs where r: "resolveTransfers so request a (resource_for model (asg_for (ix_assignments model) (act_ID a))) model
        (sim_completed st) = Inr (d, tt, xs)" using Cons.prems(1) Cons.prems(3) [of a st] by auto
    have "P (after_activity request model a d tt xs st)" using Cons.prems(1) True r by (intro Cons.prems(2)) simp_all
    from Cons.IH [OF this] Cons.prems(2,3) True r show ?thesis by (simp add: sim_pass_Cons)
  qed
qed simp

lemma sim_loop_total:
  assumes "P st"
    and "\<And>a st d tt xs. a \<in> set (wfv_Activities (er_Workflow request)) \<Longrightarrow> P st \<Longrightarrow> sim_ready model (sim_completed st) (act_ID a) \<Longrightarrow>
      resolveTransfers so request a (resource_for model (asg_for (ix_assignments model) (act_ID a))) model (sim_completed st) =
        Inr (d, tt, xs) \<Longrightarrow> P (after_activity request model a d tt xs st)"
    and "\<And>a st. a \<in> set (wfv_Activities (er_Workflow request)) \<Longrightarrow> P st \<Longrightarrow> sim_ready model (sim_completed st) (act_ID a) \<Longrightarrow>
      \<exists>r. resolveTransfers so request a (resource_for model (asg_for (ix_assignments model) (act_ID a))) model (sim_completed st) = Inr r"
  shows "(\<exists>st'. sim_loop so request model st = Inr st') \<or> sim_loop so request model st = Inl cannot_progress"
  using assms
proof (induction so request model st rule: sim_loop.induct)
  case (1 so request model st)
  show ?case
  proof (cases "length (sim_completed st) < length (wfv_Activities (er_Workflow request))")
    case False
    then show ?thesis by (simp add: sim_loop.simps)
  next
    case True
    obtain st1 progress where p: "sim_pass so request model (wfv_Activities (er_Workflow request)) st False = Inr (st1, progress)"
      using sim_pass_total [where P = P, OF 1(2), of "wfv_Activities (er_Workflow request)" model so request False] 1(3,4) by blast
    have P1: "P st1" by (rule sim_pass_inv [where P = P, OF p 1(2)]) (rule 1(3))
    show ?thesis
    proof (cases progress)
      case False
      then show ?thesis using True p by (simp add: sim_loop.simps [of so request model st] cannot_progress_def)
    next
      case pr: True
      have "(\<exists>st'. sim_loop so request model st1 = Inr st') \<or> sim_loop so request model st1 = Inl cannot_progress"
        using 1(1) [OF _ p refl _ P1] 1(3,4) pr True by blast
      then show ?thesis using True p pr by (simp add: sim_loop.simps [of so request model st])
    qed
  qed
qed

end
