(* ===== verification/Simulation_Order.thy ===== *)
theory Simulation_Order
  imports Simulation_Invariant
begin

text \<open>
  When the simulator makes progress. An activity needs its predecessors and the one before it in its
  lane; the tasks are finished in an order in which everything needed comes first, and the simulator
  stops without progress exactly when the dependencies and the lane orders together have a cycle.
\<close>

section \<open>What an activity needs\<close>

definition needs :: "indexedRequest \<Rightarrow> string \<Rightarrow> string set" where
  "needs model k = set (get_list (ix_predecessors model) k) \<union>
     (if previous_of model k = '''' then {} else {previous_of model k})"

lemma sim_ready_needs: "sim_ready model c k \<longleftrightarrow> k \<notin> set (keys c) \<and> needs model k \<subseteq> set (keys c)"
  unfolding sim_ready_def needs_def allCompleted_def map_of_None_keys by (auto simp del: set_map)

definition in_need_order :: "indexedRequest \<Rightarrow> string list \<Rightarrow> bool" where
  "in_need_order model ks \<longleftrightarrow> distinct ks \<and> (\<forall>i < length ks. needs model (ks ! i) \<subseteq> set (take i ks))"

lemma in_need_order_snoc:
  assumes "in_need_order model ks" and "k \<notin> set ks" and "needs model k \<subseteq> set ks"
  shows "in_need_order model (ks @ [k])"
  using assms unfolding in_need_order_def by (auto simp: nth_append less_Suc_eq)

lemma after_activity_order:
  assumes "in_need_order model (keys (sim_completed st))" and "sim_ready model (sim_completed st) (act_ID a)"
  shows "in_need_order model (keys (sim_completed (after_activity request model a d tt xs st)))"
proof -
  have k: "act_ID a \<notin> set (keys (sim_completed st))" "needs model (act_ID a) \<subseteq> set (keys (sim_completed st))"
    using assms(2) unfolding sim_ready_needs by blast+
  then have "keys (sim_completed (after_activity request model a d tt xs st)) = keys (sim_completed st) @ [act_ID a]"
    unfolding after_activity_def by (simp add: put_new del: set_map)
  then show ?thesis using in_need_order_snoc [OF assms(1) k] by simp
qed

lemma in_need_order_acyclic:
  assumes "in_need_order model ks" and "\<And>p k. (p, k) \<in> R \<Longrightarrow> k \<in> set ks \<and> p \<in> needs model k"
  shows "acyclic R"
proof -
  define f where "f k = length (takeWhile (\<lambda>x. x \<noteq> k) ks)" for k
  have idx: "f (ks ! i) \<le> i" if "i < length ks" for i
    unfolding f_def using length_takeWhile_less_P_nth [of i "\<lambda>x. x \<noteq> ks ! i" ks] that
    by (metis (mono_tags, lifting) leI nth_mem set_takeWhileD takeWhile_nth)
  have at: "f k < length ks \<and> ks ! f k = k" if "k \<in> set ks" for k
    using that nth_length_takeWhile [of "\<lambda>x. x \<noteq> k" ks] unfolding f_def
    by (metis (mono_tags, lifting) length_takeWhile_le nat_less_le set_takeWhileD takeWhile_eq_all_conv length_takeWhile_le append_Nil2
        takeWhile_dropWhile_id length_append add_cancel_left_right length_0_conv)
  have "R \<subseteq> measure f"
  proof (rule subrelI)
    fix p k assume "(p, k) \<in> R"
    then have k: "k \<in> set ks" "p \<in> needs model k" using assms(2) by blast+
    then have "p \<in> set (take (f k) ks)" using assms(1) at unfolding in_need_order_def by (metis subsetD)
    then obtain i where i: "i < f k" "i < length ks" "ks ! i = p" by (auto simp: in_set_conv_nth)
    then show "(p, k) \<in> measure f" using idx [OF i(2)] by simp
  qed
  then show ?thesis using wf_measure wf_subset wf_acyclic by blast
qed

text \<open>A set of activities none of which has everything it needs outside the set has a cycle.\<close>

lemma stuck_cycle:
  assumes "finite R" and "S \<noteq> {}" and "\<And>k. k \<in> S \<Longrightarrow> \<exists>p \<in> S. (p, k) \<in> R"
  shows "\<not> acyclic R"
proof
  assume "acyclic R"
  then have "wf R" using assms(1) finite_acyclic_wf by blast
  obtain x where "x \<in> S" using assms(2) by blast
  then obtain z where "z \<in> S" "\<And>y. (y, z) \<in> R \<Longrightarrow> y \<notin> S" using \<open>wf R\<close> by (meson wfE_min)
  then show False using assms(3) by blast
qed

section \<open>The orders of a plan\<close>

text \<open>An assignment stands before another in their lane.\<close>

definition lane_before :: "PlanAssignment list \<Rightarrow> (string \<times> string) set" where
  "lane_before asgs = {(asg_ActivityID a, asg_ActivityID b) | a b. a \<in> set asgs \<and> b \<in> set asgs \<and> lane a = lane b \<and>
     asg_OrderOnResource a < asg_OrderOnResource b}"

definition need_edges :: "indexedRequest \<Rightarrow> string set \<Rightarrow> (string \<times> string) set" where
  "need_edges model ids = {(p, k). k \<in> ids \<and> p \<in> needs model k}"

lemma lane_list_sorted: "i \<le> j \<Longrightarrow> j < length (lane_list asgs l) \<Longrightarrow>
    asg_OrderOnResource (lane_list asgs l ! i) \<le> asg_OrderOnResource (lane_list asgs l ! j)"
  using sorted_sort_key [of asg_OrderOnResource "filter (\<lambda>a. lane a = l) asgs"]
  unfolding lane_list_def [symmetric] sorted_iff_nth_mono by simp

lemma lane_list_orders: "lanes_ordered asgs deps \<Longrightarrow> distinct (map asg_OrderOnResource (lane_list asgs l))"
proof -
  assume "lanes_ordered asgs deps"
  then have "distinct (map asg_OrderOnResource (filter (\<lambda>a. lane a = l) asgs))" by (simp add: lanes_ordered_def)
  moreover have "mset (map asg_OrderOnResource (lane_list asgs l)) = mset (map asg_OrderOnResource (filter (\<lambda>a. lane a = l) asgs))"
    unfolding lane_list_def mset_map by simp
  ultimately show ?thesis using mset_eq_imp_distinct_iff by blast
qed

text \<open>The edges the model follows are those of the plan, up to transitivity.\<close>

lemma need_edges_plan:
  assumes "plan_ok plan workflow resources scope topology" and "\<And>a. a \<in> set (wfv_Activities workflow) \<Longrightarrow> act_ID a \<noteq> ''''"
    and "er_Plan request = plan" and "er_Workflow request = workflow"
  shows "need_edges (indexRequest ord request) (act_ID ` set (wfv_Activities workflow)) \<subseteq>
      set (edges (wfv_Dependencies workflow)) \<union> lane_before (plan_Assignments plan)"
    and "set (edges (wfv_Dependencies workflow)) \<union> lane_before (plan_Assignments plan) \<subseteq>
      (need_edges (indexRequest ord request) (act_ID ` set (wfv_Activities workflow)))\<^sup>+"
proof -
  let ?model = "indexRequest ord request" and ?ids = "act_ID ` set (wfv_Activities workflow)"
  define asgs where "asgs = plan_Assignments plan"
  have ok: "distinct (map asg_ActivityID asgs)" "asg_ActivityID ` set asgs = ?ids" "known_endpoints workflow"
    "lanes_ordered asgs (wfv_Dependencies workflow)"
    using assms(1) unfolding plan_ok_def dag_def asgs_def by blast+
  have preds: "set (get_list (ix_predecessors ?model) k) = {p. (p, k) \<in> set (edges (wfv_Dependencies workflow))}" for k
    using assms(4) by (auto simp: indexRequest_def get_list_group_by edges_def)
  have prev: "previous_of ?model k = (case map_of (lane_previous ord asgs) k of None \<Rightarrow> '''' | Some p \<Rightarrow> p)" for k
    using assms(3) by (simp add: previous_of_def indexRequest_def asgs_def)
  have lane_id: "asg_ActivityID (lane_list asgs l ! i) \<in> ?ids" "asg_ActivityID (lane_list asgs l ! i) \<noteq> ''''"
    if "i < length (lane_list asgs l)" for l i
  proof -
    show "asg_ActivityID (lane_list asgs l ! i) \<in> ?ids" using nth_mem [OF that] ok(2) by auto
    then show "asg_ActivityID (lane_list asgs l ! i) \<noteq> ''''" using assms(2) by (metis imageE)
  qed
  show "need_edges ?model ?ids \<subseteq> set (edges (wfv_Dependencies workflow)) \<union> lane_before (plan_Assignments plan)"
  proof (rule subrelI)
    fix p k assume "(p, k) \<in> need_edges ?model ?ids"
    then consider "(p, k) \<in> set (edges (wfv_Dependencies workflow))" | "map_of (lane_previous ord asgs) k = Some p"
      unfolding need_edges_def needs_def by (auto simp: preds prev split: if_splits option.splits)
    then show "(p, k) \<in> set (edges (wfv_Dependencies workflow)) \<union> lane_before (plan_Assignments plan)"
    proof cases
      case 2
      then obtain l i where i: "Suc i < length (lane_list asgs l)" "k = asg_ActivityID (lane_list asgs l ! Suc i)"
        "p = asg_ActivityID (lane_list asgs l ! i)" using lane_previous_prev by blast
      have "asg_OrderOnResource (lane_list asgs l ! i) \<noteq> asg_OrderOnResource (lane_list asgs l ! Suc i)"
        using lane_list_orders [OF ok(4), of l] i(1) nth_eq_iff_index_eq by fastforce
      then have "asg_OrderOnResource (lane_list asgs l ! i) < asg_OrderOnResource (lane_list asgs l ! Suc i)"
        using lane_list_sorted [of i "Suc i" asgs l] i(1) by simp
      moreover have "lane_list asgs l ! i \<in> set (lane_list asgs l)" "lane_list asgs l ! Suc i \<in> set (lane_list asgs l)"
        using i(1) by (simp_all only: nth_mem Suc_lessD)
      ultimately show ?thesis using i(2,3) unfolding lane_before_def asgs_def by auto
    qed simp
  qed
  have next_lane: "(asg_ActivityID (lane_list asgs l ! i), asg_ActivityID (lane_list asgs l ! Suc i)) \<in> need_edges ?model ?ids"
    if "Suc i < length (lane_list asgs l)" for l i
    using lane_previous_next [OF ok(1) that, of ord] lane_id [of "Suc i" l] lane_id [of i l] that
    unfolding need_edges_def needs_def prev by simp
  have chain: "(asg_ActivityID (lane_list asgs l ! i), asg_ActivityID (lane_list asgs l ! j)) \<in> (need_edges ?model ?ids)\<^sup>+"
    if "i < j" "j < length (lane_list asgs l)" for l i j
    using that
  proof (induction j)
    case (Suc j)
    then show ?case using next_lane [of j l] by (cases "i = j") (auto intro: trancl_into_trancl)
  qed simp
  show "set (edges (wfv_Dependencies workflow)) \<union> lane_before (plan_Assignments plan) \<subseteq> (need_edges ?model ?ids)\<^sup>+"
  proof (rule subrelI, elim UnE)
    fix p k assume e: "(p, k) \<in> set (edges (wfv_Dependencies workflow))"
    then have "k \<in> ?ids" using ok(3) by (auto simp: known_endpoints_def edges_def)
    then show "(p, k) \<in> (need_edges ?model ?ids)\<^sup>+" using e unfolding need_edges_def needs_def preds by auto
  next
    fix p k assume "(p, k) \<in> lane_before (plan_Assignments plan)"
    then obtain a b where ab: "a \<in> set asgs" "b \<in> set asgs" "lane a = lane b" "asg_OrderOnResource a < asg_OrderOnResource b"
      "p = asg_ActivityID a" "k = asg_ActivityID b" unfolding lane_before_def asgs_def by blast
    obtain i j where ij: "i < length (lane_list asgs (lane b))" "lane_list asgs (lane b) ! i = a"
      "j < length (lane_list asgs (lane b))" "lane_list asgs (lane b) ! j = b"
      using ab(1-3) set_lane_list [of asgs "lane b"] by (metis (mono_tags, lifting) in_set_conv_nth mem_Collect_eq)
    have "i < j" using lane_list_sorted [of j i asgs "lane b"] ij ab(4) by force
    then show "(p, k) \<in> (need_edges ?model ?ids)\<^sup>+" using chain [of i j "lane b"] ij ab(5,6) by simp
  qed
qed

end
