(* ===== verification/Simulation_Properties.thy ===== *)
theory Simulation_Properties
  imports Simulation_Order Execution_Properties
begin

text \<open>
  The properties of the simulator: shortest routes, when a simulation succeeds, the times of its
  tasks, and its verdict on the deadline and the budget.
\<close>

section \<open>Times\<close>

lemma max_f_ge: "a \<noteq> NaN \<Longrightarrow> b \<noteq> NaN \<Longrightarrow> fle a (max_f a b) \<and> fle b (max_f a b)"
  unfolding max_f_def using flt_fle not_flt_fle fle_refl by auto

lemma max_f_f64 [simp]: "is_f64 a \<Longrightarrow> is_f64 b \<Longrightarrow> is_f64 (max_f a b)"
  by (simp add: max_f_def del: is_f64.simps)

text \<open>Durations that are not negative, and resources with a name.\<close>

definition durations_ok :: "ExecutionRequest \<Rightarrow> indexedRequest \<Rightarrow> bool" where
  "durations_ok request model \<longleftrightarrow>
     (\<forall>a \<in> set (wfv_Activities (er_Workflow request)).
        let asg = asg_for (ix_assignments model) (act_ID a); resource = resource_for model asg in
        fle fzero (resolveRuntime a resource (ix_profiles model)) \<and> fle fzero (resolveAssignmentOverhead asg resource)) \<and>
     (\<forall>r \<in> set (er_Resources request). res_ID r \<noteq> '''') \<and>
     (\<forall>bytes > 0. links_ok (top_Links (er_NetworkTopology request)) bytes)"

definition good_time :: "float64 \<Rightarrow> bool" where
  "good_time x \<longleftrightarrow> fle fzero x \<and> is_f64 x"

definition task_times_ok :: "indexedRequest \<Rightarrow> string set \<Rightarrow> (string, TaskExecution) gomap \<Rightarrow> bool" where
  "task_times_ok model rids completed \<longleftrightarrow>
     (\<forall>k t. map_of completed k = Some t \<longrightarrow> task_ActivityID t = k \<and> task_Status t = TaskCompleted \<and>
        good_time (task_StartedAt t) \<and> good_time (task_FinishedAt t) \<and> fle (task_StartedAt t) (task_FinishedAt t) \<and>
        task_AllocatedResourceID t \<in> rids \<and>
        (\<forall>p \<in> needs model k. \<exists>tp. map_of completed p = Some tp \<and> fle (task_FinishedAt tp) (task_StartedAt t)))"

lemma good_time_simps [simp]:
  "good_time fzero" "good_time a \<Longrightarrow> good_time b \<Longrightarrow> good_time (max_f a b)"
  "good_time a \<Longrightarrow> fle fzero b \<Longrightarrow> good_time (fadd a b)"
  "good_time a \<Longrightarrow> fle fzero b \<Longrightarrow> fle a (fadd a b)"
proof -
  show "good_time fzero" using fzero_f64 by (simp add: good_time_def fle_def del: is_f64.simps)
  show "good_time a \<Longrightarrow> good_time b \<Longrightarrow> good_time (max_f a b)" by (auto simp: good_time_def max_f_def simp del: is_f64.simps)
  show "good_time a \<Longrightarrow> fle fzero b \<Longrightarrow> good_time (fadd a b)" by (simp add: good_time_def fadd_nonneg)
  show "good_time a \<Longrightarrow> fle fzero b \<Longrightarrow> fle a (fadd a b)" by (simp add: good_time_def fadd_ge)
qed

lemma good_time_max: "good_time a \<Longrightarrow> good_time b \<Longrightarrow> fle a (max_f a b) \<and> fle b (max_f a b)"
  using max_f_ge fle_not_NaN unfolding good_time_def by blast

lemma path_time_nonneg:
  assumes "links_ok links bytes" and "source \<noteq> ''''" and "resolveNetworkPath ord links source target bytes = Some (d, c)"
  shows "fle fzero d"
proof -
  have "route links bytes source target d c" using resolveNetworkPath_correct [OF assms(1,2), where ord = ord and target = target] assms(3) by simp
  then show ?thesis using walk_value [OF _ cost_search_sound [OF assms(1)]] unfolding walk_route [symmetric] by blast
qed

lemma transfer_loop_times:
  assumes "transfer_loop so request a resource model completed ks d tt xs = Inr (d', tt', xs')" and "good_time d"
    and "\<And>k. k \<in> set ks \<Longrightarrow> good_time (task_FinishedAt (sim_task completed k)) \<and> task_AllocatedResourceID (sim_task completed k) \<noteq> ''''"
    and "\<And>bytes. bytes > 0 \<Longrightarrow> links_ok (top_Links (er_NetworkTopology request)) bytes"
  shows "good_time d' \<and> fle d d' \<and> (\<forall>k \<in> set ks. fle (task_FinishedAt (sim_task completed k)) d')"
  using assms(1-3)
proof (induction ks arbitrary: d tt xs)
  case Nil
  then show ?case using fle_refl fle_not_NaN by (auto simp: good_time_def)
next
  case (Cons k ks)
  have k: "good_time (task_FinishedAt (sim_task completed k))" "task_AllocatedResourceID (sim_task completed k) \<noteq> ''''"
    using Cons.prems(3) [of k] by auto
  obtain r tt1 xs1 where r: "good_time r" "fle (task_FinishedAt (sim_task completed k)) r"
    and step: "transfer_loop so request a resource model completed ks (max_f d r) tt1 xs1 = Inr (d', tt', xs')"
  proof (cases "task_AllocatedResourceID (sim_task completed k) \<noteq> res_ID resource \<and>
      int_of_key (ix_dataBytes model) (pair_key k (act_ID a)) > 0")
    case True
    then obtain duration c where p: "resolveNetworkPath (so_search so k (act_ID a)) (top_Links (er_NetworkTopology request))
        (task_AllocatedResourceID (sim_task completed k)) (res_ID resource)
        (int_of_key (ix_dataBytes model) (pair_key k (act_ID a))) = Some (duration, c)"
      using Cons.prems(1) by (auto simp: Let_def split: option.splits)
    have "fle fzero duration" using path_time_nonneg [OF assms(4) k(2) p] True by simp
    then show ?thesis
      using that [of "fadd (task_FinishedAt (sim_task completed k)) duration"] Cons.prems(1) True p k(1) by (auto simp: Let_def)
  next
    case False
    then show ?thesis
      using that [of "task_FinishedAt (sim_task completed k)"] Cons.prems(1) k(1) fle_refl fle_not_NaN
      by (auto simp: Let_def good_time_def)
  qed
  have m: "good_time (max_f d r)" "fle d (max_f d r)" "fle r (max_f d r)"
    using Cons.prems(2) r(1) good_time_max by auto
  have "good_time d' \<and> fle (max_f d r) d' \<and> (\<forall>k \<in> set ks. fle (task_FinishedAt (sim_task completed k)) d')"
    using Cons.IH [OF step m(1)] Cons.prems(3) by simp
  then show ?case using m(2,3) r(2) fle_trans by (metis set_ConsD)
qed

lemma after_activity_times:
  assumes "durations_ok request model" and "task_times_ok model rids (sim_completed st)" and "'''' \<notin> rids"
    and "a \<in> set (wfv_Activities (er_Workflow request))" and "sim_ready model (sim_completed st) (act_ID a)"
    and "resolveTransfers so request a (resource_for model (asg_for (ix_assignments model) (act_ID a))) model (sim_completed st) =
        Inr (d, tt, xs)"
    and "res_ID (resource_for model (asg_for (ix_assignments model) (act_ID a))) \<in> rids"
  shows "task_times_ok model rids (sim_completed (after_activity request model a d tt xs st))"
proof -
  let ?c = "sim_completed st" and ?k = "act_ID a"
  let ?asg = "asg_for (ix_assignments model) ?k" let ?r = "resource_for model ?asg"
  let ?ready = "if previous_of model ?k \<noteq> '''' then task_FinishedAt (sim_task ?c (previous_of model ?k)) else fzero"
  let ?t = "simulated_task request model a d tt ?ready"
  have need: "?k \<notin> set (keys ?c)" "needs model ?k \<subseteq> set (keys ?c)" using assms(5) unfolding sim_ready_needs by blast+
  have known: "\<exists>t. map_of ?c p = Some t \<and> sim_task ?c p = t \<and> good_time (task_FinishedAt t) \<and> task_AllocatedResourceID t \<in> rids"
    if "p \<in> needs model ?k" for p
  proof -
    have "map_of ?c p \<noteq> None" using that need(2) unfolding map_of_None_keys by blast
    then obtain t where "map_of ?c p = Some t" by blast
    then show ?thesis using assms(2) unfolding task_times_ok_def by (auto simp: sim_task_def)
  qed
  have preds: "set (get_list (ix_predecessors model) ?k) \<subseteq> needs model ?k" by (simp add: needs_def)
  have "good_time d \<and> fle fzero d \<and> (\<forall>p \<in> set (get_list (ix_predecessors model) ?k). fle (task_FinishedAt (sim_task ?c p)) d)"
  proof (rule transfer_loop_times)
    show "transfer_loop so request a ?r model ?c (get_list (ix_predecessors model) ?k) fzero fzero [] = Inr (d, tt, xs)"
      using assms(6) by (simp add: resolveTransfers_def)
    show "good_time (task_FinishedAt (sim_task ?c p)) \<and> task_AllocatedResourceID (sim_task ?c p) \<noteq> ''''"
      if "p \<in> set (get_list (ix_predecessors model) ?k)" for p using known [of p] that preds assms(3) by auto
    show "links_ok (top_Links (er_NetworkTopology request)) bytes" if "0 < bytes" for bytes
      using assms(1) that unfolding durations_ok_def by blast
  qed simp
  then have d: "good_time d" "\<And>p. p \<in> set (get_list (ix_predecessors model) ?k) \<Longrightarrow> fle (task_FinishedAt (sim_task ?c p)) d" by auto
  have ready: "good_time ?ready" using known [of "previous_of model ?k"] by (auto simp: needs_def)
  note m = good_time_max [OF d(1) ready]
  have run: "fle fzero (resolveRuntime a ?r (ix_profiles model))" "fle fzero (resolveAssignmentOverhead ?asg ?r)"
    using assms(1,4) unfolding durations_ok_def Let_def by blast+
  have start: "task_StartedAt ?t = max_f d ?ready" by (simp add: simulated_task_def Let_def)
  have finish: "task_FinishedAt ?t = fadd (fadd (max_f d ?ready) (resolveRuntime a ?r (ix_profiles model))) (resolveAssignmentOverhead ?asg ?r)"
    by (simp add: simulated_task_def Let_def)
  have g: "good_time (max_f d ?ready)" using d(1) ready by simp
  have later: "fle (max_f d ?ready) (task_FinishedAt ?t)"
    unfolding finish using g run good_time_simps(3,4) fle_trans by blast
  have good: "good_time (task_FinishedAt ?t)" unfolding finish using g run by simp
  have new: "\<exists>tp. map_of (put ?k ?t ?c) p = Some tp \<and> fle (task_FinishedAt tp) (task_StartedAt ?t)" if p: "p \<in> needs model ?k" for p
  proof -
    obtain t where t: "map_of ?c p = Some t" "sim_task ?c p = t" using known [OF p] by blast
    have "p \<noteq> ?k" using t(1) need(1) map_of_Some_keys [OF t(1)] by blast
    moreover have "fle (task_FinishedAt t) (task_StartedAt ?t)"
      using p d(2) [of p] m t(2) fle_trans unfolding start needs_def by (auto split: if_splits)
    ultimately show ?thesis using t(1) by simp
  qed
  have old: "\<exists>tp. map_of (put ?k ?t ?c) p = Some tp \<and> fle (task_FinishedAt tp) (task_StartedAt t)"
    if kp: "map_of ?c k = Some t" "p \<in> needs model k" for k t p
  proof -
    obtain tp where "map_of ?c p = Some tp" "fle (task_FinishedAt tp) (task_StartedAt t)"
      using assms(2) kp unfolding task_times_ok_def by blast
    then show ?thesis using need(1) map_of_Some_keys [of ?c p tp] by (auto simp del: set_map)
  qed
  have fields: "task_ActivityID ?t = ?k" "task_Status ?t = TaskCompleted" "task_AllocatedResourceID ?t = res_ID ?r"
    by (simp_all add: simulated_task_def Let_def)
  have c': "sim_completed (after_activity request model a d tt xs st) = put ?k ?t ?c" by (simp add: after_activity_def)
  show ?thesis
    unfolding task_times_ok_def c'
  proof (intro allI impI)
    fix k t assume kt: "map_of (put ?k ?t ?c) k = Some t"
    show "task_ActivityID t = k \<and> task_Status t = TaskCompleted \<and>
        good_time (task_StartedAt t) \<and> good_time (task_FinishedAt t) \<and> fle (task_StartedAt t) (task_FinishedAt t) \<and>
        task_AllocatedResourceID t \<in> rids \<and>
        (\<forall>p \<in> needs model k. \<exists>tp. map_of (put ?k ?t ?c) p = Some tp \<and> fle (task_FinishedAt tp) (task_StartedAt t))"
    proof (cases "k = ?k")
      case True
      then have t: "t = ?t" using kt by simp
      show ?thesis unfolding True t using fields assms(7) g start later good new by simp
    next
      case False
      then have t: "map_of ?c k = Some t" using kt by simp
      then show ?thesis using assms(2) old [OF t] unfolding task_times_ok_def by blast
    qed
  qed
qed

section \<open>Accepted requests\<close>

text \<open>A request the simulator accepts, with activities that have distinct names, none of them empty.\<close>

definition accepted_request :: "ExecutionRequest \<Rightarrow> bool" where
  "accepted_request request \<longleftrightarrow> run_Mode (er_Run request) = ExecutionModeSimulation \<and>
     plan_ok (er_Plan request) (er_Workflow request) (er_Resources request) (er_ExecutionScope request) (er_NetworkTopology request) \<and>
     distinct (map act_ID (wfv_Activities (er_Workflow request))) \<and> '''' \<notin> act_ID ` set (wfv_Activities (er_Workflow request))"

definition plan_orders :: "ExecutionRequest \<Rightarrow> (string \<times> string) set" where
  "plan_orders request = set (edges (wfv_Dependencies (er_Workflow request))) \<union> lane_before (plan_Assignments (er_Plan request))"

abbreviation activity_ids :: "ExecutionRequest \<Rightarrow> string set" where
  "activity_ids request \<equiv> act_ID ` set (wfv_Activities (er_Workflow request))"

lemma accepted_orders:
  assumes "accepted_request request"
  shows "need_edges (indexRequest ord request) (activity_ids request) \<subseteq> plan_orders request"
    and "plan_orders request \<subseteq> (need_edges (indexRequest ord request) (activity_ids request))\<^sup>+"
proof -
  have ok: "plan_ok (er_Plan request) (er_Workflow request) (er_Resources request) (er_ExecutionScope request) (er_NetworkTopology request)"
    and "'''' \<notin> activity_ids request" using assms by (simp_all add: accepted_request_def)
  then have names: "act_ID a \<noteq> ''''" if "a \<in> set (wfv_Activities (er_Workflow request))" for a using that by (metis imageI)
  show "need_edges (indexRequest ord request) (activity_ids request) \<subseteq> plan_orders request"
    unfolding plan_orders_def by (rule need_edges_plan(1) [OF ok names refl refl])
  show "plan_orders request \<subseteq> (need_edges (indexRequest ord request) (activity_ids request))\<^sup>+"
    unfolding plan_orders_def by (rule need_edges_plan(2) [OF ok names refl refl])
qed

lemma plan_orders_known:
  assumes "accepted_request request" and "(p, k) \<in> plan_orders request"
  shows "p \<in> activity_ids request \<and> k \<in> activity_ids request"
proof -
  have ids: "asg_ActivityID ` set (plan_Assignments (er_Plan request)) = activity_ids request"
    "known_endpoints (er_Workflow request)" using assms(1) unfolding accepted_request_def plan_ok_def dag_def by blast+
  show ?thesis
    using assms(2) ids unfolding plan_orders_def known_endpoints_def lane_before_def by (auto simp: edges_def)
qed

lemma finite_plan_orders: "finite (plan_orders request)"
proof -
  have "lane_before asgs \<subseteq> asg_ActivityID ` set asgs \<times> asg_ActivityID ` set asgs" for asgs by (auto simp: lane_before_def)
  then have "finite (lane_before asgs)" for asgs by (rule finite_subset) simp
  then show ?thesis by (simp add: plan_orders_def)
qed

lemma acyclic_need_edges:
  assumes "accepted_request request"
  shows "acyclic (need_edges (indexRequest ord request) (activity_ids request)) = acyclic (plan_orders request)"
proof
  assume "acyclic (plan_orders request)"
  then show "acyclic (need_edges (indexRequest ord request) (activity_ids request))"
    using accepted_orders(1) [OF assms] acyclic_subset by blast
next
  assume a: "acyclic (need_edges (indexRequest ord request) (activity_ids request))"
  have "(plan_orders request)\<^sup>+ \<subseteq> (need_edges (indexRequest ord request) (activity_ids request))\<^sup>+"
    using trancl_mono [OF _ accepted_orders(2) [OF assms, of ord]] unfolding trancl_id [OF trans_trancl] by blast
  then show "acyclic (plan_orders request)" using a unfolding acyclic_def by blast
qed

text \<open>The resource of an assignment of an accepted plan is one of the request.\<close>

lemma accepted_resource:
  assumes "accepted_request request" and "k \<in> activity_ids request"
  shows "res_ID (resource_for (indexRequest ord request) (asg_for (ix_assignments (indexRequest ord request)) k)) \<in>
    res_ID ` set (er_Resources request)"
proof -
  let ?asgs = "plan_Assignments (er_Plan request)"
  have ids: "asg_ActivityID ` set ?asgs = activity_ids request"
    and ok: "\<And>a. a \<in> set ?asgs \<Longrightarrow> assignment_ok (er_Workflow request) (er_Resources request) (er_ExecutionScope request) a"
    using assms(1) unfolding accepted_request_def plan_ok_def by blast+
  obtain a where a: "map_of (index_by asg_ActivityID ?asgs) k = Some a" "a \<in> set ?asgs"
    using ids assms(2) map_of_index_by_ex [of _ ?asgs asg_ActivityID] map_of_index_by_Some [of asg_ActivityID ?asgs k]
    by (metis (no_types, lifting) imageE)
  obtain r where "last_with res_ID (er_Resources request) (asg_ResourceID a) = Some r"
    using ok [OF a(2)] unfolding assignment_ok_def by blast
  then have "map_of (index_by res_ID (er_Resources request)) (asg_ResourceID a) = Some r" by (simp add: map_of_index_by)
  then show ?thesis
    using a(1) map_of_index_by_Some [of res_ID "er_Resources request" "asg_ResourceID a" r]
    by (auto simp: indexRequest_def asg_for_def resource_for_def intro: rev_image_eqI)
qed

section \<open>When a simulation succeeds\<close>

definition sim_start :: SimState where
  "sim_start = \<lparr>sim_completed = [], sim_transfers = []\<rparr>"

text \<open>What holds in every state of the loop.\<close>

definition sim_inv :: "ExecutionRequest \<Rightarrow> indexedRequest \<Rightarrow> SimState \<Rightarrow> bool" where
  "sim_inv request model st \<longleftrightarrow> in_need_order model (keys (sim_completed st)) \<and>
     set (keys (sim_completed st)) \<subseteq> activity_ids request \<and>
     (\<forall>k t. map_of (sim_completed st) k = Some t \<longrightarrow> task_AllocatedResourceID t \<in> res_ID ` set (er_Resources request))"

lemma sim_inv_start: "sim_inv request model sim_start"
  by (simp add: sim_inv_def sim_start_def in_need_order_def)

lemma sim_inv_step:
  assumes "accepted_request request" and "a \<in> set (wfv_Activities (er_Workflow request))"
    and "sim_inv request (indexRequest ord request) st" and "sim_ready (indexRequest ord request) (sim_completed st) (act_ID a)"
  shows "sim_inv request (indexRequest ord request) (after_activity request (indexRequest ord request) a d tt xs st)"
proof -
  let ?model = "indexRequest ord request"
  have 1: "in_need_order ?model (keys (sim_completed (after_activity request ?model a d tt xs st)))"
    using after_activity_order [OF _ assms(4)] assms(3) unfolding sim_inv_def by blast
  have 2: "set (keys (sim_completed (after_activity request ?model a d tt xs st))) \<subseteq> activity_ids request"
    using assms(2,3) unfolding sim_inv_def after_activity_def by (auto simp: set_keys_put simp del: set_map)
  have "res_ID (resource_for ?model (asg_for (ix_assignments ?model) (act_ID a))) \<in> res_ID ` set (er_Resources request)"
    using accepted_resource [OF assms(1)] assms(2) by blast
  then have "\<forall>k t. map_of (sim_completed (after_activity request ?model a d tt xs st)) k = Some t \<longrightarrow>
      task_AllocatedResourceID t \<in> res_ID ` set (er_Resources request)"
    using assms(3) unfolding sim_inv_def after_activity_def by (auto simp: simulated_task_def Let_def)
  then show ?thesis using 1 2 unfolding sim_inv_def by blast
qed

lemma simulate_eq: "simulate so request model = sim_loop so request model sim_start"
  by (simp add: simulate_def sim_start_def)

lemma simulate_acyclic:
  assumes "accepted_request request" and "simulate so request (indexRequest ord request) = Inr st"
  shows "acyclic (plan_orders request) \<and> sim_inv request (indexRequest ord request) st \<and>
    set (keys (sim_completed st)) = activity_ids request"
proof -
  let ?model = "indexRequest ord request"
  have inv: "sim_inv request ?model st \<and> \<not> length (sim_completed st) < length (wfv_Activities (er_Workflow request))"
    by (rule sim_loop_inv [where P = "sim_inv request ?model", OF assms(2) [unfolded simulate_eq] sim_inv_start])
      (rule sim_inv_step [OF assms(1)])
  have "distinct (keys (sim_completed st))" using inv unfolding sim_inv_def in_need_order_def by blast
  then have "card (set (keys (sim_completed st))) = length (sim_completed st)" by (simp add: distinct_card del: set_map)
  moreover have "card (activity_ids request) \<le> length (wfv_Activities (er_Workflow request))"
    by (metis card_length length_map list.set_map)
  ultimately have "set (keys (sim_completed st)) = activity_ids request"
    using inv unfolding sim_inv_def by (intro card_seteq) simp_all
  moreover have "acyclic (need_edges ?model (activity_ids request))"
    by (rule in_need_order_acyclic [of ?model "keys (sim_completed st)"])
      (use inv calculation in \<open>auto simp: sim_inv_def need_edges_def\<close>)
  ultimately show ?thesis using inv acyclic_need_edges [OF assms(1)] by blast
qed

lemma simulate_stuck:
  assumes "accepted_request request" and "simulate so request (indexRequest ord request) = Inl cannot_progress"
  shows "\<not> acyclic (plan_orders request)"
proof -
  let ?model = "indexRequest ord request"
  obtain st where st: "sim_inv request ?model st" "length (sim_completed st) < length (wfv_Activities (er_Workflow request))"
    "\<And>a. a \<in> set (wfv_Activities (er_Workflow request)) \<Longrightarrow> \<not> sim_ready ?model (sim_completed st) (act_ID a)"
    using sim_loop_stuck [where P = "sim_inv request ?model", OF assms(2) [unfolded simulate_eq] sim_inv_start sim_inv_step [OF assms(1)]]
    by blast
  define S where "S = activity_ids request - set (keys (sim_completed st))"
  have "distinct (map act_ID (wfv_Activities (er_Workflow request)))" using assms(1) by (simp add: accepted_request_def)
  then have "card (activity_ids request) = length (wfv_Activities (er_Workflow request))" by (metis distinct_card length_map list.set_map)
  moreover have "card (set (keys (sim_completed st))) \<le> length (sim_completed st)" by (metis card_length length_map)
  ultimately have "\<not> activity_ids request \<subseteq> set (keys (sim_completed st))"
    using st(2) card_mono [of "set (keys (sim_completed st))" "activity_ids request"] by (auto simp del: set_map)
  then have S: "S \<noteq> {}" by (auto simp: S_def)
  have "\<exists>p \<in> S. (p, k) \<in> plan_orders request" if "k \<in> S" for k
  proof -
    have "k \<in> activity_ids request" "k \<notin> set (keys (sim_completed st))" using that by (auto simp: S_def simp del: set_map)
    then obtain p where p: "p \<in> needs ?model k" "p \<notin> set (keys (sim_completed st))"
      using st(3) unfolding sim_ready_needs by blast
    then have "(p, k) \<in> plan_orders request"
      using accepted_orders(1) [OF assms(1), of ord] \<open>k \<in> activity_ids request\<close> unfolding need_edges_def by blast
    then show ?thesis using plan_orders_known [OF assms(1)] p(2) unfolding S_def by blast
  qed
  then show ?thesis using stuck_cycle [OF finite_plan_orders S] by blast
qed

text \<open>A network in which every resource can send to every other.\<close>

definition connected :: "ExecutionRequest \<Rightarrow> bool" where
  "connected request \<longleftrightarrow> (\<forall>r \<in> set (er_Resources request). res_ID r \<noteq> '''') \<and>
     (\<forall>bytes > 0. links_ok (top_Links (er_NetworkTopology request)) bytes \<and>
        (\<forall>u \<in> res_ID ` set (er_Resources request). \<forall>v \<in> res_ID ` set (er_Resources request).
           \<exists>d c. route (top_Links (er_NetworkTopology request)) bytes u v d c))"

lemma route_found:
  assumes "route links bytes source target d c" and "links_ok links bytes" and "source \<noteq> ''''"
  shows "resolveNetworkPath ord links source target bytes \<noteq> None"
  using resolveNetworkPath_correct [OF assms(2,3), where ord = ord and target = target] assms(1) by (auto split: option.splits)

lemma transfer_loop_total:
  assumes "connected request" and "res_ID resource \<in> res_ID ` set (er_Resources request)"
    and "\<And>k. k \<in> set ks \<Longrightarrow> task_AllocatedResourceID (sim_task completed k) \<in> res_ID ` set (er_Resources request)"
  shows "\<exists>r. transfer_loop so request a resource model completed ks d tt xs = Inr r"
  using assms(3)
proof (induction ks arbitrary: d tt xs)
  case (Cons k ks)
  let ?bytes = "int_of_key (ix_dataBytes model) (pair_key k (act_ID a))"
  let ?source = "task_AllocatedResourceID (sim_task completed k)"
  have k: "?source \<in> res_ID ` set (er_Resources request)" using Cons.prems by simp
  show ?case
  proof (cases "?source \<noteq> res_ID resource \<and> ?bytes > 0")
    case True
    have "?source \<noteq> ''''" "links_ok (top_Links (er_NetworkTopology request)) ?bytes"
      "\<exists>d c. route (top_Links (er_NetworkTopology request)) ?bytes ?source (res_ID resource) d c"
      using assms(1,2) k True unfolding connected_def by auto
    then have "resolveNetworkPath (so_search so k (act_ID a)) (top_Links (er_NetworkTopology request)) ?source (res_ID resource) ?bytes \<noteq> None"
      by (blast dest: route_found)
    then show ?thesis using Cons True by (auto simp: Let_def)
  next
    case False
    then show ?thesis using Cons by (auto simp: Let_def)
  qed
qed simp

lemma simulate_total:
  assumes "accepted_request request" and "connected request"
  shows "(\<exists>st. simulate so request (indexRequest ord request) = Inr st) \<or>
    simulate so request (indexRequest ord request) = Inl cannot_progress"
  unfolding simulate_eq
proof (rule sim_loop_total [where P = "sim_inv request (indexRequest ord request)", OF sim_inv_start sim_inv_step [OF assms(1)]])
  let ?model = "indexRequest ord request"
  fix a st
  assume a: "a \<in> set (wfv_Activities (er_Workflow request))" and inv: "sim_inv request ?model st"
    and ready: "sim_ready ?model (sim_completed st) (act_ID a)"
  have "task_AllocatedResourceID (sim_task (sim_completed st) k) \<in> res_ID ` set (er_Resources request)"
    if "k \<in> set (get_list (ix_predecessors ?model) (act_ID a))" for k
  proof -
    have "map_of (sim_completed st) k \<noteq> None" using ready that unfolding sim_ready_def allCompleted_def by blast
    then show ?thesis using inv unfolding sim_inv_def by (auto simp: sim_task_def)
  qed
  then show "\<exists>r. resolveTransfers so request a (resource_for ?model (asg_for (ix_assignments ?model) (act_ID a))) ?model
      (sim_completed st) = Inr r"
    unfolding resolveTransfers_def using a by (intro transfer_loop_total [OF assms(2)] accepted_resource [OF assms(1)]) auto
qed

section \<open>Only costs change in the trace\<close>

abbreviation uncosted :: "TaskExecution \<Rightarrow> TaskExecution" where
  "uncosted t \<equiv> t\<lparr>task_Cost := fzero\<rparr>"

lemma charge_uncosted: "map uncosted (charge_resource prices entry tasks) = map uncosted tasks"
proof -
  have "map uncosted (fold (\<lambda>i ts. ts[i := (ts ! i)\<lparr>task_Cost := f (ts ! i)\<rparr>]) is tasks) = map uncosted tasks" for f "is"
  proof (induction "is" arbitrary: tasks)
    case (Cons i "is")
    have "map uncosted (tasks[i := (tasks ! i)\<lparr>task_Cost := f (tasks ! i)\<rparr>]) = map uncosted tasks"
      by (cases "i < length tasks") (auto simp: nth_list_update intro!: nth_equalityI)
    then show ?case using Cons.IH by simp
  qed simp
  then show ?thesis by (simp add: charge_resource_def Let_def split: prod.split)
qed

lemma costs_uncosted: "map uncosted (applyResourceActiveCosts ord tasks resources) = map uncosted tasks"
proof -
  have "map uncosted (fold (\<lambda>k. charge_resource prices (k, f k)) ks ts) = map uncosted ts" for prices f ks ts
    by (induction ks arbitrary: ts) (simp_all add: charge_uncosted)
  then show ?thesis unfolding applyResourceActiveCosts_def Let_def by simp
qed

lemma uncosted_fields:
  assumes "map uncosted ts = map uncosted us" and "i < length us"
  shows "task_ActivityID (ts ! i) = task_ActivityID (us ! i)" "task_StartedAt (ts ! i) = task_StartedAt (us ! i)"
    "task_FinishedAt (ts ! i) = task_FinishedAt (us ! i)" "task_Status (ts ! i) = task_Status (us ! i)"
proof -
  have "length ts = length us" using assms(1) by (metis length_map)
  then have "uncosted (ts ! i) = uncosted (us ! i)" using assms by (metis nth_map)
  then show "task_ActivityID (ts ! i) = task_ActivityID (us ! i)" "task_StartedAt (ts ! i) = task_StartedAt (us ! i)"
    "task_FinishedAt (ts ! i) = task_FinishedAt (us ! i)" "task_Status (ts ! i) = task_Status (us ! i)"
    by (metis TaskExecution.select_convs(4,8,12,13) TaskExecution.surjective TaskExecution.update_convs(20))+
qed

section \<open>Properties\<close>

text \<open>
  C16. Routes are shortest: for links that are named and whose transfer times are not negative,
  \<^verbatim>\<open>resolveNetworkPath\<close> returns the time and the price of a route from the source to the target
  whose time, added up in \<^verbatim>\<open>float64\<close>, is least among all routes, and no route exactly when there is
  none, whatever the order in which Go visits the maps.
\<close>

theorem network_path_shortest:
  assumes "links_ok links bytes" and "source \<noteq> ''''"
  shows "case resolveNetworkPath ord links source target bytes of
      Some (d, c) \<Rightarrow> route links bytes source target d c \<and> (\<forall>d' c'. route links bytes source target d' c' \<longrightarrow> fle d d')
    | None \<Rightarrow> \<not> (\<exists>d c. route links bytes source target d c)"
  using assms by (rule resolveNetworkPath_correct)

definition demo_link :: "string \<Rightarrow> string \<Rightarrow> float64 \<Rightarrow> NetworkLink" where
  "demo_link source target latency = \<lparr>link_ID = '''', link_TopologyID = '''', link_SourceResourceID = source, link_TargetResourceID = target,
     link_BandwidthBitsPerSecond = Fin 8, link_LatencySeconds = latency, link_PricePerByte = Fin 1, link_Bidirectional = True,
     link_SharingPolicy = '''', link_MaxConcurrentTransfers = 0, link_Metadata = []\<rparr>"

theorem network_path_shortest_witness:
  "\<exists>d c. resolveNetworkPath (\<lambda>_ ks. ks) [demo_link ''r1'' ''r2'' fzero, demo_link ''r3'' ''r2'' fzero]
     ''r1'' ''r3'' 1 = Some (d, c) \<and> d = Fin 2 \<and>
     route [demo_link ''r1'' ''r2'' fzero, demo_link ''r3'' ''r2'' fzero] 1 ''r1'' ''r3'' d c"
proof -
  let ?links = "[demo_link ''r1'' ''r2'' fzero, demo_link ''r3'' ''r2'' fzero]"
  have ok: "links_ok ?links 1" by code_simp
  have r: "resolveNetworkPath (\<lambda>_ ks. ks) ?links ''r1'' ''r3'' 1 = Some (Fin 2, Fin 2)" by code_simp
  show ?thesis using network_path_shortest [OF ok, where source = "''r1''" and ord = "\<lambda>_ ks. ks" and target = "''r3''"] r by simp
qed

text \<open>
  C17. A simulation succeeds exactly when it can: for an accepted request over a connected network,
  \<^verbatim>\<open>Execute\<close> returns a trace if and only if the dependencies and the lane orders together have no
  cycle. It always returns.
\<close>

theorem simulation_succeeds_iff:
  assumes "accepted_request request" and "connected request"
  shows "(\<exists>trace. simulator_Execute so None request = Inr trace) \<longleftrightarrow> acyclic (plan_orders request)"
proof -
  let ?model = "indexRequest (so_lanes so) request"
  have "(\<exists>trace. simulator_Execute so None request = Inr trace) \<longleftrightarrow> (\<exists>st. simulate so request ?model = Inr st)"
    using assms(1) unfolding accepted_request_def simulator_Execute_def
    by (simp add: plan_Validate_iff [THEN iffD2] split: sum.split)
  then show ?thesis
    using simulate_total [OF assms, of so "so_lanes so"] simulate_acyclic [OF assms(1)] simulate_stuck [OF assms(1)] by blast
qed

definition sim_orders :: SimOrders where
  "sim_orders = \<lparr>so_validator = (\<lambda>ks. ks), so_lanes = (\<lambda>ks. ks), so_search = (\<lambda>_ _ _ ks. ks), so_billing = (\<lambda>ks. ks)\<rparr>"

definition demo_simulation :: ExecutionRequest where
  "demo_simulation = demo_request\<lparr>er_Run := demo_run\<lparr>run_Mode := ExecutionModeSimulation\<rparr>\<rparr>"

definition crossed_simulation :: ExecutionRequest where
  "crossed_simulation = demo_simulation\<lparr>er_Plan := crossed_plan, er_Workflow := crossed_workflow\<rparr>"

lemma accepted_requestI:
  assumes "run_Mode (er_Run request) = ExecutionModeSimulation"
    and "plan_Validate ord (er_Plan request) (er_Workflow request) (er_Resources request) (er_ExecutionScope request)
      (er_NetworkTopology request) = None"
    and "distinct (map act_ID (wfv_Activities (er_Workflow request)))" and "'''' \<notin> set (map act_ID (wfv_Activities (er_Workflow request)))"
  shows "accepted_request request"
  using assms unfolding accepted_request_def plan_Validate_iff by simp

lemma demo_accepted: "accepted_request demo_simulation"
  by (rule accepted_requestI [where ord = "\<lambda>ks. ks"]; code_simp)

lemma crossed_accepted: "accepted_request crossed_simulation"
  by (rule accepted_requestI [where ord = "\<lambda>ks. ks"]; code_simp)

lemma one_resource_connected:
  assumes "er_Resources request = [demo_resource]" and "er_NetworkTopology request = demo_topology"
  shows "connected request"
proof -
  have "\<exists>d c. route links bytes ''r1'' ''r1'' d c" for links bytes by (intro exI) (rule route_start)
  then show ?thesis using assms by (auto simp: connected_def demo_resource_def demo_topology_def links_ok_def)
qed

lemma demo_connected: "connected demo_simulation" "connected crossed_simulation"
  by (rule one_resource_connected; simp add: demo_simulation_def crossed_simulation_def demo_request_def)+

lemma demo_simulated: "\<exists>trace. simulator_Execute sim_orders None demo_simulation = Inr trace"
proof -
  have "\<not> isl (simulator_Execute sim_orders None demo_simulation)" by code_simp
  then show ?thesis by (cases "simulator_Execute sim_orders None demo_simulation") auto
qed

theorem simulation_succeeds_iff_witness:
  "acyclic (plan_orders demo_simulation) \<and> \<not> acyclic (plan_orders crossed_simulation)"
proof
  show "acyclic (plan_orders demo_simulation)"
    using simulation_succeeds_iff [OF demo_accepted demo_connected(1), of sim_orders] demo_simulated by blast
  have "isl (simulator_Execute sim_orders None crossed_simulation)" by code_simp
  then show "\<not> acyclic (plan_orders crossed_simulation)"
    using simulation_succeeds_iff [OF crossed_accepted demo_connected(2), of sim_orders] by auto
qed

lemma simulated_times:
  assumes "accepted_request request" and "durations_ok request (indexRequest (so_lanes so) request)"
    and "simulate so request (indexRequest (so_lanes so) request) = Inr st"
  shows "task_times_ok (indexRequest (so_lanes so) request) (res_ID ` set (er_Resources request)) (sim_completed st)"
proof -
  let ?model = "indexRequest (so_lanes so) request" and ?rids = "res_ID ` set (er_Resources request)"
  have rids: "'''' \<notin> ?rids" using assms(2) unfolding durations_ok_def by (metis imageE)
  have "task_times_ok ?model ?rids (sim_completed st) \<and> \<not> length (sim_completed st) < length (wfv_Activities (er_Workflow request))"
  proof (rule sim_loop_inv [where P = "\<lambda>st. task_times_ok ?model ?rids (sim_completed st)", OF assms(3) [unfolded simulate_eq]])
    show "task_times_ok ?model ?rids (sim_completed sim_start)" by (simp add: task_times_ok_def sim_start_def)
    fix a d tt xs and st :: SimState
    assume "a \<in> set (wfv_Activities (er_Workflow request))" "task_times_ok ?model ?rids (sim_completed st)"
      "sim_ready ?model (sim_completed st) (act_ID a)"
      "resolveTransfers so request a (resource_for ?model (asg_for (ix_assignments ?model) (act_ID a))) ?model (sim_completed st) =
        Inr (d, tt, xs)"
    then show "task_times_ok ?model ?rids (sim_completed (after_activity request ?model a d tt xs st))"
      using accepted_resource [OF assms(1)] by (intro after_activity_times [OF assms(2) _ rids]) auto
  qed
  then show ?thesis by blast
qed

text \<open>Tasks that wait for each other, directly or through others, do not overlap.\<close>

lemma times_along_needs:
  assumes "task_times_ok model rids completed" and "(p, k) \<in> (need_edges model ids)\<^sup>+" and "ids \<subseteq> set (keys completed)"
  shows "fle (task_FinishedAt (sim_task completed p)) (task_StartedAt (sim_task completed k)) \<and>
    fle (task_StartedAt (sim_task completed k)) (task_FinishedAt (sim_task completed k))"
  using assms(2)
proof (induction rule: trancl_induct)
  case (base k)
  have "map_of completed k \<noteq> None" using base assms(3) unfolding need_edges_def map_of_None_keys by blast
  then have k: "map_of completed k = Some (sim_task completed k)" by (auto simp: sim_task_def)
  have "p \<in> needs model k" using base unfolding need_edges_def by blast
  then obtain tp where "map_of completed p = Some tp" "fle (task_FinishedAt tp) (task_StartedAt (sim_task completed k))"
    "fle (task_StartedAt (sim_task completed k)) (task_FinishedAt (sim_task completed k))"
    using assms(1) k unfolding task_times_ok_def by blast
  then show ?case by (simp add: sim_task_def [of _ p])
next
  case (step y z)
  have "map_of completed z \<noteq> None" using step.hyps(2) assms(3) unfolding need_edges_def map_of_None_keys by blast
  then have z: "map_of completed z = Some (sim_task completed z)" by (auto simp: sim_task_def)
  have "y \<in> needs model z" using step.hyps(2) unfolding need_edges_def by blast
  then have "fle (task_FinishedAt (sim_task completed y)) (task_StartedAt (sim_task completed z)) \<and>
      fle (task_StartedAt (sim_task completed z)) (task_FinishedAt (sim_task completed z))"
    using assms(1) z unfolding task_times_ok_def sim_task_def [of _ y] by fastforce
  then show ?case using step.IH fle_trans by blast
qed

lemma trace_task:
  fixes so :: SimOrders
  assumes "task_times_ok model rids (sim_completed st)" and "set (keys (sim_completed st)) = activity_ids request"
    and "i < length (wfv_Activities (er_Workflow request))"
  defines "a \<equiv> wfv_Activities (er_Workflow request) ! i" and "t \<equiv> tra_Tasks (buildTrace so request st) ! i"
  shows "task_ActivityID t = act_ID a \<and> task_Status t = TaskCompleted \<and> fle (task_StartedAt t) (task_FinishedAt t) \<and>
    task_StartedAt t = task_StartedAt (sim_task (sim_completed st) (act_ID a)) \<and>
    task_FinishedAt t = task_FinishedAt (sim_task (sim_completed st) (act_ID a))"
proof -
  let ?as = "wfv_Activities (er_Workflow request)"
  have un: "map uncosted (tra_Tasks (buildTrace so request st)) = map uncosted (map (\<lambda>a. sim_task (sim_completed st) (act_ID a)) ?as)"
    unfolding buildTrace_def Let_def by (simp add: costs_uncosted)
  have "act_ID a \<in> activity_ids request" using assms(3) unfolding a_def by simp
  then have "map_of (sim_completed st) (act_ID a) \<noteq> None" using assms(2) unfolding map_of_None_keys by blast
  then have "map_of (sim_completed st) (act_ID a) = Some (sim_task (sim_completed st) (act_ID a))" by (auto simp: sim_task_def)
  then show ?thesis using uncosted_fields [OF un, of i] assms(1,3) unfolding task_times_ok_def a_def t_def by simp
qed

lemma trace_length: "length (tra_Tasks (buildTrace so request st)) = length (wfv_Activities (er_Workflow request))"
proof -
  have "map uncosted (tra_Tasks (buildTrace so request st)) =
      map uncosted (map (\<lambda>a. sim_task (sim_completed st) (act_ID a)) (wfv_Activities (er_Workflow request)))"
    unfolding buildTrace_def Let_def by (simp add: costs_uncosted)
  then show ?thesis by (metis length_map)
qed

text \<open>
  C18. The trace of a simulation respects the plan: it has one completed task per activity, in the order
  of the workflow; no task ends before it starts; and a task starts only after every activity it
  depends on, and every one before it in its lane, has finished.
\<close>

theorem simulation_respects_orders:
  assumes "accepted_request request" and "durations_ok request (indexRequest (so_lanes so) request)"
    and "simulator_Execute so None request = Inr trace"
  shows "map task_ActivityID (tra_Tasks trace) = map act_ID (wfv_Activities (er_Workflow request)) \<and>
    (\<forall>t \<in> set (tra_Tasks trace). task_Status t = TaskCompleted \<and> fle (task_StartedAt t) (task_FinishedAt t)) \<and>
    (\<forall>t \<in> set (tra_Tasks trace). \<forall>u \<in> set (tra_Tasks trace). (task_ActivityID u, task_ActivityID t) \<in> plan_orders request \<longrightarrow>
       fle (task_FinishedAt u) (task_StartedAt t))"
proof -
  let ?model = "indexRequest (so_lanes so) request" and ?as = "wfv_Activities (er_Workflow request)"
  obtain st where sim: "simulate so request ?model = Inr st" and trace: "trace = buildTrace so request st"
    using assms(3) unfolding simulator_Execute_def by (auto split: if_splits option.splits sum.splits)
  note times = simulated_times [OF assms(1,2) sim]
  have all: "set (keys (sim_completed st)) = activity_ids request" using simulate_acyclic [OF assms(1) sim] by blast
  note task = trace_task [OF times all, where so = so, folded trace] and len = trace_length [of so request st, folded trace]
  have "map task_ActivityID (tra_Tasks trace) = map act_ID ?as" using task len by (intro nth_equalityI) auto
  moreover have "\<forall>t \<in> set (tra_Tasks trace). task_Status t = TaskCompleted \<and> fle (task_StartedAt t) (task_FinishedAt t)"
    using task len by (metis in_set_conv_nth)
  moreover have "fle (task_FinishedAt u) (task_StartedAt t)"
    if tu: "t \<in> set (tra_Tasks trace)" "u \<in> set (tra_Tasks trace)" and before: "(task_ActivityID u, task_ActivityID t) \<in> plan_orders request" for t u
  proof -
    obtain i j where ij: "i < length ?as" "t = tra_Tasks trace ! i" "j < length ?as" "u = tra_Tasks trace ! j"
      using tu len by (metis in_set_conv_nth)
    then have "(act_ID (?as ! j), act_ID (?as ! i)) \<in> (need_edges ?model (activity_ids request))\<^sup>+"
      using before task accepted_orders(2) [OF assms(1), of "so_lanes so"] by auto
    then show ?thesis using times_along_needs [OF times, of _ _ "activity_ids request"] all task ij by (metis order_refl)
  qed
  ultimately show ?thesis by blast
qed

lemma demo_durations: "durations_ok demo_simulation (indexRequest (so_lanes sim_orders) demo_simulation)"
proof -
  have "(\<forall>a \<in> set (wfv_Activities (er_Workflow demo_simulation)).
        let model = indexRequest (so_lanes sim_orders) demo_simulation;
            asg = asg_for (ix_assignments model) (act_ID a); resource = resource_for model asg in
        fle fzero (resolveRuntime a resource (ix_profiles model)) \<and> fle fzero (resolveAssignmentOverhead asg resource))"
    by code_simp
  moreover have "links_ok (top_Links (er_NetworkTopology demo_simulation)) bytes" for bytes
    by (simp add: links_ok_def demo_simulation_def demo_request_def demo_topology_def)
  moreover have "\<forall>r \<in> set (er_Resources demo_simulation). res_ID r \<noteq> ''''" by code_simp
  ultimately show ?thesis by (simp add: durations_ok_def Let_def)
qed

theorem simulation_respects_orders_witness:
  "\<exists>trace. simulator_Execute sim_orders None demo_simulation = Inr trace \<and> map task_ActivityID (tra_Tasks trace) = [''b'', ''a'']"
proof -
  obtain trace where t: "simulator_Execute sim_orders None demo_simulation = Inr trace" using demo_simulated by blast
  have "map act_ID (wfv_Activities (er_Workflow demo_simulation)) = [''b'', ''a'']" by code_simp
  then show ?thesis using simulation_respects_orders [OF demo_accepted demo_durations t] t by simp
qed

text \<open>
  The verdict of a trace is what the plan asks for: it is feasible exactly when no deadline that is
  set is exceeded by the makespan and no budget that is set is exceeded by the cost.
\<close>

theorem trace_feasible_iff:
  "met_Feasible (tra_Executed (buildTrace so request st)) \<longleftrightarrow>
     \<not> (flt fzero (plan_DeadlineSeconds (er_Plan request)) \<and>
        flt (plan_DeadlineSeconds (er_Plan request)) (met_MakespanSeconds (tra_Executed (buildTrace so request st)))) \<and>
     \<not> (flt fzero (plan_Budget (er_Plan request)) \<and>
        flt (plan_Budget (er_Plan request)) (met_Cost (tra_Executed (buildTrace so request st))))"
proof -
  have t: "met_Feasible (fold add_task_metrics ts m) = met_Feasible m" for ts m
    by (induction ts arbitrary: m) (simp_all add: add_task_metrics_def)
  have x: "met_Feasible (fold (\<lambda>x m. m\<lparr>met_Cost := fadd (met_Cost m) (dt_Cost x)\<rparr>) xs m) = met_Feasible m" for xs m
    by (induction xs arbitrary: m) simp_all
  show ?thesis unfolding buildTrace_def trace_metrics_def by (simp add: Let_def t x)
qed

end
