(* ===== verification/Go_Text.thy ===== *)
theory Go_Text
  imports Go_Base Float64
begin

text \<open>
  Text that the sources treat character by character: the UTF-8 characters that \<^verbatim>\<open>strings.Map\<close> visits,
  \<^verbatim>\<open>strings.Trim\<close> of dashes, decimal integers, and the other conversions of \<^verbatim>\<open>strconv\<close> between numbers and text as parameters.
\<close>

section \<open>Characters\<close>

definition byte_in :: "nat \<Rightarrow> nat \<Rightarrow> char list \<Rightarrow> nat \<Rightarrow> bool" where
  "byte_in lo hi s i \<longleftrightarrow> i < length s \<and> lo \<le> (of_char (s ! i) :: nat) \<and> (of_char (s ! i) :: nat) \<le> hi"

text \<open>The number of bytes of the first character; it is one for a byte that starts no valid character.\<close>

definition rune_width :: "string \<Rightarrow> nat" where
  "rune_width s =
     (if byte_in 194 223 s 0 \<and> byte_in 128 191 s 1 then 2
      else if byte_in 224 239 s 0 \<and> byte_in (if byte_in 224 224 s 0 then 160 else 128) (if byte_in 237 237 s 0 then 159 else 191) s 1 \<and>
              byte_in 128 191 s 2 then 3
      else if byte_in 240 244 s 0 \<and> byte_in (if byte_in 240 240 s 0 then 144 else 128) (if byte_in 244 244 s 0 then 143 else 191) s 1 \<and>
              byte_in 128 191 s 2 \<and> byte_in 128 191 s 3 then 4
      else 1)"

lemma rune_width_pos: "0 < rune_width s"
  by (simp add: rune_width_def)

text \<open>\<^verbatim>\<open>strings.Map\<close> with a function from the bytes of a character to those of its image.\<close>

function map_runes :: "(string \<Rightarrow> string) \<Rightarrow> string \<Rightarrow> string" where
  "map_runes f [] = []"
| "map_runes f (c # cs) = (let n = rune_width (c # cs) in f (take n (c # cs)) @ map_runes f (drop (n - 1) cs))"
  by pat_completeness auto
termination by (relation "measure (\<lambda>(f, s). length s)") auto

lemma map_runes_all: "(\<And>r. list_all P (f r)) \<Longrightarrow> list_all P (map_runes f s)"
  by (induction f s rule: map_runes.induct) (auto simp: Let_def)

lemma map_runes_ascii: "(of_char c :: nat) < 128 \<Longrightarrow> map_runes f (c # s) = f [c] @ map_runes f s"
  by (simp add: rune_width_def byte_in_def)

definition trim_dashes :: "string \<Rightarrow> string" where
  "trim_dashes s = rev (dropWhile (\<lambda>c. c = CHR ''-'') (rev (dropWhile (\<lambda>c. c = CHR ''-'') s)))"

definition trim_suffix :: "string \<Rightarrow> string \<Rightarrow> string" where
  "trim_suffix s p = (if has_suffix s p then take (length s - length p) s else s)"

lemma trim_dashes_set: "set (trim_dashes s) \<subseteq> set s" "length (trim_dashes s) \<le> length s"
proof -
  have "set (trim_dashes s) \<subseteq> set (dropWhile (\<lambda>c. c = CHR ''-'') s)" by (auto simp: trim_dashes_def dest: set_dropWhileD)
  then show "set (trim_dashes s) \<subseteq> set s" by (auto dest: set_dropWhileD)
  have "length (trim_dashes s) \<le> length (dropWhile (\<lambda>c. c = CHR ''-'') s)" by (simp add: trim_dashes_def length_dropWhile_le [THEN le_trans])
  then show "length (trim_dashes s) \<le> length s" using length_dropWhile_le le_trans by blast
qed

lemma trim_dashes_ends:
  assumes "trim_dashes s \<noteq> []"
  shows "hd (trim_dashes s) \<noteq> CHR ''-''" "last (trim_dashes s) \<noteq> CHR ''-''"
proof -
  define u where "u = dropWhile (\<lambda>c. c = CHR ''-'') s"
  define v where "v = dropWhile (\<lambda>c. c = CHR ''-'') (rev u)"
  have t: "trim_dashes s = rev v" by (simp add: trim_dashes_def u_def v_def)
  then have "v \<noteq> []" using assms by simp
  then have "hd v \<noteq> CHR ''-''" using hd_dropWhile [of "\<lambda>c. c = CHR ''-''" "rev u"] by (simp add: v_def)
  then show "last (trim_dashes s) \<noteq> CHR ''-''" by (simp add: t last_rev)
  have "rev u = takeWhile (\<lambda>c. c = CHR ''-'') (rev u) @ v" by (simp add: v_def)
  then have "u = rev v @ rev (takeWhile (\<lambda>c. c = CHR ''-'') (rev u))" by (metis rev_append rev_rev_ident)
  then have "hd (rev v) = hd u" "u \<noteq> []" using \<open>v \<noteq> []\<close> by (metis hd_append2 rev_is_Nil_conv, metis append_is_Nil_conv rev_is_Nil_conv)
  then show "hd (trim_dashes s) \<noteq> CHR ''-''" using hd_dropWhile [of "\<lambda>c. c = CHR ''-''" s] by (simp add: t u_def)
qed

lemma trim_dashes_keep: "s \<noteq> [] \<Longrightarrow> hd s \<noteq> CHR ''-'' \<Longrightarrow> last s \<noteq> CHR ''-'' \<Longrightarrow> \<exists>t. trim_dashes (s @ r) = s @ t"
proof -
  assume s: "s \<noteq> []" "hd s \<noteq> CHR ''-''" "last s \<noteq> CHR ''-''"
  have "dropWhile (\<lambda>c. c = CHR ''-'') (s @ r) = s @ r" using s by (cases s) auto
  moreover have "dropWhile (\<lambda>c. c = CHR ''-'') (rev s) = rev s" using s by (cases s rule: rev_cases) auto
  ultimately show ?thesis by (auto simp: trim_dashes_def dropWhile_append)
qed

section \<open>Decimal integers\<close>

definition is_digit :: "char \<Rightarrow> bool" where
  "is_digit c \<longleftrightarrow> 48 \<le> (of_char c :: nat) \<and> (of_char c :: nat) \<le> 57"

definition digits_value :: "string \<Rightarrow> int" where
  "digits_value ds = foldl (\<lambda>v c. 10 * v + (int (of_char c) - 48)) 0 ds"

text \<open>\<^verbatim>\<open>strconv.Atoi\<close>: an optional sign and digits, for a number that fits into 64 bits.\<close>

definition Atoi :: "string \<Rightarrow> int option" where
  "Atoi s =
     (let signed = (s \<noteq> [] \<and> hd s \<in> {CHR ''-'', CHR ''+''}); ds = (if signed then tl s else s);
          v = (if signed \<and> hd s = CHR ''-'' then - digits_value ds else digits_value ds)
      in if ds \<noteq> [] \<and> list_all is_digit ds \<and> - (2 ^ 63) \<le> v \<and> v < 2 ^ 63 then Some v else None)"

lemma nat_digits_ne: "nat_digits n \<noteq> []"
  by (subst nat_digits.simps) simp

lemma digit_char: "n < 10 \<Longrightarrow> (of_char (char_of (48 + n)) :: nat) = 48 + n"
  by (simp add: of_char_of)

lemma is_digit_char: "(n::nat) < 10 \<Longrightarrow> is_digit (char_of (48 + n))"
  by (simp add: is_digit_def digit_char)

lemma nat_digits_digits: "list_all is_digit (nat_digits n)"
proof (induction n rule: nat_digits.induct)
  case (1 n)
  then show ?case by (subst nat_digits.simps) (simp add: is_digit_char)
qed

lemma digits_value_snoc: "digits_value (ds @ [c]) = 10 * digits_value ds + (int (of_char c) - 48)"
  by (simp add: digits_value_def)

lemma digits_value_nat: "digits_value (nat_digits n) = int n"
proof (induction n rule: nat_digits.induct)
  case (1 n)
  then show ?case
  proof (cases "n < 10")
    case False
    then have "digits_value (nat_digits n) = 10 * int (n div 10) + int (n mod 10)"
      using 1 by (subst nat_digits.simps) (simp add: digits_value_snoc digit_char)
    then show ?thesis by presburger
  qed (subst nat_digits.simps, simp add: digits_value_def digit_char)
qed

lemma hd_nat_digits: "hd (nat_digits n) \<noteq> CHR ''-''" "hd (nat_digits n) \<noteq> CHR ''+''"
proof -
  have "is_digit (hd (nat_digits n))" using nat_digits_digits [of n] nat_digits_ne [of n] by (cases "nat_digits n") auto
  then show "hd (nat_digits n) \<noteq> CHR ''-''" "hd (nat_digits n) \<noteq> CHR ''+''" by (auto simp: is_digit_def)
qed

lemma Atoi_itoa: "- (2 ^ 63) \<le> i \<Longrightarrow> i < 2 ^ 63 \<Longrightarrow> Atoi (itoa i) = Some i"
  using nat_digits_ne hd_nat_digits nat_digits_digits by (auto simp: Atoi_def itoa_def digits_value_nat Let_def)

section \<open>Numbers\<close>

record Numbers =
  nu_ParseFloat :: "string \<Rightarrow> error + float64"
  nu_FormatFloat :: "float64 \<Rightarrow> string"
  nu_ParseInt :: "string \<Rightarrow> error + int"
  nu_overflow :: "float64 \<Rightarrow> int"

text \<open>The conversion \<^verbatim>\<open>int64(x)\<close>: truncation, and a value that depends on the machine when it does not fit.\<close>

definition to_int64 :: "Numbers \<Rightarrow> float64 \<Rightarrow> int" where
  "to_int64 nu x = (case x of
     Fin q \<Rightarrow> (let t = (if 0 \<le> q then \<lfloor>q\<rfloor> else - \<lfloor>- q\<rfloor>) in if - (2 ^ 63) \<le> t \<and> t < 2 ^ 63 then t else nu_overflow nu x)
   | _ \<Rightarrow> nu_overflow nu x)"

end
