(* ===== verification/Simgrid_Runner.thy ===== *)
theory Simgrid_Runner
  imports Simulation Go_Text
begin

text \<open>
  The bridge to the external SimGrid runner: the platform description of \<^verbatim>\<open>platform.go\<close>, the input
  of \<^verbatim>\<open>runner_contract.go\<close> and the executor of \<^verbatim>\<open>process_executor.go\<close>. The JSON encoding, the
  file system and the runner itself are parameters; the XML text is written out.
\<close>

section \<open>Text\<close>

text \<open>The verb \<open>%.9f\<close>: the decimal nearest to the value with nine digits, ties to even.\<close>

definition pad9 :: "string \<Rightarrow> string" where
  "pad9 s = replicate (9 - length s) (CHR ''0'') @ s"

definition fixed9 :: "float64 \<Rightarrow> string" where
  "fixed9 x = (case x of
     NaN \<Rightarrow> ''NaN'' | PosInf \<Rightarrow> ''+Inf'' | NegInf \<Rightarrow> ''-Inf''
   | Fin q \<Rightarrow>
      (let n = round_half_even (abs q * 1000000000)
       in (if q < 0 then ''-'' else '''') @ itoa (n div 1000000000) @ ''.'' @ pad9 (itoa (n mod 1000000000))))"

text \<open>\<^verbatim>\<open>xml.EscapeText\<close>; characters above the ASCII range are kept, other control characters are replaced.\<close>

definition escape_char :: "char \<Rightarrow> string" where
  "escape_char c =
     (let n = (of_char c :: nat) in
      if n = 34 then ''&#34;'' else if n = 39 then ''&#39;'' else if n = 38 then ''&amp;''
      else if n = 60 then ''&lt;'' else if n = 62 then ''&gt;'' else if n = 9 then ''&#x9;''
      else if n = 10 then ''&#xA;'' else if n = 13 then ''&#xD;''
      else if n < 32 then [char_of (239::nat), char_of (191::nat), char_of (189::nat)] else [c])"

definition xmlEscape :: "string \<Rightarrow> string" where
  "xmlEscape s = concat (map escape_char s)"

definition quoted :: "string \<Rightarrow> string" where
  "quoted s = [char_of (34::nat)] @ s @ [char_of (34::nat)]"

section \<open>Speeds and prices\<close>

definition activityFLOPS :: "Activity \<Rightarrow> float64" where
  "activityFLOPS a =
     (let own = (case numberMetadata (act_Metadata a) ''flops'' of
                   Some v \<Rightarrow> if flt fzero v then v else fzero | None \<Rightarrow> fzero)
      in case act_Simulation a of
           None \<Rightarrow> own
         | Some m \<Rightarrow>
            if flt fzero (sim_FLOPs m) then sim_FLOPs m
            else (case numberMetadata (sim_Parameters m) ''flops'' of
                    Some v \<Rightarrow> if flt fzero v then v else own | None \<Rightarrow> own))"

definition resourceFLOPS :: "Resource \<Rightarrow> float64 \<Rightarrow> float64" where
  "resourceFLOPS r reference =
     (let scaled = (if flt fzero (res_ComputeSpeedup r) then fmul reference (res_ComputeSpeedup r) else reference)
      in case numberMetadata (res_Metadata r) ''flopsPerSecond'' of
           Some v \<Rightarrow> if flt fzero v then v else scaled | None \<Rightarrow> scaled)"

definition transferPrice ::
  "(string list \<Rightarrow> string list \<Rightarrow> string list) \<Rightarrow> NetworkLink list \<Rightarrow> string \<Rightarrow> string \<Rightarrow> float64"
where
  "transferPrice ord links source target =
     (if source = target then fzero
      else case resolveNetworkPath ord links source target 1 of None \<Rightarrow> fzero | Some (_, cost) \<Rightarrow> cost)"

section \<open>The platform\<close>

definition sharingPolicy :: "string \<Rightarrow> string" where
  "sharingPolicy v = (if v = ''independent'' \<or> v = ''fatpipe'' then ''FATPIPE'' else ''SHARED'')"

definition line :: "string \<Rightarrow> string" where
  "line s = s @ [newline]"

definition host_element :: "float64 \<Rightarrow> Resource \<Rightarrow> string" where
  "host_element reference r =
     line (''    <host id='' @ quoted (xmlEscape (res_ID r)) @ '' speed='' @ quoted (fixed9 (resourceFLOPS r reference) @ ''f'') @
       '' core='' @ quoted (itoa (if res_CPUCores r < 1 then 1 else res_CPUCores r)) @ ''/>'')"

definition link_element :: "nat \<Rightarrow> NetworkLink \<Rightarrow> string" where
  "link_element i l =
     line (''    <link id='' @ quoted (''link-'' @ itoa (int i)) @ '' bandwidth='' @
       quoted (fixed9 (fdiv (link_BandwidthBitsPerSecond l) (Fin 8)) @ ''Bps'') @ '' latency='' @
       quoted (fixed9 (link_LatencySeconds l) @ ''s'') @ '' sharing_policy='' @ quoted (sharingPolicy (link_SharingPolicy l)) @ ''/>'')"

definition route_element :: "string \<times> string \<times> nat list \<Rightarrow> string" where
  "route_element rt = (case rt of (source, target, path) \<Rightarrow>
     line (''    <route src='' @ quoted (xmlEscape source) @ '' dst='' @ quoted (xmlEscape target) @ '' symmetrical='' @ quoted ''NO'' @ ''>'') @
     concat (map (\<lambda>i. line (''      <link_ctn id='' @ quoted (''link-'' @ itoa (int i)) @ ''/>'')) path) @
     line ''    </route>'')"

fun check_hosts :: "Resource list \<Rightarrow> error option" where
  "check_hosts [] = None"
| "check_hosts (r # rs) = (if res_ID r = '''' then Some (Errorf ''SimGrid resource id is required'' []) else check_hosts rs)"

fun check_links :: "NetworkLink list \<Rightarrow> error option" where
  "check_links [] = None"
| "check_links (l # ls) =
     (if fle (link_BandwidthBitsPerSecond l) fzero then
        Some (Errorf ''SimGrid link %q requires positive bandwidth'' [FmtS (link_ID l)])
      else check_links ls)"

text \<open>The routes of the platform: one for each ordered pair of different hosts that are connected.\<close>

definition platform_routes ::
  "(string \<Rightarrow> string \<Rightarrow> string list \<Rightarrow> string list \<Rightarrow> string list) \<Rightarrow> string list \<Rightarrow> NetworkLink list \<Rightarrow> (string \<times> string \<times> nat list) list"
where
  "platform_routes ord ids links =
     concat (map (\<lambda>source. concat (map (\<lambda>target.
       if source = target then []
       else case shortestLinkPath (ord source target) (platformGraph links) source target of
              None \<Rightarrow> [] | Some path \<Rightarrow> [(source, target, path)]) (sort ids))) (sort ids))"

definition buildPlatformXML ::
  "(string \<Rightarrow> string \<Rightarrow> string list \<Rightarrow> string list \<Rightarrow> string list) \<Rightarrow> Resource list \<Rightarrow> NetworkTopology \<Rightarrow> float64 \<Rightarrow> error + string"
where
  "buildPlatformXML ord resources topology reference =
     (if resources = [] then Inl (Errorf ''SimGrid platform requires at least one resource'' [])
      else case check_hosts resources of
        Some e \<Rightarrow> Inl e
      | None \<Rightarrow>
       (case check_links (top_Links topology) of
          Some e \<Rightarrow> Inl e
        | None \<Rightarrow>
           Inr (line (''<?xml version='' @ quoted ''1.0'' @ ''?>'') @
                line (''<!DOCTYPE platform SYSTEM '' @ quoted ''https://simgrid.org/simgrid.dtd'' @ ''>'') @
                line (''<platform version='' @ quoted ''4.1'' @ ''>'') @
                line (''  <zone id='' @ quoted ''akoflow'' @ '' routing='' @ quoted ''Full'' @ ''>'') @
                concat (map (host_element reference) resources) @
                concat (map (\<lambda>(i, l). link_element i l) (enumerate 0 (top_Links topology))) @
                concat (map route_element (platform_routes ord (map res_ID resources) (top_Links topology))) @
                line ''  </zone>'' @ line ''</platform>'')))"

section \<open>The input of the runner\<close>

record runnerTask =
  rt_ID :: string
  rt_AssignmentID :: string
  rt_ResourceID :: string
  rt_FLOPs :: float64
  rt_OverheadSeconds :: float64
  rt_PricePerSecond :: float64

record runnerDependency =
  rd_ProducerID :: string
  rd_ConsumerID :: string
  rd_Bytes :: int
  rd_PricePerByte :: float64

record runnerLaneOrder =
  rl_PredecessorID :: string
  rl_SuccessorID :: string

record runnerInput =
  ri_RunID :: string
  ri_PlanID :: string
  ri_DeadlineSeconds :: float64
  ri_Budget :: float64
  ri_Tasks :: "runnerTask list"
  ri_Dependencies :: "runnerDependency list"
  ri_ResourceLaneOrders :: "runnerLaneOrder list"

fun runner_tasks :: "indexedRequest \<Rightarrow> float64 \<Rightarrow> Activity list \<Rightarrow> error + runnerTask list" where
  "runner_tasks model reference [] = Inr []"
| "runner_tasks model reference (a # as) =
     (case map_of (ix_assignments model) (act_ID a) of
        None \<Rightarrow> Inl (Errorf ''activity %q has no SimGrid assignment'' [FmtS (act_ID a)])
      | Some asg \<Rightarrow>
       (case map_of (ix_resources model) (asg_ResourceID asg) of
          None \<Rightarrow> Inl (Errorf ''assignment for %q references missing resource %q'' [FmtS (act_ID a), FmtS (asg_ResourceID asg)])
        | Some r \<Rightarrow>
           (let flops0 = activityFLOPS a;
                flops = (if fle flops0 fzero then fmul (resolveRuntime a r (ix_profiles model)) (resourceFLOPS r reference) else flops0);
                task = \<lparr>rt_ID = act_ID a, rt_AssignmentID = asg_ID asg, rt_ResourceID = res_ID r, rt_FLOPs = flops,
                        rt_OverheadSeconds = resolveAssignmentOverhead asg r, rt_PricePerSecond = res_PricePerSecond r\<rparr>
            in case runner_tasks model reference as of Inl e \<Rightarrow> Inl e | Inr ts \<Rightarrow> Inr (task # ts))))"

definition buildRunnerInput ::
  "(string list \<Rightarrow> string list) \<Rightarrow> (string list \<Rightarrow> string list) \<Rightarrow> (string \<Rightarrow> string \<Rightarrow> string list \<Rightarrow> string list \<Rightarrow> string list) \<Rightarrow>
   ExecutionRequest \<Rightarrow> float64 \<Rightarrow> error + runnerInput"
where
  "buildRunnerInput lanes ord search request reference =
     (let model = indexRequest lanes request;
          dataBytes = data_bytes (wfv_DataDependencies (er_Workflow request)) in
      case runner_tasks model reference (wfv_Activities (er_Workflow request)) of
        Inl e \<Rightarrow> Inl e
      | Inr tasks \<Rightarrow>
          Inr \<lparr>ri_RunID = run_ID (er_Run request), ri_PlanID = plan_ID (er_Plan request),
               ri_DeadlineSeconds = plan_DeadlineSeconds (er_Plan request), ri_Budget = plan_Budget (er_Plan request),
               ri_Tasks = tasks,
               ri_Dependencies = map (\<lambda>d.
                 \<lparr>rd_ProducerID = dep_DependsOnActivityID d, rd_ConsumerID = dep_ActivityID d,
                  rd_Bytes = int_of_key dataBytes (pair_key (dep_DependsOnActivityID d) (dep_ActivityID d)),
                  rd_PricePerByte = transferPrice (search (dep_DependsOnActivityID d) (dep_ActivityID d))
                    (top_Links (er_NetworkTopology request))
                    (asg_ResourceID (asg_for (ix_assignments model) (dep_DependsOnActivityID d)))
                    (asg_ResourceID (asg_for (ix_assignments model) (dep_ActivityID d)))\<rparr>) (wfv_Dependencies (er_Workflow request)),
               ri_ResourceLaneOrders = map (\<lambda>k. \<lparr>rl_PredecessorID = previous_of model k, rl_SuccessorID = k\<rparr>)
                 (in_order ord (keys (ix_lanePrevious model)))\<rparr>)"

section \<open>The executor of the runner\<close>

record ProcessConfig =
  pc_BinaryPath :: string
  pc_Workspace :: string
  pc_MaxConcurrent :: int
  pc_Timeout :: int
  pc_ReferenceFLOPS :: float64

definition process_New :: "'c option \<Rightarrow> ProcessConfig \<Rightarrow> error + 'c \<times> ProcessConfig" where
  "process_New commands config =
     (case commands of
        None \<Rightarrow> Inl (Errorf ''SimGrid command executor is required'' [])
      | Some c \<Rightarrow>
         if trim_space (pc_BinaryPath config) = '''' then Inl (Errorf ''SimGrid runner binary is required'' [])
         else
           (let c1 = (if pc_Workspace config = '''' then config\<lparr>pc_Workspace := ''storage/simgrid''\<rparr> else config);
                c2 = (if pc_MaxConcurrent c1 < 1 then c1\<lparr>pc_MaxConcurrent := 1\<rparr> else c1);
                c3 = (if pc_Timeout c2 \<le> 0 then c2\<lparr>pc_Timeout := 1800000000000\<rparr> else c2);
                c4 = (if fle (pc_ReferenceFLOPS c3) fzero then c3\<lparr>pc_ReferenceFLOPS := Fin 1000000000\<rparr> else c3)
            in Inr (c, c4)))"

text \<open>
  \<^verbatim>\<open>safeRunID\<close>: a character that is neither a letter, a digit, a dash nor an underscore becomes a dash.
  \<^verbatim>\<open>strings.Map\<close> visits the characters of the UTF-8 text.
\<close>

definition safe_char :: "char \<Rightarrow> bool" where
  "safe_char c = (let n = (of_char c :: nat) in
     97 \<le> n \<and> n \<le> 122 \<or> 65 \<le> n \<and> n \<le> 90 \<or> 48 \<le> n \<and> n \<le> 57 \<or> n = 45 \<or> n = 95)"

function safe_map :: "string \<Rightarrow> string" where
  "safe_map [] = []"
| "safe_map (c # cs) = (if safe_char c then c # safe_map cs else CHR ''-'' # safe_map (drop (rune_width (c # cs) - 1) cs))"
  by pat_completeness auto
termination by (relation "measure length") auto

definition safeRunID :: "string \<Rightarrow> string" where
  "safeRunID v = (let s = trim_dashes (safe_map v) in if s = '''' then ''run'' else s)"

text \<open>
  What the executor reaches outside: a slot of the semaphore or the end of the context, the file system,
  the runner, fresh identifiers and the JSON encoding; and the orders in which Go visits the maps.
\<close>

record 'w ProcessWorld =
  pw_acquire :: "'w \<Rightarrow> error option \<times> 'w"
  pw_release :: "'w \<Rightarrow> 'w"
  pw_mkdir :: "string \<Rightarrow> 'w \<Rightarrow> error option \<times> 'w"
  pw_write :: "string \<Rightarrow> string \<Rightarrow> 'w \<Rightarrow> error option \<times> 'w"
  pw_read :: "string \<Rightarrow> 'w \<Rightarrow> (error + string) \<times> 'w"
  pw_run :: "string \<Rightarrow> string list \<Rightarrow> 'w \<Rightarrow> (error + string) \<times> 'w"
  pw_newID :: "'w \<Rightarrow> string \<times> 'w"
  pw_encode :: "runnerInput \<Rightarrow> error + string"
  pw_decode :: "string \<Rightarrow> error + ExecutionTrace"
  pw_routeOrder :: "string \<Rightarrow> string \<Rightarrow> string list \<Rightarrow> string list \<Rightarrow> string list"
  pw_laneOrder :: "string list \<Rightarrow> string list"
  pw_previousOrder :: "string list \<Rightarrow> string list"
  pw_searchOrder :: "string \<Rightarrow> string \<Rightarrow> string list \<Rightarrow> string list \<Rightarrow> string list"

definition path_join :: "string \<Rightarrow> string \<Rightarrow> string" where
  "path_join a b = a @ ''/'' @ b"

text \<open>The workspace and the names are clean paths, for which \<^verbatim>\<open>filepath.Join\<close> puts one slash.\<close>

definition createBundle :: "'w ProcessWorld \<Rightarrow> ProcessConfig \<Rightarrow> ExecutionRequest \<Rightarrow> 'w \<Rightarrow> (error + string) \<times> 'w" where
  "createBundle pw config request w =
     (let (ident, w0) = pw_newID pw w;
          directory = path_join (pc_Workspace config) (safeRunID (run_ID (er_Run request)) @ ''-'' @ ident)
      in case pw_mkdir pw directory w0 of
           (Some e, w1) \<Rightarrow> (Inl (Errorf ''create SimGrid workspace: %w'' [FmtE e]), w1)
         | (None, w1) \<Rightarrow>
          (case buildPlatformXML (pw_routeOrder pw) (er_Resources request) (er_NetworkTopology request) (pc_ReferenceFLOPS config) of
             Inl e \<Rightarrow> (Inl e, w1)
           | Inr platform \<Rightarrow>
            (case buildRunnerInput (pw_laneOrder pw) (pw_previousOrder pw) (pw_searchOrder pw) request (pc_ReferenceFLOPS config) of
               Inl e \<Rightarrow> (Inl e, w1)
             | Inr input \<Rightarrow>
              (case pw_encode pw input of
                 Inl e \<Rightarrow> (Inl e, w1)
               | Inr text \<Rightarrow>
                (case pw_write pw (path_join directory ''platform.xml'') platform w1 of
                   (Some e, w2) \<Rightarrow> (Inl (Errorf ''write SimGrid platform: %w'' [FmtE e]), w2)
                 | (None, w2) \<Rightarrow>
                  (case pw_write pw (path_join directory ''simulation.json'') text w2 of
                     (Some e, w3) \<Rightarrow> (Inl (Errorf ''write SimGrid input: %w'' [FmtE e]), w3)
                   | (None, w3) \<Rightarrow> (Inr directory, w3)))))))"

definition readTrace :: "'w ProcessWorld \<Rightarrow> string \<Rightarrow> 'w \<Rightarrow> (error + ExecutionTrace) \<times> 'w" where
  "readTrace pw path w =
     (case pw_read pw path w of
        (Inl e, w1) \<Rightarrow> (Inl (Errorf ''read SimGrid result: %w'' [FmtE e]), w1)
      | (Inr payload, w1) \<Rightarrow>
         (case pw_decode pw payload of
            Inl e \<Rightarrow> (Inl (Errorf ''decode SimGrid result: %w'' [FmtE e]), w1)
          | Inr trace \<Rightarrow> (Inr trace, w1)))"

text \<open>The part of \<^verbatim>\<open>Execute\<close> that holds the semaphore.\<close>

definition run_bundle :: "'w ProcessWorld \<Rightarrow> ProcessConfig \<Rightarrow> ExecutionRequest \<Rightarrow> 'w \<Rightarrow> (error + ExecutionTrace) \<times> 'w" where
  "run_bundle pw config request w =
     (case createBundle pw config request w of
        (Inl e, w1) \<Rightarrow> (Inl e, w1)
      | (Inr directory, w1) \<Rightarrow>
       (case pw_run pw (pc_BinaryPath config)
               [''--platform'', path_join directory ''platform.xml'', ''--input'', path_join directory ''simulation.json'',
                ''--output'', path_join directory ''result.json''] w1 of
          (Inl e, w2) \<Rightarrow> (Inl (Errorf ''execute SimGrid run %q: %w'' [FmtS (run_ID (er_Run request)), FmtE e]), w2)
        | (Inr output, w2) \<Rightarrow>
           (let w3 = (if output \<noteq> '''' then snd (pw_write pw (path_join directory ''runner.log'') output w2) else w2) in
            case readTrace pw (path_join directory ''result.json'') w3 of
              (Inl e, w4) \<Rightarrow> (Inl e, w4)
            | (Inr trace, w4) \<Rightarrow>
               (if tra_RunID trace \<noteq> run_ID (er_Run request) \<or> tra_PlanID trace \<noteq> plan_ID (er_Plan request) then
                  (Inl (Errorf ''SimGrid returned trace for run %q and plan %q'' [FmtS (tra_RunID trace), FmtS (tra_PlanID trace)]), w4)
                else (Inr (trace\<lparr>tra_Mode := run_Mode (er_Run request), tra_Predicted := plan_Predicted (er_Plan request)\<rparr>), w4)))))"

definition process_Execute :: "'w ProcessWorld \<Rightarrow> ProcessConfig \<Rightarrow> ExecutionRequest \<Rightarrow> 'w \<Rightarrow> (error + ExecutionTrace) \<times> 'w" where
  "process_Execute pw config request w =
     (if run_Mode (er_Run request) \<noteq> ExecutionModeSimulation then
        (Inl (Errorf ''SimGrid runner cannot execute mode %q'' [FmtS (mode_text (run_Mode (er_Run request)))]), w)
      else case pw_acquire pw w of
        (Some e, w1) \<Rightarrow> (Inl e, w1)
      | (None, w1) \<Rightarrow> (let (r, w2) = run_bundle pw config request w1 in (r, pw_release pw w2)))"

end
