(* ===== verification/Simgrid_Properties.thy ===== *)
theory Simgrid_Properties
  imports Simgrid_Runner Execution_Properties
begin

text \<open>
  The properties of the bridge to SimGrid: the routes of the platform description, the workspace of a
  run, and the trace that \<^verbatim>\<open>ProcessExecutor.Execute\<close> returns.
\<close>

section \<open>Routes of the platform\<close>

definition path_weight :: "NetworkLink list \<Rightarrow> nat list \<Rightarrow> float64" where
  "path_weight links path = foldl (\<lambda>d i. fadd d (pe_weight (platform_edge (i, links ! i)))) fzero path"

lemma path_weight_simps [simp]:
  "path_weight links [] = fzero"
  "path_weight links (path @ [i]) = fadd (path_weight links path) (pe_weight (platform_edge (i, links ! i)))"
  by (simp_all add: path_weight_def)

lemma walk_weight:
  "walk link_search [] (platformGraph links) source v d path \<Longrightarrow> d = path_weight links path"
  by (induction rule: walk.induct) (auto simp: link_search_def platformGraph_edges platform_edge_def)

lemma link_path_least:
  assumes "\<And>d' p'. walk link_search [] (platformGraph links) source target d' p' \<Longrightarrow> fle d d'"
    and "link_path links source target path"
  shows "fle d (path_weight links path)"
  using assms link_path_walk walk_weight by blast

text \<open>Links that the platform search can be trusted with: named ends and a latency that is not negative.\<close>

definition latencies_ok :: "NetworkLink list \<Rightarrow> bool" where
  "latencies_ok links \<longleftrightarrow> (\<forall>l \<in> set links. link_SourceResourceID l \<noteq> '''' \<and> link_TargetResourceID l \<noteq> '''' \<and>
     fle fzero (link_LatencySeconds l))"

lemma inverse_bandwidth_nonneg: "fle fzero (fdiv (Fin 8) (max_f b (Fin 1)))"
proof (cases "max_f b (Fin 1)")
  case (Fin q)
  then have "1 \<le> q" by (cases b) (auto simp: max_f_def split: if_splits)
  then show ?thesis using Fin fround_mono [of 0 "8 / q"] by (simp add: fround_def)
qed (cases b; auto simp: max_f_def fle_def split: if_splits)+

lemma fadd_two_nonneg: "fle fzero a \<Longrightarrow> fle fzero b \<Longrightarrow> fle fzero (fadd a b)"
proof (cases a; cases b)
  fix p q
  assume "fle fzero a" "fle fzero b" "a = Fin p" "b = Fin q"
  then show ?thesis using fround_mono [of 0 "p + q"] by (auto simp: fle_def fround_def)
qed (auto simp: fle_def)

lemma link_search_sound: "latencies_ok links \<Longrightarrow> sound_search link_search (platformGraph links)"
  unfolding sound_search_def
proof (intro conjI allI ballI impI)
  fix v e
  assume ok: "latencies_ok links" and e: "e \<in> set (get_list (platformGraph links) v)"
  then have l: "links ! pe_linkIndex e \<in> set links" by (simp add: platformGraph_edges)
  show "fle fzero (se_weight link_search e)" using ok e l
    by (simp add: link_search_def platformGraph_edges latencies_ok_def fadd_two_nonneg inverse_bandwidth_nonneg)
  show "se_to link_search e \<noteq> ''''" using ok e l
    by (auto simp: link_search_def platformGraph_edges latencies_ok_def joins_def)
next
  fix a b
  assume "fle fzero a" "fle fzero b"
  then show "se_better link_search a b = flt a b"
    by (cases a; cases b) (auto simp: link_search_def fle_def)
qed

lemma shortestLinkPath_correct:
  assumes "latencies_ok links" and "source \<noteq> ''''"
  shows "case shortestLinkPath ord (platformGraph links) source target of
      Some path \<Rightarrow> link_path links source target path \<and>
        (\<forall>p. link_path links source target p \<longrightarrow> fle (path_weight links path) (path_weight links p))
    | None \<Rightarrow> \<not> (\<exists>p. link_path links source target p)"
proof -
  note c = dijkstra_correct [OF link_search_sound [OF assms(1)] search_inv_init [OF assms(2)], where zero = "[]" and target = target and ord = ord]
  show ?thesis
  proof (cases "dijkstra link_search [] ord (platformGraph links) target [(source, fzero)] [(source, [])] []")
    case None
    then have "\<not> (\<exists>d p. walk link_search [] (platformGraph links) source target d p)" using c by simp
    then show ?thesis using None link_path_walk unfolding shortestLinkPath_def by fastforce
  next
    case (Some dp)
    then obtain d p where dp: "dijkstra link_search [] ord (platformGraph links) target [(source, fzero)] [(source, [])] [] = Some (d, p)"
      by (cases dp) simp
    then have w: "walk link_search [] (platformGraph links) source target d p"
      and least: "\<And>d' p'. walk link_search [] (platformGraph links) source target d' p' \<Longrightarrow> fle d d'" using c by auto
    show ?thesis using walk_link_path [OF w] walk_weight [OF w] link_path_least [OF least] dp unfolding shortestLinkPath_def by simp
  qed
qed

lemma platform_routes_mem:
  "(s, t, path) \<in> set (platform_routes ord ids links) \<longleftrightarrow>
     s \<in> set ids \<and> t \<in> set ids \<and> s \<noteq> t \<and> shortestLinkPath (ord s t) (platformGraph links) s t = Some path"
  unfolding platform_routes_def by (auto split: if_splits option.splits)

lemma distinct_concat_keys:
  assumes "distinct xs" and "\<And>x. distinct (f x)" and "\<And>x y. y \<in> set (f x) \<Longrightarrow> key y = x"
  shows "distinct (concat (map f xs))"
  using assms(1)
proof (induction xs)
  case (Cons x xs)
  have "x = z" if "y \<in> set (f x)" "y \<in> set (f z)" for y z using assms(3) [OF that(1)] assms(3) [OF that(2)] by simp
  then have "set (f x) \<inter> (\<Union>z \<in> set xs. set (f z)) = {}" using Cons.prems by auto
  then show ?case using Cons assms(2) by auto
qed simp

lemma platform_routes_distinct:
  assumes "distinct ids"
  shows "distinct (map (\<lambda>(s, t, _). (s, t)) (platform_routes ord ids links))"
proof -
  let ?f = "\<lambda>s t. if s = t then [] else case shortestLinkPath (ord s t) (platformGraph links) s t of None \<Rightarrow> [] | Some path \<Rightarrow> [(s, t)]"
  have eq: "map (\<lambda>(s, t, _). (s, t)) (platform_routes ord ids links) = concat (map (\<lambda>s. concat (map (?f s) (sort ids))) (sort ids))"
    unfolding platform_routes_def map_concat map_map comp_def
    by (intro arg_cong [where f = concat] map_cong refl) (auto split: option.split)
  have inner: "distinct (concat (map (?f s) (sort ids)))" for s
    using assms by (intro distinct_concat_keys [where key = snd]) (auto split: option.splits if_splits)
  show ?thesis unfolding eq using assms inner
    by (intro distinct_concat_keys [where key = fst and f = "\<lambda>s. concat (map (?f s) (sort ids))"])
      (auto split: option.splits if_splits)
qed

section \<open>The names of the workspace\<close>

lemma safe_dash [simp]: "safe_char CHR ''-''"
  by code_simp

lemma safe_map_safe: "\<forall>c \<in> set (safe_map s). safe_char c"
proof (induction s rule: safe_map.induct)
  case (2 c cs)
  show ?case
  proof (cases "safe_char c")
    case True
    then show ?thesis using 2(1) by simp
  next
    case False
    then show ?thesis using 2(2) by simp
  qed
qed simp

lemma safe_map_id: "\<forall>c \<in> set s. safe_char c \<Longrightarrow> safe_map s = s"
  by (induction s) auto

lemma trim_dashes_id: "s \<noteq> [] \<Longrightarrow> hd s \<noteq> CHR ''-'' \<Longrightarrow> last s \<noteq> CHR ''-'' \<Longrightarrow> trim_dashes s = s"
proof -
  assume a: "s \<noteq> []" "hd s \<noteq> CHR ''-''" "last s \<noteq> CHR ''-''"
  have "dropWhile (\<lambda>c. c = CHR ''-'') s = s" using a by (cases s) auto
  moreover have "dropWhile (\<lambda>c. c = CHR ''-'') (rev s) = rev s" using a by (cases s rule: rev_cases) auto
  ultimately show ?thesis by (simp add: trim_dashes_def)
qed

section \<open>The runner\<close>

lemma runner_tasks_ok:
  "(\<exists>ts. runner_tasks model reference as = Inr ts) \<longleftrightarrow>
     (\<forall>a \<in> set as. \<exists>asg r. map_of (ix_assignments model) (act_ID a) = Some asg \<and> map_of (ix_resources model) (asg_ResourceID asg) = Some r)"
proof (induction as)
  case (Cons a as)
  show ?case
  proof (cases "\<exists>asg r. map_of (ix_assignments model) (act_ID a) = Some asg \<and> map_of (ix_resources model) (asg_ResourceID asg) = Some r")
    case True
    then show ?thesis using Cons.IH by (cases "runner_tasks model reference as") (auto simp: Let_def)
  next
    case False
    then show ?thesis by (auto split: option.split)
  qed
qed simp

lemma runner_tasks_ids: "runner_tasks model reference as = Inr ts \<Longrightarrow> map rt_ID ts = map act_ID as"
  by (induction as arbitrary: ts) (auto simp: Let_def split: option.splits sum.splits)

text \<open>
  What the executor relies on: acquiring takes a slot that is free, releasing gives it back, and nothing
  else touches the semaphore.
\<close>

definition semaphore_ok :: "'w ProcessWorld \<Rightarrow> ('w \<Rightarrow> nat) \<Rightarrow> nat \<Rightarrow> bool" where
  "semaphore_ok pw slots capacity \<longleftrightarrow>
     (\<forall>w. case pw_acquire pw w of (None, w') \<Rightarrow> slots w < capacity \<and> slots w' = Suc (slots w) | (Some e, w') \<Rightarrow> slots w' = slots w) \<and>
     (\<forall>w. slots (pw_release pw w) = slots w - 1) \<and>
     (\<forall>d w. slots (snd (pw_mkdir pw d w)) = slots w) \<and> (\<forall>f s w. slots (snd (pw_write pw f s w)) = slots w) \<and>
     (\<forall>f w. slots (snd (pw_read pw f w)) = slots w) \<and> (\<forall>b as w. slots (snd (pw_run pw b as w)) = slots w) \<and>
     (\<forall>w. slots (snd (pw_newID pw w)) = slots w)"

lemma semaphore_keeps:
  assumes "semaphore_ok pw slots capacity"
  shows "pw_mkdir pw d w = (x, w') \<Longrightarrow> slots w' = slots w" "pw_write pw f s w = (x, w') \<Longrightarrow> slots w' = slots w"
    "pw_read pw f w = (y, w') \<Longrightarrow> slots w' = slots w" "pw_run pw b as w = (z, w') \<Longrightarrow> slots w' = slots w"
    "pw_newID pw w = (i, w') \<Longrightarrow> slots w' = slots w" "slots (snd (pw_write pw f s w)) = slots w"
  using assms unfolding semaphore_ok_def by (metis snd_conv)+

lemma createBundle_slots:
  assumes "semaphore_ok pw slots capacity" and "createBundle pw config request w = (r, w')"
  shows "slots w' = slots w"
  using assms(2) semaphore_keeps [OF assms(1)] unfolding createBundle_def
  by (auto simp: Let_def split: prod.splits option.splits sum.splits) (metis, (metis | simp)+)?

lemma readTrace_slots:
  assumes "semaphore_ok pw slots capacity" and "readTrace pw path w = (r, w')"
  shows "slots w' = slots w"
  using assms(2) semaphore_keeps(3) [OF assms(1)] unfolding readTrace_def by (auto split: prod.splits sum.splits)

lemma run_bundle_slots:
  assumes "semaphore_ok pw slots capacity" and "run_bundle pw config request w = (r, w')"
  shows "slots w' = slots w"
  using assms(2) createBundle_slots [OF assms(1)] readTrace_slots [OF assms(1)] semaphore_keeps(4,6) [OF assms(1)]
  unfolding run_bundle_def
  by (fastforce simp: Let_def split: prod.splits sum.splits if_splits)

lemma run_bundle_trace:
  assumes "run_bundle pw config request w = (Inr trace, w')"
  shows "\<exists>payload t. pw_decode pw payload = Inr t \<and> tra_RunID t = run_ID (er_Run request) \<and> tra_PlanID t = plan_ID (er_Plan request) \<and>
    trace = t\<lparr>tra_Mode := run_Mode (er_Run request), tra_Predicted := plan_Predicted (er_Plan request)\<rparr>"
  using assms unfolding run_bundle_def readTrace_def
  by (fastforce simp: Let_def split: prod.splits sum.splits if_splits)

section \<open>Properties\<close>

text \<open>
  C19. The routes of the platform: for links with named ends and latencies that are not negative, the
  description has a route for exactly the ordered pairs of different hosts that links connect, no pair
  twice when the hosts are distinct, and the links of a route lead from its source to its target with
  the least weight among all such paths.
\<close>

theorem platform_routes_correct:
  assumes "latencies_ok links" and "'''' \<notin> set ids" and "distinct ids"
  shows "distinct (map (\<lambda>(s, t, _). (s, t)) (platform_routes ord ids links)) \<and>
    (\<forall>s t. (\<exists>path. (s, t, path) \<in> set (platform_routes ord ids links)) \<longleftrightarrow>
       s \<in> set ids \<and> t \<in> set ids \<and> s \<noteq> t \<and> (\<exists>p. link_path links s t p)) \<and>
    (\<forall>s t path. (s, t, path) \<in> set (platform_routes ord ids links) \<longrightarrow> link_path links s t path \<and>
       (\<forall>p. link_path links s t p \<longrightarrow> fle (path_weight links path) (path_weight links p)))"
proof -
  have c: "case shortestLinkPath (ord s t) (platformGraph links) s t of
      Some path \<Rightarrow> link_path links s t path \<and> (\<forall>p. link_path links s t p \<longrightarrow> fle (path_weight links path) (path_weight links p))
    | None \<Rightarrow> \<not> (\<exists>p. link_path links s t p)" if "s \<in> set ids" for s t
    using that assms(2) by (intro shortestLinkPath_correct assms(1)) auto
  have "(\<exists>path. shortestLinkPath (ord s t) (platformGraph links) s t = Some path) \<longleftrightarrow> (\<exists>p. link_path links s t p)" if "s \<in> set ids" for s t
    using c [OF that, of t] by (auto split: option.splits)
  moreover have "link_path links s t path \<and> (\<forall>p. link_path links s t p \<longrightarrow> fle (path_weight links path) (path_weight links p))"
    if "s \<in> set ids" "shortestLinkPath (ord s t) (platformGraph links) s t = Some path" for s t path
    using c [OF that(1), of t] that(2) by simp
  ultimately show ?thesis using platform_routes_distinct [OF assms(3)] unfolding platform_routes_mem by blast
qed

definition wire :: "string \<Rightarrow> string \<Rightarrow> bool \<Rightarrow> NetworkLink" where
  "wire source target both = \<lparr>link_ID = '''', link_TopologyID = '''', link_SourceResourceID = source, link_TargetResourceID = target,
     link_BandwidthBitsPerSecond = Fin 8, link_LatencySeconds = Fin 1, link_PricePerByte = fzero, link_Bidirectional = both,
     link_SharingPolicy = '''', link_MaxConcurrentTransfers = 0, link_Metadata = []\<rparr>"

theorem platform_routes_correct_witness:
  "link_path [wire ''a'' ''b'' False] ''a'' ''b'' [0] \<and> \<not> (\<exists>p. link_path [wire ''a'' ''b'' False] ''b'' ''a'' p)"
proof -
  let ?links = "[wire ''a'' ''b'' False]" and ?ids = "[''a'', ''b'']"
  have ok: "latencies_ok ?links" by code_simp
  have ids: "'''' \<notin> set ?ids" "distinct ?ids" by simp_all
  have r: "platform_routes (\<lambda>_ _ _ ks. ks) ?ids ?links = [(''a'', ''b'', [0])]" by code_simp
  note c = platform_routes_correct [OF ok ids, where ord = "\<lambda>_ _ _ ks. ks", unfolded r]
  have "(''a'', ''b'', [0]) \<in> set [(''a'', ''b'', [0::nat])]" by simp
  moreover have "(''b'', ''a'', path) \<notin> set [(''a'', ''b'', [0::nat])]" for path by simp
  moreover have "''b'' \<in> set ?ids" "''a'' \<in> set ?ids" "''b'' \<noteq> ''a''" by simp_all
  ultimately show ?thesis using c by blast
qed

text \<open>
  The workspace of a simulation stays inside the configured directory: the name made from a run
  identifier is not empty, has only letters, digits, dashes and underscores, neither starts nor ends
  with a dash, and is kept by a second application, whatever bytes the identifier has.
\<close>

theorem safe_run_id_safe:
  "safeRunID v \<noteq> '''' \<and> list_all safe_char (safeRunID v) \<and> hd (safeRunID v) \<noteq> CHR ''-'' \<and> last (safeRunID v) \<noteq> CHR ''-'' \<and>
   CHR ''/'' \<notin> set (safeRunID v) \<and> CHR ''.'' \<notin> set (safeRunID v) \<and> safeRunID (safeRunID v) = safeRunID v"
proof -
  have safe: "\<forall>c \<in> set (safeRunID v). safe_char c"
  proof (cases "trim_dashes (safe_map v) = ''''")
    case True
    then show ?thesis by (simp add: safeRunID_def) code_simp
  next
    case False
    then show ?thesis using safe_map_safe [of v] trim_dashes_set(1) [of "safe_map v"] by (auto simp: safeRunID_def)
  qed
  have ends: "safeRunID v \<noteq> '''' \<and> hd (safeRunID v) \<noteq> CHR ''-'' \<and> last (safeRunID v) \<noteq> CHR ''-''"
    using trim_dashes_ends [of "safe_map v"] by (simp add: safeRunID_def Let_def)
  have "safeRunID (safeRunID v) = safeRunID v"
    unfolding safeRunID_def [of "safeRunID v"] safe_map_id [OF safe] using ends by (simp add: trim_dashes_id)
  moreover have "\<not> safe_char CHR ''/''" "\<not> safe_char CHR ''.''" by code_simp+
  ultimately show ?thesis using safe ends by (auto simp: list_all_iff)
qed

text \<open>
  The runner's input is complete: it is built exactly when every activity is assigned to a resource
  of the request, and then lists one task per activity, in the order of the workflow, one entry per
  dependency, and the pairs of neighbours of the lanes.
\<close>

theorem runner_input_iff:
  "(\<exists>input. buildRunnerInput lanes ord search request reference = Inr input) =
     list_all (\<lambda>a. \<exists>asg r. map_of (ix_assignments (indexRequest lanes request)) (act_ID a) = Some asg \<and>
        map_of (ix_resources (indexRequest lanes request)) (asg_ResourceID asg) = Some r) (wfv_Activities (er_Workflow request)) \<and>
   (case buildRunnerInput lanes ord search request reference of
      Inl e \<Rightarrow> True
    | Inr input \<Rightarrow>
        map rt_ID (ri_Tasks input) = map act_ID (wfv_Activities (er_Workflow request)) \<and>
        map (\<lambda>d. (rd_ProducerID d, rd_ConsumerID d)) (ri_Dependencies input) =
          map (\<lambda>d. (dep_DependsOnActivityID d, dep_ActivityID d)) (wfv_Dependencies (er_Workflow request)) \<and>
        set (map (\<lambda>l. (rl_SuccessorID l, rl_PredecessorID l)) (ri_ResourceLaneOrders input)) =
          {(k, p). map_of (ix_lanePrevious (indexRequest lanes request)) k = Some p})"
proof -
  let ?model = "indexRequest lanes request"
  have prev: "set (map (\<lambda>k. (k, previous_of ?model k)) (in_order ord (keys (ix_lanePrevious ?model)))) =
      {(k, p). map_of (ix_lanePrevious ?model) k = Some p}"
  proof -
    have "k \<in> fst ` set (ix_lanePrevious ?model) \<longleftrightarrow> map_of (ix_lanePrevious ?model) k = Some (previous_of ?model k)" for k
      unfolding previous_of_def by (metis (no_types, lifting) map_of_eq_None_iff not_None_eq option.simps(5))
    then show ?thesis by (auto simp: previous_of_def)
  qed
  note ok = runner_tasks_ok [of ?model reference "wfv_Activities (er_Workflow request)", folded list_all_iff]
  show ?thesis
  proof (cases "runner_tasks ?model reference (wfv_Activities (er_Workflow request))")
    case (Inl e)
    then show ?thesis using ok unfolding buildRunnerInput_def Let_def by simp
  next
    case (Inr ts)
    then show ?thesis using ok prev runner_tasks_ids [OF Inr] unfolding buildRunnerInput_def Let_def
      by (simp add: comp_def image_image)
  qed
qed

text \<open>
  \<^verbatim>\<open>ProcessExecutor.Execute\<close> gives back the slot it took on every path, and a trace it returns is one
  the runner wrote for this run and plan, with the mode of the run and the prediction of the plan.
\<close>

theorem process_execute_correct:
  assumes "semaphore_ok pw slots capacity" and "process_Execute pw config request w = (r, w')"
  shows "slots w' = slots w \<and>
    (case r of Inl e \<Rightarrow> True
     | Inr trace \<Rightarrow> \<exists>payload t. pw_decode pw payload = Inr t \<and> tra_RunID t = run_ID (er_Run request) \<and>
         tra_PlanID t = plan_ID (er_Plan request) \<and>
         trace = t\<lparr>tra_Mode := ExecutionModeSimulation, tra_Predicted := plan_Predicted (er_Plan request)\<rparr>)"
proof (cases "run_Mode (er_Run request) = ExecutionModeSimulation \<and> fst (pw_acquire pw w) = None")
  case True
  then obtain w1 w2 where st: "pw_acquire pw w = (None, w1)" "run_bundle pw config request w1 = (r, w2)" "w' = pw_release pw w2"
    using assms(2) unfolding process_Execute_def by (cases "pw_acquire pw w") (auto simp: Let_def split: prod.splits)
  have "slots w1 = Suc (slots w)" using assms(1) st(1) unfolding semaphore_ok_def by (auto dest: spec [of _ w])
  moreover have "slots w2 = slots w1" using run_bundle_slots [OF assms(1) st(2)] .
  moreover have "slots w' = slots w2 - 1" using assms(1) st(3) unfolding semaphore_ok_def by blast
  ultimately show ?thesis using run_bundle_trace [of pw config request w1 _ w2] st(2) True by (cases r) auto
next
  case False
  then have "\<exists>e. r = Inl e" and "w' = w \<or> (\<exists>e. pw_acquire pw w = (Some e, w'))"
    using assms(2) unfolding process_Execute_def by (auto split: if_splits prod.splits option.splits)
  moreover have "slots w' = slots w" if "pw_acquire pw w = (Some e, w')" for e
    using assms(1) that unfolding semaphore_ok_def by (auto dest: spec [of _ w])
  ultimately show ?thesis by auto
qed

definition demo_world :: "nat ProcessWorld" where
  "demo_world = \<lparr>pw_acquire = (\<lambda>n. if n < 1 then (None, Suc n) else (Some (Errorf ''context canceled'' []), n)), pw_release = (\<lambda>n. n - 1),
     pw_mkdir = (\<lambda>_ n. (None, n)), pw_write = (\<lambda>_ _ n. (None, n)), pw_read = (\<lambda>_ n. (Inr '''', n)), pw_run = (\<lambda>_ _ n. (Inr ''log'', n)),
     pw_newID = (\<lambda>n. (''1'', n)), pw_encode = (\<lambda>_. Inr ''{}''),
     pw_decode = (\<lambda>_. Inr \<lparr>tra_RunID = ''run'', tra_PlanID = ''p'', tra_Mode = ExecutionModeReal,
       tra_Predicted = \<lparr>pred_MakespanSeconds = fzero, pred_Cost = fzero, pred_Feasible = False\<rparr>, tra_Executed = zero_metrics,
       tra_Tasks = [], tra_Transfers = []\<rparr>),
     pw_routeOrder = (\<lambda>_ _ _ ks. ks), pw_laneOrder = (\<lambda>ks. ks), pw_previousOrder = (\<lambda>ks. ks), pw_searchOrder = (\<lambda>_ _ _ ks. ks)\<rparr>"

definition demo_process :: ProcessConfig where
  "demo_process = \<lparr>pc_BinaryPath = ''simgrid'', pc_Workspace = ''work'', pc_MaxConcurrent = 1, pc_Timeout = 1, pc_ReferenceFLOPS = Fin 1\<rparr>"

end
