(* ===== verification/Go_Path.thy ===== *)
theory Go_Path
  imports Go_Base
begin

text \<open>
  Slash-separated paths as the packages \<^verbatim>\<open>path\<close> and \<^verbatim>\<open>path/filepath\<close> of Go treat them on Unix:
  \<^verbatim>\<open>Clean\<close>, \<^verbatim>\<open>Join\<close> and the relative keys that the connectors and the storages accept. A path is cut into
  components; the lemmas say when a joined path stays below its base.
\<close>

section \<open>Components\<close>

fun split_slash :: "string \<Rightarrow> string list" where
  "split_slash [] = [[]]"
| "split_slash (c # s) = (if c = CHR ''/'' then [] # split_slash s else case split_slash s of [] \<Rightarrow> [[c]] | p # ps \<Rightarrow> (c # p) # ps)"

fun join_slash :: "string list \<Rightarrow> string" where
  "join_slash [] = []"
| "join_slash [c] = c"
| "join_slash (c # cs) = c @ CHR ''/'' # join_slash cs"

lemma split_slash_ne [simp]: "split_slash s \<noteq> []"
  by (cases s) (auto split: list.split)

lemma split_slash_no_slash: "c \<in> set (split_slash s) \<Longrightarrow> CHR ''/'' \<notin> set c"
proof (induction s arbitrary: c)
  case (Cons a s)
  then show ?case by (cases "split_slash s") (auto split: if_splits)
qed simp

lemma split_slash_plain: "CHR ''/'' \<notin> set s \<Longrightarrow> split_slash s = [s]"
  by (induction s) auto

lemma split_slash_append: "CHR ''/'' \<notin> set c \<Longrightarrow> split_slash (c @ CHR ''/'' # s) = c # split_slash s"
  by (induction c) auto

lemma split_join: "cs \<noteq> [] \<Longrightarrow> \<forall>c \<in> set cs. CHR ''/'' \<notin> set c \<Longrightarrow> split_slash (join_slash cs) = cs"
  by (induction cs rule: join_slash.induct) (auto simp: split_slash_plain split_slash_append)

lemma split_slash_join: "split_slash (a @ CHR ''/'' # b) = split_slash a @ split_slash b"
proof (induction a)
  case (Cons c a)
  then show ?case by (cases "split_slash a") auto
qed simp

lemma join_slash_Cons: "cs \<noteq> [] \<Longrightarrow> join_slash (c # cs) = c @ CHR ''/'' # join_slash cs"
  by (cases cs) auto

lemma join_slash_append: "as \<noteq> [] \<Longrightarrow> bs \<noteq> [] \<Longrightarrow> join_slash (as @ bs) = join_slash as @ CHR ''/'' # join_slash bs"
  by (induction as rule: join_slash.induct) (auto simp: join_slash_Cons)

section \<open>Clean and Join\<close>

text \<open>The stack of \<^verbatim>\<open>Clean\<close>, innermost component first; two dots remove a component that is not two dots.\<close>

fun clean_comps :: "bool \<Rightarrow> string list \<Rightarrow> string list \<Rightarrow> string list" where
  "clean_comps rooted [] stack = rev stack"
| "clean_comps rooted (c # cs) stack =
     (if c = '''' \<or> c = ''.'' then clean_comps rooted cs stack
      else if c = ''..'' then
        (case stack of
           [] \<Rightarrow> if rooted then clean_comps rooted cs [] else clean_comps rooted cs [''..'']
         | t # ts \<Rightarrow> if t = ''..'' then clean_comps rooted cs (''..'' # stack) else clean_comps rooted cs ts)
      else clean_comps rooted cs (c # stack))"

definition is_abs :: "string \<Rightarrow> bool" where
  "is_abs s \<longleftrightarrow> has_prefix s ''/''"

definition path_of :: "bool \<Rightarrow> string list \<Rightarrow> string" where
  "path_of rooted cs = (if rooted then ''/'' @ join_slash cs else if cs = [] then ''.'' else join_slash cs)"

definition path_comps :: "string \<Rightarrow> string list" where
  "path_comps s = clean_comps (is_abs s) (split_slash s) []"

definition path_Clean :: "string \<Rightarrow> string" where
  "path_Clean s = path_of (is_abs s) (path_comps s)"

definition path_Join :: "string \<Rightarrow> string \<Rightarrow> string" where
  "path_Join a b =
     (if a = '''' then (if b = '''' then '''' else path_Clean b) else path_Clean (a @ ''/'' @ b))"

section \<open>Clean components\<close>

definition plain :: "string \<Rightarrow> bool" where
  "plain c \<longleftrightarrow> c \<noteq> '''' \<and> c \<noteq> ''.'' \<and> c \<noteq> ''..'' \<and> CHR ''/'' \<notin> set c"

lemma clean_comps_plain: "list_all plain cs \<Longrightarrow> clean_comps rooted cs stack = rev stack @ cs"
  by (induction cs arbitrary: stack) (auto simp: plain_def)

lemma clean_comps_append: "clean_comps rooted (as @ bs) stack = clean_comps rooted bs (rev (clean_comps rooted as stack))"
  by (induction as arbitrary: stack) (auto split: list.split)

lemma clean_comps_step:
  "clean_comps rooted (c # cs) stack = clean_comps rooted cs (rev (clean_comps rooted [c] stack))"
  using clean_comps_append [of rooted "[c]" cs stack] by simp

text \<open>A stack: a component is two dots only when all below it are, and in a rooted path never.\<close>

fun stack_ok :: "bool \<Rightarrow> string list \<Rightarrow> bool" where
  "stack_ok rooted [] = True"
| "stack_ok rooted (c # st) = (if c = ''..'' then \<not> rooted \<and> list_all ((=) ''..'') st else plain c \<and> stack_ok rooted st)"

lemma stack_ok_up: "list_all ((=) ''..'') st \<Longrightarrow> \<not> rooted \<Longrightarrow> stack_ok rooted st"
  by (induction st) auto

lemma stack_ok_one: "stack_ok rooted stack \<Longrightarrow> CHR ''/'' \<notin> set c \<Longrightarrow> stack_ok rooted (rev (clean_comps rooted [c] stack))"
  by (cases stack) (auto simp: plain_def stack_ok_up)

lemma stack_ok_clean:
  "stack_ok rooted stack \<Longrightarrow> \<forall>c \<in> set cs. CHR ''/'' \<notin> set c \<Longrightarrow> stack_ok rooted (rev (clean_comps rooted cs stack))"
proof (induction cs arbitrary: stack)
  case (Cons c cs)
  have "stack_ok rooted (rev (clean_comps rooted [c] stack))" using Cons.prems by (intro stack_ok_one) auto
  then show ?case unfolding clean_comps_step [of rooted c cs] using Cons.prems by (intro Cons.IH) auto
qed simp

lemma stack_ok_plain: "stack_ok rooted st \<Longrightarrow> rooted \<or> st = [] \<or> last st \<noteq> ''..'' \<Longrightarrow> list_all plain st"
proof (induction st)
  case (Cons c st)
  show ?case
  proof (cases "c = ''..''")
    case True
    then have "\<not> rooted" "list_all ((=) ''..'') (c # st)" using Cons.prems(1) by auto
    then have "\<forall>x \<in> set (c # st). ''..'' = x" by (simp only: list_all_iff)
    moreover have "last (c # st) \<in> set (c # st)" by (rule last_in_set) simp
    ultimately have "''..'' = last (c # st)" by blast
    then show ?thesis using Cons.prems(2) \<open>\<not> rooted\<close> by (metis list.distinct(1))
  next
    case False
    then show ?thesis using Cons.prems Cons.IH by (cases st) auto
  qed
qed simp

lemma path_comps_ok: "stack_ok (is_abs s) (rev (path_comps s))"
  unfolding path_comps_def by (rule stack_ok_clean) (auto dest: split_slash_no_slash)

lemma path_comps_plain: "is_abs s \<or> path_comps s = [] \<or> hd (path_comps s) \<noteq> ''..'' \<Longrightarrow> list_all plain (path_comps s)"
  using stack_ok_plain [OF path_comps_ok [of s]] by (cases "path_comps s") (auto simp: list_all_rev)

lemma no_slash_plain: "list_all plain cs \<Longrightarrow> \<forall>c \<in> set cs. CHR ''/'' \<notin> set c"
  by (auto simp: list_all_iff plain_def)

lemma is_abs_Cons [simp]: "is_abs (c # s) \<longleftrightarrow> c = CHR ''/''" "\<not> is_abs []"
  by (simp_all add: is_abs_def has_prefix_def)

lemma join_plain_rel: "list_all plain (c # cs) \<Longrightarrow> \<not> is_abs (join_slash (c # cs)) \<and> join_slash (c # cs) \<noteq> ''''"
  by (cases c; cases cs) (auto simp: plain_def)

text \<open>Plain components are those of the path they make.\<close>

lemma path_comps_abs: "list_all plain cs \<Longrightarrow> path_comps (''/'' @ join_slash cs) = cs"
proof (cases "cs = []")
  case False
  assume cs: "list_all plain cs"
  then have "split_slash (join_slash cs) = cs" using False no_slash_plain by (intro split_join) auto
  then show ?thesis using clean_comps_plain [OF cs, of True "[]"] by (simp add: path_comps_def)
qed (simp add: path_comps_def)

lemma path_comps_rel: "list_all plain cs \<Longrightarrow> cs \<noteq> [] \<Longrightarrow> path_comps (join_slash cs) = cs"
proof -
  assume cs: "list_all plain cs" "cs \<noteq> []"
  then have "split_slash (join_slash cs) = cs" using no_slash_plain by (intro split_join) auto
  then show ?thesis using cs join_plain_rel clean_comps_plain [OF cs(1)] by (cases cs) (simp_all add: path_comps_def)
qed

section \<open>Relative keys\<close>

text \<open>The check of the connectors: a cleaned key that is absolute or climbs is refused.\<close>

definition escapes :: "string \<Rightarrow> bool" where
  "escapes key \<longleftrightarrow> is_abs key \<or> key = ''..'' \<or> has_prefix key ''../''"

lemma join_up_prefix: "cs \<noteq> [] \<Longrightarrow> hd cs = ''..'' \<Longrightarrow> join_slash cs = ''..'' \<or> has_prefix (join_slash cs) ''../''"
  by (cases cs rule: join_slash.cases) (auto simp: has_prefix_def)

lemma is_abs_path_of: "is_abs (path_of rooted cs) \<or> \<not> rooted"
  by (simp add: path_of_def)

lemma not_escapes_plain: "\<not> escapes (path_Clean name) \<Longrightarrow> \<not> is_abs name \<and> list_all plain (path_comps name)"
proof -
  assume e: "\<not> escapes (path_Clean name)"
  then have rel: "\<not> is_abs name" using is_abs_path_of [of "is_abs name"] by (auto simp: escapes_def path_Clean_def)
  have "path_comps name = [] \<or> hd (path_comps name) \<noteq> ''..''"
    using e rel join_up_prefix [of "path_comps name"] by (auto simp: escapes_def path_Clean_def path_of_def)
  then show ?thesis using rel path_comps_plain by blast
qed

text \<open>A key that does not escape, joined to a clean absolute base, lies below it.\<close>

lemma join_below:
  assumes "is_abs base" and "\<not> is_abs name" and "list_all plain (path_comps name)"
  shows "path_Join base (path_Clean name) = ''/'' @ join_slash (path_comps base @ path_comps name)"
proof -
  have b: "list_all plain (path_comps base)" using assms(1) by (intro path_comps_plain) auto
  have c: "clean_comps True (split_slash (path_Clean name)) stack = rev stack @ path_comps name" if "list_all plain stack" for stack
  proof (cases "path_comps name = []")
    case True
    then show ?thesis using assms(2) by (simp add: path_Clean_def path_of_def)
  next
    case False
    then have "split_slash (path_Clean name) = path_comps name"
      using assms(2,3) no_slash_plain by (simp add: path_Clean_def path_of_def split_join)
    then show ?thesis using assms(3) by (simp add: clean_comps_plain)
  qed
  have ne: "base \<noteq> ''''" using assms(1) by auto
  have abs: "is_abs (base @ s)" for s using assms(1) by (cases base) auto
  have "path_comps (base @ CHR ''/'' # path_Clean name) = path_comps base @ path_comps name"
    unfolding path_comps_def [of "base @ _"] split_slash_join clean_comps_append using abs assms(1) b c
    by (simp add: path_comps_def list_all_rev)
  then show ?thesis using ne abs by (simp add: path_Join_def path_Clean_def [of "base @ _"] path_of_def)
qed

end
