(* ===== verification/Materialization.thy ===== *)
theory Materialization
  imports Go_Path Execution_Domain
begin

text \<open>
  The transfer of artifacts and workspaces, \<^verbatim>\<open>internal/application/transfer\<close>: the planner, the
  materializer that copies blobs with resumption and verification, and the coordinator that prepares
  an activity. A connector is a record of operations on the state \<open>'w\<close> of the world, as the
  interface \<^verbatim>\<open>TransferConnector\<close> of \<^verbatim>\<open>internal/application/ports\<close> says. A reader is the bytes it yields
  before the end or before an error.
\<close>

type_synonym reader = "string \<times> error option"

record 'w TransferConnector =
  tc_CanHandle :: "TransferEndpoint \<Rightarrow> bool"
  tc_Exists :: "TransferEndpoint \<Rightarrow> string \<Rightarrow> 'w \<Rightarrow> (error + bool) \<times> 'w"
  tc_Open :: "TransferEndpoint \<Rightarrow> string \<Rightarrow> int \<Rightarrow> 'w \<Rightarrow> (error + reader) \<times> 'w"
  tc_Put :: "TransferEndpoint \<Rightarrow> string \<Rightarrow> reader \<Rightarrow> int \<Rightarrow> 'w \<Rightarrow> error option \<times> 'w"
  tc_Commit :: "TransferEndpoint \<Rightarrow> string \<Rightarrow> string \<Rightarrow> 'w \<Rightarrow> error option \<times> 'w"

section \<open>The planner\<close>

definition planner_Plan ::
  "TransferLocation \<Rightarrow> TransferLocation \<Rightarrow> BlobDescriptor list \<Rightarrow> (string, bool) gomap \<Rightarrow> DataTransferPlan"
where
  "planner_Plan source destination blobs available =
     (let plan = \<lparr>tp_ID = '''', tp_Strategy = TransferSourcePush, tp_Source = source, tp_Destination = destination,
                  tp_Blobs = [], tp_Chunks = [], tp_ResumeFrom = []\<rparr>
      in if loc_URI source = loc_URI destination \<and> loc_Path source = loc_Path destination
         then plan\<lparr>tp_Strategy := TransferUseExisting\<rparr>
         else plan\<lparr>tp_Blobs := filter (\<lambda>b. map_of available (blob_Digest b) \<noteq> Some True) blobs\<rparr>)"

section \<open>The materializer\<close>

text \<open>The hash of \<^verbatim>\<open>crypto/sha256\<close>, printed in hexadecimal, and the clock are parameters.\<close>

record 'w Materializer =
  mz_Connectors :: "'w TransferConnector list"
  mz_sha256 :: "string \<Rightarrow> string"
  mz_now :: "'w \<Rightarrow> float64 \<times> 'w"

fun connector :: "'w TransferConnector list \<Rightarrow> TransferEndpoint \<Rightarrow> error + 'w TransferConnector" where
  "connector [] endpoint = Inl (Errorf ''no connector for endpoint %q'' [FmtS (ep_URI endpoint)])"
| "connector (c # cs) endpoint = (if tc_CanHandle c endpoint then Inr c else connector cs endpoint)"

definition endpoint_of :: "string \<Rightarrow> TransferEndpoint" where
  "endpoint_of uri = \<lparr>ep_ID = '''', ep_Kind = '''', ep_URI = uri, ep_ResourceID = '''', ep_EnvironmentID = '''', ep_Configuration = []\<rparr>"

definition sourceName :: "string \<Rightarrow> string \<Rightarrow> nat \<Rightarrow> string" where
  "sourceName configured digest n = (if configured \<noteq> '''' \<and> n = 1 then configured else digest)"

definition destinationName :: "string \<Rightarrow> string \<Rightarrow> string" where
  "destinationName base digest = (if base = '''' then digest else path_Join base digest)"

text \<open>Opening an object and reading it to the end.\<close>

definition object_size :: "'w TransferConnector \<Rightarrow> TransferEndpoint \<Rightarrow> string \<Rightarrow> 'w \<Rightarrow> (error + int) \<times> 'w" where
  "object_size c endpoint name w =
     (case tc_Exists c endpoint name w of
        (Inl e, w1) \<Rightarrow> (Inl e, w1)
      | (Inr exists, w1) \<Rightarrow>
         if \<not> exists then (Inr 0, w1)
         else (case tc_Open c endpoint name 0 w1 of
                 (Inl e, w2) \<Rightarrow> (Inl e, w2)
               | (Inr (data, err), w2) \<Rightarrow> ((case err of Some e \<Rightarrow> Inl e | None \<Rightarrow> Inr (int (length data))), w2)))"

definition same_digest :: "(string \<Rightarrow> string) \<Rightarrow> string \<Rightarrow> string \<Rightarrow> bool" where
  "same_digest sha data expected \<longleftrightarrow> trim_prefix (''sha256:'' @ sha data) ''sha256:'' = trim_prefix expected ''sha256:''"

definition object_verify ::
  "(string \<Rightarrow> string) \<Rightarrow> 'w TransferConnector \<Rightarrow> TransferEndpoint \<Rightarrow> string \<Rightarrow> string \<Rightarrow> 'w \<Rightarrow> (error + bool) \<times> 'w"
where
  "object_verify sha c endpoint name expected w =
     (case tc_Exists c endpoint name w of
        (Inl e, w1) \<Rightarrow> (Inl e, w1)
      | (Inr exists, w1) \<Rightarrow>
         if \<not> exists then (Inr False, w1)
         else (case tc_Open c endpoint name 0 w1 of
                 (Inl e, w2) \<Rightarrow> (Inl e, w2)
               | (Inr (data, err), w2) \<Rightarrow>
                  ((case err of Some e \<Rightarrow> Inl e | None \<Rightarrow> Inr (same_digest sha data expected)), w2)))"

definition add_verified :: "string \<Rightarrow> DataTransferRun \<Rightarrow> DataTransferRun" where
  "add_verified digest run = run\<lparr>tr_VerifiedBlobs := tr_VerifiedBlobs run @ [digest]\<rparr>"

text \<open>The copy of one blob that is not at its destination: the partial object is continued, verified and committed.\<close>

definition copy_blob ::
  "(string \<Rightarrow> string) \<Rightarrow> 'w TransferConnector \<Rightarrow> 'w TransferConnector \<Rightarrow> DataTransferPlan \<Rightarrow> BlobDescriptor \<Rightarrow> DataTransferRun \<Rightarrow>
   'w \<Rightarrow> (error \<times> DataTransferRun + DataTransferRun) \<times> 'w"
where
  "copy_blob sha sc dc plan blob run w =
     (let source = endpoint_of (loc_URI (tp_Source plan)); destination = endpoint_of (loc_URI (tp_Destination plan));
          final = destinationName (loc_Path (tp_Destination plan)) (blob_Digest blob); partial = final @ ''.partial'';
          name = sourceName (loc_Path (tp_Source plan)) (blob_Digest blob) (length (tp_Blobs plan)) in
      case object_size dc destination partial w of
        (Inl e, w1) \<Rightarrow> (Inl (e, run), w1)
      | (Inr offset, w1) \<Rightarrow>
      (case tc_Open sc source name offset w1 of
        (Inl e, w2) \<Rightarrow> (Inl (e, run), w2)
      | (Inr input, w2) \<Rightarrow>
      (case tc_Put dc destination partial input offset w2 of
        (Some e, w3) \<Rightarrow> (Inl (e, run), w3)
      | (None, w3) \<Rightarrow>
      (case (if blob_SizeBytes blob \<le> 0 then object_size sc source name w3 else (Inr (blob_SizeBytes blob), w3)) of
        (Inl e, w4) \<Rightarrow> (Inl (e, run), w4)
      | (Inr sizeBytes, w4) \<Rightarrow>
      (let run1 = (if offset < sizeBytes then run\<lparr>tr_TransferredBytes := wrap64 (tr_TransferredBytes run + (sizeBytes - offset))\<rparr> else run) in
       case object_verify sha dc destination partial (blob_Digest blob) w4 of
        (Inl e, w5) \<Rightarrow> (Inl (e, run1), w5)
      | (Inr ok, w5) \<Rightarrow>
      (if \<not> ok then (Inl (Errorf ''checksum mismatch for %s'' [FmtS (blob_Digest blob)], run1), w5)
       else case tc_Commit dc destination partial final w5 of
        (Some e, w6) \<Rightarrow> (Inl (e, run1), w6)
      | (None, w6) \<Rightarrow> (Inr (add_verified (blob_Digest blob) run1), w6)))))))"

text \<open>An object that is complete and matches is not copied.\<close>

definition put_blob ::
  "(string \<Rightarrow> string) \<Rightarrow> 'w TransferConnector \<Rightarrow> 'w TransferConnector \<Rightarrow> DataTransferPlan \<Rightarrow> BlobDescriptor \<Rightarrow> DataTransferRun \<Rightarrow>
   'w \<Rightarrow> (error \<times> DataTransferRun + DataTransferRun) \<times> 'w"
where
  "put_blob sha sc dc plan blob run w =
     (case object_verify sha dc (endpoint_of (loc_URI (tp_Destination plan)))
             (destinationName (loc_Path (tp_Destination plan)) (blob_Digest blob)) (blob_Digest blob) w of
        (Inr True, w1) \<Rightarrow> (Inr (add_verified (blob_Digest blob) run), w1)
      | (_, w1) \<Rightarrow> copy_blob sha sc dc plan blob run w1)"

fun put_blobs ::
  "(string \<Rightarrow> string) \<Rightarrow> 'w TransferConnector \<Rightarrow> 'w TransferConnector \<Rightarrow> DataTransferPlan \<Rightarrow> BlobDescriptor list \<Rightarrow> DataTransferRun \<Rightarrow>
   'w \<Rightarrow> (error \<times> DataTransferRun + DataTransferRun) \<times> 'w"
where
  "put_blobs sha sc dc plan [] run w = (Inr run, w)"
| "put_blobs sha sc dc plan (blob # blobs) run w =
     (case put_blob sha sc dc plan blob run w of
        (Inl x, w1) \<Rightarrow> (Inl x, w1)
      | (Inr run1, w1) \<Rightarrow> put_blobs sha sc dc plan blobs run1 w1)"

type_synonym materialized = "ArtifactMaterialization \<times> DataTransferRun \<times> error option"

definition transfer_failed ::
  "'w Materializer \<Rightarrow> ArtifactMaterialization \<Rightarrow> DataTransferRun \<Rightarrow> error \<Rightarrow> 'w \<Rightarrow> materialized \<times> 'w"
where
  "transfer_failed mz target run e w =
     (let run1 = run\<lparr>tr_Status := TransferFailed, tr_Error := error_text e\<rparr>;
          (run2, w1) = (if feq (tr_FinishedAt run1) fzero
                        then (let (now, w') = mz_now mz w in (run1\<lparr>tr_FinishedAt := now\<rparr>, w')) else (run1, w))
      in ((target\<lparr>mat_Status := MaterializationFailed\<rparr>, run2, Some e), w1))"

definition zero_transfer :: DataTransferRun where
  "zero_transfer = \<lparr>tr_ID = '''', tr_PlanID = '''', tr_Strategy = TransferStrategyOther '''', tr_Status = TransferStatusOther '''',
     tr_VerifiedBlobs = [], tr_CompletedChunks = [], tr_StartedAt = fzero, tr_FinishedAt = fzero, tr_TransferredBytes = 0, tr_Error = ''''\<rparr>"

definition plan_strategy :: "DataTransferPlan \<Rightarrow> TransferStrategy" where
  "plan_strategy plan = (if tp_Strategy plan = TransferStrategyOther '''' then TransferSourcePush else tp_Strategy plan)"

definition Materialize ::
  "'w Materializer \<Rightarrow> DataTransferPlan \<Rightarrow> ArtifactMaterialization \<Rightarrow> 'w \<Rightarrow> materialized \<times> 'w"
where
  "Materialize mz plan target w =
     (case connector (mz_Connectors mz) (endpoint_of (loc_URI (tp_Source plan))) of
        Inl e \<Rightarrow> ((target, zero_transfer, Some e), w)
      | Inr sc \<Rightarrow>
     (case connector (mz_Connectors mz) (endpoint_of (loc_URI (tp_Destination plan))) of
        Inl e \<Rightarrow> ((target, zero_transfer, Some e), w)
      | Inr dc \<Rightarrow>
     (let run0 = zero_transfer\<lparr>tr_ID := tp_ID plan, tr_PlanID := tp_ID plan, tr_Strategy := plan_strategy plan\<rparr> in
      if plan_strategy plan = TransferDestinationPull then
        transfer_failed mz target (run0\<lparr>tr_Status := TransferPlanned\<rparr>)
          (Errorf ''destination-pull requires a destination transfer agent'' []) w
      else
        (let (started, w1) = mz_now mz w in
         case put_blobs (mz_sha256 mz) sc dc plan (tp_Blobs plan) (run0\<lparr>tr_Status := TransferRunning, tr_StartedAt := started\<rparr>) w1 of
           (Inl (e, run), w2) \<Rightarrow> transfer_failed mz target run e w2
         | (Inr run, w2) \<Rightarrow>
            (let (finished, w3) = mz_now mz w2
             in ((target\<lparr>mat_Status := MaterializationCommitted, mat_VerifiedDigest := mat_Digest target\<rparr>,
                  run\<lparr>tr_Status := TransferCompleted, tr_FinishedAt := finished\<rparr>, None), w3))))))"

section \<open>The coordinator\<close>

record 'w MaterializationCatalog =
  cat_SaveArtifactMaterialization :: "ArtifactMaterialization \<Rightarrow> 'w \<Rightarrow> error option \<times> 'w"
  cat_SaveTransferRun :: "DataTransferRun \<Rightarrow> 'w \<Rightarrow> error option \<times> 'w"

text \<open>The order in which \<^verbatim>\<open>Commit\<close> visits its map is a parameter too.\<close>

record 'w Coordinator =
  co_Materializer :: "'w Materializer"
  co_Catalog :: "'w MaterializationCatalog option"
  co_order :: "string list \<Rightarrow> string list"

definition coordinator_save :: "'w Coordinator \<Rightarrow> ArtifactMaterialization \<Rightarrow> 'w \<Rightarrow> error option \<times> 'w" where
  "coordinator_save co m w = (case co_Catalog co of None \<Rightarrow> (None, w) | Some c \<Rightarrow> cat_SaveArtifactMaterialization c m w)"

definition saveTransfer :: "'w Coordinator \<Rightarrow> DataTransferRun \<Rightarrow> 'w \<Rightarrow> error option \<times> 'w" where
  "saveTransfer co run w =
     (case co_Catalog co of None \<Rightarrow> (None, w) | Some c \<Rightarrow> if tr_ID run = '''' then (None, w) else cat_SaveTransferRun c run w)"

text \<open>The first half of \<^verbatim>\<open>Prepare\<close>: the artifact.\<close>

definition prepare_artifact ::
  "'w Coordinator \<Rightarrow> PreparationRequirement \<Rightarrow> 'w \<Rightarrow> (error + ArtifactMaterialization option \<times> DataTransferRun list) \<times> 'w"
where
  "prepare_artifact co requirement w =
     (case req_Artifact requirement of
        None \<Rightarrow> (Inr (None, []), w)
      | Some artifact \<Rightarrow>
     (case req_ArtifactTransfer requirement of
        None \<Rightarrow> (Inl (Errorf ''artifact materialization lacks transfer plan'' []), w)
      | Some plan \<Rightarrow>
     (let initial = artifact\<lparr>mat_Status := MaterializationTransferring\<rparr> in
      case coordinator_save co initial w of
        (Some e, w1) \<Rightarrow> (Inl (Errorf ''save artifact materialization: %w'' [FmtE e]), w1)
      | (None, w1) \<Rightarrow>
     (case Materialize (co_Materializer co) plan initial w1 of
        ((result, run, err), w2) \<Rightarrow>
     (case saveTransfer co run w2 of
        (Some e, w3) \<Rightarrow> (Inl (Errorf ''save artifact transfer: %w'' [FmtE e]), w3)
      | (None, w3) \<Rightarrow>
     (case coordinator_save co result w3 of
        (Some e, w4) \<Rightarrow> (Inl (Errorf ''save artifact materialization: %w'' [FmtE e]), w4)
      | (None, w4) \<Rightarrow> (case err of Some e \<Rightarrow> (Inl e, w4) | None \<Rightarrow> (Inr (Some result, [run]), w4))))))))"

text \<open>The second half: the workspace.\<close>

definition prepare_workspace ::
  "'w Coordinator \<Rightarrow> PreparationRequirement \<Rightarrow> 'w \<Rightarrow> (error + WorkspaceMaterialization option \<times> DataTransferRun list) \<times> 'w"
where
  "prepare_workspace co requirement w =
     (case req_Workspace requirement of
        None \<Rightarrow> (Inr (None, []), w)
      | Some workspace \<Rightarrow>
     (case req_WorkspaceTransfer requirement of
        None \<Rightarrow> (Inl (Errorf ''workspace materialization lacks transfer plan'' []), w)
      | Some plan \<Rightarrow>
     (let ws = (if wm_Missing workspace = [] then workspace\<lparr>wm_Missing := tp_Blobs plan\<rparr> else workspace);
          target = \<lparr>mat_ID = wm_ID ws, mat_RunID = '''', mat_ActivityID = '''', mat_VariantID = '''', mat_Digest = ''workspace'',
                    mat_ResourceID = '''', mat_EnvironmentID = '''', mat_DestinationPath = '''', mat_Status = MaterializationOther '''',
                    mat_VerifiedDigest = ''''\<rparr> in
      case Materialize (co_Materializer co) plan target w of
        ((result, run, err), w1) \<Rightarrow>
     (case err of
        Some e \<Rightarrow> (Inl e, w1)
      | None \<Rightarrow>
         if mat_Status result \<noteq> MaterializationCommitted then
           (Inl (Errorf ''workspace materialization is not committed'' []), w1)
         else (case workspace_Commit (co_order co) ws (tr_VerifiedBlobs run) of
                 (Some e, _) \<Rightarrow> (Inl e, w1)
               | (None, ws') \<Rightarrow> (Inr (Some ws', [run]), w1))))))"

definition coordinator_Prepare ::
  "'w Coordinator \<Rightarrow> PreparationRequirement \<Rightarrow> 'w \<Rightarrow> (error + PreparationGate) \<times> 'w"
where
  "coordinator_Prepare co requirement w =
     (case prepare_artifact co requirement w of
        (Inl e, w1) \<Rightarrow> (Inl e, w1)
      | (Inr (artifact, runs), w1) \<Rightarrow>
     (case prepare_workspace co requirement w1 of
        (Inl e, w2) \<Rightarrow> (Inl e, w2)
      | (Inr (workspace, runs'), w2) \<Rightarrow>
     (let gate = \<lparr>gate_Executable = artifact, gate_Workspace = workspace, gate_TransferRuns = runs @ runs'\<rparr> in
      case gate_Ready gate of Some e \<Rightarrow> (Inl e, w2) | None \<Rightarrow> (Inr gate, w2))))"

end
