(* ===== verification/Transfer_Files.thy ===== *)
theory Transfer_Files
  imports Materialization
begin

text \<open>
  The connectors of \<^verbatim>\<open>internal/infrastructure/transfer\<close> whose bytes the control plane keeps itself: the
  local file system (\<^verbatim>\<open>filesystem.go\<close>), the read-only artifact store (\<^verbatim>\<open>artifact_store.go\<close>), and, beside them, HTTP downloads (\<^verbatim>\<open>http.go\<close>) and the
  connector for Google storage that refuses every call (\<^verbatim>\<open>gcs.go\<close>).

  The disk maps clean absolute paths to regular files and directories. What depends on the machine is
  an environment: the parsing of URLs, the working directory, the targets of symbolic links (which only
  \<^verbatim>\<open>EvalSymlinks\<close> sees), the failures of system calls, and how much a failing write has written. Each
  connector call is one step of the disk, so that the environment may answer differently every time.
\<close>

datatype node = File string | Dir

record Disk =
  dk_nodes :: "(string, node) gomap"
  dk_step :: nat

record DiskEnv =
  de_parse :: "string \<Rightarrow> error + string \<times> string \<times> string"
  de_abs :: "string \<Rightarrow> error + string"
  de_real :: "Disk \<Rightarrow> string \<Rightarrow> error + string"
  de_fault :: "nat \<Rightarrow> string \<Rightarrow> string \<Rightarrow> error option"
  de_written :: "nat \<Rightarrow> nat"

definition tick :: "Disk \<Rightarrow> Disk" where
  "tick d = d\<lparr>dk_step := Suc (dk_step d)\<rparr>"

definition fault :: "DiskEnv \<Rightarrow> Disk \<Rightarrow> string \<Rightarrow> string \<Rightarrow> error option" where
  "fault env d call p = de_fault env (dk_step d) call p"

section \<open>Paths of an endpoint\<close>

text \<open>The loop that looks for an existing parent, over the components of the clean path, innermost first.\<close>

definition disk_lstat :: "DiskEnv \<Rightarrow> Disk \<Rightarrow> string \<Rightarrow> error + bool" where
  "disk_lstat env d p = (case fault env d ''lstat'' p of Some e \<Rightarrow> Inl e | None \<Rightarrow> Inr (map_of (dk_nodes d) p \<noteq> None))"

fun existing_parent :: "DiskEnv \<Rightarrow> Disk \<Rightarrow> string list \<Rightarrow> error + string" where
  "existing_parent env d [] =
     (case disk_lstat env d ''/'' of
        Inl e \<Rightarrow> Inl e | Inr found \<Rightarrow> if found then Inr ''/'' else Inl (Errorf ''endpoint has no existing parent'' []))"
| "existing_parent env d (c # cs) =
     (let parent = ''/'' @ join_slash (rev (c # cs)) in
      case disk_lstat env d parent of Inl e \<Rightarrow> Inl e | Inr found \<Rightarrow> if found then Inr parent else existing_parent env d cs)"

definition endpoint_base :: "DiskEnv \<Rightarrow> TransferEndpoint \<Rightarrow> error + string" where
  "endpoint_base env endpoint =
     (case de_parse env (ep_URI endpoint) of
        Inl e \<Rightarrow> Inl e
      | Inr (scheme, host, path) \<Rightarrow>
         if scheme \<noteq> '''' \<and> scheme \<noteq> ''file'' then Inl (Errorf ''not a file endpoint'' [])
         else (case de_abs env (if path = '''' then ep_URI endpoint else path) of
                 Inl e \<Rightarrow> Inl e | Inr base \<Rightarrow> Inr (path_Clean base)))"

definition localPath :: "DiskEnv \<Rightarrow> Disk \<Rightarrow> TransferEndpoint \<Rightarrow> string \<Rightarrow> error + string" where
  "localPath env d endpoint name =
     (case endpoint_base env endpoint of
        Inl e \<Rightarrow> Inl e
      | Inr base \<Rightarrow>
         if name = '''' then Inr base
         else if escapes (path_Clean name) then Inl (Errorf ''transfer path escapes endpoint'' [])
         else
           (let full = path_Join base (path_Clean name) in
            case existing_parent env d (rev (butlast (path_comps full))) of
              Inl e \<Rightarrow> Inl e
            | Inr parent \<Rightarrow>
           (case de_real env d parent of
              Inl e \<Rightarrow> Inl e
            | Inr realParent \<Rightarrow>
           (case de_real env d base of
              Inl e \<Rightarrow> Inl e
            | Inr realBase \<Rightarrow>
               if realParent \<noteq> realBase \<and> \<not> has_prefix realParent (realBase @ ''/'') then
                 Inl (Errorf ''transfer path escapes endpoint via symlink'' [])
               else Inr full))))"

section \<open>The local file system\<close>

definition file_CanHandle :: "DiskEnv \<Rightarrow> TransferEndpoint \<Rightarrow> bool" where
  "file_CanHandle env endpoint =
     (case de_parse env (ep_URI endpoint) of Inl e \<Rightarrow> False | Inr (scheme, _) \<Rightarrow> scheme = '''' \<or> scheme = ''file'')"

definition disk_stat :: "DiskEnv \<Rightarrow> Disk \<Rightarrow> string \<Rightarrow> bool" where
  "disk_stat env d p \<longleftrightarrow> fault env d ''stat'' p = None \<and> map_of (dk_nodes d) p \<noteq> None"

text \<open>Opening a file and moving to an offset; a directory opens, and reading it fails.\<close>

definition disk_open :: "DiskEnv \<Rightarrow> Disk \<Rightarrow> string \<Rightarrow> int \<Rightarrow> error + reader" where
  "disk_open env d p offset =
     (case fault env d ''open'' p of
        Some e \<Rightarrow> Inl e
      | None \<Rightarrow>
         (case map_of (dk_nodes d) p of
            None \<Rightarrow> Inl (Errorf ''open %s: no such file or directory'' [FmtS p])
          | Some node \<Rightarrow>
             (case (if offset > 0 then fault env d ''seek'' p else None) of
                Some e \<Rightarrow> Inl e
              | None \<Rightarrow>
                 (case node of
                    Dir \<Rightarrow> Inr ('''', Some (Errorf ''read %s: is a directory'' [FmtS p]))
                  | File s \<Rightarrow> Inr (drop (nat offset) s, fault env d ''read'' p)))))"

definition file_Exists :: "DiskEnv \<Rightarrow> TransferEndpoint \<Rightarrow> string \<Rightarrow> Disk \<Rightarrow> (error + bool) \<times> Disk" where
  "file_Exists env endpoint name d =
     ((case localPath env d endpoint name of Inl e \<Rightarrow> Inl e | Inr p \<Rightarrow> Inr (disk_stat env d p)), tick d)"

definition file_Open :: "DiskEnv \<Rightarrow> TransferEndpoint \<Rightarrow> string \<Rightarrow> int \<Rightarrow> Disk \<Rightarrow> (error + reader) \<times> Disk" where
  "file_Open env endpoint name offset d =
     ((case localPath env d endpoint name of Inl e \<Rightarrow> Inl e | Inr p \<Rightarrow> disk_open env d p offset), tick d)"

text \<open>\<^verbatim>\<open>MkdirAll\<close> on the directory of a path.\<close>

fun prefixes_of :: "string list \<Rightarrow> string list list" where
  "prefixes_of [] = [[]]"
| "prefixes_of (c # cs) = [] # map ((#) c) (prefixes_of cs)"

definition dirs_above :: "string \<Rightarrow> string list" where
  "dirs_above p = map (\<lambda>cs. ''/'' @ join_slash cs) (prefixes_of (butlast (path_comps p)))"

definition mkdir_all :: "string list \<Rightarrow> (string, node) gomap \<Rightarrow> (string, node) gomap" where
  "mkdir_all dirs nodes = fold (\<lambda>p m. if map_of m p = None then put p Dir m else m) dirs nodes"

text \<open>Writing at an offset: what lies before stays, a gap is filled with zeros, what lies behind stays.\<close>

definition write_at :: "string \<Rightarrow> nat \<Rightarrow> string \<Rightarrow> string" where
  "write_at old offset data = take offset old @ replicate (offset - length old) nul @ data @ drop (offset + length data) old"

definition file_content :: "Disk \<Rightarrow> string \<Rightarrow> string option" where
  "file_content d p = (case map_of (dk_nodes d) p of Some (File s) \<Rightarrow> Some s | _ \<Rightarrow> None)"

definition write_file :: "DiskEnv \<Rightarrow> string \<Rightarrow> reader \<Rightarrow> int \<Rightarrow> Disk \<Rightarrow> error option \<times> Disk" where
  "write_file env p input offset d =
     (let old = (case file_content d p of None \<Rightarrow> '''' | Some s \<Rightarrow> s);
          created = d\<lparr>dk_nodes := put p (File old) (dk_nodes d)\<rparr> in
      case (if offset = 0 then fault env d ''truncate'' p else fault env d ''seek'' p) of
        Some e \<Rightarrow> (Some e, tick created)
      | None \<Rightarrow>
         (let start = (if offset = 0 then '''' else old);
              (data, failure) = (case fault env d ''write'' p of
                 Some e \<Rightarrow> (take (de_written env (dk_step d)) (fst input), Some e) | None \<Rightarrow> input);
              wrote = tick (d\<lparr>dk_nodes := put p (File (write_at start (nat offset) data)) (dk_nodes d)\<rparr>)
          in case failure of Some e \<Rightarrow> (Some e, wrote) | None \<Rightarrow> (fault env d ''close'' p, wrote)))"

definition file_Put :: "DiskEnv \<Rightarrow> TransferEndpoint \<Rightarrow> string \<Rightarrow> reader \<Rightarrow> int \<Rightarrow> Disk \<Rightarrow> error option \<times> Disk" where
  "file_Put env endpoint name input offset d =
     (case localPath env d endpoint name of
        Inl e \<Rightarrow> (Some e, tick d)
      | Inr p \<Rightarrow>
     (case fault env d ''mkdir'' p of
        Some e \<Rightarrow> (Some e, tick d)
      | None \<Rightarrow>
         (if \<exists>q \<in> set (dirs_above p). file_content d q \<noteq> None then
            (Some (Errorf ''mkdir %s: not a directory'' [FmtS p]), tick d)
          else
            (let d1 = d\<lparr>dk_nodes := mkdir_all (dirs_above p) (dk_nodes d)\<rparr> in
             case fault env d ''create'' p of
               Some e \<Rightarrow> (Some e, tick d1)
             | None \<Rightarrow>
                (if map_of (dk_nodes d1) p = Some Dir then (Some (Errorf ''open %s: is a directory'' [FmtS p]), tick d1)
                 else write_file env p input offset d1)))))"

text \<open>\<^verbatim>\<open>Rename\<close> of a regular file; the materializer commits only what it has read.\<close>

definition rename_file :: "DiskEnv \<Rightarrow> string \<Rightarrow> string \<Rightarrow> Disk \<Rightarrow> error option \<times> Disk" where
  "rename_file env p f d =
     (case fault env d ''rename'' p of
        Some e \<Rightarrow> (Some e, tick d)
      | None \<Rightarrow>
         (case file_content d p of
            None \<Rightarrow> (Some (Errorf ''rename %s %s: no such file or directory'' [FmtS p, FmtS f]), tick d)
          | Some s \<Rightarrow>
             (if map_of (dk_nodes d) f = Some Dir then (Some (Errorf ''rename %s %s: file exists'' [FmtS p, FmtS f]), tick d)
              else if p = f then (None, tick d)
              else (None, tick (d\<lparr>dk_nodes := put f (File s) (del p (dk_nodes d))\<rparr>)))))"

definition file_Commit :: "DiskEnv \<Rightarrow> TransferEndpoint \<Rightarrow> string \<Rightarrow> string \<Rightarrow> Disk \<Rightarrow> error option \<times> Disk" where
  "file_Commit env endpoint partial final d =
     (case localPath env d endpoint partial of
        Inl e \<Rightarrow> (Some e, tick d)
      | Inr p \<Rightarrow>
         (case localPath env d endpoint final of
            Inl e \<Rightarrow> (Some e, tick d)
          | Inr f \<Rightarrow> rename_file env p f d))"

definition LocalFilesystem :: "DiskEnv \<Rightarrow> Disk TransferConnector" where
  "LocalFilesystem env = \<lparr>tc_CanHandle = file_CanHandle env, tc_Exists = file_Exists env, tc_Open = file_Open env,
     tc_Put = file_Put env, tc_Commit = file_Commit env\<rparr>"

section \<open>The artifact store\<close>

definition artifact_file :: "DiskEnv \<Rightarrow> string \<Rightarrow> TransferEndpoint \<Rightarrow> error + string" where
  "artifact_file env store endpoint =
     (if store = '''' then Inl (Errorf ''artifact store root is not configured'' [])
      else
        (case de_parse env (ep_URI endpoint) of
           Inl e \<Rightarrow> Inl (Errorf ''not an artifact endpoint'' [])
         | Inr (scheme, host, path) \<Rightarrow>
            if scheme \<noteq> ''artifact'' then Inl (Errorf ''not an artifact endpoint'' [])
            else
              (let key = path_Clean (trim_prefix (host @ path) ''/'') in
               if key = ''.'' \<or> escapes key then Inl (Errorf ''artifact path escapes store root'' [])
               else (case de_abs env store of Inl e \<Rightarrow> Inl e | Inr base \<Rightarrow> Inr (path_Join base key)))))"

definition read_only :: "'x \<Rightarrow> error option \<times> 'x" where
  "read_only d = (Some (Errorf ''artifact store is read-only'' []), d)"

definition ArtifactStore :: "DiskEnv \<Rightarrow> string \<Rightarrow> Disk TransferConnector" where
  "ArtifactStore env store =
     \<lparr>tc_CanHandle = (\<lambda>endpoint. case de_parse env (ep_URI endpoint) of Inl e \<Rightarrow> False | Inr (scheme, _) \<Rightarrow> scheme = ''artifact''),
      tc_Exists = (\<lambda>endpoint name d. ((case artifact_file env store endpoint of Inl e \<Rightarrow> Inl e | Inr p \<Rightarrow> Inr (disk_stat env d p)), tick d)),
      tc_Open = (\<lambda>endpoint name offset d.
        ((case artifact_file env store endpoint of Inl e \<Rightarrow> Inl e | Inr p \<Rightarrow> disk_open env d p offset), tick d)),
      tc_Put = (\<lambda>endpoint name input offset d. read_only d), tc_Commit = (\<lambda>endpoint partial final d. read_only d)\<rparr>"

section \<open>Google storage\<close>

definition gcs_unavailable :: error where
  "gcs_unavailable = Errorf ''GCS transfer is unavailable: configure a GCS transfer agent or use a signed HTTPS URL'' []"

definition GCS :: "'w TransferConnector" where
  "GCS = \<lparr>tc_CanHandle = (\<lambda>endpoint. has_prefix (ep_URI endpoint) ''gs://''), tc_Exists = (\<lambda>endpoint name w. (Inl gcs_unavailable, w)),
     tc_Open = (\<lambda>endpoint name offset w. (Inl gcs_unavailable, w)), tc_Put = (\<lambda>endpoint name input offset w. (Some gcs_unavailable, w)),
     tc_Commit = (\<lambda>endpoint partial final w. (Some gcs_unavailable, w))\<rparr>"

section \<open>HTTP downloads\<close>

text \<open>
  The client answers with a status code, its text and a body, or fails; a positive offset is sent as a
  \<^verbatim>\<open>Range\<close> header.
\<close>

record 'w HttpClient =
  hc_Head :: "string \<Rightarrow> 'w \<Rightarrow> (error + int) \<times> 'w"
  hc_Get :: "string \<Rightarrow> string option \<Rightarrow> 'w \<Rightarrow> (error + int \<times> string \<times> reader) \<times> 'w"

definition success :: "int \<Rightarrow> bool" where
  "success code \<longleftrightarrow> 200 \<le> code \<and> code < 300"

definition http_Exists :: "'w HttpClient \<Rightarrow> TransferEndpoint \<Rightarrow> 'w \<Rightarrow> (error + bool) \<times> 'w" where
  "http_Exists client endpoint w =
     (case hc_Head client (ep_URI endpoint) w of (Inl e, w1) \<Rightarrow> (Inl e, w1) | (Inr code, w1) \<Rightarrow> (Inr (success code), w1))"

definition http_Open :: "'w HttpClient \<Rightarrow> TransferEndpoint \<Rightarrow> int \<Rightarrow> 'w \<Rightarrow> (error + reader) \<times> 'w" where
  "http_Open client endpoint offset w =
     (case hc_Get client (ep_URI endpoint) (if offset > 0 then Some (''bytes='' @ itoa offset @ ''-'') else None) w of
        (Inl e, w1) \<Rightarrow> (Inl e, w1)
      | (Inr (code, text, body), w1) \<Rightarrow>
         if success code then (Inr body, w1)
         else (Inl (Errorf ''HTTP download %s: %s'' [FmtS (ep_URI endpoint), FmtS text]), w1))"

definition HTTPDownload :: "(string \<Rightarrow> error + string \<times> string \<times> string) \<Rightarrow> 'w HttpClient \<Rightarrow> 'w TransferConnector" where
  "HTTPDownload parse client =
     \<lparr>tc_CanHandle = (\<lambda>endpoint. case parse (ep_URI endpoint) of Inl e \<Rightarrow> False | Inr (scheme, _) \<Rightarrow> scheme = ''http'' \<or> scheme = ''https''),
      tc_Exists = (\<lambda>endpoint name. http_Exists client endpoint), tc_Open = (\<lambda>endpoint name. http_Open client endpoint),
      tc_Put = (\<lambda>endpoint name input offset w. (Some (Errorf ''HTTP endpoint is read-only; use S3, SSH or filesystem destination'' []), w)),
      tc_Commit = (\<lambda>endpoint partial final w. (Some (Errorf ''HTTP endpoint is read-only'' []), w))\<rparr>"

end
