(* ===== verification/Transfer_Properties.thy ===== *)
theory Transfer_Properties
  imports Transfer_Files
begin

text \<open>
  What the materializer relies on, as a locale: the contract of a connector that the comments of the
  interface \<^verbatim>\<open>TransferConnector\<close> state. Its lemmas follow the materializer over any such connector; the
  local file system is shown to be one, and the properties are about it.
\<close>

section \<open>The contract of a connector\<close>

locale transfer_store =
  fixes dc :: "'w TransferConnector" and endpoint :: TransferEndpoint and addr :: "string \<Rightarrow> 'a" and content :: "'w \<Rightarrow> 'a \<Rightarrow> string option"
  assumes exists_keeps: "tc_Exists dc endpoint n w = (b, w') \<Longrightarrow> content w' = content w"
    and open_keeps: "tc_Open dc endpoint n offset w = (r, w') \<Longrightarrow> content w' = content w"
    and open_reads: "tc_Open dc endpoint n offset w = (Inr (data, None), w') \<Longrightarrow> \<exists>t. content w (addr n) = Some t \<and> data = drop (nat offset) t"
    and put_frame: "tc_Put dc endpoint n input offset w = (e, w') \<Longrightarrow> a \<noteq> addr n \<Longrightarrow> content w' a = content w a"
    and put_writes: "tc_Put dc endpoint n input 0 w = (None, w') \<Longrightarrow> content w' (addr n) = Some (fst input)"
    and put_resumes: "tc_Put dc endpoint n input (int (length old)) w = (None, w') \<Longrightarrow> content w (addr n) = Some old \<Longrightarrow>
      content w' (addr n) = Some (old @ fst input)"
    and put_input: "tc_Put dc endpoint n input offset w = (None, w') \<Longrightarrow> snd input = None"
    and commit_moves: "tc_Commit dc endpoint p f w = (None, w') \<Longrightarrow> addr p \<noteq> addr f \<Longrightarrow>
      content w' = (content w)(addr f := content w (addr p), addr p := None)"
begin

text \<open>A source that does not touch the objects of the destination.\<close>

definition keeps :: "'w TransferConnector \<Rightarrow> TransferEndpoint \<Rightarrow> bool" where
  "keeps sc source \<longleftrightarrow> (\<forall>n w. content (snd (tc_Exists sc source n w)) = content w) \<and>
     (\<forall>n offset w. content (snd (tc_Open sc source n offset w)) = content w)"

lemma keepsD:
  assumes "keeps sc source"
  shows "tc_Exists sc source n w = (b, w') \<Longrightarrow> content w' = content w" "tc_Open sc source n offset w = (r, w') \<Longrightarrow> content w' = content w"
  using assms unfolding keeps_def by (metis snd_conv)+

lemma keeps_dc: "keeps dc endpoint"
  unfolding keeps_def using exists_keeps open_keeps by (metis prod.collapse)

lemma object_size_keeps: "keeps sc source \<Longrightarrow> object_size sc source n w = (r, w') \<Longrightarrow> content w' = content w"
  unfolding object_size_def using keepsD [of sc source] by (auto split: prod.splits sum.splits if_splits)

lemma object_verify_keeps: "object_verify sha dc endpoint n d w = (r, w') \<Longrightarrow> content w' = content w"
  unfolding object_verify_def using exists_keeps open_keeps by (auto split: prod.splits sum.splits if_splits)

text \<open>The object at an address has the digest.\<close>

definition holds :: "(string \<Rightarrow> string) \<Rightarrow> 'w \<Rightarrow> string \<Rightarrow> string \<Rightarrow> bool" where
  "holds sha w n digest \<longleftrightarrow> (\<exists>t. content w (addr n) = Some t \<and> same_digest sha t digest)"

lemma object_verify_True: "object_verify sha dc endpoint n digest w = (Inr True, w') \<Longrightarrow> holds sha w' n digest"
proof -
  assume v: "object_verify sha dc endpoint n digest w = (Inr True, w')"
  then obtain w1 data where "tc_Exists dc endpoint n w = (Inr True, w1)" "tc_Open dc endpoint n 0 w1 = (Inr (data, None), w')"
    "same_digest sha data digest"
    unfolding object_verify_def by (auto split: prod.splits sum.splits if_splits option.splits)
  then show ?thesis using open_reads [of n 0 w1 data w'] open_keeps [of n 0 w1] unfolding holds_def by fastforce
qed

lemma copy_blob_ok:
  assumes "copy_blob sha sc dc plan blob run w = (Inr run', w')" and "endpoint = endpoint_of (loc_URI (tp_Destination plan))"
    and "keeps sc (endpoint_of (loc_URI (tp_Source plan)))"
    and "final = destinationName (loc_Path (tp_Destination plan)) (blob_Digest blob)" and "addr (final @ ''.partial'') \<noteq> addr final"
  shows "holds sha w' final (blob_Digest blob) \<and> tr_VerifiedBlobs run' = tr_VerifiedBlobs run @ [blob_Digest blob] \<and>
    (\<forall>a. a \<noteq> addr final \<longrightarrow> a \<noteq> addr (final @ ''.partial'') \<longrightarrow> content w' a = content w a)"
proof -
  let ?name = "sourceName (loc_Path (tp_Source plan)) (blob_Digest blob) (length (tp_Blobs plan))"
    and ?source = "endpoint_of (loc_URI (tp_Source plan))" and ?partial = "final @ ''.partial''"
  obtain offset w1 input w2 w3 sizeBytes w4 w5 where
    s: "object_size dc endpoint ?partial w = (Inr offset, w1)" and o: "tc_Open sc ?source ?name offset w1 = (Inr input, w2)"
    and p: "tc_Put dc endpoint ?partial input offset w2 = (None, w3)"
    and z: "(if blob_SizeBytes blob \<le> 0 then object_size sc ?source ?name w3 else (Inr (blob_SizeBytes blob), w3)) = (Inr sizeBytes, w4)"
    and v: "object_verify sha dc endpoint ?partial (blob_Digest blob) w4 = (Inr True, w5)"
    and c: "tc_Commit dc endpoint ?partial final w5 = (None, w')"
    and run': "run' = add_verified (blob_Digest blob)
      (if offset < sizeBytes then run\<lparr>tr_TransferredBytes := wrap64 (tr_TransferredBytes run + (sizeBytes - offset))\<rparr> else run)"
    using assms(1) unfolding copy_blob_def Let_def assms(2) [symmetric] assms(4) [symmetric]
    by (auto split: prod.splits sum.splits option.splits if_splits)
  have "content w1 = content w" by (rule object_size_keeps [OF keeps_dc s])
  moreover have "content w2 = content w1" by (rule keepsD(2) [OF assms(3) o])
  moreover have "content w4 = content w3"
    using z object_size_keeps [OF assms(3), of ?name w3 "Inr sizeBytes" w4] by (auto split: if_splits)
  moreover have "content w5 = content w4" by (rule object_verify_keeps [OF v])
  moreover note m = commit_moves [OF c assms(5)]
  moreover have "holds sha w5 ?partial (blob_Digest blob)" by (rule object_verify_True [OF v])
  ultimately show ?thesis using put_frame [OF p] run' assms(5) by (auto simp: holds_def add_verified_def)
qed

lemma put_blob_ok:
  assumes "put_blob sha sc dc plan blob run w = (Inr run', w')" and "endpoint = endpoint_of (loc_URI (tp_Destination plan))"
    and "keeps sc (endpoint_of (loc_URI (tp_Source plan)))"
    and "final = destinationName (loc_Path (tp_Destination plan)) (blob_Digest blob)" and "addr (final @ ''.partial'') \<noteq> addr final"
  shows "holds sha w' final (blob_Digest blob) \<and> tr_VerifiedBlobs run' = tr_VerifiedBlobs run @ [blob_Digest blob] \<and>
    (\<forall>a. a \<noteq> addr final \<longrightarrow> a \<noteq> addr (final @ ''.partial'') \<longrightarrow> content w' a = content w a)"
proof -
  obtain r w1 where v: "object_verify sha dc endpoint final (blob_Digest blob) w = (r, w1)" by (cases "object_verify sha dc endpoint final (blob_Digest blob) w")
  then have k: "content w1 = content w" by (rule object_verify_keeps)
  show ?thesis
  proof (cases "r = Inr True")
    case True
    then show ?thesis using assms(1) v k object_verify_True [of sha final "blob_Digest blob" w w1]
      unfolding put_blob_def assms(2) [symmetric] assms(4) [symmetric] by (auto simp: add_verified_def)
  next
    case False
    then have "copy_blob sha sc dc plan blob run w1 = (Inr run', w')"
      using assms(1) v unfolding put_blob_def assms(2) [symmetric] assms(4) [symmetric] by (auto split: sum.splits bool.splits)
    from copy_blob_ok [OF this assms(2-5)] show ?thesis using k by simp
  qed
qed

text \<open>Plans whose objects do not get in each other's way: no object is the partial object of another.\<close>

definition apart :: "DataTransferPlan \<Rightarrow> bool" where
  "apart plan \<longleftrightarrow> (\<forall>b \<in> set (tp_Blobs plan). \<forall>b' \<in> set (tp_Blobs plan).
     let f = destinationName (loc_Path (tp_Destination plan)) in
     addr (f (blob_Digest b) @ ''.partial'') \<noteq> addr (f (blob_Digest b')) \<and>
     (addr (f (blob_Digest b)) = addr (f (blob_Digest b')) \<longrightarrow> blob_Digest b = blob_Digest b'))"

lemma put_blobs_ok:
  assumes "put_blobs sha sc dc plan blobs run w = (Inr run', w')" and "endpoint = endpoint_of (loc_URI (tp_Destination plan))"
    and "keeps sc (endpoint_of (loc_URI (tp_Source plan)))" and "apart plan" and "set blobs \<subseteq> set (tp_Blobs plan)"
  shows "tr_VerifiedBlobs run' = tr_VerifiedBlobs run @ map blob_Digest blobs \<and>
    (\<forall>b \<in> set (tp_Blobs plan). b \<in> set blobs \<or> holds sha w (destinationName (loc_Path (tp_Destination plan)) (blob_Digest b)) (blob_Digest b) \<longrightarrow>
       holds sha w' (destinationName (loc_Path (tp_Destination plan)) (blob_Digest b)) (blob_Digest b))"
  using assms(1,5)
proof (induction blobs arbitrary: run w)
  case (Cons b blobs)
  let ?f = "destinationName (loc_Path (tp_Destination plan))"
  obtain run1 w1 where one: "put_blob sha sc dc plan b run w = (Inr run1, w1)" and rest: "put_blobs sha sc dc plan blobs run1 w1 = (Inr run', w')"
    using Cons.prems(1) by (auto split: prod.splits sum.splits)
  have b: "b \<in> set (tp_Blobs plan)" using Cons.prems(2) by simp
  have ne: "addr (?f (blob_Digest b) @ ''.partial'') \<noteq> addr (?f (blob_Digest b))" using assms(4) b unfolding apart_def Let_def by blast
  note ok = put_blob_ok [OF one assms(2,3) refl ne]
  have keep: "holds sha w1 (?f (blob_Digest b')) (blob_Digest b')" if "b' \<in> set (tp_Blobs plan)" "holds sha w (?f (blob_Digest b')) (blob_Digest b')" for b'
  proof (cases "addr (?f (blob_Digest b')) = addr (?f (blob_Digest b))")
    case True
    then have "blob_Digest b' = blob_Digest b" using assms(4) b that(1) unfolding apart_def Let_def by blast
    then show ?thesis using ok by simp
  next
    case False
    moreover have "addr (?f (blob_Digest b')) \<noteq> addr (?f (blob_Digest b) @ ''.partial'')"
      using assms(4) b that(1) unfolding apart_def Let_def by metis
    ultimately show ?thesis using ok that(2) unfolding holds_def by simp
  qed
  show ?case using Cons.IH [OF rest] Cons.prems(2) ok keep by auto
qed simp

end

section \<open>The local file system\<close>

definition file_addr :: "DiskEnv \<Rightarrow> TransferEndpoint \<Rightarrow> string \<Rightarrow> string" where
  "file_addr env endpoint name =
     (case endpoint_base env endpoint of Inl e \<Rightarrow> '''' | Inr base \<Rightarrow> if name = '''' then base else path_Join base (path_Clean name))"

lemma localPath_addr: "localPath env d endpoint name = Inr p \<Longrightarrow> p = file_addr env endpoint name"
  by (auto simp: localPath_def file_addr_def Let_def split: sum.splits if_splits)

lemma file_content_tick [simp]: "file_content (tick d) = file_content d"
  by (simp add: fun_eq_iff file_content_def tick_def)

lemma file_content_put [simp]:
  "file_content (d\<lparr>dk_nodes := put p (File s) m\<rparr>) = (file_content (d\<lparr>dk_nodes := m\<rparr>))(p \<mapsto> s)"
  "file_content (d\<lparr>dk_nodes := del p m\<rparr>) = (file_content (d\<lparr>dk_nodes := m\<rparr>))(p := None)"
  "file_content (d\<lparr>dk_nodes := dk_nodes d\<rparr>) = file_content d"
  by (simp_all add: fun_eq_iff file_content_def)

lemma mkdir_all_content [simp]: "file_content (d\<lparr>dk_nodes := mkdir_all dirs m\<rparr>) = file_content (d\<lparr>dk_nodes := m\<rparr>)"
proof (induction dirs arbitrary: m)
  case (Cons q dirs)
  have "file_content (d\<lparr>dk_nodes := (if map_of m q = None then put q Dir m else m)\<rparr>) = file_content (d\<lparr>dk_nodes := m\<rparr>)"
    by (auto simp: fun_eq_iff file_content_def split: option.split)
  then show ?case using Cons by (simp add: mkdir_all_def)
qed (simp add: mkdir_all_def)

lemma mkdir_all_disk [simp]: "file_content (d\<lparr>dk_nodes := mkdir_all dirs (dk_nodes d)\<rparr>) = file_content d"
  by simp

lemma write_file_frame: "write_file env p input offset d = (e, d') \<Longrightarrow> a \<noteq> p \<Longrightarrow> file_content d' a = file_content d a"
  by (auto simp: write_file_def Let_def split: option.splits prod.splits if_splits)

lemma write_file_ok:
  assumes "write_file env p input offset d = (None, d')"
  shows "snd input = None \<and> file_content d' p =
    Some (write_at (if offset = 0 then '''' else case file_content d p of None \<Rightarrow> '''' | Some s \<Rightarrow> s) (nat offset) (fst input))"
  using assms by (auto simp: write_file_def Let_def split: option.splits prod.splits if_splits)

lemma write_at_end [simp]: "write_at s (length s) data = s @ data" "write_at '''' 0 data = data"
  by (simp_all add: write_at_def)

lemma file_Put_ok:
  assumes "file_Put env endpoint n input offset d = (None, d')"
  shows "snd input = None \<and> file_content d' (file_addr env endpoint n) =
    Some (write_at (if offset = 0 then '''' else case file_content d (file_addr env endpoint n) of None \<Rightarrow> '''' | Some s \<Rightarrow> s) (nat offset) (fst input))"
proof -
  obtain p where p: "localPath env d endpoint n = Inr p"
    and w: "write_file env p input offset (d\<lparr>dk_nodes := mkdir_all (dirs_above p) (dk_nodes d)\<rparr>) = (None, d')"
    using assms by (auto simp: file_Put_def Let_def split: sum.splits option.splits if_splits)
  show ?thesis using write_file_ok [OF w] unfolding localPath_addr [OF p, symmetric] by simp
qed

lemma file_Put_frame:
  assumes "file_Put env endpoint n input offset d = (e, d')" and "a \<noteq> file_addr env endpoint n"
  shows "file_content d' a = file_content d a"
  using assms localPath_addr [of env d endpoint n] write_file_frame [of env _ input offset _ e d' a]
  by (fastforce simp: file_Put_def Let_def split: sum.splits option.splits if_splits)

lemma file_Commit_ok:
  assumes "file_Commit env endpoint p f d = (None, d')" and "file_addr env endpoint p \<noteq> file_addr env endpoint f"
  shows "file_content d' = (file_content d)(file_addr env endpoint f := file_content d (file_addr env endpoint p), file_addr env endpoint p := None)"
proof -
  have "rename_file env (file_addr env endpoint p) (file_addr env endpoint f) d = (None, d')"
    using assms(1) localPath_addr [of env d endpoint] by (auto simp: file_Commit_def split: sum.splits)
  then show ?thesis using assms(2) by (auto simp: rename_file_def fun_upd_twist split: option.splits if_splits)
qed

lemma disk_open_reads: "disk_open env d p offset = Inr (data, None) \<Longrightarrow> \<exists>t. file_content d p = Some t \<and> data = drop (nat offset) t"
  by (auto simp: disk_open_def file_content_def split: option.splits node.splits if_splits)

interpretation files: transfer_store "LocalFilesystem env" endpoint "file_addr env endpoint" file_content for env endpoint
proof (unfold_locales, goal_cases)
  case (1 n w b w')
  then show ?case by (auto simp: LocalFilesystem_def file_Exists_def)
next
  case (2 n offset w r w')
  then show ?case by (auto simp: LocalFilesystem_def file_Open_def)
next
  case (3 n offset w data w')
  then show ?case using localPath_addr [of env w endpoint n] disk_open_reads
    by (fastforce simp: LocalFilesystem_def file_Open_def split: sum.splits)
next
  case (4 n input offset w e w' a)
  then show ?case using file_Put_frame by (simp add: LocalFilesystem_def)
next
  case (5 n input w w')
  then show ?case using file_Put_ok [of env endpoint n input 0 w w'] by (simp add: LocalFilesystem_def)
next
  case (6 n input old w w')
  then show ?case using file_Put_ok [of env endpoint n input "int (length old)" w w'] by (cases "old = ''''") (simp_all add: LocalFilesystem_def)
next
  case (7 n input offset w w')
  then show ?case using file_Put_ok by (simp add: LocalFilesystem_def)
next
  case (8 p f w w')
  then show ?case using file_Commit_ok by (simp add: LocalFilesystem_def)
qed

section \<open>Names below an endpoint\<close>

lemma join_snoc_append: "join_slash (cs @ [d]) @ s = join_slash (cs @ [d @ s])"
  by (induction cs rule: join_slash.induct) (simp_all add: join_slash_Cons)

lemma destinationName_comps:
  assumes "\<not> escapes (path_Clean base)" and "plain d"
  shows "destinationName base d = join_slash (path_comps base @ [d])" and "list_all plain (path_comps base)"
proof -
  note rel = not_escapes_plain [OF assms(1)]
  show "list_all plain (path_comps base)" using rel ..
  show "destinationName base d = join_slash (path_comps base @ [d])"
  proof (cases "base = ''''")
    case True
    then show ?thesis by (simp add: destinationName_def path_comps_def)
  next
    case False
    have d: "split_slash d = [d]" using assms(2) by (simp add: split_slash_plain plain_def)
    have abs: "\<not> is_abs (base @ s)" for s using rel False by (cases base) auto
    have "path_comps (base @ CHR ''/'' # d) = path_comps base @ [d]"
      unfolding path_comps_def [of "base @ _"] split_slash_join clean_comps_append d using abs rel assms(2)
      by (simp add: path_comps_def plain_def)
    then show ?thesis using False abs by (simp add: destinationName_def path_Join_def path_Clean_def path_of_def)
  qed
qed

lemma path_Clean_join: "list_all plain cs \<Longrightarrow> cs \<noteq> [] \<Longrightarrow> path_Clean (join_slash cs) = join_slash cs"
proof -
  assume cs: "list_all plain cs" "cs \<noteq> []"
  then have "\<not> is_abs (join_slash cs)" using join_plain_rel by (cases cs) auto
  then show ?thesis using cs path_comps_rel by (simp add: path_Clean_def path_of_def)
qed

lemma file_addr_join:
  assumes "endpoint_base env endpoint = Inr base" and "is_abs base" and "list_all plain cs" and "cs \<noteq> []"
  shows "file_addr env endpoint (join_slash cs) = ''/'' @ join_slash (path_comps base @ cs)"
proof -
  have "join_slash cs \<noteq> ''''" and rel: "\<not> is_abs (join_slash cs)" using assms(3,4) join_plain_rel by (cases cs; simp)+
  then show ?thesis using join_below [OF assms(2) rel] path_comps_rel [OF assms(3,4)] assms(1,3) by (simp add: file_addr_def)
qed

lemma join_slash_inj: "list_all plain as \<Longrightarrow> list_all plain bs \<Longrightarrow> ''/'' @ join_slash as = ''/'' @ join_slash bs \<Longrightarrow> as = bs"
  by (metis path_comps_abs)

text \<open>What \<^verbatim>\<open>filepath.Abs\<close> promises.\<close>

definition abs_ok :: "DiskEnv \<Rightarrow> bool" where
  "abs_ok env \<longleftrightarrow> (\<forall>p b. de_abs env p = Inr b \<longrightarrow> is_abs b)"

lemma is_abs_Clean: "is_abs b \<Longrightarrow> is_abs (path_Clean b)"
  using is_abs_path_of [of "is_abs b"] by (auto simp: path_Clean_def)

lemma endpoint_base_abs: "abs_ok env \<Longrightarrow> endpoint_base env endpoint = Inr base \<Longrightarrow> is_abs base"
  unfolding endpoint_base_def abs_ok_def using is_abs_Clean by (auto split: sum.splits if_splits)

text \<open>Plans with digests that are single names and no partial ones, below the endpoint.\<close>

definition names_ok :: "DataTransferPlan \<Rightarrow> bool" where
  "names_ok plan \<longleftrightarrow> \<not> escapes (path_Clean (loc_Path (tp_Destination plan))) \<and>
     list_all (\<lambda>b. plain (blob_Digest b) \<and> \<not> has_suffix (blob_Digest b) ''.partial'') (tp_Blobs plan)"

lemma has_suffix_append [simp]: "has_suffix (s @ t) t"
  by (simp add: has_suffix_def has_prefix_def)

lemma plain_partial: "plain d \<Longrightarrow> plain (d @ ''.partial'')"
  by (auto simp: plain_def append_eq_Cons_conv)

lemma files_apart:
  assumes "abs_ok env" and "endpoint_base env endpoint = Inr base" and "names_ok plan"
  shows "files.apart env endpoint plan"
  unfolding files.apart_def Let_def
proof (intro ballI conjI impI)
  let ?root = "loc_Path (tp_Destination plan)"
  fix b b'
  assume "b \<in> set (tp_Blobs plan)" "b' \<in> set (tp_Blobs plan)"
  then have p: "plain (blob_Digest b)" "plain (blob_Digest b')" "\<not> has_suffix (blob_Digest b') ''.partial''"
    and esc: "\<not> escapes (path_Clean ?root)" using assms(3) by (auto simp: names_ok_def list_all_iff)
  have base: "is_abs base" "list_all plain (path_comps base)"
    using endpoint_base_abs [OF assms(1,2)] by (auto intro: path_comps_plain)
  note c = destinationName_comps [OF esc p(1)] destinationName_comps [OF esc p(2)]
  show "file_addr env endpoint (destinationName ?root (blob_Digest b) @ ''.partial'') \<noteq> file_addr env endpoint (destinationName ?root (blob_Digest b'))"
  proof
    assume eq: "file_addr env endpoint (destinationName ?root (blob_Digest b) @ ''.partial'') = file_addr env endpoint (destinationName ?root (blob_Digest b'))"
    have "blob_Digest b @ ''.partial'' = blob_Digest b'"
      using eq join_slash_inj [of "path_comps base @ path_comps ?root @ [blob_Digest b @ ''.partial'']" "path_comps base @ path_comps ?root @ [blob_Digest b']"] p c base plain_partial
      unfolding c(1,3) join_snoc_append by (simp add: file_addr_join [OF assms(2) base(1)])
    then show False using p(3) by (metis has_suffix_append)
  qed
  assume "file_addr env endpoint (destinationName ?root (blob_Digest b)) = file_addr env endpoint (destinationName ?root (blob_Digest b'))"
  then show "blob_Digest b = blob_Digest b'"
    using join_slash_inj [of "path_comps base @ path_comps ?root @ [blob_Digest b]" "path_comps base @ path_comps ?root @ [blob_Digest b']"] p c base
    unfolding c(1,3) by (simp add: file_addr_join [OF assms(2) base(1)])
qed

section \<open>Materialization\<close>

lemma Materialize_ok:
  assumes "Materialize mz plan target w = ((m, run, None), w')"
  shows "\<exists>sc dc w1 run1 w2. connector (mz_Connectors mz) (endpoint_of (loc_URI (tp_Source plan))) = Inr sc \<and>
    connector (mz_Connectors mz) (endpoint_of (loc_URI (tp_Destination plan))) = Inr dc \<and> w1 = snd (mz_now mz w) \<and>
    put_blobs (mz_sha256 mz) sc dc plan (tp_Blobs plan)
      (zero_transfer\<lparr>tr_ID := tp_ID plan, tr_PlanID := tp_ID plan, tr_Strategy := plan_strategy plan, tr_Status := TransferRunning,
        tr_StartedAt := fst (mz_now mz w)\<rparr>) w1 = (Inr run1, w2) \<and> w' = snd (mz_now mz w2) \<and>
    m = target\<lparr>mat_Status := MaterializationCommitted, mat_VerifiedDigest := mat_Digest target\<rparr> \<and>
    run = run1\<lparr>tr_Status := TransferCompleted, tr_FinishedAt := fst (mz_now mz w2)\<rparr>"
  using assms unfolding Materialize_def
  by (auto simp: Let_def transfer_failed_def split: sum.splits if_splits prod.splits)

lemma store_keeps: "files.keeps (ArtifactStore env store) source" "files.keeps (LocalFilesystem env) source"
  by (auto simp: files.keeps_def ArtifactStore_def LocalFilesystem_def file_Exists_def file_Open_def)

section \<open>Properties\<close>

text \<open>
  C20. A successful transfer to the local file system is verified: when \<^verbatim>\<open>Materialize\<close> reports no error,
  every blob of the plan is at its place below the endpoint of the destination with the content that
  has its digest, and the run lists the digests; whatever the disk, the failures and the partial objects
  of earlier attempts were.
\<close>

theorem materialize_verified:
  assumes "abs_ok env" and "names_ok plan"
    and "endpoint_base env (endpoint_of (loc_URI (tp_Destination plan))) = Inr base"
    and "connector (mz_Connectors mz) (endpoint_of (loc_URI (tp_Destination plan))) = Inr (LocalFilesystem env)"
    and "connector (mz_Connectors mz) (endpoint_of (loc_URI (tp_Source plan))) \<in> {Inr (ArtifactStore env store), Inr (LocalFilesystem env)}"
    and "\<forall>d. dk_nodes (snd (mz_now mz d)) = dk_nodes d"
    and "Materialize mz plan target w = ((m, run, None), w')"
  shows "mat_Status m = MaterializationCommitted \<and> tr_Status run = TransferCompleted \<and>
    tr_VerifiedBlobs run = map blob_Digest (tp_Blobs plan) \<and>
    (\<forall>b \<in> set (tp_Blobs plan). \<exists>t. same_digest (mz_sha256 mz) t (blob_Digest b) \<and>
       file_content w' (''/'' @ join_slash (path_comps base @ path_comps (loc_Path (tp_Destination plan)) @ [blob_Digest b])) = Some t)"
proof -
  let ?e = "endpoint_of (loc_URI (tp_Destination plan))" and ?root = "loc_Path (tp_Destination plan)"
  obtain sc dc w1 run1 w2 where conn: "connector (mz_Connectors mz) (endpoint_of (loc_URI (tp_Source plan))) = Inr sc"
      "connector (mz_Connectors mz) ?e = Inr dc"
    and blobs0: "put_blobs (mz_sha256 mz) sc dc plan (tp_Blobs plan)
      (zero_transfer\<lparr>tr_ID := tp_ID plan, tr_PlanID := tp_ID plan, tr_Strategy := plan_strategy plan, tr_Status := TransferRunning,
        tr_StartedAt := fst (mz_now mz w)\<rparr>) w1 = (Inr run1, w2)" and w': "w' = snd (mz_now mz w2)"
    and m: "m = target\<lparr>mat_Status := MaterializationCommitted, mat_VerifiedDigest := mat_Digest target\<rparr>"
    and run: "run = run1\<lparr>tr_Status := TransferCompleted, tr_FinishedAt := fst (mz_now mz w2)\<rparr>"
    using Materialize_ok [OF assms(7)] by blast
  have sc: "sc \<in> {ArtifactStore env store, LocalFilesystem env}" using conn(1) assms(5) by auto
  note blobs = blobs0 [unfolded sum.inject(2) [THEN iffD1, OF trans [OF sym [OF conn(2)] assms(4)]]]
  have keeps: "files.keeps sc (endpoint_of (loc_URI (tp_Source plan)))" using sc store_keeps by blast
  note ok = files.put_blobs_ok [OF blobs refl keeps files_apart [OF assms(1,3,2)] subset_refl]
  have content: "file_content w' = file_content w2" using w' assms(6) by (simp add: fun_eq_iff file_content_def)
  have "\<exists>t. same_digest (mz_sha256 mz) t (blob_Digest b) \<and>
      file_content w' (''/'' @ join_slash (path_comps base @ path_comps ?root @ [blob_Digest b])) = Some t" if "b \<in> set (tp_Blobs plan)" for b
  proof -
    have p: "plain (blob_Digest b)" and esc: "\<not> escapes (path_Clean ?root)" using assms(2) that by (auto simp: names_ok_def list_all_iff)
    have "file_addr env ?e (destinationName ?root (blob_Digest b)) = ''/'' @ join_slash (path_comps base @ path_comps ?root @ [blob_Digest b])"
      using destinationName_comps [OF esc p] p by (simp add: file_addr_join [OF assms(3) endpoint_base_abs [OF assms(1,3)]])
    then show ?thesis using ok that unfolding files.holds_def content by fastforce
  qed
  then show ?thesis using m run ok by (simp add: zero_transfer_def)
qed

text \<open>A disk without failures and links, and a transfer from \<open>/src\<close> to \<open>/dst\<close>; contents are their own digests.\<close>

definition demo_env :: DiskEnv where
  "demo_env = \<lparr>de_parse = (\<lambda>uri. Inr ('''', '''', uri)), de_abs = (\<lambda>p. Inr (if is_abs p then p else ''/'' @ p)), de_real = (\<lambda>_ p. Inr p),
     de_fault = (\<lambda>_ _ _. None), de_written = (\<lambda>_. 0)\<rparr>"

definition demo_disk :: "string \<Rightarrow> Disk" where
  "demo_disk partial = \<lparr>dk_nodes = [(''/'', Dir), (''/src'', Dir), (''/dst'', Dir), (''/src/abc'', File ''abc''), (''/dst/abc.partial'', File partial)],
     dk_step = 0\<rparr>"

definition demo_materializer :: "Disk Materializer" where
  "demo_materializer = \<lparr>mz_Connectors = [LocalFilesystem demo_env], mz_sha256 = (\<lambda>s. s), mz_now = (\<lambda>d. (fzero, d))\<rparr>"

definition demo_transfer :: DataTransferPlan where
  "demo_transfer = planner_Plan \<lparr>loc_ResourceID = '''', loc_EnvironmentID = '''', loc_URI = ''/src'', loc_Path = ''''\<rparr>
     \<lparr>loc_ResourceID = '''', loc_EnvironmentID = '''', loc_URI = ''/dst'', loc_Path = ''''\<rparr> [\<lparr>blob_Digest = ''abc'', blob_SizeBytes = 3\<rparr>] []"

definition demo_artifact :: ArtifactMaterialization where
  "demo_artifact = \<lparr>mat_ID = ''m'', mat_RunID = '''', mat_ActivityID = '''', mat_VariantID = '''', mat_Digest = ''abc'', mat_ResourceID = '''',
     mat_EnvironmentID = '''', mat_DestinationPath = '''', mat_Status = MaterializationPlanned, mat_VerifiedDigest = ''''\<rparr>"

lemma demo_env_ok: "abs_ok demo_env"
  by (auto simp: abs_ok_def demo_env_def)

theorem materialize_verified_witness:
  "\<exists>m run w'. Materialize demo_materializer demo_transfer demo_artifact (demo_disk ''a'') = ((m, run, None), w') \<and>
     mat_Status m = MaterializationCommitted \<and> tr_TransferredBytes run = 2 \<and> file_content w' ''/dst/abc'' = Some ''abc''"
proof -
  let ?r = "Materialize demo_materializer demo_transfer demo_artifact (demo_disk ''a'')"
  have r: "snd (snd (fst ?r)) = None" "tr_TransferredBytes (fst (snd (fst ?r))) = 2" by code_simp+
  obtain m run w' where e: "?r = ((m, run, None), w')" using r(1) by (metis prod.collapse)
  have n: "names_ok demo_transfer" by code_simp
  have b: "endpoint_base demo_env (endpoint_of (loc_URI (tp_Destination demo_transfer))) = Inr ''/dst''" by code_simp
  have c: "connector (mz_Connectors demo_materializer) endpoint = Inr (LocalFilesystem demo_env)" for endpoint
    by (simp add: demo_materializer_def LocalFilesystem_def file_CanHandle_def demo_env_def)
  have k: "\<forall>d. dk_nodes (snd (mz_now demo_materializer d)) = dk_nodes d" by (simp add: demo_materializer_def)
  have p: "path_comps ''/dst'' = [''dst'']" "path_comps (loc_Path (tp_Destination demo_transfer)) = []"
    "tp_Blobs demo_transfer = [\<lparr>blob_Digest = ''abc'', blob_SizeBytes = 3\<rparr>]" by code_simp+
  have s: "same_digest (mz_sha256 demo_materializer) t ''abc'' \<Longrightarrow> t = ''abc''" for t
    by (simp add: same_digest_def demo_materializer_def trim_prefix_def has_prefix_def)
  have "mat_Status m = MaterializationCommitted \<and> file_content w' ''/dst/abc'' = Some ''abc''"
    using materialize_verified [where store = "''''", OF demo_env_ok n b c _ k e] c s unfolding p by auto
  then show ?thesis using e r(2) by auto
qed

text \<open>
  C21. Transfers stay below their endpoint: a path that \<^verbatim>\<open>localPath\<close> returns consists of the components of
  the endpoint's base followed by plain ones, its nearest existing parent resolves to the resolved base
  or below it, and a path of the artifact store is strictly below the root of the store; whatever the
  key, with dots, slashes and links, may be.
\<close>

theorem transfer_paths_confined:
  assumes "abs_ok env"
  shows "(case localPath env d endpoint name of
      Inl e \<Rightarrow> True
    | Inr p \<Rightarrow> \<exists>base cs. endpoint_base env endpoint = Inr base \<and> list_all plain cs \<and>
        (if name = '''' then p = base
         else p = ''/'' @ join_slash (path_comps base @ cs) \<and>
           (\<exists>parent realParent realBase. existing_parent env d (rev (butlast (path_comps base @ cs))) = Inr parent \<and>
              de_real env d parent = Inr realParent \<and> de_real env d base = Inr realBase \<and>
              (realParent = realBase \<or> has_prefix realParent (realBase @ ''/''))))) \<and>
    (case artifact_file env store endpoint of
      Inl e \<Rightarrow> True
    | Inr p \<Rightarrow> \<exists>base cs. de_abs env store = Inr base \<and> list_all plain cs \<and> cs \<noteq> [] \<and> p = ''/'' @ join_slash (path_comps base @ cs))"
proof
  show "case localPath env d endpoint name of
      Inl e \<Rightarrow> True
    | Inr p \<Rightarrow> \<exists>base cs. endpoint_base env endpoint = Inr base \<and> list_all plain cs \<and>
        (if name = '''' then p = base
         else p = ''/'' @ join_slash (path_comps base @ cs) \<and>
           (\<exists>parent realParent realBase. existing_parent env d (rev (butlast (path_comps base @ cs))) = Inr parent \<and>
              de_real env d parent = Inr realParent \<and> de_real env d base = Inr realBase \<and>
              (realParent = realBase \<or> has_prefix realParent (realBase @ ''/''))))"
  proof (cases "localPath env d endpoint name")
    case (Inr p)
    then obtain base where base: "endpoint_base env endpoint = Inr base" by (auto simp: localPath_def split: sum.splits)
    note abs = endpoint_base_abs [OF assms base]
    show ?thesis
    proof (cases "name = ''''")
      case True
      then show ?thesis using Inr base by (auto simp: localPath_def intro: exI [of _ "[]"])
    next
      case False
      then have "\<not> escapes (path_Clean name)" using Inr base by (auto simp: localPath_def split: if_splits)
      note rel = not_escapes_plain [OF this]
      note j = join_below [OF abs] rel
      have "list_all plain (path_comps base @ path_comps name)" using rel path_comps_plain [of base] abs by simp
      note c = path_comps_abs [OF this]
      show ?thesis using Inr base False rel join_below [OF abs] c
        by (auto simp: localPath_def Let_def split: sum.splits if_splits intro!: exI [of _ "path_comps name"])
    qed
  qed simp
  show "case artifact_file env store endpoint of
      Inl e \<Rightarrow> True
    | Inr p \<Rightarrow> \<exists>base cs. de_abs env store = Inr base \<and> list_all plain cs \<and> cs \<noteq> [] \<and> p = ''/'' @ join_slash (path_comps base @ cs)"
  proof (cases "artifact_file env store endpoint")
    case (Inr p)
    then obtain key base where k: "\<not> escapes (path_Clean key)" "path_Clean key \<noteq> ''.''" "de_abs env store = Inr base" "p = path_Join base (path_Clean key)"
      by (auto simp: artifact_file_def Let_def split: sum.splits if_splits prod.splits)
    have "is_abs base" using assms k(3) by (auto simp: abs_ok_def)
    moreover note rel = not_escapes_plain [OF k(1)]
    moreover have "path_comps key \<noteq> []" using k(2) rel by (auto simp: path_Clean_def path_of_def)
    ultimately show ?thesis using Inr k join_below [of base key] by auto
  qed simp
qed

theorem transfer_paths_confined_witness:
  "localPath demo_env (demo_disk ''a'') (endpoint_of ''/dst'') ''x/../abc'' = Inr ''/dst/abc'' \<and>
   (\<exists>e. localPath demo_env (demo_disk ''a'') (endpoint_of ''/dst'') ''x/../../src/abc'' = Inl e) \<and>
   (\<exists>cs. list_all plain cs \<and> ''/dst/abc'' = ''/'' @ join_slash (path_comps ''/dst'' @ cs))"
proof -
  have r: "localPath demo_env (demo_disk ''a'') (endpoint_of ''/dst'') ''x/../abc'' = Inr ''/dst/abc''"
    "isl (localPath demo_env (demo_disk ''a'') (endpoint_of ''/dst'') ''x/../../src/abc'')"
    "endpoint_base demo_env (endpoint_of ''/dst'') = Inr ''/dst''" by code_simp+
  have "\<exists>base cs. endpoint_base demo_env (endpoint_of ''/dst'') = Inr base \<and> list_all plain cs \<and> ''/dst/abc'' = ''/'' @ join_slash (path_comps base @ cs)"
    using transfer_paths_confined [OF demo_env_ok, where d = "demo_disk ''a''" and endpoint = "endpoint_of ''/dst''" and name = "''x/../abc''", THEN conjunct1] r(1) by auto
  then show ?thesis using r by (auto simp: isl_def)
qed

section \<open>What the verification does not cover\<close>

text \<open>
  A disk on which nothing fails, with a source file, a partial file at the destination that is at least
  as long as the source but does not have the digest, and no final file.
\<close>

definition corrupt_partial ::
  "(string \<Rightarrow> string) \<Rightarrow> DiskEnv \<Rightarrow> DataTransferPlan \<Rightarrow> BlobDescriptor \<Rightarrow> string \<Rightarrow> string \<Rightarrow> string \<Rightarrow> (string \<Rightarrow> node option) \<Rightarrow> bool"
where
  "corrupt_partial sha env plan blob S P F nodes \<longleftrightarrow>
     (let source = endpoint_of (loc_URI (tp_Source plan)); destination = endpoint_of (loc_URI (tp_Destination plan));
          final = destinationName (loc_Path (tp_Destination plan)) (blob_Digest blob);
          name = sourceName (loc_Path (tp_Source plan)) (blob_Digest blob) (length (tp_Blobs plan)) in
      (\<forall>n call p. de_fault env n call p = None) \<and>
      (\<forall>d. map_of (dk_nodes d) = nodes \<longrightarrow> localPath env d source name = Inr S \<and>
         localPath env d destination (final @ ''.partial'') = Inr P \<and> localPath env d destination final = Inr F) \<and>
      (\<forall>q \<in> set (dirs_above P). nodes q = Some Dir) \<and> nodes F = None \<and>
      (\<exists>t p. nodes S = Some (File t) \<and> nodes P = Some (File p) \<and> length t \<le> length p \<and> \<not> same_digest sha p (blob_Digest blob)))"

lemma file_content_nodes: "map_of (dk_nodes d) p = Some (File s) \<Longrightarrow> file_content d p = Some s"
  by (simp add: file_content_def)

lemma mkdir_all_present: "\<forall>q \<in> set dirs. map_of m q \<noteq> None \<Longrightarrow> mkdir_all dirs m = m"
  by (induction dirs arbitrary: m) (auto simp: mkdir_all_def)

lemma corrupt_put:
  assumes "corrupt_partial sha env plan blob S P F (map_of (dk_nodes w))"
  shows "\<exists>run' w'. put_blob sha (LocalFilesystem env) (LocalFilesystem env) plan blob run w =
      (Inl (Errorf ''checksum mismatch for %s'' [FmtS (blob_Digest blob)], run'), w') \<and> map_of (dk_nodes w') = map_of (dk_nodes w)"
proof -
  let ?source = "endpoint_of (loc_URI (tp_Source plan))" and ?dest = "endpoint_of (loc_URI (tp_Destination plan))"
    and ?final = "destinationName (loc_Path (tp_Destination plan)) (blob_Digest blob)"
    and ?name = "sourceName (loc_Path (tp_Source plan)) (blob_Digest blob) (length (tp_Blobs plan))"
    and ?fs = "LocalFilesystem env" and ?nodes = "map_of (dk_nodes w)"
  obtain t p where nf: "\<And>n call p. de_fault env n call p = None"
    and lp: "\<And>d. map_of (dk_nodes d) = ?nodes \<Longrightarrow> localPath env d ?source ?name = Inr S \<and>
         localPath env d ?dest (?final @ ''.partial'') = Inr P \<and> localPath env d ?dest ?final = Inr F"
    and dirs: "\<forall>q \<in> set (dirs_above P). ?nodes q = Some Dir" and F: "?nodes F = None"
    and S: "?nodes S = Some (File t)" and P: "?nodes P = Some (File p)" and len: "length t \<le> length p"
    and bad: "\<not> same_digest sha p (blob_Digest blob)"
    using assms unfolding corrupt_partial_def Let_def by blast
  note sims = LocalFilesystem_def file_Exists_def file_Open_def disk_stat_def disk_open_def fault_def nf lp
  have tick: "map_of (dk_nodes (tick d)) = map_of (dk_nodes d)" for d by (simp add: tick_def)
  have ver: "object_verify sha ?fs ?dest ?final (blob_Digest blob) d = (Inr False, tick d)" if "map_of (dk_nodes d) = ?nodes" for d
    using that F by (simp add: object_verify_def sims)
  have siz: "object_size ?fs ?dest (?final @ ''.partial'') d = (Inr (int (length p)), tick (tick d))" if "map_of (dk_nodes d) = ?nodes" for d
    using that P tick by (simp add: object_size_def sims)
  have src: "tc_Open ?fs ?source ?name (int (length p)) d = (Inr ('''', None), tick d)" if "map_of (dk_nodes d) = ?nodes" for d
    using that S len by (auto simp: sims)
  have put_ok: "\<exists>d'. tc_Put ?fs ?dest (?final @ ''.partial'') ('''', None) (int (length p)) d = (None, d') \<and> map_of (dk_nodes d') = ?nodes"
    if d: "map_of (dk_nodes d) = ?nodes" for d
  proof -
    have "mkdir_all (dirs_above P) (dk_nodes d) = dk_nodes d" using dirs d by (intro mkdir_all_present) auto
    moreover have "\<forall>q \<in> set (dirs_above P). file_content d q = None" using dirs d by (auto simp: file_content_def)
    moreover have "file_content d P = Some p" using P d by (simp add: file_content_nodes)
    ultimately show ?thesis using d P
      by (auto simp: sims file_Put_def write_file_def Let_def tick_def fun_eq_iff write_at_def)
  qed
  have sz: "\<exists>n d'. (if blob_SizeBytes blob \<le> 0 then object_size ?fs ?source ?name d else (Inr (blob_SizeBytes blob), d)) = (Inr n, d') \<and>
      map_of (dk_nodes d') = ?nodes" if "map_of (dk_nodes d) = ?nodes" for d
    using that S tick by (simp add: object_size_def sims)
  have pver: "object_verify sha ?fs ?dest (?final @ ''.partial'') (blob_Digest blob) d = (Inr False, tick (tick d))" if "map_of (dk_nodes d) = ?nodes" for d
    using that P tick bad by (simp add: object_verify_def sims)
  obtain w4 where w4: "tc_Put ?fs ?dest (?final @ ''.partial'') ('''', None) (int (length p)) (tick (tick (tick (tick w)))) = (None, w4)"
    "map_of (dk_nodes w4) = ?nodes" using put_ok [of "tick (tick (tick (tick w)))"] tick by auto
  obtain n w5 where w5: "(if blob_SizeBytes blob \<le> 0 then object_size ?fs ?source ?name w4 else (Inr (blob_SizeBytes blob), w4)) = (Inr n, w5)"
    "map_of (dk_nodes w5) = ?nodes" using sz [OF w4(2)] by blast
  have v: "put_blob sha ?fs ?fs plan blob run w = copy_blob sha ?fs ?fs plan blob run (tick w)"
    using ver [of w] by (simp add: put_blob_def)
  have s: "object_size ?fs ?dest (?final @ ''.partial'') (tick w) = (Inr (int (length p)), tick (tick (tick w)))"
    "tc_Open ?fs ?source ?name (int (length p)) (tick (tick (tick w))) = (Inr ('''', None), tick (tick (tick (tick w))))"
    using siz [of "tick w"] src [of "tick (tick (tick w))"] tick by auto
  show ?thesis unfolding v copy_blob_def Let_def s w4(1) using w5 pver [OF w5(2)] tick by (simp add: s w4)
qed

lemma corrupt_materialize:
  assumes "corrupt_partial (mz_sha256 mz) env plan blob S P F (map_of (dk_nodes w))" and "tp_Blobs plan = [blob]"
    and "plan_strategy plan \<noteq> TransferDestinationPull"
    and "connector (mz_Connectors mz) (endpoint_of (loc_URI (tp_Source plan))) = Inr (LocalFilesystem env)"
    and "connector (mz_Connectors mz) (endpoint_of (loc_URI (tp_Destination plan))) = Inr (LocalFilesystem env)"
    and "\<forall>d. dk_nodes (snd (mz_now mz d)) = dk_nodes d"
  shows "\<exists>m run w'. Materialize mz plan target w = ((m, run, Some (Errorf ''checksum mismatch for %s'' [FmtS (blob_Digest blob)])), w') \<and>
    mat_Status m = MaterializationFailed \<and> map_of (dk_nodes w') = map_of (dk_nodes w)"
proof -
  obtain now w1 where n: "mz_now mz w = (now, w1)" by (cases "mz_now mz w")
  then have w1: "dk_nodes w1 = dk_nodes w" using assms(6) by (metis snd_conv)
  let ?run = "zero_transfer\<lparr>tr_ID := tp_ID plan, tr_PlanID := tp_ID plan, tr_Strategy := plan_strategy plan, tr_Status := TransferRunning, tr_StartedAt := now\<rparr>"
  obtain run' w2 where p: "put_blob (mz_sha256 mz) (LocalFilesystem env) (LocalFilesystem env) plan blob ?run w1 =
      (Inl (Errorf ''checksum mismatch for %s'' [FmtS (blob_Digest blob)], run'), w2)" "map_of (dk_nodes w2) = map_of (dk_nodes w1)"
    using corrupt_put [of "mz_sha256 mz" env plan blob S P F w1 ?run] assms(1) w1 by auto
  have f: "\<exists>m run w'. transfer_failed mz target run' e w2 = ((m, run, Some e), w') \<and> mat_Status m = MaterializationFailed \<and> dk_nodes w' = dk_nodes w2" for e
    using assms(6) unfolding transfer_failed_def Let_def by (cases "mz_now mz w2") (auto, metis snd_conv)
  have "Materialize mz plan target w = transfer_failed mz target run' (Errorf ''checksum mismatch for %s'' [FmtS (blob_Digest blob)]) w2"
    using assms(2-5) n p(1) by (simp add: Materialize_def Let_def)
  then show ?thesis using f [of "Errorf ''checksum mismatch for %s'' [FmtS (blob_Digest blob)]"] p(2) w1 by fastforce
qed

text \<open>
  A corrupt partial object is never repaired: when the partial file of a blob is at least as long as
  the source but does not have the digest, every attempt resumes behind its end, copies nothing, and
  fails with a checksum mismatch; the partial file is neither removed nor written again, so that retrying
  never helps although nothing else fails.
\<close>

theorem corrupt_partial_sticks:
  assumes "corrupt_partial (mz_sha256 mz) env plan blob S P F (map_of (dk_nodes w))" and "tp_Blobs plan = [blob]"
    and "plan_strategy plan \<noteq> TransferDestinationPull"
    and "connector (mz_Connectors mz) (endpoint_of (loc_URI (tp_Source plan))) = Inr (LocalFilesystem env)"
    and "connector (mz_Connectors mz) (endpoint_of (loc_URI (tp_Destination plan))) = Inr (LocalFilesystem env)"
    and "\<forall>d. dk_nodes (snd (mz_now mz d)) = dk_nodes d"
  shows "\<exists>m run w'. Materialize mz plan target (((\<lambda>d. snd (Materialize mz plan target d)) ^^ retries) w) =
      ((m, run, Some (Errorf ''checksum mismatch for %s'' [FmtS (blob_Digest blob)])), w') \<and> mat_Status m = MaterializationFailed"
proof -
  let ?step = "\<lambda>d. snd (Materialize mz plan target d)"
  have same: "map_of (dk_nodes ((?step ^^ retries) w)) = map_of (dk_nodes w)"
  proof (induction retries)
    case (Suc k)
    have "corrupt_partial (mz_sha256 mz) env plan blob S P F (map_of (dk_nodes ((?step ^^ k) w)))" using assms(1) Suc by simp
    from corrupt_materialize [OF this assms(2-6), of target] show ?case using Suc by auto
  qed simp
  have "corrupt_partial (mz_sha256 mz) env plan blob S P F (map_of (dk_nodes ((?step ^^ retries) w)))" using assms(1) same by simp
  from corrupt_materialize [OF this assms(2-6), of target] show ?thesis by blast
qed

lemma demo_connector: "connector (mz_Connectors demo_materializer) endpoint = Inr (LocalFilesystem demo_env)"
  by (simp add: demo_materializer_def LocalFilesystem_def file_CanHandle_def demo_env_def)

theorem corrupt_partial_sticks_witness:
  "\<exists>m run w'. Materialize demo_materializer demo_transfer demo_artifact
      (((\<lambda>d. snd (Materialize demo_materializer demo_transfer demo_artifact d)) ^^ 7) (demo_disk ''xyz'')) =
      ((m, run, Some (Errorf ''checksum mismatch for %s'' [FmtS ''abc''])), w')"
proof -
  let ?blob = "\<lparr>blob_Digest = ''abc'', blob_SizeBytes = 3\<rparr>"
  have lp: "localPath demo_env d (endpoint_of ''/src'') ''abc'' = Inr ''/src/abc'' \<and>
      localPath demo_env d (endpoint_of ''/dst'') ''abc.partial'' = Inr ''/dst/abc.partial'' \<and>
      localPath demo_env d (endpoint_of ''/dst'') ''abc'' = Inr ''/dst/abc''"
    if "map_of (dk_nodes d) = map_of (dk_nodes (demo_disk ''xyz''))" for d
  proof -
    have n: "map_of (dk_nodes d) ''/src'' = Some Dir" "map_of (dk_nodes d) ''/dst'' = Some Dir" unfolding that by (simp_all add: demo_disk_def)
    have f: "de_parse demo_env u = Inr ('''', '''', u)" "de_abs demo_env p = Inr (if is_abs p then p else ''/'' @ p)"
      "de_real demo_env d p = Inr p" "de_fault demo_env i c p = None" for u p i c by (simp_all add: demo_env_def)
    have c: "path_Clean ''abc'' = ''abc''" "path_Clean ''abc.partial'' = ''abc.partial''" "path_Clean ''/src'' = ''/src''" "path_Clean ''/dst'' = ''/dst''"
      "path_Join ''/src'' ''abc'' = ''/src/abc''" "path_Join ''/dst'' ''abc'' = ''/dst/abc''" "path_Join ''/dst'' ''abc.partial'' = ''/dst/abc.partial''"
      "path_comps ''/src/abc'' = [''src'', ''abc'']" "path_comps ''/dst/abc'' = [''dst'', ''abc'']"
      "path_comps ''/dst/abc.partial'' = [''dst'', ''abc.partial'']" "\<not> escapes ''abc''" "\<not> escapes ''abc.partial''" by code_simp+
    show ?thesis using n by (simp add: localPath_def endpoint_base_def endpoint_of_def disk_lstat_def fault_def f c Let_def)
  qed
  have v: "tp_Blobs demo_transfer = [?blob]" "loc_URI (tp_Source demo_transfer) = ''/src''" "loc_URI (tp_Destination demo_transfer) = ''/dst''"
    "sourceName (loc_Path (tp_Source demo_transfer)) ''abc'' 1 = ''abc''"
    "destinationName (loc_Path (tp_Destination demo_transfer)) ''abc'' = ''abc''" "dirs_above ''/dst/abc.partial'' = [''/'', ''/dst'']"
    "plan_strategy demo_transfer \<noteq> TransferDestinationPull" by code_simp+
  have "\<not> same_digest (mz_sha256 demo_materializer) ''xyz'' ''abc''" by code_simp
  then have c: "corrupt_partial (mz_sha256 demo_materializer) demo_env demo_transfer ?blob ''/src/abc'' ''/dst/abc.partial'' ''/dst/abc''
      (map_of (dk_nodes (demo_disk ''xyz'')))"
    unfolding corrupt_partial_def Let_def v using lp v by (simp add: demo_env_def demo_disk_def)
  have k: "\<forall>d. dk_nodes (snd (mz_now demo_materializer d)) = dk_nodes d" by (simp add: demo_materializer_def)
  show ?thesis using corrupt_partial_sticks [OF c v(1,7) demo_connector demo_connector k, of demo_artifact 7] by auto
qed

text \<open>
  Nothing has to be verified for a committed materialization: a plan without blobs commits the target
  with its own digest as the verified one, here even over the connector that refuses every operation.
\<close>

theorem unverified_commit:
  "let mz = \<lparr>mz_Connectors = [GCS], mz_sha256 = sha, mz_now = (\<lambda>w. (fzero, w))\<rparr>;
       location = \<lparr>loc_ResourceID = '''', loc_EnvironmentID = '''', loc_URI = ''gs://images'', loc_Path = ''''\<rparr>;
       (m, run, err) = fst (Materialize mz (planner_Plan location location [\<lparr>blob_Digest = ''abc'', blob_SizeBytes = 3\<rparr>] []) demo_artifact w)
   in err = None \<and> materialization_Committed m \<and> mat_VerifiedDigest m = ''abc'' \<and> tr_VerifiedBlobs run = [] \<and>
      (\<forall>name. fst (tc_Exists GCS (endpoint_of ''gs://images'') name w) = Inl gcs_unavailable)"
  by (simp add: Materialize_def planner_Plan_def GCS_def endpoint_of_def has_prefix_def plan_strategy_def zero_transfer_def demo_artifact_def
    materialization_Committed_def Let_def)

end
