(* ===== verification/Workflow_Import.thy ===== *)
theory Workflow_Import
  imports Workflow_Domain Go_Text
begin

text \<open>
  The authoring format of workflows, \<^verbatim>\<open>internal/api/requests/workflow.go\<close>: the import \<^verbatim>\<open>Domain\<close> of a document into a
  workflow definition and the export \<^verbatim>\<open>FromDomain\<close>. JSON and YAML are not modelled; the classification of
  characters and the conversions of numbers of the Go library are parameters.
\<close>

section \<open>Documents and definitions\<close>

record ActivityType =
  aty_ID :: string
  aty_Name :: string
  aty_Application :: string
  aty_DefaultImage :: string
  aty_CPUIntensity :: float64
  aty_MemoryIntensity :: float64
  aty_IOIntensity :: float64
  aty_NetworkIntensity :: float64
  aty_Metadata :: metadata

record WorkflowDefinition =
  wfd_ID :: string
  wfd_ExternalID :: string
  wfd_Name :: string
  wfd_Namespace :: string
  wfd_Version :: WorkflowVersion
  wfd_Types :: "ActivityType list"

record WorkflowActivity =
  wfa_Name :: string
  wfa_Command :: ActivityCommand
  wfa_Image :: string
  wfa_Runtime :: string
  wfa_Run :: string
  wfa_MemoryLimit :: string
  wfa_CPULimit :: string
  wfa_DependsOn :: "string list"
  wfa_ResourceSelector :: string
  wfa_KeepDisk :: bool
  wfa_MountPath :: string

record WorkflowSpec =
  wsp_Namespace :: string
  wsp_Image :: string
  wsp_StorageClassName :: string
  wsp_StorageSize :: string
  wsp_StoragePolicy :: string
  wsp_MountPath :: string
  wsp_Activities :: "WorkflowActivity list"

record Workflow =
  wfr_Name :: string
  wfr_Spec :: WorkflowSpec

section \<open>Identifiers and quantities\<close>

text \<open>
  \<^verbatim>\<open>strings.TrimSpace\<close> and \<^verbatim>\<open>strings.ToLower\<close>, and whether a character, given by its bytes, is a letter or a digit.
\<close>

record Unicode =
  un_TrimSpace :: "string \<Rightarrow> string"
  un_ToLower :: "string \<Rightarrow> string"
  un_word :: "string \<Rightarrow> bool"

definition identifierOf :: "Unicode \<Rightarrow> string \<Rightarrow> string" where
  "identifierOf un value =
     trim_dashes (map_runes (\<lambda>r. if un_word un r \<or> r = ''-'' then r else ''-'') (un_ToLower un (un_TrimSpace un value)))"

definition cpuValue :: "Numbers \<Rightarrow> string \<Rightarrow> error + float64" where
  "cpuValue nu value =
     (if value = '''' then Inr (fround (1 / 10))
      else if has_suffix value ''m'' then
        (case nu_ParseFloat nu (trim_suffix value ''m'') of Inl e \<Rightarrow> Inl e | Inr milli \<Rightarrow> Inr (fdiv milli (Fin 1000)))
      else nu_ParseFloat nu value)"

text \<open>The three suffixes differ, so that the order in which their map is visited does not matter.\<close>

definition multiplier :: "string \<Rightarrow> (string \<times> float64) option" where
  "multiplier value =
     (if has_suffix value ''Ki'' then Some (''Ki'', Fin 1024)
      else if has_suffix value ''Mi'' then Some (''Mi'', Fin 1048576)
      else if has_suffix value ''Gi'' then Some (''Gi'', Fin 1073741824) else None)"

definition byteValue :: "Numbers \<Rightarrow> string \<Rightarrow> error + int" where
  "byteValue nu value =
     (if value = '''' then Inr 16777216
      else case multiplier value of
        Some (suffix, factor) \<Rightarrow>
          (case nu_ParseFloat nu (trim_suffix value suffix) of Inl e \<Rightarrow> Inl e | Inr number \<Rightarrow> Inr (to_int64 nu (fmul number factor)))
      | None \<Rightarrow> nu_ParseInt nu value)"

section \<open>Import\<close>

text \<open>The command of an activity: the shell line and the image are shorthands.\<close>

definition import_command :: "WorkflowActivity \<Rightarrow> string \<Rightarrow> ActivityCommand" where
  "import_command value defaultImage =
     (let c1 = (if cmd_Entrypoint (wfa_Command value) = '''' \<and> wfa_Run value \<noteq> ''''
                then (wfa_Command value)\<lparr>cmd_Entrypoint := ''sh'', cmd_Arguments := [''-c'', wfa_Run value]\<rparr> else wfa_Command value);
          img = (if wfa_Image value = '''' then defaultImage else wfa_Image value)
      in if cmd_Executable c1 = None \<and> img \<noteq> '''' then
           c1\<lparr>cmd_Executable := Some \<lparr>ref_Source = zero_source\<lparr>src_Type := ExecutableSourceOCI, src_Reference := img\<rparr>,
             ref_Delivery = zero_delivery\<lparr>dlv_Strategy := DeliveryAuto\<rparr>\<rparr>\<rparr>
         else c1)"

definition activityDomain ::
  "Numbers \<Rightarrow> Unicode \<Rightarrow> WorkflowActivity \<Rightarrow> string \<Rightarrow> string \<Rightarrow> string \<Rightarrow> nat \<Rightarrow> error + Activity"
where
  "activityDomain nu un value defaultImage versionID typeID index =
     (case cpuValue nu (wfa_CPULimit value) of
        Inl e \<Rightarrow> Inl (Errorf ''activity %q cpuLimit: %w'' [FmtS (wfa_Name value), FmtE e])
      | Inr cpu \<Rightarrow>
     (case byteValue nu (wfa_MemoryLimit value) of
        Inl e \<Rightarrow> Inl (Errorf ''activity %q memoryLimit: %w'' [FmtS (wfa_Name value), FmtE e])
      | Inr memory \<Rightarrow>
     (let command = import_command value defaultImage in
      if cmd_Entrypoint command = '''' then
        Inl (Errorf ''activity %q command.entrypoint and command.executable are required'' [FmtS (wfa_Name value)])
      else case cmd_Executable command of
        None \<Rightarrow> Inl (Errorf ''activity %q command.entrypoint and command.executable are required'' [FmtS (wfa_Name value)])
      | Some executable \<Rightarrow>
     (case executable_Validate executable of
        Some e \<Rightarrow> Inl (Errorf ''activity %q: %w'' [FmtS (wfa_Name value), FmtE e])
      | None \<Rightarrow>
         Inr \<lparr>act_ID = identifierOf un (wfa_Name value), act_WorkflowVersionID = versionID, act_ActivityTypeID = typeID,
              act_ExternalID = identifierOf un (wfa_Name value), act_Name = wfa_Name value, act_Kind = ActivityKindTask,
              act_Capabilities = [ActivityCapabilityReal], act_Command = command,
              act_Resources = \<lparr>ares_CPU = cpu, ares_MemoryBytes = memory, ares_StorageBytes = 0, ares_GPU = 0\<rparr>,
              act_Service = None, act_Simulation = None,
              act_Policy = \<lparr>pol_TimeoutSeconds = Fin 3600, pol_MaxAttempts = 1, pol_RetryDelaySeconds = fzero\<rparr>,
              act_Priority = int (length (wfa_DependsOn value) + index),
              act_Metadata = [(''runtime'', AnyString (wfa_Runtime value)), (''resourceSelector'', AnyString (wfa_ResourceSelector value)),
                (''keepDisk'', AnyBool (wfa_KeepDisk value)), (''mountPath'', AnyString (wfa_MountPath value))]\<rparr>))))"

text \<open>The first loop collects the identifiers by name, the second one builds activities and dependencies.\<close>

fun import_names :: "Unicode \<Rightarrow> WorkflowActivity list \<Rightarrow> (string, string) gomap \<Rightarrow> error + (string, string) gomap" where
  "import_names un [] names = Inr names"
| "import_names un (value # vs) names =
     (if identifierOf un (wfa_Name value) = '''' then Inl (Errorf ''activity name is required'' [])
      else if map_of names (wfa_Name value) \<noteq> None then Inl (Errorf ''duplicate activity %q'' [FmtS (wfa_Name value)])
      else import_names un vs (put (wfa_Name value) (identifierOf un (wfa_Name value)) names))"

fun import_deps :: "string \<Rightarrow> string \<Rightarrow> (string, string) gomap \<Rightarrow> string list \<Rightarrow> error + ActivityDependency list" where
  "import_deps name ident names [] = Inr []"
| "import_deps name ident names (predecessor # ps) =
     (case map_of names predecessor of
        None \<Rightarrow> Inl (Errorf ''activity %q depends on unknown activity %q'' [FmtS name, FmtS predecessor])
      | Some predecessorID \<Rightarrow>
         (case import_deps name ident names ps of
            Inl e \<Rightarrow> Inl e
          | Inr ds \<Rightarrow> Inr (\<lparr>dep_ActivityID = ident, dep_DependsOnActivityID = predecessorID, dep_Type = ''control''\<rparr> # ds)))"

fun import_activities ::
  "Numbers \<Rightarrow> Unicode \<Rightarrow> string \<Rightarrow> string \<Rightarrow> string \<Rightarrow> (string, string) gomap \<Rightarrow> nat \<Rightarrow> WorkflowActivity list \<Rightarrow>
   error + Activity list \<times> ActivityDependency list"
where
  "import_activities nu un img versionID typeID names index [] = Inr ([], [])"
| "import_activities nu un img versionID typeID names index (value # vs) =
     (case activityDomain nu un value img versionID typeID index of
        Inl e \<Rightarrow> Inl e
      | Inr activity \<Rightarrow>
     (case import_deps (wfa_Name value) (act_ID activity) names (wfa_DependsOn value) of
        Inl e \<Rightarrow> Inl e
      | Inr ds \<Rightarrow>
     (case import_activities nu un img versionID typeID names (Suc index) vs of
        Inl e \<Rightarrow> Inl e
      | Inr (activities, deps) \<Rightarrow> Inr (activity # activities, ds @ deps))))"

definition workflow_Domain :: "Numbers \<Rightarrow> Unicode \<Rightarrow> Workflow \<Rightarrow> error + WorkflowDefinition" where
  "workflow_Domain nu un request =
     (let workflowID = identifierOf un (wfr_Name request); spec = wfr_Spec request;
          versionID = workflowID @ ''-v1''; typeID = workflowID @ ''-activity'' in
      if workflowID = '''' \<or> wsp_Namespace spec = '''' then Inl (Errorf ''workflow name and spec.namespace are required'' [])
      else case import_names un (wsp_Activities spec) [] of
        Inl e \<Rightarrow> Inl e
      | Inr names \<Rightarrow>
     (case import_activities nu un (wsp_Image spec) versionID typeID names 0 (wsp_Activities spec) of
        Inl e \<Rightarrow> Inl e
      | Inr (activities, deps) \<Rightarrow>
         Inr \<lparr>wfd_ID = workflowID, wfd_ExternalID = workflowID, wfd_Name = wfr_Name request, wfd_Namespace = wsp_Namespace spec,
              wfd_Version = \<lparr>wfv_ID = versionID, wfv_WorkflowID = workflowID, wfv_Version = 1, wfv_DefinitionHash = versionID,
                wfv_Activities = activities, wfv_Dependencies = deps, wfv_DataDependencies = []\<rparr>,
              wfd_Types = [\<lparr>aty_ID = typeID, aty_Name = wfr_Name request @ '' activity'', aty_Application = '''',
                aty_DefaultImage = wsp_Image spec, aty_CPUIntensity = fzero, aty_MemoryIntensity = fzero, aty_IOIntensity = fzero,
                aty_NetworkIntensity = fzero, aty_Metadata = []\<rparr>]\<rparr>))"

section \<open>Export\<close>

definition export_activity ::
  "Numbers \<Rightarrow> (string, string list) gomap \<Rightarrow> (string, string) gomap \<Rightarrow> Activity \<Rightarrow> WorkflowActivity"
where
  "export_activity nu dependencies names a =
     \<lparr>wfa_Name = act_Name a, wfa_Command = (act_Command a)\<lparr>cmd_ResolvedExecutable := None\<rparr>, wfa_Image = '''',
      wfa_Runtime = meta_string (act_Metadata a) ''runtime'', wfa_Run = '''',
      wfa_MemoryLimit = itoa (ares_MemoryBytes (act_Resources a)), wfa_CPULimit = nu_FormatFloat nu (ares_CPU (act_Resources a)),
      wfa_DependsOn = filter (\<lambda>n. n \<noteq> '''') (map (\<lambda>p. case map_of names p of None \<Rightarrow> '''' | Some n \<Rightarrow> n) (get_list dependencies (act_ID a))),
      wfa_ResourceSelector = meta_string (act_Metadata a) ''resourceSelector'', wfa_KeepDisk = meta_bool (act_Metadata a) ''keepDisk'',
      wfa_MountPath = meta_string (act_Metadata a) ''mountPath''\<rparr>"

definition workflow_FromDomain :: "Numbers \<Rightarrow> WorkflowDefinition \<Rightarrow> Workflow" where
  "workflow_FromDomain nu definition =
     (let dependencies = group_by dep_ActivityID dep_DependsOnActivityID (wfv_Dependencies (wfd_Version definition));
          names = foldl (\<lambda>m a. put (act_ID a) (act_Name a) m) [] (wfv_Activities (wfd_Version definition))
      in \<lparr>wfr_Name = wfd_Name definition,
          wfr_Spec = \<lparr>wsp_Namespace = wfd_Namespace definition, wsp_Image = '''', wsp_StorageClassName = '''', wsp_StorageSize = '''',
            wsp_StoragePolicy = '''', wsp_MountPath = '''',
            wsp_Activities = map (export_activity nu dependencies names) (wfv_Activities (wfd_Version definition))\<rparr>\<rparr>)"

end
