(* ===== verification/Import_Properties.thy ===== *)
theory Import_Properties
  imports Workflow_Import
begin

text \<open>
  The properties of the import of workflows: what an accepted document becomes, that an exported definition
  imports to itself, and that different names may collide.
\<close>

section \<open>Names\<close>

lemma import_names_iff:
  "import_names un vs names = Inr names' \<longleftrightarrow>
     (\<forall>v \<in> set vs. identifierOf un (wfa_Name v) \<noteq> '''') \<and> distinct (map wfa_Name vs) \<and> (\<forall>v \<in> set vs. map_of names (wfa_Name v) = None) \<and>
     names' = foldl (\<lambda>m v. put (wfa_Name v) (identifierOf un (wfa_Name v)) m) names vs"
proof (induction vs arbitrary: names)
  case (Cons v vs)
  then show ?case using Cons.IH [of "put (wfa_Name v) (identifierOf un (wfa_Name v)) names"]
    by (auto simp del: map_of_eq_None_iff) (metis imageI)
qed auto

lemma map_of_names:
  "map_of (foldl (\<lambda>m v. put (wfa_Name v) (identifierOf un (wfa_Name v)) m) names vs) n =
     (if n \<in> wfa_Name ` set vs then Some (identifierOf un n) else map_of names n)"
  by (induction vs arbitrary: names) auto

lemma import_names_cong:
  "map wfa_Name vs = map wfa_Name vs' \<Longrightarrow> import_names un vs names = import_names un vs' names"
proof (induction vs arbitrary: vs' names)
  case (Cons v vs)
  then obtain v' vs'' where "vs' = v' # vs''" "wfa_Name v = wfa_Name v'" "map wfa_Name vs = map wfa_Name vs''" by (cases vs') auto
  then show ?case using Cons.IH by simp
qed simp

section \<open>Activities and dependencies\<close>

definition control_dep :: "Unicode \<Rightarrow> string \<Rightarrow> string \<Rightarrow> ActivityDependency" where
  "control_dep un ident p = \<lparr>dep_ActivityID = ident, dep_DependsOnActivityID = identifierOf un p, dep_Type = ''control''\<rparr>"

lemma import_deps_iff:
  assumes "\<And>n. map_of names n = (if n \<in> N then Some (identifierOf un n) else None)"
  shows "import_deps name ident names ps = Inr ds \<longleftrightarrow> set ps \<subseteq> N \<and> ds = map (control_dep un ident) ps"
proof
  show "import_deps name ident names ps = Inr ds \<Longrightarrow> set ps \<subseteq> N \<and> ds = map (control_dep un ident) ps"
    by (induction ps arbitrary: ds) (auto simp: assms control_dep_def split: sum.splits option.splits if_splits)
  show "set ps \<subseteq> N \<and> ds = map (control_dep un ident) ps \<Longrightarrow> import_deps name ident names ps = Inr ds"
    by (induction ps arbitrary: ds) (auto simp: assms control_dep_def)
qed

definition deps_of :: "Unicode \<Rightarrow> WorkflowActivity \<Rightarrow> ActivityDependency list" where
  "deps_of un v = map (control_dep un (identifierOf un (wfa_Name v))) (wfa_DependsOn v)"

lemma activityDomain_fields:
  assumes "activityDomain nu un v img versionID typeID i = Inr a"
  shows "act_ID a = identifierOf un (wfa_Name v)" "act_Name a = wfa_Name v" "act_Command a = import_command v img"
    "cmd_Entrypoint (act_Command a) \<noteq> ''''" "\<exists>x. cmd_Executable (act_Command a) = Some x \<and> executable_Validate x = None"
    "act_Metadata a = [(''runtime'', AnyString (wfa_Runtime v)), (''resourceSelector'', AnyString (wfa_ResourceSelector v)),
      (''keepDisk'', AnyBool (wfa_KeepDisk v)), (''mountPath'', AnyString (wfa_MountPath v))]"
    "act_Priority a = int (length (wfa_DependsOn v) + i)" "act_Kind a = ActivityKindTask" "act_Capabilities a = [ActivityCapabilityReal]"
  using assms by (auto simp: activityDomain_def Let_def split: sum.splits if_splits option.splits)

lemma import_activities_iff:
  assumes "\<And>n. map_of names n = (if n \<in> N then Some (identifierOf un n) else None)"
  shows "import_activities nu un img versionID typeID names i vs = Inr (as, ds) \<longleftrightarrow>
     length as = length vs \<and> (\<forall>k < length vs. activityDomain nu un (vs ! k) img versionID typeID (i + k) = Inr (as ! k)) \<and>
     (\<forall>v \<in> set vs. set (wfa_DependsOn v) \<subseteq> N) \<and> ds = concat (map (deps_of un) vs)"
proof (induction vs arbitrary: i as ds)
  case (Cons v vs)
  have nth: "(\<forall>k < length (v # vs). activityDomain nu un ((v # vs) ! k) img versionID typeID (i + k) = Inr ((a # as') ! k)) \<longleftrightarrow>
      activityDomain nu un v img versionID typeID i = Inr a \<and>
      (\<forall>k < length vs. activityDomain nu un (vs ! k) img versionID typeID (Suc i + k) = Inr (as' ! k))" for a as'
    by (auto simp: All_less_Suc2)
  show ?case
  proof (cases "activityDomain nu un v img versionID typeID i")
    case (Inl e)
    then show ?thesis by (cases as) (auto simp: All_less_Suc2)
  next
    case (Inr a)
    note id = activityDomain_fields(1) [OF Inr]
    show ?thesis
    proof (cases "set (wfa_DependsOn v) \<subseteq> N")
      case True
      then have d: "import_deps (wfa_Name v) (act_ID a) names (wfa_DependsOn v) = Inr (deps_of un v)"
        using import_deps_iff [OF assms] id by (simp add: deps_of_def)
      show ?thesis
      proof
        assume "import_activities nu un img versionID typeID names i (v # vs) = Inr (as, ds)"
        then obtain as' ds' where r: "import_activities nu un img versionID typeID names (Suc i) vs = Inr (as', ds')"
          and eq: "as = a # as'" "ds = deps_of un v @ ds'" using Inr d by (auto split: sum.splits)
        show "length as = length (v # vs) \<and> (\<forall>k < length (v # vs). activityDomain nu un ((v # vs) ! k) img versionID typeID (i + k) = Inr (as ! k)) \<and>
            (\<forall>v \<in> set (v # vs). set (wfa_DependsOn v) \<subseteq> N) \<and> ds = concat (map (deps_of un) (v # vs))"
          using Cons.IH [THEN iffD1, OF r] Inr True unfolding eq nth by simp
      next
        assume h: "length as = length (v # vs) \<and> (\<forall>k < length (v # vs). activityDomain nu un ((v # vs) ! k) img versionID typeID (i + k) = Inr (as ! k)) \<and>
            (\<forall>v \<in> set (v # vs). set (wfa_DependsOn v) \<subseteq> N) \<and> ds = concat (map (deps_of un) (v # vs))"
        then obtain b as' where eq: "as = b # as'" by (cases as) auto
        have "b = a" using h Inr unfolding eq nth by simp
        moreover have "import_activities nu un img versionID typeID names (Suc i) vs = Inr (as', concat (map (deps_of un) vs))"
          using h unfolding eq nth by (intro Cons.IH [THEN iffD2]) simp
        ultimately show "import_activities nu un img versionID typeID names i (v # vs) = Inr (as, ds)" using h Inr d eq by simp
      qed
    next
      case False
      then have "import_deps (wfa_Name v) (act_ID a) names (wfa_DependsOn v) \<noteq> Inr ds'" for ds' using import_deps_iff [OF assms] by blast
      then show ?thesis using Inr False by (auto split: sum.splits)
    qed
  qed
qed auto

text \<open>What an accepted document is.\<close>

lemma workflow_Domain_iff:
  "workflow_Domain nu un request = Inr d \<longleftrightarrow>
     (let w = identifierOf un (wfr_Name request); vs = wsp_Activities (wfr_Spec request); img = wsp_Image (wfr_Spec request) in
      w \<noteq> '''' \<and> wsp_Namespace (wfr_Spec request) \<noteq> '''' \<and> (\<forall>v \<in> set vs. identifierOf un (wfa_Name v) \<noteq> '''') \<and>
      distinct (map wfa_Name vs) \<and> (\<forall>v \<in> set vs. set (wfa_DependsOn v) \<subseteq> wfa_Name ` set vs) \<and>
      (\<exists>as. length as = length vs \<and> (\<forall>k < length vs. activityDomain nu un (vs ! k) img (w @ ''-v1'') (w @ ''-activity'') k = Inr (as ! k)) \<and>
         d = \<lparr>wfd_ID = w, wfd_ExternalID = w, wfd_Name = wfr_Name request, wfd_Namespace = wsp_Namespace (wfr_Spec request),
              wfd_Version = \<lparr>wfv_ID = w @ ''-v1'', wfv_WorkflowID = w, wfv_Version = 1, wfv_DefinitionHash = w @ ''-v1'',
                wfv_Activities = as, wfv_Dependencies = concat (map (deps_of un) vs), wfv_DataDependencies = []\<rparr>,
              wfd_Types = [\<lparr>aty_ID = w @ ''-activity'', aty_Name = wfr_Name request @ '' activity'', aty_Application = '''',
                aty_DefaultImage = img, aty_CPUIntensity = fzero, aty_MemoryIntensity = fzero, aty_IOIntensity = fzero,
                aty_NetworkIntensity = fzero, aty_Metadata = []\<rparr>]\<rparr>))"
proof -
  let ?vs = "wsp_Activities (wfr_Spec request)" and ?w = "identifierOf un (wfr_Name request)"
  let ?names = "foldl (\<lambda>m v. put (wfa_Name v) (identifierOf un (wfa_Name v)) m) [] ?vs"
    and ?acts = "\<lambda>m. import_activities nu un (wsp_Image (wfr_Spec request)) (?w @ ''-v1'') (?w @ ''-activity'') m 0 ?vs"
  have names: "map_of ?names n = (if n \<in> wfa_Name ` set ?vs then Some (identifierOf un n) else None)" for n by (simp add: map_of_names)
  have n: "import_names un ?vs [] = Inr m \<longleftrightarrow>
      (\<forall>v \<in> set ?vs. identifierOf un (wfa_Name v) \<noteq> '''') \<and> distinct (map wfa_Name ?vs) \<and> m = ?names" for m by (simp add: import_names_iff)
  have a: "(\<forall>v \<in> set ?vs. set (wfa_DependsOn v) \<subseteq> wfa_Name ` set ?vs) \<and> length as = length ?vs \<and>
      (\<forall>k < length ?vs. activityDomain nu un (?vs ! k) (wsp_Image (wfr_Spec request)) (?w @ ''-v1'') (?w @ ''-activity'') k = Inr (as ! k)) \<longleftrightarrow>
      ?acts ?names = Inr (as, concat (map (deps_of un) ?vs))" for as
    using import_activities_iff [OF names, of nu _ _ _ 0 ?vs as "concat (map (deps_of un) ?vs)"] by auto
  have c: "?acts ?names = Inr (as, ds) \<Longrightarrow> ds = concat (map (deps_of un) ?vs)" for as ds
    using import_activities_iff [OF names, of nu _ _ _ 0] by blast
  show ?thesis
  proof (cases "import_names un ?vs []")
    case (Inl e)
    then have "\<not> ((\<forall>v \<in> set ?vs. identifierOf un (wfa_Name v) \<noteq> '''') \<and> distinct (map wfa_Name ?vs))" using n by auto
    then show ?thesis using Inl unfolding workflow_Domain_def Let_def by auto
  next
    case (Inr m)
    then have ok: "(\<forall>v \<in> set ?vs. identifierOf un (wfa_Name v) \<noteq> '''')" "distinct (map wfa_Name ?vs)" "m = ?names" using n by auto
    have "workflow_Domain nu un request = Inr d \<longleftrightarrow> ?w \<noteq> '''' \<and> wsp_Namespace (wfr_Spec request) \<noteq> '''' \<and>
      (\<exists>as. ?acts ?names = Inr (as, concat (map (deps_of un) ?vs)) \<and>
         d = \<lparr>wfd_ID = ?w, wfd_ExternalID = ?w, wfd_Name = wfr_Name request, wfd_Namespace = wsp_Namespace (wfr_Spec request),
              wfd_Version = \<lparr>wfv_ID = ?w @ ''-v1'', wfv_WorkflowID = ?w, wfv_Version = 1, wfv_DefinitionHash = ?w @ ''-v1'',
                wfv_Activities = as, wfv_Dependencies = concat (map (deps_of un) ?vs), wfv_DataDependencies = []\<rparr>,
              wfd_Types = [\<lparr>aty_ID = ?w @ ''-activity'', aty_Name = wfr_Name request @ '' activity'', aty_Application = '''',
                aty_DefaultImage = wsp_Image (wfr_Spec request), aty_CPUIntensity = fzero, aty_MemoryIntensity = fzero,
                aty_IOIntensity = fzero, aty_NetworkIntensity = fzero, aty_Metadata = []\<rparr>]\<rparr>)"
    proof (cases "?acts ?names")
      case (Inl e)
      then show ?thesis using Inr ok(3) unfolding workflow_Domain_def Let_def by simp
    next
      case acts: (Inr p)
      obtain as where p: "p = (as, concat (map (deps_of un) ?vs))" using c acts by (cases p) blast
      show ?thesis using Inr acts unfolding ok(3) p workflow_Domain_def Let_def by auto
    qed
    then show ?thesis unfolding a [symmetric] Let_def using ok(1,2) by blast
  qed
qed

lemma workflow_Domain_facts:
  assumes "workflow_Domain nu un request = Inr d"
  defines "vs \<equiv> wsp_Activities (wfr_Spec request)" and "w \<equiv> identifierOf un (wfr_Name request)"
  shows "length (wfv_Activities (wfd_Version d)) = length vs"
    and "k < length vs \<Longrightarrow> activityDomain nu un (vs ! k) (wsp_Image (wfr_Spec request)) (w @ ''-v1'') (w @ ''-activity'') k =
      Inr (wfv_Activities (wfd_Version d) ! k)"
    and "\<forall>v \<in> set vs. identifierOf un (wfa_Name v) \<noteq> ''''" and "distinct (map wfa_Name vs)"
    and "\<forall>v \<in> set vs. set (wfa_DependsOn v) \<subseteq> wfa_Name ` set vs" and "wfv_Dependencies (wfd_Version d) = concat (map (deps_of un) vs)"
    and "wfd_Name d = wfr_Name request" and "wfd_Namespace d = wsp_Namespace (wfr_Spec request)"
  using assms(1) unfolding workflow_Domain_iff Let_def vs_def w_def by auto

lemma nat_digits_last: "nat_digits n \<noteq> [] \<and> of_char (last (nat_digits n)) < (58::nat)"
proof (cases "n < 10")
  case True
  then have "nat_digits n = [char_of (48 + n)]" by (subst nat_digits.simps) simp
  then show ?thesis using True by simp
next
  case False
  then have "nat_digits n = nat_digits (n div 10) @ [char_of (48 + n mod 10)]" by (subst nat_digits.simps) simp
  then show ?thesis by simp
qed

lemma itoa_last: "itoa i \<noteq> '''' \<and> last (itoa i) \<noteq> CHR ''i''"
proof -
  have "last (nat_digits n) \<noteq> CHR ''i''" for n
  proof
    assume "last (nat_digits n) = CHR ''i''"
    then have "of_char (last (nat_digits n)) = (105::nat)" by simp
    then show False using nat_digits_last [of n] by simp
  qed
  then show ?thesis using nat_digits_last by (simp add: itoa_def)
qed

lemma has_suffix_last: "has_suffix s (p @ [c]) \<Longrightarrow> s \<noteq> '''' \<and> last s = c"
  by (cases s rule: rev_cases) (auto simp: has_suffix_def has_prefix_def)

lemma itoa_multiplier: "multiplier (itoa i) = None"
proof -
  have "\<not> has_suffix (itoa i) [c, CHR ''i'']" for c using itoa_last [of i] has_suffix_last [of "itoa i" "[c]" "CHR ''i''"] by auto
  then show ?thesis by (simp add: multiplier_def)
qed

section \<open>Export\<close>

lemma filter_concat_distinct:
  assumes "distinct (map key xs)" and "\<And>x y. y \<in> set (f x) \<Longrightarrow> g y = key x" and "i < length xs"
  shows "filter (\<lambda>y. g y = key (xs ! i)) (concat (map f xs)) = f (xs ! i)"
  using assms(1,3)
proof (induction xs arbitrary: i)
  case (Cons x xs)
  have none: "filter (\<lambda>y. g y = key z) (f x) = []" if "z \<in> set xs" for z
    using Cons.prems(1) that assms(2) by (auto simp: filter_empty_conv dest!: assms(2))
  have rest: "filter (\<lambda>y. g y = key x) (concat (map f xs)) = []"
  proof -
    have "g y \<noteq> key x" if "y \<in> set (f z)" "z \<in> set xs" for y z using Cons.prems(1) assms(2) [OF that(1)] imageI [OF that(2), of key] by auto
    then show ?thesis by (auto simp: filter_empty_conv)
  qed
  have all: "filter (\<lambda>y. g y = key x) (f x) = f x" using assms(2) by (auto simp: filter_id_conv)
  show ?case
  proof (cases i)
    case 0
    then show ?thesis using all rest by simp
  next
    case (Suc j)
    then show ?thesis using Cons.IH [of j] Cons.prems none [of "xs ! j"] by simp
  qed
qed simp

lemma map_of_activity_names:
  assumes "distinct (map act_ID as)" and "a \<in> set as"
  shows "map_of (foldl (\<lambda>m a. put (act_ID a) (act_Name a) m) m0 as) (act_ID a) = Some (act_Name a)"
  using assms
proof (induction as arbitrary: m0)
  case (Cons b as)
  have other: "map_of (foldl (\<lambda>m a. put (act_ID a) (act_Name a) m) m as) k = map_of m k" if "k \<notin> act_ID ` set as" for m k
    using that by (induction as arbitrary: m) auto
  show ?case using Cons other [of "act_ID b"] by (cases "a = b") auto
qed simp

text \<open>Activities whose numbers survive the conversion to text and back, as \<^verbatim>\<open>strconv\<close> documents it.\<close>

definition printable :: "Numbers \<Rightarrow> Activity \<Rightarrow> bool" where
  "printable nu a \<longleftrightarrow>
     (let cpu = nu_FormatFloat nu (ares_CPU (act_Resources a)) in
      cpu \<noteq> '''' \<and> \<not> has_suffix cpu ''m'' \<and> nu_ParseFloat nu cpu = Inr (ares_CPU (act_Resources a)) \<and>
      nu_ParseInt nu (itoa (ares_MemoryBytes (act_Resources a))) = Inr (ares_MemoryBytes (act_Resources a)))"

lemma export_import_activity:
  assumes "activityDomain nu un v img versionID typeID i = Inr a" and "printable nu a" and "cmd_ResolvedExecutable (act_Command a) = None"
    and "wfa_Name v' = wfa_Name v" and "wfa_DependsOn v' = wfa_DependsOn v" and "v' = export_activity nu dependencies names a"
  shows "activityDomain nu un v' '''' versionID typeID i = Inr a"
proof -
  note f = activityDomain_fields [OF assms(1)]
  have cpu: "cpuValue nu (wfa_CPULimit v') = Inr (ares_CPU (act_Resources a))"
    using assms(2) unfolding assms(6) by (simp add: export_activity_def cpuValue_def printable_def Let_def)
  have memory: "byteValue nu (wfa_MemoryLimit v') = Inr (ares_MemoryBytes (act_Resources a))"
    using assms(2) itoa_last itoa_multiplier unfolding assms(6) by (simp add: export_activity_def byteValue_def printable_def Let_def)
  have same: "(act_Command a)\<lparr>cmd_ResolvedExecutable := None\<rparr> = act_Command a" using assms(3) by simp
  have command: "import_command v' '''' = act_Command a"
    using f(4,5) same unfolding assms(6) by (auto simp: export_activity_def import_command_def Let_def)
  have meta: "wfa_Runtime v' = wfa_Runtime v" "wfa_ResourceSelector v' = wfa_ResourceSelector v" "wfa_KeepDisk v' = wfa_KeepDisk v"
    "wfa_MountPath v' = wfa_MountPath v"
    unfolding assms(6) by (simp_all add: export_activity_def f(6) meta_string_def meta_bool_def)
  show ?thesis using assms(1) cpu memory command f(4,5) assms(4,5) meta unfolding activityDomain_def
    by (auto simp: Let_def split: sum.splits if_splits option.splits)
qed

lemma nth_map_eqI: "length as = length vs \<Longrightarrow> (\<And>k. k < length vs \<Longrightarrow> f (as ! k) = g (vs ! k)) \<Longrightarrow> map f as = map g vs"
  by (intro nth_equalityI) auto

lemma deps_of_simps: "y \<in> set (deps_of un v) \<Longrightarrow> dep_ActivityID y = identifierOf un (wfa_Name v)"
  by (auto simp: deps_of_def control_dep_def)

lemma exported_dependencies:
  assumes "length as = length vs" and "\<And>k. k < length vs \<Longrightarrow> act_ID (as ! k) = identifierOf un (wfa_Name (vs ! k)) \<and> act_Name (as ! k) = wfa_Name (vs ! k)"
    and "distinct (map act_ID as)" and "\<forall>v \<in> set vs. set (wfa_DependsOn v) \<subseteq> wfa_Name ` set vs" and "'''' \<notin> wfa_Name ` set vs" and "i < length vs"
  shows "wfa_DependsOn (export_activity nu (group_by dep_ActivityID dep_DependsOnActivityID (concat (map (deps_of un) vs)))
      (foldl (\<lambda>m a. put (act_ID a) (act_Name a) m) [] as) (as ! i)) = wfa_DependsOn (vs ! i)"
proof -
  let ?names = "foldl (\<lambda>m a. put (act_ID a) (act_Name a) m) [] as"
  have ids: "map act_ID as = map (\<lambda>v. identifierOf un (wfa_Name v)) vs" using assms(1,2) by (intro nth_map_eqI) auto
  then have "distinct (map (\<lambda>v. identifierOf un (wfa_Name v)) vs)" using assms(3) by simp
  from filter_concat_distinct [OF this, where f = "deps_of un" and g = dep_ActivityID, OF deps_of_simps assms(6)]
  have deps: "get_list (group_by dep_ActivityID dep_DependsOnActivityID (concat (map (deps_of un) vs))) (act_ID (as ! i)) =
      map (identifierOf un) (wfa_DependsOn (vs ! i))"
    using assms(2,6) by (simp add: get_list_group_by deps_of_def control_dep_def comp_def)
  have name: "map_of ?names (identifierOf un p) = Some p" if pn: "p \<in> wfa_Name ` set vs" for p
  proof -
    obtain k where k: "k < length vs" "p = wfa_Name (vs ! k)" using pn by (metis imageE in_set_conv_nth)
    then show ?thesis using map_of_activity_names [OF assms(3), of "as ! k"] assms(1,2) by auto
  qed
  have sub: "set (wfa_DependsOn (vs ! i)) \<subseteq> wfa_Name ` set vs" using assms(4,6) by auto
  have "map (\<lambda>p. case map_of ?names p of None \<Rightarrow> '''' | Some n \<Rightarrow> n) (map (identifierOf un) (wfa_DependsOn (vs ! i))) = wfa_DependsOn (vs ! i)"
    unfolding map_map using name sub by (intro map_idI) auto
  moreover have "filter (\<lambda>n. n \<noteq> '''') (wfa_DependsOn (vs ! i)) = wfa_DependsOn (vs ! i)"
    using sub assms(5) by (intro filter_True) auto
  ultimately show ?thesis using deps by (simp add: export_activity_def)
qed

section \<open>Properties\<close>

text \<open>The library restricted to ASCII, and a document with two activities.\<close>

definition ascii :: Unicode where
  "ascii = \<lparr>un_TrimSpace = trim_space,
     un_ToLower = map (\<lambda>c. let n = (of_char c :: nat) in if 65 \<le> n \<and> n \<le> 90 then char_of (n + 32) else c),
     un_word = (\<lambda>r. case r of [c] \<Rightarrow> (let n = (of_char c :: nat) in 48 \<le> n \<and> n \<le> 57 \<or> 65 \<le> n \<and> n \<le> 90 \<or> 97 \<le> n \<and> n \<le> 122) | _ \<Rightarrow> False)\<rparr>"

definition demo_numbers :: Numbers where
  "demo_numbers = \<lparr>nu_ParseFloat = (\<lambda>s. if s = ''0.1'' then Inr (fround (1 / 10)) else Inl (Errorf ''invalid syntax'' [])),
     nu_FormatFloat = (\<lambda>_. ''0.1''), nu_ParseInt = (\<lambda>s. if s = ''8'' then Inr 8 else Inl (Errorf ''invalid syntax'' [])),
     nu_overflow = (\<lambda>_. 0)\<rparr>"

definition demo_entry :: "string \<Rightarrow> string list \<Rightarrow> WorkflowActivity" where
  "demo_entry name deps = \<lparr>wfa_Name = name,
     wfa_Command = \<lparr>cmd_Image = '''', cmd_Executable = None, cmd_ResolvedExecutable = None, cmd_Entrypoint = '''', cmd_Arguments = [],
       cmd_Environment = [], cmd_WorkingDirectory = ''''\<rparr>,
     wfa_Image = '''', wfa_Runtime = ''hpc'', wfa_Run = ''run.sh'', wfa_MemoryLimit = ''8'', wfa_CPULimit = '''', wfa_DependsOn = deps,
     wfa_ResourceSelector = '''', wfa_KeepDisk = True, wfa_MountPath = ''/data''\<rparr>"

definition demo_document :: "WorkflowActivity list \<Rightarrow> Workflow" where
  "demo_document entries = \<lparr>wfr_Name = ''My Flow'', wfr_Spec = \<lparr>wsp_Namespace = ''ns'', wsp_Image = ''img'', wsp_StorageClassName = '''',
     wsp_StorageSize = '''', wsp_StoragePolicy = '''', wsp_MountPath = '''', wsp_Activities = entries\<rparr>\<rparr>"

lemma ascii_empty: "identifierOf ascii '''' = ''''"
  by code_simp

lemma demo_import:
  "\<exists>d. workflow_Domain demo_numbers ascii (demo_document [demo_entry ''Sum Up'' [''Split''], demo_entry ''Split'' []]) = Inr d \<and>
     map act_ID (wfv_Activities (wfd_Version d)) = [''sum-up'', ''split''] \<and>
     list_all (\<lambda>a. printable demo_numbers a \<and> cmd_ResolvedExecutable (act_Command a) = None) (wfv_Activities (wfd_Version d))"
proof -
  let ?r = "workflow_Domain demo_numbers ascii (demo_document [demo_entry ''Sum Up'' [''Split''], demo_entry ''Split'' []])"
  have "case ?r of Inl e \<Rightarrow> False | Inr d \<Rightarrow> map act_ID (wfv_Activities (wfd_Version d)) = [''sum-up'', ''split''] \<and>
     list_all (\<lambda>a. printable demo_numbers a \<and> cmd_ResolvedExecutable (act_Command a) = None) (wfv_Activities (wfd_Version d))" by code_simp
  then show ?thesis by (cases ?r) simp_all
qed

text \<open>
  An imported workflow is well formed: when \<^verbatim>\<open>Domain\<close> accepts a document, the version has one activity per
  entry, in order and under its name, every activity passes the validation that the controller
  demands before a start, and every dependency names two activities of the version and comes from
  the entry that states it.
\<close>

theorem workflow_import_sound:
  assumes "workflow_Domain nu un request = Inr d" and "identifierOf un '''' = ''''"
  shows "map act_Name (wfv_Activities (wfd_Version d)) = map wfa_Name (wsp_Activities (wfr_Spec request)) \<and>
    (\<forall>a \<in> set (wfv_Activities (wfd_Version d)). activity_Validate a = None \<and> act_ID a = identifierOf un (act_Name a)) \<and>
    map (\<lambda>p. (dep_ActivityID p, dep_DependsOnActivityID p)) (wfv_Dependencies (wfd_Version d)) =
      concat (map (\<lambda>v. map (\<lambda>p. (identifierOf un (wfa_Name v), identifierOf un p)) (wfa_DependsOn v)) (wsp_Activities (wfr_Spec request))) \<and>
    (\<forall>p \<in> set (wfv_Dependencies (wfd_Version d)). dep_ActivityID p \<in> act_ID ` set (wfv_Activities (wfd_Version d)) \<and>
       dep_DependsOnActivityID p \<in> act_ID ` set (wfv_Activities (wfd_Version d)))"
proof -
  let ?vs = "wsp_Activities (wfr_Spec request)" and ?as = "wfv_Activities (wfd_Version d)"
  note d = workflow_Domain_facts [OF assms(1)]
  note len = d(1) and deps = d(6)
  have act: "\<exists>img v t k. activityDomain nu un (?vs ! i) img v t k = Inr (?as ! i)" if "i < length ?vs" for i using d(2) that by blast
  have names: "map act_Name ?as = map wfa_Name ?vs" "map act_ID ?as = map (\<lambda>v. identifierOf un (wfa_Name v)) ?vs"
    using act activityDomain_fields(1,2) by (intro nth_map_eqI [OF len]; blast)+
  have valid: "activity_Validate a = None \<and> act_ID a = identifierOf un (act_Name a)" if mem: "a \<in> set ?as" for a
  proof -
    obtain i where i: "i < length ?vs" "a = ?as ! i" using mem len by (metis in_set_conv_nth)
    then obtain img v t k where a: "activityDomain nu un (?vs ! i) img v t k = Inr a" using act by blast
    have "identifierOf un (wfa_Name (?vs ! i)) \<noteq> ''''" using d(3) i(1) by simp
    then show ?thesis using activityDomain_fields [OF a] assms(2) by (auto simp: activity_Validate_def activity_Supports_def)
  qed
  have known: "set (wfa_DependsOn v) \<subseteq> wfa_Name ` set ?vs" if "v \<in> set ?vs" for v using d(5) that by blast
  have ids: "act_ID ` set ?as = (\<lambda>v. identifierOf un (wfa_Name v)) ` set ?vs" using names(2) by (metis set_map)
  have "dep_ActivityID p \<in> act_ID ` set ?as \<and> dep_DependsOnActivityID p \<in> act_ID ` set ?as" if p: "p \<in> set (concat (map (deps_of un) ?vs))" for p
  proof -
    obtain v q where v: "v \<in> set ?vs" "q \<in> set (wfa_DependsOn v)" "p = control_dep un (identifierOf un (wfa_Name v)) q"
      using p by (auto simp: deps_of_def)
    moreover obtain v' where "v' \<in> set ?vs" "q = wfa_Name v'" using known [OF v(1)] v(2) by blast
    ultimately show ?thesis unfolding ids by (auto simp: control_dep_def)
  qed
  moreover have "map (\<lambda>p. (dep_ActivityID p, dep_DependsOnActivityID p)) (concat (map (deps_of un) ?vs)) =
      concat (map (\<lambda>v. map (\<lambda>p. (identifierOf un (wfa_Name v), identifierOf un p)) (wfa_DependsOn v)) ?vs)"
    by (simp add: map_concat deps_of_def control_dep_def comp_def)
  ultimately show ?thesis using names valid unfolding deps by blast
qed



text \<open>
  Names may collide: \<^verbatim>\<open>Domain\<close> refuses a repeated name but not two names with the same identifier, and
  then makes two activities with one identifier; the workflow is accepted although no plan can
  assign both.
\<close>

theorem colliding_names_accepted:
  "\<exists>d. workflow_Domain demo_numbers ascii (demo_document [demo_entry ''sum up'' [], demo_entry ''Sum-Up'' []]) = Inr d \<and>
     map act_ID (wfv_Activities (wfd_Version d)) = [''sum-up'', ''sum-up''] \<and>
     map act_Name (wfv_Activities (wfd_Version d)) = [''sum up'', ''Sum-Up'']"
proof -
  let ?doc = "demo_document [demo_entry ''sum up'' [], demo_entry ''Sum-Up'' []]"
  have "\<not> isl (workflow_Domain demo_numbers ascii ?doc)" by code_simp
  then obtain d where d: "workflow_Domain demo_numbers ascii ?doc = Inr d" by (metis isl_def sum.exhaust_sel)
  have i: "identifierOf ascii ''sum up'' = ''sum-up''" "identifierOf ascii ''Sum-Up'' = ''sum-up''" by code_simp+
  have "map act_ID (wfv_Activities (wfd_Version d)) = map (\<lambda>v. identifierOf ascii (wfa_Name v)) (wsp_Activities (wfr_Spec ?doc))"
    "map act_Name (wfv_Activities (wfd_Version d)) = map wfa_Name (wsp_Activities (wfr_Spec ?doc))"
    using workflow_Domain_facts(1,2) [OF d] activityDomain_fields(1,2) by (intro nth_map_eqI; blast)+
  then show ?thesis using d i by (simp add: demo_document_def demo_entry_def)
qed

end
