(* ===== verification/Storage_Domain.thy ===== *)
theory Storage_Domain
  imports Resource_Domain Go_Text
begin

text \<open>
  Storage resources, \<^verbatim>\<open>internal/domain/resource/storage.go\<close>, and the location of a data object,
  \<^verbatim>\<open>internal/domain/execution/data.go\<close>: storages with their browse roots and index policy, the entries and pages of a
  listing, and the records of downloads and index runs.
\<close>

section \<open>Storages\<close>

datatype StorageType = StorageLocal | StoragePVC | StorageNFS | StorageS3 | StorageLustre | StorageGCS
  | StorageMinIO | StorageSSH | StorageTypeOther string

fun storage_type_text :: "StorageType \<Rightarrow> string" where
  "storage_type_text StorageLocal = ''local''"
| "storage_type_text StoragePVC = ''pvc''"
| "storage_type_text StorageNFS = ''nfs''"
| "storage_type_text StorageS3 = ''s3''"
| "storage_type_text StorageLustre = ''lustre''"
| "storage_type_text StorageGCS = ''gcs''"
| "storage_type_text StorageMinIO = ''s3-compatible''"
| "storage_type_text StorageSSH = ''ssh-filesystem''"
| "storage_type_text (StorageTypeOther s) = s"

datatype StorageHealth = StorageHealthUnknown | StorageHealthHealthy | StorageHealthDegraded
  | StorageHealthUnavailable | StorageHealthOther string

record StorageCapabilities =
  stc_Browse :: bool
  stc_Read :: bool
  stc_Write :: bool
  stc_Download :: bool
  stc_Upload :: bool
  stc_Checksum :: bool
  stc_PresignedDownload :: bool
  stc_ComputeNodeVisible :: bool

record StorageBrowseRoot =
  sbr_Path :: string
  sbr_Label :: string
  sbr_ReadOnly :: bool

record StorageHealthStatus =
  shs_Status :: StorageHealth
  shs_Message :: string
  shs_CheckedAt :: int
  shs_AvailableBytes :: int

record IndexPolicy =
  ixp_Enabled :: bool
  ixp_Roots :: "string list"
  ixp_MaxDepth :: int
  ixp_MaxEntries :: int
  ixp_Include :: "string list"
  ixp_Exclude :: "string list"
  ixp_TimeoutSeconds :: int

record IndexStatus =
  ixs_Status :: string
  ixs_IndexedEntries :: int
  ixs_LastIndexedAt :: int
  ixs_Message :: string

record StorageRuntimeBinding =
  srb_RuntimeID :: string
  srb_Default :: bool
  srb_HostPath :: string
  srb_ContainerPath :: string
  srb_ReadOnly :: bool
  srb_Configuration :: metadata

record StorageResource =
  sto_ID :: string
  sto_EnvironmentVersionID :: string
  sto_Name :: string
  sto_Type :: StorageType
  sto_Endpoint :: string
  sto_CapacityBytes :: int
  sto_Shared :: bool
  sto_ReadOnly :: bool
  sto_Configuration :: metadata
  sto_CredentialReference :: string
  sto_Metadata :: metadata
  sto_RuntimeBindings :: "StorageRuntimeBinding list"
  sto_BrowseRoots :: "StorageBrowseRoot list"
  sto_Capabilities :: StorageCapabilities
  sto_Health :: StorageHealthStatus
  sto_IndexPolicy :: IndexPolicy
  sto_IndexStatus :: IndexStatus

section \<open>Listings\<close>

datatype FileEntryType = FileEntryFile | FileEntryDirectory | FileEntrySymlink

record FileEntry =
  fe_StorageID :: string
  fe_Path :: string
  fe_Name :: string
  fe_Type :: FileEntryType
  fe_SizeBytes :: int
  fe_ModifiedAt :: int
  fe_Checksum :: string
  fe_ETag :: string
  fe_MediaType :: string
  fe_Readable :: bool
  fe_Writable :: bool
  fe_LinkTarget :: string

record BrowseRequest =
  brq_Path :: string
  brq_Cursor :: string
  brq_Limit :: int

record BrowsePage =
  bpg_StorageID :: string
  bpg_Path :: string
  bpg_Entries :: "FileEntry list"
  bpg_NextCursor :: string

section \<open>Runs\<close>

record IndexRun =
  ixr_ID :: string
  ixr_StorageID :: string
  ixr_Status :: string
  ixr_IndexedEntries :: int
  ixr_Error :: string
  ixr_CreatedAt :: int
  ixr_FinishedAt :: int

datatype DownloadStatus = DownloadQueued | DownloadReady | DownloadStreaming | DownloadCompleted | DownloadFailed

record DownloadRun =
  dlr_ID :: string
  dlr_StorageID :: string
  dlr_Path :: string
  dlr_Status :: DownloadStatus
  dlr_Strategy :: string
  dlr_URL :: string
  dlr_SizeBytes :: int
  dlr_TransferredBytes :: int
  dlr_Error :: string
  dlr_CreatedAt :: int
  dlr_UpdatedAt :: int

definition zero_download :: DownloadRun where
  "zero_download = \<lparr>dlr_ID = '''', dlr_StorageID = '''', dlr_Path = '''', dlr_Status = DownloadQueued, dlr_Strategy = '''',
     dlr_URL = '''', dlr_SizeBytes = 0, dlr_TransferredBytes = 0, dlr_Error = '''', dlr_CreatedAt = 0, dlr_UpdatedAt = 0\<rparr>"

section \<open>Data locations\<close>

datatype DataLocationStatus = DataLocationEphemeral | DataLocationStaging | DataLocationAvailable
  | DataLocationFailed | DataLocationDeleted | DataLocationOther string

record DataLocation =
  dloc_ID :: string
  dloc_DataObjectInstanceID :: string
  dloc_StorageResourceID :: string
  dloc_ResourceID :: string
  dloc_ExecutionRunID :: string
  dloc_URI :: string
  dloc_Status :: DataLocationStatus
  dloc_Metadata :: metadata

end
