(* ===== verification/Storage_Service.thy ===== *)
theory Storage_Service
  imports Storage_Domain Materialization
begin

text \<open>
  The browser coordinator, \<^verbatim>\<open>internal/application/storage/service.go\<close>: browsing, downloads, checksums, promotion,
  index runs, and the background jobs that copy a file or archive a directory. The catalog and the storage
  browsers are records of functions on a state \<open>'w\<close>; the clock, pattern matching, lower case, SHA-256 and
  the tar stream are parameters. A context is the error it reports in a state.
\<close>

section \<open>Interfaces\<close>

record 'w StorageBrowser =
  sb_Browse :: "StorageResource \<Rightarrow> BrowseRequest \<Rightarrow> 'w \<Rightarrow> BrowsePage result \<times> 'w"
  sb_BrowseStat :: "StorageResource \<Rightarrow> string \<Rightarrow> 'w \<Rightarrow> (error + FileEntry) \<times> 'w"
  sb_Open :: "StorageResource \<Rightarrow> string \<Rightarrow> 'w \<Rightarrow> (error + reader \<times> FileEntry) \<times> 'w"
  sb_Remove :: "StorageResource \<Rightarrow> string \<Rightarrow> 'w \<Rightarrow> error option \<times> 'w"
  sb_Write :: "StorageResource \<Rightarrow> string \<Rightarrow> reader \<Rightarrow> int \<Rightarrow> 'w \<Rightarrow> error option \<times> 'w"

type_synonym 'w ctx = "'w \<Rightarrow> error option"

record 'w StorageCatalog =
  sc_ListEnvironmentStorages :: "string \<Rightarrow> 'w \<Rightarrow> (error + StorageResource list) \<times> 'w"
  sc_FindStorage :: "string \<Rightarrow> 'w \<Rightarrow> (error + StorageResource option) \<times> 'w"
  sc_SaveDownload :: "DownloadRun \<Rightarrow> 'w \<Rightarrow> error option \<times> 'w"
  sc_FindDownload :: "string \<Rightarrow> 'w \<Rightarrow> (error + DownloadRun option) \<times> 'w"
  sc_PromoteData :: "string \<Rightarrow> string \<Rightarrow> string \<Rightarrow> string \<Rightarrow> string \<Rightarrow> string \<Rightarrow> FileEntry \<Rightarrow> string \<Rightarrow> 'w \<Rightarrow> error option \<times> 'w"
  sc_PromoteArtifact :: "string \<Rightarrow> string \<Rightarrow> string \<Rightarrow> string \<Rightarrow> string \<Rightarrow> string \<Rightarrow> string \<Rightarrow> string \<Rightarrow> FileEntry \<Rightarrow> 'w \<Rightarrow> error option \<times> 'w"
  sc_SaveIndexRun :: "'w ctx \<Rightarrow> IndexRun \<Rightarrow> 'w \<Rightarrow> error option \<times> 'w"
  sc_ListIndexRuns :: "string \<Rightarrow> 'w \<Rightarrow> (error + IndexRun list) \<times> 'w"

record TarEntry =
  tar_Name :: string
  tar_Size :: int
  tar_ModTime :: int
  tar_Body :: string

record 'w BrowserCoordinator =
  bc_catalog :: "'w StorageCatalog"
  bc_resolver :: "StorageType \<Rightarrow> error + 'w StorageBrowser"
  bc_now :: "'w \<Rightarrow> int"
  bc_match :: "string \<Rightarrow> string \<Rightarrow> bool"
  bc_lower :: "string \<Rightarrow> string"
  bc_sha :: "string \<Rightarrow> string"
  bc_base :: "string \<Rightarrow> string"
  bc_tar :: "TarEntry list \<Rightarrow> string"
  bc_tarfail :: "TarEntry \<Rightarrow> error option"

definition registry_Browser :: "(StorageType, 'w StorageBrowser) gomap \<Rightarrow> StorageType \<Rightarrow> error + 'w StorageBrowser" where
  "registry_Browser r t =
     (case map_of r t of None \<Rightarrow> Inl (Errorf ''storage browser %q is unavailable'' [FmtS (storage_type_text t)]) | Some b \<Rightarrow> Inr b)"

section \<open>Storages\<close>

definition storage_not_found :: error where
  "storage_not_found = Errorf ''storage resource not found'' []"

text \<open>\<^verbatim>\<open>FindStorage\<close> and \<^verbatim>\<open>notFound\<close>.\<close>

definition find_storage :: "'w BrowserCoordinator \<Rightarrow> string \<Rightarrow> 'w \<Rightarrow> (error + StorageResource) \<times> 'w" where
  "find_storage s ident w =
     (case sc_FindStorage (bc_catalog s) ident w of
        (Inl e, w1) \<Rightarrow> (Inl e, w1) | (Inr None, w1) \<Rightarrow> (Inl storage_not_found, w1) | (Inr (Some v), w1) \<Rightarrow> (Inr v, w1))"

definition usable :: "'w BrowserCoordinator \<Rightarrow> StorageResource \<Rightarrow> bool \<Rightarrow> error + 'w StorageBrowser" where
  "usable s v write =
     (if sto_BrowseRoots v = [] then Inl (Errorf ''storage has no configured browse roots'' [])
      else if shs_Status (sto_Health v) = StorageHealthUnavailable then
        Inl (Errorf ''storage is unavailable: %s'' [FmtS (shs_Message (sto_Health v))])
      else if write \<and> sto_ReadOnly v then Inl (Errorf ''storage is read-only'' [])
      else bc_resolver s (sto_Type v))"

definition with_browser ::
  "'w BrowserCoordinator \<Rightarrow> string \<Rightarrow> bool \<Rightarrow> (error \<Rightarrow> 'r) \<Rightarrow> (StorageResource \<Rightarrow> 'w StorageBrowser \<Rightarrow> 'w \<Rightarrow> 'r \<times> 'w) \<Rightarrow> 'w \<Rightarrow> 'r \<times> 'w"
where
  "with_browser s ident write err k w =
     (case find_storage s ident w of
        (Inl e, w1) \<Rightarrow> (err e, w1)
      | (Inr v, w1) \<Rightarrow> (case usable s v write of Inl e \<Rightarrow> (err e, w1) | Inr b \<Rightarrow> k v b w1))"

definition storage_capabilities :: "bool \<Rightarrow> StorageResource \<Rightarrow> StorageCapabilities" where
  "storage_capabilities available v =
     \<lparr>stc_Browse = available, stc_Read = available, stc_Write = available \<and> \<not> sto_ReadOnly v, stc_Download = available,
      stc_Upload = available \<and> \<not> sto_ReadOnly v, stc_Checksum = available,
      stc_PresignedDownload = (sto_Type v \<in> {StorageS3, StorageMinIO} \<and> available),
      stc_ComputeNodeVisible = (sto_Shared v \<or> sto_RuntimeBindings v \<noteq> [])\<rparr>"

definition listed_storage :: "'w BrowserCoordinator \<Rightarrow> StorageResource \<Rightarrow> StorageResource" where
  "listed_storage s v =
     (case bc_resolver s (sto_Type v) of
        Inl e \<Rightarrow> v\<lparr>sto_Capabilities := storage_capabilities False v,
                   sto_Health := (sto_Health v)\<lparr>shs_Status := StorageHealthUnavailable, shs_Message := error_text e\<rparr>\<rparr>
      | Inr b \<Rightarrow> v\<lparr>sto_Capabilities := storage_capabilities True v,
                   sto_Health := (sto_Health v)\<lparr>shs_Status := StorageHealthHealthy, shs_Message := ''storage driver is available''\<rparr>\<rparr>)"

definition storage_List :: "'w BrowserCoordinator \<Rightarrow> string \<Rightarrow> 'w \<Rightarrow> (error + StorageResource list) \<times> 'w" where
  "storage_List s environmentID w =
     (case sc_ListEnvironmentStorages (bc_catalog s) environmentID w of
        (Inl e, w1) \<Rightarrow> (Inl e, w1) | (Inr values, w1) \<Rightarrow> (Inr (map (listed_storage s) values), w1))"

definition storage_Roots :: "'w BrowserCoordinator \<Rightarrow> string \<Rightarrow> 'w \<Rightarrow> (error + StorageBrowseRoot list) \<times> 'w" where
  "storage_Roots s ident w = (case find_storage s ident w of (Inl e, w1) \<Rightarrow> (Inl e, w1) | (Inr v, w1) \<Rightarrow> (Inr (sto_BrowseRoots v), w1))"

definition storage_Browse :: "'w BrowserCoordinator \<Rightarrow> string \<Rightarrow> BrowseRequest \<Rightarrow> 'w \<Rightarrow> BrowsePage result \<times> 'w" where
  "storage_Browse s ident r = with_browser s ident False Err (\<lambda>v b. sb_Browse b v r)"

definition storage_Stat :: "'w BrowserCoordinator \<Rightarrow> string \<Rightarrow> string \<Rightarrow> 'w \<Rightarrow> (error + FileEntry) \<times> 'w" where
  "storage_Stat s ident path = with_browser s ident False Inl (\<lambda>v b. sb_BrowseStat b v path)"

definition storage_Delete :: "'w BrowserCoordinator \<Rightarrow> string \<Rightarrow> string \<Rightarrow> 'w \<Rightarrow> error option \<times> 'w" where
  "storage_Delete s ident path = with_browser s ident True Some (\<lambda>v b. sb_Remove b v path)"

definition storage_Checksum :: "'w BrowserCoordinator \<Rightarrow> string \<Rightarrow> string \<Rightarrow> 'w \<Rightarrow> (error + string) \<times> 'w" where
  "storage_Checksum s ident path =
     with_browser s ident False Inl (\<lambda>v b w.
       case sb_Open b v path w of
         (Inl e, w1) \<Rightarrow> (Inl e, w1)
       | (Inr ((data, failure), entry), w1) \<Rightarrow>
          (if fe_Type entry \<noteq> FileEntryFile then (Inl (Errorf ''checksum requires a file'' []), w1)
           else (case failure of Some e \<Rightarrow> (Inl e, w1) | None \<Rightarrow> (Inr (''sha256:'' @ bc_sha s data), w1))))"

section \<open>Downloads\<close>

definition storage_StartDownload :: "'w BrowserCoordinator \<Rightarrow> string \<Rightarrow> string \<Rightarrow> string \<Rightarrow> 'w \<Rightarrow> (error + DownloadRun) \<times> 'w" where
  "storage_StartDownload s ident path runID =
     with_browser s ident False Inl (\<lambda>v b w.
       case sb_BrowseStat b v path w of
         (Inl e, w1) \<Rightarrow> (Inl e, w1)
       | (Inr entry, w1) \<Rightarrow>
          (if fe_Type entry = FileEntryDirectory then (Inl (Errorf ''directories require an archive job'' []), w1)
           else
             (let run = zero_download\<lparr>dlr_ID := runID, dlr_StorageID := ident, dlr_Path := path, dlr_Status := DownloadReady,
                    dlr_Strategy := ''stream'', dlr_SizeBytes := fe_SizeBytes entry, dlr_CreatedAt := bc_now s w1, dlr_UpdatedAt := bc_now s w1\<rparr>
              in case sc_SaveDownload (bc_catalog s) run w1 of (Some e, w2) \<Rightarrow> (Inl e, w2) | (None, w2) \<Rightarrow> (Inr run, w2))))"

definition storage_Download :: "'w BrowserCoordinator \<Rightarrow> string \<Rightarrow> 'w \<Rightarrow> (error + DownloadRun) \<times> 'w" where
  "storage_Download s ident w =
     (case sc_FindDownload (bc_catalog s) ident w of
        (Inl e, w1) \<Rightarrow> (Inl e, w1) | (Inr None, w1) \<Rightarrow> (Inl storage_not_found, w1) | (Inr (Some run), w1) \<Rightarrow> (Inr run, w1))"

definition storage_OpenDownload :: "'w BrowserCoordinator \<Rightarrow> string \<Rightarrow> 'w \<Rightarrow> (error + reader \<times> FileEntry) \<times> 'w" where
  "storage_OpenDownload s ident w =
     (case storage_Download s ident w of
        (Inl e, w1) \<Rightarrow> (Inl e, w1)
      | (Inr run, w1) \<Rightarrow> with_browser s (dlr_StorageID run) False Inl (\<lambda>v b. sb_Open b v (dlr_Path run)) w1)"

section \<open>Promotion\<close>

definition storage_PromoteData ::
  "'w BrowserCoordinator \<Rightarrow> string \<Rightarrow> string \<Rightarrow> string \<Rightarrow> string \<Rightarrow> string \<Rightarrow> string \<Rightarrow> 'w \<Rightarrow> error option \<times> 'w"
where
  "storage_PromoteData s storageID filePath workflowVersionID runID activityID ident w =
     (case storage_Stat s storageID filePath w of
        (Inl e, w1) \<Rightarrow> (Some e, w1)
      | (Inr entry, w1) \<Rightarrow>
         (if fe_Type entry \<noteq> FileEntryFile then (Some (Errorf ''only files can be promoted'' []), w1)
          else case storage_Checksum s storageID filePath w1 of
            (Inl e, w2) \<Rightarrow> (Some e, w2)
          | (Inr digest, w2) \<Rightarrow> sc_PromoteData (bc_catalog s) storageID filePath workflowVersionID runID activityID ident entry digest w2))"

definition storage_PromoteArtifact ::
  "'w BrowserCoordinator \<Rightarrow> string \<Rightarrow> string \<Rightarrow> string \<Rightarrow> string \<Rightarrow> string \<Rightarrow> string \<Rightarrow> string \<Rightarrow> 'w \<Rightarrow> error option \<times> 'w"
where
  "storage_PromoteArtifact s storageID filePath ident name version scope scopeID w =
     (if \<not> has_suffix (bc_lower s filePath) ''.sif'' then (Some (Errorf ''only .sif files can be executable artifacts'' []), w)
      else case storage_Stat s storageID filePath w of
        (Inl e, w1) \<Rightarrow> (Some e, w1)
      | (Inr entry, w1) \<Rightarrow>
         (if fe_Type entry \<noteq> FileEntryFile then (Some (Errorf ''artifact must be a file'' []), w1)
          else case storage_Checksum s storageID filePath w1 of
            (Inl e, w2) \<Rightarrow> (Some e, w2)
          | (Inr digest, w2) \<Rightarrow> sc_PromoteArtifact (bc_catalog s) storageID filePath ident name version scope scopeID digest entry w2))"

section \<open>Index runs\<close>

definition matches :: "'w BrowserCoordinator \<Rightarrow> string \<Rightarrow> string list \<Rightarrow> bool" where
  "matches s value patterns = list_ex (\<lambda>p. bc_match s p value \<or> bc_match s p (bc_base s value)) patterns"

definition included :: "'w BrowserCoordinator \<Rightarrow> string \<Rightarrow> string list \<Rightarrow> bool" where
  "included s value patterns \<longleftrightarrow> patterns = [] \<or> matches s value patterns"

definition excluded :: "'w BrowserCoordinator \<Rightarrow> string \<Rightarrow> string list \<Rightarrow> bool" where
  "excluded s value patterns = matches s value patterns"

text \<open>What the recursive function \<^verbatim>\<open>walk\<close> closes over; it counts the entries in \<^verbatim>\<open>run.IndexedEntries\<close>.\<close>

record 'w IndexScan =
  isn_service :: "'w BrowserCoordinator"
  isn_browser :: "'w StorageBrowser"
  isn_storage :: StorageResource
  isn_limit :: int
  isn_ctx :: "'w ctx"

type_synonym 'w walk = "int \<times> 'w \<Rightarrow> unit result \<times> int \<times> 'w"

text \<open>The loop over a page; \<open>sub\<close> is the walk one level deeper, absent at the greatest depth.\<close>

fun index_entries :: "'w IndexScan \<Rightarrow> (string \<Rightarrow> 'w walk) option \<Rightarrow> FileEntry list \<Rightarrow> 'w walk" where
  "index_entries c sub [] st = (Ok (), st)"
| "index_entries c sub (x # xs) (n, w) =
     (if excluded (isn_service c) (fe_Path x) (ixp_Exclude (sto_IndexPolicy (isn_storage c))) then index_entries c sub xs (n, w)
      else if fe_Type x \<noteq> FileEntryDirectory \<and> \<not> included (isn_service c) (fe_Path x) (ixp_Include (sto_IndexPolicy (isn_storage c))) then
        index_entries c sub xs (n, w)
      else
        (case (if fe_Type x = FileEntryDirectory then (case sub of None \<Rightarrow> (Ok (), n + 1, w) | Some f \<Rightarrow> f (fe_Path x) (n + 1, w))
               else (Ok (), n + 1, w)) of
           (Ok _, n1, w1) \<Rightarrow> if n1 \<ge> isn_limit c then (Ok (), n1, w1) else index_entries c sub xs (n1, w1)
         | (failure, st1) \<Rightarrow> (failure, st1)))"

definition index_dir :: "'w IndexScan \<Rightarrow> (string \<Rightarrow> 'w walk) option \<Rightarrow> string \<Rightarrow> 'w walk" where
  "index_dir c sub p = (\<lambda>(n, w).
     case isn_ctx c w of
       Some e \<Rightarrow> (Err e, n, w)
     | None \<Rightarrow>
        (if n \<ge> isn_limit c then (Ok (), n, w)
         else case sb_Browse (isn_browser c) (isn_storage c) \<lparr>brq_Path = p, brq_Cursor = '''', brq_Limit = 500\<rparr> w of
           (Ok page, w1) \<Rightarrow> index_entries c sub (bpg_Entries page) (n, w1)
         | (Err e, w1) \<Rightarrow> (Err e, n, w1)
         | (Panic m, w1) \<Rightarrow> (Panic m, n, w1)))"

text \<open>\<open>index_walk c left\<close> is \<^verbatim>\<open>walk\<close> at a depth from which \<open>left\<close> more levels are allowed.\<close>

primrec index_walk :: "'w IndexScan \<Rightarrow> nat \<Rightarrow> string \<Rightarrow> 'w walk" where
  "index_walk c 0 = index_dir c None"
| "index_walk c (Suc left) = index_dir c (Some (index_walk c left))"

fun index_roots :: "'w IndexScan \<Rightarrow> nat \<Rightarrow> string list \<Rightarrow> 'w walk" where
  "index_roots c depth [] st = (Ok (), st)"
| "index_roots c depth (r # rs) st =
     (case index_walk c depth r st of (Ok _, st1) \<Rightarrow> index_roots c depth rs st1 | (failure, st1) \<Rightarrow> (failure, st1))"

definition index_limit :: "IndexPolicy \<Rightarrow> int" where
  "index_limit p = (if ixp_MaxEntries p \<le> 0 \<or> ixp_MaxEntries p > 100000 then 10000 else ixp_MaxEntries p)"

definition index_depth :: "IndexPolicy \<Rightarrow> int" where
  "index_depth p = (if ixp_MaxDepth p \<le> 0 then 5 else ixp_MaxDepth p)"

definition with_timeout :: "('w \<Rightarrow> int) \<Rightarrow> 'w \<Rightarrow> int \<Rightarrow> 'w ctx \<Rightarrow> 'w ctx" where
  "with_timeout now w0 seconds ctx =
     (\<lambda>w. case ctx w of
        Some e \<Rightarrow> Some e
      | None \<Rightarrow> if now w \<ge> now w0 + wrap64 (seconds * 1000000000) then Some (Errorf ''context deadline exceeded'' []) else None)"

definition index_roots_of :: "StorageResource \<Rightarrow> string list" where
  "index_roots_of v = (if ixp_Roots (sto_IndexPolicy v) = [] then map sbr_Path (sto_BrowseRoots v) else ixp_Roots (sto_IndexPolicy v))"

text \<open>The last save uses the context with the timeout of the policy.\<close>

definition storage_StartIndex ::
  "'w BrowserCoordinator \<Rightarrow> 'w ctx \<Rightarrow> string \<Rightarrow> string \<Rightarrow> 'w \<Rightarrow> (IndexRun \<times> error option) result \<times> 'w"
where
  "storage_StartIndex s ctx0 ident runID w =
     (let zero = \<lparr>ixr_ID = '''', ixr_StorageID = '''', ixr_Status = '''', ixr_IndexedEntries = 0, ixr_Error = '''', ixr_CreatedAt = 0, ixr_FinishedAt = 0\<rparr> in
      case find_storage s ident w of
        (Inl e, w1) \<Rightarrow> (Ok (zero, Some e), w1)
      | (Inr v, w1) \<Rightarrow>
     (let policy = sto_IndexPolicy v in
      if \<not> ixp_Enabled policy then (Ok (zero, Some (Errorf ''indexing is disabled for this storage'' [])), w1)
      else
     (let run = zero\<lparr>ixr_ID := runID, ixr_StorageID := ident, ixr_Status := ''running'', ixr_CreatedAt := bc_now s w1\<rparr>;
          w2 = snd (sc_SaveIndexRun (bc_catalog s) ctx0 run w1);
          ctx = (if ixp_TimeoutSeconds policy > 0 then with_timeout (bc_now s) w2 (ixp_TimeoutSeconds policy) ctx0 else ctx0)
      in case (case bc_resolver s (sto_Type v) of
                 Inl e \<Rightarrow> (Err e, 0, w2)
               | Inr b \<Rightarrow> index_roots \<lparr>isn_service = s, isn_browser = b, isn_storage = v, isn_limit = index_limit policy, isn_ctx = ctx\<rparr>
                            (nat (index_depth policy)) (index_roots_of v) (0, w2)) of
           (Panic m, n, w3) \<Rightarrow> (Panic m, w3)
         | (Ok _, n, w3) \<Rightarrow>
            (let done = run\<lparr>ixr_IndexedEntries := n, ixr_FinishedAt := bc_now s w3, ixr_Status := ''completed''\<rparr>
             in (Ok (done, None), snd (sc_SaveIndexRun (bc_catalog s) ctx done w3)))
         | (Err e, n, w3) \<Rightarrow>
            (let failed = run\<lparr>ixr_IndexedEntries := n, ixr_FinishedAt := bc_now s w3, ixr_Status := ''failed'', ixr_Error := error_text e\<rparr>
             in (Ok (failed, Some e), snd (sc_SaveIndexRun (bc_catalog s) ctx failed w3))))))"

definition storage_IndexRuns :: "'w BrowserCoordinator \<Rightarrow> string \<Rightarrow> 'w \<Rightarrow> (error + IndexRun list) \<times> 'w" where
  "storage_IndexRuns s ident = sc_ListIndexRuns (bc_catalog s) ident"

section \<open>Copies\<close>

text \<open>The arguments of a goroutine that is started, and the run that is returned.\<close>

type_synonym copy_job = "DownloadRun \<times> StorageResource \<times> StorageResource \<times> FileEntry"

definition storage_QueueCopy ::
  "'w BrowserCoordinator \<Rightarrow> string \<Rightarrow> string \<Rightarrow> string \<Rightarrow> string \<Rightarrow> 'w \<Rightarrow> (DownloadRun \<times> error option \<times> copy_job option) \<times> 'w"
where
  "storage_QueueCopy s ident path destination runID w =
     (case storage_Stat s ident path w of
        (Inl e, w1) \<Rightarrow> ((zero_download, Some e, None), w1)
      | (Inr entry, w1) \<Rightarrow>
     (let run = zero_download\<lparr>dlr_ID := runID, dlr_StorageID := ident, dlr_Path := path, dlr_Status := DownloadQueued,
            dlr_Strategy := ''copy:'' @ destination, dlr_SizeBytes := fe_SizeBytes entry, dlr_CreatedAt := bc_now s w1, dlr_UpdatedAt := bc_now s w1\<rparr>
      in case sc_SaveDownload (bc_catalog s) run w1 of
        (Some e, w2) \<Rightarrow> ((run, Some e, None), w2)
      | (None, w2) \<Rightarrow>
     (case find_storage s destination w2 of
        (Inl e, w3) \<Rightarrow>
          (let failed = run\<lparr>dlr_Status := DownloadFailed, dlr_Error := ''destination storage is unavailable''\<rparr>
           in ((failed, Some e, None), snd (sc_SaveDownload (bc_catalog s) failed w3)))
      | (Inr dst, w3) \<Rightarrow>
     (case find_storage s ident w3 of
        (Inl e, w4) \<Rightarrow> ((run, Some e, None), w4)
      | (Inr src, w4) \<Rightarrow>
     (case usable s src False of
        Inl e \<Rightarrow> ((run, Some e, None), w4)
      | Inr _ \<Rightarrow>
     (case usable s dst True of
        Inl e \<Rightarrow> ((run, Some e, None), w4)
      | Inr _ \<Rightarrow> ((run, None, Some (run, src, dst, entry)), w4)))))))"

text \<open>The transfer inside \<^verbatim>\<open>copy\<close>, and the whole goroutine.\<close>

definition copy_body :: "'w BrowserCoordinator \<Rightarrow> copy_job \<Rightarrow> 'w \<Rightarrow> error option \<times> 'w" where
  "copy_body s = (\<lambda>(run, src, dst, entry) w.
     case usable s src False of
       Inl e \<Rightarrow> (Some e, w)
     | Inr sb \<Rightarrow>
    (case usable s dst True of
       Inl e \<Rightarrow> (Some e, w)
     | Inr db \<Rightarrow>
    (case sb_Open sb src (dlr_Path run) w of
       (Inl e, w1) \<Rightarrow> (Some e, w1)
     | (Inr (body, _), w1) \<Rightarrow> sb_Write db dst (dlr_Path run) body (fe_SizeBytes entry) w1)))"

definition storage_copy :: "'w BrowserCoordinator \<Rightarrow> copy_job \<Rightarrow> 'w \<Rightarrow> 'w" where
  "storage_copy s = (\<lambda>(run0, src, dst, entry) w.
     let run = run0\<lparr>dlr_Status := DownloadStreaming, dlr_UpdatedAt := bc_now s w\<rparr> in
     case sc_SaveDownload (bc_catalog s) run w of
       (Some e, w1) \<Rightarrow> w1
     | (None, w1) \<Rightarrow>
        (case copy_body s (run, src, dst, entry) w1 of
           (Some e, w2) \<Rightarrow>
             snd (sc_SaveDownload (bc_catalog s) (run\<lparr>dlr_Status := DownloadFailed, dlr_Error := error_text e, dlr_UpdatedAt := bc_now s w2\<rparr>) w2)
         | (None, w2) \<Rightarrow>
             snd (sc_SaveDownload (bc_catalog s)
               (run\<lparr>dlr_Status := DownloadCompleted, dlr_TransferredBytes := fe_SizeBytes entry, dlr_UpdatedAt := bc_now s w2\<rparr>) w2)))"

section \<open>Archives\<close>

definition storage_QueueArchive ::
  "'w BrowserCoordinator \<Rightarrow> string \<Rightarrow> string \<Rightarrow> string \<Rightarrow> 'w \<Rightarrow> (DownloadRun \<times> error option \<times> (DownloadRun \<times> StorageResource) option) \<times> 'w"
where
  "storage_QueueArchive s ident path runID w =
     (case storage_Stat s ident path w of
        (Inl e, w1) \<Rightarrow> ((zero_download, Some e, None), w1)
      | (Inr entry, w1) \<Rightarrow>
     (if fe_Type entry \<noteq> FileEntryDirectory then ((zero_download, Some (Errorf ''archive requires a directory'' []), None), w1)
      else
     (let run = zero_download\<lparr>dlr_ID := runID, dlr_StorageID := ident, dlr_Path := path, dlr_Status := DownloadQueued, dlr_Strategy := ''archive'',
            dlr_CreatedAt := bc_now s w1, dlr_UpdatedAt := bc_now s w1\<rparr>
      in case sc_SaveDownload (bc_catalog s) run w1 of
        (Some e, w2) \<Rightarrow> ((run, Some e, None), w2)
      | (None, w2) \<Rightarrow>
     (case find_storage s ident w2 of
        (Inl e, w3) \<Rightarrow> ((run, Some e, None), w3)
      | (Inr v, w3) \<Rightarrow> (case usable s v True of Inl e \<Rightarrow> ((run, Some e, None), w3) | Inr _ \<Rightarrow> ((run, None, Some (run, v)), w3))))))"

text \<open>
  \<^verbatim>\<open>writeArchive\<close>: the entries written to the tar stream, and how it ended. The recursion follows the directories of the
  storage; \<^verbatim>\<open>None\<close> stands for a walk deeper than the fuel.
\<close>

type_synonym 'w archive_result = "(unit result \<times> TarEntry list \<times> 'w) option"

fun archive_entries ::
  "'w BrowserCoordinator \<Rightarrow> 'w StorageBrowser \<Rightarrow> StorageResource \<Rightarrow> (string \<Rightarrow> 'w \<Rightarrow> 'w archive_result) \<Rightarrow> FileEntry list \<Rightarrow> 'w \<Rightarrow> 'w archive_result"
where
  "archive_entries s b storage sub [] w = Some (Ok (), [], w)"
| "archive_entries s b storage sub (x # xs) w =
     (if fe_Type x = FileEntrySymlink then archive_entries s b storage sub xs w
      else
       (case (if fe_Type x = FileEntryDirectory then sub (fe_Path x) w
              else case sb_Open b storage (fe_Path x) w of
                (Inl e, w1) \<Rightarrow> Some (Err e, [], w1)
              | (Inr ((data, failure), _), w1) \<Rightarrow>
                 (let t = \<lparr>tar_Name = trim_prefix (fe_Path x) ''/'', tar_Size = fe_SizeBytes x, tar_ModTime = fe_ModifiedAt x, tar_Body = data\<rparr>
                  in case bc_tarfail s t of
                    Some e \<Rightarrow> Some (Err e, [], w1)
                  | None \<Rightarrow> (case failure of Some e \<Rightarrow> Some (Err e, [t], w1) | None \<Rightarrow> Some (Ok (), [t], w1)))) of
          None \<Rightarrow> None
        | Some (Ok _, ts, w1) \<Rightarrow>
            (case archive_entries s b storage sub xs w1 of None \<Rightarrow> None | Some (r, us, w2) \<Rightarrow> Some (r, ts @ us, w2))
        | Some (failure, ts, w1) \<Rightarrow> Some (failure, ts, w1)))"

fun writeArchive :: "'w BrowserCoordinator \<Rightarrow> 'w StorageBrowser \<Rightarrow> StorageResource \<Rightarrow> nat \<Rightarrow> string \<Rightarrow> 'w \<Rightarrow> 'w archive_result" where
  "writeArchive s b storage 0 directory w = None"
| "writeArchive s b storage (Suc fuel) directory w =
     (case sb_Browse b storage \<lparr>brq_Path = directory, brq_Cursor = '''', brq_Limit = 500\<rparr> w of
        (Ok page, w1) \<Rightarrow> archive_entries s b storage (writeArchive s b storage fuel) (bpg_Entries page) w1
      | (Err e, w1) \<Rightarrow> Some (Err e, [], w1)
      | (Panic m, w1) \<Rightarrow> Some (Panic m, [], w1))"

definition archive_output :: "string \<Rightarrow> string" where
  "archive_output path = trim_suffix path ''/'' @ ''.tar.gz''"

text \<open>
  The goroutine: the archiver writes into a pipe that the storage reads. When the write fails without having
  read the pipe to its end (\<open>drained\<close> is false), the archiver blocks on the pipe and the goroutine waits for it for ever: \<^verbatim>\<open>None\<close>.
  A panic ends the process. The model lets the archiver read the storage before the write changes it.
\<close>

datatype 'w outcome = Returned 'w | Blocked 'w | Crashed

definition storage_archive ::
  "'w BrowserCoordinator \<Rightarrow> ('w \<Rightarrow> bool) \<Rightarrow> nat \<Rightarrow> DownloadRun \<times> StorageResource \<Rightarrow> 'w \<Rightarrow> 'w outcome option"
where
  "storage_archive s drained fuel = (\<lambda>(run0, storage) w.
     let run = run0\<lparr>dlr_Status := DownloadStreaming, dlr_UpdatedAt := bc_now s w\<rparr>;
         finish = (\<lambda>r v. snd (sc_SaveDownload (bc_catalog s) (r\<lparr>dlr_UpdatedAt := bc_now s v\<rparr>) v));
         fail = (\<lambda>e v. Returned (finish (run\<lparr>dlr_Status := DownloadFailed, dlr_Error := error_text e\<rparr>) v)) in
     case sc_SaveDownload (bc_catalog s) run w of
       (Some e, w1) \<Rightarrow> Some (Returned w1)
     | (None, w1) \<Rightarrow>
    (case usable s storage True of
       Inl e \<Rightarrow> Some (fail e w1)
     | Inr b \<Rightarrow>
    (case writeArchive s b storage fuel (dlr_Path run) w1 of
       None \<Rightarrow> None
     | Some (Panic m, ts, w2) \<Rightarrow> Some Crashed
     | Some (archived, ts, w2) \<Rightarrow>
        (let output = archive_output (dlr_Path run) in
         case sb_Write b storage output (bc_tar s ts, None) 0 w2 of
           (Some e, w3) \<Rightarrow> Some (if drained w3 then fail e w3 else Blocked w3)
         | (None, w3) \<Rightarrow>
            (case archived of
               Err e \<Rightarrow> Some (fail e w3)
             | _ \<Rightarrow> Some (Returned (finish (run\<lparr>dlr_Path := output, dlr_Status := DownloadReady\<rparr>) w3)))))))"


end
