(* ===== verification/Storage_Files.thy ===== *)
theory Storage_Files
  imports Storage_Domain Transfer_Files
begin

text \<open>
  The file-system storage driver, \<^verbatim>\<open>internal/provider/storage/filesystem/driver.go\<close>, on the disk of
  \<^verbatim>\<open>Transfer_Files\<close>: browsing below the configured roots, reading, writing and removing files, and the object
  operations \<^verbatim>\<open>Put\<close>, \<^verbatim>\<open>Get\<close>, \<^verbatim>\<open>Stat\<close> and \<^verbatim>\<open>Delete\<close>.

  A symbolic link is an entry of the disk whose node is what opening it gives; which entries are links,
  their targets, modification times and the sizes of directories come from the environment, as do the
  failures of system calls. A rename onto a link to a directory is refused like one onto a directory.
\<close>

record StorageEnv =
  se_disk :: DiskEnv
  se_link :: "Disk \<Rightarrow> string \<Rightarrow> string option"
  se_mtime :: "Disk \<Rightarrow> string \<Rightarrow> int"
  se_dirsize :: "Disk \<Rightarrow> string \<Rightarrow> int"
  se_fileurl :: "string \<Rightarrow> string"

record Driver =
  drv_typeName :: StorageType
  drv_root :: string

definition driver_New :: "StorageEnv \<Rightarrow> StorageType \<Rightarrow> string \<Rightarrow> error + Driver" where
  "driver_New env typeName path =
     (if typeName \<notin> {StorageLocal, StoragePVC, StorageNFS, StorageLustre} then
        Inl (Errorf ''filesystem storage type %q is unsupported'' [FmtS (storage_type_text typeName)])
      else case de_abs (se_disk env) path of
        Inl e \<Rightarrow> Inl (Errorf ''filesystem storage root is required'' [])
      | Inr absolute \<Rightarrow>
         (if trim_space path = '''' then Inl (Errorf ''filesystem storage root is required'' [])
          else Inr \<lparr>drv_typeName = typeName, drv_root = path_Clean absolute\<rparr>))"

section \<open>System calls\<close>

text \<open>\<^verbatim>\<open>filepath.Base\<close>: the last element without trailing slashes.\<close>

definition path_Base :: "string \<Rightarrow> string" where
  "path_Base s =
     (if s = '''' then ''.''
      else let t = rev (dropWhile (\<lambda>c. c = CHR ''/'') (rev s)) in if t = '''' then ''/'' else last (split_slash t))"

record FileInfo =
  fi_IsDir :: bool
  fi_IsLink :: bool
  fi_Size :: int
  fi_ModTime :: int

definition disk_info :: "StorageEnv \<Rightarrow> Disk \<Rightarrow> string \<Rightarrow> error + FileInfo" where
  "disk_info env d p =
     (case disk_lstat (se_disk env) d p of
        Inl e \<Rightarrow> Inl e
      | Inr found \<Rightarrow>
         (case map_of (dk_nodes d) p of
            None \<Rightarrow> Inl (Errorf ''lstat %s: no such file or directory'' [FmtS p])
          | Some node \<Rightarrow>
             Inr \<lparr>fi_IsDir = (node = Dir \<and> se_link env d p = None), fi_IsLink = (se_link env d p \<noteq> None),
                  fi_Size = (case node of File s \<Rightarrow> int (length s) | Dir \<Rightarrow> se_dirsize env d p), fi_ModTime = se_mtime env d p\<rparr>))"

text \<open>\<^verbatim>\<open>ReadDir\<close> gives the names in a directory.\<close>

definition child_name :: "string \<Rightarrow> string \<Rightarrow> string option" where
  "child_name dir q =
     (if path_comps q \<noteq> [] \<and> butlast (path_comps q) = path_comps dir then Some (last (path_comps q)) else None)"

definition read_dir :: "StorageEnv \<Rightarrow> Disk \<Rightarrow> string \<Rightarrow> error + string list" where
  "read_dir env d p =
     (case fault (se_disk env) d ''readdir'' p of
        Some e \<Rightarrow> Inl e
      | None \<Rightarrow>
         (case map_of (dk_nodes d) p of
            None \<Rightarrow> Inl (Errorf ''open %s: no such file or directory'' [FmtS p])
          | Some (File s) \<Rightarrow> Inl (Errorf ''readdirent %s: not a directory'' [FmtS p])
          | Some Dir \<Rightarrow> Inr (sort (List.map_filter (child_name p) (keys (dk_nodes d))))))"

definition mkdirs :: "StorageEnv \<Rightarrow> string list \<Rightarrow> string \<Rightarrow> Disk \<Rightarrow> error option \<times> Disk" where
  "mkdirs env dirs p d =
     (case fault (se_disk env) d ''mkdir'' p of
        Some e \<Rightarrow> (Some e, d)
      | None \<Rightarrow>
         (if \<exists>q \<in> set dirs. file_content d q \<noteq> None then (Some (Errorf ''mkdir %s: not a directory'' [FmtS p]), d)
          else (None, d\<lparr>dk_nodes := mkdir_all dirs (dk_nodes d)\<rparr>)))"

definition dirs_upto :: "string \<Rightarrow> string list" where
  "dirs_upto p = map (\<lambda>cs. ''/'' @ join_slash cs) (prefixes_of (path_comps p))"

definition disk_remove :: "StorageEnv \<Rightarrow> string \<Rightarrow> Disk \<Rightarrow> error option \<times> Disk" where
  "disk_remove env p d =
     (case fault (se_disk env) d ''remove'' p of
        Some e \<Rightarrow> (Some e, d)
      | None \<Rightarrow>
         (if map_of (dk_nodes d) p = None then (Some (Errorf ''remove %s: no such file or directory'' [FmtS p]), d)
          else (None, d\<lparr>dk_nodes := del p (dk_nodes d)\<rparr>)))"

text \<open>
  Writing a new file from a reader: an error of the open itself, or the errors of the copy and of
  closing the file.
\<close>

definition write_new :: "StorageEnv \<Rightarrow> string \<Rightarrow> reader \<Rightarrow> Disk \<Rightarrow> (error + error option \<times> error option) \<times> Disk" where
  "write_new env p input d =
     (case fault (se_disk env) d ''create'' p of
        Some e \<Rightarrow> (Inl e, d)
      | None \<Rightarrow>
         (if map_of (dk_nodes d) p = Some Dir then (Inl (Errorf ''open %s: is a directory'' [FmtS p]), d)
          else
            (let (data, failure) = (case fault (se_disk env) d ''write'' p of
                   Some e \<Rightarrow> (take (de_written (se_disk env) (dk_step d)) (fst input), Some e) | None \<Rightarrow> input)
             in (Inr (failure, fault (se_disk env) d ''close'' p), d\<lparr>dk_nodes := put p (File data) (dk_nodes d)\<rparr>))))"

definition firstError :: "error option list \<Rightarrow> error option" where
  "firstError values = (case filter (\<lambda>v. v \<noteq> None) values of [] \<Rightarrow> None | v # _ \<Rightarrow> v)"

section \<open>Paths below a browse root\<close>

definition storageRoot :: "StorageEnv \<Rightarrow> Driver \<Rightarrow> StorageResource \<Rightarrow> error + string" where
  "storageRoot env drv storage =
     (case (if sto_Endpoint storage \<noteq> '''' then
              (case de_abs (se_disk env) (sto_Endpoint storage) of Inl e \<Rightarrow> Inl e | Inr candidate \<Rightarrow> Inr (path_Clean candidate))
            else Inr (drv_root drv)) of
        Inl e \<Rightarrow> Inl e
      | Inr base \<Rightarrow>
         (let allowed = list_ex (\<lambda>configured. case de_abs (se_disk env) (sbr_Path configured) of
                Inl e \<Rightarrow> False | Inr candidate \<Rightarrow> path_Clean candidate = base) (sto_BrowseRoots storage)
          in if sto_BrowseRoots storage \<noteq> [] \<and> \<not> allowed then Inl (Errorf ''storage endpoint is not an allowed browse root'' [])
             else Inr base))"

text \<open>The loop that looks for the closest existing path, over the components, innermost first.\<close>

fun closest_existing :: "DiskEnv \<Rightarrow> Disk \<Rightarrow> string list \<Rightarrow> error + string" where
  "closest_existing env d [] =
     (case disk_lstat env d ''/'' of
        Inl e \<Rightarrow> Inl e | Inr found \<Rightarrow> if found then Inr ''/'' else Inl (Errorf ''no existing parent for browse path'' []))"
| "closest_existing env d (c # cs) =
     (let existing = ''/'' @ join_slash (rev (c # cs)) in
      case disk_lstat env d existing of Inl e \<Rightarrow> Inl e | Inr found \<Rightarrow> if found then Inr existing else closest_existing env d cs)"

definition browse_relative :: "string \<Rightarrow> string" where
  "browse_relative value = (let relative = path_Clean (trim_prefix value ''/'') in if relative = ''.'' then '''' else relative)"

definition browsePath :: "StorageEnv \<Rightarrow> Driver \<Rightarrow> Disk \<Rightarrow> StorageResource \<Rightarrow> string \<Rightarrow> error + string \<times> string" where
  "browsePath env drv d storage value =
     (case storageRoot env drv storage of
        Inl e \<Rightarrow> Inl e
      | Inr base \<Rightarrow>
         (let relative = browse_relative value in
          if has_prefix relative ''..'' \<or> is_abs relative then Inl (Errorf ''browse path escapes its root'' [])
          else
            (let full = path_Join base relative in
             case de_real (se_disk env) d base of
               Inl e \<Rightarrow> Inl e
             | Inr realRoot \<Rightarrow>
            (case closest_existing (se_disk env) d (rev (path_comps full)) of
               Inl e \<Rightarrow> Inl e
             | Inr existing \<Rightarrow>
            (case de_real (se_disk env) d existing of
               Inl e \<Rightarrow> Inl e
             | Inr realPath \<Rightarrow>
                if realPath \<noteq> realRoot \<and> \<not> has_prefix realPath (realRoot @ ''/'') then
                  Inl (Errorf ''browse path escapes via symlink'' [])
                else Inr (full, relative))))))"

section \<open>Browsing\<close>

definition infoEntry :: "StorageEnv \<Rightarrow> Disk \<Rightarrow> string \<Rightarrow> string \<Rightarrow> FileInfo \<Rightarrow> string \<Rightarrow> FileEntry" where
  "infoEntry env d storageID relative info full =
     \<lparr>fe_StorageID = storageID, fe_Path = relative, fe_Name = path_Base relative,
      fe_Type = (if fi_IsLink info then FileEntrySymlink else if fi_IsDir info then FileEntryDirectory else FileEntryFile),
      fe_SizeBytes = (if fi_IsLink info then 0 else fi_Size info), fe_ModifiedAt = fi_ModTime info, fe_Checksum = '''', fe_ETag = '''',
      fe_MediaType = '''', fe_Readable = True, fe_Writable = False,
      fe_LinkTarget = (if fi_IsLink info then
        (case fault (se_disk env) d ''readlink'' full of Some e \<Rightarrow> '''' | None \<Rightarrow> (case se_link env d full of None \<Rightarrow> '''' | Some t \<Rightarrow> t))
        else '''')\<rparr>"

fun browse_entries :: "StorageEnv \<Rightarrow> Disk \<Rightarrow> string \<Rightarrow> string \<Rightarrow> string \<Rightarrow> string list \<Rightarrow> error + FileEntry list" where
  "browse_entries env d storageID directory relative [] = Inr []"
| "browse_entries env d storageID directory relative (name # names) =
     (let full = path_Join directory name in
      case disk_info env d full of
        Inl e \<Rightarrow> Inl e
      | Inr info \<Rightarrow>
         (case browse_entries env d storageID directory relative names of
            Inl e \<Rightarrow> Inl e
          | Inr entries \<Rightarrow> Inr (infoEntry env d storageID (path_Join relative name) info full # entries)))"

definition page_limit :: "int \<Rightarrow> int" where
  "page_limit limit = (if limit \<le> 0 \<or> limit > 500 then 100 else limit)"

text \<open>The addition of the limit to the cursor wraps around; a negative capacity makes \<^verbatim>\<open>make\<close> panic.\<close>

definition browse_page :: "StorageEnv \<Rightarrow> Disk \<Rightarrow> StorageResource \<Rightarrow> string \<Rightarrow> string \<Rightarrow> string list \<Rightarrow> int \<Rightarrow> int \<Rightarrow> BrowsePage result" where
  "browse_page env d storage directory relative items start0 limit =
     (let n = int (length items); end0 = wrap64 (start0 + page_limit limit);
          end1 = (if end0 > n then n else end0); start = (if start0 > n then n else start0)
      in if end1 - start < 0 then Panic ''runtime error: makeslice: cap out of range''
         else case browse_entries env d (sto_ID storage) directory relative (drop (nat start) (take (nat end1) items)) of
           Inl e \<Rightarrow> Err e
         | Inr entries \<Rightarrow>
            Ok \<lparr>bpg_StorageID = sto_ID storage, bpg_Path = relative, bpg_Entries = entries,
                bpg_NextCursor = (if end1 < n then itoa end1 else '''')\<rparr>)"

definition driver_Browse :: "StorageEnv \<Rightarrow> Driver \<Rightarrow> StorageResource \<Rightarrow> BrowseRequest \<Rightarrow> Disk \<Rightarrow> BrowsePage result \<times> Disk" where
  "driver_Browse env drv storage request d =
     ((case browsePath env drv d storage (brq_Path request) of
         Inl e \<Rightarrow> Err e
       | Inr (directory, relative) \<Rightarrow>
      (case read_dir env d directory of
         Inl e \<Rightarrow> Err e
       | Inr items \<Rightarrow>
      (case (if brq_Cursor request \<noteq> '''' then Atoi (brq_Cursor request) else Some 0) of
         None \<Rightarrow> Err (Errorf ''invalid browse cursor'' [])
       | Some start \<Rightarrow>
          if start < 0 then Err (Errorf ''invalid browse cursor'' [])
          else browse_page env d storage directory relative items start (brq_Limit request)))), tick d)"

definition driver_BrowseStat :: "StorageEnv \<Rightarrow> Driver \<Rightarrow> StorageResource \<Rightarrow> string \<Rightarrow> Disk \<Rightarrow> (error + FileEntry) \<times> Disk" where
  "driver_BrowseStat env drv storage value d =
     ((case browsePath env drv d storage value of
         Inl e \<Rightarrow> Inl e
       | Inr (full, relative) \<Rightarrow>
          (case disk_info env d full of Inl e \<Rightarrow> Inl e | Inr info \<Rightarrow> Inr (infoEntry env d (sto_ID storage) relative info full))), tick d)"

definition driver_Open :: "StorageEnv \<Rightarrow> Driver \<Rightarrow> StorageResource \<Rightarrow> string \<Rightarrow> Disk \<Rightarrow> (error + reader \<times> FileEntry) \<times> Disk" where
  "driver_Open env drv storage value d =
     (case driver_BrowseStat env drv storage value d of
        (Inl e, d1) \<Rightarrow> (Inl e, d1)
      | (Inr entry, d1) \<Rightarrow>
         (if fe_Type entry \<noteq> FileEntryFile then (Inl (Errorf ''only files can be downloaded'' []), d1)
          else
            ((case browsePath env drv d1 storage value of
                Inl e \<Rightarrow> Inl e
              | Inr (full, _) \<Rightarrow> (case disk_open (se_disk env) d1 full 0 of Inl e \<Rightarrow> Inl e | Inr body \<Rightarrow> Inr (body, entry))), tick d1)))"

section \<open>Changes\<close>

definition driver_Remove :: "StorageEnv \<Rightarrow> Driver \<Rightarrow> StorageResource \<Rightarrow> string \<Rightarrow> Disk \<Rightarrow> error option \<times> Disk" where
  "driver_Remove env drv storage value d =
     (if sto_ReadOnly storage then (Some (Errorf ''storage is read-only'' []), tick d)
      else case browsePath env drv d storage value of
        Inl e \<Rightarrow> (Some e, tick d)
      | Inr (full, _) \<Rightarrow>
         (case disk_info env d full of
            Inl e \<Rightarrow> (Some e, tick d)
          | Inr info \<Rightarrow>
             (if fi_IsDir info then (Some (Errorf ''directories require an explicit archive/cleanup job'' []), tick d)
              else apsnd tick (disk_remove env full d))))"

text \<open>A temporary file is written, closed and moved to its place; it is removed when writing fails.\<close>

definition replace_file :: "StorageEnv \<Rightarrow> string \<Rightarrow> string \<Rightarrow> reader \<Rightarrow> Disk \<Rightarrow> error option \<times> Disk" where
  "replace_file env tmp full source d =
     (case write_new env tmp source d of
        (Inl e, d1) \<Rightarrow> (Some e, tick d1)
      | (Inr (copyErr, closeErr), d1) \<Rightarrow>
         (if copyErr \<noteq> None \<or> closeErr \<noteq> None then
            (firstError [copyErr, closeErr], tick (snd (disk_remove env tmp d1)))
          else rename_file (se_disk env) tmp full d1))"

definition driver_Write :: "StorageEnv \<Rightarrow> Driver \<Rightarrow> StorageResource \<Rightarrow> string \<Rightarrow> reader \<Rightarrow> int \<Rightarrow> Disk \<Rightarrow> error option \<times> Disk" where
  "driver_Write env drv storage value source bytes d =
     (if sto_ReadOnly storage then (Some (Errorf ''storage is read-only'' []), tick d)
      else case storageRoot env drv storage of
        Inl e \<Rightarrow> (Some e, tick d)
      | Inr base \<Rightarrow>
         (case mkdirs env (dirs_upto base) base d of
            (Some e, d1) \<Rightarrow> (Some e, tick d1)
          | (None, d1) \<Rightarrow>
             (case browsePath env drv d1 storage value of
                Inl e \<Rightarrow> (Some e, tick d1)
              | Inr (full, _) \<Rightarrow>
                 (case mkdirs env (dirs_above full) full d1 of
                    (Some e, d2) \<Rightarrow> (Some e, tick d2)
                  | (None, d2) \<Rightarrow> replace_file env (full @ ''.akoflow-copy-part'') full source d2))))"

section \<open>Objects\<close>

definition driver_resolve :: "Driver \<Rightarrow> string \<Rightarrow> error + string" where
  "driver_resolve drv key =
     (let clean = path_Clean key in
      if clean = ''.'' \<or> escapes clean then Inl (Errorf ''storage key %q escapes its root'' [FmtS key])
      else Inr (path_Join (drv_root drv) clean))"

definition filePath :: "StorageEnv \<Rightarrow> string \<Rightarrow> error + string" where
  "filePath env value =
     (case de_parse (se_disk env) value of
        Inl e \<Rightarrow> Inl (Errorf ''file location URI is required'' [])
      | Inr (scheme, host, path) \<Rightarrow>
         if scheme \<noteq> ''file'' then Inl (Errorf ''file location URI is required'' []) else Inr (path_Clean path))"

definition driver_Put :: "StorageEnv \<Rightarrow> Driver \<Rightarrow> string \<Rightarrow> reader \<Rightarrow> Disk \<Rightarrow> (error + DataLocation) \<times> Disk" where
  "driver_Put env drv key source d =
     (case driver_resolve drv key of
        Inl e \<Rightarrow> (Inl e, tick d)
      | Inr destination \<Rightarrow>
     (case mkdirs env (dirs_above destination) destination d of
        (Some e, d1) \<Rightarrow> (Inl e, tick d1)
      | (None, d1) \<Rightarrow>
     (let temporary = destination @ ''.akoflow-part'' in
      case write_new env temporary source d1 of
        (Inl e, d2) \<Rightarrow> (Inl e, tick d2)
      | (Inr (copyErr, closeErr), d2) \<Rightarrow>
         (case firstError [copyErr, closeErr] of
            Some e \<Rightarrow> (Inl (Errorf ''write storage object: %w'' [FmtE e]), tick (snd (disk_remove env temporary d2)))
          | None \<Rightarrow>
             (case rename_file (se_disk env) temporary destination d2 of
                (Some e, d3) \<Rightarrow> (Inl e, snd (disk_remove env temporary d3))
              | (None, d3) \<Rightarrow>
                 (Inr \<lparr>dloc_ID = '''', dloc_DataObjectInstanceID = '''', dloc_StorageResourceID = '''', dloc_ResourceID = '''',
                       dloc_ExecutionRunID = '''', dloc_URI = se_fileurl env destination, dloc_Status = DataLocationAvailable,
                       dloc_Metadata = []\<rparr>, d3))))))"

text \<open>\<^verbatim>\<open>Get\<close> copies the file to its target: the bytes that reach the target, and an error.\<close>

definition driver_Get :: "StorageEnv \<Rightarrow> DataLocation \<Rightarrow> Disk \<Rightarrow> (error + reader) \<times> Disk" where
  "driver_Get env location d =
     ((case filePath env (dloc_URI location) of Inl e \<Rightarrow> Inl e | Inr p \<Rightarrow> disk_open (se_disk env) d p 0), tick d)"

definition driver_Stat :: "StorageEnv \<Rightarrow> (string \<Rightarrow> string) \<Rightarrow> DataLocation \<Rightarrow> Disk \<Rightarrow> (error + int \<times> string) \<times> Disk" where
  "driver_Stat env sha location d =
     ((case filePath env (dloc_URI location) of
         Inl e \<Rightarrow> Inl e
       | Inr p \<Rightarrow>
          (case disk_open (se_disk env) d p 0 of
             Inl e \<Rightarrow> Inl e
           | Inr (data, Some e) \<Rightarrow> Inl e
           | Inr (data, None) \<Rightarrow> Inr (int (length data), ''sha256:'' @ sha data))), tick d)"

definition driver_Delete :: "StorageEnv \<Rightarrow> Driver \<Rightarrow> DataLocation \<Rightarrow> Disk \<Rightarrow> error option \<times> Disk" where
  "driver_Delete env drv location d =
     (case filePath env (dloc_URI location) of
        Inl e \<Rightarrow> (Some e, tick d)
      | Inr p \<Rightarrow>
         (case driver_resolve drv (trim_prefix p (drv_root drv @ ''/'')) of
            Inl e \<Rightarrow> (Some (Errorf ''location is outside storage root'' []), tick d)
          | Inr resolved \<Rightarrow>
             (if resolved \<noteq> path_Clean p then (Some (Errorf ''location is outside storage root'' []), tick d)
              else apsnd tick (disk_remove env p d))))"

end
