(* ===== verification/Storage_Repository.thy ===== *)
theory Storage_Repository
  imports Storage_Service Storage_Files
begin

text \<open>
  The storage repository, \<^verbatim>\<open>internal/infrastructure/database/storage/repository.go\<close>: storages, downloads, index runs and
  the promotion of files to data objects and artifacts, on the tables they use. A statement may fail; a failing
  transaction is rolled back. The decoding of the browse roots and the index policy from JSON are parameters.
  Foreign keys are not modelled: a violation is a failure of the statement.
\<close>

section \<open>Tables\<close>

record DataObjectRow =
  dor_WorkflowVersionID :: "string option"
  dor_ProducerActivityID :: "string option"
  dor_LogicalName :: string
  dor_RelativePath :: string

record DataInstanceRow =
  dir_DataObjectID :: string
  dir_ExecutionRunID :: "string option"
  dir_ProducerActivityID :: "string option"
  dir_RelativePath :: string
  dir_SizeBytes :: int
  dir_Checksum :: string

record DataLocationRow =
  dlo_InstanceID :: string
  dlo_StorageResourceID :: string
  dlo_ExecutionRunID :: "string option"
  dlo_URI :: string
  dlo_Status :: DataLocationStatus

record ArtifactVersionRow =
  avr_ArtifactID :: string
  avr_Name :: string
  avr_Version :: string
  avr_Scope :: string
  avr_ScopeID :: string

record ArtifactVariantRow =
  avt_VersionID :: string
  avt_Digest :: string
  avt_Format :: string
  avt_Architecture :: string
  avt_SizeBytes :: int

record TransferEndpointRow =
  ter_Kind :: string
  ter_URI :: string
  ter_EnvironmentID :: string

record ArtifactLocationRow =
  alr_VariantID :: string
  alr_EndpointID :: string
  alr_URI :: string
  alr_Digest :: string
  alr_Scope :: string
  alr_ScopeID :: string
  alr_Available :: bool

record StorageDB =
  sdb_versions :: "(string, string) gomap"
  sdb_storages :: "(string, StorageResource) gomap"
  sdb_downloads :: "(string, DownloadRun) gomap"
  sdb_indexes :: "(string, IndexRun) gomap"
  sdb_objects :: "(string, DataObjectRow) gomap"
  sdb_instances :: "(string, DataInstanceRow) gomap"
  sdb_locations :: "(string, DataLocationRow) gomap"
  sdb_artifacts :: "(string, ArtifactVersionRow) gomap"
  sdb_variants :: "(string, ArtifactVariantRow) gomap"
  sdb_endpoints :: "(string, TransferEndpointRow) gomap"
  sdb_places :: "(string, ArtifactLocationRow) gomap"

record RepositoryEnv =
  rp_fault :: "StorageDB \<Rightarrow> string \<Rightarrow> error option"
  rp_root :: "any \<Rightarrow> StorageBrowseRoot"
  rp_policy :: "any \<Rightarrow> IndexPolicy"
  rp_base :: "string \<Rightarrow> string"

section \<open>Storages\<close>

text \<open>\<^verbatim>\<open>scan\<close>: browse roots and index policy come from the configuration; columns that the query does not read are empty.\<close>

definition scan_storage :: "RepositoryEnv \<Rightarrow> StorageResource \<Rightarrow> StorageResource" where
  "scan_storage env row =
     row\<lparr>sto_RuntimeBindings := [],
         sto_BrowseRoots := (case map_of (sto_Configuration row) ''browseRoots'' of Some (AnyList xs) \<Rightarrow> map (rp_root env) xs | _ \<Rightarrow> []),
         sto_Capabilities := \<lparr>stc_Browse = False, stc_Read = False, stc_Write = False, stc_Download = False, stc_Upload = False,
           stc_Checksum = False, stc_PresignedDownload = False, stc_ComputeNodeVisible = False\<rparr>,
         sto_Health := \<lparr>shs_Status = StorageHealthOther '''', shs_Message = '''', shs_CheckedAt = 0, shs_AvailableBytes = 0\<rparr>,
         sto_IndexPolicy := (case map_of (sto_Configuration row) ''indexPolicy'' of
            Some policy \<Rightarrow> rp_policy env policy
          | None \<Rightarrow> \<lparr>ixp_Enabled = False, ixp_Roots = [], ixp_MaxDepth = 0, ixp_MaxEntries = 0, ixp_Include = [], ixp_Exclude = [],
                     ixp_TimeoutSeconds = 0\<rparr>),
         sto_IndexStatus := \<lparr>ixs_Status = '''', ixs_IndexedEntries = 0, ixs_LastIndexedAt = 0, ixs_Message = ''''\<rparr>\<rparr>"

definition repo_FindStorage :: "RepositoryEnv \<Rightarrow> string \<Rightarrow> StorageDB \<Rightarrow> error + StorageResource option" where
  "repo_FindStorage env ident db =
     (case rp_fault env db ''find storage'' of
        Some e \<Rightarrow> Inl e | None \<Rightarrow> Inr (map_option (scan_storage env) (map_of (sdb_storages db) ident)))"

definition repo_ListEnvironmentStorages :: "RepositoryEnv \<Rightarrow> string \<Rightarrow> StorageDB \<Rightarrow> error + StorageResource list" where
  "repo_ListEnvironmentStorages env environmentID db =
     (case rp_fault env db ''list storages'' of
        Some e \<Rightarrow> Inl e
      | None \<Rightarrow> Inr (map (scan_storage env) (sort_key sto_Name
          (filter (\<lambda>v. map_of (sdb_versions db) (sto_EnvironmentVersionID v) = Some environmentID) (map snd (sdb_storages db))))))"

section \<open>Downloads and index runs\<close>

text \<open>An update leaves the path, the strategy, the size and the creation time of a download as they are.\<close>

definition upsert_download :: "DownloadRun \<Rightarrow> (string, DownloadRun) gomap \<Rightarrow> (string, DownloadRun) gomap" where
  "upsert_download v t =
     (case map_of t (dlr_ID v) of
        None \<Rightarrow> put (dlr_ID v) v t
      | Some old \<Rightarrow> put (dlr_ID v) (old\<lparr>dlr_Status := dlr_Status v, dlr_URL := dlr_URL v, dlr_TransferredBytes := dlr_TransferredBytes v,
          dlr_Error := dlr_Error v, dlr_UpdatedAt := dlr_UpdatedAt v\<rparr>) t)"

definition repo_SaveDownload :: "RepositoryEnv \<Rightarrow> DownloadRun \<Rightarrow> StorageDB \<Rightarrow> error option \<times> StorageDB" where
  "repo_SaveDownload env v db =
     (case rp_fault env db ''save download'' of
        Some e \<Rightarrow> (Some e, db) | None \<Rightarrow> (None, db\<lparr>sdb_downloads := upsert_download v (sdb_downloads db)\<rparr>))"

definition repo_FindDownload :: "RepositoryEnv \<Rightarrow> string \<Rightarrow> StorageDB \<Rightarrow> error + DownloadRun option" where
  "repo_FindDownload env ident db =
     (case rp_fault env db ''find download'' of Some e \<Rightarrow> Inl e | None \<Rightarrow> Inr (map_of (sdb_downloads db) ident))"

definition upsert_index :: "IndexRun \<Rightarrow> (string, IndexRun) gomap \<Rightarrow> (string, IndexRun) gomap" where
  "upsert_index v t =
     (case map_of t (ixr_ID v) of
        None \<Rightarrow> put (ixr_ID v) v t
      | Some old \<Rightarrow> put (ixr_ID v) (old\<lparr>ixr_Status := ixr_Status v, ixr_IndexedEntries := ixr_IndexedEntries v, ixr_Error := ixr_Error v,
          ixr_FinishedAt := ixr_FinishedAt v\<rparr>) t)"

text \<open>A statement whose context has ended is not executed.\<close>

definition repo_SaveIndexRun :: "RepositoryEnv \<Rightarrow> error option \<Rightarrow> IndexRun \<Rightarrow> StorageDB \<Rightarrow> error option \<times> StorageDB" where
  "repo_SaveIndexRun env ended v db =
     (case ended of
        Some e \<Rightarrow> (Some e, db)
      | None \<Rightarrow>
         (case rp_fault env db ''save index run'' of
            Some e \<Rightarrow> (Some e, db) | None \<Rightarrow> (None, db\<lparr>sdb_indexes := upsert_index v (sdb_indexes db)\<rparr>)))"

definition repo_ListIndexRuns :: "RepositoryEnv \<Rightarrow> string \<Rightarrow> StorageDB \<Rightarrow> error + IndexRun list" where
  "repo_ListIndexRuns env storageID db =
     (case rp_fault env db ''list index runs'' of
        Some e \<Rightarrow> Inl e
      | None \<Rightarrow> Inr (sort_key (\<lambda>v. - ixr_CreatedAt v) (filter (\<lambda>v. ixr_StorageID v = storageID) (map snd (sdb_indexes db)))))"

section \<open>Promotion\<close>

definition optionalReference :: "string \<Rightarrow> string option" where
  "optionalReference value = (if value = '''' then None else Some value)"

definition hex_char :: "char \<Rightarrow> bool" where
  "hex_char c \<longleftrightarrow> is_digit c \<or> (97 \<le> (of_char c :: nat) \<and> (of_char c :: nat) \<le> 102) \<or> (65 \<le> (of_char c :: nat) \<and> (of_char c :: nat) \<le> 70)"

definition validSHA256 :: "string \<Rightarrow> bool" where
  "validSHA256 value \<longleftrightarrow> length value = 71 \<and> has_prefix value ''sha256:'' \<and> list_all hex_char (drop 7 value)"

definition insert_row :: "string \<Rightarrow> string \<Rightarrow> 'r \<Rightarrow> (string, 'r) gomap \<Rightarrow> error + (string, 'r) gomap" where
  "insert_row name key row t =
     (if map_of t key \<noteq> None then Inl (Errorf ''UNIQUE constraint failed: %s'' [FmtS name]) else Inr (put key row t))"

text \<open>The unique columns of \<^verbatim>\<open>data_object_instances\<close>; a missing reference conflicts with nothing.\<close>

definition instance_conflict :: "DataInstanceRow \<Rightarrow> DataInstanceRow \<Rightarrow> bool" where
  "instance_conflict a b \<longleftrightarrow> dir_ExecutionRunID a \<noteq> None \<and> dir_ProducerActivityID a \<noteq> None \<and>
     dir_ExecutionRunID a = dir_ExecutionRunID b \<and> dir_ProducerActivityID a = dir_ProducerActivityID b \<and> dir_RelativePath a = dir_RelativePath b"

definition repo_PromoteData ::
  "RepositoryEnv \<Rightarrow> string \<Rightarrow> string \<Rightarrow> string \<Rightarrow> string \<Rightarrow> string \<Rightarrow> string \<Rightarrow> FileEntry \<Rightarrow> string \<Rightarrow> StorageDB \<Rightarrow> error option \<times> StorageDB"
where
  "repo_PromoteData env storageID path workflowVersionID runID activityID ident0 entry checksum db =
     (if \<not> validSHA256 checksum then (Some (Errorf ''invalid SHA-256 digest %q'' [FmtS checksum]), db)
      else
     (let ident = (if ident0 = '''' then ''data-'' @ drop 7 checksum else ident0); inst = ident @ ''-instance'';
          object = \<lparr>dor_WorkflowVersionID = optionalReference workflowVersionID, dor_ProducerActivityID = optionalReference activityID,
            dor_LogicalName = rp_base env path, dor_RelativePath = path\<rparr>;
          row = \<lparr>dir_DataObjectID = ident, dir_ExecutionRunID = optionalReference runID, dir_ProducerActivityID = optionalReference activityID,
            dir_RelativePath = path, dir_SizeBytes = fe_SizeBytes entry, dir_Checksum = checksum\<rparr>;
          location = \<lparr>dlo_InstanceID = inst, dlo_StorageResourceID = storageID, dlo_ExecutionRunID = optionalReference runID,
            dlo_URI = ''storage://'' @ storageID @ ''/'' @ path, dlo_Status = DataLocationAvailable\<rparr>
      in case rp_fault env db ''promote data'' of
        Some e \<Rightarrow> (Some e, db)
      | None \<Rightarrow>
     (case insert_row ''data_objects.id'' ident object (sdb_objects db) of
        Inl e \<Rightarrow> (Some e, db)
      | Inr objects \<Rightarrow>
     (if list_ex (\<lambda>(_, r). instance_conflict row r) (sdb_instances db) then (Some (Errorf ''UNIQUE constraint failed: data_object_instances'' []), db)
      else case insert_row ''data_object_instances.id'' inst row (sdb_instances db) of
        Inl e \<Rightarrow> (Some e, db)
      | Inr instances \<Rightarrow>
     (case insert_row ''data_locations.id'' (inst @ ''-location'') location (sdb_locations db) of
        Inl e \<Rightarrow> (Some e, db)
      | Inr locations \<Rightarrow>
         (None, db\<lparr>sdb_objects := objects, sdb_instances := instances, sdb_locations := locations\<rparr>))))))"

definition artifactVersionID :: "string \<Rightarrow> string \<Rightarrow> string \<Rightarrow> string \<Rightarrow> string" where
  "artifactVersionID ident version scope scopeID = ''artifact-version:'' @ ident @ '':'' @ version @ '':'' @ scope @ '':'' @ scopeID"

definition ensure_endpoint :: "string \<Rightarrow> string \<Rightarrow> string \<Rightarrow> StorageDB \<Rightarrow> error + (string, TransferEndpointRow) gomap" where
  "ensure_endpoint endpoint storageID environmentID db =
     (case map_of (sdb_endpoints db) endpoint of
        None \<Rightarrow> Inr (put endpoint \<lparr>ter_Kind = ''storage'', ter_URI = storageID, ter_EnvironmentID = environmentID\<rparr> (sdb_endpoints db))
      | Some row \<Rightarrow>
         if ter_URI row \<noteq> storageID \<or> ter_EnvironmentID row \<noteq> environmentID then
           Inl (Errorf ''transfer endpoint %q conflicts with storage identity'' [FmtS endpoint])
         else Inr (sdb_endpoints db))"

definition default_to :: "string \<Rightarrow> string \<Rightarrow> string" where
  "default_to d v = (if v = '''' then d else v)"

definition repo_PromoteArtifact ::
  "RepositoryEnv \<Rightarrow> string \<Rightarrow> string \<Rightarrow> string \<Rightarrow> string \<Rightarrow> string \<Rightarrow> string \<Rightarrow> string \<Rightarrow> string \<Rightarrow> FileEntry \<Rightarrow> StorageDB \<Rightarrow>
   error option \<times> StorageDB"
where
  "repo_PromoteArtifact env storageID path ident0 name0 version0 scope0 scopeID checksum entry db =
     (if \<not> validSHA256 checksum then (Some (Errorf ''invalid SHA-256 digest %q'' [FmtS checksum]), db)
      else
     (let ident = default_to (''artifact-'' @ drop 7 checksum) ident0; name = default_to ident name0;
          version = default_to ''1'' version0; scope = default_to ''environment'' scope0;
          vid = artifactVersionID ident version scope scopeID; variant = vid @ ''-sif-'' @ drop 7 checksum; endpoint = ''storage-'' @ storageID;
          versionRow = \<lparr>avr_ArtifactID = ident, avr_Name = name, avr_Version = version, avr_Scope = scope, avr_ScopeID = scopeID\<rparr>
      in case rp_fault env db ''promote artifact'' of
        Some e \<Rightarrow> (Some e, db)
      | None \<Rightarrow>
     (case (case map_of (sdb_storages db) storageID of None \<Rightarrow> None | Some v \<Rightarrow> map_of (sdb_versions db) (sto_EnvironmentVersionID v)) of
        None \<Rightarrow> (Some (Errorf ''resolve storage environment: %w'' [FmtE (Errorf ''sql: no rows in result set'' [])]), db)
      | Some environmentID \<Rightarrow>
     (if list_ex (\<lambda>(_, r). r\<lparr>avr_Name := name\<rparr> = versionRow) (sdb_artifacts db) then
        (Some (Errorf ''create immutable artifact version: %w'' [FmtE (Errorf ''UNIQUE constraint failed: artifact_versions'' [])]), db)
      else case insert_row ''artifact_versions.id'' vid versionRow (sdb_artifacts db) of
        Inl e \<Rightarrow> (Some (Errorf ''create immutable artifact version: %w'' [FmtE e]), db)
      | Inr artifacts \<Rightarrow>
     (case insert_row ''artifact_variants.id'' variant
             \<lparr>avt_VersionID = vid, avt_Digest = checksum, avt_Format = ''sif'', avt_Architecture = '''', avt_SizeBytes = fe_SizeBytes entry\<rparr> (sdb_variants db) of
        Inl e \<Rightarrow> (Some (Errorf ''create immutable artifact variant: %w'' [FmtE e]), db)
      | Inr variants \<Rightarrow>
     (case ensure_endpoint endpoint storageID environmentID db of
        Inl e \<Rightarrow> (Some e, db)
      | Inr endpoints \<Rightarrow>
     (case insert_row ''artifact_locations.id'' (variant @ ''-location'')
             \<lparr>alr_VariantID = variant, alr_EndpointID = endpoint, alr_URI = ''storage://'' @ storageID @ ''/'' @ path, alr_Digest = checksum,
              alr_Scope = scope, alr_ScopeID = scopeID, alr_Available = True\<rparr> (sdb_places db) of
        Inl e \<Rightarrow> (Some e, db)
      | Inr places \<Rightarrow>
         (None, db\<lparr>sdb_artifacts := artifacts, sdb_variants := variants, sdb_endpoints := endpoints, sdb_places := places\<rparr>))))))))"

section \<open>The service on the repository and the file system\<close>

record StorageWorld =
  swd_db :: StorageDB
  swd_disk :: Disk

definition on_db :: "(StorageDB \<Rightarrow> 'r \<times> StorageDB) \<Rightarrow> StorageWorld \<Rightarrow> 'r \<times> StorageWorld" where
  "on_db f w = (case f (swd_db w) of (r, db) \<Rightarrow> (r, w\<lparr>swd_db := db\<rparr>))"

definition on_disk :: "(Disk \<Rightarrow> 'r \<times> Disk) \<Rightarrow> StorageWorld \<Rightarrow> 'r \<times> StorageWorld" where
  "on_disk f w = (case f (swd_disk w) of (r, d) \<Rightarrow> (r, w\<lparr>swd_disk := d\<rparr>))"

definition repository_catalog :: "RepositoryEnv \<Rightarrow> StorageWorld StorageCatalog" where
  "repository_catalog env =
     \<lparr>sc_ListEnvironmentStorages = (\<lambda>i. on_db (\<lambda>db. (repo_ListEnvironmentStorages env i db, db))),
      sc_FindStorage = (\<lambda>i. on_db (\<lambda>db. (repo_FindStorage env i db, db))),
      sc_SaveDownload = (\<lambda>v. on_db (repo_SaveDownload env v)),
      sc_FindDownload = (\<lambda>i. on_db (\<lambda>db. (repo_FindDownload env i db, db))),
      sc_PromoteData = (\<lambda>a b c d e f g h. on_db (repo_PromoteData env a b c d e f g h)),
      sc_PromoteArtifact = (\<lambda>a b c d e f g h i. on_db (repo_PromoteArtifact env a b c d e f g h i)),
      sc_SaveIndexRun = (\<lambda>ctx v w. on_db (repo_SaveIndexRun env (ctx w) v) w),
      sc_ListIndexRuns = (\<lambda>i. on_db (\<lambda>db. (repo_ListIndexRuns env i db, db)))\<rparr>"

definition driver_browser :: "StorageEnv \<Rightarrow> Driver \<Rightarrow> StorageWorld StorageBrowser" where
  "driver_browser env drv =
     \<lparr>sb_Browse = (\<lambda>v r. on_disk (driver_Browse env drv v r)), sb_BrowseStat = (\<lambda>v p. on_disk (driver_BrowseStat env drv v p)),
      sb_Open = (\<lambda>v p. on_disk (driver_Open env drv v p)), sb_Remove = (\<lambda>v p. on_disk (driver_Remove env drv v p)),
      sb_Write = (\<lambda>v p source n. on_disk (driver_Write env drv v p source n))\<rparr>"

end
