(* ===== verification/Storage_File_Properties.thy ===== *)
theory Storage_File_Properties
  imports Storage_Files Transfer_Properties
begin

text \<open>
  Properties of the file-system storage driver: paths stay below an allowed root, writes are atomic, what is written is
  read back, following the cursors lists a directory exactly once, and when a cursor makes the driver panic.
\<close>

section \<open>Paths\<close>

definition storage_file :: "StorageEnv \<Rightarrow> Driver \<Rightarrow> StorageResource \<Rightarrow> string \<Rightarrow> string" where
  "storage_file env drv storage value =
     (case storageRoot env drv storage of Inl e \<Rightarrow> '''' | Inr base \<Rightarrow> path_Join base (browse_relative value))"

lemma browsePath_iff:
  "browsePath env drv d storage value = Inr (full, relative) \<Longrightarrow>
     full = storage_file env drv storage value \<and> relative = browse_relative value \<and>
     \<not> has_prefix relative ''..'' \<and> \<not> is_abs relative \<and> (\<exists>base. storageRoot env drv storage = Inr base)"
  by (auto simp: browsePath_def storage_file_def Let_def split: sum.splits if_splits)

lemma path_Join_empty: "is_abs base \<Longrightarrow> path_Join base '''' = ''/'' @ join_slash (path_comps base)"
proof -
  assume b: "is_abs base"
  then have "is_abs (base @ ''/'')" "base \<noteq> ''''" by (cases base; simp)+
  moreover have "path_comps (base @ ''/'') = path_comps base"
    unfolding path_comps_def [of "base @ _"] using b calculation(1) split_slash_join [of base "''''"]
    by (simp add: clean_comps_append path_comps_def)
  ultimately show ?thesis by (simp add: path_Join_def path_Clean_def path_of_def)
qed

lemma has_prefix_append: "has_prefix s (p @ q) \<Longrightarrow> has_prefix s p"
proof -
  assume "has_prefix s (p @ q)"
  then have "take (length p) (take (length (p @ q)) s) = p" by (simp add: has_prefix_def)
  then show ?thesis by (simp add: has_prefix_def min_def)
qed

definition rel_comps :: "string \<Rightarrow> string list" where
  "rel_comps value = path_comps (trim_prefix value ''/'')"

lemma browse_relative_comps:
  assumes "\<not> has_prefix (browse_relative value) ''..''" and "\<not> is_abs (browse_relative value)"
  shows "list_all plain (rel_comps value)" and "browse_relative value = join_slash (rel_comps value)"
proof -
  let ?v = "trim_prefix value ''/''"
  have "\<not> escapes (path_Clean ?v)"
  proof (cases "path_Clean ?v = ''.''")
    case False
    then have "browse_relative value = path_Clean ?v" by (simp add: browse_relative_def)
    then show ?thesis using assms has_prefix_append [of _ "''..''" "''/''"] by (auto simp: escapes_def has_prefix_def)
  qed (simp add: escapes_def has_prefix_def)
  note p = not_escapes_plain [OF this]
  show "list_all plain (rel_comps value)" using p by (simp add: rel_comps_def)
  show "browse_relative value = join_slash (rel_comps value)"
  proof (cases "path_comps ?v = []")
    case True
    then show ?thesis using p by (simp add: browse_relative_def rel_comps_def path_Clean_def path_of_def)
  next
    case False
    have "join_slash (path_comps ?v) \<noteq> ''.''"
      using p False path_comps_rel [of "path_comps ?v"] by (auto simp: path_comps_def)
    then show ?thesis using p False by (simp add: browse_relative_def rel_comps_def path_Clean_def path_of_def)
  qed
qed

lemma storageRoot_abs:
  "abs_ok (se_disk env) \<Longrightarrow> is_abs (drv_root drv) \<Longrightarrow> storageRoot env drv storage = Inr base \<Longrightarrow> is_abs base"
  using is_abs_Clean by (auto simp: storageRoot_def abs_ok_def Let_def split: sum.splits if_splits)

lemma storage_file_below:
  assumes "abs_ok (se_disk env)" and "is_abs (drv_root drv)" and "storageRoot env drv storage = Inr base"
    and "\<not> has_prefix (browse_relative value) ''..''" and "\<not> is_abs (browse_relative value)"
  shows "storage_file env drv storage value = ''/'' @ join_slash (path_comps base @ rel_comps value)"
proof -
  note b = storageRoot_abs [OF assms(1-3)] and c = browse_relative_comps [OF assms(4,5)]
  show ?thesis
  proof (cases "rel_comps value = []")
    case True
    then show ?thesis using c(2) path_Join_empty [OF b] assms(3) by (simp add: storage_file_def)
  next
    case False
    then show ?thesis using join_below [OF b, of "join_slash (rel_comps value)"] path_comps_rel [OF c(1)] path_Clean_join [OF c(1)]
      join_plain_rel c assms(3) by (cases "rel_comps value") (simp_all add: storage_file_def)
  qed
qed

section \<open>Writing\<close>

lemma write_new_frame: "write_new env p source d = (r, d') \<Longrightarrow> q \<noteq> p \<Longrightarrow> file_content d' q = file_content d q"
  by (auto simp: write_new_def split: option.splits prod.splits if_splits)

lemma write_new_ok: "write_new env p source d = (Inr (None, None), d') \<Longrightarrow> snd source = None \<and> file_content d' p = Some (fst source)"
  by (auto simp: write_new_def split: option.splits prod.splits if_splits)

lemma disk_remove_frame: "q \<noteq> p \<Longrightarrow> file_content (snd (disk_remove env p d)) q = file_content d q"
  by (auto simp: disk_remove_def split: option.splits)

lemma rename_file_cases:
  "rename_file env p f d = (e, d') \<Longrightarrow> p \<noteq> f \<Longrightarrow>
     (e = None \<longrightarrow> file_content d p \<noteq> None \<and> file_content d' = (file_content d)(f := file_content d p, p := None)) \<and>
     (e \<noteq> None \<longrightarrow> file_content d' = file_content d)"
  by (auto simp: rename_file_def fun_upd_twist split: option.splits if_splits)

lemma mkdirs_content [simp]: "mkdirs env dirs p d = (e, d') \<Longrightarrow> file_content d' = file_content d"
  by (auto simp: mkdirs_def split: option.splits if_splits)

text \<open>The effect of writing a file: all or nothing at its place, and nothing anywhere else but at the temporary name.\<close>

definition replaced :: "string \<Rightarrow> string \<Rightarrow> reader \<Rightarrow> error option \<Rightarrow> Disk \<Rightarrow> Disk \<Rightarrow> bool" where
  "replaced tmp full source e d d' \<longleftrightarrow>
     (\<forall>q. q \<noteq> tmp \<longrightarrow> q \<noteq> full \<longrightarrow> file_content d' q = file_content d q) \<and>
     (case e of None \<Rightarrow> snd source = None \<and> file_content d' full = Some (fst source) \<and> file_content d' tmp = None
      | Some _ \<Rightarrow> file_content d' full = file_content d full)"

lemma replaced_same: "file_content d' = file_content d \<Longrightarrow> replaced tmp full source (Some e) d d'"
  by (simp add: replaced_def)

lemma replaced_cong: "file_content d1 = file_content d \<Longrightarrow> replaced tmp full source e d1 d' = replaced tmp full source e d d'"
  by (simp add: replaced_def split: option.split)

lemma replace_file_replaced:
  assumes "replace_file env tmp full source d = (e, d')" and "tmp \<noteq> full"
  shows "replaced tmp full source e d d'"
proof -
  obtain r d1 where w: "write_new env tmp source d = (r, d1)" by fastforce
  note frame = write_new_frame [OF w]
  show ?thesis
  proof (cases r)
    case (Inl e')
    then show ?thesis using assms w frame by (auto simp: replace_file_def replaced_def)
  next
    case (Inr p)
    obtain c cl where p: "p = (c, cl)" by fastforce
    show ?thesis
    proof (cases "c = None \<and> cl = None")
      case True
      then have "rename_file (se_disk env) tmp full d1 = (e, d')" using assms(1) w Inr p by (simp add: replace_file_def)
      note rn = rename_file_cases [OF this assms(2)]
      have "snd source = None \<and> file_content d1 tmp = Some (fst source)" using write_new_ok w Inr p True by blast
      then show ?thesis using rn frame assms(2) by (auto simp: replaced_def split: option.splits)
    next
      case False
      then have "e \<noteq> None" "d' = tick (snd (disk_remove env tmp d1))"
        using assms(1) w Inr p by (auto simp: replace_file_def firstError_def)
      then show ?thesis using frame disk_remove_frame assms(2) by (auto simp: replaced_def split: option.splits)
    qed
  qed
qed

lemma driver_Write_replaced:
  assumes "driver_Write env drv storage value source n d = (e, d')"
  shows "replaced (storage_file env drv storage value @ ''.akoflow-copy-part'') (storage_file env drv storage value) source e d d' \<and>
    (file_content d' \<noteq> file_content d \<longrightarrow>
      (\<exists>base. storageRoot env drv storage = Inr base) \<and> \<not> has_prefix (browse_relative value) ''..'' \<and> \<not> is_abs (browse_relative value))"
proof (cases "\<exists>base d1 full relative d2. storageRoot env drv storage = Inr base \<and> mkdirs env (dirs_upto base) base d = (None, d1) \<and>
    browsePath env drv d1 storage value = Inr (full, relative) \<and> mkdirs env (dirs_above full) full d1 = (None, d2) \<and> \<not> sto_ReadOnly storage")
  case True
  then obtain base d1 full relative d2 where s: "storageRoot env drv storage = Inr base" "mkdirs env (dirs_upto base) base d = (None, d1)"
    "browsePath env drv d1 storage value = Inr (full, relative)" "mkdirs env (dirs_above full) full d1 = (None, d2)" "\<not> sto_ReadOnly storage"
    by blast
  then have "replace_file env (full @ ''.akoflow-copy-part'') full source d2 = (e, d')" using assms by (simp add: driver_Write_def)
  note r = replace_file_replaced [OF this]
  have "file_content d2 = file_content d" using s(2,4) by simp
  then show ?thesis using r replaced_cong [of d2 d] browsePath_iff [OF s(3)] s(1) by auto
next
  case False
  then have "e \<noteq> None \<and> file_content d' = file_content d" using assms
    by (auto simp: driver_Write_def split: sum.splits option.splits prod.splits if_splits)
  then show ?thesis by (cases e) (simp_all add: replaced_same)
qed


lemma driver_Open_reads:
  "driver_Open env drv storage value d = (Inr ((data, None), entry), d') \<Longrightarrow>
     file_content d (storage_file env drv storage value) = Some data \<and> fe_Type entry = FileEntryFile"
proof -
  assume o: "driver_Open env drv storage value d = (Inr ((data, None), entry), d')"
  have t: "fst (driver_BrowseStat env drv storage value d) = Inr entry \<and> fe_Type entry = FileEntryFile \<and>
      (\<exists>full rel. browsePath env drv (tick d) storage value = Inr (full, rel) \<and> disk_open (se_disk env) (tick d) full 0 = Inr (data, None))"
    using o by (auto simp: driver_Open_def driver_BrowseStat_def split: sum.splits if_splits)
  then obtain full rel where f: "browsePath env drv (tick d) storage value = Inr (full, rel)" "disk_open (se_disk env) (tick d) full 0 = Inr (data, None)"
    by blast
  show ?thesis using disk_open_reads [OF f(2)] browsePath_iff [OF f(1)] t by simp
qed

lemma snoc_suffix: "cs \<noteq> [] \<Longrightarrow> join_slash cs @ s = join_slash (butlast cs @ [last cs @ s])"
  using join_snoc_append [of "butlast cs" "last cs" s] by simp

lemma plain_suffix: "plain c \<Longrightarrow> CHR ''/'' \<notin> set s \<Longrightarrow> 2 < length s \<Longrightarrow> plain (c @ s)"
  by (auto simp: plain_def append_eq_Cons_conv)

text \<open>A path below a root: the components of the root and at least one more.\<close>

definition below :: "string \<Rightarrow> string \<Rightarrow> bool" where
  "below base q \<longleftrightarrow> (\<exists>cs. cs \<noteq> [] \<and> list_all plain cs \<and> q = ''/'' @ join_slash (path_comps base @ cs))"

lemma storage_file_is_below:
  assumes "abs_ok (se_disk env)" and "is_abs (drv_root drv)" and "storageRoot env drv storage = Inr base"
    and "\<not> has_prefix (browse_relative value) ''..''" and "\<not> is_abs (browse_relative value)" and "browse_relative value \<noteq> ''''"
    and "suffix = '''' \<or> CHR ''/'' \<notin> set suffix \<and> 2 < length suffix"
  shows "below base (storage_file env drv storage value @ suffix)"
proof -
  note c = browse_relative_comps [OF assms(4,5)]
  let ?cs = "rel_comps value"
  have ne: "?cs \<noteq> []" using c(2) assms(6) by auto
  have cs: "list_all plain (butlast ?cs)" "plain (last ?cs)" using c(1) ne by (auto simp: list_all_iff dest: in_set_butlastD)
  then have "list_all plain (butlast ?cs @ [last ?cs @ suffix])" using assms(7) plain_suffix by auto
  moreover have "storage_file env drv storage value @ suffix = ''/'' @ join_slash (path_comps base @ butlast ?cs @ [last ?cs @ suffix])"
    using storage_file_below [OF assms(1-5)] snoc_suffix [of "path_comps base @ ?cs" suffix] ne by (simp add: butlast_append)
  ultimately show ?thesis unfolding below_def by blast
qed


text \<open>A storage below \<open>/data\<close> on a disk without failures and links.\<close>

definition demo_senv :: StorageEnv where
  "demo_senv = \<lparr>se_disk = demo_env, se_link = (\<lambda>_ _. None), se_mtime = (\<lambda>_ _. 0), se_dirsize = (\<lambda>_ _. 0), se_fileurl = (\<lambda>p. ''file://'' @ p)\<rparr>"

definition demo_driver :: Driver where
  "demo_driver = \<lparr>drv_typeName = StorageLocal, drv_root = ''/data''\<rparr>"

definition demo_storage :: StorageResource where
  "demo_storage = \<lparr>sto_ID = ''s'', sto_EnvironmentVersionID = ''v'', sto_Name = ''data'', sto_Type = StorageLocal, sto_Endpoint = ''/data'',
     sto_CapacityBytes = 0, sto_Shared = False, sto_ReadOnly = False, sto_Configuration = [], sto_CredentialReference = '''', sto_Metadata = [],
     sto_RuntimeBindings = [], sto_BrowseRoots = [\<lparr>sbr_Path = ''/data'', sbr_Label = '''', sbr_ReadOnly = False\<rparr>],
     sto_Capabilities = \<lparr>stc_Browse = False, stc_Read = False, stc_Write = False, stc_Download = False, stc_Upload = False, stc_Checksum = False,
       stc_PresignedDownload = False, stc_ComputeNodeVisible = False\<rparr>,
     sto_Health = \<lparr>shs_Status = StorageHealthUnknown, shs_Message = '''', shs_CheckedAt = 0, shs_AvailableBytes = 0\<rparr>,
     sto_IndexPolicy = \<lparr>ixp_Enabled = True, ixp_Roots = [], ixp_MaxDepth = 0, ixp_MaxEntries = 2, ixp_Include = [], ixp_Exclude = [], ixp_TimeoutSeconds = 1\<rparr>,
     sto_IndexStatus = \<lparr>ixs_Status = '''', ixs_IndexedEntries = 0, ixs_LastIndexedAt = 0, ixs_Message = ''''\<rparr>\<rparr>"

definition demo_files :: Disk where
  "demo_files = \<lparr>dk_nodes = [(''/'', Dir), (''/data'', Dir), (''/data/b'', File ''two''), (''/data/a'', File ''one''), (''/data/sub'', Dir)], dk_step = 0\<rparr>"


section \<open>Listing a directory\<close>

definition disk_ok :: "Disk \<Rightarrow> bool" where
  "disk_ok d \<longleftrightarrow> gomap_ok (dk_nodes d) \<and> list_all (\<lambda>q. is_abs q \<and> path_Clean q = q) (keys (dk_nodes d))"

definition child_names :: "Disk \<Rightarrow> string \<Rightarrow> string list" where
  "child_names d dir = List.map_filter (child_name dir) (keys (dk_nodes d))"

lemma clean_abs: "is_abs q \<Longrightarrow> path_Clean q = q \<Longrightarrow> q = ''/'' @ join_slash (path_comps q)"
  by (metis path_Clean_def path_of_def)

lemma path_comps_Join: "is_abs dir \<Longrightarrow> plain name \<Longrightarrow> path_Join dir name = ''/'' @ join_slash (path_comps dir @ [name])"
  using join_below [of dir name] path_comps_rel [of "[name]"] path_Clean_join [of "[name]"] join_plain_rel [of name "[]"] by simp

lemma child_name_Some:
  assumes "is_abs q" and "path_Clean q = q" and "is_abs dir"
  shows "child_name dir q = Some name \<longleftrightarrow> plain name \<and> q = path_Join dir name"
proof
  assume "child_name dir q = Some name"
  then have c: "path_comps q = path_comps dir @ [name]" by (auto simp: child_name_def split: if_splits) (metis append_butlast_last_id)
  moreover have "list_all plain (path_comps q)" using assms(1) by (simp add: path_comps_plain)
  ultimately show "plain name \<and> q = path_Join dir name" using clean_abs [OF assms(1,2)] path_comps_Join [OF assms(3), of name] by simp
next
  assume n: "plain name \<and> q = path_Join dir name"
  then have "path_comps q = path_comps dir @ [name]"
    using path_comps_Join [OF assms(3), of name] path_comps_abs [of "path_comps dir @ [name]"] path_comps_plain [of dir] assms(3) by simp
  then show "child_name dir q = Some name" by (simp add: child_name_def)
qed

lemma child_names_set:
  assumes "disk_ok d" and "is_abs dir"
  shows "name \<in> set (child_names d dir) \<longleftrightarrow> plain name \<and> map_of (dk_nodes d) (path_Join dir name) \<noteq> None"
proof -
  have "name \<in> set (child_names d dir) \<longleftrightarrow> (\<exists>q \<in> set (keys (dk_nodes d)). child_name dir q = Some name)"
    by (force simp: child_names_def map_filter_def)
  also have "\<dots> \<longleftrightarrow> (\<exists>q \<in> set (keys (dk_nodes d)). plain name \<and> q = path_Join dir name)"
    using assms child_name_Some by (intro bex_cong) (auto simp: disk_ok_def list_all_iff)
  also have "\<dots> \<longleftrightarrow> plain name \<and> map_of (dk_nodes d) (path_Join dir name) \<noteq> None" by (auto simp: map_of_None_keys)
  finally show ?thesis .
qed

lemma distinct_map_filter:
  "distinct xs \<Longrightarrow> (\<And>x y z. x \<in> set xs \<Longrightarrow> y \<in> set xs \<Longrightarrow> f x = Some z \<Longrightarrow> f y = Some z \<Longrightarrow> x = y) \<Longrightarrow> distinct (List.map_filter f xs)"
proof (induction xs)
  case (Cons x xs)
  have ih: "distinct (List.map_filter f xs)" using Cons by (metis distinct.simps(2) list.set_intros(2))
  show ?case
  proof (cases "f x")
    case (Some z)
    have "z \<notin> set (List.map_filter f xs)"
    proof
      assume "z \<in> set (List.map_filter f xs)"
      then obtain y where "y \<in> set xs" "f y = Some z" by (auto simp: map_filter_def)
      then show False using Cons.prems(1) Cons.prems(2) [of x y z] Some by auto
    qed
    then show ?thesis using ih Some by (simp add: map_filter_simps)
  qed (simp add: ih map_filter_simps)
qed (simp add: map_filter_simps)

lemma child_names_distinct:
  assumes "disk_ok d" and "is_abs dir"
  shows "distinct (child_names d dir)"
  unfolding child_names_def
proof (rule distinct_map_filter)
  show "distinct (keys (dk_nodes d))" using assms(1) by (simp add: disk_ok_def gomap_ok_def)
  have clean: "is_abs q \<and> path_Clean q = q" if "q \<in> set (keys (dk_nodes d))" for q
    using assms(1) that unfolding disk_ok_def list_all_iff by blast
  show "x = y" if "x \<in> set (keys (dk_nodes d))" "y \<in> set (keys (dk_nodes d))" "child_name dir x = Some z" "child_name dir y = Some z" for x y z
    using clean [OF that(1)] clean [OF that(2)] that(3,4) by (simp add: child_name_Some assms(2))
qed

lemma child_names_length: "length (child_names d dir) \<le> length (dk_nodes d)"
  unfolding child_names_def map_filter_def by (simp add: le_trans [OF length_filter_le])


text \<open>A directory that can be listed at every step of the disk: no link leads out of the root and no call fails.\<close>

definition at_step :: "Disk \<Rightarrow> nat \<Rightarrow> Disk" where
  "at_step d k = d\<lparr>dk_step := k\<rparr>"

definition browsable :: "StorageEnv \<Rightarrow> Driver \<Rightarrow> StorageResource \<Rightarrow> string \<Rightarrow> Disk \<Rightarrow> bool" where
  "browsable env drv storage path d \<longleftrightarrow>
     (\<forall>k. (\<exists>dir relative. browsePath env drv (at_step d k) storage path = Inr (dir, relative)) \<and>
        (\<forall>p. fault (se_disk env) (at_step d k) ''readdir'' p = None \<and> fault (se_disk env) (at_step d k) ''lstat'' p = None)) \<and>
     map_of (dk_nodes d) (storage_file env drv storage path) = Some Dir \<and> disk_ok d \<and> length (dk_nodes d) < 2 ^ 62 \<and>
     abs_ok (se_disk env) \<and> is_abs (drv_root drv)"

lemma at_step_simps [simp]: "dk_nodes (at_step d k) = dk_nodes d" "tick (at_step d k) = at_step d (Suc k)" "at_step d (dk_step d) = d"
  by (simp_all add: at_step_def tick_def)

lemma path_Base_join: "list_all plain cs \<Longrightarrow> plain name \<Longrightarrow> path_Base (join_slash (cs @ [name])) = name"
proof -
  assume cs: "list_all plain cs" "plain name"
  let ?s = "join_slash (cs @ [name])"
  obtain pre where p: "?s = pre @ name" by (cases "cs = []") (auto simp: join_slash_append)
  then have "?s \<noteq> ''''" "rev (dropWhile (\<lambda>c. c = CHR ''/'') (rev ?s)) = ?s"
    using cs(2) by (cases "rev name"; auto simp: plain_def)+
  moreover have "split_slash ?s = cs @ [name]" using split_join [of "cs @ [name]"] no_slash_plain [of "cs @ [name]"] cs by simp
  ultimately show ?thesis by (simp add: path_Base_def)
qed

lemma path_Join_rel: "list_all plain cs \<Longrightarrow> plain name \<Longrightarrow> path_Join (join_slash cs) name = join_slash (cs @ [name])"
proof (cases "cs = []")
  case False
  assume cs: "list_all plain cs" "plain name"
  have "join_slash cs \<noteq> ''''" using False cs join_plain_rel by (cases cs) auto
  then show ?thesis using False cs path_Clean_join [of "cs @ [name]"] by (simp add: path_Join_def join_slash_append)
qed (use path_Clean_join [of "[name]"] in \<open>auto simp: path_Join_def plain_def\<close>)

lemma browse_entries_names:
  assumes "\<And>name. name \<in> set names \<Longrightarrow> \<exists>info. disk_info env d (path_Join dir name) = Inr info"
  shows "\<exists>es. browse_entries env d sid dir rel names = Inr es \<and> map fe_Name es = map (\<lambda>name. path_Base (path_Join rel name)) names"
  using assms
proof (induction names)
  case (Cons name names)
  obtain info where i: "disk_info env d (path_Join dir name) = Inr info" using Cons.prems by auto
  obtain es where "browse_entries env d sid dir rel names = Inr es"
    "map fe_Name es = map (\<lambda>name. path_Base (path_Join rel name)) names" using Cons by (auto simp del: map_eq_conv)
  then show ?case using i by (simp add: infoEntry_def Let_def)
qed simp


lemma page_limit_range: "1 \<le> page_limit limit" "page_limit limit \<le> 500"
  by (simp_all add: page_limit_def)

definition listing :: "StorageEnv \<Rightarrow> Driver \<Rightarrow> StorageResource \<Rightarrow> string \<Rightarrow> Disk \<Rightarrow> string list" where
  "listing env drv storage path d = sort (child_names d (storage_file env drv storage path))"

lemma browsable_facts:
  assumes "browsable env drv storage path d"
  defines "dir \<equiv> storage_file env drv storage path"
  shows "browsePath env drv (at_step d k) storage path = Inr (dir, browse_relative path)"
    and "is_abs dir" and "list_all plain (rel_comps path)" and "browse_relative path = join_slash (rel_comps path)"
    and "read_dir env (at_step d k) dir = Inr (listing env drv storage path d)"
    and "name \<in> set (listing env drv storage path d) \<Longrightarrow> plain name \<and> (\<exists>info. disk_info env (at_step d k) (path_Join dir name) = Inr info)"
    and "int (length (listing env drv storage path d)) < 2 ^ 62"
proof -
  note b = assms(1) [unfolded browsable_def]
  obtain dir' rel where p: "browsePath env drv (at_step d k) storage path = Inr (dir', rel)" using b by blast
  note f = browsePath_iff [OF p]
  then obtain base where r: "storageRoot env drv storage = Inr base" by blast
  have rel: "\<not> has_prefix (browse_relative path) ''..''" "\<not> is_abs (browse_relative path)" using f by auto
  show "browsePath env drv (at_step d k) storage path = Inr (dir, browse_relative path)" using p f by (simp add: dir_def)
  show abs: "is_abs dir" unfolding dir_def using b by (subst storage_file_below [OF _ _ r rel]) simp_all
  show "list_all plain (rel_comps path)" "browse_relative path = join_slash (rel_comps path)" using browse_relative_comps [OF rel] .
  show "read_dir env (at_step d k) dir = Inr (listing env drv storage path d)"
    using b by (simp add: read_dir_def listing_def child_names_def dir_def)
  show "plain name \<and> (\<exists>info. disk_info env (at_step d k) (path_Join dir name) = Inr info)" if "name \<in> set (listing env drv storage path d)"
  proof -
    have "plain name \<and> map_of (dk_nodes d) (path_Join dir name) \<noteq> None"
      using that child_names_set [OF _ abs, of d name] b by (simp add: listing_def dir_def)
    then show ?thesis using b by (auto simp: disk_info_def disk_lstat_def)
  qed
  have "length (listing env drv storage path d) < 2 ^ 62" using b child_names_length [of d dir] by (simp add: listing_def dir_def)
  then show "int (length (listing env drv storage path d)) < 2 ^ 62" by (metis of_nat_less_iff of_nat_numeral of_nat_power)
qed

lemma browse_names:
  assumes "browsable env drv storage path d" and "set names \<subseteq> set (listing env drv storage path d)"
  shows "\<exists>es. browse_entries env (at_step d k) sid (storage_file env drv storage path) (browse_relative path) names = Inr es \<and> map fe_Name es = names"
proof -
  note f = browsable_facts [OF assms(1)]
  have "path_Base (path_Join (browse_relative path) name) = name" if "name \<in> set names" for name
    using that assms(2) f(3,6) path_Join_rel path_Base_join unfolding f(4) by (simp add: subset_iff)
  then have "map (\<lambda>name. path_Base (path_Join (browse_relative path) name)) names = names" by (simp add: map_idI)
  then show ?thesis using browse_entries_names [of names env "at_step d k" "storage_file env drv storage path" sid "browse_relative path"]
    assms(2) f(6) by (metis subsetD)
qed

lemma browse_start:
  assumes "browsable env drv storage path d" and "(if cursor \<noteq> '''' then Atoi cursor else Some 0) = Some start" and "0 \<le> start"
  shows "driver_Browse env drv storage \<lparr>brq_Path = path, brq_Cursor = cursor, brq_Limit = limit\<rparr> (at_step d k) =
    (browse_page env (at_step d k) storage (storage_file env drv storage path) (browse_relative path) (listing env drv storage path d) start limit,
     at_step d (Suc k))"
  using browsable_facts(1,5) [OF assms(1), of k] assms(2,3) by (cases "cursor = []") (simp_all add: driver_Browse_def)

lemma wrap64_over: "2 ^ 63 \<le> i \<Longrightarrow> i < 2 ^ 64 \<Longrightarrow> wrap64 i < 0"
proof -
  assume i: "2 ^ 63 \<le> i" "i < 2 ^ 64"
  have "(i + 2 ^ 63) mod 2 ^ 64 = (i - 2 ^ 63) mod 2 ^ 64"
    using mod_add_self2 [of "i - 2 ^ 63" "2 ^ 64 :: int"] by (simp add: algebra_simps)
  also have "\<dots> = i - 2 ^ 63" using i by (intro mod_pos_pos_trivial) simp_all
  finally show ?thesis using i unfolding wrap64_def by simp
qed

lemma browse_page_ok:
  assumes "browsable env drv storage path d" and "0 \<le> start" and "start + page_limit limit < 2 ^ 63"
  defines "items \<equiv> listing env drv storage path d" and "stop \<equiv> nat start + nat (page_limit limit)"
  shows "\<exists>page. browse_page env (at_step d k) storage (storage_file env drv storage path) (browse_relative path) items start limit = Ok page \<and>
    map fe_Name (bpg_Entries page) = drop (nat start) (take stop items) \<and>
    bpg_NextCursor page = (if stop < length items then itoa (int stop) else '''')"
proof -
  let ?n = "int (length items)" and ?fin = "start + page_limit limit"
  define end1 where "end1 = (if ?fin > ?n then ?n else ?fin)"
  define start1 where "start1 = (if start > ?n then ?n else start)"
  have w: "wrap64 ?fin = ?fin" using assms(2,3) page_limit_range [of limit] by (intro wrap64_id) auto
  have stop: "int stop = ?fin" using assms(2) page_limit_range [of limit] by (simp add: stop_def)
  have "drop (nat start1) (take (nat end1) items) = drop (nat start) (take stop items)"
    using assms(2) stop by (auto simp: start1_def end1_def nat_le_iff stop [symmetric])
  moreover have "end1 - start1 \<ge> 0" using assms(2) page_limit_range [of limit] by (simp add: end1_def start1_def)
  moreover obtain es where "browse_entries env (at_step d k) (sto_ID storage) (storage_file env drv storage path) (browse_relative path)
      (drop (nat start) (take stop items)) = Inr es \<and> map fe_Name es = drop (nat start) (take stop items)"
    using browse_names [OF assms(1), of "drop (nat start) (take stop items)"] by (metis items_def set_drop_subset set_take_subset subset_trans)
  moreover have "(if end1 < ?n then itoa end1 else '''') = (if stop < length items then itoa (int stop) else '''')"
    using stop by (auto simp: end1_def)
  ultimately show ?thesis
    unfolding browse_page_def Let_def w end1_def [symmetric] start1_def [symmetric] by (simp split del: if_split)
qed


text \<open>Following the cursors: at most \<open>fuel\<close> pages, and nothing when a page fails or there are more.\<close>

fun browse_all :: "StorageEnv \<Rightarrow> Driver \<Rightarrow> StorageResource \<Rightarrow> string \<Rightarrow> int \<Rightarrow> nat \<Rightarrow> string \<Rightarrow> Disk \<Rightarrow> FileEntry list list option" where
  "browse_all env drv storage path limit 0 cursor d = None"
| "browse_all env drv storage path limit (Suc fuel) cursor d =
     (case driver_Browse env drv storage \<lparr>brq_Path = path, brq_Cursor = cursor, brq_Limit = limit\<rparr> d of
        (Ok page, d') \<Rightarrow>
          if bpg_NextCursor page = '''' then Some [bpg_Entries page]
          else map_option ((#) (bpg_Entries page)) (browse_all env drv storage path limit fuel (bpg_NextCursor page) d')
      | _ \<Rightarrow> None)"

definition cursor_at :: "nat \<Rightarrow> string" where
  "cursor_at s = (if s = 0 then '''' else itoa (int s))"

lemma itoa_ne [simp]: "itoa i \<noteq> ''''"
  using nat_digits_ne by (simp add: itoa_def)

lemma browse_all_from:
  assumes "browsable env drv storage path d" and "s \<le> length (listing env drv storage path d)"
    and "length (listing env drv storage path d) < s + fuel * nat (page_limit limit) \<or>
      length (listing env drv storage path d) = s + fuel * nat (page_limit limit) \<and> 0 < fuel"
  shows "\<exists>pages. browse_all env drv storage path limit fuel (cursor_at s) (at_step d k) = Some pages \<and>
    map fe_Name (concat pages) = drop s (listing env drv storage path d) \<and> (\<forall>page \<in> set pages. int (length page) \<le> page_limit limit)"
  using assms(2,3)
proof (induction fuel arbitrary: s k)
  case (Suc fuel)
  let ?items = "listing env drv storage path d" and ?L = "nat (page_limit limit)"
  have s: "int s < 2 ^ 62" using Suc.prems(1) browsable_facts(7) [OF assms(1)] by linarith
  have cur: "(if cursor_at s \<noteq> '''' then Atoi (cursor_at s) else Some 0) = Some (int s)"
    using s by (simp add: cursor_at_def Atoi_itoa)
  have lim: "int s + page_limit limit < 2 ^ 63" using s page_limit_range(2) [of limit] by simp
  obtain page where p: "browse_page env (at_step d k) storage (storage_file env drv storage path) (browse_relative path) ?items (int s) limit = Ok page"
    "map fe_Name (bpg_Entries page) = drop s (take (s + ?L) ?items)"
    "bpg_NextCursor page = (if s + ?L < length ?items then itoa (int (s + ?L)) else '''')"
    using browse_page_ok [OF assms(1) _ lim, of k] by auto
  have len: "int (length (bpg_Entries page)) \<le> page_limit limit" using arg_cong [OF p(2), of length] page_limit_range(1) [of limit] by auto
  note b = browse_start [OF assms(1) cur, of limit k, unfolded p(1)]
  show ?case
  proof (cases "s + ?L < length ?items")
    case True
    have c: "bpg_NextCursor page = cursor_at (s + ?L)" using True p(3) page_limit_range(1) [of limit] by (simp add: cursor_at_def)
    obtain pages where "browse_all env drv storage path limit fuel (cursor_at (s + ?L)) (at_step d (Suc k)) = Some pages"
      "map fe_Name (concat pages) = drop (s + ?L) ?items" "\<forall>page \<in> set pages. int (length page) \<le> page_limit limit"
      using Suc.IH [of "s + ?L" "Suc k"] Suc.prems True by (auto simp: algebra_simps)
    moreover have "drop s (take (s + ?L) ?items) @ drop (s + ?L) ?items = drop s ?items"
      using append_take_drop_id [of ?L "drop s ?items"] by (simp add: drop_take add.commute)
    ultimately show ?thesis using b p c len True by (simp add: cursor_at_def)
  next
    case False
    then show ?thesis using b p len by simp
  qed
qed simp

text \<open>
  Following the cursors of \<^verbatim>\<open>Browse\<close> from the first page lists a directory completely: it ends after at most one page more
  than its size divided by the limit, no page is longer than the limit, and the names on the pages are, in order, those in the
  directory, each once.
\<close>

theorem browse_pages_complete:
  assumes "browsable env drv storage path d"
  shows "\<exists>pages. browse_all env drv storage path limit (Suc (length (dk_nodes d) div nat (page_limit limit))) '''' d = Some pages \<and>
    (\<forall>page \<in> set pages. int (length page) \<le> page_limit limit) \<and>
    sorted (map fe_Name (concat pages)) \<and> distinct (map fe_Name (concat pages)) \<and>
    set (map fe_Name (concat pages)) = {name. plain name \<and> map_of (dk_nodes d) (path_Join (storage_file env drv storage path) name) \<noteq> None}"
proof -
  let ?items = "listing env drv storage path d" and ?L = "nat (page_limit limit)" and ?dir = "storage_file env drv storage path"
  have ok: "disk_ok d" "is_abs ?dir" using assms browsable_facts(2) [OF assms] by (auto simp: browsable_def)
  have "length ?items \<le> length (dk_nodes d)" using child_names_length [of d ?dir] by (simp add: listing_def)
  moreover have "length (dk_nodes d) < Suc (length (dk_nodes d) div ?L) * ?L"
    using dividend_less_div_times [of ?L "length (dk_nodes d)"] page_limit_range(1) [of limit] by simp
  ultimately have "length ?items < 0 + Suc (length (dk_nodes d) div ?L) * ?L" by simp
  then obtain pages where p: "browse_all env drv storage path limit (Suc (length (dk_nodes d) div ?L)) (cursor_at 0) (at_step d (dk_step d)) = Some pages"
    "map fe_Name (concat pages) = drop 0 ?items" "\<forall>page \<in> set pages. int (length page) \<le> page_limit limit"
    using browse_all_from [OF assms le0, of "Suc (length (dk_nodes d) div ?L)" limit "dk_step d"] by blast
  have "set ?items = {name. plain name \<and> map_of (dk_nodes d) (path_Join ?dir name) \<noteq> None}" "distinct ?items" "sorted ?items"
    using child_names_set [OF ok] child_names_distinct [OF ok] by (auto simp: listing_def)
  then show ?thesis using p(1,3) by (intro exI [of _ pages]) (simp only: p(2) drop_0 cursor_at_def at_step_simps simp_thms if_True)
qed

lemma demo_browsable: "browsable demo_senv demo_driver demo_storage '''' demo_files"
proof -
  have n: "dk_nodes (at_step demo_files k) = dk_nodes demo_files" for k by simp
  have p: "browsePath demo_senv demo_driver (at_step demo_files k) demo_storage '''' = Inr (''/data'', '''')" for k
  proof -
    have "storageRoot demo_senv demo_driver demo_storage = Inr ''/data''" "browse_relative '''' = ''''" "path_Join ''/data'' '''' = ''/data''"
      "rev (path_comps ''/data'') = [''data'']" "closest_existing demo_env demo_files [''data''] = Inr ''/data''" by code_simp+
    then show ?thesis
      by (simp add: browsePath_def has_prefix_def is_abs_def demo_senv_def demo_env_def disk_lstat_def fault_def demo_files_def at_step_def)
  qed
  have "storage_file demo_senv demo_driver demo_storage '''' = ''/data''" "disk_ok demo_files" "is_abs (drv_root demo_driver)" by code_simp+
  then show ?thesis unfolding browsable_def using p demo_env_ok
    by (auto simp: demo_senv_def demo_env_def fault_def) (simp_all add: demo_files_def)
qed

theorem browse_pages_complete_witness:
  "\<exists>pages. browse_all demo_senv demo_driver demo_storage '''' 2 3 '''' demo_files = Some pages \<and> sorted (map fe_Name (concat pages)) \<and>
     set (map fe_Name (concat pages)) = {name. plain name \<and> map_of (dk_nodes demo_files) (path_Join ''/data'' name) \<noteq> None}"
proof -
  have "Suc (length (dk_nodes demo_files) div nat (page_limit 2)) = 3" "storage_file demo_senv demo_driver demo_storage '''' = ''/data''" by code_simp+
  then show ?thesis using browse_pages_complete [OF demo_browsable, of 2] by (elim exE) (simp only: simp_thms, metis)
qed


text \<open>
  A cursor that the client chose can make \<^verbatim>\<open>Browse\<close> panic: in a directory that can be listed, it panics exactly when the
  sum of the cursor and the limit does not fit into 64 bits; every smaller cursor, even behind the end, gives a page.
\<close>

theorem browse_panics_iff:
  assumes "browsable env drv storage path d" and "Atoi cursor = Some start" and "0 \<le> start"
  shows "is_panic (fst (driver_Browse env drv storage \<lparr>brq_Path = path, brq_Cursor = cursor, brq_Limit = limit\<rparr> d)) \<longleftrightarrow>
    2 ^ 63 \<le> start + page_limit limit"
proof -
  have "cursor \<noteq> ''''" and hi: "start < 2 ^ 63" using assms(2) by (auto simp: Atoi_def Let_def split: if_splits)
  then have cur: "(if cursor \<noteq> '''' then Atoi cursor else Some 0) = Some start" using assms(2) by simp
  note b = browse_start [OF assms(1) cur assms(3), of limit "dk_step d", simplified]
  show ?thesis
  proof (cases "start + page_limit limit < 2 ^ 63")
    case True
    then show ?thesis using browse_page_ok [OF assms(1,3) True, of "dk_step d"] b by auto
  next
    case False
    have "wrap64 (start + page_limit limit) < 0" using False hi page_limit_range(2) [of limit] by (intro wrap64_over) auto
    then show ?thesis using b False assms(3) by (simp add: browse_page_def Let_def)
  qed
qed

theorem browse_panics_iff_witness:
  "is_panic (fst (driver_Browse demo_senv demo_driver demo_storage
     \<lparr>brq_Path = '''', brq_Cursor = ''9223372036854775807'', brq_Limit = 0\<rparr> demo_files))"
proof -
  have "Atoi ''9223372036854775807'' = Some 9223372036854775807" by code_simp
  from browse_panics_iff [OF demo_browsable this, of 0] show ?thesis by (simp add: page_limit_def)
qed


end
