(* ===== verification/Storage_Index_Properties.thy ===== *)
theory Storage_Index_Properties
  imports Storage_Repository Storage_File_Properties
begin

text \<open>
  Index runs of the storage service on the repository and the file-system driver: they are bounded, and two ways in
  which they fail. Two locales say what the walks rely on: the cost of a listing, and that reading changes nothing.
\<close>

section \<open>Index runs\<close>

lemma index_limit_range: "1 \<le> index_limit p" "index_limit p \<le> 100000"
  by (simp_all add: index_limit_def)

text \<open>What an index run relies on: the cost of a listing. The cost of a walk is bounded by the entries it counts.\<close>

locale costed_browser =
  fixes b :: "'w StorageBrowser" and cost :: "'w \<Rightarrow> nat"
  assumes browse_cost: "sb_Browse b v r w = (page, w') \<Longrightarrow> cost w' \<le> Suc (cost w)"
begin

definition bounded :: "int \<Rightarrow> nat \<Rightarrow> 'w walk \<Rightarrow> bool" where
  "bounded limit extra f \<longleftrightarrow> (\<forall>n w r n' w'. n \<le> limit \<longrightarrow> f (n, w) = (r, n', w') \<longrightarrow>
     n \<le> n' \<and> n' \<le> limit \<and> int (cost w') \<le> int (cost w) + (n' - n) + int extra)"

lemma boundedD:
  "bounded limit extra f \<Longrightarrow> n \<le> limit \<Longrightarrow> f (n, w) = (r, n', w') \<Longrightarrow>
     n \<le> n' \<and> n' \<le> limit \<and> int (cost w') \<le> int (cost w) + (n' - n) + int extra"
  unfolding bounded_def by blast

lemma bounded_entries:
  assumes "\<And>f p. sub = Some f \<Longrightarrow> bounded (isn_limit c) 1 (f p)" and "n < isn_limit c"
    and "index_entries c sub es (n, w) = (r, n', w')"
  shows "n \<le> n' \<and> n' \<le> isn_limit c \<and> int (cost w') \<le> int (cost w) + (n' - n)"
  using assms(2,3)
proof (induction es arbitrary: n w)
  case (Cons x xs)
  let ?p = "sto_IndexPolicy (isn_storage c)"
  show ?case
  proof (cases "excluded (isn_service c) (fe_Path x) (ixp_Exclude ?p) \<or>
      fe_Type x \<noteq> FileEntryDirectory \<and> \<not> included (isn_service c) (fe_Path x) (ixp_Include ?p)")
    case True
    then show ?thesis using Cons by (auto split: if_splits)
  next
    case False
    define step where "step = (if fe_Type x = FileEntryDirectory then (case sub of None \<Rightarrow> (Ok (), n + 1, w) | Some f \<Rightarrow> f (fe_Path x) (n + 1, w)) else (Ok (), n + 1, w))"
    obtain r1 n1 w1 where s: "step = (r1, n1, w1)" by (cases step)
    have b: "n + 1 \<le> n1 \<and> n1 \<le> isn_limit c \<and> int (cost w1) \<le> int (cost w) + (n1 - n)"
    proof (cases "fe_Type x = FileEntryDirectory \<and> sub \<noteq> None")
      case True
      then obtain f where f: "sub = Some f" by blast
      then have "f (fe_Path x) (n + 1, w) = (r1, n1, w1)" using True s by (simp add: step_def)
      then have "n + 1 \<le> n1 \<and> n1 \<le> isn_limit c \<and> int (cost w1) \<le> int (cost w) + (n1 - (n + 1)) + int 1"
        using boundedD [OF assms(1) [OF f], of "n + 1"] Cons.prems(1) by simp
      then show ?thesis by simp
    next
      case False
      then have "step = (Ok (), n + 1, w)" by (auto simp: step_def split: option.split)
      then show ?thesis using s Cons.prems(1) by simp
    qed
    have eq: "index_entries c sub (x # xs) (n, w) =
        (case r1 of Ok _ \<Rightarrow> if n1 \<ge> isn_limit c then (Ok (), n1, w1) else index_entries c sub xs (n1, w1) | Err e \<Rightarrow> (Err e, n1, w1) | Panic m \<Rightarrow> (Panic m, n1, w1))"
      using False s [unfolded step_def] by (cases r1) (auto split del: if_split)
    show ?thesis
    proof (cases "is_ok r1 \<and> n1 < isn_limit c")
      case True
      then have "index_entries c sub xs (n1, w1) = (r, n', w')" using eq Cons.prems(2) by (cases r1) auto
      then show ?thesis using Cons.IH [of n1 w1] b True by fastforce
    next
      case False
      then have "(n', w') = (n1, w1)" using eq Cons.prems(2) by (cases r1) (auto split: if_splits)
      then show ?thesis using b by simp
    qed
  qed
qed simp

lemma bounded_dir:
  assumes "isn_browser c = b" and "\<And>f q. sub = Some f \<Longrightarrow> bounded (isn_limit c) 1 (f q)"
  shows "bounded (isn_limit c) 1 (index_dir c sub p)"
  unfolding bounded_def
proof (intro allI impI)
  fix n w r n' w'
  assume n: "n \<le> isn_limit c" and d: "index_dir c sub p (n, w) = (r, n', w')"
  show "n \<le> n' \<and> n' \<le> isn_limit c \<and> int (cost w') \<le> int (cost w) + (n' - n) + int 1"
  proof (cases "isn_ctx c w = None \<and> n < isn_limit c")
    case True
    obtain q w1 where q: "sb_Browse b (isn_storage c) \<lparr>brq_Path = p, brq_Cursor = '''', brq_Limit = 500\<rparr> w = (q, w1)" by fastforce
    note cost = browse_cost [OF q]
    show ?thesis
    proof (cases q)
      case (Ok page)
      then have "index_entries c sub (bpg_Entries page) (n, w1) = (r, n', w')" using d q True assms(1) by (simp add: index_dir_def)
      then have "n \<le> n' \<and> n' \<le> isn_limit c \<and> int (cost w') \<le> int (cost w1) + (n' - n)"
        using True assms(2) by (intro bounded_entries) auto
      then show ?thesis using cost by simp
    qed (use d q True assms(1) cost n in \<open>auto simp: index_dir_def\<close>)
  qed (use d n in \<open>auto simp: index_dir_def split: option.splits if_splits\<close>)
qed

lemma bounded_walk: "isn_browser c = b \<Longrightarrow> bounded (isn_limit c) 1 (index_walk c left p)"
proof (induction left arbitrary: p)
  case 0
  then show ?case using bounded_dir [of c None p] by simp
next
  case (Suc left)
  have "bounded (isn_limit c) 1 (index_dir c (Some (index_walk c left)) p)" by (rule bounded_dir) (use Suc in auto)
  then show ?case by simp
qed

lemma bounded_roots: "isn_browser c = b \<Longrightarrow> bounded (isn_limit c) (length rs) (index_roots c depth rs)"
proof (induction rs)
  case (Cons r rs)
  show ?case unfolding bounded_def
  proof (intro allI impI)
    fix n w res n' w'
    assume n: "n \<le> isn_limit c" and i: "index_roots c depth (r # rs) (n, w) = (res, n', w')"
    obtain r1 n1 w1 where s: "index_walk c depth r (n, w) = (r1, n1, w1)" by (metis prod_cases3)
    have b: "n \<le> n1 \<and> n1 \<le> isn_limit c \<and> int (cost w1) \<le> int (cost w) + (n1 - n) + 1"
      using boundedD [OF bounded_walk [OF Cons.prems] n s] by simp
    show "n \<le> n' \<and> n' \<le> isn_limit c \<and> int (cost w') \<le> int (cost w) + (n' - n) + int (length (r # rs))"
    proof (cases "is_ok r1")
      case True
      then have "index_roots c depth rs (n1, w1) = (res, n', w')" using i s by (cases r1) auto
      then have "n1 \<le> n' \<and> n' \<le> isn_limit c \<and> int (cost w') \<le> int (cost w1) + (n' - n1) + int (length rs)"
        using boundedD [OF Cons.IH [OF Cons.prems]] b by blast
      then show ?thesis using b by simp
    next
      case False
      then have "(n', w') = (n1, w1)" using i s by (cases r1) auto
      then show ?thesis using b by simp
    qed
  qed
qed (simp add: bounded_def)

end

text \<open>A listing of the file-system driver is one step of the disk.\<close>

definition disk_steps :: "StorageWorld \<Rightarrow> nat" where
  "disk_steps w = dk_step (swd_disk w)"

interpretation disk: costed_browser "driver_browser env drv" disk_steps for env drv
  by unfold_locales (auto simp: driver_browser_def on_disk_def driver_Browse_def tick_def disk_steps_def split: prod.splits)

section \<open>The service on the local file system\<close>

text \<open>The service as the server builds it, with the repository as catalog and one driver for local storages.\<close>

definition local_service :: "RepositoryEnv \<Rightarrow> StorageEnv \<Rightarrow> Driver \<Rightarrow> StorageWorld BrowserCoordinator \<Rightarrow> bool" where
  "local_service renv env drv s \<longleftrightarrow> bc_catalog s = repository_catalog renv \<and> bc_resolver s = registry_Browser [(StorageLocal, driver_browser env drv)]"

lemma resolver_local: "local_service renv env drv s \<Longrightarrow> bc_resolver s t = Inr b \<Longrightarrow> b = driver_browser env drv"
  by (auto simp: local_service_def registry_Browser_def split: if_splits)

lemma on_db_disk [simp]: "swd_disk (snd (on_db f w)) = swd_disk w"
  by (simp add: on_db_def split: prod.split)

lemma on_disk_db [simp]: "swd_db (snd (on_disk f w)) = swd_db w"
  by (simp add: on_disk_def split: prod.split)

lemma save_index_steps [simp]: "local_service renv env drv s \<Longrightarrow> disk_steps (snd (sc_SaveIndexRun (bc_catalog s) ctx run w)) = disk_steps w"
  by (simp add: local_service_def repository_catalog_def disk_steps_def)

lemma find_local:
  assumes "local_service renv env drv s"
  shows "find_storage s ident w = ((case repo_FindStorage renv ident (swd_db w) of Inl e \<Rightarrow> Inl e | Inr None \<Rightarrow> Inl storage_not_found | Inr (Some v) \<Rightarrow> Inr v), w)"
  using assms by (auto simp: find_storage_def local_service_def repository_catalog_def on_db_def split: sum.split option.split)

text \<open>The scan of an index run: the result of the walks over all roots.\<close>

definition index_scan :: "StorageWorld BrowserCoordinator \<Rightarrow> StorageWorld ctx \<Rightarrow> StorageResource \<Rightarrow> StorageWorld \<Rightarrow> unit result \<times> int \<times> StorageWorld" where
  "index_scan s ctx v w =
     (case bc_resolver s (sto_Type v) of
        Inl e \<Rightarrow> (Err e, 0, w)
      | Inr b \<Rightarrow> index_roots \<lparr>isn_service = s, isn_browser = b, isn_storage = v, isn_limit = index_limit (sto_IndexPolicy v), isn_ctx = ctx\<rparr>
                   (nat (index_depth (sto_IndexPolicy v))) (index_roots_of v) (0, w))"

lemma index_scan_bounded:
  assumes "local_service renv env drv s" and "index_scan s ctx v w = (r, n, w')"
  shows "0 \<le> n \<and> n \<le> index_limit (sto_IndexPolicy v) \<and> int (disk_steps w') \<le> int (disk_steps w) + n + int (length (index_roots_of v))"
proof (cases "bc_resolver s (sto_Type v)")
  case (Inl e)
  then show ?thesis using assms(2) index_limit_range(1) [of "sto_IndexPolicy v"] by (auto simp: index_scan_def)
next
  case (Inr b)
  let ?c = "\<lparr>isn_service = s, isn_browser = b, isn_storage = v, isn_limit = index_limit (sto_IndexPolicy v), isn_ctx = ctx\<rparr>"
  have "isn_browser ?c = driver_browser env drv" using resolver_local [OF assms(1) Inr] by simp
  note b = disk.bounded_roots [OF this, of "index_roots_of v" "nat (index_depth (sto_IndexPolicy v))"]
  have "index_roots ?c (nat (index_depth (sto_IndexPolicy v))) (index_roots_of v) (0, w) = (r, n, w')" using assms(2) Inr by (simp add: index_scan_def)
  from disk.boundedD [OF b _ this] show ?thesis using index_limit_range(1) [of "sto_IndexPolicy v"] by simp
qed

text \<open>An index run that starts is saved as running, scans, and ends with what the scan gave.\<close>

lemma StartIndex_scan:
  assumes "local_service renv env drv s" and "storage_StartIndex s ctx0 ident runID w = (Ok (run, e), w')"
    and "repo_FindStorage renv ident (swd_db w) = Inr (Some v)" and "ixp_Enabled (sto_IndexPolicy v)"
  obtains started ctx r w2 w3 where "index_scan s ctx v w2 = (r, ixr_IndexedEntries run, w3)"
    and "w2 = snd (sc_SaveIndexRun (bc_catalog s) ctx0 started w)" and "w' = snd (sc_SaveIndexRun (bc_catalog s) ctx run w3)"
    and "ixr_Status run = (if is_ok r then ''completed'' else ''failed'')" and "e = None \<longleftrightarrow> is_ok r" and "\<not> is_panic r"
    and "ixr_ID started = runID" and "ixr_ID run = runID" and "ixr_Status started = ''running''"
    and "ixp_TimeoutSeconds (sto_IndexPolicy v) > 0 \<longrightarrow> ctx = with_timeout (bc_now s) w2 (ixp_TimeoutSeconds (sto_IndexPolicy v)) ctx0"
proof -
  define started where "started = \<lparr>ixr_ID = runID, ixr_StorageID = ident, ixr_Status = ''running'', ixr_IndexedEntries = 0, ixr_Error = [], ixr_CreatedAt = bc_now s w, ixr_FinishedAt = 0\<rparr>"
  define w2 where "w2 = snd (sc_SaveIndexRun (bc_catalog s) ctx0 started w)"
  define ctx where "ctx = (if ixp_TimeoutSeconds (sto_IndexPolicy v) > 0 then with_timeout (bc_now s) w2 (ixp_TimeoutSeconds (sto_IndexPolicy v)) ctx0 else ctx0)"
  obtain r n w3 where i: "index_scan s ctx v w2 = (r, n, w3)" by (metis prod_cases3)
  have started: "started = \<lparr>ixr_ID = [], ixr_StorageID = [], ixr_Status = [], ixr_IndexedEntries = 0, ixr_Error = [], ixr_CreatedAt = 0, ixr_FinishedAt = 0\<rparr>
      \<lparr>ixr_ID := runID, ixr_StorageID := ident, ixr_Status := ''running'', ixr_CreatedAt := bc_now s w\<rparr>" by (simp add: started_def)
  have c: "(case (r, n, w3) of
           (Panic m, n, w3) \<Rightarrow> (Panic m, w3)
         | (Ok _, n, w3) \<Rightarrow>
            (let d = started\<lparr>ixr_IndexedEntries := n, ixr_FinishedAt := bc_now s w3, ixr_Status := ''completed''\<rparr>
             in (Ok (d, None), snd (sc_SaveIndexRun (bc_catalog s) ctx d w3)))
         | (Err e, n, w3) \<Rightarrow>
            (let f = started\<lparr>ixr_IndexedEntries := n, ixr_FinishedAt := bc_now s w3, ixr_Status := ''failed'', ixr_Error := error_text e\<rparr>
             in (Ok (f, Some e), snd (sc_SaveIndexRun (bc_catalog s) ctx f w3)))) = (Ok (run, e), w')"
    unfolding i [symmetric] index_scan_def unfolding ctx_def w2_def unfolding started
    using assms(2) assms(4) by (simp only: storage_StartIndex_def Let_def find_local [OF assms(1)] assms(3) sum.case option.case prod.case simp_thms if_False)
  have f: "n = ixr_IndexedEntries run \<and> w' = snd (sc_SaveIndexRun (bc_catalog s) ctx run w3) \<and> ixr_ID run = runID \<and> \<not> is_panic r \<and>
      ixr_Status run = (if is_ok r then ''completed'' else ''failed'') \<and> (e = None \<longleftrightarrow> is_ok r)"
    using c by (cases r) (auto simp: Let_def started_def)
  show ?thesis by (rule that [of ctx w2 r w3 started]) (use f i in \<open>simp_all add: w2_def started_def ctx_def\<close>)
qed

text \<open>
  Index runs are bounded: whatever the disk contains and however it fails, an index run counts at most as many entries as its
  policy allows, never more than 100000, and lists at most one directory for every entry it counts and every root.
\<close>

theorem index_run_bounded:
  assumes "local_service renv env drv s" and "storage_StartIndex s ctx ident runID w = (Ok (run, e), w')"
    and "repo_FindStorage renv ident (swd_db w) = Inr (Some v)" and "ixp_Enabled (sto_IndexPolicy v)"
  shows "0 \<le> ixr_IndexedEntries run \<and> ixr_IndexedEntries run \<le> index_limit (sto_IndexPolicy v) \<and> ixr_IndexedEntries run \<le> 100000 \<and>
    int (disk_steps w') \<le> int (disk_steps w) + ixr_IndexedEntries run + int (length (index_roots_of v))"
proof -
  obtain started ctx' r w2 w3 where i: "index_scan s ctx' v w2 = (r, ixr_IndexedEntries run, w3)"
    and "w2 = snd (sc_SaveIndexRun (bc_catalog s) ctx started w)" and "w' = snd (sc_SaveIndexRun (bc_catalog s) ctx' run w3)"
    by (rule StartIndex_scan [OF assms])
  then have "disk_steps w2 = disk_steps w" "disk_steps w' = disk_steps w3" using assms(1) by simp_all
  then show ?thesis using index_scan_bounded [OF assms(1) i] index_limit_range(2) [of "sto_IndexPolicy v"] by simp
qed


section \<open>Reading changes nothing\<close>

text \<open>A part of the state that listing and opening leave alone is left alone by index runs and by the archiver.\<close>

locale framed_browser =
  fixes b :: "'w StorageBrowser" and part :: "'w \<Rightarrow> 'p"
  assumes browse_frame: "sb_Browse b v r w = (page, w') \<Longrightarrow> part w' = part w"
    and open_frame: "sb_Open b v p w = (body, w') \<Longrightarrow> part w' = part w"
begin

definition framed :: "'w walk \<Rightarrow> bool" where
  "framed f \<longleftrightarrow> (\<forall>n w r n' w'. f (n, w) = (r, n', w') \<longrightarrow> part w' = part w)"

lemma framed_entries: "\<forall>f p. sub = Some f \<longrightarrow> framed (f p) \<Longrightarrow> index_entries c sub es (n, w) = (r, n', w') \<Longrightarrow> part w' = part w"
proof (induction es arbitrary: n w)
  case (Cons x xs)
  let ?p = "sto_IndexPolicy (isn_storage c)"
  define step where "step = (if fe_Type x = FileEntryDirectory then (case sub of None \<Rightarrow> (Ok (), n + 1, w) | Some f \<Rightarrow> f (fe_Path x) (n + 1, w)) else (Ok (), n + 1, w))"
  obtain r1 n1 w1 where s: "step = (r1, n1, w1)" by (cases step)
  have w1: "part w1 = part w" using s Cons.prems(1) unfolding step_def framed_def by (auto split: if_splits option.splits)
  consider (skip) "index_entries c sub xs (n, w) = (r, n', w')" | (stop) "w' = w1" | (more) "index_entries c sub xs (n1, w1) = (r, n', w')"
    using Cons.prems(2) s [unfolded step_def] by (cases r1) (auto split: if_splits)
  then show ?case using Cons.IH [OF Cons.prems(1)] w1 by cases auto
qed simp

lemma framed_dir:
  assumes "isn_browser c = b" and "\<forall>f q. sub = Some f \<longrightarrow> framed (f q)"
  shows "framed (index_dir c sub p)"
  unfolding framed_def
proof (intro allI impI)
  fix n w r n' w'
  assume d: "index_dir c sub p (n, w) = (r, n', w')"
  obtain q w1 where q: "sb_Browse b (isn_storage c) \<lparr>brq_Path = p, brq_Cursor = [], brq_Limit = 500\<rparr> w = (q, w1)" by fastforce
  consider (same) "w' = w" | (stop) "w' = w1" | (page) page :: BrowsePage where "index_entries c sub (bpg_Entries page) (n, w1) = (r, n', w')"
    using d q assms(1) by (cases q; simp add: index_dir_def split: option.splits if_splits)
  then show "part w' = part w"
  proof cases
    case page
    then show ?thesis using framed_entries [OF assms(2) page] browse_frame [OF q] by simp
  qed (use browse_frame [OF q] in auto)
qed

lemma framed_walk: "isn_browser c = b \<Longrightarrow> framed (index_walk c left p)"
proof (induction left arbitrary: p)
  case (Suc left)
  then show ?case by (auto intro: framed_dir)
qed (auto intro: framed_dir)

lemma framed_roots: "isn_browser c = b \<Longrightarrow> index_roots c depth rs (n, w) = (r, n', w') \<Longrightarrow> part w' = part w"
proof (induction rs arbitrary: n w)
  case (Cons p rs)
  obtain r1 n1 w1 where s: "index_walk c depth p (n, w) = (r1, n1, w1)" by (metis prod_cases3)
  then have "part w1 = part w" using framed_walk [OF Cons.prems(1)] unfolding framed_def by blast
  then show ?case using Cons s by (cases r1) auto
qed simp

lemma archive_entries_frame:
  "(\<And>p w r ts w'. sub p w = Some (r, ts, w') \<Longrightarrow> part w' = part w) \<Longrightarrow>
   archive_entries s b storage sub es w = Some (r, ts, w') \<Longrightarrow> part w' = part w"
proof (induction es arbitrary: w ts)
  case (Cons x xs)
  show ?case
  proof (cases "fe_Type x = FileEntrySymlink")
    case False
    define step where "step = (if fe_Type x = FileEntryDirectory then sub (fe_Path x) w
              else case sb_Open b storage (fe_Path x) w of
                (Inl e, w1) \<Rightarrow> Some (Err e, [], w1)
              | (Inr ((data, failure), _), w1) \<Rightarrow>
                 (let t = \<lparr>tar_Name = trim_prefix (fe_Path x) ''/'', tar_Size = fe_SizeBytes x, tar_ModTime = fe_ModifiedAt x, tar_Body = data\<rparr>
                  in case bc_tarfail s t of
                    Some e \<Rightarrow> Some (Err e, [], w1)
                  | None \<Rightarrow> (case failure of Some e \<Rightarrow> Some (Err e, [t], w1) | None \<Rightarrow> Some (Ok (), [t], w1))))"
    have eq: "archive_entries s b storage sub (x # xs) w = (case step of
          None \<Rightarrow> None
        | Some (Ok _, ts, w1) \<Rightarrow>
            (case archive_entries s b storage sub xs w1 of None \<Rightarrow> None | Some (r, us, w2) \<Rightarrow> Some (r, ts @ us, w2))
        | Some (failure, ts, w1) \<Rightarrow> Some (failure, ts, w1))" using False by (simp only: archive_entries.simps step_def if_False)
    obtain r1 us w1 where s: "step = Some (r1, us, w1)" using Cons.prems(2) eq by (cases step) auto
    have w1: "part w1 = part w" using s Cons.prems(1) open_frame unfolding step_def Let_def
      by (fastforce split: if_splits option.splits sum.splits prod.splits)
    consider "w' = w1" | vs where "archive_entries s b storage sub xs w1 = Some (r, vs, w')"
      using Cons.prems(2) eq s by (cases r1) (auto split: option.splits)
    then show ?thesis using Cons.IH [OF Cons.prems(1)] w1 by cases auto
  qed (use Cons in simp)
qed simp

lemma writeArchive_frame: "writeArchive s b storage fuel dir w = Some (r, ts, w') \<Longrightarrow> part w' = part w"
proof (induction fuel arbitrary: dir w r ts w')
  case (Suc fuel)
  obtain q w1 where q: "sb_Browse b storage \<lparr>brq_Path = dir, brq_Cursor = '''', brq_Limit = 500\<rparr> w = (q, w1)" by fastforce
  show ?case
  proof (cases q)
    case (Ok page)
    then have "archive_entries s b storage (writeArchive s b storage fuel) (bpg_Entries page) w1 = Some (r, ts, w')" using Suc.prems q by simp
    from archive_entries_frame [OF Suc.IH this] show ?thesis using browse_frame [OF q] by simp
  qed (use Suc.prems q browse_frame [OF q] in auto)
qed simp

end

text \<open>The driver reads: the database and the contents of all files stay.\<close>

definition stored :: "StorageWorld \<Rightarrow> StorageDB \<times> (string \<Rightarrow> string option)" where
  "stored w = (swd_db w, file_content (swd_disk w))"

lemma driver_Open_tick: "driver_Open env drv v p d = (r, d') \<Longrightarrow> file_content d' = file_content d"
  by (auto simp: driver_Open_def driver_BrowseStat_def split: sum.splits if_splits)

interpretation disk: framed_browser "driver_browser env drv" stored for env drv
  by unfold_locales (auto simp: driver_browser_def on_disk_def driver_Browse_def stored_def driver_Open_tick split: prod.splits)

lemma index_scan_stored:
  assumes "local_service renv env drv s" and "index_scan s ctx v w = (r, n, w')"
  shows "stored w' = stored w"
proof (cases "bc_resolver s (sto_Type v)")
  case (Inr b)
  let ?c = "\<lparr>isn_service = s, isn_browser = b, isn_storage = v, isn_limit = index_limit (sto_IndexPolicy v), isn_ctx = ctx\<rparr>"
  have "isn_browser ?c = driver_browser env drv" using resolver_local [OF assms(1) Inr] by simp
  then show ?thesis by (rule disk.framed_roots) (use assms(2) Inr in \<open>simp add: index_scan_def\<close>)
qed (use assms in \<open>auto simp: index_scan_def\<close>)


text \<open>
  A service without failures: an index policy for two entries within a second, a disk call takes a second, and the tar
  stream is the concatenation of the files.
\<close>

definition demo_policy :: IndexPolicy where
  "demo_policy = \<lparr>ixp_Enabled = True, ixp_Roots = [], ixp_MaxDepth = 1, ixp_MaxEntries = 2, ixp_Include = [], ixp_Exclude = [], ixp_TimeoutSeconds = 1\<rparr>"

definition demo_renv :: RepositoryEnv where
  "demo_renv = \<lparr>rp_fault = (\<lambda>_ _. None),
     rp_root = (\<lambda>a. \<lparr>sbr_Path = (case a of AnyString p \<Rightarrow> p | _ \<Rightarrow> []), sbr_Label = [], sbr_ReadOnly = False\<rparr>),
     rp_policy = (\<lambda>a. case a of AnyString r \<Rightarrow> demo_policy\<lparr>ixp_Roots := [r]\<rparr> | _ \<Rightarrow> demo_policy), rp_base = path_Base\<rparr>"

definition demo_service :: "StorageWorld BrowserCoordinator" where
  "demo_service = \<lparr>bc_catalog = repository_catalog demo_renv, bc_resolver = registry_Browser [(StorageLocal, driver_browser demo_senv demo_driver)],
     bc_now = (\<lambda>w. int (disk_steps w) * 1000000000), bc_match = (\<lambda>_ _. False), bc_lower = (\<lambda>s. s), bc_sha = (\<lambda>s. s), bc_base = path_Base,
     bc_tar = (\<lambda>ts. concat (map tar_Body ts)), bc_tarfail = (\<lambda>_. None)\<rparr>"

definition demo_world :: "any \<Rightarrow> (string, DownloadRun) gomap \<Rightarrow> StorageWorld" where
  "demo_world policy downloads = \<lparr>swd_db = \<lparr>sdb_versions = [], sdb_storages = [(''s'', demo_storage\<lparr>sto_Configuration :=
       [(''browseRoots'', AnyList [AnyString ''/data'']), (''indexPolicy'', policy)]\<rparr>)], sdb_downloads = downloads, sdb_indexes = [], sdb_objects = [],
       sdb_instances = [], sdb_locations = [], sdb_artifacts = [], sdb_variants = [], sdb_endpoints = [], sdb_places = []\<rparr>,
     swd_disk = demo_files\<rparr>"

lemma demo_service_local: "local_service demo_renv demo_senv demo_driver demo_service"
  by (simp add: local_service_def demo_service_def)

definition demo_found :: "any \<Rightarrow> StorageResource" where
  "demo_found policy = scan_storage demo_renv (demo_storage\<lparr>sto_Configuration := [(''browseRoots'', AnyList [AnyString ''/data'']), (''indexPolicy'', policy)]\<rparr>)"

lemma demo_find: "repo_FindStorage demo_renv ''s'' (swd_db (demo_world policy downloads)) = Inr (Some (demo_found policy))"
  by (simp add: repo_FindStorage_def demo_renv_def demo_world_def demo_found_def)

theorem index_run_bounded_witness:
  "\<exists>run e w'. storage_StartIndex demo_service (\<lambda>_. None) ''s'' ''i'' (demo_world (AnyString '''') []) = (Ok (run, e), w') \<and>
     ixr_IndexedEntries run \<le> 2 \<and> int (disk_steps w') \<le> ixr_IndexedEntries run + 1"
proof -
  have "is_ok (fst (storage_StartIndex demo_service (\<lambda>_. None) ''s'' ''i'' (demo_world (AnyString '''') [])))" by code_simp
  then obtain run e w' where i: "storage_StartIndex demo_service (\<lambda>_. None) ''s'' ''i'' (demo_world (AnyString '''') []) = (Ok (run, e), w')"
    by (cases "storage_StartIndex demo_service (\<lambda>_. None) ''s'' ''i'' (demo_world (AnyString '''') [])") (auto elim!: is_ok.elims)
  have f: "ixp_Enabled (sto_IndexPolicy (demo_found (AnyString '''')))" "index_limit (sto_IndexPolicy (demo_found (AnyString ''''))) = 2"
    "length (index_roots_of (demo_found (AnyString ''''))) = 1" "disk_steps (demo_world (AnyString '''') []) = 0" by code_simp+
  show ?thesis using index_run_bounded [OF demo_service_local i demo_find f(1)] i f by auto
qed

text \<open>
  An index run without roots of its own fails: it takes the paths of the browse roots, which name directories of the machine, for
  paths relative to a root, and looks for the root inside the root. When there is no such directory, nothing is indexed.
\<close>

theorem default_index_fails:
  assumes "local_service renv env drv s" and "storage_StartIndex s ctx ident runID w = (Ok (run, e), w')"
    and "repo_FindStorage renv ident (swd_db w) = Inr (Some v)" and "ixp_Enabled (sto_IndexPolicy v)"
    and "ixp_Roots (sto_IndexPolicy v) = []" and "sto_BrowseRoots v = r # rs"
    and "map_of (dk_nodes (swd_disk w)) (storage_file env drv v (sbr_Path r)) = None"
  shows "ixr_Status run = ''failed'' \<and> ixr_IndexedEntries run = 0"
proof -
  obtain started ctx' res w2 w3 where i: "index_scan s ctx' v w2 = (res, ixr_IndexedEntries run, w3)"
    and w2: "w2 = snd (sc_SaveIndexRun (bc_catalog s) ctx started w)"
    and st: "ixr_Status run = (if is_ok res then ''completed'' else ''failed'')"
    by (rule StartIndex_scan [OF assms(1-4)])
  have disk: "swd_disk w2 = swd_disk w" using assms(1) w2 by (simp add: local_service_def repository_catalog_def)
  have "\<not> is_ok res \<and> ixr_IndexedEntries run = 0"
  proof (cases "bc_resolver s (sto_Type v)")
    case (Inr b)
    have b: "b = driver_browser env drv" by (rule resolver_local [OF assms(1) Inr])
    let ?c = "\<lparr>isn_service = s, isn_browser = b, isn_storage = v, isn_limit = index_limit (sto_IndexPolicy v), isn_ctx = ctx'\<rparr>"
    let ?q = "\<lparr>brq_Path = sbr_Path r, brq_Cursor = '''', brq_Limit = 500\<rparr>"
    have "\<exists>e. fst (driver_Browse env drv v ?q (swd_disk w2)) = Err e"
      using browsePath_iff [of env drv "swd_disk w2" v "sbr_Path r"] assms(7) disk
      by (auto simp: driver_Browse_def read_dir_def split: sum.split option.split)
    then obtain e w4 where q: "sb_Browse b v ?q w2 = (Err e, w4)"
      by (cases "driver_Browse env drv v ?q (swd_disk w2)") (auto simp: b driver_browser_def on_disk_def)
    have "\<exists>e w5. index_dir ?c sub (sbr_Path r) (0, w2) = (Err e, 0, w5)" for sub
      using q index_limit_range(1) [of "sto_IndexPolicy v"] by (auto simp: index_dir_def split: option.split)
    then have "\<exists>e w5. index_walk ?c depth (sbr_Path r) (0, w2) = (Err e, 0, w5)" for depth by (cases depth) auto
    then have "\<exists>e w5. index_roots ?c depth (sbr_Path r # ps) (0, w2) = (Err e, 0, w5)" for depth ps by (metis (no_types, lifting) index_roots.simps(2) prod.case result.case(2))
    then have "\<exists>e w5. index_scan s ctx' v w2 = (Err e, 0, w5)" using Inr assms(5,6) by (simp add: index_scan_def index_roots_of_def)
    then show ?thesis using i by auto
  qed (use i in \<open>auto simp: index_scan_def\<close>)
  then show ?thesis using st by simp
qed

theorem default_index_fails_witness:
  "\<exists>run e w'. storage_StartIndex demo_service (\<lambda>_. None) ''s'' ''i'' (demo_world AnyNil []) = (Ok (run, e), w') \<and>
     ixr_Status run = ''failed'' \<and> ixr_IndexedEntries run = 0"
proof -
  have "is_ok (fst (storage_StartIndex demo_service (\<lambda>_. None) ''s'' ''i'' (demo_world AnyNil [])))" by code_simp
  then obtain run e w' where i: "storage_StartIndex demo_service (\<lambda>_. None) ''s'' ''i'' (demo_world AnyNil []) = (Ok (run, e), w')"
    by (cases "storage_StartIndex demo_service (\<lambda>_. None) ''s'' ''i'' (demo_world AnyNil [])") (auto elim!: is_ok.elims)
  have f: "ixp_Enabled (sto_IndexPolicy (demo_found AnyNil))" "ixp_Roots (sto_IndexPolicy (demo_found AnyNil)) = []"
    "sto_BrowseRoots (demo_found AnyNil) = [\<lparr>sbr_Path = ''/data'', sbr_Label = '''', sbr_ReadOnly = False\<rparr>]"
    "map_of (dk_nodes (swd_disk (demo_world AnyNil []))) (storage_file demo_senv demo_driver (demo_found AnyNil) ''/data'') = None" by code_simp+
  show ?thesis using default_index_fails [OF demo_service_local i demo_find f(1,2,3)] i f(4) by auto
qed


text \<open>
  An index run that ends after the time of its policy is over stays \<^verbatim>\<open>running\<close> in the database for ever: the save that
  should record its end uses the context that has ended, and is refused; the caller alone learns the outcome.
\<close>

theorem late_index_stays_running:
  assumes "local_service renv env drv s" and "storage_StartIndex s ctx ident runID w = (Ok (run, e), w')"
    and "repo_FindStorage renv ident (swd_db w) = Inr (Some v)" and "ixp_Enabled (sto_IndexPolicy v)"
    and "rp_fault renv (swd_db w) ''save index run'' = None" and "ctx w = None"
    and "\<And>u db. bc_now s (u\<lparr>swd_db := db\<rparr>) = bc_now s u"
    and "ixp_TimeoutSeconds (sto_IndexPolicy v) > 0" and "bc_now s w' \<ge> bc_now s w + wrap64 (ixp_TimeoutSeconds (sto_IndexPolicy v) * 1000000000)"
  shows "\<exists>row. map_of (sdb_indexes (swd_db w')) runID = Some row \<and> ixr_Status row = ''running'' \<and> ixr_Status run \<in> {''completed'', ''failed''}"
proof -
  obtain started ctx' res w2 w3 where i: "index_scan s ctx' v w2 = (res, ixr_IndexedEntries run, w3)"
    and w2: "w2 = snd (sc_SaveIndexRun (bc_catalog s) ctx started w)" and w': "w' = snd (sc_SaveIndexRun (bc_catalog s) ctx' run w3)"
    and st: "ixr_Status run = (if is_ok res then ''completed'' else ''failed'')" "ixr_ID started = runID" "ixr_Status started = ''running''"
    and ctx': "ixp_TimeoutSeconds (sto_IndexPolicy v) > 0 \<longrightarrow> ctx' = with_timeout (bc_now s) w2 (ixp_TimeoutSeconds (sto_IndexPolicy v)) ctx"
    by (rule StartIndex_scan [OF assms(1-4)])
  have cat: "bc_catalog s = repository_catalog renv" using assms(1) by (simp add: local_service_def)
  have w2': "w2 = w\<lparr>swd_db := (swd_db w)\<lparr>sdb_indexes := upsert_index started (sdb_indexes (swd_db w))\<rparr>\<rparr>"
    using w2 assms(5,6) by (simp add: cat repository_catalog_def on_db_def repo_SaveIndexRun_def)
  have "\<exists>db. w' = w3\<lparr>swd_db := db\<rparr>" using w' by (auto simp: cat repository_catalog_def on_db_def split: prod.splits)
  then have "bc_now s w3 \<ge> bc_now s w2 + wrap64 (ixp_TimeoutSeconds (sto_IndexPolicy v) * 1000000000)" using assms(7,9) w2' by auto
  then have "ctx' w3 \<noteq> None" using ctx' assms(8) by (auto simp: with_timeout_def split: option.split)
  then have "w' = w3" using w' by (auto simp: cat repository_catalog_def on_db_def repo_SaveIndexRun_def)
  moreover have "swd_db w3 = swd_db w2" using index_scan_stored [OF assms(1) i] by (simp add: stored_def)
  ultimately show ?thesis using w2' st by (auto simp: upsert_index_def split: option.split)
qed

theorem late_index_stays_running_witness:
  "\<exists>run e w' row. storage_StartIndex demo_service (\<lambda>_. None) ''s'' ''i'' (demo_world (AnyString '''') []) = (Ok (run, e), w') \<and>
     map_of (sdb_indexes (swd_db w')) ''i'' = Some row \<and> ixr_Status row = ''running''"
proof -
  let ?w = "demo_world (AnyString '''') []" and ?v = "demo_found (AnyString '''')"
  have "is_ok (fst (storage_StartIndex demo_service (\<lambda>_. None) ''s'' ''i'' ?w))" by code_simp
  then obtain run e w' where i: "storage_StartIndex demo_service (\<lambda>_. None) ''s'' ''i'' ?w = (Ok (run, e), w')"
    by (cases "storage_StartIndex demo_service (\<lambda>_. None) ''s'' ''i'' ?w") (auto elim!: is_ok.elims)
  have "bc_now demo_service (snd (storage_StartIndex demo_service (\<lambda>_. None) ''s'' ''i'' ?w)) \<ge>
      bc_now demo_service ?w + wrap64 (ixp_TimeoutSeconds (sto_IndexPolicy ?v) * 1000000000)" by code_simp
  then have late: "bc_now demo_service w' \<ge> bc_now demo_service ?w + wrap64 (ixp_TimeoutSeconds (sto_IndexPolicy ?v) * 1000000000)" using i by simp
  have f: "ixp_Enabled (sto_IndexPolicy ?v)" "rp_fault demo_renv (swd_db ?w) ''save index run'' = None" "ixp_TimeoutSeconds (sto_IndexPolicy ?v) > 0"
    by code_simp+
  have "bc_now demo_service (u\<lparr>swd_db := db\<rparr>) = bc_now demo_service u" for u db by (simp add: demo_service_def disk_steps_def)
  then show ?thesis using late_index_stays_running [OF demo_service_local i demo_find f(1,2) refl _ f(3) late] i by blast
qed

end
