(* ===== verification/Storage_Job_Properties.thy ===== *)
theory Storage_Job_Properties
  imports Storage_Index_Properties
begin

text \<open>
  Background copies settle; archives cannot be downloaded.
\<close>

section \<open>Copies\<close>

lemma save_download_local:
  assumes "local_service renv env drv s" and "\<And>db. rp_fault renv db ''save download'' = None"
  shows "sc_SaveDownload (bc_catalog s) v w = (None, w\<lparr>swd_db := (swd_db w)\<lparr>sdb_downloads := upsert_download v (sdb_downloads (swd_db w))\<rparr>\<rparr>)"
  using assms by (simp add: local_service_def repository_catalog_def on_db_def repo_SaveDownload_def)

lemma upsert_download_status: "\<exists>row. map_of (upsert_download v t) (dlr_ID v) = Some row \<and> dlr_Status row = dlr_Status v \<and> dlr_Error row = dlr_Error v"
  by (auto simp: upsert_download_def split: option.split)

lemma usable_local: "local_service renv env drv s \<Longrightarrow> usable s v write = Inr b \<Longrightarrow> b = driver_browser env drv"
  using resolver_local by (auto simp: usable_def split: if_splits)

lemma copy_body_local:
  assumes "local_service renv env drv s" and "copy_body s (run, src, dst, entry) w = (e, w')"
  defines "from \<equiv> storage_file env drv src (dlr_Path run)" and "to \<equiv> storage_file env drv dst (dlr_Path run)"
  shows "swd_db w' = swd_db w" and "e \<noteq> None \<Longrightarrow> file_content (swd_disk w') to = file_content (swd_disk w) to"
    and "e = None \<Longrightarrow> \<exists>data. file_content (swd_disk w) from = Some data \<and> file_content (swd_disk w') to = Some data"
proof -
  let ?p = "dlr_Path run"
  consider (refused) "w' = w" "e \<noteq> None" | (unread) d1 e' where "driver_Open env drv src ?p (swd_disk w) = (Inl e', d1)" "w' = w\<lparr>swd_disk := d1\<rparr>" "e \<noteq> None"
    | (copied) body entry' d1 d2 where "driver_Open env drv src ?p (swd_disk w) = (Inr (body, entry'), d1)"
        "driver_Write env drv dst ?p body (fe_SizeBytes entry) d1 = (e, d2)" "w' = w\<lparr>swd_disk := d2\<rparr>"
  proof -
    show ?thesis
    proof (cases "usable s src False"; cases "usable s dst True")
      fix sb db
      assume u: "usable s src False = Inr sb" "usable s dst True = Inr db"
      then have b: "sb = driver_browser env drv" "db = driver_browser env drv" using usable_local [OF assms(1)] by blast+
      obtain r d1 where o: "driver_Open env drv src ?p (swd_disk w) = (r, d1)" by fastforce
      show ?thesis
      proof (cases r)
        case (Inl e')
        then show ?thesis using assms(2) u o by (intro that(2) [of e' d1]) (auto simp: copy_body_def b driver_browser_def on_disk_def)
      next
        case (Inr p)
        obtain body entry' where p: "p = (body, entry')" by fastforce
        obtain e2 d2 where wr: "driver_Write env drv dst ?p body (fe_SizeBytes entry) d1 = (e2, d2)" by fastforce
        then show ?thesis using assms(2) u o Inr p by (intro that(3) [of body entry' d1 d2]) (auto simp: copy_body_def b driver_browser_def on_disk_def)
      qed
    qed (use assms(2) that(1) in \<open>auto simp: copy_body_def\<close>)
  qed
  note c = this
  show "swd_db w' = swd_db w" using c by cases auto
  show "file_content (swd_disk w') to = file_content (swd_disk w) to" if "e \<noteq> None"
    using c
  proof cases
    case copied
    then show ?thesis using driver_Open_tick [OF copied(1)] driver_Write_replaced [OF copied(2)] that by (auto simp: replaced_def to_def)
  qed (use driver_Open_tick in auto)
  show "\<exists>data. file_content (swd_disk w) from = Some data \<and> file_content (swd_disk w') to = Some data" if "e = None"
    using c
  proof cases
    case copied
    obtain data f where body: "body = (data, f)" by fastforce
    have ok: "f = None" "file_content d2 to = Some data" using driver_Write_replaced [OF copied(2)] that body by (auto simp: replaced_def to_def)
    then have "file_content (swd_disk w) from = Some data" using driver_Open_reads copied(1) body by (auto simp: from_def)
    then show ?thesis using ok copied(3) by simp
  qed (use that in auto)
qed

text \<open>
  A background copy settles when the database accepts its saves: the download of the run is completed, and the file in the destination has
  the bytes of the source, or it is failed, and the file in the destination is as before.
\<close>

theorem copy_settles:
  assumes "local_service renv env drv s" and "\<And>db. rp_fault renv db ''save download'' = None"
  shows "let w' = storage_copy s (run, src, dst, entry) w in \<exists>row. map_of (sdb_downloads (swd_db w')) (dlr_ID run) = Some row \<and>
    (dlr_Status row = DownloadCompleted \<and>
       (\<exists>data. file_content (swd_disk w) (storage_file env drv src (dlr_Path run)) = Some data \<and>
          file_content (swd_disk w') (storage_file env drv dst (dlr_Path run)) = Some data) \<or>
     dlr_Status row = DownloadFailed \<and>
       file_content (swd_disk w') (storage_file env drv dst (dlr_Path run)) = file_content (swd_disk w) (storage_file env drv dst (dlr_Path run)))"
proof -
  define w' where "w' = storage_copy s (run, src, dst, entry) w"
  note save = save_download_local [OF assms(1,2)]
  let ?run = "run\<lparr>dlr_Status := DownloadStreaming, dlr_UpdatedAt := bc_now s w\<rparr>"
  let ?w1 = "w\<lparr>swd_db := (swd_db w)\<lparr>sdb_downloads := upsert_download ?run (sdb_downloads (swd_db w))\<rparr>\<rparr>"
  obtain e w2 where c: "copy_body s (?run, src, dst, entry) ?w1 = (e, w2)" by fastforce
  note b = copy_body_local [OF assms(1) c, simplified]
  obtain final where w': "w' = w2\<lparr>swd_db := (swd_db w2)\<lparr>sdb_downloads := upsert_download final (sdb_downloads (swd_db w2))\<rparr>\<rparr>"
    and final: "dlr_ID final = dlr_ID run" "dlr_Status final = (if e = None then DownloadCompleted else DownloadFailed)"
    using c by (cases e) (auto simp: w'_def storage_copy_def save)
  obtain row where "map_of (sdb_downloads (swd_db w')) (dlr_ID run) = Some row" "dlr_Status row = dlr_Status final"
    using upsert_download_status [of final "sdb_downloads (swd_db w2)"] w' final by auto
  then show ?thesis unfolding w'_def [symmetric] Let_def using b(2,3) w' final by (cases e) auto
qed


theorem copy_settles_witness:
  "\<exists>row. map_of (sdb_downloads (swd_db (storage_copy demo_service
       (zero_download\<lparr>dlr_ID := ''r'', dlr_Path := ''a''\<rparr>, demo_found AnyNil, (demo_found AnyNil)\<lparr>sto_Endpoint := ''/data/sub'',
          sto_BrowseRoots := [\<lparr>sbr_Path = ''/data/sub'', sbr_Label = '''', sbr_ReadOnly = False\<rparr>]\<rparr>,
        infoEntry demo_senv demo_files ''s'' ''a'' \<lparr>fi_IsDir = False, fi_IsLink = False, fi_Size = 3, fi_ModTime = 0\<rparr> ''/data/a'')
       (demo_world AnyNil [])))) ''r'' = Some row \<and> dlr_Status row \<in> {DownloadCompleted, DownloadFailed}"
  using copy_settles [OF demo_service_local, of "zero_download\<lparr>dlr_ID := ''r'', dlr_Path := ''a''\<rparr>" "demo_found AnyNil"
    "(demo_found AnyNil)\<lparr>sto_Endpoint := ''/data/sub'', sto_BrowseRoots := [\<lparr>sbr_Path = ''/data/sub'', sbr_Label = '''', sbr_ReadOnly = False\<rparr>]\<rparr>"
    "infoEntry demo_senv demo_files ''s'' ''a'' \<lparr>fi_IsDir = False, fi_IsLink = False, fi_Size = 3, fi_ModTime = 0\<rparr> ''/data/a''"
    "demo_world AnyNil []"]
  by (auto simp: Let_def demo_renv_def)

section \<open>Archives\<close>

lemma driver_Open_file: "driver_Open env drv v p d = (Inr (body, entry), d') \<Longrightarrow> file_content d (storage_file env drv v p) \<noteq> None"
proof -
  assume o: "driver_Open env drv v p d = (Inr (body, entry), d')"
  have s: "fst (driver_BrowseStat env drv v p d) = Inr entry" "fe_Type entry = FileEntryFile"
    using o by (auto simp: driver_Open_def driver_BrowseStat_def split: sum.splits if_splits)
  then obtain full rel info where f: "browsePath env drv d v p = Inr (full, rel)" "disk_info env d full = Inr info" "\<not> fi_IsDir info" "\<not> fi_IsLink info"
    by (auto simp: driver_BrowseStat_def infoEntry_def split: sum.splits if_splits)
  from f(2-4) have "file_content d full \<noteq> None"
    by (auto simp: disk_info_def file_content_def split: sum.splits option.splits node.splits)
  then show ?thesis using browsePath_iff [OF f(1)] by simp
qed

lemma upsert_download_path: "map_of t (dlr_ID v) = Some old \<Longrightarrow>
  \<exists>row. map_of (upsert_download v t) (dlr_ID v) = Some row \<and> dlr_Path row = dlr_Path old \<and> dlr_StorageID row = dlr_StorageID old \<and> dlr_ID row = dlr_ID old"
  by (auto simp: upsert_download_def)

lemma rel_comps_join: "list_all plain cs \<Longrightarrow> cs \<noteq> [] \<Longrightarrow> rel_comps (join_slash cs) = cs \<and> browse_relative (join_slash cs) = join_slash cs \<and> \<not> is_abs (join_slash cs)"
proof -
  assume cs: "list_all plain cs" "cs \<noteq> []"
  then have r: "\<not> is_abs (join_slash cs)" using join_plain_rel by (cases cs) auto
  then have "trim_prefix (join_slash cs) ''/'' = join_slash cs" by (simp add: trim_prefix_def is_abs_def)
  moreover have "join_slash cs \<noteq> ''.''" using cs path_comps_rel [OF cs] by (auto simp: path_comps_def)
  ultimately show ?thesis using cs r path_comps_rel [OF cs] path_Clean_join [OF cs] by (simp add: rel_comps_def browse_relative_def)
qed

text \<open>A download of a directory, as an archive job leaves it in the table, cannot be opened.\<close>

lemma open_download_fails:
  assumes "local_service renv env drv s" and "map_of (sdb_downloads (swd_db w)) ident = Some row"
    and "repo_FindStorage renv (dlr_StorageID row) (swd_db w) = Inr (Some v)"
    and "file_content (swd_disk w) (storage_file env drv v (dlr_Path row)) = None"
  shows "\<exists>e. fst (storage_OpenDownload s ident w) = Inl e"
proof (cases "repo_FindDownload renv ident (swd_db w)")
  case (Inl e)
  then show ?thesis using assms(1) by (simp add: storage_OpenDownload_def storage_Download_def local_service_def repository_catalog_def on_db_def)
next
  case (Inr r)
  have "r = Some row" using Inr assms(2) by (auto simp: repo_FindDownload_def split: option.splits)
  then have d: "storage_Download s ident w = (Inr row, w)" using assms(1) Inr
    by (simp add: storage_Download_def local_service_def repository_catalog_def on_db_def)
  show ?thesis
  proof (cases "usable s v False")
    case (Inr b)
    have b: "b = driver_browser env drv" by (rule usable_local [OF assms(1) Inr])
    obtain q d' where q: "driver_Open env drv v (dlr_Path row) (swd_disk w) = (q, d')" by fastforce
    then have "\<exists>e. q = Inl e" using driver_Open_file [of env drv v "dlr_Path row" "swd_disk w"] assms(4) by (cases q) auto
    then show ?thesis using d Inr b q assms(3) by (auto simp: storage_OpenDownload_def with_browser_def find_local [OF assms(1)] driver_browser_def on_disk_def)
  qed (use d assms(3) in \<open>auto simp: storage_OpenDownload_def with_browser_def find_local [OF assms(1)]\<close>)
qed


lemma archive_output_join:
  "list_all plain cs \<Longrightarrow> cs \<noteq> [] \<Longrightarrow> archive_output (join_slash cs) = join_slash (butlast cs @ [last cs @ ''.tar.gz''])"
proof -
  assume cs: "list_all plain cs" "cs \<noteq> []"
  have "plain (last cs)" using cs by (simp add: list_all_iff)
  moreover have "\<exists>pre. join_slash cs = pre @ last cs" using cs(2) by (induction cs rule: join_slash.induct) (auto simp: join_slash_Cons)
  ultimately have "\<not> has_suffix (join_slash cs) ''/''" by (cases "rev (last cs)") (auto simp: has_suffix_def has_prefix_def plain_def)
  then show ?thesis using snoc_suffix [OF cs(2), of "''.tar.gz''"] by (simp add: archive_output_def trim_suffix_def)
qed

lemma has_prefix_extend: "has_prefix s p \<Longrightarrow> has_prefix (s @ t) p"
proof -
  assume "has_prefix s p"
  then have p: "take (length p) s = p" by (simp add: has_prefix_def)
  then have "length p \<le> length s" by (metis length_take min.cobounded1)
  then show ?thesis using p by (simp add: has_prefix_def)
qed

lemma write_archive_keeps:
  assumes "driver_Write env drv v (archive_output (join_slash cs)) source n d = (e, d')"
    and "abs_ok (se_disk env)" and "is_abs (drv_root drv)" and "list_all plain cs" and "cs \<noteq> []"
  shows "file_content d' (storage_file env drv v (join_slash cs)) = file_content d (storage_file env drv v (join_slash cs))"
proof (rule ccontr)
  let ?out = "archive_output (join_slash cs)" and ?f = "storage_file env drv v (join_slash cs)"
  assume c: "file_content d' ?f \<noteq> file_content d ?f"
  define oc where "oc = butlast cs @ [last cs @ ''.tar.gz'']"
  have out: "?out = join_slash oc" using archive_output_join [OF assms(4,5)] by (simp add: oc_def)
  have oc: "join_slash oc = join_slash cs @ ''.tar.gz''" using snoc_suffix [OF assms(5)] by (simp add: oc_def)
  have o: "list_all plain oc" "oc \<noteq> []" using assms(4,5) plain_suffix [of "last cs" "''.tar.gz''"] by (auto simp: oc_def list_all_iff dest: in_set_butlastD)
  note r = driver_Write_replaced [OF assms(1)]
  have q: "?f = storage_file env drv v ?out \<or> ?f = storage_file env drv v ?out @ ''.akoflow-copy-part''" using c r by (auto simp: replaced_def)
  have "file_content d' \<noteq> file_content d" using c by auto
  then obtain base where b: "storageRoot env drv v = Inr base" "\<not> has_prefix (browse_relative ?out) ''..''" using r by blast
  have "\<not> has_prefix (join_slash cs) ''..''"
    using b(2) rel_comps_join [OF o] out oc has_prefix_extend [of "join_slash cs"] by auto
  then have f: "?f = ''/'' @ join_slash (path_comps base @ cs)"
    using storage_file_below [OF assms(2,3) b(1), of "join_slash cs"] rel_comps_join [OF assms(4,5)] by simp
  have g: "storage_file env drv v ?out = ''/'' @ join_slash (path_comps base @ oc)"
    using storage_file_below [OF assms(2,3) b(1), of ?out] b(2) rel_comps_join [OF o] out by simp
  have base: "list_all plain (path_comps base)" using storageRoot_abs [OF assms(2,3) b(1)] by (simp add: path_comps_plain)
  have "length ?f < length (storage_file env drv v ?out)"
    using f g base snoc_suffix [of "path_comps base @ cs" "''.tar.gz''"] assms(5) by (simp add: oc_def butlast_append) (metis add_Suc_right length_append less_add_Suc1 list.size(4))
  then show False using q by auto
qed


text \<open>What an archive job that returns leaves behind.\<close>

lemma storage_archive_effect:
  assumes "local_service renv env drv s" and "\<And>db. rp_fault renv db ''save download'' = None"
    and "storage_archive s drained fuel (run, v) w = Some (Returned w')"
  obtains w3 final streaming where "w' = w3\<lparr>swd_db := (swd_db w3)\<lparr>sdb_downloads := upsert_download final (sdb_downloads (swd_db w3))\<rparr>\<rparr>"
    and "dlr_ID final = dlr_ID run" and "dlr_ID streaming = dlr_ID run"
    and "sdb_downloads (swd_db w3) = upsert_download streaming (sdb_downloads (swd_db w))"
    and "file_content (swd_disk w3) = file_content (swd_disk w) \<or>
      (\<exists>d source e n. file_content d = file_content (swd_disk w) \<and> driver_Write env drv v (archive_output (dlr_Path run)) source n d = (e, swd_disk w3))"
proof -
  note save = save_download_local [OF assms(1,2)]
  let ?run = "run\<lparr>dlr_Status := DownloadStreaming, dlr_UpdatedAt := bc_now s w\<rparr>"
  let ?w1 = "w\<lparr>swd_db := (swd_db w)\<lparr>sdb_downloads := upsert_download ?run (sdb_downloads (swd_db w))\<rparr>\<rparr>"
  show ?thesis
  proof (cases "usable s v True")
    case (Inl e)
    then show ?thesis using assms(3) by (intro that [where ?w3.0 = ?w1 and streaming = ?run
      and final = "?run\<lparr>dlr_Status := DownloadFailed, dlr_Error := error_text e, dlr_UpdatedAt := bc_now s ?w1\<rparr>"]) (auto simp: storage_archive_def save Let_def)
  next
    case (Inr b)
    have b: "b = driver_browser env drv" by (rule usable_local [OF assms(1) Inr])
    obtain archived ts w2 where a: "writeArchive s b v fuel (dlr_Path run) ?w1 = Some (archived, ts, w2)"
      using assms(3) Inr by (auto simp: storage_archive_def save Let_def split: option.splits)
    have w2: "stored w2 = stored ?w1" using disk.writeArchive_frame a unfolding b by blast
    obtain e d3 where wr: "driver_Write env drv v (archive_output (dlr_Path run)) (bc_tar s ts, None) 0 (swd_disk w2) = (e, d3)" by fastforce
    let ?w3 = "w2\<lparr>swd_disk := d3\<rparr>"
    have sb: "sb_Write b v (archive_output (dlr_Path run)) (bc_tar s ts, None) 0 w2 = (e, ?w3)" using wr by (simp add: b driver_browser_def on_disk_def)
    have "\<exists>final. dlr_ID final = dlr_ID run \<and> w' = ?w3\<lparr>swd_db := (swd_db ?w3)\<lparr>sdb_downloads := upsert_download final (sdb_downloads (swd_db ?w3))\<rparr>\<rparr>"
      using assms(3) Inr a sb by (cases archived; cases e) (auto simp: storage_archive_def save Let_def split: if_splits, (rule exI, rule conjI [rotated], rule refl, simp)+)
    then obtain final where final: "dlr_ID final = dlr_ID run"
      "w' = ?w3\<lparr>swd_db := (swd_db ?w3)\<lparr>sdb_downloads := upsert_download final (sdb_downloads (swd_db ?w3))\<rparr>\<rparr>" by blast
    have "file_content (swd_disk w2) = file_content (swd_disk w)" using w2 by (simp add: stored_def)
    then show ?thesis using final w2 wr by (intro that [where ?w3.0 = ?w3 and final = final and streaming = ?run]) (auto simp: stored_def)
  qed
qed

text \<open>
  An archive can never be downloaded: the job writes the archive beside the directory and sets the path of its run to it, but an
  update of a download does not store the path. Whatever the job did, its download still names the directory, and opening
  the download of a directory fails.
\<close>

theorem archive_not_downloadable:
  assumes "local_service renv env drv s" and "\<And>db. rp_fault renv db ''save download'' = None" and "abs_ok (se_disk env)" and "is_abs (drv_root drv)"
    and "storage_archive s drained fuel (run, v) w = Some (Returned w')"
    and "map_of (sdb_downloads (swd_db w)) (dlr_ID run) = Some run" and "repo_FindStorage renv (dlr_StorageID run) (swd_db w') = Inr (Some v)"
    and "dlr_Path run = join_slash cs" and "list_all plain cs" and "cs \<noteq> []"
    and "map_of (dk_nodes (swd_disk w)) (storage_file env drv v (dlr_Path run)) = Some Dir"
  shows "\<exists>row e. map_of (sdb_downloads (swd_db w')) (dlr_ID run) = Some row \<and> dlr_Path row = dlr_Path run \<and>
    fst (storage_OpenDownload s (dlr_ID run) w') = Inl e"
proof -
  let ?f = "storage_file env drv v (dlr_Path run)"
  obtain w3 final streaming where w': "w' = w3\<lparr>swd_db := (swd_db w3)\<lparr>sdb_downloads := upsert_download final (sdb_downloads (swd_db w3))\<rparr>\<rparr>"
    and ids: "dlr_ID final = dlr_ID run" "dlr_ID streaming = dlr_ID run"
    and t: "sdb_downloads (swd_db w3) = upsert_download streaming (sdb_downloads (swd_db w))"
    and c: "file_content (swd_disk w3) = file_content (swd_disk w) \<or>
      (\<exists>d source e n. file_content d = file_content (swd_disk w) \<and> driver_Write env drv v (archive_output (dlr_Path run)) source n d = (e, swd_disk w3))"
    by (rule storage_archive_effect [OF assms(1,2,5)])
  have "file_content (swd_disk w) ?f = None" using assms(11) by (simp add: file_content_def)
  then have none: "file_content (swd_disk w') ?f = None" using c w' write_archive_keeps [OF _ assms(3,4,9,10)] assms(8) by fastforce
  obtain mid where mid: "map_of (sdb_downloads (swd_db w3)) (dlr_ID final) = Some mid" "dlr_Path mid = dlr_Path run" "dlr_StorageID mid = dlr_StorageID run"
    using upsert_download_path [of "sdb_downloads (swd_db w)" streaming run] assms(6) ids t by auto
  obtain row where row: "map_of (sdb_downloads (swd_db w')) (dlr_ID run) = Some row" "dlr_Path row = dlr_Path run" "dlr_StorageID row = dlr_StorageID run"
    using upsert_download_path [OF mid(1)] mid(2,3) w' ids by auto
  show ?thesis using open_download_fails [OF assms(1) row(1)] assms(7) none row by auto
qed

definition demo_archive :: DownloadRun where
  "demo_archive = zero_download\<lparr>dlr_ID := ''r'', dlr_StorageID := ''s'', dlr_Path := ''sub'', dlr_Strategy := ''archive''\<rparr>"

definition returned_world :: "'w outcome option \<Rightarrow> 'w option" where
  "returned_world r = (case r of Some (Returned w) \<Rightarrow> Some w | _ \<Rightarrow> None)"

theorem archive_not_downloadable_witness:
  "\<exists>w' row e. storage_archive demo_service (\<lambda>_. True) 9 (demo_archive, demo_found AnyNil) (demo_world AnyNil [(''r'', demo_archive)]) = Some (Returned w') \<and>
     map_of (sdb_downloads (swd_db w')) ''r'' = Some row \<and> dlr_Status row = DownloadReady \<and> fst (storage_OpenDownload demo_service ''r'' w') = Inl e"
proof -
  let ?w = "demo_world AnyNil [(''r'', demo_archive)]" and ?v = "demo_found AnyNil"
  let ?a = "storage_archive demo_service (\<lambda>_. True) 9 (demo_archive, ?v) ?w"
  have ok: "(case returned_world ?a of None \<Rightarrow> False | Some u \<Rightarrow> map_option dlr_Status (map_of (sdb_downloads (swd_db u)) ''r'') = Some DownloadReady \<and>
     map fst (sdb_storages (swd_db u)) = [''s''])" by code_simp
  have find: "(case returned_world ?a of None \<Rightarrow> None | Some u \<Rightarrow> Some (sdb_storages (swd_db u))) = Some (sdb_storages (swd_db ?w))" by code_simp
  obtain w' where a: "?a = Some (Returned w')" using ok by (auto simp: returned_world_def split: option.splits outcome.splits)
  have same: "sdb_storages (swd_db w') = sdb_storages (swd_db ?w)" using find a by (simp add: returned_world_def)
  have v: "repo_FindStorage demo_renv ''s'' (swd_db w') = Inr (Some ?v)" using demo_find [of AnyNil "[(''r'', demo_archive)]"] same
    by (simp add: repo_FindStorage_def demo_renv_def)
  have st: "map_option dlr_Status (map_of (sdb_downloads (swd_db w')) ''r'') = Some DownloadReady" using ok a by (simp add: returned_world_def)
  have f: "map_of (sdb_downloads (swd_db ?w)) (dlr_ID demo_archive) = Some demo_archive" "dlr_Path demo_archive = join_slash [''sub'']" "list_all plain [''sub'']"
    "map_of (dk_nodes (swd_disk ?w)) (storage_file demo_senv demo_driver ?v (dlr_Path demo_archive)) = Some Dir" "is_abs (drv_root demo_driver)"
    "dlr_ID demo_archive = ''r''" "dlr_StorageID demo_archive = ''s''" by code_simp+
  have "abs_ok (se_disk demo_senv)" using demo_env_ok by (simp add: demo_senv_def)
  moreover have "\<And>db. rp_fault demo_renv db ''save download'' = None" by (simp add: demo_renv_def)
  ultimately obtain row e where "map_of (sdb_downloads (swd_db w')) ''r'' = Some row" "fst (storage_OpenDownload demo_service ''r'' w') = Inl e"
    using archive_not_downloadable [OF demo_service_local _ _ f(5) a f(1) _ f(2,3) _ f(4)] v f(6,7) by auto
  then show ?thesis using a st by (intro exI [of _ w'] exI [of _ row] exI [of _ e]) simp
qed


end
