(* ===== verification/Environment_Domain.thy ===== *)
theory Environment_Domain
  imports Storage_Domain
begin

text \<open>
  Environments and what is observed of them: definitions with their versions and connections
  (\<^verbatim>\<open>internal/domain/environment/environment.go\<close>), transfer capabilities (\<^verbatim>\<open>transfer.go\<close>), relations and snapshots of
  resources (\<^verbatim>\<open>internal/domain/resource/resource.go\<close>), audit events (\<^verbatim>\<open>internal/domain/audit\<close>), and the observations of the
  discovery drivers (\<^verbatim>\<open>internal/application/ports/environment.go\<close>).
\<close>

section \<open>Environments\<close>

datatype EnvironmentStatus = EnvironmentDefined | EnvironmentConnecting | EnvironmentConnected | EnvironmentDiscovering
  | EnvironmentReady | EnvironmentDegraded | EnvironmentUnreachable | EnvironmentStatusOther string

datatype ConnectionType = ConnectionSSH | ConnectionKubernetes | ConnectionCloud | ConnectionLocal | ConnectionAgent | ConnectionTypeOther string

fun connection_type_text :: "ConnectionType \<Rightarrow> string" where
  "connection_type_text ConnectionSSH = ''ssh''"
| "connection_type_text ConnectionKubernetes = ''kubernetes''"
| "connection_type_text ConnectionCloud = ''cloud''"
| "connection_type_text ConnectionLocal = ''local''"
| "connection_type_text ConnectionAgent = ''agent''"
| "connection_type_text (ConnectionTypeOther s) = s"

datatype ConnectionStatus = ConnectionOnline | ConnectionOffline

fun connection_status_text :: "ConnectionStatus \<Rightarrow> string" where
  "connection_status_text ConnectionOnline = ''online''"
| "connection_status_text ConnectionOffline = ''offline''"

fun driver_text :: "RuntimeDriver \<Rightarrow> string" where
  "driver_text RuntimeDriverSlurm = ''slurm''"
| "driver_text RuntimeDriverKubernetes = ''kubernetes''"
| "driver_text RuntimeDriverSSH = ''ssh''"
| "driver_text RuntimeDriverLocal = ''local''"
| "driver_text RuntimeDriverServerless = ''serverless''"
| "driver_text RuntimeDriverSimGrid = ''simgrid''"
| "driver_text (RuntimeDriverOther s) = s"

record Environment =
  env_ID :: string
  env_Name :: string
  env_Description :: string
  env_Status :: EnvironmentStatus
  env_CreatedAt :: int

record EnvironmentConnection =
  con_ID :: string
  con_EnvironmentID :: string
  con_Name :: string
  con_Type :: ConnectionType
  con_Endpoint :: string
  con_Username :: string
  con_CredentialRef :: string
  con_Configuration :: metadata
  con_CreatedAt :: int

record ConnectionCheck =
  chk_ID :: string
  chk_ConnectionID :: string
  chk_Status :: ConnectionStatus
  chk_Message :: string
  chk_LatencyMS :: float64
  chk_CheckedAt :: int
  chk_Metadata :: metadata

datatype EnvironmentVersionStatus = EnvironmentVersionDraft | EnvironmentVersionPublished | EnvironmentVersionRetired
  | EnvironmentVersionStatusOther string

record EnvironmentVersion =
  env_VersionID :: string
  env_VersionEnvironmentID :: string
  env_VersionNumber :: int
  env_VersionStatus :: EnvironmentVersionStatus
  env_NetworkModel :: string
  env_InterferenceModel :: string
  env_CostModel :: string
  env_ConfigurationHash :: string
  env_VersionCreatedAt :: int
  env_PublishedAt :: "int option"

section \<open>Transfer capabilities\<close>

datatype TransferProtocol = TransferConnectorRsync | TransferConnectorSCP | TransferConnectorSFTP | TransferConnectorHTTP
  | TransferConnectorS3 | TransferConnectorGCS | TransferConnectorOther string

fun protocol_text :: "TransferProtocol \<Rightarrow> string" where
  "protocol_text TransferConnectorRsync = ''rsync''"
| "protocol_text TransferConnectorSCP = ''scp''"
| "protocol_text TransferConnectorSFTP = ''sftp''"
| "protocol_text TransferConnectorHTTP = ''http''"
| "protocol_text TransferConnectorS3 = ''s3-compatible''"
| "protocol_text TransferConnectorGCS = ''gcs''"
| "protocol_text (TransferConnectorOther s) = s"

record CapabilityObservation =
  cob_Available :: bool
  cob_Declared :: "bool option"
  cob_Reason :: string
  cob_ObservedAt :: int
  cob_FreshUntil :: int

text \<open>The zero time is 0.\<close>

definition capability_Fresh :: "CapabilityObservation \<Rightarrow> int \<Rightarrow> bool" where
  "capability_Fresh c t \<longleftrightarrow> cob_ObservedAt c = 0 \<or> cob_FreshUntil c = 0 \<or> \<not> t > cob_FreshUntil c"

record TransferPath =
  tpa_Path :: string
  tpa_Kind :: string
  tpa_Writable :: bool
  tpa_AvailableBytes :: int
  tpa_LoginNodeVisible :: bool
  tpa_ComputeNodeVisible :: "bool option"
  tpa_Reason :: string
  tpa_ObservedAt :: int

record TransferCapabilities =
  tca_Connectors :: "(TransferProtocol, CapabilityObservation) gomap"
  tca_OutboundHTTPS :: CapabilityObservation
  tca_ContainerRuntime :: CapabilityObservation
  tca_Checksum :: CapabilityObservation
  tca_Paths :: "TransferPath list"
  tca_ObservedAt :: int
  tca_FreshUntil :: int

record ConnectorHealth =
  cnh_Healthy :: bool
  cnh_Operation :: string
  cnh_Reason :: string
  cnh_CheckedAt :: int
  cnh_FreshUntil :: int

record ConnectorBinding =
  cnb_ID :: string
  cnb_EnvironmentID :: string
  cnb_Connector :: TransferProtocol
  cnb_Endpoint :: string
  cnb_CredentialRef :: string
  cnb_Configuration :: metadata
  cnb_Health :: ConnectorHealth

section \<open>Resources and definitions\<close>

datatype ResourceRelationType = ResourceRelationContains | ResourceRelationMemberOf | ResourceRelationAccessibleVia
  | ResourceRelationOther string

record ResourceRelation =
  rel_EnvironmentVersionID :: string
  rel_SourceResourceID :: string
  rel_TargetResourceID :: string
  rel_Type :: ResourceRelationType
  rel_Metadata :: metadata

record ResourceSnapshot =
  snap_ID :: string
  snap_ResourceID :: string
  snap_CapturedAt :: int
  snap_Available :: bool
  snap_CPUUsed :: float64
  snap_MemoryUsedBytes :: int
  snap_NetworkInBPS :: float64
  snap_NetworkOutBPS :: float64
  snap_DiskReadBPS :: float64
  snap_DiskWriteBPS :: float64
  snap_QueueLength :: int
  snap_Metadata :: metadata

record EnvironmentDefinition =
  def_Environment :: Environment
  def_Version :: EnvironmentVersion
  def_Runtimes :: "EnvironmentRuntime list"
  def_Resources :: "Resource list"
  def_RuntimeBindings :: "ResourceRuntimeBinding list"
  def_Relations :: "ResourceRelation list"
  def_Storages :: "StorageResource list"
  def_Profiles :: "ActivityResourceProfile list"
  def_Connections :: "EnvironmentConnection list"
  def_ConnectionChecks :: "ConnectionCheck list"
  def_ConnectorBindings :: "ConnectorBinding list"

section \<open>Audit events\<close>

datatype Outcome = OutcomeStarted | OutcomeSucceeded | OutcomeFailed

record AuditEvent =
  aud_ID :: string
  aud_EventType :: string
  aud_ActorID :: string
  aud_ActorType :: string
  aud_EnvironmentID :: string
  aud_ResourceID :: string
  aud_ConnectionID :: string
  aud_RuntimeID :: string
  aud_SessionID :: string
  aud_ExecutionID :: string
  aud_ExternalID :: string
  aud_Outcome :: Outcome
  aud_Summary :: string
  aud_Metadata :: metadata
  aud_OccurredAt :: int

definition zero_event :: AuditEvent where
  "zero_event = \<lparr>aud_ID = [], aud_EventType = [], aud_ActorID = [], aud_ActorType = [], aud_EnvironmentID = [], aud_ResourceID = [],
     aud_ConnectionID = [], aud_RuntimeID = [], aud_SessionID = [], aud_ExecutionID = [], aud_ExternalID = [], aud_Outcome = OutcomeStarted,
     aud_Summary = [], aud_Metadata = [], aud_OccurredAt = 0\<rparr>"

section \<open>Observations\<close>

record ConnectionHealth =
  hlt_Healthy :: bool
  hlt_Message :: string

record DiscoveredLoginNode =
  dln_Name :: string
  dln_Architecture :: string
  dln_CPUCores :: int
  dln_MemoryBytes :: int
  dln_StorageBytes :: int
  dln_Metadata :: metadata

record DiscoveredNode =
  dno_Name :: string
  dno_State :: string
  dno_CPUCores :: int
  dno_MemoryBytes :: int
  dno_StorageBytes :: int
  dno_Architecture :: string
  dno_Partitions :: "string list"
  dno_Features :: "string list"
  dno_GenericResources :: "string list"
  dno_Reason :: string
  dno_Metadata :: metadata

record ConnectionDiscovery =
  cdi_Available :: bool
  cdi_Metadata :: metadata
  cdi_Warnings :: "string list"
  cdi_Nodes :: "DiscoveredNode list"
  cdi_LoginNode :: "DiscoveredLoginNode option"
  cdi_Transfer :: TransferCapabilities

definition configuredConnectionID :: "metadata \<Rightarrow> string" where
  "configuredConnectionID configuration = meta_string configuration ''connectionId''"

end
