(* ===== verification/Connection_Monitor.thy ===== *)
theory Connection_Monitor
  imports Environment_Domain
begin

text \<open>
  The connection monitor, \<^verbatim>\<open>internal/application/environment/connection_monitor.go\<close>: health checks of connections and their
  adaptive schedule. The store, the probers and the clock are functions on a state \<open>'w\<close>; the schedules are the
  state of the monitor. Times are nanoseconds.
\<close>

record connectionSchedule =
  csc_consecutiveSuccesses :: int
  csc_nextCheckAt :: int

type_synonym schedules = "(string, connectionSchedule) gomap"

record 'w ConnectionMonitor =
  cmo_FindConnection :: "string \<Rightarrow> 'w \<Rightarrow> (error + EnvironmentConnection option) \<times> 'w"
  cmo_ListAllConnections :: "'w \<Rightarrow> (error + EnvironmentConnection list) \<times> 'w"
  cmo_SaveConnectionCheck :: "ConnectionCheck \<Rightarrow> 'w \<Rightarrow> error option \<times> 'w"
  cmo_ListConnectionChecks :: "string \<Rightarrow> int \<Rightarrow> 'w \<Rightarrow> (error + ConnectionCheck list) \<times> 'w"
  cmo_UpdateStatus :: "string \<Rightarrow> EnvironmentStatus \<Rightarrow> 'w \<Rightarrow> error option \<times> 'w"
  cmo_probers :: "(ConnectionType, EnvironmentConnection \<Rightarrow> 'w \<Rightarrow> ConnectionHealth \<times> 'w) gomap"
  cmo_now :: "'w \<Rightarrow> int"
  cmo_audit :: "(AuditEvent \<Rightarrow> 'w \<Rightarrow> error option \<times> 'w) option"
  cmo_newID :: "string \<Rightarrow> 'w \<Rightarrow> string"

definition minute :: int where
  "minute = 60000000000"

definition adaptiveCheckInterval :: "int \<Rightarrow> int" where
  "adaptiveCheckInterval consecutiveSuccesses =
     (if consecutiveSuccesses \<ge> 30 then 10 * minute
      else if consecutiveSuccesses \<ge> 15 then 5 * minute
      else if consecutiveSuccesses \<ge> 5 then 2 * minute else minute)"

definition isDue :: "schedules \<Rightarrow> string \<Rightarrow> int \<Rightarrow> bool" where
  "isDue schedules connectionID now =
     (case map_of schedules connectionID of None \<Rightarrow> True | Some schedule \<Rightarrow> \<not> now < csc_nextCheckAt schedule)"

definition recordResult :: "string \<Rightarrow> ConnectionStatus \<Rightarrow> int \<Rightarrow> schedules \<Rightarrow> schedules" where
  "recordResult connectionID status checkedAt schedules =
     (let schedule = (case map_of schedules connectionID of None \<Rightarrow> \<lparr>csc_consecutiveSuccesses = 0, csc_nextCheckAt = 0\<rparr> | Some s \<Rightarrow> s);
          successes = (if status = ConnectionOnline then csc_consecutiveSuccesses schedule + 1 else 0)
      in put connectionID \<lparr>csc_consecutiveSuccesses = successes, csc_nextCheckAt = checkedAt + adaptiveCheckInterval successes\<rparr> schedules)"

text \<open>Division of nanoseconds by a thousand, rounding towards zero, as \<^verbatim>\<open>Microseconds\<close> does.\<close>

definition microseconds :: "int \<Rightarrow> int" where
  "microseconds d = (if 0 \<le> d then d div 1000 else - ((- d) div 1000))"

definition monitor_Check :: "'w ConnectionMonitor \<Rightarrow> string \<Rightarrow> schedules \<times> 'w \<Rightarrow> (error + ConnectionCheck) \<times> schedules \<times> 'w" where
  "monitor_Check m connectionID = (\<lambda>(schedules, w).
     case cmo_FindConnection m connectionID w of
       (Inl e, w1) \<Rightarrow> (Inl e, schedules, w1)
     | (Inr None, w1) \<Rightarrow> (Inl (Errorf ''environment connection %q was not found'' [FmtS connectionID]), schedules, w1)
     | (Inr (Some connection), w1) \<Rightarrow>
        (let started = cmo_now m w1;
             (health, w2) = (case map_of (cmo_probers m) (con_Type connection) of
                None \<Rightarrow> (\<lparr>hlt_Healthy = False, hlt_Message = ''no connection prober is configured''\<rparr>, w1) | Some probe \<Rightarrow> probe connection w1);
             checkedAt = cmo_now m w2;
             status = (if hlt_Healthy health then ConnectionOnline else ConnectionOffline);
             environmentStatus = (if hlt_Healthy health then EnvironmentConnected else EnvironmentUnreachable);
             latency = fdiv (f_of_int (microseconds (cmo_now m w2 - started))) (Fin 1000);
             check = \<lparr>chk_ID = ''connection-check-'' @ itoa checkedAt, chk_ConnectionID = con_ID connection, chk_Status = status,
               chk_Message = hlt_Message health, chk_LatencyMS = latency, chk_CheckedAt = checkedAt,
               chk_Metadata = [(''endpoint'', AnyString (con_Endpoint connection)),
                 (''connectionType'', AnyOther ''ConnectionType'' (connection_type_text (con_Type connection)))]\<rparr>
         in case cmo_SaveConnectionCheck m check w2 of
              (Some e, w3) \<Rightarrow> (Inl e, schedules, w3)
            | (None, w3) \<Rightarrow>
           (case cmo_UpdateStatus m (con_EnvironmentID connection) environmentStatus w3 of
              (Some e, w4) \<Rightarrow> (Inl e, schedules, w4)
            | (None, w4) \<Rightarrow>
               (Inr check, recordResult (con_ID connection) status checkedAt schedules,
                (case cmo_audit m of
                   None \<Rightarrow> w4
                 | Some audit \<Rightarrow>
                    snd (audit (zero_event\<lparr>aud_ID := cmo_newID m ''audit'' w4, aud_EventType := ''connection.health.checked'',
                      aud_EnvironmentID := con_EnvironmentID connection, aud_ConnectionID := con_ID connection,
                      aud_Outcome := (if hlt_Healthy health then OutcomeSucceeded else OutcomeFailed), aud_Summary := hlt_Message health,
                      aud_Metadata := [(''latencyMs'', AnyFloat64 latency), (''status'', AnyOther ''ConnectionStatus'' (connection_status_text status))],
                      aud_OccurredAt := checkedAt\<rparr>) w4))))))"

definition monitor_History :: "'w ConnectionMonitor \<Rightarrow> string \<Rightarrow> int \<Rightarrow> 'w \<Rightarrow> (error + ConnectionCheck list) \<times> 'w" where
  "monitor_History m connectionID limit = cmo_ListConnectionChecks m connectionID limit"

text \<open>The loop of \<^verbatim>\<open>CheckAll\<close>; \<open>ctx\<close> tells whether the context has ended.\<close>

fun check_connections :: "'w ConnectionMonitor \<Rightarrow> ('w \<Rightarrow> bool) \<Rightarrow> EnvironmentConnection list \<Rightarrow> schedules \<times> 'w \<Rightarrow> schedules \<times> 'w" where
  "check_connections m ended [] st = st"
| "check_connections m ended (c # cs) (schedules, w) =
     (if ended w then (schedules, w)
      else if \<not> isDue schedules (con_ID c) (cmo_now m w) then check_connections m ended cs (schedules, w)
      else check_connections m ended cs (snd (monitor_Check m (con_ID c) (schedules, w))))"

definition monitor_CheckAll :: "'w ConnectionMonitor \<Rightarrow> ('w \<Rightarrow> bool) \<Rightarrow> schedules \<times> 'w \<Rightarrow> schedules \<times> 'w" where
  "monitor_CheckAll m ended = (\<lambda>(schedules, w).
     case cmo_ListAllConnections m w of (Inl e, w1) \<Rightarrow> (schedules, w1) | (Inr connections, w1) \<Rightarrow> check_connections m ended connections (schedules, w1))"

text \<open>\<^verbatim>\<open>Run\<close>: a round at once and one for every tick that arrives before the context ends; time passes between the rounds.\<close>

fun monitor_ticks :: "'w ConnectionMonitor \<Rightarrow> ('w \<Rightarrow> bool) \<Rightarrow> ('w \<Rightarrow> 'w) list \<Rightarrow> schedules \<times> 'w \<Rightarrow> schedules \<times> 'w" where
  "monitor_ticks m ended [] st = st"
| "monitor_ticks m ended (pass # ticks) (schedules, w) = monitor_ticks m ended ticks (monitor_CheckAll m ended (schedules, pass w))"

definition monitor_Run :: "'w ConnectionMonitor \<Rightarrow> ('w \<Rightarrow> bool) \<Rightarrow> ('w \<Rightarrow> 'w) list \<Rightarrow> schedules \<times> 'w \<Rightarrow> schedules \<times> 'w" where
  "monitor_Run m ended ticks st = monitor_ticks m ended ticks (monitor_CheckAll m ended st)"

end
