(* ===== verification/Environment_Schema.thy ===== *)
theory Environment_Schema
  imports Environment_Domain Execution_Store
begin

text \<open>
  The tables of environments, \<^verbatim>\<open>internal/infrastructure/database/schema/schema.sql\<close>, with their constraints, and the
  statements of a transaction on them. The database enforces foreign keys (\<^verbatim>\<open>internal/infrastructure/database/database.go\<close>):
  a statement whose result breaks a constraint fails, and a transaction with a failed statement is rolled back.
\<close>

section \<open>Tables\<close>

record StorageBindingRow =
  sbw_StorageID :: string
  sbw_VersionID :: string
  sbw_RuntimeID :: string
  sbw_Default :: bool
  sbw_HostPath :: string
  sbw_ContainerPath :: string
  sbw_ReadOnly :: bool
  sbw_Configuration :: metadata

text \<open>A reference from a row of another component's table, whose deletion does not cascade.\<close>

datatype table_ref = RefVersion string | RefResource string | RefStorage string

text \<open>
  Columns with JSON hold the value that is read back (\<^const>\<open>json_metadata\<close>). \<open>edb_uses\<close> holds the tables of other
  components that refer to versions, resources and storages.
\<close>

record EnvironmentDB =
  edb_environments :: "Environment list"
  edb_connections :: "EnvironmentConnection list"
  edb_checks :: "ConnectionCheck list"
  edb_versions :: "EnvironmentVersion list"
  edb_runtimes :: "EnvironmentRuntime list"
  edb_capabilities :: "(string, Capabilities) gomap"
  edb_resources :: "Resource list"
  edb_bindings :: "ResourceRuntimeBinding list"
  edb_snapshots :: "ResourceSnapshot list"
  edb_relations :: "ResourceRelation list"
  edb_discoveries :: "(string \<times> string) list"
  edb_storages :: "StorageResource list"
  edb_storage_bindings :: "StorageBindingRow list"
  edb_profiles :: "ActivityResourceProfile list"
  edb_activity_types :: "string list"
  edb_uses :: "(string \<times> table_ref) list"

section \<open>Constraints\<close>

definition unique :: "('a \<Rightarrow> 'k) \<Rightarrow> 'a list \<Rightarrow> bool" where
  "unique key rows \<longleftrightarrow> distinct (map key rows)"

definition refers :: "('a \<Rightarrow> 'k) \<Rightarrow> 'a list \<Rightarrow> ('b \<Rightarrow> 'k) \<Rightarrow> 'b list \<Rightarrow> bool" where
  "refers key rows target table \<longleftrightarrow> list_all (\<lambda>row. key row \<in> set (map target table)) rows"

definition connections_ok :: "EnvironmentDB \<Rightarrow> bool" where
  "connections_ok db \<longleftrightarrow> unique env_ID (edb_environments db) \<and>
     unique con_ID (edb_connections db) \<and> unique (\<lambda>c. (con_EnvironmentID c, con_Name c)) (edb_connections db) \<and>
     refers con_EnvironmentID (edb_connections db) env_ID (edb_environments db) \<and>
     unique chk_ID (edb_checks db) \<and> refers chk_ConnectionID (edb_checks db) con_ID (edb_connections db)"

definition versions_ok :: "EnvironmentDB \<Rightarrow> bool" where
  "versions_ok db \<longleftrightarrow> unique env_VersionID (edb_versions db) \<and>
     unique (\<lambda>v. (env_VersionEnvironmentID v, env_VersionNumber v)) (edb_versions db) \<and>
     refers env_VersionEnvironmentID (edb_versions db) env_ID (edb_environments db) \<and>
     refers snd (edb_discoveries db) env_VersionID (edb_versions db)"

fun known_driver :: "RuntimeDriver \<Rightarrow> bool" where
  "known_driver (RuntimeDriverOther _) = False"
| "known_driver _ = True"

fun known_mode :: "RuntimeMode \<Rightarrow> bool" where
  "known_mode (RuntimeModeOther _) = False"
| "known_mode _ = True"

definition runtimes_ok :: "EnvironmentDB \<Rightarrow> bool" where
  "runtimes_ok db \<longleftrightarrow> unique ert_ID (edb_runtimes db) \<and> unique (\<lambda>r. (ert_EnvironmentVersionID r, ert_Name r)) (edb_runtimes db) \<and>
     refers ert_EnvironmentVersionID (edb_runtimes db) env_VersionID (edb_versions db) \<and>
     list_all (\<lambda>r. known_driver (ert_Driver r) \<and> known_mode (ert_Mode r)) (edb_runtimes db) \<and>
     unique fst (edb_capabilities db) \<and> refers fst (edb_capabilities db) ert_ID (edb_runtimes db)"

definition parents_ok :: "Resource list \<Rightarrow> bool" where
  "parents_ok rs \<longleftrightarrow> list_all (\<lambda>r. case res_ParentResourceID r of None \<Rightarrow> True | Some p \<Rightarrow> p \<in> set (map res_ID rs)) rs"

definition resources_ok :: "EnvironmentDB \<Rightarrow> bool" where
  "resources_ok db \<longleftrightarrow> unique res_ID (edb_resources db) \<and> unique (\<lambda>r. (res_EnvironmentVersionID r, res_ProviderID r)) (edb_resources db) \<and>
     refers res_EnvironmentVersionID (edb_resources db) env_VersionID (edb_versions db) \<and> parents_ok (edb_resources db) \<and>
     list_all (\<lambda>r. res_ExecutionTarget r \<in> {ExecutionTargetBatch, ExecutionTargetDirect}) (edb_resources db) \<and>
     unique (\<lambda>b. (bind_ResourceID b, bind_RuntimeID b)) (edb_bindings db) \<and>
     refers bind_ResourceID (edb_bindings db) res_ID (edb_resources db) \<and> refers bind_RuntimeID (edb_bindings db) ert_ID (edb_runtimes db) \<and>
     unique snap_ID (edb_snapshots db) \<and> refers snap_ResourceID (edb_snapshots db) res_ID (edb_resources db)"

fun known_relation :: "ResourceRelationType \<Rightarrow> bool" where
  "known_relation (ResourceRelationOther _) = False"
| "known_relation _ = True"

definition relations_ok :: "EnvironmentDB \<Rightarrow> bool" where
  "relations_ok db \<longleftrightarrow> unique (\<lambda>r. (rel_SourceResourceID r, rel_TargetResourceID r, rel_Type r)) (edb_relations db) \<and>
     refers rel_EnvironmentVersionID (edb_relations db) env_VersionID (edb_versions db) \<and>
     refers rel_SourceResourceID (edb_relations db) res_ID (edb_resources db) \<and>
     refers rel_TargetResourceID (edb_relations db) res_ID (edb_resources db) \<and>
     list_all (\<lambda>r. known_relation (rel_Type r) \<and> rel_SourceResourceID r \<noteq> rel_TargetResourceID r) (edb_relations db)"

fun known_storage :: "StorageType \<Rightarrow> bool" where
  "known_storage (StorageTypeOther _) = False"
| "known_storage _ = True"

definition storages_ok :: "EnvironmentDB \<Rightarrow> bool" where
  "storages_ok db \<longleftrightarrow> unique sto_ID (edb_storages db) \<and> unique (\<lambda>s. (sto_EnvironmentVersionID s, sto_Name s)) (edb_storages db) \<and>
     refers sto_EnvironmentVersionID (edb_storages db) env_VersionID (edb_versions db) \<and>
     list_all (\<lambda>s. known_storage (sto_Type s) \<and> 0 \<le> sto_CapacityBytes s) (edb_storages db) \<and>
     unique (\<lambda>b. (sbw_StorageID b, sbw_RuntimeID b)) (edb_storage_bindings db) \<and>
     refers (\<lambda>b. (sbw_StorageID b, sbw_VersionID b)) (edb_storage_bindings db) (\<lambda>s. (sto_ID s, sto_EnvironmentVersionID s)) (edb_storages db) \<and>
     refers (\<lambda>b. (sbw_RuntimeID b, sbw_VersionID b)) (edb_storage_bindings db) (\<lambda>r. (ert_ID r, ert_EnvironmentVersionID r)) (edb_runtimes db) \<and>
     unique (\<lambda>b. (sbw_VersionID b, sbw_RuntimeID b)) (filter sbw_Default (edb_storage_bindings db))"

definition profiles_ok :: "EnvironmentDB \<Rightarrow> bool" where
  "profiles_ok db \<longleftrightarrow> unique prof_ID (edb_profiles db) \<and>
     unique (\<lambda>p. (prof_ActivityTypeID p, prof_ResourceID p, prof_ModelVersion p)) (edb_profiles db) \<and>
     list_all (\<lambda>p. prof_ActivityTypeID p \<in> set (edb_activity_types db) \<and> fle fzero (prof_RuntimeSeconds p)) (edb_profiles db) \<and>
     refers prof_ResourceID (edb_profiles db) res_ID (edb_resources db)"

fun ref_ok :: "EnvironmentDB \<Rightarrow> table_ref \<Rightarrow> bool" where
  "ref_ok db (RefVersion v) = (v \<in> set (map env_VersionID (edb_versions db)))"
| "ref_ok db (RefResource r) = (r \<in> set (map res_ID (edb_resources db)))"
| "ref_ok db (RefStorage s) = (s \<in> set (map sto_ID (edb_storages db)))"

definition schema_ok :: "EnvironmentDB \<Rightarrow> bool" where
  "schema_ok db \<longleftrightarrow> connections_ok db \<and> versions_ok db \<and> runtimes_ok db \<and> resources_ok db \<and> relations_ok db \<and> storages_ok db \<and>
     profiles_ok db \<and> list_all (\<lambda>(table, ref). ref_ok db ref) (edb_uses db)"

lemmas schema_defs = schema_ok_def connections_ok_def versions_ok_def runtimes_ok_def resources_ok_def relations_ok_def storages_ok_def
  profiles_ok_def

section \<open>Statements and transactions\<close>

text \<open>
  The failures of the database, its clock (\<^verbatim>\<open>CURRENT_TIMESTAMP\<close>), and the order in which \<^verbatim>\<open>listStorages\<close> visits its map.
\<close>

record EnvironmentEnv =
  ee_fault :: "EnvironmentDB \<Rightarrow> string \<Rightarrow> error option"
  ee_now :: "EnvironmentDB \<Rightarrow> int"
  ee_order :: "StorageResource list \<Rightarrow> StorageResource list"

definition exec_stmt :: "EnvironmentEnv \<Rightarrow> string \<Rightarrow> (EnvironmentDB \<Rightarrow> EnvironmentDB) \<Rightarrow> EnvironmentDB \<Rightarrow> error + EnvironmentDB" where
  "exec_stmt env name update db =
     (case ee_fault env db name of
        Some e \<Rightarrow> Inl e
      | None \<Rightarrow> if schema_ok (update db) then Inr (update db) else Inl (Errorf ''constraint failed: %s'' [FmtS name]))"

fun chain :: "('d \<Rightarrow> error + 'd) list \<Rightarrow> 'd \<Rightarrow> error + 'd" where
  "chain [] db = Inr db"
| "chain (f # fs) db = (case f db of Inl e \<Rightarrow> Inl e | Inr db1 \<Rightarrow> chain fs db1)"

definition transaction :: "(EnvironmentDB \<Rightarrow> error + EnvironmentDB) \<Rightarrow> EnvironmentDB \<Rightarrow> error option \<times> EnvironmentDB" where
  "transaction body db = (case body db of Inl e \<Rightarrow> (Some e, db) | Inr db' \<Rightarrow> (None, db'))"

definition query :: "EnvironmentEnv \<Rightarrow> string \<Rightarrow> EnvironmentDB \<Rightarrow> (EnvironmentDB \<Rightarrow> 'r) \<Rightarrow> error + 'r" where
  "query env name db read = (case ee_fault env db name of Some e \<Rightarrow> Inl e | None \<Rightarrow> Inr (read db))"

definition noRows :: error where
  "noRows = Errorf ''sql: no rows in result set'' []"

definition unsupportedValue :: error where
  "unsupportedValue = Errorf ''json: unsupported value'' []"

text \<open>A statement with an encoded column is not reached when the encoding fails.\<close>

definition with_json :: "metadata \<Rightarrow> (metadata \<Rightarrow> 'd \<Rightarrow> error + 'd) \<Rightarrow> 'd \<Rightarrow> error + 'd" where
  "with_json value f db = (case json_metadata value of None \<Rightarrow> Inl unsupportedValue | Some v \<Rightarrow> f v db)"

lemma transaction_atomic: "fst (transaction body db) \<noteq> None \<Longrightarrow> snd (transaction body db) = db"
  by (auto simp: transaction_def split: sum.splits)

lemma transaction_None: "transaction body db = (None, db') \<longleftrightarrow> body db = Inr db'"
  by (auto simp: transaction_def split: sum.splits)

lemma transaction_Some: "transaction body db = (Some e, db') \<Longrightarrow> db' = db"
  by (auto simp: transaction_def split: sum.splits)

lemma exec_stmt_Inr: "exec_stmt env name update db = Inr db' \<longleftrightarrow> ee_fault env db name = None \<and> db' = update db \<and> schema_ok db'"
  by (auto simp: exec_stmt_def split: option.splits)

lemma chain_Inr_Cons [simp]: "chain (f # fs) db = Inr db' \<longleftrightarrow> (\<exists>db1. f db = Inr db1 \<and> chain fs db1 = Inr db')"
  by (auto split: sum.splits)

declare chain.simps(2) [simp del]

lemma chain_Inr_append: "chain (fs @ gs) db = Inr db' \<longleftrightarrow> (\<exists>db1. chain fs db = Inr db1 \<and> chain gs db1 = Inr db')"
  by (induction fs arbitrary: db) auto

lemma with_json_Inr: "with_json value f db = Inr db' \<longleftrightarrow> (\<exists>v. json_metadata value = Some v \<and> f v db = Inr db')"
  by (auto simp: with_json_def split: option.splits)

section \<open>Reading the constraints\<close>

lemma refersD: "refers key rows target table \<Longrightarrow> x \<in> set rows \<Longrightarrow> key x \<in> target ` set table"
  by (auto simp: refers_def list_all_iff)

lemma schema_unique:
  assumes "schema_ok db"
  shows "distinct (map env_ID (edb_environments db))" "distinct (map con_ID (edb_connections db))" "distinct (map env_VersionID (edb_versions db))"
    "distinct (map ert_ID (edb_runtimes db))" "distinct (map fst (edb_capabilities db))" "distinct (map res_ID (edb_resources db))"
    "distinct (map sto_ID (edb_storages db))" "distinct (map (\<lambda>b. (sbw_StorageID b, sbw_RuntimeID b)) (edb_storage_bindings db))"
    "distinct (map chk_ID (edb_checks db))"
  using assms by (simp_all add: schema_defs unique_def)

lemma schema_refers:
  assumes "schema_ok db"
  shows "c \<in> set (edb_connections db) \<Longrightarrow> con_EnvironmentID c \<in> env_ID ` set (edb_environments db)"
    "k \<in> set (edb_checks db) \<Longrightarrow> chk_ConnectionID k \<in> con_ID ` set (edb_connections db)"
    "v \<in> set (edb_versions db) \<Longrightarrow> env_VersionEnvironmentID v \<in> env_ID ` set (edb_environments db)"
    "rt \<in> set (edb_runtimes db) \<Longrightarrow> ert_EnvironmentVersionID rt \<in> env_VersionID ` set (edb_versions db)"
    "r \<in> set (edb_resources db) \<Longrightarrow> res_EnvironmentVersionID r \<in> env_VersionID ` set (edb_versions db)"
    "b \<in> set (edb_bindings db) \<Longrightarrow> bind_ResourceID b \<in> res_ID ` set (edb_resources db)"
    "b \<in> set (edb_bindings db) \<Longrightarrow> bind_RuntimeID b \<in> ert_ID ` set (edb_runtimes db)"
    "l \<in> set (edb_relations db) \<Longrightarrow> rel_EnvironmentVersionID l \<in> env_VersionID ` set (edb_versions db)"
    "s \<in> set (edb_storages db) \<Longrightarrow> sto_EnvironmentVersionID s \<in> env_VersionID ` set (edb_versions db)"
    "sb \<in> set (edb_storage_bindings db) \<Longrightarrow> (sbw_StorageID sb, sbw_VersionID sb) \<in> (\<lambda>s. (sto_ID s, sto_EnvironmentVersionID s)) ` set (edb_storages db)"
    "sb \<in> set (edb_storage_bindings db) \<Longrightarrow> (sbw_RuntimeID sb, sbw_VersionID sb) \<in> (\<lambda>r. (ert_ID r, ert_EnvironmentVersionID r)) ` set (edb_runtimes db)"
    "p \<in> set (edb_profiles db) \<Longrightarrow> prof_ResourceID p \<in> res_ID ` set (edb_resources db)"
    "cp \<in> set (edb_capabilities db) \<Longrightarrow> fst cp \<in> ert_ID ` set (edb_runtimes db)"
  by (rule refersD, (insert assms, simp_all add: schema_defs)[2])+

end
