(* ===== verification/Environment_Repository.thy ===== *)
theory Environment_Repository
  imports Environment_Schema
begin

text \<open>
  The environment repository, \<^verbatim>\<open>internal/infrastructure/database/environment/repository.go\<close>: creation, replacement and deletion of
  an environment with its whole inventory, its reassembly, the status and the connections with their checks, and the
  storages of a runtime. Rows keep the order of insertion, and a sort by a column keeps it among equal values.
\<close>

section \<open>Insertion\<close>

definition insertEnvironment :: "EnvironmentEnv \<Rightarrow> EnvironmentDefinition \<Rightarrow> EnvironmentDB \<Rightarrow> error + EnvironmentDB" where
  "insertEnvironment env d =
     (let e = def_Environment d; status = (if env_Status e = EnvironmentStatusOther '''' then EnvironmentDefined else env_Status e) in
      exec_stmt env ''insert environment'' (\<lambda>db. db\<lparr>edb_environments := edb_environments db @ [e\<lparr>env_Status := status, env_CreatedAt := ee_now env db\<rparr>]\<rparr>))"

definition insert_connection :: "EnvironmentEnv \<Rightarrow> string \<Rightarrow> EnvironmentConnection \<Rightarrow> EnvironmentDB \<Rightarrow> error + EnvironmentDB" where
  "insert_connection env environmentID c = with_json (con_Configuration c) (\<lambda>configuration.
     exec_stmt env ''insert connection'' (\<lambda>db. db\<lparr>edb_connections := edb_connections db @
       [c\<lparr>con_EnvironmentID := environmentID, con_Configuration := configuration, con_CreatedAt := ee_now env db\<rparr>]\<rparr>))"

definition insertConnections :: "EnvironmentEnv \<Rightarrow> EnvironmentDefinition \<Rightarrow> EnvironmentDB \<Rightarrow> error + EnvironmentDB" where
  "insertConnections env d = chain (map (insert_connection env (env_ID (def_Environment d))) (def_Connections d))"

definition insertEnvironmentVersion :: "EnvironmentEnv \<Rightarrow> EnvironmentDefinition \<Rightarrow> EnvironmentDB \<Rightarrow> error + EnvironmentDB" where
  "insertEnvironmentVersion env d =
     exec_stmt env ''insert environment version'' (\<lambda>db. db\<lparr>edb_versions := edb_versions db @
       [(def_Version d)\<lparr>env_VersionEnvironmentID := env_ID (def_Environment d), env_VersionCreatedAt := ee_now env db\<rparr>]\<rparr>)"

definition no_capabilities :: Capabilities where
  "no_capabilities = \<lparr>cap_Batch = False, cap_Interactive = False, cap_Container = False, cap_Serverless = False, cap_GPU = False, cap_MPI = False,
     cap_SharedStorage = False, cap_DataStaging = False, cap_Cancellation = False, cap_LogStreaming = False, cap_Simulation = False\<rparr>"

definition insert_runtime :: "EnvironmentEnv \<Rightarrow> string \<Rightarrow> EnvironmentRuntime \<Rightarrow> EnvironmentDB \<Rightarrow> error + EnvironmentDB" where
  "insert_runtime env versionID r = with_json (ert_Configuration r) (\<lambda>configuration. chain
     [exec_stmt env ''insert runtime'' (\<lambda>db. db\<lparr>edb_runtimes := edb_runtimes db @
        [r\<lparr>ert_EnvironmentVersionID := versionID, ert_Configuration := configuration, ert_Capabilities := no_capabilities\<rparr>]\<rparr>),
      exec_stmt env ''insert capabilities'' (\<lambda>db. db\<lparr>edb_capabilities := edb_capabilities db @ [(ert_ID r, ert_Capabilities r)]\<rparr>)])"

definition insertRuntimes :: "EnvironmentEnv \<Rightarrow> EnvironmentDefinition \<Rightarrow> EnvironmentDB \<Rightarrow> error + EnvironmentDB" where
  "insertRuntimes env d = chain (map (insert_runtime env (env_VersionID (def_Version d))) (def_Runtimes d))"

definition normalizedExecutionTarget :: "ResourceExecutionTarget \<Rightarrow> ResourceExecutionTarget" where
  "normalizedExecutionTarget target = (if target = ExecutionTargetOther '''' then ExecutionTargetBatch else target)"

definition insert_resource :: "EnvironmentEnv \<Rightarrow> string \<Rightarrow> Resource \<Rightarrow> EnvironmentDB \<Rightarrow> error + EnvironmentDB" where
  "insert_resource env versionID r = with_json (res_Metadata r) (\<lambda>metadata.
     exec_stmt env ''insert resource'' (\<lambda>db. db\<lparr>edb_resources := edb_resources db @
       [r\<lparr>res_EnvironmentVersionID := versionID, res_ExecutionTarget := normalizedExecutionTarget (res_ExecutionTarget r), res_Metadata := metadata\<rparr>]\<rparr>))"

definition insertResources :: "EnvironmentEnv \<Rightarrow> EnvironmentDefinition \<Rightarrow> EnvironmentDB \<Rightarrow> error + EnvironmentDB" where
  "insertResources env d = chain (map (insert_resource env (env_VersionID (def_Version d))) (def_Resources d))"

definition insert_binding :: "EnvironmentEnv \<Rightarrow> ResourceRuntimeBinding \<Rightarrow> EnvironmentDB \<Rightarrow> error + EnvironmentDB" where
  "insert_binding env b = with_json (bind_Configuration b) (\<lambda>configuration.
     exec_stmt env ''insert runtime binding'' (\<lambda>db. db\<lparr>edb_bindings := edb_bindings db @ [b\<lparr>bind_Configuration := configuration\<rparr>]\<rparr>))"

definition insertRuntimeBindings :: "EnvironmentEnv \<Rightarrow> EnvironmentDefinition \<Rightarrow> EnvironmentDB \<Rightarrow> error + EnvironmentDB" where
  "insertRuntimeBindings env d = chain (map (insert_binding env) (def_RuntimeBindings d))"

definition insert_relation :: "EnvironmentEnv \<Rightarrow> string \<Rightarrow> ResourceRelation \<Rightarrow> EnvironmentDB \<Rightarrow> error + EnvironmentDB" where
  "insert_relation env versionID r = with_json (rel_Metadata r) (\<lambda>metadata.
     exec_stmt env ''insert relation'' (\<lambda>db. db\<lparr>edb_relations := edb_relations db @ [r\<lparr>rel_EnvironmentVersionID := versionID, rel_Metadata := metadata\<rparr>]\<rparr>))"

definition insertResourceRelations :: "EnvironmentEnv \<Rightarrow> EnvironmentDefinition \<Rightarrow> EnvironmentDB \<Rightarrow> error + EnvironmentDB" where
  "insertResourceRelations env d = chain (map (insert_relation env (env_VersionID (def_Version d))) (def_Relations d))"

text \<open>The columns of \<^verbatim>\<open>storage_resources\<close>; what is observed of a storage is not stored.\<close>

definition storage_row :: "string \<Rightarrow> metadata \<Rightarrow> metadata \<Rightarrow> StorageResource \<Rightarrow> StorageResource" where
  "storage_row versionID configuration metadata s =
     s\<lparr>sto_EnvironmentVersionID := versionID, sto_Configuration := configuration, sto_Metadata := metadata, sto_RuntimeBindings := [],
       sto_BrowseRoots := [],
       sto_Capabilities := \<lparr>stc_Browse = False, stc_Read = False, stc_Write = False, stc_Download = False, stc_Upload = False,
         stc_Checksum = False, stc_PresignedDownload = False, stc_ComputeNodeVisible = False\<rparr>,
       sto_Health := \<lparr>shs_Status = StorageHealthOther '''', shs_Message = '''', shs_CheckedAt = 0, shs_AvailableBytes = 0\<rparr>,
       sto_IndexPolicy := \<lparr>ixp_Enabled = False, ixp_Roots = [], ixp_MaxDepth = 0, ixp_MaxEntries = 0, ixp_Include = [], ixp_Exclude = [],
         ixp_TimeoutSeconds = 0\<rparr>,
       sto_IndexStatus := \<lparr>ixs_Status = '''', ixs_IndexedEntries = 0, ixs_LastIndexedAt = 0, ixs_Message = ''''\<rparr>\<rparr>"

definition binding_row :: "string \<Rightarrow> string \<Rightarrow> metadata \<Rightarrow> StorageRuntimeBinding \<Rightarrow> StorageBindingRow" where
  "binding_row storageID versionID configuration b =
     \<lparr>sbw_StorageID = storageID, sbw_VersionID = versionID, sbw_RuntimeID = srb_RuntimeID b, sbw_Default = srb_Default b,
      sbw_HostPath = srb_HostPath b, sbw_ContainerPath = (if srb_ContainerPath b = '''' then ''/akoflow/data'' else srb_ContainerPath b),
      sbw_ReadOnly = srb_ReadOnly b, sbw_Configuration = configuration\<rparr>"

definition insert_storage_binding :: "EnvironmentEnv \<Rightarrow> string \<Rightarrow> string \<Rightarrow> StorageRuntimeBinding \<Rightarrow> EnvironmentDB \<Rightarrow> error + EnvironmentDB" where
  "insert_storage_binding env versionID storageID b = with_json (srb_Configuration b) (\<lambda>configuration.
     exec_stmt env ''insert storage binding'' (\<lambda>db. db\<lparr>edb_storage_bindings := edb_storage_bindings db @ [binding_row storageID versionID configuration b]\<rparr>))"

definition insert_storage :: "EnvironmentEnv \<Rightarrow> string \<Rightarrow> StorageResource \<Rightarrow> EnvironmentDB \<Rightarrow> error + EnvironmentDB" where
  "insert_storage env versionID s = with_json (sto_Configuration s) (\<lambda>configuration. with_json (sto_Metadata s) (\<lambda>metadata. chain
     (exec_stmt env ''insert storage'' (\<lambda>db. db\<lparr>edb_storages := edb_storages db @ [storage_row versionID configuration metadata s]\<rparr>)
      # map (insert_storage_binding env versionID (sto_ID s)) (sto_RuntimeBindings s))))"

definition insertStorages :: "EnvironmentEnv \<Rightarrow> EnvironmentDefinition \<Rightarrow> EnvironmentDB \<Rightarrow> error + EnvironmentDB" where
  "insertStorages env d = chain (map (insert_storage env (env_VersionID (def_Version d))) (def_Storages d))"

definition insert_profile :: "EnvironmentEnv \<Rightarrow> ActivityResourceProfile \<Rightarrow> EnvironmentDB \<Rightarrow> error + EnvironmentDB" where
  "insert_profile env p = with_json (prof_Metadata p) (\<lambda>metadata.
     exec_stmt env ''insert profile'' (\<lambda>db. db\<lparr>edb_profiles := edb_profiles db @ [p\<lparr>prof_Metadata := metadata\<rparr>]\<rparr>))"

definition insertProfiles :: "EnvironmentEnv \<Rightarrow> EnvironmentDefinition \<Rightarrow> EnvironmentDB \<Rightarrow> error + EnvironmentDB" where
  "insertProfiles env d = chain (map (insert_profile env) (def_Profiles d))"

definition insert_inventory :: "EnvironmentEnv \<Rightarrow> EnvironmentDefinition \<Rightarrow> EnvironmentDB \<Rightarrow> error + EnvironmentDB" where
  "insert_inventory env d = chain [insertConnections env d, insertEnvironmentVersion env d, insertRuntimes env d, insertResources env d,
     insertRuntimeBindings env d, insertResourceRelations env d, insertStorages env d, insertProfiles env d]"

definition environment_Create :: "EnvironmentEnv \<Rightarrow> EnvironmentDefinition \<Rightarrow> EnvironmentDB \<Rightarrow> error option \<times> EnvironmentDB" where
  "environment_Create env d = transaction (chain [insertEnvironment env d, insert_inventory env d])"

section \<open>Deletion\<close>

definition version_in :: "EnvironmentDB \<Rightarrow> string \<Rightarrow> string \<Rightarrow> bool" where
  "version_in db environmentID v \<longleftrightarrow> list_ex (\<lambda>x. env_VersionID x = v \<and> env_VersionEnvironmentID x = environmentID) (edb_versions db)"

definition resource_in :: "EnvironmentDB \<Rightarrow> string \<Rightarrow> string \<Rightarrow> bool" where
  "resource_in db environmentID r \<longleftrightarrow> list_ex (\<lambda>x. res_ID x = r \<and> version_in db environmentID (res_EnvironmentVersionID x)) (edb_resources db)"

definition storage_in :: "EnvironmentDB \<Rightarrow> string \<Rightarrow> string \<Rightarrow> bool" where
  "storage_in db environmentID s \<longleftrightarrow> list_ex (\<lambda>x. sto_ID x = s \<and> version_in db environmentID (sto_EnvironmentVersionID x)) (edb_storages db)"

text \<open>The cascades of the schema, where a row takes others with it.\<close>

definition delete_snapshots :: "string \<Rightarrow> EnvironmentDB \<Rightarrow> EnvironmentDB" where
  "delete_snapshots i db = db\<lparr>edb_snapshots := filter (\<lambda>x. \<not> resource_in db i (snap_ResourceID x)) (edb_snapshots db)\<rparr>"

definition delete_profiles :: "string \<Rightarrow> EnvironmentDB \<Rightarrow> EnvironmentDB" where
  "delete_profiles i db = db\<lparr>edb_profiles := filter (\<lambda>x. \<not> resource_in db i (prof_ResourceID x)) (edb_profiles db)\<rparr>"

definition delete_relations :: "string \<Rightarrow> EnvironmentDB \<Rightarrow> EnvironmentDB" where
  "delete_relations i db = db\<lparr>edb_relations := filter (\<lambda>x. \<not> version_in db i (rel_EnvironmentVersionID x)) (edb_relations db)\<rparr>"

definition delete_discoveries :: "string \<Rightarrow> EnvironmentDB \<Rightarrow> EnvironmentDB" where
  "delete_discoveries i db = db\<lparr>edb_discoveries := filter (\<lambda>x. \<not> version_in db i (snd x)) (edb_discoveries db)\<rparr>"

definition delete_storages :: "string \<Rightarrow> EnvironmentDB \<Rightarrow> EnvironmentDB" where
  "delete_storages i db = db\<lparr>edb_storages := filter (\<lambda>x. \<not> version_in db i (sto_EnvironmentVersionID x)) (edb_storages db),
     edb_storage_bindings := filter (\<lambda>b. \<not> storage_in db i (sbw_StorageID b)) (edb_storage_bindings db)\<rparr>"

definition delete_resources :: "string \<Rightarrow> EnvironmentDB \<Rightarrow> EnvironmentDB" where
  "delete_resources i db = db\<lparr>edb_resources := filter (\<lambda>x. \<not> version_in db i (res_EnvironmentVersionID x)) (edb_resources db),
     edb_bindings := filter (\<lambda>b. \<not> resource_in db i (bind_ResourceID b)) (edb_bindings db),
     edb_relations := filter (\<lambda>r. \<not> resource_in db i (rel_SourceResourceID r) \<and> \<not> resource_in db i (rel_TargetResourceID r)) (edb_relations db)\<rparr>"

definition runtime_in :: "EnvironmentDB \<Rightarrow> string \<Rightarrow> string \<Rightarrow> bool" where
  "runtime_in db environmentID r \<longleftrightarrow> list_ex (\<lambda>x. ert_ID x = r \<and> version_in db environmentID (ert_EnvironmentVersionID x)) (edb_runtimes db)"

definition delete_runtimes :: "string \<Rightarrow> EnvironmentDB \<Rightarrow> EnvironmentDB" where
  "delete_runtimes i db = db\<lparr>edb_runtimes := filter (\<lambda>x. \<not> version_in db i (ert_EnvironmentVersionID x)) (edb_runtimes db),
     edb_capabilities := filter (\<lambda>x. \<not> runtime_in db i (fst x)) (edb_capabilities db),
     edb_bindings := filter (\<lambda>b. \<not> runtime_in db i (bind_RuntimeID b)) (edb_bindings db),
     edb_storage_bindings := filter (\<lambda>b. \<not> runtime_in db i (sbw_RuntimeID b)) (edb_storage_bindings db)\<rparr>"

definition delete_connections :: "string \<Rightarrow> EnvironmentDB \<Rightarrow> EnvironmentDB" where
  "delete_connections i db = db\<lparr>edb_connections := filter (\<lambda>x. con_EnvironmentID x \<noteq> i) (edb_connections db),
     edb_checks := filter (\<lambda>c. \<not> list_ex (\<lambda>x. con_ID x = chk_ConnectionID c \<and> con_EnvironmentID x = i) (edb_connections db)) (edb_checks db)\<rparr>"

definition delete_versions :: "string \<Rightarrow> EnvironmentDB \<Rightarrow> EnvironmentDB" where
  "delete_versions i db = db\<lparr>edb_versions := filter (\<lambda>x. env_VersionEnvironmentID x \<noteq> i) (edb_versions db),
     edb_storage_bindings := filter (\<lambda>b. \<not> version_in db i (sbw_VersionID b)) (edb_storage_bindings db)\<rparr>"

definition delete_environment :: "string \<Rightarrow> EnvironmentDB \<Rightarrow> EnvironmentDB" where
  "delete_environment i db = db\<lparr>edb_environments := filter (\<lambda>x. env_ID x \<noteq> i) (edb_environments db)\<rparr>"

definition inventory_deletes :: "(string \<times> (string \<Rightarrow> EnvironmentDB \<Rightarrow> EnvironmentDB)) list" where
  "inventory_deletes = [(''delete snapshots'', delete_snapshots), (''delete profiles'', delete_profiles), (''delete relations'', delete_relations),
     (''delete discovery runs'', delete_discoveries), (''delete storages'', delete_storages), (''delete resources'', delete_resources),
     (''delete runtimes'', delete_runtimes), (''delete connections'', delete_connections), (''delete versions'', delete_versions)]"

definition used_by :: "string list \<Rightarrow> EnvironmentDB \<Rightarrow> string \<Rightarrow> bool" where
  "used_by tables db environmentID \<longleftrightarrow> list_ex (\<lambda>(table, ref). table \<in> set tables \<and>
     (case ref of RefVersion v \<Rightarrow> version_in db environmentID v | RefResource r \<Rightarrow> resource_in db environmentID r
      | RefStorage s \<Rightarrow> storage_in db environmentID s)) (edb_uses db)"

definition dependency_queries :: "(string \<times> string list) list" where
  "dependency_queries = [(''execution scope'', [''execution_scope_environments'']), (''network topology'', [''network_links'']),
     (''schedule plan'', [''schedule_plan_assignments'']), (''execution data'', [''data_locations'']),
     (''transfer observation'', [''data_transfer_observations'']), (''console activity'', [''console_commands'', ''console_sessions'']),
     (''simulation scenario'', [''simulation_scenarios''])]"

definition check_exists :: "EnvironmentEnv \<Rightarrow> string \<Rightarrow> EnvironmentDB \<Rightarrow> error + EnvironmentDB" where
  "check_exists env i db =
     (case query env ''find environment'' db (\<lambda>db. list_ex (\<lambda>x. env_ID x = i) (edb_environments db)) of
        Inl e \<Rightarrow> Inl e | Inr ok \<Rightarrow> if ok then Inr db else Inl noRows)"

definition check_dependency :: "EnvironmentEnv \<Rightarrow> string \<Rightarrow> string \<times> string list \<Rightarrow> EnvironmentDB \<Rightarrow> error + EnvironmentDB" where
  "check_dependency env i = (\<lambda>(name, tables) db.
     case query env name db (\<lambda>db. used_by tables db i) of
       Inl e \<Rightarrow> Inl e
     | Inr used \<Rightarrow>
        if used then Inl (Errorf ''environment %q cannot be deleted because it is used by a %s'' [FmtS i, FmtS name]) else Inr db)"

definition environment_Delete :: "EnvironmentEnv \<Rightarrow> string \<Rightarrow> EnvironmentDB \<Rightarrow> error option \<times> EnvironmentDB" where
  "environment_Delete env i = transaction (chain (check_exists env i # map (check_dependency env i) dependency_queries @
     map (\<lambda>(name, f). exec_stmt env name (f i)) (inventory_deletes @ [(''delete environment'', delete_environment)])))"

definition in_use :: "string \<Rightarrow> (EnvironmentDB \<Rightarrow> error + EnvironmentDB) \<Rightarrow> EnvironmentDB \<Rightarrow> error + EnvironmentDB" where
  "in_use i f db = (case f db of Inl e \<Rightarrow> Inl (Errorf ''environment %q cannot be replaced while it is in use: %w'' [FmtS i, FmtE e]) | Inr db' \<Rightarrow> Inr db')"

definition update_environment :: "Environment \<Rightarrow> EnvironmentDB \<Rightarrow> EnvironmentDB" where
  "update_environment e db = db\<lparr>edb_environments := map (\<lambda>x. if env_ID x = env_ID e
     then x\<lparr>env_Name := env_Name e, env_Description := env_Description e, env_Status := env_Status e\<rparr> else x) (edb_environments db)\<rparr>"

definition environment_Replace :: "EnvironmentEnv \<Rightarrow> EnvironmentDefinition \<Rightarrow> EnvironmentDB \<Rightarrow> error option \<times> EnvironmentDB" where
  "environment_Replace env d =
     (let i = env_ID (def_Environment d) in
      transaction (chain (check_exists env i # map (\<lambda>(name, f). in_use i (exec_stmt env name (f i))) inventory_deletes @
        [exec_stmt env ''update environment'' (update_environment (def_Environment d)), insert_inventory env d])))"


section \<open>Connections and their checks\<close>

definition environment_UpdateStatus :: "EnvironmentEnv \<Rightarrow> string \<Rightarrow> EnvironmentStatus \<Rightarrow> EnvironmentDB \<Rightarrow> error option \<times> EnvironmentDB" where
  "environment_UpdateStatus env i status db =
     (case exec_stmt env ''update status'' (\<lambda>db. db\<lparr>edb_environments := map (\<lambda>x. if env_ID x = i then x\<lparr>env_Status := status\<rparr> else x) (edb_environments db)\<rparr>) db of
        Inl e \<Rightarrow> (Some e, db)
      | Inr db' \<Rightarrow> (if length (filter (\<lambda>x. env_ID x = i) (edb_environments db)) \<noteq> 1 then Some noRows else None, db'))"

definition upsert_connection :: "EnvironmentConnection \<Rightarrow> EnvironmentDB \<Rightarrow> EnvironmentDB" where
  "upsert_connection c db = db\<lparr>edb_connections :=
     (if list_ex (\<lambda>x. con_ID x = con_ID c) (edb_connections db) then
        map (\<lambda>x. if con_ID x = con_ID c then x\<lparr>con_Name := con_Name c, con_Type := con_Type c, con_Endpoint := con_Endpoint c,
          con_Username := con_Username c, con_CredentialRef := con_CredentialRef c, con_Configuration := con_Configuration c\<rparr> else x) (edb_connections db)
      else edb_connections db @ [c])\<rparr>"

definition environment_UpsertConnection :: "EnvironmentEnv \<Rightarrow> EnvironmentConnection \<Rightarrow> EnvironmentDB \<Rightarrow> error option \<times> EnvironmentDB" where
  "environment_UpsertConnection env c = transaction (with_json (con_Configuration c) (\<lambda>configuration db.
     exec_stmt env ''upsert connection'' (upsert_connection (c\<lparr>con_Configuration := configuration, con_CreatedAt := ee_now env db\<rparr>)) db))"

definition environment_ListConnections :: "EnvironmentEnv \<Rightarrow> string \<Rightarrow> EnvironmentDB \<Rightarrow> error + EnvironmentConnection list" where
  "environment_ListConnections env i db =
     query env ''list connections'' db (\<lambda>db. sort_key con_Name (filter (\<lambda>c. con_EnvironmentID c = i) (edb_connections db)))"

definition environment_FindConnection :: "EnvironmentEnv \<Rightarrow> string \<Rightarrow> EnvironmentDB \<Rightarrow> error + EnvironmentConnection option" where
  "environment_FindConnection env i db = query env ''find connection'' db (\<lambda>db. find (\<lambda>c. con_ID c = i) (edb_connections db))"

definition environment_ListAllConnections :: "EnvironmentEnv \<Rightarrow> EnvironmentDB \<Rightarrow> error + EnvironmentConnection list" where
  "environment_ListAllConnections env db =
     query env ''list all connections'' db (\<lambda>db. sort_key con_EnvironmentID (sort_key con_Name (edb_connections db)))"

definition newest_checks :: "string \<Rightarrow> EnvironmentDB \<Rightarrow> ConnectionCheck list" where
  "newest_checks connectionID db = sort_key (\<lambda>c. - chk_CheckedAt c) (filter (\<lambda>c. chk_ConnectionID c = connectionID) (edb_checks db))"

definition trim_checks :: "string \<Rightarrow> EnvironmentDB \<Rightarrow> EnvironmentDB" where
  "trim_checks connectionID db = db\<lparr>edb_checks := filter (\<lambda>c. \<not> (chk_ConnectionID c = connectionID \<and>
     chk_ID c \<notin> set (map chk_ID (take 1000 (newest_checks connectionID db))))) (edb_checks db)\<rparr>"

definition environment_SaveConnectionCheck :: "EnvironmentEnv \<Rightarrow> ConnectionCheck \<Rightarrow> EnvironmentDB \<Rightarrow> error option \<times> EnvironmentDB" where
  "environment_SaveConnectionCheck env c = transaction (with_json (chk_Metadata c) (\<lambda>metadata. chain
     [exec_stmt env ''insert check'' (\<lambda>db. db\<lparr>edb_checks := edb_checks db @ [c\<lparr>chk_Metadata := metadata\<rparr>]\<rparr>),
      exec_stmt env ''trim checks'' (trim_checks (chk_ConnectionID c))]))"

definition environment_ListConnectionChecks :: "EnvironmentEnv \<Rightarrow> string \<Rightarrow> int \<Rightarrow> EnvironmentDB \<Rightarrow> error + ConnectionCheck list" where
  "environment_ListConnectionChecks env connectionID limit db =
     query env ''list checks'' db (\<lambda>db. take (nat (if limit \<le> 0 \<or> limit > 500 then 100 else limit)) (newest_checks connectionID db))"

section \<open>Storages of a runtime\<close>

definition stored_binding :: "string \<Rightarrow> StorageBindingRow \<Rightarrow> StorageRuntimeBinding" where
  "stored_binding runtimeID b = \<lparr>srb_RuntimeID = runtimeID, srb_Default = sbw_Default b, srb_HostPath = sbw_HostPath b,
     srb_ContainerPath = sbw_ContainerPath b, srb_ReadOnly = sbw_ReadOnly b, srb_Configuration = sbw_Configuration b\<rparr>"

definition runtime_storages :: "string \<Rightarrow> string \<Rightarrow> EnvironmentDB \<Rightarrow> (StorageResource \<times> StorageBindingRow) list" where
  "runtime_storages versionID runtimeID db =
     sort_key (\<lambda>(s, b). \<not> sbw_Default b) (sort_key (\<lambda>(s, b). sto_Name s)
       (concat (map (\<lambda>s. map (Pair s) (filter (\<lambda>b. sbw_StorageID b = sto_ID s \<and> sbw_VersionID b = versionID \<and> sbw_RuntimeID b = runtimeID)
         (edb_storage_bindings db))) (edb_storages db))))"

definition environment_ListRuntimeStorages :: "EnvironmentEnv \<Rightarrow> string \<Rightarrow> string \<Rightarrow> EnvironmentDB \<Rightarrow> error + StorageResource list" where
  "environment_ListRuntimeStorages env versionID runtimeID db =
     query env ''list runtime storages'' db (\<lambda>db. map (\<lambda>(s, b). s\<lparr>sto_RuntimeBindings := [stored_binding runtimeID b]\<rparr>) (runtime_storages versionID runtimeID db))"

text \<open>Every storage of the listing has one binding.\<close>

definition environment_FindDefaultRuntimeStorage :: "EnvironmentEnv \<Rightarrow> string \<Rightarrow> string \<Rightarrow> EnvironmentDB \<Rightarrow> error + StorageResource" where
  "environment_FindDefaultRuntimeStorage env versionID runtimeID db =
     (case environment_ListRuntimeStorages env versionID runtimeID db of
        Inl e \<Rightarrow> Inl e
      | Inr storages \<Rightarrow>
         (case find (\<lambda>s. srb_Default (hd (sto_RuntimeBindings s))) storages of None \<Rightarrow> Inl noRows | Some s \<Rightarrow> Inr s))"

definition upsert_storage :: "StorageResource \<Rightarrow> EnvironmentDB \<Rightarrow> EnvironmentDB" where
  "upsert_storage s db = db\<lparr>edb_storages :=
     (if list_ex (\<lambda>x. sto_ID x = sto_ID s) (edb_storages db) then
        map (\<lambda>x. if sto_ID x = sto_ID s then x\<lparr>sto_CapacityBytes := sto_CapacityBytes s, sto_Configuration := sto_Configuration s,
          sto_Metadata := sto_Metadata s\<rparr> else x) (edb_storages db)
      else edb_storages db @ [s])\<rparr>"

definition upsert_storage_binding :: "StorageBindingRow \<Rightarrow> EnvironmentDB \<Rightarrow> EnvironmentDB" where
  "upsert_storage_binding b db = (let same = (\<lambda>x. sbw_StorageID x = sbw_StorageID b \<and> sbw_RuntimeID x = sbw_RuntimeID b) in
     db\<lparr>edb_storage_bindings :=
       (if list_ex same (edb_storage_bindings db) then
          map (\<lambda>x. if same x then x\<lparr>sbw_HostPath := sbw_HostPath b, sbw_ContainerPath := sbw_ContainerPath b, sbw_ReadOnly := sbw_ReadOnly b,
            sbw_Configuration := sbw_Configuration b\<rparr> else x) (edb_storage_bindings db)
        else edb_storage_bindings db @ [b])\<rparr>)"

definition environment_UpsertDiscoveredStorage :: "EnvironmentEnv \<Rightarrow> StorageResource \<Rightarrow> EnvironmentDB \<Rightarrow> error option \<times> EnvironmentDB" where
  "environment_UpsertDiscoveredStorage env s = transaction
     (with_json (sto_Configuration s) (\<lambda>configuration. with_json (put ''discovered'' (AnyBool True) (sto_Metadata s)) (\<lambda>metadata. chain
       (exec_stmt env ''upsert storage'' (upsert_storage (storage_row (sto_EnvironmentVersionID s) configuration metadata s))
        # map (\<lambda>b. with_json (srb_Configuration b) (\<lambda>c.
            exec_stmt env ''upsert storage binding'' (upsert_storage_binding (binding_row (sto_ID s) (sto_EnvironmentVersionID s) c b)))) (sto_RuntimeBindings s)))))"

section \<open>Reassembly\<close>

fun collect :: "('a \<Rightarrow> error + 'b) \<Rightarrow> 'a list \<Rightarrow> error + 'b list" where
  "collect f [] = Inr []"
| "collect f (x # xs) = (case f x of Inl e \<Rightarrow> Inl e | Inr y \<Rightarrow> (case collect f xs of Inl e \<Rightarrow> Inl e | Inr ys \<Rightarrow> Inr (y # ys)))"

text \<open>The outer join gives \<^verbatim>\<open>NULL\<close> for a runtime without capabilities, which cannot be read into a string.\<close>

definition listRuntimes :: "EnvironmentEnv \<Rightarrow> string \<Rightarrow> EnvironmentDB \<Rightarrow> error + EnvironmentRuntime list" where
  "listRuntimes env versionID db =
     (case query env ''list runtimes'' db (\<lambda>db. sort_key ert_Name (filter (\<lambda>r. ert_EnvironmentVersionID r = versionID) (edb_runtimes db))) of
        Inl e \<Rightarrow> Inl e
      | Inr rows \<Rightarrow>
         collect (\<lambda>r. case map_of (edb_capabilities db) (ert_ID r) of
            None \<Rightarrow> Inl (Errorf ''sql: Scan error on column capabilities: converting NULL to string is unsupported'' [])
          | Some c \<Rightarrow> Inr (r\<lparr>ert_Capabilities := c\<rparr>)) rows)"

definition listResources :: "EnvironmentEnv \<Rightarrow> string \<Rightarrow> EnvironmentDB \<Rightarrow> error + Resource list" where
  "listResources env versionID db =
     query env ''list resources'' db (\<lambda>db. sort_key res_Name (filter (\<lambda>r. res_EnvironmentVersionID r = versionID) (edb_resources db)))"

definition resource_of_version :: "EnvironmentDB \<Rightarrow> string \<Rightarrow> string \<Rightarrow> bool" where
  "resource_of_version db versionID r \<longleftrightarrow> list_ex (\<lambda>x. res_ID x = r \<and> res_EnvironmentVersionID x = versionID) (edb_resources db)"

definition listRuntimeBindings :: "EnvironmentEnv \<Rightarrow> string \<Rightarrow> EnvironmentDB \<Rightarrow> error + ResourceRuntimeBinding list" where
  "listRuntimeBindings env versionID db = query env ''list runtime bindings'' db (\<lambda>db.
     sort_key bind_ResourceID (sort_key bind_RuntimeID (filter (\<lambda>b. resource_of_version db versionID (bind_ResourceID b)) (edb_bindings db))))"

definition listResourceRelations :: "EnvironmentEnv \<Rightarrow> string \<Rightarrow> EnvironmentDB \<Rightarrow> error + ResourceRelation list" where
  "listResourceRelations env versionID db = query env ''list relations'' db (\<lambda>db.
     sort_key rel_SourceResourceID (sort_key rel_TargetResourceID (filter (\<lambda>r. rel_EnvironmentVersionID r = versionID) (edb_relations db))))"

definition listProfiles :: "EnvironmentEnv \<Rightarrow> string \<Rightarrow> EnvironmentDB \<Rightarrow> error + ActivityResourceProfile list" where
  "listProfiles env versionID db = query env ''list profiles'' db (\<lambda>db.
     sort_key prof_ActivityTypeID (sort_key prof_ResourceID (filter (\<lambda>p. resource_of_version db versionID (prof_ResourceID p)) (edb_profiles db))))"

definition merge_storage :: "StorageResource \<Rightarrow> (string, StorageResource) gomap \<Rightarrow> (string, StorageResource) gomap" where
  "merge_storage value items =
     (case map_of items (sto_ID value) of
        Some existing \<Rightarrow> put (sto_ID value) (existing\<lparr>sto_RuntimeBindings := sto_RuntimeBindings existing @ sto_RuntimeBindings value\<rparr>) items
      | None \<Rightarrow> put (sto_ID value) value items)"

definition listStorages :: "EnvironmentEnv \<Rightarrow> string \<Rightarrow> EnvironmentRuntime list \<Rightarrow> EnvironmentDB \<Rightarrow> error + StorageResource list" where
  "listStorages env versionID runtimes db =
     (case collect (\<lambda>r. environment_ListRuntimeStorages env versionID (ert_ID r) db) runtimes of
        Inl e \<Rightarrow> Inl e
      | Inr values \<Rightarrow> Inr (in_order (ee_order env) (map snd (fold merge_storage (concat values) []))))"

definition zero_version :: EnvironmentVersion where
  "zero_version = \<lparr>env_VersionID = '''', env_VersionEnvironmentID = '''', env_VersionNumber = 0, env_VersionStatus = EnvironmentVersionStatusOther '''',
     env_NetworkModel = '''', env_InterferenceModel = '''', env_CostModel = '''', env_ConfigurationHash = '''', env_VersionCreatedAt = 0, env_PublishedAt = None\<rparr>"

definition latest_version :: "string \<Rightarrow> EnvironmentDB \<Rightarrow> EnvironmentVersion" where
  "latest_version i db = (case sort_key (\<lambda>v. - env_VersionNumber v) (filter (\<lambda>v. env_VersionEnvironmentID v = i) (edb_versions db)) of
     [] \<Rightarrow> zero_version | v # _ \<Rightarrow> v)"

definition find_inventory :: "EnvironmentEnv \<Rightarrow> EnvironmentDefinition \<Rightarrow> EnvironmentDB \<Rightarrow> error + EnvironmentDefinition" where
  "find_inventory env d db =
     (let versionID = env_VersionID (def_Version d) in
      case listRuntimes env versionID db of Inl e \<Rightarrow> Inl e | Inr runtimes \<Rightarrow>
     (case listResources env versionID db of Inl e \<Rightarrow> Inl e | Inr resources \<Rightarrow>
     (case listRuntimeBindings env versionID db of Inl e \<Rightarrow> Inl e | Inr bindings \<Rightarrow>
     (case listResourceRelations env versionID db of Inl e \<Rightarrow> Inl e | Inr relations \<Rightarrow>
     (case listStorages env versionID runtimes db of Inl e \<Rightarrow> Inl e | Inr storages \<Rightarrow>
     (case listProfiles env versionID db of Inl e \<Rightarrow> Inl e | Inr profiles \<Rightarrow>
        Inr (d\<lparr>def_Runtimes := runtimes, def_Resources := resources, def_RuntimeBindings := bindings, def_Relations := relations,
          def_Storages := storages, def_Profiles := profiles\<rparr>)))))))"

definition environment_Find :: "EnvironmentEnv \<Rightarrow> string \<Rightarrow> EnvironmentDB \<Rightarrow> error + EnvironmentDefinition option" where
  "environment_Find env i db =
     (case query env ''find environment'' db (\<lambda>db. find (\<lambda>x. env_ID x = i) (edb_environments db)) of
        Inl e \<Rightarrow> Inl e
      | Inr None \<Rightarrow> Inr None
      | Inr (Some environment) \<Rightarrow>
     (case query env ''find version'' db (latest_version i) of
        Inl e \<Rightarrow> Inl e
      | Inr version \<Rightarrow>
     (case environment_ListConnections env i db of
        Inl e \<Rightarrow> Inl e
      | Inr connections \<Rightarrow>
     (case collect (\<lambda>c. environment_ListConnectionChecks env (con_ID c) 20 db) connections of
        Inl e \<Rightarrow> Inl e
      | Inr checks \<Rightarrow>
     (let d = \<lparr>def_Environment = environment, def_Version = version, def_Runtimes = [], def_Resources = [], def_RuntimeBindings = [], def_Relations = [],
            def_Storages = [], def_Profiles = [], def_Connections = connections, def_ConnectionChecks = concat checks, def_ConnectorBindings = []\<rparr>
      in if env_VersionID version = '''' then Inr (Some d) else map_sum (\<lambda>e. e) Some (find_inventory env d db))))))"

definition environment_List :: "EnvironmentEnv \<Rightarrow> EnvironmentDB \<Rightarrow> error + EnvironmentDefinition list" where
  "environment_List env db =
     (case query env ''list environments'' db (\<lambda>db. map env_ID (sort_key env_Name (edb_environments db))) of
        Inl e \<Rightarrow> Inl e
      | Inr ids \<Rightarrow> map_sum (\<lambda>e. e) (\<lambda>ds. List.map_filter (\<lambda>d. d) ds) (collect (\<lambda>i. environment_Find env i db) ids))"

end
