(* ===== verification/Environment_Rows.thy ===== *)
theory Environment_Rows
  imports Environment_Repository
begin

text \<open>
  What the insertions of the environment repository leave in the tables: the rows of a definition, and how the queries
  of \<^verbatim>\<open>Find\<close> see them beside the rows of other environments.
\<close>

section \<open>Inserting rows\<close>

text \<open>
  A loop of insertions adds one row, or one group of rows, for every element. \<open>rows\<close> and \<open>table\<close> read and replace the
  tables that are written, \<open>stored x r\<close> says that \<open>r\<close> is stored for \<open>x\<close>.
\<close>

locale inserting =
  fixes step :: "'x \<Rightarrow> EnvironmentDB \<Rightarrow> error + EnvironmentDB" and stored :: "'x \<Rightarrow> 'r \<Rightarrow> bool"
    and rows :: "EnvironmentDB \<Rightarrow> 't" and table :: "'t \<Rightarrow> EnvironmentDB \<Rightarrow> EnvironmentDB" and add :: "'r \<Rightarrow> 't \<Rightarrow> 't"
  assumes step: "step x db = Inr db' \<Longrightarrow> \<exists>r. stored x r \<and> db' = table (add r (rows db)) db \<and> schema_ok db'"
    and table_rows: "table (rows db) db = db" and rows_table: "rows (table rs db) = rs" and table_table: "table rs (table ts db) = table rs db"
begin

lemma inserted:
  "chain (map step xs) db = Inr db' \<Longrightarrow> \<exists>rs. list_all2 stored xs rs \<and> db' = table (fold add rs (rows db)) db \<and> (schema_ok db \<longrightarrow> schema_ok db')"
proof (induction xs arbitrary: db)
  case Nil
  then show ?case by (auto simp: table_rows)
next
  case (Cons x xs)
  then obtain db1 where s: "step x db = Inr db1" and "chain (map step xs) db1 = Inr db'" by auto
  from Cons.IH [OF this(2)] obtain rs where r: "list_all2 stored xs rs" "db' = table (fold add rs (rows db1)) db1" "schema_ok db1 \<longrightarrow> schema_ok db'" by blast
  from step [OF s] obtain r where "stored x r" "db1 = table (add r (rows db)) db" "schema_ok db1" by blast
  with r show ?case by (intro exI [of _ "r # rs"]) (simp add: rows_table table_table)
qed

end

text \<open>One table, to which rows are appended.\<close>

lemma fold_append: "fold (\<lambda>r t. t @ [r]) rs t = t @ rs"
  by (induction rs arbitrary: t) simp_all

locale appending = inserting step stored rows table "\<lambda>r t. t @ [r]"
  for step :: "'x \<Rightarrow> EnvironmentDB \<Rightarrow> error + EnvironmentDB" and stored :: "'x \<Rightarrow> 'r \<Rightarrow> bool"
    and rows :: "EnvironmentDB \<Rightarrow> 'r list" and table :: "'r list \<Rightarrow> EnvironmentDB \<Rightarrow> EnvironmentDB"
begin

lemmas appended = inserted [unfolded fold_append]

end

definition connection_stored :: "string \<Rightarrow> EnvironmentConnection \<Rightarrow> EnvironmentConnection \<Rightarrow> bool" where
  "connection_stored i c r \<longleftrightarrow> (\<exists>m t. json_metadata (con_Configuration c) = Some m \<and>
     r = c\<lparr>con_EnvironmentID := i, con_Configuration := m, con_CreatedAt := t\<rparr>)"

definition resource_stored :: "string \<Rightarrow> Resource \<Rightarrow> Resource \<Rightarrow> bool" where
  "resource_stored v c r \<longleftrightarrow> (\<exists>m. json_metadata (res_Metadata c) = Some m \<and>
     r = c\<lparr>res_EnvironmentVersionID := v, res_ExecutionTarget := normalizedExecutionTarget (res_ExecutionTarget c), res_Metadata := m\<rparr>)"

definition binding_stored :: "ResourceRuntimeBinding \<Rightarrow> ResourceRuntimeBinding \<Rightarrow> bool" where
  "binding_stored c r \<longleftrightarrow> (\<exists>m. json_metadata (bind_Configuration c) = Some m \<and> r = c\<lparr>bind_Configuration := m\<rparr>)"

definition relation_stored :: "string \<Rightarrow> ResourceRelation \<Rightarrow> ResourceRelation \<Rightarrow> bool" where
  "relation_stored v c r \<longleftrightarrow> (\<exists>m. json_metadata (rel_Metadata c) = Some m \<and> r = c\<lparr>rel_EnvironmentVersionID := v, rel_Metadata := m\<rparr>)"

definition profile_stored :: "ActivityResourceProfile \<Rightarrow> ActivityResourceProfile \<Rightarrow> bool" where
  "profile_stored c r \<longleftrightarrow> (\<exists>m. json_metadata (prof_Metadata c) = Some m \<and> r = c\<lparr>prof_Metadata := m\<rparr>)"

definition storage_binding_stored :: "string \<Rightarrow> string \<Rightarrow> StorageRuntimeBinding \<Rightarrow> StorageBindingRow \<Rightarrow> bool" where
  "storage_binding_stored v s c r \<longleftrightarrow> (\<exists>m. json_metadata (srb_Configuration c) = Some m \<and> r = binding_row s v m c)"

interpretation connections: appending "insert_connection env i" "connection_stored i" edb_connections "\<lambda>rs. edb_connections_update (\<lambda>_. rs)"
  by unfold_locales (fastforce simp: insert_connection_def with_json_Inr exec_stmt_Inr connection_stored_def)+

interpretation resources: appending "insert_resource env v" "resource_stored v" edb_resources "\<lambda>rs. edb_resources_update (\<lambda>_. rs)"
  by unfold_locales (fastforce simp: insert_resource_def with_json_Inr exec_stmt_Inr resource_stored_def)+

interpretation bindings: appending "insert_binding env" binding_stored edb_bindings "\<lambda>rs. edb_bindings_update (\<lambda>_. rs)"
  by unfold_locales (fastforce simp: insert_binding_def with_json_Inr exec_stmt_Inr binding_stored_def)+

interpretation relations: appending "insert_relation env v" "relation_stored v" edb_relations "\<lambda>rs. edb_relations_update (\<lambda>_. rs)"
  by unfold_locales (fastforce simp: insert_relation_def with_json_Inr exec_stmt_Inr relation_stored_def)+

interpretation profiles: appending "insert_profile env" profile_stored edb_profiles "\<lambda>rs. edb_profiles_update (\<lambda>_. rs)"
  by unfold_locales (fastforce simp: insert_profile_def with_json_Inr exec_stmt_Inr profile_stored_def)+

interpretation storage_bindings: appending "insert_storage_binding env v s" "storage_binding_stored v s" edb_storage_bindings "\<lambda>rs. edb_storage_bindings_update (\<lambda>_. rs)"
  by unfold_locales (fastforce simp: insert_storage_binding_def with_json_Inr exec_stmt_Inr storage_binding_stored_def)+

definition runtime_stored :: "string \<Rightarrow> EnvironmentRuntime \<Rightarrow> EnvironmentRuntime \<times> Capabilities \<Rightarrow> bool" where
  "runtime_stored v c = (\<lambda>(r, capabilities). \<exists>m. json_metadata (ert_Configuration c) = Some m \<and> capabilities = ert_Capabilities c \<and>
     r = c\<lparr>ert_EnvironmentVersionID := v, ert_Configuration := m, ert_Capabilities := no_capabilities\<rparr>)"

interpretation runtimes: inserting "insert_runtime env v" "runtime_stored v" "\<lambda>db. (edb_runtimes db, edb_capabilities db)"
  "\<lambda>(rs, cs). edb_capabilities_update (\<lambda>_. cs) \<circ> edb_runtimes_update (\<lambda>_. rs)" "\<lambda>(r, c) (rs, cs). (rs @ [r], cs @ [(ert_ID r, c)])"
  by unfold_locales (fastforce simp: insert_runtime_def with_json_Inr exec_stmt_Inr runtime_stored_def)+

definition storage_stored :: "string \<Rightarrow> StorageResource \<Rightarrow> StorageResource \<times> StorageBindingRow list \<Rightarrow> bool" where
  "storage_stored v s = (\<lambda>(r, bs). \<exists>c m. json_metadata (sto_Configuration s) = Some c \<and> json_metadata (sto_Metadata s) = Some m \<and>
     r = storage_row v c m s \<and> list_all2 (storage_binding_stored v (sto_ID s)) (sto_RuntimeBindings s) bs)"

interpretation storages: inserting "insert_storage env v" "storage_stored v" "\<lambda>db. (edb_storages db, edb_storage_bindings db)"
  "\<lambda>(ss, bs). edb_storage_bindings_update (\<lambda>_. bs) \<circ> edb_storages_update (\<lambda>_. ss)" "\<lambda>(s, bs) (ss, ts). (ss @ [s], ts @ bs)"
proof (unfold_locales, goal_cases)
  case (1 x db db')
  then obtain c m db1 where j: "json_metadata (sto_Configuration x) = Some c" "json_metadata (sto_Metadata x) = Some m"
    and db1: "db1 = db\<lparr>edb_storages := edb_storages db @ [storage_row v c m x]\<rparr>" "schema_ok db1"
    and "chain (map (insert_storage_binding env v (sto_ID x)) (sto_RuntimeBindings x)) db1 = Inr db'"
    by (auto simp: insert_storage_def with_json_Inr exec_stmt_Inr)
  from storage_bindings.appended [OF this(5)] obtain bs where "list_all2 (storage_binding_stored v (sto_ID x)) (sto_RuntimeBindings x) bs"
    "db' = db1\<lparr>edb_storage_bindings := edb_storage_bindings db1 @ bs\<rparr>" "schema_ok db1 \<longrightarrow> schema_ok db'" by blast
  then show ?case using j db1 by (intro exI [of _ "(storage_row v c m x, bs)"]) (auto simp: storage_stored_def)
qed auto

section \<open>The rows of an inventory\<close>

record Inventory =
  inv_connections :: "EnvironmentConnection list"
  inv_version :: EnvironmentVersion
  inv_runtimes :: "(EnvironmentRuntime \<times> Capabilities) list"
  inv_resources :: "Resource list"
  inv_bindings :: "ResourceRuntimeBinding list"
  inv_relations :: "ResourceRelation list"
  inv_storages :: "(StorageResource \<times> StorageBindingRow list) list"
  inv_profiles :: "ActivityResourceProfile list"

definition add_inventory :: "Inventory \<Rightarrow> EnvironmentDB \<Rightarrow> EnvironmentDB" where
  "add_inventory ivt db = db\<lparr>edb_connections := edb_connections db @ inv_connections ivt, edb_versions := edb_versions db @ [inv_version ivt],
     edb_runtimes := edb_runtimes db @ map fst (inv_runtimes ivt),
     edb_capabilities := edb_capabilities db @ map (\<lambda>(r, c). (ert_ID r, c)) (inv_runtimes ivt),
     edb_resources := edb_resources db @ inv_resources ivt, edb_bindings := edb_bindings db @ inv_bindings ivt,
     edb_relations := edb_relations db @ inv_relations ivt, edb_storages := edb_storages db @ map fst (inv_storages ivt),
     edb_storage_bindings := edb_storage_bindings db @ concat (map snd (inv_storages ivt)), edb_profiles := edb_profiles db @ inv_profiles ivt\<rparr>"

definition inventory_stored :: "EnvironmentDefinition \<Rightarrow> Inventory \<Rightarrow> bool" where
  "inventory_stored d ivt \<longleftrightarrow> (let i = env_ID (def_Environment d); v = env_VersionID (def_Version d) in
     list_all2 (connection_stored i) (def_Connections d) (inv_connections ivt) \<and>
     (\<exists>t. inv_version ivt = (def_Version d)\<lparr>env_VersionEnvironmentID := i, env_VersionCreatedAt := t\<rparr>) \<and>
     list_all2 (runtime_stored v) (def_Runtimes d) (inv_runtimes ivt) \<and> list_all2 (resource_stored v) (def_Resources d) (inv_resources ivt) \<and>
     list_all2 binding_stored (def_RuntimeBindings d) (inv_bindings ivt) \<and> list_all2 (relation_stored v) (def_Relations d) (inv_relations ivt) \<and>
     list_all2 (storage_stored v) (def_Storages d) (inv_storages ivt) \<and> list_all2 profile_stored (def_Profiles d) (inv_profiles ivt))"

lemma fold_runtimes: "fold (\<lambda>(r, c) (rs, cs). (rs @ [r], cs @ [(ert_ID r, c)])) xs (rs, cs) =
  (rs @ map fst xs, cs @ map (\<lambda>(r, c). (ert_ID r, c)) xs)"
  by (induction xs arbitrary: rs cs) auto

lemma fold_storages: "fold (\<lambda>(s, bs) (ss, ts). (ss @ [s], ts @ bs)) xs (ss, ts) = (ss @ map fst xs, ts @ concat (map snd xs))"
  by (induction xs arbitrary: ss ts) auto

lemma inserted_inventory:
  assumes "insert_inventory env d db = Inr db'"
  shows "\<exists>ivt. inventory_stored d ivt \<and> db' = add_inventory ivt db \<and> schema_ok db'"
proof -
  let ?i = "env_ID (def_Environment d)" and ?v = "env_VersionID (def_Version d)"
  from assms obtain d1 d2 d3 d4 d5 d6 d7 where
    s: "insertConnections env d db = Inr d1" "insertEnvironmentVersion env d d1 = Inr d2" "insertRuntimes env d d2 = Inr d3"
       "insertResources env d d3 = Inr d4" "insertRuntimeBindings env d d4 = Inr d5" "insertResourceRelations env d d5 = Inr d6"
       "insertStorages env d d6 = Inr d7" "insertProfiles env d d7 = Inr db'"
    by (auto simp: insert_inventory_def)
  obtain cs where c: "list_all2 (connection_stored ?i) (def_Connections d) cs" "d1 = db\<lparr>edb_connections := edb_connections db @ cs\<rparr>"
    using connections.appended s(1) by (fastforce simp: insertConnections_def)
  obtain v t where v: "v = (def_Version d)\<lparr>env_VersionEnvironmentID := ?i, env_VersionCreatedAt := t\<rparr>"
    "d2 = d1\<lparr>edb_versions := edb_versions d1 @ [v]\<rparr>" "schema_ok d2"
    using s(2) by (auto simp: insertEnvironmentVersion_def exec_stmt_Inr)
  obtain rs where r: "list_all2 (runtime_stored ?v) (def_Runtimes d) rs" "schema_ok d3"
    "d3 = d2\<lparr>edb_runtimes := edb_runtimes d2 @ map fst rs, edb_capabilities := edb_capabilities d2 @ map (\<lambda>(r, c). (ert_ID r, c)) rs\<rparr>"
    using runtimes.inserted [of env ?v "def_Runtimes d" d2 d3] s(3) v(3) by (auto simp: insertRuntimes_def fold_runtimes)
  obtain es where e: "list_all2 (resource_stored ?v) (def_Resources d) es" "schema_ok d4" "d4 = d3\<lparr>edb_resources := edb_resources d3 @ es\<rparr>"
    using resources.appended [of env ?v "def_Resources d" d3 d4] s(4) r(2) by (auto simp: insertResources_def)
  obtain bs where b: "list_all2 binding_stored (def_RuntimeBindings d) bs" "schema_ok d5" "d5 = d4\<lparr>edb_bindings := edb_bindings d4 @ bs\<rparr>"
    using bindings.appended [of env "def_RuntimeBindings d" d4 d5] s(5) e(2) by (auto simp: insertRuntimeBindings_def)
  obtain ls where l: "list_all2 (relation_stored ?v) (def_Relations d) ls" "schema_ok d6" "d6 = d5\<lparr>edb_relations := edb_relations d5 @ ls\<rparr>"
    using relations.appended [of env ?v "def_Relations d" d5 d6] s(6) b(2) by (auto simp: insertResourceRelations_def)
  obtain ss where o: "list_all2 (storage_stored ?v) (def_Storages d) ss" "schema_ok d7"
    "d7 = d6\<lparr>edb_storages := edb_storages d6 @ map fst ss, edb_storage_bindings := edb_storage_bindings d6 @ concat (map snd ss)\<rparr>"
    using storages.inserted [of env ?v "def_Storages d" d6 d7] s(7) l(2) by (auto simp: insertStorages_def fold_storages)
  obtain ps where p: "list_all2 profile_stored (def_Profiles d) ps" "schema_ok db'" "db' = d7\<lparr>edb_profiles := edb_profiles d7 @ ps\<rparr>"
    using profiles.appended [of env "def_Profiles d" d7 db'] s(8) o(2) by (auto simp: insertProfiles_def)
  show ?thesis
    by (rule exI [of _ "\<lparr>inv_connections = cs, inv_version = v, inv_runtimes = rs, inv_resources = es, inv_bindings = bs, inv_relations = ls,
      inv_storages = ss, inv_profiles = ps\<rparr>"]) (use c v r e b l o p in \<open>auto simp: inventory_stored_def add_inventory_def Let_def\<close>)
qed


section \<open>Reading an inventory\<close>

text \<open>
  The database after an inventory has been added for the environment \<open>i\<close>, of which it held no connection and no version.
\<close>

definition added :: "string \<Rightarrow> EnvironmentDefinition \<Rightarrow> Inventory \<Rightarrow> EnvironmentDB \<Rightarrow> EnvironmentDB \<Rightarrow> bool" where
  "added i d ivt db db' \<longleftrightarrow> i = env_ID (def_Environment d) \<and> schema_ok db \<and> schema_ok db' \<and> inventory_stored d ivt \<and> db' = add_inventory ivt db \<and>
     (\<forall>c \<in> set (edb_connections db). con_EnvironmentID c \<noteq> i) \<and> (\<forall>v \<in> set (edb_versions db). env_VersionEnvironmentID v \<noteq> i)"

lemma list_all2_all: "list_all2 R xs ys \<Longrightarrow> (\<And>x y. R x y \<Longrightarrow> P y) \<Longrightarrow> y \<in> set ys \<Longrightarrow> P y"
  by (auto simp: list_all2_conv_all_nth in_set_conv_nth)

lemma filter_new: "(\<And>x. x \<in> set xs \<Longrightarrow> \<not> P x) \<Longrightarrow> (\<And>y. y \<in> set ys \<Longrightarrow> P y) \<Longrightarrow> filter P (xs @ ys) = ys"
  by (auto simp: filter_id_conv)

lemma added_stored:
  assumes "added i d ivt db db'"
  shows "list_all2 (connection_stored i) (def_Connections d) (inv_connections ivt)"
    "\<exists>t. inv_version ivt = (def_Version d)\<lparr>env_VersionEnvironmentID := i, env_VersionCreatedAt := t\<rparr>"
    "list_all2 (runtime_stored (env_VersionID (def_Version d))) (def_Runtimes d) (inv_runtimes ivt)"
    "list_all2 (resource_stored (env_VersionID (def_Version d))) (def_Resources d) (inv_resources ivt)"
    "list_all2 binding_stored (def_RuntimeBindings d) (inv_bindings ivt)"
    "list_all2 (relation_stored (env_VersionID (def_Version d))) (def_Relations d) (inv_relations ivt)"
    "list_all2 (storage_stored (env_VersionID (def_Version d))) (def_Storages d) (inv_storages ivt)"
    "list_all2 profile_stored (def_Profiles d) (inv_profiles ivt)"
  using assms by (simp_all add: added_def inventory_stored_def Let_def)

lemma added_ok:
  assumes "added i d ivt db db'"
  shows "schema_ok db" "schema_ok db'" "c \<in> set (edb_connections db) \<Longrightarrow> con_EnvironmentID c \<noteq> i"
    "v \<in> set (edb_versions db) \<Longrightarrow> env_VersionEnvironmentID v \<noteq> i"
  using assms by (auto simp: added_def)

lemma added_tables:
  assumes "added i d ivt db db'"
  shows "edb_environments db' = edb_environments db" "edb_connections db' = edb_connections db @ inv_connections ivt" "edb_checks db' = edb_checks db"
    "edb_versions db' = edb_versions db @ [inv_version ivt]" "edb_runtimes db' = edb_runtimes db @ map fst (inv_runtimes ivt)"
    "edb_capabilities db' = edb_capabilities db @ map (\<lambda>(r, c). (ert_ID r, c)) (inv_runtimes ivt)"
    "edb_resources db' = edb_resources db @ inv_resources ivt" "edb_bindings db' = edb_bindings db @ inv_bindings ivt"
    "edb_relations db' = edb_relations db @ inv_relations ivt" "edb_storages db' = edb_storages db @ map fst (inv_storages ivt)"
    "edb_storage_bindings db' = edb_storage_bindings db @ concat (map snd (inv_storages ivt))"
    "edb_profiles db' = edb_profiles db @ inv_profiles ivt"
  using assms by (simp_all add: added_def add_inventory_def)

text \<open>What is new belongs to the environment and its version, and what was there does not.\<close>

lemma added_new:
  assumes "added i d ivt db db'"
  shows "c \<in> set (inv_connections ivt) \<Longrightarrow> con_EnvironmentID c = i" "env_VersionEnvironmentID (inv_version ivt) = i"
    "env_VersionID (inv_version ivt) = env_VersionID (def_Version d)"
    "rc \<in> set (inv_runtimes ivt) \<Longrightarrow> ert_EnvironmentVersionID (fst rc) = env_VersionID (def_Version d)"
    "r \<in> set (inv_resources ivt) \<Longrightarrow> res_EnvironmentVersionID r = env_VersionID (def_Version d)"
    "l \<in> set (inv_relations ivt) \<Longrightarrow> rel_EnvironmentVersionID l = env_VersionID (def_Version d)"
  by (rule list_all2_all [OF added_stored(1) [OF assms]], auto simp: connection_stored_def)
    (insert added_stored(2) [OF assms], auto,
     rule list_all2_all [OF added_stored(3) [OF assms]], auto simp: runtime_stored_def,
     rule list_all2_all [OF added_stored(4) [OF assms]], auto simp: resource_stored_def,
     rule list_all2_all [OF added_stored(6) [OF assms]], auto simp: relation_stored_def)

lemma added_fresh:
  assumes "added i d ivt db db'"
  shows "x \<in> set (edb_versions db) \<Longrightarrow> env_VersionID x \<noteq> env_VersionID (def_Version d)"
    "rt \<in> set (edb_runtimes db) \<Longrightarrow> ert_EnvironmentVersionID rt \<noteq> env_VersionID (def_Version d)"
    "r \<in> set (edb_resources db) \<Longrightarrow> res_EnvironmentVersionID r \<noteq> env_VersionID (def_Version d)"
    "l \<in> set (edb_relations db) \<Longrightarrow> rel_EnvironmentVersionID l \<noteq> env_VersionID (def_Version d)"
    "sb \<in> set (edb_storage_bindings db) \<Longrightarrow> sbw_VersionID sb \<noteq> env_VersionID (def_Version d)"
proof -
  note ok = added_ok [OF assms]
  have "distinct (map env_VersionID (edb_versions db @ [inv_version ivt]))" using schema_unique(3) [OF ok(2)] by (simp add: added_tables [OF assms])
  then have v: "env_VersionID (def_Version d) \<notin> env_VersionID ` set (edb_versions db)" using added_new(3) [OF assms] by auto
  then show "x \<in> set (edb_versions db) \<Longrightarrow> env_VersionID x \<noteq> env_VersionID (def_Version d)" by (metis imageI)
  note r = schema_refers [OF ok(1)]
  show "rt \<in> set (edb_runtimes db) \<Longrightarrow> ert_EnvironmentVersionID rt \<noteq> env_VersionID (def_Version d)"
    "r \<in> set (edb_resources db) \<Longrightarrow> res_EnvironmentVersionID r \<noteq> env_VersionID (def_Version d)"
    "l \<in> set (edb_relations db) \<Longrightarrow> rel_EnvironmentVersionID l \<noteq> env_VersionID (def_Version d)"
    using r(4,5,8) v by metis+
  show "sb \<in> set (edb_storage_bindings db) \<Longrightarrow> sbw_VersionID sb \<noteq> env_VersionID (def_Version d)"
    using r(9) [of _] r(10) [of sb] v by fastforce
qed


definition nofault :: "EnvironmentEnv \<Rightarrow> EnvironmentDB \<Rightarrow> bool" where
  "nofault env db \<longleftrightarrow> (\<forall>name. ee_fault env db name = None)"

lemma query_nofault: "nofault env db \<Longrightarrow> query env name db read = Inr (read db)"
  by (simp add: query_def nofault_def)

lemma collect_Inr: "(\<And>x. x \<in> set xs \<Longrightarrow> f x = Inr (g x)) \<Longrightarrow> collect f xs = Inr (map g xs)"
  by (induction xs) auto

lemma sort_key_map: "sort_key f (map h xs) = map h (sort_key (\<lambda>x. f (h x)) xs)"
proof -
  have "insort_key f (h x) (map h ys) = map h (insort_key (\<lambda>x. f (h x)) x ys)" for x ys by (induction ys) auto
  then show ?thesis by (induction xs) auto
qed

lemma added_connections:
  assumes "added i d ivt db db'" and "nofault env db'"
  shows "environment_ListConnections env i db' = Inr (sort_key con_Name (inv_connections ivt))"
proof -
  have "filter (\<lambda>c. con_EnvironmentID c = i) (edb_connections db @ inv_connections ivt) = inv_connections ivt"
    using added_ok(3) [OF assms(1)] added_new(1) [OF assms(1)] by (intro filter_new) auto
  then show ?thesis by (simp add: environment_ListConnections_def query_nofault [OF assms(2)] added_tables [OF assms(1)])
qed

lemma added_checks:
  assumes "added i d ivt db db'" and "c \<in> set (inv_connections ivt)"
  shows "newest_checks (con_ID c) db' = []"
proof -
  have ok: "schema_ok db" "distinct (map con_ID (edb_connections db @ inv_connections ivt))" and t: "edb_checks db' = edb_checks db"
    using added_ok [OF assms(1)] schema_unique(2) [of db'] by (simp_all add: added_tables [OF assms(1)])
  then have "con_ID c \<notin> con_ID ` set (edb_connections db)" using assms(2) by auto
  then have "chk_ConnectionID k \<noteq> con_ID c" if "k \<in> set (edb_checks db)" for k using schema_refers(2) [OF ok(1) that] by metis
  then show ?thesis by (simp add: newest_checks_def t)
qed

lemma added_version: "added i d ivt db db' \<Longrightarrow> latest_version i db' = inv_version ivt"
proof -
  assume a: "added i d ivt db db'"
  then have "filter (\<lambda>v. env_VersionEnvironmentID v = i) (edb_versions db') = [inv_version ivt]"
    using added_new(2) [OF a] added_ok(4) [OF a] by (auto simp: added_tables [OF a] filter_empty_conv)
  then show ?thesis by (simp add: latest_version_def)
qed

lemma added_capabilities:
  assumes "added i d ivt db db'" and "rc \<in> set (inv_runtimes ivt)"
  shows "map_of (edb_capabilities db') (ert_ID (fst rc)) = Some (snd rc)"
proof -
  have "distinct (map fst (edb_capabilities db'))" using added_ok(2) [OF assms(1)] by (rule schema_unique)
  moreover have "(ert_ID (fst rc), snd rc) \<in> set (edb_capabilities db')"
    using assms(2) by (force simp: added_tables [OF assms(1)])
  ultimately show ?thesis by simp
qed

text \<open>A runtime as it is read: with the capabilities of its own row.\<close>

definition read_runtimes :: "Inventory \<Rightarrow> EnvironmentRuntime list" where
  "read_runtimes ivt = sort_key ert_Name (map (\<lambda>(r, c). r\<lparr>ert_Capabilities := c\<rparr>) (inv_runtimes ivt))"

lemma added_runtimes:
  assumes "added i d ivt db db'" and "nofault env db'"
  shows "listRuntimes env (env_VersionID (def_Version d)) db' = Inr (read_runtimes ivt)"
proof -
  let ?v = "env_VersionID (def_Version d)" and ?h = "\<lambda>r. r\<lparr>ert_Capabilities := the (map_of (edb_capabilities db') (ert_ID r))\<rparr>"
  have "filter (\<lambda>r. ert_EnvironmentVersionID r = ?v) (edb_runtimes db @ map fst (inv_runtimes ivt)) = map fst (inv_runtimes ivt)"
    using added_fresh(2) [OF assms(1)] added_new(4) [OF assms(1)] by (intro filter_new) auto
  then have "filter (\<lambda>r. ert_EnvironmentVersionID r = ?v) (edb_runtimes db') = map fst (inv_runtimes ivt)"
    by (simp add: added_tables [OF assms(1)])
  moreover have "collect (\<lambda>r. case map_of (edb_capabilities db') (ert_ID r) of None \<Rightarrow> Inl e | Some c \<Rightarrow> Inr (r\<lparr>ert_Capabilities := c\<rparr>))
      (sort_key ert_Name (map fst (inv_runtimes ivt))) = Inr (map ?h (sort_key ert_Name (map fst (inv_runtimes ivt))))" for e
    using added_capabilities [OF assms(1)] by (intro collect_Inr) auto
  moreover have "map ?h (sort_key ert_Name (map fst (inv_runtimes ivt))) = sort_key ert_Name (map (\<lambda>rc. ?h (fst rc)) (inv_runtimes ivt))"
    using sort_key_map [of ert_Name ?h "map fst (inv_runtimes ivt)"] by (simp add: comp_def)
  moreover have "map (\<lambda>rc. ?h (fst rc)) (inv_runtimes ivt) = map (\<lambda>(r, c). r\<lparr>ert_Capabilities := c\<rparr>) (inv_runtimes ivt)"
    using added_capabilities [OF assms(1)] by (auto simp: case_prod_beta)
  ultimately show ?thesis by (simp add: listRuntimes_def query_nofault [OF assms(2)] read_runtimes_def)
qed

lemma added_resources:
  assumes "added i d ivt db db'" and "nofault env db'"
  shows "listResources env (env_VersionID (def_Version d)) db' = Inr (sort_key res_Name (inv_resources ivt))"
proof -
  have "filter (\<lambda>r. res_EnvironmentVersionID r = env_VersionID (def_Version d)) (edb_resources db @ inv_resources ivt) = inv_resources ivt"
    using added_fresh(3) [OF assms(1)] added_new(5) [OF assms(1)] by (intro filter_new) auto
  then show ?thesis by (simp add: listResources_def query_nofault [OF assms(2)] added_tables [OF assms(1)])
qed

lemma added_relations:
  assumes "added i d ivt db db'" and "nofault env db'"
  shows "listResourceRelations env (env_VersionID (def_Version d)) db' =
    Inr (sort_key rel_SourceResourceID (sort_key rel_TargetResourceID (inv_relations ivt)))"
proof -
  have "filter (\<lambda>r. rel_EnvironmentVersionID r = env_VersionID (def_Version d)) (edb_relations db @ inv_relations ivt) = inv_relations ivt"
    using added_fresh(4) [OF assms(1)] added_new(6) [OF assms(1)] by (intro filter_new) auto
  then show ?thesis by (simp add: listResourceRelations_def query_nofault [OF assms(2)] added_tables [OF assms(1)])
qed

lemma added_resource_of_version:
  assumes "added i d ivt db db'"
  shows "resource_of_version db' (env_VersionID (def_Version d)) r \<longleftrightarrow> r \<in> res_ID ` set (inv_resources ivt)"
    "r \<in> res_ID ` set (edb_resources db) \<Longrightarrow> r \<notin> res_ID ` set (inv_resources ivt)"
proof -
  show "resource_of_version db' (env_VersionID (def_Version d)) r \<longleftrightarrow> r \<in> res_ID ` set (inv_resources ivt)"
    using added_fresh(3) [OF assms] added_new(5) [OF assms]
    by (auto simp: resource_of_version_def list_ex_iff added_tables [OF assms])
  have "distinct (map res_ID (edb_resources db @ inv_resources ivt))"
    using schema_unique(6) [OF added_ok(2) [OF assms]] by (simp add: added_tables [OF assms])
  then show "r \<in> res_ID ` set (edb_resources db) \<Longrightarrow> r \<notin> res_ID ` set (inv_resources ivt)" by auto
qed

lemma added_bindings:
  assumes "added i d ivt db db'" and "nofault env db'"
  shows "listRuntimeBindings env (env_VersionID (def_Version d)) db' = Inr (sort_key bind_ResourceID (sort_key bind_RuntimeID
    (filter (\<lambda>b. bind_ResourceID b \<in> res_ID ` set (inv_resources ivt)) (inv_bindings ivt))))"
proof -
  have "filter (\<lambda>b. bind_ResourceID b \<in> res_ID ` set (inv_resources ivt)) (edb_bindings db) = []"
    using schema_refers(6) [OF added_ok(1) [OF assms(1)]] added_resource_of_version(2) [OF assms(1)] by (simp add: filter_empty_conv)
  then show ?thesis
    by (simp add: listRuntimeBindings_def query_nofault [OF assms(2)] added_resource_of_version [OF assms(1)] added_tables [OF assms(1)])
qed

lemma added_profiles:
  assumes "added i d ivt db db'" and "nofault env db'"
  shows "listProfiles env (env_VersionID (def_Version d)) db' = Inr (sort_key prof_ActivityTypeID (sort_key prof_ResourceID
    (filter (\<lambda>p. prof_ResourceID p \<in> res_ID ` set (inv_resources ivt)) (inv_profiles ivt))))"
proof -
  have "filter (\<lambda>p. prof_ResourceID p \<in> res_ID ` set (inv_resources ivt)) (edb_profiles db) = []"
    using schema_refers(12) [OF added_ok(1) [OF assms(1)]] added_resource_of_version(2) [OF assms(1)] by (simp add: filter_empty_conv)
  then show ?thesis
    by (simp add: listProfiles_def query_nofault [OF assms(2)] added_resource_of_version [OF assms(1)] added_tables [OF assms(1)])
qed


section \<open>Reading the storages\<close>

lemma filter_unique: "distinct (map key xs) \<Longrightarrow> x \<in> set xs \<Longrightarrow> filter (\<lambda>y. key y = key x) xs = [x]"
  by (induction xs) (force simp: filter_empty_conv image_iff)+

lemma concat_map_if: "concat (map (\<lambda>x. if P x then f x else []) xs) = concat (map f (filter P xs))"
  by (induction xs) auto

lemma list_all2_source: "list_all2 R xs ys \<Longrightarrow> y \<in> set ys \<Longrightarrow> \<exists>x \<in> set xs. R x y"
  by (induction rule: list_all2_induct) auto

lemma sort_key_short: "length xs \<le> 1 \<Longrightarrow> sort_key f xs = xs"
  by (cases xs) auto

text \<open>The merge collects the bindings of each storage, in the order of the values.\<close>

lemma merge_storages:
  assumes "\<And>x. x \<in> set vs \<Longrightarrow> x = (base (sto_ID x))\<lparr>sto_RuntimeBindings := sto_RuntimeBindings x\<rparr>"
  shows "gomap_ok (fold merge_storage vs []) \<and>
    map_of (fold merge_storage vs []) k = (if k \<in> sto_ID ` set vs then
      Some ((base k)\<lparr>sto_RuntimeBindings := concat (map sto_RuntimeBindings (filter (\<lambda>x. sto_ID x = k) vs))\<rparr>) else None)"
  using assms
proof (induction vs arbitrary: k rule: rev_induct)
  case Nil
  then show ?case by simp
next
  case (snoc x vs)
  define m where "m = fold merge_storage vs []"
  have IH: "gomap_ok m" "map_of m k = (if k \<in> sto_ID ` set vs then
      Some ((base k)\<lparr>sto_RuntimeBindings := concat (map sto_RuntimeBindings (filter (\<lambda>x. sto_ID x = k) vs))\<rparr>) else None)" for k
    using snoc.IH snoc.prems by (simp_all add: m_def)
  have x: "x = (base (sto_ID x))\<lparr>sto_RuntimeBindings := sto_RuntimeBindings x\<rparr>" using snoc.prems by simp
  have m: "fold merge_storage (vs @ [x]) [] = merge_storage x m" by (simp add: m_def)
  show ?case
  proof (cases "sto_ID x \<in> sto_ID ` set vs")
    case True
    then show ?thesis unfolding m using IH(1) by (auto simp: merge_storage_def IH(2))
  next
    case False
    then have "filter (\<lambda>y. sto_ID y = sto_ID x) vs = []" unfolding filter_empty_conv by (metis imageI)
    then show ?thesis unfolding m using IH(1) False x by (auto simp: merge_storage_def IH(2) split: if_splits)
  qed
qed

lemma added_storage_rows:
  assumes "added i d ivt db db'" and "(s, bs) \<in> set (inv_storages ivt)"
  shows "s \<in> set (edb_storages db')" "b \<in> set bs \<Longrightarrow> sbw_StorageID b = sto_ID s" "b \<in> set bs \<Longrightarrow> sbw_VersionID b = env_VersionID (def_Version d)"
    "b \<in> set bs \<Longrightarrow> b \<in> set (edb_storage_bindings db')"
proof -
  obtain x where x: "storage_stored (env_VersionID (def_Version d)) x (s, bs)"
    using list_all2_source [OF added_stored(7) [OF assms(1)] assms(2)] by blast
  then have "list_all2 (storage_binding_stored (env_VersionID (def_Version d)) (sto_ID s)) (sto_RuntimeBindings x) bs"
    by (auto simp: storage_stored_def storage_row_def)
  then show "b \<in> set bs \<Longrightarrow> sbw_StorageID b = sto_ID s" "b \<in> set bs \<Longrightarrow> sbw_VersionID b = env_VersionID (def_Version d)"
    by (rule list_all2_all, auto simp: storage_binding_stored_def binding_row_def)+
  show "s \<in> set (edb_storages db')" "b \<in> set bs \<Longrightarrow> b \<in> set (edb_storage_bindings db')"
    using assms(2) by (force simp: added_tables [OF assms(1)])+
qed

text \<open>The bindings that belong to one new storage.\<close>

lemma added_bindings_of:
  assumes a: "added i d ivt db db'" and s: "(s, bs) \<in> set (inv_storages ivt)"
  shows "filter (\<lambda>b. sbw_StorageID b = sto_ID s \<and> sbw_VersionID b = env_VersionID (def_Version d) \<and> sbw_RuntimeID b = rt) (edb_storage_bindings db') =
    filter (\<lambda>b. sbw_RuntimeID b = rt) bs"
proof -
  let ?P = "\<lambda>b. sbw_StorageID b = sto_ID s \<and> sbw_VersionID b = env_VersionID (def_Version d) \<and> sbw_RuntimeID b = rt"
  have u: "distinct (map (\<lambda>x. sto_ID (fst x)) (inv_storages ivt))"
    using schema_unique(7) [OF added_ok(2) [OF a]] by (simp add: added_tables [OF a] comp_def)
  have eq: "filter ?P (snd x) = (if sto_ID (fst x) = sto_ID s then filter (\<lambda>b. sbw_RuntimeID b = rt) (snd x) else [])"
    if "x \<in> set (inv_storages ivt)" for x
    using added_storage_rows(2,3) [OF a, of "fst x" "snd x"] that by (auto simp: filter_empty_conv intro!: filter_cong)
  have "filter ?P (concat (map snd (inv_storages ivt))) = concat (map (\<lambda>x. filter ?P (snd x)) (inv_storages ivt))"
    by (simp add: filter_concat comp_def)
  also have "\<dots> = concat (map (\<lambda>x. if sto_ID (fst x) = sto_ID s then filter (\<lambda>b. sbw_RuntimeID b = rt) (snd x) else []) (inv_storages ivt))"
    using eq by (intro arg_cong [where f = concat] map_cong) auto
  also have "\<dots> = concat (map (\<lambda>x. filter (\<lambda>b. sbw_RuntimeID b = rt) (snd x)) (filter (\<lambda>x. sto_ID (fst x) = sto_ID s) (inv_storages ivt)))"
    by (rule concat_map_if)
  also have "filter (\<lambda>x. sto_ID (fst x) = sto_ID s) (inv_storages ivt) = [(s, bs)]" using filter_unique [OF u s] by simp
  finally have "filter ?P (concat (map snd (inv_storages ivt))) = filter (\<lambda>b. sbw_RuntimeID b = rt) bs" by simp
  moreover have "filter ?P (edb_storage_bindings db) = []" using added_fresh(5) [OF a] by (auto simp: filter_empty_conv)
  ultimately show ?thesis by (simp add: added_tables [OF a])
qed


text \<open>A new storage as it is read: its bindings in the order of the runtimes.\<close>

definition read_storage :: "Inventory \<Rightarrow> StorageResource \<times> StorageBindingRow list \<Rightarrow> StorageResource" where
  "read_storage ivt = (\<lambda>(s, bs). s\<lparr>sto_RuntimeBindings :=
     concat (map (\<lambda>r. map (stored_binding (ert_ID r)) (filter (\<lambda>b. sbw_RuntimeID b = ert_ID r) bs)) (read_runtimes ivt))\<rparr>)"

lemma added_runtime_storages:
  assumes a: "added i d ivt db db'" and s: "(s, bs) \<in> set (inv_storages ivt)"
  shows "filter (\<lambda>x. sto_ID (fst x) = sto_ID s) (runtime_storages (env_VersionID (def_Version d)) rt db') =
    map (Pair s) (filter (\<lambda>b. sbw_RuntimeID b = rt) bs)"
proof -
  let ?v = "env_VersionID (def_Version d)"
  let ?Q = "\<lambda>s b. sbw_StorageID b = sto_ID s \<and> sbw_VersionID b = ?v \<and> sbw_RuntimeID b = rt"
  let ?rows = "\<lambda>s. map (Pair s) (filter (?Q s) (edb_storage_bindings db'))"
  have "filter (\<lambda>x. sto_ID (fst x) = sto_ID s) (concat (map ?rows (edb_storages db'))) =
      concat (map (\<lambda>s'. if sto_ID s' = sto_ID s then ?rows s' else []) (edb_storages db'))"
    by (auto simp: filter_concat comp_def filter_map intro!: arg_cong [where f = concat])
  also have "\<dots> = concat (map ?rows (filter (\<lambda>s'. sto_ID s' = sto_ID s) (edb_storages db')))" by (rule concat_map_if)
  also have "filter (\<lambda>s'. sto_ID s' = sto_ID s) (edb_storages db') = [s]"
    using schema_unique(7) [OF added_ok(2) [OF a]] added_storage_rows(1) [OF a s] by (rule filter_unique)
  finally have e: "filter (\<lambda>x. sto_ID (fst x) = sto_ID s) (concat (map ?rows (edb_storages db'))) = map (Pair s) (filter (\<lambda>b. sbw_RuntimeID b = rt) bs)"
    by (simp add: added_bindings_of [OF a s])
  have "length (filter (\<lambda>b. sbw_RuntimeID b = rt) bs) \<le> 1"
  proof (cases "filter (\<lambda>b. sbw_RuntimeID b = rt) bs")
    case (Cons b l)
    then have b: "b \<in> set bs" "sbw_RuntimeID b = rt" by (auto simp: filter_eq_Cons_iff)
    have "filter (\<lambda>b. sbw_RuntimeID b = rt) bs = filter (\<lambda>x. sbw_VersionID x = ?v) (filter (\<lambda>x. (sbw_StorageID x, sbw_RuntimeID x) = (sbw_StorageID b, sbw_RuntimeID b)) (edb_storage_bindings db'))"
      unfolding added_bindings_of [OF a s, symmetric] using b added_storage_rows(2) [OF a s b(1)] by (auto intro!: filter_cong)
    also have "\<dots> = filter (\<lambda>x. sbw_VersionID x = ?v) [b]"
      using filter_unique [OF schema_unique(8) [OF added_ok(2) [OF a]] added_storage_rows(4) [OF a s b(1)]] by (simp only:)
    finally show ?thesis by simp
  qed simp
  then show ?thesis unfolding runtime_storages_def by (simp add: filter_sort e sort_key_short)
qed

lemma read_runtimes_ids: "ert_ID ` set (read_runtimes ivt) = (\<lambda>rc. ert_ID (fst rc)) ` set (inv_runtimes ivt)"
  by (simp add: read_runtimes_def image_image case_prod_beta)

lemma added_storage_runtime:
  assumes "added i d ivt db db'" and "(s, bs) \<in> set (inv_storages ivt)" and "b \<in> set bs"
  shows "sbw_RuntimeID b \<in> ert_ID ` set (read_runtimes ivt)"
proof -
  from schema_refers(11) [OF added_ok(2) [OF assms(1)] added_storage_rows(4) [OF assms]] obtain r where "r \<in> set (edb_runtimes db')"
    and r: "ert_ID r = sbw_RuntimeID b" "ert_EnvironmentVersionID r = sbw_VersionID b" by auto
  then have "r \<in> fst ` set (inv_runtimes ivt)"
    using added_fresh(2) [OF assms(1), of r] added_storage_rows(3) [OF assms] by (auto simp: added_tables [OF assms(1)])
  then show ?thesis using r(1) by (force simp: read_runtimes_ids)
qed


definition runtime_value :: "string \<Rightarrow> StorageResource \<times> StorageBindingRow \<Rightarrow> StorageResource" where
  "runtime_value runtimeID = (\<lambda>(s, b). s\<lparr>sto_RuntimeBindings := [stored_binding runtimeID b]\<rparr>)"

definition storage_values :: "string \<Rightarrow> Inventory \<Rightarrow> EnvironmentDB \<Rightarrow> StorageResource list" where
  "storage_values v ivt db = concat (map (\<lambda>r. map (runtime_value (ert_ID r)) (runtime_storages v (ert_ID r) db)) (read_runtimes ivt))"

lemma sto_ID_runtime_value [simp]: "sto_ID (runtime_value r x) = sto_ID (fst x)"
  by (simp add: runtime_value_def split: prod.splits)

lemma concat_map_concat: "concat (map f (concat xss)) = concat (map (\<lambda>xs. concat (map f xs)) xss)"
  by (induction xss) auto

lemma storage_id_update: "sto_ID (s\<lparr>sto_RuntimeBindings := bs\<rparr>) = sto_ID s"
  by simp

lemma added_storage_value:
  assumes a: "added i d ivt db db'" and x: "x \<in> set (storage_values (env_VersionID (def_Version d)) ivt db')"
  shows "\<exists>(s, bs) \<in> set (inv_storages ivt). bs \<noteq> [] \<and> x = s\<lparr>sto_RuntimeBindings := sto_RuntimeBindings x\<rparr>"
proof -
  let ?v = "env_VersionID (def_Version d)"
  from x have "x \<in> (\<Union>r \<in> set (read_runtimes ivt). runtime_value (ert_ID r) ` set (runtime_storages ?v (ert_ID r) db'))"
    by (simp add: storage_values_def)
  then obtain r :: EnvironmentRuntime and p where p: "x = runtime_value (ert_ID r) p" "p \<in> set (runtime_storages ?v (ert_ID r) db')" by blast
  obtain s b where "p = (s, b)" by (cases p)
  then have x: "x = runtime_value (ert_ID r) (s, b)" and sb: "(s, b) \<in> set (runtime_storages ?v (ert_ID r) db')" using p by auto
  then have b: "b \<in> set (edb_storage_bindings db')" "sbw_VersionID b = ?v" "sbw_StorageID b = sto_ID s" by (auto simp: runtime_storages_def)
  then obtain s0 bs where s0: "(s0, bs) \<in> set (inv_storages ivt)" "b \<in> set bs"
    using added_fresh(5) [OF a, of b] by (auto simp: added_tables [OF a])
  then have "(s, b) \<in> set (filter (\<lambda>x. sto_ID (fst x) = sto_ID s0) (runtime_storages ?v (ert_ID r) db'))"
    using sb b(3) added_storage_rows(2) [OF a s0] by simp
  then have "s = s0" by (auto simp: added_runtime_storages [OF a s0(1)])
  then show ?thesis using s0 x by (intro bexI [of _ "(s0, bs)"]) (auto simp: runtime_value_def)
qed

lemma added_storage_values:
  assumes a: "added i d ivt db db'" and s: "(s, bs) \<in> set (inv_storages ivt)"
  shows "s\<lparr>sto_RuntimeBindings := concat (map sto_RuntimeBindings (filter (\<lambda>x. sto_ID x = sto_ID s) (storage_values (env_VersionID (def_Version d)) ivt db')))\<rparr> =
      read_storage ivt (s, bs)"
    "sto_ID s \<in> sto_ID ` set (storage_values (env_VersionID (def_Version d)) ivt db') \<longleftrightarrow> bs \<noteq> []"
proof -
  let ?v = "env_VersionID (def_Version d)"
  have f: "filter (\<lambda>x. sto_ID x = sto_ID s) (storage_values ?v ivt db') =
      concat (map (\<lambda>r. map (\<lambda>b. runtime_value (ert_ID r) (s, b)) (filter (\<lambda>b. sbw_RuntimeID b = ert_ID r) bs)) (read_runtimes ivt))"
    by (simp add: storage_values_def filter_concat filter_map comp_def added_runtime_storages [OF a s])
  show "s\<lparr>sto_RuntimeBindings := concat (map sto_RuntimeBindings (filter (\<lambda>x. sto_ID x = sto_ID s) (storage_values ?v ivt db')))\<rparr> = read_storage ivt (s, bs)"
    by (simp add: f read_storage_def runtime_value_def concat_map_concat comp_def)
  have "sto_ID s \<in> sto_ID ` set (storage_values ?v ivt db') \<longleftrightarrow> set (filter (\<lambda>x. sto_ID x = sto_ID s) (storage_values ?v ivt db')) \<noteq> {}" by (simp add: image_iff filter_empty_conv) metis
  also have "\<dots> \<longleftrightarrow> (\<exists>r \<in> set (read_runtimes ivt). \<exists>b \<in> set bs. sbw_RuntimeID b = ert_ID r)" by (auto simp: f)
  also have "\<dots> \<longleftrightarrow> bs \<noteq> []" using added_storage_runtime [OF a s] by (cases bs) auto
  finally show "sto_ID s \<in> sto_ID ` set (storage_values ?v ivt db') \<longleftrightarrow> bs \<noteq> []" .
qed

lemma added_merged:
  assumes a: "added i d ivt db db'" and m: "m = fold merge_storage (storage_values (env_VersionID (def_Version d)) ivt db') []"
  shows "gomap_ok m" "(k, x) \<in> set m \<longleftrightarrow> (\<exists>p \<in> set (filter (\<lambda>(s, bs). bs \<noteq> []) (inv_storages ivt)). k = sto_ID (fst p) \<and> x = read_storage ivt p)"
proof -
  let ?v = "env_VersionID (def_Version d)"
  define vs where "vs = storage_values ?v ivt db'"
  define base where "base = (\<lambda>k. the (map_of (map (\<lambda>(s, bs). (sto_ID s, s)) (inv_storages ivt)) k))"
  let ?X = "filter (\<lambda>(s, bs). bs \<noteq> []) (inv_storages ivt)"
  have u: "distinct (map (\<lambda>x. sto_ID (fst x)) (inv_storages ivt))"
    using schema_unique(7) [OF added_ok(2) [OF a]] by (simp add: added_tables [OF a] comp_def)
  have base: "base (sto_ID s) = s" if "(s, bs) \<in> set (inv_storages ivt)" for s bs
    using u that by (force simp: base_def case_prod_beta comp_def intro!: arg_cong [where f = the, of _ "Some _", simplified])
  have "\<And>x. x \<in> set vs \<Longrightarrow> x = (base (sto_ID x))\<lparr>sto_RuntimeBindings := sto_RuntimeBindings x\<rparr>"
  proof -
    fix x assume x: "x \<in> set vs"
    obtain s bs where s: "(s, bs) \<in> set (inv_storages ivt)" "x = s\<lparr>sto_RuntimeBindings := sto_RuntimeBindings x\<rparr>"
      using added_storage_value [OF a x [unfolded vs_def]] by auto
    then have "sto_ID x = sto_ID s" using storage_id_update by metis
    then show "x = (base (sto_ID x))\<lparr>sto_RuntimeBindings := sto_RuntimeBindings x\<rparr>" using s base by simp
  qed
  note ok = merge_storages [of vs base, OF this, folded m [folded vs_def]]
  show g: "gomap_ok m" using ok by blast
  have "(k, x) \<in> set m \<longleftrightarrow> map_of m k = Some x" using g by (simp add: gomap_ok_def)
  also have "\<dots> \<longleftrightarrow> k \<in> sto_ID ` set vs \<and> x = (base k)\<lparr>sto_RuntimeBindings := concat (map sto_RuntimeBindings (filter (\<lambda>x. sto_ID x = k) vs))\<rparr>"
    using ok [of k] by auto
  also have "\<dots> \<longleftrightarrow> (\<exists>p \<in> set ?X. k = sto_ID (fst p) \<and> x = read_storage ivt p)"
  proof
    assume l: "k \<in> sto_ID ` set vs \<and> x = (base k)\<lparr>sto_RuntimeBindings := concat (map sto_RuntimeBindings (filter (\<lambda>x. sto_ID x = k) vs))\<rparr>"
    then obtain y where y: "y \<in> set vs" "k = sto_ID y" by blast
    obtain s bs where s: "(s, bs) \<in> set (inv_storages ivt)" "bs \<noteq> []" "y = s\<lparr>sto_RuntimeBindings := sto_RuntimeBindings y\<rparr>"
      using added_storage_value [OF a y(1) [unfolded vs_def]] by auto
    then have k: "k = sto_ID s" using y(2) storage_id_update by metis
    then have "x = read_storage ivt (s, bs)" using l base [OF s(1)] added_storage_values(1) [OF a s(1)] by (simp add: vs_def)
    then show "\<exists>p \<in> set ?X. k = sto_ID (fst p) \<and> x = read_storage ivt p" using s k by (intro bexI [of _ "(s, bs)"]) auto
  next
    assume "\<exists>p \<in> set ?X. k = sto_ID (fst p) \<and> x = read_storage ivt p"
    then obtain s bs where s: "(s, bs) \<in> set (inv_storages ivt)" "bs \<noteq> []" "k = sto_ID s" "x = read_storage ivt (s, bs)" by auto
    then show "k \<in> sto_ID ` set vs \<and> x = (base k)\<lparr>sto_RuntimeBindings := concat (map sto_RuntimeBindings (filter (\<lambda>x. sto_ID x = k) vs))\<rparr>"
      using base [OF s(1)] added_storage_values [OF a s(1)] by (simp add: vs_def)
  qed
  finally show "(k, x) \<in> set m \<longleftrightarrow> (\<exists>p \<in> set ?X. k = sto_ID (fst p) \<and> x = read_storage ivt p)" .
qed

lemma added_storages:
  assumes a: "added i d ivt db db'" and "nofault env db'"
  shows "\<exists>ss. listStorages env (env_VersionID (def_Version d)) (read_runtimes ivt) db' = Inr ss \<and>
    mset ss = mset (map (read_storage ivt) (filter (\<lambda>(s, bs). bs \<noteq> []) (inv_storages ivt)))"
proof -
  let ?v = "env_VersionID (def_Version d)" and ?X = "filter (\<lambda>(s, bs). bs \<noteq> []) (inv_storages ivt)"
  define m where "m = fold merge_storage (storage_values ?v ivt db') []"
  note g = added_merged(1) [OF a m_def] and mem = added_merged(2) [OF a m_def]
  have u: "distinct (map (\<lambda>x. sto_ID (fst x)) (inv_storages ivt))"
    using schema_unique(7) [OF added_ok(2) [OF a]] by (simp add: added_tables [OF a] comp_def)
  have id: "sto_ID (read_storage ivt p) = sto_ID (fst p)" for p by (simp add: read_storage_def split: prod.splits)
  have "snd ` set m = read_storage ivt ` set ?X"
  proof (rule set_eqI)
    fix x
    have "x \<in> snd ` set m \<longleftrightarrow> (\<exists>k. (k, x) \<in> set m)" by force
    also have "\<dots> \<longleftrightarrow> x \<in> read_storage ivt ` set ?X" unfolding mem by blast
    finally show "x \<in> snd ` set m \<longleftrightarrow> x \<in> read_storage ivt ` set ?X" .
  qed
  moreover have "map (\<lambda>x. sto_ID (snd x)) m = map fst m" using mem id by (intro map_cong) (auto simp del: set_filter)
  then have "distinct (map sto_ID (map snd m))" using g unfolding gomap_ok_def map_map comp_def by (simp only:)
  then have "distinct (map snd m)" by (metis distinct_map)
  moreover have "distinct (map sto_ID (map (read_storage ivt) ?X))" using u by (simp add: id comp_def distinct_map_filter)
  then have "distinct (map (read_storage ivt) ?X)" by (metis distinct_map)
  ultimately have "mset (map snd m) = mset (map (read_storage ivt) ?X)" by (subst set_eq_iff_mset_eq_distinct [symmetric]) auto
  moreover have "listStorages env ?v (read_runtimes ivt) db' = Inr (in_order (ee_order env) (map snd m))"
    using collect_Inr [of "read_runtimes ivt" "\<lambda>r. environment_ListRuntimeStorages env ?v (ert_ID r) db'"
        "\<lambda>r. map (runtime_value (ert_ID r)) (runtime_storages ?v (ert_ID r) db')"]
    by (simp add: listStorages_def environment_ListRuntimeStorages_def query_nofault [OF assms(2)] m_def storage_values_def runtime_value_def)
  ultimately show ?thesis by simp
qed

end
