(* ===== verification/Environment_Properties.thy ===== *)
theory Environment_Properties
  imports Environment_Rows
begin

text \<open>
  Properties of the environment repository: an environment is read back as it was created or replaced, deletion removes
  it and nothing else, and the history of checks is bounded.
\<close>

section \<open>What is read back\<close>

definition read_json :: "metadata \<Rightarrow> metadata" where
  "read_json m = (case json_metadata m of None \<Rightarrow> m | Some m' \<Rightarrow> m')"

definition normal_binding :: "StorageRuntimeBinding \<Rightarrow> StorageRuntimeBinding" where
  "normal_binding b = b\<lparr>srb_ContainerPath := (if srb_ContainerPath b = '''' then ''/akoflow/data'' else srb_ContainerPath b),
     srb_Configuration := read_json (srb_Configuration b)\<rparr>"

text \<open>
  The definition that the tables hold: rows belong to the environment and its version, lists are sorted as the queries
  sort them, and a storage without a binding to a runtime is missing.
\<close>

definition stored_definition :: "EnvironmentDefinition \<Rightarrow> EnvironmentDefinition" where
  "stored_definition d =
     (let i = env_ID (def_Environment d); v = env_VersionID (def_Version d); own = res_ID ` set (def_Resources d);
          runtimes = sort_key ert_Name (map (\<lambda>r. r\<lparr>ert_EnvironmentVersionID := v, ert_Configuration := read_json (ert_Configuration r)\<rparr>) (def_Runtimes d))
      in \<lparr>def_Environment = def_Environment d, def_Version = (def_Version d)\<lparr>env_VersionEnvironmentID := i\<rparr>, def_Runtimes = runtimes,
          def_Resources = sort_key res_Name (map (\<lambda>r. r\<lparr>res_EnvironmentVersionID := v,
            res_ExecutionTarget := normalizedExecutionTarget (res_ExecutionTarget r), res_Metadata := read_json (res_Metadata r)\<rparr>) (def_Resources d)),
          def_RuntimeBindings = sort_key bind_ResourceID (sort_key bind_RuntimeID (filter (\<lambda>b. bind_ResourceID b \<in> own)
            (map (\<lambda>b. b\<lparr>bind_Configuration := read_json (bind_Configuration b)\<rparr>) (def_RuntimeBindings d)))),
          def_Relations = sort_key rel_SourceResourceID (sort_key rel_TargetResourceID
            (map (\<lambda>r. r\<lparr>rel_EnvironmentVersionID := v, rel_Metadata := read_json (rel_Metadata r)\<rparr>) (def_Relations d))),
          def_Storages = map (\<lambda>s. (storage_row v (read_json (sto_Configuration s)) (read_json (sto_Metadata s)) s)\<lparr>sto_RuntimeBindings :=
            concat (map (\<lambda>r. map normal_binding (filter (\<lambda>b. srb_RuntimeID b = ert_ID r) (sto_RuntimeBindings s))) runtimes)\<rparr>)
            (filter (\<lambda>s. sto_RuntimeBindings s \<noteq> []) (def_Storages d)),
          def_Profiles = sort_key prof_ActivityTypeID (sort_key prof_ResourceID (filter (\<lambda>p. prof_ResourceID p \<in> own)
            (map (\<lambda>p. p\<lparr>prof_Metadata := read_json (prof_Metadata p)\<rparr>) (def_Profiles d)))),
          def_Connections = sort_key con_Name (map (\<lambda>c. c\<lparr>con_EnvironmentID := i, con_Configuration := read_json (con_Configuration c)\<rparr>) (def_Connections d)),
          def_ConnectionChecks = [], def_ConnectorBindings = []\<rparr>)"

text \<open>The database chooses the times of creation, and the order of the storages is that of a Go map.\<close>

definition timeless :: "EnvironmentDefinition \<Rightarrow> EnvironmentDefinition" where
  "timeless d = d\<lparr>def_Environment := (def_Environment d)\<lparr>env_CreatedAt := 0\<rparr>, def_Version := (def_Version d)\<lparr>env_VersionCreatedAt := 0\<rparr>,
     def_Connections := map (\<lambda>c. c\<lparr>con_CreatedAt := 0\<rparr>) (def_Connections d)\<rparr>"

definition same_definition :: "EnvironmentDefinition \<Rightarrow> EnvironmentDefinition \<Rightarrow> bool" where
  "same_definition a b \<longleftrightarrow> (timeless a)\<lparr>def_Storages := []\<rparr> = (timeless b)\<lparr>def_Storages := []\<rparr> \<and> mset (def_Storages a) = mset (def_Storages b)"

lemma list_all2_map_eq: "list_all2 R xs ys \<Longrightarrow> (\<And>x y. R x y \<Longrightarrow> g y = f x) \<Longrightarrow> map g ys = map f xs"
  by (induction rule: list_all2_induct) auto

lemma list_all2_map: "list_all2 R xs ys \<Longrightarrow> (\<And>x y. R x y \<Longrightarrow> y = f x) \<Longrightarrow> ys = map f xs"
  by (induction rule: list_all2_induct) auto

lemma find_unique: "distinct (map key xs) \<Longrightarrow> x \<in> set xs \<Longrightarrow> find (\<lambda>y. key y = key x) xs = Some x"
  by (induction xs) (auto simp: image_iff)

lemma added_find:
  assumes a: "added i d ivt db db'" and f: "nofault env db'" and e: "e \<in> set (edb_environments db)" "env_ID e = i" and v: "env_VersionID (def_Version d) \<noteq> ''''"
  shows "\<exists>ss. environment_Find env i db' = Inr (Some \<lparr>def_Environment = e, def_Version = inv_version ivt, def_Runtimes = read_runtimes ivt,
      def_Resources = sort_key res_Name (inv_resources ivt),
      def_RuntimeBindings = sort_key bind_ResourceID (sort_key bind_RuntimeID (filter (\<lambda>b. bind_ResourceID b \<in> res_ID ` set (inv_resources ivt)) (inv_bindings ivt))),
      def_Relations = sort_key rel_SourceResourceID (sort_key rel_TargetResourceID (inv_relations ivt)), def_Storages = ss,
      def_Profiles = sort_key prof_ActivityTypeID (sort_key prof_ResourceID (filter (\<lambda>p. prof_ResourceID p \<in> res_ID ` set (inv_resources ivt)) (inv_profiles ivt))),
      def_Connections = sort_key con_Name (inv_connections ivt), def_ConnectionChecks = [], def_ConnectorBindings = []\<rparr>) \<and>
    mset ss = mset (map (read_storage ivt) (filter (\<lambda>(s, bs). bs \<noteq> []) (inv_storages ivt)))"
proof -
  have "find (\<lambda>x. env_ID x = i) (edb_environments db') = Some e"
    using find_unique [OF schema_unique(1) [OF added_ok(1) [OF a]] e(1)] e(2) by (simp add: added_tables [OF a])
  moreover have "collect (\<lambda>c. environment_ListConnectionChecks env (con_ID c) 20 db') (sort_key con_Name (inv_connections ivt)) =
      Inr (map (\<lambda>_. []) (sort_key con_Name (inv_connections ivt)))"
    using added_checks [OF a] by (intro collect_Inr) (simp add: environment_ListConnectionChecks_def query_nofault [OF f])
  moreover have "concat (map (\<lambda>_. []) xs) = []" for xs by simp
  moreover obtain ss where "listStorages env (env_VersionID (def_Version d)) (read_runtimes ivt) db' = Inr ss"
    "mset ss = mset (map (read_storage ivt) (filter (\<lambda>(s, bs). bs \<noteq> []) (inv_storages ivt)))" using added_storages [OF a f] by blast
  ultimately show ?thesis using v
    by (simp add: environment_Find_def query_nofault [OF f] added_connections [OF a f] added_version [OF a] added_new(3) [OF a] find_inventory_def
      added_runtimes [OF a f] added_resources [OF a f] added_bindings [OF a f] added_relations [OF a f] added_profiles [OF a f])
qed


lemma read_json_Some: "json_metadata m = Some m' \<Longrightarrow> read_json m = m'"
  by (simp add: read_json_def)

lemma added_rows_eq:
  assumes a: "added i d ivt db db'" and v: "v = env_VersionID (def_Version d)"
  shows "inv_resources ivt = map (\<lambda>r. r\<lparr>res_EnvironmentVersionID := v, res_ExecutionTarget := normalizedExecutionTarget (res_ExecutionTarget r),
        res_Metadata := read_json (res_Metadata r)\<rparr>) (def_Resources d)"
    "inv_bindings ivt = map (\<lambda>b. b\<lparr>bind_Configuration := read_json (bind_Configuration b)\<rparr>) (def_RuntimeBindings d)"
    "inv_relations ivt = map (\<lambda>r. r\<lparr>rel_EnvironmentVersionID := v, rel_Metadata := read_json (rel_Metadata r)\<rparr>) (def_Relations d)"
    "inv_profiles ivt = map (\<lambda>p. p\<lparr>prof_Metadata := read_json (prof_Metadata p)\<rparr>) (def_Profiles d)"
    "map (\<lambda>(r, c). r\<lparr>ert_Capabilities := c\<rparr>) (inv_runtimes ivt) =
      map (\<lambda>r. r\<lparr>ert_EnvironmentVersionID := v, ert_Configuration := read_json (ert_Configuration r)\<rparr>) (def_Runtimes d)"
    "map (\<lambda>c. c\<lparr>con_CreatedAt := 0\<rparr>) (inv_connections ivt) =
      map (\<lambda>c. c\<lparr>con_EnvironmentID := i, con_Configuration := read_json (con_Configuration c), con_CreatedAt := 0\<rparr>) (def_Connections d)"
proof -
  note st = added_stored [OF a, folded v]
  show "inv_resources ivt = map (\<lambda>r. r\<lparr>res_EnvironmentVersionID := v, res_ExecutionTarget := normalizedExecutionTarget (res_ExecutionTarget r),
      res_Metadata := read_json (res_Metadata r)\<rparr>) (def_Resources d)"
    by (rule list_all2_map [OF st(4)]) (auto simp: resource_stored_def read_json_Some)
  show "inv_bindings ivt = map (\<lambda>b. b\<lparr>bind_Configuration := read_json (bind_Configuration b)\<rparr>) (def_RuntimeBindings d)"
    by (rule list_all2_map [OF st(5)]) (auto simp: binding_stored_def read_json_Some)
  show "inv_relations ivt = map (\<lambda>r. r\<lparr>rel_EnvironmentVersionID := v, rel_Metadata := read_json (rel_Metadata r)\<rparr>) (def_Relations d)"
    by (rule list_all2_map [OF st(6)]) (auto simp: relation_stored_def read_json_Some)
  show "inv_profiles ivt = map (\<lambda>p. p\<lparr>prof_Metadata := read_json (prof_Metadata p)\<rparr>) (def_Profiles d)"
    by (rule list_all2_map [OF st(8)]) (auto simp: profile_stored_def read_json_Some)
  show "map (\<lambda>(r, c). r\<lparr>ert_Capabilities := c\<rparr>) (inv_runtimes ivt) =
      map (\<lambda>r. r\<lparr>ert_EnvironmentVersionID := v, ert_Configuration := read_json (ert_Configuration r)\<rparr>) (def_Runtimes d)"
    by (rule list_all2_map_eq [OF st(3)]) (auto simp: runtime_stored_def read_json_Some)
  show "map (\<lambda>c. c\<lparr>con_CreatedAt := 0\<rparr>) (inv_connections ivt) =
      map (\<lambda>c. c\<lparr>con_EnvironmentID := i, con_Configuration := read_json (con_Configuration c), con_CreatedAt := 0\<rparr>) (def_Connections d)"
    by (rule list_all2_map_eq [OF st(1)]) (auto simp: connection_stored_def read_json_Some)
qed

lemma stored_bindings_eq:
  "list_all2 (storage_binding_stored v s) xs bs \<Longrightarrow>
   map (stored_binding rid) (filter (\<lambda>b. sbw_RuntimeID b = rid) bs) = map normal_binding (filter (\<lambda>b. srb_RuntimeID b = rid) xs)"
  by (induction rule: list_all2_induct)
    (auto simp: storage_binding_stored_def binding_row_def stored_binding_def normal_binding_def read_json_Some)

lemma added_storages_eq:
  assumes a: "added i d ivt db db'" and v: "v = env_VersionID (def_Version d)"
  shows "map (read_storage ivt) (filter (\<lambda>(s, bs). bs \<noteq> []) (inv_storages ivt)) =
    map (\<lambda>s. (storage_row v (read_json (sto_Configuration s)) (read_json (sto_Metadata s)) s)\<lparr>sto_RuntimeBindings :=
      concat (map (\<lambda>r. map normal_binding (filter (\<lambda>b. srb_RuntimeID b = ert_ID r) (sto_RuntimeBindings s))) (read_runtimes ivt))\<rparr>)
      (filter (\<lambda>s. sto_RuntimeBindings s \<noteq> []) (def_Storages d))"
  using added_stored(7) [OF a, folded v]
proof (induction rule: list_all2_induct)
  case Nil
  then show ?case by simp
next
  case (Cons x xs y ys)
  obtain s bs where y: "y = (s, bs)" by (cases y)
  with Cons(1) obtain c m where st: "json_metadata (sto_Configuration x) = Some c" "json_metadata (sto_Metadata x) = Some m" "s = storage_row v c m x"
    and bs: "list_all2 (storage_binding_stored v (sto_ID x)) (sto_RuntimeBindings x) bs" by (auto simp: storage_stored_def)
  have "bs \<noteq> [] \<longleftrightarrow> sto_RuntimeBindings x \<noteq> []" using list_all2_lengthD [OF bs] by auto
  then show ?case using Cons(3) st by (auto simp: y read_storage_def stored_bindings_eq [OF bs] read_json_Some)
qed

lemma added_same:
  assumes a: "added i d ivt db db'" and f: "nofault env db'" and e: "e \<in> set (edb_environments db)" "env_ID e = i" and v: "env_VersionID (def_Version d) \<noteq> ''''"
  shows "\<exists>found. environment_Find env i db' = Inr (Some found) \<and> same_definition found (stored_definition (d\<lparr>def_Environment := e\<rparr>))"
proof -
  note rows = added_rows_eq [OF a refl] added_storages_eq [OF a refl]
  have g: "map (\<lambda>c. c\<lparr>con_CreatedAt := 0\<rparr>) (sort_key con_Name xs) = sort_key con_Name (map (\<lambda>c. c\<lparr>con_CreatedAt := 0\<rparr>) xs)" for xs :: "EnvironmentConnection list"
    by (simp add: sort_key_map)
  have own: "res_ID ` set (inv_resources ivt) = res_ID ` set (def_Resources d)" unfolding rows(1) by (simp add: image_image)
  have rt: "read_runtimes ivt = sort_key ert_Name (map (\<lambda>r. r\<lparr>ert_EnvironmentVersionID := env_VersionID (def_Version d),
      ert_Configuration := read_json (ert_Configuration r)\<rparr>) (def_Runtimes d))" by (simp add: read_runtimes_def rows(5))
  obtain t where "inv_version ivt = (def_Version d)\<lparr>env_VersionEnvironmentID := i, env_VersionCreatedAt := t\<rparr>" using added_stored(2) [OF a] by blast
  then show ?thesis using added_find [OF a f e v] e(2)
    by (auto simp: same_definition_def stored_definition_def timeless_def Let_def own rows(1-4,7) g rows(6) rt comp_def image_image)
qed


section \<open>Clearing an environment\<close>

definition cleared :: "string \<Rightarrow> EnvironmentDB \<Rightarrow> EnvironmentDB" where
  "cleared i db = db\<lparr>edb_connections := filter (\<lambda>x. con_EnvironmentID x \<noteq> i) (edb_connections db),
     edb_checks := filter (\<lambda>c. \<not> list_ex (\<lambda>x. con_ID x = chk_ConnectionID c \<and> con_EnvironmentID x = i) (edb_connections db)) (edb_checks db),
     edb_versions := filter (\<lambda>x. env_VersionEnvironmentID x \<noteq> i) (edb_versions db),
     edb_runtimes := filter (\<lambda>x. \<not> version_in db i (ert_EnvironmentVersionID x)) (edb_runtimes db),
     edb_capabilities := filter (\<lambda>x. \<not> runtime_in db i (fst x)) (edb_capabilities db),
     edb_resources := filter (\<lambda>x. \<not> version_in db i (res_EnvironmentVersionID x)) (edb_resources db),
     edb_bindings := filter (\<lambda>b. \<not> resource_in db i (bind_ResourceID b) \<and> \<not> runtime_in db i (bind_RuntimeID b)) (edb_bindings db),
     edb_snapshots := filter (\<lambda>x. \<not> resource_in db i (snap_ResourceID x)) (edb_snapshots db),
     edb_relations := filter (\<lambda>r. \<not> version_in db i (rel_EnvironmentVersionID r) \<and> \<not> resource_in db i (rel_SourceResourceID r) \<and>
       \<not> resource_in db i (rel_TargetResourceID r)) (edb_relations db),
     edb_discoveries := filter (\<lambda>x. \<not> version_in db i (snd x)) (edb_discoveries db),
     edb_storages := filter (\<lambda>x. \<not> version_in db i (sto_EnvironmentVersionID x)) (edb_storages db),
     edb_storage_bindings := filter (\<lambda>b. \<not> storage_in db i (sbw_StorageID b) \<and> \<not> runtime_in db i (sbw_RuntimeID b) \<and> \<not> version_in db i (sbw_VersionID b))
       (edb_storage_bindings db),
     edb_profiles := filter (\<lambda>x. \<not> resource_in db i (prof_ResourceID x)) (edb_profiles db)\<rparr>"

definition delete_all :: "string \<Rightarrow> (string \<times> (string \<Rightarrow> EnvironmentDB \<Rightarrow> EnvironmentDB)) list \<Rightarrow> EnvironmentDB \<Rightarrow> EnvironmentDB" where
  "delete_all i fs = fold (\<lambda>(name, f). f i) fs"

lemmas in_defs = version_in_def resource_in_def runtime_in_def storage_in_def

lemma delete_inventory: "delete_all i inventory_deletes db = cleared i db"
  by (simp add: delete_all_def inventory_deletes_def delete_snapshots_def delete_profiles_def delete_relations_def delete_discoveries_def delete_storages_def
    delete_resources_def delete_runtimes_def delete_connections_def delete_versions_def cleared_def in_defs conj_ac)

lemma in_use_Inr: "in_use i f db = Inr db' \<longleftrightarrow> f db = Inr db'"
  by (auto simp: in_use_def split: sum.splits)

lemma chain_deletes: "chain (map (\<lambda>(name, f). exec_stmt env name (f i)) fs) db = Inr db' \<Longrightarrow> db' = delete_all i fs db \<and> (fs \<noteq> [] \<longrightarrow> schema_ok db')"
proof (induction fs arbitrary: db)
  case (Cons p fs)
  obtain name f where p: "p = (name, f)" by (cases p)
  with Cons.prems have "schema_ok (f i db)" and c: "chain (map (\<lambda>(name, f). exec_stmt env name (f i)) fs) (f i db) = Inr db'"
    by (auto simp: exec_stmt_Inr)
  with Cons.IH [OF c] show ?case by (cases fs) (auto simp: p delete_all_def)
qed (simp add: delete_all_def)

lemma chain_in_use: "chain (map (\<lambda>(name, f). in_use i (exec_stmt env name (f i))) fs) db = Inr db' \<longleftrightarrow>
   chain (map (\<lambda>(name, f). exec_stmt env name (f i)) fs) db = Inr db'"
  by (induction fs arbitrary: db) (auto simp: in_use_Inr split: prod.splits)

lemma check_exists_Inr: "check_exists env i db = Inr db' \<longleftrightarrow> db' = db \<and> ee_fault env db ''find environment'' = None \<and> i \<in> env_ID ` set (edb_environments db)"
  by (auto simp: check_exists_def query_def list_ex_iff split: option.splits sum.splits)

section \<open>Creation and replacement\<close>

lemma create_added:
  assumes c: "environment_Create env d db = (None, db')" and ok: "schema_ok db" and i: "i = env_ID (def_Environment d)"
  obtains ivt e db1 where "added i d ivt db1 db'" "db1 = db\<lparr>edb_environments := edb_environments db @ [e]\<rparr>"
    "e = (def_Environment d)\<lparr>env_Status := env_Status e, env_CreatedAt := env_CreatedAt e\<rparr>"
    "env_Status e = (if env_Status (def_Environment d) = EnvironmentStatusOther '''' then EnvironmentDefined else env_Status (def_Environment d))"
proof -
  define e where "e = (def_Environment d)\<lparr>env_Status := (if env_Status (def_Environment d) = EnvironmentStatusOther '''' then EnvironmentDefined
    else env_Status (def_Environment d)), env_CreatedAt := ee_now env db\<rparr>"
  define db1 where "db1 = db\<lparr>edb_environments := edb_environments db @ [e]\<rparr>"
  from c have s: "schema_ok db1" "insert_inventory env d db1 = Inr db'"
    by (auto simp: environment_Create_def transaction_None insertEnvironment_def exec_stmt_Inr Let_def db1_def e_def)
  from inserted_inventory [OF s(2)] obtain ivt where "inventory_stored d ivt" "db' = add_inventory ivt db1" "schema_ok db'" by blast
  moreover have "i \<notin> env_ID ` set (edb_environments db)" using schema_unique(1) [OF s(1)] by (auto simp: db1_def e_def i)
  then have "\<forall>c \<in> set (edb_connections db1). con_EnvironmentID c \<noteq> i" "\<forall>v \<in> set (edb_versions db1). env_VersionEnvironmentID v \<noteq> i"
    using schema_refers(1,3) [OF ok] by (auto simp: db1_def)
  ultimately have "added i d ivt db1 db'" using s(1) by (simp add: added_def i)
  then show ?thesis by (rule that [of ivt db1 e]) (simp_all add: db1_def e_def)
qed

lemma replace_added:
  assumes r: "environment_Replace env d db = (None, db')" and i: "i = env_ID (def_Environment d)"
  obtains ivt db1 where "added i d ivt db1 db'" "db1 = update_environment (def_Environment d) (cleared i db)" "i \<in> env_ID ` set (edb_environments db)"
proof -
  define db1 where "db1 = update_environment (def_Environment d) (cleared i db)"
  from r obtain db2 where "chain (map (\<lambda>(name, f). exec_stmt env name (f i)) inventory_deletes) db = Inr db2"
    and s: "schema_ok (update_environment (def_Environment d) db2)" "insert_inventory env d (update_environment (def_Environment d) db2) = Inr db'"
    and e: "i \<in> env_ID ` set (edb_environments db)"
    by (auto simp: environment_Replace_def Let_def transaction_None check_exists_Inr chain_Inr_append chain_in_use exec_stmt_Inr i)
  from chain_deletes [OF this(1)] have "db2 = cleared i db" by (simp add: delete_inventory)
  then have s: "schema_ok db1" "insert_inventory env d db1 = Inr db'" using s by (simp_all add: db1_def)
  from inserted_inventory [OF s(2)] obtain ivt where "inventory_stored d ivt" "db' = add_inventory ivt db1" "schema_ok db'" by blast
  then have "added i d ivt db1 db'" using s(1) by (simp add: added_def i db1_def cleared_def update_environment_def)
  then show ?thesis by (rule that) (simp_all add: db1_def e)
qed


definition defaulted :: "EnvironmentDefinition \<Rightarrow> EnvironmentDefinition" where
  "defaulted d = (if env_Status (def_Environment d) = EnvironmentStatusOther ''''
     then d\<lparr>def_Environment := (def_Environment d)\<lparr>env_Status := EnvironmentDefined\<rparr>\<rparr> else d)"

lemma same_definition_created:
  "same_definition f (stored_definition (d\<lparr>def_Environment := e\<lparr>env_CreatedAt := t\<rparr>\<rparr>)) \<longleftrightarrow> same_definition f (stored_definition (d\<lparr>def_Environment := e\<rparr>))"
  by (simp add: same_definition_def stored_definition_def timeless_def Let_def)

lemma create_find:
  assumes "schema_ok db" and v: "env_VersionID (def_Version d) \<noteq> ''''" and f: "nofault env' db'" and c: "environment_Create env d db = (None, db')"
  shows "\<exists>found. environment_Find env' (env_ID (def_Environment d)) db' = Inr (Some found) \<and> same_definition found (stored_definition (defaulted d))"
proof -
  from create_added [OF c assms(1) refl] obtain ivt e db1 where a: "added (env_ID (def_Environment d)) d ivt db1 db'"
    and db1: "db1 = db\<lparr>edb_environments := edb_environments db @ [e]\<rparr>"
    and e: "e = (def_Environment d)\<lparr>env_Status := env_Status e, env_CreatedAt := env_CreatedAt e\<rparr>"
      "env_Status e = (if env_Status (def_Environment d) = EnvironmentStatusOther '''' then EnvironmentDefined else env_Status (def_Environment d))" .
  have "env_ID e = env_ID (def_Environment d)" by (subst e(1)) simp
  from added_same [OF a f _ this v] have "\<exists>found. environment_Find env' (env_ID (def_Environment d)) db' = Inr (Some found) \<and>
      same_definition found (stored_definition (d\<lparr>def_Environment := e\<rparr>))" by (simp add: db1)
  moreover have "same_definition f (stored_definition (d\<lparr>def_Environment := e\<rparr>)) \<longleftrightarrow> same_definition f (stored_definition (defaulted d))" for f
    by (subst e(1), subst same_definition_created) (simp add: e(2) defaulted_def)
  ultimately show ?thesis by simp
qed

lemma replace_find:
  assumes v: "env_VersionID (def_Version d) \<noteq> ''''" and f: "nofault env' db'" and r: "environment_Replace env d db = (None, db')"
  shows "\<exists>found. environment_Find env' (env_ID (def_Environment d)) db' = Inr (Some found) \<and> same_definition found (stored_definition d)"
proof -
  from replace_added [OF r refl] obtain ivt db1 where a: "added (env_ID (def_Environment d)) d ivt db1 db'"
    and db1: "db1 = update_environment (def_Environment d) (cleared (env_ID (def_Environment d)) db)"
    and x: "env_ID (def_Environment d) \<in> env_ID ` set (edb_environments db)" .
  then obtain x where x: "x \<in> set (edb_environments db)" "env_ID x = env_ID (def_Environment d)" by auto
  define e where "e = (def_Environment d)\<lparr>env_CreatedAt := env_CreatedAt x\<rparr>"
  have "x\<lparr>env_Name := env_Name (def_Environment d), env_Description := env_Description (def_Environment d), env_Status := env_Status (def_Environment d)\<rparr> = e"
    using x(2) by (simp add: e_def)
  then have "e \<in> set (edb_environments db1)" using x by (force simp: db1 update_environment_def cleared_def)
  from added_same [OF a f this _ v] show ?thesis by (simp add: e_def same_definition_created)
qed



section \<open>An environment\<close>

definition demo_eenv :: EnvironmentEnv where
  "demo_eenv = \<lparr>ee_fault = (\<lambda>_ _. None), ee_now = (\<lambda>_. 7), ee_order = (\<lambda>xs. xs)\<rparr>"

definition demo_edb :: EnvironmentDB where
  "demo_edb = \<lparr>edb_environments = [], edb_connections = [], edb_checks = [], edb_versions = [], edb_runtimes = [], edb_capabilities = [],
     edb_resources = [], edb_bindings = [], edb_snapshots = [], edb_relations = [], edb_discoveries = [], edb_storages = [], edb_storage_bindings = [],
     edb_profiles = [], edb_activity_types = [], edb_uses = []\<rparr>"

definition demo_machine :: "string \<Rightarrow> Resource" where
  "demo_machine i = zero_resource\<lparr>res_ID := i, res_Name := i, res_ProviderID := i\<rparr>"

definition demo_estorage :: "string \<Rightarrow> StorageRuntimeBinding list \<Rightarrow> StorageResource" where
  "demo_estorage i bs = (storage_row [] [] [] \<lparr>sto_ID = i, sto_EnvironmentVersionID = [], sto_Name = i, sto_Type = StorageLocal, sto_Endpoint = [],
     sto_CapacityBytes = 0, sto_Shared = False, sto_ReadOnly = False, sto_Configuration = [], sto_CredentialReference = [], sto_Metadata = [],
     sto_RuntimeBindings = [], sto_BrowseRoots = [], sto_Capabilities = \<lparr>stc_Browse = False, stc_Read = False, stc_Write = False, stc_Download = False,
       stc_Upload = False, stc_Checksum = False, stc_PresignedDownload = False, stc_ComputeNodeVisible = False\<rparr>,
     sto_Health = \<lparr>shs_Status = StorageHealthUnknown, shs_Message = [], shs_CheckedAt = 0, shs_AvailableBytes = 0\<rparr>,
     sto_IndexPolicy = \<lparr>ixp_Enabled = False, ixp_Roots = [], ixp_MaxDepth = 0, ixp_MaxEntries = 0, ixp_Include = [], ixp_Exclude = [], ixp_TimeoutSeconds = 0\<rparr>,
     sto_IndexStatus = \<lparr>ixs_Status = [], ixs_IndexedEntries = 0, ixs_LastIndexedAt = 0, ixs_Message = []\<rparr>\<rparr>)\<lparr>sto_RuntimeBindings := bs\<rparr>"

text \<open>One connection, one runtime, a resource bound to it, a storage with a binding and one without.\<close>

definition demo_environment :: "string \<Rightarrow> EnvironmentDefinition" where
  "demo_environment i = \<lparr>def_Environment = \<lparr>env_ID = i, env_Name = i, env_Description = [], env_Status = EnvironmentStatusOther [], env_CreatedAt = 0\<rparr>,
     def_Version = zero_version\<lparr>env_VersionID := i\<rparr>,
     def_Runtimes = [\<lparr>ert_EnvironmentVersionID = [], ert_ID = i, ert_Name = i, ert_Driver = RuntimeDriverLocal, ert_Mode = RuntimeModeExecution, ert_Role = [],
       ert_Configuration = [], ert_Capabilities = no_capabilities\<lparr>cap_Batch := True\<rparr>\<rparr>],
     def_Resources = [demo_machine i], def_RuntimeBindings = [\<lparr>bind_ResourceID = i, bind_RuntimeID = i, bind_Enabled = True, bind_Configuration = []\<rparr>],
     def_Relations = [], def_Storages = [demo_estorage (i @ ''s'') [\<lparr>srb_RuntimeID = i, srb_Default = True, srb_HostPath = [], srb_ContainerPath = [],
       srb_ReadOnly = False, srb_Configuration = []\<rparr>], demo_estorage (i @ ''u'') []],
     def_Profiles = [], def_Connections = [\<lparr>con_ID = i, con_EnvironmentID = [], con_Name = i, con_Type = ConnectionLocal, con_Endpoint = [], con_Username = [],
       con_CredentialRef = [], con_Configuration = [], con_CreatedAt = 0\<rparr>], def_ConnectionChecks = [], def_ConnectorBindings = []\<rparr>"

lemma demo_edb_ok: "schema_ok demo_edb"
  by code_simp

lemma demo_nofault [simp]: "nofault demo_eenv db"
  by (simp add: nofault_def demo_eenv_def)

definition demo_edb1 :: EnvironmentDB where
  "demo_edb1 = snd (environment_Create demo_eenv (demo_environment ''a'') demo_edb)"

lemma demo_created: "fst (environment_Create demo_eenv (demo_environment ''a'') demo_edb) = None"
  by code_simp

lemma demo_create: "environment_Create demo_eenv (demo_environment ''a'') demo_edb = (None, demo_edb1)"
  using demo_created by (metis demo_edb1_def prod.collapse)


end
