(* ===== verification/Environment_Frames.thy ===== *)
theory Environment_Frames
  imports Environment_Properties
begin

text \<open>
  What the operations on one environment leave of the others: the rows that \<^verbatim>\<open>Find\<close> reads for an environment, and that
  insertion and deletion of another one keep them.
\<close>

section \<open>The rows of an environment\<close>

definition version_ids :: "string \<Rightarrow> EnvironmentDB \<Rightarrow> string set" where
  "version_ids j db = env_VersionID ` set (filter (\<lambda>v. env_VersionEnvironmentID v = j) (edb_versions db))"

definition connection_ids :: "string \<Rightarrow> EnvironmentDB \<Rightarrow> string set" where
  "connection_ids j db = con_ID ` set (filter (\<lambda>c. con_EnvironmentID c = j) (edb_connections db))"

definition view_rows :: "string \<Rightarrow> EnvironmentDB \<Rightarrow> Environment list \<times> EnvironmentVersion list \<times> EnvironmentConnection list" where
  "view_rows j db = (filter (\<lambda>x. env_ID x = j) (edb_environments db), filter (\<lambda>v. env_VersionEnvironmentID v = j) (edb_versions db),
     filter (\<lambda>c. con_EnvironmentID c = j) (edb_connections db))"

definition view_checks :: "string \<Rightarrow> EnvironmentDB \<Rightarrow> ConnectionCheck list" where
  "view_checks c db = filter (\<lambda>k. chk_ConnectionID k = c) (edb_checks db)"

definition view_runtimes :: "string \<Rightarrow> EnvironmentDB \<Rightarrow> (EnvironmentRuntime \<times> Capabilities option) list" where
  "view_runtimes v db = map (\<lambda>r. (r, map_of (edb_capabilities db) (ert_ID r))) (filter (\<lambda>r. ert_EnvironmentVersionID r = v) (edb_runtimes db))"

definition view_version :: "string \<Rightarrow> EnvironmentDB \<Rightarrow> Resource list \<times> ResourceRuntimeBinding list \<times> ResourceRelation list \<times> ActivityResourceProfile list" where
  "view_version v db = (filter (\<lambda>r. res_EnvironmentVersionID r = v) (edb_resources db),
     filter (\<lambda>b. resource_of_version db v (bind_ResourceID b)) (edb_bindings db), filter (\<lambda>r. rel_EnvironmentVersionID r = v) (edb_relations db),
     filter (\<lambda>p. resource_of_version db v (prof_ResourceID p)) (edb_profiles db))"

definition same_view :: "string \<Rightarrow> EnvironmentDB \<Rightarrow> EnvironmentDB \<Rightarrow> bool" where
  "same_view j db db' \<longleftrightarrow> view_rows j db' = view_rows j db \<and> (\<forall>c \<in> connection_ids j db. view_checks c db' = view_checks c db) \<and>
     (\<forall>v \<in> version_ids j db. view_runtimes v db' = view_runtimes v db \<and> view_version v db' = view_version v db \<and>
       (\<forall>rt. runtime_storages v rt db' = runtime_storages v rt db))"

lemma view_rows_ids: "view_rows j db' = view_rows j db \<Longrightarrow> version_ids j db' = version_ids j db \<and> connection_ids j db' = connection_ids j db"
  by (simp add: view_rows_def version_ids_def connection_ids_def)

lemma same_view_trans: "same_view j a b \<Longrightarrow> same_view j b c \<Longrightarrow> same_view j a c"
  using view_rows_ids [of j b a] by (auto simp: same_view_def)

lemma find_filter: "find P xs = (case filter P xs of [] \<Rightarrow> None | x # _ \<Rightarrow> Some x)"
  by (induction xs) auto

lemma collect_map: "collect f (map g xs) = collect (\<lambda>x. f (g x)) xs"
  by (induction xs) (simp_all split: sum.split)

lemma collect_eq: "(\<And>x. x \<in> set xs \<Longrightarrow> f x = g x) \<Longrightarrow> collect f xs = collect g xs"
  by (induction xs) (simp_all split: sum.split)

lemma listRuntimes_view:
  assumes "nofault env db"
  shows "listRuntimes env v db = collect (\<lambda>(r, c). case c of None \<Rightarrow>
      Inl (Errorf ''sql: Scan error on column capabilities: converting NULL to string is unsupported'' []) | Some c \<Rightarrow> Inr (r\<lparr>ert_Capabilities := c\<rparr>))
    (sort_key (\<lambda>x. ert_Name (fst x)) (view_runtimes v db))"
  by (simp add: listRuntimes_def query_nofault [OF assms] view_runtimes_def sort_key_map collect_map)

lemma latest_version_id: "env_VersionID (latest_version j db) \<noteq> '''' \<Longrightarrow> env_VersionID (latest_version j db) \<in> version_ids j db"
proof -
  assume v: "env_VersionID (latest_version j db) \<noteq> ''''"
  let ?l = "sort_key (\<lambda>v. - env_VersionNumber v) (filter (\<lambda>v. env_VersionEnvironmentID v = j) (edb_versions db))"
  from v obtain x xs where l: "?l = x # xs" by (cases ?l) (auto simp: latest_version_def zero_version_def)
  have "set ?l = set (filter (\<lambda>v. env_VersionEnvironmentID v = j) (edb_versions db))" by simp
  then have "x \<in> set (filter (\<lambda>v. env_VersionEnvironmentID v = j) (edb_versions db))" unfolding l by auto
  then show ?thesis using l by (simp add: latest_version_def version_ids_def)
qed

text \<open>\<^verbatim>\<open>Find\<close> reads nothing else.\<close>

lemma find_same_view:
  assumes s: "same_view j db db'" and f: "nofault env db" "nofault env db'"
  shows "environment_Find env j db' = environment_Find env j db"
proof -
  have rows: "filter (\<lambda>x. env_ID x = j) (edb_environments db') = filter (\<lambda>x. env_ID x = j) (edb_environments db)"
    "filter (\<lambda>v. env_VersionEnvironmentID v = j) (edb_versions db') = filter (\<lambda>v. env_VersionEnvironmentID v = j) (edb_versions db)"
    "filter (\<lambda>c. con_EnvironmentID c = j) (edb_connections db') = filter (\<lambda>c. con_EnvironmentID c = j) (edb_connections db)"
    using s by (simp_all add: same_view_def view_rows_def)
  have e: "find (\<lambda>x. env_ID x = j) (edb_environments db') = find (\<lambda>x. env_ID x = j) (edb_environments db)" by (simp add: find_filter rows(1))
  have v: "latest_version j db' = latest_version j db" by (simp add: latest_version_def rows(2))
  have c: "environment_ListConnections env j db' = environment_ListConnections env j db" by (simp add: environment_ListConnections_def query_nofault f rows(3))
  have "collect (\<lambda>c. environment_ListConnectionChecks env (con_ID c) 20 db') (sort_key con_Name (filter (\<lambda>c. con_EnvironmentID c = j) (edb_connections db))) =
      collect (\<lambda>c. environment_ListConnectionChecks env (con_ID c) 20 db) (sort_key con_Name (filter (\<lambda>c. con_EnvironmentID c = j) (edb_connections db)))"
    using s by (intro collect_eq)
      (auto simp: same_view_def connection_ids_def view_checks_def environment_ListConnectionChecks_def newest_checks_def query_nofault f)
  moreover have "find_inventory env (d\<lparr>def_Version := latest_version j db\<rparr>) db' = find_inventory env (d\<lparr>def_Version := latest_version j db\<rparr>) db"
    if n: "env_VersionID (latest_version j db) \<noteq> ''''" for d
  proof -
    let ?v = "env_VersionID (latest_version j db)"
    note w = latest_version_id [OF n]
    then have view: "view_runtimes ?v db' = view_runtimes ?v db" "view_version ?v db' = view_version ?v db"
      and st: "\<And>rt. runtime_storages ?v rt db' = runtime_storages ?v rt db" using s by (auto simp: same_view_def)
    have "listRuntimes env ?v db' = listRuntimes env ?v db" by (simp add: listRuntimes_view f view(1))
    moreover have "listStorages env ?v rs db' = listStorages env ?v rs db" for rs
      by (simp add: listStorages_def environment_ListRuntimeStorages_def query_nofault f st)
    moreover have "listResources env ?v db' = listResources env ?v db" "listRuntimeBindings env ?v db' = listRuntimeBindings env ?v db"
      "listResourceRelations env ?v db' = listResourceRelations env ?v db" "listProfiles env ?v db' = listProfiles env ?v db"
      using view(2) by (simp_all add: listResources_def listRuntimeBindings_def listResourceRelations_def listProfiles_def query_nofault f view_version_def)
    ultimately show ?thesis by (simp add: find_inventory_def Let_def cong: sum.case_cong)
  qed
  from this [of "\<lparr>def_Environment = x, def_Version = y, def_Runtimes = [], def_Resources = [], def_RuntimeBindings = [], def_Relations = [],
      def_Storages = [], def_Profiles = [], def_Connections = z, def_ConnectionChecks = k, def_ConnectorBindings = []\<rparr>" for x y z k]
  show ?thesis using calculation c
    by (simp add: environment_Find_def query_nofault f e v environment_ListConnections_def rows(3) Let_def split: option.splits sum.splits)
qed


section \<open>Clearing keeps the others\<close>

text \<open>
  The schema allows a runtime binding across environments, and a relation between resources of several; the rows of
  such a link go with either side.
\<close>

definition separate :: "string \<Rightarrow> EnvironmentDB \<Rightarrow> bool" where
  "separate i db \<longleftrightarrow> (\<forall>b \<in> set (edb_bindings db). runtime_in db i (bind_RuntimeID b) \<longrightarrow> resource_in db i (bind_ResourceID b)) \<and>
     (\<forall>r \<in> set (edb_relations db). resource_in db i (rel_SourceResourceID r) \<or> resource_in db i (rel_TargetResourceID r) \<longrightarrow>
        version_in db i (rel_EnvironmentVersionID r))"

lemma unique_same: "distinct (map key xs) \<Longrightarrow> x \<in> set xs \<Longrightarrow> y \<in> set xs \<Longrightarrow> key x = key y \<Longrightarrow> x = y"
  by (induction xs) (auto simp: image_iff)

lemma map_of_filter_key: "P k \<Longrightarrow> map_of (filter (\<lambda>x. P (fst x)) m) k = map_of m k"
  by (induction m) auto

lemma not_version_in:
  assumes "schema_ok db" and "v \<in> version_ids j db" and "j \<noteq> i"
  shows "\<not> version_in db i v"
proof
  assume "version_in db i v"
  then obtain x where x: "x \<in> set (edb_versions db)" "env_VersionID x = v" "env_VersionEnvironmentID x = i" by (auto simp: version_in_def list_ex_iff)
  obtain y where y: "y \<in> set (edb_versions db)" "env_VersionID y = v" "env_VersionEnvironmentID y = j" using assms(2) by (auto simp: version_ids_def)
  have "x = y" using unique_same [OF schema_unique(3) [OF assms(1)] x(1) y(1)] x y by simp
  then show False using x y assms(3) by simp
qed

lemma not_in_other:
  assumes ok: "schema_ok db" and v: "\<not> version_in db i v"
  shows "rt \<in> set (edb_runtimes db) \<Longrightarrow> ert_EnvironmentVersionID rt = v \<Longrightarrow> \<not> runtime_in db i (ert_ID rt)"
    "resource_of_version db v r \<Longrightarrow> \<not> resource_in db i r"
    "sb \<in> set (edb_storage_bindings db) \<Longrightarrow> sbw_VersionID sb = v \<Longrightarrow> \<not> storage_in db i (sbw_StorageID sb) \<and> \<not> runtime_in db i (sbw_RuntimeID sb)"
proof -
  have rt: "\<not> runtime_in db i (ert_ID rt)" if r: "rt \<in> set (edb_runtimes db)" "ert_EnvironmentVersionID rt = v" for rt
  proof
    assume "runtime_in db i (ert_ID rt)"
    then obtain x where x: "x \<in> set (edb_runtimes db)" "ert_ID x = ert_ID rt" "version_in db i (ert_EnvironmentVersionID x)" by (auto simp: runtime_in_def list_ex_iff)
    have "x = rt" by (rule unique_same [OF schema_unique(4) [OF ok] x(1) r(1) x(2)])
    then show False using x(3) r(2) v by simp
  qed
  have st: "\<not> storage_in db i (sto_ID s)" if r: "s \<in> set (edb_storages db)" "sto_EnvironmentVersionID s = v" for s
  proof
    assume "storage_in db i (sto_ID s)"
    then obtain x where x: "x \<in> set (edb_storages db)" "sto_ID x = sto_ID s" "version_in db i (sto_EnvironmentVersionID x)" by (auto simp: storage_in_def list_ex_iff)
    have "x = s" by (rule unique_same [OF schema_unique(7) [OF ok] x(1) r(1) x(2)])
    then show False using x(3) r(2) v by simp
  qed
  show "rt \<in> set (edb_runtimes db) \<Longrightarrow> ert_EnvironmentVersionID rt = v \<Longrightarrow> \<not> runtime_in db i (ert_ID rt)" by (rule rt)
  show "resource_of_version db v r \<Longrightarrow> \<not> resource_in db i r"
  proof
    assume "resource_of_version db v r" and "resource_in db i r"
    then obtain x y where x: "x \<in> set (edb_resources db)" "res_ID x = r" "res_EnvironmentVersionID x = v"
      and y: "y \<in> set (edb_resources db)" "res_ID y = r" "version_in db i (res_EnvironmentVersionID y)"
      by (auto simp: resource_of_version_def resource_in_def list_ex_iff)
    have "x = y" using unique_same [OF schema_unique(6) [OF ok] x(1) y(1)] x(2) y(2) by simp
    then show False using x(3) y(3) v by simp
  qed
  show "sb \<in> set (edb_storage_bindings db) \<Longrightarrow> sbw_VersionID sb = v \<Longrightarrow> \<not> storage_in db i (sbw_StorageID sb) \<and> \<not> runtime_in db i (sbw_RuntimeID sb)"
    using schema_refers(10,11) [OF ok, of sb] rt st by auto
qed


lemma filter_filter_eq: "(\<And>x. x \<in> set xs \<Longrightarrow> P x \<Longrightarrow> Q x) \<Longrightarrow> filter P (filter Q xs) = filter P xs"
  by (induction xs) auto

lemma cleared_rows: "j \<noteq> i \<Longrightarrow> view_rows j (cleared i db) = view_rows j db"
  by (auto simp: view_rows_def cleared_def intro!: filter_filter_eq simp del: filter_filter)

lemma cleared_checks:
  assumes ok: "schema_ok db" and c: "c \<in> connection_ids j db" and "j \<noteq> i"
  shows "view_checks c (cleared i db) = view_checks c db"
proof -
  obtain x where x: "x \<in> set (edb_connections db)" "con_ID x = c" "con_EnvironmentID x = j" using c by (auto simp: connection_ids_def)
  have "con_EnvironmentID y \<noteq> i" if y: "y \<in> set (edb_connections db)" "con_ID y = c" for y
    using unique_same [OF schema_unique(2) [OF ok] y(1) x(1)] y x assms(3) by simp
  then have "\<not> list_ex (\<lambda>y. con_ID y = c \<and> con_EnvironmentID y = i) (edb_connections db)" by (auto simp: list_ex_iff)
  then show ?thesis by (auto simp: view_checks_def cleared_def intro!: filter_filter_eq simp del: filter_filter)
qed

lemma cleared_runtimes:
  assumes ok: "schema_ok db" and v: "\<not> version_in db i v"
  shows "view_runtimes v (cleared i db) = view_runtimes v db"
proof -
  have r: "filter (\<lambda>r. ert_EnvironmentVersionID r = v) (edb_runtimes (cleared i db)) = filter (\<lambda>r. ert_EnvironmentVersionID r = v) (edb_runtimes db)"
    using v by (auto simp: cleared_def intro!: filter_filter_eq simp del: filter_filter)
  have "map_of (edb_capabilities (cleared i db)) (ert_ID r) = map_of (edb_capabilities db) (ert_ID r)"
    if "r \<in> set (filter (\<lambda>r. ert_EnvironmentVersionID r = v) (edb_runtimes db))" for r
    using not_in_other(1) [OF ok v, of r] that map_of_filter_key [of "\<lambda>k. \<not> runtime_in db i k" "ert_ID r" "edb_capabilities db"] by (simp add: cleared_def)
  then show ?thesis by (simp add: view_runtimes_def r)
qed

lemma cleared_version:
  assumes ok: "schema_ok db" and v: "\<not> version_in db i v" and s: "separate i db"
  shows "view_version v (cleared i db) = view_version v db"
proof -
  have r: "resource_of_version (cleared i db) v = resource_of_version db v"
    using v by (auto simp: resource_of_version_def cleared_def list_ex_iff fun_eq_iff)
  have "filter (\<lambda>b. resource_of_version db v (bind_ResourceID b)) (edb_bindings (cleared i db)) = filter (\<lambda>b. resource_of_version db v (bind_ResourceID b)) (edb_bindings db)"
    using not_in_other(2) [OF ok v] s by (auto simp: cleared_def separate_def intro!: filter_filter_eq simp del: filter_filter)
  moreover have "filter (\<lambda>r. rel_EnvironmentVersionID r = v) (edb_relations (cleared i db)) = filter (\<lambda>r. rel_EnvironmentVersionID r = v) (edb_relations db)"
    using v s by (auto simp: cleared_def separate_def intro!: filter_filter_eq simp del: filter_filter)
  moreover have "filter (\<lambda>p. resource_of_version db v (prof_ResourceID p)) (edb_profiles (cleared i db)) = filter (\<lambda>p. resource_of_version db v (prof_ResourceID p)) (edb_profiles db)"
    using not_in_other(2) [OF ok v] by (auto simp: cleared_def intro!: filter_filter_eq simp del: filter_filter)
  moreover have "filter (\<lambda>r. res_EnvironmentVersionID r = v) (edb_resources (cleared i db)) = filter (\<lambda>r. res_EnvironmentVersionID r = v) (edb_resources db)"
    using v by (auto simp: cleared_def intro!: filter_filter_eq simp del: filter_filter)
  ultimately show ?thesis by (simp add: view_version_def r)
qed

text \<open>The rows of the join that \<^verbatim>\<open>ListRuntimeStorages\<close> reads.\<close>

definition binding_rows :: "string \<Rightarrow> string \<Rightarrow> EnvironmentDB \<Rightarrow> StorageResource \<Rightarrow> StorageBindingRow list" where
  "binding_rows v rt db s = filter (\<lambda>b. sbw_StorageID b = sto_ID s \<and> sbw_VersionID b = v \<and> sbw_RuntimeID b = rt) (edb_storage_bindings db)"

lemma runtime_storages_rows: "runtime_storages v rt db = sort_key (\<lambda>(s, b). \<not> sbw_Default b) (sort_key (\<lambda>(s, b). sto_Name s)
  (concat (map (\<lambda>s. map (Pair s) (binding_rows v rt db s)) (edb_storages db))))"
  by (simp add: runtime_storages_def binding_rows_def)

lemma binding_rows_version:
  assumes ok: "schema_ok db" and "s \<in> set (edb_storages db)" and "binding_rows v rt db s \<noteq> []"
  shows "sto_EnvironmentVersionID s = v"
proof -
  obtain b where b: "b \<in> set (edb_storage_bindings db)" "sbw_StorageID b = sto_ID s" "sbw_VersionID b = v"
    using assms(3) by (auto simp: binding_rows_def filter_empty_conv)
  then obtain x where x: "x \<in> set (edb_storages db)" "sto_ID x = sto_ID s" "sto_EnvironmentVersionID x = v" using schema_refers(10) [OF ok b(1)] by auto
  have "x = s" by (rule unique_same [OF schema_unique(7) [OF ok] x(1) assms(2) x(2)])
  then show ?thesis using x(3) by simp
qed

lemma concat_map_filter: "(\<And>x. x \<in> set xs \<Longrightarrow> \<not> P x \<Longrightarrow> f x = []) \<Longrightarrow> concat (map f (filter P xs)) = concat (map f xs)"
  by (induction xs) auto

lemma cleared_storages:
  assumes ok: "schema_ok db" and v: "\<not> version_in db i v"
  shows "runtime_storages v rt (cleared i db) = runtime_storages v rt db"
proof -
  have b: "binding_rows v rt (cleared i db) s = binding_rows v rt db s" for s
    using not_in_other(3) [OF ok] v by (auto simp: binding_rows_def cleared_def intro!: filter_filter_eq simp del: filter_filter)
  have "concat (map (\<lambda>s. map (Pair s) (binding_rows v rt db s)) (filter (\<lambda>x. \<not> version_in db i (sto_EnvironmentVersionID x)) (edb_storages db))) =
      concat (map (\<lambda>s. map (Pair s) (binding_rows v rt db s)) (edb_storages db))"
    using binding_rows_version [OF ok] v by (intro concat_map_filter) fastforce
  then show ?thesis by (simp add: runtime_storages_rows b) (simp add: cleared_def)
qed

lemma cleared_same_view: "schema_ok db \<Longrightarrow> separate i db \<Longrightarrow> j \<noteq> i \<Longrightarrow> same_view j db (cleared i db)"
  by (simp add: same_view_def cleared_rows cleared_checks cleared_runtimes cleared_version cleared_storages not_version_in)


section \<open>Insertion keeps the others\<close>

definition self_contained :: "EnvironmentDefinition \<Rightarrow> bool" where
  "self_contained d \<longleftrightarrow> bind_ResourceID ` set (def_RuntimeBindings d) \<union> prof_ResourceID ` set (def_Profiles d) \<subseteq> res_ID ` set (def_Resources d)"

lemma filter_append_none: "(\<And>y. y \<in> set ys \<Longrightarrow> \<not> P y) \<Longrightarrow> filter P (xs @ ys) = filter P xs"
  by (auto simp: filter_empty_conv)

lemma added_rows_kept: "added i d ivt db db' \<Longrightarrow> j \<noteq> i \<Longrightarrow> view_rows j db' = view_rows j db"
proof -
  assume a: "added i d ivt db db'" and j: "j \<noteq> i"
  have "filter (\<lambda>c. con_EnvironmentID c = j) (edb_connections db @ inv_connections ivt) = filter (\<lambda>c. con_EnvironmentID c = j) (edb_connections db)"
    using added_new(1) [OF a] j by (intro filter_append_none) auto
  then show ?thesis using added_new(2) [OF a] j by (simp add: view_rows_def added_tables [OF a])
qed

lemma added_runtimes_kept:
  assumes a: "added i d ivt db db'" and v: "v \<noteq> env_VersionID (def_Version d)"
  shows "view_runtimes v db' = view_runtimes v db"
proof -
  have r: "filter (\<lambda>r. ert_EnvironmentVersionID r = v) (edb_runtimes db') = filter (\<lambda>r. ert_EnvironmentVersionID r = v) (edb_runtimes db)"
    unfolding added_tables [OF a] using added_new(4) [OF a] v by (intro filter_append_none) auto
  have "map_of (edb_capabilities db') (ert_ID r) = map_of (edb_capabilities db) (ert_ID r)" if "r \<in> set (edb_runtimes db)" for r
  proof -
    have "distinct (map ert_ID (edb_runtimes db @ map fst (inv_runtimes ivt)))" using schema_unique(4) [OF added_ok(2) [OF a]] by (simp add: added_tables [OF a])
    then have "ert_ID r \<notin> ert_ID ` fst ` set (inv_runtimes ivt)" using that by auto
    then have "map_of (map (\<lambda>(r, c). (ert_ID r, c)) (inv_runtimes ivt)) (ert_ID r) = None" by (force simp: map_of_eq_None_iff)
    then show ?thesis by (simp add: added_tables [OF a] map_add_def split: option.split)
  qed
  then show ?thesis by (simp add: view_runtimes_def r)
qed

lemma added_version_kept:
  assumes a: "added i d ivt db db'" and v: "v \<noteq> env_VersionID (def_Version d)" and s: "self_contained d"
  shows "view_version v db' = view_version v db"
proof -
  have r: "resource_of_version db' v = resource_of_version db v"
    using added_new(5) [OF a] v by (auto simp: resource_of_version_def list_ex_iff added_tables [OF a] fun_eq_iff)
  have n: "\<not> resource_of_version db v x" if "x \<in> res_ID ` set (def_Resources d)" for x
  proof -
    have "x \<in> res_ID ` set (inv_resources ivt)" using that by (simp add: added_rows_eq(1) [OF a refl] image_image)
    then have "x \<notin> res_ID ` set (edb_resources db)" using added_resource_of_version(2) [OF a] by blast
    then show ?thesis by (auto simp: resource_of_version_def list_ex_iff)
  qed
  have "filter (\<lambda>b. resource_of_version db v (bind_ResourceID b)) (edb_bindings db') = filter (\<lambda>b. resource_of_version db v (bind_ResourceID b)) (edb_bindings db)"
    unfolding added_tables [OF a] using n s by (intro filter_append_none) (auto simp: added_rows_eq(2) [OF a refl] self_contained_def)
  moreover have "filter (\<lambda>p. resource_of_version db v (prof_ResourceID p)) (edb_profiles db') = filter (\<lambda>p. resource_of_version db v (prof_ResourceID p)) (edb_profiles db)"
    unfolding added_tables [OF a] using n s by (intro filter_append_none) (auto simp: added_rows_eq(4) [OF a refl] self_contained_def)
  moreover have "filter (\<lambda>r. rel_EnvironmentVersionID r = v) (edb_relations db') = filter (\<lambda>r. rel_EnvironmentVersionID r = v) (edb_relations db)"
    unfolding added_tables [OF a] using added_new(6) [OF a] v by (intro filter_append_none) auto
  moreover have "filter (\<lambda>r. res_EnvironmentVersionID r = v) (edb_resources db') = filter (\<lambda>r. res_EnvironmentVersionID r = v) (edb_resources db)"
    unfolding added_tables [OF a] using added_new(5) [OF a] v by (intro filter_append_none) auto
  ultimately show ?thesis by (simp add: view_version_def r)
qed

lemma added_storages_kept:
  assumes a: "added i d ivt db db'" and v: "v \<noteq> env_VersionID (def_Version d)"
  shows "runtime_storages v rt db' = runtime_storages v rt db"
proof -
  have b: "binding_rows v rt db' s = binding_rows v rt db s" for s
    unfolding binding_rows_def added_tables [OF a] using added_storage_rows(3) [OF a] v by (intro filter_append_none) fastforce
  have "binding_rows v rt db s = []" if "s \<in> set (map fst (inv_storages ivt))" for s
  proof (rule ccontr)
    assume "binding_rows v rt db s \<noteq> []"
    then obtain k where k: "k \<in> set (edb_storage_bindings db)" "sbw_StorageID k = sto_ID s" by (auto simp: binding_rows_def filter_empty_conv)
    then have "sto_ID s \<in> sto_ID ` set (edb_storages db)" using schema_refers(10) [OF added_ok(1) [OF a] k(1)] by auto
    moreover have "distinct (map sto_ID (edb_storages db @ map fst (inv_storages ivt)))" using schema_unique(7) [OF added_ok(2) [OF a]] by (simp add: added_tables [OF a])
    ultimately show False using that by auto
  qed
  then have "concat (map (\<lambda>s. map (Pair s) (binding_rows v rt db s)) (map fst (inv_storages ivt))) = []" by simp
  then show ?thesis unfolding runtime_storages_rows b added_tables [OF a] map_append concat_append by (simp only: append_Nil2)
qed

lemma added_same_view:
  assumes a: "added i d ivt db db'" and "self_contained d" and "j \<noteq> i"
  shows "same_view j db db'"
proof -
  have "v \<noteq> env_VersionID (def_Version d)" if "v \<in> version_ids j db" for v using added_fresh(1) [OF a] that by (auto simp: version_ids_def)
  then show ?thesis using assms(2,3)
    by (simp add: same_view_def added_rows_kept [OF a] added_runtimes_kept [OF a] added_version_kept [OF a] added_storages_kept [OF a])
      (simp add: view_checks_def added_tables [OF a])
qed


section \<open>The operations\<close>

lemma same_view_environments:
  assumes "filter (\<lambda>x. env_ID x = j) es = filter (\<lambda>x. env_ID x = j) (edb_environments db)"
  shows "same_view j db (db\<lparr>edb_environments := es\<rparr>)"
  using assms by (simp add: same_view_def view_rows_def view_checks_def view_runtimes_def view_version_def resource_of_version_def runtime_storages_def)

lemma filter_map_other: "(\<And>x. P (f x) = P x) \<Longrightarrow> (\<And>x. P x \<Longrightarrow> f x = x) \<Longrightarrow> filter P (map f xs) = filter P xs"
  by (induction xs) auto

lemma create_same_view:
  assumes "environment_Create env d db = (None, db')" and "schema_ok db" and "self_contained d" and "j \<noteq> env_ID (def_Environment d)"
  shows "same_view j db db'"
proof -
  from create_added [OF assms(1,2) refl] obtain ivt e db1 where a: "added (env_ID (def_Environment d)) d ivt db1 db'"
    and db1: "db1 = db\<lparr>edb_environments := edb_environments db @ [e]\<rparr>"
    and "e = (def_Environment d)\<lparr>env_Status := env_Status e, env_CreatedAt := env_CreatedAt e\<rparr>" .
  then have "env_ID e = env_ID (def_Environment d)" by (metis Environment.select_convs(1) Environment.surjective Environment.update_convs(4,5))
  then have "same_view j db db1" unfolding db1 using assms(4) by (intro same_view_environments) simp
  then show ?thesis using added_same_view [OF a assms(3,4)] by (rule same_view_trans)
qed

lemma replace_same_view:
  assumes "environment_Replace env d db = (None, db')" and "schema_ok db" and "self_contained d" and s: "separate (env_ID (def_Environment d)) db"
    and j: "j \<noteq> env_ID (def_Environment d)"
  shows "same_view j db db'"
proof -
  let ?i = "env_ID (def_Environment d)"
  from replace_added [OF assms(1) refl] obtain ivt db1 where a: "added ?i d ivt db1 db'" and db1: "db1 = update_environment (def_Environment d) (cleared ?i db)" .
  have "same_view j (cleared ?i db) db1" unfolding db1 update_environment_def using j by (intro same_view_environments filter_map_other) auto
  from same_view_trans [OF same_view_trans [OF cleared_same_view [OF assms(2) s j] this] added_same_view [OF a assms(3) j]] show ?thesis .
qed

lemma check_dependency_Inr: "check_dependency env i (name, tables) db = Inr db' \<longleftrightarrow> db' = db \<and> ee_fault env db name = None \<and> \<not> used_by tables db i"
  by (auto simp: check_dependency_def query_def split: option.splits)

lemma delete_cleared:
  assumes "environment_Delete env i db = (None, db')"
  shows "db' = delete_environment i (cleared i db)" "schema_ok db'" "i \<in> env_ID ` set (edb_environments db)"
proof -
  have q: "chain (map (check_dependency env i) qs) db = Inr db1 \<Longrightarrow> db1 = db" for qs db1
    by (induction qs) (auto simp: check_dependency_Inr)
  obtain db1 where c: "chain (map (check_dependency env i) dependency_queries) db = Inr db1"
    and "chain (map (\<lambda>(name, f). exec_stmt env name (f i)) (inventory_deletes @ [(''delete environment'', delete_environment)])) db1 = Inr db'"
    and e: "i \<in> env_ID ` set (edb_environments db)"
    using assms by (simp add: environment_Delete_def transaction_None check_exists_Inr chain_Inr_append del: map_append) blast
  from chain_deletes [OF this(2)] q [OF c] show "db' = delete_environment i (cleared i db)" "schema_ok db'"
    by (auto simp: delete_inventory [symmetric] delete_all_def)
  show "i \<in> env_ID ` set (edb_environments db)" by (rule e)
qed

lemma delete_same_view:
  assumes "environment_Delete env i db = (None, db')" and "schema_ok db" and "separate i db" and j: "j \<noteq> i"
  shows "same_view j db db'"
proof -
  have "same_view j (cleared i db) db'" unfolding delete_cleared(1) [OF assms(1)] delete_environment_def using j
    by (intro same_view_environments) (auto intro!: filter_filter_eq simp del: filter_filter)
  then show ?thesis using cleared_same_view [OF assms(2,3) j] same_view_trans by blast
qed


lemma unique_filter_out:
  assumes "distinct (map key xs)" and "k \<in> key ` set (filter (\<lambda>x. \<not> P x) xs)"
  shows "\<not> list_ex (\<lambda>x. key x = k \<and> P x) xs"
  using assms unique_same [OF assms(1)] by (auto simp: list_ex_iff)



section \<open>Storages without a runtime\<close>

lemma stored_storage_ids:
  assumes a: "added i d ivt db db'"
  shows "map (\<lambda>x. sto_ID (fst x)) (inv_storages ivt) = map sto_ID (def_Storages d)"
  by (rule list_all2_map_eq [OF added_stored(7) [OF a]]) (auto simp: storage_stored_def storage_row_def)

lemma replace_storage_ids:
  assumes "environment_Replace env d db = (None, db')"
  shows "set (map sto_ID (edb_storages db')) = sto_ID ` {s \<in> set (edb_storages db). \<not> version_in db (env_ID (def_Environment d)) (sto_EnvironmentVersionID s)} \<union>
    sto_ID ` set (def_Storages d)"
proof -
  from replace_added [OF assms refl] obtain ivt db1 where a: "added (env_ID (def_Environment d)) d ivt db1 db'"
    and db1: "db1 = update_environment (def_Environment d) (cleared (env_ID (def_Environment d)) db)" .
  have "edb_storages db1 = filter (\<lambda>x. \<not> version_in db (env_ID (def_Environment d)) (sto_EnvironmentVersionID x)) (edb_storages db)"
    by (simp add: db1 update_environment_def cleared_def)
  moreover have "(\<lambda>x. sto_ID (fst x)) ` set (inv_storages ivt) = sto_ID ` set (def_Storages d)"
    using arg_cong [OF stored_storage_ids [OF a], of set] by simp
  ultimately show ?thesis by (simp add: added_tables [OF a] image_Un)
qed

text \<open>
  A storage that is not bound to a runtime is stored but never read: \<^verbatim>\<open>Create\<close> inserts it, \<^verbatim>\<open>Find\<close> leaves it out, and replacing the
  environment by the definition that was read, as an edit without changes does, deletes it.
\<close>

theorem unbound_storage_lost:
  assumes "schema_ok db" and "env_VersionID (def_Version d) \<noteq> ''''" and "environment_Create env d db = (None, db')" and "nofault env' db'"
    and "s \<in> set (def_Storages d)" and "sto_RuntimeBindings s = []"
  shows "sto_ID s \<in> sto_ID ` set (edb_storages db') \<and>
    (\<exists>found. environment_Find env' (env_ID (def_Environment d)) db' = Inr (Some found) \<and> sto_ID s \<notin> sto_ID ` set (def_Storages found) \<and>
      (\<forall>env'' db''. environment_Replace env'' found db' = (None, db'') \<longrightarrow> sto_ID s \<notin> sto_ID ` set (edb_storages db'')))"
proof -
  let ?i = "env_ID (def_Environment d)" and ?v = "env_VersionID (def_Version d)"
  from create_added [OF assms(3,1) refl] obtain ivt e db1 where a: "added ?i d ivt db1 db'" .
  have u: "distinct (map sto_ID (def_Storages d))"
    using schema_unique(7) [OF added_ok(2) [OF a]] stored_storage_ids [OF a] by (simp add: added_tables [OF a] comp_def del: map_eq_conv)
  from create_find [OF assms(1,2,4,3)] obtain found where f: "environment_Find env' ?i db' = Inr (Some found)"
    and same: "same_definition found (stored_definition (defaulted d))" by blast
  have "sto_ID ` set (def_Storages found) = sto_ID ` set (def_Storages (stored_definition (defaulted d)))"
    using same by (metis same_definition_def set_mset_mset)
  also have "\<dots> = sto_ID ` set (filter (\<lambda>s. sto_RuntimeBindings s \<noteq> []) (def_Storages d))"
    by (simp add: stored_definition_def defaulted_def Let_def storage_row_def image_image)
  finally have ids: "sto_ID ` set (def_Storages found) = sto_ID ` {s \<in> set (def_Storages d). sto_RuntimeBindings s \<noteq> []}" by simp
  have n: "sto_ID s \<notin> sto_ID ` set (def_Storages found)"
  proof
    assume "sto_ID s \<in> sto_ID ` set (def_Storages found)"
    then obtain x where x: "x \<in> set (def_Storages d)" "sto_RuntimeBindings x \<noteq> []" "sto_ID x = sto_ID s" unfolding ids by auto
    have "x = s" by (rule unique_same [OF u x(1) assms(5) x(3)])
    then show False using x(2) assms(6) by simp
  qed
  have "sto_ID s \<in> set (map (\<lambda>x. sto_ID (fst x)) (inv_storages ivt))" unfolding stored_storage_ids [OF a] using assms(5) by simp
  then obtain p where p: "p \<in> set (inv_storages ivt)" "sto_ID (fst p) = sto_ID s" by auto
  then have row: "fst p \<in> set (edb_storages db')" by (simp add: added_tables [OF a])
  have "env_ID (def_Environment found) = ?i"
    using same by (auto simp: same_definition_def timeless_def stored_definition_def defaulted_def Let_def split: if_splits dest!: arg_cong [where f = "\<lambda>d. env_ID (def_Environment d)"])
  moreover have "version_in db' ?i (sto_EnvironmentVersionID x)" if x: "x \<in> set (edb_storages db')" "sto_ID x = sto_ID s" for x
  proof -
    have "x = fst p" using unique_same [OF schema_unique(7) [OF added_ok(2) [OF a]] x(1) row] x(2) p(2) by simp
    moreover have "sto_EnvironmentVersionID (fst p) = ?v"
      by (rule list_all2_all [OF added_stored(7) [OF a] _ p(1)]) (auto simp: storage_stored_def storage_row_def)
    ultimately show ?thesis using added_new(2,3) [OF a] by (auto simp: version_in_def added_tables [OF a])
  qed
  ultimately have "sto_ID s \<notin> sto_ID ` set (edb_storages db'')" if "environment_Replace env'' found db' = (None, db'')" for env'' db''
    using replace_storage_ids [OF that] n by auto
  then show ?thesis using f n row p(2) by (metis imageI)
qed


section \<open>The history of checks\<close>

lemma filter_take_unique: "distinct (map key xs) \<Longrightarrow> filter (\<lambda>x. key x \<in> key ` set (take n xs)) xs = take n xs"
proof (induction xs arbitrary: n)
  case (Cons x xs)
  show ?case
  proof (cases n)
    case (Suc k)
    have "filter (\<lambda>y. key y = key x \<or> key y \<in> key ` set (take k xs)) xs = filter (\<lambda>y. key y \<in> key ` set (take k xs)) xs"
      using Cons.prems by (intro filter_cong) (auto simp: image_iff)
    then show ?thesis using Cons Suc by simp
  qed simp
qed simp

lemma sort_key_newest: "\<forall>x \<in> set xs. f r < f x \<Longrightarrow> sort_key f (xs @ [r]) = r # sort_key f xs" for f :: "'a \<Rightarrow> int"
  by (induction xs) auto

lemma saved_check:
  assumes "environment_SaveConnectionCheck env c db = (None, db')"
  obtains row where "json_metadata (chk_Metadata c) = Some (chk_Metadata row)" "row = c\<lparr>chk_Metadata := chk_Metadata row\<rparr>"
    "schema_ok (db\<lparr>edb_checks := edb_checks db @ [row]\<rparr>)" "db' = trim_checks (chk_ConnectionID c) (db\<lparr>edb_checks := edb_checks db @ [row]\<rparr>)" "schema_ok db'"
proof -
  obtain m where "json_metadata (chk_Metadata c) = Some m" "schema_ok (db\<lparr>edb_checks := edb_checks db @ [c\<lparr>chk_Metadata := m\<rparr>]\<rparr>)"
    "db' = trim_checks (chk_ConnectionID c) (db\<lparr>edb_checks := edb_checks db @ [c\<lparr>chk_Metadata := m\<rparr>]\<rparr>)" "schema_ok db'"
    using assms by (auto simp: environment_SaveConnectionCheck_def transaction_None with_json_Inr exec_stmt_Inr)
  then show ?thesis by (intro that [of "c\<lparr>chk_Metadata := m\<rparr>"]) simp_all
qed

lemma newest_trim:
  assumes "schema_ok db"
  shows "newest_checks k (trim_checks k db) = take 1000 (newest_checks k db)" "k' \<noteq> k \<Longrightarrow> view_checks k' (trim_checks k db) = view_checks k' db"
proof -
  let ?f = "\<lambda>c. - chk_CheckedAt c" and ?L = "newest_checks k db"
  let ?S = "chk_ID ` set (take 1000 ?L)"
  have "distinct (map chk_ID (edb_checks db))" by (rule schema_unique(9) [OF assms])
  then have "distinct (map chk_ID (filter (\<lambda>c. chk_ConnectionID c = k) (edb_checks db)))" by (rule distinct_map_filter)
  then have u: "distinct (map chk_ID ?L)" by (simp add: newest_checks_def distinct_map)
  have "filter (\<lambda>c. chk_ConnectionID c = k) (edb_checks (trim_checks k db)) =
      filter (\<lambda>c. chk_ID c \<in> ?S) (filter (\<lambda>c. chk_ConnectionID c = k) (edb_checks db))"
    by (auto simp: trim_checks_def intro!: filter_cong)
  then have "newest_checks k (trim_checks k db) = filter (\<lambda>c. chk_ID c \<in> ?S) ?L" by (simp add: newest_checks_def filter_sort del: filter_filter)
  then show "newest_checks k (trim_checks k db) = take 1000 ?L" using filter_take_unique [OF u] by simp
  show "k' \<noteq> k \<Longrightarrow> view_checks k' (trim_checks k db) = view_checks k' db" by (auto simp: view_checks_def trim_checks_def intro!: filter_cong)
qed

text \<open>
  The history of a connection is its thousand newest checks: a successful \<^verbatim>\<open>SaveConnectionCheck\<close> adds the check, drops the
  oldest beyond a thousand and touches no other connection, and a check newer than the others is the first that
  \<^verbatim>\<open>ListConnectionChecks\<close> returns.
\<close>

theorem check_history:
  assumes "environment_SaveConnectionCheck env c db = (None, db')"
  shows "\<exists>row. json_metadata (chk_Metadata c) = Some (chk_Metadata row) \<and> row = c\<lparr>chk_Metadata := chk_Metadata row\<rparr> \<and>
    newest_checks (chk_ConnectionID c) db' = take 1000 (sort_key (\<lambda>x. - chk_CheckedAt x) (view_checks (chk_ConnectionID c) db @ [row])) \<and>
    length (view_checks (chk_ConnectionID c) db') \<le> 1000 \<and> (\<forall>k. k \<noteq> chk_ConnectionID c \<longrightarrow> view_checks k db' = view_checks k db) \<and>
    ((\<forall>x \<in> set (view_checks (chk_ConnectionID c) db). chk_CheckedAt x < chk_CheckedAt c) \<longrightarrow>
      (\<forall>env' limit. nofault env' db' \<longrightarrow> (\<exists>rest. environment_ListConnectionChecks env' (chk_ConnectionID c) limit db' = Inr (row # rest))))"
proof -
  let ?k = "chk_ConnectionID c"
  from saved_check [OF assms] obtain row where row: "json_metadata (chk_Metadata c) = Some (chk_Metadata row)" "row = c\<lparr>chk_Metadata := chk_Metadata row\<rparr>"
    and ok: "schema_ok (db\<lparr>edb_checks := edb_checks db @ [row]\<rparr>)" and db': "db' = trim_checks ?k (db\<lparr>edb_checks := edb_checks db @ [row]\<rparr>)" .
  have r: "chk_ConnectionID row = ?k" "chk_CheckedAt row = chk_CheckedAt c" by (subst row(2), simp)+
  have n: "newest_checks ?k db' = take 1000 (sort_key (\<lambda>x. - chk_CheckedAt x) (view_checks ?k db @ [row]))"
    using newest_trim(1) [OF ok, of ?k] by (simp add: db' newest_checks_def view_checks_def r(1))
  have "length (view_checks ?k db') = length (newest_checks ?k db')" by (simp add: view_checks_def newest_checks_def)
  then have l: "length (view_checks ?k db') \<le> 1000" by (simp add: n)
  have o: "view_checks k db' = view_checks k db" if "k \<noteq> ?k" for k
    using newest_trim(2) [OF ok that] that r(1) by (simp add: db' view_checks_def)
  have "\<exists>rest. environment_ListConnectionChecks env' ?k limit db' = Inr (row # rest)"
    if "\<forall>x \<in> set (view_checks ?k db). chk_CheckedAt x < chk_CheckedAt c" and "nofault env' db'" for env' limit
    using that sort_key_newest [of "view_checks ?k db" "\<lambda>x. - chk_CheckedAt x" row]
    by (simp add: environment_ListConnectionChecks_def query_nofault n r(2) take_Cons' min_def)
  then show ?thesis using row n l o by blast
qed


section \<open>Concrete operations\<close>

lemma demo_edb1_ok: "schema_ok demo_edb1"
  by (rule create_added [OF demo_create demo_edb_ok refl]) (rule added_ok(2))



theorem unbound_storage_lost_witness:
  "''au'' \<in> sto_ID ` set (edb_storages demo_edb1) \<and>
   (\<exists>found. environment_Find demo_eenv ''a'' demo_edb1 = Inr (Some found) \<and> ''au'' \<notin> sto_ID ` set (def_Storages found))"
proof -
  have d: "env_VersionID (def_Version (demo_environment ''a'')) \<noteq> ''''" "env_ID (def_Environment (demo_environment ''a'')) = ''a''"
    "demo_estorage ''au'' [] \<in> set (def_Storages (demo_environment ''a''))" "sto_RuntimeBindings (demo_estorage ''au'' []) = []" "sto_ID (demo_estorage ''au'' []) = ''au''"
    by (simp_all add: demo_environment_def zero_version_def demo_estorage_def storage_row_def)
  show ?thesis using unbound_storage_lost [OF demo_edb_ok d(1) demo_create demo_nofault d(3,4)] unfolding d(2,5) by blast
qed

definition demo_check :: ConnectionCheck where
  "demo_check = \<lparr>chk_ID = ''k'', chk_ConnectionID = ''a'', chk_Status = ConnectionOnline, chk_Message = [], chk_LatencyMS = fzero, chk_CheckedAt = 9, chk_Metadata = []\<rparr>"

theorem check_history_witness:
  "length (view_checks ''a'' (snd (environment_SaveConnectionCheck demo_eenv demo_check demo_edb1))) \<le> 1000 \<and>
   (\<exists>rest. environment_ListConnectionChecks demo_eenv ''a'' 5 (snd (environment_SaveConnectionCheck demo_eenv demo_check demo_edb1)) = Inr (demo_check # rest))"
proof -
  have "fst (environment_SaveConnectionCheck demo_eenv demo_check demo_edb1) = None" by code_simp
  then have s: "environment_SaveConnectionCheck demo_eenv demo_check demo_edb1 = (None, snd (environment_SaveConnectionCheck demo_eenv demo_check demo_edb1))"
    by (metis prod.collapse)
  have d: "chk_ConnectionID demo_check = ''a''" "json_metadata (chk_Metadata demo_check) = Some []" by (simp_all add: demo_check_def json_metadata_def)
  have "view_checks ''a'' demo_edb1 = []" by code_simp
  then obtain row where row: "json_metadata (chk_Metadata demo_check) = Some (chk_Metadata row)" "row = demo_check\<lparr>chk_Metadata := chk_Metadata row\<rparr>"
    and "length (view_checks ''a'' (snd (environment_SaveConnectionCheck demo_eenv demo_check demo_edb1))) \<le> 1000"
    "\<forall>limit. \<exists>rest. environment_ListConnectionChecks demo_eenv ''a'' limit (snd (environment_SaveConnectionCheck demo_eenv demo_check demo_edb1)) = Inr (row # rest)"
    using check_history [OF s] unfolding d(1) by auto
  moreover have "row = demo_check" using row d(2) by (simp add: demo_check_def)
  ultimately show ?thesis by blast
qed

end
