(* ===== verification/Monitor_Properties.thy ===== *)
theory Monitor_Properties
  imports Connection_Monitor Environment_Frames
begin

text \<open>
  The schedule of the connection monitor: the contract of the store, the probers and the clock as a locale, its
  interpretation on the environment repository, and that a connection is not checked before its next check is due.
\<close>

section \<open>What the monitor relies on\<close>

text \<open>A step keeps the checks of a connection and does not turn the clock back.\<close>

definition keeps :: "'w ConnectionMonitor \<Rightarrow> (string \<Rightarrow> 'w \<Rightarrow> ConnectionCheck list) \<Rightarrow> string \<Rightarrow> 'w \<Rightarrow> 'w \<Rightarrow> bool" where
  "keeps m checks k w w' \<longleftrightarrow> checks k w' = checks k w \<and> cmo_now m w \<le> cmo_now m w'"

lemma keeps_refl [simp]: "keeps m checks k w w"
  by (simp add: keeps_def)

lemma keeps_trans: "keeps m checks k a b \<Longrightarrow> keeps m checks k b c \<Longrightarrow> keeps m checks k a c"
  by (simp add: keeps_def)

text \<open>A check of a connection that was found, as the sequence of its effects.\<close>

definition probed :: "'w ConnectionMonitor \<Rightarrow> EnvironmentConnection \<Rightarrow> 'w \<Rightarrow> ConnectionHealth \<times> 'w" where
  "probed m c w = (case map_of (cmo_probers m) (con_Type c) of
     None \<Rightarrow> (\<lparr>hlt_Healthy = False, hlt_Message = ''no connection prober is configured''\<rparr>, w) | Some probe \<Rightarrow> probe c w)"

lemma monitor_Check_found:
  assumes "cmo_FindConnection m i w = (Inr (Some c), w1)" and "probed m c w1 = (health, w2)"
  obtains check event where "chk_ConnectionID check = con_ID c" "chk_Status check = (if hlt_Healthy health then ConnectionOnline else ConnectionOffline)"
    "chk_CheckedAt check = cmo_now m w2"
    "monitor_Check m i (schedules, w) = (case cmo_SaveConnectionCheck m check w2 of
        (Some e, w3) \<Rightarrow> (Inl e, schedules, w3)
      | (None, w3) \<Rightarrow> (case cmo_UpdateStatus m (con_EnvironmentID c) (if hlt_Healthy health then EnvironmentConnected else EnvironmentUnreachable) w3 of
          (Some e, w4) \<Rightarrow> (Inl e, schedules, w4)
        | (None, w4) \<Rightarrow> (Inr check, recordResult (con_ID c) (chk_Status check) (chk_CheckedAt check) schedules,
            (case cmo_audit m of None \<Rightarrow> w4 | Some audit \<Rightarrow> snd (audit (event w4) w4)))))"
proof -
  define latency where "latency = fdiv (f_of_int (microseconds (cmo_now m w2 - cmo_now m w1))) (Fin 1000)"
  define check where "check = \<lparr>chk_ID = ''connection-check-'' @ itoa (cmo_now m w2), chk_ConnectionID = con_ID c,
    chk_Status = (if hlt_Healthy health then ConnectionOnline else ConnectionOffline), chk_Message = hlt_Message health, chk_LatencyMS = latency,
    chk_CheckedAt = cmo_now m w2, chk_Metadata = [(''endpoint'', AnyString (con_Endpoint c)),
      (''connectionType'', AnyOther ''ConnectionType'' (connection_type_text (con_Type c)))]\<rparr>"
  define event where "event = (\<lambda>w4. zero_event\<lparr>aud_ID := cmo_newID m ''audit'' w4, aud_EventType := ''connection.health.checked'',
    aud_EnvironmentID := con_EnvironmentID c, aud_ConnectionID := con_ID c,
    aud_Outcome := (if hlt_Healthy health then OutcomeSucceeded else OutcomeFailed), aud_Summary := hlt_Message health,
    aud_Metadata := [(''latencyMs'', AnyFloat64 latency),
      (''status'', AnyOther ''ConnectionStatus'' (connection_status_text (if hlt_Healthy health then ConnectionOnline else ConnectionOffline)))],
    aud_OccurredAt := cmo_now m w2\<rparr>)"
  have "monitor_Check m i (schedules, w) = (case cmo_SaveConnectionCheck m check w2 of
        (Some e, w3) \<Rightarrow> (Inl e, schedules, w3)
      | (None, w3) \<Rightarrow> (case cmo_UpdateStatus m (con_EnvironmentID c) (if hlt_Healthy health then EnvironmentConnected else EnvironmentUnreachable) w3 of
          (Some e, w4) \<Rightarrow> (Inl e, schedules, w4)
        | (None, w4) \<Rightarrow> (Inr check, recordResult (con_ID c) (chk_Status check) (chk_CheckedAt check) schedules,
            (case cmo_audit m of None \<Rightarrow> w4 | Some audit \<Rightarrow> snd (audit (event w4) w4)))))"
    unfolding monitor_Check_def Let_def prod.case assms(1) sum.case option.case assms(2) [unfolded probed_def] check_def event_def latency_def
      ConnectionCheck.select_convs by (rule refl)
  then show ?thesis by (rule that [of check event, rotated 3]) (simp_all add: check_def)
qed

locale check_store =
  fixes m :: "'w ConnectionMonitor" and checks :: "string \<Rightarrow> 'w \<Rightarrow> ConnectionCheck list"
  assumes find_id: "fst (cmo_FindConnection m i w) = Inr (Some c) \<Longrightarrow> con_ID c = i"
    and find_keeps: "keeps m checks k w (snd (cmo_FindConnection m i w))"
    and list_keeps: "keeps m checks k w (snd (cmo_ListAllConnections m w))"
    and probe_keeps: "map_of (cmo_probers m) t = Some probe \<Longrightarrow> keeps m checks k w (snd (probe c w))"
    and save_keeps: "chk_ConnectionID check \<noteq> k \<Longrightarrow> keeps m checks k w (snd (cmo_SaveConnectionCheck m check w))"
    and save_time: "cmo_now m w \<le> cmo_now m (snd (cmo_SaveConnectionCheck m check w))"
    and update_keeps: "keeps m checks k w (snd (cmo_UpdateStatus m i status w))"
    and audit_keeps: "cmo_audit m = Some audit \<Longrightarrow> keeps m checks k w (snd (audit event w))"
begin

lemma check_step:
  assumes "monitor_Check m i (schedules, w) = (r, schedules', w')"
  shows "cmo_now m w \<le> cmo_now m w' \<and> (i \<noteq> k \<longrightarrow> checks k w' = checks k w \<and> map_of schedules' k = map_of schedules k)"
proof -
  define R where "R = (\<lambda>w w'. cmo_now m w \<le> cmo_now m w' \<and> (i \<noteq> k \<longrightarrow> checks k w' = checks k w))"
  have trans: "R a b \<Longrightarrow> R b c \<Longrightarrow> R a c" and keeps: "keeps m checks k a b \<Longrightarrow> R a b" for a b c by (auto simp: R_def keeps_def)
  obtain f w1 where f: "cmo_FindConnection m i w = (f, w1)" by (cases "cmo_FindConnection m i w")
  have k1: "R w w1" using find_keeps [of k w i] f by (simp add: keeps)
  have "R w w' \<and> (i \<noteq> k \<longrightarrow> map_of schedules' k = map_of schedules k)"
  proof (cases "\<exists>c. f = Inr (Some c)")
    case False
    then show ?thesis using assms(1) f k1 by (auto simp: monitor_Check_def split: sum.splits option.splits)
  next
    case True
    then obtain c where c: "f = Inr (Some c)" by blast
    have id: "con_ID c = i" using find_id [of i w c] f c by simp
    obtain health w2 where p: "probed m c w1 = (health, w2)" by (metis surj_pair)
    have "keeps m checks k w1 w2" using probe_keeps [of "con_Type c" _ k w1 c] p by (auto simp: probed_def split: option.splits)
    then have k2: "R w1 w2" by (rule keeps)
    obtain check event where check: "chk_ConnectionID check = con_ID c" and eq:
      "monitor_Check m i (schedules, w) = (case cmo_SaveConnectionCheck m check w2 of
          (Some e, w3) \<Rightarrow> (Inl e, schedules, w3)
        | (None, w3) \<Rightarrow> (case cmo_UpdateStatus m (con_EnvironmentID c) (if hlt_Healthy health then EnvironmentConnected else EnvironmentUnreachable) w3 of
            (Some e, w4) \<Rightarrow> (Inl e, schedules, w4)
          | (None, w4) \<Rightarrow> (Inr check, recordResult (con_ID c) (chk_Status check) (chk_CheckedAt check) schedules,
              (case cmo_audit m of None \<Rightarrow> w4 | Some audit \<Rightarrow> snd (audit (event w4) w4)))))"
      by (rule monitor_Check_found [OF f [unfolded c] p])
    obtain e3 w3 where w3: "cmo_SaveConnectionCheck m check w2 = (e3, w3)" by (metis surj_pair)
    obtain e4 w4 where w4: "cmo_UpdateStatus m (con_EnvironmentID c) (if hlt_Healthy health then EnvironmentConnected else EnvironmentUnreachable) w3 = (e4, w4)"
      by (metis surj_pair)
    have k3: "R w2 w3" using save_keeps [of check k w2] save_time [of w2 check] w3 check id by (simp add: R_def keeps_def)
    have k4: "R w3 w4" using update_keeps [of k w3] w4 by (metis keeps snd_conv)
    have "R w4 (case cmo_audit m of None \<Rightarrow> w4 | Some audit \<Rightarrow> snd (audit (event w4) w4))"
      using audit_keeps keeps by (cases "cmo_audit m") (auto simp: R_def)
    then have "R w2 w' \<and> (i \<noteq> k \<longrightarrow> map_of schedules' k = map_of schedules k)"
      using assms [unfolded eq w3] w4 k3 trans [OF k3 k4] trans [OF trans [OF k3 k4]] id
      by (auto simp: recordResult_def Let_def split: option.splits)
    then show ?thesis using trans [OF trans [OF k1 k2]] by blast
  qed
  then show ?thesis by (auto simp: R_def)
qed

lemma check_connections_time: "check_connections m ended cs (schedules, w) = (schedules', w') \<Longrightarrow> cmo_now m w \<le> cmo_now m w'"
proof (induction cs arbitrary: schedules w)
  case (Cons c cs)
  obtain r s1 w1 where c: "monitor_Check m (con_ID c) (schedules, w) = (r, s1, w1)" by (metis surj_pair)
  have "cmo_now m w \<le> cmo_now m w1" using check_step [OF c, of "[]"] by blast
  then show ?case using Cons.IH [of schedules w] Cons.IH [of s1 w1] Cons.prems c by (auto split: if_splits)
qed simp

text \<open>A connection whose next check is later than the end of a round is not checked in it.\<close>

lemma check_connections_early:
  assumes "check_connections m ended cs (schedules, w) = (schedules', w')" and "map_of schedules k = Some s" and "cmo_now m w' < csc_nextCheckAt s"
  shows "keeps m checks k w w' \<and> map_of schedules' k = Some s"
  using assms
proof (induction cs arbitrary: schedules w)
  case (Cons c cs)
  obtain r s1 w1 where c: "monitor_Check m (con_ID c) (schedules, w) = (r, s1, w1)" by (metis surj_pair)
  have t: "cmo_now m w \<le> cmo_now m w'" by (rule check_connections_time [OF Cons.prems(1)])
  show ?case
  proof (cases "ended w \<or> \<not> isDue schedules (con_ID c) (cmo_now m w)")
    case True
    then show ?thesis using Cons.prems Cons.IH [of schedules w] by (auto split: if_splits)
  next
    case False
    then have "con_ID c \<noteq> k" using Cons.prems(2,3) t by (auto simp: isDue_def)
    then have k: "keeps m checks k w w1" "map_of s1 k = Some s" using check_step [OF c, of k] Cons.prems(2) by (auto simp: keeps_def)
    then show ?thesis using False Cons.prems Cons.IH [of s1 w1] c keeps_trans [OF k(1)] by auto
  qed
qed simp

lemma check_all_early:
  assumes "monitor_CheckAll m ended (schedules, w) = (schedules', w')"
  shows "cmo_now m w \<le> cmo_now m w'"
    and "map_of schedules k = Some s \<Longrightarrow> cmo_now m w' < csc_nextCheckAt s \<Longrightarrow> keeps m checks k w w' \<and> map_of schedules' k = Some s"
proof -
  obtain r w1 where l: "cmo_ListAllConnections m w = (r, w1)" by (metis surj_pair)
  have t: "cmo_now m w \<le> cmo_now m w1" using list_keeps [of "[]" w] l by (simp add: keeps_def)
  show "cmo_now m w \<le> cmo_now m w'"
    using assms l t check_connections_time by (fastforce simp: monitor_CheckAll_def split: sum.splits)
  have k: "keeps m checks k w w1" using list_keeps [of k w] l by simp
  show "map_of schedules k = Some s \<Longrightarrow> cmo_now m w' < csc_nextCheckAt s \<Longrightarrow> keeps m checks k w w' \<and> map_of schedules' k = Some s"
    using assms l k keeps_trans [OF k] check_connections_early [of ended _ schedules w1 schedules' w' k s]
    by (auto simp: monitor_CheckAll_def split: sum.splits)
qed

lemma ticks_early:
  assumes "monitor_ticks m ended ticks (schedules, w) = (schedules', w')" and "\<forall>pass \<in> set ticks. \<forall>u. keeps m checks k u (pass u)"
  shows "cmo_now m w \<le> cmo_now m w' \<and>
    (map_of schedules k = Some s \<and> cmo_now m w' < csc_nextCheckAt s \<longrightarrow> keeps m checks k w w' \<and> map_of schedules' k = Some s)"
  using assms
proof (induction ticks arbitrary: schedules w)
  case (Cons pass ticks)
  obtain s1 w1 where c: "monitor_CheckAll m ended (schedules, pass w) = (s1, w1)" by (metis surj_pair)
  have p: "keeps m checks k w (pass w)" using Cons.prems(2) by simp
  have "monitor_ticks m ended ticks (s1, w1) = (schedules', w')" using Cons.prems(1) c by simp
  from Cons.IH [OF this] have IH: "cmo_now m w1 \<le> cmo_now m w'"
    "map_of s1 k = Some s \<Longrightarrow> cmo_now m w' < csc_nextCheckAt s \<Longrightarrow> keeps m checks k w1 w' \<and> map_of schedules' k = Some s" using Cons.prems(2) by auto
  have t: "cmo_now m w \<le> cmo_now m w'" using p check_all_early(1) [OF c] IH(1) by (simp add: keeps_def)
  have "keeps m checks k w w' \<and> map_of schedules' k = Some s" if "map_of schedules k = Some s" "cmo_now m w' < csc_nextCheckAt s"
    using check_all_early(2) [OF c that(1)] IH that keeps_trans [OF keeps_trans [OF p]] by auto
  then show ?case using t by blast
qed simp

lemma run_early:
  assumes "monitor_Run m ended ticks (schedules, w) = (schedules', w')" and "\<forall>pass \<in> set ticks. \<forall>u. keeps m checks k u (pass u)"
    and "map_of schedules k = Some s" and "cmo_now m w' < csc_nextCheckAt s"
  shows "keeps m checks k w w' \<and> map_of schedules' k = Some s"
proof -
  obtain s1 w1 where c: "monitor_CheckAll m ended (schedules, w) = (s1, w1)" by (metis surj_pair)
  then have "monitor_ticks m ended ticks (s1, w1) = (schedules', w')" using assms(1) by (simp add: monitor_Run_def)
  from ticks_early [OF this assms(2), of s] show ?thesis using check_all_early(2) [OF c assms(3)] assms(4) keeps_trans by fastforce
qed

end

section \<open>The monitor on the repository\<close>

text \<open>
  The world of a running monitor: the database, the clock and the audit log. Probing a connection gives any health that the
  outside world has and takes any time.
\<close>

record MonitorWorld =
  mwo_db :: EnvironmentDB
  mwo_clock :: int
  mwo_audit :: "AuditEvent list"

definition on_edb :: "(EnvironmentDB \<Rightarrow> 'r \<times> EnvironmentDB) \<Rightarrow> MonitorWorld \<Rightarrow> 'r \<times> MonitorWorld" where
  "on_edb f w = (case f (mwo_db w) of (r, db) \<Rightarrow> (r, w\<lparr>mwo_db := db\<rparr>))"

definition catalog_monitor ::
  "EnvironmentEnv \<Rightarrow> ConnectionType list \<Rightarrow> (EnvironmentConnection \<Rightarrow> MonitorWorld \<Rightarrow> ConnectionHealth) \<Rightarrow>
   (EnvironmentConnection \<Rightarrow> MonitorWorld \<Rightarrow> nat) \<Rightarrow> (string \<Rightarrow> MonitorWorld \<Rightarrow> string) \<Rightarrow> MonitorWorld ConnectionMonitor"
where
  "catalog_monitor env types health cost newID =
     \<lparr>cmo_FindConnection = (\<lambda>i. on_edb (\<lambda>db. (environment_FindConnection env i db, db))),
      cmo_ListAllConnections = on_edb (\<lambda>db. (environment_ListAllConnections env db, db)),
      cmo_SaveConnectionCheck = (\<lambda>c. on_edb (environment_SaveConnectionCheck env c)),
      cmo_ListConnectionChecks = (\<lambda>i limit. on_edb (\<lambda>db. (environment_ListConnectionChecks env i limit db, db))),
      cmo_UpdateStatus = (\<lambda>i status. on_edb (environment_UpdateStatus env i status)),
      cmo_probers = map (\<lambda>t. (t, \<lambda>c w. (health c w, w\<lparr>mwo_clock := mwo_clock w + int (cost c w)\<rparr>))) types,
      cmo_now = mwo_clock, cmo_audit = Some (\<lambda>event w. (None, w\<lparr>mwo_audit := mwo_audit w @ [event]\<rparr>)), cmo_newID = newID\<rparr>"

lemma save_other_checks:
  assumes "chk_ConnectionID c \<noteq> k"
  shows "view_checks k (snd (environment_SaveConnectionCheck env c db)) = view_checks k db"
proof (cases "fst (environment_SaveConnectionCheck env c db)")
  case None
  then have s: "environment_SaveConnectionCheck env c db = (None, snd (environment_SaveConnectionCheck env c db))" by (metis prod.collapse)
  from saved_check [OF s] obtain row where row: "row = c\<lparr>chk_Metadata := chk_Metadata row\<rparr>" and ok: "schema_ok (db\<lparr>edb_checks := edb_checks db @ [row]\<rparr>)"
    and db': "snd (environment_SaveConnectionCheck env c db) = trim_checks (chk_ConnectionID c) (db\<lparr>edb_checks := edb_checks db @ [row]\<rparr>)" .
  have "chk_ConnectionID row \<noteq> k" by (subst row) (simp add: assms)
  then show ?thesis unfolding db' using newest_trim(2) [OF ok, of k "chk_ConnectionID c"] assms by (simp add: view_checks_def)
next
  case (Some e)
  then show ?thesis by (simp add: environment_SaveConnectionCheck_def transaction_atomic)
qed

lemma update_status_checks: "view_checks k (snd (environment_UpdateStatus env i status db)) = view_checks k db"
  by (auto simp: environment_UpdateStatus_def exec_stmt_def view_checks_def split: option.splits sum.splits if_splits)

interpretation catalog: check_store "catalog_monitor env types health cost newID" "\<lambda>k w. view_checks k (mwo_db w)"
proof (unfold_locales, goal_cases)
  case (1 i w c)
  then have "find (\<lambda>c. con_ID c = i) (edb_connections (mwo_db w)) = Some c"
    by (auto simp: catalog_monitor_def on_edb_def environment_FindConnection_def query_def split: option.splits)
  then show ?case by (auto simp: find_Some_iff)
next
  case (4 t probe k w c)
  then have "probe = (\<lambda>c w. (health c w, w\<lparr>mwo_clock := mwo_clock w + int (cost c w)\<rparr>))"
    by (auto simp: catalog_monitor_def dest!: map_of_SomeD)
  then show ?case by (simp add: keeps_def catalog_monitor_def)
next
  case (5 check k w)
  then show ?case using save_other_checks [of check k env "mwo_db w"] by (auto simp: keeps_def catalog_monitor_def on_edb_def split: prod.splits)
next
  case (7 k w i status)
  show ?case using update_status_checks [of k env i status "mwo_db w"] by (auto simp: keeps_def catalog_monitor_def on_edb_def split: prod.splits)
qed (auto simp: keeps_def catalog_monitor_def on_edb_def split: prod.splits)

text \<open>
  C27. A stable connection is left alone: after a check that the monitor recorded, no round that ends before the interval has
  passed checks the connection again. The interval is a minute after a failure, and two, five and ten minutes after five,
  fifteen and thirty successes in a row, whatever the probes of all connections say and however long they take.
\<close>

theorem checks_spaced:
  assumes "m = catalog_monitor env types health cost newID"
    and "monitor_Check m k (schedules, w) = (Inr check, schedules1, w1)"
    and "monitor_Run m ended ticks (schedules1, w1) = (schedules2, w2)"
    and "\<forall>pass \<in> set ticks. \<forall>u. mwo_db (pass u) = mwo_db u \<and> mwo_clock u \<le> mwo_clock (pass u)"
    and "mwo_clock w2 < chk_CheckedAt check + adaptiveCheckInterval (if chk_Status check = ConnectionOnline
      then (case map_of schedules k of None \<Rightarrow> 0 | Some s \<Rightarrow> csc_consecutiveSuccesses s) + 1 else 0)"
  shows "view_checks k (mwo_db w2) = view_checks k (mwo_db w1) \<and> map_of schedules2 k = map_of schedules1 k"
proof -
  let ?n = "if chk_Status check = ConnectionOnline then (case map_of schedules k of None \<Rightarrow> 0 | Some s \<Rightarrow> csc_consecutiveSuccesses s) + 1 else 0"
  obtain f w0 where f: "cmo_FindConnection m k w = (f, w0)" by (metis surj_pair)
  then obtain c where c: "f = Inr (Some c)" using assms(2) by (auto simp: monitor_Check_def split: sum.splits option.splits)
  then have id: "con_ID c = k" using catalog.find_id f assms(1) by (metis fst_conv)
  obtain health w' where p: "probed m c w0 = (health, w')" by (metis surj_pair)
  obtain check' event where eq: "monitor_Check m k (schedules, w) = (case cmo_SaveConnectionCheck m check' w' of
        (Some e, w3) \<Rightarrow> (Inl e, schedules, w3)
      | (None, w3) \<Rightarrow> (case cmo_UpdateStatus m (con_EnvironmentID c) (if hlt_Healthy health then EnvironmentConnected else EnvironmentUnreachable) w3 of
          (Some e, w4) \<Rightarrow> (Inl e, schedules, w4)
        | (None, w4) \<Rightarrow> (Inr check', recordResult (con_ID c) (chk_Status check') (chk_CheckedAt check') schedules,
            (case cmo_audit m of None \<Rightarrow> w4 | Some audit \<Rightarrow> snd (audit (event w4) w4)))))"
    by (rule monitor_Check_found [OF f [unfolded c] p])
  have "schedules1 = recordResult k (chk_Status check) (chk_CheckedAt check) schedules"
    using assms(2) [unfolded eq] id by (auto split: prod.splits option.splits)
  then have s: "map_of schedules1 k = Some \<lparr>csc_consecutiveSuccesses = ?n, csc_nextCheckAt = chk_CheckedAt check + adaptiveCheckInterval ?n\<rparr>"
    by (auto simp: recordResult_def Let_def split: option.splits)
  have now: "cmo_now m = mwo_clock" by (simp add: assms(1) catalog_monitor_def)
  have "\<forall>pass \<in> set ticks. \<forall>u. keeps m (\<lambda>k w. view_checks k (mwo_db w)) k u (pass u)" using assms(4) by (simp add: keeps_def now)
  from catalog.run_early [OF assms(3) [unfolded assms(1)] this [unfolded assms(1)] s] show ?thesis
    using s assms(5) now by (simp add: keeps_def assms(1) [symmetric])
qed


definition demo_monitor :: "MonitorWorld ConnectionMonitor" where
  "demo_monitor = catalog_monitor demo_eenv [ConnectionLocal] (\<lambda>_ _. \<lparr>hlt_Healthy = True, hlt_Message = ''''\<rparr>) (\<lambda>_ _. 3) (\<lambda>_ _. '''')"

definition demo_world0 :: MonitorWorld where
  "demo_world0 = \<lparr>mwo_db = demo_edb1, mwo_clock = 100, mwo_audit = []\<rparr>"

definition demo_pause :: "MonitorWorld \<Rightarrow> MonitorWorld" where
  "demo_pause w = w\<lparr>mwo_clock := mwo_clock w + 30000000000\<rparr>"

theorem checks_spaced_witness:
  "\<exists>check schedules1 w1 schedules2 w2. monitor_Check demo_monitor ''a'' ([], demo_world0) = (Inr check, schedules1, w1) \<and>
     monitor_Run demo_monitor (\<lambda>_. False) [demo_pause] (schedules1, w1) = (schedules2, w2) \<and>
     view_checks ''a'' (mwo_db w2) = view_checks ''a'' (mwo_db w1)"
proof -
  let ?ticks = "[demo_pause]"
  have c: "(case monitor_Check demo_monitor ''a'' ([], demo_world0) of (Inr check, s1, w1) \<Rightarrow>
      mwo_clock (snd (monitor_Run demo_monitor (\<lambda>_. False) ?ticks (s1, w1))) < chk_CheckedAt check + minute | _ \<Rightarrow> False)"
    by code_simp
  obtain r s1 w1 where r: "monitor_Check demo_monitor ''a'' ([], demo_world0) = (r, s1, w1)" by (metis surj_pair)
  then obtain check where check: "r = Inr check" using c by (cases r) auto
  obtain s2 w2 where w2: "monitor_Run demo_monitor (\<lambda>_. False) ?ticks (s1, w1) = (s2, w2)" by (metis surj_pair)
  have t: "mwo_clock w2 < chk_CheckedAt check + minute" using c r check w2 by simp
  have iv: "adaptiveCheckInterval (if chk_Status check = ConnectionOnline then (case map_of [] ''a'' of None \<Rightarrow> 0 | Some s \<Rightarrow> csc_consecutiveSuccesses s) + 1 else 0) = minute"
    by (simp add: adaptiveCheckInterval_def)
  have "view_checks ''a'' (mwo_db w2) = view_checks ''a'' (mwo_db w1)"
    by (intro conjunct1 [OF checks_spaced [OF demo_monitor_def r [unfolded check] w2]]) (simp add: demo_pause_def, simp only: iv t)
  then show ?thesis using r check w2 by blast
qed

end
