(* ===== verification/Runtime_Registry.thy ===== *)
theory Runtime_Registry
  imports Environment_Domain Execution_Domain
begin

text \<open>
  The runtime registry, \<^verbatim>\<open>internal/provider/registry/registry.go\<close>: adapters registered under a mode and a runtime, and
  the resolver that builds adapters from the environment catalog on demand and keeps them. An adapter is a value
  of a type \<open>'a\<close> with its modes. The cache is a \<^verbatim>\<open>sync.Map\<close>, which other goroutines fill while an adapter is being built.
\<close>

section \<open>Registration\<close>

type_synonym 'a registry = "(string, 'a) gomap"

definition runtimeKey :: "ExecutionMode \<Rightarrow> string \<Rightarrow> string" where
  "runtimeKey mode runtimeID = mode_text mode @ nul # runtimeID"

definition registry_Register :: "('a \<Rightarrow> ExecutionMode list) \<Rightarrow> string \<Rightarrow> 'a option \<Rightarrow> 'a registry \<Rightarrow> error option \<times> 'a registry" where
  "registry_Register modesOf runtimeID adapter r =
     (case adapter of
        None \<Rightarrow> (Some (Errorf ''runtime id and adapter are required'' []), r)
      | Some a \<Rightarrow>
         (if runtimeID = '''' then (Some (Errorf ''runtime id and adapter are required'' []), r)
          else if modesOf a = [] then (Some (Errorf ''runtime %q does not declare execution modes'' [FmtS runtimeID]), r)
          else case filter (\<lambda>mode. map_of r (runtimeKey mode runtimeID) \<noteq> None) (modesOf a) of
            mode # _ \<Rightarrow> (Some (Errorf ''runtime %q is already registered for mode %q'' [FmtS runtimeID, FmtS (mode_text mode)]), r)
          | [] \<Rightarrow> (None, fold (\<lambda>mode m. put (runtimeKey mode runtimeID) a m) (modesOf a) r)))"

definition registry_Resolve :: "'a registry \<Rightarrow> ExecutionMode \<Rightarrow> string \<Rightarrow> error + 'a" where
  "registry_Resolve r mode runtimeID =
     (case map_of r (runtimeKey mode runtimeID) of
        Some a \<Rightarrow> Inr a
      | None \<Rightarrow>
         (case map_of r (runtimeKey mode ''*'') of
            Some a \<Rightarrow> Inr a
          | None \<Rightarrow> Inl (Errorf ''runtime %q is not registered for mode %q'' [FmtS runtimeID, FmtS (mode_text mode)])))"

section \<open>The catalog resolver\<close>

type_synonym ('a, 'w) factory = "EnvironmentRuntime \<Rightarrow> EnvironmentConnection \<Rightarrow> 'w \<Rightarrow> (error + 'a) \<times> 'w"

record ('a, 'w) CatalogResolver =
  crv_runtimes :: "'a registry"
  crv_catalog :: "('w \<Rightarrow> (error + EnvironmentDefinition list) \<times> 'w) option"
  crv_factories :: "(RuntimeDriver, ('a, 'w) factory) gomap"
  crv_configured :: "'w \<Rightarrow> (string, 'a) gomap"
  crv_store :: "string \<Rightarrow> 'a \<Rightarrow> 'w \<Rightarrow> 'w"

definition NewCatalogResolver :: "(RuntimeDriver \<times> ('a, 'w) factory) option list \<Rightarrow> (RuntimeDriver, ('a, 'w) factory) gomap" where
  "NewCatalogResolver factories = fold (\<lambda>f m. case f of None \<Rightarrow> m | Some (driver, build) \<Rightarrow> put driver build m) factories []"

text \<open>The key of the cache separates its parts by the four characters of an escaped \<^verbatim>\<open>NUL\<close>.\<close>

definition cacheKey :: "ExecutionMode \<Rightarrow> string \<Rightarrow> string" where
  "cacheKey mode runtimeID = mode_text mode @ [char_of (92::nat)] @ ''x00'' @ runtimeID"

text \<open>\<^verbatim>\<open>LoadOrStore\<close>: the value that was there first, in one step.\<close>

definition load_or_store :: "('a, 'w) CatalogResolver \<Rightarrow> string \<Rightarrow> 'a \<Rightarrow> 'w \<Rightarrow> 'a \<times> 'w" where
  "load_or_store r key a w = (case map_of (crv_configured r w) key of Some b \<Rightarrow> (b, w) | None \<Rightarrow> (a, crv_store r key a w))"

definition configure :: "('a, 'w) CatalogResolver \<Rightarrow> ('a, 'w) factory \<Rightarrow> ExecutionMode \<Rightarrow> EnvironmentRuntime \<Rightarrow> EnvironmentConnection \<Rightarrow> 'w \<Rightarrow> (error + 'a) \<times> 'w" where
  "configure r build mode runtime connection w =
     (let key = cacheKey mode (ert_ID runtime) in
      case map_of (crv_configured r w) key of
        Some cached \<Rightarrow> (Inr cached, w)
      | None \<Rightarrow>
         (case build runtime connection w of
            (Inl e, w1) \<Rightarrow> (Inl (Errorf ''configure runtime %q: %w'' [FmtS (ert_ID runtime), FmtE e]), w1)
          | (Inr a, w1) \<Rightarrow> apfst Inr (load_or_store r key a w1)))"

text \<open>The first runtime of the catalog with the identifier, with its definition.\<close>

fun find_runtime :: "string \<Rightarrow> EnvironmentDefinition list \<Rightarrow> (EnvironmentDefinition \<times> EnvironmentRuntime) option" where
  "find_runtime runtimeID [] = None"
| "find_runtime runtimeID (d # ds) =
     (case find (\<lambda>runtime. ert_ID runtime = runtimeID) (def_Runtimes d) of Some runtime \<Rightarrow> Some (d, runtime) | None \<Rightarrow> find_runtime runtimeID ds)"

definition resolver_Resolve :: "('a, 'w) CatalogResolver \<Rightarrow> ExecutionMode \<Rightarrow> string \<Rightarrow> 'w \<Rightarrow> (error + 'a) \<times> 'w" where
  "resolver_Resolve r mode runtimeID w =
     (case registry_Resolve (crv_runtimes r) mode runtimeID of
        Inr adapter \<Rightarrow> (Inr adapter, w)
      | Inl err \<Rightarrow>
     (case crv_catalog r of
        None \<Rightarrow> (Inl err, w)
      | Some listing \<Rightarrow>
     (case listing w of
        (Inl e, w1) \<Rightarrow> (Inl (Errorf ''resolve runtime %q from environment catalog: %w'' [FmtS runtimeID, FmtE e]), w1)
      | (Inr definitions, w1) \<Rightarrow>
     (case find_runtime runtimeID definitions of
        None \<Rightarrow> (Inl err, w1)
      | Some (definition, runtime) \<Rightarrow>
     (case map_of (crv_factories r) (ert_Driver runtime) of
        None \<Rightarrow> (registry_Resolve (crv_runtimes r) mode (driver_text (ert_Driver runtime)), w1)
      | Some build \<Rightarrow>
     (let connectionID = configuredConnectionID (ert_Configuration runtime) in
      if connectionID = '''' then (Inl (Errorf ''runtime %q requires configuration.connectionId'' [FmtS runtimeID]), w1)
      else case find (\<lambda>c. con_ID c = connectionID) (def_Connections definition) of
        None \<Rightarrow> (Inl (Errorf ''runtime %q references unknown connection %q'' [FmtS runtimeID, FmtS connectionID]), w1)
      | Some connection \<Rightarrow> configure r build mode runtime connection w1))))))"

end
