(* ===== verification/Registry_Properties.thy ===== *)
theory Registry_Properties
  imports Runtime_Registry Environment_Frames
begin

text \<open>
  Registration of adapters is all or nothing, and the adapter that the catalog resolver has configured for a runtime is
  the one that every later resolution returns: the contract of the cache as a locale, interpreted on a resolver over the
  environment repository.
\<close>

section \<open>Registration\<close>

lemma map_of_put_all: "map_of (fold (\<lambda>x m. put (key x) a m) xs r) k = (if k \<in> key ` set xs then Some a else map_of r k)"
  by (induction xs arbitrary: r) auto

text \<open>
  Registration is all or nothing: it succeeds exactly when the identifier and the modes are not empty and no mode is
  taken, then every mode of the adapter resolves to it and all other entries are as before; otherwise nothing changes.
\<close>

theorem register_atomic:
  assumes "registry_Register modesOf ident adapter r = (e, r')"
  shows "(e = None \<longleftrightarrow> ident \<noteq> '''' \<and> (\<exists>a. adapter = Some a \<and> modesOf a \<noteq> [] \<and> (\<forall>mode \<in> set (modesOf a). map_of r (runtimeKey mode ident) = None))) \<and>
    (e \<noteq> None \<longrightarrow> r' = r) \<and>
    (e = None \<longrightarrow> (\<exists>a. adapter = Some a \<and> (\<forall>mode \<in> set (modesOf a). registry_Resolve r' mode ident = Inr a) \<and>
      (\<forall>key. map_of r' key = (if key \<in> (\<lambda>mode. runtimeKey mode ident) ` set (modesOf a) then Some a else map_of r key))))"
proof (cases adapter)
  case None
  then show ?thesis using assms by (auto simp: registry_Register_def)
next
  case (Some a)
  let ?taken = "filter (\<lambda>mode. map_of r (runtimeKey mode ident) \<noteq> None) (modesOf a)"
  show ?thesis
  proof (cases "ident = '''' \<or> modesOf a = [] \<or> ?taken \<noteq> []")
    case True
    then have "e \<noteq> None \<and> r' = r" using assms Some by (auto simp: registry_Register_def split: if_splits list.splits)
    moreover have "\<not> (ident \<noteq> '''' \<and> modesOf a \<noteq> [] \<and> (\<forall>mode \<in> set (modesOf a). map_of r (runtimeKey mode ident) = None))"
      using True by (auto simp: filter_empty_conv)
    ultimately show ?thesis using Some by auto
  next
    case False
    then have f: "ident \<noteq> ''''" "modesOf a \<noteq> []" "?taken = []" by auto
    then have e: "e = None" "r' = fold (\<lambda>mode m. put (runtimeKey mode ident) a m) (modesOf a) r" using assms Some by (simp_all add: registry_Register_def)
    have m: "map_of r' key = (if key \<in> (\<lambda>mode. runtimeKey mode ident) ` set (modesOf a) then Some a else map_of r key)" for key
      unfolding e(2) by (rule map_of_put_all)
    then have "registry_Resolve r' mode ident = Inr a" if "mode \<in> set (modesOf a)" for mode using that by (simp add: registry_Resolve_def)
    then show ?thesis using Some f e(1) m by (auto simp: filter_empty_conv)
  qed
qed

definition demo_modes :: "nat \<Rightarrow> ExecutionMode list" where
  "demo_modes a = (if a = 1 then [ExecutionModeReal, ExecutionModeSimulation] else [ExecutionModeReal])"

theorem register_atomic_witness:
  "fst (registry_Register demo_modes ''local'' (Some 1) []) = None \<and>
   registry_Resolve (snd (registry_Register demo_modes ''local'' (Some 1) [])) ExecutionModeSimulation ''local'' = Inr 1 \<and>
   snd (registry_Register demo_modes ''local'' (Some 2) (snd (registry_Register demo_modes ''local'' (Some 1) []))) =
     snd (registry_Register demo_modes ''local'' (Some 1) [])"
proof -
  let ?r = "snd (registry_Register demo_modes ''local'' (Some 1) [])"
  have a: "registry_Register demo_modes ''local'' (Some 1) [] = (fst (registry_Register demo_modes ''local'' (Some 1) []), ?r)"
    and b: "registry_Register demo_modes ''local'' (Some 2) ?r = (fst (registry_Register demo_modes ''local'' (Some 2) ?r), snd (registry_Register demo_modes ''local'' (Some 2) ?r))"
    by simp_all
  have e: "fst (registry_Register demo_modes ''local'' (Some 1) []) = None" using register_atomic [OF a] by (simp add: demo_modes_def)
  have m: "\<forall>mode \<in> {ExecutionModeReal, ExecutionModeSimulation}. registry_Resolve ?r mode ''local'' = Inr 1"
    "map_of ?r (runtimeKey ExecutionModeReal ''local'') = Some 1" using register_atomic [OF a] e by (auto simp: demo_modes_def)
  then have "fst (registry_Register demo_modes ''local'' (Some 2) ?r) \<noteq> None" using register_atomic [OF b] by (simp add: demo_modes_def)
  then show ?thesis using register_atomic [OF b] e m(1) by simp
qed

section \<open>The cache of the resolver\<close>

text \<open>Entries are added to the cache and never replaced, by this resolution or by another one that runs meanwhile.\<close>

definition grows :: "('a, 'w) CatalogResolver \<Rightarrow> 'w \<Rightarrow> 'w \<Rightarrow> bool" where
  "grows r w w' \<longleftrightarrow> (\<forall>key a. map_of (crv_configured r w) key = Some a \<longrightarrow> map_of (crv_configured r w') key = Some a)"

lemma grows_refl [simp]: "grows r w w"
  by (simp add: grows_def)

lemma grows_trans: "grows r a b \<Longrightarrow> grows r b c \<Longrightarrow> grows r a c"
  by (simp add: grows_def)

locale adapter_cache =
  fixes r :: "('a, 'w) CatalogResolver"
  assumes listing_grows: "crv_catalog r = Some listing \<Longrightarrow> grows r w (snd (listing w))"
    and build_grows: "map_of (crv_factories r) driver = Some build \<Longrightarrow> grows r w (snd (build runtime connection w))"
    and store: "map_of (crv_configured r (crv_store r key a w)) key' = (if key' = key then Some a else map_of (crv_configured r w) key')"
begin

lemma configure_cached:
  assumes "map_of (crv_factories r) driver = Some build" and "configure r build mode runtime connection w = (res, w')"
  shows "grows r w w'" and "res = Inr a \<Longrightarrow> map_of (crv_configured r w') (cacheKey mode (ert_ID runtime)) = Some a"
proof -
  let ?key = "cacheKey mode (ert_ID runtime)"
  obtain b w1 where b: "build runtime connection w = (b, w1)" by (metis surj_pair)
  have g: "grows r w w1" using build_grows [OF assms(1), of w runtime connection] b by simp
  have s: "grows r w1 (crv_store r ?key a w1)" if "map_of (crv_configured r w1) ?key = None" for a
    using that by (auto simp: grows_def store)
  show "grows r w w'"
    using assms(2) b g s grows_trans [OF g s]
    by (auto simp: configure_def Let_def load_or_store_def apfst_def map_prod_def split: option.splits sum.splits)
  show "res = Inr a \<Longrightarrow> map_of (crv_configured r w') ?key = Some a"
    using assms(2) b by (auto simp: configure_def Let_def load_or_store_def apfst_def map_prod_def store split: option.splits sum.splits)
qed

lemma resolved_cached:
  assumes "resolver_Resolve r mode ident w = (Inr a, w')" and "\<forall>i. i = ident \<or> i \<in> range driver_text \<longrightarrow> (\<exists>e. registry_Resolve (crv_runtimes r) mode i = Inl e)"
  shows "grows r w w' \<and> map_of (crv_configured r w') (cacheKey mode ident) = Some a \<and>
    (\<forall>b. map_of (crv_configured r w) (cacheKey mode ident) = Some b \<longrightarrow> a = b)"
proof -
  obtain err where err: "registry_Resolve (crv_runtimes r) mode ident = Inl err" using assms(2) by blast
  obtain listing ds w1 dfn runtime build connection where l: "crv_catalog r = Some listing" "listing w = (Inr ds, w1)"
    and rt: "find_runtime ident ds = Some (dfn, runtime)" "map_of (crv_factories r) (ert_Driver runtime) = Some build"
    and c: "configure r build mode runtime connection w1 = (Inr a, w')"
    using assms err unfolding resolver_Resolve_def Let_def
    by (auto split: option.splits sum.splits prod.splits if_splits) (metis Inl_Inr_False rangeI)+
  have id: "ert_ID runtime = ident" using rt(1)
  proof (induction ds)
    case (Cons d ds)
    then show ?case by (auto split: option.splits simp: find_Some_iff)
  qed simp
  have g: "grows r w w1" using listing_grows [OF l(1), of w] l(2) by simp
  have "grows r w w'" and k: "map_of (crv_configured r w') (cacheKey mode ident) = Some a"
    using grows_trans [OF g configure_cached(1) [OF rt(2) c]] configure_cached(2) [OF rt(2) c] id by auto
  then show ?thesis by (auto simp: grows_def)
qed

end


section \<open>The resolver on the repository\<close>

text \<open>
  The world of a resolver: the database with the catalog, and the cache. Building an adapter gives any result; what other
  resolutions store meanwhile is appended to the cache.
\<close>

record 'a ResolverWorld =
  rvw_db :: EnvironmentDB
  rvw_cache :: "(string, 'a) gomap"

definition catalog_resolver ::
  "EnvironmentEnv \<Rightarrow> 'a registry \<Rightarrow> RuntimeDriver list \<Rightarrow> (EnvironmentRuntime \<Rightarrow> EnvironmentConnection \<Rightarrow> error + 'a) \<Rightarrow>
   (EnvironmentRuntime \<Rightarrow> EnvironmentConnection \<Rightarrow> 'a ResolverWorld \<Rightarrow> (string, 'a) gomap) \<Rightarrow> ('a, 'a ResolverWorld) CatalogResolver"
where
  "catalog_resolver env runtimes drivers mk meanwhile =
     \<lparr>crv_runtimes = runtimes, crv_catalog = Some (\<lambda>w. (environment_List env (rvw_db w), w)),
      crv_factories = NewCatalogResolver (map (\<lambda>d. Some (d, \<lambda>rt c w. (mk rt c, w\<lparr>rvw_cache := rvw_cache w @ meanwhile rt c w\<rparr>))) drivers),
      crv_configured = rvw_cache, crv_store = (\<lambda>key a w. w\<lparr>rvw_cache := put key a (rvw_cache w)\<rparr>)\<rparr>"

lemma NewCatalogResolver_same: "map_of (NewCatalogResolver (map (\<lambda>d. Some (d, f)) ds)) d = (if d \<in> set ds then Some f else None)"
proof -
  have "map_of (fold (\<lambda>g m. case g of None \<Rightarrow> m | Some (driver, build) \<Rightarrow> put driver build m) (map (\<lambda>d. Some (d, f)) ds) m) d =
      (if d \<in> set ds then Some f else map_of m d)" for m
    by (induction ds arbitrary: m) auto
  then show ?thesis by (simp add: NewCatalogResolver_def)
qed

interpretation configured: adapter_cache "catalog_resolver env runtimes drivers mk meanwhile"
  by unfold_locales (auto simp: catalog_resolver_def grows_def NewCatalogResolver_same split: if_splits)

text \<open>
  A configured adapter is kept for ever: once a resolution has configured an adapter for a runtime, every later one for
  the same mode returns that adapter, whatever other resolutions do meanwhile and whatever the catalog says by then, as
  long as the adapters are not registered by hand.
\<close>

theorem configured_adapter_kept:
  assumes "r = catalog_resolver env runtimes drivers mk meanwhile"
    and "\<forall>i. i = ident \<or> i \<in> range driver_text \<longrightarrow> (\<exists>e. registry_Resolve runtimes mode i = Inl e)"
    and "resolver_Resolve r mode ident w = (Inr a, w1)"
    and "\<forall>key b. map_of (rvw_cache w1) key = Some b \<longrightarrow> map_of (rvw_cache w2) key = Some b"
    and "resolver_Resolve r mode ident w2 = (Inr b, w3)"
  shows "a = b"
proof -
  let ?r = "catalog_resolver env runtimes drivers mk meanwhile"
  have cfg: "crv_configured ?r = rvw_cache" by (simp add: catalog_resolver_def)
  have reg: "\<forall>i. i = ident \<or> i \<in> range driver_text \<longrightarrow> (\<exists>e. registry_Resolve (crv_runtimes ?r) mode i = Inl e)"
    using assms(2) by (simp add: catalog_resolver_def)
  have "map_of (rvw_cache w1) (cacheKey mode ident) = Some a" using configured.resolved_cached [OF assms(3) [unfolded assms(1)] reg] cfg by simp
  then have "map_of (rvw_cache w2) (cacheKey mode ident) = Some a" using assms(4) by blast
  then show ?thesis using configured.resolved_cached [OF assms(5) [unfolded assms(1)] reg] cfg by simp
qed

text \<open>An adapter that is its endpoint, before and after the connection has been moved.\<close>

definition demo_resolver :: "(string, string ResolverWorld) CatalogResolver" where
  "demo_resolver = catalog_resolver demo_eenv [] [RuntimeDriverLocal] (\<lambda>rt c. Inr (con_Endpoint c)) (\<lambda>_ _ _. [])"

definition demo_bound :: EnvironmentDefinition where
  "demo_bound = (demo_environment ''a'')\<lparr>def_Runtimes := map (\<lambda>r. r\<lparr>ert_Configuration := [(''connectionId'', AnyString ''a'')]\<rparr>) (def_Runtimes (demo_environment ''a''))\<rparr>"

definition demo_catalog :: "string \<Rightarrow> EnvironmentDB" where
  "demo_catalog endpoint = snd (environment_UpsertConnection demo_eenv ((hd (def_Connections demo_bound))\<lparr>con_Endpoint := endpoint\<rparr>)
     (snd (environment_Create demo_eenv demo_bound demo_edb)))"

theorem configured_adapter_kept_witness:
  "\<exists>w1 w3. resolver_Resolve demo_resolver ExecutionModeReal ''a'' \<lparr>rvw_db = demo_catalog ''x'', rvw_cache = []\<rparr> = (Inr ''x'', w1) \<and>
     resolver_Resolve demo_resolver ExecutionModeReal ''a'' (w1\<lparr>rvw_db := demo_catalog ''y''\<rparr>) = (Inr ''x'', w3)"
proof -
  let ?w = "\<lparr>rvw_db = demo_catalog ''x'', rvw_cache = []\<rparr>"
  have "fst (resolver_Resolve demo_resolver ExecutionModeReal ''a'' ?w) = Inr ''x''" by code_simp
  then obtain w1 where w1: "resolver_Resolve demo_resolver ExecutionModeReal ''a'' ?w = (Inr ''x'', w1)" by (metis prod.collapse)
  have "(case fst (resolver_Resolve demo_resolver ExecutionModeReal ''a'' (snd (resolver_Resolve demo_resolver ExecutionModeReal ''a'' ?w)\<lparr>rvw_db := demo_catalog ''y''\<rparr>)) of
      Inr _ \<Rightarrow> True | Inl _ \<Rightarrow> False)" by code_simp
  then obtain b w3 where w3: "resolver_Resolve demo_resolver ExecutionModeReal ''a'' (w1\<lparr>rvw_db := demo_catalog ''y''\<rparr>) = (Inr b, w3)"
    using w1 by (metis (no_types, lifting) prod.collapse snd_conv sum.case_eq_if isl_def sum.collapse(2))
  have "\<exists>e. registry_Resolve ([] :: string registry) ExecutionModeReal i = Inl e" for i by (simp add: registry_Resolve_def)
  then have "''x'' = b" using configured_adapter_kept [OF demo_resolver_def _ w1 _ w3] by simp
  then show ?thesis using w1 w3 by blast
qed

end
