(* ===== verification/Go_Parse.thy ===== *)
theory Go_Parse
  imports Go_Text
begin

text \<open>
  What the providers use to read the output of commands: \<^verbatim>\<open>strings.Split\<close>, \<^verbatim>\<open>strings.SplitN\<close> and \<^verbatim>\<open>strings.Cut\<close> at one
  byte, \<^verbatim>\<open>strings.Fields\<close>, the integer conversions of \<^verbatim>\<open>strconv\<close>, and the decoder of \<^verbatim>\<open>base64.StdEncoding\<close>.
\<close>

section \<open>Splitting\<close>

fun split_char :: "char \<Rightarrow> string \<Rightarrow> string list" where
  "split_char d [] = [[]]"
| "split_char d (c # cs) =
     (if c = d then [] # split_char d cs else case split_char d cs of [] \<Rightarrow> [[c]] | w # ws \<Rightarrow> (c # w) # ws)"

fun join_char :: "char \<Rightarrow> string list \<Rightarrow> string" where
  "join_char d [] = []"
| "join_char d [w] = w"
| "join_char d (w # v # ws) = w @ d # join_char d (v # ws)"

definition cut_char :: "char \<Rightarrow> string \<Rightarrow> (string \<times> string) option" where
  "cut_char d s = (if d \<in> set s then Some (takeWhile (\<lambda>c. c \<noteq> d) s, tl (dropWhile (\<lambda>c. c \<noteq> d) s)) else None)"

fun splitn_char :: "nat \<Rightarrow> char \<Rightarrow> string \<Rightarrow> string list" where
  "splitn_char 0 d s = []"
| "splitn_char (Suc 0) d s = [s]"
| "splitn_char (Suc n) d s = (case cut_char d s of None \<Rightarrow> [s] | Some (a, b) \<Rightarrow> a # splitn_char n d b)"

function str_fields :: "string \<Rightarrow> string list" where
  "str_fields s =
     (let t = dropWhile is_space s in
      if t = [] then [] else takeWhile (\<lambda>c. \<not> is_space c) t # str_fields (dropWhile (\<lambda>c. \<not> is_space c) t))"
  by pat_completeness auto
termination
proof (relation "measure length", simp)
  fix s t :: string assume t: "t = dropWhile is_space s" "t \<noteq> []"
  then obtain c cs where c: "t = c # cs" "\<not> is_space c" using hd_dropWhile [of is_space s] by (metis list.exhaust list.sel(1))
  have "length (dropWhile (\<lambda>c. \<not> is_space c) t) \<le> length cs" using c by (simp add: length_dropWhile_le)
  also have "\<dots> < length s" using c t length_dropWhile_le [of is_space s] by (metis Suc_le_eq length_Cons)
  finally show "(dropWhile (\<lambda>c. \<not> is_space c) t, s) \<in> measure length" by simp
qed

declare str_fields.simps [simp del]

lemma split_char_ne: "split_char d s \<noteq> []"
  by (induction s) (auto split: list.splits)

lemma split_char_single: "d \<notin> set s \<Longrightarrow> split_char d s = [s]"
  by (induction s) auto

lemma split_char_append: "d \<notin> set s \<Longrightarrow> split_char d (s @ d # t) = s # split_char d t"
  by (induction s) auto

lemma split_char_words: "w \<in> set (split_char d s) \<Longrightarrow> d \<notin> set w"
proof (induction s arbitrary: w)
  case (Cons c s)
  obtain v vs where v: "split_char d s = v # vs" using split_char_ne [of d s] by (cases "split_char d s") auto
  then show ?case using Cons by (cases "c = d") auto
qed simp

lemma join_split: "join_char d (split_char d s) = s"
proof (induction s)
  case (Cons c s)
  obtain v vs where "split_char d s = v # vs" using split_char_ne [of d s] by (cases "split_char d s") auto
  then show ?case using Cons by (cases vs) auto
qed simp

lemma split_join_char: "ws \<noteq> [] \<Longrightarrow> list_all (\<lambda>w. d \<notin> set w) ws \<Longrightarrow> split_char d (join_char d ws) = ws"
  by (induction d ws rule: join_char.induct) (auto simp: split_char_single split_char_append)

section \<open>Integers\<close>

text \<open>\<^verbatim>\<open>strconv.ParseInt(s, 10, 64)\<close>: the value, and whether there is an error. A number out of range is clamped.\<close>

definition ParseInt64 :: "string \<Rightarrow> int \<times> bool" where
  "ParseInt64 s =
     (let signed = (s \<noteq> [] \<and> hd s \<in> {CHR ''-'', CHR ''+''}); ds = (if signed then tl s else s);
          v = (if signed \<and> hd s = CHR ''-'' then - digits_value ds else digits_value ds)
      in if ds = [] \<or> \<not> list_all is_digit ds then (0, True)
         else if v < - (2 ^ 63) then (- (2 ^ 63), True) else if v \<ge> 2 ^ 63 then (2 ^ 63 - 1, True) else (v, False))"

definition is_uint64 :: "string \<Rightarrow> bool" where
  "is_uint64 s \<longleftrightarrow> s \<noteq> [] \<and> list_all is_digit s \<and> digits_value s < 2 ^ 64"

lemma ParseInt64_range: "- (2 ^ 63) \<le> fst (ParseInt64 s)" "fst (ParseInt64 s) < 2 ^ 63"
  by (auto simp: ParseInt64_def Let_def)

lemma ParseInt64_itoa: "- (2 ^ 63) \<le> i \<Longrightarrow> i < 2 ^ 63 \<Longrightarrow> ParseInt64 (itoa i) = (i, False)"
  using nat_digits_ne hd_nat_digits nat_digits_digits by (auto simp: ParseInt64_def itoa_def digits_value_nat Let_def)

section \<open>Base 64\<close>

definition base64_value :: "char \<Rightarrow> nat option" where
  "base64_value c = (let n = (of_char c :: nat) in
     if 65 \<le> n \<and> n \<le> 90 then Some (n - 65) else if 97 \<le> n \<and> n \<le> 122 then Some (n - 71)
     else if 48 \<le> n \<and> n \<le> 57 then Some (n + 4) else if n = 43 then Some 62 else if n = 47 then Some 63 else None)"

fun base64_groups :: "string \<Rightarrow> string option" where
  "base64_groups [] = Some []"
| "base64_groups (a # b # c # d # r) =
     (case (base64_value a, base64_value b) of
        (Some x, Some y) \<Rightarrow>
          (if c = CHR ''='' then (if d = CHR ''='' \<and> r = [] then Some [char_of (4 * x + y div 16)] else None)
           else case base64_value c of
             None \<Rightarrow> None
           | Some z \<Rightarrow>
               (if d = CHR ''='' then (if r = [] then Some [char_of (4 * x + y div 16), char_of (16 * (y mod 16) + z div 4)] else None)
                else case base64_value d of
                  None \<Rightarrow> None
                | Some t \<Rightarrow> map_option ((@) [char_of (4 * x + y div 16), char_of (16 * (y mod 16) + z div 4), char_of (64 * (z mod 4) + t)]) (base64_groups r)))
      | _ \<Rightarrow> None)"
| "base64_groups _ = None"

text \<open>The decoder skips line ends.\<close>

definition base64_decode :: "string \<Rightarrow> string option" where
  "base64_decode s = base64_groups (filter (\<lambda>c. c \<noteq> newline \<and> c \<noteq> CHR 13) s)"

definition base64_char :: "nat \<Rightarrow> char" where
  "base64_char n = (if n < 26 then char_of (n + 65) else if n < 52 then char_of (n + 71) else if n < 62 then char_of (n - 4)
     else if n = 62 then CHR ''+'' else CHR ''/'')"

text \<open>\<^verbatim>\<open>base64.StdEncoding.EncodeToString\<close>.\<close>

fun base64_encode :: "string \<Rightarrow> string" where
  "base64_encode [] = []"
| "base64_encode [a] = (let x = of_char a in [base64_char (x div 4), base64_char (16 * (x mod 4)), CHR ''='', CHR ''=''])"
| "base64_encode [a, b] = (let x = of_char a; y = of_char b in
     [base64_char (x div 4), base64_char (16 * (x mod 4) + y div 16), base64_char (4 * (y mod 16)), CHR ''=''])"
| "base64_encode (a # b # c # r) = (let x = of_char a; y = of_char b; z = of_char c in
     [base64_char (x div 4), base64_char (16 * (x mod 4) + y div 16), base64_char (4 * (y mod 16) + z div 64), base64_char (z mod 64)] @ base64_encode r)"

lemma newline_code: "newline = CHR 10"
  by code_simp

lemma base64_value_char [simp]: "n < 64 \<Longrightarrow> base64_value (base64_char n) = Some n"
  by (auto simp: base64_value_def base64_char_def Let_def)

lemma base64_values: "base64_value CHR ''='' = None" "base64_value newline = None" "base64_value CHR 13 = None" "base64_value CHR 39 = None"
  by (simp_all add: base64_value_def Let_def newline_code)

lemma base64_char_not [simp]: "n < 64 \<Longrightarrow> base64_value c = None \<Longrightarrow> base64_char n \<noteq> c"
  using base64_value_char [of n] by auto

lemma of_char_bound: "(of_char c :: nat) < 256"
  by simp

lemma sextets:
  fixes x y z :: nat assumes "x < 256" "y < 256" "z < 256"
  shows "x div 4 < 64" "16 * (x mod 4) < 64" "16 * (x mod 4) + y div 16 < 64" "4 * (y mod 16) < 64" "4 * (y mod 16) + z div 64 < 64" "z mod 64 < 64"
proof -
  have "x mod 4 < 4" "y div 16 < 16" "y mod 16 < 16" "z div 64 < 4" "x div 4 < 64" "z mod 64 < 64" using assms by (simp_all add: less_mult_imp_div_less)
  then show "x div 4 < 64" "16 * (x mod 4) < 64" "16 * (x mod 4) + y div 16 < 64" "4 * (y mod 16) < 64" "4 * (y mod 16) + z div 64 < 64" "z mod 64 < 64"
    by linarith+
qed

lemma div_mod_digit: "b < n \<Longrightarrow> (n * a + b) div n = (a :: nat)" "b < n \<Longrightarrow> (n * a + b) mod n = (b :: nat)"
  by simp_all

lemma octets:
  fixes x y z :: nat assumes "x < 256" "y < 256" "z < 256"
  shows "4 * (x div 4) + 16 * (x mod 4) div 16 = x" "4 * (x div 4) + (16 * (x mod 4) + y div 16) div 16 = x"
    "16 * ((16 * (x mod 4) + y div 16) mod 16) + 4 * (y mod 16) div 4 = y"
    "16 * ((16 * (x mod 4) + y div 16) mod 16) + (4 * (y mod 16) + z div 64) div 4 = y"
    "64 * ((4 * (y mod 16) + z div 64) mod 4) + z mod 64 = z"
proof -
  have "y div 16 < 16" "z div 64 < 4" using assms by (simp_all add: less_mult_imp_div_less)
  note d = div_mod_digit [OF this(1), of "x mod 4"] div_mod_digit [OF this(2), of "y mod 16"]
  show "4 * (x div 4) + 16 * (x mod 4) div 16 = x" by simp
  show "4 * (x div 4) + (16 * (x mod 4) + y div 16) div 16 = x" unfolding d by simp
  show "16 * ((16 * (x mod 4) + y div 16) mod 16) + 4 * (y mod 16) div 4 = y" unfolding d by simp
  show "16 * ((16 * (x mod 4) + y div 16) mod 16) + (4 * (y mod 16) + z div 64) div 4 = y" unfolding d by simp
  show "64 * ((4 * (y mod 16) + z div 64) mod 4) + z mod 64 = z" unfolding d by simp
qed

lemma base64_groups_encode: "base64_groups (base64_encode s) = Some s"
proof (induction s rule: base64_encode.induct)
  case (2 a)
  then show ?case using sextets [OF of_char_bound [of a] of_char_bound [of a] of_char_bound [of a]] octets(1) [OF of_char_bound [of a] of_char_bound [of a] of_char_bound [of a]] by (simp add: Let_def base64_values)
next
  case (3 a b)
  then show ?case using sextets [OF of_char_bound [of a] of_char_bound [of b] of_char_bound [of a]] octets(2,3) [OF of_char_bound [of a] of_char_bound [of b] of_char_bound [of a]] by (simp add: Let_def base64_values)
next
  case (4 a b c r)
  then show ?case using sextets [OF of_char_bound [of a] of_char_bound [of b] of_char_bound [of c]] octets(2,4,5) [OF of_char_bound [of a] of_char_bound [of b] of_char_bound [of c]] by (simp add: Let_def base64_values)
qed simp

lemma base64_encode_list: "list_all (\<lambda>c. c = CHR ''='' \<or> base64_value c \<noteq> None) (base64_encode s)"
proof (induction s rule: base64_encode.induct)
  case (2 a)
  then show ?case using sextets(1-6) [OF of_char_bound [of a] of_char_bound [of a] of_char_bound [of a]] by (simp add: Let_def)
next
  case (3 a b)
  then show ?case using sextets(1-6) [OF of_char_bound [of a] of_char_bound [of b] of_char_bound [of a]] by (simp add: Let_def)
next
  case (4 a b c r)
  then show ?case using sextets(1-6) [OF of_char_bound [of a] of_char_bound [of b] of_char_bound [of c]] by (simp add: Let_def)
qed simp

lemma base64_encode_chars: "base64_value d = None \<Longrightarrow> d \<noteq> CHR ''='' \<Longrightarrow> d \<notin> set (base64_encode s)"
  using base64_encode_list [of s] unfolding list_all_iff by blast

lemma base64_decode_encode: "base64_decode (base64_encode s) = Some s"
proof -
  have "newline \<notin> set (base64_encode s)" by (rule base64_encode_chars) (simp_all add: base64_values, simp add: newline_code)
  moreover have "CHR 13 \<notin> set (base64_encode s)" by (rule base64_encode_chars) (simp_all add: base64_values)
  ultimately have "filter (\<lambda>c. c \<noteq> newline \<and> c \<noteq> CHR 13) (base64_encode s) = base64_encode s" by (intro filter_True) auto
  then show ?thesis by (simp add: base64_decode_def base64_groups_encode)
qed

end
