(* ===== verification/Shell_Text.thy ===== *)
theory Shell_Text
  imports Go_Parse
begin

text \<open>
  Shell text. \<open>shell_words\<close> is the specification that quoting is measured by: the words of a simple command of a
  POSIX shell after expansion of variables, field splitting and quote removal. The quoting functions are those
  of \<^verbatim>\<open>internal/provider/ssh_executor.go\<close> and \<^verbatim>\<open>internal/provider/slurm/adapter.go\<close>.
\<close>

section \<open>Words of a simple command\<close>

abbreviation (input) squote :: char where "squote \<equiv> CHR 39"
abbreviation (input) dquote :: char where "dquote \<equiv> CHR 34"
abbreviation (input) backslash :: char where "backslash \<equiv> CHR 92"

definition blank :: "char \<Rightarrow> bool" where
  "blank c \<longleftrightarrow> c = CHR '' '' \<or> c = CHR 9"

definition is_alpha :: "char \<Rightarrow> bool" where
  "is_alpha c \<longleftrightarrow> (97 \<le> (of_char c :: nat) \<and> (of_char c :: nat) \<le> 122) \<or> (65 \<le> (of_char c :: nat) \<and> (of_char c :: nat) \<le> 90)"

definition name_char :: "char \<Rightarrow> bool" where
  "name_char c \<longleftrightarrow> is_alpha c \<or> is_digit c \<or> c = CHR ''_''"

text \<open>The characters that stand for themselves outside quotes.\<close>

definition plain_char :: "char \<Rightarrow> bool" where
  "plain_char c \<longleftrightarrow> name_char c \<or> c \<in> set ''-./:,+@%=''"

text \<open>An expansion outside quotes is split at blanks and newlines: the finished words, and the word that continues.\<close>

fun expand_fields :: "string option \<Rightarrow> string \<Rightarrow> string list \<times> string option" where
  "expand_fields w [] = ([], w)"
| "expand_fields w (c # cs) =
     (if blank c \<or> c = newline then (case w of None \<Rightarrow> expand_fields None cs | Some u \<Rightarrow> apfst ((#) u) (expand_fields None cs))
      else expand_fields (Some (case w of None \<Rightarrow> [c] | Some u \<Rightarrow> u @ [c])) cs)"

definition current_word :: "string option \<Rightarrow> string" where
  "current_word w = (case w of None \<Rightarrow> [] | Some u \<Rightarrow> u)"

text \<open>
  The scanner, with the word being read: outside quotes, between single quotes and between double quotes. \<^const>\<open>None\<close> is a
  quotation without end, or a character outside quotes that makes the text another command.
\<close>

function (sequential) scan :: "(string \<Rightarrow> string) \<Rightarrow> string option \<Rightarrow> string \<Rightarrow> string list option"
  and scan_single :: "(string \<Rightarrow> string) \<Rightarrow> string \<Rightarrow> string \<Rightarrow> string list option"
  and scan_double :: "(string \<Rightarrow> string) \<Rightarrow> string \<Rightarrow> string \<Rightarrow> string list option"
where
  "scan env w [] = Some (case w of None \<Rightarrow> [] | Some u \<Rightarrow> [u])"
| "scan env w (c # cs) =
     (if blank c then (case w of None \<Rightarrow> scan env None cs | Some u \<Rightarrow> map_option ((#) u) (scan env None cs))
      else if c = squote then scan_single env (current_word w) cs
      else if c = dquote then scan_double env (current_word w) cs
      else if c = backslash then
        (case cs of [] \<Rightarrow> None | d # ds \<Rightarrow> if d = newline then scan env w ds else scan env (Some (current_word w @ [d])) ds)
      else if c = CHR ''$'' then
        (let name = takeWhile name_char cs; (ws, w') = expand_fields w (env name)
         in if name = [] \<or> is_digit (hd name) then None
            else map_option ((@) ws) (scan env w' (dropWhile name_char cs)))
      else if plain_char c then scan env (Some (current_word w @ [c])) cs
      else None)"
| "scan_single env u [] = None"
| "scan_single env u (c # cs) = (if c = squote then scan env (Some u) cs else scan_single env (u @ [c]) cs)"
| "scan_double env u [] = None"
| "scan_double env u (c # cs) =
     (if c = dquote then scan env (Some u) cs
      else if c = backslash then
        (case cs of [] \<Rightarrow> None
         | d # ds \<Rightarrow> if d \<in> {dquote, backslash, CHR ''$'', CHR 96} then scan_double env (u @ [d]) ds
                     else if d = newline then scan_double env u ds else scan_double env (u @ [c, d]) ds)
      else if c = CHR ''$'' then
        (let name = takeWhile name_char cs
         in if name = [] \<or> is_digit (hd name) then None else scan_double env (u @ env name) (dropWhile name_char cs))
      else if c = CHR 96 then None
      else scan_double env (u @ [c]) cs)"
  by pat_completeness auto
termination
  by (relation "measure (\<lambda>x. case x of Inl (_, _, s) \<Rightarrow> length s | Inr (Inl (_, _, s)) \<Rightarrow> length s | Inr (Inr (_, _, s)) \<Rightarrow> length s)")
    (auto intro: le_imp_less_Suc length_dropWhile_le)

definition shell_words :: "(string \<Rightarrow> string) \<Rightarrow> string \<Rightarrow> string list option" where
  "shell_words env s = scan env None s"

section \<open>Literals\<close>

text \<open>Literals write a backquote for a backslash and a tilde for a single quote at their end.\<close>

definition raw_lit :: "string \<Rightarrow> string" where
  "raw_lit s = map (\<lambda>c. if c = CHR 96 then backslash else if c = CHR ''~'' then squote else c) s"

section \<open>Quoting\<close>

text \<open>\<^verbatim>\<open>strings.ReplaceAll\<close> of one byte.\<close>

definition replace_char :: "char \<Rightarrow> string \<Rightarrow> string \<Rightarrow> string" where
  "replace_char old new s = concat (map (\<lambda>c. if c = old then new else [c]) s)"

definition slurm_shellQuote :: "string \<Rightarrow> string" where
  "slurm_shellQuote value = [squote] @ replace_char squote [squote, dquote, squote, dquote, squote] value @ [squote]"

definition ssh_shellQuote :: "string \<Rightarrow> string" where
  "ssh_shellQuote value =
     (if value = [] then [squote, squote]
      else [squote] @ replace_char squote [squote, backslash, dquote, squote, backslash, dquote, squote] value @ [squote])"

text \<open>\<^verbatim>\<open>strings.Join\<close> with a space.\<close>

fun unwords :: "string list \<Rightarrow> string" where
  "unwords [] = []"
| "unwords [w] = w"
| "unwords (w # ws) = w @ CHR '' '' # unwords ws"

section \<open>Quoted words\<close>

lemma replace_char_simps [simp]:
  "replace_char old new [] = []" "replace_char old new (c # cs) = (if c = old then new else [c]) @ replace_char old new cs"
  by (simp_all add: replace_char_def)

lemma replace_char_id: "old \<notin> set s \<Longrightarrow> replace_char old new s = s"
  by (induction s) auto

lemma replace_char_append: "replace_char old new (s @ t) = replace_char old new s @ replace_char old new t"
  by (simp add: replace_char_def)

lemma char_classes [simp]:
  "\<not> blank squote" "\<not> blank dquote" "\<not> blank backslash" "\<not> blank CHR ''$''" "blank CHR '' ''" "backslash \<noteq> newline" "dquote \<noteq> newline"
  by (simp_all add: blank_def newline_code)

lemma scan_single_plain: "squote \<notin> set v \<Longrightarrow> scan_single env u (v @ squote # r) = scan env (Some (u @ v)) r"
  by (induction v arbitrary: u) auto

lemma scan_single_slurm:
  "scan_single env u (replace_char squote [squote, dquote, squote, dquote, squote] v @ squote # r) = scan env (Some (u @ v)) r"
  by (induction v arbitrary: u) (auto simp: current_word_def)

lemma scan_slurm_quoted: "scan env None (slurm_shellQuote v @ r) = scan env (Some v) r"
  using scan_single_slurm [of env "[]" v r] by (simp add: slurm_shellQuote_def current_word_def)

lemma scan_ssh_plain: "squote \<notin> set v \<Longrightarrow> scan env None (ssh_shellQuote v @ r) = scan env (Some v) r"
  using scan_single_plain [of v env "[]" r] by (simp add: ssh_shellQuote_def current_word_def replace_char_id)

lemma unwords_Cons: "ws \<noteq> [] \<Longrightarrow> unwords (w # ws) = w @ CHR '' '' # unwords ws"
  by (cases ws) auto

text \<open>A quoting that the shell undoes for every word of a list, undoes it for the list.\<close>

lemma scan_unwords:
  assumes "\<And>v r. v \<in> set vs \<Longrightarrow> scan env None (quote v @ r) = scan env (Some v) r"
  shows "scan env None (unwords (map quote vs)) = Some vs"
  using assms
proof (induction vs)
  case (Cons v vs)
  show ?case
  proof (cases vs)
    case Nil
    then show ?thesis using Cons.prems [of v "[]"] by simp
  next
    case (Cons v' vs')
    then show ?thesis using Cons.IH Cons.prems by (simp add: unwords_Cons)
  qed
qed simp

section \<open>Words only grow\<close>

lemma expand_grow:
  "expand_fields (Some u) s = (ws, w') \<Longrightarrow> (\<exists>x xs. ws = (u @ x) # xs) \<or> ws = [] \<and> (\<exists>x. w' = Some (u @ x))"
proof (induction s arbitrary: u)
  case (Cons c s)
  show ?case
  proof (cases "blank c \<or> c = newline")
    case True
    then show ?thesis using Cons.prems by (cases "expand_fields None s") auto
  next
    case False
    then show ?thesis using Cons.prems Cons.IH [of "u @ [c]"] by auto
  qed
qed auto

definition grows :: "string \<Rightarrow> string list option \<Rightarrow> bool" where
  "grows u r \<longleftrightarrow> (case r of None \<Rightarrow> True | Some ws \<Rightarrow> \<exists>x xs. ws = (u @ x) # xs)"

lemma grows_simps [simp]: "grows u None" "grows u (Some ((u @ x) # xs))" "grows u (Some (u # xs))" "grows u (map_option ((#) u) r)"
  by (auto simp: grows_def split: option.splits)

lemma grows_prefix: "grows (u @ v) r \<Longrightarrow> grows u r"
  by (auto simp: grows_def split: option.splits)

lemma grows_expand:
  assumes "expand_fields (Some u) s = (ws, w')" and "\<And>v. w' = Some v \<Longrightarrow> grows v r"
  shows "grows u (map_option ((@) ws) r)"
  using expand_grow [OF assms(1)]
proof
  assume "\<exists>x xs. ws = (u @ x) # xs"
  then show ?thesis by (cases r) (auto simp: grows_def)
next
  assume "ws = [] \<and> (\<exists>x. w' = Some (u @ x))"
  then show ?thesis using assms(2) grows_prefix by (cases r) (auto simp: grows_def)
qed

lemma scan_grows: "grows u (scan env (Some u) s) \<and> grows u (scan_single env u s) \<and> grows u (scan_double env u s)"
proof (induction s arbitrary: u rule: length_induct)
  case (1 s)
  have shorter: "grows u (scan env (Some u) t)" "grows u (scan env (Some (u @ x)) t)" "grows u (scan_single env u t)" "grows u (scan_double env u t)"
    "grows u (scan_single env (u @ x) t)" "grows u (scan_double env (u @ x) t)" if "length t < length s" for t u x
    using 1 that grows_prefix by blast+
  show ?case
  proof (cases s)
    case (Cons c cs)
    have rest: "length (dropWhile name_char cs) < length s" using Cons by (simp add: le_imp_less_Suc length_dropWhile_le)
    have split: "grows u (map_option ((@) (fst (expand_fields (Some u) v))) (scan env (snd (expand_fields (Some u) v)) (dropWhile name_char cs)))" for v
      by (rule grows_expand [OF surjective_pairing]) (simp add: shorter(1) rest)
    have escaped: "cs = d # ds \<Longrightarrow> length ds < length s" for d ds using Cons by simp
    have "grows u (scan env (Some u) s)" if "c \<noteq> backslash"
      using that Cons rest by (simp add: current_word_def Let_def case_prod_unfold shorter split)
    moreover have "grows u (scan_double env u s)" if "c \<noteq> backslash"
      using that Cons rest by (simp add: Let_def shorter)
    moreover have "grows u (scan env (Some u) s)" "grows u (scan_double env u s)" if "c = backslash"
      using that Cons escaped by (cases cs; simp add: current_word_def shorter)+
    moreover have "grows u (scan_single env u s)" using Cons by (simp add: shorter)
    ultimately show ?thesis by blast
  qed simp
qed

text \<open>A single quote that \<^const>\<open>ssh_shellQuote\<close> replaces turns into a double quote.\<close>

lemma scan_ssh_quote:
  assumes "squote \<in> set v" shows "scan env None (ssh_shellQuote v @ r) \<noteq> Some (v # vs)"
proof -
  obtain a b where v: "v = a @ squote # b" "squote \<notin> set a" using assms by (meson split_list_first)
  let ?new = "[squote, backslash, dquote, squote, backslash, dquote, squote]"
  have "scan env None (ssh_shellQuote v @ r) = scan_single env [] (a @ ?new @ replace_char squote ?new b @ squote # r)"
    using v by (simp add: ssh_shellQuote_def current_word_def replace_char_append replace_char_id)
  also have "\<dots> = scan_single env (a @ [dquote]) (backslash # dquote # squote # replace_char squote ?new b @ squote # r)"
    using scan_single_plain [of a env "[]" "backslash # dquote # squote # backslash # dquote # squote # replace_char squote ?new b @ squote # r"] v
    by (simp add: current_word_def)
  finally have "grows (a @ [dquote]) (scan env None (ssh_shellQuote v @ r))" by (simp only: scan_grows)
  then show ?thesis by (auto simp: grows_def v)
qed

lemma scan_ssh_unwords: "scan env None (unwords (map ssh_shellQuote vs)) = Some vs \<longleftrightarrow> squote \<notin> set (concat vs)"
proof (induction vs)
  case (Cons v vs)
  show ?case
  proof (cases "squote \<in> set v")
    case True
    then show ?thesis using scan_ssh_quote [OF True, of env "[]" "[]"] scan_ssh_quote [OF True] by (cases vs) (auto simp: unwords_Cons)
  next
    case False
    then show ?thesis using Cons scan_ssh_plain [OF False] scan_ssh_plain [OF False, of env "[]"] by (cases vs) (auto simp: unwords_Cons)
  qed
qed simp

section \<open>Plain words\<close>

lemma plain_char_classes: "plain_char c \<Longrightarrow> \<not> blank c \<and> c \<noteq> squote \<and> c \<noteq> dquote \<and> c \<noteq> backslash \<and> c \<noteq> CHR ''$''"
  by (auto simp: plain_char_def blank_def name_char_def is_alpha_def is_digit_def)

lemma scan_plain: "list_all plain_char s \<Longrightarrow> scan env (Some u) (s @ r) = scan env (Some (u @ s)) r"
proof (induction s arbitrary: u)
  case (Cons c s)
  then show ?case using plain_char_classes [of c] by (simp add: current_word_def)
qed simp

lemma scan_plain_None: "list_all plain_char s \<Longrightarrow> s \<noteq> [] \<Longrightarrow> scan env None (s @ r) = scan env (Some s) r"
  using scan_plain [of "tl s" env "[hd s]" r] plain_char_classes [of "hd s"] by (cases s) (simp_all add: current_word_def)

lemma scan_word:
  assumes "list_all plain_char s" "s \<noteq> []" shows "scan env None (s @ CHR '' '' # r) = map_option ((#) s) (scan env None r)"
  using scan_plain_None [OF assms] by simp

end
