(* ===== verification/Command_Executor.thy ===== *)
theory Command_Executor
  imports Shell_Text Go_Parse Go_Path Environment_Domain
begin

text \<open>
  Commands on a login node, \<^verbatim>\<open>internal/provider/ssh_executor.go\<close>, and the time of \<^verbatim>\<open>internal/provider/command.go\<close>. An
  executor is a function on a state \<open>'w\<close> that takes a program, its arguments and its input, and returns its output
  with an error if there is one.
\<close>

section \<open>Executors\<close>

type_synonym 'w executor = "string \<Rightarrow> string list \<Rightarrow> string \<Rightarrow> 'w \<Rightarrow> (string \<times> error option) \<times> 'w"

definition UnixSeconds :: "int \<Rightarrow> float64" where
  "UnixSeconds now = fdiv (f_of_int now) (f_of_int 1000000000)"

record 'w SSHCommandExecutor =
  ssh_Executor :: "'w executor option"
  ssh_Endpoint :: string
  ssh_Username :: string
  ssh_Port :: int
  ssh_IdentityFile :: string
  ssh_ProxyCommand :: string
  ssh_HostKeyAlias :: string
  ssh_KnownHostsFile :: string
  ssh_ForwardAgent :: bool

definition ssh_target :: "'w SSHCommandExecutor \<Rightarrow> string" where
  "ssh_target e =
     (let target = trim_space (ssh_Endpoint e) in
      if ssh_Username e \<noteq> '''' \<and> CHR ''@'' \<notin> set target then ssh_Username e @ ''@'' @ target else target)"

definition ssh_options :: "'w SSHCommandExecutor \<Rightarrow> string list" where
  "ssh_options e =
     [''-o'', ''BatchMode=yes'', ''-o'', ''ConnectionAttempts=1'', ''-o'', ''ConnectTimeout=10'', ''-o'', ''CheckHostIP=no''] @
     (if ssh_KnownHostsFile e \<noteq> '''' then [''-o'', ''UserKnownHostsFile='' @ ssh_KnownHostsFile e, ''-o'', ''StrictHostKeyChecking=accept-new''] else []) @
     (if ssh_Port e > 0 then [''-p'', itoa (ssh_Port e)] else []) @
     (if ssh_IdentityFile e \<noteq> '''' then [''-i'', ssh_IdentityFile e] else []) @
     (if ssh_ProxyCommand e \<noteq> '''' then [''-o'', ''ProxyCommand='' @ ssh_ProxyCommand e] else []) @
     (if ssh_HostKeyAlias e \<noteq> '''' then [''-o'', ''HostKeyAlias='' @ ssh_HostKeyAlias e] else []) @
     (if ssh_ForwardAgent e then [''-A''] else [])"

text \<open>The command that ssh hands to the login shell.\<close>

definition remote_command :: "string \<Rightarrow> string list \<Rightarrow> string" where
  "remote_command name args = unwords (map ssh_shellQuote (name # args))"

text \<open>\<^verbatim>\<open>filepath.Dir\<close>.\<close>

definition path_Dir :: "string \<Rightarrow> string" where
  "path_Dir p = path_Clean (rev (dropWhile (\<lambda>c. c \<noteq> CHR ''/'') (rev p)))"

definition ssh_Run :: "(string \<Rightarrow> 'w \<Rightarrow> error option \<times> 'w) \<Rightarrow> 'w SSHCommandExecutor \<Rightarrow> 'w executor" where
  "ssh_Run MkdirAll e name args input w =
     (case ssh_Executor e of
        None \<Rightarrow> (([], Some (Errorf ''SSH command executor is required'' [])), w)
      | Some run \<Rightarrow>
         (if trim_space (ssh_Endpoint e) = '''' then (([], Some (Errorf ''SSH endpoint is required'' [])), w)
          else case (if ssh_KnownHostsFile e \<noteq> '''' then MkdirAll (path_Dir (ssh_KnownHostsFile e)) w else (None, w)) of
            (Some err, w1) \<Rightarrow> (([], Some (Errorf ''create SSH known-hosts directory: %w'' [FmtE err])), w1)
          | (None, w1) \<Rightarrow> run ''ssh'' (ssh_options e @ [ssh_target e, remote_command name args]) input w1))"

section \<open>Configured connections\<close>

definition configString :: "metadata \<Rightarrow> string \<Rightarrow> string" where
  "configString configuration key = trim_space (meta_string configuration key)"

definition configInt :: "Numbers \<Rightarrow> metadata \<Rightarrow> string \<Rightarrow> int" where
  "configInt nu configuration key =
     (case map_of configuration key of
        Some (AnyFloat64 value) \<Rightarrow> to_int64 nu value
      | Some (AnyInt value) \<Rightarrow> value
      | Some (AnyString value) \<Rightarrow> fst (ParseInt64 value)
      | _ \<Rightarrow> 0)"

definition configBool :: "metadata \<Rightarrow> string \<Rightarrow> bool \<Rightarrow> bool" where
  "configBool configuration key fallback = (case map_of configuration key of Some (AnyBool value) \<Rightarrow> value | _ \<Rightarrow> fallback)"

definition credentialFile :: "string \<Rightarrow> string" where
  "credentialFile reference = (if has_prefix reference ''file:'' then trim_space (trim_prefix reference ''file:'') else '''')"

end
