(* ===== verification/Remote_Files.thy ===== *)
theory Remote_Files
  imports Storage_Files Storage_Service Command_Executor
begin

text \<open>
  The storage driver for a file system behind a login node, \<^verbatim>\<open>internal/provider/storage/sshfilesystem/driver.go\<close>: a
  path is checked against the base, a fixed program is sent to the login node with the base and the path in it,
  and its output is read as a listing. The connections and the executor are functions on a state \<open>'w\<close>.
\<close>

section \<open>The programs\<close>

definition commonScript :: string where
  \<open>commonScript = join_char newline
       [raw_lit ''decode(){ printf '%s' "$1" | base64 -d; }'',
        raw_lit ''root=$(decode "$1") || exit 2'',
        raw_lit ''rel=$(decode "$2") || exit 2'',
        raw_lit ''root=$(realpath -e -- "$root") || exit 2'',
        raw_lit ''candidate="$root${rel:+/$rel}"'',
        raw_lit ''safe_existing(){'',
        raw_lit ''  resolved=$(realpath -e -- "$candidate") || return 1'',
        raw_lit ''  case "$resolved" in "$root"|"$root"/*) ;; *) return 1;; esac'',
        raw_lit ''}'']\<close>

definition listScript :: string where
  \<open>listScript = commonScript @ [newline] @ raw_lit ''safe_existing || exit 3; test -d "$resolved" || exit 4; find -P "$resolved" -mindepth 1 -maxdepth 1 -printf '%f`t%y`t%s`t%T@`t%l`n~''\<close>

definition statScript :: string where
  \<open>statScript = commonScript @ [newline] @ raw_lit ''safe_existing || exit 3; find -P "$resolved" -maxdepth 0 -printf '%f`t%y`t%s`t%T@`t%l`n~''\<close>

definition catScript :: string where
  \<open>catScript = commonScript @ [newline] @ raw_lit ''safe_existing || exit 3; test -f "$resolved" || exit 4; cat -- "$resolved"''\<close>

definition removeScript :: string where
  \<open>removeScript = commonScript @ [newline] @ raw_lit ''safe_existing || exit 3; test ! -d "$resolved" || exit 4; rm -- "$resolved"''\<close>

definition writeScript :: string where
  \<open>writeScript = commonScript @ [newline] @ join_char newline
       [raw_lit ''parent=$(dirname -- "$candidate")'',
        raw_lit ''parent=$(realpath -e -- "$parent") || exit 3'',
        raw_lit ''case "$parent" in "$root"|"$root"/*) ;; *) exit 4;; esac'',
        raw_lit ''target="$parent/$(basename -- "$candidate")"'',
        raw_lit ''tmp="$target.akoflow-copy-part"'',
        raw_lit ''cat > "$tmp" && mv -f -- "$tmp" "$target"'']\<close>

text \<open>The first line of a program gives it the root and the path as arguments, encoded.\<close>

definition argument_line :: "string \<Rightarrow> string \<Rightarrow> string" where
  "argument_line base relative =
     ''set -- '' @ [squote] @ base64_encode base @ [squote] @ '' '' @ [squote] @ base64_encode relative @ [squote] @ [newline]"

definition remote_program :: "string \<Rightarrow> string \<Rightarrow> string \<Rightarrow> string" where
  "remote_program script base relative = argument_line base relative @ [newline] @ script"

definition program_arguments :: "string \<Rightarrow> string list" where
  "program_arguments program = [''-c'', ''printf %s '' @ base64_encode program @ '' | base64 -d | sh'']"

section \<open>Connections\<close>

record 'w RemoteDriver =
  rdr_FindConnection :: "(string \<Rightarrow> 'w \<Rightarrow> (error + EnvironmentConnection option) \<times> 'w) option"
  rdr_executor :: "'w executor"
  rdr_MkdirAll :: "string \<Rightarrow> 'w \<Rightarrow> error option \<times> 'w"
  rdr_numbers :: Numbers

text \<open>\<^verbatim>\<open>integer\<close>, \<^verbatim>\<open>boolean\<close> and \<^verbatim>\<open>credentialFile\<close> of the driver; \<^verbatim>\<open>metadataString\<close> is \<^const>\<open>configString\<close>.\<close>

definition remote_integer :: "Numbers \<Rightarrow> metadata \<Rightarrow> string \<Rightarrow> int" where
  "remote_integer nu configuration key =
     (case map_of configuration key of
        Some (AnyInt v) \<Rightarrow> v
      | Some (AnyFloat64 v) \<Rightarrow> to_int64 nu v
      | Some (AnyString v) \<Rightarrow> fst (ParseInt64 v)
      | _ \<Rightarrow> 0)"

definition remote_boolean :: "metadata \<Rightarrow> string \<Rightarrow> bool" where
  "remote_boolean configuration key = (map_of configuration key = Some (AnyBool True))"

definition remote_credentialFile :: "string \<Rightarrow> string" where
  "remote_credentialFile reference = trim_prefix (trim_space reference) ''file:''"

definition connectionExecutor :: "'w RemoteDriver \<Rightarrow> StorageResource \<Rightarrow> 'w \<Rightarrow> (error + 'w executor) \<times> 'w" where
  "connectionExecutor drv storage w =
     (case rdr_FindConnection drv of
        None \<Rightarrow> (Inl (Errorf ''SSH storage connection store is required'' []), w)
      | Some find_connection \<Rightarrow>
         (let i0 = configString (sto_Metadata storage) ''connectionId'';
              i = (if i0 = '''' then configString (sto_Configuration storage) ''connectionId'' else i0)
          in if i = '''' then (Inl (Errorf ''SSH storage %q has no connectionId'' [FmtS (sto_ID storage)]), w)
             else case find_connection i w of
               (Inl e, w1) \<Rightarrow> (Inl e, w1)
             | (Inr None, w1) \<Rightarrow> (Inl (Errorf ''SSH storage connection %q not found'' [FmtS i]), w1)
             | (Inr (Some connection), w1) \<Rightarrow>
                 (if con_Type connection = ConnectionLocal then (Inr (rdr_executor drv), w1)
                  else if con_Type connection \<notin> {ConnectionSSH, ConnectionAgent} then
                    (Inl (Errorf ''connection %q is not SSH-capable'' [FmtS i]), w1)
                  else
                    let c = con_Configuration connection in
                    (Inr (ssh_Run (rdr_MkdirAll drv)
                      \<lparr>ssh_Executor = Some (rdr_executor drv), ssh_Endpoint = con_Endpoint connection, ssh_Username = con_Username connection,
                       ssh_Port = remote_integer (rdr_numbers drv) c ''port'', ssh_IdentityFile = remote_credentialFile (con_CredentialRef connection),
                       ssh_ProxyCommand = configString c ''proxyCommand'', ssh_HostKeyAlias = configString c ''hostKeyAlias'',
                       ssh_KnownHostsFile = configString c ''knownHostsFile'', ssh_ForwardAgent = remote_boolean c ''forwardAgent''\<rparr>), w1))))"

definition runInput :: "'w RemoteDriver \<Rightarrow> StorageResource \<Rightarrow> string \<Rightarrow> string \<Rightarrow> string \<Rightarrow> string \<Rightarrow> 'w \<Rightarrow> (error + string) \<times> 'w" where
  "runInput drv storage script input base relative w =
     (case connectionExecutor drv storage w of
        (Inl e, w1) \<Rightarrow> (Inl e, w1)
      | (Inr run, w1) \<Rightarrow>
         (case run ''sh'' (program_arguments (remote_program script base relative)) input w1 of
            ((_, Some e), w2) \<Rightarrow> (Inl e, w2)
          | ((output, None), w2) \<Rightarrow> (Inr output, w2)))"

section \<open>Paths and listings\<close>

definition browseRoot :: "StorageResource \<Rightarrow> string \<Rightarrow> error + string \<times> string" where
  "browseRoot storage value =
     (let base = trim_space (sto_Endpoint storage) in
      if base = '''' then Inl (Errorf ''SSH storage root is required'' [])
      else if sto_BrowseRoots storage \<noteq> [] \<and> \<not> list_ex (\<lambda>candidate. path_Clean (sbr_Path candidate) = path_Clean base) (sto_BrowseRoots storage) then
        Inl (Errorf ''storage endpoint is not an allowed browse root'' [])
      else
        let cleaned = path_Clean (trim_prefix (trim_space value) ''/''); relative = (if cleaned = ''.'' then '''' else cleaned) in
        if relative = ''..'' \<or> has_prefix relative ''../'' \<or> is_abs relative then Inl (Errorf ''browse path escapes its root'' [])
        else Inr (path_Clean base, relative))"

definition tab :: char where
  "tab = CHR 9"

definition parse_error :: "string \<Rightarrow> error" where
  "parse_error s = Errorf ''strconv.ParseInt: parsing %q: %s''
     [FmtS s, FmtS (if fst (ParseInt64 s) = 0 then ''invalid syntax'' else ''value out of range'')]"

definition listing_entry :: "Numbers \<Rightarrow> StorageResource \<Rightarrow> string \<Rightarrow> string list \<Rightarrow> error + FileEntry" where
  "listing_entry nu storage parent fs =
     (if length fs < 4 then Inl (Errorf ''invalid SSH storage listing'' [])
      else case ParseInt64 (fs ! 2) of
        (_, True) \<Rightarrow> Inl (parse_error (fs ! 2))
      | (sz, False) \<Rightarrow>
          (let seconds = (case nu_ParseFloat nu (fs ! 3) of Inl _ \<Rightarrow> fzero | Inr x \<Rightarrow> x) in
           Inr \<lparr>fe_StorageID = sto_ID storage, fe_Path = path_Join parent (hd fs), fe_Name = hd fs,
                fe_Type = (if fs ! 1 = ''l'' then FileEntrySymlink else if fs ! 1 = ''d'' then FileEntryDirectory else FileEntryFile),
                fe_SizeBytes = sz, fe_ModifiedAt = to_int64 nu seconds * 1000000000, fe_Checksum = '''', fe_ETag = '''', fe_MediaType = '''',
                fe_Readable = True, fe_Writable = (\<not> sto_ReadOnly storage), fe_LinkTarget = (if length fs > 4 then fs ! 4 else '''')\<rparr>))"

fun listing_entries :: "Numbers \<Rightarrow> StorageResource \<Rightarrow> string \<Rightarrow> string list \<Rightarrow> error + FileEntry list" where
  "listing_entries nu storage parent [] = Inr []"
| "listing_entries nu storage parent (line # ls) =
     (if line = '''' then listing_entries nu storage parent ls
      else case listing_entry nu storage parent (split_char tab line) of
        Inl e \<Rightarrow> Inl e
      | Inr entry \<Rightarrow> map_sum (\<lambda>e. e) ((#) entry) (listing_entries nu storage parent ls))"

definition parseEntries :: "Numbers \<Rightarrow> StorageResource \<Rightarrow> string \<Rightarrow> string \<Rightarrow> error + FileEntry list" where
  "parseEntries nu storage parent output = listing_entries nu storage parent (split_char newline (trim_space output))"

section \<open>The operations\<close>

text \<open>Entries are sorted by name; names in a directory differ, so that the order is determined.\<close>

definition remote_page :: "StorageResource \<Rightarrow> string \<Rightarrow> FileEntry list \<Rightarrow> int \<Rightarrow> int \<Rightarrow> BrowsePage result" where
  "remote_page storage relative items start0 limit =
     (let n = int (length items); start = (if start0 > n then n else start0);
          end0 = wrap64 (start + page_limit limit); end1 = (if end0 > n then n else end0)
      in if end1 < start then Panic ''runtime error: slice bounds out of range''
         else Ok \<lparr>bpg_StorageID = sto_ID storage, bpg_Path = relative, bpg_Entries = drop (nat start) (take (nat end1) items),
                  bpg_NextCursor = (if end1 < n then itoa end1 else '''')\<rparr>)"

definition invalid_cursor :: error where
  "invalid_cursor = Errorf ''invalid browse cursor'' []"

definition remote_Browse :: "'w RemoteDriver \<Rightarrow> StorageResource \<Rightarrow> BrowseRequest \<Rightarrow> 'w \<Rightarrow> BrowsePage result \<times> 'w" where
  "remote_Browse drv storage request w =
     (if brq_Cursor request \<noteq> '''' \<and> Atoi (brq_Cursor request) = None then (Err invalid_cursor, w)
      else case browseRoot storage (brq_Path request) of
        Inl e \<Rightarrow> (Err e, w)
      | Inr (base, relative) \<Rightarrow>
     (case runInput drv storage listScript '''' base relative w of
        (Inl e, w1) \<Rightarrow> (Err e, w1)
      | (Inr output, w1) \<Rightarrow>
     (case parseEntries (rdr_numbers drv) storage relative output of
        Inl e \<Rightarrow> (Err e, w1)
      | Inr items \<Rightarrow>
         (let start = (case Atoi (brq_Cursor request) of None \<Rightarrow> 0 | Some i \<Rightarrow> i) in
          if start < 0 then (Err invalid_cursor, w1)
          else (remote_page storage relative (sort_key fe_Name items) start (brq_Limit request), w1)))))"

definition remote_BrowseStat :: "'w RemoteDriver \<Rightarrow> StorageResource \<Rightarrow> string \<Rightarrow> 'w \<Rightarrow> (error + FileEntry) \<times> 'w" where
  "remote_BrowseStat drv storage value w =
     (case browseRoot storage value of
        Inl e \<Rightarrow> (Inl e, w)
      | Inr (base, relative) \<Rightarrow>
     (case runInput drv storage statScript '''' base relative w of
        (Inl e, w1) \<Rightarrow> (Inl e, w1)
      | (Inr output, w1) \<Rightarrow>
     (case parseEntries (rdr_numbers drv) storage (path_Dir relative) output of
        Inl e \<Rightarrow> (Inl e, w1)
      | Inr [entry] \<Rightarrow> (Inr (entry\<lparr>fe_Path := relative, fe_Name := path_Base relative\<rparr>), w1)
      | Inr _ \<Rightarrow> (Inl (Errorf ''storage entry not found'' []), w1))))"

definition remote_Open :: "'w RemoteDriver \<Rightarrow> StorageResource \<Rightarrow> string \<Rightarrow> 'w \<Rightarrow> (error + reader \<times> FileEntry) \<times> 'w" where
  "remote_Open drv storage value w =
     (case remote_BrowseStat drv storage value w of
        (Inl e, w1) \<Rightarrow> (Inl e, w1)
      | (Inr entry, w1) \<Rightarrow>
         (if fe_Type entry \<noteq> FileEntryFile then (Inl (Errorf ''only files can be downloaded'' []), w1)
          else
            let (base, relative) = (case browseRoot storage value of Inl _ \<Rightarrow> ('''', '''') | Inr rr \<Rightarrow> rr) in
            case runInput drv storage catScript '''' base relative w1 of
              (Inl e, w2) \<Rightarrow> (Inl e, w2)
            | (Inr content, w2) \<Rightarrow> (Inr ((content, None), entry), w2)))"

definition remote_Remove :: "'w RemoteDriver \<Rightarrow> StorageResource \<Rightarrow> string \<Rightarrow> 'w \<Rightarrow> error option \<times> 'w" where
  "remote_Remove drv storage value w =
     (if sto_ReadOnly storage then (Some (Errorf ''storage is read-only'' []), w)
      else case browseRoot storage value of
        Inl e \<Rightarrow> (Some e, w)
      | Inr (base, relative) \<Rightarrow>
         (case runInput drv storage removeScript '''' base relative w of (Inl e, w1) \<Rightarrow> (Some e, w1) | (Inr _, w1) \<Rightarrow> (None, w1)))"

definition remote_Write :: "'w RemoteDriver \<Rightarrow> StorageResource \<Rightarrow> string \<Rightarrow> reader \<Rightarrow> int \<Rightarrow> 'w \<Rightarrow> error option \<times> 'w" where
  "remote_Write drv storage value source sz w =
     (if sto_ReadOnly storage then (Some (Errorf ''storage is read-only'' []), w)
      else case browseRoot storage value of
        Inl e \<Rightarrow> (Some e, w)
      | Inr (base, relative) \<Rightarrow>
         (case source of
            (_, Some e) \<Rightarrow> (Some e, w)
          | (content, None) \<Rightarrow>
             (case runInput drv storage writeScript content base relative w of (Inl e, w1) \<Rightarrow> (Some e, w1) | (Inr _, w1) \<Rightarrow> (None, w1))))"

definition remote_browser :: "'w RemoteDriver \<Rightarrow> 'w StorageBrowser" where
  "remote_browser drv = \<lparr>sb_Browse = remote_Browse drv, sb_BrowseStat = remote_BrowseStat drv, sb_Open = remote_Open drv,
     sb_Remove = remote_Remove drv, sb_Write = remote_Write drv\<rparr>"

end
