(* ===== verification/Remote_File_Properties.thy ===== *)
theory Remote_File_Properties
  imports Remote_Files
begin

text \<open>
  What the storage driver behind a login node guarantees: every path stays below the root, the program and its
  arguments arrive as they were given, whatever characters they contain, and the pages of a listing.
\<close>

section \<open>Paths\<close>

lemma dot_join: "list_all plain cs \<Longrightarrow> join_slash cs \<noteq> ''.''"
proof (cases cs rule: join_slash.cases)
  case (3 c d ds)
  assume "list_all plain cs"
  have "CHR ''/'' \<in> set (join_slash cs)" using 3 by simp
  then show ?thesis by auto
qed (auto simp: plain_def)

lemma clean_slash: "is_abs base \<Longrightarrow> path_Clean (base @ ''/'') = ''/'' @ join_slash (path_comps base)"
proof -
  assume a: "is_abs base"
  then have "is_abs (base @ s)" for s by (cases base) auto
  moreover have "clean_comps True (split_slash base @ [[]]) [] = clean_comps True (split_slash base) []"
    by (simp add: clean_comps_append)
  moreover have "split_slash (base @ [CHR ''/'']) = split_slash base @ [[]]" using split_slash_join [of base "[]"] by simp
  ultimately show ?thesis using a by (simp add: path_Clean_def path_of_def path_comps_def)
qed

text \<open>
  C33. Every path that is accepted is empty or made of plain components, so that below an absolute root it names the root or
  something under it, and the root is the endpoint that is allowed.
\<close>

theorem remote_paths_confined:
  assumes "browseRoot storage value = Inr (base, relative)"
  shows "\<exists>cs. list_all plain cs \<and> relative = join_slash cs \<and> base = path_Clean (trim_space (sto_Endpoint storage)) \<and>
    (is_abs base \<longrightarrow> path_Join base relative = ''/'' @ join_slash (path_comps base @ cs)) \<and>
    (sto_BrowseRoots storage \<noteq> [] \<longrightarrow> (\<exists>r \<in> set (sto_BrowseRoots storage). path_Clean (sbr_Path r) = base))"
proof -
  let ?name = "trim_prefix (trim_space value) ''/''"
  have r: "base = path_Clean (trim_space (sto_Endpoint storage))" "relative = (if path_Clean ?name = ''.'' then '''' else path_Clean ?name)"
    and e: "\<not> escapes relative" and roots: "sto_BrowseRoots storage \<noteq> [] \<longrightarrow> list_ex (\<lambda>c. path_Clean (sbr_Path c) = base) (sto_BrowseRoots storage)"
    using assms by (auto simp: browseRoot_def Let_def escapes_def split: if_splits)
  have "\<not> escapes (path_Clean ?name)" using e by (auto simp: r(2) escapes_def has_prefix_def split: if_splits)
  then have p: "\<not> is_abs ?name" "list_all plain (path_comps ?name)" using not_escapes_plain by auto
  have rel: "relative = join_slash (path_comps ?name)"
    using p join_plain_rel [of "hd (path_comps ?name)" "tl (path_comps ?name)"] dot_join [OF p(2)] by (auto simp: r(2) path_Clean_def path_of_def)
  have "path_Join base relative = ''/'' @ join_slash (path_comps base @ path_comps ?name)" if a: "is_abs base"
  proof (cases "path_comps ?name = []")
    case True
    moreover have "base \<noteq> ''''" using a by auto
    ultimately show ?thesis using clean_slash [OF a] by (simp add: rel path_Join_def)
  next
    case False
    then have "relative = path_Clean ?name" using p(1) by (simp add: rel path_Clean_def path_of_def)
    then show ?thesis using join_below [OF a p] by simp
  qed
  then show ?thesis using p(2) rel r(1) roots by (auto simp: list_ex_iff)
qed

definition demo_remote :: StorageResource where
  "demo_remote = \<lparr>sto_ID = ''s'', sto_EnvironmentVersionID = [], sto_Name = ''s'', sto_Type = StorageSSH, sto_Endpoint = '' /srv/data/ '',
     sto_CapacityBytes = 0, sto_Shared = False, sto_ReadOnly = False, sto_Configuration = [], sto_CredentialReference = [], sto_Metadata = [],
     sto_RuntimeBindings = [], sto_BrowseRoots = [\<lparr>sbr_Path = ''/srv/./data'', sbr_Label = [], sbr_ReadOnly = False\<rparr>],
     sto_Capabilities = \<lparr>stc_Browse = True, stc_Read = True, stc_Write = True, stc_Download = True,
       stc_Upload = False, stc_Checksum = False, stc_PresignedDownload = False, stc_ComputeNodeVisible = False\<rparr>,
     sto_Health = \<lparr>shs_Status = StorageHealthUnknown, shs_Message = [], shs_CheckedAt = 0, shs_AvailableBytes = 0\<rparr>,
     sto_IndexPolicy = \<lparr>ixp_Enabled = False, ixp_Roots = [], ixp_MaxDepth = 0, ixp_MaxEntries = 0, ixp_Include = [], ixp_Exclude = [], ixp_TimeoutSeconds = 0\<rparr>,
     sto_IndexStatus = \<lparr>ixs_Status = [], ixs_IndexedEntries = 0, ixs_LastIndexedAt = 0, ixs_Message = []\<rparr>\<rparr>"

lemma demo_remote_path: "browseRoot demo_remote ''/a/../b//c'' = Inr (''/srv/data'', ''b/c'')"
  by code_simp

theorem remote_paths_confined_witness:
  "browseRoot demo_remote ''/a/../b//c'' = Inr (''/srv/data'', ''b/c'') \<and>
   (\<exists>cs. list_all plain cs \<and> ''b/c'' = join_slash cs \<and> ''/srv/data'' = path_Clean (trim_space (sto_Endpoint demo_remote)) \<and>
    (is_abs ''/srv/data'' \<longrightarrow> path_Join ''/srv/data'' ''b/c'' = ''/'' @ join_slash (path_comps ''/srv/data'' @ cs)) \<and>
    (sto_BrowseRoots demo_remote \<noteq> [] \<longrightarrow> (\<exists>r \<in> set (sto_BrowseRoots demo_remote). path_Clean (sbr_Path r) = ''/srv/data'')))"
  using demo_remote_path remote_paths_confined [OF demo_remote_path] by (rule conjI)

section \<open>Programs\<close>

lemma quoted_plain: "squote \<notin> set v \<Longrightarrow> scan env None (squote # v @ squote # r) = scan env (Some v) r"
  using scan_slurm_quoted [of env v r] by (simp add: slurm_shellQuote_def replace_char_id)

lemma encoded_chars: "squote \<notin> set (base64_encode s)" "newline \<notin> set (base64_encode s)"
proof -
  show "squote \<notin> set (base64_encode s)" by (rule base64_encode_chars) (simp_all add: base64_values)
  show "newline \<notin> set (base64_encode s)" by (rule base64_encode_chars) (simp_all add: base64_values, simp add: newline_code)
qed

definition set_words :: "string \<Rightarrow> string \<Rightarrow> string" where
  "set_words u v = ''set'' @ CHR '' '' # ''--'' @ CHR '' '' # squote # base64_encode u @ squote # CHR '' '' # squote # base64_encode v @ [squote]"

lemma argument_words: "shell_words env (set_words u v) = Some [''set'', ''--'', base64_encode u, base64_encode v]"
proof -
  have w: "list_all plain_char ''set''" "list_all plain_char ''--''" by code_simp+
  have "scan env None (squote # base64_encode u @ squote # CHR '' '' # squote # base64_encode v @ [squote]) = Some [base64_encode u, base64_encode v]"
    using quoted_plain [OF encoded_chars(1), of env v "[]"] unfolding quoted_plain [OF encoded_chars(1), of env u] by simp
  then show ?thesis unfolding shell_words_def set_words_def by (simp only: scan_word [OF w(1)] scan_word [OF w(2)] list.simps option.map simp_thms)
qed

text \<open>
  C34. Whatever characters the root and the path contain, the login shell reads the command of an operation as it was given,
  what the command decodes is the program, and the first line of the program sets exactly the encoded root and path.
\<close>

theorem remote_program_intact:
  "\<exists>sent line r v. shell_words env (remote_command ''sh'' (program_arguments (remote_program script base relative))) =
       Some [''sh'', ''-c'', ''printf %s '' @ sent @ '' | base64 -d | sh''] \<and>
     base64_decode sent = Some (remote_program script base relative) \<and>
     split_char newline (remote_program script base relative) = line # [] # split_char newline script \<and>
     shell_words env line = Some [''set'', ''--'', r, v] \<and> base64_decode r = Some base \<and> base64_decode v = Some relative"
proof (intro exI conjI)
  let ?p = "remote_program script base relative"
  show "shell_words env (remote_command ''sh'' (program_arguments ?p)) = Some [''sh'', ''-c'', ''printf %s '' @ base64_encode ?p @ '' | base64 -d | sh'']"
    using encoded_chars(1) [of ?p] scan_ssh_unwords [of env "''sh'' # program_arguments ?p"]
    by (simp add: shell_words_def remote_command_def program_arguments_def)
  show "base64_decode (base64_encode ?p) = Some ?p" "base64_decode (base64_encode base) = Some base" "base64_decode (base64_encode relative) = Some relative"
    by (rule base64_decode_encode)+
  have "newline \<notin> set (set_words base relative)" using encoded_chars(2) by (simp add: set_words_def newline_code)
  moreover have "?p = set_words base relative @ newline # newline # script" by (simp add: remote_program_def argument_line_def set_words_def)
  ultimately show "split_char newline ?p = set_words base relative # [] # split_char newline script"
    using split_char_append [of newline "set_words base relative" "newline # script"] split_char_append [of newline "[]" script] by simp
  show "shell_words env (set_words base relative) = Some [''set'', ''--'', base64_encode base, base64_encode relative]" by (rule argument_words)
qed

section \<open>Pages\<close>

text \<open>A page that starts inside the listing is the slice of the limit's length, and its cursor is where the next one starts.\<close>

lemma remote_page_slice:
  assumes "0 \<le> start" "start \<le> int (length items)" "int (length items) \<le> 2 ^ 62"
  shows "\<exists>page. remote_page storage relative items start limit = Ok page \<and>
    bpg_Entries page = take (nat (page_limit limit)) (drop (nat start) items) \<and>
    bpg_NextCursor page = (if start + page_limit limit < int (length items) then itoa (start + page_limit limit) else '''')"
proof -
  have l: "0 < page_limit limit" "page_limit limit \<le> 500" by (auto simp: page_limit_def)
  then have w: "wrap64 (start + page_limit limit) = start + page_limit limit" using assms by (intro wrap64_id) auto
  let ?e = "if start + page_limit limit > int (length items) then int (length items) else start + page_limit limit"
  have "drop (nat start) (take (nat ?e) items) = take (nat (page_limit limit)) (drop (nat start) items)"
    using assms l by (auto simp: drop_take nat_add_distrib)
  then show ?thesis using assms l by (auto simp: remote_page_def Let_def w)
qed

end
