(* ===== verification/Slurm_Script.thy ===== *)
theory Slurm_Script
  imports Command_Executor Activity_Controller
begin

text \<open>
  The scripts of the SLURM provider, \<^verbatim>\<open>internal/provider/slurm/adapter.go\<close> and \<^verbatim>\<open>console_runner.go\<close>: the batch
  script of an activity with its directives and its status file, the script of a direct run on the login node, the
  command line that both end with, and the script of a console command.
\<close>

section \<open>Tokens and names\<close>

definition token_char :: "char \<Rightarrow> bool" where
  "token_char c \<longleftrightarrow> is_alpha c \<or> is_digit c \<or> c \<in> set ''._-''"

definition shellToken :: "string \<Rightarrow> string" where
  "shellToken value = map_runes (\<lambda>r. case r of [c] \<Rightarrow> if token_char c then [c] else ''-'' | _ \<Rightarrow> ''-'') value"

definition slurmSentinelPrefix :: "string \<Rightarrow> string \<Rightarrow> string" where
  "slurmSentinelPrefix runID activityID = ''akoflow-'' @ shellToken runID @ ''-'' @ shellToken activityID @ ''-''"

definition slurmLogPath :: "string \<Rightarrow> string \<Rightarrow> string \<Rightarrow> string" where
  "slurmLogPath runID activityID jobID = slurmSentinelPrefix runID activityID @ jobID @ ''.log''"

definition slurmSentinelPath :: "string \<Rightarrow> string \<Rightarrow> string \<Rightarrow> string" where
  "slurmSentinelPath runID activityID jobID = slurmSentinelPrefix runID activityID @ jobID @ ''.status''"

definition slurmArtifactRoot :: "string \<Rightarrow> string \<Rightarrow> string" where
  "slurmArtifactRoot runID activityID = ''akoflow-workspaces/'' @ shellToken runID @ ''/'' @ shellToken activityID"

section \<open>Executables\<close>

definition slurmExecutable :: "ActivityCommand \<Rightarrow> error + string" where
  "slurmExecutable command =
     (case cmd_ResolvedExecutable command of
        Some resolved \<Rightarrow>
          (let path = (if rex_LocalPath resolved = '''' then rex_RemotePath resolved else rex_LocalPath resolved) in
           if path = '''' \<or> \<not> rex_MaterializationDone resolved then Inl (Errorf ''executable materialization is not committed'' [])
           else Inr path)
      | None \<Rightarrow>
     (case command_EffectiveExecutable command of
        None \<Rightarrow> Inr ''''
      | Some ref \<Rightarrow>
          (let img = trim_space (cmd_Image command); source = ref_Source ref in
           if src_Type source = ExecutableSourceRemoteFile \<and> src_Path source \<noteq> '''' \<and> dlv_Strategy (ref_Delivery ref) = DeliveryUseInPlace then
             Inr (src_Path source)
           else if img \<noteq> '''' \<and> (has_prefix img ''/'' \<or> has_prefix img ''./'' \<or> has_suffix img ''.sif'') then Inr img
           else Inl (Errorf ''executable %q requires artifact materialization before Slurm submission'' [FmtS (src_Reference source)]))))"

definition validateSlurmPrerequisites :: "Activity \<Rightarrow> error option" where
  "validateSlurmPrerequisites activity =
     (case slurmExecutable (act_Command activity) of
        Inl e \<Rightarrow> Some (Errorf ''activity %q is not ready for Slurm: %w'' [FmtS (act_ID activity), FmtE e])
      | Inr _ \<Rightarrow> None)"

section \<open>The activity's commands\<close>

text \<open>Literals write a tilde for a newline and a caret for a backslash.\<close>

definition lit :: "string \<Rightarrow> string" where
  "lit s = map (\<lambda>c. if c = CHR ''~'' then newline else if c = CHR ''^'' then backslash else c) s"

definition export_line :: "string \<times> string \<Rightarrow> string" where
  "export_line = (\<lambda>(key, value). ''export '' @ shellToken key @ ''='' @ slurm_shellQuote value @ [newline])"

text \<open>What a container runs first: the uptime of the node, into the file of its first argument.\<close>

definition start_probe :: string where
  \<open>start_probe = ''awk '{print $1}' /proc/uptime > "$1"; shift; exec "$@"''\<close>

definition activity_line :: "string \<Rightarrow> string \<Rightarrow> ActivityCommand \<Rightarrow> string" where
  "activity_line img containerStartMarker command =
     (if img \<noteq> '''' then
        ''singularity exec '' @ slurm_shellQuote img @
        (if containerStartMarker \<noteq> '''' then '' /bin/sh -c '' @ slurm_shellQuote start_probe @ '' sh '' @ containerStartMarker @ '' '' else '' '')
      else '''') @
     slurm_shellQuote (cmd_Entrypoint command) @ concat (map (\<lambda>argument. '' '' @ slurm_shellQuote argument) (cmd_Arguments command))"

text \<open>The environment is a map, which is visited in the order \<open>ord\<close> chooses.\<close>

definition writeActivityCommand :: "((string \<times> string) list \<Rightarrow> (string \<times> string) list) \<Rightarrow> Activity \<Rightarrow> string \<Rightarrow> error + string" where
  "writeActivityCommand ord activity containerStartMarker =
     (let command = act_Command activity in
      case slurmExecutable command of
        Inl e \<Rightarrow> Inl e
      | Inr img \<Rightarrow>
          Inr (concat (map export_line (in_order ord (cmd_Environment command))) @
            (if cmd_WorkingDirectory command \<noteq> '''' then ''cd '' @ slurm_shellQuote (cmd_WorkingDirectory command) @ [newline] else '''') @
            activity_line img containerStartMarker command @ [newline]))"

definition directScript :: "((string \<times> string) list \<Rightarrow> (string \<times> string) list) \<Rightarrow> Activity \<Rightarrow> error + string" where
  "directScript ord activity =
     (if cmd_Entrypoint (act_Command activity) = '''' then Inl (Errorf ''activity entrypoint is required'' [])
      else case writeActivityCommand ord activity '''' of Inl e \<Rightarrow> Inl e | Inr commands \<Rightarrow> Inr (lit ''#!/bin/sh~set -eu~'' @ commands))"

section \<open>The batch script\<close>

text \<open>Integer division of Go rounds towards zero.\<close>

definition quotient :: "int \<Rightarrow> int \<Rightarrow> int" where
  "quotient a b = (if 0 \<le> a then a div b else - ((- a) div b))"

definition mebibytes :: "int \<Rightarrow> int" where
  "mebibytes bytes = quotient (wrap64 (bytes + 1048575)) 1048576"

definition directive :: "string \<Rightarrow> string \<Rightarrow> string" where
  "directive name value = ''#SBATCH --'' @ name @ ''='' @ value @ [newline]"

definition directives :: "Numbers \<Rightarrow> string \<Rightarrow> Activity \<Rightarrow> string \<Rightarrow> string \<Rightarrow> string" where
  "directives nu runID activity part node =
     directive ''job-name'' (shellToken (''akoflow-'' @ act_ID activity)) @
     directive ''output'' (slurmLogPath runID (act_ID activity) ''%j'') @
     (if part \<noteq> '''' then directive ''partition'' (shellToken part) else '''') @
     (if node \<noteq> '''' then directive ''nodelist'' (shellToken node) else '''') @
     (let cpu = ares_CPU (act_Resources activity) in
      if flt fzero cpu then directive ''cpus-per-task'' (itoa (to_int64 nu (fadd cpu (fround (999 / 1000))))) else '''') @
     (let memory = ares_MemoryBytes (act_Resources activity) in if memory > 0 then directive ''mem'' (itoa (mebibytes memory) @ ''M'') else '''')"

definition sentinel_setup :: "string \<Rightarrow> string \<Rightarrow> string" where
  \<open>sentinel_setup sentinelPrefix workingDirectory =
     lit ''sentinel_dir=$(pwd)~sentinel=$(printf '%s/%s' "$sentinel_dir" '' @
     slurm_shellQuote sentinelPrefix @
     lit '')~sentinel="${sentinel}${SLURM_JOB_ID}.status"~'' @
     lit ''artifact_root='' @
     slurm_shellQuote workingDirectory @
     lit ''~container_start_marker="${sentinel}.container-started"~rm -f "$container_start_marker"~mkdir -p "$artifact_root"~artifact_before=$(mktemp)~find "$artifact_root" -type f -print 2>/dev/null | sort > "$artifact_before"~'' @
     lit ''started_at=$(date +%s.%N)~allocated_node=$(hostname -s)~container_epoch_anchor=$(date +%s.%N)~container_uptime_anchor=$(awk '{print $1}' /proc/uptime)~printf 'state=running^nstarted_at=%s^nallocated_node=%s^nartifact_root=%s^n' "$started_at" "$allocated_node" "$artifact_root" > "$sentinel"~''\<close>

definition sentinel_finish :: string where
  \<open>sentinel_finish =
     lit ''finish() { code=$?; state=completed; [ "$code" -eq 0 ] || state=failed; '' @
     lit ''container_started_at=0; if [ -f "$container_start_marker" ]; then container_uptime=$(cat "$container_start_marker"); container_started_at=$(awk -v epoch="$container_epoch_anchor" -v anchor="$container_uptime_anchor" -v current="$container_uptime" 'BEGIN { printf "%.9f", epoch + current - anchor }'); fi; '' @
     lit ''{ printf 'state=%s^nexit_code=%s^nstarted_at=%s^nallocated_node=%s^ncontainer_started_at=%s^nartifact_root=%s^n' "$state" "$code" "$started_at" "$allocated_node" "$container_started_at" "$artifact_root"; '' @
     lit ''find "$artifact_root" -type f -print 2>/dev/null | sort | comm -13 "$artifact_before" - | '' @
     lit ''while IFS= read -r file; do relative=${file#"$artifact_root"/}; '' @
     lit ''size=$(wc -c < "$file" 2>/dev/null) || continue; '' @
     lit ''checksum=$(sha256sum "$file" 2>/dev/null | awk '{print $1}') || continue; '' @
     lit ''encoded=$(printf '%s' "$relative" | base64 | tr -d '^n'); '' @
     lit ''printf 'artifact=%s|%s|%s^n' "$encoded" "$size" "$checksum"; done; '' @
     lit ''} > "$sentinel" || true; rm -f "$artifact_before" "$container_start_marker"; exit "$code"; }~'' @
     lit ''trap finish EXIT~set -eu~''\<close>

definition batchScript :: "Numbers \<Rightarrow> ((string \<times> string) list \<Rightarrow> (string \<times> string) list) \<Rightarrow> string \<Rightarrow> Activity \<Rightarrow> string \<Rightarrow> string \<Rightarrow> error + string" where
  "batchScript nu ord runID activity part node =
     (if cmd_Entrypoint (act_Command activity) = '''' then Inl (Errorf ''activity entrypoint is required'' [])
      else case writeActivityCommand ord activity ''$container_start_marker'' of
        Inl e \<Rightarrow> Inl e
      | Inr commands \<Rightarrow>
          Inr (lit ''#!/bin/sh~'' @ directives nu runID activity part node @
            sentinel_setup (slurmSentinelPrefix runID (act_ID activity)) (cmd_WorkingDirectory (act_Command activity)) @
            sentinel_finish @ commands))"

section \<open>Console commands\<close>

datatype CommandStatus = CommandRunning | CommandCompleted | CommandFailed | CommandStatusOther string

record ConsoleCommand =
  cc_ID :: string
  cc_ResourceID :: string
  cc_RuntimeID :: string
  cc_ConnectionID :: string
  cc_ActorID :: string
  cc_Command :: string
  cc_WorkingDirectory :: string
  cc_Environment :: "(string, string) gomap"
  cc_CPUCores :: int
  cc_MemoryBytes :: int
  cc_TimeoutSeconds :: int
  cc_Status :: CommandStatus
  cc_Stdout :: string
  cc_Stderr :: string
  cc_ExitCode :: "int option"
  cc_ExternalID :: string
  cc_Failure :: string
  cc_CreatedAt :: int
  cc_StartedAt :: int
  cc_FinishedAt :: "int option"

definition consoleScript :: "((string \<times> string) list \<Rightarrow> (string \<times> string) list) \<Rightarrow> Resource \<Rightarrow> ConsoleCommand \<Rightarrow> string" where
  "consoleScript ord resource command =
     lit ''#!/bin/sh~set -eu~'' @ concat (map export_line (in_order ord (cc_Environment command))) @
     (if cc_WorkingDirectory command \<noteq> '''' then ''cd '' @ slurm_shellQuote (cc_WorkingDirectory command) @ [newline] else '''') @
     (if res_ExecutionTarget resource = ExecutionTargetDirect then ''exec /bin/sh -lc '' @ slurm_shellQuote (cc_Command command) @ [newline]
      else
        ''exec srun'' @
        (if res_Type resource = ResourceHPCPartition then '' --partition='' @ shellToken (res_ProviderID resource) else '''') @
        (if res_Type resource = ResourceHPCMachine then '' --nodelist='' @ shellToken (res_ProviderID resource) else '''') @
        (if cc_CPUCores command > 0 then '' --cpus-per-task='' @ itoa (cc_CPUCores command) else '''') @
        (if cc_MemoryBytes command > 0 then '' --mem='' @ itoa (mebibytes (cc_MemoryBytes command)) @ ''M'' else '''') @
        '' --time='' @ itoa (max 1 (quotient (wrap64 (cc_TimeoutSeconds command + 59)) 60)) @
        '' /bin/sh -lc '' @ slurm_shellQuote (cc_Command command) @ [newline])"

end
