(* ===== verification/Slurm_Adapter.thy ===== *)
theory Slurm_Adapter
  imports Slurm_Script
begin

text \<open>
  The SLURM provider, \<^verbatim>\<open>internal/provider/slurm/adapter.go\<close> and \<^verbatim>\<open>connection_factory.go\<close>: submission of activities, their
  observation through the status file and the accounting of the cluster, cancellation, and the adapter of a
  connection. The executor, the file system, the clock, fresh identifiers and the adapter of the local machine
  are functions on a state \<open>'w\<close>.
\<close>

section \<open>Reading the scheduler\<close>

text \<open>The loop of \<^verbatim>\<open>parseJobID\<close>, over the lines from the last one.\<close>

fun find_job_id :: "string list \<Rightarrow> string option" where
  "find_job_id [] = None"
| "find_job_id (l # ls) =
     (let jobID = hd (split_char CHR '';'' (trim_space l)) in
      if trim_space l \<noteq> '''' \<and> is_uint64 jobID then Some jobID else find_job_id ls)"

definition parseJobID :: "string \<Rightarrow> error + string" where
  "parseJobID output =
     (case find_job_id (rev (split_lines output)) of
        Some jobID \<Rightarrow> Inr jobID
      | None \<Rightarrow> Inl (Errorf ''invalid Slurm job id in output %q'' [FmtS (trim_space output)]))"

definition sentinel_line :: "string \<Rightarrow> (string, string) gomap \<Rightarrow> (string, string) gomap" where
  "sentinel_line l values =
     (case cut_char CHR ''='' l of
        None \<Rightarrow> values
      | Some (key, value) \<Rightarrow>
          (let key' = (if key = ''artifact'' then ''artifact.'' @ itoa (int (length values)) else key)
           in put (trim_space key') (trim_space value) values))"

definition sentinelValues :: "string \<Rightarrow> (string, string) gomap" where
  "sentinelValues payload = fold sentinel_line (split_lines payload) []"

text \<open>Reading a missing key of a map of strings.\<close>

definition value_of :: "(string, string) gomap \<Rightarrow> string \<Rightarrow> string" where
  "value_of m k = (case map_of m k of None \<Rightarrow> '''' | Some v \<Rightarrow> v)"

fun slurm_control_field :: "string list \<Rightarrow> string" where
  "slurm_control_field [] = ''''"
| "slurm_control_field (f # fs) = (if has_prefix f ''JobState='' then trim_prefix f ''JobState='' else slurm_control_field fs)"

definition slurmControlState :: "string \<Rightarrow> string" where
  "slurmControlState payload = slurm_control_field (str_fields payload)"

section \<open>The status of a job\<close>

definition slurm_state :: "string \<Rightarrow> ActivityHandleStatus" where
  "slurm_state state =
     (if state \<in> {''PENDING'', ''CONFIGURING''} then HandleStarting
      else if state \<in> {''RUNNING'', ''COMPLETING''} then HandleRunning
      else if state = ''COMPLETED'' then HandleCompleted
      else if state = ''CANCELLED'' then HandleStopped
      else HandleFailed)"

definition applySlurmStatus :: "float64 \<Rightarrow> ActivityHandle \<Rightarrow> string \<Rightarrow> ActivityHandle" where
  "applySlurmStatus now h output =
     (let fs = split_char CHR ''|'' (trim_space (hd (split_lines output))) in
      if hd fs = '''' then h
      else
        let state = hd (split_char CHR ''+'' (hd fs)); status = slurm_state state;
            h1 = h\<lparr>hnd_Status := status\<rparr>;
            h2 = (if status = HandleFailed then h1\<lparr>hnd_Failure := ''Slurm state: '' @ state\<rparr> else h1);
            h3 = (if length fs > 1 then
                    (case Atoi (hd (split_char CHR '':'' (fs ! 1))) of None \<Rightarrow> h2 | Some code \<Rightarrow> h2\<lparr>hnd_ExitCode := Some code\<rparr>)
                  else h2)
        in if status \<in> {HandleCompleted, HandleFailed, HandleStopped} then h3\<lparr>hnd_FinishedAt := now\<rparr> else h3)"

definition artifact_file :: "string \<times> string \<Rightarrow> ArtifactObservation option" where
  "artifact_file = (\<lambda>(key, value).
     if \<not> has_prefix key ''artifact.'' then None
     else case splitn_char 3 CHR ''|'' value of
       [enc, sz, checksum] \<Rightarrow>
         (case (base64_decode enc, ParseInt64 sz) of
            (Some path, n, False) \<Rightarrow>
              Some \<lparr>obs_Path = path, obs_Change = ArtifactCreated, obs_SizeBytes = n, obs_Checksum = ''sha256:'' @ checksum, obs_ModifiedUnixNano = 0\<rparr>
          | _ \<Rightarrow> None)
     | _ \<Rightarrow> None)"

text \<open>The map of values is visited in the order \<open>ord\<close> chooses.\<close>

definition slurmArtifacts :: "((string \<times> string) list \<Rightarrow> (string \<times> string) list) \<Rightarrow> ActivityHandle \<Rightarrow> (string, string) gomap \<Rightarrow> ArtifactManifest" where
  "slurmArtifacts ord h values =
     (let rt = (if value_of values ''artifact_root'' = '''' then meta_string (hnd_Metadata h) ''artifactObservationRoot'' else value_of values ''artifact_root'');
          code = (case hnd_ExitCode h of None \<Rightarrow> 0 | Some c \<Rightarrow> c);
          files = List.map_filter artifact_file (in_order ord values);
          duration = fsub (hnd_FinishedAt h) (hnd_StartedAt h)
      in \<lparr>man_SchemaVersion = 1, man_RunID = hnd_RunID h, man_ActivityID = hnd_ActivityID h, man_Attempt = 1, man_Runtime = hnd_RuntimeID h,
          man_Hostname = '''', man_Root = rt, man_StartedAt = hnd_StartedAt h, man_FinishedAt = hnd_FinishedAt h, man_ExitCode = code,
          man_Files = files,
          man_Phases = [\<lparr>lco_Phase = ''execution'', lco_Status = (if code \<noteq> 0 then ''failed'' else ''completed''), lco_StartedAt = hnd_StartedAt h,
            lco_FinishedAt = hnd_FinishedAt h, lco_DurationSeconds = (if flt duration fzero then fzero else duration), lco_Error = ''''\<rparr>],
          man_Summary = \<lparr>sum_InitialFiles = 0, sum_FinalFiles = int (length files), sum_CreatedFiles = int (length files), sum_ModifiedFiles = 0,
            sum_DeletedFiles = 0, sum_OutputBytes = foldl (\<lambda>n f. wrap64 (n + obs_SizeBytes f)) 0 files\<rparr>\<rparr>)"

section \<open>The adapter\<close>

record 'w SlurmAdapter =
  sla_executor :: "'w executor option"
  sla_partition :: string
  sla_direct :: "'w RuntimeAdapter"
  sla_scriptDirectory :: string
  sla_submitFromStdin :: bool
  sla_MkdirAll :: "string \<Rightarrow> 'w \<Rightarrow> error option \<times> 'w"
  sla_WriteFile :: "string \<Rightarrow> string \<Rightarrow> 'w \<Rightarrow> error option \<times> 'w"
  sla_Abs :: "string \<Rightarrow> 'w \<Rightarrow> error + string"
  sla_now :: "'w \<Rightarrow> int"
  sla_NewID :: "string \<Rightarrow> 'w \<Rightarrow> string"
  sla_numbers :: Numbers
  sla_order :: "(string \<times> string) list \<Rightarrow> (string \<times> string) list"

definition saveScript :: "'w SlurmAdapter \<Rightarrow> string \<Rightarrow> string \<Rightarrow> string \<Rightarrow> string \<Rightarrow> 'w \<Rightarrow> (error + string) \<times> 'w" where
  "saveScript a runID activityID extension content w =
     (if sla_scriptDirectory a = '''' then (Inl (Errorf ''slurm script directory is required'' []), w)
      else
        let directory = path_Join (path_Join (sla_scriptDirectory a) (shellToken runID)) (shellToken activityID) in
        case sla_MkdirAll a directory w of
          (Some e, w1) \<Rightarrow> (Inl (Errorf ''create Slurm script directory: %w'' [FmtE e]), w1)
        | (None, w1) \<Rightarrow>
            (let path = path_Join directory (itoa (sla_now a w1) @ extension) in
             case sla_WriteFile a path content w1 of
               (Some e, w2) \<Rightarrow> (Inl (Errorf ''save Slurm script: %w'' [FmtE e]), w2)
             | (None, w2) \<Rightarrow>
                 (case sla_Abs a path w2 of
                    Inl e \<Rightarrow> (Inl (Errorf ''resolve Slurm script path: %w'' [FmtE e]), w2)
                  | Inr absolute \<Rightarrow> (Inr absolute, w2))))"

definition startDirect :: "'w SlurmAdapter \<Rightarrow> ActivityExecutionContext \<Rightarrow> 'w \<Rightarrow> ActivityHandle result \<times> 'w" where
  "startDirect a c w =
     (let activity = ctx_Activity c in
      case directScript (sla_order a) activity of
        Inl e \<Rightarrow> (Err e, w)
      | Inr script \<Rightarrow>
     (case saveScript a (run_ID (ctx_Run c)) (act_ID activity) ''.sh'' script w of
        (Inl e, w1) \<Rightarrow> (Err e, w1)
      | (Inr scriptPath, w1) \<Rightarrow>
     (case ra_Start (sla_direct a) (c\<lparr>ctx_Activity := activity\<lparr>act_Command := \<lparr>cmd_Image = '''', cmd_Executable = None,
         cmd_ResolvedExecutable = None, cmd_Entrypoint = ''/bin/sh'', cmd_Arguments = [scriptPath], cmd_Environment = [],
         cmd_WorkingDirectory = cmd_WorkingDirectory (act_Command activity)\<rparr>\<rparr>\<rparr>) w1 of
        (Ok h, w2) \<Rightarrow>
          (Ok (h\<lparr>hnd_Metadata := put ''scriptPath'' (AnyString scriptPath) (put ''slurmSubmission'' (AnyString ''login-node'')
            (put ''executionTarget'' (AnyString ''direct'') (hnd_Metadata h)))\<rparr>), w2)
      | (r, w2) \<Rightarrow> (r, w2))))"

definition default_directory :: "string \<Rightarrow> Activity \<Rightarrow> Activity" where
  "default_directory runID activity =
     (let command = act_Command activity in
      if cmd_WorkingDirectory command = '''' then
        activity\<lparr>act_Command := command\<lparr>cmd_WorkingDirectory := slurmArtifactRoot runID (act_ID activity)\<rparr>\<rparr>
      else activity)"

definition batch_handle :: "string \<Rightarrow> float64 \<Rightarrow> ActivityExecutionContext \<Rightarrow> Activity \<Rightarrow> string \<Rightarrow> string \<Rightarrow> ActivityHandle" where
  "batch_handle ident submittedAt c activity scriptPath jobID =
     (let runID = run_ID (ctx_Run c) in
      zero_handle\<lparr>hnd_ID := ident, hnd_RunID := runID, hnd_ActivityID := act_ID activity,
        hnd_ResourceID := res_ID (ctx_Resource c), hnd_RuntimeID := ctx_RuntimeID c, hnd_ExternalID := jobID, hnd_Status := HandleStarting,
        hnd_StartedAt := submittedAt,
        hnd_Metadata := [(''executionTarget'', AnyString ''batch''), (''scriptPath'', AnyString scriptPath),
          (''logPath'', AnyString (slurmLogPath runID (act_ID activity) jobID)),
          (''sentinelPath'', AnyString (slurmSentinelPath runID (act_ID activity) jobID)),
          (''submittedAt'', AnyFloat64 submittedAt), (''artifactObservationDriver'', AnyString ''filesystem-diff''),
          (''artifactObservationRoot'', AnyString (cmd_WorkingDirectory (act_Command activity)))]\<rparr>)"

definition submit :: "'w SlurmAdapter \<Rightarrow> 'w executor \<Rightarrow> ActivityExecutionContext \<Rightarrow> 'w \<Rightarrow> ActivityHandle result \<times> 'w" where
  "submit a run c w =
     (let resource = ctx_Resource c; runID = run_ID (ctx_Run c);
          part = (if res_Type resource = ResourceHPCPartition \<and> res_ProviderID resource \<noteq> '''' then res_ProviderID resource else sla_partition a);
          node = (if res_Type resource = ResourceHPCMachine \<and> res_ProviderID resource \<noteq> '''' then res_ProviderID resource else '''');
          activity = default_directory runID (ctx_Activity c)
      in case batchScript (sla_numbers a) (sla_order a) runID activity part node of
           Inl e \<Rightarrow> (Err e, w)
         | Inr script \<Rightarrow>
        (case saveScript a runID (act_ID activity) ''.sbatch'' script w of
           (Inl e, w1) \<Rightarrow> (Err e, w1)
         | (Inr scriptPath, w1) \<Rightarrow>
        (case (if sla_submitFromStdin a then run ''sbatch'' [''--parsable''] script w1 else run ''sbatch'' [''--parsable'', scriptPath] '''' w1) of
           ((_, Some e), w2) \<Rightarrow> (Err e, w2)
         | ((output, None), w2) \<Rightarrow>
        (case parseJobID output of
           Inl e \<Rightarrow> (Err e, w2)
         | Inr jobID \<Rightarrow> (Ok (batch_handle (sla_NewID a ''activity'' w2) (UnixSeconds (sla_now a w2)) c activity scriptPath jobID), w2)))))"

definition slurm_Start :: "'w SlurmAdapter \<Rightarrow> ActivityExecutionContext \<Rightarrow> 'w \<Rightarrow> ActivityHandle result \<times> 'w" where
  "slurm_Start a c w =
     (case (case ctx_Preparation c of None \<Rightarrow> None | Some gate \<Rightarrow> gate_Ready gate) of
        Some e \<Rightarrow> (Err (Errorf ''activity %q is not ready for Slurm: %w'' [FmtS (act_ID (ctx_Activity c)), FmtE e]), w)
      | None \<Rightarrow>
     (case validateSlurmPrerequisites (ctx_Activity c) of
        Some e \<Rightarrow> (Err e, w)
      | None \<Rightarrow>
         (if res_ExecutionTarget (ctx_Resource c) = ExecutionTargetDirect then startDirect a c w
          else case sla_executor a of
            None \<Rightarrow> (Err (Errorf ''slurm command executor is required'' []), w)
          | Some run \<Rightarrow> submit a run c w)))"

section \<open>Observation and cancellation\<close>

definition sentinel_timing :: "Numbers \<Rightarrow> (string, string) gomap \<Rightarrow> ActivityHandle \<Rightarrow> ActivityHandle" where
  "sentinel_timing nu values h =
     (let h1 = (case nu_ParseFloat nu (value_of values ''started_at'') of Inr t \<Rightarrow> if flt fzero t then h\<lparr>hnd_StartedAt := t\<rparr> else h | Inl _ \<Rightarrow> h);
          h2 = (case nu_ParseFloat nu (value_of values ''container_started_at'') of
                  Inr t \<Rightarrow> if flt fzero t then h1\<lparr>hnd_Metadata := put ''containerStartedAt'' (AnyFloat64 t) (hnd_Metadata h1)\<rparr> else h1 | Inl _ \<Rightarrow> h1);
          node = trim_space (value_of values ''allocated_node'')
      in if node \<noteq> '''' then h2\<lparr>hnd_Metadata := put ''allocatedNode'' (AnyString node) (hnd_Metadata h2)\<rparr> else h2)"

definition sentinel_state :: "float64 \<Rightarrow> (string, string) gomap \<Rightarrow> ActivityHandle \<Rightarrow> ActivityHandle option" where
  "sentinel_state now values h =
     (let state = value_of values ''state'' in
      if state = ''running'' then Some (h\<lparr>hnd_Status := HandleRunning\<rparr>)
      else if state = ''completed'' then Some (h\<lparr>hnd_Status := HandleCompleted, hnd_FinishedAt := now\<rparr>)
      else if state = ''failed'' then
        Some (h\<lparr>hnd_Status := HandleFailed, hnd_FinishedAt := now, hnd_Failure := ''Slurm job exited with code '' @ value_of values ''exit_code''\<rparr>)
      else None)"

text \<open>
  \<^verbatim>\<open>sentinelStatus\<close> gives the handle and whether the status file decides. The metadata map is shared with the caller's
  handle, so that what is written into it stays when the file does not decide.
\<close>

definition sentinelStatus :: "'w SlurmAdapter \<Rightarrow> 'w executor \<Rightarrow> ActivityHandle \<Rightarrow> 'w \<Rightarrow> (ActivityHandle \<times> bool) \<times> 'w" where
  "sentinelStatus a run h w =
     (let path = meta_string (hnd_Metadata h) ''sentinelPath'' in
      if path = '''' then ((h, False), w)
      else case run ''cat'' [path] '''' w of
        ((_, Some e), w1) \<Rightarrow> ((h, False), w1)
      | ((payload, None), w1) \<Rightarrow>
          (let values = sentinelValues payload; timed = sentinel_timing (sla_numbers a) values h in
           case sentinel_state (UnixSeconds (sla_now a w1)) values timed of
             None \<Rightarrow> ((h\<lparr>hnd_Metadata := hnd_Metadata timed\<rparr>, False), w1)
           | Some h1 \<Rightarrow>
               (let h2 = (case Atoi (value_of values ''exit_code'') of None \<Rightarrow> h1 | Some code \<Rightarrow> h1\<lparr>hnd_ExitCode := Some code\<rparr>);
                    h3 = (if hnd_Status h2 \<in> {HandleCompleted, HandleFailed} then h2\<lparr>hnd_Artifacts := Some (slurmArtifacts (sla_order a) h2 values)\<rparr> else h2)
                in ((h3, True), w1))))"

definition fallbackStatus :: "'w SlurmAdapter \<Rightarrow> 'w executor \<Rightarrow> ActivityHandle \<Rightarrow> error \<Rightarrow> 'w \<Rightarrow> ActivityHandle \<times> 'w" where
  "fallbackStatus a run h sacctErr w =
     (let ((output, err), w1) = run ''squeue'' [''--noheader'', ''--jobs'', hnd_ExternalID h, ''--format=%T''] '''' w in
      if err = None \<and> trim_space output \<noteq> '''' then (applySlurmStatus (UnixSeconds (sla_now a w1)) h output, w1)
      else
        let ((output2, err2), w2) = run ''scontrol'' [''show'', ''job'', hnd_ExternalID h, ''--oneliner''] '''' w1 in
        if err2 = None \<and> slurmControlState output2 \<noteq> '''' then
          (applySlurmStatus (UnixSeconds (sla_now a w2)) h (slurmControlState output2 @ ''|''), w2)
        else (h\<lparr>hnd_Status := HandleFailed, hnd_Failure := ''query Slurm job status: '' @ error_text sacctErr,
                hnd_FinishedAt := UnixSeconds (sla_now a w2)\<rparr>, w2))"

definition is_direct :: "ActivityHandle \<Rightarrow> bool" where
  "is_direct h \<longleftrightarrow> map_of (hnd_Metadata h) ''executionTarget'' = Some (AnyString ''direct'')"

definition nil_executor :: string where
  "nil_executor = ''invalid memory address or nil pointer dereference''"

definition slurm_Inspect :: "'w SlurmAdapter \<Rightarrow> ActivityHandle \<Rightarrow> 'w \<Rightarrow> ActivityHandle result \<times> 'w" where
  "slurm_Inspect a handle w =
     (if is_direct handle then ra_Inspect (sla_direct a) handle w
      else case sla_executor a of
        None \<Rightarrow> (Panic nil_executor, w)
      | Some run \<Rightarrow>
          (let logPath = meta_string (hnd_Metadata handle) ''logPath'';
               (h, w1) = (if logPath = '''' then (handle, w)
                          else case run ''cat'' [logPath] '''' w of
                            ((lg, None), w1) \<Rightarrow> (handle\<lparr>hnd_Log := lg\<rparr>, w1)
                          | ((_, Some _), w1) \<Rightarrow> (handle, w1));
               ((observed, found), w2) = sentinelStatus a run h w1
           in if found then (Ok observed, w2)
              else case run ''sacct'' [''-j'', hnd_ExternalID observed, ''--noheader'', ''--parsable2'', ''--format=State,ExitCode''] '''' w2 of
                ((_, Some e), w3) \<Rightarrow> apfst Ok (fallbackStatus a run observed e w3)
              | ((output, None), w3) \<Rightarrow> (Ok (applySlurmStatus (UnixSeconds (sla_now a w3)) observed output), w3)))"

text \<open>Without an executor \<^verbatim>\<open>Stop\<close> panics as \<^verbatim>\<open>Inspect\<close> does.\<close>

definition slurm_Stop :: "'w SlurmAdapter \<Rightarrow> ActivityHandle \<Rightarrow> 'w \<Rightarrow> error option \<times> 'w" where
  "slurm_Stop a handle w =
     (if is_direct handle then ra_Stop (sla_direct a) handle w
      else case sla_executor a of
        None \<Rightarrow> (Some (Errorf nil_executor []), w)
      | Some run \<Rightarrow> (case run ''scancel'' [hnd_ExternalID handle] '''' w of ((_, e), w1) \<Rightarrow> (e, w1)))"

definition slurm_adapter :: "'w SlurmAdapter \<Rightarrow> 'w RuntimeAdapter" where
  "slurm_adapter a = \<lparr>ra_Start = slurm_Start a, ra_Inspect = slurm_Inspect a, ra_Stop = slurm_Stop a\<rparr>"

section \<open>The adapter of a connection\<close>

definition knownHostsFile :: "EnvironmentConnection \<Rightarrow> string" where
  "knownHostsFile connection =
     (let value = configString (con_Configuration connection) ''knownHostsFile'' in
      if value \<noteq> '''' then value else ''storage/credentials/ssh/known_hosts'')"

definition ssh_executor :: "Numbers \<Rightarrow> 'w executor \<Rightarrow> EnvironmentConnection \<Rightarrow> 'w SSHCommandExecutor" where
  "ssh_executor nu executor connection =
     \<lparr>ssh_Executor = Some executor, ssh_Endpoint = con_Endpoint connection, ssh_Username = con_Username connection,
      ssh_Port = configInt nu (con_Configuration connection) ''port'', ssh_IdentityFile = credentialFile (con_CredentialRef connection),
      ssh_ProxyCommand = configString (con_Configuration connection) ''proxyCommand'',
      ssh_HostKeyAlias = configString (con_Configuration connection) ''hostKeyAlias'', ssh_KnownHostsFile = knownHostsFile connection,
      ssh_ForwardAgent = configBool (con_Configuration connection) ''forwardAgent'' False\<rparr>"

text \<open>The record \<open>base\<close> holds the surroundings of the adapter; \<open>os\<close> runs commands on the engine's own machine.\<close>

definition slurm_Build :: "'w SlurmAdapter \<Rightarrow> 'w executor \<Rightarrow> 'w executor option \<Rightarrow> string \<Rightarrow> EnvironmentRuntime \<Rightarrow> EnvironmentConnection \<Rightarrow> error + 'w SlurmAdapter" where
  "slurm_Build base os fexecutor defaultScriptDirectory runtime connection =
     (if con_Type connection \<notin> {ConnectionSSH, ConnectionAgent, ConnectionLocal} then
        Inl (Errorf ''connection %q is %q, SLURM runtime requires ssh, agent, or local connection''
          [FmtS (con_ID connection), FmtS (connection_type_text (con_Type connection))])
      else
        let executor = (case fexecutor of None \<Rightarrow> os | Some e \<Rightarrow> e);
            remote = (con_Type connection = ConnectionSSH \<and> trim_space (con_Endpoint connection) \<noteq> '''');
            runner = (if remote then ssh_Run (sla_MkdirAll base) (ssh_executor (sla_numbers base) executor connection) else executor);
            d1 = configString (ert_Configuration runtime) ''scriptDirectory'';
            d2 = (if d1 = '''' then configString (con_Configuration connection) ''scriptDirectory'' else d1);
            scriptDirectory = (if d2 = '''' then defaultScriptDirectory else d2);
            p1 = configString (ert_Configuration runtime) ''partition'';
            part = (if p1 = '''' then configString (con_Configuration connection) ''partition'' else p1)
        in if scriptDirectory = '''' then Inl (Errorf ''runtime %q needs a script directory'' [FmtS (ert_ID runtime)])
           else Inr (base\<lparr>sla_executor := Some runner, sla_partition := part, sla_scriptDirectory := scriptDirectory, sla_submitFromStdin := remote\<rparr>))"

end
