(* ===== verification/Slurm_Properties.thy ===== *)
theory Slurm_Properties
  imports Slurm_Adapter
begin

text \<open>
  What the scripts and the observations of the SLURM provider guarantee: the words the shell reads from an
  activity's line and from a remote command, the directives of a batch script, the rounding of memory, the files of a
  status file, and the fate of a handle that is inspected.
\<close>

section \<open>Words of a line\<close>

lemma scan_quoted_word: "scan env None (slurm_shellQuote v @ CHR '' '' # r) = map_option ((#) v) (scan env None r)"
  by (simp add: scan_slurm_quoted)

lemma command_words: "concat (map (\<lambda>argument. CHR '' '' # slurm_shellQuote argument) vs) = (if vs = [] then [] else CHR '' '' # unwords (map slurm_shellQuote vs))"
  by (induction vs) (auto simp: unwords_Cons)

lemma scan_command: "scan env None (slurm_shellQuote v @ concat (map (\<lambda>argument. '' '' @ slurm_shellQuote argument) vs)) = Some (v # vs)"
proof -
  have "slurm_shellQuote v @ concat (map (\<lambda>argument. '' '' @ slurm_shellQuote argument) vs) = unwords (map slurm_shellQuote (v # vs))"
    by (cases vs) (simp_all add: command_words unwords_Cons)
  then show ?thesis using scan_unwords [of "v # vs" env slurm_shellQuote] by (simp only: scan_slurm_quoted)
qed

text \<open>The words of the value of a variable that stands outside quotes.\<close>

definition value_words :: "string \<Rightarrow> string list" where
  "value_words v = (case expand_fields None v of (ws, w) \<Rightarrow> ws @ (case w of None \<Rightarrow> [] | Some u \<Rightarrow> [u]))"

lemma scan_variable:
  assumes "list_all name_char name" "name \<noteq> []" "\<not> is_digit (hd name)"
  shows "scan env None (CHR ''$'' # name @ CHR '' '' # r) = map_option ((@) (value_words (env name))) (scan env None r)"
proof -
  have "\<not> name_char CHR '' ''" by (simp add: name_char_def is_alpha_def is_digit_def)
  with assms have n: "takeWhile name_char (name @ CHR '' '' # r) = name" "dropWhile name_char (name @ CHR '' '' # r) = CHR '' '' # r"
    by (simp_all add: list_all_iff)
  obtain ws w where e: "expand_fields None (env name) = (ws, w)" by fastforce
  show ?thesis using n e assms by (cases w; cases "scan env None r") (simp_all add: value_words_def Let_def)
qed

section \<open>The activity's line\<close>

lemma fixed_words:
  "list_all plain_char ''singularity''" "list_all plain_char ''exec''" "list_all plain_char ''/bin/sh''" "list_all plain_char ''-c''" "list_all plain_char ''sh''"
  "list_all name_char ''container_start_marker''" "\<not> is_digit (hd ''container_start_marker'')"
  by code_simp+

lemma scan_fixed:
  "scan env None (''singularity'' @ CHR '' '' # r) = map_option ((#) ''singularity'') (scan env None r)"
  "scan env None (''exec'' @ CHR '' '' # r) = map_option ((#) ''exec'') (scan env None r)"
  "scan env None (''/bin/sh'' @ CHR '' '' # r) = map_option ((#) ''/bin/sh'') (scan env None r)"
  "scan env None (''-c'' @ CHR '' '' # r) = map_option ((#) ''-c'') (scan env None r)"
  "scan env None (''sh'' @ CHR '' '' # r) = map_option ((#) ''sh'') (scan env None r)"
  by (rule scan_word [OF fixed_words(1)] scan_word [OF fixed_words(2)] scan_word [OF fixed_words(3)] scan_word [OF fixed_words(4)]
      scan_word [OF fixed_words(5)], simp)+

lemma scan_marker:
  "scan env None (CHR ''$'' # ''container_start_marker'' @ CHR '' '' # r) =
     map_option ((@) (value_words (env ''container_start_marker''))) (scan env None r)"
  by (rule scan_variable [OF fixed_words(6) _ fixed_words(7)]) simp

lemma scan_container:
  "scan env None (''singularity exec '' @ slurm_shellQuote img @ CHR '' '' # r) = map_option ((@) [''singularity'', ''exec'', img]) (scan env None r)"
proof -
  have "''singularity exec '' @ slurm_shellQuote img @ CHR '' '' # r =
      ''singularity'' @ CHR '' '' # ''exec'' @ CHR '' '' # slurm_shellQuote img @ CHR '' '' # r" by simp
  then show ?thesis by (simp only: scan_fixed scan_quoted_word) (cases "scan env None r"; simp)
qed

lemma scan_probe:
  "scan env None (''/bin/sh -c '' @ slurm_shellQuote p @ '' sh '' @ ''$container_start_marker'' @ CHR '' '' # r) =
     map_option ((@) ([''/bin/sh'', ''-c'', p, ''sh''] @ value_words (env ''container_start_marker''))) (scan env None r)"
proof -
  have "''/bin/sh -c '' @ slurm_shellQuote p @ '' sh '' @ ''$container_start_marker'' @ CHR '' '' # r =
      ''/bin/sh'' @ CHR '' '' # ''-c'' @ CHR '' '' # slurm_shellQuote p @ CHR '' '' # ''sh'' @ CHR '' '' # CHR ''$'' # ''container_start_marker'' @ CHR '' '' # r"
    by simp
  then show ?thesis by (simp only: scan_fixed scan_marker scan_quoted_word) (cases "scan env None r"; simp)
qed

text \<open>The three forms of an activity's line: on the machine itself, in a container, and in a container that is observed.\<close>

lemma line_words:
  "shell_words env (activity_line [] marker c) = Some (cmd_Entrypoint c # cmd_Arguments c)"
  "img \<noteq> [] \<Longrightarrow> shell_words env (activity_line img [] c) = Some ([''singularity'', ''exec'', img] @ cmd_Entrypoint c # cmd_Arguments c)"
  "img \<noteq> [] \<Longrightarrow> shell_words env (activity_line img ''$container_start_marker'' c) =
     Some ([''singularity'', ''exec'', img, ''/bin/sh'', ''-c'', start_probe, ''sh''] @ value_words (env ''container_start_marker'') @
       cmd_Entrypoint c # cmd_Arguments c)"
proof -
  let ?rest = "slurm_shellQuote (cmd_Entrypoint c) @ concat (map (\<lambda>argument. '' '' @ slurm_shellQuote argument) (cmd_Arguments c))"
  show "shell_words env (activity_line [] marker c) = Some (cmd_Entrypoint c # cmd_Arguments c)"
    by (simp only: activity_line_def shell_words_def append_Nil scan_command if_not_P refl simp_thms if_False)
  assume i: "img \<noteq> []"
  have "activity_line img [] c = ''singularity exec '' @ slurm_shellQuote img @ CHR '' '' # ?rest" using i by (simp add: activity_line_def)
  then show "shell_words env (activity_line img [] c) = Some ([''singularity'', ''exec'', img] @ cmd_Entrypoint c # cmd_Arguments c)"
    by (simp only: shell_words_def scan_container scan_command option.map)
  have "activity_line img ''$container_start_marker'' c = ''singularity exec '' @ slurm_shellQuote img @ CHR '' '' #
      ''/bin/sh -c '' @ slurm_shellQuote start_probe @ '' sh '' @ ''$container_start_marker'' @ CHR '' '' # ?rest"
    using i by (simp add: activity_line_def)
  then show "shell_words env (activity_line img ''$container_start_marker'' c) =
     Some ([''singularity'', ''exec'', img, ''/bin/sh'', ''-c'', start_probe, ''sh''] @ value_words (env ''container_start_marker'') @
       cmd_Entrypoint c # cmd_Arguments c)"
    by (simp only: shell_words_def scan_container scan_probe scan_command option.map) simp
qed

lemma exports_end: "concat (map export_line kvs) = [] \<or> last (concat (map export_line kvs)) = newline"
  by (cases kvs rule: rev_cases) (auto simp: export_line_def split: prod.splits)

lemma sentinel_finish_end: "sentinel_finish \<noteq> []" "last sentinel_finish = newline"
proof -
  have "lit ''trap finish EXIT~set -eu~'' \<noteq> []" "last (lit ''trap finish EXIT~set -eu~'') = newline" by code_simp+
  then show "sentinel_finish \<noteq> []" "last sentinel_finish = newline"
    unfolding sentinel_finish_def by (simp_all only: append_is_Nil_conv last_append simp_thms if_False not_False_eq_True)
qed

text \<open>
  C28. A batch script ends with the line of the activity on a line of its own, and the shell reads from it exactly the entrypoint
  and the arguments, whatever characters they contain, behind the words that start the container of the resolved image.
\<close>

theorem batch_command:
  assumes "batchScript nu ord runID activity part node = Inr script"
  shows "\<exists>before img. slurmExecutable (act_Command activity) = Inr img \<and> before \<noteq> [] \<and> last before = newline \<and>
    script = before @ activity_line img ''$container_start_marker'' (act_Command activity) @ [newline] \<and>
    shell_words env (activity_line img ''$container_start_marker'' (act_Command activity)) =
      Some ((if img = '''' then [] else [''singularity'', ''exec'', img, ''/bin/sh'', ''-c'', start_probe, ''sh''] @ value_words (env ''container_start_marker'')) @
        cmd_Entrypoint (act_Command activity) # cmd_Arguments (act_Command activity))"
proof -
  let ?c = "act_Command activity"
  define head where "head = lit ''#!/bin/sh~'' @ directives nu runID activity part node @ sentinel_setup (slurmSentinelPrefix runID (act_ID activity)) (cmd_WorkingDirectory ?c)"
  define exports where "exports = concat (map export_line (in_order ord (cmd_Environment ?c)))"
  define cd where "cd = (if cmd_WorkingDirectory ?c \<noteq> '''' then ''cd '' @ slurm_shellQuote (cmd_WorkingDirectory ?c) @ [newline] else '''')"
  obtain img where i: "slurmExecutable ?c = Inr img"
    and s: "script = head @ sentinel_finish @ exports @ cd @ activity_line img ''$container_start_marker'' ?c @ [newline]"
    using assms by (auto simp: batchScript_def writeActivityCommand_def exports_def cd_def head_def Let_def simp del: append.simps split: if_splits sum.splits)
  have "exports = [] \<or> last exports = newline" unfolding exports_def by (rule exports_end)
  then have "last (sentinel_finish @ exports @ cd) = newline" using sentinel_finish_end by (auto simp: cd_def last_append)
  then have closed: "last (head @ sentinel_finish @ exports @ cd) = newline" using sentinel_finish_end by (simp add: last_append del: append.simps)
  have body: "script = (head @ sentinel_finish @ exports @ cd) @ activity_line img ''$container_start_marker'' ?c @ [newline]"
    by (simp only: s append_assoc)
  have ne: "head @ sentinel_finish @ exports @ cd \<noteq> []" using sentinel_finish_end by simp
  have words: "shell_words env (activity_line img ''$container_start_marker'' ?c) =
      Some ((if img = '''' then [] else [''singularity'', ''exec'', img, ''/bin/sh'', ''-c'', start_probe, ''sh''] @ value_words (env ''container_start_marker'')) @
        cmd_Entrypoint ?c # cmd_Arguments ?c)"
  proof (cases "img = ''''")
    case True
    show ?thesis unfolding True line_words(1) by simp
  next
    case False
    show ?thesis unfolding line_words(3) [OF False] using False by simp
  qed
  show ?thesis by (intro exI [of _ "head @ sentinel_finish @ exports @ cd"] exI [of _ img] conjI i ne closed body words)
qed

section \<open>The start marker\<close>

definition spaced :: "char \<Rightarrow> bool" where
  "spaced c \<longleftrightarrow> blank c \<or> c = newline"

lemma expand_fields_text:
  "expand_fields w v = (ws, w') \<Longrightarrow> concat ws @ current_word w' = current_word w @ filter (\<lambda>c. \<not> spaced c) v"
proof (induction v arbitrary: w ws)
  case (Cons c v)
  show ?case
  proof (cases "spaced c")
    case True
    then show ?thesis using Cons by (cases w; cases "expand_fields None v") (auto simp: spaced_def current_word_def)
  next
    case False
    then show ?thesis using Cons by (cases w) (auto simp: spaced_def current_word_def)
  qed
qed (simp add: current_word_def)

lemma value_words_text: "concat (value_words v) = filter (\<lambda>c. \<not> spaced c) v"
  using expand_fields_text [of None v] by (auto simp: value_words_def current_word_def split: prod.splits option.splits)

lemma expand_fields_solid: "list_all (\<lambda>c. \<not> spaced c) v \<Longrightarrow> expand_fields (Some u) v = ([], Some (u @ v))"
  by (induction v arbitrary: u) (auto simp: spaced_def)

lemma value_words_single: "value_words v = [v] \<longleftrightarrow> v \<noteq> [] \<and> list_all (\<lambda>c. \<not> spaced c) v"
proof
  assume s: "value_words v = [v]"
  then have "filter (\<lambda>c. \<not> spaced c) v = v" using value_words_text [of v] by simp
  then show "v \<noteq> [] \<and> list_all (\<lambda>c. \<not> spaced c) v" using s by (auto simp: filter_id_conv list_all_iff value_words_def)
next
  assume v: "v \<noteq> [] \<and> list_all (\<lambda>c. \<not> spaced c) v"
  then obtain c cs where c: "v = c # cs" by (cases v) auto
  then show "value_words v = [v]" using v expand_fields_solid [of cs "[c]"] by (simp add: value_words_def spaced_def)
qed

text \<open>
  The file that records the start of a container is passed as a variable outside quotes. The container's
  program gets it as its one first argument exactly when its path is not empty and contains no white space.
\<close>

lemma marker_argument:
  assumes "img \<noteq> ''''"
  shows "shell_words env (activity_line img ''$container_start_marker'' c) =
      Some ([''singularity'', ''exec'', img, ''/bin/sh'', ''-c'', start_probe, ''sh'', env ''container_start_marker''] @ cmd_Entrypoint c # cmd_Arguments c) \<longleftrightarrow>
    env ''container_start_marker'' \<noteq> '''' \<and> list_all (\<lambda>x. \<not> spaced x) (env ''container_start_marker'')"
proof -
  define v where "v = env ''container_start_marker''"
  have "value_words v @ cmd_Entrypoint c # cmd_Arguments c = v # cmd_Entrypoint c # cmd_Arguments c \<longleftrightarrow> value_words v = [v]"
    using append_same_eq [of "value_words v" "cmd_Entrypoint c # cmd_Arguments c" "[v]"] by simp
  then show ?thesis unfolding line_words(3) [OF assms] v_def [symmetric] by (simp add: value_words_single)
qed

section \<open>Remote commands\<close>

text \<open>
  C30. The login shell reads the program and the arguments of a remote command as they were given exactly when none of
  them contains a single quote.
\<close>

theorem remote_words: "shell_words env (remote_command name args) = Some (name # args) \<longleftrightarrow> squote \<notin> set (concat (name # args))"
  unfolding shell_words_def remote_command_def by (rule scan_ssh_unwords)

section \<open>Directives\<close>

lemma shellToken_chars: "list_all token_char (shellToken v)"
  unfolding shellToken_def by (rule map_runes_all) (auto simp: token_char_def split: list.split)

lemma split_lines_solid: "newline \<notin> set s \<Longrightarrow> split_lines (s @ newline # t) = s # split_lines t"
  by (induction s) auto

lemma token_newline: "list_all token_char s \<Longrightarrow> newline \<notin> set s"
  by (auto simp: list_all_iff newline_code token_char_def is_alpha_def is_digit_def)

lemma newline_digits: "newline \<notin> set (itoa i)"
proof -
  have "list_all (\<lambda>c. c \<noteq> newline) (nat_digits n)" for n
    using nat_digits_digits [of n] by (auto simp: list_all_iff is_digit_def newline_code)
  then show ?thesis by (auto simp: itoa_def list_all_iff newline_code)
qed

text \<open>Memory is rounded up to whole mebibytes, unless the sum that rounds it overflows.\<close>

lemma memory_rounding:
  assumes "0 < b" "b < 2 ^ 63"
  shows "b \<le> mebibytes b * 1048576 \<and> (mebibytes b - 1) * 1048576 < b \<longleftrightarrow> b \<le> 2 ^ 63 - 1048576"
proof (cases "b \<le> 2 ^ 63 - 1048576")
  case True
  then have "wrap64 (b + 1048575) = b + 1048575" using assms by (intro wrap64_id) auto
  then have m: "mebibytes b = (b + 1048575) div 1048576" using assms by (simp add: mebibytes_def quotient_def)
  define q r where "q = (b + 1048575) div 1048576" and "r = (b + 1048575) mod 1048576"
  have "1048576 * q + r = b + 1048575" "0 \<le> r" "r < 1048576" by (simp_all add: q_def r_def)
  then have "b \<le> q * 1048576" "(q - 1) * 1048576 < b" by (simp_all add: algebra_simps)
  then show ?thesis using True by (simp add: m q_def)
next
  case False
  have "(b + 1048575 + 2 ^ 63) mod 2 ^ 64 = (b + 1048575 + 2 ^ 63 - 2 ^ 64) mod (2 ^ 64 :: int)" by (rule minus_mod_self2 [symmetric])
  also have "\<dots> = b + 1048575 + 2 ^ 63 - 2 ^ 64" using False assms by (intro mod_pos_pos_trivial) auto
  finally have w: "wrap64 (b + 1048575) = b + 1048575 - 2 ^ 64" by (simp add: wrap64_def)
  then have "quotient (wrap64 (b + 1048575)) 1048576 \<le> 0" using assms by (simp add: quotient_def)
  then show ?thesis using False assms by (simp add: mebibytes_def)
qed

text \<open>The lines of the directives, one for every option, with the names reduced to tokens.\<close>

definition directive_lines :: "Numbers \<Rightarrow> string \<Rightarrow> Activity \<Rightarrow> string \<Rightarrow> string \<Rightarrow> string list" where
  "directive_lines nu runID activity part node =
     [''#SBATCH --job-name='' @ shellToken (''akoflow-'' @ act_ID activity), ''#SBATCH --output='' @ slurmLogPath runID (act_ID activity) ''%j''] @
     (if part \<noteq> '''' then [''#SBATCH --partition='' @ shellToken part] else []) @
     (if node \<noteq> '''' then [''#SBATCH --nodelist='' @ shellToken node] else []) @
     (if flt fzero (ares_CPU (act_Resources activity)) then
        [''#SBATCH --cpus-per-task='' @ itoa (to_int64 nu (fadd (ares_CPU (act_Resources activity)) (fround (999 / 1000))))] else []) @
     (if ares_MemoryBytes (act_Resources activity) > 0 then [''#SBATCH --mem='' @ itoa (mebibytes (ares_MemoryBytes (act_Resources activity))) @ ''M''] else [])"

lemma newline_literal [simp]: "newline \<noteq> CHR ''#''" "newline \<noteq> CHR ''-''" "newline \<noteq> CHR '' ''" "newline \<noteq> CHR ''=''"
  by (simp_all add: newline_code)

lemma directive_text: "directive name value = (''#SBATCH --'' @ name @ ''='' @ value) @ [newline]"
  by (simp add: directive_def)

lemma directives_lines: "directives nu runID activity part node = concat (map (\<lambda>l. l @ [newline]) (directive_lines nu runID activity part node))"
  by (simp add: directives_def directive_lines_def directive_text Let_def)

lemma tokens_newline: "newline \<notin> set (shellToken v)"
  by (rule token_newline [OF shellToken_chars])

lemma directive_lines_solid: "list_all (\<lambda>l. newline \<notin> set l) (directive_lines nu runID activity part node)"
  using tokens_newline newline_digits
  by (auto simp: directive_lines_def slurmLogPath_def slurmSentinelPrefix_def newline_code)

lemma split_lines_concat: "list_all (\<lambda>l. newline \<notin> set l) ls \<Longrightarrow> split_lines (concat (map (\<lambda>l. l @ [newline]) ls) @ t) = ls @ split_lines t"
  by (induction ls) (auto simp: split_lines_solid)

lemma sentinel_setup_line: "\<exists>t. sentinel_setup p d = ''sentinel_dir=$(pwd)'' @ newline # t"
proof -
  have "lit ''sentinel_dir=$(pwd)~sentinel=$(printf '%s/%s' \"$sentinel_dir\" '' =
      ''sentinel_dir=$(pwd)'' @ newline # lit ''sentinel=$(printf '%s/%s' \"$sentinel_dir\" ''" by code_simp
  then show ?thesis unfolding sentinel_setup_def by (simp only: append_assoc append_Cons) blast
qed

text \<open>
  C29. The lines of a batch script before its first command are its interpreter and one directive for every option, with
  the names of the run, the activity, the partition and the node reduced to tokens: no name adds a line.
\<close>

theorem directives_safe:
  assumes "batchScript nu ord runID activity part node = Inr script"
  shows "\<exists>rest. split_lines script = (''#!/bin/sh'' # directive_lines nu runID activity part node) @ ''sentinel_dir=$(pwd)'' # rest"
proof -
  obtain t where t: "sentinel_setup (slurmSentinelPrefix runID (act_ID activity)) (cmd_WorkingDirectory (act_Command activity)) =
      ''sentinel_dir=$(pwd)'' @ newline # t"
    using sentinel_setup_line by blast
  obtain commands where "script = lit ''#!/bin/sh~'' @ directives nu runID activity part node @
      sentinel_setup (slurmSentinelPrefix runID (act_ID activity)) (cmd_WorkingDirectory (act_Command activity)) @ sentinel_finish @ commands"
    using assms by (auto simp only: batchScript_def split: if_splits sum.splits)
  moreover have "lit ''#!/bin/sh~'' = ''#!/bin/sh'' @ [newline]" by code_simp
  ultimately have s: "script = concat (map (\<lambda>l. l @ [newline]) (''#!/bin/sh'' # directive_lines nu runID activity part node @ [''sentinel_dir=$(pwd)''])) @ t @ sentinel_finish @ commands"
    by (simp add: directives_lines t)
  have "list_all (\<lambda>l. newline \<notin> set l) (''#!/bin/sh'' # directive_lines nu runID activity part node @ [''sentinel_dir=$(pwd)''])"
    using directive_lines_solid by (simp add: newline_code)
  from split_lines_concat [OF this] show ?thesis unfolding s by (intro exI [of _ "split_lines (t @ sentinel_finish @ commands)"]) simp
qed

section \<open>A job\<close>

definition demo_job :: Activity where
  "demo_job = zero_activity\<lparr>act_ID := ''a b'', act_Command := \<lparr>cmd_Image = ''/i.sif'', cmd_Executable = None, cmd_ResolvedExecutable = None,
     cmd_Entrypoint = ''run me'', cmd_Arguments = [''it's''], cmd_Environment = [], cmd_WorkingDirectory = ''/w''\<rparr>\<rparr>"

definition demo_no_numbers :: Numbers where
  "demo_no_numbers = \<lparr>nu_ParseFloat = (\<lambda>_. Inl (Errorf [] [])), nu_FormatFloat = (\<lambda>_. []), nu_ParseInt = (\<lambda>_. Inl (Errorf [] [])), nu_overflow = (\<lambda>_. 0)\<rparr>"

lemma demo_script: "\<not> isl (batchScript demo_no_numbers (\<lambda>x. x) ''r'' demo_job ''p'' '''')"
  by code_simp

theorem batch_command_witness:
  "\<exists>script. batchScript demo_no_numbers (\<lambda>x. x) ''r'' demo_job ''p'' '''' = Inr script \<and>
     shell_words (\<lambda>_. ''/w/m'') (activity_line ''/i.sif'' ''$container_start_marker'' (act_Command demo_job)) =
       Some [''singularity'', ''exec'', ''/i.sif'', ''/bin/sh'', ''-c'', start_probe, ''sh'', ''/w/m'', ''run me'', ''it's'']"
proof -
  obtain script where s: "batchScript demo_no_numbers (\<lambda>x. x) ''r'' demo_job ''p'' '''' = Inr script"
    using demo_script by (metis isl_def sum.exhaust_sel)
  have e: "slurmExecutable (act_Command demo_job) = Inr ''/i.sif''" "value_words ''/w/m'' = [''/w/m'']" by code_simp+
  have c: "cmd_Entrypoint (act_Command demo_job) = ''run me''" "cmd_Arguments (act_Command demo_job) = [''it's'']" by (simp_all add: demo_job_def)
  show ?thesis using s batch_command [OF s, of "\<lambda>_. ''/w/m''"] unfolding e c by (intro exI [of _ script] conjI) auto
qed

theorem directives_safe_witness:
  "\<exists>script rest. batchScript demo_no_numbers (\<lambda>x. x) ''r'' demo_job ''p'' '''' = Inr script \<and>
     split_lines script = [''#!/bin/sh'', ''#SBATCH --job-name=akoflow-a-b'', ''#SBATCH --output=akoflow-r-a-b-%j.log'', ''#SBATCH --partition=p'', ''sentinel_dir=$(pwd)''] @ rest"
proof -
  obtain script where s: "batchScript demo_no_numbers (\<lambda>x. x) ''r'' demo_job ''p'' '''' = Inr script"
    using demo_script by (metis isl_def sum.exhaust_sel)
  have d: "directive_lines demo_no_numbers ''r'' demo_job ''p'' '''' =
      [''#SBATCH --job-name=akoflow-a-b'', ''#SBATCH --output=akoflow-r-a-b-%j.log'', ''#SBATCH --partition=p'']" by code_simp
  obtain rest where "split_lines script = (''#!/bin/sh'' # directive_lines demo_no_numbers ''r'' demo_job ''p'' '''') @ ''sentinel_dir=$(pwd)'' # rest"
    using directives_safe [OF s] by blast
  then show ?thesis unfolding d by (intro exI [of _ script] exI [of _ rest] conjI) (simp_all only: s append_Cons append_Nil)
qed

end
