(* ===== verification/Slurm_Observation.thy ===== *)
theory Slurm_Observation
  imports Slurm_Adapter Controller_Properties
begin

text \<open>
  What is observed of a SLURM job: the files its status file reports, the handle after an inspection, and what a
  submission requires.
\<close>

section \<open>The status file\<close>

definition artifact_key :: "string \<Rightarrow> bool" where
  "artifact_key k \<longleftrightarrow> has_prefix k ''artifact.''"

text \<open>The values of the lines that report a file.\<close>

definition reported_line :: "string \<Rightarrow> string option" where
  "reported_line l = (case cut_char CHR ''='' l of Some (key, value) \<Rightarrow> if key = ''artifact'' then Some (trim_space value) else None | None \<Rightarrow> None)"

definition reported :: "string \<Rightarrow> string list" where
  "reported payload = List.map_filter reported_line (split_lines payload)"

text \<open>A line that sets a key of the form the reader gives to files.\<close>

definition foreign :: "string \<Rightarrow> bool" where
  "foreign l \<longleftrightarrow> (case cut_char CHR ''='' l of Some (key, value) \<Rightarrow> key \<noteq> ''artifact'' \<and> artifact_key (trim_space key) | None \<Rightarrow> False)"

definition entries :: "(string, string) gomap \<Rightarrow> string list" where
  "entries m = map snd (filter (\<lambda>(k, v). artifact_key k) m)"

definition file_key :: "nat \<Rightarrow> string" where
  "file_key n = ''artifact.'' @ itoa (int n)"

lemma file_key_inj: "file_key a = file_key b \<Longrightarrow> a = b"
proof -
  assume "file_key a = file_key b"
  then have "nat_digits a = nat_digits b" by (simp add: file_key_def itoa_def)
  then show ?thesis by (metis digits_value_nat of_nat_eq_iff)
qed

lemma artifact_key_file: "artifact_key (file_key n)"
  by (simp add: artifact_key_def file_key_def has_prefix_def)

lemma trim_space_id: "s \<noteq> [] \<Longrightarrow> \<not> is_space (hd s) \<Longrightarrow> \<not> is_space (last s) \<Longrightarrow> trim_space s = s"
  using dropWhile_eq_self_iff [of is_space s] dropWhile_eq_self_iff [of is_space "rev s"] by (simp add: trim_space_def hd_rev)

lemma trim_file_key: "trim_space (file_key n) = file_key n"
proof (rule trim_space_id)
  have "is_digit (last (nat_digits n))" using nat_digits_digits [of n] nat_digits_ne [of n] by (metis last_in_set list_all_iff)
  moreover have "last (file_key n) = last (nat_digits n)" using nat_digits_ne by (simp add: file_key_def itoa_def last_append)
  ultimately show "\<not> is_space (last (file_key n))" by (auto simp: is_digit_def is_space_def)
qed (simp_all add: file_key_def is_space_def)

text \<open>The keys of files carry numbers below the size of the map.\<close>

definition numbered :: "(string, string) gomap \<Rightarrow> bool" where
  "numbered m \<longleftrightarrow> (\<forall>k \<in> set (keys m). artifact_key k \<longrightarrow> k \<in> file_key ` {..< length m})"

lemma entries_put: "\<not> artifact_key k \<Longrightarrow> entries (put k v m) = entries m"
  by (induction m) (auto simp: entries_def)

lemma numbered_put:
  assumes "numbered m" "\<not> artifact_key k" shows "numbered (put k v m)"
proof -
  have "length m \<le> length (put k v m)" by (cases "k \<in> set (keys m)") simp_all
  then show ?thesis using assms unfolding numbered_def set_keys_put by fastforce
qed

lemma numbered_fresh: "numbered m \<Longrightarrow> file_key (length m) \<notin> set (keys m)"
  using file_key_inj artifact_key_file unfolding numbered_def by blast

lemma numbered_append: "numbered m \<Longrightarrow> numbered (m @ [(file_key (length m), v)])"
  by (fastforce simp: numbered_def)

lemma sentinel_step:
  assumes "numbered m" "\<not> foreign l"
  shows "numbered (sentinel_line l m) \<and> entries (sentinel_line l m) = entries m @ (case reported_line l of None \<Rightarrow> [] | Some v \<Rightarrow> [v])"
proof (cases "cut_char CHR ''='' l")
  case None
  then show ?thesis using assms by (simp add: sentinel_line_def reported_line_def)
next
  case (Some kv)
  obtain k v where kv: "kv = (k, v)" by fastforce
  show ?thesis
  proof (cases "k = ''artifact''")
    case True
    let ?key = "file_key (length m)"
    have "sentinel_line l m = m @ [(?key, trim_space v)]"
      using Some kv True put_new [OF numbered_fresh [OF assms(1)]] trim_file_key [of "length m"] by (simp add: sentinel_line_def file_key_def)
    moreover have "entries (m @ [(?key, trim_space v)]) = entries m @ [trim_space v]"
      using artifact_key_file [of "length m"] by (simp add: entries_def)
    ultimately show ?thesis using Some kv True numbered_append [OF assms(1)] by (simp add: reported_line_def)
  next
    case False
    then have "\<not> artifact_key (trim_space k)" using assms(2) Some kv by (simp add: foreign_def)
    then show ?thesis using Some kv False numbered_put [OF assms(1)] entries_put by (simp add: sentinel_line_def reported_line_def)
  qed
qed

lemma sentinel_lines:
  "numbered m \<Longrightarrow> list_all (\<lambda>l. \<not> foreign l) ls \<Longrightarrow>
     numbered (fold sentinel_line ls m) \<and> entries (fold sentinel_line ls m) = entries m @ List.map_filter reported_line ls"
proof (induction ls arbitrary: m)
  case (Cons l ls)
  then show ?case using sentinel_step [of m l] by (cases "reported_line l") (auto simp: List.map_filter_def)
qed (simp add: List.map_filter_def)

lemma sentinel_entries: "list_all (\<lambda>l. \<not> foreign l) (split_lines payload) \<Longrightarrow> entries (sentinelValues payload) = reported payload"
  using sentinel_lines [of "[]" "split_lines payload"] by (simp add: sentinelValues_def reported_def numbered_def entries_def)

text \<open>The file that a reported value describes, if it is well formed.\<close>

definition reported_file :: "string \<Rightarrow> ArtifactObservation option" where
  "reported_file value = artifact_file (''artifact.'', value)"

lemma artifact_file_entry: "artifact_key k \<Longrightarrow> artifact_file (k, v) = reported_file v" "\<not> artifact_key k \<Longrightarrow> artifact_file (k, v) = None"
  by (simp_all add: reported_file_def artifact_file_def artifact_key_def has_prefix_def)

lemma artifact_files: "List.map_filter artifact_file m = List.map_filter reported_file (entries m)"
proof (induction m)
  case (Cons kv m)
  obtain k v where kv: "kv = (k, v)" by fastforce
  then show ?case using Cons artifact_file_entry [of k v] by (cases "artifact_key k") (auto simp: entries_def List.map_filter_def)
qed (simp add: entries_def List.map_filter_def)

lemma mset_map_filter: "mset xs = mset ys \<Longrightarrow> mset (List.map_filter f xs) = mset (List.map_filter f ys)"
  by (metis (no_types, lifting) List.map_filter_def mset_filter mset_map)

text \<open>
  The manifest of a finished job lists exactly the well-formed files that the job's status file reports, as often as it
  reports them and in whatever order the map of values is visited, as long as no other line uses the keys of files.
\<close>

theorem manifest_complete:
  assumes "list_all (\<lambda>l. \<not> foreign l) (split_lines payload)"
  shows "mset (man_Files (slurmArtifacts ord h (sentinelValues payload))) = mset (List.map_filter reported_file (reported payload)) \<and>
    sum_CreatedFiles (man_Summary (slurmArtifacts ord h (sentinelValues payload))) = int (length (List.map_filter reported_file (reported payload)))"
proof -
  let ?m = "sentinelValues payload"
  have "mset (List.map_filter artifact_file (in_order ord ?m)) = mset (List.map_filter artifact_file ?m)" by (rule mset_map_filter) simp
  also have "\<dots> = mset (List.map_filter reported_file (reported payload))" by (simp only: artifact_files sentinel_entries [OF assms])
  finally have m: "mset (man_Files (slurmArtifacts ord h ?m)) = mset (List.map_filter reported_file (reported payload))" by (simp add: slurmArtifacts_def Let_def)
  moreover have "sum_CreatedFiles (man_Summary (slurmArtifacts ord h ?m)) = int (length (man_Files (slurmArtifacts ord h ?m)))"
    by (simp add: slurmArtifacts_def Let_def)
  ultimately show ?thesis using mset_eq_length [OF m] by simp
qed

section \<open>Inspection\<close>

definition same_job :: "ActivityHandle \<Rightarrow> ActivityHandle \<Rightarrow> bool" where
  "same_job h h' \<longleftrightarrow> hnd_ID h' = hnd_ID h \<and> hnd_RunID h' = hnd_RunID h \<and> hnd_ActivityID h' = hnd_ActivityID h \<and>
     hnd_ResourceID h' = hnd_ResourceID h \<and> hnd_RuntimeID h' = hnd_RuntimeID h \<and> hnd_ExternalID h' = hnd_ExternalID h \<and> hnd_Endpoints h' = hnd_Endpoints h"

definition final :: "ActivityHandleStatus \<Rightarrow> bool" where
  "final s \<longleftrightarrow> s \<in> {HandleCompleted, HandleFailed, HandleStopped}"

text \<open>An observation of the same job that gives it an end time when it ends it.\<close>

definition observes :: "ActivityHandle \<Rightarrow> ActivityHandle \<Rightarrow> bool" where
  "observes h h' \<longleftrightarrow> same_job h h' \<and> (final (hnd_Status h') \<longrightarrow> hnd_Status h' = hnd_Status h \<or> (\<exists>t. hnd_FinishedAt h' = UnixSeconds t))"

lemma observes_refl: "observes h h" "observes h (h\<lparr>hnd_Log := lg\<rparr>)" "observes h (h\<lparr>hnd_Metadata := m\<rparr>)"
  by (simp_all add: observes_def same_job_def)

lemma observes_trans: "observes h h1 \<Longrightarrow> hnd_Status h1 = hnd_Status h \<Longrightarrow> observes h1 h2 \<Longrightarrow> observes h h2"
  by (auto simp: observes_def same_job_def)

lemma observes_applied: "observes h (applySlurmStatus (UnixSeconds t) h output)"
  by (auto simp: observes_def same_job_def applySlurmStatus_def final_def Let_def split: option.split)

lemma observes_timing: "observes h (sentinel_timing nu values h)" "hnd_Status (sentinel_timing nu values h) = hnd_Status h"
  by (auto simp: observes_def same_job_def sentinel_timing_def Let_def split: sum.split)

lemma observes_state: "sentinel_state (UnixSeconds t) values h = Some h' \<Longrightarrow> observes h h'"
  by (auto simp: observes_def same_job_def sentinel_state_def final_def Let_def split: if_splits)

lemma observes_details:
  "observes h h1 \<Longrightarrow> observes h (h1\<lparr>hnd_ExitCode := c\<rparr>)" "observes h h1 \<Longrightarrow> observes h (h1\<lparr>hnd_Artifacts := m\<rparr>)"
  by (simp_all add: observes_def same_job_def)

lemma observes_sentinel:
  assumes "sentinelStatus a run h w = ((h', found), w')"
  shows "observes h h' \<and> (\<not> found \<longrightarrow> hnd_Status h' = hnd_Status h)"
proof -
  have t: "observes h h1" if "sentinel_state (UnixSeconds t) vs (sentinel_timing nu vs h) = Some h1" for t nu vs h1
    using observes_trans [OF observes_timing observes_state [OF that]] .
  show ?thesis using assms
    by (auto simp: sentinelStatus_def Let_def observes_refl observes_details split: if_splits prod.splits option.splits dest!: t)
qed

lemma observes_fallback: "observes h (fst (fallbackStatus a run h e w))"
proof -
  have "observes h (h\<lparr>hnd_Status := HandleFailed, hnd_Failure := f, hnd_FinishedAt := UnixSeconds t\<rparr>)" for f t
    by (auto simp: observes_def same_job_def)
  then show ?thesis by (auto simp: fallbackStatus_def Let_def observes_applied split: prod.split)
qed

text \<open>The first step of an inspection, and what follows the status file.\<close>

definition read_log :: "'w executor \<Rightarrow> ActivityHandle \<Rightarrow> 'w \<Rightarrow> ActivityHandle \<times> 'w" where
  "read_log run h w = (if meta_string (hnd_Metadata h) ''logPath'' = '''' then (h, w)
     else case run ''cat'' [meta_string (hnd_Metadata h) ''logPath''] '''' w of ((lg, None), w1) \<Rightarrow> (h\<lparr>hnd_Log := lg\<rparr>, w1) | ((_, Some _), w1) \<Rightarrow> (h, w1))"

definition ask_accounting :: "'w SlurmAdapter \<Rightarrow> 'w executor \<Rightarrow> ActivityHandle \<Rightarrow> 'w \<Rightarrow> ActivityHandle \<times> 'w" where
  "ask_accounting a run h w =
     (case run ''sacct'' [''-j'', hnd_ExternalID h, ''--noheader'', ''--parsable2'', ''--format=State,ExitCode''] '''' w of
        ((_, Some e), w1) \<Rightarrow> fallbackStatus a run h e w1
      | ((output, None), w1) \<Rightarrow> (applySlurmStatus (UnixSeconds (sla_now a w1)) h output, w1))"

lemma slurm_Inspect_run:
  assumes "sla_executor a = Some run" "\<not> is_direct h" "read_log run h w = (h1, w1)" "sentinelStatus a run h1 w1 = ((h2, found), w2)"
  shows "slurm_Inspect a h w = (if found then (Ok h2, w2) else apfst Ok (ask_accounting a run h2 w2))"
  using assms by (simp add: slurm_Inspect_def read_log_def ask_accounting_def Let_def split: prod.split option.split)

lemma observes_log: "read_log run h w = (h1, w1) \<Longrightarrow> observes h h1 \<and> hnd_Status h1 = hnd_Status h"
  by (auto simp: read_log_def observes_refl split: if_splits prod.splits option.splits)

lemma observes_accounting: "observes h (fst (ask_accounting a run h w))"
  by (auto simp: ask_accounting_def observes_fallback observes_applied split: prod.split option.split)

text \<open>
  The inspection of a batch job always returns a handle, whatever the commands on the cluster answer: it is the handle of
  the same job, and when the job ended with this inspection it has the time of its end.
\<close>

theorem inspect_batch:
  assumes "sla_executor a = Some run" and "\<not> is_direct h"
  shows "\<exists>h'. fst (slurm_Inspect a h w) = Ok h' \<and> observes h h'"
proof -
  obtain h1 w1 where l: "read_log run h w = (h1, w1)" by fastforce
  obtain h2 found w2 where s: "sentinelStatus a run h1 w1 = ((h2, found), w2)" by (metis surj_pair)
  have h2: "observes h h2 \<and> (\<not> found \<longrightarrow> hnd_Status h2 = hnd_Status h)"
    using observes_sentinel [OF s] observes_log [OF l] observes_trans [of h h1 h2] by auto
  show ?thesis
  proof (cases found)
    case True
    then show ?thesis using h2 slurm_Inspect_run [OF assms l s] by simp
  next
    case False
    then have "observes h h2" "hnd_Status h2 = hnd_Status h" using h2 by auto
    then have "observes h (fst (ask_accounting a run h2 w2))" by (rule observes_trans [OF _ _ observes_accounting])
    then show ?thesis using False slurm_Inspect_run [OF assms l s] by simp
  qed
qed

text \<open>When no command reaches the cluster, the job is given up as failed, though it may still run.\<close>

lemma outage_fails:
  assumes "sla_executor a = Some run" and "\<not> is_direct h" and lost: "\<And>p as x v. snd (fst (run p as x v)) \<noteq> None"
  shows "\<exists>h'. fst (slurm_Inspect a h w) = Ok h' \<and> hnd_Status h' = HandleFailed"
proof -
  have r: "\<exists>out e v'. run p as x v = ((out, Some e), v')" for p as x v using lost [of p as x v] by (cases "run p as x v") auto
  obtain w1 where l: "read_log run h w = (h, w1)"
    using r [of "''cat''" "[meta_string (hnd_Metadata h) ''logPath'']" "''''" w] that by (cases "meta_string (hnd_Metadata h) ''logPath'' = ''''") (auto simp: read_log_def)
  obtain w2 where s: "sentinelStatus a run h w1 = ((h, False), w2)"
    using r [of "''cat''" "[meta_string (hnd_Metadata h) ''sentinelPath'']" "''''" w1] that
    by (cases "meta_string (hnd_Metadata h) ''sentinelPath'' = ''''") (auto simp: sentinelStatus_def Let_def)
  obtain o3 e3 w3 where 3: "run ''sacct'' [''-j'', hnd_ExternalID h, ''--noheader'', ''--parsable2'', ''--format=State,ExitCode''] '''' w2 = ((o3, Some e3), w3)"
    using r by blast
  obtain o4 e4 w4 where 4: "run ''squeue'' [''--noheader'', ''--jobs'', hnd_ExternalID h, ''--format=%T''] '''' w3 = ((o4, Some e4), w4)" using r by blast
  obtain o5 e5 w5 where 5: "run ''scontrol'' [''show'', ''job'', hnd_ExternalID h, ''--oneliner''] '''' w4 = ((o5, Some e5), w5)" using r by blast
  have "hnd_Status (fst (ask_accounting a run h w2)) = HandleFailed" using 3 4 5 by (simp add: ask_accounting_def fallbackStatus_def Let_def)
  then show ?thesis using slurm_Inspect_run [OF assms(1,2) l s] by simp
qed

section \<open>Cancelled jobs\<close>

lemma split_lines_single: "newline \<notin> set s \<Longrightarrow> split_lines s = [s]"
  by (induction s) auto

text \<open>The accounting names who cancelled a job, and a state with a name in it is not the state \<^verbatim>\<open>CANCELLED\<close>.\<close>

lemma cancelled_by_user:
  assumes "list_all is_digit uid" and "uid \<noteq> []"
  shows "hnd_Status (applySlurmStatus now h (''CANCELLED by '' @ uid @ ''|0:0'')) = HandleFailed \<and>
    hnd_Status (applySlurmStatus now h ''CANCELLED|0:0'') = HandleStopped"
proof
  let ?s = "''CANCELLED by '' @ uid"
  have d: "c \<in> set uid \<Longrightarrow> is_digit c" for c using assms by (simp add: list_all_iff)
  then have "c \<notin> set uid" if "\<not> is_digit c" for c using that by blast
  then have n: "newline \<notin> set (?s @ ''|0:0'')" "CHR ''|'' \<notin> set ?s" "CHR ''+'' \<notin> set ?s" by (simp_all add: newline_code is_digit_def)
  have l: "split_lines (?s @ ''|0:0'') = [?s @ ''|0:0'']" using n(1) by (metis append_Nil2 split_lines_single)
  have t: "trim_space (?s @ ''|0:0'') = ?s @ ''|0:0''" by (rule trim_space_id) (simp_all add: is_space_def)
  have f: "split_char CHR ''|'' (?s @ CHR ''|'' # ''0:0'') = ?s # split_char CHR ''|'' ''0:0''" by (rule split_char_append [OF n(2)])
  have "hd (split_char CHR ''+'' ?s) = ?s" using split_char_single [OF n(3)] by simp
  moreover have "slurm_state ?s = HandleFailed" by (simp add: slurm_state_def)
  ultimately show "hnd_Status (applySlurmStatus now h (''CANCELLED by '' @ uid @ ''|0:0'')) = HandleFailed"
    using l t f by (simp add: applySlurmStatus_def Let_def split: option.split)
  show "hnd_Status (applySlurmStatus now h ''CANCELLED|0:0'') = HandleStopped" by code_simp simp
qed

section \<open>Submission\<close>

lemma find_job_id_uint: "find_job_id ls = Some j \<Longrightarrow> is_uint64 j"
  by (induction ls) (auto simp: Let_def split: if_splits)

lemma parseJobID_uint: "parseJobID output = Inr j \<Longrightarrow> is_uint64 j"
  by (auto simp: parseJobID_def split: option.splits dest: find_job_id_uint)

text \<open>What a submitted activity's handle names, so that its inspection finds it.\<close>

definition submitted :: "ActivityExecutionContext \<Rightarrow> ActivityHandle \<Rightarrow> bool" where
  "submitted c h \<longleftrightarrow> (let runID = run_ID (ctx_Run c); activityID = act_ID (ctx_Activity c) in
     hnd_RunID h = runID \<and> hnd_ActivityID h = activityID \<and> hnd_ResourceID h = res_ID (ctx_Resource c) \<and> hnd_RuntimeID h = ctx_RuntimeID c \<and>
     hnd_Status h = HandleStarting \<and> is_uint64 (hnd_ExternalID h) \<and> \<not> is_direct h \<and>
     meta_string (hnd_Metadata h) ''logPath'' = slurmLogPath runID activityID (hnd_ExternalID h) \<and>
     meta_string (hnd_Metadata h) ''sentinelPath'' = slurmSentinelPath runID activityID (hnd_ExternalID h))"

lemma default_directory_ID: "act_ID (default_directory runID activity) = act_ID activity"
  by (simp add: default_directory_def Let_def)

lemma batch_handle_submitted: "is_uint64 jobID \<Longrightarrow> submitted c (batch_handle ident t c (default_directory runID (ctx_Activity c)) scriptPath jobID)"
  by (simp add: batch_handle_def submitted_def is_direct_def meta_string_def Let_def default_directory_ID)

lemma submit_handle: "submit a run c w = (Ok h, w') \<Longrightarrow> submitted c h"
  unfolding submit_def Let_def
  by (auto split: sum.split_asm prod.split_asm option.split_asm simp: batch_handle_submitted parseJobID_uint)

lemma slurmExecutable_committed:
  "slurmExecutable command = Inr img \<Longrightarrow> cmd_ResolvedExecutable command = Some r \<Longrightarrow> rex_MaterializationDone r"
  by (auto simp: slurmExecutable_def Let_def split: if_splits)


section \<open>A job\<close>

definition demo_status :: string where
  "demo_status = ''state=completed'' @ [newline] @ ''exit_code=0'' @ [newline] @ ''artifact=b3V0|3|ab'' @ [newline] @ ''artifact=b3V0|x|ab''"

text \<open>A cluster that accepts every script as job 7; its files cannot be read and the accounting knows the job as running.\<close>

definition demo_cluster :: "unit executor" where
  "demo_cluster name args input w =
     ((if name = ''sbatch'' then (''7'', None) else if name = ''sacct'' then (''RUNNING|0:0'', None) else ([], Some (Errorf ''exit status 1'' []))), w)"

definition demo_slurm :: "unit SlurmAdapter" where
  "demo_slurm = \<lparr>sla_executor = Some demo_cluster, sla_partition = ''p'',
     sla_direct = \<lparr>ra_Start = (\<lambda>c w. (Err (Errorf [] []), w)), ra_Inspect = (\<lambda>h w. (Ok h, w)), ra_Stop = (\<lambda>h w. (None, w))\<rparr>,
     sla_scriptDirectory = ''/s'', sla_submitFromStdin = True, sla_MkdirAll = (\<lambda>d w. (None, w)), sla_WriteFile = (\<lambda>p c w. (None, w)),
     sla_Abs = (\<lambda>p w. Inr p), sla_now = (\<lambda>w. 0), sla_NewID = (\<lambda>p w. p),
     sla_numbers = \<lparr>nu_ParseFloat = (\<lambda>_. Inl (Errorf [] [])), nu_FormatFloat = (\<lambda>_. []), nu_ParseInt = (\<lambda>_. Inl (Errorf [] [])), nu_overflow = (\<lambda>_. 0)\<rparr>,
     sla_order = (\<lambda>m. m)\<rparr>"

theorem manifest_complete_witness:
  "mset (man_Files (slurmArtifacts (\<lambda>m. m) zero_handle (sentinelValues demo_status))) =
     {#\<lparr>obs_Path = ''out'', obs_Change = ArtifactCreated, obs_SizeBytes = 3, obs_Checksum = ''sha256:ab'', obs_ModifiedUnixNano = 0\<rparr>#} \<and>
   sum_CreatedFiles (man_Summary (slurmArtifacts (\<lambda>m. m) zero_handle (sentinelValues demo_status))) = 1"
proof -
  have "list_all (\<lambda>l. \<not> foreign l) (split_lines demo_status)" by code_simp
  moreover have "List.map_filter reported_file (reported demo_status) =
      [\<lparr>obs_Path = ''out'', obs_Change = ArtifactCreated, obs_SizeBytes = 3, obs_Checksum = ''sha256:ab'', obs_ModifiedUnixNano = 0\<rparr>]" by code_simp
  ultimately show ?thesis using manifest_complete [of demo_status "\<lambda>m. m" zero_handle] by simp
qed


theorem inspect_batch_witness:
  "\<exists>h'. fst (slurm_Inspect demo_slurm (zero_handle\<lparr>hnd_ExternalID := ''7''\<rparr>) ()) = Ok h' \<and> hnd_ExternalID h' = ''7'' \<and> hnd_Status h' = HandleRunning"
proof -
  let ?h = "zero_handle\<lparr>hnd_ExternalID := ''7''\<rparr>"
  have "sla_executor demo_slurm = Some demo_cluster" "\<not> is_direct ?h" by (simp_all add: demo_slurm_def is_direct_def zero_handle_def)
  from inspect_batch [OF this] obtain h' where h': "fst (slurm_Inspect demo_slurm ?h ()) = Ok h'" "observes ?h h'" by blast
  have "(case fst (slurm_Inspect demo_slurm ?h ()) of Ok x \<Rightarrow> hnd_Status x = HandleRunning | _ \<Rightarrow> False)" by code_simp
  then have "hnd_Status h' = HandleRunning" by (simp only: h'(1) result.case)
  with h' show ?thesis by (auto simp: observes_def same_job_def)
qed

end
