(* ===== verification/Slurm_Discovery.thy ===== *)
theory Slurm_Discovery
  imports Slurm_Adapter
begin

text \<open>
  The discovery probe of the SLURM provider, \<^verbatim>\<open>internal/provider/slurm/discovery.go\<close>: the script that it sends to the login
  node and the inventory that is read from the output. The clock and the text of a time in JSON are parameters. White
  space is that of ASCII.
\<close>

section \<open>Texts\<close>

definition cleanPartition :: "string \<Rightarrow> string" where
  "cleanPartition value = trim_suffix (trim_space value) ''*''"

definition integer :: "string \<Rightarrow> int" where
  "integer value = fst (ParseInt64 (trim_space value))"

definition csv :: "string \<Rightarrow> string list" where
  "csv value = (let v = trim_space value in if v \<in> {'''', ''(null)'', ''N/A''} then [] else split_char CHR '','' v)"

definition emptyIfNone :: "string \<Rightarrow> string" where
  "emptyIfNone value = (if value = ''none'' \<or> value = ''(null)'' then '''' else value)"

definition appendUnique :: "string list \<Rightarrow> string \<Rightarrow> string list" where
  "appendUnique values candidate = (if candidate \<in> set values then values else values @ [candidate])"

definition stringValue :: "any option \<Rightarrow> string" where
  "stringValue value = (case value of Some (AnyString text) \<Rightarrow> text | _ \<Rightarrow> '''')"

definition unavailableReason :: "bool \<Rightarrow> string \<Rightarrow> string" where
  "unavailableReason available reason = (if available then '''' else reason)"

section \<open>Transfer capabilities\<close>

definition observation :: "int \<Rightarrow> int \<Rightarrow> bool \<Rightarrow> string \<Rightarrow> CapabilityObservation" where
  "observation observedAt freshUntil available reason =
     \<lparr>cob_Available = available, cob_Declared = None, cob_Reason = reason, cob_ObservedAt = observedAt, cob_FreshUntil = freshUntil\<rparr>"

definition transferCapabilities :: "int \<Rightarrow> TransferCapabilities" where
  "transferCapabilities now =
     (let fresh = now + 900000000000; makeObservation = observation now fresh False in
      \<lparr>tca_Connectors = [(TransferConnectorRsync, makeObservation ''rsync is not installed''), (TransferConnectorSCP, makeObservation ''scp is not installed''),
         (TransferConnectorSFTP, makeObservation ''sftp is not installed''), (TransferConnectorHTTP, makeObservation ''curl is not installed'')],
       tca_OutboundHTTPS = makeObservation ''outbound HTTPS was not probed'',
       tca_ContainerRuntime = makeObservation ''apptainer or singularity is not installed'',
       tca_Checksum = makeObservation ''sha256sum is not installed'', tca_Paths = [], tca_ObservedAt = now, tca_FreshUntil = fresh\<rparr>)"

definition capabilityObservation :: "TransferCapabilities \<Rightarrow> bool \<Rightarrow> string \<Rightarrow> CapabilityObservation" where
  "capabilityObservation c available unavailable = observation (tca_ObservedAt c) (tca_FreshUntil c) available (unavailableReason available unavailable)"

definition set_connector :: "TransferProtocol \<Rightarrow> bool \<Rightarrow> string \<Rightarrow> TransferCapabilities \<Rightarrow> TransferCapabilities" where
  "set_connector p available reason c =
     c\<lparr>tca_Connectors := put p (observation (tca_ObservedAt c) (tca_FreshUntil c) available reason) (tca_Connectors c)\<rparr>"

definition setTransferTool :: "string \<Rightarrow> bool \<Rightarrow> TransferCapabilities \<Rightarrow> TransferCapabilities" where
  "setTransferTool tool available c =
     (if tool = ''rsync'' then set_connector TransferConnectorRsync available (unavailableReason available ''rsync is not installed'') c
      else if tool = ''scp'' then set_connector TransferConnectorSCP available (unavailableReason available ''scp is not installed'') c
      else if tool = ''sftp'' then set_connector TransferConnectorSFTP available (unavailableReason available ''sftp is not installed'') c
      else if tool = ''curl'' then set_connector TransferConnectorHTTP available (unavailableReason available ''curl is not installed'') c
      else if tool = ''apptainer'' \<or> tool = ''singularity'' then
        c\<lparr>tca_ContainerRuntime := capabilityObservation c available ''apptainer or singularity is not installed''\<rparr>
      else if tool = ''sha256sum'' then c\<lparr>tca_Checksum := capabilityObservation c available ''sha256sum is not installed''\<rparr>
      else c)"

definition transferPath :: "string list \<Rightarrow> TransferPath" where
  "transferPath fs =
     \<lparr>tpa_Path = fs ! 2, tpa_Kind = fs ! 1, tpa_Writable = (fs ! 3 = ''true''), tpa_AvailableBytes = integer (fs ! 4), tpa_LoginNodeVisible = True,
      tpa_ComputeNodeVisible = None, tpa_Reason = '''', tpa_ObservedAt = 0\<rparr>"

definition handleTransferRecord :: "string list \<Rightarrow> TransferCapabilities \<Rightarrow> TransferCapabilities" where
  "handleTransferRecord fs c =
     (if hd fs = ''TRANSFER_TOOL'' then (if length fs \<ge> 3 then setTransferTool (fs ! 1) (fs ! 2 = ''available'') c else c)
      else if hd fs = ''TRANSFER_HTTPS'' then
        (if length fs \<ge> 2 then
           (let available = (fs ! 1 = ''available''); https = (tca_OutboundHTTPS c)\<lparr>cob_Available := available\<rparr>
            in c\<lparr>tca_OutboundHTTPS := (if available then https else https\<lparr>cob_Reason := ''outbound HTTPS probe failed''\<rparr>)\<rparr>)
         else c)
      else if hd fs = ''TRANSFER_PATH'' then (if length fs \<ge> 5 then c\<lparr>tca_Paths := tca_Paths c @ [transferPath fs]\<rparr> else c)
      else c)"

definition addConfiguredTransferPaths :: "metadata \<Rightarrow> TransferCapabilities \<Rightarrow> TransferCapabilities" where
  "addConfiguredTransferPaths configuration c =
     (case map_of configuration ''transferPaths'' of
        Some (AnyList raws) \<Rightarrow>
          c\<lparr>tca_Paths := tca_Paths c @ List.map_filter (\<lambda>raw. case raw of
            AnyString path \<Rightarrow> if trim_space path \<noteq> '''' then
              Some \<lparr>tpa_Path = path, tpa_Kind = ''configured'', tpa_Writable = False, tpa_AvailableBytes = 0, tpa_LoginNodeVisible = False,
                tpa_ComputeNodeVisible = None, tpa_Reason = ''requires explicit path health check'', tpa_ObservedAt = 0\<rparr> else None
          | _ \<Rightarrow> None) raws\<rparr>
      | _ \<Rightarrow> c)"

text \<open>The capabilities as a value of a metadata map; an empty text, map or list and a missing flag are left out.\<close>

definition text_field :: "string \<Rightarrow> string \<Rightarrow> (string \<times> any) list" where
  "text_field k s = (if s = '''' then [] else [(k, AnyString s)])"

definition flag_field :: "string \<Rightarrow> bool option \<Rightarrow> (string \<times> any) list" where
  "flag_field k b = (case b of None \<Rightarrow> [] | Some x \<Rightarrow> [(k, AnyBool x)])"

definition observation_any :: "(int \<Rightarrow> string) \<Rightarrow> CapabilityObservation \<Rightarrow> any" where
  "observation_any tt o1 = AnyStruct ([(''available'', AnyBool (cob_Available o1))] @ flag_field ''declared'' (cob_Declared o1) @ text_field ''reason'' (cob_Reason o1) @
     [(''observedAt'', AnyString (tt (cob_ObservedAt o1))), (''freshUntil'', AnyString (tt (cob_FreshUntil o1)))])"

definition path_any :: "(int \<Rightarrow> string) \<Rightarrow> TransferPath \<Rightarrow> any" where
  "path_any tt p = AnyStruct ([(''path'', AnyString (tpa_Path p)), (''kind'', AnyString (tpa_Kind p)), (''writable'', AnyBool (tpa_Writable p)),
     (''availableBytes'', AnyInt64 (tpa_AvailableBytes p)), (''loginNodeVisible'', AnyBool (tpa_LoginNodeVisible p))] @
     flag_field ''computeNodeVisible'' (tpa_ComputeNodeVisible p) @ text_field ''reason'' (tpa_Reason p) @ [(''observedAt'', AnyString (tt (tpa_ObservedAt p)))])"

definition transfer_any :: "(int \<Rightarrow> string) \<Rightarrow> TransferCapabilities \<Rightarrow> any" where
  "transfer_any tt c = AnyStruct
     ((if tca_Connectors c = [] then [] else [(''connectors'', AnyStruct (map (\<lambda>(p, o1). (protocol_text p, observation_any tt o1)) (tca_Connectors c)))]) @
      [(''outboundHttps'', observation_any tt (tca_OutboundHTTPS c)), (''containerRuntime'', observation_any tt (tca_ContainerRuntime c)),
       (''checksum'', observation_any tt (tca_Checksum c))] @
      (if tca_Paths c = [] then [] else [(''paths'', AnyList (map (path_any tt) (tca_Paths c)))]) @
      [(''observedAt'', AnyString (tt (tca_ObservedAt c))), (''freshUntil'', AnyString (tt (tca_FreshUntil c)))])"

section \<open>Nodes\<close>

text \<open>The assertions \<^verbatim>\<open>m[k].(T)\<close>, which panic on a value of another type.\<close>

definition badAssertion :: "'a result" where
  "badAssertion = Panic ''interface conversion''"

definition assert_string :: "metadata \<Rightarrow> string \<Rightarrow> string result" where
  "assert_string m k = (case map_of m k of Some (AnyString s) \<Rightarrow> Ok s | _ \<Rightarrow> badAssertion)"

definition assert_int64 :: "metadata \<Rightarrow> string \<Rightarrow> int result" where
  "assert_int64 m k = (case map_of m k of Some (AnyInt64 i) \<Rightarrow> Ok i | _ \<Rightarrow> badAssertion)"

definition assert_strings :: "metadata \<Rightarrow> string \<Rightarrow> string list result" where
  "assert_strings m k = (case map_of m k of Some (AnyStrings ss) \<Rightarrow> Ok ss | _ \<Rightarrow> badAssertion)"

fun then_result :: "'a result \<Rightarrow> ('a \<Rightarrow> 'b result) \<Rightarrow> 'b result" where
  "then_result (Ok x) f = f x"
| "then_result (Err e) f = Err e"
| "then_result (Panic p) f = Panic p"

definition discoveredNode :: "metadata \<Rightarrow> string \<Rightarrow> DiscoveredNode result" where
  "discoveredNode node architecture =
     then_result (assert_string node ''name'') (\<lambda>name. then_result (assert_string node ''state'') (\<lambda>state.
     then_result (assert_int64 node ''cpuCores'') (\<lambda>cores. then_result (assert_int64 node ''memoryMiB'') (\<lambda>memory.
     then_result (assert_int64 node ''temporaryDiskMiB'') (\<lambda>disk. then_result (assert_strings node ''partitions'') (\<lambda>parts.
     then_result (assert_strings node ''features'') (\<lambda>features. then_result (assert_strings node ''gres'') (\<lambda>gres.
     then_result (assert_string node ''reason'') (\<lambda>reason.
       Ok \<lparr>dno_Name = name, dno_State = state, dno_CPUCores = cores, dno_MemoryBytes = wrap64 (memory * 1048576), dno_StorageBytes = wrap64 (disk * 1048576),
         dno_Architecture = architecture, dno_Partitions = parts, dno_Features = features, dno_GenericResources = gres, dno_Reason = reason,
         dno_Metadata = node\<rparr>)))))))))"

fun discoveredNodes :: "metadata list \<Rightarrow> string \<Rightarrow> DiscoveredNode list result" where
  "discoveredNodes [] architecture = Ok []"
| "discoveredNodes (node # nodes) architecture =
     then_result (discoveredNode node architecture) (\<lambda>n. then_result (discoveredNodes nodes architecture) (\<lambda>ns. Ok (n # ns)))"

text \<open>A name without a node gives the nil map.\<close>

definition orderedNodes :: "(string, metadata) gomap \<Rightarrow> string list \<Rightarrow> metadata list" where
  "orderedNodes byName order = map (get_list byName) order"

definition meta_value :: "metadata \<Rightarrow> string \<Rightarrow> any" where
  "meta_value m k = (case map_of m k of None \<Rightarrow> AnyNil | Some v \<Rightarrow> v)"

definition discoveredLoginNode :: "metadata \<Rightarrow> metadata list \<Rightarrow> DiscoveredLoginNode option" where
  "discoveredLoginNode m filesystems =
     (let name = meta_string m ''hostname''; architecture = meta_string m ''architecture'' in
      if trim_space name = '''' then None
      else Some
        \<lparr>dln_Name = name, dln_Architecture = architecture, dln_CPUCores = integer (stringValue (map_of m ''loginCpuCores'')),
         dln_MemoryBytes = wrap64 (integer (stringValue (map_of m ''loginMemoryKiB'')) * 1024),
         dln_StorageBytes = foldl (\<lambda>bytes fs. case map_of fs ''availableKiB'' of Some (AnyInt64 a) \<Rightarrow> wrap64 (bytes + wrap64 (a * 1024)) | _ \<Rightarrow> bytes) 0 filesystems,
         dln_Metadata = [(''role'', AnyString ''login''), (''hostname'', AnyString name), (''architecture'', AnyString architecture)] @
           map (\<lambda>k. (k, meta_value m k)) [''os'', ''kernel'', ''homeDirectory'', ''workingDirectory'', ''temporaryDirectory'', ''slurmVersion'', ''containerRuntime''] @
           [(''filesystems'', AnyMaps filesystems)]\<rparr>)"

section \<open>The output of the probe\<close>

record DiscoveryState =
  dst_metadata :: metadata
  dst_partitions :: "metadata list"
  dst_nodes :: "(string, metadata) gomap"
  dst_order :: "string list"
  dst_filesystems :: "metadata list"
  dst_warnings :: "string list"
  dst_transfer :: TransferCapabilities

definition new_node :: "string list \<Rightarrow> metadata" where
  "new_node fs =
     [(''name'', AnyString (fs ! 2)), (''state'', AnyString (fs ! 3)), (''cpuCores'', AnyInt64 (integer (fs ! 4))),
      (''memoryMiB'', AnyInt64 (integer (fs ! 5))), (''temporaryDiskMiB'', AnyInt64 (integer (fs ! 6))), (''weight'', AnyInt64 (integer (fs ! 7))),
      (''features'', AnyStrings (csv (fs ! 8))), (''gres'', AnyStrings (csv (fs ! 9))), (''reason'', AnyString (emptyIfNone (fs ! 10))),
      (''partitions'', AnyStrings [])]"

definition node_record :: "string list \<Rightarrow> DiscoveryState \<Rightarrow> DiscoveryState result" where
  "node_record fs st =
     (let name = fs ! 2; part = cleanPartition (fs ! 1);
          st1 = (case map_of (dst_nodes st) name of
                   Some _ \<Rightarrow> st
                 | None \<Rightarrow> st\<lparr>dst_nodes := put name (new_node fs) (dst_nodes st), dst_order := dst_order st @ [name]\<rparr>);
          node = get_list (dst_nodes st1) name
      in then_result (assert_strings node ''partitions'')
           (\<lambda>parts. Ok (st1\<lparr>dst_nodes := put name (put ''partitions'' (AnyStrings (appendUnique parts part)) node) (dst_nodes st1)\<rparr>)))"

definition partition_record :: "string list \<Rightarrow> metadata" where
  "partition_record fs =
     [(''name'', AnyString (cleanPartition (fs ! 1))), (''default'', AnyBool (has_suffix (fs ! 1) ''*'')), (''availability'', AnyString (fs ! 2)),
      (''nodeCount'', AnyInt64 (integer (fs ! 3))), (''cpuCoresPerNode'', AnyInt64 (integer (fs ! 4))),
      (''memoryMiBPerNode'', AnyInt64 (integer (fs ! 5))), (''timeLimit'', AnyString (fs ! 6))]"

definition filesystem_record :: "string list \<Rightarrow> metadata" where
  "filesystem_record fs =
     [(''device'', AnyString (fs ! 1)), (''type'', AnyString (fs ! 2)), (''capacityKiB'', AnyInt64 (integer (fs ! 3))),
      (''usedKiB'', AnyInt64 (integer (fs ! 4))), (''availableKiB'', AnyInt64 (integer (fs ! 5))), (''mountPoint'', AnyString (fs ! 6))]"

definition discovery_line :: "string \<Rightarrow> DiscoveryState \<Rightarrow> DiscoveryState result" where
  "discovery_line raw st =
     (let fs = split_char CHR ''|'' (trim_space raw); kind = hd fs in
      if kind = '''' then Ok st
      else if kind = ''FACT'' then
        Ok (if length fs \<ge> 3 then st\<lparr>dst_metadata := put (fs ! 1) (AnyString (join_char CHR ''|'' (drop 2 fs))) (dst_metadata st)\<rparr> else st)
      else if kind = ''PARTITION'' then
        Ok (if length fs < 7 then st\<lparr>dst_warnings := dst_warnings st @ [''ignored malformed partition record'']\<rparr>
            else st\<lparr>dst_partitions := dst_partitions st @ [partition_record fs]\<rparr>)
      else if kind = ''NODE'' then
        (if length fs < 11 then Ok (st\<lparr>dst_warnings := dst_warnings st @ [''ignored malformed node record'']\<rparr>) else node_record fs st)
      else if kind = ''FILESYSTEM'' then
        Ok (if length fs \<ge> 7 then st\<lparr>dst_filesystems := dst_filesystems st @ [filesystem_record fs]\<rparr> else st)
      else Ok (st\<lparr>dst_transfer := handleTransferRecord fs (dst_transfer st)\<rparr>))"

fun discovery_lines :: "string list \<Rightarrow> DiscoveryState \<Rightarrow> DiscoveryState result" where
  "discovery_lines [] st = Ok st"
| "discovery_lines (raw # raws) st = then_result (discovery_line raw st) (discovery_lines raws)"

definition initial_discovery :: "int \<Rightarrow> DiscoveryState" where
  "initial_discovery now = \<lparr>dst_metadata = [], dst_partitions = [], dst_nodes = [], dst_order = [], dst_filesystems = [], dst_warnings = [],
     dst_transfer = transferCapabilities now\<rparr>"

definition discovery_result :: "(int \<Rightarrow> string) \<Rightarrow> DiscoveryState \<Rightarrow> ConnectionDiscovery result" where
  "discovery_result tt st =
     (let nodes = orderedNodes (dst_nodes st) (dst_order st);
          m = put ''filesystems'' (AnyMaps (dst_filesystems st)) (put ''nodes'' (AnyMaps nodes) (put ''partitions'' (AnyMaps (dst_partitions st)) (dst_metadata st)))
      in then_result (discoveredNodes nodes (stringValue (map_of m ''architecture'')))
           (\<lambda>discovered. Ok \<lparr>cdi_Available = (dst_partitions st \<noteq> []), cdi_Metadata = put ''transferCapabilities'' (transfer_any tt (dst_transfer st)) m,
             cdi_Warnings = dst_warnings st, cdi_Nodes = discovered, cdi_LoginNode = discoveredLoginNode m (dst_filesystems st),
             cdi_Transfer = dst_transfer st\<rparr>))"

definition parseDiscovery :: "(int \<Rightarrow> string) \<Rightarrow> int \<Rightarrow> string \<Rightarrow> ConnectionDiscovery result" where
  "parseDiscovery tt now output = then_result (discovery_lines (split_lines output) (initial_discovery now)) (discovery_result tt)"

section \<open>The script of the probe\<close>

definition transferPathScript :: string where
  \<open>transferPathScript =
     raw_lit ''for pair in "home:$HOME" "temporary:${TMPDIR:-/tmp}" "working:$(pwd -P)"; do '' @
     raw_lit ''kind=${pair%%:*}; path=${pair#*:}; available=$(df -Pk "$path" 2>/dev/null | '' @
     raw_lit ''awk 'NR==2 {print $4 * 1024}'); if test -w "$path"; then writable=true; '' @
     raw_lit ''else writable=false; fi; printf 'TRANSFER_PATH|%s|%s|%s|%s`n' '' @
     raw_lit ''"$kind" "$path" "$writable" "${available:-0}"; done''\<close>

definition discovery_commands :: "string list" where
  \<open>discovery_commands =
     [raw_lit ''printf 'FACT|architecture|'; uname -m'',
      raw_lit ''printf 'FACT|hostname|'; hostname -f 2>/dev/null || hostname'',
      raw_lit ''printf 'FACT|kernel|'; uname -sr'',
      raw_lit ''printf 'FACT|os|'; (awk -F= '$1=="PRETTY_NAME" {gsub(/^"|"$/, "", $2); print $2}' /etc/os-release 2>/dev/null || true)'',
      raw_lit ''printf 'FACT|workingDirectory|'; pwd -P'',
      raw_lit ''printf 'FACT|homeDirectory|'; printf '%s`n' "$HOME"'',
      raw_lit ''printf 'FACT|temporaryDirectory|'; printf '%s`n' "${TMPDIR:-/tmp}"'',
      raw_lit ''printf 'FACT|loginCpuCores|'; (getconf _NPROCESSORS_ONLN 2>/dev/null || nproc 2>/dev/null || printf '0`n')'',
      raw_lit ''printf 'FACT|loginMemoryKiB|'; awk '/^MemTotal:/ {print $2}' /proc/meminfo 2>/dev/null'',
      raw_lit ''printf 'FACT|slurmVersion|'; (sinfo --version 2>/dev/null || true)'',
      raw_lit ''printf 'FACT|queueLength|'; squeue -h 2>/dev/null | wc -l | tr -d ' ~'',
      raw_lit ''(apptainer --version || singularity --version) 2>/dev/null | sed 's/^/FACT|containerRuntime|/~'',
      raw_lit ''for tool in rsync scp sftp curl apptainer singularity sha256sum; do if command -v "$tool" >/dev/null 2>&1; then printf 'TRANSFER_TOOL|%s|available`n' "$tool"; else printf 'TRANSFER_TOOL|%s|unavailable`n' "$tool"; fi; done'',
      raw_lit ''if command -v curl >/dev/null 2>&1 && curl --head --silent --show-error --max-time 5 https://example.com >/dev/null 2>&1; then printf 'TRANSFER_HTTPS|available`n'; else printf 'TRANSFER_HTTPS|unavailable`n'; fi'',
      transferPathScript,
      raw_lit ''sinfo -h -o 'PARTITION|%P|%a|%D|%c|%m|%l~'',
      raw_lit ''sinfo -h -N -o 'NODE|%P|%N|%T|%c|%m|%d|%w|%f|%G|%E~'',
      raw_lit ''df -PkT "$HOME" "${TMPDIR:-/tmp}" "$(pwd -P)" 2>/dev/null | awk 'NR>1 {printf "FILESYSTEM|%s|%s|%s|%s|%s|%s`n", $1, $2, $3, $4, $5, $7}' | sort -u'']\<close>

definition discovery_script :: string where
  "discovery_script = concat (map (\<lambda>command. command @ ''; '') (butlast discovery_commands)) @ last discovery_commands"

text \<open>What is sent to the login node: a shell that decodes the script and pipes it to another one.\<close>

definition discovery_arguments :: "string list" where
  "discovery_arguments = [''-c'', ''printf %s '' @ base64_encode discovery_script @ '' | base64 -d | /bin/sh'']"

section \<open>The probe\<close>

definition discovery_executor :: "Numbers \<Rightarrow> (string \<Rightarrow> 'w \<Rightarrow> error option \<times> 'w) \<Rightarrow> 'w executor \<Rightarrow> EnvironmentConnection \<Rightarrow> 'w executor" where
  "discovery_executor nu MkdirAll executor connection =
     (if con_Type connection = ConnectionSSH then ssh_Run MkdirAll (ssh_executor nu executor connection) else executor)"

definition slurm_DiscoverConnection ::
  "Numbers \<Rightarrow> (string \<Rightarrow> 'w \<Rightarrow> error option \<times> 'w) \<Rightarrow> (int \<Rightarrow> string) \<Rightarrow> ('w \<Rightarrow> int) \<Rightarrow> 'w executor \<Rightarrow> EnvironmentConnection \<Rightarrow> 'w \<Rightarrow>
     ConnectionDiscovery result \<times> 'w"
where
  "slurm_DiscoverConnection nu MkdirAll tt now executor connection w =
     (if con_Type connection \<notin> {ConnectionSSH, ConnectionAgent, ConnectionLocal} then
        (Err (Errorf ''unsupported SLURM connection type %q'' [FmtS (connection_type_text (con_Type connection))]), w)
      else
        case discovery_executor nu MkdirAll executor connection ''/bin/sh'' discovery_arguments '''' w of
          ((_, Some e), w1) \<Rightarrow> (Err (Errorf ''SLURM discovery: %w'' [FmtE e]), w1)
        | ((output, None), w1) \<Rightarrow>
            (then_result (parseDiscovery tt (now w1) output) (\<lambda>d.
               (let transfer = addConfiguredTransferPaths (con_Configuration connection) (cdi_Transfer d)
                in Ok (d\<lparr>cdi_Transfer := transfer, cdi_Metadata := put ''transferCapabilities'' (transfer_any tt transfer) (cdi_Metadata d)\<rparr>))), w1))"

end
