(* ===== verification/Slurm_Discovery_Properties.thy ===== *)
theory Slurm_Discovery_Properties
  imports Slurm_Discovery
begin

text \<open>
  The inventory that the SLURM probe reads: no output makes the parser panic, every node appears once with all its
  partitions, and what the records of the container runtimes amount to.
\<close>

section \<open>First occurrences\<close>

definition firsts :: "'a list \<Rightarrow> 'a list" where
  "firsts xs = rev (remdups (rev xs))"

lemma firsts_Nil [simp]: "firsts [] = []"
  by (simp add: firsts_def)

lemma set_firsts [simp]: "set (firsts xs) = set xs"
  by (simp add: firsts_def)

lemma distinct_firsts [simp]: "distinct (firsts xs)"
  by (simp add: firsts_def)

lemma firsts_snoc: "firsts (xs @ [x]) = (if x \<in> set xs then firsts xs else firsts xs @ [x])"
  by (simp add: firsts_def)

lemma appendUnique_firsts: "appendUnique (firsts xs) x = firsts (xs @ [x])"
  by (simp add: appendUnique_def firsts_snoc)

section \<open>Records\<close>

definition line_fields :: "string \<Rightarrow> string list" where
  "line_fields raw = split_char CHR ''|'' (trim_space raw)"

definition is_node :: "string list \<Rightarrow> bool" where
  "is_node fs \<longleftrightarrow> hd fs = ''NODE'' \<and> 11 \<le> length fs"

definition node_records :: "string list \<Rightarrow> string list list" where
  "node_records raws = filter is_node (map line_fields raws)"

text \<open>The partitions that the records name for a node, and the map that is kept for it.\<close>

definition node_partitions :: "string list list \<Rightarrow> string \<Rightarrow> string list" where
  "node_partitions rs name = firsts (map (\<lambda>fs. cleanPartition (fs ! 1)) (filter (\<lambda>fs. fs ! 2 = name) rs))"

definition node_map :: "string list list \<Rightarrow> string \<Rightarrow> metadata" where
  "node_map rs name = put ''partitions'' (AnyStrings (node_partitions rs name)) (new_node (hd (filter (\<lambda>fs. fs ! 2 = name) rs)))"

definition nodes_read :: "string list list \<Rightarrow> DiscoveryState \<Rightarrow> bool" where
  "nodes_read rs st \<longleftrightarrow> dst_order st = firsts (map (\<lambda>fs. fs ! 2) rs) \<and>
     (\<forall>name. map_of (dst_nodes st) name = (if name \<in> set (dst_order st) then Some (node_map rs name) else None))"

lemma node_map_partitions: "assert_strings (node_map rs name) ''partitions'' = Ok (node_partitions rs name)"
  by (simp add: node_map_def assert_strings_def)

lemma node_map_snoc_other: "fs ! 2 \<noteq> name \<Longrightarrow> node_map (rs @ [fs]) name = node_map rs name"
  by (simp add: node_map_def node_partitions_def)

lemma node_map_snoc_old:
  assumes "fs ! 2 \<in> set (map (\<lambda>fs. fs ! 2) rs)"
  shows "node_map (rs @ [fs]) (fs ! 2) =
    put ''partitions'' (AnyStrings (appendUnique (node_partitions rs (fs ! 2)) (cleanPartition (fs ! 1)))) (node_map rs (fs ! 2))"
proof -
  have "filter (\<lambda>f. f ! 2 = fs ! 2) rs \<noteq> []" using assms by (auto simp: filter_empty_conv)
  then have "hd (filter (\<lambda>f. f ! 2 = fs ! 2) (rs @ [fs])) = hd (filter (\<lambda>f. f ! 2 = fs ! 2) rs)" by simp
  then show ?thesis by (simp add: node_map_def node_partitions_def appendUnique_firsts put_put)
qed

lemma node_map_snoc_new:
  assumes "fs ! 2 \<notin> set (map (\<lambda>fs. fs ! 2) rs)"
  shows "node_map (rs @ [fs]) (fs ! 2) = put ''partitions'' (AnyStrings (appendUnique [] (cleanPartition (fs ! 1)))) (new_node fs)"
proof -
  have "filter (\<lambda>f. f ! 2 = fs ! 2) rs = []" using assms by (simp add: filter_empty_conv image_iff) metis
  then show ?thesis by (simp add: node_map_def node_partitions_def appendUnique_def firsts_def)
qed

lemma node_record_read:
  assumes "nodes_read rs st"
  shows "\<exists>st'. node_record fs st = Ok st' \<and> nodes_read (rs @ [fs]) st' \<and> dst_transfer st' = dst_transfer st"
proof (cases "fs ! 2 \<in> set (map (\<lambda>fs. fs ! 2) rs)")
  case True
  then have m: "map_of (dst_nodes st) (fs ! 2) = Some (node_map rs (fs ! 2))" and o: "dst_order st = firsts (map (\<lambda>fs. fs ! 2) rs)"
    using assms by (auto simp: nodes_read_def)
  then show ?thesis using assms True node_map_snoc_old [OF True] node_map_snoc_other [of fs _ rs]
    by (auto simp: node_record_def Let_def get_list_def node_map_partitions nodes_read_def firsts_snoc)
next
  case False
  then have m: "map_of (dst_nodes st) (fs ! 2) = None" and o: "dst_order st = firsts (map (\<lambda>fs. fs ! 2) rs)"
    using assms by (auto simp: nodes_read_def)
  moreover have "assert_strings (new_node fs) ''partitions'' = Ok []" by (simp add: new_node_def assert_strings_def)
  ultimately show ?thesis using assms False node_map_snoc_new [OF False] node_map_snoc_other [of fs _ rs]
    by (auto simp: node_record_def Let_def get_list_def nodes_read_def firsts_snoc put_put)
qed

section \<open>Container runtimes\<close>

text \<open>What a record says of a container runtime, and what is kept of the records read so far.\<close>

definition runtime_report :: "string list \<Rightarrow> bool option" where
  "runtime_report fs = (if hd fs = ''TRANSFER_TOOL'' \<and> 3 \<le> length fs \<and> fs ! 1 \<in> {''apptainer'', ''singularity''} then Some (fs ! 2 = ''available'') else None)"

definition runtime_reports :: "string list \<Rightarrow> bool list" where
  "runtime_reports raws = List.map_filter (\<lambda>raw. runtime_report (line_fields raw)) raws"

definition last_report :: "bool list \<Rightarrow> bool" where
  "last_report bs \<longleftrightarrow> bs \<noteq> [] \<and> last bs"

definition runtime_read :: "bool list \<Rightarrow> DiscoveryState \<Rightarrow> bool" where
  "runtime_read bs st \<longleftrightarrow> cob_Available (tca_ContainerRuntime (dst_transfer st)) = last_report bs"

lemma transfer_record_runtime:
  "cob_Available (tca_ContainerRuntime (handleTransferRecord fs c)) =
     (case runtime_report fs of None \<Rightarrow> cob_Available (tca_ContainerRuntime c) | Some b \<Rightarrow> b)"
  by (auto simp: handleTransferRecord_def runtime_report_def setTransferTool_def set_connector_def capabilityObservation_def observation_def Let_def)

lemma runtime_report_other: "hd fs \<noteq> ''TRANSFER_TOOL'' \<Longrightarrow> runtime_report fs = None"
  by (simp add: runtime_report_def)

section \<open>Lines\<close>

lemma discovery_line_read:
  assumes "nodes_read rs st" and "runtime_read bs st"
  shows "\<exists>st'. discovery_line raw st = Ok st' \<and> nodes_read (rs @ node_records [raw]) st' \<and> runtime_read (bs @ runtime_reports [raw]) st'"
proof -
  let ?fs = "line_fields raw"
  consider (node) "is_node ?fs" | (other) "\<not> is_node ?fs" by blast
  then show ?thesis
  proof cases
    case node
    then have "discovery_line raw st = node_record ?fs st" by (simp add: discovery_line_def line_fields_def is_node_def Let_def)
    moreover have "runtime_report ?fs = None" using node by (intro runtime_report_other) (simp add: is_node_def)
    ultimately show ?thesis using node node_record_read [OF assms(1), of ?fs] assms(2)
      by (auto simp: node_records_def runtime_reports_def runtime_read_def List.map_filter_def)
  next
    case other
    then have "\<exists>st'. discovery_line raw st = Ok st' \<and> dst_nodes st' = dst_nodes st \<and> dst_order st' = dst_order st \<and>
        cob_Available (tca_ContainerRuntime (dst_transfer st')) =
          (case runtime_report ?fs of None \<Rightarrow> cob_Available (tca_ContainerRuntime (dst_transfer st)) | Some b \<Rightarrow> b)"
      by (auto simp: discovery_line_def line_fields_def is_node_def runtime_report_other transfer_record_runtime Let_def)
    then show ?thesis using other assms
      by (auto simp: node_records_def runtime_reports_def runtime_read_def nodes_read_def last_report_def List.map_filter_def split: option.splits)
  qed
qed

lemma discovery_lines_read:
  "nodes_read rs st \<Longrightarrow> runtime_read bs st \<Longrightarrow>
     \<exists>st'. discovery_lines raws st = Ok st' \<and> nodes_read (rs @ node_records raws) st' \<and> runtime_read (bs @ runtime_reports raws) st'"
proof (induction raws arbitrary: rs bs st)
  case (Cons raw raws)
  obtain st1 where 1: "discovery_line raw st = Ok st1" "nodes_read (rs @ node_records [raw]) st1" "runtime_read (bs @ runtime_reports [raw]) st1"
    using discovery_line_read [OF Cons.prems] by blast
  have "node_records (raw # raws) = node_records [raw] @ node_records raws" "runtime_reports (raw # raws) = runtime_reports [raw] @ runtime_reports raws"
    by (simp_all add: node_records_def runtime_reports_def List.map_filter_def)
  then show ?case using 1 Cons.IH [OF 1(2,3)] by auto
qed (simp add: node_records_def runtime_reports_def List.map_filter_def)

lemma initial_read: "nodes_read [] (initial_discovery now)" "runtime_read [] (initial_discovery now)"
  by (simp_all add: nodes_read_def initial_discovery_def runtime_read_def last_report_def transferCapabilities_def observation_def Let_def)

section \<open>Nodes of the result\<close>

lemma node_map_value:
  "k \<noteq> ''partitions'' \<Longrightarrow> map_of (node_map rs name) k = map_of (new_node (hd (filter (\<lambda>fs. fs ! 2 = name) rs))) k"
  by (simp add: node_map_def)

lemma discoveredNode_map:
  assumes "name \<in> set (map (\<lambda>fs. fs ! 2) rs)"
  shows "\<exists>n. discoveredNode (node_map rs name) architecture = Ok n \<and> dno_Name n = name \<and> dno_Partitions n = node_partitions rs name"
proof -
  have "filter (\<lambda>fs. fs ! 2 = name) rs \<noteq> []" using assms by (auto simp: filter_empty_conv)
  then have "hd (filter (\<lambda>fs. fs ! 2 = name) rs) ! 2 = name" using hd_in_set [of "filter (\<lambda>fs. fs ! 2 = name) rs"] by simp
  then show ?thesis using node_map_partitions [of rs name]
    by (simp add: discoveredNode_def assert_string_def assert_int64_def assert_strings_def node_map_value new_node_def)
qed

lemma discoveredNodes_maps:
  "set names \<subseteq> set (map (\<lambda>fs. fs ! 2) rs) \<Longrightarrow>
     \<exists>ns. discoveredNodes (map (node_map rs) names) architecture = Ok ns \<and>
       map (\<lambda>n. (dno_Name n, dno_Partitions n)) ns = map (\<lambda>name. (name, node_partitions rs name)) names"
proof (induction names)
  case (Cons name names)
  then show ?case using discoveredNode_map [of name rs architecture] by auto
qed simp

lemma parse_read:
  "\<exists>st d. parseDiscovery tt now output = Ok d \<and> cdi_Transfer d = dst_transfer st \<and> runtime_read (runtime_reports (split_lines output)) st \<and>
     map (\<lambda>n. (dno_Name n, dno_Partitions n)) (cdi_Nodes d) =
       map (\<lambda>name. (name, node_partitions (node_records (split_lines output)) name)) (firsts (map (\<lambda>fs. fs ! 2) (node_records (split_lines output))))"
proof -
  let ?rs = "node_records (split_lines output)"
  obtain st where l: "discovery_lines (split_lines output) (initial_discovery now) = Ok st" and n: "nodes_read ?rs st"
    and r: "runtime_read (runtime_reports (split_lines output)) st"
    using discovery_lines_read [OF initial_read, of "split_lines output" now] by auto
  have "orderedNodes (dst_nodes st) (dst_order st) = map (node_map ?rs) (firsts (map (\<lambda>fs. fs ! 2) ?rs))"
    using n by (auto simp: orderedNodes_def nodes_read_def get_list_def)
  moreover obtain ns where "discoveredNodes (map (node_map ?rs) (firsts (map (\<lambda>fs. fs ! 2) ?rs))) (stringValue (map_of (put ''filesystems'' (AnyMaps (dst_filesystems st)) (put ''nodes'' (AnyMaps (map (node_map ?rs) (firsts (map (\<lambda>fs. fs ! 2) ?rs)))) (put ''partitions'' (AnyMaps (dst_partitions st)) (dst_metadata st)))) ''architecture'')) = Ok ns"
    "map (\<lambda>n. (dno_Name n, dno_Partitions n)) ns = map (\<lambda>name. (name, node_partitions ?rs name)) (firsts (map (\<lambda>fs. fs ! 2) ?rs))"
    using discoveredNodes_maps [of "firsts (map (\<lambda>fs. fs ! 2) ?rs)" ?rs] by auto
  ultimately show ?thesis using l r by (intro exI [of _ st]) (simp add: parseDiscovery_def discovery_result_def Let_def)
qed

text \<open>
  C32. No output of the probe makes the parser panic, and it reports every node once, in the order of the first record of each,
  with the partitions of all its records.
\<close>

theorem discovered_nodes:
  "\<exists>d. parseDiscovery tt now output = Ok d \<and>
     map (\<lambda>n. (dno_Name n, dno_Partitions n)) (cdi_Nodes d) =
       map (\<lambda>name. (name, node_partitions (node_records (split_lines output)) name)) (firsts (map (\<lambda>fs. fs ! 2) (node_records (split_lines output))))"
  using parse_read [of tt now "output"] by blast

text \<open>The container runtime is available when the last record of a container runtime says so.\<close>

lemma container_runtime_last:
  "\<exists>d. parseDiscovery tt now output = Ok d \<and> cob_Available (tca_ContainerRuntime (cdi_Transfer d)) = last_report (runtime_reports (split_lines output))"
  using parse_read [of tt now "output"] unfolding runtime_read_def by metis

section \<open>The probe on its way\<close>

lemma script_quoted: "squote \<in> set discovery_script"
proof -
  have "squote \<in> set (hd (butlast discovery_commands)) \<and> butlast discovery_commands \<noteq> []" by code_simp
  then show ?thesis unfolding discovery_script_def by (cases "butlast discovery_commands") auto
qed

text \<open>
  The login shell reads the command of the probe as it was given, and what the command decodes is the script; the script
  itself, sent as an argument, would not arrive.
\<close>

theorem probe_intact:
  "shell_words env (remote_command ''/bin/sh'' discovery_arguments) = Some (''/bin/sh'' # discovery_arguments) \<and>
   (\<exists>sent. discovery_arguments = [''-c'', ''printf %s '' @ sent @ '' | base64 -d | /bin/sh''] \<and> base64_decode sent = Some discovery_script) \<and>
   shell_words env (remote_command ''/bin/sh'' [''-c'', discovery_script]) \<noteq> Some [''/bin/sh'', ''-c'', discovery_script]"
proof (intro conjI)
  have "squote \<notin> set (base64_encode discovery_script)" by (rule base64_encode_chars) (simp_all add: base64_values)
  then show "shell_words env (remote_command ''/bin/sh'' discovery_arguments) = Some (''/bin/sh'' # discovery_arguments)"
    unfolding shell_words_def remote_command_def scan_ssh_unwords by (simp add: discovery_arguments_def)
  show "\<exists>sent. discovery_arguments = [''-c'', ''printf %s '' @ sent @ '' | base64 -d | /bin/sh''] \<and> base64_decode sent = Some discovery_script"
    using base64_decode_encode unfolding discovery_arguments_def by blast
  show "shell_words env (remote_command ''/bin/sh'' [''-c'', discovery_script]) \<noteq> Some [''/bin/sh'', ''-c'', discovery_script]"
    unfolding shell_words_def remote_command_def scan_ssh_unwords using script_quoted by simp
qed

end
