(* ===== verification/Discovery_Service.thy ===== *)
theory Discovery_Service
  imports Environment_Domain
begin

text \<open>
  The discovery coordinator, \<^verbatim>\<open>internal/application/environment/discovery_service.go\<close>, and the checks of connector bindings,
  \<^verbatim>\<open>transfer_health.go\<close>: what a probe of a connection observes becomes resources with their bindings, relations and
  snapshots, and storages. The catalog, the inventory and the drivers are functions on a state \<open>'w\<close>.
\<close>

section \<open>The coordinator\<close>

record 'w DiscoveryCoordinator =
  dco_List :: "'w \<Rightarrow> (error + EnvironmentDefinition list) \<times> 'w"
  dco_UpsertDiscoveredStorage :: "(StorageResource \<Rightarrow> 'w \<Rightarrow> error option \<times> 'w) option"
  dco_Upsert :: "Resource \<Rightarrow> 'w \<Rightarrow> error option \<times> 'w"
  dco_UpsertRuntimeBinding :: "ResourceRuntimeBinding \<Rightarrow> 'w \<Rightarrow> error option \<times> 'w"
  dco_UpsertRelation :: "ResourceRelation \<Rightarrow> 'w \<Rightarrow> error option \<times> 'w"
  dco_CreateSnapshot :: "ResourceSnapshot \<Rightarrow> 'w \<Rightarrow> error option \<times> 'w"
  dco_discoverers :: "(ConnectionType, EnvironmentConnection \<Rightarrow> 'w \<Rightarrow> (error + ConnectionDiscovery) \<times> 'w) gomap"
  dco_audit :: "(AuditEvent \<Rightarrow> 'w \<Rightarrow> error option \<times> 'w) option"
  dco_now :: "'w \<Rightarrow> int"
  dco_newID :: "string \<Rightarrow> 'w \<Rightarrow> string"
  dco_numbers :: Numbers
  dco_ToLower :: "string \<Rightarrow> string"

text \<open>Calls one after the other until one fails; what the earlier ones did stays.\<close>

fun run_steps :: "('w \<Rightarrow> error option \<times> 'w) list \<Rightarrow> 'w \<Rightarrow> error option \<times> 'w" where
  "run_steps [] w = (None, w)"
| "run_steps (f # fs) w = (case f w of (Some e, w1) \<Rightarrow> (Some e, w1) | (None, w1) \<Rightarrow> run_steps fs w1)"

definition wrapped :: "string \<Rightarrow> fmt_arg list \<Rightarrow> ('w \<Rightarrow> error option \<times> 'w) \<Rightarrow> 'w \<Rightarrow> error option \<times> 'w" where
  "wrapped text args f w = (case f w of (Some e, w1) \<Rightarrow> (Some (Errorf text (args @ [FmtE e])), w1) | (None, w1) \<Rightarrow> (None, w1))"

section \<open>Names and limits\<close>

definition clusterResourceID :: "string \<Rightarrow> string" where
  "clusterResourceID connectionID = connectionID @ ''-cluster''"

definition loginResourceID :: "string \<Rightarrow> string" where
  "loginResourceID connectionID = connectionID @ ''-login''"

definition clusterResourceName :: "EnvironmentDefinition \<Rightarrow> EnvironmentConnection \<Rightarrow> string" where
  "clusterResourceName d connection =
     (if trim_space (env_Name (def_Environment d)) \<noteq> '''' then env_Name (def_Environment d) @ '' cluster'' else con_Name connection @ '' cluster'')"

text \<open>\<^verbatim>\<open>minPositive\<close> and \<^verbatim>\<open>minPositive64\<close>.\<close>

definition minPositive :: "int \<Rightarrow> int \<Rightarrow> int" where
  "minPositive value limit = (if value \<le> 0 \<or> value > limit then limit else value)"

definition resourceIdentifier :: "(string \<Rightarrow> string) \<Rightarrow> string \<Rightarrow> string" where
  "resourceIdentifier ToLower value =
     trim_dashes (map_runes (\<lambda>r. case r of
         [c] \<Rightarrow> if (97 \<le> (of_char c :: nat) \<and> (of_char c :: nat) \<le> 122) \<or> is_digit c \<or> c = CHR ''-'' \<or> c = CHR ''_'' then [c] else ''-''
       | _ \<Rightarrow> ''-'') (ToLower (trim_space value)))"

definition discoveredNodeID :: "string \<Rightarrow> string \<Rightarrow> string" where
  "discoveredNodeID connectionID nodeName = map (\<lambda>c. if c \<in> set ''/ :'' then CHR ''-'' else c) (connectionID @ ''-node-'' @ nodeName)"

definition intValue :: "Numbers \<Rightarrow> any option \<Rightarrow> int" where
  "intValue nu value = (case value of Some (AnyInt64 i) \<Rightarrow> i | Some (AnyInt i) \<Rightarrow> i | Some (AnyFloat64 x) \<Rightarrow> to_int64 nu x | _ \<Rightarrow> 0)"

definition slurmNodeAvailable :: "(string \<Rightarrow> string) \<Rightarrow> string \<Rightarrow> bool" where
  "slurmNodeAvailable ToLower state =
     (let s = ToLower (rev (dropWhile (\<lambda>c. c \<in> set ''*~#$+'') (rev (trim_space state)))) in
      s \<notin> {''down'', ''drain'', ''drained'', ''fail'', ''failing'', ''unknown''} \<and> s \<noteq> '''')"

section \<open>Connections, runtimes and bound resources\<close>

definition runtimeIDsForConnection :: "EnvironmentDefinition \<Rightarrow> string \<Rightarrow> string list" where
  "runtimeIDsForConnection d connectionID = map ert_ID (filter (\<lambda>r. configuredConnectionID (ert_Configuration r) = connectionID) (def_Runtimes d))"

definition boundResourceIDs :: "EnvironmentDefinition \<Rightarrow> string \<Rightarrow> string list" where
  "boundResourceIDs d connectionID =
     (let runtimeIDs = runtimeIDsForConnection d connectionID;
          ids = map bind_ResourceID (filter (\<lambda>b. bind_Enabled b \<and> bind_RuntimeID b \<in> set runtimeIDs) (def_RuntimeBindings d))
      in map res_ID (filter (\<lambda>r. res_ID r \<in> set ids) (def_Resources d)))"

fun find_connection :: "string \<Rightarrow> EnvironmentDefinition list \<Rightarrow> (EnvironmentDefinition \<times> EnvironmentConnection) option" where
  "find_connection i [] = None"
| "find_connection i (d # ds) = (case find (\<lambda>c. con_ID c = i) (def_Connections d) of Some c \<Rightarrow> Some (d, c) | None \<Rightarrow> find_connection i ds)"

definition findConnection :: "'w DiscoveryCoordinator \<Rightarrow> string \<Rightarrow> 'w \<Rightarrow> (error + EnvironmentDefinition \<times> EnvironmentConnection) \<times> 'w" where
  "findConnection s i w =
     (case dco_List s w of
        (Inl e, w1) \<Rightarrow> (Inl e, w1)
      | (Inr definitions, w1) \<Rightarrow>
         (case find_connection i definitions of
            Some dc \<Rightarrow> (Inr dc, w1)
          | None \<Rightarrow> (Inl (Errorf ''environment connection %q was not found'' [FmtS i]), w1)))"

definition recordAudit :: "'w DiscoveryCoordinator \<Rightarrow> AuditEvent \<Rightarrow> 'w \<Rightarrow> 'w" where
  "recordAudit s event w =
     (case dco_audit s of None \<Rightarrow> w | Some audit \<Rightarrow> snd (audit (event\<lparr>aud_ID := dco_newID s ''audit'' w, aud_OccurredAt := dco_now s w\<rparr>) w))"

section \<open>Storages\<close>

definition trim_slashes :: "string \<Rightarrow> string" where
  "trim_slashes s = rev (dropWhile (\<lambda>c. c = CHR ''/'') (rev (dropWhile (\<lambda>c. c = CHR ''/'') s)))"

definition discovered_storage ::
  "(string \<Rightarrow> string) \<Rightarrow> EnvironmentDefinition \<Rightarrow> EnvironmentConnection \<Rightarrow> ConnectionDiscovery \<Rightarrow> string list \<Rightarrow> TransferPath \<Rightarrow> StorageResource"
where
  "discovered_storage ToLower d connection obs runtimeIDs p =
     (let path = trim_space (tpa_Path p);
          kind = (if contains (ToLower (tpa_Kind p)) ''scratch'' \<or> contains (ToLower path) ''scratch'' then StorageLustre else StorageSSH);
          i = ''discovered-storage-'' @ con_ID connection @ ''-'' @ map (\<lambda>c. if c = CHR ''/'' \<or> c = CHR '' '' then CHR ''-'' else c) (trim_slashes path);
          ident = (if has_suffix i ''-'' then i @ ''root'' else i);
          computeVisible = (tpa_ComputeNodeVisible p = Some True); readOnly = (\<not> tpa_Writable p)
      in \<lparr>sto_ID = ident, sto_EnvironmentVersionID = env_VersionID (def_Version d), sto_Name = ''Discovered '' @ tpa_Kind p @ '' '' @ path, sto_Type = kind,
          sto_Endpoint = path, sto_CapacityBytes = tpa_AvailableBytes p, sto_Shared = computeVisible, sto_ReadOnly = readOnly,
          sto_Configuration = [(''browseRoots'', AnyList [AnyMap [(''path'', AnyString path), (''label'', AnyString (tpa_Kind p)), (''readOnly'', AnyBool readOnly)]])],
          sto_CredentialReference = '''',
          sto_Metadata = [(''connectionId'', AnyString (con_ID connection)), (''discoverySource'', AnyString ''transfer-path'')],
          sto_RuntimeBindings = map (\<lambda>runtimeID. \<lparr>srb_RuntimeID = runtimeID, srb_Default = False, srb_HostPath = path, srb_ContainerPath = '''',
            srb_ReadOnly = readOnly, srb_Configuration = [(''discoverySource'', AnyString ''transfer-path'')]\<rparr>) runtimeIDs,
          sto_BrowseRoots = [\<lparr>sbr_Path = path, sbr_Label = tpa_Kind p, sbr_ReadOnly = readOnly\<rparr>],
          sto_Capabilities = \<lparr>stc_Browse = True, stc_Read = True, stc_Write = tpa_Writable p, stc_Download = True, stc_Upload = tpa_Writable p,
            stc_Checksum = cob_Available (tca_Checksum (cdi_Transfer obs)), stc_PresignedDownload = False, stc_ComputeNodeVisible = computeVisible\<rparr>,
          sto_Health = \<lparr>shs_Status = StorageHealthOther '''', shs_Message = '''', shs_CheckedAt = 0, shs_AvailableBytes = 0\<rparr>,
          sto_IndexPolicy = \<lparr>ixp_Enabled = False, ixp_Roots = [], ixp_MaxDepth = 0, ixp_MaxEntries = 0, ixp_Include = [], ixp_Exclude = [], ixp_TimeoutSeconds = 0\<rparr>,
          sto_IndexStatus = \<lparr>ixs_Status = '''', ixs_IndexedEntries = 0, ixs_LastIndexedAt = 0, ixs_Message = ''''\<rparr>\<rparr>)"

text \<open>The paths that are materialized: the first one of every text, without the empty one.\<close>

fun distinct_paths :: "string list \<Rightarrow> TransferPath list \<Rightarrow> TransferPath list" where
  "distinct_paths seen [] = []"
| "distinct_paths seen (p # ps) =
     (let path = trim_space (tpa_Path p) in
      if path = '''' \<or> path \<in> set seen then distinct_paths seen ps else p # distinct_paths (path # seen) ps)"

definition materializeDiscoveredStorages ::
  "'w DiscoveryCoordinator \<Rightarrow> (StorageResource \<Rightarrow> 'w \<Rightarrow> error option \<times> 'w) \<Rightarrow> EnvironmentDefinition \<Rightarrow> EnvironmentConnection \<Rightarrow> ConnectionDiscovery \<Rightarrow>
     'w \<Rightarrow> error option \<times> 'w"
where
  "materializeDiscoveredStorages s store d connection obs =
     run_steps (map (\<lambda>p. wrapped ''upsert discovered storage %s: %w'' [FmtS (trim_space (tpa_Path p))]
         (store (discovered_storage (dco_ToLower s) d connection obs (runtimeIDsForConnection d (con_ID connection)) p)))
       (distinct_paths [] (tca_Paths (cdi_Transfer obs))))"

section \<open>The structure of a cluster\<close>

definition partition_values :: "ConnectionDiscovery \<Rightarrow> metadata list" where
  "partition_values obs = (case map_of (cdi_Metadata obs) ''partitions'' of Some (AnyMaps ms) \<Rightarrow> ms | _ \<Rightarrow> [])"

definition discovered_partition :: "'w DiscoveryCoordinator \<Rightarrow> EnvironmentDefinition \<Rightarrow> EnvironmentConnection \<Rightarrow> metadata \<Rightarrow> Resource" where
  "discovered_partition s d connection value =
     (let name = trim_space (meta_string value ''name''); cores = intValue (dco_numbers s) (map_of value ''cpuCoresPerNode'') in
      zero_resource\<lparr>res_ID := con_ID connection @ ''-partition-'' @ resourceIdentifier (dco_ToLower s) name,
        res_EnvironmentVersionID := env_VersionID (def_Version d), res_ExecutionTarget := ExecutionTargetBatch, res_Type := ResourceHPCPartition,
        res_Name := name, res_ProviderID := name, res_CPUCores := cores, res_CPUCapacity := f_of_int cores,
        res_MemoryBytes := wrap64 (intValue (dco_numbers s) (map_of value ''memoryMiBPerNode'') * 1048576), res_ComputeSpeedup := f_of_int 1,
        res_Schedulable := True,
        res_Metadata := put ''interactive'' (AnyBool True) (put ''discovered'' (AnyBool True) (put ''connectionId'' (AnyString (con_ID connection)) value))\<rparr>)"

definition discoveredPartitions :: "'w DiscoveryCoordinator \<Rightarrow> EnvironmentDefinition \<Rightarrow> EnvironmentConnection \<Rightarrow> ConnectionDiscovery \<Rightarrow> Resource list" where
  "discoveredPartitions s d connection obs =
     (let configured = map res_ProviderID (filter (\<lambda>r. res_Type r = ResourceHPCPartition) (def_Resources d)) in
      map (discovered_partition s d connection)
        (filter (\<lambda>value. let name = trim_space (meta_string value ''name'') in name \<noteq> '''' \<and> name \<notin> set configured) (partition_values obs)))"

definition binding :: "string \<Rightarrow> metadata \<Rightarrow> string \<Rightarrow> ResourceRuntimeBinding" where
  "binding resourceID configuration runtimeID =
     \<lparr>bind_ResourceID = resourceID, bind_RuntimeID = runtimeID, bind_Enabled = True, bind_Configuration = configuration\<rparr>"

definition discovery_snapshot :: "string \<Rightarrow> string \<Rightarrow> int \<Rightarrow> bool \<Rightarrow> metadata \<Rightarrow> ResourceSnapshot" where
  "discovery_snapshot ident resourceID capturedAt available m =
     \<lparr>snap_ID = ident, snap_ResourceID = resourceID, snap_CapturedAt = capturedAt, snap_Available = available, snap_CPUUsed = fzero, snap_MemoryUsedBytes = 0,
      snap_NetworkInBPS = fzero, snap_NetworkOutBPS = fzero, snap_DiskReadBPS = fzero, snap_DiskWriteBPS = fzero, snap_QueueLength = 0, snap_Metadata = m\<rparr>"

definition login_metadata :: "EnvironmentConnection \<Rightarrow> DiscoveredLoginNode \<Rightarrow> metadata" where
  "login_metadata connection n =
     (let m1 = put ''discovered'' (AnyBool True) (put ''connectionId'' (AnyString (con_ID connection)) (dln_Metadata n));
          m2 = (if trim_space (meta_string m1 ''role'') = '''' then put ''role'' (AnyString ''login'') m1 else m1);
          m3 = put ''commandExecution'' (AnyBool True) (put ''interactive'' (AnyBool True) (put ''observedHostname'' (AnyString (dln_Name n)) m2));
          m4 = (if map_of m3 ''role'' = Some (AnyString ''login'') then put ''schedulerGateway'' (AnyBool True) m3 else m3)
      in put ''maxDirectDurationSeconds'' (AnyInt 1800) (put ''maxDirectMemoryBytes'' (AnyInt64 (minPositive (dln_MemoryBytes n) 4294967296))
           (put ''maxDirectCpu'' (AnyInt (minPositive (dln_CPUCores n) 2)) m4)))"

definition login_resource :: "EnvironmentDefinition \<Rightarrow> EnvironmentConnection \<Rightarrow> string \<Rightarrow> DiscoveredLoginNode \<Rightarrow> Resource" where
  "login_resource d connection clusterID n =
     zero_resource\<lparr>res_ID := loginResourceID (con_ID connection), res_EnvironmentVersionID := env_VersionID (def_Version d),
       res_ParentResourceID := Some clusterID, res_ExecutionTarget := ExecutionTargetDirect, res_Type := ResourceHPCMachine, res_Name := con_Name connection,
       res_ProviderID := con_Endpoint connection, res_Architecture := dln_Architecture n, res_CPUCores := dln_CPUCores n,
       res_CPUCapacity := f_of_int (minPositive (dln_CPUCores n) 2), res_MemoryBytes := dln_MemoryBytes n, res_StorageBytes := dln_StorageBytes n,
       res_ComputeSpeedup := f_of_int 1, res_Schedulable := True, res_Metadata := login_metadata connection n\<rparr>"

definition materializeLoginNode ::
  "'w DiscoveryCoordinator \<Rightarrow> EnvironmentDefinition \<Rightarrow> EnvironmentConnection \<Rightarrow> string \<Rightarrow> string list \<Rightarrow> DiscoveredLoginNode \<Rightarrow> bool \<Rightarrow> 'w \<Rightarrow>
     (error + ResourceSnapshot) \<times> 'w"
where
  "materializeLoginNode s d connection clusterID runtimeIDs n available w =
     (let resourceID = loginResourceID (con_ID connection) in
      case run_steps (wrapped ''upsert discovered login node %q: %w'' [FmtS (dln_Name n)] (dco_Upsert s (login_resource d connection clusterID n)) #
          map (\<lambda>runtimeID. wrapped ''bind discovered login node %q: %w'' [FmtS (dln_Name n)]
            (dco_UpsertRuntimeBinding s (binding resourceID [(''executionTarget'', AnyString ''direct''), (''role'', AnyString ''login'')] runtimeID))) runtimeIDs) w of
        (Some e, w1) \<Rightarrow> (Inl e, w1)
      | (None, w1) \<Rightarrow>
          (let snapshot = discovery_snapshot (dco_newID s ''resource-discovery'' w1) resourceID (dco_now s w1) available (login_metadata connection n) in
           case wrapped ''snapshot discovered login node %q: %w'' [FmtS (dln_Name n)] (dco_CreateSnapshot s snapshot) w1 of
             (Some e, w2) \<Rightarrow> (Inl e, w2)
           | (None, w2) \<Rightarrow> (Inr snapshot, w2)))"

definition node_metadata :: "EnvironmentConnection \<Rightarrow> DiscoveredNode \<Rightarrow> metadata" where
  "node_metadata connection n = put ''discovered'' (AnyBool True) (put ''connectionId'' (AnyString (con_ID connection)) (dno_Metadata n))"

definition node_resource :: "EnvironmentDefinition \<Rightarrow> EnvironmentConnection \<Rightarrow> string \<Rightarrow> DiscoveredNode \<Rightarrow> Resource" where
  "node_resource d connection clusterID n =
     zero_resource\<lparr>res_ID := discoveredNodeID (con_ID connection) (dno_Name n), res_EnvironmentVersionID := env_VersionID (def_Version d),
       res_ParentResourceID := (if clusterID \<noteq> '''' then Some clusterID else None), res_ExecutionTarget := ExecutionTargetBatch, res_Type := ResourceHPCMachine,
       res_Name := dno_Name n, res_ProviderID := dno_Name n, res_Architecture := dno_Architecture n, res_CPUCores := dno_CPUCores n,
       res_CPUCapacity := f_of_int (dno_CPUCores n), res_MemoryBytes := dno_MemoryBytes n, res_StorageBytes := dno_StorageBytes n,
       res_ComputeSpeedup := f_of_int 1, res_Schedulable := True, res_Metadata := node_metadata connection n\<rparr>"

text \<open>The partitions by their provider's name and by their own; a later one takes over a name.\<close>

definition partition_index :: "Resource list \<Rightarrow> (string, Resource) gomap" where
  "partition_index rs = fold (\<lambda>r m. put (res_Name r) r (put (res_ProviderID r) r m)) (filter (\<lambda>r. res_Type r = ResourceHPCPartition) rs) []"

definition node_steps ::
  "'w DiscoveryCoordinator \<Rightarrow> EnvironmentDefinition \<Rightarrow> EnvironmentConnection \<Rightarrow> string \<Rightarrow> DiscoveredNode \<Rightarrow> ('w \<Rightarrow> error option \<times> 'w) list"
where
  "node_steps s d connection clusterID n =
     (let resourceID = discoveredNodeID (con_ID connection) (dno_Name n); index = partition_index (def_Resources d) in
      wrapped ''upsert discovered SLURM node %q: %w'' [FmtS (dno_Name n)] (dco_Upsert s (node_resource d connection clusterID n)) #
      map (\<lambda>runtimeID. wrapped ''bind discovered SLURM node %q: %w'' [FmtS (dno_Name n)] (dco_UpsertRuntimeBinding s (binding resourceID [] runtimeID)))
        (runtimeIDsForConnection d (con_ID connection)) @
      List.map_filter (\<lambda>name. map_option (\<lambda>part. wrapped ''relate partition %q to node %q: %w'' [FmtS name, FmtS (dno_Name n)]
          (dco_UpsertRelation s \<lparr>rel_EnvironmentVersionID = env_VersionID (def_Version d), rel_SourceResourceID = res_ID part, rel_TargetResourceID = resourceID,
             rel_Type = ResourceRelationContains, rel_Metadata = [(''discovered'', AnyBool True)]\<rparr>)) (map_of index name)) (dno_Partitions n))"

fun materialize_nodes ::
  "'w DiscoveryCoordinator \<Rightarrow> EnvironmentDefinition \<Rightarrow> EnvironmentConnection \<Rightarrow> string \<Rightarrow> int \<Rightarrow> DiscoveredNode list \<Rightarrow> 'w \<Rightarrow> (error + ResourceSnapshot list) \<times> 'w"
where
  "materialize_nodes s d connection clusterID now [] w = (Inr [], w)"
| "materialize_nodes s d connection clusterID now (n # ns) w =
     (case run_steps (node_steps s d connection clusterID n) w of
        (Some e, w1) \<Rightarrow> (Inl e, w1)
      | (None, w1) \<Rightarrow>
          (let snapshot = discovery_snapshot (dco_newID s ''resource-discovery'' w1) (discoveredNodeID (con_ID connection) (dno_Name n)) now
                 (slurmNodeAvailable (dco_ToLower s) (dno_State n)) (node_metadata connection n) in
           case wrapped ''snapshot discovered SLURM node %q: %w'' [FmtS (dno_Name n)] (dco_CreateSnapshot s snapshot) w1 of
             (Some e, w2) \<Rightarrow> (Inl e, w2)
           | (None, w2) \<Rightarrow>
               (case materialize_nodes s d connection clusterID now ns w2 of (Inl e, w3) \<Rightarrow> (Inl e, w3) | (Inr snapshots, w3) \<Rightarrow> (Inr (snapshot # snapshots), w3))))"

definition materializeNodes ::
  "'w DiscoveryCoordinator \<Rightarrow> EnvironmentDefinition \<Rightarrow> EnvironmentConnection \<Rightarrow> string \<Rightarrow> ConnectionDiscovery \<Rightarrow> 'w \<Rightarrow> (error + ResourceSnapshot list) \<times> 'w"
where
  "materializeNodes s d connection clusterID obs w = materialize_nodes s d connection clusterID (dco_now s w) (cdi_Nodes obs) w"

definition cluster_id :: "EnvironmentDefinition \<Rightarrow> EnvironmentConnection \<Rightarrow> string" where
  "cluster_id d connection =
     (case find (\<lambda>r. res_Type r = ResourceCluster) (def_Resources d) of Some r \<Rightarrow> res_ID r | None \<Rightarrow> clusterResourceID (con_ID connection))"

definition cluster_resource :: "EnvironmentDefinition \<Rightarrow> EnvironmentConnection \<Rightarrow> Resource" where
  "cluster_resource d connection =
     zero_resource\<lparr>res_ID := cluster_id d connection, res_EnvironmentVersionID := env_VersionID (def_Version d), res_Type := ResourceCluster,
       res_Name := clusterResourceName d connection, res_ProviderID := cluster_id d connection, res_ComputeSpeedup := f_of_int 1, res_Schedulable := False,
       res_Metadata := [(''connectionId'', AnyString (con_ID connection)), (''discovered'', AnyBool True)]\<rparr>"

definition partition_steps :: "'w DiscoveryCoordinator \<Rightarrow> string \<Rightarrow> string list \<Rightarrow> Resource \<Rightarrow> ('w \<Rightarrow> error option \<times> 'w) list" where
  "partition_steps s clusterID runtimeIDs part =
     wrapped ''attach partition %q to discovered cluster: %w'' [FmtS (res_ProviderID part)] (dco_Upsert s (part\<lparr>res_ParentResourceID := Some clusterID\<rparr>)) #
     map (\<lambda>runtimeID. wrapped ''bind discovered partition %q: %w'' [FmtS (res_ProviderID part)]
       (dco_UpsertRuntimeBinding s (binding (res_ID part) [(''executionTarget'', AnyString ''batch''), (''scheduler'', AnyString ''slurm'')] runtimeID))) runtimeIDs"

definition cluster_steps :: "'w DiscoveryCoordinator \<Rightarrow> EnvironmentDefinition \<Rightarrow> EnvironmentConnection \<Rightarrow> Resource list \<Rightarrow> ('w \<Rightarrow> error option \<times> 'w) list" where
  "cluster_steps s d connection resources =
     (let clusterID = cluster_id d connection; runtimeIDs = runtimeIDsForConnection d (con_ID connection) in
      wrapped ''upsert discovered HPC cluster: %w'' [] (dco_Upsert s (cluster_resource d connection)) #
      map (\<lambda>runtimeID. wrapped ''bind discovered HPC cluster: %w'' [] (dco_UpsertRuntimeBinding s (binding clusterID [] runtimeID))) runtimeIDs @
      concat (map (partition_steps s clusterID runtimeIDs) (filter (\<lambda>r. res_Type r = ResourceHPCPartition) resources)))"

definition materializeHPCStructure ::
  "'w DiscoveryCoordinator \<Rightarrow> EnvironmentDefinition \<Rightarrow> EnvironmentConnection \<Rightarrow> ConnectionDiscovery \<Rightarrow> 'w \<Rightarrow> (error + ResourceSnapshot list) \<times> 'w"
where
  "materializeHPCStructure s d connection obs w =
     (if cdi_LoginNode obs = None \<and> cdi_Nodes obs = [] then (Inr [], w)
      else
        let clusterID = cluster_id d connection; runtimeIDs = runtimeIDsForConnection d (con_ID connection);
            d1 = d\<lparr>def_Resources := def_Resources d @ discoveredPartitions s d connection obs\<rparr>
        in case run_steps (cluster_steps s d connection (def_Resources d1)) w of
             (Some e, w1) \<Rightarrow> (Inl e, w1)
           | (None, w1) \<Rightarrow>
          (case (case cdi_LoginNode obs of
                   None \<Rightarrow> (Inr [], w1)
                 | Some n \<Rightarrow> (case materializeLoginNode s d1 connection clusterID runtimeIDs n (cdi_Available obs) w1 of
                     (Inl e, w2) \<Rightarrow> (Inl e, w2) | (Inr snapshot, w2) \<Rightarrow> (Inr [snapshot], w2))) of
             (Inl e, w2) \<Rightarrow> (Inl e, w2)
           | (Inr snapshots, w2) \<Rightarrow>
          (case materializeNodes s d1 connection clusterID obs w2 of
             (Inl e, w3) \<Rightarrow> (Inl e, w3)
           | (Inr nodeSnapshots, w3) \<Rightarrow> (Inr (snapshots @ nodeSnapshots), w3))))"

section \<open>Discovery of a connection\<close>

definition resource_metadata :: "EnvironmentConnection \<Rightarrow> ConnectionDiscovery \<Rightarrow> metadata" where
  "resource_metadata connection obs =
     put ''discoverySource'' (AnyString (connection_type_text (con_Type connection))) (put ''warnings'' (AnyStrings (cdi_Warnings obs))
       (put ''connectionId'' (AnyString (con_ID connection)) (cdi_Metadata obs)))"

fun snapshot_resources ::
  "'w DiscoveryCoordinator \<Rightarrow> EnvironmentConnection \<Rightarrow> ConnectionDiscovery \<Rightarrow> int \<Rightarrow> string list \<Rightarrow> 'w \<Rightarrow> (error + ResourceSnapshot list) \<times> 'w"
where
  "snapshot_resources s connection obs now [] w = (Inr [], w)"
| "snapshot_resources s connection obs now (resourceID # ids) w =
     (let snapshot = discovery_snapshot (dco_newID s ''resource-discovery'' w) resourceID now (cdi_Available obs) (resource_metadata connection obs) in
      case dco_CreateSnapshot s snapshot w of
        (Some e, w1) \<Rightarrow> (Inl e, w1)
      | (None, w1) \<Rightarrow>
         (case snapshot_resources s connection obs now ids w1 of (Inl e, w2) \<Rightarrow> (Inl e, w2) | (Inr snapshots, w2) \<Rightarrow> (Inr (snapshot # snapshots), w2)))"

definition discovery_event :: "EnvironmentDefinition \<Rightarrow> EnvironmentConnection \<Rightarrow> string \<Rightarrow> Outcome \<Rightarrow> string \<Rightarrow> metadata \<Rightarrow> AuditEvent" where
  "discovery_event d connection kind result summary m =
     zero_event\<lparr>aud_EventType := kind, aud_EnvironmentID := env_ID (def_Environment d), aud_ConnectionID := con_ID connection, aud_Outcome := result,
       aud_Summary := summary, aud_Metadata := m\<rparr>"

definition materialize_storages ::
  "'w DiscoveryCoordinator \<Rightarrow> EnvironmentDefinition \<Rightarrow> EnvironmentConnection \<Rightarrow> ConnectionDiscovery \<Rightarrow> 'w \<Rightarrow> error option \<times> 'w"
where
  "materialize_storages s d connection obs w =
     (case dco_UpsertDiscoveredStorage s of None \<Rightarrow> (None, w) | Some store \<Rightarrow> materializeDiscoveredStorages s store d connection obs w)"

definition discovery_completed :: "'w DiscoveryCoordinator \<Rightarrow> EnvironmentDefinition \<Rightarrow> EnvironmentConnection \<Rightarrow> ConnectionDiscovery \<Rightarrow> nat \<Rightarrow> 'w \<Rightarrow> 'w" where
  "discovery_completed s d connection obs snapshotCount w =
     recordAudit s (discovery_event d connection ''resource.discovery.completed'' OutcomeSucceeded ''Infrastructure discovery completed''
       [(''nodeCount'', AnyInt (int (length (cdi_Nodes obs)))), (''snapshotCount'', AnyInt (int snapshotCount)),
        (''loginNodeDiscovered'', AnyBool (cdi_LoginNode obs \<noteq> None))]) w"

definition record_observation ::
  "'w DiscoveryCoordinator \<Rightarrow> EnvironmentDefinition \<Rightarrow> EnvironmentConnection \<Rightarrow> ConnectionDiscovery \<Rightarrow> 'w \<Rightarrow> (error + ResourceSnapshot list) \<times> 'w"
where
  "record_observation s d connection obs w =
     (case materializeHPCStructure s d connection obs w of
        (Inl e, w1) \<Rightarrow> (Inl e, w1)
      | (Inr structureSnapshots, w1) \<Rightarrow>
     (case materialize_storages s d connection obs w1 of
        (Some e, w2) \<Rightarrow> (Inl e, w2)
      | (None, w2) \<Rightarrow>
         (let resourceIDs = boundResourceIDs d (con_ID connection) in
          if resourceIDs = [] then (Inl (Errorf ''connection %q has no bound resources'' [FmtS (con_ID connection)]), w2)
          else
            case snapshot_resources s connection obs (dco_now s w2) (filter (\<lambda>i. i \<notin> set (map snap_ResourceID structureSnapshots)) resourceIDs) w2 of
              (Inl e, w3) \<Rightarrow> (Inl e, w3)
            | (Inr snapshots, w3) \<Rightarrow>
                (let items = structureSnapshots @ snapshots in (Inr items, discovery_completed s d connection obs (length items) w3)))))"

definition DiscoverConnection :: "'w DiscoveryCoordinator \<Rightarrow> string \<Rightarrow> 'w \<Rightarrow> (error + ResourceSnapshot list) \<times> 'w" where
  "DiscoverConnection s connectionID w =
     (case findConnection s connectionID w of
        (Inl e, w1) \<Rightarrow> (Inl e, w1)
      | (Inr (d, connection), w1) \<Rightarrow>
     (case map_of (dco_discoverers s) (con_Type connection) of
        None \<Rightarrow> (Inl (Errorf ''no discovery driver is configured for connection type %q'' [FmtS (connection_type_text (con_Type connection))]), w1)
      | Some discover \<Rightarrow>
         (let w2 = recordAudit s (discovery_event d connection ''resource.discovery.started'' OutcomeStarted ''Infrastructure discovery started'' []) w1 in
          case discover connection w2 of
            (Inl e, w3) \<Rightarrow> (Inl e, recordAudit s (discovery_event d connection ''resource.discovery.failed'' OutcomeFailed (error_text e) []) w3)
          | (Inr obs, w3) \<Rightarrow> record_observation s d connection obs w3)))"

section \<open>Connector bindings\<close>

type_synonym 'w probe = "ConnectorBinding \<Rightarrow> 'w \<Rightarrow> (string \<times> error option) \<times> 'w"

definition CheckConnectorBinding :: "(TransferProtocol, 'w probe) gomap \<Rightarrow> ('w \<Rightarrow> int) \<Rightarrow> ConnectorBinding \<Rightarrow> 'w \<Rightarrow> (ConnectorHealth \<times> error option) \<times> 'w" where
  "CheckConnectorBinding probes now b w =
     (case map_of probes (cnb_Connector b) of
        None \<Rightarrow> ((\<lparr>cnh_Healthy = False, cnh_Operation = '''', cnh_Reason = ''no health probe is configured'', cnh_CheckedAt = now w, cnh_FreshUntil = 0\<rparr>,
                  Some (Errorf ''no health probe for connector %q'' [FmtS (protocol_text (cnb_Connector b))])), w)
      | Some probe \<Rightarrow>
         (case probe b w of
            ((operation, err), w1) \<Rightarrow>
              ((\<lparr>cnh_Healthy = (err = None), cnh_Operation = operation, cnh_Reason = (case err of None \<Rightarrow> '''' | Some e \<Rightarrow> error_text e),
                 cnh_CheckedAt = now w1, cnh_FreshUntil = now w1 + 900000000000\<rparr>, err), w1)))"

end
