(* ===== verification/Resource_Repository.thy ===== *)
theory Resource_Repository
  imports Environment_Repository
begin

text \<open>
  The resource repository, \<^verbatim>\<open>internal/infrastructure/database/resource/repository.go\<close>, on the tables of environments: resources,
  their bindings to runtimes and relations are inserted or updated, snapshots are added. Each statement is a
  transaction of its own.
\<close>

section \<open>Writing\<close>

definition upsert_resource :: "Resource \<Rightarrow> EnvironmentDB \<Rightarrow> EnvironmentDB" where
  "upsert_resource r db = db\<lparr>edb_resources :=
     (if list_ex (\<lambda>x. res_ID x = res_ID r) (edb_resources db) then
        map (\<lambda>x. if res_ID x = res_ID r then r\<lparr>res_EnvironmentVersionID := res_EnvironmentVersionID x\<rparr> else x) (edb_resources db)
      else edb_resources db @ [r])\<rparr>"

definition resource_Upsert :: "EnvironmentEnv \<Rightarrow> Resource \<Rightarrow> EnvironmentDB \<Rightarrow> error option \<times> EnvironmentDB" where
  "resource_Upsert env r = transaction (with_json (res_Metadata r) (\<lambda>metadata.
     exec_stmt env ''upsert resource'' (upsert_resource (r\<lparr>res_ExecutionTarget := normalizedExecutionTarget (res_ExecutionTarget r), res_Metadata := metadata\<rparr>))))"

definition upsert_binding :: "ResourceRuntimeBinding \<Rightarrow> EnvironmentDB \<Rightarrow> EnvironmentDB" where
  "upsert_binding b db = (let same = (\<lambda>x. bind_ResourceID x = bind_ResourceID b \<and> bind_RuntimeID x = bind_RuntimeID b) in
     db\<lparr>edb_bindings := (if list_ex same (edb_bindings db) then map (\<lambda>x. if same x then b else x) (edb_bindings db) else edb_bindings db @ [b])\<rparr>)"

definition resource_UpsertRuntimeBinding :: "EnvironmentEnv \<Rightarrow> ResourceRuntimeBinding \<Rightarrow> EnvironmentDB \<Rightarrow> error option \<times> EnvironmentDB" where
  "resource_UpsertRuntimeBinding env b = transaction (with_json (bind_Configuration b) (\<lambda>configuration.
     exec_stmt env ''upsert runtime binding'' (upsert_binding (b\<lparr>bind_Configuration := configuration\<rparr>))))"

definition upsert_relation :: "ResourceRelation \<Rightarrow> EnvironmentDB \<Rightarrow> EnvironmentDB" where
  "upsert_relation r db =
     (let same = (\<lambda>x. rel_SourceResourceID x = rel_SourceResourceID r \<and> rel_TargetResourceID x = rel_TargetResourceID r \<and> rel_Type x = rel_Type r) in
     db\<lparr>edb_relations := (if list_ex same (edb_relations db) then map (\<lambda>x. if same x then r else x) (edb_relations db) else edb_relations db @ [r])\<rparr>)"

definition resource_UpsertRelation :: "EnvironmentEnv \<Rightarrow> ResourceRelation \<Rightarrow> EnvironmentDB \<Rightarrow> error option \<times> EnvironmentDB" where
  "resource_UpsertRelation env r = transaction (with_json (rel_Metadata r) (\<lambda>metadata.
     exec_stmt env ''upsert relation'' (upsert_relation (r\<lparr>rel_Metadata := metadata\<rparr>))))"

definition resource_CreateSnapshot :: "EnvironmentEnv \<Rightarrow> ResourceSnapshot \<Rightarrow> EnvironmentDB \<Rightarrow> error option \<times> EnvironmentDB" where
  "resource_CreateSnapshot env s = transaction (with_json (snap_Metadata s) (\<lambda>metadata.
     exec_stmt env ''insert snapshot'' (\<lambda>db. db\<lparr>edb_snapshots := edb_snapshots db @ [s\<lparr>snap_Metadata := metadata\<rparr>]\<rparr>)))"

section \<open>Reading\<close>

definition resource_FindByID :: "EnvironmentEnv \<Rightarrow> string \<Rightarrow> EnvironmentDB \<Rightarrow> error + Resource option" where
  "resource_FindByID env i db = query env ''find resource'' db (\<lambda>db. find (\<lambda>r. res_ID r = i) (edb_resources db))"

definition resource_FindByProviderID :: "EnvironmentEnv \<Rightarrow> string \<Rightarrow> string \<Rightarrow> EnvironmentDB \<Rightarrow> error + Resource option" where
  "resource_FindByProviderID env versionID providerID db =
     query env ''find resource'' db (\<lambda>db. find (\<lambda>r. res_EnvironmentVersionID r = versionID \<and> res_ProviderID r = providerID) (edb_resources db))"

definition resource_List :: "EnvironmentEnv \<Rightarrow> EnvironmentDB \<Rightarrow> error + Resource list" where
  "resource_List env db = query env ''list resources'' db (\<lambda>db. sort_key res_EnvironmentVersionID (sort_key res_Name (edb_resources db)))"

definition bound_to :: "EnvironmentDB \<Rightarrow> string \<Rightarrow> Resource \<Rightarrow> bool" where
  "bound_to db runtimeID r \<longleftrightarrow> list_ex (\<lambda>b. bind_ResourceID b = res_ID r \<and> bind_Enabled b \<and> bind_RuntimeID b = runtimeID) (edb_bindings db)"

definition resource_ListByRuntime :: "EnvironmentEnv \<Rightarrow> string \<Rightarrow> string \<Rightarrow> EnvironmentDB \<Rightarrow> error + Resource list" where
  "resource_ListByRuntime env versionID runtimeID db =
     query env ''list resources'' db (\<lambda>db. filter (\<lambda>r. res_EnvironmentVersionID r = versionID \<and> bound_to db runtimeID r) (edb_resources db))"

definition resource_ListSchedulable :: "EnvironmentEnv \<Rightarrow> string \<Rightarrow> EnvironmentDB \<Rightarrow> error + Resource list" where
  "resource_ListSchedulable env versionID db =
     query env ''list resources'' db (\<lambda>db. filter (\<lambda>r. res_EnvironmentVersionID r = versionID \<and> res_Schedulable r) (edb_resources db))"

definition resource_LatestSnapshot :: "EnvironmentEnv \<Rightarrow> string \<Rightarrow> EnvironmentDB \<Rightarrow> error + ResourceSnapshot option" where
  "resource_LatestSnapshot env resourceID db =
     query env ''latest snapshot'' db (\<lambda>db. case sort_key (\<lambda>s. - snap_CapturedAt s) (filter (\<lambda>s. snap_ResourceID s = resourceID) (edb_snapshots db)) of
       [] \<Rightarrow> None | s # _ \<Rightarrow> Some s)"

section \<open>Facts\<close>

lemmas upsert_done = transaction_None with_json_Inr exec_stmt_Inr

end
