(* ===== verification/Discovery_Properties.thy ===== *)
theory Discovery_Properties
  imports Discovery_Service Resource_Repository Environment_Properties
begin

text \<open>
  What discovery leaves in the inventory: the interface of the inventory and of the catalog as a locale, the resources that
  are bound and observed after an observation has been recorded, and the repositories as its instance.
\<close>

section \<open>The inventory\<close>

text \<open>The resources of an observation: the cluster, its partitions, the login node and the nodes.\<close>

definition discovered_ids :: "'w DiscoveryCoordinator \<Rightarrow> EnvironmentDefinition \<Rightarrow> EnvironmentConnection \<Rightarrow> ConnectionDiscovery \<Rightarrow> string set" where
  "discovered_ids s d connection obs =
     {cluster_id d connection} \<union> res_ID ` {r \<in> set (def_Resources d @ discoveredPartitions s d connection obs). res_Type r = ResourceHPCPartition} \<union>
     (if cdi_LoginNode obs = None then {} else {loginResourceID (con_ID connection)}) \<union>
     set (map (\<lambda>n. discoveredNodeID (con_ID connection) (dno_Name n)) (cdi_Nodes obs))"

definition snapshot_ids :: "EnvironmentConnection \<Rightarrow> ConnectionDiscovery \<Rightarrow> string list" where
  "snapshot_ids connection obs = (if cdi_LoginNode obs = None then [] else [loginResourceID (con_ID connection)]) @
     map (\<lambda>n. discoveredNodeID (con_ID connection) (dno_Name n)) (cdi_Nodes obs)"

lemma runtimes_resources [simp]: "runtimeIDsForConnection (d\<lparr>def_Resources := rs\<rparr>) i = runtimeIDsForConnection d i"
  by (simp add: runtimeIDsForConnection_def)

text \<open>The pairs of a resource and a runtime that are bound, and the resources with a snapshot.\<close>

locale resource_inventory =
  fixes s :: "'w DiscoveryCoordinator" and bound :: "'w \<Rightarrow> (string \<times> string) set" and observed :: "'w \<Rightarrow> string set"
  assumes upsert_keeps: "dco_Upsert s r w = (e, w') \<Longrightarrow> bound w' = bound w \<and> observed w' = observed w"
    and relate_keeps: "dco_UpsertRelation s l w = (e, w') \<Longrightarrow> bound w' = bound w \<and> observed w' = observed w"
    and bind_adds: "dco_UpsertRuntimeBinding s b w = (None, w') \<Longrightarrow> bind_Enabled b \<Longrightarrow>
      bound w' = insert (bind_ResourceID b, bind_RuntimeID b) (bound w) \<and> observed w' = observed w"
    and snapshot_adds: "dco_CreateSnapshot s sn w = (None, w') \<Longrightarrow> bound w' = bound w \<and> observed w' = insert (snap_ResourceID sn) (observed w)"
    and storage_keeps: "dco_UpsertDiscoveredStorage s = Some store \<Longrightarrow> store x w = (e, w') \<Longrightarrow> bound w' = bound w \<and> observed w' = observed w"
    and audit_keeps: "dco_audit s = Some audit \<Longrightarrow> audit event w = (e, w') \<Longrightarrow> bound w' = bound w \<and> observed w' = observed w"
    and list_keeps: "dco_List s w = (q, w') \<Longrightarrow> bound w' = bound w \<and> observed w' = observed w"
    and driver_keeps: "map_of (dco_discoverers s) t = Some discover \<Longrightarrow> discover c w = (o', w') \<Longrightarrow> bound w' = bound w \<and> observed w' = observed w"
begin

text \<open>A call that binds a set of pairs when it succeeds.\<close>

definition binds :: "('w \<Rightarrow> error option \<times> 'w) \<Rightarrow> (string \<times> string) set \<Rightarrow> bool" where
  "binds f A \<longleftrightarrow> (\<forall>w w'. f w = (None, w') \<longrightarrow> bound w' = A \<union> bound w \<and> observed w' = observed w)"

lemma binds_wrapped: "binds f A \<Longrightarrow> binds (wrapped text args f) A"
  by (auto simp: binds_def wrapped_def split: prod.splits option.splits)

lemma binds_Nil: "binds (run_steps []) {}"
  by (simp add: binds_def)

lemma binds_Cons: "binds f A \<Longrightarrow> binds (run_steps fs) B \<Longrightarrow> binds (run_steps (f # fs)) (A \<union> B)"
  unfolding binds_def by (fastforce split: prod.splits option.splits)

lemma binds_append: "binds (run_steps fs) A \<Longrightarrow> binds (run_steps gs) B \<Longrightarrow> binds (run_steps (fs @ gs)) (A \<union> B)"
proof -
  have "run_steps (fs @ gs) w = (case run_steps fs w of (Some e, w1) \<Rightarrow> (Some e, w1) | (None, w1) \<Rightarrow> run_steps gs w1)" for w
    by (induction fs arbitrary: w) (auto split: prod.split option.split)
  then show "binds (run_steps fs) A \<Longrightarrow> binds (run_steps gs) B \<Longrightarrow> binds (run_steps (fs @ gs)) (A \<union> B)"
    unfolding binds_def by (fastforce split: prod.splits option.splits)
qed

lemma binds_map: "(\<And>x. x \<in> set xs \<Longrightarrow> binds (f x) (A x)) \<Longrightarrow> binds (run_steps (map f xs)) (\<Union>x \<in> set xs. A x)"
proof (induction xs)
  case (Cons x xs)
  then show ?case using binds_Cons [of "f x" "A x" "map f xs" "\<Union>x \<in> set xs. A x"] by (simp del: run_steps.simps)
qed (simp add: binds_Nil)

lemma binds_concat: "(\<And>x. x \<in> set xs \<Longrightarrow> binds (run_steps (f x)) (A x)) \<Longrightarrow> binds (run_steps (concat (map f xs))) (\<Union>x \<in> set xs. A x)"
proof (induction xs)
  case (Cons x xs)
  then show ?case using binds_append [of "f x" "A x" "concat (map f xs)" "\<Union>x \<in> set xs. A x"] by simp
qed (simp add: binds_Nil)

lemma binds_filter: "(\<And>x g. f x = Some g \<Longrightarrow> binds g {}) \<Longrightarrow> binds (run_steps (List.map_filter f xs)) {}"
proof (induction xs)
  case (Cons x xs)
  then show ?case using binds_Cons [of "the (f x)" "{}" "List.map_filter f xs" "{}"] by (cases "f x") (auto simp: List.map_filter_def simp del: run_steps.simps)
qed (simp add: binds_Nil List.map_filter_def)

lemma binds_upsert: "binds (dco_Upsert s r) {}"
  using upsert_keeps by (auto simp: binds_def)

lemma binds_binding: "binds (dco_UpsertRuntimeBinding s (binding i configuration runtimeID)) {(i, runtimeID)}"
  using bind_adds by (auto simp: binds_def binding_def)

lemma binds_relation: "binds (dco_UpsertRelation s l) {}"
  using relate_keeps by (auto simp: binds_def)

lemma binds_runtimes:
  "binds (run_steps (map (\<lambda>runtimeID. wrapped text args (dco_UpsertRuntimeBinding s (binding i configuration runtimeID))) ids)) ({i} \<times> set ids)"
proof -
  have "{i} \<times> set ids = (\<Union>x \<in> set ids. {(i, x)})" by auto
  then show ?thesis by (simp only:) (intro binds_map binds_wrapped binds_binding)
qed

lemma binds_bound_resource:
  "binds (run_steps (wrapped t1 a1 (dco_Upsert s r) #
     map (\<lambda>runtimeID. wrapped t2 a2 (dco_UpsertRuntimeBinding s (binding i configuration runtimeID))) ids)) ({i} \<times> set ids)"
  using binds_Cons [OF binds_wrapped [OF binds_upsert] binds_runtimes, of t1 a1 r t2 a2 i configuration ids] by simp

lemma binds_node:
  "binds (run_steps (node_steps s d connection clusterID n))
     ({discoveredNodeID (con_ID connection) (dno_Name n)} \<times> set (runtimeIDsForConnection d (con_ID connection)))"
proof -
  have "binds (run_steps (List.map_filter (\<lambda>name. map_option (\<lambda>part. wrapped t (a name) (dco_UpsertRelation s (l part))) (map_of index name)) names)) {}" for t a l index names
    by (rule binds_filter) (auto intro!: binds_wrapped binds_relation)
  from binds_append [OF binds_bound_resource this] show ?thesis by (simp add: node_steps_def Let_def)
qed

lemma binds_partition: "binds (run_steps (partition_steps s clusterID ids part)) ({res_ID part} \<times> set ids)"
  unfolding partition_steps_def by (rule binds_bound_resource)

lemma binds_cluster:
  "binds (run_steps (cluster_steps s d connection resources))
     (({cluster_id d connection} \<union> res_ID ` {r \<in> set resources. res_Type r = ResourceHPCPartition}) \<times> set (runtimeIDsForConnection d (con_ID connection)))"
proof -
  let ?ids = "runtimeIDsForConnection d (con_ID connection)"
  have "binds (run_steps (concat (map (partition_steps s c ?ids) (filter (\<lambda>r. res_Type r = ResourceHPCPartition) resources))))
      (\<Union>x \<in> set (filter (\<lambda>r. res_Type r = ResourceHPCPartition) resources). {res_ID x} \<times> set ?ids)" for c
    by (rule binds_concat) (rule binds_partition)
  from binds_append [OF binds_bound_resource this]
  have "binds (run_steps (cluster_steps s d connection resources)) ({cluster_id d connection} \<times> set ?ids \<union>
      (\<Union>x \<in> set (filter (\<lambda>r. res_Type r = ResourceHPCPartition) resources). {res_ID x} \<times> set ?ids))"
    by (simp add: cluster_steps_def Let_def)
  moreover have "{cluster_id d connection} \<times> set ?ids \<union> (\<Union>x \<in> set (filter (\<lambda>r. res_Type r = ResourceHPCPartition) resources). {res_ID x} \<times> set ?ids) =
      ({cluster_id d connection} \<union> res_ID ` {r \<in> set resources. res_Type r = ResourceHPCPartition}) \<times> set ?ids" by auto
  ultimately show ?thesis by simp
qed

section \<open>The structure\<close>

lemma wrapped_snapshot:
  "wrapped text args (dco_CreateSnapshot s sn) w = (None, w') \<Longrightarrow> bound w' = bound w \<and> observed w' = insert (snap_ResourceID sn) (observed w)"
  using snapshot_adds by (auto simp: wrapped_def split: prod.splits option.splits)

lemma snapshot_id: "snap_ResourceID (discovery_snapshot ident i t available m) = i"
  by (simp add: discovery_snapshot_def)

lemma nodes_added:
  "materialize_nodes s d connection clusterID now ns w = (Inr snaps, w') \<Longrightarrow>
     bound w' = set (map (\<lambda>n. discoveredNodeID (con_ID connection) (dno_Name n)) ns) \<times> set (runtimeIDsForConnection d (con_ID connection)) \<union> bound w \<and>
     observed w' = set (map (\<lambda>n. discoveredNodeID (con_ID connection) (dno_Name n)) ns) \<union> observed w \<and>
     map snap_ResourceID snaps = map (\<lambda>n. discoveredNodeID (con_ID connection) (dno_Name n)) ns"
proof (induction ns arbitrary: w snaps)
  case (Cons n ns)
  let ?i = "discoveredNodeID (con_ID connection) (dno_Name n)"
  let ?rts = "set (runtimeIDsForConnection d (con_ID connection))"
  obtain w1 where 1: "run_steps (node_steps s d connection clusterID n) w = (None, w1)"
    using Cons.prems by (auto split: prod.splits option.splits)
  obtain sn w2 where 2: "wrapped ''snapshot discovered SLURM node %q: %w'' [FmtS (dno_Name n)] (dco_CreateSnapshot s sn) w1 = (None, w2)"
    and sn: "snap_ResourceID sn = ?i" and snaps: "snaps = sn # tl snaps" and rest: "materialize_nodes s d connection clusterID now ns w2 = (Inr (tl snaps), w')"
    using Cons.prems 1 snapshot_id by (auto simp: Let_def split: prod.splits option.splits sum.splits)
  have "bound w1 = {?i} \<times> ?rts \<union> bound w" "observed w1 = observed w" using binds_node 1 unfolding binds_def by blast+
  moreover have "bound w2 = bound w1" "observed w2 = insert ?i (observed w1)" using wrapped_snapshot [OF 2] sn by simp_all
  moreover have "map snap_ResourceID snaps = ?i # map snap_ResourceID (tl snaps)" by (subst snaps) (simp add: sn)
  ultimately show ?case using Cons.IH [OF rest] by auto
qed simp

lemma login_added:
  assumes "materializeLoginNode s d connection clusterID ids n available w = (Inr sn, w')"
  shows "bound w' = {loginResourceID (con_ID connection)} \<times> set ids \<union> bound w \<and>
    observed w' = insert (snap_ResourceID sn) (observed w) \<and> snap_ResourceID sn = loginResourceID (con_ID connection)"
proof -
  let ?i = "loginResourceID (con_ID connection)"
  let ?steps = "wrapped ''upsert discovered login node %q: %w'' [FmtS (dln_Name n)] (dco_Upsert s (login_resource d connection clusterID n)) #
    map (\<lambda>runtimeID. wrapped ''bind discovered login node %q: %w'' [FmtS (dln_Name n)]
      (dco_UpsertRuntimeBinding s (binding ?i [(''executionTarget'', AnyString ''direct''), (''role'', AnyString ''login'')] runtimeID))) ids"
  obtain w1 where 1: "run_steps ?steps w = (None, w1)"
    using assms by (auto simp: materializeLoginNode_def Let_def simp del: run_steps.simps split: prod.splits option.splits)
  have 2: "wrapped ''snapshot discovered login node %q: %w'' [FmtS (dln_Name n)] (dco_CreateSnapshot s sn) w1 = (None, w')" and sn: "snap_ResourceID sn = ?i"
    using assms 1 snapshot_id by (auto simp: materializeLoginNode_def Let_def simp del: run_steps.simps split: prod.splits option.splits)
  have "bound w1 = {?i} \<times> set ids \<union> bound w" "observed w1 = observed w" using binds_bound_resource 1 unfolding binds_def by blast+
  then show ?thesis using wrapped_snapshot [OF 2] sn by simp
qed

lemma structure_added:
  assumes "materializeHPCStructure s d connection obs w = (Inr snaps, w')" and "cdi_LoginNode obs \<noteq> None \<or> cdi_Nodes obs \<noteq> []"
  shows "bound w' = discovered_ids s d connection obs \<times> set (runtimeIDsForConnection d (con_ID connection)) \<union> bound w \<and>
    observed w' = set (snapshot_ids connection obs) \<union> observed w \<and> map snap_ResourceID snaps = snapshot_ids connection obs"
proof -
  let ?rts = "runtimeIDsForConnection d (con_ID connection)"
  let ?d1 = "d\<lparr>def_Resources := def_Resources d @ discoveredPartitions s d connection obs\<rparr>"
  obtain w1 where 1: "run_steps (cluster_steps s d connection (def_Resources ?d1)) w = (None, w1)"
    using assms by (auto simp: materializeHPCStructure_def Let_def split: prod.splits option.splits if_splits)
  define login where "login = (case cdi_LoginNode obs of None \<Rightarrow> (Inr [], w1)
      | Some n \<Rightarrow> (case materializeLoginNode s ?d1 connection (cluster_id d connection) ?rts n (cdi_Available obs) w1 of
          (Inl e, w2) \<Rightarrow> (Inl e, w2) | (Inr snapshot, w2) \<Rightarrow> (Inr [snapshot], w2)))"
  have eq: "materializeHPCStructure s d connection obs w = (case login of (Inl e, w2) \<Rightarrow> (Inl e, w2)
      | (Inr ls, w2) \<Rightarrow> (case materializeNodes s ?d1 connection (cluster_id d connection) obs w2 of (Inl e, w3) \<Rightarrow> (Inl e, w3) | (Inr ns, w3) \<Rightarrow> (Inr (ls @ ns), w3)))"
    using assms(2) 1 by (auto simp: materializeHPCStructure_def Let_def login_def)
  obtain ls w2 where l: "login = (Inr ls, w2)" using assms(1) unfolding eq by (auto split: prod.splits sum.splits)
  obtain ns where n: "materializeNodes s ?d1 connection (cluster_id d connection) obs w2 = (Inr ns, w')" and snaps: "snaps = ls @ ns"
    using assms(1) unfolding eq l by (auto split: prod.splits sum.splits)
  let ?login = "if cdi_LoginNode obs = None then {} else {loginResourceID (con_ID connection)}"
  have "bound w1 = ({cluster_id d connection} \<union> res_ID ` {r \<in> set (def_Resources ?d1). res_Type r = ResourceHPCPartition}) \<times> set ?rts \<union> bound w"
    "observed w1 = observed w"
    using binds_cluster 1 unfolding binds_def by blast+
  moreover have "bound w2 = ?login \<times> set ?rts \<union> bound w1 \<and> observed w2 = ?login \<union> observed w1 \<and>
      map snap_ResourceID ls = (if cdi_LoginNode obs = None then [] else [loginResourceID (con_ID connection)])"
    using l login_added unfolding login_def by (fastforce split: option.splits prod.splits sum.splits)
  moreover note nodes_added [OF n [unfolded materializeNodes_def]]
  ultimately show ?thesis unfolding snaps discovered_ids_def snapshot_ids_def by auto
qed

section \<open>The rest of an observation\<close>

lemma storages_keep:
  assumes "materialize_storages s d connection obs w = (None, w')" shows "bound w' = bound w \<and> observed w' = observed w"
proof (cases "dco_UpsertDiscoveredStorage s")
  case (Some store)
  then have "binds (store x) {}" for x using storage_keeps by (auto simp: binds_def)
  then have "binds (materializeDiscoveredStorages s store d connection obs) (\<Union>x \<in> set (distinct_paths [] (tca_Paths (cdi_Transfer obs))). {})"
    unfolding materializeDiscoveredStorages_def by (intro binds_map binds_wrapped)
  then show ?thesis using assms Some by (simp add: materialize_storages_def binds_def)
qed (use assms in \<open>simp add: materialize_storages_def\<close>)

lemma audit_frame: "bound (recordAudit s event w) = bound w \<and> observed (recordAudit s event w) = observed w"
proof (cases "dco_audit s")
  case (Some audit)
  let ?e = "event\<lparr>aud_ID := dco_newID s ''audit'' w, aud_OccurredAt := dco_now s w\<rparr>"
  show ?thesis using audit_keeps [OF Some, of ?e w "fst (audit ?e w)" "snd (audit ?e w)"] Some by (simp add: recordAudit_def)
qed (simp add: recordAudit_def)

lemma snapshots_added:
  "snapshot_resources s connection obs now ids w = (Inr snaps, w') \<Longrightarrow>
     bound w' = bound w \<and> observed w' = set ids \<union> observed w \<and> map snap_ResourceID snaps = ids"
proof (induction ids arbitrary: w snaps)
  case (Cons i ids)
  obtain sn w1 where 1: "dco_CreateSnapshot s sn w = (None, w1)" "snap_ResourceID sn = i" "snaps = sn # tl snaps"
    "snapshot_resources s connection obs now ids w1 = (Inr (tl snaps), w')"
    using Cons.prems snapshot_id by (auto simp: Let_def split: prod.splits option.splits sum.splits)
  have "map snap_ResourceID snaps = i # map snap_ResourceID (tl snaps)" by (subst 1(3)) (simp add: 1(2))
  then show ?case using Cons.IH [OF 1(4)] snapshot_adds [OF 1(1)] 1(2) by auto
qed simp

lemma structure_observed:
  assumes "materializeHPCStructure s d connection obs w = (Inr snaps, w')"
  shows "bound w \<subseteq> bound w' \<and> observed w' = set (map snap_ResourceID snaps) \<union> observed w"
proof (cases "cdi_LoginNode obs \<noteq> None \<or> cdi_Nodes obs \<noteq> []")
  case True
  then show ?thesis using structure_added [OF assms True] by auto
next
  case False
  then show ?thesis using assms by (simp add: materializeHPCStructure_def)
qed

lemma recorded_observed:
  assumes "record_observation s d connection obs w = (Inr items, w')"
  shows "set (boundResourceIDs d (con_ID connection)) \<subseteq> set (map snap_ResourceID items) \<and>
    observed w' = set (map snap_ResourceID items) \<union> observed w \<and> bound w \<subseteq> bound w'"
proof -
  let ?ids = "boundResourceIDs d (con_ID connection)"
  obtain ss w1 where 1: "materializeHPCStructure s d connection obs w = (Inr ss, w1)"
    using assms by (auto simp: record_observation_def split: prod.splits sum.splits)
  obtain w2 where 2: "materialize_storages s d connection obs w1 = (None, w2)"
    using assms 1 by (auto simp: record_observation_def split: prod.splits option.splits)
  let ?rest = "filter (\<lambda>i. i \<notin> set (map snap_ResourceID ss)) ?ids"
  obtain sn w3 where 3: "snapshot_resources s connection obs (dco_now s w2) ?rest w2 = (Inr sn, w3)"
    and items: "items = ss @ sn" "w' = discovery_completed s d connection obs (length items) w3"
    using assms 1 2 by (auto simp: record_observation_def Let_def split: prod.splits sum.splits if_splits)
  have "map snap_ResourceID sn = ?rest" and o: "observed w3 = set ?rest \<union> observed w2" "bound w3 = bound w2" using snapshots_added [OF 3] by blast+
  then have "set (map snap_ResourceID items) = set (map snap_ResourceID ss) \<union> set ?rest" by (simp only: items map_append set_append)
  moreover have "observed w' = observed w3 \<and> bound w' = bound w3" using audit_frame by (simp add: items discovery_completed_def)
  ultimately show ?thesis using structure_observed [OF 1] storages_keep [OF 2] o by auto
qed

lemma find_keeps: "findConnection s i w = (q, w') \<Longrightarrow> bound w' = bound w \<and> observed w' = observed w"
  using list_keeps by (fastforce simp: findConnection_def split: prod.splits sum.splits option.splits)

lemma discovery_recorded:
  assumes "DiscoverConnection s i w = (Inr items, w')"
  obtains d c w1 discover w2 obs w3 where "findConnection s i w = (Inr (d, c), w1)" "map_of (dco_discoverers s) (con_Type c) = Some discover"
    "discover c w2 = (Inr obs, w3)" "record_observation s d c obs w3 = (Inr items, w')" "bound w3 = bound w" "observed w3 = observed w"
proof -
  obtain d c w1 where f: "findConnection s i w = (Inr (d, c), w1)"
    using assms by (auto simp: DiscoverConnection_def split: prod.splits sum.splits)
  obtain discover where m: "map_of (dco_discoverers s) (con_Type c) = Some discover"
    using assms f by (auto simp: DiscoverConnection_def split: option.splits)
  let ?w2 = "recordAudit s (discovery_event d c ''resource.discovery.started'' OutcomeStarted ''Infrastructure discovery started'' []) w1"
  obtain obs w3 where o: "discover c ?w2 = (Inr obs, w3)"
    using assms f m by (auto simp: DiscoverConnection_def Let_def split: prod.splits sum.splits)
  have "record_observation s d c obs w3 = (Inr items, w')" using assms f m o by (simp add: DiscoverConnection_def Let_def)
  moreover have "bound w3 = bound w" "observed w3 = observed w" using driver_keeps [OF m o] audit_frame find_keeps [OF f] by simp_all
  ultimately show thesis using that f m o by blast
qed

lemma record_observed:
  assumes "record_observation s d connection obs w = (Inr items, w')"
  shows "bound w' = (if cdi_LoginNode obs = None \<and> cdi_Nodes obs = [] then {} else
      discovered_ids s d connection obs \<times> set (runtimeIDsForConnection d (con_ID connection))) \<union> bound w"
proof -
  obtain ss w1 where 1: "materializeHPCStructure s d connection obs w = (Inr ss, w1)"
    using assms by (auto simp: record_observation_def split: prod.splits sum.splits)
  obtain w2 where 2: "materialize_storages s d connection obs w1 = (None, w2)"
    using assms 1 by (auto simp: record_observation_def split: prod.splits option.splits)
  obtain ids sn w3 where 3: "snapshot_resources s connection obs (dco_now s w2) ids w2 = (Inr sn, w3)"
    and w': "w' = discovery_completed s d connection obs (length items) w3"
    using assms 1 2 by (auto simp: record_observation_def Let_def split: prod.splits sum.splits if_splits)
  have "bound w' = bound w1"
    using snapshots_added [OF 3] audit_frame storages_keep [OF 2] by (simp add: w' discovery_completed_def)
  then show ?thesis using 1 structure_added [OF 1] by (auto simp: materializeHPCStructure_def split: if_splits)
qed

end

section \<open>Invariants of the state\<close>

text \<open>A property of the state that every call keeps, whether it succeeds or fails.\<close>

locale state_invariant =
  fixes s :: "'w DiscoveryCoordinator" and I :: "'w \<Rightarrow> bool"
  assumes keep_list: "I w \<Longrightarrow> I (snd (dco_List s w))" and keep_upsert: "I w \<Longrightarrow> I (snd (dco_Upsert s r w))"
    and keep_binding: "I w \<Longrightarrow> I (snd (dco_UpsertRuntimeBinding s b w))" and keep_relation: "I w \<Longrightarrow> I (snd (dco_UpsertRelation s l w))"
    and keep_snapshot: "I w \<Longrightarrow> I (snd (dco_CreateSnapshot s sn w))"
    and keep_storage: "dco_UpsertDiscoveredStorage s = Some store \<Longrightarrow> I w \<Longrightarrow> I (snd (store x w))"
    and keep_audit: "dco_audit s = Some audit \<Longrightarrow> I w \<Longrightarrow> I (snd (audit event w))"
    and keep_driver: "map_of (dco_discoverers s) t = Some discover \<Longrightarrow> I w \<Longrightarrow> I (snd (discover c w))"
begin

definition safe :: "('w \<Rightarrow> 'r \<times> 'w) \<Rightarrow> bool" where
  "safe f \<longleftrightarrow> (\<forall>w. I w \<longrightarrow> I (snd (f w)))"

lemma safe_wrapped: "safe f \<Longrightarrow> safe (wrapped text args f)"
  unfolding safe_def wrapped_def by (fastforce split: prod.splits option.splits)

lemma safe_steps: "list_all safe fs \<Longrightarrow> safe (run_steps fs)"
  unfolding safe_def by (induction fs) (fastforce split: prod.splits option.splits)+

lemma safe_calls: "safe (dco_Upsert s r)" "safe (dco_UpsertRuntimeBinding s b)" "safe (dco_UpsertRelation s l)" "safe (dco_CreateSnapshot s sn)"
  using keep_upsert keep_binding keep_relation keep_snapshot by (simp_all add: safe_def)

lemma safe_node_steps: "safe (run_steps (node_steps s d connection clusterID n))"
  by (rule safe_steps) (auto simp: node_steps_def Let_def list_all_iff List.map_filter_def intro!: safe_wrapped safe_calls)

lemma safe_cluster_steps: "safe (run_steps (cluster_steps s d connection resources))"
  by (rule safe_steps) (auto simp: cluster_steps_def partition_steps_def Let_def list_all_iff intro!: safe_wrapped safe_calls)

lemma safeD: "safe f \<Longrightarrow> f w = (r, w') \<Longrightarrow> I w \<Longrightarrow> I w'"
  unfolding safe_def by (metis snd_conv)

lemma safeI: "(\<And>w r w'. f w = (r, w') \<Longrightarrow> I w \<Longrightarrow> I w') \<Longrightarrow> safe f"
  unfolding safe_def by (metis prod.collapse)

lemmas safe_snapshot = safe_wrapped [OF safe_calls(4)]

lemma safe_nodes: "materialize_nodes s d connection clusterID now ns w = (r, w') \<Longrightarrow> I w \<Longrightarrow> I w'"
proof (induction ns arbitrary: w r w')
  case (Cons n ns)
  obtain e w1 where 1: "run_steps (node_steps s d connection clusterID n) w = (e, w1)" by fastforce
  then have i1: "I w1" using safeD [OF safe_node_steps] Cons.prems(2) by blast
  show ?case
  proof (cases e)
    case None
    let ?sn = "discovery_snapshot (dco_newID s ''resource-discovery'' w1) (discoveredNodeID (con_ID connection) (dno_Name n)) now
      (slurmNodeAvailable (dco_ToLower s) (dno_State n)) (node_metadata connection n)"
    obtain e2 w2 where 2: "wrapped ''snapshot discovered SLURM node %q: %w'' [FmtS (dno_Name n)] (dco_CreateSnapshot s ?sn) w1 = (e2, w2)" by fastforce
    then have i2: "I w2" using safeD [OF safe_snapshot] i1 by blast
    obtain q w3 where 3: "materialize_nodes s d connection clusterID now ns w2 = (q, w3)" by fastforce
    then have "I w3" using Cons.IH i2 by blast
    then show ?thesis using Cons.prems(1) 1 2 3 None i2 by (cases e2; cases q) (auto simp: Let_def)
  qed (use Cons.prems 1 i1 in auto)
qed simp

lemma safe_bound_resource:
  "safe (run_steps (wrapped t1 a1 (dco_Upsert s r) # map (\<lambda>runtimeID. wrapped t2 a2 (dco_UpsertRuntimeBinding s (binding i configuration runtimeID))) ids))"
  by (rule safe_steps) (auto simp: list_all_iff intro!: safe_wrapped safe_calls)

lemma safe_login: "safe (materializeLoginNode s d connection clusterID ids n available)"
proof (rule safeI)
  fix w r w' assume r: "materializeLoginNode s d connection clusterID ids n available w = (r, w')" and i: "I w"
  let ?steps = "wrapped ''upsert discovered login node %q: %w'' [FmtS (dln_Name n)] (dco_Upsert s (login_resource d connection clusterID n)) #
    map (\<lambda>runtimeID. wrapped ''bind discovered login node %q: %w'' [FmtS (dln_Name n)]
      (dco_UpsertRuntimeBinding s (binding (loginResourceID (con_ID connection)) [(''executionTarget'', AnyString ''direct''), (''role'', AnyString ''login'')] runtimeID))) ids"
  obtain e w1 where 1: "run_steps ?steps w = (e, w1)" by fastforce
  have i1: "I w1" by (rule safeD [OF safe_bound_resource 1 i])
  show "I w'"
  proof (cases e)
    case None
    let ?sn = "discovery_snapshot (dco_newID s ''resource-discovery'' w1) (loginResourceID (con_ID connection)) (dco_now s w1) available (login_metadata connection n)"
    obtain e2 w2 where 2: "wrapped ''snapshot discovered login node %q: %w'' [FmtS (dln_Name n)] (dco_CreateSnapshot s ?sn) w1 = (e2, w2)" by fastforce
    have "I w2" by (rule safeD [OF safe_snapshot 2 i1])
    moreover have "w' = w2" using r 1 2 None by (cases e2) (simp_all add: materializeLoginNode_def Let_def del: run_steps.simps)
    ultimately show ?thesis by simp
  next
    case (Some x)
    then show ?thesis using r 1 i1 by (simp add: materializeLoginNode_def Let_def del: run_steps.simps)
  qed
qed

lemma safe_structure: "safe (materializeHPCStructure s d connection obs)"
proof (rule safeI)
  fix w r w' assume r: "materializeHPCStructure s d connection obs w = (r, w')" and i: "I w"
  show "I w'"
  proof (cases "cdi_LoginNode obs = None \<and> cdi_Nodes obs = []")
    case False
    obtain e w1 where 1: "run_steps (cluster_steps s d connection (def_Resources d @ discoveredPartitions s d connection obs)) w = (e, w1)" by fastforce
    then have "I w1" using safeD [OF safe_cluster_steps] i by blast
    moreover have "I w3" if "materializeNodes s d' connection c obs w2 = (q, w3)" "I w2" for d' c w2 q w3
      using that safe_nodes unfolding materializeNodes_def by blast
    moreover note safeD [OF safe_login]
    ultimately show ?thesis using r 1 False
      by (cases e) (auto simp: materializeHPCStructure_def Let_def split: prod.splits option.splits sum.splits)
  qed (use r i in \<open>simp add: materializeHPCStructure_def\<close>)
qed

lemma safe_storages: "safe (materialize_storages s d connection obs)"
proof (cases "dco_UpsertDiscoveredStorage s")
  case (Some store)
  then have "safe (store x)" for x using keep_storage by (simp add: safe_def)
  then have "safe (materializeDiscoveredStorages s store d connection obs)"
    unfolding materializeDiscoveredStorages_def by (intro safe_steps) (auto simp: list_all_iff intro!: safe_wrapped)
  then show ?thesis using Some by (simp add: materialize_storages_def safe_def)
qed (simp add: materialize_storages_def safe_def)

lemma audit_safe: "I w \<Longrightarrow> I (recordAudit s event w)"
  using keep_audit by (auto simp: recordAudit_def split: option.splits)

lemma safe_snapshots: "snapshot_resources s connection obs now ids w = (r, w') \<Longrightarrow> I w \<Longrightarrow> I w'"
proof (induction ids arbitrary: w r)
  case (Cons i ids)
  then show ?case using safeD [OF safe_calls(4)] by (auto simp: Let_def split: prod.splits option.splits sum.splits)
qed simp

lemma safe_record: "safe (record_observation s d connection obs)"
proof (rule safeI)
  fix w r w' assume "record_observation s d connection obs w = (r, w')" and "I w"
  then show "I w'" using safeD [OF safe_structure] safeD [OF safe_storages] safe_snapshots audit_safe
    by (auto simp: record_observation_def discovery_completed_def Let_def split: prod.splits sum.splits option.splits if_splits)
qed

lemma safe_discovery: "safe (DiscoverConnection s i)"
proof (rule safeI)
  fix w r w' assume r: "DiscoverConnection s i w = (r, w')" and "I w"
  obtain q w1 where f: "findConnection s i w = (q, w1)" by fastforce
  then have i1: "I w1" using keep_list [OF \<open>I w\<close>] by (auto simp: findConnection_def split: prod.splits sum.splits option.splits)
  show "I w'"
  proof (cases q)
    case (Inl e)
    then show ?thesis using r f i1 by (simp add: DiscoverConnection_def)
  next
    case (Inr dc)
    obtain d c where dc: "dc = (d, c)" by fastforce
    show ?thesis
    proof (cases "map_of (dco_discoverers s) (con_Type c)")
      case None
      then show ?thesis using r f Inr dc i1 by (simp add: DiscoverConnection_def)
    next
      case (Some discover)
      let ?w2 = "recordAudit s (discovery_event d c ''resource.discovery.started'' OutcomeStarted ''Infrastructure discovery started'' []) w1"
      obtain o1 w3 where 3: "discover c ?w2 = (o1, w3)" by fastforce
      then have i3: "I w3" using keep_driver [OF Some audit_safe [OF i1]] by (metis snd_conv)
      show ?thesis
      proof (cases o1)
        case (Inl e)
        then show ?thesis using r f \<open>q = Inr dc\<close> dc Some 3 audit_safe [OF i3] by (auto simp: DiscoverConnection_def Let_def)
      next
        case (Inr obs)
        then show ?thesis using r f \<open>q = Inr dc\<close> dc Some 3 safeD [OF safe_record _ i3] by (simp add: DiscoverConnection_def Let_def)
      qed
    qed
  qed
qed

end

section \<open>The repositories as the inventory\<close>

text \<open>
  What the coordinator does not write to the database: the drivers, the audit store, the clock, the identifiers.
\<close>

record 'v DiscoveryDrivers =
  drv_discoverers :: "(ConnectionType, EnvironmentConnection \<Rightarrow> 'v \<Rightarrow> (error + ConnectionDiscovery) \<times> 'v) gomap"
  drv_audit :: "(AuditEvent \<Rightarrow> 'v \<Rightarrow> error option \<times> 'v) option"
  drv_now :: "EnvironmentDB \<times> 'v \<Rightarrow> int"
  drv_newID :: "string \<Rightarrow> EnvironmentDB \<times> 'v \<Rightarrow> string"
  drv_numbers :: Numbers
  drv_ToLower :: "string \<Rightarrow> string"

definition on_tables :: "('d \<Rightarrow> 'r \<times> 'd) \<Rightarrow> 'd \<times> 'v \<Rightarrow> 'r \<times> ('d \<times> 'v)" where
  "on_tables f w = (case f (fst w) of (r, db) \<Rightarrow> (r, (db, snd w)))"

definition on_drivers :: "('v \<Rightarrow> 'r \<times> 'v) \<Rightarrow> 'd \<times> 'v \<Rightarrow> 'r \<times> ('d \<times> 'v)" where
  "on_drivers f w = (case f (snd w) of (r, v) \<Rightarrow> (r, (fst w, v)))"

definition catalog_coordinator :: "EnvironmentEnv \<Rightarrow> 'v DiscoveryDrivers \<Rightarrow> (EnvironmentDB \<times> 'v) DiscoveryCoordinator" where
  "catalog_coordinator env drv =
     \<lparr>dco_List = (\<lambda>w. (environment_List env (fst w), w)),
      dco_UpsertDiscoveredStorage = Some (\<lambda>x. on_tables (environment_UpsertDiscoveredStorage env x)),
      dco_Upsert = (\<lambda>r. on_tables (resource_Upsert env r)),
      dco_UpsertRuntimeBinding = (\<lambda>b. on_tables (resource_UpsertRuntimeBinding env b)),
      dco_UpsertRelation = (\<lambda>r. on_tables (resource_UpsertRelation env r)),
      dco_CreateSnapshot = (\<lambda>sn. on_tables (resource_CreateSnapshot env sn)),
      dco_discoverers = map (\<lambda>(t, discover). (t, \<lambda>c. on_drivers (discover c))) (drv_discoverers drv),
      dco_audit = map_option (\<lambda>audit event. on_drivers (audit event)) (drv_audit drv),
      dco_now = drv_now drv, dco_newID = drv_newID drv, dco_numbers = drv_numbers drv, dco_ToLower = drv_ToLower drv\<rparr>"

definition bound_pairs :: "EnvironmentDB \<Rightarrow> (string \<times> string) set" where
  "bound_pairs db = set (map (\<lambda>b. (bind_ResourceID b, bind_RuntimeID b)) (filter bind_Enabled (edb_bindings db)))"

definition observed_ids :: "EnvironmentDB \<Rightarrow> string set" where
  "observed_ids db = set (map snap_ResourceID (edb_snapshots db))"

definition same_inventory :: "EnvironmentDB \<Rightarrow> EnvironmentDB \<Rightarrow> bool" where
  "same_inventory db db' \<longleftrightarrow> edb_bindings db' = edb_bindings db \<and> edb_snapshots db' = edb_snapshots db"

lemma on_tables_eq: "on_tables f w = (r, w') \<longleftrightarrow> f (fst w) = (r, fst w') \<and> snd w' = snd w"
  by (cases w') (auto simp: on_tables_def split: prod.splits)

lemma on_drivers_eq: "on_drivers f w = (r, w') \<longleftrightarrow> f (snd w) = (r, snd w') \<and> fst w' = fst w"
  by (cases w') (auto simp: on_drivers_def split: prod.splits)

lemma same_inventory_sets: "same_inventory db db' \<Longrightarrow> bound_pairs db' = bound_pairs db \<and> observed_ids db' = observed_ids db"
  by (simp add: same_inventory_def bound_pairs_def observed_ids_def)

lemma transaction_same: "(\<And>db'. body db = Inr db' \<Longrightarrow> same_inventory db db') \<Longrightarrow> transaction body db = (e, db') \<Longrightarrow> same_inventory db db'"
  by (auto simp: transaction_def same_inventory_def split: sum.splits)

lemma upsert_same: "resource_Upsert env r db = (e, db') \<Longrightarrow> same_inventory db db'"
  unfolding resource_Upsert_def by (erule transaction_same [rotated]) (auto simp: same_inventory_def with_json_Inr exec_stmt_Inr upsert_resource_def)

lemma relation_same: "resource_UpsertRelation env r db = (e, db') \<Longrightarrow> same_inventory db db'"
  unfolding resource_UpsertRelation_def
  by (erule transaction_same [rotated]) (auto simp: same_inventory_def with_json_Inr exec_stmt_Inr upsert_relation_def Let_def)

lemma chain_relates:
  assumes "\<And>f a b. f \<in> set fs \<Longrightarrow> f a = Inr b \<Longrightarrow> R a b" and "\<And>a. R a a" and "\<And>a b c. R a b \<Longrightarrow> R b c \<Longrightarrow> R a c"
  shows "chain fs db = Inr db' \<Longrightarrow> R db db'"
  using assms(1)
proof (induction fs arbitrary: db)
  case Nil
  then show ?case using assms(2) by simp
next
  case (Cons f fs)
  obtain db1 where c: "f db = Inr db1" "chain fs db1 = Inr db'" using Cons.prems(1) by (auto split: sum.splits)
  have "R a b" if "g \<in> set fs" "g a = Inr b" for g a b using Cons.prems(2) [of g a b] that by simp
  then have "R db1 db'" by (rule Cons.IH [OF c(2)])
  moreover have "R db db1" using Cons.prems(2) [of f db db1] c(1) by simp
  ultimately show ?case using assms(3) by blast
qed

lemmas chain_same = chain_relates [where R = same_inventory]

lemma storage_steps_same:
  "with_json m (\<lambda>c. exec_stmt env n (upsert_storage_binding (row c))) a = Inr b \<Longrightarrow> same_inventory a b"
  "exec_stmt env n (upsert_storage st) a = Inr b \<Longrightarrow> same_inventory a b"
  by (auto simp: with_json_Inr exec_stmt_Inr upsert_storage_def upsert_storage_binding_def Let_def same_inventory_def)

lemma storage_same: "environment_UpsertDiscoveredStorage env x db = (e, db') \<Longrightarrow> same_inventory db db'"
  unfolding environment_UpsertDiscoveredStorage_def
proof (erule transaction_same [rotated], unfold with_json_Inr, elim exE conjE)
qed (erule chain_same [rotated 3], auto dest: storage_steps_same simp: same_inventory_def)

lemma binding_bound:
  assumes "resource_UpsertRuntimeBinding env b db = (None, db')" and "bind_Enabled b"
  shows "bound_pairs db' = insert (bind_ResourceID b, bind_RuntimeID b) (bound_pairs db) \<and> observed_ids db' = observed_ids db"
proof -
  obtain m where db': "db' = upsert_binding (b\<lparr>bind_Configuration := m\<rparr>) db"
    using assms(1) by (auto simp: resource_UpsertRuntimeBinding_def upsert_done)
  have "bound_pairs (upsert_binding c db) = insert (bind_ResourceID c, bind_RuntimeID c) (bound_pairs db)" if "bind_Enabled c" for c
    using that by (auto simp: bound_pairs_def upsert_binding_def Let_def list_ex_iff image_iff)
  then show ?thesis using assms(2) by (simp add: db') (simp add: observed_ids_def upsert_binding_def Let_def)
qed

lemma snapshot_observed:
  "resource_CreateSnapshot env sn db = (None, db') \<Longrightarrow> bound_pairs db' = bound_pairs db \<and> observed_ids db' = insert (snap_ResourceID sn) (observed_ids db)"
  by (auto simp: resource_CreateSnapshot_def upsert_done bound_pairs_def observed_ids_def)

interpretation catalog: resource_inventory "catalog_coordinator env drv" "\<lambda>w. bound_pairs (fst w)" "\<lambda>w. observed_ids (fst w)" for env drv
proof unfold_locales
qed (auto simp: catalog_coordinator_def map_of_map on_tables_eq on_drivers_eq binding_bound snapshot_observed
    dest!: upsert_same relation_same storage_same same_inventory_sets)


lemma storage_schema: "environment_UpsertDiscoveredStorage env x db = (e, db') \<Longrightarrow> schema_ok db \<Longrightarrow> schema_ok db'"
proof -
  have "schema_ok db \<longrightarrow> schema_ok db1" if "environment_UpsertDiscoveredStorage env x db = (None, db1)" for db1
    using that unfolding environment_UpsertDiscoveredStorage_def transaction_None with_json_Inr
    by (elim exE conjE) (erule chain_relates [where R = "\<lambda>a b. schema_ok a \<longrightarrow> schema_ok b", rotated 3], auto simp: with_json_Inr exec_stmt_Inr)
  then show "environment_UpsertDiscoveredStorage env x db = (e, db') \<Longrightarrow> schema_ok db \<Longrightarrow> schema_ok db'"
    by (cases e) (auto simp: environment_UpsertDiscoveredStorage_def dest: transaction_Some)
qed

interpretation catalog_schema: state_invariant "catalog_coordinator env drv" "\<lambda>w. schema_ok (fst w)" for env drv
proof unfold_locales
  fix t discover and w :: "EnvironmentDB \<times> 'a" and c
  assume "map_of (dco_discoverers (catalog_coordinator env drv)) t = Some discover" and "schema_ok (fst w)"
  then show "schema_ok (fst (snd (discover c w)))"
    by (auto simp: catalog_coordinator_def map_of_map on_drivers_def split: prod.splits)
qed (auto simp: catalog_coordinator_def on_tables_def on_drivers_def resource_Upsert_def resource_UpsertRuntimeBinding_def
    resource_UpsertRelation_def resource_CreateSnapshot_def transaction_def with_json_Inr exec_stmt_Inr
    dest: storage_schema split: prod.splits sum.splits)


section \<open>What discovery records\<close>

lemma find_connection_id: "find_connection i ds = Some (d, c) \<Longrightarrow> con_ID c = i"
  by (induction i ds rule: find_connection.induct) (auto split: option.splits simp: find_Some_iff)

lemma catalog_find:
  "findConnection (catalog_coordinator env drv) i (db, v) = (Inr (d, c), w1) \<longleftrightarrow>
     w1 = (db, v) \<and> (\<exists>ds. environment_List env db = Inr ds \<and> find_connection i ds = Some (d, c))"
  by (auto simp: findConnection_def catalog_coordinator_def split: sum.splits option.splits)

lemma catalog_drivers:
  "map_of (dco_discoverers (catalog_coordinator env drv)) t = map_option (\<lambda>discover c. on_drivers (discover c)) (map_of (drv_discoverers drv) t)"
  by (simp add: catalog_coordinator_def map_of_map comp_def)


definition no_bound_resources :: "string \<Rightarrow> error" where
  "no_bound_resources i = Errorf ''connection %q has no bound resources'' [FmtS i]"

text \<open>
  C40. A connection whose definition binds no resource cannot be discovered: the call fails whatever the probe reports, and when
  the resources of a cluster could be recorded it fails with all of them bound and observed in the database.
\<close>

theorem first_discovery_lost:
  assumes "environment_List env db = Inr ds" and "find_connection i ds = Some (d, c)" and "boundResourceIDs d i = []"
  shows "isl (fst (DiscoverConnection (catalog_coordinator env drv) i (db, v))) \<and>
    (\<forall>obs w ss w1 w2. materializeHPCStructure (catalog_coordinator env drv) d c obs w = (Inr ss, w1) \<and>
       materialize_storages (catalog_coordinator env drv) d c obs w1 = (None, w2) \<and> (cdi_LoginNode obs \<noteq> None \<or> cdi_Nodes obs \<noteq> []) \<longrightarrow>
       record_observation (catalog_coordinator env drv) d c obs w = (Inl (no_bound_resources i), w2) \<and>
       bound_pairs (fst w2) = discovered_ids (catalog_coordinator env drv) d c obs \<times> set (runtimeIDsForConnection d i) \<union> bound_pairs (fst w) \<and>
       observed_ids (fst w2) = set (snapshot_ids c obs) \<union> observed_ids (fst w))"
proof
  let ?s = "catalog_coordinator env drv"
  have c: "con_ID c = i" using assms(2) by (rule find_connection_id)
  show "isl (fst (DiscoverConnection ?s i (db, v)))"
  proof (rule ccontr)
    assume "\<not> isl (fst (DiscoverConnection ?s i (db, v)))"
    then obtain items db' v' where "DiscoverConnection ?s i (db, v) = (Inr items, (db', v'))"
      by (cases "DiscoverConnection ?s i (db, v)"; cases "fst (DiscoverConnection ?s i (db, v))") auto
    from catalog.discovery_recorded [OF this] obtain d' c' w3 obs where "findConnection ?s i (db, v) = (Inr (d', c'), (db, v))"
      "record_observation ?s d' c' obs w3 = (Inr items, (db', v'))" by (metis catalog_find)
    then show False using assms c by (auto simp: catalog_find record_observation_def Let_def split: prod.splits sum.splits option.splits)
  qed
  show "\<forall>obs w ss w1 w2. materializeHPCStructure ?s d c obs w = (Inr ss, w1) \<and> materialize_storages ?s d c obs w1 = (None, w2) \<and>
       (cdi_LoginNode obs \<noteq> None \<or> cdi_Nodes obs \<noteq> []) \<longrightarrow>
       record_observation ?s d c obs w = (Inl (no_bound_resources i), w2) \<and>
       bound_pairs (fst w2) = discovered_ids ?s d c obs \<times> set (runtimeIDsForConnection d i) \<union> bound_pairs (fst w) \<and>
       observed_ids (fst w2) = set (snapshot_ids c obs) \<union> observed_ids (fst w)"
    using catalog.structure_added catalog.storages_keep assms(3) unfolding c by (fastforce simp: record_observation_def c no_bound_resources_def)
qed

text \<open>Discovery keeps the schema of the database, when it succeeds and wherever it fails in the middle.\<close>

lemma discovery_keeps_schema:
  assumes "schema_ok db"
  shows "schema_ok (fst (snd (DiscoverConnection (catalog_coordinator env drv) i (db, v))))"
  using catalog_schema.safe_discovery [of env drv i] assms unfolding catalog_schema.safe_def by auto


section \<open>A cluster\<close>

definition demo_observed :: "bool \<Rightarrow> CapabilityObservation" where
  "demo_observed b = \<lparr>cob_Available = b, cob_Declared = None, cob_Reason = [], cob_ObservedAt = 0, cob_FreshUntil = 0\<rparr>"

definition demo_discovery :: ConnectionDiscovery where
  "demo_discovery = \<lparr>cdi_Available = True, cdi_Metadata = [(''partitions'', AnyMaps [[(''name'', AnyString ''q'')]])], cdi_Warnings = [],
     cdi_Nodes = [\<lparr>dno_Name = ''n'', dno_State = ''idle'', dno_CPUCores = 0, dno_MemoryBytes = 0, dno_StorageBytes = 0, dno_Architecture = [],
       dno_Partitions = [''q''], dno_Features = [], dno_GenericResources = [], dno_Reason = [], dno_Metadata = []\<rparr>],
     cdi_LoginNode = None,
     cdi_Transfer = \<lparr>tca_Connectors = [], tca_OutboundHTTPS = demo_observed False, tca_ContainerRuntime = demo_observed False, tca_Checksum = demo_observed True,
       tca_Paths = [\<lparr>tpa_Path = ''/h'', tpa_Kind = ''home'', tpa_Writable = True, tpa_AvailableBytes = 0, tpa_LoginNodeVisible = True,
         tpa_ComputeNodeVisible = None, tpa_Reason = [], tpa_ObservedAt = 0\<rparr>], tca_ObservedAt = 0, tca_FreshUntil = 0\<rparr>\<rparr>"

definition demo_drivers :: "unit DiscoveryDrivers" where
  "demo_drivers = \<lparr>drv_discoverers = [(ConnectionSSH, \<lambda>c v. (Inr demo_discovery, v))], drv_audit = None, drv_now = (\<lambda>_. 9),
     drv_newID = (\<lambda>prefix w. prefix @ replicate (length (edb_snapshots (fst w))) CHR ''x''),
     drv_numbers = \<lparr>nu_ParseFloat = (\<lambda>_. Inl (Errorf [] [])), nu_FormatFloat = (\<lambda>_. []), nu_ParseInt = (\<lambda>_. Inl (Errorf [] [])), nu_overflow = (\<lambda>_. 0)\<rparr>,
     drv_ToLower = (\<lambda>s. s)\<rparr>"

text \<open>A definition with a connection \<open>c\<close>, a runtime \<open>r\<close> on it and the given resources, bound to the runtime.\<close>

definition demo_hpc :: "string list \<Rightarrow> EnvironmentDefinition" where
  "demo_hpc ids = \<lparr>def_Environment = \<lparr>env_ID = ''e'', env_Name = ''e'', env_Description = [], env_Status = EnvironmentStatusOther [], env_CreatedAt = 0\<rparr>,
     def_Version = zero_version\<lparr>env_VersionID := ''v''\<rparr>,
     def_Runtimes = [\<lparr>ert_EnvironmentVersionID = [], ert_ID = ''r'', ert_Name = ''r'', ert_Driver = RuntimeDriverSlurm, ert_Mode = RuntimeModeExecution, ert_Role = [],
       ert_Configuration = [(''connectionId'', AnyString ''c'')], ert_Capabilities = no_capabilities\<rparr>],
     def_Resources = map demo_machine ids,
     def_RuntimeBindings = map (\<lambda>i. \<lparr>bind_ResourceID = i, bind_RuntimeID = ''r'', bind_Enabled = True, bind_Configuration = []\<rparr>) ids,
     def_Relations = [], def_Storages = [], def_Profiles = [],
     def_Connections = [\<lparr>con_ID = ''c'', con_EnvironmentID = [], con_Name = ''c'', con_Type = ConnectionSSH, con_Endpoint = ''h'', con_Username = [],
       con_CredentialRef = [], con_Configuration = [], con_CreatedAt = 0\<rparr>], def_ConnectionChecks = [], def_ConnectorBindings = []\<rparr>"

definition demo_hpc_db :: "string list \<Rightarrow> EnvironmentDB" where
  "demo_hpc_db ids = snd (environment_Create demo_eenv (demo_hpc ids) demo_edb)"

definition demo_discover :: "EnvironmentDB \<Rightarrow> (error + ResourceSnapshot list) \<times> (EnvironmentDB \<times> unit)" where
  "demo_discover db = DiscoverConnection (catalog_coordinator demo_eenv demo_drivers) ''c'' (db, ())"

lemma succeeded:
  assumes "case fst p of Inr x \<Rightarrow> P x | Inl e \<Rightarrow> False"
  obtains x db where "p = (Inr x, (db, ()))" and "P x"
  using assms by (cases p; cases "fst p") auto


theorem first_discovery_lost_witness:
  "isl (fst (demo_discover (demo_hpc_db []))) \<and> \<not> isl (fst (demo_discover (fst (snd (demo_discover (demo_hpc_db []))))))"
proof
  have "case environment_List demo_eenv (demo_hpc_db []) of Inr ds \<Rightarrow>
      (case find_connection ''c'' ds of Some (d, c) \<Rightarrow> boundResourceIDs d ''c'' = [] | None \<Rightarrow> False) | Inl e \<Rightarrow> False" by code_simp
  then obtain ds d c where d: "environment_List demo_eenv (demo_hpc_db []) = Inr ds" "find_connection ''c'' ds = Some (d, c)" "boundResourceIDs d ''c'' = []"
    by (auto split: sum.splits option.splits)
  show "isl (fst (demo_discover (demo_hpc_db [])))" using first_discovery_lost [OF d, of demo_drivers "()"] unfolding demo_discover_def by blast
  show "\<not> isl (fst (demo_discover (fst (snd (demo_discover (demo_hpc_db []))))))" by code_simp
qed

end
