(* ===== verification/Kubernetes_Client.thy ===== *)
theory Kubernetes_Client
  imports Command_Executor Storage_Files
begin

text \<open>
  The client of the Kubernetes API, \<^verbatim>\<open>internal/provider/kubernetes/client.go\<close>: the interface \<^verbatim>\<open>API\<close> on which the adapter
  and the history cleaner rest, the addresses of resources, and requests with their limit and their errors. Parsing
  of the endpoint, the certificates and the transport are functions on a state \<open>'w\<close>.
\<close>

section \<open>The interface\<close>

record 'w KubeAPI =
  kap_Create :: "string \<Rightarrow> string \<Rightarrow> string \<Rightarrow> 'w \<Rightarrow> error option \<times> 'w"
  kap_Get :: "string \<Rightarrow> string \<Rightarrow> string \<Rightarrow> 'w \<Rightarrow> (error + string) \<times> 'w"
  kap_List :: "string \<Rightarrow> string \<Rightarrow> string \<Rightarrow> 'w \<Rightarrow> (error + string) \<times> 'w"
  kap_Logs :: "string \<Rightarrow> string \<Rightarrow> string \<Rightarrow> 'w \<Rightarrow> (error + string) \<times> 'w"
  kap_Delete :: "string \<Rightarrow> string \<Rightarrow> string \<Rightarrow> 'w \<Rightarrow> error option \<times> 'w"

definition ErrNotFound :: error where
  "ErrNotFound = Errorf ''kubernetes resource not found'' []"

text \<open>The client returns \<^verbatim>\<open>ErrNotFound\<close> itself, so that \<^verbatim>\<open>errors.Is\<close> is equality.\<close>

definition ignoreNotFound :: "error option \<Rightarrow> error option" where
  "ignoreNotFound err = (if err = Some ErrNotFound then None else err)"

text \<open>\<^verbatim>\<open>errors.Join\<close> of the errors that are not nil.\<close>

definition errors_Join :: "error list \<Rightarrow> error option" where
  "errors_Join errs = (if errs = [] then None else Some (Errorf (join_char newline (map (\<lambda>_. ''%w'') errs)) (map FmtE errs)))"

section \<open>Addresses\<close>

definition upper_hex :: "nat \<Rightarrow> char" where
  "upper_hex n = (if n < 10 then char_of (48 + n) else char_of (55 + n))"

definition percent :: "char \<Rightarrow> string" where
  "percent c = (let n = (of_char c :: nat) in [CHR ''%'', upper_hex (n div 16), upper_hex (n mod 16)])"

definition unreserved :: "char \<Rightarrow> bool" where
  "unreserved c \<longleftrightarrow> is_alpha c \<or> is_digit c \<or> c \<in> set ''-_.~''"

text \<open>\<^verbatim>\<open>url.PathEscape\<close> and \<^verbatim>\<open>url.QueryEscape\<close>.\<close>

definition PathEscape :: "string \<Rightarrow> string" where
  "PathEscape s = concat (map (\<lambda>c. if unreserved c \<or> c \<in> set ''$&+=:@'' then [c] else percent c) s)"

definition QueryEscape :: "string \<Rightarrow> string" where
  "QueryEscape s = concat (map (\<lambda>c. if unreserved c then [c] else if c = CHR '' '' then ''+'' else percent c) s)"

definition collectionPath :: "string \<Rightarrow> string \<Rightarrow> string" where
  "collectionPath namespace resource =
     (if resource = ''jobs'' then ''/apis/batch/v1'' else ''/api/v1'') @ ''/namespaces/'' @ PathEscape namespace @ ''/'' @ resource"

definition resourcePath :: "string \<Rightarrow> string \<Rightarrow> string \<Rightarrow> string" where
  "resourcePath namespace resource name = collectionPath namespace resource @ ''/'' @ PathEscape name"

section \<open>Requests\<close>

record HttpRequest =
  hrq_Method :: string
  hrq_URL :: string
  hrq_Header :: "(string, string) gomap"
  hrq_Body :: string

record HttpResponse =
  hrs_StatusCode :: int
  hrs_Status :: string
  hrs_Body :: reader

record ClientConfig =
  kcc_Endpoint :: string
  kcc_Token :: string
  kcc_CAFile :: string
  kcc_InsecureSkipTLSVerify :: bool

text \<open>\<open>wire_Parse\<close> and \<open>wire_NewRequest\<close> check an address; \<open>wire_Transport\<close> builds the transport of a configuration.\<close>

record 'w Wire =
  wire_Parse :: "string \<Rightarrow> error option"
  wire_NewRequest :: "string \<Rightarrow> string \<Rightarrow> error option"
  wire_ReadFile :: "string \<Rightarrow> 'w \<Rightarrow> (error + string) \<times> 'w"
  wire_ValidCertificates :: "string \<Rightarrow> bool"
  wire_Do :: "string option \<Rightarrow> bool \<Rightarrow> HttpRequest \<Rightarrow> 'w \<Rightarrow> (error + HttpResponse) \<times> 'w"

record 'w KubeClient =
  kcl_endpoint :: string
  kcl_token :: string
  kcl_NewRequest :: "string \<Rightarrow> string \<Rightarrow> error option"
  kcl_Do :: "HttpRequest \<Rightarrow> 'w \<Rightarrow> (error + HttpResponse) \<times> 'w"

text \<open>The certificates that the transport of a configuration accepts beside those of the system.\<close>

definition tlsTransport :: "'w Wire \<Rightarrow> ClientConfig \<Rightarrow> 'w \<Rightarrow> (error + (HttpRequest \<Rightarrow> 'w \<Rightarrow> (error + HttpResponse) \<times> 'w)) \<times> 'w" where
  "tlsTransport wire config w =
     (if kcc_CAFile config = '''' then (Inr (wire_Do wire None (kcc_InsecureSkipTLSVerify config)), w)
      else case wire_ReadFile wire (kcc_CAFile config) w of
        (Inl e, w1) \<Rightarrow> (Inl (Errorf ''read Kubernetes CA: %w'' [FmtE e]), w1)
      | (Inr pem, w1) \<Rightarrow>
         (if \<not> wire_ValidCertificates wire pem then (Inl (Errorf ''Kubernetes CA file contains no valid certificate'' []), w1)
          else (Inr (wire_Do wire (Some pem) (kcc_InsecureSkipTLSVerify config)), w1)))"

definition trim_right_slashes :: "string \<Rightarrow> string" where
  "trim_right_slashes s = rev (dropWhile (\<lambda>c. c = CHR ''/'') (rev s))"

text \<open>The sources never set \<^verbatim>\<open>HTTPClient\<close>, so that the transport is always the one of the configuration.\<close>

definition NewClient :: "'w Wire \<Rightarrow> ClientConfig \<Rightarrow> 'w \<Rightarrow> (error + 'w KubeClient) \<times> 'w" where
  "NewClient wire config w =
     (let e0 = trim_right_slashes (trim_space (kcc_Endpoint config));
          endpoint = (if contains e0 ''://'' then e0 else ''https://'' @ e0)
      in if e0 = '''' then (Inl (Errorf ''Kubernetes API server is required'' []), w)
         else case wire_Parse wire endpoint of
           Some e \<Rightarrow> (Inl (Errorf ''invalid Kubernetes API server: %w'' [FmtE e]), w)
         | None \<Rightarrow>
            (if trim_space (kcc_Token config) = '''' then (Inl (Errorf ''Kubernetes API bearer token is required'' []), w)
             else case tlsTransport wire config w of
               (Inl e, w1) \<Rightarrow> (Inl e, w1)
             | (Inr do_request, w1) \<Rightarrow>
                 (Inr \<lparr>kcl_endpoint = endpoint, kcl_token = trim_space (kcc_Token config), kcl_NewRequest = wire_NewRequest wire,
                       kcl_Do = do_request\<rparr>, w1)))"

text \<open>\<^verbatim>\<open>io.ReadAll\<close> of a body up to a limit; an error after the limit is not reached.\<close>

definition read_limited :: "nat \<Rightarrow> reader \<Rightarrow> error + string" where
  "read_limited limit body =
     (if limit \<le> length (fst body) then Inr (take limit (fst body))
      else case snd body of Some e \<Rightarrow> Inl e | None \<Rightarrow> Inr (fst body))"

definition requestWithLimit :: "'w KubeClient \<Rightarrow> string \<Rightarrow> string \<Rightarrow> string \<Rightarrow> nat \<Rightarrow> 'w \<Rightarrow> (error + string) \<times> 'w" where
  "requestWithLimit c method path body limit w =
     (let url = kcl_endpoint c @ path in
      case kcl_NewRequest c method url of
        Some e \<Rightarrow> (Inl e, w)
      | None \<Rightarrow>
         (case kcl_Do c \<lparr>hrq_Method = method, hrq_URL = url,
              hrq_Header = (''Authorization'', ''Bearer '' @ kcl_token c) # (if body \<noteq> '''' then [(''Content-Type'', ''application/json'')] else []),
              hrq_Body = body\<rparr> w of
            (Inl e, w1) \<Rightarrow> (Inl (Errorf ''Kubernetes API request: %w'' [FmtE e]), w1)
          | (Inr response, w1) \<Rightarrow>
             (case read_limited limit (hrs_Body response) of
                Inl e \<Rightarrow> (Inl (Errorf ''read Kubernetes API response: %w'' [FmtE e]), w1)
              | Inr payload \<Rightarrow>
                  (if hrs_StatusCode response = 404 then (Inl ErrNotFound, w1)
                   else if hrs_StatusCode response < 200 \<or> hrs_StatusCode response \<ge> 300 then
                     (Inl (Errorf ''Kubernetes API returned %s: %s'' [FmtS (hrs_Status response), FmtS (trim_space payload)]), w1)
                   else (Inr payload, w1)))))"

definition request :: "'w KubeClient \<Rightarrow> string \<Rightarrow> string \<Rightarrow> string \<Rightarrow> 'w \<Rightarrow> (error + string) \<times> 'w" where
  "request c method path body = requestWithLimit c method path body (2 ^ 20)"

definition without_value :: "(error + string) \<times> 'w \<Rightarrow> error option \<times> 'w" where
  "without_value r = (case r of (Inl e, w) \<Rightarrow> (Some e, w) | (Inr _, w) \<Rightarrow> (None, w))"

definition client_Create :: "'w KubeClient \<Rightarrow> string \<Rightarrow> string \<Rightarrow> string \<Rightarrow> 'w \<Rightarrow> error option \<times> 'w" where
  "client_Create c namespace resource body w = without_value (request c ''POST'' (collectionPath namespace resource) body w)"

definition client_Get :: "'w KubeClient \<Rightarrow> string \<Rightarrow> string \<Rightarrow> string \<Rightarrow> 'w \<Rightarrow> (error + string) \<times> 'w" where
  "client_Get c namespace resource name = request c ''GET'' (resourcePath namespace resource name) ''''"

definition client_List :: "'w KubeClient \<Rightarrow> string \<Rightarrow> string \<Rightarrow> string \<Rightarrow> 'w \<Rightarrow> (error + string) \<times> 'w" where
  "client_List c namespace resource labelSelector =
     request c ''GET'' (collectionPath namespace resource @ (if labelSelector \<noteq> '''' then ''?labelSelector='' @ QueryEscape labelSelector else '''')) ''''"

definition client_ListCluster :: "'w KubeClient \<Rightarrow> string \<Rightarrow> 'w \<Rightarrow> (error + string) \<times> 'w" where
  "client_ListCluster c resource = request c ''GET'' (''/api/v1/'' @ PathEscape resource) ''''"

definition client_Logs :: "'w KubeClient \<Rightarrow> string \<Rightarrow> string \<Rightarrow> string \<Rightarrow> 'w \<Rightarrow> (error + string) \<times> 'w" where
  "client_Logs c namespace pod container =
     requestWithLimit c ''GET'' (resourcePath namespace ''pods'' pod @ ''/log?container='' @ QueryEscape container) '''' (2 ^ 26)"

definition delete_options :: string where
  \<open>delete_options = ''{"kind":"DeleteOptions","apiVersion":"v1","propagationPolicy":"Background"}''\<close>

definition client_Delete :: "'w KubeClient \<Rightarrow> string \<Rightarrow> string \<Rightarrow> string \<Rightarrow> 'w \<Rightarrow> error option \<times> 'w" where
  "client_Delete c namespace resource name w = without_value (request c ''DELETE'' (resourcePath namespace resource name) delete_options w)"

definition client_api :: "'w KubeClient \<Rightarrow> 'w KubeAPI" where
  "client_api c = \<lparr>kap_Create = client_Create c, kap_Get = client_Get c, kap_List = client_List c, kap_Logs = client_Logs c, kap_Delete = client_Delete c\<rparr>"

end
