(* ===== verification/Kubernetes_Resources.thy ===== *)
theory Kubernetes_Resources
  imports Kubernetes_Client Activity_Controller
begin

text \<open>
  What the Kubernetes provider creates for an activity, \<^verbatim>\<open>internal/provider/kubernetes/adapter.go\<close>: the name of the
  objects, the script that runs an activity and observes its files (\<^verbatim>\<open>scripts/lifecycle.sh\<close>), the pod with its
  environment and volume, and the job and service with it. A map of strings is a map into \<open>any\<close>, which has the same encoding.
\<close>

section \<open>Names\<close>

definition activityContainer :: string where
  "activityContainer = ''activity''"

definition manifestLogPrefix :: string where
  "manifestLogPrefix = ''AKOFLOW_ARTIFACT_MANIFEST=''"

definition lower_alnum :: "char \<Rightarrow> bool" where
  "lower_alnum c \<longleftrightarrow> (97 \<le> (of_char c :: nat) \<and> (of_char c :: nat) \<le> 122) \<or> is_digit c"

definition kubernetesName :: "(string \<Rightarrow> string) \<Rightarrow> string \<Rightarrow> string" where
  "kubernetesName ToLower value =
     (let v = trim_dashes (map_runes (\<lambda>r. case r of [c] \<Rightarrow> if lower_alnum c \<or> c = CHR ''-'' then [c] else ''-'' | _ \<Rightarrow> ''-'') (ToLower value))
      in trim_dashes (if length v > 63 then take 63 v else v))"

definition serviceEndpoints :: "string \<Rightarrow> string \<Rightarrow> Activity \<Rightarrow> string list" where
  "serviceEndpoints name namespace activity =
     (case act_Service activity of
        None \<Rightarrow> []
      | Some service \<Rightarrow> map (\<lambda>port. ''tcp://'' @ name @ ''.'' @ namespace @ ''.svc:'' @ itoa port) (svc_Ports service))"

text \<open>\<^verbatim>\<open>strings.Map\<close> into upper case and underscores, and \<^verbatim>\<open>strings.Trim\<close> of underscores.\<close>

definition input_char :: "string \<Rightarrow> string" where
  "input_char r =
     (case r of
        [c] \<Rightarrow> (let n = (of_char c :: nat) in
               if 97 \<le> n \<and> n \<le> 122 then [char_of (n - 32)] else if (65 \<le> n \<and> n \<le> 90) \<or> is_digit c then [c] else ''_'')
      | _ \<Rightarrow> ''_'')"

definition trim_underscores :: "string \<Rightarrow> string" where
  "trim_underscores s = rev (dropWhile (\<lambda>c. c = CHR ''_'') (rev (dropWhile (\<lambda>c. c = CHR ''_'') s)))"

definition inputEnvironmentName :: "string \<Rightarrow> string" where
  "inputEnvironmentName logicalName = ''AKOFLOW_INPUT_'' @ trim_underscores (map_runes input_char logicalName)"

section \<open>Storage and workspace\<close>

record storageBinding =
  bnd_Type :: string
  bnd_ResourceID :: string
  bnd_ClaimName :: string
  bnd_Server :: string
  bnd_Path :: string
  bnd_MountPath :: string
  bnd_ReadOnly :: bool

definition storageBindingFor :: "Activity \<Rightarrow> storageBinding" where
  "storageBindingFor activity =
     (case map_of (act_Metadata activity) ''storage'' of
        Some (AnyMap value) \<Rightarrow>
          \<lparr>bnd_Type = meta_string value ''type'', bnd_ResourceID = meta_string value ''resourceId'', bnd_ClaimName = meta_string value ''claimName'',
           bnd_Server = meta_string value ''server'', bnd_Path = meta_string value ''path'',
           bnd_MountPath = (if meta_string value ''mountPath'' = '''' then ''/akoflow/data'' else meta_string value ''mountPath''),
           bnd_ReadOnly = meta_bool value ''readOnly''\<rparr>
      | _ \<Rightarrow> \<lparr>bnd_Type = '''', bnd_ResourceID = '''', bnd_ClaimName = '''', bnd_Server = '''', bnd_Path = '''', bnd_MountPath = '''', bnd_ReadOnly = False\<rparr>)"

text \<open>\<^verbatim>\<open>path.Join\<close> of several elements.\<close>

definition path_JoinAll :: "string list \<Rightarrow> string" where
  "path_JoinAll es = (let es' = filter (\<lambda>e. e \<noteq> '''') es in if es' = [] then '''' else path_Clean (join_slash es'))"

definition mounted :: "storageBinding \<Rightarrow> bool" where
  "mounted binding \<longleftrightarrow> bnd_Type binding = ''pvc'' \<or> bnd_Type binding = ''nfs''"

definition observationRoot :: "Activity \<Rightarrow> string \<Rightarrow> string" where
  "observationRoot activity runID =
     (let configured = meta_string (act_Metadata activity) ''artifactObservationRoot''; binding = storageBindingFor activity in
      if configured \<noteq> '''' then configured
      else if mounted binding then path_JoinAll [bnd_MountPath binding, ''runs'', runID, act_ID activity]
      else if cmd_WorkingDirectory (act_Command activity) \<noteq> '''' then cmd_WorkingDirectory (act_Command activity)
      else ''/tmp/akoflow/workspace'')"

section \<open>The script of an activity\<close>

definition manifestPrefixPlaceholder :: string where
  "manifestPrefixPlaceholder = ''__AKOFLOW_MANIFEST_PREFIX__''"

text \<open>\<^verbatim>\<open>strings.ReplaceAll\<close> of a text that is not empty.\<close>

function replace_all :: "string \<Rightarrow> string \<Rightarrow> string \<Rightarrow> string" where
  "replace_all [] old new = []"
| "replace_all (c # s) old new =
     (if old \<noteq> [] \<and> has_prefix (c # s) old then new @ replace_all (drop (length old - 1) s) old new else c # replace_all s old new)"
  by pat_completeness auto
termination by (relation "measure (\<lambda>(s, old, new). length s)") auto

definition shellLifecycleTemplate :: string where
  \<open>shellLifecycleTemplate = concat (map (\<lambda>l. l @ [newline])
      [raw_lit ''root=${AKOFLOW_OBSERVATION_ROOT:-/tmp/akoflow/workspace}'',
       raw_lit ''state_dir=/tmp/akoflow-lifecycle-$$'',
       raw_lit ''before=$state_dir/before.tsv'',
       raw_lit ''after=$state_dir/after.tsv'',
       raw_lit ''changes=$state_dir/changes.tsv'',
       raw_lit ''max_files=${AKOFLOW_MAX_ARTIFACTS:-10000}'',
       [],
       raw_lit ''cleanup() { rm -rf "$state_dir"; }'',
       raw_lit ''trap cleanup EXIT HUP INT TERM'',
       [],
       raw_lit ''if ! mkdir -p "$root" "$state_dir" || ! cd "$root"; then'',
       raw_lit ''  printf 'AKOFLOW_LIFECYCLE_ERROR=cannot prepare activity workspace: %s`n' "$root" >&2'',
       raw_lit ''  exit 125'',
       raw_lit ''fi'',
       [],
       raw_lit ''snapshot() {'',
       raw_lit ''  destination=$1'',
       raw_lit ''  printf '#`t0`t-`n' > "$destination"'',
       raw_lit ''  find "$root" -type f -exec sh -c ~'',
       raw_lit ''    root=$1'',
       raw_lit ''    destination=$2'',
       raw_lit ''    shift 2'',
       raw_lit ''    for file do'',
       raw_lit ''      relative=${file#"$root"/}'',
       raw_lit ''      size=$(wc -c < "$file" 2>/dev/null) || continue'',
       raw_lit ''      checksum=$(sha256sum "$file" 2>/dev/null | awk "{print `$1}") || continue'',
       raw_lit ''      printf "%s`t%s`t%s`n" "$relative" "$size" "$checksum" >> "$destination"'',
       raw_lit ''    done'',
       raw_lit ''  ' snapshot "$root" "$destination" {} + 2>/dev/null'',
       raw_lit ''  sort -o "$destination" "$destination"'',
       raw_lit ''}'',
       [],
       raw_lit ''started_at=$(date +%s 2>/dev/null || printf '0')'',
       raw_lit ''snapshot "$before" || printf 'AKOFLOW_OBSERVATION_WARNING=initial snapshot failed`n' >&2'',
       [],
       raw_lit ''"$@"'',
       raw_lit ''activity_exit_code=$?'',
       [],
       raw_lit ''finished_at=$(date +%s 2>/dev/null || printf '0')'',
       raw_lit ''snapshot "$after" || printf 'AKOFLOW_OBSERVATION_WARNING=final snapshot failed`n' >&2'',
       [],
       raw_lit ''awk -F '`t' ~'',
       raw_lit ''  NR == FNR { if ($1 != "#") { beforeChecksum[$1]=$3; beforeSize[$1]=$2 }; next }'',
       raw_lit ''  {'',
       raw_lit ''    if ($1 == "#") next'',
       raw_lit ''    seen[$1]=1'',
       raw_lit ''    if (!($1 in beforeChecksum)) print "created`t" $2 "`tsha256:" $3 "`t" $1'',
       raw_lit ''    else if (beforeChecksum[$1] != $3 || beforeSize[$1] != $2)'',
       raw_lit ''      print "modified`t" $2 "`tsha256:" $3 "`t" $1'',
       raw_lit ''  }'',
       raw_lit ''  END {'',
       raw_lit ''    for (file in beforeChecksum)'',
       raw_lit ''      if (!(file in seen)) print "deleted`t0`tsha256:" beforeChecksum[file] "`t" file'',
       raw_lit ''  }'',
       raw_lit ''' "$before" "$after" | sort | head -n "$max_files" > "$changes"'',
       [],
       raw_lit ''initial_files=$(awk -F '`t' '$1!="#" {count++} END {print count+0}' "$before")'',
       raw_lit ''final_files=$(awk -F '`t' '$1!="#" {count++} END {print count+0}' "$after")'',
       raw_lit ''created_files=$(awk -F '`t' '$1=="created" {count++} END {print count+0}' "$changes")'',
       raw_lit ''modified_files=$(awk -F '`t' '$1=="modified" {count++} END {print count+0}' "$changes")'',
       raw_lit ''deleted_files=$(awk -F '`t' '$1=="deleted" {count++} END {print count+0}' "$changes")'',
       raw_lit ''output_bytes=$(awk -F '`t' '$1!="deleted" {bytes+=$2} END {print bytes+0}' "$changes")'',
       raw_lit ''duration=$((finished_at >= started_at ? finished_at - started_at : 0))'',
       [],
       raw_lit ''files_json='[~'',
       raw_lit ''separator=~~'',
       raw_lit ''tab=$(printf '`t')'',
       raw_lit ''while IFS="$tab" read -r change size checksum relative; do'',
       raw_lit ''  [ -n "$relative" ] || continue'',
       raw_lit ''  escaped_path=$(printf '%s' "$relative" | sed 's/``/````/g; s/"/``"/g')'',
       raw_lit ''  files_json=$files_json$separator'{"path":"'$escaped_path'","change":"'$change'","sizeBytes":'$size',"checksum":"'$checksum'"}~'',
       raw_lit ''  separator=',~'',
       raw_lit ''done < "$changes"'',
       raw_lit ''files_json=$files_json']~'',
       [],
       raw_lit ''manifest_format='{"schemaVersion":1,"runId":"%s","activityId":"%s","attempt":1,~'',
       raw_lit ''manifest_format=$manifest_format'"runtime":"kubernetes","root":"%s","startedAt":%s,~'',
       raw_lit ''manifest_format=$manifest_format'"finishedAt":%s,"exitCode":%s,"files":%s,"phases":[~'',
       raw_lit ''manifest_format=$manifest_format'{"phase":"execution","status":"%s","startedAt":%s,~'',
       raw_lit ''manifest_format=$manifest_format'"finishedAt":%s,"durationSeconds":%s}],"summary":{~'',
       raw_lit ''manifest_format=$manifest_format'"initialFiles":%s,"finalFiles":%s,"createdFiles":%s,~'',
       raw_lit ''manifest_format=$manifest_format'"modifiedFiles":%s,"deletedFiles":%s,"outputBytes":%s}}~'',
       raw_lit ''manifest=$(printf "$manifest_format" `'',
       raw_lit ''  "$AKOFLOW_RUN_ID" "$AKOFLOW_ACTIVITY_ID" "$root" "$started_at" "$finished_at" `'',
       raw_lit ''  "$activity_exit_code" "$files_json" `'',
       raw_lit ''  "$(if [ "$activity_exit_code" -eq 0 ]; then printf completed; else printf failed; fi)" `'',
       raw_lit ''  "$started_at" "$finished_at" "$duration" "$initial_files" "$final_files" `'',
       raw_lit ''  "$created_files" "$modified_files" "$deleted_files" "$output_bytes")'',
       [],
       raw_lit ''if command -v base64 >/dev/null 2>&1; then'',
       raw_lit ''  encoded_manifest=$(printf '%s' "$manifest" | base64 | tr -d '`n')'',
       raw_lit ''  printf '`n__AKOFLOW_MANIFEST_PREFIX__%s`n' "$encoded_manifest"'',
       raw_lit ''else'',
       raw_lit ''  printf '`nAKOFLOW_OBSERVATION_ERROR=base64 utility is unavailable; activity result was preserved`n' >&2'',
       raw_lit ''fi'',
       [],
       raw_lit ''exit "$activity_exit_code"''])\<close>

definition renderShellLifecycle :: string where
  "renderShellLifecycle = replace_all shellLifecycleTemplate manifestPrefixPlaceholder manifestLogPrefix"

section \<open>Pods, jobs and services\<close>

text \<open>The encoding of JSON, the verb \<^verbatim>\<open>%g\<close> and the mapping of letters to lower case are parameters.\<close>

record KubeText =
  ktx_Marshal :: "any \<Rightarrow> error + string"
  ktx_general :: "float64 \<Rightarrow> string"
  ktx_ToLower :: "string \<Rightarrow> string"

definition env_entry :: "string \<times> string \<Rightarrow> (string \<times> any) list" where
  "env_entry = (\<lambda>(name, value). [(''name'', AnyString name), (''value'', AnyString value)])"

definition input_entries :: "WorkflowVersion \<Rightarrow> Activity \<Rightarrow> storageBinding \<Rightarrow> string \<Rightarrow> (string \<times> string) list" where
  "input_entries workflow activity binding runID =
     map (\<lambda>d. (inputEnvironmentName (ddep_LogicalName d), path_JoinAll [bnd_MountPath binding, ''runs'', runID, ddep_ProducerActivityID d, ddep_LogicalName d]))
       (filter (\<lambda>d. ddep_ConsumerActivityID d = act_ID activity \<and> ddep_LogicalName d \<noteq> '''') (wfv_DataDependencies workflow))"

text \<open>The environment of the command is a map, which is visited in the order \<open>ord\<close> chooses.\<close>

definition pod_environment ::
  "((string \<times> string) list \<Rightarrow> (string \<times> string) list) \<Rightarrow> WorkflowVersion \<Rightarrow> Activity \<Rightarrow> string \<Rightarrow> (string \<times> string) list"
where
  "pod_environment ord workflow activity runID =
     (let binding = storageBindingFor activity in
      in_order ord (cmd_Environment (act_Command activity)) @
      [(''AKOFLOW_RUN_ID'', runID), (''AKOFLOW_ACTIVITY_ID'', act_ID activity), (''AKOFLOW_OBSERVATION_ROOT'', observationRoot activity runID)] @
      (if mounted binding then
         [(''AKOFLOW_RUN_DATA_ROOT'', path_JoinAll [bnd_MountPath binding, ''runs'', runID]), (''AKOFLOW_ACTIVITY_DATA_ROOT'', observationRoot activity runID)] @
         input_entries workflow activity binding runID
       else []))"

definition container_arguments :: "ActivityCommand \<Rightarrow> string list" where
  "container_arguments command = [''-c'', renderShellLifecycle, ''akoflow-entrypoint'', cmd_Entrypoint command] @ cmd_Arguments command"

definition observedPodSpec ::
  "KubeText \<Rightarrow> ((string \<times> string) list \<Rightarrow> (string \<times> string) list) \<Rightarrow> WorkflowVersion \<Rightarrow> Activity \<Rightarrow> Resource \<Rightarrow> string \<Rightarrow> (string \<times> any) list"
where
  "observedPodSpec kt ord workflow activity resource runID =
     (let command = act_Command activity; binding = storageBindingFor activity;
          container =
            [(''name'', AnyString activityContainer), (''image'', AnyString (cmd_Image command)), (''command'', AnyStrings [''/bin/sh'']),
             (''args'', AnyStrings (container_arguments command)), (''env'', AnyMaps (map env_entry (pod_environment ord workflow activity runID))),
             (''resources'', AnyMap [(''requests'', AnyMap [(''cpu'', AnyString (ktx_general kt (ares_CPU (act_Resources activity)))),
               (''memory'', AnyString (itoa (ares_MemoryBytes (act_Resources activity))))])])] @
            (if bnd_Type binding \<noteq> '''' then
               [(''volumeMounts'', AnyMaps [[(''name'', AnyString ''akoflow-data''), (''mountPath'', AnyString (bnd_MountPath binding)), (''readOnly'', AnyBool (bnd_ReadOnly binding))]])]
             else [])
      in [(''restartPolicy'', AnyString ''Never''), (''containers'', AnyList [AnyMap container])] @
         (if bnd_Type binding = ''pvc'' then
            [(''volumes'', AnyMaps [[(''name'', AnyString ''akoflow-data''), (''persistentVolumeClaim'',
               AnyMap [(''claimName'', AnyString (bnd_ClaimName binding)), (''readOnly'', AnyBool (bnd_ReadOnly binding))])]])]
          else if bnd_Type binding = ''nfs'' then
            [(''volumes'', AnyMaps [[(''name'', AnyString ''akoflow-data''), (''nfs'',
               AnyMap [(''server'', AnyString (bnd_Server binding)), (''path'', AnyString (bnd_Path binding)), (''readOnly'', AnyBool (bnd_ReadOnly binding))])]])]
          else []) @
         (if res_Type resource = ResourceKubernetesMachine \<and> res_ProviderID resource \<noteq> '''' then
            [(''nodeSelector'', AnyMap [(''kubernetes.io/hostname'', AnyString (res_ProviderID resource))])]
          else []))"

definition object_metadata :: "string \<Rightarrow> string \<Rightarrow> any" where
  "object_metadata name namespace =
     AnyMap [(''name'', AnyString name), (''namespace'', AnyString namespace),
       (''labels'', AnyMap [(''app.kubernetes.io/managed-by'', AnyString ''akoflow'')])]"

definition job_object :: "string \<Rightarrow> string \<Rightarrow> Activity \<Rightarrow> (string \<times> any) list \<Rightarrow> any" where
  "job_object name namespace activity podSpec =
     AnyMap [(''apiVersion'', AnyString ''batch/v1''), (''kind'', AnyString ''Job''), (''metadata'', object_metadata name namespace),
       (''spec'', AnyMap [(''backoffLimit'', AnyInt (max (wrap64 (pol_MaxAttempts (act_Policy activity) - 1)) 0)),
         (''template'', AnyMap [(''metadata'', AnyMap [(''labels'', AnyMap [(''akoflow.io/activity'', AnyString (act_ID activity))])]),
           (''spec'', AnyMap podSpec)])])]"

definition service_object :: "string \<Rightarrow> string \<Rightarrow> Activity \<Rightarrow> int list \<Rightarrow> any" where
  "service_object name namespace activity ports =
     AnyMap [(''apiVersion'', AnyString ''v1''), (''kind'', AnyString ''Service''), (''metadata'', object_metadata name namespace),
       (''spec'', AnyMap [(''selector'', AnyMap [(''akoflow.io/activity'', AnyString (act_ID activity))]),
         (''ports'', AnyMaps (map (\<lambda>port. [(''port'', AnyInt port), (''targetPort'', AnyInt port)]) ports))])]"

definition service_ports :: "Activity \<Rightarrow> int list" where
  "service_ports activity = (case act_Service activity of None \<Rightarrow> [] | Some service \<Rightarrow> svc_Ports service)"

definition resources ::
  "KubeText \<Rightarrow> ((string \<times> string) list \<Rightarrow> (string \<times> string) list) \<Rightarrow> string \<Rightarrow> string \<Rightarrow> WorkflowVersion \<Rightarrow> Activity \<Rightarrow> Resource \<Rightarrow> string \<Rightarrow>
     error + string \<times> string option"
where
  "resources kt ord name namespace workflow activity resource runID =
     (case ktx_Marshal kt (job_object name namespace activity (observedPodSpec kt ord workflow activity resource runID)) of
        Inl e \<Rightarrow> Inl e
      | Inr job \<Rightarrow>
         (if service_ports activity = [] then Inr (job, None)
          else case ktx_Marshal kt (service_object name namespace activity (service_ports activity)) of
            Inl e \<Rightarrow> Inl e
          | Inr service \<Rightarrow> Inr (job, Some service)))"

end
