(* ===== verification/Kubernetes_Adapter.thy ===== *)
theory Kubernetes_Adapter
  imports Kubernetes_Resources
begin

text \<open>
  The Kubernetes provider, \<^verbatim>\<open>internal/provider/kubernetes/adapter.go\<close>, \<^verbatim>\<open>history_cleaner.go\<close>, \<^verbatim>\<open>connection_prober.go\<close>,
  \<^verbatim>\<open>connection_factory.go\<close> and \<^verbatim>\<open>discovery.go\<close>: jobs are created, observed and deleted through the interface of the API, old jobs are
  removed, and connections are probed and discovered. The decoders of JSON are parameters; each gives the
  fields that the code reads.
\<close>

section \<open>What the cluster reports\<close>

text \<open>An instant in nanoseconds; \<open>None\<close> is the zero value of \<^verbatim>\<open>time.Time\<close>, which is before every instant.\<close>

type_synonym go_time = "int option"

definition time_After :: "go_time \<Rightarrow> go_time \<Rightarrow> bool" where
  "time_After a b \<longleftrightarrow> (case a of None \<Rightarrow> False | Some x \<Rightarrow> (case b of None \<Rightarrow> True | Some y \<Rightarrow> y < x))"

record JobCondition =
  jco_Type :: string
  jco_Status :: string
  jco_Message :: string
  jco_LastTransitionTime :: go_time

record JobStatus =
  jst_Active :: int
  jst_Succeeded :: int
  jst_Failed :: int
  jst_CompletionTime :: "go_time option"
  jst_Conditions :: "JobCondition list"

record kubernetesJob =
  kjb_Name :: string
  kjb_CreationTimestamp :: go_time
  kjb_Status :: JobStatus

record ContainerTiming =
  cti_Name :: string
  cti_Running :: "go_time option"

record PodTiming =
  pti_StartTime :: "go_time option"
  pti_ContainerStatuses :: "ContainerTiming list"

record ContainerState =
  cst_Reason :: string
  cst_Message :: string

record ContainerStates =
  css_Waiting :: "ContainerState option"
  css_Terminated :: "ContainerState option"

record KubeNode =
  kno_Name :: string
  kno_Architecture :: string
  kno_ContainerRuntimeVersion :: string
  kno_Allocatable :: "(string, string) gomap"
  kno_Conditions :: "(string \<times> string) list"

record KubeDecoders =
  kde_job :: "string \<Rightarrow> error + JobStatus"
  kde_jobs :: "string \<Rightarrow> error + kubernetesJob list"
  kde_pod_names :: "string \<Rightarrow> error + string list"
  kde_pod_timings :: "string \<Rightarrow> error + PodTiming list"
  kde_pod_states :: "string \<Rightarrow> error + ContainerStates list list"
  kde_manifest :: "string \<Rightarrow> error + ArtifactManifest"
  kde_nodes :: "string \<Rightarrow> error + KubeNode list"

section \<open>The adapter\<close>

record 'w KubeAdapter =
  kad_api :: "'w KubeAPI option"
  kad_namespace :: string
  kad_text :: KubeText
  kad_decoders :: KubeDecoders
  kad_now :: "'w \<Rightarrow> int"
  kad_NewID :: "string \<Rightarrow> 'w \<Rightarrow> string"
  kad_order :: "(string \<times> string) list \<Rightarrow> (string \<times> string) list"

definition kube_New :: "'w KubeAdapter \<Rightarrow> 'w KubeAPI option \<Rightarrow> string \<Rightarrow> 'w KubeAdapter" where
  "kube_New base api namespace = base\<lparr>kad_api := api, kad_namespace := (if namespace = '''' then ''default'' else namespace)\<rparr>"

definition kube_handle :: "'w KubeAdapter \<Rightarrow> ActivityExecutionContext \<Rightarrow> string \<Rightarrow> 'w \<Rightarrow> ActivityHandle" where
  "kube_handle a c name w =
     (let activity = ctx_Activity c; runID = run_ID (ctx_Run c); submittedAt = UnixSeconds (kad_now a w) in
      zero_handle\<lparr>hnd_ID := kad_NewID a ''activity'' w, hnd_RunID := runID, hnd_ActivityID := act_ID activity, hnd_ResourceID := res_ID (ctx_Resource c),
        hnd_RuntimeID := ctx_RuntimeID c, hnd_ExternalID := name, hnd_Status := HandleStarting, hnd_StartedAt := submittedAt,
        hnd_Endpoints := serviceEndpoints name (kad_namespace a) activity,
        hnd_Metadata := [(''submittedAt'', AnyFloat64 submittedAt), (''artifactObservationDriver'', AnyString ''filesystem-diff''),
          (''artifactObservationRoot'', AnyString (observationRoot activity runID)), (''artifactStorageType'', AnyString (bnd_Type (storageBindingFor activity))),
          (''artifactStorageResourceId'', AnyString (bnd_ResourceID (storageBindingFor activity)))]\<rparr>)"

definition job_name :: "'w KubeAdapter \<Rightarrow> ActivityExecutionContext \<Rightarrow> string" where
  "job_name a c = kubernetesName (ktx_ToLower (kad_text a)) (''akoflow-'' @ run_ID (ctx_Run c) @ ''-'' @ act_ID (ctx_Activity c))"

definition kube_Start :: "'w KubeAdapter \<Rightarrow> ActivityExecutionContext \<Rightarrow> 'w \<Rightarrow> ActivityHandle result \<times> 'w" where
  "kube_Start a c w =
     (case kad_api a of
        None \<Rightarrow> (Err (Errorf ''Kubernetes API client is required'' []), w)
      | Some api \<Rightarrow>
         (let activity = ctx_Activity c; name = job_name a c; ns = kad_namespace a in
          if cmd_Image (act_Command activity) = '''' then (Err (Errorf ''activity image is required for Kubernetes'' []), w)
          else case resources (kad_text a) (kad_order a) name ns (ctx_Workflow c) activity (ctx_Resource c) (run_ID (ctx_Run c)) of
            Inl e \<Rightarrow> (Err e, w)
          | Inr (job, service) \<Rightarrow>
             (case kap_Create api ns ''jobs'' job w of
                (Some e, w1) \<Rightarrow> (Err e, w1)
              | (None, w1) \<Rightarrow>
                 (case service of
                    None \<Rightarrow> (Ok (kube_handle a c name w1), w1)
                  | Some s \<Rightarrow>
                     (case kap_Create api ns ''services'' s w1 of
                        (Some e, w2) \<Rightarrow> (Err e, snd (kap_Delete api ns ''jobs'' name w2))
                      | (None, w2) \<Rightarrow> (Ok (kube_handle a c name w2), w2))))))"

section \<open>Observation\<close>

definition job_pods_selector :: "string \<Rightarrow> string" where
  "job_pods_selector jobName = ''job-name='' @ jobName"

text \<open>Listing the pods of a job and decoding the answer.\<close>

definition list_pods :: "'w KubeAPI \<Rightarrow> string \<Rightarrow> (string \<Rightarrow> error + 'a) \<Rightarrow> string \<Rightarrow> 'w \<Rightarrow> (error + error + 'a) \<times> 'w" where
  "list_pods api ns decode jobName w =
     (case kap_List api ns ''pods'' (job_pods_selector jobName) w of
        (Inl e, w1) \<Rightarrow> (Inl e, w1)
      | (Inr payload, w1) \<Rightarrow> (Inr (decode payload), w1))"

fun container_start :: "ContainerTiming list \<Rightarrow> int option" where
  "container_start [] = None"
| "container_start (c # cs) =
     (case cti_Running c of Some (Some t) \<Rightarrow> if cti_Name c = activityContainer then Some t else container_start cs | _ \<Rightarrow> container_start cs)"

definition pod_timing :: "PodTiming \<Rightarrow> ActivityHandle \<Rightarrow> ActivityHandle" where
  "pod_timing p h =
     (let h1 = (case pti_StartTime p of Some (Some t) \<Rightarrow> h\<lparr>hnd_StartedAt := UnixSeconds t\<rparr> | _ \<Rightarrow> h) in
      case container_start (pti_ContainerStatuses p) of
        None \<Rightarrow> h1
      | Some t \<Rightarrow> h1\<lparr>hnd_Metadata := put ''containerStartedAt'' (AnyFloat64 (UnixSeconds t)) (hnd_Metadata h1)\<rparr>)"

definition applyPodTiming :: "'w KubeAdapter \<Rightarrow> 'w KubeAPI \<Rightarrow> string \<Rightarrow> ActivityHandle \<Rightarrow> 'w \<Rightarrow> ActivityHandle \<times> 'w" where
  "applyPodTiming a api jobName h w =
     (case list_pods api (kad_namespace a) (kde_pod_timings (kad_decoders a)) jobName w of
        (Inr (Inr (p # _)), w1) \<Rightarrow> (pod_timing p h, w1)
      | (_, w1) \<Rightarrow> (h, w1))"

definition activityLog :: "'w KubeAdapter \<Rightarrow> 'w KubeAPI \<Rightarrow> string \<Rightarrow> 'w \<Rightarrow> (error + string) \<times> 'w" where
  "activityLog a api jobName w =
     (case list_pods api (kad_namespace a) (kde_pod_names (kad_decoders a)) jobName w of
        (Inl e, w1) \<Rightarrow> (Inl e, w1)
      | (Inr (Inl e), w1) \<Rightarrow> (Inl e, w1)
      | (Inr (Inr []), w1) \<Rightarrow> (Inl (Errorf ''activity pod not found'' []), w1)
      | (Inr (Inr (pod # _)), w1) \<Rightarrow> kap_Logs api (kad_namespace a) pod activityContainer w1)"

fun first_failure :: "(string \<Rightarrow> string) \<Rightarrow> ContainerState list \<Rightarrow> string" where
  "first_failure ToLower [] = ''''"
| "first_failure ToLower (state # states) =
     (let message = trim_space (cst_Message state) in
      if contains message ''/bin/sh'' \<and> contains (ToLower message) ''no such file'' then
        ''activity image is incompatible with the Kubernetes shell runtime: /bin/sh is required''
      else if message \<noteq> '''' then cst_Reason state @ '': '' @ message
      else first_failure ToLower states)"

definition activityFailure :: "'w KubeAdapter \<Rightarrow> 'w KubeAPI \<Rightarrow> string \<Rightarrow> 'w \<Rightarrow> string \<times> 'w" where
  "activityFailure a api jobName w =
     (case list_pods api (kad_namespace a) (kde_pod_states (kad_decoders a)) jobName w of
        (Inr (Inr pods), w1) \<Rightarrow>
          (first_failure (ktx_ToLower (kad_text a))
             (concat (map (\<lambda>s. List.map_filter (\<lambda>x. x) [css_Waiting s, css_Terminated s]) (concat pods))), w1)
      | (_, w1) \<Rightarrow> ('''', w1))"

text \<open>The text after the first occurrence of a prefix.\<close>

fun text_after :: "string \<Rightarrow> string \<Rightarrow> string option" where
  "text_after prefix [] = (if prefix = [] then Some [] else None)"
| "text_after prefix (c # s) = (if has_prefix (c # s) prefix then Some (drop (length prefix) (c # s)) else text_after prefix s)"

text \<open>The error of \<^verbatim>\<open>base64\<close> names a position, which the model leaves out.\<close>

definition corrupt_manifest :: error where
  "corrupt_manifest = Errorf ''decode artifact manifest: illegal base64 data'' []"

fun log_manifest :: "(string \<Rightarrow> error + ArtifactManifest) \<Rightarrow> string list \<Rightarrow> error + ArtifactManifest" where
  "log_manifest decode [] = Inl (Errorf ''artifact manifest was not published'' [])"
| "log_manifest decode (line # ls) =
     (case text_after manifestLogPrefix line of
        None \<Rightarrow> log_manifest decode ls
      | Some enc \<Rightarrow>
         (case base64_decode (trim_space enc) of
            None \<Rightarrow> Inl corrupt_manifest
          | Some json \<Rightarrow> (case decode json of Inl e \<Rightarrow> Inl (Errorf ''parse artifact manifest: %w'' [FmtE e]) | Inr manifest \<Rightarrow> Inr manifest)))"

definition collectArtifacts :: "'w KubeAdapter \<Rightarrow> 'w KubeAPI \<Rightarrow> string \<Rightarrow> 'w \<Rightarrow> (error + ArtifactManifest) \<times> 'w" where
  "collectArtifacts a api jobName w =
     (case list_pods api (kad_namespace a) (kde_pod_names (kad_decoders a)) jobName w of
        (Inl e, w1) \<Rightarrow> (Inl (Errorf ''list activity pods: %w'' [FmtE e]), w1)
      | (Inr (Inl e), w1) \<Rightarrow> (Inl (Errorf ''decode activity pods: %w'' [FmtE e]), w1)
      | (Inr (Inr []), w1) \<Rightarrow> (Inl (Errorf ''no pod found for job %q'' [FmtS jobName]), w1)
      | (Inr (Inr (pod # _)), w1) \<Rightarrow>
         (case kap_Logs api (kad_namespace a) pod activityContainer w1 of
            (Inl e, w2) \<Rightarrow> (Inl (Errorf ''read artifact observer logs: %w'' [FmtE e]), w2)
          | (Inr logs, w2) \<Rightarrow> (log_manifest (kde_manifest (kad_decoders a)) (split_char newline logs), w2)))"

definition job_state :: "JobStatus \<Rightarrow> ActivityHandleStatus" where
  "job_state s = (if jst_Succeeded s > 0 then HandleCompleted else if jst_Failed s > 0 then HandleFailed
     else if jst_Active s > 0 then HandleRunning else HandleStarting)"

definition condition_failure :: "JobCondition list \<Rightarrow> string \<Rightarrow> string" where
  "condition_failure conditions failure =
     fold (\<lambda>c f. if jco_Type c = ''Failed'' \<and> jco_Status c = ''True'' then jco_Message c else f) conditions failure"

definition settled :: "ActivityHandleStatus \<Rightarrow> bool" where
  "settled s \<longleftrightarrow> s = HandleCompleted \<or> s = HandleFailed"

text \<open>The failure of the containers, the log and the manifest, after the status is known.\<close>

definition failure_details :: "'w KubeAdapter \<Rightarrow> 'w KubeAPI \<Rightarrow> ActivityHandle \<Rightarrow> 'w \<Rightarrow> ActivityHandle \<times> 'w" where
  "failure_details a api h w =
     (if hnd_Status h = HandleFailed then
        (case activityFailure a api (hnd_ExternalID h) w of (failure, w1) \<Rightarrow> (if failure \<noteq> '''' then h\<lparr>hnd_Failure := failure\<rparr> else h, w1))
      else (h, w))"

definition log_details :: "'w KubeAdapter \<Rightarrow> 'w KubeAPI \<Rightarrow> ActivityHandle \<Rightarrow> 'w \<Rightarrow> ActivityHandle \<times> 'w" where
  "log_details a api h w =
     (case activityLog a api (hnd_ExternalID h) w of (Inr lg, w1) \<Rightarrow> (h\<lparr>hnd_Log := lg\<rparr>, w1) | (Inl _, w1) \<Rightarrow> (h, w1))"

definition artifact_details :: "'w KubeAdapter \<Rightarrow> 'w KubeAPI \<Rightarrow> ActivityHandle \<Rightarrow> 'w \<Rightarrow> ActivityHandle \<times> 'w" where
  "artifact_details a api h w =
     (if settled (hnd_Status h) then
        (case collectArtifacts a api (hnd_ExternalID h) w of
           (Inl e, w1) \<Rightarrow> (h\<lparr>hnd_Metadata := put ''artifactObservationError'' (AnyString (error_text e)) (hnd_Metadata h)\<rparr>, w1)
         | (Inr manifest, w1) \<Rightarrow> (h\<lparr>hnd_Artifacts := Some manifest\<rparr>, w1))
      else (h, w))"

definition nil_api :: string where
  "nil_api = ''invalid memory address or nil pointer dereference''"

definition kube_Inspect :: "'w KubeAdapter \<Rightarrow> ActivityHandle \<Rightarrow> 'w \<Rightarrow> ActivityHandle result \<times> 'w" where
  "kube_Inspect a handle w =
     (case kad_api a of
        None \<Rightarrow> (Panic nil_api, w)
      | Some api \<Rightarrow>
         (case kap_Get api (kad_namespace a) ''jobs'' (hnd_ExternalID handle) w of
            (Inl e, w1) \<Rightarrow> (Err e, w1)
          | (Inr payload, w1) \<Rightarrow>
         (case kde_job (kad_decoders a) payload of
            Inl e \<Rightarrow> (Err (Errorf ''decode Kubernetes job: %w'' [FmtE e]), w1)
          | Inr job \<Rightarrow>
             (let (h1, w2) = applyPodTiming a api (hnd_ExternalID handle) handle w1;
                  h2 = h1\<lparr>hnd_Status := job_state job\<rparr>;
                  h3 = (if settled (hnd_Status h2) then h2\<lparr>hnd_FinishedAt := UnixSeconds (kad_now a w2)\<rparr> else h2);
                  h4 = h3\<lparr>hnd_Failure := condition_failure (jst_Conditions job) (hnd_Failure h3)\<rparr>;
                  (h5, w3) = failure_details a api h4 w2;
                  (h6, w4) = log_details a api h5 w3;
                  (h7, w5) = artifact_details a api h6 w4
              in (Ok h7, w5)))))"

text \<open>Without a client \<^verbatim>\<open>Stop\<close> panics as \<^verbatim>\<open>Inspect\<close> does.\<close>

definition kube_Stop :: "'w KubeAdapter \<Rightarrow> ActivityHandle \<Rightarrow> 'w \<Rightarrow> error option \<times> 'w" where
  "kube_Stop a handle w =
     (case kad_api a of
        None \<Rightarrow> (Some (Errorf nil_api []), w)
      | Some api \<Rightarrow>
         (let (jobErr, w1) = kap_Delete api (kad_namespace a) ''jobs'' (hnd_ExternalID handle) w;
              (serviceErr, w2) = kap_Delete api (kad_namespace a) ''services'' (hnd_ExternalID handle) w1
          in (errors_Join (List.map_filter ignoreNotFound [jobErr, serviceErr]), w2)))"

definition kube_adapter :: "'w KubeAdapter \<Rightarrow> 'w RuntimeAdapter" where
  "kube_adapter a = \<lparr>ra_Start = kube_Start a, ra_Inspect = kube_Inspect a, ra_Stop = kube_Stop a\<rparr>"

end
