(* ===== verification/Kubernetes_Operations.thy ===== *)
theory Kubernetes_Operations
  imports Kubernetes_Adapter
begin

text \<open>
  The services around the Kubernetes adapter: the cleaner of old jobs (\<^verbatim>\<open>internal/provider/kubernetes/history_cleaner.go\<close>), the adapter of a
  connection (\<^verbatim>\<open>connection_factory.go\<close>), its probe (\<^verbatim>\<open>connection_prober.go\<close>) and its discovery (\<^verbatim>\<open>discovery.go\<close>).
\<close>

section \<open>The history of jobs\<close>

definition managedByAkoflowSelector :: string where
  "managedByAkoflowSelector = ''app.kubernetes.io/managed-by=akoflow''"

record CleanupResult =
  clr_JobsDeleted :: int
  clr_PodsDeleted :: int

record 'w HistoryCleaner =
  hcl_api :: "'w KubeAPI"
  hcl_namespace :: string
  hcl_retention :: int
  hcl_now :: "'w \<Rightarrow> int"
  hcl_decoders :: KubeDecoders

definition NewHistoryCleaner :: "KubeDecoders \<Rightarrow> ('w \<Rightarrow> int) \<Rightarrow> 'w KubeAPI option \<Rightarrow> string \<Rightarrow> int \<Rightarrow> error + 'w HistoryCleaner" where
  "NewHistoryCleaner decoders now api namespace retention =
     (case api of
        None \<Rightarrow> Inl (Errorf ''Kubernetes API client is required'' [])
      | Some a \<Rightarrow>
         (if retention < 0 then Inl (Errorf ''Kubernetes history retention cannot be negative'' [])
          else Inr \<lparr>hcl_api = a, hcl_namespace = (if namespace = '''' then ''default'' else namespace), hcl_retention = retention,
                    hcl_now = now, hcl_decoders = decoders\<rparr>))"

definition finished_at :: "kubernetesJob \<Rightarrow> go_time" where
  "finished_at j =
     (case jst_CompletionTime (kjb_Status j) of
        Some t \<Rightarrow> t
      | None \<Rightarrow>
          fold (\<lambda>c t. if jco_Status c = ''True'' \<and> (jco_Type c = ''Complete'' \<or> jco_Type c = ''Failed'') \<and> time_After (jco_LastTransitionTime c) t
                       then jco_LastTransitionTime c else t)
            (jst_Conditions (kjb_Status j)) (kjb_CreationTimestamp j))"

definition job_expired :: "int \<Rightarrow> kubernetesJob \<Rightarrow> bool" where
  "job_expired cutoff j \<longleftrightarrow>
     (let s = kjb_Status j in
      \<not> (kjb_Name j = '''' \<or> jst_Active s > 0 \<or> (jst_Succeeded s = 0 \<and> jst_Failed s = 0 \<and> jst_CompletionTime s = None)) \<and>
      finished_at j \<noteq> None \<and> \<not> time_After (finished_at j) (Some cutoff))"

definition jobPods :: "'w HistoryCleaner \<Rightarrow> string \<Rightarrow> 'w \<Rightarrow> (error + string list) \<times> 'w" where
  "jobPods c jobName w =
     (case list_pods (hcl_api c) (hcl_namespace c) (kde_pod_names (hcl_decoders c)) jobName w of
        (Inl e, w1) \<Rightarrow> (Inl (Errorf ''list pods for job %q: %w'' [FmtS jobName, FmtE e]), w1)
      | (Inr (Inl e), w1) \<Rightarrow> (Inl (Errorf ''decode pods for job %q: %w'' [FmtS jobName, FmtE e]), w1)
      | (Inr (Inr names), w1) \<Rightarrow> (Inr (filter (\<lambda>n. n \<noteq> '''') names), w1))"

text \<open>A deletion whose error is collected, with the text \<^verbatim>\<open>delete <kind> <name>\<close>.\<close>

definition delete_collect :: "'w HistoryCleaner \<Rightarrow> string \<Rightarrow> string \<Rightarrow> string \<Rightarrow> 'w \<Rightarrow> error list \<times> 'w" where
  "delete_collect c resource kind name w =
     (case kap_Delete (hcl_api c) (hcl_namespace c) resource name w of
        (r, w1) \<Rightarrow> (case ignoreNotFound r of None \<Rightarrow> [] | Some e \<Rightarrow> [Errorf (''delete '' @ kind @ '' %q: %w'') [FmtS name, FmtE e]], w1))"

fun delete_pods :: "'w HistoryCleaner \<Rightarrow> string list \<Rightarrow> 'w \<Rightarrow> (int \<times> error list) \<times> 'w" where
  "delete_pods c [] w = ((0, []), w)"
| "delete_pods c (pod # pods) w =
     (let (errs, w1) = delete_collect c ''pods'' ''pod'' pod w; ((n, errs'), w2) = delete_pods c pods w1
      in ((if errs = [] then n + 1 else n, errs @ errs'), w2))"

definition deleteJobHistory :: "'w HistoryCleaner \<Rightarrow> string \<Rightarrow> 'w \<Rightarrow> (int \<times> error option) \<times> 'w" where
  "deleteJobHistory c jobName w =
     (case jobPods c jobName w of
        (Inl e, w1) \<Rightarrow> ((0, Some e), w1)
      | (Inr pods, w1) \<Rightarrow>
         (let ((deleted, errs), w2) = delete_pods c pods w1;
              (serviceErrs, w3) = delete_collect c ''services'' ''service'' jobName w2;
              (jobErrs, w4) = delete_collect c ''jobs'' ''job'' jobName w3
          in ((deleted, errors_Join (errs @ serviceErrs @ jobErrs)), w4)))"

fun cleanup_jobs :: "'w HistoryCleaner \<Rightarrow> int \<Rightarrow> kubernetesJob list \<Rightarrow> 'w \<Rightarrow> (CleanupResult \<times> error list) \<times> 'w" where
  "cleanup_jobs c cutoff [] w = ((\<lparr>clr_JobsDeleted = 0, clr_PodsDeleted = 0\<rparr>, []), w)"
| "cleanup_jobs c cutoff (job # jobs) w =
     (if \<not> job_expired cutoff job then cleanup_jobs c cutoff jobs w
      else
        let ((pods, err), w1) = deleteJobHistory c (kjb_Name job) w; ((r, errs), w2) = cleanup_jobs c cutoff jobs w1 in
        case err of
          Some e \<Rightarrow> ((r\<lparr>clr_PodsDeleted := clr_PodsDeleted r + pods\<rparr>, e # errs), w2)
        | None \<Rightarrow> ((r\<lparr>clr_JobsDeleted := clr_JobsDeleted r + 1, clr_PodsDeleted := clr_PodsDeleted r + pods\<rparr>, errs), w2))"

definition Cleanup :: "'w HistoryCleaner \<Rightarrow> 'w \<Rightarrow> (CleanupResult \<times> error option) \<times> 'w" where
  "Cleanup c w =
     (case kap_List (hcl_api c) (hcl_namespace c) ''jobs'' managedByAkoflowSelector w of
        (Inl e, w1) \<Rightarrow> ((\<lparr>clr_JobsDeleted = 0, clr_PodsDeleted = 0\<rparr>, Some (Errorf ''list completed Akoflow jobs: %w'' [FmtE e])), w1)
      | (Inr payload, w1) \<Rightarrow>
         (case kde_jobs (hcl_decoders c) payload of
            Inl e \<Rightarrow> ((\<lparr>clr_JobsDeleted = 0, clr_PodsDeleted = 0\<rparr>, Some (Errorf ''decode Akoflow jobs: %w'' [FmtE e])), w1)
          | Inr jobs \<Rightarrow>
             (let ((r, errs), w2) = cleanup_jobs c (hcl_now c w1 - hcl_retention c) jobs w1 in ((r, errors_Join errs), w2))))"

definition runOnce :: "'w HistoryCleaner \<Rightarrow> (CleanupResult \<times> error option \<Rightarrow> 'w \<Rightarrow> 'w) option \<Rightarrow> 'w \<Rightarrow> 'w" where
  "runOnce c report w = (let (r, w1) = Cleanup c w in case report of None \<Rightarrow> w1 | Some f \<Rightarrow> f r w1)"

text \<open>The loop of \<^verbatim>\<open>Run\<close> when the context ends after \<open>ticks\<close> ticks, with the error of the context.\<close>

definition cleaner_Run :: "'w HistoryCleaner \<Rightarrow> int \<Rightarrow> (CleanupResult \<times> error option \<Rightarrow> 'w \<Rightarrow> 'w) option \<Rightarrow> error \<Rightarrow> nat \<Rightarrow> 'w \<Rightarrow> error \<times> 'w" where
  "cleaner_Run c interval report ended ticks w =
     (if interval \<le> 0 then (Errorf ''Kubernetes cleanup interval must be positive'' [], w)
      else (ended, (runOnce c report ^^ Suc ticks) w))"

section \<open>Connections\<close>

text \<open>The environment of the process is \<open>env\<close>; an unset variable reads as the empty text.\<close>

definition resolveCredential :: "(string \<Rightarrow> string) \<Rightarrow> string \<Rightarrow> error + string" where
  "resolveCredential env reference0 =
     (let reference = trim_space reference0 in
      if reference = '''' then Inr ''''
      else if has_prefix reference ''env:'' then
        (let name = trim_space (trim_prefix reference ''env:'') in
         if name = '''' then Inl (Errorf ''empty environment credential name'' [])
         else if env name = '''' then Inl (Errorf ''environment credential %q is not set'' [FmtS name])
         else Inr (env name))
      else Inr '''')"

definition connection_config :: "ClientConfig \<Rightarrow> EnvironmentConnection \<Rightarrow> string \<Rightarrow> string \<Rightarrow> ClientConfig" where
  "connection_config fallback connection endpoint token =
     \<lparr>kcc_Endpoint = endpoint, kcc_Token = token, kcc_CAFile = configString (con_Configuration connection) ''caFile'',
      kcc_InsecureSkipTLSVerify = configBool (con_Configuration connection) ''insecureSkipTlsVerify'' (kcc_InsecureSkipTLSVerify fallback)\<rparr>"

definition kube_Build ::
  "'w Wire \<Rightarrow> (string \<Rightarrow> string) \<Rightarrow> ClientConfig \<Rightarrow> string \<Rightarrow> 'w KubeAdapter \<Rightarrow> EnvironmentRuntime \<Rightarrow> EnvironmentConnection \<Rightarrow> 'w \<Rightarrow> (error + 'w KubeAdapter) \<times> 'w"
where
  "kube_Build wire env fallback defaultNamespace base runtime connection w =
     (if con_Type connection \<noteq> ConnectionKubernetes then
        (Inl (Errorf ''connection %q is %q, Kubernetes runtime requires a kubernetes connection''
           [FmtS (con_ID connection), FmtS (connection_type_text (con_Type connection))]), w)
      else case resolveCredential env (con_CredentialRef connection) of
        Inl e \<Rightarrow> (Inl (Errorf ''resolve credential for connection %q: %w'' [FmtS (con_ID connection), FmtE e]), w)
      | Inr token0 \<Rightarrow>
         (let e0 = trim_space (con_Endpoint connection); endpoint = (if e0 = '''' then kcc_Endpoint fallback else e0);
              token = (if token0 = '''' then kcc_Token fallback else token0);
              n1 = configString (ert_Configuration runtime) ''namespace'';
              n2 = (if n1 = '''' then configString (con_Configuration connection) ''namespace'' else n1);
              namespace = (if n2 = '''' then defaultNamespace else n2)
          in if endpoint = '''' \<or> token = '''' then
               (Inl (Errorf ''connection %q needs an endpoint and a credential reference (env:VARIABLE)'' [FmtS (con_ID connection)]), w)
             else case NewClient wire (connection_config fallback connection endpoint token) w of
               (Inl e, w1) \<Rightarrow> (Inl e, w1)
             | (Inr client, w1) \<Rightarrow> (Inr (kube_New base (Some (client_api client)) namespace), w1)))"

definition kube_Probe :: "'w KubeAPI option \<Rightarrow> string \<Rightarrow> EnvironmentConnection \<Rightarrow> 'w \<Rightarrow> ConnectionHealth \<times> 'w" where
  "kube_Probe api defaultNamespace connection w =
     (case api of
        None \<Rightarrow> (\<lparr>hlt_Healthy = False, hlt_Message = ''Kubernetes API client is not configured in the engine''\<rparr>, w)
      | Some a \<Rightarrow>
         (let configured = meta_string (con_Configuration connection) ''namespace'';
              namespace = (if trim_space configured \<noteq> '''' then configured
                           else if trim_space defaultNamespace = '''' then ''default'' else defaultNamespace)
          in case kap_List a namespace ''pods'' '''' w of
               (Inl e, w1) \<Rightarrow> (\<lparr>hlt_Healthy = False, hlt_Message = ''Kubernetes namespace '' @ namespace @ '' is unreachable: '' @ error_text e\<rparr>, w1)
             | (Inr _, w1) \<Rightarrow> (\<lparr>hlt_Healthy = True, hlt_Message = ''Kubernetes namespace '' @ namespace @ '' is reachable''\<rparr>, w1)))"

section \<open>Discovery\<close>

text \<open>Division of Go rounds towards zero.\<close>

definition kubernetesCPUCores :: "string \<Rightarrow> int" where
  "kubernetesCPUCores value0 =
     (let value = trim_space value0 in
      if has_suffix value ''m'' then
        (let n = wrap64 (fst (ParseInt64 (trim_suffix value ''m'')) + 999) in max 1 (if 0 \<le> n then n div 1000 else - (- n div 1000)))
      else fst (ParseInt64 value))"

definition byte_units :: "(string \<times> int) list" where
  "byte_units = [(''Ki'', 1024), (''Mi'', 1024 * 1024), (''Gi'', 1024 * 1024 * 1024)]"

text \<open>A number that \<^verbatim>\<open>ParseFloat\<close> rejects counts as zero; one beyond the range of a float is left to \<open>nu\<close>.\<close>

definition kubernetesBytes :: "Numbers \<Rightarrow> string \<Rightarrow> int" where
  "kubernetesBytes nu value0 =
     (let value = trim_space value0 in
      case find (\<lambda>(suffix, _). has_suffix value suffix) byte_units of
        Some (suffix, multiplier) \<Rightarrow>
          to_int64 nu (fmul (case nu_ParseFloat nu (trim_suffix value suffix) of Inl _ \<Rightarrow> fzero | Inr x \<Rightarrow> x) (f_of_int multiplier))
      | None \<Rightarrow> fst (ParseInt64 value))"

text \<open>The keys of a set of texts, without the empty one, in the order \<open>ord\<close> chooses.\<close>

definition mapKeys :: "(string list \<Rightarrow> string list) \<Rightarrow> (string, bool) gomap \<Rightarrow> string list" where
  "mapKeys ord values = filter (\<lambda>v. v \<noteq> '''') (in_order ord (keys values))"

definition ready_conditions :: "KubeNode list \<Rightarrow> int" where
  "ready_conditions nodes = int (length (filter (\<lambda>c. c = (''Ready'', ''True'')) (concat (map kno_Conditions nodes))))"

definition kind_login_node :: "Numbers \<Rightarrow> string \<Rightarrow> KubeNode list \<Rightarrow> DiscoveredLoginNode option" where
  "kind_login_node nu contextName nodes =
     (case nodes of
        node # _ \<Rightarrow>
          (if has_prefix contextName ''kind-'' then
             Some \<lparr>dln_Name = kno_Name node, dln_Architecture = kno_Architecture node,
               dln_CPUCores = kubernetesCPUCores (case map_of (kno_Allocatable node) ''cpu'' of None \<Rightarrow> '''' | Some v \<Rightarrow> v),
               dln_MemoryBytes = kubernetesBytes nu (case map_of (kno_Allocatable node) ''memory'' of None \<Rightarrow> '''' | Some v \<Rightarrow> v), dln_StorageBytes = 0,
               dln_Metadata = [(''role'', AnyString ''kind-control-plane''),
                 (''interactiveDockerContainer'', AnyString (trim_prefix contextName ''kind-'' @ ''-control-plane'')), (''interactive'', AnyBool True),
                 (''kindContext'', AnyString contextName)]\<rparr>
           else None)
      | [] \<Rightarrow> None)"

text \<open>The zero value of \<^verbatim>\<open>TransferCapabilities\<close>.\<close>

definition zero_observation :: CapabilityObservation where
  "zero_observation = \<lparr>cob_Available = False, cob_Declared = None, cob_Reason = '''', cob_ObservedAt = 0, cob_FreshUntil = 0\<rparr>"

definition zero_capabilities :: TransferCapabilities where
  "zero_capabilities = \<lparr>tca_Connectors = [], tca_OutboundHTTPS = zero_observation, tca_ContainerRuntime = zero_observation, tca_Checksum = zero_observation,
     tca_Paths = [], tca_ObservedAt = 0, tca_FreshUntil = 0\<rparr>"

definition node_inventory :: "Numbers \<Rightarrow> (string list \<Rightarrow> string list) \<Rightarrow> string \<Rightarrow> KubeNode list \<Rightarrow> ConnectionDiscovery" where
  "node_inventory nu ord contextName nodes =
     (let ready = ready_conditions nodes;
          architectures = fold (\<lambda>n m. put (kno_Architecture n) True m) nodes [];
          runtimes = fold (\<lambda>n m. put (kno_ContainerRuntimeVersion n) True m) nodes []
      in \<lparr>cdi_Available = ready > 0,
          cdi_Metadata = [(''nodeCount'', AnyInt (int (length nodes))), (''readyNodeCount'', AnyInt ready), (''nodeNames'', AnyStrings (map kno_Name nodes)),
            (''architectures'', AnyStrings (mapKeys ord architectures)), (''containerRuntimes'', AnyStrings (mapKeys ord runtimes))],
          cdi_Warnings = [], cdi_Nodes = [], cdi_LoginNode = kind_login_node nu contextName nodes, cdi_Transfer = zero_capabilities\<rparr>)"

definition kube_DiscoverConnection ::
  "'w Wire \<Rightarrow> (string \<Rightarrow> string) \<Rightarrow> ClientConfig \<Rightarrow> KubeDecoders \<Rightarrow> Numbers \<Rightarrow> (string list \<Rightarrow> string list) \<Rightarrow> EnvironmentConnection \<Rightarrow> 'w \<Rightarrow>
     (error + ConnectionDiscovery) \<times> 'w"
where
  "kube_DiscoverConnection wire env fallback decoders nu ord connection w =
     (case resolveCredential env (con_CredentialRef connection) of
        Inl e \<Rightarrow> (Inl e, w)
      | Inr token0 \<Rightarrow>
         (let e0 = trim_space (con_Endpoint connection); endpoint = (if e0 = '''' then kcc_Endpoint fallback else e0);
              token = (if token0 = '''' then kcc_Token fallback else token0)
          in if endpoint = '''' \<or> token = '''' then (Inl (Errorf ''Kubernetes discovery needs endpoint and credential'' []), w)
             else case NewClient wire (connection_config fallback connection endpoint token) w of
               (Inl e, w1) \<Rightarrow> (Inl e, w1)
             | (Inr client, w1) \<Rightarrow>
            (case client_ListCluster client ''nodes'' w1 of
               (Inl e, w2) \<Rightarrow> (Inl e, w2)
             | (Inr payload, w2) \<Rightarrow>
            (case kde_nodes decoders payload of
               Inl e \<Rightarrow> (Inl (Errorf ''decode Kubernetes nodes: %w'' [FmtE e]), w2)
             | Inr nodes \<Rightarrow>
                 (Inr (node_inventory nu ord (configString (con_Configuration connection) ''context'') nodes), w2)))))"

end
