(* ===== verification/Kubernetes_Properties.thy ===== *)
theory Kubernetes_Properties
  imports Kubernetes_Operations
begin

text \<open>
  What the Kubernetes provider guarantees: valid names of objects and
  unambiguous addresses.
\<close>

section \<open>Names\<close>

definition dns_label :: "string \<Rightarrow> bool" where
  "dns_label s \<longleftrightarrow> s \<noteq> '''' \<and> length s \<le> 63 \<and> list_all (\<lambda>c. lower_alnum c \<or> c = CHR ''-'') s \<and> lower_alnum (hd s) \<and> lower_alnum (last s)"

definition name_rune :: "string \<Rightarrow> string" where
  "name_rune r = (case r of [c] \<Rightarrow> if lower_alnum c \<or> c = CHR ''-'' then [c] else ''-'' | _ \<Rightarrow> ''-'')"

lemma kubernetesName_alt:
  "kubernetesName T v = (let u = trim_dashes (map_runes name_rune (T v)) in trim_dashes (if length u > 63 then take 63 u else u))"
  unfolding kubernetesName_def name_rune_def ..

lemma name_rune_chars: "list_all (\<lambda>c. lower_alnum c \<or> c = CHR ''-'') (name_rune r)"
  by (auto simp: name_rune_def split: list.split)

lemma lower_alnum_rune: "lower_alnum c \<Longrightarrow> name_rune [c] = [c]" "lower_alnum c \<Longrightarrow> (of_char c :: nat) < 128" "lower_alnum c \<Longrightarrow> c \<noteq> CHR ''-''"
  by (auto simp: name_rune_def lower_alnum_def is_digit_def)

lemma map_runes_lower: "list_all lower_alnum p \<Longrightarrow> map_runes name_rune (p @ s) = p @ map_runes name_rune s"
  by (induction p) (simp_all del: map_runes.simps add: map_runes_ascii lower_alnum_rune)

lemma kubernetesName_label:
  assumes "kubernetesName T v \<noteq> ''''"
  shows "dns_label (kubernetesName T v)"
proof -
  define u where "u = trim_dashes (map_runes name_rune (T v))"
  define x where "x = (if length u > 63 then take 63 u else u)"
  have k: "kubernetesName T v = trim_dashes x" by (simp add: kubernetesName_alt u_def x_def Let_def)
  have "set (trim_dashes x) \<subseteq> set (map_runes name_rune (T v))"
    using trim_dashes_set(1) [of x] trim_dashes_set(1) [of "map_runes name_rune (T v)"] set_take_subset [of 63 u] by (auto simp: x_def u_def split: if_splits)
  then have c: "\<forall>c \<in> set (trim_dashes x). lower_alnum c \<or> c = CHR ''-''"
    using map_runes_all [where f = name_rune, OF name_rune_chars, where s = "T v"] unfolding list_all_iff by blast
  have n: "trim_dashes x \<noteq> []" using assms k by simp
  have "length x \<le> 63" by (simp add: x_def)
  then have "length (trim_dashes x) \<le> 63" using trim_dashes_set(2) [of x] by simp
  moreover have "lower_alnum (hd (trim_dashes x))" "lower_alnum (last (trim_dashes x))"
    using c trim_dashes_ends [OF n] hd_in_set [OF n] last_in_set [OF n] by blast+
  ultimately show ?thesis using c n unfolding k dns_label_def list_all_iff by blast
qed

lemma kubernetesName_prefix:
  assumes p: "list_all lower_alnum p" "p \<noteq> []" and T: "T v = p @ s"
  shows "\<exists>t. kubernetesName T v = take 63 p @ t"
proof -
  have ends: "hd q \<noteq> CHR ''-'' \<and> last q \<noteq> CHR ''-''" if "q \<noteq> []" "set q \<subseteq> set p" for q
  proof -
    have "lower_alnum (hd q)" "lower_alnum (last q)" using that p(1) hd_in_set [of q] last_in_set [of q] unfolding list_all_iff by blast+
    then show ?thesis using lower_alnum_rune(3) by blast
  qed
  obtain t where "trim_dashes (map_runes name_rune (T v)) = p @ t"
    using trim_dashes_keep [of p] ends [of p] p by (auto simp: T map_runes_lower)
  then have k: "kubernetesName T v = trim_dashes (if length (p @ t) > 63 then take 63 (p @ t) else p @ t)" by (simp add: kubernetesName_alt)
  have "\<exists>r. (if length (p @ t) > 63 then take 63 (p @ t) else p @ t) = take 63 p @ r" by auto
  then obtain r where "kubernetesName T v = trim_dashes (take 63 p @ r)" using k by metis
  moreover have "take 63 p \<noteq> []" "set (take 63 p) \<subseteq> set p" using p(2) by (simp_all add: set_take_subset)
  ultimately show ?thesis using trim_dashes_keep ends by metis
qed

text \<open>
  C38. Jobs and services get valid names whatever the identifiers of run and activity are: at most 63 lower-case letters, digits
  and dashes, with a letter or digit at both ends. The mapping to lower case keeps lower-case letters.
\<close>

theorem job_names_valid:
  assumes "\<exists>t. ktx_ToLower (kad_text a) (''akoflow-'' @ run_ID (ctx_Run c) @ ''-'' @ act_ID (ctx_Activity c)) = ''akoflow'' @ t"
  shows "dns_label (job_name a c)"
proof -
  have "list_all lower_alnum ''akoflow''" by code_simp
  then have "\<exists>t. job_name a c = take 63 ''akoflow'' @ t" using assms kubernetesName_prefix [where p = "''akoflow''"] unfolding job_name_def by blast
  then have "job_name a c \<noteq> ''''" by auto
  then show ?thesis unfolding job_name_def by (rule kubernetesName_label)
qed

text \<open>Identifiers that agree in the first 63 characters of the name give the same name.\<close>

lemma long_names_collide:
  assumes "list_all lower_alnum p" "length p \<ge> 63"
  shows "kubernetesName (\<lambda>s. s) (p @ s) = kubernetesName (\<lambda>s. s) (p @ t)"
proof -
  have "kubernetesName (\<lambda>s. s) (p @ s) = take 63 p" for s
  proof -
    obtain r where r: "kubernetesName (\<lambda>s. s) (p @ s) = take 63 p @ r" using kubernetesName_prefix [of p "\<lambda>s. s" "p @ s" s] assms by force
    then have "length (take 63 p @ r) \<le> 63" using kubernetesName_label [of "\<lambda>s. s" "p @ s"] assms by (cases p) (auto simp: dns_label_def)
    then show ?thesis using r assms(2) by simp
  qed
  then show ?thesis by simp
qed

section \<open>Addresses\<close>

definition hex_value :: "char \<Rightarrow> nat" where
  "hex_value c = (let n = (of_char c :: nat) in if n \<le> 57 then n - 48 else n - 55)"

fun unescape :: "string \<Rightarrow> string" where
  "unescape (c # d # e # s) = (if c = CHR ''%'' then char_of (16 * hex_value d + hex_value e) # unescape s else c # unescape (d # e # s))"
| "unescape s = s"

lemma hex_value_upper: "n < 16 \<Longrightarrow> hex_value (upper_hex n) = n"
  by (auto simp: hex_value_def upper_hex_def Let_def)

lemma unescape_plain: "c \<noteq> CHR ''%'' \<Longrightarrow> unescape (c # s) = c # unescape s"
  by (cases s rule: unescape.cases) auto

lemma unescape_percent: "unescape (percent c @ s) = c # unescape s"
proof -
  have "(of_char c :: nat) < 256" by simp
  then have "16 * hex_value (upper_hex (of_char c div 16)) + hex_value (upper_hex (of_char c mod 16)) = (of_char c :: nat)"
    by (simp add: hex_value_upper less_mult_imp_div_less)
  then show ?thesis by (simp add: percent_def Let_def)
qed

lemma unescape_PathEscape: "unescape (PathEscape s) = s"
proof (induction s)
  case (Cons c s)
  have "c \<noteq> CHR ''%''" if "unreserved c \<or> c \<in> set ''$&+=:@''" using that by (auto simp: unreserved_def is_alpha_def is_digit_def)
  then show ?case using Cons by (cases "unreserved c \<or> c \<in> set ''$&+=:@''") (auto simp: PathEscape_def unescape_plain unescape_percent)
qed (simp add: PathEscape_def)

lemma PathEscape_slash: "CHR ''/'' \<notin> set (PathEscape s)"
proof -
  have "CHR ''/'' \<notin> set (percent c)" for c
  proof -
    have "upper_hex n \<noteq> CHR ''/''" if "n < 16" for n
    proof
      assume "upper_hex n = CHR ''/''"
      then have "(of_char (upper_hex n) :: nat) = 47" by simp
      then show False using that by (auto simp: upper_hex_def of_char_of split: if_splits)
    qed
    moreover have "(of_char c :: nat) < 256" by simp
    ultimately have "upper_hex (of_char c div 16) \<noteq> CHR ''/''" "upper_hex (of_char c mod 16) \<noteq> CHR ''/''"
      by (simp_all add: less_mult_imp_div_less)
    then show ?thesis by (auto simp: percent_def Let_def)
  qed
  then show ?thesis by (auto simp: PathEscape_def unreserved_def is_alpha_def is_digit_def split: if_splits)
qed

lemma resourcePath_split:
  assumes "CHR ''/'' \<notin> set resource"
  shows "\<exists>root. split_slash (resourcePath ns resource name) = root @ [PathEscape ns, resource, PathEscape name]"
  using assms split_slash_join split_slash_plain [OF PathEscape_slash] split_slash_plain [of resource]
  by (auto simp: resourcePath_def collectionPath_def split_slash_append PathEscape_slash)

text \<open>
  The address of a resource determines its namespace, its kind and its name, whatever characters they contain: escaping
  can be undone and leaves no separator.
\<close>

theorem addresses_distinct:
  assumes "resourcePath ns resource name = resourcePath ns' resource' name'" "CHR ''/'' \<notin> set resource" "CHR ''/'' \<notin> set resource'"
  shows "ns = ns' \<and> resource = resource' \<and> name = name'"
proof -
  obtain x y where "x @ [PathEscape ns, resource, PathEscape name] = y @ [PathEscape ns', resource', PathEscape name']"
    using resourcePath_split [OF assms(2), of ns name] resourcePath_split [OF assms(3), of ns' name'] assms(1) by auto
  then have "PathEscape ns = PathEscape ns'" "resource = resource'" "PathEscape name = PathEscape name'" by simp_all
  then show ?thesis using unescape_PathEscape by metis
qed

end
