(* ===== verification/Kubernetes_History.thy ===== *)
theory Kubernetes_History
  imports Kubernetes_Jobs Controller_Properties
begin

text \<open>
  The traces that the jobs of the Kubernetes provider leave: the manifest in the log of an activity, and the old jobs
  that the history cleaner removes. Defects that modelling showed are stated as lemmas.
\<close>

section \<open>The manifest in the log\<close>

lemma text_after_prefix: "text_after p (p @ s) = Some s"
proof (cases p)
  case Nil
  then show ?thesis by (cases s) (simp_all add: has_prefix_def)
qed (simp add: has_prefix_def)

lemma text_after_None: "\<not> contains l p \<Longrightarrow> text_after p l = None"
  by (induction l) auto

lemma log_manifest_skip: "\<forall>l \<in> set before. \<not> contains l manifestLogPrefix \<Longrightarrow> log_manifest decode (before @ ls) = log_manifest decode ls"
  by (induction before) (auto simp: text_after_None)

lemma encoded_trim: "trim_space (base64_encode s) = base64_encode s"
proof -
  have "\<not> is_space c" if "c = CHR ''='' \<or> base64_value c \<noteq> None" for c
    using that by (auto simp: is_space_def base64_value_def Let_def)
  then have s: "\<forall>c \<in> set (base64_encode s). \<not> is_space c" using base64_encode_list [of s] by (auto simp: list_all_iff)
  have "dropWhile is_space u = u" if "\<forall>c \<in> set u. \<not> is_space c" for u using that by (cases u) auto
  from this [of "base64_encode s"] this [of "rev (base64_encode s)"] show ?thesis using s by (simp add: trim_space_def)
qed

text \<open>
  The manifest that the script of an activity publishes is found: it is what the encoded text of the first line with
  the prefix decodes to, whatever the lines after it are.
\<close>

theorem manifest_published:
  assumes "\<forall>l \<in> set before. \<not> contains l manifestLogPrefix" "list_all (\<lambda>l. newline \<notin> set l) (before @ after)"
  shows "log_manifest decode (split_char newline (join_char newline (before @ (manifestLogPrefix @ base64_encode json) # after))) =
    (case decode json of Inl e \<Rightarrow> Inl (Errorf ''parse artifact manifest: %w'' [FmtE e]) | Inr manifest \<Rightarrow> Inr manifest)"
proof -
  let ?line = "manifestLogPrefix @ base64_encode json"
  have "newline \<notin> set manifestLogPrefix" by (simp add: manifestLogPrefix_def newline_code)
  moreover have "newline \<notin> set (base64_encode json)" by (rule base64_encode_chars) (simp_all add: base64_values, simp add: newline_code)
  ultimately have "split_char newline (join_char newline (before @ ?line # after)) = before @ ?line # after"
    using assms(2) by (intro split_join_char) auto
  then show ?thesis using log_manifest_skip [OF assms(1)]
    by (simp add: text_after_prefix encoded_trim base64_decode_encode del: text_after.simps)
qed

section \<open>The cleaner\<close>

definition recorded_cleaner :: "'w HistoryCleaner \<Rightarrow> ('w \<times> KubeCall list) HistoryCleaner" where
  "recorded_cleaner c = \<lparr>hcl_api = recorded_api (hcl_api c), hcl_namespace = hcl_namespace c, hcl_retention = hcl_retention c,
     hcl_now = (\<lambda>(w, _). hcl_now c w), hcl_decoders = hcl_decoders c\<rparr>"

text \<open>The jobs whose deletion is asked for.\<close>

definition job_deletions :: "KubeCall list \<Rightarrow> string list" where
  "job_deletions calls = concat (map (\<lambda>call. case call of DeleteCall ns resource name \<Rightarrow> if resource = ''jobs'' then [name] else [] | _ \<Rightarrow> []) calls)"

lemma job_deletions_simps [simp]:
  "job_deletions [] = []" "job_deletions (xs @ ys) = job_deletions xs @ job_deletions ys"
  "job_deletions (map (DeleteCall ns ''pods'') pods) = []" "job_deletions [DeleteCall ns ''services'' j, DeleteCall ns ''jobs'' j] = [j]"
  by (simp_all add: job_deletions_def comp_def)

lemma delete_collect_calls:
  "\<exists>errs w1. delete_collect (recorded_cleaner c) resource kind name (w, calls) = (errs, w1, calls @ [DeleteCall (hcl_namespace c) resource name])"
  by (simp add: delete_collect_def recorded_cleaner_def recorded_api_def split: prod.split)

lemma delete_pods_calls:
  "\<exists>r w1. delete_pods (recorded_cleaner c) pods (w, calls) = (r, w1, calls @ map (DeleteCall (hcl_namespace c) ''pods'') pods)"
proof (induction pods arbitrary: w calls)
  case (Cons pod pods)
  obtain errs w1 where 1: "delete_collect (recorded_cleaner c) ''pods'' ''pod'' pod (w, calls) = (errs, w1, calls @ [DeleteCall (hcl_namespace c) ''pods'' pod])"
    using delete_collect_calls by metis
  obtain r w2 where "delete_pods (recorded_cleaner c) pods (w1, calls @ [DeleteCall (hcl_namespace c) ''pods'' pod]) =
      (r, w2, (calls @ [DeleteCall (hcl_namespace c) ''pods'' pod]) @ map (DeleteCall (hcl_namespace c) ''pods'') pods)" using Cons by metis
  then show ?case using 1 by (simp split: prod.split)
qed simp

lemma jobPods_calls: "\<exists>r w1. jobPods (recorded_cleaner c) j (w, calls) = (r, w1, calls)"
  by (auto simp: jobPods_def list_pods_def recorded_cleaner_def recorded_api_def split: prod.split sum.split)

lemma history_calls:
  assumes "deleteJobHistory (recorded_cleaner c) j (w, calls) = ((n, err), w', calls')"
  shows "(calls' = calls \<and> err \<noteq> None) \<or>
    (\<exists>pods. calls' = calls @ map (DeleteCall (hcl_namespace c) ''pods'') pods @ [DeleteCall (hcl_namespace c) ''services'' j, DeleteCall (hcl_namespace c) ''jobs'' j])"
proof -
  obtain r w1 where j: "jobPods (recorded_cleaner c) j (w, calls) = (r, w1, calls)" using jobPods_calls by metis
  show ?thesis
  proof (cases r)
    case (Inl e)
    then show ?thesis using assms j by (auto simp: deleteJobHistory_def)
  next
    case (Inr pods)
    let ?ns = "hcl_namespace c"
    obtain r1 w2 where 1: "delete_pods (recorded_cleaner c) pods (w1, calls) = (r1, w2, calls @ map (DeleteCall ?ns ''pods'') pods)" using delete_pods_calls by metis
    obtain r2 w3 where 2: "delete_collect (recorded_cleaner c) ''services'' ''service'' j (w2, calls @ map (DeleteCall ?ns ''pods'') pods) =
        (r2, w3, (calls @ map (DeleteCall ?ns ''pods'') pods) @ [DeleteCall ?ns ''services'' j])" using delete_collect_calls by metis
    obtain r3 w4 where 3: "delete_collect (recorded_cleaner c) ''jobs'' ''job'' j (w3, (calls @ map (DeleteCall ?ns ''pods'') pods) @ [DeleteCall ?ns ''services'' j]) =
        (r3, w4, ((calls @ map (DeleteCall ?ns ''pods'') pods) @ [DeleteCall ?ns ''services'' j]) @ [DeleteCall ?ns ''jobs'' j])" using delete_collect_calls by metis
    have "calls' = calls @ map (DeleteCall ?ns ''pods'') pods @ [DeleteCall ?ns ''services'' j, DeleteCall ?ns ''jobs'' j]"
      using assms j Inr 1 2 3 unfolding deleteJobHistory_def by (auto split: prod.splits)
    then show ?thesis by blast
  qed
qed

text \<open>What the calls of a clean-up of the jobs \<open>old\<close> are.\<close>

definition cleans :: "string \<Rightarrow> string list \<Rightarrow> KubeCall list \<Rightarrow> CleanupResult \<Rightarrow> bool \<Rightarrow> bool" where
  "cleans ns old calls result ok \<longleftrightarrow>
     subseq (job_deletions calls) old \<and> (ok \<longrightarrow> job_deletions calls = old \<and> clr_JobsDeleted result = int (length old)) \<and>
     clr_JobsDeleted result \<le> int (length (job_deletions calls)) \<and>
     list_all (\<lambda>call. case call of DeleteCall ns' resource name \<Rightarrow> ns' = ns \<and> (resource = ''pods'' \<or> name \<in> set old) | CreateCall _ _ _ \<Rightarrow> False) calls"

lemma cleans_Nil: "cleans ns [] [] \<lparr>clr_JobsDeleted = 0, clr_PodsDeleted = 0\<rparr> ok"
  by (simp add: cleans_def)

lemma cleans_mono: "list_all (\<lambda>call. case call of DeleteCall ns' resource name \<Rightarrow> ns' = ns \<and> (resource = ''pods'' \<or> name \<in> set old) | CreateCall _ _ _ \<Rightarrow> False) calls \<Longrightarrow>
    list_all (\<lambda>call. case call of DeleteCall ns' resource name \<Rightarrow> ns' = ns \<and> (resource = ''pods'' \<or> name = j \<or> name \<in> set old) | CreateCall _ _ _ \<Rightarrow> False) calls"
  by (erule list.pred_mono_strong) (auto split: KubeCall.splits)

lemma cleans_skip: "cleans ns old calls result ok \<Longrightarrow> cleans ns (j # old) calls (result\<lparr>clr_PodsDeleted := n\<rparr>) False"
  using cleans_mono [of ns old calls j] by (auto simp: cleans_def)

lemma cleans_Cons:
  assumes "cleans ns old calls result ok" "ok' \<Longrightarrow> ok \<and> clr_JobsDeleted result' = clr_JobsDeleted result + 1" "clr_JobsDeleted result' \<le> clr_JobsDeleted result + 1"
  shows "cleans ns (j # old) ((map (DeleteCall ns ''pods'') pods @ [DeleteCall ns ''services'' j, DeleteCall ns ''jobs'' j]) @ calls) result' ok'"
  using assms cleans_mono [of ns old calls j] unfolding cleans_def job_deletions_simps by (auto simp: list_all_iff)

lemma cleanup_jobs_calls:
  assumes "cleanup_jobs (recorded_cleaner c) cutoff jobs (w, calls) = ((result, errs), w', calls')"
  shows "\<exists>new. calls' = calls @ new \<and> cleans (hcl_namespace c) (map kjb_Name (filter (job_expired cutoff) jobs)) new result (errs = [])"
  using assms
proof (induction jobs arbitrary: w calls result errs w' calls')
  case Nil
  then show ?case using cleans_Nil by auto
next
  case (Cons job jobs)
  show ?case
  proof (cases "job_expired cutoff job")
    case False
    then show ?thesis using Cons by auto
  next
    case True
    let ?old = "map kjb_Name (filter (job_expired cutoff) jobs)" and ?ns = "hcl_namespace c" and ?j = "kjb_Name job"
    obtain n err w1 calls1 where h: "deleteJobHistory (recorded_cleaner c) ?j (w, calls) = ((n, err), w1, calls1)" by (metis prod.exhaust)
    obtain r errs1 w2 calls2 where l: "cleanup_jobs (recorded_cleaner c) cutoff jobs (w1, calls1) = ((r, errs1), w2, calls2)" by (metis prod.exhaust)
    obtain new where new: "calls2 = calls1 @ new" "cleans ?ns ?old new r (errs1 = [])" using Cons.IH [OF l] by blast
    have result: "result = (case err of Some e \<Rightarrow> r\<lparr>clr_PodsDeleted := clr_PodsDeleted r + n\<rparr> | None \<Rightarrow> r\<lparr>clr_JobsDeleted := clr_JobsDeleted r + 1, clr_PodsDeleted := clr_PodsDeleted r + n\<rparr>)"
      and errs: "errs = (case err of Some e \<Rightarrow> e # errs1 | None \<Rightarrow> errs1)" and calls': "calls' = calls2"
      using Cons.prems True h l by (auto split: option.splits)
    from history_calls [OF h] show ?thesis
    proof
      assume "calls1 = calls \<and> err \<noteq> None"
      then show ?thesis using new cleans_skip [OF new(2), of ?j] True by (auto simp: result errs calls')
    next
      assume "\<exists>pods. calls1 = calls @ map (DeleteCall ?ns ''pods'') pods @ [DeleteCall ?ns ''services'' ?j, DeleteCall ?ns ''jobs'' ?j]"
      then obtain pods where p: "calls1 = calls @ map (DeleteCall ?ns ''pods'') pods @ [DeleteCall ?ns ''services'' ?j, DeleteCall ?ns ''jobs'' ?j]" by blast
      have "cleans ?ns (?j # ?old) ((map (DeleteCall ?ns ''pods'') pods @ [DeleteCall ?ns ''services'' ?j, DeleteCall ?ns ''jobs'' ?j]) @ new) result (errs = [])"
        by (rule cleans_Cons [OF new(2)]) (auto simp: result errs split: option.splits)
      then show ?thesis using True new(1) p by (auto simp: calls')
    qed
  qed
qed

lemma job_expired_over:
  assumes "job_expired cutoff j"
  shows "kjb_Name j \<noteq> '''' \<and> jst_Active (kjb_Status j) \<le> 0 \<and> (\<exists>t. finished_at j = Some t \<and> t \<le> cutoff)"
  using assms by (auto simp: job_expired_def Let_def time_After_def split: option.splits)


section \<open>Defects\<close>

text \<open>A job that waits to be tried again is reported as failed, and counts as finished when it was created.\<close>

lemma retry_reported_failed: "jst_Succeeded s = 0 \<Longrightarrow> jst_Failed s > 0 \<Longrightarrow> jst_Active s > 0 \<Longrightarrow> job_state s = HandleFailed"
  by (simp add: job_state_def)

lemma waiting_job_expired:
  assumes "kjb_Name j \<noteq> ''''" "jst_Active (kjb_Status j) = 0" "jst_Failed (kjb_Status j) > 0" "jst_CompletionTime (kjb_Status j) = None"
    "jst_Conditions (kjb_Status j) = []" "kjb_CreationTimestamp j = Some t" "t \<le> cutoff"
  shows "job_expired cutoff j"
  using assms by (simp add: job_expired_def finished_at_def time_After_def)

text \<open>A line that the activity itself writes comes before the one of the script, and its manifest is taken.\<close>

lemma forged_manifest:
  assumes "decode forged = Inr m"
  shows "log_manifest decode ((manifestLogPrefix @ base64_encode forged) # ls) = Inr m"
  using assms by (simp add: text_after_prefix encoded_trim base64_decode_encode del: text_after.simps)

section \<open>Examples\<close>

definition demo_kstatus :: "int \<Rightarrow> int \<Rightarrow> JobStatus" where
  "demo_kstatus active succeeded = \<lparr>jst_Active = active, jst_Succeeded = succeeded, jst_Failed = 0, jst_CompletionTime = None, jst_Conditions = []\<rparr>"

definition demo_kjob :: "string \<Rightarrow> int \<Rightarrow> int \<Rightarrow> kubernetesJob" where
  "demo_kjob name active succeeded = \<lparr>kjb_Name = name, kjb_CreationTimestamp = Some 5, kjb_Status = demo_kstatus active succeeded\<rparr>"

definition demo_manifest :: ArtifactManifest where
  "demo_manifest = \<lparr>man_SchemaVersion = 1, man_RunID = ''r'', man_ActivityID = ''a'', man_Attempt = 1, man_Runtime = [], man_Hostname = [], man_Root = [],
     man_StartedAt = fzero, man_FinishedAt = fzero, man_ExitCode = 0, man_Files = [], man_Phases = [],
     man_Summary = \<lparr>sum_InitialFiles = 0, sum_FinalFiles = 0, sum_CreatedFiles = 0, sum_ModifiedFiles = 0, sum_DeletedFiles = 0, sum_OutputBytes = 0\<rparr>\<rparr>"

definition demo_decoders :: KubeDecoders where
  "demo_decoders = \<lparr>kde_job = (\<lambda>_. Inr (demo_kstatus 0 1)), kde_jobs = (\<lambda>_. Inr [demo_kjob ''old'' 0 1, demo_kjob ''busy'' 1 0]),
     kde_pod_names = (\<lambda>_. Inr [''pod'']), kde_pod_timings = (\<lambda>_. Inr []), kde_pod_states = (\<lambda>_. Inr []), kde_manifest = (\<lambda>_. Inr demo_manifest),
     kde_nodes = (\<lambda>_. Inr [])\<rparr>"

definition demo_kube :: "unit KubeAPI" where
  "demo_kube = \<lparr>kap_Create = (\<lambda>ns resource body w. (None, w)), kap_Get = (\<lambda>ns resource name w. (Inr [], w)), kap_List = (\<lambda>ns resource selector w. (Inr [], w)),
     kap_Logs = (\<lambda>ns pod container w. (Inr (manifestLogPrefix @ base64_encode ''m''), w)), kap_Delete = (\<lambda>ns resource name w. (None, w))\<rparr>"

definition demo_cleaner :: "unit HistoryCleaner" where
  "demo_cleaner = \<lparr>hcl_api = demo_kube, hcl_namespace = ''ns'', hcl_retention = 10, hcl_now = (\<lambda>_. 20), hcl_decoders = demo_decoders\<rparr>"

definition demo_kube_adapter :: "unit KubeAdapter" where
  "demo_kube_adapter = \<lparr>kad_api = Some demo_kube, kad_namespace = ''ns'', kad_text = \<lparr>ktx_Marshal = (\<lambda>_. Inr ''json''), ktx_general = (\<lambda>_. ''1''), ktx_ToLower = (\<lambda>s. s)\<rparr>,
     kad_decoders = demo_decoders, kad_now = (\<lambda>_. 7), kad_NewID = (\<lambda>prefix _. prefix), kad_order = (\<lambda>xs. xs)\<rparr>"


definition demo_kube_context :: ActivityExecutionContext where
  "demo_kube_context = demo_context\<lparr>ctx_Activity := (demo_activity ''a'')\<lparr>act_Command := (act_Command (demo_activity ''a''))\<lparr>cmd_Image := ''img''\<rparr>\<rparr>\<rparr>"

lemma demo_kube_objects: "resources (kad_text demo_kube_adapter) ord name ns workflow (ctx_Activity demo_kube_context) resource runID = Inr (''json'', None)"
proof -
  have "service_ports (ctx_Activity demo_kube_context) = []"
    by (simp add: service_ports_def demo_kube_context_def demo_activity_def zero_activity_def)
  moreover have "ktx_Marshal (kad_text demo_kube_adapter) x = Inr ''json''" for x by (simp add: demo_kube_adapter_def)
  ultimately show ?thesis by (simp add: resources_def)
qed

lemma demo_kube_start:
  "kube_Start (recorded_adapter demo_kube_adapter) demo_kube_context ((), []) =
     (Ok (kube_handle (recorded_adapter demo_kube_adapter) demo_kube_context (job_name demo_kube_adapter demo_kube_context) ((), [CreateCall ''ns'' ''jobs'' ''json''])),
      (), [CreateCall ''ns'' ''jobs'' ''json''])"
proof -
  have "cmd_Image (act_Command (ctx_Activity demo_kube_context)) \<noteq> ''''" by (simp add: demo_kube_context_def)
  moreover have "kad_api demo_kube_adapter = Some demo_kube" "kad_namespace demo_kube_adapter = ''ns''" by (simp_all add: demo_kube_adapter_def)
  ultimately show ?thesis by (simp add: kube_Start_def Let_def demo_kube_objects recorded_api_def demo_kube_def)
qed

theorem start_tracks_job_witness:
  "\<exists>h. kube_Start (recorded_adapter demo_kube_adapter) demo_kube_context ((), []) = (Ok h, (), [CreateCall ''ns'' ''jobs'' ''json'']) \<and>
     hnd_ExternalID h = job_name demo_kube_adapter demo_kube_context \<and> hnd_Status h = HandleStarting"
  using demo_kube_start start_tracks_job [OF demo_kube_start] by simp

theorem job_names_valid_witness: "dns_label (job_name demo_kube_adapter demo_kube_context)"
proof (rule job_names_valid)
  have "ktx_ToLower (kad_text demo_kube_adapter) = (\<lambda>s. s)" by (simp add: demo_kube_adapter_def)
  then show "\<exists>t. ktx_ToLower (kad_text demo_kube_adapter) (''akoflow-'' @ run_ID (ctx_Run demo_kube_context) @ ''-'' @ act_ID (ctx_Activity demo_kube_context)) = ''akoflow'' @ t"
    by simp
qed

theorem addresses_distinct_witness: "\<not> (resourcePath ''a'' ''pods'' ''b/c'' = resourcePath ''a'' ''pods'' ''b%2Fc'')"
  using addresses_distinct [of "''a''" "''pods''" "''b/c''" "''a''" "''pods''" "''b%2Fc''"] by auto


lemma demo_cleanup:
  "Cleanup (recorded_cleaner demo_cleaner) ((), []) =
     ((\<lparr>clr_JobsDeleted = 1, clr_PodsDeleted = 1\<rparr>, None), (), [DeleteCall ''ns'' ''pods'' ''pod'', DeleteCall ''ns'' ''services'' ''old'', DeleteCall ''ns'' ''jobs'' ''old''])"
  by code_simp


theorem manifest_published_witness:
  "log_manifest (\<lambda>_. Inr demo_manifest) (split_char newline (join_char newline ([''hello''] @ (manifestLogPrefix @ base64_encode ''json'') # [''bye'']))) = Inr demo_manifest"
proof -
  have "\<forall>l \<in> set [''hello'']. \<not> contains l manifestLogPrefix" "list_all (\<lambda>l. newline \<notin> set l) ([''hello''] @ [''bye''])" by code_simp+
  from manifest_published [OF this, of "\<lambda>_. Inr demo_manifest" "''json''"] show ?thesis by simp
qed

end
