(* ===== verification/Spec2Isabelle.thy ===== *)
theory Spec2Isabelle
  imports Controller_Properties Simulation_Properties Simgrid_Properties Transfer_Properties Import_Properties
    Storage_Job_Properties Monitor_Properties Registry_Properties Remote_File_Properties Slurm_Properties Slurm_Observation
    Slurm_Discovery_Properties Discovery_Properties Kubernetes_History
begin

text \<open>
  \<^bold>\<open>AkoFlow workflow engine: a model and its properties\<close>

  AkoFlow plans scientific workflows, runs them on several kinds of resources or simulates them, and
  keeps runs, tasks and jobs in a SQLite database. Its control plane is an event loop that leases jobs from
  a queue table and hands them to handlers; the handler of a run calls the supervisor, which validates
  the request, starts the activities in dependency order through the activity controller and records
  every change through a transactional repository that also fills the queue (the outbox). Before an
  activity starts, its artifact and workspace are transferred and verified. A run in simulation
  mode goes to the simulator instead.

  \<^bold>\<open>The shared layer\<close>

  \<^item> \<^verbatim>\<open>Go_Base\<close>: errors as values with their format and arguments, results with panics, 64-bit wrap-around,
    Go maps as association lists with an arbitrary iteration order, strings. \<^verbatim>\<open>Float64\<close>: IEEE double
    precision as rationals, infinities and a NaN, with rounding to nearest even, and the order and
    monotonicity facts that the schedules need (there is no negative zero: no code tells it from zero).
    \<^verbatim>\<open>Go_Path\<close>: \<^verbatim>\<open>Clean\<close> and \<^verbatim>\<open>Join\<close> of the path packages and when a joined path stays below its base.
    \<^verbatim>\<open>Go_Text\<close>: UTF-8 characters, trimming, and the conversions between numbers and text as parameters.
    \<^verbatim>\<open>Go_Parse\<close>: splitting and joining, integers and base 64 with their round trips.
  \<^item> \<^verbatim>\<open>Workflow_Domain\<close>, \<^verbatim>\<open>Resource_Domain\<close>, \<^verbatim>\<open>Execution_Domain\<close>: the records and enumerations of
    \<^verbatim>\<open>internal/domain\<close>, with the validation of activities and executables, capabilities, plans, runs, tasks,
    handles, materializations, the workspace reconciliation and the preparation gate.

  \<^bold>\<open>Workflow documents\<close>

  \<^item> \<^verbatim>\<open>Workflow_Import\<close> (\<^verbatim>\<open>internal/api/requests/workflow.go\<close>): import of a document into a workflow definition and its
    export; \<^verbatim>\<open>Import_Properties\<close>: what an accepted import contains, and that export and import are inverse.

  \<^bold>\<open>Queue and event loop\<close>

  \<^item> \<^verbatim>\<open>Job_Queue\<close> (\<^verbatim>\<open>internal/infrastructure/database/queue/repository.go\<close>): the table \<^verbatim>\<open>queue_jobs\<close> as a list of rows and
    every operation with database failures. \<^verbatim>\<open>Job_Queue_Steps\<close>: the step relation of all clients and the
    table invariant; \<^verbatim>\<open>Job_Store\<close>: the interface of a job store as a locale, interpreted on the repository;
    \<^verbatim>\<open>Queue_Properties\<close>: exclusive leases, terminal rows, settlement, refinement of the job life cycle.
  \<^item> \<^verbatim>\<open>Event_Loop\<close> (\<^verbatim>\<open>internal/controlplane/eventloop\<close>): configuration, dispatcher, the three handlers, and the
    loop as a step relation over ticks, wake-ups, lease renewals and finishing jobs, which interleave
    with other clients of the queue in any order; \<^verbatim>\<open>Event_Loop_Properties\<close>: its invariant and how jobs are settled.

  \<^bold>\<open>Plans, runs and activities\<close>

  \<^item> \<^verbatim>\<open>Workflow_Dag\<close>, \<^verbatim>\<open>Plan_Validator\<close> (\<^verbatim>\<open>internal/infrastructure/plugins/planning/validator.go\<close>): Kahn's
    algorithm and the checks of a plan, with their specifications.
  \<^item> \<^verbatim>\<open>Supervisor\<close> (\<^verbatim>\<open>internal/controlplane/execution/supervisor.go\<close>): the whole supervisor over records of interfaces.
    Its polling loop takes fuel, because an activity may run for ever; \<open>run_ends\<close> shows how much is enough
    for a cooperating environment, and every other theorem about the loop holds for all fuel.
    \<^verbatim>\<open>Supervisor_Invariant\<close>, \<^verbatim>\<open>Supervisor_Schedule\<close>, \<^verbatim>\<open>Supervisor_Runs\<close>: the invariant of the loop, the order of
    starts, and what a trace contains.
  \<^item> \<^verbatim>\<open>Activity_Controller\<close> (\<^verbatim>\<open>internal/application/execution/controller.go\<close>), \<^verbatim>\<open>Execution_Store\<close>
    (\<^verbatim>\<open>internal/infrastructure/database/execution/repository.go\<close> and \<^verbatim>\<open>events/outbox.go\<close>): start, inspection and stop of an
    activity, and the transactions on runs, tasks, transfers, handles, events and jobs.
    \<^verbatim>\<open>Activity_Service\<close> puts supervisor, controller and repository together.
  \<^item> \<^verbatim>\<open>Execution_Store_Properties\<close>, \<^verbatim>\<open>Execution_Properties\<close>, \<^verbatim>\<open>Controller_Properties\<close>: atomic writes and the
    outbox, the schedule of a run, the absence of panics, and what the rows say when a run has ended.

  \<^bold>\<open>Transfer\<close>

  \<^item> \<^verbatim>\<open>Materialization\<close> (\<^verbatim>\<open>internal/application/transfer\<close>): planner, materializer and coordinator over a record of
    connector operations. \<^verbatim>\<open>Transfer_Files\<close> (\<^verbatim>\<open>internal/infrastructure/transfer\<close>): the connectors for files, the
    artifact store, HTTP and Google storage, on a disk whose system calls may fail at any step.
    \<^verbatim>\<open>Transfer_Properties\<close>: the contract of a connector as a locale, interpreted on the local file system;
    verified transfers, confined paths, and two defects.

  \<^bold>\<open>Storage\<close>

  \<^item> \<^verbatim>\<open>Storage_Domain\<close>, \<^verbatim>\<open>Storage_Files\<close> (\<^verbatim>\<open>internal/provider/storage/filesystem/driver.go\<close>): the file-system driver on the
    disk of the transfer layer, with paged browsing and writes through a temporary file.
    \<^verbatim>\<open>Storage_File_Properties\<close>: atomic writes, complete paging, and the cursor that makes it panic.
  \<^item> \<^verbatim>\<open>Storage_Service\<close> (\<^verbatim>\<open>internal/application/storage/service.go\<close>): index runs, downloads, copies, archives and
    promotion over a catalog and a browser; \<^verbatim>\<open>Storage_Repository\<close> (\<^verbatim>\<open>internal/infrastructure/database/storage/repository.go\<close>):
    the catalog on its tables. The depth of the index walk is a number that the policy bounds; an archive is walked with
    fuel, because nothing in the interface of a browser bounds the depth of its directories.
    \<^verbatim>\<open>Storage_Index_Properties\<close>, \<^verbatim>\<open>Storage_Job_Properties\<close>: the cost of an index run, how jobs end, and defects.
  \<^item> \<^verbatim>\<open>Remote_Files\<close> (\<^verbatim>\<open>internal/provider/storage/sshfilesystem/driver.go\<close>): the driver of a file system behind a login
    node, which sends a program with an encoded root and path. \<^verbatim>\<open>Remote_File_Properties\<close>: paths stay below the
    root, and programs and their arguments arrive as they were given.

  \<^bold>\<open>Environments\<close>

  \<^item> \<^verbatim>\<open>Environment_Domain\<close>: environments, connections, capabilities, relations, audit events and observations.
  \<^item> \<^verbatim>\<open>Environment_Schema\<close> (\<^verbatim>\<open>schema.sql\<close>): the tables with their keys, references and checks; a statement whose result breaks
    one fails and its transaction is rolled back. \<^verbatim>\<open>Environment_Repository\<close>
    (\<^verbatim>\<open>internal/infrastructure/database/environment/repository.go\<close>): creation, replacement, deletion and reassembly of an environment with its
    inventory, connections with their checks, and storages. \<^verbatim>\<open>Environment_Rows\<close>: a locale for loops of insertions,
    interpreted on each of them, and what the queries see of new rows. \<^verbatim>\<open>Environment_Properties\<close>: an environment is read
    back as it was written. \<^verbatim>\<open>Environment_Frames\<close>: operations leave other environments alone, deletion is complete, and the
    history of checks is bounded.
  \<^item> \<^verbatim>\<open>Connection_Monitor\<close> (\<^verbatim>\<open>internal/application/environment/connection_monitor.go\<close>): health checks and their adaptive schedule.
    \<^verbatim>\<open>Monitor_Properties\<close>: what the monitor relies on as a locale, interpreted on the repository, and the spacing of checks.
  \<^item> \<^verbatim>\<open>Runtime_Registry\<close> (\<^verbatim>\<open>internal/provider/registry/registry.go\<close>): adapters by mode and runtime, and the resolver that
    configures them from the catalog. \<^verbatim>\<open>Registry_Properties\<close>: registration is atomic, and the contract of the cache as a
    locale, interpreted on a resolver over the repository: a configured adapter is never replaced.

  \<^item> \<^verbatim>\<open>Resource_Repository\<close> (\<^verbatim>\<open>internal/infrastructure/database/resource/repository.go\<close>): resources, bindings, relations and snapshots on
    the tables of environments. \<^verbatim>\<open>Discovery_Service\<close> (\<^verbatim>\<open>internal/application/environment/discovery_service.go\<close> and
    \<^verbatim>\<open>transfer_health.go\<close>): what a probe observes becomes resources, storages and snapshots. \<^verbatim>\<open>Discovery_Properties\<close>: the
    inventory and an invariant of the state as locales, interpreted on the repositories; what a discovery binds
    and observes, and why the first one of a new connection fails.

  \<^bold>\<open>The SLURM provider\<close>

  \<^item> \<^verbatim>\<open>Shell_Text\<close>: how a POSIX shell reads words, as far as the provider's commands use it (quotes, escapes, variables and
    the splitting of their values; a construct outside that has no reading), and the two quoting functions of the code.
    \<^verbatim>\<open>Command_Executor\<close> (\<^verbatim>\<open>internal/provider/ssh_executor.go\<close>, \<^verbatim>\<open>command.go\<close>): commands on a login node.
  \<^item> \<^verbatim>\<open>Slurm_Script\<close>, \<^verbatim>\<open>Slurm_Adapter\<close> (\<^verbatim>\<open>internal/provider/slurm/adapter.go\<close>, \<^verbatim>\<open>connection_factory.go\<close>, \<^verbatim>\<open>console_runner.go\<close>): the
    scripts character by character, submission, inspection through the status file, the accounting and the queue,
    and cancellation. \<^verbatim>\<open>Slurm_Properties\<close>: the words the shell reads from scripts and remote commands, and the
    directives; \<^verbatim>\<open>Slurm_Observation\<close>: the files of a job, what an inspection keeps, and what a start requires.
  \<^item> \<^verbatim>\<open>Slurm_Discovery\<close> (\<^verbatim>\<open>internal/provider/slurm/discovery.go\<close>): the script of the probe and the parser of its output;
    \<^verbatim>\<open>Slurm_Discovery_Properties\<close>: the script arrives as it was written, and the nodes that are read.

  \<^bold>\<open>The Kubernetes provider\<close>

  \<^item> \<^verbatim>\<open>Kubernetes_Client\<close> (\<^verbatim>\<open>internal/provider/kubernetes/client.go\<close>): the interface of the API, addresses and requests.
    \<^verbatim>\<open>Kubernetes_Resources\<close>, \<^verbatim>\<open>Kubernetes_Adapter\<close> (\<^verbatim>\<open>adapter.go\<close>, \<^verbatim>\<open>scripts/lifecycle.sh\<close>): the objects of an activity, and start,
    inspection and deletion of its job. \<^verbatim>\<open>Kubernetes_Operations\<close> (\<^verbatim>\<open>history_cleaner.go\<close>, \<^verbatim>\<open>connection_factory.go\<close>,
    \<^verbatim>\<open>connection_prober.go\<close>, \<^verbatim>\<open>discovery.go\<close>): the cleaner of old jobs and the services of a connection.
  \<^item> \<^verbatim>\<open>Kubernetes_Properties\<close>: names and addresses. \<^verbatim>\<open>Kubernetes_Jobs\<close>: over any API whose calls are recorded, a job is
    left behind only with its handle, and what an inspection reports. \<^verbatim>\<open>Kubernetes_History\<close>: the manifest in the
    log, the jobs that the cleaner deletes, and defects.

  \<^bold>\<open>Simulation\<close>

  \<^item> \<^verbatim>\<open>Network_Path\<close>, \<^verbatim>\<open>Network_Routes\<close>: the shortest-path search that the simulator and the platform share, its
    termination and its correctness over rounded sums.
  \<^item> \<^verbatim>\<open>Simulation\<close> (\<^verbatim>\<open>internal/provider/simgrid/simulation_executor.go\<close>): index, transfers, the scheduling loop with its
    termination proof, billing and trace; \<^verbatim>\<open>Simulation_Invariant\<close>, \<^verbatim>\<open>Simulation_Order\<close>, \<^verbatim>\<open>Simulation_Properties\<close>: when
    a simulation succeeds and that its times respect the plan.
  \<^item> \<^verbatim>\<open>Simgrid_Runner\<close> (\<^verbatim>\<open>platform.go\<close>, \<^verbatim>\<open>runner_contract.go\<close>, \<^verbatim>\<open>process_executor.go\<close>), \<^verbatim>\<open>Simgrid_Properties\<close>: the XML
    platform, the input of the external runner and its executor.

  \<^bold>\<open>How effects are modelled\<close>

  The database is a record of tables; a transaction returns the new tables or an error and the old ones.
  Failures of the database, of runtimes, of the file system and of contexts are arguments, so that a theorem holds
  for every pattern of failures. Interfaces of Go are records of functions on a state of type \<open>'w\<close>.
  Goroutines of the event loop are the steps of an inductive relation. The iteration order of a Go map is a
  function argument wherever it can be observed. Times are nanoseconds as integers or \<^verbatim>\<open>float64\<close> seconds as
  in the source.

  \<^bold>\<open>Not modelled\<close>

  The HTTP handlers and their routing, the console service and its terminals, and the commands of \<^verbatim>\<open>cmd\<close> are input and
  output around the modelled operations. The local adapter starts
  processes, and the driver of object stores calls a service; they appear as interfaces of the controller and of the storage service. The repositories of data, builds, plans and audits
  are SQL statements over tables that the modelled components do not read. JSON and YAML encoding, SHA-256, URL
  parsing, SQLite, the programs that the scripts run, the transport of HTTP and the SimGrid runner are parameters.
\<close>

end
